(* ===== verification/Zen_Prelude.thy ===== *)
theory Zen_Prelude
  imports Main
begin

text \<open>
  The shared vocabulary of the ZenBPM development.

  \<^item> Go's error values, and \<open>res\<close>, the ways in which a Go call can end: a value, an error value,
    a panic, blocked for ever on a mutex, or (for the recursions that are bounded by fuel) no fuel left.
  \<^item> The state monad \<open>('s, 'a) eng\<close> in which the stateful code of \<^verbatim>\<open>pkg/bpmn\<close> is written: a function of
    the state that returns a \<open>res\<close> and the state, which is kept when an error is returned, because Go
    does not undo the assignments made before a \<^verbatim>\<open>return err\<close>.
  \<^item> The two frame notions \<open>keeps\<close> (a part of the state is not written) and \<open>pres\<close> (an invariant is
    kept), with their rules collected in \<open>keeps_rules\<close> and \<open>pres_rules\<close>.
  \<^item> Tables: Go maps from \<^verbatim>\<open>int64\<close> keys to rows, as association lists whose order is the order in which
    the map is iterated, and the interface \<open>row_store\<close> that every table of the store implements.
  \<^item> The values of process variables and the few string functions of Go's \<^verbatim>\<open>strings\<close> package used.
\<close>

section \<open>Errors and results\<close>

named_theorems keeps_rules \<open>the operations that do not write a part of the state\<close>
named_theorems pres_rules \<open>the operations that keep an invariant\<close>
named_theorems eng_simps \<open>evaluation of the primitive operations of the monad\<close>

text \<open>
  Error values carry the text the source writes (the format string without its arguments) and the
  error they wrap. \<open>ExternalError\<close> is an error returned by code outside the repository (the FEEL
  interpreter, the ISO 8601 parser) or by the decision engine.
\<close>

datatype error =
    ErrNotFound
  | ErrUniqueConstraint
  | InvalidStateError
  | EngineError string
  | Errorf string
  | ErrorfArgs string "string list"
  | Wrapf string error
  | Joined error error
  | ExpressionEvaluationError string "error option"
  | ExternalError string

text \<open>The text of an error; the line break that joins two errors is the character 10.\<close>

primrec error_text :: "error \<Rightarrow> string" where
  "error_text ErrNotFound = ''ErrNotFound''"
| "error_text ErrUniqueConstraint = ''ErrUniqueConstraint''"
| "error_text InvalidStateError = ''InvalidStateError''"
| "error_text (EngineError m) = m"
| "error_text (Errorf m) = m"
| "error_text (ErrorfArgs m as) = m @ concat (map (\<lambda>a. '' '' @ a) as)"
| "error_text (Wrapf m e) = m @ '': '' @ error_text e"
| "error_text (Joined a b) = error_text a @ char_of (10 :: nat) # error_text b"
| "error_text (ExpressionEvaluationError m e) =
     m @ (case map_option error_text e of None \<Rightarrow> [] | Some t \<Rightarrow> char_of (10 :: nat) # ''error: '' @ t)"
| "error_text (ExternalError m) = m"

datatype 'a res =
    Ok 'a
  | Err error
  | Panic string
  | Blocked
  | NoFuel

fun is_Ok :: "'a res \<Rightarrow> bool" where
  "is_Ok (Ok _) = True"
| "is_Ok _ = False"

fun is_Err :: "'a res \<Rightarrow> bool" where
  "is_Err (Err _) = True"
| "is_Err _ = False"

section \<open>The state monad with Go's outcomes\<close>

type_synonym ('s, 'a) eng = "'s \<Rightarrow> 'a res \<times> 's"

definition ret :: "'a \<Rightarrow> ('s, 'a) eng" where
  "ret x s = (Ok x, s)"

definition throw :: "error \<Rightarrow> ('s, 'a) eng" where
  "throw e s = (Err e, s)"

definition panic :: "string \<Rightarrow> ('s, 'a) eng" where
  "panic msg s = (Panic msg, s)"

definition block :: "('s, 'a) eng" where
  "block s = (Blocked, s)"

definition no_fuel :: "('s, 'a) eng" where
  "no_fuel s = (NoFuel, s)"

definition bind :: "('s, 'a) eng \<Rightarrow> ('a \<Rightarrow> ('s, 'b) eng) \<Rightarrow> ('s, 'b) eng" where
  "bind m f s =
     (case m s of
        (Ok x, s') \<Rightarrow> f x s'
      | (Err e, s') \<Rightarrow> (Err e, s')
      | (Panic msg, s') \<Rightarrow> (Panic msg, s')
      | (Blocked, s') \<Rightarrow> (Blocked, s')
      | (NoFuel, s') \<Rightarrow> (NoFuel, s'))"

text \<open>\<open>attempt m\<close> is the pair \<^verbatim>\<open>x, err := m()\<close> whose error the caller looks at itself.\<close>

definition attempt :: "('s, 'a) eng \<Rightarrow> ('s, error + 'a) eng" where
  "attempt m s =
     (case m s of
        (Ok x, s') \<Rightarrow> (Ok (Inr x), s')
      | (Err e, s') \<Rightarrow> (Ok (Inl e), s')
      | (Panic msg, s') \<Rightarrow> (Panic msg, s')
      | (Blocked, s') \<Rightarrow> (Blocked, s')
      | (NoFuel, s') \<Rightarrow> (NoFuel, s'))"

text \<open>\<open>wrap f m\<close> is \<^verbatim>\<open>if err != nil { return ..., f(err) }\<close> after \<open>m\<close>.\<close>

definition wrap :: "(error \<Rightarrow> error) \<Rightarrow> ('s, 'a) eng \<Rightarrow> ('s, 'a) eng" where
  "wrap f m s = (case m s of (Err e, s') \<Rightarrow> (Err (f e), s') | r \<Rightarrow> r)"

definition get_state :: "('s, 's) eng" where
  "get_state s = (Ok s, s)"

definition gets :: "('s \<Rightarrow> 'a) \<Rightarrow> ('s, 'a) eng" where
  "gets f s = (Ok (f s), s)"

definition modify :: "('s \<Rightarrow> 's) \<Rightarrow> ('s, unit) eng" where
  "modify f s = (Ok (), f s)"

definition do_when :: "bool \<Rightarrow> ('s, unit) eng \<Rightarrow> ('s, unit) eng" where
  "do_when b m = (if b then m else ret ())"

text \<open>A Go \<^verbatim>\<open>for _, x := range xs\<close> whose body may return early with an error.\<close>

fun for_each :: "'a list \<Rightarrow> ('a \<Rightarrow> ('s, unit) eng) \<Rightarrow> ('s, unit) eng" where
  "for_each [] f = ret ()"
| "for_each (x # xs) f = bind (f x) (\<lambda>_. for_each xs f)"

text \<open>The same loop appending one result per element.\<close>

fun map_each :: "'a list \<Rightarrow> ('a \<Rightarrow> ('s, 'b) eng) \<Rightarrow> ('s, 'b list) eng" where
  "map_each [] f = ret []"
| "map_each (x # xs) f = bind (f x) (\<lambda>y. bind (map_each xs f) (\<lambda>ys. ret (y # ys)))"

text \<open>A pure Go call that may return an error.\<close>

definition lift_sum :: "error + 'a \<Rightarrow> ('s, 'a) eng" where
  "lift_sum r = (case r of Inl e \<Rightarrow> throw e | Inr x \<Rightarrow> ret x)"

lemma prim_eval [eng_simps]:
  "ret x s = (Ok x, s)"
  "throw e s = (Err e, s)"
  "panic msg s = (Panic msg, s)"
  "block s = (Blocked, s)"
  "no_fuel s = (NoFuel, s)"
  "get_state s = (Ok s, s)"
  "gets g s = (Ok (g s), s)"
  "modify h s = (Ok (), h s)"
  by (simp_all add: ret_def throw_def panic_def block_def no_fuel_def get_state_def gets_def modify_def)

lemma bind_ret [simp]: "bind (ret x) f = f x"
  by (simp add: fun_eq_iff bind_def ret_def)

lemma bind_throw [simp]: "bind (throw e) f = throw e"
  by (simp add: fun_eq_iff bind_def throw_def)

lemma bind_gets [simp]: "bind (gets g) f s = f (g s) s"
  by (simp add: bind_def gets_def)

lemma bind_modify [simp]: "bind (modify h) f s = f () (h s)"
  by (simp add: bind_def modify_def)

lemma wrap_ret [simp]: "wrap f (ret x) = ret x"
  by (simp add: fun_eq_iff wrap_def ret_def)

lemma bind_Ok_iff:
  "bind m f s = (Ok y, t) \<longleftrightarrow> (\<exists>x s'. m s = (Ok x, s') \<and> f x s' = (Ok y, t))"
  by (auto simp: bind_def split: prod.splits res.splits)

lemma bind_OkE:
  assumes "bind m f s = (Ok y, t)"
  obtains x s' where "m s = (Ok x, s')" and "f x s' = (Ok y, t)"
  using assms by (auto simp: bind_Ok_iff)

lemma bind_eval: "m s = (Ok x, s') \<Longrightarrow> bind m f s = f x s'"
  by (simp add: bind_def)

lemma bind_eval_Err: "m s = (Err e, s') \<Longrightarrow> bind m f s = (Err e, s')"
  by (simp add: bind_def)

lemma bind_eval_Panic: "m s = (Panic e, s') \<Longrightarrow> bind m f s = (Panic e, s')"
  by (simp add: bind_def)

lemma wrap_Ok_iff: "wrap f m s = (Ok x, t) \<longleftrightarrow> m s = (Ok x, t)"
  by (auto simp: wrap_def split: prod.splits res.splits)

lemma attempt_Ok_iff:
  "attempt m s = (Ok r, t) \<longleftrightarrow>
     (\<exists>x. r = Inr x \<and> m s = (Ok x, t)) \<or> (\<exists>e. r = Inl e \<and> m s = (Err e, t))"
  by (auto simp: attempt_def split: prod.splits res.splits)

lemma lift_sum_Ok_iff: "lift_sum r s = (Ok x, t) \<longleftrightarrow> r = Inr x \<and> t = s"
  by (auto simp: lift_sum_def throw_def ret_def split: sum.splits)

lemmas eng_Ok_iffs = bind_Ok_iff wrap_Ok_iff attempt_Ok_iff lift_sum_Ok_iff

section \<open>Process variables\<close>

text \<open>
  The dynamic values of process variables (Go's \<^verbatim>\<open>interface{}\<close> holding decoded JSON). The engine looks
  into booleans, strings and lists only; numbers are carried, and are integers in this model.
\<close>

datatype val =
    VNil
  | VBool bool
  | VNum int
  | VStr string
  | VList "val list"
  | VMap "(string \<times> val) list"

type_synonym vars = "string \<Rightarrow> val option"

section \<open>Frames and invariants\<close>

definition keeps :: "('s \<Rightarrow> 'x) \<Rightarrow> ('s, 'a) eng \<Rightarrow> bool" where
  "keeps v m \<longleftrightarrow> (\<forall>s. v (snd (m s)) = v s)"

definition pres :: "('s \<Rightarrow> bool) \<Rightarrow> ('s, 'a) eng \<Rightarrow> bool" where
  "pres I m \<longleftrightarrow> (\<forall>s. I s \<longrightarrow> I (snd (m s)))"

lemma keepsD: "keeps v m \<Longrightarrow> m s = (r, t) \<Longrightarrow> v t = v s"
  by (metis keeps_def snd_conv)

lemma keeps_snd: "keeps v m \<Longrightarrow> v (snd (m s)) = v s"
  by (simp add: keeps_def)

lemma presD: "pres I m \<Longrightarrow> m s = (r, t) \<Longrightarrow> I s \<Longrightarrow> I t"
  by (metis pres_def snd_conv)

lemma keeps_basic [keeps_rules]:
  "keeps v (ret x)" "keeps v (throw e)" "keeps v (panic msg)" "keeps v block" "keeps v no_fuel"
  "keeps v get_state" "keeps v (gets g)"
  by (simp_all add: keeps_def eng_simps)

lemma keeps_modify: "(\<And>s. v (h s) = v s) \<Longrightarrow> keeps v (modify h)"
  by (simp add: keeps_def eng_simps)

lemma keeps_bind [keeps_rules]:
  assumes "keeps v m" and "\<And>x. keeps v (f x)"
  shows "keeps v (bind m f)"
  unfolding keeps_def
proof
  fix s
  show "v (snd (bind m f s)) = v s"
    using assms(1) [unfolded keeps_def, rule_format, of s]
      assms(2) [unfolded keeps_def, rule_format]
    by (auto simp: bind_def split: prod.splits res.splits)
qed

lemma keeps_attempt [keeps_rules]: "keeps v m \<Longrightarrow> keeps v (attempt m)"
  unfolding keeps_def attempt_def by (auto split: prod.splits res.splits) (metis snd_conv)+

lemma keeps_wrap [keeps_rules]: "keeps v m \<Longrightarrow> keeps v (wrap f m)"
  unfolding keeps_def wrap_def by (auto split: prod.splits res.splits) (metis snd_conv)+

lemma keeps_when [keeps_rules]: "(b \<Longrightarrow> keeps v m) \<Longrightarrow> keeps v (do_when b m)"
  by (simp add: do_when_def keeps_basic)

lemma keeps_lift_sum [keeps_rules]: "keeps v (lift_sum r)"
  by (cases r) (simp_all add: lift_sum_def keeps_basic)

lemma keeps_for_each [keeps_rules]: "(\<And>x. keeps v (f x)) \<Longrightarrow> keeps v (for_each xs f)"
  by (induction xs) (auto intro: keeps_rules)

lemma keeps_map_each [keeps_rules]: "(\<And>x. keeps v (f x)) \<Longrightarrow> keeps v (map_each xs f)"
  by (induction xs) (auto intro!: keeps_rules)

lemma keeps_if [keeps_rules]:
  "(b \<Longrightarrow> keeps v m) \<Longrightarrow> (\<not> b \<Longrightarrow> keeps v n) \<Longrightarrow> keeps v (if b then m else n)"
  by simp

lemma keeps_case_option [keeps_rules]:
  "keeps v m \<Longrightarrow> (\<And>x. keeps v (f x)) \<Longrightarrow> keeps v (case y of None \<Rightarrow> m | Some x \<Rightarrow> f x)"
  by (cases y) auto

lemma keeps_case_sum [keeps_rules]:
  "(\<And>e. keeps v (g e)) \<Longrightarrow> (\<And>x. keeps v (f x)) \<Longrightarrow> keeps v (case y of Inl e \<Rightarrow> g e | Inr x \<Rightarrow> f x)"
  by (cases y) auto

lemma keeps_case_list [keeps_rules]:
  "keeps v m \<Longrightarrow> (\<And>x xs. keeps v (f x xs)) \<Longrightarrow> keeps v (case y of [] \<Rightarrow> m | x # xs \<Rightarrow> f x xs)"
  by (cases y) auto

lemma keeps_case_prod [keeps_rules]:
  "(\<And>x z. keeps v (f x z)) \<Longrightarrow> keeps v (case y of (x, z) \<Rightarrow> f x z)"
  by (cases y) auto

lemma keeps_case_val [keeps_rules]:
  "keeps v a \<Longrightarrow> (\<And>x. keeps v (b x)) \<Longrightarrow> (\<And>x. keeps v (c x)) \<Longrightarrow> (\<And>x. keeps v (d x)) \<Longrightarrow>
   (\<And>x. keeps v (e x)) \<Longrightarrow> (\<And>x. keeps v (f x)) \<Longrightarrow>
   keeps v (case y of VNil \<Rightarrow> a | VBool x \<Rightarrow> b x | VNum x \<Rightarrow> c x | VStr x \<Rightarrow> d x | VList x \<Rightarrow> e x
     | VMap x \<Rightarrow> f x)"
  by (cases y) auto

lemma pres_case_option [pres_rules]:
  "pres I m \<Longrightarrow> (\<And>x. pres I (f x)) \<Longrightarrow> pres I (case y of None \<Rightarrow> m | Some x \<Rightarrow> f x)"
  by (cases y) auto

lemma pres_case_sum [pres_rules]:
  "(\<And>e. pres I (g e)) \<Longrightarrow> (\<And>x. pres I (f x)) \<Longrightarrow> pres I (case y of Inl e \<Rightarrow> g e | Inr x \<Rightarrow> f x)"
  by (cases y) auto

lemma pres_case_list [pres_rules]:
  "pres I m \<Longrightarrow> (\<And>x xs. pres I (f x xs)) \<Longrightarrow> pres I (case y of [] \<Rightarrow> m | x # xs \<Rightarrow> f x xs)"
  by (cases y) auto

lemma pres_basic [pres_rules]:
  "pres I (ret x)" "pres I (throw e)" "pres I (panic msg)" "pres I block" "pres I no_fuel"
  "pres I get_state" "pres I (gets g)"
  by (simp_all add: pres_def eng_simps)

lemma pres_modify: "(\<And>s. I s \<Longrightarrow> I (h s)) \<Longrightarrow> pres I (modify h)"
  by (simp add: pres_def eng_simps)

lemma pres_bind [pres_rules]:
  assumes "pres I m" and "\<And>x. pres I (f x)"
  shows "pres I (bind m f)"
  unfolding pres_def
proof (intro allI impI)
  fix s
  assume "I s"
  with assms(1) have "I (snd (m s))"
    by (simp add: pres_def)
  with assms(2) show "I (snd (bind m f s))"
    by (auto simp: bind_def pres_def split: prod.splits res.splits)
qed

lemma pres_attempt [pres_rules]: "pres I m \<Longrightarrow> pres I (attempt m)"
  unfolding pres_def attempt_def by (auto split: prod.splits res.splits)

lemma pres_wrap [pres_rules]: "pres I m \<Longrightarrow> pres I (wrap f m)"
  unfolding pres_def wrap_def by (auto split: prod.splits res.splits)

lemma pres_when [pres_rules]: "(b \<Longrightarrow> pres I m) \<Longrightarrow> pres I (do_when b m)"
  by (simp add: do_when_def pres_basic)

lemma pres_lift_sum [pres_rules]: "pres I (lift_sum r)"
  by (cases r) (simp_all add: lift_sum_def pres_basic)

lemma pres_for_each [pres_rules]: "(\<And>x. pres I (f x)) \<Longrightarrow> pres I (for_each xs f)"
  by (induction xs) (auto intro: pres_rules)

lemma pres_map_each [pres_rules]: "(\<And>x. pres I (f x)) \<Longrightarrow> pres I (map_each xs f)"
  by (induction xs) (auto intro!: pres_rules)

lemma pres_if [pres_rules]:
  "(b \<Longrightarrow> pres I m) \<Longrightarrow> (\<not> b \<Longrightarrow> pres I n) \<Longrightarrow> pres I (if b then m else n)"
  by simp

lemma keeps_pres: "keeps v m \<Longrightarrow> pres (\<lambda>s. P (v s)) m"
  by (simp add: keeps_def pres_def)

section \<open>Tables\<close>

text \<open>
  A Go \<^verbatim>\<open>map[int64]row\<close>. Assigning to a present key replaces its row, assigning to a new key adds
  one. Go iterates a map in an unspecified order: the list order is one of them.
\<close>

type_synonym 'r table = "(int \<times> 'r) list"

fun tput :: "int \<Rightarrow> 'r \<Rightarrow> 'r table \<Rightarrow> 'r table" where
  "tput k r [] = [(k, r)]"
| "tput k r ((k', r') # t) = (if k = k' then (k, r) # t else (k', r') # tput k r t)"

definition tget :: "'r table \<Rightarrow> int \<Rightarrow> 'r option" where
  "tget t k = map_of t k"

definition trows :: "'r table \<Rightarrow> 'r list" where
  "trows t = map snd t"

definition twf :: "'r table \<Rightarrow> bool" where
  "twf t \<longleftrightarrow> distinct (map fst t)"

lemma tget_tput [simp]: "tget (tput k r t) k' = (if k' = k then Some r else tget t k')"
  by (induction t) (auto simp: tget_def)

lemma tget_Nil [simp]: "tget [] k = None"
  by (simp add: tget_def)

lemma fst_tput: "fst ` set (tput k r t) = insert k (fst ` set t)"
proof (induction t)
  case Nil
  then show ?case by simp
next
  case (Cons p t)
  then show ?case by (cases p) (simp add: insert_commute)
qed

lemma twf_tput [simp]: "twf t \<Longrightarrow> twf (tput k r t)"
proof (induction t)
  case Nil
  then show ?case by (simp add: twf_def)
next
  case (Cons p t)
  obtain k' r' where p: "p = (k', r')" by (cases p)
  with Cons have "twf (tput k r t)" by (simp add: twf_def)
  with Cons.prems p show ?case
    using fst_tput [of k r t] by (auto simp: twf_def)
qed

lemma twf_Nil [simp]: "twf []"
  by (simp add: twf_def)

lemma trows_Nil [simp]: "trows [] = []"
  by (simp add: trows_def)

lemma set_trows: "twf t \<Longrightarrow> r \<in> set (trows t) \<longleftrightarrow> (\<exists>k. tget t k = Some r)"
  unfolding trows_def twf_def tget_def
  by (auto simp: map_of_eq_Some_iff dest: map_of_SomeD) (force dest: map_of_SomeD)

lemma tget_in_trows: "tget t k = Some r \<Longrightarrow> r \<in> set (trows t)"
  unfolding trows_def tget_def by (force dest: map_of_SomeD)

text \<open>
  A table in which every row is stored under its own key, the shape every table of the store has.
\<close>

definition keyed :: "('r \<Rightarrow> int) \<Rightarrow> 'r table \<Rightarrow> bool" where
  "keyed key t \<longleftrightarrow> twf t \<and> (\<forall>p \<in> set t. key (snd p) = fst p)"

lemma keyed_Nil [simp]: "keyed key []"
  by (simp add: keyed_def)

lemma set_tput: "set (tput k r t) \<subseteq> insert (k, r) (set t)"
  by (induction t) (auto split: if_splits)

lemma keyed_tput [simp]: "keyed key t \<Longrightarrow> key r = k \<Longrightarrow> keyed key (tput k r t)"
  using set_tput [of k r t] by (auto simp: keyed_def)

lemma keyed_tget: "keyed key t \<Longrightarrow> tget t k = Some r \<Longrightarrow> key r = k"
  unfolding keyed_def tget_def by (force dest: map_of_SomeD)

lemma keyed_rows: "keyed key t \<Longrightarrow> r \<in> set (trows t) \<longleftrightarrow> tget t (key r) = Some r"
  using keyed_tget [of key t] by (auto simp: keyed_def set_trows)

subsection \<open>The interface of a stored table\<close>

text \<open>
  What the clients of a table of the store rely on: saving a row makes exactly that row readable
  under its key. \<open>save_all\<close> is a run of the write statements of one batch on that table.
\<close>

locale row_store =
  fixes key :: "'r \<Rightarrow> int"
    and save :: "'r \<Rightarrow> 'db \<Rightarrow> 'db"
    and find :: "'db \<Rightarrow> int \<Rightarrow> 'r option"
  assumes find_save: "find (save r d) k = (if k = key r then Some r else find d k)"
begin

lemma find_save_same: "find (save r d) (key r) = Some r"
  by (simp add: find_save)

lemma find_save_other: "k \<noteq> key r \<Longrightarrow> find (save r d) k = find d k"
  by (simp add: find_save)

lemma save_save: "key r = key r' \<Longrightarrow> find (save r (save r' d)) k = find (save r d) k"
  by (simp add: find_save)

lemma save_commute:
  "key r \<noteq> key r' \<Longrightarrow> find (save r (save r' d)) k = find (save r' (save r d)) k"
  by (simp add: find_save)

lemma find_fold_save_notin: "k \<notin> key ` set rs \<Longrightarrow> find (fold save rs d) k = find d k"
  by (induction rs arbitrary: d) (auto simp: find_save)

lemma find_fold_save:
  "distinct (map key rs) \<Longrightarrow> r \<in> set rs \<Longrightarrow> find (fold save rs d) (key r) = Some r"
proof (induction rs arbitrary: d)
  case Nil
  then show ?case by simp
next
  case (Cons r' rs)
  show ?case
  proof (cases "r = r'")
    case True
    with Cons.prems show ?thesis
      by (simp add: find_fold_save_notin find_save)
  next
    case False
    with Cons show ?thesis by simp
  qed
qed

lemma find_fold_save_cases:
  "find (fold save rs d) k = Some r \<Longrightarrow> r \<in> set rs \<and> key r = k \<or> find d k = Some r"
proof (induction rs arbitrary: d)
  case Nil
  then show ?case by simp
next
  case (Cons a rs)
  from Cons.IH [of "save a d"] Cons.prems show ?case
    by (auto simp: find_save split: if_splits)
qed

lemma find_fold_save_written:
  "k \<in> key ` set rs \<Longrightarrow> find (fold save rs d) k = Some r \<Longrightarrow> r \<in> set rs"
proof (induction rs arbitrary: d)
  case Nil
  then show ?case by simp
next
  case (Cons a rs)
  show ?case
  proof (cases "k \<in> key ` set rs")
    case True
    with Cons show ?thesis by simp
  next
    case False
    with Cons.prems have "k = key a" by auto
    with False Cons.prems show ?thesis
      by (simp add: find_fold_save_notin find_save)
  qed
qed

text \<open>What is read after a run of writes: the last row written under the key, or the row before.\<close>

lemma find_fold_save_last:
  "find (fold save rs d) k = (case List.find (\<lambda>r. key r = k) (rev rs) of Some r \<Rightarrow> Some r | None \<Rightarrow> find d k)"
proof (induction rs rule: rev_induct)
  case Nil
  then show ?case by simp
next
  case (snoc r rs)
  then show ?case by (simp add: find_save)
qed

text \<open>If no written row satisfies \<open>P\<close> and every stored row that does is written, none is left.\<close>

lemma fold_save_clears:
  assumes "\<forall>r \<in> set rs. \<not> P r" and "\<And>r. find d (key r) = Some r \<Longrightarrow> P r \<Longrightarrow> key r \<in> key ` set rs"
    and "find (fold save rs d) (key r) = Some r"
  shows "\<not> P r"
  using assms find_fold_save_cases [OF assms(3)] find_fold_save_written [of "key r" rs d r] by blast

end

interpretation tput_store: row_store fst "\<lambda>(k, r) t. tput k (k, r) t" tget
  by unfold_locales auto

section \<open>Go strings\<close>

definition go_space :: "char \<Rightarrow> bool" where
  "go_space c \<longleftrightarrow> c \<in> {CHR 0x09, CHR 0x0A, CHR 0x0B, CHR 0x0C, CHR 0x0D, CHR '' ''}"

definition TrimSpace :: "string \<Rightarrow> string" where
  "TrimSpace s = rev (dropWhile go_space (rev (dropWhile go_space s)))"

fun HasPrefix :: "string \<Rightarrow> string \<Rightarrow> bool" where
  "HasPrefix s [] = True"
| "HasPrefix [] (p # ps) = False"
| "HasPrefix (c # cs) (p # ps) = (c = p \<and> HasPrefix cs ps)"

definition TrimPrefix :: "string \<Rightarrow> string \<Rightarrow> string" where
  "TrimPrefix s p = (if HasPrefix s p then drop (length p) s else s)"

lemma HasPrefix_append [simp]: "HasPrefix (p @ s) p"
  by (induction p) auto

lemma TrimPrefix_append [simp]: "TrimPrefix (p @ s) p = s"
  by (simp add: TrimPrefix_def)

fun Split_on :: "char \<Rightarrow> string \<Rightarrow> string \<Rightarrow> string list" where
  "Split_on sep [] acc = [rev acc]"
| "Split_on sep (c # cs) acc =
     (if c = sep then rev acc # Split_on sep cs [] else Split_on sep cs (c # acc))"

text \<open>\<^verbatim>\<open>fmt.Sprintf("%v", x)\<close> on the values of this model.\<close>

fun nat_digits :: "nat \<Rightarrow> string" where
  "nat_digits n =
     (if n < 10 then [char_of (48 + n)] else nat_digits (n div 10) @ [char_of (48 + n mod 10)])"

declare nat_digits.simps [simp del]

definition int_digits :: "int \<Rightarrow> string" where
  "int_digits i = (if i < 0 then CHR ''-'' # nat_digits (nat (- i)) else nat_digits (nat i))"

fun join_with :: "string \<Rightarrow> string list \<Rightarrow> string" where
  "join_with sep [] = []"
| "join_with sep [x] = x"
| "join_with sep (x # y # zs) = x @ sep @ join_with sep (y # zs)"

fun go_sprint :: "val \<Rightarrow> string" where
  "go_sprint VNil = ''<nil>''"
| "go_sprint (VBool b) = (if b then ''true'' else ''false'')"
| "go_sprint (VNum i) = int_digits i"
| "go_sprint (VStr s) = s"
| "go_sprint (VList vs) = ''['' @ join_with '' '' (map go_sprint vs) @ '']''"
| "go_sprint (VMap kvs) =
     ''map['' @ join_with '' '' (map (\<lambda>p. fst p @ '':'' @ go_sprint (snd p)) kvs) @ '']''"

end
