(* ===== verification/Bpmn_Model.thy ===== *)
theory Bpmn_Model
  imports Zen_Prelude
begin

text \<open>
  The BPMN document model of \<^verbatim>\<open>pkg/bpmn/model/bpmn20\<close> and \<^verbatim>\<open>pkg/bpmn/model/extensions\<close>: the elements of
  a process, the container they stand in (with nested sub-processes), the searches the engine runs
  over it, and the resolution of the references between nodes and sequence flows after a document was
  decoded.

  A Go struct that embeds another is a record that extends another. The fields no code of the engine
  reads (documentation, gateway direction, quantities) are left out. A resolved reference is a Go
  pointer: the flows of a node are held as values, the node a flow points to is held by its id
  (\<open>None\<close> is the nil reference an empty id leaves behind).

  The lemmas show that the search by id is a search in one flat list of the nodes of a process
  (\<open>flow_nodes\<close>), that the boundary events found are attached to the activity asked for, and that
  after \<open>ResolveReferences\<close> every reference points to the element with the id that was written.
\<close>

section \<open>Elements\<close>

record TIoMapping =
  Source :: string
  Target :: string

record TTaskDefinition =
  TypeName :: string
  Retries :: string

record TCalledDecision =
  DecisionId :: string
  ResultVariable :: string
  BindingType :: string
  VersionTag :: string

record TLoopCharacteristics =
  InputCollectionExpression :: string
  OutputCollectionName :: string
  InputElementName :: string
  OutputElementExpression :: string

record TMultiInstance =
  IsSequential :: bool
  LoopCharacteristics :: TLoopCharacteristics
  CompletionCondition :: string

record TSequenceFlow =
  sf_Id :: string
  sf_Name :: string
  SourceRefId :: string
  TargetRefId :: string
  ConditionExpression :: string
  SourceRef :: "string option"
  TargetRef :: "string option"

record TFlowNode =
  fn_Id :: string
  fn_Name :: string
  IncomingAssociationsIDs :: "string list"
  OutgoingAssociationsIDs :: "string list"
  IncomingAssociations :: "TSequenceFlow list"
  OutgoingAssociations :: "TSequenceFlow list"

record TActivity = TFlowNode +
  MultiInstance :: "TMultiInstance option"
  act_Input :: "TIoMapping list"
  act_Output :: "TIoMapping list"

record TExternallyProcessedTask = TActivity +
  ext_TaskDefinition :: TTaskDefinition

datatype TBusinessRuleTaskImplementation =
    TBusinessRuleTaskLocal TCalledDecision
  | TBusinessRuleTaskExternal TTaskDefinition

record TBusinessRuleTask = TActivity +
  brt_Implementation :: "TBusinessRuleTaskImplementation option"

record TUserTask = TActivity +
  Assignee :: string
  CandidateGroups :: string

record TCallActivity = TActivity +
  CalledProcessId :: string

datatype EventDefinition =
    TTerminateEventDefinition
  | TMessageEventDefinition string
  | TTimerEventDefinition string string
  | TLinkEventDefinition string string

record TEndEvent = TFlowNode +
  EvenDefinitions :: "EventDefinition list"
  end_TaskDefinition :: TTaskDefinition
  end_Input :: "TIoMapping list"
  end_Output :: "TIoMapping list"

record TIntermediateCatchEvent = TFlowNode +
  ice_EventDefinition :: "EventDefinition option"
  ice_Output :: "TIoMapping list"

record TIntermediateThrowEvent = TFlowNode +
  ite_EventDefinition :: "EventDefinition option"
  ite_TaskDefinition :: TTaskDefinition
  ite_Input :: "TIoMapping list"
  ite_Output :: "TIoMapping list"

record TBoundaryEvent = TFlowNode +
  be_EventDefinition :: "EventDefinition option"
  AttachedToRef :: string
  CancellActivity :: bool
  be_Output :: "TIoMapping list"

record TDefaultFlowGateway = TFlowNode +
  DefaultFlowId :: string
  DefaultFlow :: "TSequenceFlow option"

record TUnknownElement =
  XMLName :: string
  unk_Id :: string
  unk_Incoming :: "string list"
  unk_Outgoing :: "string list"

record TMessage =
  msg_Id :: string
  msg_Name :: string
  CorrelationKey :: string

text \<open>\<^verbatim>\<open>TFlowElementsContainer\<close> with its fields in the order of the struct, and the sub-process, which
  embeds an activity and a container.\<close>

datatype TFlowElementsContainer =
  FlowElements
    (StartEvents: "TFlowNode list")
    (EndEvents: "TEndEvent list")
    (SequenceFlows: "TSequenceFlow list")
    (ServiceTasks: "TExternallyProcessedTask list")
    (UserTasks: "TUserTask list")
    (BusinessRuleTask: "TBusinessRuleTask list")
    (SendTask: "TExternallyProcessedTask list")
    (ParallelGateway: "TFlowNode list")
    (ExclusiveGateway: "TDefaultFlowGateway list")
    (EventBasedGateway: "TFlowNode list")
    (InclusiveGateway: "TDefaultFlowGateway list")
    (IntermediateCatchEvent: "TIntermediateCatchEvent list")
    (IntermediateThrowEvent: "TIntermediateThrowEvent list")
    (CallActivity: "TCallActivity list")
    (BoundaryEvent: "TBoundaryEvent list")
    (SubProcess: "TSubProcess list")
    (UnknownElements: "TUnknownElement list")
and TSubProcess =
  TSubProcess (sp_Id: string) (sp_Activity: TActivity) (sp_Container: TFlowElementsContainer)

datatype FlowNode =
    FStartEvent TFlowNode
  | FEndEvent TEndEvent
  | FServiceTask TExternallyProcessedTask
  | FUserTask TUserTask
  | FBusinessRuleTask TBusinessRuleTask
  | FSendTask TExternallyProcessedTask
  | FParallelGateway TFlowNode
  | FExclusiveGateway TDefaultFlowGateway
  | FEventBasedGateway TFlowNode
  | FInclusiveGateway TDefaultFlowGateway
  | FIntermediateCatchEvent TIntermediateCatchEvent
  | FIntermediateThrowEvent TIntermediateThrowEvent
  | FCallActivity TCallActivity
  | FSubProcess TSubProcess
  | FBoundaryEvent TBoundaryEvent

record TProcess =
  proc_Id :: string
  proc_Name :: string
  proc_Container :: TFlowElementsContainer

record TDefinitions =
  def_Id :: string
  def_Process :: TProcess
  def_Messages :: "TMessage list"

section \<open>The methods of the flow node interfaces\<close>

text \<open>
  \<^verbatim>\<open>TSubProcess\<close> embeds both \<^verbatim>\<open>TActivity\<close> and \<^verbatim>\<open>TProcess\<close>; the id promoted to it is the one of the
  process, which is embedded at the smaller depth.
\<close>

fun node_base :: "FlowNode \<Rightarrow> TFlowNode" where
  "node_base (FStartEvent n) = n"
| "node_base (FEndEvent n) = TFlowNode.truncate n"
| "node_base (FServiceTask n) = TFlowNode.truncate n"
| "node_base (FUserTask n) = TFlowNode.truncate n"
| "node_base (FBusinessRuleTask n) = TFlowNode.truncate n"
| "node_base (FSendTask n) = TFlowNode.truncate n"
| "node_base (FParallelGateway n) = n"
| "node_base (FExclusiveGateway n) = TFlowNode.truncate n"
| "node_base (FEventBasedGateway n) = n"
| "node_base (FInclusiveGateway n) = TFlowNode.truncate n"
| "node_base (FIntermediateCatchEvent n) = TFlowNode.truncate n"
| "node_base (FIntermediateThrowEvent n) = TFlowNode.truncate n"
| "node_base (FCallActivity n) = TFlowNode.truncate n"
| "node_base (FSubProcess n) = (TFlowNode.truncate (sp_Activity n))\<lparr>fn_Id := sp_Id n\<rparr>"
| "node_base (FBoundaryEvent n) = TFlowNode.truncate n"

definition GetId :: "FlowNode \<Rightarrow> string" where
  "GetId n = fn_Id (node_base n)"

definition GetIncomingAssociation :: "FlowNode \<Rightarrow> TSequenceFlow list" where
  "GetIncomingAssociation n = IncomingAssociations (node_base n)"

definition GetOutgoingAssociation :: "FlowNode \<Rightarrow> TSequenceFlow list" where
  "GetOutgoingAssociation n = OutgoingAssociations (node_base n)"

datatype ElementType =
    ElementTypeServiceTask | ElementTypeUserTask | ElementTypeSequenceFlow | ElementBusinessRuleTask
  | ElementTypeStartEvent | ElementTypeEndEvent | ElementTypeIntermediateCatchEvent
  | ElementTypeIntermediateThrowEvent | ElementTypeBoundaryEvent
  | ElementTypeParallelGateway | ElementTypeExclusiveGateway | ElementTypeEventBasedGateway
  | ElementTypeInclusiveGateway

text \<open>Call activities and sub-processes inherit \<^verbatim>\<open>TFlowElement.GetType\<close>.\<close>

fun GetType :: "FlowNode \<Rightarrow> ElementType" where
  "GetType (FStartEvent _) = ElementTypeStartEvent"
| "GetType (FEndEvent _) = ElementTypeEndEvent"
| "GetType (FServiceTask _) = ElementTypeServiceTask"
| "GetType (FUserTask _) = ElementTypeUserTask"
| "GetType (FBusinessRuleTask _) = ElementBusinessRuleTask"
| "GetType (FSendTask _) = ElementTypeServiceTask"
| "GetType (FParallelGateway _) = ElementTypeParallelGateway"
| "GetType (FExclusiveGateway _) = ElementTypeExclusiveGateway"
| "GetType (FEventBasedGateway _) = ElementTypeEventBasedGateway"
| "GetType (FInclusiveGateway _) = ElementTypeInclusiveGateway"
| "GetType (FIntermediateCatchEvent _) = ElementTypeIntermediateCatchEvent"
| "GetType (FIntermediateThrowEvent _) = ElementTypeIntermediateThrowEvent"
| "GetType (FCallActivity _) = ElementTypeSequenceFlow"
| "GetType (FSubProcess _) = ElementTypeSequenceFlow"
| "GetType (FBoundaryEvent _) = ElementTypeBoundaryEvent"

text \<open>The \<^verbatim>\<open>Activity\<close> interface: \<open>None\<close> for a node that does not implement it.\<close>

fun as_Activity :: "FlowNode \<Rightarrow> TActivity option" where
  "as_Activity (FServiceTask n) = Some (TActivity.truncate n)"
| "as_Activity (FUserTask n) = Some (TActivity.truncate n)"
| "as_Activity (FBusinessRuleTask n) = Some (TActivity.truncate n)"
| "as_Activity (FSendTask n) = Some (TActivity.truncate n)"
| "as_Activity (FCallActivity n) = Some (TActivity.truncate n)"
| "as_Activity (FSubProcess n) = Some (sp_Activity n)"
| "as_Activity _ = None"

definition GetMultiInstance :: "FlowNode \<Rightarrow> TMultiInstance option" where
  "GetMultiInstance n = Option.bind (as_Activity n) MultiInstance"

text \<open>
  The \<^verbatim>\<open>InternalTask\<close> interface. A business rule task without an external implementation panics when
  it is asked for its task type (a failed type assertion), which is the result \<open>None\<close> here.
\<close>

fun GetTaskType :: "FlowNode \<Rightarrow> string option" where
  "GetTaskType (FServiceTask n) = Some (TypeName (ext_TaskDefinition n))"
| "GetTaskType (FSendTask n) = Some (TypeName (ext_TaskDefinition n))"
| "GetTaskType (FUserTask n) = Some ''user-task-type''"
| "GetTaskType (FBusinessRuleTask n) =
     (case brt_Implementation n of
        Some (TBusinessRuleTaskExternal d) \<Rightarrow> Some (TypeName d)
      | _ \<Rightarrow> None)"
| "GetTaskType (FIntermediateThrowEvent n) = Some (TypeName (ite_TaskDefinition n))"
| "GetTaskType (FEndEvent n) = Some (TypeName (end_TaskDefinition n))"
| "GetTaskType _ = None"

fun GetInputMapping :: "FlowNode \<Rightarrow> TIoMapping list" where
  "GetInputMapping (FEndEvent n) = end_Input n"
| "GetInputMapping (FIntermediateThrowEvent n) = ite_Input n"
| "GetInputMapping n = (case as_Activity n of Some a \<Rightarrow> act_Input a | None \<Rightarrow> [])"

fun GetOutputMapping :: "FlowNode \<Rightarrow> TIoMapping list" where
  "GetOutputMapping (FEndEvent n) = end_Output n"
| "GetOutputMapping (FIntermediateThrowEvent n) = ite_Output n"
| "GetOutputMapping (FBoundaryEvent n) = be_Output n"
| "GetOutputMapping n = (case as_Activity n of Some a \<Rightarrow> act_Output a | None \<Rightarrow> [])"

definition GetCandidateGroups :: "TUserTask \<Rightarrow> string list" where
  "GetCandidateGroups t = map TrimSpace (Split_on CHR '','' (CandidateGroups t) [])"

text \<open>\<^verbatim>\<open>html.UnescapeString\<close> on the entities an XML document needs.\<close>

fun UnescapeString :: "string \<Rightarrow> string" where
  "UnescapeString [] = []"
| "UnescapeString (c # cs) =
     (if HasPrefix (c # cs) ''&lt;'' then CHR ''<'' # UnescapeString (drop 3 cs)
      else if HasPrefix (c # cs) ''&gt;'' then CHR ''>'' # UnescapeString (drop 3 cs)
      else if HasPrefix (c # cs) ''&amp;'' then CHR ''&'' # UnescapeString (drop 4 cs)
      else if HasPrefix (c # cs) ''&quot;'' then CHR 0x22 # UnescapeString (drop 5 cs)
      else if HasPrefix (c # cs) ''&apos;'' then CHR 0x27 # UnescapeString (drop 5 cs)
      else if HasPrefix (c # cs) ''&#34;'' then CHR 0x22 # UnescapeString (drop 4 cs)
      else if HasPrefix (c # cs) ''&#39;'' then CHR 0x27 # UnescapeString (drop 4 cs)
      else c # UnescapeString cs)"

definition GetConditionExpression :: "TSequenceFlow \<Rightarrow> string" where
  "GetConditionExpression f = TrimSpace (UnescapeString (ConditionExpression f))"

lemma keeps_case_EventDefinition [keeps_rules]:
  "keeps v a \<Longrightarrow> (\<And>x. keeps v (b x)) \<Longrightarrow> (\<And>x y. keeps v (c x y)) \<Longrightarrow> (\<And>x y. keeps v (d x y)) \<Longrightarrow>
   keeps v (case ed of TTerminateEventDefinition \<Rightarrow> a | TMessageEventDefinition x \<Rightarrow> b x
     | TTimerEventDefinition x y \<Rightarrow> c x y | TLinkEventDefinition x y \<Rightarrow> d x y)"
  by (cases ed) auto

lemma keeps_case_Implementation [keeps_rules]:
  "(\<And>x. keeps v (a x)) \<Longrightarrow> (\<And>x. keeps v (b x)) \<Longrightarrow>
   keeps v (case im of TBusinessRuleTaskLocal x \<Rightarrow> a x | TBusinessRuleTaskExternal x \<Rightarrow> b x)"
  by (cases im) auto

lemma keeps_case_FlowNode [keeps_rules]:
  assumes "\<And>x. keeps v (a x)" "\<And>x. keeps v (b x)" "\<And>x. keeps v (c x)" "\<And>x. keeps v (d x)"
    "\<And>x. keeps v (e x)" "\<And>x. keeps v (f x)" "\<And>x. keeps v (g x)" "\<And>x. keeps v (h x)"
    "\<And>x. keeps v (i x)" "\<And>x. keeps v (j x)" "\<And>x. keeps v (k x)" "\<And>x. keeps v (l x)"
    "\<And>x. keeps v (m x)" "\<And>x. keeps v (n x)" "\<And>x. keeps v (p x)"
  shows "keeps v (case node of FStartEvent x \<Rightarrow> a x | FEndEvent x \<Rightarrow> b x | FServiceTask x \<Rightarrow> c x
    | FUserTask x \<Rightarrow> d x | FBusinessRuleTask x \<Rightarrow> e x | FSendTask x \<Rightarrow> f x | FParallelGateway x \<Rightarrow> g x
    | FExclusiveGateway x \<Rightarrow> h x | FEventBasedGateway x \<Rightarrow> i x | FInclusiveGateway x \<Rightarrow> j x
    | FIntermediateCatchEvent x \<Rightarrow> k x | FIntermediateThrowEvent x \<Rightarrow> l x | FCallActivity x \<Rightarrow> m x
    | FSubProcess x \<Rightarrow> n x | FBoundaryEvent x \<Rightarrow> p x)"
  using assms by (cases node) auto

section \<open>Searches\<close>

definition by_id :: "('e \<Rightarrow> string) \<Rightarrow> ('e \<Rightarrow> FlowNode) \<Rightarrow> 'e list \<Rightarrow> string \<Rightarrow> FlowNode option" where
  "by_id f c es i = map_option c (List.find (\<lambda>e. f e = i) es)"

fun first_some :: "'a option list \<Rightarrow> 'a option" where
  "first_some [] = None"
| "first_some (Some x # xs) = Some x"
| "first_some (None # xs) = first_some xs"

fun GetFlowNodeById :: "TFlowElementsContainer \<Rightarrow> string \<Rightarrow> FlowNode option"
  and GetFlowNodeById_subs :: "TSubProcess list \<Rightarrow> string \<Rightarrow> FlowNode option" where
  "GetFlowNodeById (FlowElements st en sf sv ut br se pg eg eb ig ic it ca be sp un) i =
     first_some
       [by_id fn_Id FStartEvent st i,
        by_id fn_Id FEndEvent en i,
        by_id fn_Id FServiceTask sv i,
        by_id fn_Id FUserTask ut i,
        by_id fn_Id FBusinessRuleTask br i,
        by_id fn_Id FSendTask se i,
        by_id fn_Id FParallelGateway pg i,
        by_id fn_Id FExclusiveGateway eg i,
        by_id fn_Id FEventBasedGateway eb i,
        by_id fn_Id FInclusiveGateway ig i,
        by_id fn_Id FIntermediateCatchEvent ic i,
        by_id fn_Id FIntermediateThrowEvent it i,
        by_id fn_Id FCallActivity ca i,
        by_id sp_Id FSubProcess sp i,
        GetFlowNodeById_subs sp i]"
| "GetFlowNodeById_subs [] i = None"
| "GetFlowNodeById_subs (TSubProcess j a c # sps) i =
     first_some [GetFlowNodeById c i, GetFlowNodeById_subs sps i]"

fun GetInternalTaskById :: "TFlowElementsContainer \<Rightarrow> string \<Rightarrow> FlowNode option"
  and GetInternalTaskById_subs :: "TSubProcess list \<Rightarrow> string \<Rightarrow> FlowNode option" where
  "GetInternalTaskById (FlowElements st en sf sv ut br se pg eg eb ig ic it ca be sp un) i =
     first_some
       [by_id fn_Id FServiceTask sv i,
        by_id fn_Id FUserTask ut i,
        by_id fn_Id FBusinessRuleTask br i,
        by_id fn_Id FSendTask se i,
        by_id fn_Id FIntermediateThrowEvent it i,
        by_id fn_Id FEndEvent en i,
        GetInternalTaskById_subs sp i]"
| "GetInternalTaskById_subs [] i = None"
| "GetInternalTaskById_subs (TSubProcess j a c # sps) i =
     first_some [GetInternalTaskById c i, GetInternalTaskById_subs sps i]"

text \<open>
  \<^verbatim>\<open>FindBoundaryEventsForActivity\<close>: the boundary events of the container itself, and only if there is
  none those of the first sub-process that has one (the Go result is nil exactly when it is empty).
\<close>

fun FindBoundaryEventsForActivity :: "TFlowElementsContainer \<Rightarrow> string \<Rightarrow> TBoundaryEvent list"
  and FindBoundaryEvents_subs :: "TSubProcess list \<Rightarrow> string \<Rightarrow> TBoundaryEvent list" where
  "FindBoundaryEventsForActivity (FlowElements st en sf sv ut br se pg eg eb ig ic it ca be sp un) i =
     (let result = filter (\<lambda>b. AttachedToRef b = i) be
      in if result \<noteq> [] then result else FindBoundaryEvents_subs sp i)"
| "FindBoundaryEvents_subs [] i = []"
| "FindBoundaryEvents_subs (TSubProcess j a c # sps) i =
     (let res = FindBoundaryEventsForActivity c i
      in if res \<noteq> [] then res else FindBoundaryEvents_subs sps i)"

definition GetMessageByRef :: "TDefinitions \<Rightarrow> string \<Rightarrow> error + TMessage" where
  "GetMessageByRef d r =
     (case List.find (\<lambda>m. msg_Id m = r) (def_Messages d) of
        Some m \<Rightarrow> Inr m
      | None \<Rightarrow> Inl (Errorf ''failed to find message among process messages''))"

subsection \<open>The flat list of the nodes of a process\<close>

text \<open>The nodes of a container in the order the search visits them. Boundary events are not among
  them: no search by id finds one.\<close>

fun flow_nodes :: "TFlowElementsContainer \<Rightarrow> FlowNode list"
  and flow_nodes_subs :: "TSubProcess list \<Rightarrow> FlowNode list" where
  "flow_nodes (FlowElements st en sf sv ut br se pg eg eb ig ic it ca be sp un) =
     map FStartEvent st @ map FEndEvent en @ map FServiceTask sv @ map FUserTask ut @
     map FBusinessRuleTask br @ map FSendTask se @ map FParallelGateway pg @
     map FExclusiveGateway eg @ map FEventBasedGateway eb @ map FInclusiveGateway ig @
     map FIntermediateCatchEvent ic @ map FIntermediateThrowEvent it @ map FCallActivity ca @
     map FSubProcess sp @ flow_nodes_subs sp"
| "flow_nodes_subs [] = []"
| "flow_nodes_subs (TSubProcess j a c # sps) = flow_nodes c @ flow_nodes_subs sps"

fun internal_tasks :: "TFlowElementsContainer \<Rightarrow> FlowNode list"
  and internal_tasks_subs :: "TSubProcess list \<Rightarrow> FlowNode list" where
  "internal_tasks (FlowElements st en sf sv ut br se pg eg eb ig ic it ca be sp un) =
     map FServiceTask sv @ map FUserTask ut @ map FBusinessRuleTask br @ map FSendTask se @
     map FIntermediateThrowEvent it @ map FEndEvent en @ internal_tasks_subs sp"
| "internal_tasks_subs [] = []"
| "internal_tasks_subs (TSubProcess j a c # sps) = internal_tasks c @ internal_tasks_subs sps"

lemma find_append: "List.find P (xs @ ys) = (case List.find P xs of None \<Rightarrow> List.find P ys | r \<Rightarrow> r)"
  by (induction xs) auto

lemma first_some_Cons: "first_some (x # xs) = (case x of None \<Rightarrow> first_some xs | r \<Rightarrow> r)"
  by (cases x) auto

lemma case_option_id: "(case x of None \<Rightarrow> None | Some y \<Rightarrow> Some y) = x"
  by (cases x) auto

lemma by_id_find: "(\<And>e. GetId (c e) = f e) \<Longrightarrow>
    by_id f c es i = List.find (\<lambda>n. GetId n = i) (map c es)"
  by (induction es) (auto simp: by_id_def)

lemma truncate_sel [simp]:
  "fn_Id (TFlowNode.truncate n) = fn_Id n"
  "IncomingAssociations (TFlowNode.truncate n) = IncomingAssociations n"
  "OutgoingAssociations (TFlowNode.truncate n) = OutgoingAssociations n"
  by (simp_all add: TFlowNode.truncate_def)

lemma GetId_simps [simp]:
  "GetId (FStartEvent a) = fn_Id a" "GetId (FEndEvent b) = fn_Id b"
  "GetId (FServiceTask c) = fn_Id c" "GetId (FUserTask d) = fn_Id d"
  "GetId (FBusinessRuleTask e) = fn_Id e" "GetId (FSendTask c) = fn_Id c"
  "GetId (FParallelGateway a) = fn_Id a" "GetId (FExclusiveGateway g) = fn_Id g"
  "GetId (FEventBasedGateway a) = fn_Id a" "GetId (FInclusiveGateway g) = fn_Id g"
  "GetId (FIntermediateCatchEvent h) = fn_Id h" "GetId (FIntermediateThrowEvent i) = fn_Id i"
  "GetId (FCallActivity j) = fn_Id j" "GetId (FSubProcess k) = sp_Id k"
  "GetId (FBoundaryEvent l) = fn_Id l"
  by (simp_all add: GetId_def)

lemma GetFlowNodeById_flat:
  "GetFlowNodeById c i = List.find (\<lambda>n. GetId n = i) (flow_nodes c)"
  "GetFlowNodeById_subs sps i = List.find (\<lambda>n. GetId n = i) (flow_nodes_subs sps)"
  by (induction c i and sps i rule: GetFlowNodeById_GetFlowNodeById_subs.induct)
    (simp_all only: GetFlowNodeById.simps GetFlowNodeById_subs.simps flow_nodes.simps
      flow_nodes_subs.simps first_some_Cons first_some.simps find_append by_id_find GetId_simps
      find.simps case_option_id)

lemma GetInternalTaskById_flat:
  "GetInternalTaskById c i = List.find (\<lambda>n. GetId n = i) (internal_tasks c)"
  "GetInternalTaskById_subs sps i = List.find (\<lambda>n. GetId n = i) (internal_tasks_subs sps)"
  by (induction c i and sps i rule: GetInternalTaskById_GetInternalTaskById_subs.induct)
    (simp_all only: GetInternalTaskById.simps GetInternalTaskById_subs.simps internal_tasks.simps
      internal_tasks_subs.simps first_some_Cons first_some.simps find_append by_id_find GetId_simps
      find.simps case_option_id)

lemma GetFlowNodeById_Some:
  "GetFlowNodeById c i = Some n \<Longrightarrow> GetId n = i \<and> n \<in> set (flow_nodes c)"
  by (auto simp: GetFlowNodeById_flat find_Some_iff)

lemma GetFlowNodeById_complete:
  "n \<in> set (flow_nodes c) \<Longrightarrow> GetFlowNodeById c (GetId n) \<noteq> None"
  by (auto simp: GetFlowNodeById_flat find_None_iff)

lemma internal_tasks_subset:
  "set (internal_tasks c) \<subseteq> set (flow_nodes c)"
  "set (internal_tasks_subs sps) \<subseteq> set (flow_nodes_subs sps)"
  by (induction c and sps rule: internal_tasks_internal_tasks_subs.induct) auto

text \<open>All boundary events of a container and its sub-processes.\<close>

fun boundary_events :: "TFlowElementsContainer \<Rightarrow> TBoundaryEvent list"
  and boundary_events_subs :: "TSubProcess list \<Rightarrow> TBoundaryEvent list" where
  "boundary_events (FlowElements st en sf sv ut br se pg eg eb ig ic it ca be sp un) =
     be @ boundary_events_subs sp"
| "boundary_events_subs [] = []"
| "boundary_events_subs (TSubProcess j a c # sps) = boundary_events c @ boundary_events_subs sps"

lemma FindBoundaryEvents_sound:
  "set (FindBoundaryEventsForActivity c i) \<subseteq> {b \<in> set (boundary_events c). AttachedToRef b = i}"
  "set (FindBoundaryEvents_subs sps i) \<subseteq> {b \<in> set (boundary_events_subs sps). AttachedToRef b = i}"
  by (induction c i and sps i rule: FindBoundaryEventsForActivity_FindBoundaryEvents_subs.induct)
    (auto simp: Let_def)

lemma FindBoundaryEvents_empty:
  "FindBoundaryEventsForActivity c i = [] \<longleftrightarrow> (\<forall>b \<in> set (boundary_events c). AttachedToRef b \<noteq> i)"
  "FindBoundaryEvents_subs sps i = [] \<longleftrightarrow> (\<forall>b \<in> set (boundary_events_subs sps). AttachedToRef b \<noteq> i)"
  by (induction c i and sps i rule: FindBoundaryEventsForActivity_FindBoundaryEvents_subs.induct)
    (auto simp: Let_def filter_empty_conv)

section \<open>Decoding of events\<close>

text \<open>
  The \<^verbatim>\<open>UnmarshalXML\<close> methods of the events decode into a temporary struct and pick the event
  definition whose id is present. The temporary struct is the record below: an absent XML attribute is
  \<open>None\<close> where the Go field is a pointer and the empty string where it is a string.
\<close>

record raw_event =
  raw_TEvent :: TFlowNode
  raw_TerminateId :: "string option"
  raw_MessageId :: "string option"
  raw_MessageRef :: string
  raw_TimerId :: string
  raw_TimeDuration :: string
  raw_LinkId :: string
  raw_LinkName :: string
  raw_TaskDefinition :: TTaskDefinition
  raw_Input :: "TIoMapping list"
  raw_Output :: "TIoMapping list"
  raw_AttachedToRef :: string
  raw_CancelActivity :: "bool option"

definition zero_TaskDefinition :: TTaskDefinition where
  "zero_TaskDefinition = \<lparr>TypeName = [], Retries = []\<rparr>"

definition TEndEvent_UnmarshalXML :: "raw_event \<Rightarrow> TEndEvent" where
  "TEndEvent_UnmarshalXML t =
     (let ds = (if raw_TerminateId t \<noteq> None then [TTerminateEventDefinition] else []) @
               (if raw_MessageId t \<noteq> None then [TMessageEventDefinition (raw_MessageRef t)] else [])
      in TFlowNode.extend (raw_TEvent t)
           (if raw_MessageId t \<noteq> None
            then TEndEvent.fields ds (raw_TaskDefinition t) (raw_Input t) (raw_Output t)
            else TEndEvent.fields ds zero_TaskDefinition [] []))"

definition raw_EventDefinition :: "raw_event \<Rightarrow> bool \<Rightarrow> EventDefinition option" where
  "raw_EventDefinition t links =
     (if raw_MessageId t \<noteq> None then Some (TMessageEventDefinition (raw_MessageRef t))
      else if raw_TimerId t \<noteq> [] then Some (TTimerEventDefinition (raw_TimerId t) (raw_TimeDuration t))
      else if links \<and> raw_LinkId t \<noteq> [] then Some (TLinkEventDefinition (raw_LinkId t) (raw_LinkName t))
      else None)"

definition TIntermediateCatchEvent_UnmarshalXML :: "raw_event \<Rightarrow> TIntermediateCatchEvent" where
  "TIntermediateCatchEvent_UnmarshalXML t =
     TFlowNode.extend (raw_TEvent t)
       (TIntermediateCatchEvent.fields (raw_EventDefinition t True) (raw_Output t))"

text \<open>The method assigns \<^verbatim>\<open>Output\<close> and \<^verbatim>\<open>TaskDefinition\<close>; the \<^verbatim>\<open>Input\<close> of the event stays nil.\<close>

definition TIntermediateThrowEvent_UnmarshalXML :: "raw_event \<Rightarrow> TIntermediateThrowEvent" where
  "TIntermediateThrowEvent_UnmarshalXML t =
     TFlowNode.extend (raw_TEvent t)
       (TIntermediateThrowEvent.fields (raw_EventDefinition t True) (raw_TaskDefinition t) []
          (raw_Output t))"

definition TBoundaryEvent_UnmarshalXML :: "raw_event \<Rightarrow> TBoundaryEvent" where
  "TBoundaryEvent_UnmarshalXML t =
     TFlowNode.extend (raw_TEvent t)
       (TBoundaryEvent.fields (raw_EventDefinition t False) (raw_AttachedToRef t)
          (case raw_CancelActivity t of None \<Rightarrow> True | Some b \<Rightarrow> b) (raw_Output t))"

lemma GetInputMapping_throw_event:
  "GetInputMapping (FIntermediateThrowEvent (TIntermediateThrowEvent_UnmarshalXML t)) = []"
  by (simp add: TIntermediateThrowEvent_UnmarshalXML_def TFlowNode.extend_def
      TIntermediateThrowEvent.fields_def)

section \<open>Resolution of references\<close>

datatype BaseElement =
    BDefinitions string
  | BProcess string
  | BFlow TSequenceFlow
  | BNode FlowNode

fun base_id :: "BaseElement \<Rightarrow> string" where
  "base_id (BDefinitions i) = i"
| "base_id (BProcess i) = i"
| "base_id (BFlow f) = sf_Id f"
| "base_id (BNode n) = GetId n"

text \<open>
  The elements \<^verbatim>\<open>collectBaseElements\<close> visits, in the order of the fields of the structs. The fields of
  a struct that embeds another are visited too, under the same id, which is registered already. The
  activity embedded in a sub-process is the one exception; its id is empty (the decoder fills the id of
  the process) and an empty id is never looked up.
\<close>

fun base_elems :: "TFlowElementsContainer \<Rightarrow> BaseElement list"
  and base_elems_subs :: "TSubProcess list \<Rightarrow> BaseElement list" where
  "base_elems (FlowElements st en sf sv ut br se pg eg eb ig ic it ca be sp un) =
     map (BNode \<circ> FStartEvent) st @ map (BNode \<circ> FEndEvent) en @ map BFlow sf @
     map (BNode \<circ> FServiceTask) sv @ map (BNode \<circ> FUserTask) ut @
     map (BNode \<circ> FBusinessRuleTask) br @ map (BNode \<circ> FSendTask) se @
     map (BNode \<circ> FParallelGateway) pg @ map (BNode \<circ> FExclusiveGateway) eg @
     map (BNode \<circ> FEventBasedGateway) eb @ map (BNode \<circ> FInclusiveGateway) ig @
     map (BNode \<circ> FIntermediateCatchEvent) ic @ map (BNode \<circ> FIntermediateThrowEvent) it @
     map (BNode \<circ> FCallActivity) ca @ map (BNode \<circ> FBoundaryEvent) be @ base_elems_subs sp"
| "base_elems_subs [] = []"
| "base_elems_subs (TSubProcess j a c # sps) =
     BNode (FSubProcess (TSubProcess j a c)) # base_elems c @ base_elems_subs sps"

definition collectBaseElements :: "TDefinitions \<Rightarrow> BaseElement list" where
  "collectBaseElements d =
     BDefinitions (def_Id d) # BProcess (proc_Id (def_Process d)) #
     base_elems (proc_Container (def_Process d))"

definition lookup_ref :: "BaseElement list \<Rightarrow> string \<Rightarrow> BaseElement option" where
  "lookup_ref es i = List.find (\<lambda>e. base_id e = i) es"

text \<open>
  The resolving closures of \<^verbatim>\<open>makeResolvable\<close>. For a slice the errors of missing ids are joined; an
  element of a wrong type makes the error message call \<^verbatim>\<open>Elem\<close> on the slice, which panics.
\<close>

fun resolve_slice :: "BaseElement list \<Rightarrow> string list \<Rightarrow> error option \<Rightarrow> unit res" where
  "resolve_slice es [] errs = (case errs of None \<Rightarrow> Ok () | Some e \<Rightarrow> Err e)"
| "resolve_slice es (i # is) errs =
     (if i = [] then resolve_slice es is errs
      else case lookup_ref es i of
        None \<Rightarrow>
          (let e = ErrorfArgs ''no registered BaseElement with ID'' [i]
           in resolve_slice es is (Some (case errs of None \<Rightarrow> e | Some e0 \<Rightarrow> Joined e0 e)))
      | Some (BFlow _) \<Rightarrow> resolve_slice es is errs
      | Some _ \<Rightarrow> Panic ''reflect: call of reflect.Value.Elem on slice Value'')"

fun is_node :: "BaseElement \<Rightarrow> bool" where
  "is_node (BNode _) = True"
| "is_node _ = False"

fun is_flow :: "BaseElement \<Rightarrow> bool" where
  "is_flow (BFlow _) = True"
| "is_flow _ = False"

definition resolve_single :: "(BaseElement \<Rightarrow> bool) \<Rightarrow> BaseElement list \<Rightarrow> string \<Rightarrow> unit res" where
  "resolve_single assignable es i =
     (if i = [] then Ok ()
      else case lookup_ref es i of
        None \<Rightarrow> Err (ErrorfArgs ''no registered BaseElement with ID'' [i])
      | Some e \<Rightarrow> if assignable e then Ok ()
                  else Err (ErrorfArgs ''resolved reference is not assignable'' [i]))"

fun first_failure :: "unit res list \<Rightarrow> unit res" where
  "first_failure [] = Ok ()"
| "first_failure (Ok _ # rs) = first_failure rs"
| "first_failure (r # rs) = r"

fun default_flow_id :: "FlowNode \<Rightarrow> string" where
  "default_flow_id (FExclusiveGateway g) = DefaultFlowId g"
| "default_flow_id (FInclusiveGateway g) = DefaultFlowId g"
| "default_flow_id _ = []"

fun resolvables :: "BaseElement list \<Rightarrow> BaseElement \<Rightarrow> unit res list" where
  "resolvables es (BFlow f) =
     [resolve_single is_node es (SourceRefId f), resolve_single is_node es (TargetRefId f)]"
| "resolvables es (BNode n) =
     [resolve_slice es (IncomingAssociationsIDs (node_base n)) None,
      resolve_slice es (OutgoingAssociationsIDs (node_base n)) None,
      resolve_single is_flow es (default_flow_id n)]"
| "resolvables es _ = []"

text \<open>What the closures store: a resolved flow, the flows of a node, the default flow of a gateway.\<close>

definition ref_id :: "string \<Rightarrow> string option" where
  "ref_id i = (if i = [] then None else Some i)"

definition set_flow :: "TSequenceFlow \<Rightarrow> TSequenceFlow" where
  "set_flow f = f\<lparr>SourceRef := ref_id (SourceRefId f), TargetRef := ref_id (TargetRefId f)\<rparr>"

definition find_flow :: "BaseElement list \<Rightarrow> string \<Rightarrow> TSequenceFlow option" where
  "find_flow es i =
     (if i = [] then None
      else case lookup_ref es i of Some (BFlow f) \<Rightarrow> Some (set_flow f) | _ \<Rightarrow> None)"

definition set_node :: "BaseElement list \<Rightarrow> ('z) TFlowNode_scheme \<Rightarrow> ('z) TFlowNode_scheme" where
  "set_node es n = n\<lparr>IncomingAssociations := List.map_filter (find_flow es) (IncomingAssociationsIDs n),
                     OutgoingAssociations := List.map_filter (find_flow es) (OutgoingAssociationsIDs n)\<rparr>"

definition set_gateway :: "BaseElement list \<Rightarrow> TDefaultFlowGateway \<Rightarrow> TDefaultFlowGateway" where
  "set_gateway es g = (set_node es g)\<lparr>DefaultFlow := find_flow es (DefaultFlowId g)\<rparr>"

fun set_container :: "BaseElement list \<Rightarrow> TFlowElementsContainer \<Rightarrow> TFlowElementsContainer"
  and set_subs :: "BaseElement list \<Rightarrow> TSubProcess list \<Rightarrow> TSubProcess list" where
  "set_container es (FlowElements st en sf sv ut br se pg eg eb ig ic it ca be sp un) =
     FlowElements (map (set_node es) st) (map (set_node es) en) (map set_flow sf)
       (map (set_node es) sv) (map (set_node es) ut) (map (set_node es) br) (map (set_node es) se)
       (map (set_node es) pg) (map (set_gateway es) eg) (map (set_node es) eb)
       (map (set_gateway es) ig) (map (set_node es) ic) (map (set_node es) it)
       (map (set_node es) ca) (map (set_node es) be) (set_subs es sp) un"
| "set_subs es [] = []"
| "set_subs es (TSubProcess j a c # sps) =
     TSubProcess j (set_node es a) (set_container es c) # set_subs es sps"

fun collectUnknownElements :: "TFlowElementsContainer \<Rightarrow> (string \<times> string) list"
  and collectUnknown_subs :: "TSubProcess list \<Rightarrow> (string \<times> string) list" where
  "collectUnknownElements (FlowElements st en sf sv ut br se pg eg eb ig ic it ca be sp un) =
     map (\<lambda>e. (XMLName e, unk_Id e))
       (filter (\<lambda>e. unk_Incoming e \<noteq> [] \<or> unk_Outgoing e \<noteq> []) un) @ collectUnknown_subs sp"
| "collectUnknown_subs [] = []"
| "collectUnknown_subs (TSubProcess j a c # sps) = collectUnknownElements c @ collectUnknown_subs sps"

text \<open>Go picks an arbitrary type name among the unsupported ones; the model picks the first.\<close>

definition ResolveReferences :: "TDefinitions \<Rightarrow> TDefinitions res" where
  "ResolveReferences d =
     (let c = proc_Container (def_Process d);
          byType = collectUnknownElements c;
          es = collectBaseElements d
      in if byType \<noteq> []
         then Err (ErrorfArgs ''unsupported element type'' [fst (hd byType)])
         else case first_failure (concat (map (resolvables es) es)) of
           Ok _ \<Rightarrow> Ok (d\<lparr>def_Process := (def_Process d)\<lparr>proc_Container := set_container es c\<rparr>\<rparr>)
         | Err e \<Rightarrow> Err (Wrapf ''failed to resolve references'' e)
         | Panic m \<Rightarrow> Panic m
         | Blocked \<Rightarrow> Blocked
         | NoFuel \<Rightarrow> NoFuel)"

subsection \<open>What resolution establishes\<close>

text \<open>The effect of \<^term>\<open>set_container\<close> on one element of the traversal.\<close>

fun set_nd :: "BaseElement list \<Rightarrow> FlowNode \<Rightarrow> FlowNode" where
  "set_nd es (FStartEvent n) = FStartEvent (set_node es n)"
| "set_nd es (FEndEvent n) = FEndEvent (set_node es n)"
| "set_nd es (FServiceTask n) = FServiceTask (set_node es n)"
| "set_nd es (FUserTask n) = FUserTask (set_node es n)"
| "set_nd es (FBusinessRuleTask n) = FBusinessRuleTask (set_node es n)"
| "set_nd es (FSendTask n) = FSendTask (set_node es n)"
| "set_nd es (FParallelGateway n) = FParallelGateway (set_node es n)"
| "set_nd es (FExclusiveGateway n) = FExclusiveGateway (set_gateway es n)"
| "set_nd es (FEventBasedGateway n) = FEventBasedGateway (set_node es n)"
| "set_nd es (FInclusiveGateway n) = FInclusiveGateway (set_gateway es n)"
| "set_nd es (FIntermediateCatchEvent n) = FIntermediateCatchEvent (set_node es n)"
| "set_nd es (FIntermediateThrowEvent n) = FIntermediateThrowEvent (set_node es n)"
| "set_nd es (FCallActivity n) = FCallActivity (set_node es n)"
| "set_nd es (FSubProcess n) =
     FSubProcess (TSubProcess (sp_Id n) (set_node es (sp_Activity n)) (set_container es (sp_Container n)))"
| "set_nd es (FBoundaryEvent n) = FBoundaryEvent (set_node es n)"

fun set_elem :: "BaseElement list \<Rightarrow> BaseElement \<Rightarrow> BaseElement" where
  "set_elem es (BFlow f) = BFlow (set_flow f)"
| "set_elem es (BNode n) = BNode (set_nd es n)"
| "set_elem es e = e"

lemma set_node_sel [simp]:
  "fn_Id (set_node es n) = fn_Id n"
  "IncomingAssociationsIDs (set_node es n) = IncomingAssociationsIDs n"
  "OutgoingAssociationsIDs (set_node es n) = OutgoingAssociationsIDs n"
  by (simp_all add: set_node_def)

lemma node_base_set_nd [simp]: "node_base (set_nd es n) = set_node es (node_base n)"
  by (cases n) (simp_all add: set_node_def set_gateway_def TFlowNode.truncate_def)

lemma base_id_set_elem [simp]: "base_id (set_elem es e) = base_id e"
  by (cases e) (simp_all add: set_flow_def GetId_def)

lemma base_elems_set:
  "base_elems (set_container es c) = map (set_elem es) (base_elems c)"
  "base_elems_subs (set_subs es sps) = map (set_elem es) (base_elems_subs sps)"
  by (induction es c and es sps rule: set_container_set_subs.induct) simp_all

lemma lookup_ref_map: "lookup_ref (map (set_elem es') es) i = map_option (set_elem es') (lookup_ref es i)"
  by (induction es) (auto simp: lookup_ref_def)

lemma is_node_set_elem [simp]: "is_node (set_elem es e) = is_node e"
  by (cases e) auto

lemma set_elem_eq:
  "BNode n = set_elem es e \<longleftrightarrow> (\<exists>m. e = BNode m \<and> n = set_nd es m)"
  "BFlow f = set_elem es e \<longleftrightarrow> (\<exists>g. e = BFlow g \<and> f = set_flow g)"
  by (cases e; auto)+

lemma first_failure_Ok: "first_failure rs = Ok u \<longleftrightarrow> (\<forall>r \<in> set rs. r = Ok ())"
  by (induction rs rule: first_failure.induct) auto

lemma resolve_slice_Ok:
  "resolve_slice es is errs = Ok u \<longleftrightarrow>
     errs = None \<and> (\<forall>i \<in> set is. i \<noteq> [] \<longrightarrow> (\<exists>f. lookup_ref es i = Some (BFlow f)))"
  by (induction es "is" errs rule: resolve_slice.induct)
    (auto simp: Let_def split: option.splits BaseElement.splits)

lemma resolve_single_Ok:
  "resolve_single P es i = Ok u \<longleftrightarrow> i = [] \<or> (\<exists>e. lookup_ref es i = Some e \<and> P e)"
  by (auto simp: resolve_single_def split: option.splits)

lemma lookup_ref_id: "lookup_ref es i = Some e \<Longrightarrow> base_id e = i \<and> e \<in> set es"
  by (auto simp: lookup_ref_def find_Some_iff)

text \<open>The ids of the flows stored in a slice are the ids written in the document.\<close>

lemma map_filter_find_flow:
  assumes "\<forall>i \<in> set is. i \<noteq> [] \<longrightarrow> (\<exists>f. lookup_ref es i = Some (BFlow f))"
  shows "map sf_Id (List.map_filter (find_flow es) is) = filter (\<lambda>i. i \<noteq> []) is"
  using assms
proof (induction "is")
  case Nil
  then show ?case by (simp add: map_filter_simps)
next
  case (Cons i "is")
  show ?case
  proof (cases "i = []")
    case True
    with Cons show ?thesis by (simp add: map_filter_simps find_flow_def)
  next
    case False
    with Cons.prems obtain f where f: "lookup_ref es i = Some (BFlow f)" by auto
    then have "sf_Id f = i" using lookup_ref_id by fastforce
    with False f Cons show ?thesis
      by (simp add: map_filter_simps find_flow_def set_flow_def)
  qed
qed

lemma find_flow_target:
  "find_flow es i = Some f \<Longrightarrow> TargetRef f = ref_id (TargetRefId f) \<and> SourceRef f = ref_id (SourceRefId f)"
  by (auto simp: find_flow_def set_flow_def split: if_splits option.splits BaseElement.splits)

lemma map_filter_mem: "y \<in> set (List.map_filter f xs) \<Longrightarrow> \<exists>x \<in> set xs. f x = Some y"
  by (auto simp: List.map_filter_def)

lemma ResolveReferences_OkD:
  assumes "ResolveReferences d = Ok d'"
  defines "es \<equiv> collectBaseElements d"
  shows "collectUnknownElements (proc_Container (def_Process d)) = []"
    and "\<forall>e \<in> set es. \<forall>r \<in> set (resolvables es e). r = Ok ()"
    and "collectBaseElements d' = map (set_elem es) es"
  using assms(1)
  by (auto simp: ResolveReferences_def Let_def first_failure_Ok es_def collectBaseElements_def
      base_elems_set split: if_splits res.splits)

lemma resolved_node:
  assumes d': "ResolveReferences d = Ok d'"
    and n: "BNode n \<in> set (collectBaseElements d')"
  shows "map sf_Id (GetOutgoingAssociation n) = filter (\<lambda>i. i \<noteq> []) (OutgoingAssociationsIDs (node_base n))"
    and "map sf_Id (GetIncomingAssociation n) = filter (\<lambda>i. i \<noteq> []) (IncomingAssociationsIDs (node_base n))"
    and "\<forall>f \<in> set (GetOutgoingAssociation n). TargetRef f = ref_id (TargetRefId f)"
proof -
  let ?es = "collectBaseElements d"
  note D = ResolveReferences_OkD [OF d']
  obtain m where m: "BNode m \<in> set ?es" "n = set_nd ?es m"
    using n D(3) by (auto simp: set_elem_eq)
  from D(2) m(1) have rs: "\<forall>r \<in> set (resolvables ?es (BNode m)). r = Ok ()"
    by blast
  then have out: "\<forall>i \<in> set (OutgoingAssociationsIDs (node_base m)). i \<noteq> [] \<longrightarrow> (\<exists>f. lookup_ref ?es i = Some (BFlow f))"
    and inc: "\<forall>i \<in> set (IncomingAssociationsIDs (node_base m)). i \<noteq> [] \<longrightarrow> (\<exists>f. lookup_ref ?es i = Some (BFlow f))"
    by (simp_all add: resolve_slice_Ok)
  show "map sf_Id (GetOutgoingAssociation n) = filter (\<lambda>i. i \<noteq> []) (OutgoingAssociationsIDs (node_base n))"
    using map_filter_find_flow [OF out] m(2) by (simp add: GetOutgoingAssociation_def set_node_def)
  show "map sf_Id (GetIncomingAssociation n) = filter (\<lambda>i. i \<noteq> []) (IncomingAssociationsIDs (node_base n))"
    using map_filter_find_flow [OF inc] m(2) by (simp add: GetIncomingAssociation_def set_node_def)
  show "\<forall>f \<in> set (GetOutgoingAssociation n). TargetRef f = ref_id (TargetRefId f)"
    using m(2) by (auto simp: GetOutgoingAssociation_def set_node_def find_flow_target dest!: map_filter_mem)
qed

lemma resolved_flow:
  assumes d': "ResolveReferences d = Ok d'"
    and f: "BFlow f \<in> set (collectBaseElements d')"
    and t: "TargetRef f = Some i"
  shows "i = TargetRefId f \<and> (\<exists>n. lookup_ref (collectBaseElements d') i = Some (BNode n) \<and> GetId n = i)"
proof -
  let ?es = "collectBaseElements d"
  note D = ResolveReferences_OkD [OF d']
  obtain g where g: "BFlow g \<in> set ?es" "f = set_flow g"
    using f D(3) by (auto simp: set_elem_eq)
  with t have i: "i \<noteq> []" "i = TargetRefId g"
    by (auto simp: set_flow_def ref_id_def split: if_splits)
  from D(2) g(1) have "resolve_single is_node ?es (TargetRefId g) = Ok ()"
    by force
  with i obtain e where e: "lookup_ref ?es i = Some e" "is_node e"
    by (auto simp: resolve_single_Ok)
  then obtain n where n: "lookup_ref (collectBaseElements d') i = Some (BNode n)"
    by (cases e) (auto simp: D(3) lookup_ref_map)
  then show ?thesis
    using i(2) g(2) lookup_ref_id [OF n] by (simp add: set_flow_def)
qed

text \<open>The node a flow leads to (\<^verbatim>\<open>GetTargetRef\<close>); \<open>None\<close> is the nil interface.\<close>

definition GetTargetRef :: "TDefinitions \<Rightarrow> TSequenceFlow \<Rightarrow> FlowNode option" where
  "GetTargetRef d f =
     (case TargetRef f of
        None \<Rightarrow> None
      | Some i \<Rightarrow> (case lookup_ref (collectBaseElements d) i of Some (BNode n) \<Rightarrow> Some n | _ \<Rightarrow> None))"

lemma GetTargetRef_id: "GetTargetRef d f = Some n \<Longrightarrow> TargetRef f = Some (GetId n)"
  by (auto simp: GetTargetRef_def dest!: lookup_ref_id split: option.splits BaseElement.splits)

end
