(* ===== verification/Runtime_Types.thy ===== *)
theory Runtime_Types
  imports Bpmn_Model
begin

text \<open>
  The runtime records of \<^verbatim>\<open>pkg/bpmn/runtime\<close> (\<^verbatim>\<open>types.go\<close>, \<^verbatim>\<open>varholder.go\<close>): process definitions, the four
  kinds of process instances, execution tokens, jobs, timers, message subscriptions, history rows and
  incidents, and the variable holder through which variables enter and leave the scope of an activity.

  Go's \<^verbatim>\<open>iota\<close> enumerations start at the unnamed zero value, which is the constructor ending in \<open>Zero\<close>.
  Points in time are integers, the zero time is 0. A nil map of variables is the empty map: both read
  the same, and no code writes to a nil map.

  The lemmas give the result of the output mappings in closed form and show that nothing but the
  mapped targets changes in the parent scope.
\<close>

section \<open>Runtime records\<close>

record ProcessDefinition =
  pd_BpmnProcessId :: string
  pd_Version :: int
  pd_Key :: int
  pd_Definitions :: TDefinitions
  pd_BpmnData :: string
  pd_BpmnProcessName :: string
  pd_BpmnChecksum :: int

datatype ProcessType =
    ProcessTypeDefault | ProcessTypeSubProcess | ProcessTypeCallActivity | ProcessTypeMultiInstance

datatype ActivityState =
    ActivityStateZero
  | ActivityStateActive | ActivityStateCompensated | ActivityStateCompensating
  | ActivityStateCompleted | ActivityStateCompleting | ActivityStateFailed | ActivityStateFailing
  | ActivityStateReady | ActivityStateTerminated | ActivityStateTerminating | ActivityStateWithdrawn

datatype TimerState =
  TimerStateZero | TimerStateCreated | TimerStateTriggered | TimerStateCancelled

datatype TokenState =
    TokenStateZero
  | TokenStateRunning | TokenStateWaiting | TokenStateCompleted | TokenStateCanceled | TokenStateFailed

record ExecutionToken =
  tok_Key :: int
  tok_ElementInstanceKey :: int
  tok_ElementId :: string
  tok_ProcessInstanceKey :: int
  tok_State :: TokenState
  tok_CreatedAt :: int

text \<open>
  The four structs that implement \<^verbatim>\<open>ProcessInstance\<close> embed \<^verbatim>\<open>ProcessInstanceData\<close>: the record holds
  the data, \<open>pi_Kind\<close> what the struct adds (parent token, parent element instance, parent element).
  \<open>pi_Variables\<close> are the local variables of the instance's variable holder.
\<close>

datatype instance_kind =
    DefaultProcessInstance
  | SubProcessInstance ExecutionToken int string
  | MultiInstanceInstance ExecutionToken int string
  | CallActivityInstance ExecutionToken int

record ProcessInstance =
  pi_Kind :: instance_kind
  pi_Definition :: ProcessDefinition
  pi_Key :: int
  pi_BusinessKey :: "string option"
  pi_Variables :: vars
  pi_CreatedAt :: int
  pi_State :: ActivityState

fun kind_Type :: "instance_kind \<Rightarrow> ProcessType" where
  "kind_Type DefaultProcessInstance = ProcessTypeDefault"
| "kind_Type (SubProcessInstance _ _ _) = ProcessTypeSubProcess"
| "kind_Type (MultiInstanceInstance _ _ _) = ProcessTypeMultiInstance"
| "kind_Type (CallActivityInstance _ _) = ProcessTypeCallActivity"

definition Type :: "ProcessInstance \<Rightarrow> ProcessType" where
  "Type i = kind_Type (pi_Kind i)"

fun kind_parent_token :: "instance_kind \<Rightarrow> ExecutionToken option" where
  "kind_parent_token DefaultProcessInstance = None"
| "kind_parent_token (SubProcessInstance t _ _) = Some t"
| "kind_parent_token (MultiInstanceInstance t _ _) = Some t"
| "kind_parent_token (CallActivityInstance t _) = Some t"

fun kind_set_parent_token :: "ExecutionToken \<Rightarrow> instance_kind \<Rightarrow> instance_kind" where
  "kind_set_parent_token t DefaultProcessInstance = DefaultProcessInstance"
| "kind_set_parent_token t (SubProcessInstance _ k i) = SubProcessInstance t k i"
| "kind_set_parent_token t (MultiInstanceInstance _ k i) = MultiInstanceInstance t k i"
| "kind_set_parent_token t (CallActivityInstance _ k) = CallActivityInstance t k"

definition GetParentProcessInstanceKey :: "ProcessInstance \<Rightarrow> int option" where
  "GetParentProcessInstanceKey i = map_option tok_ProcessInstanceKey (kind_parent_token (pi_Kind i))"

record MessageSubscription =
  ms_Key :: int
  ms_ElementId :: string
  ms_ProcessDefinitionKey :: int
  ms_ProcessInstanceKey :: int
  ms_Name :: string
  ms_CorrelationKey :: string
  ms_State :: ActivityState
  ms_CreatedAt :: int
  ms_Token :: ExecutionToken

record Timer =
  tm_ElementId :: string
  tm_Key :: int
  tm_ElementInstanceKey :: int
  tm_ProcessDefinitionKey :: int
  tm_ProcessInstanceKey :: int
  tm_State :: TimerState
  tm_CreatedAt :: int
  tm_DueAt :: int
  tm_Duration :: int
  tm_Token :: ExecutionToken

record Job =
  job_ElementId :: string
  job_ElementInstanceKey :: int
  job_ProcessInstanceKey :: int
  job_Key :: int
  job_State :: ActivityState
  job_Type :: string
  job_Variables :: vars
  job_CreatedAt :: int
  job_Token :: ExecutionToken
  job_Assignee :: "string option"

record FlowElementInstance =
  fe_Key :: int
  fe_ProcessInstanceKey :: int
  fe_ElementId :: string
  fe_CreatedAt :: int
  fe_ExecutionTokenKey :: int
  fe_InputVariables :: vars
  fe_OutputVariables :: vars

record Incident =
  inc_Key :: int
  inc_ElementInstanceKey :: int
  inc_ElementId :: string
  inc_ProcessInstanceKey :: int
  inc_Message :: error
  inc_CreatedAt :: int
  inc_ResolvedAt :: "int option"
  inc_Token :: ExecutionToken

text \<open>The zero values Go returns beside an error or for a missing map entry.\<close>

definition zero_Token :: ExecutionToken where
  "zero_Token = \<lparr>tok_Key = 0, tok_ElementInstanceKey = 0, tok_ElementId = [],
     tok_ProcessInstanceKey = 0, tok_State = TokenStateZero, tok_CreatedAt = 0\<rparr>"

definition zero_FlowElementInstance :: FlowElementInstance where
  "zero_FlowElementInstance = \<lparr>fe_Key = 0, fe_ProcessInstanceKey = 0, fe_ElementId = [],
     fe_CreatedAt = 0, fe_ExecutionTokenKey = 0, fe_InputVariables = Map.empty,
     fe_OutputVariables = Map.empty\<rparr>"

text \<open>
  \<^verbatim>\<open>Timer.GetState\<close> panics (\<open>None\<close>) on the zero state; \<^verbatim>\<open>EqualTo\<close> compares times up to a
  millisecond, so it is parameterised by the truncation.
\<close>

fun Timer_GetState :: "TimerState \<Rightarrow> ActivityState option" where
  "Timer_GetState TimerStateCreated = Some ActivityStateActive"
| "Timer_GetState TimerStateTriggered = Some ActivityStateCompleted"
| "Timer_GetState TimerStateCancelled = Some ActivityStateWithdrawn"
| "Timer_GetState TimerStateZero = None"

definition truncate_ms :: "int \<Rightarrow> int" where
  "truncate_ms t = t - t mod 1000000"

definition Timer_EqualTo :: "Timer \<Rightarrow> Timer \<Rightarrow> bool" where
  "Timer_EqualTo t t2 \<longleftrightarrow>
     tm_Key t = tm_Key t2 \<and> tm_ElementId t = tm_ElementId t2 \<and>
     tm_ProcessDefinitionKey t = tm_ProcessDefinitionKey t2 \<and> tm_State t = tm_State t2 \<and>
     truncate_ms (tm_CreatedAt t) = truncate_ms (tm_CreatedAt t2) \<and>
     truncate_ms (tm_DueAt t) = truncate_ms (tm_DueAt t2) \<and>
     tm_Duration t = tm_Duration t2 \<and> tm_Token t = tm_Token t2"

definition MessageSubscription_EqualTo :: "MessageSubscription \<Rightarrow> MessageSubscription \<Rightarrow> bool" where
  "MessageSubscription_EqualTo m m2 \<longleftrightarrow>
     ms_ElementId m = ms_ElementId m2 \<and> ms_Key m = ms_Key m2 \<and>
     ms_ProcessDefinitionKey m = ms_ProcessDefinitionKey m2 \<and>
     ms_ProcessInstanceKey m = ms_ProcessInstanceKey m2 \<and> ms_Name m = ms_Name m2 \<and>
     ms_State m = ms_State m2 \<and>
     truncate_ms (ms_CreatedAt m) = truncate_ms (ms_CreatedAt m2)"

lemma keeps_case_kind [keeps_rules]:
  "keeps v a \<Longrightarrow> (\<And>x y z. keeps v (b x y z)) \<Longrightarrow> (\<And>x y z. keeps v (c x y z)) \<Longrightarrow> (\<And>x y. keeps v (d x y)) \<Longrightarrow>
   keeps v (case k of DefaultProcessInstance \<Rightarrow> a | SubProcessInstance x y z \<Rightarrow> b x y z
     | MultiInstanceInstance x y z \<Rightarrow> c x y z | CallActivityInstance x y \<Rightarrow> d x y)"
  by (cases k) auto

definition is_final :: "ActivityState \<Rightarrow> bool" where
  "is_final s \<longleftrightarrow> s = ActivityStateCompleted \<or> s = ActivityStateTerminated"

section \<open>Variable holders\<close>

text \<open>
  A holder points to its parent holder, of which only the local variables are ever read or written:
  \<open>vh_parent\<close> holds them, and whoever built the holder stores them back into the parent.
\<close>

record VariableHolder =
  vh_parent :: "vars option"
  vh_localVariables :: vars

definition NewVariableHolder :: "vars option \<Rightarrow> vars option \<Rightarrow> VariableHolder" where
  "NewVariableHolder parent localVariables =
     \<lparr>vh_parent = parent,
      vh_localVariables =
        (case localVariables of
           Some vs \<Rightarrow> vs
         | None \<Rightarrow> (case parent of Some ps \<Rightarrow> ps | None \<Rightarrow> Map.empty))\<rparr>"

definition GetLocalVariable :: "VariableHolder \<Rightarrow> string \<Rightarrow> val" where
  "GetLocalVariable vh key = (case vh_localVariables vh key of Some v \<Rightarrow> v | None \<Rightarrow> VNil)"

definition SetLocalVariable :: "string \<Rightarrow> val \<Rightarrow> VariableHolder \<Rightarrow> VariableHolder" where
  "SetLocalVariable key v vh = vh\<lparr>vh_localVariables := (vh_localVariables vh)(key \<mapsto> v)\<rparr>"

definition DeleteLocalVariable :: "string \<Rightarrow> VariableHolder \<Rightarrow> VariableHolder" where
  "DeleteLocalVariable key vh = vh\<lparr>vh_localVariables := (vh_localVariables vh)(key := None)\<rparr>"

definition SetLocalVariables :: "vars \<Rightarrow> VariableHolder \<Rightarrow> VariableHolder" where
  "SetLocalVariables vs vh = vh\<lparr>vh_localVariables := vh_localVariables vh ++ vs\<rparr>"

definition PropagateVariable :: "string \<Rightarrow> val \<Rightarrow> VariableHolder \<Rightarrow> VariableHolder" where
  "PropagateVariable key v vh = vh\<lparr>vh_parent := map_option (\<lambda>p. p(key \<mapsto> v)) (vh_parent vh)\<rparr>"

definition PropagateVariables :: "vars \<Rightarrow> VariableHolder \<Rightarrow> VariableHolder" where
  "PropagateVariables vs vh = vh\<lparr>vh_parent := map_option (\<lambda>p. p ++ vs) (vh_parent vh)\<rparr>"

type_synonym evaluator = "string \<Rightarrow> vars \<Rightarrow> error + val"

fun set_mappings :: "evaluator \<Rightarrow> vars \<Rightarrow> TIoMapping list \<Rightarrow> VariableHolder \<Rightarrow> VariableHolder \<times> error option" where
  "set_mappings ev scope [] vh = (vh, None)"
| "set_mappings ev scope (m # ms) vh =
     (case ev (Source m) scope of
        Inl e \<Rightarrow> (vh, Some e)
      | Inr v \<Rightarrow> set_mappings ev scope ms (SetLocalVariable (Target m) v vh))"

definition EvaluateAndSetMappingsToLocalVariables ::
  "TIoMapping list \<Rightarrow> evaluator \<Rightarrow> VariableHolder \<Rightarrow> VariableHolder \<times> error option" where
  "EvaluateAndSetMappingsToLocalVariables mappings ev vh =
     (case vh_parent vh of
        None \<Rightarrow> (vh, None)
      | Some p \<Rightarrow> set_mappings ev p mappings vh)"

definition mergeLocalVariablesWithOutputVariables :: "vars \<Rightarrow> vars \<Rightarrow> vars" where
  "mergeLocalVariablesWithOutputVariables localVariables outputVariables =
     localVariables ++ outputVariables"

text \<open>The loop of \<^verbatim>\<open>PropagateOutputVariablesToParent\<close>: the mapped outputs so far and the parent's
  variables, which keep the assignments made before an expression failed.\<close>

fun propagate_mappings :: "evaluator \<Rightarrow> vars \<Rightarrow> TIoMapping list \<Rightarrow> vars \<Rightarrow> vars \<Rightarrow> vars \<times> (error + vars)" where
  "propagate_mappings ev scope [] out p = (p, Inr out)"
| "propagate_mappings ev scope (m # ms) out p =
     (case ev (Source m) scope of
        Inl e \<Rightarrow> (p, Inl e)
      | Inr v \<Rightarrow> propagate_mappings ev scope ms (out(Target m \<mapsto> v)) (p(Target m \<mapsto> v)))"

definition PropagateOutputVariablesToParent ::
  "TIoMapping list \<Rightarrow> vars \<Rightarrow> evaluator \<Rightarrow> VariableHolder \<Rightarrow> VariableHolder \<times> (error + vars)" where
  "PropagateOutputVariablesToParent mappings outputVariables ev vh =
     (case vh_parent vh of
        None \<Rightarrow> (vh, Inr Map.empty)
      | Some p \<Rightarrow>
          if mappings = [] then (vh\<lparr>vh_parent := Some (p ++ outputVariables)\<rparr>, Inr outputVariables)
          else
            (let localScope = mergeLocalVariablesWithOutputVariables (vh_localVariables vh) outputVariables;
                 r = propagate_mappings ev localScope mappings Map.empty p
             in (vh\<lparr>vh_parent := Some (fst r)\<rparr>, snd r)))"

subsection \<open>What the mappings compute\<close>

text \<open>The specification of a list of mappings in a scope: all values, or the first error.\<close>

fun eval_mappings :: "evaluator \<Rightarrow> vars \<Rightarrow> TIoMapping list \<Rightarrow> error + (string \<times> val) list" where
  "eval_mappings ev scope [] = Inr []"
| "eval_mappings ev scope (m # ms) =
     (case ev (Source m) scope of
        Inl e \<Rightarrow> Inl e
      | Inr v \<Rightarrow> (case eval_mappings ev scope ms of
                    Inl e \<Rightarrow> Inl e
                  | Inr kvs \<Rightarrow> Inr ((Target m, v) # kvs)))"

definition assign_all :: "(string \<times> val) list \<Rightarrow> vars \<Rightarrow> vars" where
  "assign_all kvs p = p ++ map_of (rev kvs)"

lemma assign_all_Nil [simp]: "assign_all [] p = p"
  by (simp add: assign_all_def)

lemma assign_all_Cons [simp]: "assign_all ((k, v) # kvs) p = assign_all kvs (p(k \<mapsto> v))"
  by (simp add: assign_all_def map_add_assoc [symmetric])

lemma assign_all_other: "k \<notin> fst ` set kvs \<Longrightarrow> assign_all kvs p k = p k"
  by (simp add: assign_all_def map_add_def map_of_eq_None_iff [THEN iffD2] split: option.splits)

lemma propagate_mappings_spec:
  "eval_mappings ev scope ms = Inr kvs \<Longrightarrow>
     propagate_mappings ev scope ms out p = (assign_all kvs p, Inr (assign_all kvs out))"
  by (induction ms arbitrary: out p kvs) (auto split: sum.splits)

lemma propagate_mappings_error:
  "eval_mappings ev scope ms = Inl e \<Longrightarrow> snd (propagate_mappings ev scope ms out p) = Inl e"
  by (induction ms arbitrary: out p) (auto split: sum.splits)

lemma eval_mappings_targets:
  "eval_mappings ev scope ms = Inr kvs \<Longrightarrow> map fst kvs = map Target ms"
  by (induction ms arbitrary: kvs) (auto split: sum.splits)

lemma propagate_mappings_frame:
  "k \<notin> Target ` set ms \<Longrightarrow> fst (propagate_mappings ev scope ms out p) k = p k"
  by (induction ms arbitrary: out p) (auto split: sum.splits)

lemma set_mappings_spec:
  "eval_mappings ev scope ms = Inr kvs \<Longrightarrow>
     set_mappings ev scope ms vh =
       (vh\<lparr>vh_localVariables := assign_all kvs (vh_localVariables vh)\<rparr>, None)"
  by (induction ms arbitrary: vh kvs) (auto simp: SetLocalVariable_def split: sum.splits)

lemma set_mappings_parent: "vh_parent (fst (set_mappings ev scope ms vh)) = vh_parent vh"
  by (induction ms arbitrary: vh) (auto simp: SetLocalVariable_def split: sum.splits)

lemma EvaluateAndSet_parent:
  "vh_parent (fst (EvaluateAndSetMappingsToLocalVariables ms ev vh)) = vh_parent vh"
  by (simp add: EvaluateAndSetMappingsToLocalVariables_def set_mappings_parent split: option.splits)

subsection \<open>Properties of the output mappings\<close>

text \<open>Propagating outputs to the parent: with output mappings, every mapping is evaluated in the local
  variables overlaid with the outputs; if all succeed the parent gets exactly the mapped targets (later
  mappings win) and the same assignments are returned; if one fails its error is returned; parent variables
  that are no target of a mapping are never touched, and without mappings the outputs themselves are
  copied.\<close>

theorem output_mappings_assign_targets_only:
  assumes "vh_parent vh = Some p" and "PropagateOutputVariablesToParent ms outs ev vh = (vh', res)"
  shows "if ms = [] then res = Inr outs \<and> vh_parent vh' = Some (p ++ outs)
    else (\<exists>p'. vh_parent vh' = Some p' \<and> (\<forall>k. k \<notin> Target ` set ms \<longrightarrow> p' k = p k) \<and>
      (case eval_mappings ev (vh_localVariables vh ++ outs) ms of
         Inl e \<Rightarrow> res = Inl e
       | Inr kvs \<Rightarrow> p' = assign_all kvs p \<and> res = Inr (assign_all kvs Map.empty) \<and> map fst kvs = map Target ms))"
proof (cases "ms = []")
  case True
  with assms show ?thesis by (auto simp: PropagateOutputVariablesToParent_def)
next
  case False
  let ?r = "propagate_mappings ev (vh_localVariables vh ++ outs) ms Map.empty p"
  from False assms have v: "vh_parent vh' = Some (fst ?r)" "res = snd ?r"
    by (auto simp: PropagateOutputVariablesToParent_def mergeLocalVariablesWithOutputVariables_def Let_def)
  show ?thesis
  proof (cases "eval_mappings ev (vh_localVariables vh ++ outs) ms")
    case (Inl e)
    with v False propagate_mappings_error [OF Inl, of Map.empty p] show ?thesis
      by (auto simp: propagate_mappings_frame)
  next
    case (Inr kvs)
    have t: "fst ` set kvs = Target ` set ms"
      using eval_mappings_targets [OF Inr] by (metis list.set_map)
    from Inr v False propagate_mappings_spec [OF Inr, of Map.empty p] eval_mappings_targets [OF Inr]
    show ?thesis by (auto simp: assign_all_other t)
  qed
qed

theorem output_mappings_assign_targets_only_witness:
  "fst (PropagateOutputVariablesToParent [\<lparr>Source = ''x'', Target = ''y''\<rparr>] [''x'' \<mapsto> VNum 7]
      (\<lambda>e vs. case vs e of Some v \<Rightarrow> Inr v | None \<Rightarrow> Inl ErrNotFound)
      \<lparr>vh_parent = Some [''z'' \<mapsto> VNum 1], vh_localVariables = Map.empty\<rparr>) =
    \<lparr>vh_parent = Some [''z'' \<mapsto> VNum 1, ''y'' \<mapsto> VNum 7], vh_localVariables = Map.empty\<rparr>"
  (is "fst (PropagateOutputVariablesToParent ?ms ?outs ?ev ?vh) = _")
proof -
  obtain vh' res where p: "PropagateOutputVariablesToParent ?ms ?outs ?ev ?vh = (vh', res)"
    by (cases "PropagateOutputVariablesToParent ?ms ?outs ?ev ?vh")
  have "vh_parent ?vh = Some [''z'' \<mapsto> VNum 1]" by simp
  from output_mappings_assign_targets_only [OF this p] have "vh_parent vh' = Some [''z'' \<mapsto> VNum 1, ''y'' \<mapsto> VNum 7]"
    by simp
  moreover have "vh_localVariables vh' = Map.empty"
    using p by (auto simp: PropagateOutputVariablesToParent_def Let_def)
  ultimately show ?thesis using p by simp
qed

end
