(* ===== verification/Dmn_Model.thy ===== *)
theory Dmn_Model
  imports Zen_Prelude "HOL-Library.AList" "HOL-Library.Word"
begin

text \<open>
  Decision models (\<^verbatim>\<open>pkg/dmn/model/dmn/dmn_model.go\<close>): decisions with their requirements and their logic, a decision
  table, a literal expression or a context of named entries. A Go pointer that may be nil is an option. The
  diagram part of a file plays no role in evaluation and is left out.
\<close>

section \<open>Values\<close>

text \<open>
  Values the FEEL runtime returns, with the Go types the engine distinguishes. Floating point numbers are only passed
  on, so that their bits are enough. A Go map is an association list.
\<close>

datatype dval =
    DNil
  | DBool bool
  | DStr string
  | DInt int
  | DInt64 int
  | DFloat64 "64 word"
  | DTime int
  | DException string
  | DList "dval list"
  | DMap "(string \<times> dval) list"

type_synonym dvars = "string \<Rightarrow> dval option"

section \<open>Elements\<close>

record TInputExpression =
  ie_Id :: string
  ie_TypeRef :: string
  ie_Text :: string

record TInput =
  in_Id :: string
  in_Label :: string
  in_InputExpression :: TInputExpression

record TOutput =
  out_Id :: string
  out_Label :: string
  out_Name :: string
  out_TypeRef :: string

record TInputEntry =
  ient_Id :: string
  ient_Text :: string

record TOutputEntry =
  oent_Id :: string
  oent_Text :: string

record TRule =
  rule_Id :: string
  rule_InputEntry :: "TInputEntry list"
  rule_OutputEntry :: "TOutputEntry list"

text \<open>Every other string is treated like a missing hit policy, as unique.\<close>

datatype HitPolicy = HitPolicyCollect | HitPolicyFirst | HitPolicyPriority | HitPolicyAny | HitPolicyRuleOrder
  | HitPolicyOutputOrder | HitPolicyOther string

datatype HitPolicyAggregation = HitPolicyAggregationSum | HitPolicyAggregationMin | HitPolicyAggregationMax
  | HitPolicyAggregationCount | HitPolicyAggregationOther string

record TDecisionTable =
  dt_Id :: string
  dt_HitPolicy :: HitPolicy
  dt_HitPolicyAggregation :: HitPolicyAggregation
  dt_Inputs :: "TInput list"
  dt_Outputs :: "TOutput list"
  dt_Rules :: "TRule list"

record TVariable =
  var_Id :: string
  var_Name :: string
  var_TypeRef :: string

record TLiteralExpression =
  le_Id :: string
  le_ExpressionLanguage :: string
  le_Text :: string

datatype TContext = TContext (ContextEntries: "TContextEntry list")
  and TContextEntry = TContextEntry
    (ce_DecisionTable: "TDecisionTable option")
    (ce_Variable: "TVariable option")
    (ce_LiteralExpression: "TLiteralExpression option")
    (ce_Context: "TContext option")

text \<open>A requirement whose element names neither a decision nor an input stays nil.\<close>

datatype TRequiredResource = TRequiredDecision string | TRequiredInput string | NoRequiredResource

record TInformationRequirement =
  req_Id :: string
  req_RequiredResource :: TRequiredResource

definition TInformationRequirement_UnmarshalXML :: "string \<Rightarrow> string \<Rightarrow> string \<Rightarrow> TInformationRequirement" where
  "TInformationRequirement_UnmarshalXML i decisionHref inputHref =
     \<lparr>req_Id = i, req_RequiredResource =
        (if decisionHref \<noteq> [] then TRequiredDecision decisionHref
         else if inputHref \<noteq> [] then TRequiredInput inputHref
         else NoRequiredResource)\<rparr>"

record TDecision =
  dec_Id :: string
  dec_Name :: string
  dec_DecisionTable :: "TDecisionTable option"
  dec_Variable :: "TVariable option"
  dec_LiteralExpression :: "TLiteralExpression option"
  dec_Context :: "TContext option"
  dec_VersionTag :: string
  dec_InformationRequirement :: "TInformationRequirement list"

record TInputData =
  id_Id :: string
  id_Name :: string
  id_Variable :: TVariable

record dmn_TDefinitions =
  dmn_Id :: string
  dmn_Name :: string
  dmn_Decisions :: "TDecision list"
  dmn_InputData :: "TInputData list"

end
