(* ===== verification/In_Memory.thy ===== *)
theory In_Memory
  imports Runtime_Types Dmn_Model
begin

text \<open>
  The in-memory store of \<^verbatim>\<open>pkg/storage/inmemory/in_memory_repository.go\<close>, which \<^verbatim>\<open>NewEngine\<close> uses by
  default: one table per kind of row, the finders and writers over them, and the write batch.

  The table of process instances holds Go pointers. Instances live in a heap (a list of instances, a
  reference is an index into it) and the table holds references, so a change an engine function makes
  to a fetched instance is visible through the table before it is saved, as in the program. All other
  rows are copied, as in Go.

  A batch holds statements that run when it is flushed. The lemmas interpret the interface
  \<open>row_store\<close> of the prelude on each table, give the contents of a table after a run of statements, and
  describe what a failing flush leaves behind.
\<close>

section \<open>State\<close>

record DmnResourceDefinition =
  drd_Version :: int
  drd_Key :: int
  drd_Id :: string
  drd_Definitions :: dmn_TDefinitions
  drd_DmnData :: string
  drd_DmnDefinitionName :: string
  drd_DmnChecksum :: int

record DecisionDefinition =
  dd_Version :: int
  dd_Key :: int
  dd_Id :: string
  dd_VersionTag :: string
  dd_DmnResourceDefinitionId :: string
  dd_DmnResourceDefinitionKey :: int

record DecisionInstance =
  di_Key :: int
  di_ElementInstanceKey :: int
  di_ElementId :: string
  di_ProcessInstanceKey :: int
  di_ExecutionTokenKey :: int
  di_DecisionId :: string
  di_CreatedAt :: int
  di_OutputVariables :: string
  di_EvaluatedDecisions :: string
  di_DmnResourceDefinitionKey :: int
  di_DecisionDefinitionKey :: int

record Storage =
  DmnResourceDefinitions :: "DmnResourceDefinition table"
  DecisionDefinitions :: "DecisionDefinition table"
  DecisionInstances :: "DecisionInstance table"
  ProcessDefinitions :: "ProcessDefinition table"
  ProcessInstances :: "nat table"
  MessageSubscriptions :: "MessageSubscription table"
  Timers :: "Timer table"
  Jobs :: "Job table"
  ExecutionTokens :: "ExecutionToken table"
  FlowElementInstances :: "FlowElementInstance table"
  Incidents :: "Incident table"

type_synonym heap = "ProcessInstance list"

definition NewStorage :: Storage where
  "NewStorage = \<lparr>DmnResourceDefinitions = [], DecisionDefinitions = [], DecisionInstances = [],
     ProcessDefinitions = [], ProcessInstances = [], MessageSubscriptions = [], Timers = [], Jobs = [],
     ExecutionTokens = [], FlowElementInstances = [], Incidents = []\<rparr>"

definition or_not_found :: "'r option \<Rightarrow> error + 'r" where
  "or_not_found r = (case r of Some x \<Rightarrow> Inr x | None \<Rightarrow> Inl ErrNotFound)"

lemma or_not_found_simps [simp]:
  "or_not_found (Some x) = Inr x" "or_not_found None = Inl ErrNotFound"
  by (simp_all add: or_not_found_def)

lemma or_not_found_Inr [simp]: "or_not_found r = Inr x \<longleftrightarrow> r = Some x"
  by (cases r) auto

section \<open>Decisions\<close>

text \<open>\<^verbatim>\<open>slices.SortFunc(res, a.Version - b.Version)\<close> and then \<^verbatim>\<open>res[0]\<close>.\<close>

definition head_by_version :: "('r \<Rightarrow> int) \<Rightarrow> 'r list \<Rightarrow> error + 'r" where
  "head_by_version v rs = (case sort_key v rs of [] \<Rightarrow> Inl ErrNotFound | r # _ \<Rightarrow> Inr r)"

definition GetLatestDecisionDefinitionById :: "Storage \<Rightarrow> string \<Rightarrow> error + DecisionDefinition" where
  "GetLatestDecisionDefinitionById d i =
     head_by_version dd_Version (filter (\<lambda>r. dd_Id r = i) (trows (DecisionDefinitions d)))"

definition GetDecisionDefinitionsById :: "Storage \<Rightarrow> string \<Rightarrow> DecisionDefinition list" where
  "GetDecisionDefinitionsById d i = filter (\<lambda>r. dd_Id r = i) (trows (DecisionDefinitions d))"

definition GetLatestDecisionDefinitionByIdAndVersionTag ::
  "Storage \<Rightarrow> string \<Rightarrow> string \<Rightarrow> error + DecisionDefinition" where
  "GetLatestDecisionDefinitionByIdAndVersionTag d i tag =
     head_by_version dd_Version
       (filter (\<lambda>r. dd_Id r = i \<and> dd_VersionTag r = tag) (trows (DecisionDefinitions d)))"

definition GetLatestDecisionDefinitionByIdAndDmnResourceDefinitionId ::
  "Storage \<Rightarrow> string \<Rightarrow> string \<Rightarrow> error + DecisionDefinition" where
  "GetLatestDecisionDefinitionByIdAndDmnResourceDefinitionId d i ri =
     head_by_version dd_Version
       (filter (\<lambda>r. dd_Id r = i \<and> dd_DmnResourceDefinitionId r = ri) (trows (DecisionDefinitions d)))"

definition GetDecisionDefinitionByIdAndDmnResourceDefinitionKey ::
  "Storage \<Rightarrow> string \<Rightarrow> int \<Rightarrow> error + DecisionDefinition" where
  "GetDecisionDefinitionByIdAndDmnResourceDefinitionKey d i k =
     or_not_found (List.find (\<lambda>r. dd_Id r = i \<and> dd_DmnResourceDefinitionKey r = k)
       (trows (DecisionDefinitions d)))"

definition SaveDecisionDefinition :: "DecisionDefinition \<Rightarrow> Storage \<Rightarrow> Storage" where
  "SaveDecisionDefinition r d = d\<lparr>DecisionDefinitions := tput (dd_Key r) r (DecisionDefinitions d)\<rparr>"

definition SaveDmnResourceDefinition :: "DmnResourceDefinition \<Rightarrow> Storage \<Rightarrow> Storage" where
  "SaveDmnResourceDefinition r d =
     d\<lparr>DmnResourceDefinitions := tput (drd_Key r) r (DmnResourceDefinitions d)\<rparr>"

definition SaveDecisionInstance :: "DecisionInstance \<Rightarrow> Storage \<Rightarrow> Storage" where
  "SaveDecisionInstance r d = d\<lparr>DecisionInstances := tput (di_Key r) r (DecisionInstances d)\<rparr>"

definition FindDecisionInstanceByKey :: "Storage \<Rightarrow> int \<Rightarrow> error + DecisionInstance" where
  "FindDecisionInstanceByKey d k =
     or_not_found (List.find (\<lambda>r. di_Key r = k) (trows (DecisionInstances d)))"

definition FindLatestDmnResourceDefinitionById :: "Storage \<Rightarrow> string \<Rightarrow> error + DmnResourceDefinition" where
  "FindLatestDmnResourceDefinitionById d i =
     head_by_version drd_Version (filter (\<lambda>r. drd_Id r = i) (trows (DmnResourceDefinitions d)))"

definition FindDmnResourceDefinitionByKey :: "Storage \<Rightarrow> int \<Rightarrow> error + DmnResourceDefinition" where
  "FindDmnResourceDefinitionByKey d k = or_not_found (tget (DmnResourceDefinitions d) k)"

definition FindDmnResourceDefinitionsById :: "Storage \<Rightarrow> string \<Rightarrow> DmnResourceDefinition list" where
  "FindDmnResourceDefinitionsById d i =
     sort_key drd_Version (filter (\<lambda>r. drd_Id r = i) (trows (DmnResourceDefinitions d)))"

section \<open>Process definitions and instances\<close>

text \<open>The loop keeps a candidate whose version is the zero value until a definition was taken.\<close>

fun latest_loop :: "ProcessDefinition list \<Rightarrow> ProcessDefinition option \<Rightarrow> ProcessDefinition option" where
  "latest_loop [] res = res"
| "latest_loop (x # xs) res =
     (case res of
        Some r \<Rightarrow> if pd_Version r \<noteq> 0 \<and> pd_Version x < pd_Version r then latest_loop xs res
                  else latest_loop xs (Some x)
      | None \<Rightarrow> latest_loop xs (Some x))"

definition FindLatestProcessDefinitionById :: "Storage \<Rightarrow> string \<Rightarrow> error + ProcessDefinition" where
  "FindLatestProcessDefinitionById d i =
     or_not_found (latest_loop (filter (\<lambda>r. pd_BpmnProcessId r = i) (trows (ProcessDefinitions d))) None)"

definition FindProcessDefinitionByKey :: "Storage \<Rightarrow> int \<Rightarrow> error + ProcessDefinition" where
  "FindProcessDefinitionByKey d k = or_not_found (tget (ProcessDefinitions d) k)"

definition FindProcessDefinitionsById :: "Storage \<Rightarrow> string \<Rightarrow> ProcessDefinition list" where
  "FindProcessDefinitionsById d i =
     sort_key pd_Version (filter (\<lambda>r. pd_BpmnProcessId r = i) (trows (ProcessDefinitions d)))"

definition SaveProcessDefinition :: "ProcessDefinition \<Rightarrow> Storage \<Rightarrow> Storage" where
  "SaveProcessDefinition r d = d\<lparr>ProcessDefinitions := tput (pd_Key r) r (ProcessDefinitions d)\<rparr>"

definition FindProcessInstanceByKey :: "Storage \<Rightarrow> int \<Rightarrow> error + nat" where
  "FindProcessInstanceByKey d k = or_not_found (tget (ProcessInstances d) k)"

definition FindProcessInstancesByParentExecutionTokenKey :: "heap \<Rightarrow> Storage \<Rightarrow> int \<Rightarrow> nat list" where
  "FindProcessInstancesByParentExecutionTokenKey h d k =
     filter (\<lambda>r. r < length h \<and>
        map_option tok_Key (kind_parent_token (pi_Kind (h ! r))) = Some k) (trows (ProcessInstances d))"

definition SaveProcessInstance :: "heap \<Rightarrow> nat \<Rightarrow> Storage \<Rightarrow> Storage" where
  "SaveProcessInstance h r d = d\<lparr>ProcessInstances := tput (pi_Key (h ! r)) r (ProcessInstances d)\<rparr>"

text \<open>
  \<^verbatim>\<open>RefreshProcessInstance\<close> copies state and variables of the stored instance into the one passed in,
  and reads the parent token anew (a missing token is the zero token). The kind of the stored instance
  decides, and the instance passed in must be of that kind.
\<close>

definition RefreshProcessInstance :: "Storage \<Rightarrow> nat \<Rightarrow> heap \<Rightarrow> error + heap" where
  "RefreshProcessInstance d r h =
     (let inst = h ! r in
      case tget (ProcessInstances d) (pi_Key inst) of
        None \<Rightarrow> Inl ErrNotFound
      | Some r' \<Rightarrow>
          (let db = h ! r';
               inst' = inst\<lparr>pi_State := pi_State db, pi_Variables := pi_Variables db\<rparr>
           in case kind_parent_token (pi_Kind db) of
                None \<Rightarrow> Inr (h[r := inst'])
              | Some _ \<Rightarrow>
                  if kind_Type (pi_Kind inst) = kind_Type (pi_Kind db)
                  then (case kind_parent_token (pi_Kind inst) of
                          None \<Rightarrow> Inr (h[r := inst'])
                        | Some t \<Rightarrow>
                            (let parentToken = (case tget (ExecutionTokens d) (tok_Key t) of
                                                  Some t' \<Rightarrow> t' | None \<Rightarrow> zero_Token)
                             in Inr (h[r := inst'\<lparr>pi_Kind := kind_set_parent_token parentToken (pi_Kind inst)\<rparr>])))
                  else Inl (Errorf ''processInstance has a different type'')))"

section \<open>Timers\<close>

definition GetTimer :: "Storage \<Rightarrow> int \<Rightarrow> error + Timer" where
  "GetTimer d k = or_not_found (tget (Timers d) k)"

definition FindTokenActiveTimerSubscriptions :: "Storage \<Rightarrow> int \<Rightarrow> Timer list" where
  "FindTokenActiveTimerSubscriptions d tk =
     filter (\<lambda>t. tm_State t = TimerStateCreated \<and> tok_Key (tm_Token t) = tk) (trows (Timers d))"

definition FindProcessInstanceTimers :: "Storage \<Rightarrow> int \<Rightarrow> TimerState \<Rightarrow> Timer list" where
  "FindProcessInstanceTimers d pk st =
     filter (\<lambda>t. tm_ProcessInstanceKey t = pk \<and> tm_State t = st) (trows (Timers d))"

definition FindTimersTo :: "Storage \<Rightarrow> int \<Rightarrow> Timer list" where
  "FindTimersTo d end_time =
     filter (\<lambda>t. \<not> tm_DueAt t > end_time \<and> tm_State t = TimerStateCreated) (trows (Timers d))"

definition SaveTimer :: "Timer \<Rightarrow> Storage \<Rightarrow> Storage" where
  "SaveTimer t d = d\<lparr>Timers := tput (tm_Key t) t (Timers d)\<rparr>"

section \<open>Jobs\<close>

definition FindActiveJobsByType :: "Storage \<Rightarrow> string \<Rightarrow> Job list" where
  "FindActiveJobsByType d ty =
     filter (\<lambda>j. job_Type j = ty \<and> job_State j = ActivityStateActive) (trows (Jobs d))"

definition FindJobByJobKey :: "Storage \<Rightarrow> int \<Rightarrow> error + Job" where
  "FindJobByJobKey d k = or_not_found (tget (Jobs d) k)"

text \<open>A job is appended once for every occurrence of its state in the list of states.\<close>

definition GetJobsInStateByTokenKey :: "Storage \<Rightarrow> int \<Rightarrow> ActivityState list \<Rightarrow> Job list" where
  "GetJobsInStateByTokenKey d tk states =
     concat (map (\<lambda>j. map (\<lambda>_. j) (filter (\<lambda>s. job_State j = s) states))
       (filter (\<lambda>j. tok_Key (job_Token j) = tk) (trows (Jobs d))))"

definition FindPendingProcessInstanceJobs :: "Storage \<Rightarrow> int \<Rightarrow> Job list" where
  "FindPendingProcessInstanceJobs d pk =
     filter (\<lambda>j. job_ProcessInstanceKey j = pk \<and>
         (job_State j = ActivityStateActive \<or> job_State j = ActivityStateCompleting \<or>
          job_State j = ActivityStateFailed)) (trows (Jobs d))"

definition SaveJob :: "Job \<Rightarrow> Storage \<Rightarrow> Storage" where
  "SaveJob j d = d\<lparr>Jobs := tput (job_Key j) j (Jobs d)\<rparr>"

section \<open>Message subscriptions\<close>

definition FindMessageSubscriptionById :: "Storage \<Rightarrow> int \<Rightarrow> ActivityState \<Rightarrow> error + MessageSubscription" where
  "FindMessageSubscriptionById d k st =
     (case tget (MessageSubscriptions d) k of
        None \<Rightarrow> Inl ErrNotFound
      | Some m \<Rightarrow> if ms_State m = st then Inr m else Inl ErrNotFound)"

definition FindTokenMessageSubscriptions :: "Storage \<Rightarrow> int \<Rightarrow> ActivityState \<Rightarrow> MessageSubscription list" where
  "FindTokenMessageSubscriptions d tk st =
     filter (\<lambda>m. tok_Key (ms_Token m) = tk \<and> ms_State m = st) (trows (MessageSubscriptions d))"

definition FindProcessInstanceMessageSubscriptions ::
  "Storage \<Rightarrow> int \<Rightarrow> ActivityState \<Rightarrow> MessageSubscription list" where
  "FindProcessInstanceMessageSubscriptions d pk st =
     filter (\<lambda>m. ms_ProcessInstanceKey m = pk \<and> ms_State m = st) (trows (MessageSubscriptions d))"

definition FindActiveMessageSubscriptionKey :: "Storage \<Rightarrow> string \<Rightarrow> string \<Rightarrow> error + int" where
  "FindActiveMessageSubscriptionKey d name ck =
     (case filter (\<lambda>m. ms_State m = ActivityStateActive \<and> ms_Name m = name \<and> ms_CorrelationKey m = ck)
             (trows (MessageSubscriptions d)) of
        [] \<Rightarrow> Inl ErrNotFound
      | m # _ \<Rightarrow> Inr (ms_Key m))"

text \<open>The uniqueness check stops at the row with the key of the subscription itself.\<close>

fun subscription_clash :: "MessageSubscription \<Rightarrow> MessageSubscription list \<Rightarrow> bool" where
  "subscription_clash s [] = False"
| "subscription_clash s (m # ms) =
     (if ms_Key s = ms_Key m then False
      else if ms_State m = ActivityStateActive \<and> ms_Name m = ms_Name s \<and>
              ms_CorrelationKey m = ms_CorrelationKey s then True
      else subscription_clash s ms)"

definition SaveMessageSubscription :: "MessageSubscription \<Rightarrow> Storage \<Rightarrow> error + Storage" where
  "SaveMessageSubscription s d =
     (if subscription_clash s (trows (MessageSubscriptions d))
      then Inl (Errorf ''active message with the same correlationKey and name already exists'')
      else Inr (d\<lparr>MessageSubscriptions := tput (ms_Key s) s (MessageSubscriptions d)\<rparr>))"

section \<open>Tokens, history, incidents\<close>

definition GetCompletedTokensForProcessInstance :: "Storage \<Rightarrow> int \<Rightarrow> ExecutionToken list" where
  "GetCompletedTokensForProcessInstance d pk =
     filter (\<lambda>t. tok_ProcessInstanceKey t = pk \<and> tok_State t = TokenStateCompleted)
       (trows (ExecutionTokens d))"

definition GetTokenByKey :: "Storage \<Rightarrow> int \<Rightarrow> error + ExecutionToken" where
  "GetTokenByKey d k = or_not_found (tget (ExecutionTokens d) k)"

definition token_active :: "TokenState \<Rightarrow> bool" where
  "token_active s \<longleftrightarrow> s = TokenStateWaiting \<or> s = TokenStateFailed \<or> s = TokenStateRunning"

definition GetActiveTokensForProcessInstance :: "Storage \<Rightarrow> int \<Rightarrow> ExecutionToken list" where
  "GetActiveTokensForProcessInstance d pk =
     filter (\<lambda>t. tok_ProcessInstanceKey t = pk \<and> token_active (tok_State t)) (trows (ExecutionTokens d))"

definition GetAllTokensForProcessInstance :: "Storage \<Rightarrow> int \<Rightarrow> ExecutionToken list" where
  "GetAllTokensForProcessInstance d pk =
     filter (\<lambda>t. tok_ProcessInstanceKey t = pk) (trows (ExecutionTokens d))"

definition GetRunningTokens :: "Storage \<Rightarrow> ExecutionToken list" where
  "GetRunningTokens d = filter (\<lambda>t. tok_State t = TokenStateRunning) (trows (ExecutionTokens d))"

definition SaveToken :: "ExecutionToken \<Rightarrow> Storage \<Rightarrow> Storage" where
  "SaveToken t d = d\<lparr>ExecutionTokens := tput (tok_Key t) t (ExecutionTokens d)\<rparr>"

definition GetFlowElementInstancesByTokenKey :: "Storage \<Rightarrow> int \<Rightarrow> FlowElementInstance list" where
  "GetFlowElementInstancesByTokenKey d tk =
     filter (\<lambda>f. fe_ExecutionTokenKey f = tk) (trows (FlowElementInstances d))"

definition GetFlowElementInstanceCountByProcessInstanceKey :: "Storage \<Rightarrow> int \<Rightarrow> int" where
  "GetFlowElementInstanceCountByProcessInstanceKey d pk =
     int (length (filter (\<lambda>f. fe_ProcessInstanceKey f = pk) (trows (FlowElementInstances d))))"

text \<open>Ordered by time of creation, the latest first.\<close>

definition GetFlowElementInstancesByProcessInstanceKey ::
  "Storage \<Rightarrow> int \<Rightarrow> bool \<Rightarrow> FlowElementInstance list" where
  "GetFlowElementInstancesByProcessInstanceKey d pk ordered =
     (let fs = filter (\<lambda>f. fe_ProcessInstanceKey f = pk) (trows (FlowElementInstances d))
      in if ordered then sort_key (\<lambda>f. - fe_CreatedAt f) fs else fs)"

definition GetFlowElementInstanceByKey :: "Storage \<Rightarrow> int \<Rightarrow> error + FlowElementInstance" where
  "GetFlowElementInstanceByKey d k = or_not_found (tget (FlowElementInstances d) k)"

definition SaveFlowElementInstance :: "FlowElementInstance \<Rightarrow> Storage \<Rightarrow> Storage" where
  "SaveFlowElementInstance f d = d\<lparr>FlowElementInstances := tput (fe_Key f) f (FlowElementInstances d)\<rparr>"

text \<open>Updating a missing row stores the zero row, with key 0, under the key asked for.\<close>

definition UpdateOutputFlowElementInstance :: "int \<Rightarrow> vars \<Rightarrow> Storage \<Rightarrow> Storage" where
  "UpdateOutputFlowElementInstance k out d =
     (let elementInstance = (case tget (FlowElementInstances d) k of
                               Some f \<Rightarrow> f | None \<Rightarrow> zero_FlowElementInstance)
      in d\<lparr>FlowElementInstances :=
             tput k (elementInstance\<lparr>fe_OutputVariables := out\<rparr>) (FlowElementInstances d)\<rparr>)"

definition FindIncidentsByExecutionTokenKey :: "Storage \<Rightarrow> int \<Rightarrow> Incident list" where
  "FindIncidentsByExecutionTokenKey d tk =
     filter (\<lambda>i. tok_Key (inc_Token i) = tk) (trows (Incidents d))"

definition FindIncidentByKey :: "Storage \<Rightarrow> int \<Rightarrow> error + Incident" where
  "FindIncidentByKey d k = or_not_found (tget (Incidents d) k)"

definition FindIncidentsByProcessInstanceKey :: "Storage \<Rightarrow> int \<Rightarrow> Incident list" where
  "FindIncidentsByProcessInstanceKey d pk =
     filter (\<lambda>i. inc_ProcessInstanceKey i = pk) (trows (Incidents d))"

definition SaveIncident :: "Incident \<Rightarrow> Storage \<Rightarrow> Storage" where
  "SaveIncident i d = d\<lparr>Incidents := tput (inc_Key i) i (Incidents d)\<rparr>"

section \<open>Batches\<close>

text \<open>
  The closures a \<^verbatim>\<open>StorageBatch\<close> collects. \<open>StProcessInstance\<close> holds a pointer: the key is read when
  the statement runs.
\<close>

datatype stmt =
    StProcessDefinition ProcessDefinition
  | StProcessInstance nat
  | StTimer Timer
  | StJob Job
  | StMessageSubscription MessageSubscription
  | StToken ExecutionToken
  | StFlowElementInstance FlowElementInstance
  | StUpdateOutput int vars
  | StIncident Incident

fun run_stmt :: "heap \<Rightarrow> stmt \<Rightarrow> Storage \<Rightarrow> error option \<times> Storage" where
  "run_stmt h (StProcessDefinition x) d = (None, SaveProcessDefinition x d)"
| "run_stmt h (StProcessInstance x) d = (None, SaveProcessInstance h x d)"
| "run_stmt h (StTimer x) d = (None, SaveTimer x d)"
| "run_stmt h (StJob x) d = (None, SaveJob x d)"
| "run_stmt h (StMessageSubscription x) d =
     (case SaveMessageSubscription x d of Inl e \<Rightarrow> (Some e, d) | Inr d' \<Rightarrow> (None, d'))"
| "run_stmt h (StToken x) d = (None, SaveToken x d)"
| "run_stmt h (StFlowElementInstance x) d = (None, SaveFlowElementInstance x d)"
| "run_stmt h (StUpdateOutput k out) d = (None, UpdateOutputFlowElementInstance k out d)"
| "run_stmt h (StIncident x) d = (None, SaveIncident x d)"

definition join_err :: "error option \<Rightarrow> error option \<Rightarrow> error option" where
  "join_err a b = (case (a, b) of
      (None, x) \<Rightarrow> x | (Some e, None) \<Rightarrow> Some e | (Some e, Some e') \<Rightarrow> Some (Joined e e'))"

fun run_stmts :: "heap \<Rightarrow> stmt list \<Rightarrow> error option \<Rightarrow> Storage \<Rightarrow> error option \<times> Storage" where
  "run_stmts h [] joinErr d = (joinErr, d)"
| "run_stmts h (st # sts) joinErr d =
     (case run_stmt h st d of (err, d') \<Rightarrow> run_stmts h sts (join_err joinErr err) d')"

text \<open>
  \<^verbatim>\<open>Flush\<close>: every statement runs on the store. On an error only the batch's own pointer is set to the
  copy taken before; the store the engine reads keeps what the other statements wrote.
\<close>

definition StorageBatch_Flush :: "heap \<Rightarrow> stmt list \<Rightarrow> Storage \<Rightarrow> error option \<times> Storage" where
  "StorageBatch_Flush h stmtToRun d = run_stmts h stmtToRun None d"

section \<open>The tables implement the row interface\<close>

interpretation token_store: row_store tok_Key SaveToken "\<lambda>d. tget (ExecutionTokens d)"
  by unfold_locales (simp add: SaveToken_def)

interpretation job_store: row_store job_Key SaveJob "\<lambda>d. tget (Jobs d)"
  by unfold_locales (simp add: SaveJob_def)

interpretation timer_store: row_store tm_Key SaveTimer "\<lambda>d. tget (Timers d)"
  by unfold_locales (simp add: SaveTimer_def)

interpretation incident_store: row_store inc_Key SaveIncident "\<lambda>d. tget (Incidents d)"
  by unfold_locales (simp add: SaveIncident_def)

interpretation history_store: row_store fe_Key SaveFlowElementInstance "\<lambda>d. tget (FlowElementInstances d)"
  by unfold_locales (simp add: SaveFlowElementInstance_def)

interpretation definition_store: row_store pd_Key SaveProcessDefinition "\<lambda>d. tget (ProcessDefinitions d)"
  by unfold_locales (simp add: SaveProcessDefinition_def)

lemmas save_defs = SaveProcessDefinition_def SaveProcessInstance_def SaveTimer_def SaveJob_def
  SaveMessageSubscription_def SaveToken_def SaveFlowElementInstance_def
  UpdateOutputFlowElementInstance_def SaveIncident_def

subsection \<open>Well-formed stores\<close>

text \<open>Every table has one row per key and every row stands under its own key. History rows are the
  exception: \<open>UpdateOutputFlowElementInstance\<close> may store a row with key 0 under another key.\<close>

definition history_keyed :: "Storage \<Rightarrow> bool" where
  "history_keyed d \<longleftrightarrow>
     (\<forall>k f. tget (FlowElementInstances d) k = Some f \<longrightarrow> fe_Key f = k \<or> fe_Key f = 0)"

definition store_wf :: "Storage \<Rightarrow> bool" where
  "store_wf d \<longleftrightarrow>
     keyed pd_Key (ProcessDefinitions d) \<and> twf (ProcessInstances d) \<and>
     keyed ms_Key (MessageSubscriptions d) \<and> keyed tm_Key (Timers d) \<and> keyed job_Key (Jobs d) \<and>
     keyed tok_Key (ExecutionTokens d) \<and> twf (FlowElementInstances d) \<and> keyed inc_Key (Incidents d)"

lemma store_wf_New: "store_wf NewStorage"
  by (simp add: store_wf_def NewStorage_def)

lemma store_wf_run_stmt: "store_wf d \<Longrightarrow> store_wf (snd (run_stmt h st d))"
  by (cases st) (auto simp: store_wf_def save_defs Let_def split: sum.splits if_splits)

lemma store_wf_run_stmts: "store_wf d \<Longrightarrow> store_wf (snd (run_stmts h sts e d))"
proof (induction sts arbitrary: e d)
  case Nil
  then show ?case by simp
next
  case (Cons st sts)
  from Cons.prems have "store_wf (snd (run_stmt h st d))" by (rule store_wf_run_stmt)
  then show ?case using Cons.IH by (simp add: case_prod_beta)
qed

lemma history_keyed_New: "history_keyed NewStorage"
  by (simp add: history_keyed_def NewStorage_def tget_def)

lemma history_keyed_run_stmt: "history_keyed d \<Longrightarrow> history_keyed (snd (run_stmt h st d))"
  by (cases st) (auto simp: history_keyed_def save_defs Let_def tget_tput zero_FlowElementInstance_def
      split: sum.splits if_splits option.splits)

lemma history_keyed_run_stmts: "history_keyed d \<Longrightarrow> history_keyed (snd (run_stmts h sts e d))"
  by (induction sts arbitrary: e d) (simp_all add: case_prod_beta history_keyed_run_stmt)

subsection \<open>The effect of a run of statements\<close>

text \<open>The rows of one kind that a run of statements writes, in order.\<close>

fun stmt_tokens :: "stmt \<Rightarrow> ExecutionToken list" where
  "stmt_tokens (StToken t) = [t]"
| "stmt_tokens _ = []"

fun stmt_jobs :: "stmt \<Rightarrow> Job list" where
  "stmt_jobs (StJob j) = [j]"
| "stmt_jobs _ = []"

fun stmt_timers :: "stmt \<Rightarrow> Timer list" where
  "stmt_timers (StTimer t) = [t]"
| "stmt_timers _ = []"

fun stmt_subscriptions :: "stmt \<Rightarrow> MessageSubscription list" where
  "stmt_subscriptions (StMessageSubscription m) = [m]"
| "stmt_subscriptions _ = []"

fun stmt_instances :: "stmt \<Rightarrow> nat list" where
  "stmt_instances (StProcessInstance r) = [r]"
| "stmt_instances _ = []"

definition written :: "(stmt \<Rightarrow> 'r list) \<Rightarrow> stmt list \<Rightarrow> 'r list" where
  "written f sts = concat (map f sts)"

lemma written_simps [simp]:
  "written f [] = []" "written f (st # sts) = f st @ written f sts"
  "written f (sts @ sts') = written f sts @ written f sts'"
  by (simp_all add: written_def)

lemma in_stmt_rows:
  "t \<in> set (stmt_tokens st) \<longleftrightarrow> st = StToken t"
  "j \<in> set (stmt_jobs st) \<longleftrightarrow> st = StJob j"
  "tm \<in> set (stmt_timers st) \<longleftrightarrow> st = StTimer tm"
  "m \<in> set (stmt_subscriptions st) \<longleftrightarrow> st = StMessageSubscription m"
  by (cases st; auto)+

lemma in_written:
  "t \<in> set (written stmt_tokens sts) \<longleftrightarrow> StToken t \<in> set sts"
  "j \<in> set (written stmt_jobs sts) \<longleftrightarrow> StJob j \<in> set sts"
  "tm \<in> set (written stmt_timers sts) \<longleftrightarrow> StTimer tm \<in> set sts"
  "m \<in> set (written stmt_subscriptions sts) \<longleftrightarrow> StMessageSubscription m \<in> set sts"
  by (simp_all add: written_def in_stmt_rows)

lemma run_stmt_tokens:
  "ExecutionTokens (snd (run_stmt h st d)) =
     ExecutionTokens (fold SaveToken (stmt_tokens st) d)"
  by (cases st) (auto simp: save_defs Let_def split: sum.splits if_splits)

lemma run_stmt_jobs: "Jobs (snd (run_stmt h st d)) = Jobs (fold SaveJob (stmt_jobs st) d)"
  by (cases st) (auto simp: save_defs Let_def split: sum.splits if_splits)

lemma run_stmt_timers: "Timers (snd (run_stmt h st d)) = Timers (fold SaveTimer (stmt_timers st) d)"
  by (cases st) (auto simp: save_defs Let_def split: sum.splits if_splits)

lemma fold_save_table:
  assumes step: "\<And>x d d'. f d = f d' \<Longrightarrow> f (save x d) = f (save x d')"
  shows "f d = f d' \<Longrightarrow> f (fold save xs d) = f (fold save xs d')"
proof (induction xs arbitrary: d d')
  case Nil
  then show ?case by simp
next
  case (Cons x xs)
  from Cons.IH [OF step [OF Cons.prems]] show ?case by simp
qed

lemma run_stmts_tokens:
  "ExecutionTokens (snd (run_stmts h sts e d)) =
     ExecutionTokens (fold SaveToken (written stmt_tokens sts) d)"
proof (induction sts arbitrary: e d)
  case Nil
  then show ?case by simp
next
  case (Cons st sts)
  have "ExecutionTokens (fold SaveToken (written stmt_tokens sts) (snd (run_stmt h st d))) =
      ExecutionTokens (fold SaveToken (written stmt_tokens sts) (fold SaveToken (stmt_tokens st) d))"
    by (rule fold_save_table) (simp_all add: SaveToken_def run_stmt_tokens)
  then show ?case using Cons.IH by (simp add: case_prod_beta)
qed

lemma run_stmts_jobs:
  "Jobs (snd (run_stmts h sts e d)) = Jobs (fold SaveJob (written stmt_jobs sts) d)"
proof (induction sts arbitrary: e d)
  case Nil
  then show ?case by simp
next
  case (Cons st sts)
  have "Jobs (fold SaveJob (written stmt_jobs sts) (snd (run_stmt h st d))) =
      Jobs (fold SaveJob (written stmt_jobs sts) (fold SaveJob (stmt_jobs st) d))"
    by (rule fold_save_table) (simp_all add: SaveJob_def run_stmt_jobs)
  then show ?case using Cons.IH by (simp add: case_prod_beta)
qed

lemma run_stmts_timers:
  "Timers (snd (run_stmts h sts e d)) = Timers (fold SaveTimer (written stmt_timers sts) d)"
proof (induction sts arbitrary: e d)
  case Nil
  then show ?case by simp
next
  case (Cons st sts)
  have "Timers (fold SaveTimer (written stmt_timers sts) (snd (run_stmt h st d))) =
      Timers (fold SaveTimer (written stmt_timers sts) (fold SaveTimer (stmt_timers st) d))"
    by (rule fold_save_table) (simp_all add: SaveTimer_def run_stmt_timers)
  then show ?case using Cons.IH by (simp add: case_prod_beta)
qed

lemma join_err_None [simp]: "join_err a b = None \<longleftrightarrow> a = None \<and> b = None"
  by (auto simp: join_err_def split: option.splits)

definition put_subscription :: "MessageSubscription \<Rightarrow> Storage \<Rightarrow> Storage" where
  "put_subscription m d = d\<lparr>MessageSubscriptions := tput (ms_Key m) m (MessageSubscriptions d)\<rparr>"

interpretation subscription_store: row_store ms_Key put_subscription "\<lambda>d. tget (MessageSubscriptions d)"
  by unfold_locales (simp add: put_subscription_def)

lemma run_stmts_error_mono: "fst (run_stmts h sts e d) = None \<Longrightarrow> e = None"
proof (induction sts arbitrary: e d)
  case Nil
  then show ?case by simp
next
  case (Cons st sts)
  from Cons.prems
  have "fst (run_stmts h sts (join_err e (fst (run_stmt h st d))) (snd (run_stmt h st d))) = None"
    by (simp add: case_prod_beta)
  from Cons.IH [OF this] show ?case by simp
qed

lemma run_stmt_subscriptions:
  "fst (run_stmt h st d) = None \<Longrightarrow> MessageSubscriptions (snd (run_stmt h st d)) =
     MessageSubscriptions (fold put_subscription (stmt_subscriptions st) d)"
  by (cases st) (auto simp: save_defs put_subscription_def Let_def split: sum.splits if_splits)

lemma run_stmts_subscriptions:
  "fst (run_stmts h sts e d) = None \<Longrightarrow>
     MessageSubscriptions (snd (run_stmts h sts e d)) =
       MessageSubscriptions (fold put_subscription (written stmt_subscriptions sts) d)"
proof (induction sts arbitrary: e d)
  case Nil
  then show ?case by simp
next
  case (Cons st sts)
  let ?d = "snd (run_stmt h st d)" and ?e = "join_err e (fst (run_stmt h st d))"
  have ok: "fst (run_stmts h sts ?e ?d) = None" using Cons.prems by (simp add: case_prod_beta)
  from run_stmts_error_mono [OF ok] have none: "fst (run_stmt h st d) = None" by simp
  note one = run_stmt_subscriptions [OF none]
  have "MessageSubscriptions (fold put_subscription (written stmt_subscriptions sts) ?d) =
      MessageSubscriptions (fold put_subscription (written stmt_subscriptions sts)
        (fold put_subscription (stmt_subscriptions st) d))"
    by (rule fold_save_table) (simp_all add: put_subscription_def one)
  then show ?case using Cons.IH [OF ok] by (simp add: case_prod_beta)
qed

lemma run_stmts_no_subscription:
  "written stmt_subscriptions sts = [] \<Longrightarrow> fst (run_stmts h sts e d) = e"
proof (induction sts arbitrary: e d)
  case Nil
  then show ?case by simp
next
  case (Cons st sts)
  then have "fst (run_stmt h st d) = None" by (cases st) auto
  then show ?case using Cons by (cases st) (auto simp: case_prod_beta join_err_def split: option.splits)
qed

section \<open>Uniqueness of active message subscriptions\<close>

definition same_message :: "MessageSubscription \<Rightarrow> MessageSubscription \<Rightarrow> bool" where
  "same_message m m' \<longleftrightarrow> ms_Name m = ms_Name m' \<and> ms_CorrelationKey m = ms_CorrelationKey m'"

definition unique_active :: "Storage \<Rightarrow> bool" where
  "unique_active d \<longleftrightarrow>
     (\<forall>k k' m m'. tget (MessageSubscriptions d) k = Some m \<and> tget (MessageSubscriptions d) k' = Some m' \<and>
        ms_State m = ActivityStateActive \<and> ms_State m' = ActivityStateActive \<and> same_message m m'
        \<longrightarrow> k = k')"

lemma no_clash_new:
  assumes "\<not> subscription_clash s ms" and "\<forall>m \<in> set ms. ms_Key m \<noteq> ms_Key s" and "m \<in> set ms"
  shows "\<not> (ms_State m = ActivityStateActive \<and> same_message m s)"
  using assms
  by (induction s ms rule: subscription_clash.induct) (auto simp: same_message_def split: if_splits)

lemma clash_new:
  "\<forall>m \<in> set ms. ms_Key m \<noteq> ms_Key s \<Longrightarrow>
     subscription_clash s ms \<longleftrightarrow> (\<exists>m \<in> set ms. ms_State m = ActivityStateActive \<and> same_message m s)"
  by (induction s ms rule: subscription_clash.induct) (auto simp: same_message_def)

lemma clash_other:
  "subscription_clash s ms \<Longrightarrow>
     \<exists>m \<in> set ms. ms_Key m \<noteq> ms_Key s \<and> ms_State m = ActivityStateActive \<and> same_message m s"
  by (induction s ms rule: subscription_clash.induct) (auto simp: same_message_def split: if_splits)

lemma unique_active_insert_new:
  assumes wf: "store_wf d" and u: "unique_active d"
    and new: "tget (MessageSubscriptions d) (ms_Key s) = None"
    and ok: "SaveMessageSubscription s d = Inr d'"
  shows "unique_active d'"
proof -
  from wf have k: "keyed ms_Key (MessageSubscriptions d)" by (simp add: store_wf_def)
  have fresh: "\<forall>m \<in> set (trows (MessageSubscriptions d)). ms_Key m \<noteq> ms_Key s"
    using new k by (auto simp: keyed_rows)
  from ok have nc: "\<not> subscription_clash s (trows (MessageSubscriptions d))"
    and d': "MessageSubscriptions d' = tput (ms_Key s) s (MessageSubscriptions d)"
    by (auto simp: SaveMessageSubscription_def split: if_splits)
  have other: "\<not> (ms_State m = ActivityStateActive \<and> same_message m s)"
    if "tget (MessageSubscriptions d) j = Some m" for j m
    using no_clash_new [OF nc fresh] tget_in_trows [OF that] by blast
  have sym: "same_message a b \<Longrightarrow> same_message b a" for a b by (simp add: same_message_def)
  have get: "j = ms_Key s \<and> m = s \<or> tget (MessageSubscriptions d) j = Some m"
    if "tget (MessageSubscriptions d') j = Some m" for j m
    using that unfolding d' tget_tput by (simp split: if_split_asm)
  show ?thesis
    unfolding unique_active_def
    using u [unfolded unique_active_def] get other sym by blast
qed

lemma unique_active_deactivate:
  assumes "unique_active d" and "ms_State s \<noteq> ActivityStateActive"
    and "SaveMessageSubscription s d = Inr d'"
  shows "unique_active d'"
proof -
  from assms(3) have "MessageSubscriptions d' = tput (ms_Key s) s (MessageSubscriptions d)"
    by (auto simp: SaveMessageSubscription_def split: if_splits)
  then have old: "tget (MessageSubscriptions d') j = Some m \<Longrightarrow> ms_State m = ActivityStateActive \<Longrightarrow>
      tget (MessageSubscriptions d) j = Some m" for j m
    using assms(2) by (auto split: if_splits)
  show ?thesis
    using assms(1) old unfolding unique_active_def by blast
qed

section \<open>Versions\<close>

lemma latest_loop_Some:
  "latest_loop xs (Some r) = Some r' \<Longrightarrow> \<forall>x \<in> set xs. 0 < pd_Version x \<Longrightarrow> 0 < pd_Version r \<Longrightarrow>
     r' \<in> insert r (set xs) \<and> (\<forall>x \<in> insert r (set xs). pd_Version x \<le> pd_Version r')"
proof (induction xs arbitrary: r)
  case Nil
  then show ?case by simp
next
  case (Cons x xs)
  show ?case
  proof (cases "pd_Version x < pd_Version r")
    case True
    with Cons.prems Cons.IH [of r] show ?thesis by auto
  next
    case False
    with Cons.prems Cons.IH [of x] show ?thesis by fastforce
  qed
qed

lemma latest_loop_total: "latest_loop xs (Some r) \<noteq> None"
  by (induction xs arbitrary: r) auto

lemma latest_loop_None:
  assumes "\<forall>x \<in> set xs. 0 < pd_Version x"
  shows "case latest_loop xs None of
           None \<Rightarrow> xs = []
         | Some r \<Rightarrow> r \<in> set xs \<and> (\<forall>x \<in> set xs. pd_Version x \<le> pd_Version r)"
proof (cases xs)
  case Nil
  then show ?thesis by simp
next
  case (Cons y ys)
  with latest_loop_total [of ys y] obtain r where r: "latest_loop ys (Some y) = Some r" by auto
  from latest_loop_Some [OF r] assms Cons r show ?thesis by auto
qed

lemma head_by_version_min:
  "head_by_version v rs = Inr r \<Longrightarrow> r \<in> set rs \<and> (\<forall>x \<in> set rs. v r \<le> v x)"
proof -
  assume "head_by_version v rs = Inr r"
  then obtain rest where s: "sort_key v rs = r # rest"
    by (auto simp: head_by_version_def split: list.splits)
  have "sorted (map v (sort_key v rs))" by simp
  with s have le: "\<forall>x \<in> set (sort_key v rs). v r \<le> v x" by auto
  have "set (sort_key v rs) = set rs" by simp
  with le s show ?thesis by (metis list.set_intros(1))
qed

section \<open>Properties of the store\<close>

text \<open>Read after write: after the flush of a batch, reading a token by its key gives the last token
  the batch saved under that key, and the token stored before if the batch saved none; the order of the
  statements decides, and the statements of other kinds do not interfere.\<close>

theorem flush_then_read_token:
  "tget (ExecutionTokens (snd (StorageBatch_Flush h sts d))) k =
     (case List.find (\<lambda>t. tok_Key t = k) (rev (written stmt_tokens sts)) of
        Some t \<Rightarrow> Some t
      | None \<Rightarrow> tget (ExecutionTokens d) k)"
  unfolding StorageBatch_Flush_def run_stmts_tokens by (rule token_store.find_fold_save_last)

text \<open>The tables stay well formed: a batch flushed on a store in which every row is stored once and
  under its own key leaves such a store, whether or not a statement fails.\<close>

theorem flush_keeps_tables_well_formed:
  assumes "store_wf d"
  shows "store_wf (snd (StorageBatch_Flush h sts d))"
  unfolding StorageBatch_Flush_def using assms by (rule store_wf_run_stmts)

theorem flush_keeps_tables_well_formed_witness:
  "store_wf (snd (StorageBatch_Flush [] [StToken zero_Token, StToken (zero_Token\<lparr>tok_Key := 5\<rparr>)] NewStorage))"
  by (rule flush_keeps_tables_well_formed) (rule store_wf_New)

text \<open>C32. At most one active subscription per message name and correlation key. Saving a subscription is
  refused only if another row holds an active subscription with its name and correlation key; if its key is
  new it is refused exactly then, whatever its own state is. Saving a subscription under a new key, or any
  subscription that is not active, keeps the uniqueness, stores it under its key and no other
  subscription changes.\<close>

theorem active_subscriptions_stay_unique:
  fixes d :: Storage and s :: MessageSubscription
  assumes "store_wf d" and "unique_active d"
  defines "clash \<equiv> (\<exists>m \<in> set (trows (MessageSubscriptions d)).
      ms_Key m \<noteq> ms_Key s \<and> ms_State m = ActivityStateActive \<and> same_message m s)"
  shows "(isl (SaveMessageSubscription s d) \<longrightarrow> clash) \<and>
    (tget (MessageSubscriptions d) (ms_Key s) = None \<longrightarrow> isl (SaveMessageSubscription s d) = clash) \<and>
    (\<forall>d'. SaveMessageSubscription s d = Inr d' \<longrightarrow>
       tget (MessageSubscriptions d') = (tget (MessageSubscriptions d))(ms_Key s \<mapsto> s) \<and>
       (tget (MessageSubscriptions d) (ms_Key s) = None \<or> ms_State s \<noteq> ActivityStateActive
          \<longrightarrow> unique_active d'))"
proof (intro conjI impI allI)
  have isl: "isl (SaveMessageSubscription s d) = subscription_clash s (trows (MessageSubscriptions d))"
    by (simp add: SaveMessageSubscription_def)
  show "isl (SaveMessageSubscription s d) \<Longrightarrow> clash" unfolding isl clash_def by (rule clash_other)
  assume "tget (MessageSubscriptions d) (ms_Key s) = None"
  then have "\<forall>m \<in> set (trows (MessageSubscriptions d)). ms_Key m \<noteq> ms_Key s"
    using assms(1) by (auto simp: store_wf_def keyed_rows)
  with clash_new [OF this] show "isl (SaveMessageSubscription s d) = clash" unfolding isl clash_def by blast
next
  fix d' assume ok: "SaveMessageSubscription s d = Inr d'"
  then show "tget (MessageSubscriptions d') = (tget (MessageSubscriptions d))(ms_Key s \<mapsto> s)"
    by (auto simp: SaveMessageSubscription_def tget_tput fun_eq_iff split: if_splits)
  show "unique_active d'"
    if "tget (MessageSubscriptions d) (ms_Key s) = None \<or> ms_State s \<noteq> ActivityStateActive"
    using that unique_active_insert_new [OF assms(1,2) _ ok] unique_active_deactivate [OF assms(2) _ ok] by blast
qed

definition demo_subscription :: "int \<Rightarrow> MessageSubscription" where
  "demo_subscription k = \<lparr>ms_Key = k, ms_ElementId = ''wait'', ms_ProcessDefinitionKey = 0, ms_ProcessInstanceKey = 0,
     ms_Name = ''paid'', ms_CorrelationKey = ''order-1'', ms_State = ActivityStateActive, ms_CreatedAt = 0,
     ms_Token = zero_Token\<rparr>"

theorem active_subscriptions_stay_unique_witness:
  "\<exists>d'. SaveMessageSubscription (demo_subscription 1) NewStorage = Inr d' \<and> unique_active d' \<and>
     isl (SaveMessageSubscription (demo_subscription 2) d')"
proof -
  have u: "unique_active NewStorage" by (simp add: unique_active_def NewStorage_def)
  obtain d' where d': "SaveMessageSubscription (demo_subscription 1) NewStorage = Inr d'"
    by (simp add: SaveMessageSubscription_def NewStorage_def trows_def)
  then have rows: "MessageSubscriptions d' = [(1, demo_subscription 1)]" and wf: "store_wf d'"
    by (auto simp: SaveMessageSubscription_def NewStorage_def trows_def store_wf_def demo_subscription_def
        keyed_def twf_def tget_def)
  have u': "unique_active d'"
    using active_subscriptions_stay_unique [OF store_wf_New u] d' by (simp add: NewStorage_def tget_def)
  have "isl (SaveMessageSubscription (demo_subscription 2) d')"
    using active_subscriptions_stay_unique [OF wf u', of "demo_subscription 2"]
    by (simp add: rows trows_def tget_def same_message_def demo_subscription_def)
  with d' u' show ?thesis by blast
qed

text \<open>The uniqueness check stops at the row with the key of the saved subscription: re-saving an
  active subscription beside another active one with the same name and correlation key is refused or
  accepted depending on which of the two rows the iteration over the map meets first.\<close>

theorem uniqueness_check_depends_on_iteration_order:
  "isl (SaveMessageSubscription (demo_subscription 1)
     (NewStorage\<lparr>MessageSubscriptions := [(2, demo_subscription 2), (1, demo_subscription 1)]\<rparr>)) \<and>
   \<not> isl (SaveMessageSubscription (demo_subscription 1)
     (NewStorage\<lparr>MessageSubscriptions := [(1, demo_subscription 1), (2, demo_subscription 2)]\<rparr>))"
  by (simp add: SaveMessageSubscription_def demo_subscription_def trows_def)

text \<open>\<^verbatim>\<open>Flush\<close> is not atomic: when the subscription of a batch violates the uniqueness constraint the
  flush reports the error, and the token saved by the same batch is in the store all the same.\<close>

theorem failed_flush_keeps_partial_writes:
  assumes "SaveMessageSubscription m (SaveToken t d) = Inl e"
  shows "StorageBatch_Flush h [StToken t, StMessageSubscription m] d = (Some e, SaveToken t d)"
  using assms by (simp add: StorageBatch_Flush_def join_err_def)

theorem failed_flush_keeps_partial_writes_witness:
  "tget (ExecutionTokens (snd (StorageBatch_Flush [] [StToken zero_Token, StMessageSubscription (demo_subscription 2)]
     (NewStorage\<lparr>MessageSubscriptions := [(1, demo_subscription 1)]\<rparr>)))) 0 = Some zero_Token"
proof -
  let ?d = "NewStorage\<lparr>MessageSubscriptions := [(1, demo_subscription 1)]\<rparr>"
  have "SaveMessageSubscription (demo_subscription 2) (SaveToken zero_Token ?d) =
      Inl (Errorf ''active message with the same correlationKey and name already exists'')"
    by (simp add: SaveMessageSubscription_def SaveToken_def demo_subscription_def trows_def)
  from failed_flush_keeps_partial_writes [OF this, of "[]"] show ?thesis
    by (simp add: SaveToken_def) (simp add: zero_Token_def)
qed

text \<open>\<^verbatim>\<open>FindLatestProcessDefinitionById\<close> returns a definition with the given process id and the highest
  version, and not-found exactly if there is none (versions start at 1).\<close>

theorem latest_process_definition_has_highest_version:
  assumes "\<forall>p \<in> set (trows (ProcessDefinitions d)). 0 < pd_Version p"
  shows "case FindLatestProcessDefinitionById d i of
      Inl e \<Rightarrow> e = ErrNotFound \<and> (\<forall>p \<in> set (trows (ProcessDefinitions d)). pd_BpmnProcessId p \<noteq> i)
    | Inr r \<Rightarrow> r \<in> set (trows (ProcessDefinitions d)) \<and> pd_BpmnProcessId r = i \<and>
        (\<forall>p \<in> set (trows (ProcessDefinitions d)). pd_BpmnProcessId p = i \<longrightarrow> pd_Version p \<le> pd_Version r)"
proof -
  let ?xs = "filter (\<lambda>r. pd_BpmnProcessId r = i) (trows (ProcessDefinitions d))"
  have "\<forall>x \<in> set ?xs. 0 < pd_Version x" using assms by simp
  from latest_loop_None [OF this] show ?thesis
    by (cases "latest_loop ?xs None") (auto simp: FindLatestProcessDefinitionById_def filter_empty_conv)
qed

text \<open>\<^verbatim>\<open>GetLatestDecisionDefinitionById\<close> sorts ascending and takes the first row: it returns a decision
  definition with the \<^emph>\<open>lowest\<close> version.\<close>

theorem latest_decision_definition_has_lowest_version:
  assumes "GetLatestDecisionDefinitionById d i = Inr r"
  shows "r \<in> set (trows (DecisionDefinitions d)) \<and> dd_Id r = i \<and>
    (\<forall>x \<in> set (trows (DecisionDefinitions d)). dd_Id x = i \<longrightarrow> dd_Version r \<le> dd_Version x)"
  using head_by_version_min [OF assms [unfolded GetLatestDecisionDefinitionById_def]] by auto

theorem latest_decision_definition_has_lowest_version_witness:
  "\<exists>r. GetLatestDecisionDefinitionById (NewStorage\<lparr>DecisionDefinitions :=
      [(1, \<lparr>dd_Version = 2, dd_Key = 1, dd_Id = ''d'', dd_VersionTag = [], dd_DmnResourceDefinitionId = [],
             dd_DmnResourceDefinitionKey = 0\<rparr>),
       (2, \<lparr>dd_Version = 1, dd_Key = 2, dd_Id = ''d'', dd_VersionTag = [], dd_DmnResourceDefinitionId = [],
             dd_DmnResourceDefinitionKey = 0\<rparr>)]\<rparr>) ''d'' = Inr r \<and> dd_Version r \<le> 1"
  (is "\<exists>r. GetLatestDecisionDefinitionById ?d _ = _ \<and> _")
proof -
  obtain r where r: "GetLatestDecisionDefinitionById ?d ''d'' = Inr r"
    by (simp add: GetLatestDecisionDefinitionById_def head_by_version_def trows_def)
  from latest_decision_definition_has_lowest_version [OF r] have "dd_Version r \<le> 1"
    by (simp add: trows_def)
  with r show ?thesis by blast
qed

definition demo_version :: "int \<Rightarrow> ProcessDefinition" where
  "demo_version v = \<lparr>pd_BpmnProcessId = ''p'', pd_Version = v, pd_Key = v,
     pd_Definitions = \<lparr>def_Id = [], def_Process = \<lparr>proc_Id = ''p'', proc_Name = [],
       proc_Container = FlowElements [] [] [] [] [] [] [] [] [] [] [] [] [] [] [] [] []\<rparr>, def_Messages = []\<rparr>,
     pd_BpmnData = [], pd_BpmnProcessName = [], pd_BpmnChecksum = v\<rparr>"

theorem latest_process_definition_has_highest_version_witness:
  "\<exists>r. FindLatestProcessDefinitionById
      (NewStorage\<lparr>ProcessDefinitions := [(2, demo_version 2), (1, demo_version 1)]\<rparr>) ''p'' = Inr r \<and> 2 \<le> pd_Version r"
  (is "\<exists>r. FindLatestProcessDefinitionById ?d _ = _ \<and> _")
proof -
  have "\<forall>p \<in> set (trows (ProcessDefinitions ?d)). 0 < pd_Version p" by (simp add: trows_def demo_version_def)
  from latest_process_definition_has_highest_version [OF this, of "''p''"] show ?thesis
    by (cases "FindLatestProcessDefinitionById ?d ''p''") (auto simp: trows_def demo_version_def)
qed

end
