(* ===== verification/Running_Instances.thy ===== *)
theory Running_Instances
  imports Zen_Prelude
begin

text \<open>
  The cache of running process instances (\<^verbatim>\<open>pkg/bpmn/running_instances_cache.go\<close>): one mutex per process
  instance, created on demand and dropped when no goroutine is interested in it any more.

  The first part is the cache as one goroutine sees it, with its three operations; the engine model
  uses it. The second part is the concurrent program: goroutines as program counters, the mutex
  objects as heap cells that the map refers to, and the critical sections guarded by the cache's own
  mutex as atomic steps. Rule induction over it shows that two goroutines never hold the lock of the
  same instance, and that a goroutine always unlocks the mutex it locked, although \<^verbatim>\<open>unlockInstance\<close>
  looks it up in the map again.
\<close>

section \<open>The cache seen by one goroutine\<close>

record RunningInstance =
  ri_locked :: bool
  ri_waiters :: int

type_synonym cache = "RunningInstance table"

definition tdel :: "int \<Rightarrow> 'r table \<Rightarrow> 'r table" where
  "tdel k t = filter (\<lambda>p. fst p \<noteq> k) t"

lemma tget_tdel [simp]: "tget (tdel k t) k' = (if k' = k then None else tget t k')"
  by (induction t) (auto simp: tget_def tdel_def)

text \<open>The critical section that \<^verbatim>\<open>lockInstance\<close> and \<^verbatim>\<open>tryLockInstance\<close> begin with.\<close>

definition enter :: "int \<Rightarrow> cache \<Rightarrow> RunningInstance" where
  "enter k c =
     (case tget c k of
        Some ri \<Rightarrow> ri\<lparr>ri_waiters := ri_waiters ri + 1\<rparr>
      | None \<Rightarrow> \<lparr>ri_locked = False, ri_waiters = 1\<rparr>)"

text \<open>\<open>(False, c)\<close>: the goroutine waits for the mutex.\<close>

definition lockInstance :: "int \<Rightarrow> cache \<Rightarrow> bool \<times> cache" where
  "lockInstance k c =
     (let ri = enter k c
      in if ri_locked ri then (False, tput k ri c)
         else (True, tput k (ri\<lparr>ri_locked := True\<rparr>) c))"

text \<open>The loop of \<^verbatim>\<open>tryLockInstance\<close>: whether the context is done and whether the mutex is free at
  each attempt are given as functions of the number of attempts made.\<close>

function try_attempts :: "(nat \<Rightarrow> bool) \<Rightarrow> (nat \<Rightarrow> bool) \<Rightarrow> nat \<Rightarrow> bool" where
  "try_attempts ctx_done free triedLockCount =
     (if ctx_done triedLockCount then False
      else if free triedLockCount then True
      else if triedLockCount + 1 > 5 then False
      else try_attempts ctx_done free (triedLockCount + 1))"
  by pat_completeness auto
termination
  by (relation "measure (\<lambda>(_, _, n). 6 - n)") auto

declare try_attempts.simps [simp del]

text \<open>A failed attempt returns with the counter of waiters still raised.\<close>

definition tryLockInstance :: "bool \<Rightarrow> int \<Rightarrow> cache \<Rightarrow> bool \<times> cache" where
  "tryLockInstance ctx_done k c =
     (let ri = enter k c
      in if try_attempts (\<lambda>_. ctx_done) (\<lambda>_. \<not> ri_locked ri) 0
         then (True, tput k (ri\<lparr>ri_locked := True\<rparr>) c)
         else (False, tput k ri c))"

text \<open>\<open>None\<close>: no entry (a nil pointer) or an unlocked mutex, both of which crash the program.\<close>

definition unlockInstance :: "int \<Rightarrow> cache \<Rightarrow> cache option" where
  "unlockInstance k c =
     (case tget c k of
        None \<Rightarrow> None
      | Some ri \<Rightarrow>
          if \<not> ri_locked ri then None
          else if ri_waiters ri - 1 = 0 then Some (tdel k c)
          else Some (tput k \<lparr>ri_locked = False, ri_waiters = ri_waiters ri - 1\<rparr> c))"

definition held :: "cache \<Rightarrow> int \<Rightarrow> bool" where
  "held c k \<longleftrightarrow> (case tget c k of Some ri \<Rightarrow> ri_locked ri | None \<Rightarrow> False)"

lemma try_attempts_const:
  "try_attempts (\<lambda>_. ctx_done) (\<lambda>_. free) n \<longleftrightarrow> \<not> ctx_done \<and> free"
proof (induction "6 - n" arbitrary: n)
  case 0
  then show ?case by (subst try_attempts.simps) auto
next
  case (Suc m)
  then show ?case by (subst try_attempts.simps) (cases "n + 1 > 5"; auto)
qed

lemma try_attempts_free:
  "try_attempts ctx_done free 0 \<longleftrightarrow>
     (\<exists>n \<le> 5. free n \<and> (\<forall>m \<le> n. \<not> ctx_done m))"
proof -
  have "n \<le> 5 \<Longrightarrow> try_attempts ctx_done free n \<longleftrightarrow>
      (\<exists>j. n \<le> j \<and> j \<le> 5 \<and> free j \<and> (\<forall>m. n \<le> m \<and> m \<le> j \<longrightarrow> \<not> ctx_done m))" for n
  proof (induction "5 - n" arbitrary: n)
    case 0
    then have "n = 5" by simp
    then show ?case by (subst try_attempts.simps) (auto intro: exI [of _ 5])
  next
    case (Suc k)
    then have n: "n < 5" by simp
    with Suc have IH: "try_attempts ctx_done free (Suc n) \<longleftrightarrow>
      (\<exists>j. Suc n \<le> j \<and> j \<le> 5 \<and> free j \<and> (\<forall>m. Suc n \<le> m \<and> m \<le> j \<longrightarrow> \<not> ctx_done m))"
      by simp
    show ?case
    proof (cases "ctx_done n \<or> free n")
      case True
      then show ?thesis using n by (subst try_attempts.simps) (auto intro: exI [of _ n])
    next
      case False
      then have f: "free j \<Longrightarrow> n \<le> j \<longleftrightarrow> Suc n \<le> j" and c: "ctx_done j \<Longrightarrow> n \<le> j \<longleftrightarrow> Suc n \<le> j" for j
        by (metis Suc_leD Suc_leI le_neq_implies_less)+
      from False n have "try_attempts ctx_done free n = try_attempts ctx_done free (Suc n)"
        by (subst try_attempts.simps) simp
      then show ?thesis unfolding IH using f c by blast
    qed
  qed
  from this [of 0] show ?thesis by auto
qed

lemma held_lockInstance:
  "lockInstance k c = (ok, c') \<Longrightarrow> ok \<longleftrightarrow> \<not> held c k"
  "lockInstance k c = (True, c') \<Longrightarrow> held c' j \<longleftrightarrow> j = k \<or> held c j"
  by (auto simp: lockInstance_def enter_def held_def Let_def split: option.splits if_splits)

lemma held_lock_blocked: "lockInstance k c = (False, c') \<Longrightarrow> held c' j \<longleftrightarrow> held c j"
  by (auto simp: lockInstance_def enter_def held_def Let_def split: option.splits if_splits)

lemma held_tryLockInstance:
  "tryLockInstance b k c = (ok, c') \<Longrightarrow> ok \<longleftrightarrow> \<not> b \<and> \<not> held c k"
  "tryLockInstance b k c = (ok, c') \<Longrightarrow> held c' j \<longleftrightarrow> (if j = k then ok \<or> held c k else held c j)"
  by (auto simp: tryLockInstance_def enter_def held_def Let_def try_attempts_const
      split: option.splits if_splits)

lemma unlockInstance_held: "held c k \<longleftrightarrow> unlockInstance k c \<noteq> None"
  by (auto simp: unlockInstance_def held_def split: option.splits)

lemma held_unlockInstance:
  "unlockInstance k c = Some c' \<Longrightarrow> held c' j \<longleftrightarrow> j \<noteq> k \<and> held c j"
  by (auto simp: unlockInstance_def held_def split: option.splits if_splits)

text \<open>The numbers of waiters of a cache between two operations are positive.\<close>

definition cache_wf :: "cache \<Rightarrow> bool" where
  "cache_wf c \<longleftrightarrow> (\<forall>k ri. tget c k = Some ri \<longrightarrow> 0 < ri_waiters ri)"

lemma unlock_lock:
  assumes "cache_wf c" and "lockInstance k c = (True, c')"
  shows "\<exists>c''. unlockInstance k c' = Some c'' \<and> (\<forall>j. tget c'' j = tget c j)"
proof (cases "tget c k")
  case None
  with assms(2) have "c' = tput k \<lparr>ri_locked = True, ri_waiters = 1\<rparr> c"
    by (simp add: lockInstance_def enter_def)
  with None show ?thesis by (simp add: unlockInstance_def)
next
  case (Some ri)
  obtain l w where ri: "ri = \<lparr>ri_locked = l, ri_waiters = w\<rparr>" by (cases ri)
  from assms(1) Some ri have w: "0 < w" by (force simp: cache_wf_def)
  from assms(2) Some ri have c': "c' = tput k \<lparr>ri_locked = True, ri_waiters = w + 1\<rparr> c" and l: "\<not> l"
    by (auto simp: lockInstance_def enter_def Let_def split: if_splits)
  show ?thesis using Some ri w l by (simp add: unlockInstance_def c')
qed

subsection \<open>The interface the engine relies on\<close>

text \<open>
  Locks seen from the engine: acquiring adds one key to the set of held ones or does not return,
  releasing a held key removes it. The client lemma is the one a batch needs: releasing the locks it
  collected gives back exactly the locks held before.
\<close>

locale instance_locks =
  fixes is_held :: "'c \<Rightarrow> int \<Rightarrow> bool"
    and acquire :: "int \<Rightarrow> 'c \<Rightarrow> bool \<times> 'c"
    and release :: "int \<Rightarrow> 'c \<Rightarrow> 'c option"
  assumes acquire_ok: "acquire k c = (ok, c') \<Longrightarrow> ok \<longleftrightarrow> \<not> is_held c k"
    and acquire_held: "acquire k c = (True, c') \<Longrightarrow> is_held c' j \<longleftrightarrow> j = k \<or> is_held c j"
    and release_ok: "is_held c k \<longleftrightarrow> release k c \<noteq> None"
    and release_held: "release k c = Some c' \<Longrightarrow> is_held c' j \<longleftrightarrow> j \<noteq> k \<and> is_held c j"
begin

fun release_all :: "int list \<Rightarrow> 'c \<Rightarrow> 'c option" where
  "release_all [] c = Some c"
| "release_all (k # ks) c = Option.bind (release k c) (release_all ks)"

lemma release_all_total:
  "distinct ks \<Longrightarrow> (\<forall>k \<in> set ks. is_held c k) \<Longrightarrow>
     \<exists>c'. release_all ks c = Some c' \<and> (\<forall>j. is_held c' j \<longleftrightarrow> j \<notin> set ks \<and> is_held c j)"
proof (induction ks arbitrary: c)
  case Nil
  then show ?case by simp
next
  case (Cons k ks)
  then obtain c1 where c1: "release k c = Some c1" using release_ok [of c k] by auto
  then have "\<forall>j \<in> set ks. is_held c1 j" using Cons.prems release_held by auto
  with Cons.IH [of c1] Cons.prems obtain c2
    where "release_all ks c1 = Some c2" "\<forall>j. is_held c2 j \<longleftrightarrow> j \<notin> set ks \<and> is_held c1 j" by auto
  with c1 release_held [OF c1] show ?case by auto
qed

lemma acquire_twice: "acquire k c = (True, c') \<Longrightarrow> fst (acquire k c') = False"
  using acquire_ok [of k c' "fst (acquire k c')"] acquire_held by (metis prod.collapse)

end

interpretation lock_cache: instance_locks held lockInstance unlockInstance
  by unfold_locales (use held_lockInstance unlockInstance_held held_unlockInstance in blast)+

section \<open>Concurrent goroutines\<close>

datatype pc =
    Idle
  | Waiting int nat
  | Trying int nat nat
  | Holding int nat

record mutex_state =
  rmap :: "int \<Rightarrow> nat option"
  robjs :: "RunningInstance list"
  thr :: "nat \<Rightarrow> pc"

definition init_state :: mutex_state where
  "init_state = \<lparr>rmap = Map.empty, robjs = [], thr = (\<lambda>_. Idle)\<rparr>"

text \<open>The entry critical section: the object of the key, created if need be, with one more waiter.\<close>

definition enter_obj :: "int \<Rightarrow> mutex_state \<Rightarrow> nat \<times> mutex_state" where
  "enter_obj k s =
     (case rmap s k of
        Some i \<Rightarrow> (i, s\<lparr>robjs := (robjs s)[i := (robjs s ! i)\<lparr>ri_waiters := ri_waiters (robjs s ! i) + 1\<rparr>]\<rparr>)
      | None \<Rightarrow> (length (robjs s),
                 s\<lparr>robjs := robjs s @ [\<lparr>ri_locked = False, ri_waiters = 1\<rparr>],
                   rmap := (rmap s)(k \<mapsto> length (robjs s))\<rparr>))"

definition set_pc :: "nat \<Rightarrow> pc \<Rightarrow> mutex_state \<Rightarrow> mutex_state" where
  "set_pc t p s = s\<lparr>thr := (thr s)(t := p)\<rparr>"

definition set_locked :: "nat \<Rightarrow> mutex_state \<Rightarrow> mutex_state" where
  "set_locked i s = s\<lparr>robjs := (robjs s)[i := (robjs s ! i)\<lparr>ri_locked := True\<rparr>]\<rparr>"

definition unlock_obj :: "int \<Rightarrow> nat \<Rightarrow> mutex_state \<Rightarrow> mutex_state" where
  "unlock_obj k i s =
     (let ri = robjs s ! i;
          s' = s\<lparr>robjs := (robjs s)[i := \<lparr>ri_locked = False, ri_waiters = ri_waiters ri - 1\<rparr>]\<rparr>
      in if ri_waiters ri - 1 = 0 then s'\<lparr>rmap := (rmap s)(k := None)\<rparr> else s')"

inductive step :: "mutex_state \<Rightarrow> mutex_state \<Rightarrow> bool" where
  lock_enter: "thr s t = Idle \<Longrightarrow> enter_obj k s = (i, s') \<Longrightarrow> step s (set_pc t (Waiting k i) s')"
| lock_acquire: "thr s t = Waiting k i \<Longrightarrow> \<not> ri_locked (robjs s ! i) \<Longrightarrow>
    step s (set_pc t (Holding k i) (set_locked i s))"
| try_enter: "thr s t = Idle \<Longrightarrow> enter_obj k s = (i, s') \<Longrightarrow> step s (set_pc t (Trying k i 0) s')"
| try_acquire: "thr s t = Trying k i n \<Longrightarrow> \<not> ri_locked (robjs s ! i) \<Longrightarrow>
    step s (set_pc t (Holding k i) (set_locked i s))"
| try_again: "thr s t = Trying k i n \<Longrightarrow> ri_locked (robjs s ! i) \<Longrightarrow> n + 1 \<le> 5 \<Longrightarrow>
    step s (set_pc t (Trying k i (n + 1)) s)"
| try_fail: "thr s t = Trying k i n \<Longrightarrow> ri_locked (robjs s ! i) \<Longrightarrow> n + 1 > 5 \<Longrightarrow>
    step s (set_pc t Idle s)"
| try_cancel: "thr s t = Trying k i n \<Longrightarrow> step s (set_pc t Idle s)"
| unlock: "thr s t = Holding k i \<Longrightarrow> rmap s k = Some j \<Longrightarrow>
    step s (set_pc t Idle (unlock_obj k j s))"

inductive reachable :: "mutex_state \<Rightarrow> bool" where
  init: "reachable init_state"
| step: "reachable s \<Longrightarrow> step s s' \<Longrightarrow> reachable s'"

fun at_obj :: "pc \<Rightarrow> (int \<times> nat) option" where
  "at_obj Idle = None"
| "at_obj (Waiting k i) = Some (k, i)"
| "at_obj (Trying k i _) = Some (k, i)"
| "at_obj (Holding k i) = Some (k, i)"

definition users :: "mutex_state \<Rightarrow> nat \<Rightarrow> nat set" where
  "users s i = {t. \<exists>k. at_obj (thr s t) = Some (k, i)}"

subsection \<open>The invariant\<close>

definition mutex_inv :: "mutex_state \<Rightarrow> bool" where
  "mutex_inv s \<longleftrightarrow>
     (\<forall>t k i. at_obj (thr s t) = Some (k, i) \<longrightarrow> rmap s k = Some i) \<and>
     (\<forall>k i. rmap s k = Some i \<longrightarrow> i < length (robjs s)) \<and>
     (\<forall>k k' i. rmap s k = Some i \<longrightarrow> rmap s k' = Some i \<longrightarrow> k = k') \<and>
     finite {t. thr s t \<noteq> Idle} \<and>
     (\<forall>k i. rmap s k = Some i \<longrightarrow> int (card (users s i)) \<le> ri_waiters (robjs s ! i)) \<and>
     (\<forall>k i. rmap s k = Some i \<longrightarrow> ri_locked (robjs s ! i) = (\<exists>t k'. thr s t = Holding k' i)) \<and>
     (\<forall>t t' k k' i. thr s t = Holding k i \<longrightarrow> thr s t' = Holding k' i \<longrightarrow> t = t')"

lemma mutex_invI:
  assumes "\<And>t k i. at_obj (thr s t) = Some (k, i) \<Longrightarrow> rmap s k = Some i"
    and "\<And>k i. rmap s k = Some i \<Longrightarrow> i < length (robjs s)"
    and "\<And>k k' i. rmap s k = Some i \<Longrightarrow> rmap s k' = Some i \<Longrightarrow> k = k'"
    and "finite {t. thr s t \<noteq> Idle}"
    and "\<And>k i. rmap s k = Some i \<Longrightarrow> int (card (users s i)) \<le> ri_waiters (robjs s ! i)"
    and "\<And>k i. rmap s k = Some i \<Longrightarrow> ri_locked (robjs s ! i) = (\<exists>t k'. thr s t = Holding k' i)"
    and "\<And>t t' k k' i. thr s t = Holding k i \<Longrightarrow> thr s t' = Holding k' i \<Longrightarrow> t = t'"
  shows "mutex_inv s"
  using assms unfolding mutex_inv_def by blast

lemma mutex_invD:
  assumes "mutex_inv s"
  shows inv_at: "at_obj (thr s t) = Some (k, i) \<Longrightarrow> rmap s k = Some i"
    and inv_len: "rmap s k = Some i \<Longrightarrow> i < length (robjs s)"
    and inv_inj: "rmap s k = Some i \<Longrightarrow> rmap s k' = Some i \<Longrightarrow> k = k'"
    and inv_fin: "finite {t. thr s t \<noteq> Idle}"
    and inv_cnt: "rmap s k = Some i \<Longrightarrow> int (card (users s i)) \<le> ri_waiters (robjs s ! i)"
    and inv_lck: "rmap s k = Some i \<Longrightarrow> ri_locked (robjs s ! i) = (\<exists>t k'. thr s t = Holding k' i)"
    and inv_one: "thr s t = Holding k i \<Longrightarrow> thr s t' = Holding k' i \<Longrightarrow> t = t'"
  using assms unfolding mutex_inv_def by blast+

lemma thr_set_pc [simp]: "thr (set_pc t p s) = (thr s)(t := p)"
  and rmap_set_pc [simp]: "rmap (set_pc t p s) = rmap s"
  and robjs_set_pc [simp]: "robjs (set_pc t p s) = robjs s"
  by (simp_all add: set_pc_def)

lemma finite_users: "mutex_inv s \<Longrightarrow> finite (users s i)"
  by (rule finite_subset [OF _ inv_fin]) (auto simp: users_def)

lemma finite_upd: "finite {t. f t \<noteq> Idle} \<Longrightarrow> finite {x. (f(t := p)) x \<noteq> Idle}"
  by (rule finite_subset [of _ "insert t {t. f t \<noteq> Idle}"]) auto

lemma users_set_pc:
  "users (set_pc t p s) i =
     (if \<exists>k. at_obj p = Some (k, i) then insert t (users s i) else users s i - {t})"
  by (auto simp: users_def)

text \<open>A goroutine that leaves without the lock (a failed or cancelled attempt, or one more round).\<close>

lemma inv_quiet:
  assumes I: "mutex_inv s" and t: "thr s t = Trying k i n"
    and p: "p = Idle \<or> p = Trying k i m"
  shows "mutex_inv (set_pc t p s)"
proof -
  have sub: "users (set_pc t p s) j \<subseteq> users s j" for j
    using t p by (auto simp: users_def split: if_splits)
  have cnt: "card (users (set_pc t p s) j) \<le> card (users s j)" for j
    using sub finite_users [OF I] by (rule card_mono [rotated])
  have hold: "thr (set_pc t p s) t' = Holding k' j \<longleftrightarrow> thr s t' = Holding k' j" for t' k' j
    using t p by auto
  show ?thesis
  proof (rule mutex_invI)
    fix t' k' j assume "at_obj (thr (set_pc t p s) t') = Some (k', j)"
    then show "rmap (set_pc t p s) k' = Some j"
      using p t inv_at [OF I, of t'] inv_at [OF I, of t] by (auto split: if_splits)
  next
    fix k' j assume "rmap (set_pc t p s) k' = Some j"
    then show "int (card (users (set_pc t p s) j)) \<le> ri_waiters (robjs (set_pc t p s) ! j)"
      using inv_cnt [OF I, of k' j] cnt [of j] by simp
  next
    show "finite {x. thr (set_pc t p s) x \<noteq> Idle}"
      using finite_upd [OF inv_fin [OF I]] by simp
  qed (simp_all only: hold rmap_set_pc robjs_set_pc inv_lck [OF I],
      (blast intro: inv_len [OF I] inv_inj [OF I] inv_one [OF I])+)
qed

lemma inv_enter:
  assumes I: "mutex_inv s" and t: "thr s t = Idle" and e: "enter_obj k s = (i, s')"
    and p: "at_obj p = Some (k, i)" "\<forall>k i. p \<noteq> Holding k i"
  shows "mutex_inv (set_pc t p s')"
proof (cases "rmap s k")
  case None
  with e have i: "i = length (robjs s)"
    and s': "s' = s\<lparr>robjs := robjs s @ [\<lparr>ri_locked = False, ri_waiters = 1\<rparr>], rmap := (rmap s)(k \<mapsto> i)\<rparr>"
    by (auto simp: enter_obj_def)
  have fresh: "rmap s k' \<noteq> Some i" for k' using inv_len [OF I, of k' i] i by auto
  have none: "at_obj (thr s t') \<noteq> Some (k', i)" for t' k' using inv_at [OF I] fresh by blast
  have ui: "users (set_pc t p s') i = {t}" using none p by (auto simp: users_def s')
  have uj: "j \<noteq> i \<Longrightarrow> users (set_pc t p s') j = users s j" for j using t p by (auto simp: users_def s')
  have hold: "thr (set_pc t p s') t' = Holding k' j \<longleftrightarrow> thr s t' = Holding k' j" for t' k' j
    using t p by (auto simp: s')
  have nohold: "thr s t' \<noteq> Holding k' i" for t' k' using none [of t' k'] by auto
  show ?thesis
  proof (rule mutex_invI)
    fix t' k' j assume a: "at_obj (thr (set_pc t p s') t') = Some (k', j)"
    then show "rmap (set_pc t p s') k' = Some j"
      using p inv_at [OF I, of t' k' j] None by (auto simp: s' split: if_splits)
  next
    fix k' j assume "rmap (set_pc t p s') k' = Some j"
    then show "j < length (robjs (set_pc t p s'))"
      using inv_len [OF I, of k' j] i by (auto simp: s' split: if_splits)
  next
    fix a b j assume "rmap (set_pc t p s') a = Some j" "rmap (set_pc t p s') b = Some j"
    then show "a = b" using inv_inj [OF I, of a j b] fresh by (auto simp: s' split: if_splits)
  next
    show "finite {x. thr (set_pc t p s') x \<noteq> Idle}"
      using finite_upd [OF inv_fin [OF I]] by (simp add: s')
  next
    fix k' j assume r: "rmap (set_pc t p s') k' = Some j"
    show "int (card (users (set_pc t p s') j)) \<le> ri_waiters (robjs (set_pc t p s') ! j)"
    proof (cases "j = i")
      case True
      then show ?thesis using ui i by (simp add: s')
    next
      case False
      then show ?thesis using r uj inv_cnt [OF I, of k' j] inv_len [OF I, of k' j]
        by (auto simp: s' nth_append split: if_splits)
    qed
    show "ri_locked (robjs (set_pc t p s') ! j) = (\<exists>t' k''. thr (set_pc t p s') t' = Holding k'' j)"
    proof (cases "j = i")
      case True
      then show ?thesis unfolding hold using i nohold by (simp add: s')
    next
      case False
      then show ?thesis unfolding hold using r inv_lck [OF I, of k' j] inv_len [OF I, of k' j]
        by (auto simp: s' nth_append split: if_splits)
    qed
  qed (use hold inv_one [OF I] in blast)
next
  case (Some i')
  with e have i: "i' = i"
    and s': "s' = s\<lparr>robjs := (robjs s)[i := (robjs s ! i)\<lparr>ri_waiters := ri_waiters (robjs s ! i) + 1\<rparr>]\<rparr>"
    by (auto simp: enter_obj_def)
  from Some i have len: "i < length (robjs s)" using inv_len [OF I] by blast
  have ui: "users (set_pc t p s') i = insert t (users s i)" using p by (auto simp: users_def s')
  have uj: "j \<noteq> i \<Longrightarrow> users (set_pc t p s') j = users s j" for j using t p by (auto simp: users_def s')
  have tn: "t \<notin> users s i" using t by (simp add: users_def)
  have hold: "thr (set_pc t p s') t' = Holding k' j \<longleftrightarrow> thr s t' = Holding k' j" for t' k' j
    using t p by (auto simp: s')
  have rm: "rmap (set_pc t p s') = rmap s" by (simp add: s')
  have lk: "ri_locked (robjs (set_pc t p s') ! j) = ri_locked (robjs s ! j)" for j
    using len by (cases "j = i") (auto simp: s')
  show ?thesis
  proof (rule mutex_invI)
    fix t' k' j assume a: "at_obj (thr (set_pc t p s') t') = Some (k', j)"
    then show "rmap (set_pc t p s') k' = Some j"
      using p inv_at [OF I, of t' k' j] Some i by (auto simp: s' split: if_splits)
  next
    fix k' j assume "rmap (set_pc t p s') k' = Some j"
    then show "int (card (users (set_pc t p s') j)) \<le> ri_waiters (robjs (set_pc t p s') ! j)"
      using inv_cnt [OF I, of k' j] ui uj [of j] tn finite_users [OF I] len
      by (cases "j = i") (auto simp: s')
  next
    show "finite {x. thr (set_pc t p s') x \<noteq> Idle}"
      using finite_upd [OF inv_fin [OF I]] by (simp add: s')
  next
    fix k' j assume "rmap (set_pc t p s') k' = Some j"
    then show "j < length (robjs (set_pc t p s'))" using inv_len [OF I, of k' j] by (simp add: s')
  qed (simp_all only: hold lk rm inv_lck [OF I],
      (blast intro: inv_inj [OF I] inv_one [OF I])+)
qed

lemma inv_acquire:
  assumes I: "mutex_inv s" and t: "at_obj (thr s t) = Some (k, i)"
    and free: "\<not> ri_locked (robjs s ! i)"
  shows "mutex_inv (set_pc t (Holding k i) (set_locked i s))"
proof -
  let ?s = "set_pc t (Holding k i) (set_locked i s)"
  have k: "rmap s k = Some i" using inv_at [OF I t] .
  then have len: "i < length (robjs s)" by (rule inv_len [OF I])
  have nohold: "thr s t' \<noteq> Holding k' i" for t' k' using inv_lck [OF I k] free by blast
  have u: "users ?s j = users s j" for j
    using t by (auto simp: users_def set_locked_def split: if_splits)
  have w: "ri_waiters (robjs ?s ! j) = ri_waiters (robjs s ! j)" for j
    using len by (cases "j = i") (auto simp: set_locked_def)
  have rm: "rmap ?s = rmap s" "length (robjs ?s) = length (robjs s)" by (simp_all add: set_locked_def)
  show ?thesis
  proof (rule mutex_invI)
    fix t' k' j assume "at_obj (thr ?s t') = Some (k', j)"
    then show "rmap ?s k' = Some j"
      using k inv_at [OF I, of t' k' j] by (auto simp: set_locked_def split: if_splits)
  next
    show "finite {x. thr ?s x \<noteq> Idle}"
      using finite_upd [OF inv_fin [OF I]] by (simp add: set_locked_def)
  next
    fix k' j assume r: "rmap ?s k' = Some j"
    show "ri_locked (robjs ?s ! j) = (\<exists>t k'. thr ?s t = Holding k' j)"
    proof (cases "j = i")
      case True
      then show ?thesis using len by (auto simp: set_locked_def)
    next
      case False
      then have nt: "thr s t \<noteq> Holding k'' j" for k'' using t by auto
      have "thr ?s t' = Holding k'' j \<longleftrightarrow> thr s t' = Holding k'' j" for t' k''
        using False nt by (auto simp: set_locked_def)
      then show ?thesis using r False inv_lck [OF I, of k' j] by (simp add: set_locked_def)
    qed
  next
    fix a b c d j assume "thr ?s a = Holding c j" "thr ?s b = Holding d j"
    then show "a = b" using nohold inv_one [OF I, of a c j b d]
      by (auto simp: set_locked_def split: if_splits)
  qed (simp_all only: rm u w, (blast intro: inv_inj [OF I] inv_len [OF I] inv_cnt [OF I])+)
qed

lemma inv_unlock:
  assumes I: "mutex_inv s" and t: "thr s t = Holding k i"
  shows "mutex_inv (set_pc t Idle (unlock_obj k i s))"
proof -
  let ?s = "set_pc t Idle (unlock_obj k i s)" and ?w = "ri_waiters (robjs s ! i)"
  have k: "rmap s k = Some i" using inv_at [OF I, of t] t by simp
  then have len: "i < length (robjs s)" by (rule inv_len [OF I])
  have thr: "thr ?s = (thr s)(t := Idle)"
    and objs: "robjs ?s = (robjs s)[i := \<lparr>ri_locked = False, ri_waiters = ?w - 1\<rparr>]"
    and rm: "rmap ?s = (if ?w - 1 = 0 then (rmap s)(k := None) else rmap s)"
    by (simp_all add: unlock_obj_def Let_def)
  have tu: "t \<in> users s i" using t by (auto simp: users_def)
  have u: "users ?s j = users s j - {t}" for j unfolding users_def thr by auto
  have card: "int (card (users s i - {t})) \<le> ?w - 1"
    using inv_cnt [OF I k] tu finite_users [OF I, of i] card_gt_0_iff [of "users s i"] by auto
  have other: "thr s t' \<noteq> Holding k' i" if "t' \<noteq> t" for t' k' using inv_one [OF I t] that by blast
  have rmD: "rmap ?s a = Some j \<Longrightarrow> rmap s a = Some j" for a j unfolding rm by (auto split: if_splits)
  show ?thesis
  proof (rule mutex_invI)
    fix t' k' j assume a: "at_obj (thr ?s t') = Some (k', j)"
    then have t': "t' \<noteq> t" "at_obj (thr s t') = Some (k', j)" unfolding thr by (auto split: if_splits)
    then have r: "rmap s k' = Some j" using inv_at [OF I] by blast
    show "rmap ?s k' = Some j"
    proof (cases "?w - 1 = 0 \<and> k' = k")
      case True
      then have "card (users s i - {t}) = 0" using card by simp
      then have "users s i - {t} = {}" using finite_users [OF I] by simp
      moreover have "t' \<in> users s i - {t}" using t' r k True by (auto simp: users_def)
      ultimately show ?thesis by blast
    next
      case False
      then show ?thesis using r unfolding rm by auto
    qed
  next
    show "finite {x. thr ?s x \<noteq> Idle}" unfolding thr by (rule finite_upd [OF inv_fin [OF I]])
  next
    fix k' j assume "rmap ?s k' = Some j"
    then have r: "rmap s k' = Some j" by (rule rmD)
    show "int (card (users ?s j)) \<le> ri_waiters (robjs ?s ! j)"
    proof (cases "j = i")
      case True
      then show ?thesis unfolding u objs using card len by simp
    next
      case False
      then show ?thesis unfolding u objs using inv_cnt [OF I r] card_Diff1_le [of "users s j" t] by simp
    qed
    show "ri_locked (robjs ?s ! j) = (\<exists>t k'. thr ?s t = Holding k' j)"
    proof (cases "j = i")
      case True
      then show ?thesis unfolding objs thr using other len by auto
    next
      case False
      then have "thr s t \<noteq> Holding k'' j" for k'' using t by simp
      then have "((thr s)(t := Idle)) t' = Holding k'' j \<longleftrightarrow> thr s t' = Holding k'' j" for t' k''
        by auto
      with False show ?thesis unfolding objs thr using inv_lck [OF I r] by simp
    qed
    show "j < length (robjs ?s)" unfolding objs using inv_len [OF I r] by simp
  next
    fix a b j assume "rmap ?s a = Some j" "rmap ?s b = Some j"
    then show "a = b" using rmD inv_inj [OF I] by blast
  next
    fix a b c d j assume "thr ?s a = Holding c j" "thr ?s b = Holding d j"
    then show "a = b" unfolding thr using inv_one [OF I] by (auto split: if_splits)
  qed
qed

lemma inv_init: "mutex_inv init_state"
  by (rule mutex_invI) (simp_all add: init_state_def users_def)

lemma inv_step: "step s s' \<Longrightarrow> mutex_inv s \<Longrightarrow> mutex_inv s'"
proof (induction rule: step.induct)
  case (unlock s t k i j)
  then have "rmap s k = Some i" using inv_at [of s t k i] by simp
  with unlock inv_unlock show ?case by simp
qed (auto intro: inv_enter inv_acquire inv_quiet)

lemma reachable_inv: "reachable s \<Longrightarrow> mutex_inv s"
  by (induction rule: reachable.induct) (auto intro: inv_init inv_step)

section \<open>Properties\<close>

text \<open>The state after one goroutine locked instance 7.\<close>

definition demo_locked :: mutex_state where
  "demo_locked =
     \<lparr>rmap = Map.empty(7 \<mapsto> 0), robjs = [\<lparr>ri_locked = True, ri_waiters = 1\<rparr>],
      thr = (\<lambda>_. Idle)(0 := Holding 7 0)\<rparr>"

lemma demo_locked_reachable: "reachable demo_locked"
proof -
  let ?s = "set_pc 0 (Waiting 7 0) (snd (enter_obj 7 init_state))"
  have "step init_state ?s"
    by (rule lock_enter [of _ 0 7]) (simp_all add: init_state_def enter_obj_def)
  then have r: "reachable ?s" by (rule reachable.step [OF reachable.init])
  have "step ?s (set_pc 0 (Holding 7 0) (set_locked 0 ?s))"
    by (rule lock_acquire) (simp_all add: init_state_def enter_obj_def)
  moreover have "set_pc 0 (Holding 7 0) (set_locked 0 ?s) = demo_locked"
    by (simp add: demo_locked_def set_pc_def set_locked_def init_state_def enter_obj_def)
  ultimately show ?thesis using reachable.step [OF r] by simp
qed

text \<open>C10. Mutual exclusion: in every reachable state of any number of goroutines calling
  \<^verbatim>\<open>lockInstance\<close>, \<^verbatim>\<open>tryLockInstance\<close> and \<^verbatim>\<open>unlockInstance\<close> in any interleaving, at most one of them
  holds the lock of a process instance.\<close>

theorem instance_lock_mutual_exclusion:
  assumes "reachable s" and "thr s t = Holding k i" and "thr s t' = Holding k i'"
  shows "t = t'"
proof -
  note I = reachable_inv [OF assms(1)]
  have "i = i'" using inv_at [OF I, of t k i] inv_at [OF I, of t' k i'] assms(2,3) by simp
  with assms(2,3) show ?thesis using inv_one [OF I] by blast
qed

theorem instance_lock_mutual_exclusion_witness:
  "reachable demo_locked \<and> thr demo_locked 0 = Holding 7 0 \<and>
   {t'. thr demo_locked t' = Holding 7 0} = {0}"
proof -
  have h: "thr demo_locked 0 = Holding 7 0" by (simp add: demo_locked_def)
  show ?thesis
    using instance_lock_mutual_exclusion [OF demo_locked_reachable h] demo_locked_reachable h by blast
qed

text \<open>\<^verbatim>\<open>unlockInstance\<close> looks the mutex up again: a goroutine that holds the lock of an instance
  always finds the entry it locked, and finds it locked, so the call neither dereferences nil nor
  unlocks an unlocked mutex.\<close>

theorem unlock_finds_own_mutex:
  assumes "reachable s" and "thr s t = Holding k i"
  shows "rmap s k = Some i \<and> ri_locked (robjs s ! i) \<and> 0 < ri_waiters (robjs s ! i)"
proof -
  note I = reachable_inv [OF assms(1)]
  have k: "rmap s k = Some i" using inv_at [OF I, of t k i] assms(2) by simp
  have "t \<in> users s i" using assms(2) by (auto simp: users_def)
  then have "0 < card (users s i)" using finite_users [OF I] card_gt_0_iff by blast
  with k inv_cnt [OF I k] inv_lck [OF I k] assms(2) show ?thesis by auto
qed

theorem unlock_finds_own_mutex_witness:
  "reachable demo_locked \<and> thr demo_locked 0 = Holding 7 0 \<and> rmap demo_locked 7 = Some 0"
proof -
  have h: "thr demo_locked 0 = Holding 7 0" by (simp add: demo_locked_def)
  show ?thesis using unlock_finds_own_mutex [OF demo_locked_reachable h] demo_locked_reachable h by blast
qed

lemma set_pc_twice: "set_pc t p (set_pc t q s) = set_pc t p s"
  by (simp add: set_pc_def)

lemma try_gives_up:
  "reachable (set_pc t (Trying k i n) s) \<Longrightarrow> ri_locked (robjs s ! i) \<Longrightarrow> n \<le> 5 \<Longrightarrow>
     reachable (set_pc t Idle s)"
proof (induction "5 - n" arbitrary: n)
  case 0
  then have "step (set_pc t (Trying k i n) s) (set_pc t Idle (set_pc t (Trying k i n) s))"
    by (intro try_fail [of _ t k i n]) simp_all
  with 0 show ?case using reachable.step by (simp add: set_pc_twice)
next
  case (Suc m)
  have "step (set_pc t (Trying k i n) s) (set_pc t (Trying k i (n + 1)) (set_pc t (Trying k i n) s))"
    using Suc by (intro try_again [of _ t k i n]) simp_all
  with Suc.prems have r: "reachable (set_pc t (Trying k i (n + 1)) s)"
    using reachable.step by (simp add: set_pc_twice)
  from Suc.hyps(2) have "m = 5 - (n + 1)" "n + 1 \<le> 5" by simp_all
  with r Suc.hyps(1) Suc.prems(2) show ?case by blast
qed

text \<open>A failed \<^verbatim>\<open>tryLockInstance\<close> leaks: after six failed attempts the goroutine returns with the
  counter still raised, so that when everybody has left the entry of the instance stays in the map
  for ever.\<close>

theorem failed_tryLock_leaks_entry:
  "\<exists>s. reachable s \<and> (\<forall>t. thr s t = Idle) \<and> rmap s 7 \<noteq> None \<and>
       ri_waiters (robjs s ! 0) = 1 \<and> \<not> ri_locked (robjs s ! 0)"
proof -
  let ?e = "snd (enter_obj 7 demo_locked)"
  have "step demo_locked (set_pc 1 (Trying 7 0 0) ?e)"
    by (rule try_enter) (simp_all add: demo_locked_def enter_obj_def)
  then have "reachable (set_pc 1 (Trying 7 0 0) ?e)" by (rule reachable.step [OF demo_locked_reachable])
  then have r: "reachable (set_pc 1 Idle ?e)"
    by (rule try_gives_up) (simp_all add: demo_locked_def enter_obj_def)
  have "step (set_pc 1 Idle ?e) (set_pc 0 Idle (unlock_obj 7 0 (set_pc 1 Idle ?e)))"
    by (rule unlock [of _ _ _ 0]) (simp_all add: demo_locked_def enter_obj_def)
  then have "reachable (set_pc 0 Idle (unlock_obj 7 0 (set_pc 1 Idle ?e)))"
    by (rule reachable.step [OF r])
  moreover have "set_pc 0 Idle (unlock_obj 7 0 (set_pc 1 Idle ?e)) =
      \<lparr>rmap = Map.empty(7 \<mapsto> 0), robjs = [\<lparr>ri_locked = False, ri_waiters = 1\<rparr>], thr = (\<lambda>_. Idle)\<rparr>"
    by (simp add: demo_locked_def enter_obj_def unlock_obj_def set_pc_def Let_def fun_eq_iff)
  ultimately show ?thesis by force
qed

end
