(* ===== verification/Timer_Manager.thy ===== *)
theory Timer_Manager
  imports In_Memory
begin

text \<open>
  The timer manager (\<^verbatim>\<open>pkg/bpmn/timer_manager.go\<close>): the list of timers due before the next poll, one
  goroutine per listed timer that sleeps until the due time and then hands the timer to the run loop,
  and the poll that loads the timers of the next period from the store.

  A waiting timer carries the index of its goroutine, whose context its cancel function cancels. The
  lemmas show that the list never holds a timer twice as long as the operations do not interleave,
  what a poll lists and starts, and what cancelling does: the callback of \<^verbatim>\<open>removeTimer\<close> cancels
  the goroutine of every listed timer, so the others stay listed and never fire.
\<close>

section \<open>State and operations\<close>

datatype routine = Sleeping | Cancelled | Fired

record timer_manager =
  pollTimerDelay :: int
  nextPoll :: int
  waitingTimers :: "(Timer \<times> nat) list"
  routines :: "(Timer \<times> routine) list"

definition newTimerManager :: "int \<Rightarrow> timer_manager" where
  "newTimerManager delay = \<lparr>pollTimerDelay = delay, nextPoll = 0, waitingTimers = [], routines = []\<rparr>"

definition start_manager :: "int \<Rightarrow> timer_manager \<Rightarrow> timer_manager" where
  "start_manager now tm = tm\<lparr>nextPoll := now + pollTimerDelay tm\<rparr>"

definition listed :: "timer_manager \<Rightarrow> int \<Rightarrow> bool" where
  "listed tm k \<longleftrightarrow> (\<exists>w \<in> set (waitingTimers tm). tm_Key (fst w) = k)"

text \<open>The two critical sections of \<^verbatim>\<open>addWaitingTimer\<close>: the check under the read lock and the append
  under the write lock, with the start of the goroutine.\<close>

definition append_waiting :: "Timer \<Rightarrow> timer_manager \<Rightarrow> timer_manager" where
  "append_waiting tft tm =
     tm\<lparr>waitingTimers := waitingTimers tm @ [(tft, length (routines tm))],
        routines := routines tm @ [(tft, Sleeping)]\<rparr>"

definition addWaitingTimer :: "Timer \<Rightarrow> timer_manager \<Rightarrow> timer_manager" where
  "addWaitingTimer tft tm = (if listed tm (tm_Key tft) then tm else append_waiting tft tm)"

definition registerTimer :: "Timer \<Rightarrow> timer_manager \<Rightarrow> timer_manager" where
  "registerTimer t tm = (if tm_DueAt t > nextPoll tm then tm else addWaitingTimer t tm)"

text \<open>Cancelling the context of goroutine \<open>g\<close> ends it if it still sleeps.\<close>

definition cancel_routine :: "nat \<Rightarrow> (Timer \<times> routine) list \<Rightarrow> (Timer \<times> routine) list" where
  "cancel_routine g rs =
     (if g < length rs \<and> snd (rs ! g) = Sleeping then rs[g := (fst (rs ! g), Cancelled)] else rs)"

text \<open>\<^verbatim>\<open>slices.DeleteFunc\<close> calls its callback once on every element; the callback cancels first and
  compares then.\<close>

definition removeTimer :: "Timer \<Rightarrow> timer_manager \<Rightarrow> timer_manager" where
  "removeTimer t tm =
     (if listed tm (tm_Key t)
      then tm\<lparr>routines := fold (\<lambda>w. cancel_routine (snd w)) (waitingTimers tm) (routines tm),
              waitingTimers := filter (\<lambda>w. tm_Key (fst w) \<noteq> tm_Key t) (waitingTimers tm)\<rparr>
      else tm)"

text \<open>The run loop: a sleeping goroutine whose timer is due sends it; after the timer was processed
  the first entry with its key is dropped.\<close>

definition can_fire :: "int \<Rightarrow> nat \<Rightarrow> timer_manager \<Rightarrow> bool" where
  "can_fire now g tm \<longleftrightarrow>
     g < length (routines tm) \<and> snd (routines tm ! g) = Sleeping \<and> tm_DueAt (fst (routines tm ! g)) \<le> now"

definition fire :: "nat \<Rightarrow> timer_manager \<Rightarrow> Timer \<times> timer_manager" where
  "fire g tm =
     (fst (routines tm ! g), tm\<lparr>routines := (routines tm)[g := (fst (routines tm ! g), Fired)]\<rparr>)"

fun drop_first :: "int \<Rightarrow> (Timer \<times> nat) list \<Rightarrow> (Timer \<times> nat) list" where
  "drop_first k [] = []"
| "drop_first k (w # ws) = (if tm_Key (fst w) = k then ws else w # drop_first k ws)"

definition fired :: "Timer \<Rightarrow> timer_manager \<Rightarrow> timer_manager" where
  "fired t tm = tm\<lparr>waitingTimers := drop_first (tm_Key t) (waitingTimers tm)\<rparr>"

text \<open>The tick of the run loop at time \<open>t\<close>, with what \<^verbatim>\<open>pollTimerFunc\<close> returned: an error is logged and
  nothing happens; otherwise every timer is listed, and the end of the period moves on. The engine passes
  the store's \<^verbatim>\<open>FindTimersTo\<close> as that function (\<open>polled\<close>).\<close>

definition poll :: "int \<Rightarrow> error + Timer list \<Rightarrow> timer_manager \<Rightarrow> timer_manager" where
  "poll t toFireTimers tm =
     (case toFireTimers of
        Inl _ \<Rightarrow> tm
      | Inr ts \<Rightarrow> (fold addWaitingTimer ts tm)\<lparr>nextPoll := t + pollTimerDelay tm\<rparr>)"

definition polled :: "Storage \<Rightarrow> int \<Rightarrow> timer_manager \<Rightarrow> error + Timer list" where
  "polled d t tm = Inr (FindTimersTo d (t + pollTimerDelay tm))"

definition stop_manager :: "timer_manager \<Rightarrow> timer_manager" where
  "stop_manager tm =
     tm\<lparr>routines := map (\<lambda>r. if snd r = Sleeping then (fst r, Cancelled) else r) (routines tm)\<rparr>"

section \<open>The list holds no timer twice\<close>

definition manager_wf :: "timer_manager \<Rightarrow> bool" where
  "manager_wf tm \<longleftrightarrow>
     distinct (map (\<lambda>w. tm_Key (fst w)) (waitingTimers tm)) \<and>
     (\<forall>w \<in> set (waitingTimers tm). snd w < length (routines tm) \<and> fst (routines tm ! snd w) = fst w)"

lemma manager_wf_new: "manager_wf (newTimerManager delay)"
  by (simp add: manager_wf_def newTimerManager_def)

lemma append_waiting_wf:
  "manager_wf tm \<Longrightarrow> \<not> listed tm (tm_Key t) \<Longrightarrow> manager_wf (append_waiting t tm)"
  by (auto simp: manager_wf_def append_waiting_def listed_def nth_append)

lemma addWaitingTimer_wf: "manager_wf tm \<Longrightarrow> manager_wf (addWaitingTimer t tm)"
  by (simp add: addWaitingTimer_def append_waiting_wf)

lemma fold_add_wf: "manager_wf tm \<Longrightarrow> manager_wf (fold addWaitingTimer ts tm)"
  by (induction ts arbitrary: tm) (auto intro: addWaitingTimer_wf)

lemma length_cancel_routine [simp]: "length (cancel_routine g rs) = length rs"
  by (simp add: cancel_routine_def)

lemma fst_cancel_routine: "i < length rs \<Longrightarrow> fst (cancel_routine g rs ! i) = fst (rs ! i)"
  by (cases "i = g") (auto simp: cancel_routine_def)

lemma fold_cancel:
  "length (fold (\<lambda>w. cancel_routine (snd w)) ws rs) = length rs"
  "i < length rs \<Longrightarrow> fst (fold (\<lambda>w. cancel_routine (snd w)) ws rs ! i) = fst (rs ! i)"
  by (induction ws arbitrary: rs) (auto simp: fst_cancel_routine)

lemma cancel_routine_not_sleeping:
  "i < length rs \<Longrightarrow> snd (rs ! i) \<noteq> Sleeping \<Longrightarrow> snd (cancel_routine g rs ! i) \<noteq> Sleeping"
  by (cases "i = g") (auto simp: cancel_routine_def)

lemma cancel_routine_self: "g < length rs \<Longrightarrow> snd (cancel_routine g rs ! g) \<noteq> Sleeping"
  by (auto simp: cancel_routine_def)

lemma fold_cancel_stays:
  "i < length rs \<Longrightarrow> snd (rs ! i) \<noteq> Sleeping \<Longrightarrow>
     snd (fold (\<lambda>w. cancel_routine (snd w)) ws rs ! i) \<noteq> Sleeping"
  by (induction ws arbitrary: rs) (auto simp: cancel_routine_not_sleeping)

lemma fold_cancel_all:
  "w \<in> set ws \<Longrightarrow> snd w < length rs \<Longrightarrow>
     snd (fold (\<lambda>w. cancel_routine (snd w)) ws rs ! snd w) \<noteq> Sleeping"
proof (induction ws arbitrary: rs)
  case Nil
  then show ?case by simp
next
  case (Cons v ws)
  show ?case
  proof (cases "v = w")
    case True
    with Cons.prems show ?thesis
      using fold_cancel_stays [of "snd w" "cancel_routine (snd w) rs" ws] cancel_routine_self by simp
  next
    case False
    with Cons show ?thesis by simp
  qed
qed

lemma removeTimer_wf: "manager_wf tm \<Longrightarrow> manager_wf (removeTimer t tm)"
  by (auto simp: manager_wf_def removeTimer_def fold_cancel distinct_map inj_on_def)

lemma set_drop_first: "set (drop_first k ws) \<subseteq> set ws"
  by (induction ws) auto

lemma distinct_drop_first:
  "distinct (map (\<lambda>w. tm_Key (fst w)) ws) \<Longrightarrow> distinct (map (\<lambda>w. tm_Key (fst w)) (drop_first k ws))"
proof (induction ws)
  case Nil
  then show ?case by simp
next
  case (Cons w ws)
  with set_drop_first [of k ws] show ?case by auto
qed

lemma fired_wf: "manager_wf tm \<Longrightarrow> manager_wf (fired t tm)"
  using set_drop_first distinct_drop_first unfolding manager_wf_def fired_def by fastforce

lemma fire_wf: "manager_wf tm \<Longrightarrow> can_fire now g tm \<Longrightarrow> manager_wf (snd (fire g tm))"
  by (auto simp: manager_wf_def fire_def can_fire_def nth_list_update)

lemma listed_add: "listed (addWaitingTimer t tm) k \<longleftrightarrow> listed tm k \<or> k = tm_Key t"
  by (auto simp: addWaitingTimer_def append_waiting_def listed_def)

lemma listed_fold_add: "listed (fold addWaitingTimer ts tm) k \<longleftrightarrow> listed tm k \<or> k \<in> tm_Key ` set ts"
  by (induction ts arbitrary: tm) (auto simp: listed_add)

lemma listed_nextPoll [simp]: "listed (tm\<lparr>nextPoll := x\<rparr>) k = listed tm k"
  by (simp add: listed_def)

section \<open>Runs of the manager\<close>

text \<open>The states the manager reaches when its operations do not interleave.\<close>

inductive managed :: "timer_manager \<Rightarrow> bool" where
  m_new: "managed (start_manager now (newTimerManager delay))"
| m_register: "managed tm \<Longrightarrow> managed (registerTimer t tm)"
| m_remove: "managed tm \<Longrightarrow> managed (removeTimer t tm)"
| m_poll: "managed tm \<Longrightarrow> managed (poll now ts tm)"
| m_fire: "managed tm \<Longrightarrow> can_fire now g tm \<Longrightarrow> managed (snd (fire g tm))"
| m_fired: "managed tm \<Longrightarrow> managed (fired t tm)"

lemma managed_wf: "managed tm \<Longrightarrow> manager_wf tm"
proof (induction rule: managed.induct)
  case (m_new now delay)
  then show ?case by (simp add: start_manager_def newTimerManager_def manager_wf_def)
next
  case (m_register tm t)
  then show ?case by (simp add: registerTimer_def addWaitingTimer_wf)
next
  case (m_poll tm now ts)
  then show ?case
    using fold_add_wf [of tm] by (cases ts) (simp_all add: poll_def manager_wf_def)
qed (auto intro: removeTimer_wf fire_wf fired_wf)

lemma add_keeps_waiting:
  "w \<in> set (waitingTimers tm) \<Longrightarrow> w \<in> set (waitingTimers (addWaitingTimer t tm))"
  by (simp add: addWaitingTimer_def append_waiting_def)

lemma add_keeps_routine:
  "g < length (routines tm) \<Longrightarrow> g < length (routines (addWaitingTimer t tm)) \<and>
     routines (addWaitingTimer t tm) ! g = routines tm ! g"
  by (simp add: addWaitingTimer_def append_waiting_def nth_append)

lemma fold_add_keeps:
  "w \<in> set (waitingTimers tm) \<Longrightarrow> w \<in> set (waitingTimers (fold addWaitingTimer ts tm))"
  "g < length (routines tm) \<Longrightarrow> g < length (routines (fold addWaitingTimer ts tm)) \<and>
     routines (fold addWaitingTimer ts tm) ! g = routines tm ! g"
  by (induction ts arbitrary: tm) (auto simp: add_keeps_waiting add_keeps_routine)

text \<open>Listing a timer that is not listed yet starts a goroutine that sleeps on it; listing others later
  leaves that goroutine alone.\<close>

lemma add_starts_goroutine:
  assumes "\<not> listed tm (tm_Key t)"
  shows "(t, length (routines tm)) \<in> set (waitingTimers (addWaitingTimer t tm)) \<and>
    length (routines tm) < length (routines (addWaitingTimer t tm)) \<and>
    routines (addWaitingTimer t tm) ! length (routines tm) = (t, Sleeping)"
  using assms by (simp add: addWaitingTimer_def append_waiting_def)

definition sleeps_on :: "timer_manager \<Rightarrow> Timer \<Rightarrow> bool" where
  "sleeps_on tm t \<longleftrightarrow>
     (\<exists>g. (t, g) \<in> set (waitingTimers tm) \<and> (\<forall>now. can_fire now g tm \<longleftrightarrow> tm_DueAt t \<le> now))"

lemma sleeps_onI:
  "(t, g) \<in> set (waitingTimers tm) \<Longrightarrow> g < length (routines tm) \<Longrightarrow> routines tm ! g = (t, Sleeping) \<Longrightarrow>
     sleeps_on tm t"
  unfolding sleeps_on_def can_fire_def by (intro exI [where x = g]) simp

lemma fold_add_starts_goroutine:
  assumes "t \<in> set ts" and "\<not> listed tm (tm_Key t)"
    and "\<forall>t' \<in> set ts. tm_Key t' = tm_Key t \<longrightarrow> t' = t"
  shows "sleeps_on (fold addWaitingTimer ts tm) t"
  using assms
proof (induction ts arbitrary: tm)
  case Nil
  then show ?case by simp
next
  case (Cons u us)
  show ?case
  proof (cases "u = t")
    case True
    from add_starts_goroutine [OF Cons.prems(2)]
    have w: "(t, length (routines tm)) \<in> set (waitingTimers (addWaitingTimer t tm))"
      and l: "length (routines tm) < length (routines (addWaitingTimer t tm))"
      and r: "routines (addWaitingTimer t tm) ! length (routines tm) = (t, Sleeping)" by auto
    show ?thesis
      using sleeps_onI [OF fold_add_keeps(1) [OF w]] fold_add_keeps(2) [OF l] r True by simp
  next
    case False
    with Cons.prems have "\<not> listed (addWaitingTimer u tm) (tm_Key t)" by (auto simp: listed_add)
    with Cons False show ?thesis by simp
  qed
qed

lemma fold_add_only:
  "w \<in> set (waitingTimers (fold addWaitingTimer ts tm)) \<Longrightarrow> w \<in> set (waitingTimers tm) \<or> fst w \<in> set ts"
proof (induction ts arbitrary: tm)
  case Nil
  then show ?case by simp
next
  case (Cons t ts)
  from Cons.IH [of "addWaitingTimer t tm"] Cons.prems
  show ?case by (auto simp: addWaitingTimer_def append_waiting_def split: if_splits)
qed

lemma sleeps_on_nextPoll [simp]: "sleeps_on (tm\<lparr>nextPoll := x\<rparr>) t = sleeps_on tm t"
  by (simp add: sleeps_on_def can_fire_def)

lemma FindTimersTo_iff:
  assumes "store_wf d"
  shows "t \<in> set (FindTimersTo d e) \<longleftrightarrow>
    tget (Timers d) (tm_Key t) = Some t \<and> tm_State t = TimerStateCreated \<and> tm_DueAt t \<le> e"
proof -
  have k: "keyed tm_Key (Timers d)" using assms by (simp add: store_wf_def)
  have "t \<in> set (trows (Timers d)) \<longleftrightarrow> tget (Timers d) (tm_Key t) = Some t"
    using k by (auto simp: keyed_rows)
  then show ?thesis by (auto simp: FindTimersTo_def)
qed

definition demo_timer :: "int \<Rightarrow> Timer" where
  "demo_timer k = \<lparr>tm_ElementId = ''timer'', tm_Key = k, tm_ElementInstanceKey = 0,
     tm_ProcessDefinitionKey = 0, tm_ProcessInstanceKey = 0, tm_State = TimerStateCreated,
     tm_CreatedAt = 0, tm_DueAt = 5, tm_Duration = 5, tm_Token = zero_Token\<rparr>"

definition demo_manager :: timer_manager where
  "demo_manager =
     registerTimer (demo_timer 2) (registerTimer (demo_timer 1) (start_manager 0 (newTimerManager 10)))"

lemma demo_manager_managed: "managed demo_manager"
  unfolding demo_manager_def by (intro managed.intros)

lemmas manager_defs = demo_manager_def demo_timer_def registerTimer_def addWaitingTimer_def
  append_waiting_def listed_def start_manager_def newTimerManager_def

section \<open>Properties\<close>

text \<open>The manager never lists a timer twice: along every run of its operations the keys of the
  waiting timers are distinct, and every entry belongs to a goroutine that sleeps on that timer's
  behalf.\<close>

theorem timer_manager_no_duplicates:
  assumes "managed tm"
  shows "distinct (map (\<lambda>w. tm_Key (fst w)) (waitingTimers tm)) \<and>
    (\<forall>w \<in> set (waitingTimers tm). snd w < length (routines tm) \<and> fst (routines tm ! snd w) = fst w)"
  using managed_wf [OF assms] by (simp add: manager_wf_def)

theorem timer_manager_no_duplicates_witness:
  "managed demo_manager \<and> map (\<lambda>w. tm_Key (fst w)) (waitingTimers demo_manager) = [1, 2] \<and>
   distinct (map (\<lambda>w. tm_Key (fst w)) (waitingTimers demo_manager))"
  using timer_manager_no_duplicates [OF demo_manager_managed] demo_manager_managed
  by (simp add: manager_defs)

text \<open>C33. What a poll of the timer manager does. If the store cannot be read nothing changes. Otherwise
  every timer of the store that is in state created and due before the end of the new period is listed
  afterwards; one that was not listed before gets a goroutine of its own, which fires it exactly from its due
  time on; nothing else is added, and the entries listed before keep their goroutines, in whatever state
  those are (a goroutine that was cancelled is not started again).\<close>

theorem poll_lists_due_timers:
  fixes tm :: timer_manager and d :: Storage and now :: int
  defines "tm' \<equiv> poll now (polled d now tm) tm" and "due \<equiv> FindTimersTo d (now + pollTimerDelay tm)"
  assumes "managed tm" and "store_wf d"
  shows "(\<forall>e. poll now (Inl e) tm = tm) \<and>
    (\<forall>t. t \<in> set due \<longleftrightarrow> tget (Timers d) (tm_Key t) = Some t \<and> tm_State t = TimerStateCreated \<and>
            tm_DueAt t \<le> now + pollTimerDelay tm) \<and>
    (\<forall>t \<in> set due. listed tm' (tm_Key t) \<and> (\<not> listed tm (tm_Key t) \<longrightarrow> sleeps_on tm' t)) \<and>
    (\<forall>w \<in> set (waitingTimers tm'). w \<in> set (waitingTimers tm) \<or> fst w \<in> set due) \<and>
    (\<forall>w \<in> set (waitingTimers tm). w \<in> set (waitingTimers tm') \<and>
       routines tm' ! snd w = routines tm ! snd w) \<and>
    nextPoll tm' = now + pollTimerDelay tm"
proof -
  let ?f = "fold addWaitingTimer due tm"
  have tm': "tm' = ?f\<lparr>nextPoll := now + pollTimerDelay tm\<rparr>"
    by (simp add: tm'_def due_def poll_def polled_def)
  note due = FindTimersTo_iff [OF assms(4), of _ "now + pollTimerDelay tm", folded due_def]
  have same: "\<forall>t' \<in> set due. tm_Key t' = tm_Key t \<longrightarrow> t' = t" if "t \<in> set due" for t
  proof (intro ballI impI)
    fix t' assume t': "t' \<in> set due" and k: "tm_Key t' = tm_Key t"
    have "Some t' = Some t" using that t' k unfolding due by simp
    then show "t' = t" by simp
  qed
  have kept: "w \<in> set (waitingTimers tm') \<and> routines tm' ! snd w = routines tm ! snd w"
    if w: "w \<in> set (waitingTimers tm)" for w
    using fold_add_keeps(1) [OF w] fold_add_keeps(2) [of "snd w" tm] w managed_wf [OF assms(3)]
    by (auto simp: tm' manager_wf_def)
  have added: "listed tm' (tm_Key t) \<and> (\<not> listed tm (tm_Key t) \<longrightarrow> sleeps_on tm' t)" if "t \<in> set due" for t
    using that fold_add_starts_goroutine [OF that _ same [OF that]] by (simp add: tm' listed_fold_add)
  have only: "w \<in> set (waitingTimers tm) \<or> fst w \<in> set due" if "w \<in> set (waitingTimers tm')" for w
    using that fold_add_only [of w due tm] by (simp add: tm')
  have np: "nextPoll tm' = now + pollTimerDelay tm" by (simp add: tm')
  have err: "poll now (Inl e) tm = tm" for e by (simp add: poll_def)
  show ?thesis using err due added only kept np by blast
qed

theorem poll_lists_due_timers_witness:
  "sleeps_on (poll 0 (polled (SaveTimer (demo_timer 3) NewStorage) 0 demo_manager) demo_manager) (demo_timer 3) \<and>
   \<not> listed demo_manager 3"
proof -
  let ?d = "SaveTimer (demo_timer 3) NewStorage" and ?tm = demo_manager
  have wf: "store_wf ?d" using store_wf_run_stmt [OF store_wf_New, of "[]" "StTimer (demo_timer 3)"] by simp
  have "demo_timer 3 \<in> set (FindTimersTo ?d (0 + pollTimerDelay ?tm))"
    unfolding FindTimersTo_iff [OF wf] using timer_store.find_save [of "demo_timer 3" NewStorage "tm_Key (demo_timer 3)"]
    by (simp add: manager_defs)
  moreover have "\<not> listed ?tm 3" by (simp add: manager_defs)
  moreover have "tm_Key (demo_timer 3) = 3" by (simp add: demo_timer_def)
  ultimately show ?thesis
    using poll_lists_due_timers [OF demo_manager_managed wf, of 0] by auto
qed

text \<open>What \<^verbatim>\<open>removeTimer\<close> really does when the timer is listed: the entry disappears, but every
  other listed timer loses its goroutine. It stays listed, cannot fire at any time, and the next poll
  does not start it again because it is still listed.\<close>

theorem removeTimer_disables_other_timers:
  assumes "managed tm" and "listed tm (tm_Key t)"
    and "w \<in> set (waitingTimers tm)" and "tm_Key (fst w) \<noteq> tm_Key t"
  shows "\<not> listed (removeTimer t tm) (tm_Key t) \<and>
    w \<in> set (waitingTimers (poll p ts (removeTimer t tm))) \<and>
    \<not> can_fire now (snd w) (poll p ts (removeTimer t tm))"
proof -
  let ?r = "removeTimer t tm"
  from assms(1) have len: "snd w < length (routines tm)"
    using assms(3) managed_wf by (auto simp: manager_wf_def)
  have w: "w \<in> set (waitingTimers ?r)" using assms(2-4) by (simp add: removeTimer_def)
  have l: "snd w < length (routines ?r)" using len assms(2) by (simp add: removeTimer_def fold_cancel)
  have s: "snd (routines ?r ! snd w) \<noteq> Sleeping"
    using assms(2,3) len by (simp add: removeTimer_def fold_cancel_all)
  have gone: "\<not> listed ?r (tm_Key t)" using assms(2) by (simp add: removeTimer_def listed_def)
  show ?thesis
  proof (cases ts)
    case (Inl e)
    with gone w s show ?thesis by (simp add: poll_def can_fire_def)
  next
    case (Inr xs)
    with gone fold_add_keeps(1) [OF w, of xs] fold_add_keeps(2) [OF l, of xs] s show ?thesis
      by (simp add: poll_def can_fire_def)
  qed
qed

theorem removeTimer_disables_other_timers_witness:
  "\<forall>ts. \<exists>w. w \<in> set (waitingTimers (poll 0 ts (removeTimer (demo_timer 1) demo_manager))) \<and>
     tm_Key (fst w) = 2 \<and>
     \<not> can_fire 100 (snd w) (poll 0 ts (removeTimer (demo_timer 1) demo_manager))"
proof (intro allI exI conjI)
  fix ts
  let ?w = "(demo_timer 2, 1 :: nat)"
  have p: "listed demo_manager (tm_Key (demo_timer 1))" "?w \<in> set (waitingTimers demo_manager)"
    "tm_Key (fst ?w) \<noteq> tm_Key (demo_timer 1)"
    by (simp_all add: manager_defs)
  note T = removeTimer_disables_other_timers [OF demo_manager_managed p]
  from T show "?w \<in> set (waitingTimers (poll 0 ts (removeTimer (demo_timer 1) demo_manager)))"
    and "\<not> can_fire 100 (snd ?w) (poll 0 ts (removeTimer (demo_timer 1) demo_manager))"
    by blast+
  show "tm_Key (fst ?w) = 2" by (simp add: demo_timer_def)
qed

end
