(* ===== verification/Engine_State.thy ===== *)
theory Engine_State
  imports In_Memory Running_Instances Timer_Manager
begin

text \<open>
  The state of the engine (\<^verbatim>\<open>Engine\<close> of \<^verbatim>\<open>pkg/bpmn/engine.go\<close>), its write batch (\<^verbatim>\<open>engine_batch.go\<close>),
  the registered task handlers (\<^verbatim>\<open>task_handler.go\<close>, \<^verbatim>\<open>jobs_activated.go\<close>), incidents
  (\<^verbatim>\<open>createNewIncidentFromToken\<close>) and the evaluation of expressions (\<^verbatim>\<open>expressions.go\<close>).

  The state is a record that the operations of the monad pass on: the store, the heap of process
  instances, the lock cache, the timer manager (\<open>None\<close> before \<^verbatim>\<open>Start\<close>), the batch under construction, the
  goroutines started by post-flush actions (\<open>spawned\<close>: an instance and the tokens to run it with) and
  the events handed to the exporters. Code outside the repository is a parameter, the record \<open>env\<close>: the
  key generator and the clock as functions of the number of calls made, the FEEL interpreter, the ISO
  8601 duration parser, whether the caller's context is cancelled; the decision engine, which is a
  program of its own, is the function \<open>dmn\<close> of it.

  A batch statement of the in-memory store never fails when it is added, so the error branches after
  \<^verbatim>\<open>batch.Save...\<close> calls are unreachable and left out; failures surface at the flush.

  The lemmas say which parts of the state each primitive leaves alone, and that flushing and clearing a
  batch give back exactly the locks the batch collected.
\<close>

section \<open>Parameters\<close>

record iso_duration =
  dur_Shift :: "int \<Rightarrow> int"
  dur_TS :: int

record env =
  gen :: "nat \<Rightarrow> int"
  clock :: "nat \<Rightarrow> int"
  feel :: "string \<Rightarrow> vars \<Rightarrow> error + val"
  ParseISO8601 :: "string \<Rightarrow> error + iso_duration"
  dmn :: "string \<Rightarrow> string \<Rightarrow> string \<Rightarrow> vars \<Rightarrow> error + val"
  ctx_cancelled :: bool

section \<open>Task handlers\<close>

text \<open>What a handler learns about the job, and what it can do with it. A handler is foreign code: it
  is a function from the activated job to the calls it makes, in order.\<close>

record activatedJob =
  aj_key :: int
  aj_processInstanceKey :: int
  aj_bpmnProcessId :: string
  aj_processDefinitionVersion :: int
  aj_processDefinitionKey :: int
  aj_elementId :: string
  aj_createdAt :: int
  aj_localVariables :: vars

datatype handler_call =
    SetOutputVariable string val
  | CallFail string
  | CallComplete

datatype taskHandlerType =
  taskHandlerForId | taskHandlerForType | taskHandlerForAssignee | taskHandlerForCandidateGroups

datatype taskMatcher =
    MatchId string
  | MatchType string
  | MatchAssignee string
  | MatchCandidateGroups "string list"

fun matches :: "taskMatcher \<Rightarrow> FlowNode \<Rightarrow> bool" where
  "matches (MatchId i) element = (GetId element = i)"
| "matches (MatchType ty) element = (GetTaskType element = Some ty)"
| "matches (MatchAssignee a) element =
     (case element of FUserTask u \<Rightarrow> Assignee u = a | _ \<Rightarrow> False)"
| "matches (MatchCandidateGroups groups) element =
     (case element of FUserTask u \<Rightarrow> (\<exists>g \<in> set groups. g \<in> set (GetCandidateGroups u)) | _ \<Rightarrow> False)"

record taskHandler =
  th_id :: nat
  th_handlerType :: taskHandlerType
  th_matcher :: taskMatcher
  th_handler :: "activatedJob \<Rightarrow> handler_call list"

definition searchOrder :: "FlowNode \<Rightarrow> taskHandlerType list" where
  "searchOrder element =
     [taskHandlerForId] @
     (if GetType element = ElementTypeServiceTask then [taskHandlerForType] else []) @
     (if GetType element = ElementBusinessRuleTask then [taskHandlerForType] else []) @
     (if GetType element = ElementTypeUserTask
      then [taskHandlerForAssignee, taskHandlerForCandidateGroups] else [])"

fun find_in_order :: "taskHandler list \<Rightarrow> FlowNode \<Rightarrow> taskHandlerType list \<Rightarrow> taskHandler option" where
  "find_in_order hs element [] = None"
| "find_in_order hs element (ty # tys) =
     (case List.find (\<lambda>h. th_handlerType h = ty \<and> matches (th_matcher h) element) hs of
        Some h \<Rightarrow> Some h
      | None \<Rightarrow> find_in_order hs element tys)"

definition findTaskHandler :: "taskHandler list \<Rightarrow> FlowNode \<Rightarrow> taskHandler option" where
  "findTaskHandler hs element = find_in_order hs element (searchOrder element)"

text \<open>\<^verbatim>\<open>slices.Delete\<close> of the first element that is the given pointer.\<close>

fun RemoveHandler :: "nat \<Rightarrow> taskHandler list \<Rightarrow> taskHandler list" where
  "RemoveHandler i [] = []"
| "RemoveHandler i (h # hs) = (if th_id h = i then hs else h # RemoveHandler i hs)"

section \<open>Engine state\<close>

record EngineBatch =
  b_stmts :: "stmt list"
  touchedInstances :: "int list"
  preFlushActions :: "error option list"
  postFlushActions :: "(nat \<times> ExecutionToken list) list"

datatype export_event =
    NewProcessEvent string int int
  | EndProcessEvent string int int int

record estate =
  mem :: Storage
  objs :: heap
  keyc :: nat
  tickc :: nat
  running :: cache
  timerManager :: "timer_manager option"
  batch :: EngineBatch
  spawned :: "(nat \<times> ExecutionToken list) list"
  taskHandlers :: "taskHandler list"
  exported :: "export_event list"

type_synonym 'a em = "(estate, 'a) eng"

definition clean_batch :: EngineBatch where
  "clean_batch = \<lparr>b_stmts = [], touchedInstances = [], preFlushActions = [], postFlushActions = []\<rparr>"

definition NewEngine :: estate where
  "NewEngine = \<lparr>mem = NewStorage, objs = [], keyc = 0, tickc = 0, running = [], timerManager = None,
     batch = clean_batch, spawned = [], taskHandlers = [], exported = []\<rparr>"

definition generateKey :: "env \<Rightarrow> int em" where
  "generateKey E s = (Ok (gen E (keyc s)), s\<lparr>keyc := keyc s + 1\<rparr>)"

definition time_now :: "env \<Rightarrow> int em" where
  "time_now E s = (Ok (clock E (tickc s)), s\<lparr>tickc := tickc s + 1\<rparr>)"

text \<open>Reading and writing the instance behind a pointer.\<close>

definition deref :: "nat \<Rightarrow> ProcessInstance em" where
  "deref r s = (if r < length (objs s) then (Ok (objs s ! r), s)
                else (Panic ''invalid memory address or nil pointer dereference'', s))"

definition update_instance :: "nat \<Rightarrow> (ProcessInstance \<Rightarrow> ProcessInstance) \<Rightarrow> unit em" where
  "update_instance r f s = (Ok (), s\<lparr>objs := (objs s)[r := f (objs s ! r)]\<rparr>)"

definition set_state :: "nat \<Rightarrow> ActivityState \<Rightarrow> unit em" where
  "set_state r st = update_instance r (\<lambda>i. i\<lparr>pi_State := st\<rparr>)"

definition set_variables :: "nat \<Rightarrow> vars \<Rightarrow> unit em" where
  "set_variables r vs = update_instance r (\<lambda>i. i\<lparr>pi_Variables := vs\<rparr>)"

definition alloc :: "ProcessInstance \<Rightarrow> nat em" where
  "alloc i s = (Ok (length (objs s)), s\<lparr>objs := objs s @ [i]\<rparr>)"

text \<open>A read of the store, and one that can fail.\<close>

definition db :: "(Storage \<Rightarrow> 'a) \<Rightarrow> 'a em" where
  "db f = gets (\<lambda>s. f (mem s))"

definition db_find :: "(Storage \<Rightarrow> error + 'a) \<Rightarrow> 'a em" where
  "db_find f = bind (db f) lift_sum"

definition set_mem :: "(Storage \<Rightarrow> Storage) \<Rightarrow> unit em" where
  "set_mem f = modify (\<lambda>s. s\<lparr>mem := f (mem s)\<rparr>)"

definition refresh :: "nat \<Rightarrow> unit em" where
  "refresh r s =
     (case RefreshProcessInstance (mem s) r (objs s) of
        Inl e \<Rightarrow> (Err e, s)
      | Inr h \<Rightarrow> (Ok (), s\<lparr>objs := h\<rparr>))"

definition lock :: "int \<Rightarrow> unit em" where
  "lock k s =
     (case lockInstance k (running s) of
        (True, c) \<Rightarrow> (Ok (), s\<lparr>running := c\<rparr>)
      | (False, c) \<Rightarrow> (Blocked, s\<lparr>running := c\<rparr>))"

definition try_lock :: "env \<Rightarrow> int \<Rightarrow> unit em" where
  "try_lock E k s =
     (case tryLockInstance (ctx_cancelled E) k (running s) of
        (True, c) \<Rightarrow> (Ok (), s\<lparr>running := c\<rparr>)
      | (False, c) \<Rightarrow> (Err (Errorf ''tried locking process instance''), s\<lparr>running := c\<rparr>))"

definition unlock :: "int \<Rightarrow> unit em" where
  "unlock k s =
     (case unlockInstance k (running s) of
        None \<Rightarrow> (Panic ''unlock of unlocked mutex'', s)
      | Some c \<Rightarrow> (Ok (), s\<lparr>running := c\<rparr>))"

definition with_timers :: "(timer_manager \<Rightarrow> timer_manager) \<Rightarrow> unit em" where
  "with_timers f s =
     (case timerManager s of
        None \<Rightarrow> (Panic ''invalid memory address or nil pointer dereference'', s)
      | Some tm \<Rightarrow> (Ok (), s\<lparr>timerManager := Some (f tm)\<rparr>))"

section \<open>The engine batch\<close>

definition upd_batch :: "(EngineBatch \<Rightarrow> EngineBatch) \<Rightarrow> unit em" where
  "upd_batch f = modify (\<lambda>s. s\<lparr>batch := f (batch s)\<rparr>)"

definition add_stmt :: "stmt \<Rightarrow> unit em" where
  "add_stmt st = upd_batch (\<lambda>b. b\<lparr>b_stmts := b_stmts b @ [st]\<rparr>)"

definition AddPostFlushAction :: "nat \<Rightarrow> ExecutionToken list \<Rightarrow> unit em" where
  "AddPostFlushAction r tokens =
     upd_batch (\<lambda>b. b\<lparr>postFlushActions := postFlushActions b @ [(r, tokens)]\<rparr>)"

definition touch :: "int \<Rightarrow> unit em" where
  "touch k = upd_batch (\<lambda>b. b\<lparr>touchedInstances := touchedInstances b @ [k]\<rparr>)"

definition NewEngineBatchClean :: "unit em" where
  "NewEngineBatchClean = upd_batch (\<lambda>_. clean_batch)"

definition NewEngineBatch :: "nat \<Rightarrow> unit em" where
  "NewEngineBatch r =
     bind (deref r) (\<lambda>i.
     bind (lock (pi_Key i)) (\<lambda>_.
     bind (attempt (refresh r)) (\<lambda>x.
       case x of
         Inl e \<Rightarrow> bind (unlock (pi_Key i)) (\<lambda>_. throw (Wrapf ''failed refresh process instance'' e))
       | Inr _ \<Rightarrow>
           bind (deref r) (\<lambda>i'.
             if is_final (pi_State i')
             then bind (unlock (pi_Key i)) (\<lambda>_. throw (Errorf ''process instance is already completed''))
             else upd_batch (\<lambda>_. clean_batch\<lparr>touchedInstances := [pi_Key i]\<rparr>)))))"

definition AddParentLockedInstance :: "env \<Rightarrow> nat \<Rightarrow> unit em" where
  "AddParentLockedInstance E r =
     bind (deref r) (\<lambda>i.
     bind (wrap (Wrapf ''failed locking parent instance'') (try_lock E (pi_Key i))) (\<lambda>_.
     bind (attempt (refresh r)) (\<lambda>x.
       case x of
         Inl e \<Rightarrow> bind (unlock (pi_Key i)) (\<lambda>_. throw (Wrapf ''failed to find process instance'' e))
       | Inr _ \<Rightarrow> touch (pi_Key i))))"

definition AddLockedInstance :: "nat \<Rightarrow> unit em" where
  "AddLockedInstance r =
     bind (deref r) (\<lambda>i.
     bind (lock (pi_Key i)) (\<lambda>_.
     bind (attempt (refresh r)) (\<lambda>x.
       case x of
         Inl e \<Rightarrow> bind (unlock (pi_Key i)) (\<lambda>_. throw (Wrapf ''failed to find process instance'' e))
       | Inr _ \<Rightarrow> touch (pi_Key i))))"

fun first_error :: "error option list \<Rightarrow> error option" where
  "first_error [] = None"
| "first_error (Some e # es) = Some (Wrapf ''failed pre-flush action'' e)"
| "first_error (None # es) = first_error es"

text \<open>The statements of a batch run on the store.\<close>

definition run_batch :: "stmt list \<Rightarrow> error option em" where
  "run_batch sts s =
     (case StorageBatch_Flush (objs s) sts (mem s) of (e, d) \<Rightarrow> (Ok e, s\<lparr>mem := d\<rparr>))"

definition unlock_touched :: "unit em" where
  "unlock_touched = bind (gets (\<lambda>s. touchedInstances (batch s))) (\<lambda>ks. for_each ks unlock)"

text \<open>\<^verbatim>\<open>Flush\<close>: the deferred part unlocks the touched instances in any case, starts the post-flush
  goroutines only without an error, and resets the batch.\<close>

definition Flush :: "unit em" where
  "Flush =
     bind (gets batch) (\<lambda>b.
     bind (case first_error (preFlushActions b) of
             Some e \<Rightarrow> ret (Some e)
           | None \<Rightarrow> run_batch (b_stmts b)) (\<lambda>err.
     bind unlock_touched (\<lambda>_.
     bind (do_when (err = None) (modify (\<lambda>s. s\<lparr>spawned := spawned s @ postFlushActions b\<rparr>))) (\<lambda>_.
     bind (upd_batch (\<lambda>_. clean_batch)) (\<lambda>_.
       case err of None \<Rightarrow> ret () | Some e \<Rightarrow> throw e)))))"

definition Clear :: "unit em" where
  "Clear = bind unlock_touched (\<lambda>_. upd_batch (\<lambda>_. clean_batch))"

text \<open>\<^verbatim>\<open>defer func() { if retErr != nil { cleanup } }()\<close>: the clean-up runs when an error is returned.\<close>

definition on_error :: "unit em \<Rightarrow> 'a em \<Rightarrow> 'a em" where
  "on_error cleanup m =
     bind (attempt m) (\<lambda>x. case x of Inl e \<Rightarrow> bind cleanup (\<lambda>_. throw e) | Inr v \<Rightarrow> ret v)"

definition createNewIncidentFromToken :: "env \<Rightarrow> error \<Rightarrow> ExecutionToken \<Rightarrow> Incident em" where
  "createNewIncidentFromToken E err token =
     bind (generateKey E) (\<lambda>k.
     bind (time_now E) (\<lambda>t.
       ret \<lparr>inc_Key = k, inc_ElementInstanceKey = tok_ElementInstanceKey token,
            inc_ElementId = tok_ElementId token, inc_ProcessInstanceKey = tok_ProcessInstanceKey token,
            inc_Message = err, inc_CreatedAt = t, inc_ResolvedAt = None, inc_Token = token\<rparr>))"

text \<open>The incident writers replace the statements but keep the touched instances.\<close>

definition drop_statements :: "unit em" where
  "drop_statements = upd_batch (\<lambda>b. clean_batch\<lparr>touchedInstances := touchedInstances b\<rparr>)"

definition WriteTokenIncident :: "env \<Rightarrow> ExecutionToken \<Rightarrow> nat \<Rightarrow> error \<Rightarrow> unit em" where
  "WriteTokenIncident E token r err =
     (let token' = token\<lparr>tok_State := TokenStateFailed\<rparr> in
      bind drop_statements (\<lambda>_.
      bind (set_state r ActivityStateFailed) (\<lambda>_.
      bind (add_stmt (StToken token')) (\<lambda>_.
      bind (add_stmt (StProcessInstance r)) (\<lambda>_.
      bind (createNewIncidentFromToken E err token') (\<lambda>inc. add_stmt (StIncident inc)))))))"

definition WriteMessageIncident :: "MessageSubscription \<Rightarrow> nat \<Rightarrow> unit em" where
  "WriteMessageIncident message r =
     bind drop_statements (\<lambda>_.
     bind (add_stmt (StMessageSubscription message)) (\<lambda>_. add_stmt (StProcessInstance r)))"

section \<open>Expressions\<close>

definition evaluateExpression :: "env \<Rightarrow> string \<Rightarrow> vars \<Rightarrow> error + val" where
  "evaluateExpression E expression vs =
     (let ex = TrimSpace expression in
      if \<not> HasPrefix ex ''='' then Inr (VStr ex)
      else (case feel E (TrimPrefix ex ''='') vs of
              Inl e \<Rightarrow> Inl (Wrapf ''failed to evaluate expression'' e)
            | Inr v \<Rightarrow> Inr v))"

lemma evaluateExpression_literal:
  "\<not> HasPrefix (TrimSpace e) ''='' \<Longrightarrow> evaluateExpression E e vs = Inr (VStr (TrimSpace e))"
  by (simp add: evaluateExpression_def)

section \<open>Frames\<close>

text \<open>The projections of the state that most operations leave alone.\<close>

lemmas em_defs = generateKey_def time_now_def deref_def update_instance_def set_state_def
  set_variables_def alloc_def db_def db_find_def set_mem_def refresh_def lock_def try_lock_def
  unlock_def with_timers_def upd_batch_def add_stmt_def AddPostFlushAction_def touch_def
  NewEngineBatchClean_def run_batch_def drop_statements_def

text \<open>\<open>frame\<close> is everything a flow handler must not change: the store, the locks, the goroutines, the
  locks collected by the batch, the registered handlers and the exported events.\<close>

definition batch_touched :: "estate \<Rightarrow> int list" where
  "batch_touched s = touchedInstances (batch s)"

definition frame :: "estate \<Rightarrow> Storage \<times> cache \<times> (nat \<times> ExecutionToken list) list \<times> int list \<times>
    taskHandler list \<times> export_event list" where
  "frame s = (mem s, running s, spawned s, batch_touched s, taskHandlers s, exported s)"

lemmas frame_defs = frame_def batch_touched_def

lemma keeps_frame [keeps_rules]:
  "keeps frame (generateKey E)" "keeps frame (time_now E)" "keeps frame (deref r)"
  "keeps frame (update_instance r f)" "keeps frame (set_state r st)" "keeps frame (set_variables r vs)"
  "keeps frame (alloc i)" "keeps frame (refresh r)" "keeps frame (with_timers g)"
  "keeps frame (add_stmt x)" "keeps frame (AddPostFlushAction r ts)" "keeps frame drop_statements"
  by (auto simp: keeps_def em_defs eng_simps frame_defs clean_batch_def
      split: option.splits sum.splits prod.splits bool.splits)

lemma keeps_mem [keeps_rules]:
  "keeps mem (lock k)" "keeps mem (try_lock E k)" "keeps mem (unlock k)" "keeps mem (upd_batch h)"
  "keeps mem (touch k)" "keeps mem NewEngineBatchClean"
  by (auto simp: keeps_def em_defs eng_simps split: option.splits sum.splits prod.splits bool.splits)

lemma keeps_of_frame:
  assumes "keeps frame m"
  shows "keeps mem m" "keeps running m" "keeps spawned m" "keeps batch_touched m"
    "keeps taskHandlers m" "keeps exported m"
  using assms by (simp_all add: keeps_def frame_def)

lemma keeps_db [keeps_rules]: "keeps v (db f)" "keeps v (db_find g)"
  unfolding db_def db_find_def by (intro keeps_rules)+

lemma keeps_on_error [keeps_rules]: "keeps v c \<Longrightarrow> keeps v m \<Longrightarrow> keeps v (on_error c m)"
  unfolding on_error_def by (intro keeps_rules)

lemma pres_on_error [pres_rules]: "pres I c \<Longrightarrow> pres I m \<Longrightarrow> pres I (on_error c m)"
  unfolding on_error_def by (intro pres_rules)

lemma on_error_Ok_iff: "on_error c m s = (Ok x, t) \<longleftrightarrow> m s = (Ok x, t)"
  by (auto simp: on_error_def bind_def attempt_def ret_def throw_def split: prod.splits res.splits)

lemma keeps_createNewIncident [keeps_rules]: "keeps frame (createNewIncidentFromToken E err token)"
  unfolding createNewIncidentFromToken_def by (intro keeps_rules)

lemma keeps_WriteTokenIncident [keeps_rules]: "keeps frame (WriteTokenIncident E token r err)"
  unfolding WriteTokenIncident_def Let_def by (intro keeps_rules)

lemma keeps_WriteMessageIncident [keeps_rules]: "keeps frame (WriteMessageIncident m r)"
  unfolding WriteMessageIncident_def by (intro keeps_rules)

section \<open>Locks of a batch\<close>

text \<open>The locks a batch collected are distinct and held.\<close>

definition batch_locked :: "estate \<Rightarrow> bool" where
  "batch_locked s \<longleftrightarrow>
     distinct (batch_touched s) \<and> (\<forall>k \<in> set (batch_touched s). held (running s) k)"

lemma for_each_unlock:
  "lock_cache.release_all ks (running s) = Some c \<Longrightarrow> for_each ks unlock s = (Ok (), s\<lparr>running := c\<rparr>)"
proof (induction ks arbitrary: s)
  case Nil
  then show ?case by (simp add: ret_def)
next
  case (Cons k ks)
  then obtain c1 where c1: "unlockInstance k (running s) = Some c1"
    and c: "lock_cache.release_all ks c1 = Some c"
    by (auto simp: bind_eq_Some_conv)
  from c1 have u: "unlock k s = (Ok (), s\<lparr>running := c1\<rparr>)" by (simp add: unlock_def)
  from Cons.IH [of "s\<lparr>running := c1\<rparr>"] c show ?case by (simp add: bind_def u)
qed

lemma unlock_touched_eval:
  assumes "batch_locked s"
  obtains c where "unlock_touched s = (Ok (), s\<lparr>running := c\<rparr>)"
    and "\<And>j. held c j \<longleftrightarrow> j \<notin> set (batch_touched s) \<and> held (running s) j"
proof -
  from assms lock_cache.release_all_total [of "batch_touched s" "running s"] obtain c
    where c: "lock_cache.release_all (batch_touched s) (running s) = Some c"
      "\<forall>j. held c j \<longleftrightarrow> j \<notin> set (batch_touched s) \<and> held (running s) j"
    by (auto simp: batch_locked_def)
  from for_each_unlock [OF c(1)] have "unlock_touched s = (Ok (), s\<lparr>running := c\<rparr>)"
    by (simp add: unlock_touched_def batch_touched_def)
  with c that show ?thesis by blast
qed

lemma Clear_eval:
  assumes "batch_locked s"
  obtains c where "Clear s = (Ok (), s\<lparr>running := c, batch := clean_batch\<rparr>)"
    and "\<And>j. held c j \<longleftrightarrow> j \<notin> set (batch_touched s) \<and> held (running s) j"
proof -
  from assms obtain c where u: "unlock_touched s = (Ok (), s\<lparr>running := c\<rparr>)"
    and h: "\<And>j. held c j \<longleftrightarrow> j \<notin> set (batch_touched s) \<and> held (running s) j"
    using unlock_touched_eval by blast
  from u have "Clear s = (Ok (), s\<lparr>running := c, batch := clean_batch\<rparr>)"
    by (simp add: Clear_def bind_def u upd_batch_def eng_simps)
  with h that show ?thesis by blast
qed

text \<open>The result of a flush: which error, which store.\<close>

definition flush_error :: "estate \<Rightarrow> error option" where
  "flush_error s =
     (case first_error (preFlushActions (batch s)) of
        Some e \<Rightarrow> Some e
      | None \<Rightarrow> fst (StorageBatch_Flush (objs s) (b_stmts (batch s)) (mem s)))"

definition flush_mem :: "estate \<Rightarrow> Storage" where
  "flush_mem s =
     (case first_error (preFlushActions (batch s)) of
        Some e \<Rightarrow> mem s
      | None \<Rightarrow> snd (StorageBatch_Flush (objs s) (b_stmts (batch s)) (mem s)))"

lemma Flush_eval:
  assumes "batch_locked s"
  obtains c where
    "Flush s = (case flush_error s of None \<Rightarrow> Ok () | Some e \<Rightarrow> Err e,
       s\<lparr>mem := flush_mem s, running := c, batch := clean_batch,
         spawned := spawned s @ (if flush_error s = None then postFlushActions (batch s) else [])\<rparr>)"
    and "\<And>j. held c j \<longleftrightarrow> j \<notin> set (batch_touched s) \<and> held (running s) j"
proof -
  let ?s = "s\<lparr>mem := flush_mem s\<rparr>"
  from assms have "batch_locked ?s" by (simp add: batch_locked_def batch_touched_def)
  then obtain c where u: "unlock_touched ?s = (Ok (), ?s\<lparr>running := c\<rparr>)"
    and h: "\<And>j. held c j \<longleftrightarrow> j \<notin> set (batch_touched s) \<and> held (running s) j"
    using unlock_touched_eval [of ?s] by (auto simp: batch_touched_def)
  have run: "(case first_error (preFlushActions (batch s)) of
             Some e \<Rightarrow> ret (Some e)
           | None \<Rightarrow> run_batch (b_stmts (batch s))) s = (Ok (flush_error s), ?s)"
    by (auto simp: flush_error_def flush_mem_def run_batch_def eng_simps split: option.splits prod.splits)
  have "Flush s = (case flush_error s of None \<Rightarrow> Ok () | Some e \<Rightarrow> Err e,
       s\<lparr>mem := flush_mem s, running := c, batch := clean_batch,
         spawned := spawned s @ (if flush_error s = None then postFlushActions (batch s) else [])\<rparr>)"
    unfolding Flush_def
    by (cases "flush_error s") (simp_all add: bind_def run u do_when_def upd_batch_def eng_simps)
  with h that show ?thesis by blast
qed

lemma lock_Ok: "lock k s = (Ok (), s') \<longleftrightarrow>
    \<not> held (running s) k \<and> s' = s\<lparr>running := snd (lockInstance k (running s))\<rparr>"
  using held_lockInstance(1) [of k "running s"]
  by (auto simp: lock_def split: prod.splits bool.splits)

lemma held_after_lock: "lock k s = (Ok (), s') \<Longrightarrow> held (running s') j \<longleftrightarrow> j = k \<or> held (running s) j"
  using held_lockInstance(2) by (auto simp: lock_def split: prod.splits bool.splits)

lemma held_after_unlock:
  "unlock k s = (r, s') \<Longrightarrow> held (running s) k \<Longrightarrow>
     r = Ok () \<and> (held (running s') j \<longleftrightarrow> j \<noteq> k \<and> held (running s) j)"
  using unlockInstance_held [of "running s" k] held_unlockInstance [of k "running s"]
  by (auto simp: unlock_def split: option.splits)

text \<open>
  The lock discipline: \<open>H\<close> are the locks held by others, all further held locks are exactly the touched
  instances of the batch, each locked once.
\<close>

definition lk :: "(int \<Rightarrow> bool) \<Rightarrow> estate \<Rightarrow> bool" where
  "lk H s \<longleftrightarrow> distinct (batch_touched s) \<and> (\<forall>k \<in> set (batch_touched s). \<not> H k) \<and>
     (\<forall>k. held (running s) k \<longleftrightarrow> H k \<or> k \<in> set (batch_touched s))"

lemma lk_batch_locked: "lk H s \<Longrightarrow> batch_locked s"
  by (simp add: lk_def batch_locked_def)

lemma pres_lk_frame: "keeps frame m \<Longrightarrow> pres (lk H) m"
  using keeps_of_frame(2,4) [of m] unfolding pres_def keeps_def lk_def by simp

lemma lk_batch_touched_cong:
  "lk H s \<Longrightarrow> running s' = running s \<Longrightarrow> batch_touched s' = batch_touched s \<Longrightarrow> lk H s'"
  by (simp add: lk_def)

lemma pres_lk_prims [pres_rules]:
  "pres (lk H) (generateKey E)" "pres (lk H) (time_now E)" "pres (lk H) (deref r)"
  "pres (lk H) (update_instance r f)" "pres (lk H) (set_state r st)" "pres (lk H) (set_variables r vs)"
  "pres (lk H) (alloc i)" "pres (lk H) (refresh r)" "pres (lk H) (with_timers g)"
  "pres (lk H) (add_stmt x)" "pres (lk H) (AddPostFlushAction r ts)" "pres (lk H) (db fd)"
  "pres (lk H) (db_find h)" "pres (lk H) (WriteTokenIncident E tok r err)"
  "pres (lk H) (WriteMessageIncident m r)"
  by (intro pres_lk_frame keeps_rules)+

lemma pres_lk_set_mem [pres_rules]: "pres (lk H) (set_mem f)"
  by (auto simp: pres_def set_mem_def eng_simps lk_def batch_touched_def)

text \<open>Locking one more instance and noting it in the batch, whatever the refresh in between says.\<close>

lemma lk_lock_touch:
  assumes lk: "lk H s" and l: "lock k s = (Ok (), s1)"
    and t: "batch_touched s2 = batch_touched s1 @ [k]" "running s2 = running s1"
  shows "lk H s2"
proof -
  have s1: "batch_touched s1 = batch_touched s" using l by (auto simp: lock_Ok batch_touched_def)
  have free: "\<not> held (running s) k" using l lock_Ok by blast
  have h: "held (running s1) j \<longleftrightarrow> j = k \<or> held (running s) j" for j using held_after_lock [OF l] .
  show ?thesis using lk free h t s1 by (auto simp: lk_def)
qed

lemma lk_lock_unlock:
  assumes lk: "lk H s" and l: "lock k s = (Ok (), s1)"
    and t: "running s2 = running s1" "batch_touched s2 = batch_touched s1" and u: "unlock k s2 = (x, s3)"
  shows "lk H s3 \<and> x = Ok ()"
proof -
  have free: "\<not> held (running s) k" using l lock_Ok by blast
  have h: "held (running s2) j \<longleftrightarrow> j = k \<or> held (running s) j" for j using held_after_lock [OF l] t by simp
  then have "held (running s2) k" by simp
  from held_after_unlock [OF u this] have "x = Ok ()"
    and h3: "held (running s3) j \<longleftrightarrow> j \<noteq> k \<and> held (running s2) j" for j by blast+
  have "batch_touched s3 = batch_touched s2" using u
    by (auto simp: unlock_def batch_touched_def split: option.splits)
  moreover have "batch_touched s1 = batch_touched s" using l by (auto simp: lock_Ok batch_touched_def)
  ultimately show ?thesis using lk h h3 free t \<open>x = Ok ()\<close> by (auto simp: lk_def)
qed

lemma lk_lock_blocked: "lk H s \<Longrightarrow> lock k s = (x, s1) \<Longrightarrow> x \<noteq> Ok () \<Longrightarrow> lk H s1"
proof -
  assume lk: "lk H s" and l: "lock k s = (x, s1)" and x: "x \<noteq> Ok ()"
  then have c: "lockInstance k (running s) = (False, running s1)" and b: "batch s1 = batch s"
    by (auto simp: lock_def split: prod.splits bool.splits)
  from held_lock_blocked [OF c] have "held (running s1) j \<longleftrightarrow> held (running s) j" for j .
  with lk b show "lk H s1" by (simp add: lk_def batch_touched_def)
qed

lemma pres_lk_AddLockedInstance [pres_rules]: "pres (lk H) (AddLockedInstance r)"
  unfolding pres_def
proof (intro allI impI)
  fix s assume lk: "lk H s"
  show "lk H (snd (AddLockedInstance r s))"
  proof (cases "r < length (objs s)")
    case False
    with lk show ?thesis by (simp add: AddLockedInstance_def bind_def deref_def)
  next
    case True
    let ?k = "pi_Key (objs s ! r)"
    obtain x s1 where l: "lock ?k s = (x, s1)" by (cases "lock ?k s")
    show ?thesis
    proof (cases "x = Ok ()")
      case False
      with l have "AddLockedInstance r s = (x, s1)" using True
        by (auto simp: AddLockedInstance_def bind_def deref_def split: res.splits)
      with lk_lock_blocked [OF lk l False] show ?thesis by simp
    next
      case ok: True
      show ?thesis
      proof (cases "RefreshProcessInstance (mem s1) r (objs s1)")
        case (Inl e)
        obtain y s3 where u: "unlock ?k s1 = (y, s3)" by (cases "unlock ?k s1")
        from lk_lock_unlock [OF lk l [unfolded ok] refl refl u] have "lk H s3" "y = Ok ()" by auto
        with True l ok Inl u show ?thesis
          by (simp add: AddLockedInstance_def bind_def deref_def attempt_def refresh_def eng_simps)
      next
        case (Inr h)
        let ?s2 = "snd (touch ?k (s1\<lparr>objs := h\<rparr>))"
        have "lk H ?s2"
          by (rule lk_lock_touch [OF lk l [unfolded ok]])
            (simp_all add: touch_def upd_batch_def eng_simps batch_touched_def)
        with True l ok Inr show ?thesis
          by (simp add: AddLockedInstance_def bind_def deref_def attempt_def refresh_def)
      qed
    qed
  qed
qed

lemma lk_grow:
  assumes "lk H s" and "\<not> held (running s) k" and "\<And>j. held (running s2) j \<longleftrightarrow> j = k \<or> held (running s) j"
    and "batch_touched s2 = batch_touched s @ [k]"
  shows "lk H s2"
  using assms by (auto simp: lk_def)

lemma lk_same:
  assumes "lk H s" and "\<And>j. held (running s2) j \<longleftrightarrow> held (running s) j" and "batch_touched s2 = batch_touched s"
  shows "lk H s2"
  using assms by (simp add: lk_def)

lemma try_lock_cases:
  assumes "try_lock E k s = (x, s1)"
  shows "batch s1 = batch s" and "objs s1 = objs s" and "mem s1 = mem s"
    and "(x = Ok () \<and> \<not> held (running s) k \<and> (\<forall>j. held (running s1) j \<longleftrightarrow> j = k \<or> held (running s) j)) \<or>
      (is_Err x \<and> (\<forall>j. held (running s1) j \<longleftrightarrow> held (running s) j))"
proof -
  obtain ok c where t: "tryLockInstance (ctx_cancelled E) k (running s) = (ok, c)"
    by (cases "tryLockInstance (ctx_cancelled E) k (running s)")
  note h = held_tryLockInstance [OF t]
  show "batch s1 = batch s" "objs s1 = objs s" "mem s1 = mem s"
    using assms t by (cases ok; auto simp: try_lock_def)+
  show "(x = Ok () \<and> \<not> held (running s) k \<and> (\<forall>j. held (running s1) j \<longleftrightarrow> j = k \<or> held (running s) j)) \<or>
      (is_Err x \<and> (\<forall>j. held (running s1) j \<longleftrightarrow> held (running s) j))"
    using assms t h by (cases ok) (auto simp: try_lock_def split: if_splits)
qed

lemma pres_lk_AddParentLockedInstance [pres_rules]: "pres (lk H) (AddParentLockedInstance E r)"
  unfolding pres_def
proof (intro allI impI)
  fix s assume lk: "lk H s"
  show "lk H (snd (AddParentLockedInstance E r s))"
  proof (cases "r < length (objs s)")
    case False
    with lk show ?thesis by (simp add: AddParentLockedInstance_def bind_def deref_def)
  next
    case True
    let ?k = "pi_Key (objs s ! r)"
    obtain x s1 where l: "try_lock E ?k s = (x, s1)" by (cases "try_lock E ?k s")
    note L = try_lock_cases [OF l]
    show ?thesis
      using L(4)
    proof (elim disjE conjE)
      assume "is_Err x" "\<forall>j. held (running s1) j \<longleftrightarrow> held (running s) j"
      then have "lk H s1" using lk L(1) by (intro lk_same [OF lk]) (simp_all add: batch_touched_def)
      with \<open>is_Err x\<close> True l show ?thesis
        by (cases x) (simp_all add: AddParentLockedInstance_def bind_def deref_def wrap_def)
    next
      assume ok: "x = Ok ()" and free: "\<not> held (running s) ?k"
        and h: "\<forall>j. held (running s1) j \<longleftrightarrow> j = ?k \<or> held (running s) j"
      show ?thesis
      proof (cases "RefreshProcessInstance (mem s1) r (objs s1)")
        case (Inl e)
        obtain y s3 where u: "unlock ?k s1 = (y, s3)" by (cases "unlock ?k s1")
        have hk: "held (running s1) ?k" using h by simp
        have "y = Ok ()" and h3: "held (running s3) j \<longleftrightarrow> j \<noteq> ?k \<and> held (running s1) j" for j
          using held_after_unlock [OF u hk] by blast+
        have "batch s3 = batch s1" using u by (auto simp: unlock_def split: option.splits)
        then have "lk H s3"
          using h h3 free L(1) by (intro lk_same [OF lk]) (auto simp: batch_touched_def)
        with True l ok Inl u \<open>y = Ok ()\<close> show ?thesis
          by (simp add: AddParentLockedInstance_def bind_def deref_def attempt_def refresh_def wrap_def eng_simps)
      next
        case (Inr hp)
        let ?s2 = "snd (touch ?k (s1\<lparr>objs := hp\<rparr>))"
        have "lk H ?s2"
          by (rule lk_grow [OF lk free])
            (use h L(1) in \<open>simp_all add: touch_def upd_batch_def eng_simps batch_touched_def\<close>)
        with True l ok Inr show ?thesis
          by (simp add: AddParentLockedInstance_def bind_def deref_def attempt_def refresh_def wrap_def)
      qed
    qed
  qed
qed

lemma lk_Flush:
  assumes "lk H s" and "Flush s = (x, s')"
  shows "lk H s' \<and> batch s' = clean_batch \<and> (\<forall>k. held (running s') k \<longleftrightarrow> H k) \<and>
    x = (case flush_error s of None \<Rightarrow> Ok () | Some e \<Rightarrow> Err e) \<and> mem s' = flush_mem s \<and> objs s' = objs s"
proof -
  from lk_batch_locked [OF assms(1)] obtain c where
    "Flush s = (case flush_error s of None \<Rightarrow> Ok () | Some e \<Rightarrow> Err e,
       s\<lparr>mem := flush_mem s, running := c, batch := clean_batch,
         spawned := spawned s @ (if flush_error s = None then postFlushActions (batch s) else [])\<rparr>)"
    and "\<And>j. held c j \<longleftrightarrow> j \<notin> set (batch_touched s) \<and> held (running s) j"
    by (rule Flush_eval) blast
  with assms show ?thesis by (auto simp: lk_def batch_touched_def clean_batch_def)
qed

lemma lk_Clear:
  assumes "lk H s" and "Clear s = (x, s')"
  shows "lk H s' \<and> batch s' = clean_batch \<and> (\<forall>k. held (running s') k \<longleftrightarrow> H k) \<and> x = Ok () \<and>
    mem s' = mem s \<and> objs s' = objs s"
proof -
  from lk_batch_locked [OF assms(1)] obtain c where
    "Clear s = (Ok (), s\<lparr>running := c, batch := clean_batch\<rparr>)"
    and "\<And>j. held c j \<longleftrightarrow> j \<notin> set (batch_touched s) \<and> held (running s) j"
    by (rule Clear_eval) blast
  with assms show ?thesis by (auto simp: lk_def batch_touched_def clean_batch_def)
qed

lemma pres_lk_Flush [pres_rules]: "pres (lk H) Flush"
  unfolding pres_def using lk_Flush by (metis prod.collapse)

lemma pres_lk_Clear [pres_rules]: "pres (lk H) Clear"
  unfolding pres_def using lk_Clear by (metis prod.collapse)

subsection \<open>Operations that give every lock back\<close>

named_theorems balanced_rules \<open>operations that return with the locks they were called with\<close>

definition released :: "(int \<Rightarrow> bool) \<Rightarrow> estate \<Rightarrow> bool" where
  "released H s \<longleftrightarrow> lk H s \<and> batch_touched s = []"

lemma released_held: "released H s \<Longrightarrow> held (running s) k \<longleftrightarrow> H k"
  by (simp add: released_def lk_def)

lemma lk_NewEngineBatch:
  assumes rel: "released H s" and n: "NewEngineBatch r s = (x, s')"
  shows "lk H s'" and "is_Err x \<Longrightarrow> released H s'"
proof -
  let ?P = "lk H (snd (NewEngineBatch r s)) \<and>
    (is_Err (fst (NewEngineBatch r s)) \<longrightarrow> released H (snd (NewEngineBatch r s)))"
  from rel have lk: "lk H s" and t: "batch_touched s = []" by (simp_all add: released_def)
  have ?P
  proof (cases "r < length (objs s)")
    case False
    with lk show ?thesis by (simp add: NewEngineBatch_def bind_def deref_def)
  next
    case True
    let ?k = "pi_Key (objs s ! r)"
    obtain y s1 where l: "lock ?k s = (y, s1)" by (cases "lock ?k s")
    have y: "y = Ok () \<or> y = Blocked" using l by (auto simp: lock_def split: prod.splits bool.splits)
    have b1: "batch s1 = batch s" using l by (auto simp: lock_def split: prod.splits bool.splits)
    show ?thesis
    proof (cases "y = Ok ()")
      case False
      with y l True have "NewEngineBatch r s = (Blocked, s1)"
        by (simp add: NewEngineBatch_def bind_def deref_def)
      with lk_lock_blocked [OF lk l False] show ?thesis by simp
    next
      case ok: True
      have unlocks: "lk H s3 \<and> z = Ok () \<and> batch_touched s3 = []"
        if "running s2 = running s1" "batch s2 = batch s1" "unlock ?k s2 = (z, s3)" for s2 z s3
        using lk_lock_unlock [OF lk l [unfolded ok] that(1) _ that(3)] that t b1
        by (auto simp: batch_touched_def unlock_def split: option.splits)
      show ?thesis
      proof (cases "RefreshProcessInstance (mem s1) r (objs s1)")
        case (Inl e)
        obtain z s3 where u: "unlock ?k s1 = (z, s3)" by (cases "unlock ?k s1")
        from unlocks [OF refl refl u] True l ok Inl u show ?thesis
          by (simp add: NewEngineBatch_def bind_def deref_def attempt_def refresh_def eng_simps released_def)
      next
        case (Inr h)
        let ?s2 = "s1\<lparr>objs := h\<rparr>"
        obtain z s3 where u: "unlock ?k ?s2 = (z, s3)" by (cases "unlock ?k ?s2")
        have f: "lk H s3 \<and> z = Ok () \<and> batch_touched s3 = []"
          by (rule unlocks [OF _ _ u]) simp_all
        have ok2: "lk H (?s2\<lparr>batch := clean_batch\<lparr>touchedInstances := [?k]\<rparr>\<rparr>)"
          by (rule lk_lock_touch [OF lk l [unfolded ok]]) (simp_all add: batch_touched_def b1 t [unfolded batch_touched_def])
        have panic_lk: "lk H ?s2" if "\<not> r < length h"
        proof -
          have "length h = length (objs s1)" using Inr
            by (auto simp: RefreshProcessInstance_def Let_def split: option.splits if_splits)
          moreover have "objs s1 = objs s" using l by (auto simp: lock_def split: prod.splits bool.splits)
          ultimately show ?thesis using that True by simp
        qed
        from True l ok Inr u f ok2 panic_lk show ?thesis
          by (auto simp: NewEngineBatch_def bind_def deref_def attempt_def refresh_def eng_simps
              released_def upd_batch_def)
      qed
    qed
  qed
  with n show "lk H s'" and "is_Err x \<Longrightarrow> released H s'" by simp_all
qed

definition balanced :: "'a em \<Rightarrow> bool" where
  "balanced m \<longleftrightarrow>
     (\<forall>H s x s'. released H s \<longrightarrow> m s = (x, s') \<longrightarrow> is_Ok x \<or> is_Err x \<longrightarrow> released H s')"

text \<open>\<open>flushes m\<close>: started inside a batch, \<open>m\<close> keeps the discipline, and has released the locks of the
  batch when it returns without an error.\<close>

definition flushes :: "'a em \<Rightarrow> bool" where
  "flushes m \<longleftrightarrow>
     (\<forall>H s x s'. lk H s \<longrightarrow> m s = (x, s') \<longrightarrow> is_Ok x \<or> is_Err x \<longrightarrow> lk H s' \<and> (is_Ok x \<longrightarrow> released H s'))"

lemma balancedD: "balanced m \<Longrightarrow> released H s \<Longrightarrow> m s = (x, s') \<Longrightarrow> is_Ok x \<or> is_Err x \<Longrightarrow> released H s'"
  unfolding balanced_def by blast

lemma balancedI:
  assumes "\<And>H s x s'. released H s \<Longrightarrow> m s = (x, s') \<Longrightarrow> is_Ok x \<or> is_Err x \<Longrightarrow> released H s'"
  shows "balanced m"
  unfolding balanced_def using assms by blast

lemma flushesD:
  assumes "flushes m" and "lk H s" and "m s = (x, s')" and "is_Ok x \<or> is_Err x"
  shows "lk H s'" and "is_Ok x \<Longrightarrow> released H s'"
  using assms unfolding flushes_def by blast+

lemma flushesI:
  assumes "\<And>H s x s'. lk H s \<Longrightarrow> m s = (x, s') \<Longrightarrow> is_Ok x \<or> is_Err x \<Longrightarrow>
    lk H s' \<and> (is_Ok x \<longrightarrow> released H s')"
  shows "flushes m"
  unfolding flushes_def using assms by blast

lemma balanced_frame: "keeps frame m \<Longrightarrow> balanced m"
  unfolding balanced_def released_def
  using keeps_of_frame(4) [of m] pres_lk_frame [of m] by (auto dest: keepsD presD)

lemma balanced_basic [balanced_rules]:
  "balanced (ret x)" "balanced (throw e)" "balanced (gets g)" "balanced (db f)" "balanced (db_find h)"
  "balanced (deref r)" "balanced (panic msg)" "balanced (generateKey E)" "balanced (time_now E)"
  "balanced (lift_sum y)" "balanced (alloc i)" "balanced (set_variables r vs)"
  by (intro balanced_frame keeps_rules)+

lemma balanced_set_mem [balanced_rules]: "balanced (set_mem f)"
  by (auto simp: balanced_def set_mem_def eng_simps released_def lk_def batch_touched_def)

lemma balanced_bind [balanced_rules]:
  assumes "balanced m" and "\<And>x. balanced (f x)"
  shows "balanced (bind m f)"
  unfolding balanced_def
proof (intro allI impI)
  fix H s x s' assume a: "released H s" "bind m f s = (x, s')" "is_Ok x \<or> is_Err x"
  obtain y s1 where m: "m s = (y, s1)" by (cases "m s")
  show "released H s'"
  proof (cases y)
    case (Ok v)
    with a m have "f v s1 = (x, s')" by (simp add: bind_def)
    moreover have "released H s1" using balancedD [OF assms(1) a(1) m] Ok by simp
    ultimately show ?thesis using balancedD [OF assms(2)] a(3) by blast
  next
    case (Err e)
    with a m have "s' = s1" by (simp add: bind_def)
    with balancedD [OF assms(1) a(1) m] Err show ?thesis by simp
  qed (use a m in \<open>auto simp: bind_def\<close>)
qed

lemma balanced_wrap [balanced_rules]:
  assumes "balanced m"
  shows "balanced (wrap f m)"
proof (rule balancedI)
  fix H s x s' assume a: "released H s" "wrap f m s = (x, s')" "is_Ok x \<or> is_Err x"
  obtain y s1 where m: "m s = (y, s1)" by (cases "m s")
  have "s' = s1 \<and> (is_Ok y \<or> is_Err y)" using a m by (cases y) (auto simp: wrap_def)
  with balancedD [OF assms a(1) m] show "released H s'" by simp
qed

lemma balanced_attempt [balanced_rules]:
  assumes "balanced m"
  shows "balanced (attempt m)"
proof (rule balancedI)
  fix H s x s' assume a: "released H s" "attempt m s = (x, s')" "is_Ok x \<or> is_Err x"
  obtain y s1 where m: "m s = (y, s1)" by (cases "m s")
  have "s' = s1 \<and> (is_Ok y \<or> is_Err y)" using a m by (cases y) (auto simp: attempt_def)
  with balancedD [OF assms a(1) m] show "released H s'" by simp
qed

lemma balanced_if [balanced_rules]:
  "(b \<Longrightarrow> balanced m) \<Longrightarrow> (\<not> b \<Longrightarrow> balanced n) \<Longrightarrow> balanced (if b then m else n)"
  by simp

lemma balanced_case_option [balanced_rules]:
  "balanced m \<Longrightarrow> (\<And>x. balanced (f x)) \<Longrightarrow> balanced (case y of None \<Rightarrow> m | Some x \<Rightarrow> f x)"
  by (cases y) auto

lemma balanced_case_sum [balanced_rules]:
  "(\<And>e. balanced (g e)) \<Longrightarrow> (\<And>x. balanced (f x)) \<Longrightarrow> balanced (case y of Inl e \<Rightarrow> g e | Inr x \<Rightarrow> f x)"
  by (cases y) auto

lemma flushes_Flush: "flushes Flush"
  unfolding flushes_def released_def using lk_Flush
  by (metis EngineBatch.select_convs(2) batch_touched_def clean_batch_def)

lemma flushes_bind:
  assumes "\<And>H. pres (lk H) m" and "\<And>x. flushes (f x)"
  shows "flushes (bind m f)"
  unfolding flushes_def
proof (intro allI impI)
  fix H s x s' assume a: "lk H s" "bind m f s = (x, s')" "is_Ok x \<or> is_Err x"
  obtain y s1 where m: "m s = (y, s1)" by (cases "m s")
  have 1: "lk H s1" using presD [OF assms(1) m a(1)] .
  show "lk H s' \<and> (is_Ok x \<longrightarrow> released H s')"
  proof (cases y)
    case (Ok v)
    with a m have "f v s1 = (x, s')" by (simp add: bind_def)
    with flushesD [OF assms(2) 1 _ a(3)] show ?thesis by blast
  qed (use a m 1 in \<open>auto simp: bind_def\<close>)
qed

text \<open>After the flush the batch is empty and the rest runs without it.\<close>

lemma flushes_then:
  assumes "flushes m" and "\<And>x. balanced (f x)"
  shows "flushes (bind m f)"
  unfolding flushes_def
proof (intro allI impI)
  fix H s x s' assume a: "lk H s" "bind m f s = (x, s')" "is_Ok x \<or> is_Err x"
  obtain y s1 where m: "m s = (y, s1)" by (cases "m s")
  show "lk H s' \<and> (is_Ok x \<longrightarrow> released H s')"
  proof (cases y)
    case (Ok v)
    with a m have f: "f v s1 = (x, s')" by (simp add: bind_def)
    have "released H s1" using flushesD(2) [OF assms(1) a(1) m] Ok by simp
    then have "released H s'" using balancedD [OF assms(2) _ f a(3)] by blast
    then show ?thesis by (simp add: released_def)
  next
    case (Err e)
    with flushesD(1) [OF assms(1) a(1) m] a m show ?thesis by (auto simp: bind_def)
  qed (use a m in \<open>auto simp: bind_def\<close>)
qed

lemma flushes_wrap:
  assumes "flushes m"
  shows "flushes (wrap f m)"
proof (rule flushesI)
  fix H s x s' assume a: "lk H s" "wrap f m s = (x, s')" "is_Ok x \<or> is_Err x"
  obtain y s1 where m: "m s = (y, s1)" by (cases "m s")
  have "s' = s1 \<and> (is_Ok y \<or> is_Err y) \<and> is_Ok x = is_Ok y" using a m by (cases y) (auto simp: wrap_def)
  with flushesD [OF assms a(1) m] show "lk H s' \<and> (is_Ok x \<longrightarrow> released H s')" by simp
qed

lemma flushes_throw: "flushes (throw e)"
  by (simp add: flushes_def throw_def)

lemma flushes_if: "flushes m \<Longrightarrow> flushes n \<Longrightarrow> flushes (if b then m else n)"
  by simp

lemma flushes_panic: "flushes (panic msg)"
  by (simp add: flushes_def panic_def)

lemma flushes_case_option:
  "flushes m \<Longrightarrow> (\<And>x. flushes (f x)) \<Longrightarrow> flushes (case y of None \<Rightarrow> m | Some x \<Rightarrow> f x)"
  by (cases y) auto

lemma flushes_case_sum:
  "(\<And>e. flushes (g e)) \<Longrightarrow> (\<And>x. flushes (f x)) \<Longrightarrow> flushes (case y of Inl e \<Rightarrow> g e | Inr x \<Rightarrow> f x)"
  by (cases y) auto

lemma flushes_case_prod: "(\<And>x z. flushes (f x z)) \<Longrightarrow> flushes (case y of (x, z) \<Rightarrow> f x z)"
  by (cases y) auto

text \<open>The last step of most batches: flush, then return.\<close>

lemma flushes_Flush_ret: "flushes (bind (wrap g Flush) (\<lambda>_. ret x))"
  by (rule flushes_then [OF flushes_wrap [OF flushes_Flush] balanced_basic(1)])

lemma flushes_Flush_throw: "flushes (bind (wrap g Flush) (\<lambda>_. throw e))"
  by (rule flushes_then [OF flushes_wrap [OF flushes_Flush] balanced_basic(2)])

text \<open>The shape of the public operations: open a batch, work, flush, and clear the batch on errors.\<close>

lemma balanced_api:
  assumes "flushes m"
  shows "balanced (bind (wrap g (NewEngineBatch r)) (\<lambda>_. on_error Clear m))"
  unfolding balanced_def
proof (intro allI impI)
  fix H s x s' assume a: "released H s"
    "bind (wrap g (NewEngineBatch r)) (\<lambda>_. on_error Clear m) s = (x, s')" "is_Ok x \<or> is_Err x"
  obtain y s1 where n: "NewEngineBatch r s = (y, s1)" by (cases "NewEngineBatch r s")
  note L = lk_NewEngineBatch [OF a(1) n]
  show "released H s'"
  proof (cases y)
    case (Ok u)
    with a n have b: "on_error Clear m s1 = (x, s')" by (simp add: bind_def wrap_def)
    obtain z s2 where m: "m s1 = (z, s2)" by (cases "m s1")
    show ?thesis
    proof (cases z)
      case (Ok v)
      with b m have "s' = s2" by (simp add: on_error_def bind_def attempt_def ret_def)
      with flushesD(2) [OF assms L(1) m] Ok show ?thesis by simp
    next
      case (Err e)
      with flushesD(1) [OF assms L(1) m] have "lk H s2" by simp
      moreover obtain w s3 where c: "Clear s2 = (w, s3)" by (cases "Clear s2")
      ultimately have "lk H s3 \<and> batch s3 = clean_batch \<and> w = Ok ()" using lk_Clear by blast
      with b m Err c show ?thesis
        by (simp add: on_error_def bind_def attempt_def throw_def released_def batch_touched_def clean_batch_def)
    qed (use b m a(3) in \<open>auto simp: on_error_def bind_def attempt_def\<close>)
  next
    case (Err e)
    with a n L(2) show ?thesis by (simp add: bind_def wrap_def)
  qed (use a n in \<open>auto simp: bind_def wrap_def\<close>)
qed

end
