(* ===== verification/Demo_Process.thy ===== *)
theory Demo_Process
  imports Engine_State
begin

text \<open>
  A small process, with the engine state and the parameters to run it, on which the properties are
  instantiated. The process starts, decides at an exclusive gateway between a service task and a user
  task and ends. The FEEL interpreter of the fixture looks a variable up by name.
\<close>

definition mk_flow :: "string \<Rightarrow> string \<Rightarrow> string \<Rightarrow> string \<Rightarrow> TSequenceFlow" where
  "mk_flow i a b c = \<lparr>sf_Id = i, sf_Name = [], SourceRefId = a, TargetRefId = b,
     ConditionExpression = c, SourceRef = None, TargetRef = None\<rparr>"

definition mk_node :: "string \<Rightarrow> string list \<Rightarrow> string list \<Rightarrow> TFlowNode" where
  "mk_node i ins outs = \<lparr>fn_Id = i, fn_Name = [], IncomingAssociationsIDs = ins,
     OutgoingAssociationsIDs = outs, IncomingAssociations = [], OutgoingAssociations = []\<rparr>"

definition demo_start :: TFlowNode where
  "demo_start = mk_node ''start'' [] [''f1'']"

definition demo_gateway :: TDefaultFlowGateway where
  "demo_gateway = TFlowNode.extend (mk_node ''gw'' [''f1''] [''f2'', ''f3''])
     (TDefaultFlowGateway.fields ''f3'' None)"

definition demo_task :: TExternallyProcessedTask where
  "demo_task = TActivity.extend
     (TFlowNode.extend (mk_node ''task'' [''f2''] [''f4'']) (TActivity.fields None [] []))
     (TExternallyProcessedTask.fields \<lparr>TypeName = ''work'', Retries = []\<rparr>)"

definition demo_user :: TUserTask where
  "demo_user = TActivity.extend
     (TFlowNode.extend (mk_node ''user'' [''f3''] [''f5'']) (TActivity.fields None [] []))
     (TUserTask.fields ''anna'' ''a,b'')"

definition demo_end :: TEndEvent where
  "demo_end = TFlowNode.extend (mk_node ''end'' [''f4'', ''f5''] [])
     (TEndEvent.fields [] zero_TaskDefinition [] [])"

definition demo_boundary :: TBoundaryEvent where
  "demo_boundary = TFlowNode.extend (mk_node ''late'' [] [''f6''])
     (TBoundaryEvent.fields (Some (TTimerEventDefinition ''t'' ''PT5S'')) ''task'' True [])"

definition demo_raw :: TDefinitions where
  "demo_raw = \<lparr>def_Id = ''defs'',
     def_Process = \<lparr>proc_Id = ''demo'', proc_Name = [],
       proc_Container = FlowElements [demo_start] [demo_end]
         [mk_flow ''f1'' ''start'' ''gw'' [], mk_flow ''f2'' ''gw'' ''task'' ''=go'',
          mk_flow ''f3'' ''gw'' ''user'' [], mk_flow ''f4'' ''task'' ''end'' [],
          mk_flow ''f5'' ''user'' ''end'' [], mk_flow ''f6'' ''late'' ''end'' []]
         [demo_task] [demo_user] [] [] [] [demo_gateway] [] [] [] [] [] [demo_boundary] [] []\<rparr>,
     def_Messages = []\<rparr>"

definition demo_definitions :: TDefinitions where
  "demo_definitions = (case ResolveReferences demo_raw of Ok d \<Rightarrow> d | _ \<Rightarrow> demo_raw)"

definition demo_env :: env where
  "demo_env = \<lparr>gen = int, clock = int,
     feel = (\<lambda>e vs. case vs e of Some v \<Rightarrow> Inr v | None \<Rightarrow> Inr VNil),
     ParseISO8601 = (\<lambda>_. Inr \<lparr>dur_Shift = (\<lambda>t. t + 5), dur_TS = 5\<rparr>),
     dmn = (\<lambda>_ _ _ _. Inr (VNum 1)), ctx_cancelled = False\<rparr>"

definition demo_pd :: ProcessDefinition where
  "demo_pd = \<lparr>pd_BpmnProcessId = ''demo'', pd_Version = 1, pd_Key = 900,
     pd_Definitions = demo_definitions, pd_BpmnData = [], pd_BpmnProcessName = [], pd_BpmnChecksum = 0\<rparr>"

definition demo_instance :: "ActivityState \<Rightarrow> ProcessInstance" where
  "demo_instance st = \<lparr>pi_Kind = DefaultProcessInstance, pi_Definition = demo_pd, pi_Key = 500,
     pi_BusinessKey = None, pi_Variables = [''go'' \<mapsto> VBool True], pi_CreatedAt = 0, pi_State = st\<rparr>"

text \<open>An engine with one instance, stored and active.\<close>

definition demo_engine :: estate where
  "demo_engine = NewEngine\<lparr>objs := [demo_instance ActivityStateActive],
     mem := NewStorage\<lparr>ProcessInstances := [(500, 0)], ProcessDefinitions := [(900, demo_pd)]\<rparr>,
     timerManager := Some (newTimerManager 10)\<rparr>"

definition demo_token :: "string \<Rightarrow> TokenState \<Rightarrow> ExecutionToken" where
  "demo_token e st = \<lparr>tok_Key = 100, tok_ElementInstanceKey = 101, tok_ElementId = e,
     tok_ProcessInstanceKey = 500, tok_State = st, tok_CreatedAt = 0\<rparr>"

text \<open>An engine whose instance waits: at a task with a job, and for an instance it called. What is proved
  with it does not look at the process, which is empty.\<close>

definition demo_job :: "ExecutionToken \<Rightarrow> ActivityState \<Rightarrow> Job" where
  "demo_job t st = \<lparr>job_ElementId = ''task'', job_ElementInstanceKey = tok_ElementInstanceKey t,
     job_ProcessInstanceKey = tok_ProcessInstanceKey t, job_Key = 700, job_State = st, job_Type = ''work'',
     job_Variables = Map.empty, job_CreatedAt = 0, job_Token = t, job_Assignee = None\<rparr>"

definition bare_pd :: ProcessDefinition where
  "bare_pd = \<lparr>pd_BpmnProcessId = ''bare'', pd_Version = 1, pd_Key = 900,
     pd_Definitions = \<lparr>def_Id = ''bare'', def_Process = \<lparr>proc_Id = ''bare'', proc_Name = [],
       proc_Container = FlowElements [] [] [] [] [] [] [] [] [] [] [] [] [] [] [] [] []\<rparr>, def_Messages = []\<rparr>,
     pd_BpmnData = [], pd_BpmnProcessName = [], pd_BpmnChecksum = 0\<rparr>"

definition bare_instance :: ProcessInstance where
  "bare_instance = \<lparr>pi_Kind = DefaultProcessInstance, pi_Definition = bare_pd, pi_Key = 500,
     pi_BusinessKey = None, pi_Variables = Map.empty, pi_CreatedAt = 0, pi_State = ActivityStateActive\<rparr>"

definition demo_child :: ProcessInstance where
  "demo_child = bare_instance\<lparr>pi_Key := 501,
     pi_Kind := CallActivityInstance (demo_token ''task'' TokenStateWaiting) 900\<rparr>"

definition demo_busy :: estate where
  "demo_busy = NewEngine\<lparr>objs := [bare_instance, demo_child], timerManager := Some (newTimerManager 10),
     mem := NewStorage\<lparr>ProcessInstances := [(500, 0), (501, 1)],
       ExecutionTokens := [(100, demo_token ''task'' TokenStateWaiting),
         (110, (demo_token ''user'' TokenStateWaiting)\<lparr>tok_Key := 110, tok_ProcessInstanceKey := 501\<rparr>)],
       Jobs := [(700, demo_job (demo_token ''task'' TokenStateWaiting) ActivityStateActive)]\<rparr>\<rparr>"

lemmas demo_elements = demo_start_def demo_gateway_def demo_task_def demo_user_def demo_end_def
  demo_boundary_def mk_flow_def mk_node_def

lemma demo_resolves: "is_Ok (ResolveReferences demo_raw)"
  by code_simp

end
