(* ===== verification/Engine_Flow.thy ===== *)
theory Engine_Flow
  imports Engine_State Demo_Process
begin

text \<open>
  How tokens move: the selection of outgoing flows by conditions (\<^verbatim>\<open>conditions.go\<close>), the gateway handlers,
  the transition along outgoing flows, message and timer catch events, link events and plain end events
  (\<^verbatim>\<open>engine.go\<close>, \<^verbatim>\<open>events.go\<close>, \<^verbatim>\<open>timer.go\<close>, \<^verbatim>\<open>links.go\<close>, the transition of multi-instances in
  \<^verbatim>\<open>sub_process.go\<close>).

  A handler takes the reference of the instance and returns the tokens it updated. Everything it wants
  to store goes into the batch; the lemmas at the end show that none of these handlers writes the
  store. The properties characterise the flows a gateway activates and the tokens a transition,
  a fork and a join produce.
\<close>

section \<open>Conditions\<close>

definition flow_error :: "error \<Rightarrow> error" where
  "flow_error e = ExpressionEvaluationError ''Error evaluating expression in flow element'' (Some e)"

fun exclusive_loop :: "env \<Rightarrow> bool \<Rightarrow> vars \<Rightarrow> TSequenceFlow list \<Rightarrow> error + TSequenceFlow list" where
  "exclusive_loop E single vs [] = Inr []"
| "exclusive_loop E single vs (f # fs) =
     (if GetConditionExpression f \<noteq> [] then
        (case evaluateExpression E (GetConditionExpression f) vs of
           Inl e \<Rightarrow> Inl (flow_error e)
         | Inr out \<Rightarrow> if out = VBool True then Inr [f] else exclusive_loop E single vs fs)
      else if single then
        (case exclusive_loop E single vs fs of Inl e \<Rightarrow> Inl e | Inr r \<Rightarrow> Inr (f # r))
      else exclusive_loop E single vs fs)"

definition exclusivelyFilterByConditionExpression ::
  "env \<Rightarrow> TSequenceFlow list \<Rightarrow> TSequenceFlow option \<Rightarrow> vars \<Rightarrow> error + TSequenceFlow list" where
  "exclusivelyFilterByConditionExpression E flows defaultFlow vs =
     (case exclusive_loop E (length flows = 1) vs flows of
        Inl e \<Rightarrow> Inl e
      | Inr r \<Rightarrow>
          if r \<noteq> [] then Inr r
          else (case defaultFlow of
                  None \<Rightarrow> Inl (ExpressionEvaluationError
                    ''No default flow, nor matching expressions found, for flow elements'' None)
                | Some f \<Rightarrow> Inr [f]))"

fun inclusive_loop :: "env \<Rightarrow> bool \<Rightarrow> vars \<Rightarrow> TSequenceFlow list \<Rightarrow> error + TSequenceFlow list" where
  "inclusive_loop E single vs [] = Inr []"
| "inclusive_loop E single vs (f # fs) =
     (if GetConditionExpression f \<noteq> [] then
        (case evaluateExpression E (GetConditionExpression f) vs of
           Inl e \<Rightarrow> Inl (flow_error e)
         | Inr out \<Rightarrow>
             (case inclusive_loop E single vs fs of
                Inl e \<Rightarrow> Inl e
              | Inr r \<Rightarrow> Inr (if out = VBool True then f # r else r)))
      else
        (case inclusive_loop E single vs fs of
           Inl e \<Rightarrow> Inl e
         | Inr r \<Rightarrow> Inr (if single then f # r else r)))"

text \<open>Without a match and a default flow the message names the source of the first flow: the code
  panics if there is no flow, or none with a source.\<close>

definition inclusivelyFilterByConditionExpression ::
  "env \<Rightarrow> TSequenceFlow list \<Rightarrow> TSequenceFlow option \<Rightarrow> vars \<Rightarrow> TSequenceFlow list res" where
  "inclusivelyFilterByConditionExpression E flows defaultFlow vs =
     (case inclusive_loop E (length flows = 1) vs flows of
        Inl e \<Rightarrow> Err e
      | Inr r \<Rightarrow>
          if r \<noteq> [] then Ok r
          else (case defaultFlow of
                  Some f \<Rightarrow> Ok [f]
                | None \<Rightarrow>
                    (case flows of
                       [] \<Rightarrow> Panic ''index out of range [0] with length 0''
                     | f # _ \<Rightarrow>
                         if SourceRef f = None then Panic ''invalid memory address or nil pointer dereference''
                         else Err (ExpressionEvaluationError
                           ''No default flow, nor matching expressions found for gateway'' None))))"

definition lift_res :: "'a res \<Rightarrow> 'a em" where
  "lift_res x s = (x, s)"

section \<open>Helpers shared by the handlers\<close>

definition instance_definitions :: "ProcessInstance \<Rightarrow> TDefinitions" where
  "instance_definitions i = pd_Definitions (pi_Definition i)"

definition instance_container :: "ProcessInstance \<Rightarrow> TFlowElementsContainer" where
  "instance_container i = proc_Container (def_Process (instance_definitions i))"

definition target_id :: "nat \<Rightarrow> TSequenceFlow \<Rightarrow> string em" where
  "target_id r flow =
     bind (deref r) (\<lambda>i.
       case GetTargetRef (instance_definitions i) flow of
         None \<Rightarrow> panic ''invalid memory address or nil pointer dereference''
       | Some n \<Rightarrow> ret (GetId n))"

definition new_token :: "env \<Rightarrow> nat \<Rightarrow> string \<Rightarrow> TokenState \<Rightarrow> ExecutionToken em" where
  "new_token E r elementId st =
     bind (generateKey E) (\<lambda>k.
     bind (generateKey E) (\<lambda>e.
     bind (deref r) (\<lambda>i.
       ret \<lparr>tok_Key = k, tok_ElementInstanceKey = e, tok_ElementId = elementId,
            tok_ProcessInstanceKey = pi_Key i, tok_State = st, tok_CreatedAt = 0\<rparr>)))"

text \<open>A history row for an element the token is at, and one for a flow it takes (with a key of its own).\<close>

definition save_history :: "env \<Rightarrow> nat \<Rightarrow> int \<Rightarrow> string \<Rightarrow> int \<Rightarrow> vars \<Rightarrow> vars \<Rightarrow> unit em" where
  "save_history E r k elementId tokenKey inputVariables outputVariables =
     bind (deref r) (\<lambda>i.
     bind (time_now E) (\<lambda>t.
       add_stmt (StFlowElementInstance
         \<lparr>fe_Key = k, fe_ProcessInstanceKey = pi_Key i, fe_ElementId = elementId, fe_CreatedAt = t,
          fe_ExecutionTokenKey = tokenKey, fe_InputVariables = inputVariables,
          fe_OutputVariables = outputVariables\<rparr>)))"

definition save_flow_history :: "env \<Rightarrow> nat \<Rightarrow> string \<Rightarrow> int \<Rightarrow> unit em" where
  "save_flow_history E r flowId tokenKey =
     bind (generateKey E) (\<lambda>k. save_history E r k flowId tokenKey Map.empty Map.empty)"

text \<open>The token for a further outgoing flow, as the transition and the gateways create it.\<close>

definition fork_token :: "env \<Rightarrow> nat \<Rightarrow> TSequenceFlow \<Rightarrow> ExecutionToken em" where
  "fork_token E r flow =
     bind (target_id r flow) (\<lambda>target.
     bind (new_token E r target TokenStateRunning) (\<lambda>tok.
     bind (save_flow_history E r (sf_Id flow) (tok_Key tok)) (\<lambda>_. ret tok)))"

text \<open>Propagation of output variables into the instance; assignments made before an expression fails
  stay.\<close>

definition propagate :: "env \<Rightarrow> nat \<Rightarrow> vars \<Rightarrow> TIoMapping list \<Rightarrow> vars \<Rightarrow> vars em" where
  "propagate E r locals mappings outs =
     bind (deref r) (\<lambda>i.
       (let p = PropagateOutputVariablesToParent mappings outs (evaluateExpression E)
                  \<lparr>vh_parent = Some (pi_Variables i), vh_localVariables = locals\<rparr>
        in bind (set_variables r (case vh_parent (fst p) of Some vs \<Rightarrow> vs | None \<Rightarrow> pi_Variables i))
             (\<lambda>_. lift_sum (snd p))))"

text \<open>The same through \<^verbatim>\<open>NewVariableHolder(&instance.VariableHolder, nil)\<close>.\<close>

definition propagate_output :: "env \<Rightarrow> nat \<Rightarrow> TIoMapping list \<Rightarrow> vars \<Rightarrow> vars em" where
  "propagate_output E r mappings outs =
     bind (deref r) (\<lambda>i. propagate E r (pi_Variables i) mappings outs)"

section \<open>Transitions\<close>

definition first_transition :: "env \<Rightarrow> nat \<Rightarrow> TSequenceFlow \<Rightarrow> ExecutionToken \<Rightarrow> ExecutionToken em" where
  "first_transition E r flow tok =
     bind (target_id r flow) (\<lambda>target.
     bind (generateKey E) (\<lambda>k.
       (let tok' = tok\<lparr>tok_ElementId := target, tok_ElementInstanceKey := k, tok_State := TokenStateRunning\<rparr>
        in bind (save_flow_history E r (sf_Id flow) (tok_Key tok')) (\<lambda>_. ret tok'))))"

definition handleDefaultElementTransition :: "env \<Rightarrow> nat \<Rightarrow> FlowNode \<Rightarrow> ExecutionToken \<Rightarrow> ExecutionToken list em" where
  "handleDefaultElementTransition E r element currentToken =
     (case GetOutgoingAssociation element of
        [] \<Rightarrow>
          if GetType element \<noteq> ElementTypeEndEvent
          then throw (Errorf ''flow node does not have outgoing associations but is not an end event'')
          else ret [currentToken\<lparr>tok_State := TokenStateCompleted\<rparr>]
      | flow # flows \<Rightarrow>
          bind (first_transition E r flow currentToken) (\<lambda>tok.
          bind (map_each flows (fork_token E r)) (\<lambda>toks. ret (tok # toks))))"

text \<open>\<^verbatim>\<open>handleMultiInstanceElementTransition\<close>: \<open>eik\<close> is the element instance of the multi-instance
  activity in the parent, whose history row holds the input collection.\<close>

definition multi_instance_collection :: "TMultiInstance \<Rightarrow> int \<Rightarrow> val list em" where
  "multi_instance_collection mi eik =
     bind (db_find (\<lambda>d. GetFlowElementInstanceByKey d eik)) (\<lambda>f.
       case fe_InputVariables f (InputElementName (LoopCharacteristics mi)) of
         Some (VList vs) \<Rightarrow> ret vs
       | _ \<Rightarrow> throw (Errorf ''failed to handle multi instance''))"

definition handleMultiInstanceElementTransition ::
  "env \<Rightarrow> nat \<Rightarrow> int \<Rightarrow> FlowNode \<Rightarrow> ExecutionToken \<Rightarrow> ExecutionToken list em" where
  "handleMultiInstanceElementTransition E r eik element currentToken =
     (case GetMultiInstance element of
        None \<Rightarrow> throw (Errorf ''failed to handle multi instance transition'')
      | Some mi \<Rightarrow>
          bind (multi_instance_collection mi eik) (\<lambda>collection.
          bind (deref r) (\<lambda>i.
          bind (if IsSequential mi then ret True
                else bind (db (\<lambda>d. GetCompletedTokensForProcessInstance d (pi_Key i))) (\<lambda>ts.
                       ret (int (length ts) = int (length collection) - 1))) (\<lambda>again.
            if again
            then bind (generateKey E) (\<lambda>k.
                   ret [currentToken\<lparr>tok_State := TokenStateRunning, tok_ElementInstanceKey := k\<rparr>])
            else ret [currentToken\<lparr>tok_State := TokenStateCompleted\<rparr>]))))"

definition handleElementTransition :: "env \<Rightarrow> nat \<Rightarrow> FlowNode \<Rightarrow> ExecutionToken \<Rightarrow> ExecutionToken list em" where
  "handleElementTransition E r element currentToken =
     bind (deref r) (\<lambda>i.
       case pi_Kind i of
         MultiInstanceInstance _ eik _ \<Rightarrow> handleMultiInstanceElementTransition E r eik element currentToken
       | _ \<Rightarrow> handleDefaultElementTransition E r element currentToken)"

section \<open>Gateways\<close>

definition handleExclusiveGateway :: "env \<Rightarrow> nat \<Rightarrow> TDefaultFlowGateway \<Rightarrow> ExecutionToken \<Rightarrow> ExecutionToken list em" where
  "handleExclusiveGateway E r element currentToken =
     bind (deref r) (\<lambda>i.
       case exclusivelyFilterByConditionExpression E (OutgoingAssociations element)
              (DefaultFlow element) (pi_Variables i) of
         Inl e \<Rightarrow>
           bind (set_state r ActivityStateFailed) (\<lambda>_.
             throw (Wrapf ''failed to filter outgoing associations from ExclusiveGateway'' e))
       | Inr [] \<Rightarrow> ret [currentToken]
       | Inr (flow # _) \<Rightarrow>
           bind (save_flow_history E r (sf_Id flow) (tok_Key currentToken)) (\<lambda>_.
           bind (target_id r flow) (\<lambda>target.
           bind (generateKey E) (\<lambda>k.
             ret [currentToken\<lparr>tok_ElementId := target, tok_ElementInstanceKey := k\<rparr>]))))"

definition handleInclusiveGateway :: "env \<Rightarrow> nat \<Rightarrow> TDefaultFlowGateway \<Rightarrow> ExecutionToken \<Rightarrow> ExecutionToken list em" where
  "handleInclusiveGateway E r element currentToken =
     bind (deref r) (\<lambda>i.
     bind (attempt (lift_res (inclusivelyFilterByConditionExpression E (OutgoingAssociations element)
              (DefaultFlow element) (pi_Variables i)))) (\<lambda>x.
       case x of
         Inl e \<Rightarrow>
           bind (set_state r ActivityStateFailed) (\<lambda>_.
             throw (Wrapf ''failed to filter outgoing associations from InclusiveGateway'' e))
       | Inr activatedFlows \<Rightarrow>
           bind (map_each activatedFlows (fork_token E r)) (\<lambda>toks.
             ret (currentToken\<lparr>tok_State := TokenStateCompleted\<rparr> # toks))))"

definition handleParallelGateway :: "env \<Rightarrow> nat \<Rightarrow> TFlowNode \<Rightarrow> ExecutionToken \<Rightarrow> ExecutionToken list em" where
  "handleParallelGateway E r element currentToken =
     bind (deref r) (\<lambda>i.
     bind (db (\<lambda>d. GetAllTokensForProcessInstance d (pi_Key i))) (\<lambda>instanceTokens.
       (let gatewayTokens = filter (\<lambda>t. tok_ElementId t = tok_ElementId currentToken) instanceTokens;
            completedGatewayTokens = filter (\<lambda>t. tok_State t = TokenStateCompleted) gatewayTokens;
            currentToken' = currentToken\<lparr>tok_State := TokenStateCompleted\<rparr>
        in if int (length completedGatewayTokens) \<noteq> int (length (IncomingAssociations element)) - 1
           then ret [currentToken']
           else bind (map_each (OutgoingAssociations element) (fork_token E r)) (\<lambda>toks.
                  ret (currentToken' # toks)))))"

section \<open>Catch events\<close>

definition createMessageSubscription :: "env \<Rightarrow> nat \<Rightarrow> string \<Rightarrow> string \<Rightarrow> ExecutionToken \<Rightarrow> MessageSubscription em" where
  "createMessageSubscription E r messageRef elementId token =
     bind (deref r) (\<lambda>i.
     bind (wrap (Wrapf ''failed to create message subscription'')
             (lift_sum (GetMessageByRef (instance_definitions i) messageRef))) (\<lambda>message.
     bind (if HasPrefix (CorrelationKey message) ''='' then
             bind (wrap (Wrapf ''failed to evaluate correlation key in message subscription'')
                     (lift_sum (evaluateExpression E (CorrelationKey message) (pi_Variables i)))) (\<lambda>v.
               case v of
                 VStr ck \<Rightarrow> ret ck
               | _ \<Rightarrow> throw (Errorf ''result of correlation key evaluation is not a string''))
           else ret (CorrelationKey message)) (\<lambda>correlationKey.
     bind (generateKey E) (\<lambda>k.
     bind (time_now E) (\<lambda>t.
       ret \<lparr>ms_Key = k, ms_ElementId = elementId, ms_ProcessDefinitionKey = pd_Key (pi_Definition i),
            ms_ProcessInstanceKey = pi_Key i, ms_Name = msg_Name message,
            ms_CorrelationKey = correlationKey, ms_State = ActivityStateActive, ms_CreatedAt = t,
            ms_Token = token\<rparr>)))))"

definition createMessageCatchEvent :: "env \<Rightarrow> nat \<Rightarrow> string \<Rightarrow> string \<Rightarrow> ExecutionToken \<Rightarrow> ExecutionToken em" where
  "createMessageCatchEvent E r messageRef elementId token =
     bind (wrap (Wrapf ''failed to create message subscription'')
             (createMessageSubscription E r messageRef elementId token)) (\<lambda>ms.
     bind (add_stmt (StMessageSubscription ms)) (\<lambda>_.
       ret (token\<lparr>tok_State := TokenStateWaiting\<rparr>)))"

definition findDurationValue :: "env \<Rightarrow> string \<Rightarrow> error + iso_duration" where
  "findDurationValue E durationStr =
     (if TrimSpace durationStr = [] then Inl (EngineError ''Can't find 'timeDuration' value'')
      else ParseISO8601 E durationStr)"

definition createTimer :: "env \<Rightarrow> nat \<Rightarrow> string \<Rightarrow> string \<Rightarrow> ExecutionToken \<Rightarrow> Timer em" where
  "createTimer E r durationStr elementId token =
     bind (deref r) (\<lambda>i.
     bind (wrap (\<lambda>e. EngineError ''Error parsing 'timeDuration' value from Activity'')
             (lift_sum (findDurationValue E durationStr))) (\<lambda>durationVal.
     bind (time_now E) (\<lambda>now.
     bind (generateKey E) (\<lambda>k.
       (let t = \<lparr>tm_ElementId = elementId, tm_Key = k,
                 tm_ElementInstanceKey = tok_ElementInstanceKey token,
                 tm_ProcessDefinitionKey = pd_Key (pi_Definition i), tm_ProcessInstanceKey = pi_Key i,
                 tm_State = TimerStateCreated, tm_CreatedAt = now, tm_DueAt = dur_Shift durationVal now,
                 tm_Duration = dur_TS durationVal * 1000000000, tm_Token = token\<rparr>
        in bind (add_stmt (StTimer t)) (\<lambda>_.
           bind (with_timers (registerTimer t)) (\<lambda>_. ret t)))))))"

definition createTimerCatchEvent :: "env \<Rightarrow> nat \<Rightarrow> string \<Rightarrow> string \<Rightarrow> ExecutionToken \<Rightarrow> ExecutionToken em" where
  "createTimerCatchEvent E r durationStr elementId currentToken =
     bind (wrap (Wrapf ''failed to create timer'') (createTimer E r durationStr elementId currentToken)) (\<lambda>_.
       ret (currentToken\<lparr>tok_State := TokenStateWaiting\<rparr>))"

definition createIntermediateCatchEvent ::
  "env \<Rightarrow> nat \<Rightarrow> TIntermediateCatchEvent \<Rightarrow> ExecutionToken \<Rightarrow> ExecutionToken list em" where
  "createIntermediateCatchEvent E r ice currentToken =
     (case ice_EventDefinition ice of
        Some (TMessageEventDefinition messageRef) \<Rightarrow>
          bind (createMessageCatchEvent E r messageRef (fn_Id ice) currentToken) (\<lambda>tok. ret [tok])
      | Some (TTimerEventDefinition _ durationStr) \<Rightarrow>
          bind (createTimerCatchEvent E r durationStr (fn_Id ice) currentToken) (\<lambda>tok. ret [tok])
      | Some (TLinkEventDefinition _ _) \<Rightarrow>
          handleElementTransition E r (FIntermediateCatchEvent ice) currentToken
      | _ \<Rightarrow> panic ''unsupported IntermediateCatchEvent'')"

definition handleEventBasedGateway :: "env \<Rightarrow> nat \<Rightarrow> TFlowNode \<Rightarrow> ExecutionToken \<Rightarrow> ExecutionToken list em" where
  "handleEventBasedGateway E r element currentToken =
     bind (new_token E r (fn_Id element) TokenStateWaiting) (\<lambda>gatewayToken.
     bind (deref r) (\<lambda>i.
     bind (map_each (OutgoingAssociations element) (\<lambda>flow.
             case GetTargetRef (instance_definitions i) flow of
               Some (FIntermediateCatchEvent ice) \<Rightarrow>
                 wrap (Wrapf ''failed to handle IntermediateCatchEvent'')
                   (createIntermediateCatchEvent E r ice gatewayToken)
             | _ \<Rightarrow> panic ''[invariant check] unsupported element'')) (\<lambda>toks.
       ret (currentToken\<lparr>tok_State := TokenStateCompleted\<rparr> # concat toks))))"

section \<open>Boundary events, link events, plain end events\<close>

definition createBoundaryEventSubscriptions :: "env \<Rightarrow> nat \<Rightarrow> FlowNode \<Rightarrow> ExecutionToken \<Rightarrow> unit em" where
  "createBoundaryEventSubscriptions E r element currentToken =
     bind (deref r) (\<lambda>i.
       for_each (FindBoundaryEventsForActivity (instance_container i) (GetId element)) (\<lambda>be.
         case be_EventDefinition be of
           Some (TMessageEventDefinition messageRef) \<Rightarrow>
             bind (createMessageCatchEvent E r messageRef (GetId element) currentToken) (\<lambda>_. ret ())
         | Some (TTimerEventDefinition _ durationStr) \<Rightarrow>
             bind (createTimerCatchEvent E r durationStr (GetId element) currentToken) (\<lambda>_. ret ())
         | _ \<Rightarrow> panic ''unsupported BoundaryEvent''))"

text \<open>The search for the catching end of a link: every intermediate catch event of the process up to
  the right one has to be a link event, or the type assertion panics.\<close>

fun find_link :: "TIntermediateCatchEvent list \<Rightarrow> string \<Rightarrow> TIntermediateCatchEvent option res" where
  "find_link [] name = Ok None"
| "find_link (ice # ices) name =
     (case ice_EventDefinition ice of
        Some (TLinkEventDefinition _ n) \<Rightarrow> if n = name then Ok (Some ice) else find_link ices name
      | _ \<Rightarrow> Panic ''interface conversion: EventDefinition is not TLinkEventDefinition'')"

definition handleIntermediateThrowLinkEvent ::
  "env \<Rightarrow> nat \<Rightarrow> TIntermediateThrowEvent \<Rightarrow> string \<Rightarrow> ExecutionToken \<Rightarrow> ExecutionToken em" where
  "handleIntermediateThrowLinkEvent E r ite linkName currentToken =
     bind (wrap (\<lambda>e. ExpressionEvaluationError ''Can't evaluate expression in element'' (Some e))
             (propagate_output E r (ite_Output ite) Map.empty)) (\<lambda>_.
       if TrimSpace linkName = [] then throw (Errorf ''missing link name in link intermediate throw event'')
       else
         bind (deref r) (\<lambda>i.
         bind (lift_res (find_link (IntermediateCatchEvent (instance_container i)) linkName)) (\<lambda>found.
           case found of
             None \<Rightarrow> throw (Errorf ''failed to find link target in process instance'')
           | Some ice \<Rightarrow>
               bind (wrap (\<lambda>e. ExpressionEvaluationError ''Can't evaluate expression in element'' (Some e))
                       (propagate_output E r (ice_Output ice) Map.empty)) (\<lambda>_.
               bind (generateKey E) (\<lambda>k.
                 ret (currentToken\<lparr>tok_ElementId := fn_Id ice, tok_ElementInstanceKey := k,
                                   tok_State := TokenStateRunning\<rparr>))))))"

definition pending_work :: "Storage \<Rightarrow> int \<Rightarrow> bool \<Rightarrow> bool" where
  "pending_work d k onJobCompletion \<longleftrightarrow>
     FindProcessInstanceMessageSubscriptions d k ActivityStateActive \<noteq> [] \<or>
     FindProcessInstanceMessageSubscriptions d k ActivityStateReady \<noteq> [] \<or>
     length (FindPendingProcessInstanceJobs d k) > (if onJobCompletion then 1 else 0) \<or>
     length (GetActiveTokensForProcessInstance d k) > 1"

definition handlePlainEndEvent :: "nat \<Rightarrow> bool \<Rightarrow> unit em" where
  "handlePlainEndEvent r onJobCompletion =
     bind (deref r) (\<lambda>i.
     bind (db (\<lambda>d. pending_work d (pi_Key i) onJobCompletion)) (\<lambda>activeSubscriptions.
       do_when (\<not> activeSubscriptions) (set_state r ActivityStateCompleted)))"

section \<open>The handlers write to the batch only\<close>

lemma keeps_lift_res [keeps_rules]: "keeps v (lift_res x)"
  by (simp add: keeps_def lift_res_def)

lemma keeps_flow_helpers [keeps_rules]:
  "keeps frame (target_id r flow)" "keeps frame (new_token E r e st)"
  "keeps frame (save_history E r k e tk iv ov)"
  unfolding target_id_def new_token_def save_history_def by (intro keeps_rules)+

lemma keeps_flow_history [keeps_rules]: "keeps frame (save_flow_history E r f k)"
  unfolding save_flow_history_def by (intro keeps_rules)

lemma keeps_fork_token [keeps_rules]:
  "keeps frame (fork_token E r flow)" "keeps frame (first_transition E r flow tok)"
  unfolding fork_token_def first_transition_def Let_def by (intro keeps_rules)+

lemma keeps_propagate [keeps_rules]: "keeps frame (propagate E r locals ms outs)"
  unfolding propagate_def Let_def by (intro keeps_rules)

lemma keeps_propagate_output [keeps_rules]: "keeps frame (propagate_output E r ms outs)"
  unfolding propagate_output_def by (intro keeps_rules)

lemma keeps_transitions [keeps_rules]:
  "keeps frame (handleDefaultElementTransition E r element tok)"
  "keeps frame (handleMultiInstanceElementTransition E r eik element tok)"
  unfolding handleDefaultElementTransition_def handleMultiInstanceElementTransition_def
    multi_instance_collection_def
  by (intro keeps_rules)+

lemma keeps_handleElementTransition [keeps_rules]: "keeps frame (handleElementTransition E r element tok)"
  unfolding handleElementTransition_def by (intro keeps_rules)

lemma keeps_gateways [keeps_rules]:
  "keeps frame (handleExclusiveGateway E r g tok)"
  "keeps frame (handleInclusiveGateway E r g tok)"
  "keeps frame (handleParallelGateway E r n tok)"
  unfolding handleExclusiveGateway_def handleInclusiveGateway_def handleParallelGateway_def Let_def
  by (intro keeps_rules)+

lemma keeps_message_catch [keeps_rules]: "keeps frame (createMessageCatchEvent E r mr e tok)"
  unfolding createMessageCatchEvent_def createMessageSubscription_def by (intro keeps_rules)

lemma keeps_timer_catch [keeps_rules]: "keeps frame (createTimerCatchEvent E r ds e tok)"
  unfolding createTimerCatchEvent_def createTimer_def Let_def by (intro keeps_rules)

lemma keeps_catch [keeps_rules]: "keeps frame (createIntermediateCatchEvent E r ice tok)"
  unfolding createIntermediateCatchEvent_def by (intro keeps_rules)

lemma keeps_event_gateway [keeps_rules]:
  "keeps frame (handleEventBasedGateway E r n tok)"
  "keeps frame (createBoundaryEventSubscriptions E r element tok)"
  unfolding handleEventBasedGateway_def createBoundaryEventSubscriptions_def by (intro keeps_rules)+

lemma keeps_link [keeps_rules]: "keeps frame (handleIntermediateThrowLinkEvent E r ite name tok)"
  unfolding handleIntermediateThrowLinkEvent_def by (intro keeps_rules)

lemma keeps_plain_end [keeps_rules]: "keeps frame (handlePlainEndEvent r b)"
  unfolding handlePlainEndEvent_def by (intro keeps_rules)

section \<open>Evaluation of the token primitives\<close>

definition has_targets :: "estate \<Rightarrow> nat \<Rightarrow> TSequenceFlow list \<Rightarrow> bool" where
  "has_targets s r flows \<longleftrightarrow>
     r < length (objs s) \<and> (\<forall>f \<in> set flows. GetTargetRef (instance_definitions (objs s ! r)) f \<noteq> None)"

definition flow_target :: "estate \<Rightarrow> nat \<Rightarrow> TSequenceFlow \<Rightarrow> string" where
  "flow_target s r f = GetId (the (GetTargetRef (instance_definitions (objs s ! r)) f))"

lemma target_id_eval:
  "has_targets s r (f # fs) \<Longrightarrow> target_id r f s = (Ok (flow_target s r f), s)"
  by (auto simp: target_id_def has_targets_def flow_target_def bind_def deref_def eng_simps)

definition flow_row :: "env \<Rightarrow> nat \<Rightarrow> estate \<Rightarrow> int \<Rightarrow> string \<Rightarrow> int \<Rightarrow> FlowElementInstance" where
  "flow_row E r s k e tk =
     \<lparr>fe_Key = k, fe_ProcessInstanceKey = pi_Key (objs s ! r), fe_ElementId = e,
      fe_CreatedAt = clock E (tickc s), fe_ExecutionTokenKey = tk, fe_InputVariables = Map.empty,
      fe_OutputVariables = Map.empty\<rparr>"

lemma fork_token_eval:
  assumes "has_targets s r (f # fs)"
  shows "fork_token E r f s =
     (Ok \<lparr>tok_Key = gen E (keyc s), tok_ElementInstanceKey = gen E (keyc s + 1),
          tok_ElementId = flow_target s r f, tok_ProcessInstanceKey = pi_Key (objs s ! r),
          tok_State = TokenStateRunning, tok_CreatedAt = 0\<rparr>,
      s\<lparr>keyc := keyc s + 3, tickc := tickc s + 1,
        batch := (batch s)\<lparr>b_stmts := b_stmts (batch s) @
          [StFlowElementInstance (flow_row E r s (gen E (keyc s + 2)) (sf_Id f) (gen E (keyc s)))]\<rparr>\<rparr>)"
proof -
  from assms have r: "r < length (objs s)" by (simp add: has_targets_def)
  with target_id_eval [OF assms] show ?thesis
    by (simp add: fork_token_def new_token_def save_flow_history_def save_history_def bind_def
        generateKey_def deref_def time_now_def add_stmt_def upd_batch_def eng_simps flow_row_def
        numeral_2_eq_2 numeral_3_eq_3)
qed

lemma has_targets_cong: "objs s' = objs s \<Longrightarrow> has_targets s' r fs = has_targets s r fs"
  by (simp add: has_targets_def)

lemma flow_target_cong: "objs s' = objs s \<Longrightarrow> flow_target s' r = flow_target s r"
  by (simp add: flow_target_def fun_eq_iff)

text \<open>One running token per flow, with fresh keys, at the target of the flow.\<close>

definition forked :: "env \<Rightarrow> nat \<Rightarrow> estate \<Rightarrow> TSequenceFlow list \<Rightarrow> nat \<Rightarrow> ExecutionToken list" where
  "forked E r s flows n =
     map (\<lambda>j. \<lparr>tok_Key = gen E (n + 3 * j), tok_ElementInstanceKey = gen E (n + 3 * j + 1),
               tok_ElementId = flow_target s r (flows ! j),
               tok_ProcessInstanceKey = pi_Key (objs s ! r), tok_State = TokenStateRunning,
               tok_CreatedAt = 0\<rparr>) [0..<length flows]"

lemma forked_Cons:
  "forked E r s (f # fs) n =
     \<lparr>tok_Key = gen E n, tok_ElementInstanceKey = gen E (n + 1),
      tok_ElementId = flow_target s r f, tok_ProcessInstanceKey = pi_Key (objs s ! r),
      tok_State = TokenStateRunning, tok_CreatedAt = 0\<rparr> # forked E r s fs (n + 3)"
proof -
  have "[0..<length (f # fs)] = 0 # map Suc [0..<length fs]"
    by (simp add: upt_conv_Cons map_Suc_upt del: upt_Suc)
  then show ?thesis unfolding forked_def by (simp only: list.map) (simp add: add.assoc)
qed

lemma forked_ids: "map tok_ElementId (forked E r s fs n) = map (flow_target s r) fs"
  by (rule nth_equalityI) (simp_all add: forked_def)

lemma forked_running: "t \<in> set (forked E r s fs n) \<Longrightarrow>
    tok_State t = TokenStateRunning \<and> tok_ProcessInstanceKey t = pi_Key (objs s ! r)"
  by (auto simp: forked_def)

lemma forked_distinct: "inj (gen E) \<Longrightarrow> distinct (map tok_Key (forked E r s fs n))"
proof -
  assume i: "inj (gen E)"
  have "map tok_Key (forked E r s fs n) = map (gen E) (map (\<lambda>j. n + 3 * j) [0..<length fs])"
    by (simp add: forked_def)
  moreover have "distinct (map (\<lambda>j. n + 3 * j) [0..<length fs])"
    by (simp add: distinct_map inj_on_def)
  ultimately show ?thesis using i by (metis distinct_map inj_on_subset subset_UNIV)
qed

lemma map_each_fork:
  "has_targets s r fs \<Longrightarrow>
     \<exists>s'. map_each fs (fork_token E r) s = (Ok (forked E r s fs (keyc s)), s') \<and> objs s' = objs s"
proof (induction fs arbitrary: s)
  case Nil
  then show ?case by (simp add: forked_def ret_def)
next
  case (Cons f fs)
  let ?s = "snd (fork_token E r f s)"
  note ft = fork_token_eval [OF Cons.prems, of E]
  have o: "objs ?s = objs s" and k: "keyc ?s = keyc s + 3" by (simp_all add: ft)
  have "has_targets ?s r fs" using Cons.prems o by (simp add: has_targets_def)
  from Cons.IH [OF this] obtain s' where m:
    "map_each fs (fork_token E r) ?s = (Ok (forked E r ?s fs (keyc s + 3)), s')" "objs s' = objs s"
    by (auto simp: o k)
  moreover have "forked E r ?s fs (keyc s + 3) = forked E r s fs (keyc s + 3)"
    by (simp add: forked_def flow_target_def o)
  ultimately show ?case using ft by (simp add: bind_def forked_Cons ret_def)
qed

lemma first_transition_eval:
  assumes "has_targets s r (f # fs)"
  shows "\<exists>s'. first_transition E r f tok s =
     (Ok (tok\<lparr>tok_ElementId := flow_target s r f, tok_ElementInstanceKey := gen E (keyc s),
              tok_State := TokenStateRunning\<rparr>), s') \<and> objs s' = objs s \<and> keyc s' = keyc s + 2"
proof -
  from assms have r: "r < length (objs s)" by (simp add: has_targets_def)
  note target_id_eval [OF assms]
  with r show ?thesis
    by (simp add: first_transition_def save_flow_history_def save_history_def bind_def Let_def
        generateKey_def deref_def time_now_def add_stmt_def upd_batch_def eng_simps)
qed

section \<open>Which flows a gateway activates\<close>

text \<open>The reference: a flow is taken when its condition evaluates to true; an unconditional flow is
  taken when it is the only one; otherwise the default flow is taken.\<close>

definition cond_true :: "env \<Rightarrow> vars \<Rightarrow> TSequenceFlow \<Rightarrow> bool" where
  "cond_true E vs f \<longleftrightarrow> GetConditionExpression f \<noteq> [] \<and>
     evaluateExpression E (GetConditionExpression f) vs = Inr (VBool True)"

definition evaluable :: "env \<Rightarrow> vars \<Rightarrow> TSequenceFlow list \<Rightarrow> bool" where
  "evaluable E vs flows \<longleftrightarrow>
     (\<forall>f \<in> set flows. GetConditionExpression f \<noteq> [] \<longrightarrow>
        \<not> isl (evaluateExpression E (GetConditionExpression f) vs))"

definition only_flow :: "TSequenceFlow list \<Rightarrow> bool" where
  "only_flow flows \<longleftrightarrow> length flows = 1 \<and> GetConditionExpression (hd flows) = []"

lemma exclusive_loop_many:
  "evaluable E vs fs \<Longrightarrow>
     exclusive_loop E False vs fs = Inr (case List.find (cond_true E vs) fs of Some f \<Rightarrow> [f] | None \<Rightarrow> [])"
  by (induction fs) (auto simp: evaluable_def cond_true_def split: sum.splits)

lemma inclusive_loop_many:
  "evaluable E vs fs \<Longrightarrow> inclusive_loop E False vs fs = Inr (filter (cond_true E vs) fs)"
  by (induction fs) (auto simp: evaluable_def cond_true_def split: sum.splits)

lemma exclusive_loop_one:
  "evaluable E vs [f] \<Longrightarrow> exclusive_loop E True vs [f] =
     Inr (if cond_true E vs f \<or> GetConditionExpression f = [] then [f] else [])"
  by (auto simp: evaluable_def cond_true_def split: sum.splits)

lemma inclusive_loop_one:
  "evaluable E vs [f] \<Longrightarrow> inclusive_loop E True vs [f] =
     Inr (if cond_true E vs f \<or> GetConditionExpression f = [] then [f] else [])"
  by (auto simp: evaluable_def cond_true_def split: sum.splits)

lemma exclusive_scan:
  assumes "evaluable E vs flows"
  shows "exclusive_loop E (length flows = 1) vs flows =
    Inr (if only_flow flows then flows
         else case List.find (cond_true E vs) flows of Some f \<Rightarrow> [f] | None \<Rightarrow> [])"
proof (cases "length flows = 1")
  case True
  then obtain f where "flows = [f]" by (auto simp: length_Suc_conv)
  with assms exclusive_loop_one [of E vs f] show ?thesis
    by (auto simp: only_flow_def cond_true_def)
next
  case False
  with assms exclusive_loop_many show ?thesis by (simp add: only_flow_def)
qed

lemma inclusive_scan:
  assumes "evaluable E vs flows"
  shows "inclusive_loop E (length flows = 1) vs flows =
    Inr (if only_flow flows then flows else filter (cond_true E vs) flows)"
proof (cases "length flows = 1")
  case True
  then obtain f where "flows = [f]" by (auto simp: length_Suc_conv)
  with assms inclusive_loop_one [of E vs f] show ?thesis
    by (auto simp: only_flow_def cond_true_def)
next
  case False
  with assms inclusive_loop_many show ?thesis by (simp add: only_flow_def)
qed

text \<open>C15. An exclusive gateway whose conditions can be evaluated activates exactly one flow: its only
  flow if that is unconditional, else the first one whose condition is true, else the default flow; it
  reports an error when there is none.\<close>

theorem exclusive_gateway_takes_first_true_flow:
  assumes "evaluable E vs flows"
  shows "exclusivelyFilterByConditionExpression E flows defaultFlow vs =
    (if only_flow flows then Inr flows
     else case List.find (cond_true E vs) flows of
       Some f \<Rightarrow> Inr [f]
     | None \<Rightarrow> (case defaultFlow of
                  Some f \<Rightarrow> Inr [f]
                | None \<Rightarrow> Inl (ExpressionEvaluationError
                    ''No default flow, nor matching expressions found, for flow elements'' None)))"
  unfolding exclusivelyFilterByConditionExpression_def exclusive_scan [OF assms]
  by (auto simp: only_flow_def split: option.splits)

theorem exclusive_gateway_takes_first_true_flow_witness:
  "exclusivelyFilterByConditionExpression demo_env
     [mk_flow ''a'' ''g'' ''x'' ''=no'', mk_flow ''b'' ''g'' ''y'' ''=go'', mk_flow ''c'' ''g'' ''z'' ''=go'']
     None [''go'' \<mapsto> VBool True, ''no'' \<mapsto> VBool False] = Inr [mk_flow ''b'' ''g'' ''y'' ''=go'']"
  (is "exclusivelyFilterByConditionExpression _ ?fs _ ?vs = _")
proof -
  have ev: "evaluable demo_env ?vs ?fs" by code_simp
  have "List.find (cond_true demo_env ?vs) ?fs = Some (mk_flow ''b'' ''g'' ''y'' ''=go'')" by code_simp
  then show ?thesis
    using exclusive_gateway_takes_first_true_flow [OF ev, of None] by (simp add: only_flow_def)
qed

text \<open>An inclusive gateway whose conditions can be evaluated activates every flow whose condition
  is true, in order, or its only unconditional flow; the default flow alone if there is none; and an
  error without a default flow, provided its first flow names a source.\<close>

theorem inclusive_gateway_takes_all_true_flows:
  assumes "evaluable E vs flows" and "flows \<noteq> []" and "SourceRef (hd flows) \<noteq> None"
  shows "inclusivelyFilterByConditionExpression E flows defaultFlow vs =
    (if only_flow flows then Ok flows
     else if filter (cond_true E vs) flows \<noteq> [] then Ok (filter (cond_true E vs) flows)
     else case defaultFlow of
       Some f \<Rightarrow> Ok [f]
     | None \<Rightarrow> Err (ExpressionEvaluationError
                ''No default flow, nor matching expressions found for gateway'' None))"
  unfolding inclusivelyFilterByConditionExpression_def inclusive_scan [OF assms(1)]
  using assms(2,3) by (cases flows) (auto simp: only_flow_def split: option.splits)

theorem inclusive_gateway_takes_all_true_flows_witness:
  "inclusivelyFilterByConditionExpression demo_env
     [set_flow (mk_flow ''a'' ''g'' ''x'' ''=go''), mk_flow ''b'' ''g'' ''y'' ''=no'', mk_flow ''c'' ''g'' ''z'' ''=go'']
     None [''go'' \<mapsto> VBool True, ''no'' \<mapsto> VBool False] =
   Ok [set_flow (mk_flow ''a'' ''g'' ''x'' ''=go''), mk_flow ''c'' ''g'' ''z'' ''=go'']"
  (is "inclusivelyFilterByConditionExpression _ ?fs _ ?vs = _")
proof -
  have ev: "evaluable demo_env ?vs ?fs" by code_simp
  have src: "?fs \<noteq> []" "SourceRef (hd ?fs) \<noteq> None" by (simp_all add: set_flow_def mk_flow_def ref_id_def)
  have "filter (cond_true demo_env ?vs) ?fs =
      [set_flow (mk_flow ''a'' ''g'' ''x'' ''=go''), mk_flow ''c'' ''g'' ''z'' ''=go'']" by code_simp
  then show ?thesis
    using inclusive_gateway_takes_all_true_flows [OF ev src, of None] by (simp add: only_flow_def)
qed

section \<open>Which tokens the handlers produce\<close>

text \<open>C13. The transition over the outgoing flows of an element: the current token moves on to the
  target of the first flow, keeping its key, and one running token with fresh keys is created for each
  further flow, so that there is exactly one token per flow, at its target; nothing is stored yet.\<close>

theorem transition_moves_token_and_forks:
  assumes "has_targets s r (GetOutgoingAssociation element)"
    and "GetOutgoingAssociation element = flow # flows"
  shows "\<exists>toks s'. handleDefaultElementTransition E r element tok s = (Ok (toks), s') \<and>
    map tok_ElementId toks = map (flow_target s r) (flow # flows) \<and>
    tok_Key (hd toks) = tok_Key tok \<and>
    tl toks = forked E r s flows (keyc s + 2) \<and>
    (\<forall>t \<in> set toks. tok_State t = TokenStateRunning) \<and> frame s' = frame s"
proof -
  from assms have t: "has_targets s r (flow # flows)" by simp
  from first_transition_eval [OF t, of E tok] obtain s1 where
    f: "first_transition E r flow tok s =
     (Ok (tok\<lparr>tok_ElementId := flow_target s r flow, tok_ElementInstanceKey := gen E (keyc s),
              tok_State := TokenStateRunning\<rparr>), s1)" and o: "objs s1 = objs s" and k: "keyc s1 = keyc s + 2"
    by blast
  have "has_targets s1 r flows" using t o by (simp add: has_targets_def)
  from map_each_fork [OF this, of E] obtain s2 where
    m: "map_each flows (fork_token E r) s1 = (Ok (forked E r s flows (keyc s + 2)), s2)"
    by (auto simp: k forked_def flow_target_cong [OF o] o)
  have res: "handleDefaultElementTransition E r element tok s =
      (Ok (tok\<lparr>tok_ElementId := flow_target s r flow, tok_ElementInstanceKey := gen E (keyc s),
              tok_State := TokenStateRunning\<rparr> # forked E r s flows (keyc s + 2)), s2)"
    by (simp add: handleDefaultElementTransition_def assms(2) bind_def f m ret_def)
  moreover have "frame s2 = frame s" using keepsD [OF keeps_transitions(1) res] .
  ultimately show ?thesis using forked_ids [of E r s flows "keyc s + 2"] forked_running by fastforce
qed

theorem transition_moves_token_and_forks_witness:
  "\<exists>toks s'. handleDefaultElementTransition demo_env 0
       (the (GetFlowNodeById (instance_container (objs demo_engine ! 0)) ''start''))
       (demo_token ''start'' TokenStateRunning) demo_engine = (Ok toks, s') \<and>
     map tok_ElementId toks = [''gw'']"
proof -
  let ?n = "the (GetFlowNodeById (instance_container (objs demo_engine ! 0)) ''start'')"
  have h: "has_targets demo_engine 0 (GetOutgoingAssociation ?n)" by code_simp
  have g: "GetOutgoingAssociation ?n = set_flow (mk_flow ''f1'' ''start'' ''gw'' []) # []" by code_simp
  have "flow_target demo_engine 0 (set_flow (mk_flow ''f1'' ''start'' ''gw'' [])) = ''gw''" by code_simp
  then show ?thesis using transition_moves_token_and_forks [OF h g, of demo_env] by fastforce
qed

text \<open>The tokens of an instance that have arrived at a gateway: the completed ones the store holds there.\<close>

definition arrived :: "Storage \<Rightarrow> int \<Rightarrow> string \<Rightarrow> ExecutionToken list" where
  "arrived d k g =
     filter (\<lambda>t. tok_ElementId t = g \<and> tok_State t = TokenStateCompleted) (GetAllTokensForProcessInstance d k)"

lemma length_filter_tput:
  "(\<And>x. tget t k = Some x \<Longrightarrow> \<not> P x) \<Longrightarrow> P r \<Longrightarrow>
     length (filter P (trows (tput k r t))) = Suc (length (filter P (trows t)))"
proof (induction t)
  case Nil
  then show ?case by (simp add: trows_def)
next
  case (Cons p t)
  then show ?case by (cases p) (auto simp: trows_def tget_def split: if_splits)
qed

lemma arrived_save:
  assumes "store_wf d" and "\<forall>t \<in> set (arrived d k g). tok_Key t \<noteq> tok_Key tok"
    and "tok_ProcessInstanceKey tok = k" and "tok_ElementId tok = g" and "tok_State tok = TokenStateCompleted"
  shows "length (arrived (SaveToken tok d) k g) = Suc (length (arrived d k g))"
proof -
  let ?P = "\<lambda>t. (tok_ElementId t = g \<and> tok_State t = TokenStateCompleted) \<and> tok_ProcessInstanceKey t = k"
  have a: "arrived x k g = filter ?P (trows (ExecutionTokens x))" for x
    by (simp add: arrived_def GetAllTokensForProcessInstance_def conj_commute)
  have "\<not> ?P x" if x: "tget (ExecutionTokens d) (tok_Key tok) = Some x" for x
  proof
    assume "?P x"
    with tget_in_trows [OF x] have "x \<in> set (arrived d k g)" unfolding a by simp
    moreover have "tok_Key x = tok_Key tok" using assms(1) x by (auto simp: store_wf_def dest: keyed_tget)
    ultimately show False using assms(2) by blast
  qed
  moreover have "?P tok" using assms(3-5) by simp
  ultimately show ?thesis
    using length_filter_tput [of "ExecutionTokens d" "tok_Key tok" ?P tok] by (simp add: a SaveToken_def)
qed

lemma parallel_gateway_eval:
  assumes "has_targets s r (OutgoingAssociations element)"
  shows "\<exists>s'. handleParallelGateway E r element tok s =
      (Ok (tok\<lparr>tok_State := TokenStateCompleted\<rparr> #
         (if int (length (arrived (mem s) (pi_Key (objs s ! r)) (tok_ElementId tok))) =
             int (length (IncomingAssociations element)) - 1
          then forked E r s (OutgoingAssociations element) (keyc s) else [])), s') \<and>
    frame s' = frame s"
proof -
  from assms have r: "r < length (objs s)" by (simp add: has_targets_def)
  obtain s1 where m: "map_each (OutgoingAssociations element) (fork_token E r) s =
      (Ok (forked E r s (OutgoingAssociations element) (keyc s)), s1)"
    using map_each_fork [OF assms] by blast
  let ?res = "Ok (tok\<lparr>tok_State := TokenStateCompleted\<rparr> #
         (if int (length (arrived (mem s) (pi_Key (objs s ! r)) (tok_ElementId tok))) =
             int (length (IncomingAssociations element)) - 1
          then forked E r s (OutgoingAssociations element) (keyc s) else []))"
  have "\<exists>s'. handleParallelGateway E r element tok s = (?res, s')"
    using r m by (auto simp: handleParallelGateway_def bind_def deref_def db_def Let_def eng_simps arrived_def
        filter_filter conj_commute)
  then obtain s' where e: "handleParallelGateway E r element tok s = (?res, s')" by blast
  from keepsD [OF keeps_gateways(3) e] e show ?thesis by blast
qed



text \<open>What the code does at every later activation: the tokens of the first one stay in the store, so once as
  many tokens have arrived as there are incoming flows the gateway swallows every further token. A gateway in a
  loop fires once.\<close>

theorem parallel_gateway_fires_once:
  assumes "has_targets s r (OutgoingAssociations element)"
    and "length (IncomingAssociations element) \<le> length (arrived (mem s) (pi_Key (objs s ! r)) (tok_ElementId tok))"
  shows "\<exists>s'. handleParallelGateway E r element tok s = (Ok [tok\<lparr>tok_State := TokenStateCompleted\<rparr>], s') \<and>
    frame s' = frame s"
proof -
  from assms(2) have "int (length (arrived (mem s) (pi_Key (objs s ! r)) (tok_ElementId tok))) \<noteq>
      int (length (IncomingAssociations element)) - 1" by linarith
  with parallel_gateway_eval [OF assms(1), of E tok] show ?thesis by simp
qed

section \<open>End of an instance\<close>



text \<open>A link throw event looks for its target among all intermediate catch events of the process with
  an unchecked type assertion: if the first one is a message or timer event the engine panics, whatever
  link events follow.\<close>

theorem link_event_panics_on_other_catch_events:
  assumes "r < length (objs s)" and "ite_Output ite = []" and "TrimSpace name \<noteq> []"
    and "IntermediateCatchEvent (instance_container (objs s ! r)) = ice # ices"
    and "ice_EventDefinition ice = Some (TMessageEventDefinition m) \<or> ice_EventDefinition ice = Some (TTimerEventDefinition t u)"
  shows "\<exists>msg s'. handleIntermediateThrowLinkEvent E r ite name tok s = (Panic msg, s')"
proof -
  have "find_link (ice # ices) name = Panic ''interface conversion: EventDefinition is not TLinkEventDefinition''"
    using assms(5) by auto
  with assms(1-4) show ?thesis
    by (simp add: handleIntermediateThrowLinkEvent_def propagate_output_def propagate_def bind_def deref_def
        wrap_def PropagateOutputVariablesToParent_def set_variables_def update_instance_def lift_sum_def
        lift_res_def instance_container_def instance_definitions_def Let_def eng_simps)
qed

theorem link_event_panics_on_other_catch_events_witness:
  "\<exists>msg s'. handleIntermediateThrowLinkEvent demo_env 0
      (TFlowNode.extend (mk_node ''throw'' [] [])
        (TIntermediateThrowEvent.fields (Some (TLinkEventDefinition ''l'' ''next'')) zero_TaskDefinition [] []))
      ''next'' (demo_token ''throw'' TokenStateRunning)
      (demo_busy\<lparr>objs := [bare_instance\<lparr>pi_Definition := bare_pd\<lparr>pd_Definitions := \<lparr>def_Id = [],
         def_Process = \<lparr>proc_Id = [], proc_Name = [], proc_Container =
           FlowElements [] [] [] [] [] [] [] [] [] [] []
             [TFlowNode.extend (mk_node ''wait'' [] [])
                (TIntermediateCatchEvent.fields (Some (TTimerEventDefinition ''t'' ''PT1S'')) [])] [] [] [] [] []\<rparr>,
         def_Messages = []\<rparr>\<rparr>\<rparr>]\<rparr>) = (Panic msg, s')"
  by (rule link_event_panics_on_other_catch_events [where
        ice = "TFlowNode.extend (mk_node ''wait'' [] [])
          (TIntermediateCatchEvent.fields (Some (TTimerEventDefinition ''t'' ''PT1S'')) [])" and ices = "[]"])
    (simp_all add: TFlowNode.defs TIntermediateThrowEvent.defs TIntermediateCatchEvent.defs
      instance_container_def instance_definitions_def TrimSpace_def go_space_def mk_node_def)

end
