(* ===== verification/Engine_Cancel.thy ===== *)
theory Engine_Cancel
  imports Engine_Flow
begin

text \<open>
  Cancelling: boundary subscriptions of a token, the inner state of a process instance, sub-process
  instances, and the token surgery of \<^verbatim>\<open>ModifyInstance\<close> (\<^verbatim>\<open>engine.go\<close> 133-351, \<^verbatim>\<open>events.go\<close>, \<^verbatim>\<open>sub_process.go\<close>).

  The code recurses over the tree of called instances. Every level locks the instance it cancels, so
  the depth is bounded by the number of instances; the model bounds it by fuel, and
  \<open>cancelSubProcessInstance_fuel\<close> shows that fuel equal to the number of unlocked instances plus one
  is never exhausted.

  Two small calculi carry the proofs: \<open>emits P\<close> says that an operation only appends statements that
  satisfy \<open>P\<close> to the batch, \<open>no_err I\<close> that it returns no error in states that satisfy \<open>I\<close>.
\<close>

section \<open>Model\<close>

definition cancelBoundarySubscriptions :: "ExecutionToken \<Rightarrow> unit em" where
  "cancelBoundarySubscriptions token =
     bind (db (\<lambda>d. FindTokenMessageSubscriptions d (tok_Key token) ActivityStateActive)) (\<lambda>subscriptions.
     bind (for_each subscriptions (\<lambda>sub.
             add_stmt (StMessageSubscription (sub\<lparr>ms_State := ActivityStateTerminated\<rparr>)))) (\<lambda>_.
     bind (db (\<lambda>d. FindTokenActiveTimerSubscriptions d (tok_Key token))) (\<lambda>timers.
       for_each timers (\<lambda>timer. add_stmt (StTimer (timer\<lparr>tm_State := TimerStateCancelled\<rparr>))))))"

definition find_called :: "int \<Rightarrow> nat list em" where
  "find_called tokenKey =
     gets (\<lambda>s. FindProcessInstancesByParentExecutionTokenKey (objs s) (mem s) tokenKey)"

definition resolve_incident :: "env \<Rightarrow> Incident \<Rightarrow> unit em" where
  "resolve_incident E incident =
     bind (time_now E) (\<lambda>t. add_stmt (StIncident (incident\<lparr>inc_ResolvedAt := Some t\<rparr>)))"

text \<open>The loop over the active tokens; \<open>sub\<close> cancels a called instance.\<close>

fun cancel_tokens :: "(nat \<Rightarrow> unit em) \<Rightarrow> int list \<Rightarrow> ExecutionToken list \<Rightarrow> ExecutionToken list em" where
  "cancel_tokens sub omitTokenKeys [] = ret []"
| "cancel_tokens sub omitTokenKeys (token # tokens) =
     bind (find_called (tok_Key token)) (\<lambda>calledProcesses.
     bind (for_each calledProcesses (\<lambda>p.
             wrap (Wrapf ''failed to cancel called process for token'') (sub p))) (\<lambda>_.
       if tok_Key token \<in> set omitTokenKeys then cancel_tokens sub omitTokenKeys tokens
       else
         (let token' = token\<lparr>tok_State := TokenStateCanceled\<rparr> in
          bind (add_stmt (StToken token')) (\<lambda>_.
          bind (cancel_tokens sub omitTokenKeys tokens) (\<lambda>terminatedTokens.
            ret (token' # terminatedTokens))))))"

definition inner_cancel_with ::
  "(nat \<Rightarrow> unit em) \<Rightarrow> env \<Rightarrow> nat \<Rightarrow> int list \<Rightarrow> ExecutionToken list em" where
  "inner_cancel_with sub E r omitTokenKeys =
     bind (deref r) (\<lambda>i.
     bind (db (\<lambda>d. FindProcessInstanceMessageSubscriptions d (pi_Key i) ActivityStateActive)) (\<lambda>subscriptions.
     bind (for_each subscriptions (\<lambda>x.
             add_stmt (StMessageSubscription (x\<lparr>ms_State := ActivityStateTerminated\<rparr>)))) (\<lambda>_.
     bind (db (\<lambda>d. FindProcessInstanceTimers d (pi_Key i) TimerStateCreated)) (\<lambda>timers.
     bind (for_each timers (\<lambda>x. add_stmt (StTimer (x\<lparr>tm_State := TimerStateCancelled\<rparr>)))) (\<lambda>_.
     bind (db (\<lambda>d. FindPendingProcessInstanceJobs d (pi_Key i))) (\<lambda>jobs.
     bind (for_each jobs (\<lambda>x. add_stmt (StJob (x\<lparr>job_State := ActivityStateTerminated\<rparr>)))) (\<lambda>_.
     bind (db (\<lambda>d. FindIncidentsByProcessInstanceKey d (pi_Key i))) (\<lambda>incidents.
     bind (for_each incidents (resolve_incident E)) (\<lambda>_.
     bind (db (\<lambda>d. GetActiveTokensForProcessInstance d (pi_Key i))) (\<lambda>tokens.
       cancel_tokens sub omitTokenKeys tokens))))))))))"

text \<open>\<^verbatim>\<open>cancelInstance\<close> overwrites the error of the inner cancellation with the one of the save, which
  is nil: \<open>attempt\<close> and its result dropped.\<close>

definition cancel_instance_with :: "(nat \<Rightarrow> unit em) \<Rightarrow> env \<Rightarrow> nat \<Rightarrow> unit em" where
  "cancel_instance_with sub E r =
     bind (attempt (inner_cancel_with sub E r [])) (\<lambda>_.
     bind (set_state r ActivityStateTerminated) (\<lambda>_. add_stmt (StProcessInstance r)))"

primrec cancelSubProcessInstance :: "nat \<Rightarrow> env \<Rightarrow> nat \<Rightarrow> unit em" where
  "cancelSubProcessInstance 0 E r = no_fuel"
| "cancelSubProcessInstance (Suc n) E r =
     bind (AddLockedInstance r) (\<lambda>_.
     bind (deref r) (\<lambda>i.
       if is_final (pi_State i) then ret ()
       else cancel_instance_with (cancelSubProcessInstance n E) E r))"

definition cancelInstance :: "nat \<Rightarrow> env \<Rightarrow> nat \<Rightarrow> unit em" where
  "cancelInstance F E r = cancel_instance_with (cancelSubProcessInstance F E) E r"

definition handleProcessInstanceInnerCancel ::
  "nat \<Rightarrow> env \<Rightarrow> nat \<Rightarrow> int list \<Rightarrow> ExecutionToken list em" where
  "handleProcessInstanceInnerCancel F E r omitTokenKeys =
     inner_cancel_with (cancelSubProcessInstance F E) E r omitTokenKeys"

text \<open>The error of the inner cancellation is dropped here too (and with it the tokens).\<close>

definition handleTerminateEndEvent :: "nat \<Rightarrow> env \<Rightarrow> nat \<Rightarrow> ExecutionToken \<Rightarrow> ExecutionToken list em" where
  "handleTerminateEndEvent F E r currentToken =
     bind (attempt (handleProcessInstanceInnerCancel F E r [tok_Key currentToken])) (\<lambda>x.
     bind (set_state r ActivityStateCompleted) (\<lambda>_.
       ret ((case x of Inl _ \<Rightarrow> [] | Inr tokens \<Rightarrow> tokens) @ [currentToken])))"

subsection \<open>Modification of a running instance\<close>

definition terminate_token :: "nat \<Rightarrow> env \<Rightarrow> ExecutionToken \<Rightarrow> unit em" where
  "terminate_token F E activeToken =
     bind (cancelBoundarySubscriptions activeToken) (\<lambda>_.
     bind (db (\<lambda>d. GetJobsInStateByTokenKey d (tok_Key activeToken)
             [ActivityStateActive, ActivityStateCompleting, ActivityStateFailed])) (\<lambda>jobs.
     bind (for_each jobs (\<lambda>x. add_stmt (StJob (x\<lparr>job_State := ActivityStateTerminated\<rparr>)))) (\<lambda>_.
     bind (db (\<lambda>d. FindIncidentsByExecutionTokenKey d (tok_Key activeToken))) (\<lambda>incidents.
     bind (for_each incidents (resolve_incident E)) (\<lambda>_.
     bind (find_called (tok_Key activeToken)) (\<lambda>calledProcesses.
     bind (for_each calledProcesses (\<lambda>p.
             wrap (Wrapf ''failed to cancel called process for token'') (cancelInstance F E p))) (\<lambda>_.
       add_stmt (StToken (activeToken\<lparr>tok_State := TokenStateCanceled\<rparr>)))))))))"

text \<open>The inner loop runs over all element instance keys for one token: a token that does not match a
  key is appended once per such key, also when another key matched it before.\<close>

fun terminate_keys :: "nat \<Rightarrow> env \<Rightarrow> ExecutionToken \<Rightarrow> int list \<Rightarrow> ExecutionToken list em" where
  "terminate_keys F E token [] = ret []"
| "terminate_keys F E token (k # ks) =
     (if tok_ElementInstanceKey token = k
      then bind (terminate_token F E token) (\<lambda>_. terminate_keys F E (token\<lparr>tok_State := TokenStateCanceled\<rparr>) ks)
      else bind (terminate_keys F E token ks) (\<lambda>left. ret (token # left)))"

definition terminateExecutionTokens :: "nat \<Rightarrow> env \<Rightarrow> int list \<Rightarrow> int \<Rightarrow> ExecutionToken list em" where
  "terminateExecutionTokens F E elementInstanceKeys processInstanceKey =
     bind (db (\<lambda>d. GetActiveTokensForProcessInstance d processInstanceKey)) (\<lambda>activeTokens.
     bind (map_each activeTokens (\<lambda>t. terminate_keys F E t elementInstanceKeys)) (\<lambda>lefts.
       ret (concat lefts)))"

definition startExecutionTokens :: "env \<Rightarrow> nat \<Rightarrow> string list \<Rightarrow> ExecutionToken list em" where
  "startExecutionTokens E r startingElementIds =
     map_each startingElementIds (\<lambda>elementId.
       bind (deref r) (\<lambda>i.
         case GetFlowNodeById (instance_container i) elementId of
           None \<Rightarrow> panic ''invalid memory address or nil pointer dereference''
         | Some flowNode \<Rightarrow>
             bind (new_token E r (GetId flowNode) TokenStateRunning) (\<lambda>tok.
             bind (time_now E) (\<lambda>t.
               (let tok' = tok\<lparr>tok_CreatedAt := t\<rparr> in
                bind (add_stmt (StToken tok')) (\<lambda>_. ret tok'))))))"

section \<open>Operations that only append to the batch\<close>

named_theorems emits_rules \<open>operations that only append statements to the batch\<close>

definition emits :: "(stmt \<Rightarrow> bool) \<Rightarrow> 'a em \<Rightarrow> bool" where
  "emits P m \<longleftrightarrow>
     (\<forall>s. \<exists>sts. b_stmts (batch (snd (m s))) = b_stmts (batch s) @ sts \<and> list_all P sts)"

lemma emitsD:
  "emits P m \<Longrightarrow> m s = (x, s') \<Longrightarrow> \<exists>sts. b_stmts (batch s') = b_stmts (batch s) @ sts \<and> list_all P sts"
  by (metis emits_def snd_conv)

lemma emits_quiet: "(\<And>s. b_stmts (batch (snd (m s))) = b_stmts (batch s)) \<Longrightarrow> emits P m"
  by (simp add: emits_def)

lemma emits_basic [emits_rules]:
  "emits P (ret x)" "emits P (throw e)" "emits P (panic msg)" "emits P block" "emits P no_fuel"
  "emits P (gets g)" "emits P (db f)" "emits P (generateKey E)" "emits P (time_now E)"
  "emits P (deref r)" "emits P (update_instance r h)" "emits P (set_state r st)"
  "emits P (set_variables r vs)" "emits P (refresh r)" "emits P (lock k)" "emits P (unlock k)"
  "emits P (try_lock E k)" "emits P (touch k)" "emits P (find_called k)"
  by (rule emits_quiet; auto simp: em_defs eng_simps find_called_def
      split: sum.splits option.splits prod.splits bool.splits)+

lemma emits_add_stmt [emits_rules]: "P st \<Longrightarrow> emits P (add_stmt st)"
  by (simp add: emits_def add_stmt_def upd_batch_def eng_simps)

lemma emits_bind [emits_rules]:
  assumes "emits P m" and "\<And>x. emits P (f x)"
  shows "emits P (bind m f)"
  unfolding emits_def
proof
  fix s
  from assms(1) obtain sts where 1: "b_stmts (batch (snd (m s))) = b_stmts (batch s) @ sts" "list_all P sts"
    unfolding emits_def by blast
  show "\<exists>sts. b_stmts (batch (snd (bind m f s))) = b_stmts (batch s) @ sts \<and> list_all P sts"
  proof (cases "\<exists>x s'. m s = (Ok x, s')")
    case True
    then obtain x s' where m: "m s = (Ok x, s')" by blast
    from assms(2) obtain sts' where "b_stmts (batch (snd (f x s'))) = b_stmts (batch s') @ sts'" "list_all P sts'"
      unfolding emits_def by blast
    with 1 m show ?thesis by (simp add: bind_def)
  next
    case False
    with 1 show ?thesis by (auto simp: bind_def split: prod.splits res.splits)
  qed
qed

lemma snd_attempt: "snd (attempt m s) = snd (m s)"
  by (simp add: attempt_def split: prod.splits res.splits)

lemma snd_wrap: "snd (wrap f m s) = snd (m s)"
  by (simp add: wrap_def split: prod.splits res.splits)

lemma emits_attempt [emits_rules]: "emits P m \<Longrightarrow> emits P (attempt m)"
  by (simp add: emits_def snd_attempt)

lemma emits_wrap [emits_rules]: "emits P m \<Longrightarrow> emits P (wrap f m)"
  by (simp add: emits_def snd_wrap)

lemma emits_for_each [emits_rules]: "(\<And>x. emits P (f x)) \<Longrightarrow> emits P (for_each xs f)"
  by (induction xs) (auto intro: emits_rules)

lemma emits_if [emits_rules]:
  "(b \<Longrightarrow> emits P m) \<Longrightarrow> (\<not> b \<Longrightarrow> emits P n) \<Longrightarrow> emits P (if b then m else n)"
  by simp

lemma emits_case_sum [emits_rules]:
  "(\<And>e. emits P (g e)) \<Longrightarrow> (\<And>x. emits P (f x)) \<Longrightarrow> emits P (case y of Inl e \<Rightarrow> g e | Inr x \<Rightarrow> f x)"
  by (cases y) auto

text \<open>What cancelling writes: every row it saves is in a terminal state.\<close>

fun cancels :: "stmt \<Rightarrow> bool" where
  "cancels (StMessageSubscription m) = (ms_State m = ActivityStateTerminated)"
| "cancels (StTimer t) = (tm_State t = TimerStateCancelled)"
| "cancels (StJob j) = (job_State j = ActivityStateTerminated)"
| "cancels (StToken t) = (tok_State t = TokenStateCanceled)"
| "cancels (StIncident i) = (inc_ResolvedAt i \<noteq> None)"
| "cancels (StProcessInstance r) = True"
| "cancels _ = False"

lemma emits_cancel_tokens:
  assumes "\<And>p. emits cancels (sub p)"
  shows "emits cancels (cancel_tokens sub omits tokens)"
  by (induction tokens) (auto simp: Let_def intro!: emits_rules assms)

lemma emits_inner_cancel:
  assumes "\<And>p. emits cancels (sub p)"
  shows "emits cancels (inner_cancel_with sub E r omits)"
  unfolding inner_cancel_with_def resolve_incident_def
  by (intro emits_rules emits_cancel_tokens assms) auto

lemma emits_AddLockedInstance [emits_rules]: "emits P (AddLockedInstance r)"
  unfolding AddLockedInstance_def by (intro emits_rules)

lemma emits_cancel_instance:
  assumes "\<And>p. emits cancels (sub p)"
  shows "emits cancels (cancel_instance_with sub E r)"
  unfolding cancel_instance_with_def by (intro emits_rules emits_inner_cancel assms) simp

lemma emits_cancelSub: "emits cancels (cancelSubProcessInstance n E p)"
proof (induction n arbitrary: p)
  case 0
  then show ?case by (simp add: emits_basic)
next
  case (Suc n)
  then show ?case by (auto intro!: emits_rules emits_cancel_instance)
qed

lemma keeps_mem_of_frame [keeps_rules]:
  "keeps mem (deref r)" "keeps mem (add_stmt st)" "keeps mem (time_now E)" "keeps mem (set_state r x)"
  "keeps mem (refresh r)"
  by (intro keeps_of_frame(1) keeps_rules)+

lemma keeps_mem_AddLocked [keeps_rules]: "keeps mem (AddLockedInstance r)"
  unfolding AddLockedInstance_def by (intro keeps_rules)

lemma keeps_mem_cancel_tokens:
  "(\<And>p. keeps mem (sub p)) \<Longrightarrow> keeps mem (cancel_tokens sub omits tokens)"
  by (induction tokens) (auto simp: Let_def find_called_def intro!: keeps_rules)

lemma keeps_mem_inner:
  "(\<And>p. keeps mem (sub p)) \<Longrightarrow> keeps mem (inner_cancel_with sub E r omits)"
  unfolding inner_cancel_with_def resolve_incident_def
  by (intro keeps_rules keeps_mem_cancel_tokens)

lemma keeps_mem_cancel_instance:
  "(\<And>p. keeps mem (sub p)) \<Longrightarrow> keeps mem (cancel_instance_with sub E r)"
  unfolding cancel_instance_with_def by (intro keeps_rules keeps_mem_inner)

lemma keeps_mem_cancelSub [keeps_rules]: "keeps mem (cancelSubProcessInstance n E p)"
proof (induction n arbitrary: p)
  case (Suc n)
  then show ?case by (auto intro!: keeps_rules keeps_mem_cancel_instance)
qed (auto intro: keeps_rules)

section \<open>What the cancellation of an instance writes\<close>

lemma for_each_add_stmt:
  "for_each xs (\<lambda>x. add_stmt (f x)) s =
     (Ok (), s\<lparr>batch := (batch s)\<lparr>b_stmts := b_stmts (batch s) @ map f xs\<rparr>\<rparr>)"
proof (induction xs arbitrary: s)
  case Nil
  then show ?case by (simp add: ret_def)
next
  case (Cons x xs)
  have a: "add_stmt (f x) s = (Ok (), s\<lparr>batch := (batch s)\<lparr>b_stmts := b_stmts (batch s) @ [f x]\<rparr>\<rparr>)"
    by (simp add: add_stmt_def upd_batch_def eng_simps)
  show ?case using Cons.IH by (simp add: bind_def a)
qed

lemma cancel_tokens_writes:
  assumes "\<And>p. emits cancels (sub p)"
  shows "cancel_tokens sub omits tokens s = (Ok toks, s') \<Longrightarrow>
    toks = map (\<lambda>t. t\<lparr>tok_State := TokenStateCanceled\<rparr>) (filter (\<lambda>t. tok_Key t \<notin> set omits) tokens) \<and>
    StToken ` set toks \<subseteq> set (b_stmts (batch s'))"
proof (induction tokens arbitrary: s toks)
  case Nil
  then show ?case by (simp add: ret_def)
next
  case (Cons t ts)
  let ?t = "t\<lparr>tok_State := TokenStateCanceled\<rparr>"
  from Cons.prems obtain s1 where
    rest: "(if tok_Key t \<in> set omits then cancel_tokens sub omits ts
            else bind (add_stmt (StToken ?t)) (\<lambda>_. bind (cancel_tokens sub omits ts) (\<lambda>r. ret (?t # r)))) s1 =
      (Ok toks, s')"
    unfolding cancel_tokens.simps Let_def bind_Ok_iff by blast
  show ?case
  proof (cases "tok_Key t \<in> set omits")
    case True
    with rest Cons.IH show ?thesis by simp
  next
    case False
    with rest obtain s2 toks' where s2: "add_stmt (StToken ?t) s1 = (Ok (), s2)"
      and c: "cancel_tokens sub omits ts s2 = (Ok toks', s')" and toks: "toks = ?t # toks'"
      by (auto simp: bind_Ok_iff ret_def)
    have "StToken ?t \<in> set (b_stmts (batch s2))"
      using s2 by (auto simp: add_stmt_def upd_batch_def eng_simps)
    moreover obtain sts where "b_stmts (batch s') = b_stmts (batch s2) @ sts"
      using emitsD [OF emits_cancel_tokens [OF assms] c] by blast
    ultimately have t: "StToken ?t \<in> set (b_stmts (batch s'))" by simp
    from Cons.IH [OF c] have ih: "StToken ` set toks' \<subseteq> set (b_stmts (batch s'))"
      "toks' = map (\<lambda>t. t\<lparr>tok_State := TokenStateCanceled\<rparr>) (filter (\<lambda>t. tok_Key t \<notin> set omits) ts)"
      by blast+
    have "StToken ` set toks \<subseteq> set (b_stmts (batch s'))"
      unfolding toks list.set image_insert using t ih(1) by (rule insert_subsetI)
    moreover have "toks = map (\<lambda>t. t\<lparr>tok_State := TokenStateCanceled\<rparr>)
        (filter (\<lambda>t. tok_Key t \<notin> set omits) (t # ts))"
      using toks ih(2) False by simp
    ultimately show ?thesis by blast
  qed
qed

text \<open>The statements for the rows of the instance itself.\<close>

definition cancel_stmts :: "Storage \<Rightarrow> int \<Rightarrow> int list \<Rightarrow> stmt set" where
  "cancel_stmts d k omits =
     (\<lambda>m. StMessageSubscription (m\<lparr>ms_State := ActivityStateTerminated\<rparr>)) `
       set (FindProcessInstanceMessageSubscriptions d k ActivityStateActive) \<union>
     (\<lambda>t. StTimer (t\<lparr>tm_State := TimerStateCancelled\<rparr>)) `
       set (FindProcessInstanceTimers d k TimerStateCreated) \<union>
     (\<lambda>j. StJob (j\<lparr>job_State := ActivityStateTerminated\<rparr>)) ` set (FindPendingProcessInstanceJobs d k) \<union>
     (\<lambda>t. StToken (t\<lparr>tok_State := TokenStateCanceled\<rparr>)) `
       {t \<in> set (GetActiveTokensForProcessInstance d k). tok_Key t \<notin> set omits}"

lemma inner_cancel_writes:
  assumes sub: "\<And>p. emits cancels (sub p)"
    and m: "inner_cancel_with sub E r omits s = (Ok toks, s')"
  shows "cancel_stmts (mem s) (pi_Key (objs s ! r)) omits \<subseteq> set (b_stmts (batch s'))"
proof -
  let ?d = "mem s" and ?k = "pi_Key (objs s ! r)"
  let ?new = "map (\<lambda>x. StMessageSubscription (x\<lparr>ms_State := ActivityStateTerminated\<rparr>))
        (FindProcessInstanceMessageSubscriptions ?d ?k ActivityStateActive) @
      map (\<lambda>x. StTimer (x\<lparr>tm_State := TimerStateCancelled\<rparr>)) (FindProcessInstanceTimers ?d ?k TimerStateCreated) @
      map (\<lambda>x. StJob (x\<lparr>job_State := ActivityStateTerminated\<rparr>)) (FindPendingProcessInstanceJobs ?d ?k)"
  let ?s1 = "s\<lparr>batch := (batch s)\<lparr>b_stmts := b_stmts (batch s) @ ?new\<rparr>\<rparr>"
  have "r < length (objs s)"
    using m by (auto simp: inner_cancel_with_def bind_Ok_iff deref_def split: if_splits)
  with m obtain s2 where
    inc: "for_each (FindIncidentsByProcessInstanceKey ?d ?k) (resolve_incident E) ?s1 = (Ok (), s2)"
    and tk: "cancel_tokens sub omits (GetActiveTokensForProcessInstance (mem s2) ?k) s2 = (Ok toks, s')"
    by (auto simp: inner_cancel_with_def bind_Ok_iff deref_def db_def eng_simps for_each_add_stmt)
  have e: "emits cancels (for_each xs (resolve_incident E))" for xs
    unfolding resolve_incident_def by (intro emits_rules) simp
  obtain sts2 where 2: "b_stmts (batch s2) = b_stmts (batch ?s1) @ sts2"
    using emitsD [OF e inc] by blast
  obtain sts3 where 3: "b_stmts (batch s') = b_stmts (batch s2) @ sts3"
    using emitsD [OF emits_cancel_tokens [OF sub] tk] by blast
  have k: "keeps mem (for_each xs (resolve_incident E))" for xs
    unfolding resolve_incident_def by (intro keeps_rules)
  have "mem s2 = ?d" using keepsD [OF k inc] by simp
  with cancel_tokens_writes [OF sub tk] have
    "(\<lambda>t. StToken (t\<lparr>tok_State := TokenStateCanceled\<rparr>)) `
       {t \<in> set (GetActiveTokensForProcessInstance ?d ?k). tok_Key t \<notin> set omits} \<subseteq> set (b_stmts (batch s'))"
    by (elim conjE) (simp add: image_image)
  moreover have "set ?new \<subseteq> set (b_stmts (batch s'))" using 2 3 by auto
  ultimately show ?thesis by (simp add: cancel_stmts_def)
qed

section \<open>Locks\<close>

lemma pres_lk_find_called [pres_rules]: "pres (lk H) (find_called k)"
  by (simp add: pres_def find_called_def eng_simps)

lemma pres_lk_cancel_tokens:
  "(\<And>p. pres (lk H) (sub p)) \<Longrightarrow> pres (lk H) (cancel_tokens sub omits tokens)"
  by (induction tokens) (auto simp: Let_def intro!: pres_rules)

lemma pres_lk_inner:
  "(\<And>p. pres (lk H) (sub p)) \<Longrightarrow> pres (lk H) (inner_cancel_with sub E r omits)"
  unfolding inner_cancel_with_def resolve_incident_def
  by (intro pres_rules pres_lk_cancel_tokens)

lemma pres_lk_cancel_instance:
  "(\<And>p. pres (lk H) (sub p)) \<Longrightarrow> pres (lk H) (cancel_instance_with sub E r)"
  unfolding cancel_instance_with_def by (intro pres_rules pres_lk_inner)

lemma pres_lk_cancelSub [pres_rules]: "pres (lk H) (cancelSubProcessInstance n E p)"
proof (induction n arbitrary: p)
  case (Suc n)
  then show ?case by (auto intro!: pres_rules pres_lk_cancel_instance)
qed (auto intro: pres_rules)

lemma pres_lk_cancelInstance [pres_rules]: "pres (lk H) (cancelInstance n E p)"
  unfolding cancelInstance_def by (intro pres_lk_cancel_instance pres_lk_cancelSub)

lemma pres_lk_cancelBoundary [pres_rules]: "pres (lk H) (cancelBoundarySubscriptions tok)"
  unfolding cancelBoundarySubscriptions_def by (intro pres_rules)

section \<open>Cancelling returns no error and needs bounded fuel\<close>

named_theorems good_rules \<open>operations that return no error and do not run out of fuel\<close>

definition good :: "(estate \<Rightarrow> bool) \<Rightarrow> 'a em \<Rightarrow> bool" where
  "good I m \<longleftrightarrow>
     (\<forall>s. I s \<longrightarrow> (case m s of
        (Ok _, s') \<Rightarrow> I s' | (Err _, _) \<Rightarrow> False | (NoFuel, _) \<Rightarrow> False | _ \<Rightarrow> True))"

lemma good_basic [good_rules]:
  "good I (ret x)" "good I (gets g)" "good I (db f)" "good I (panic msg)" "good I (find_called k)"
  "good I (deref r)"
  by (simp_all add: good_def eng_simps db_def find_called_def deref_def)

lemma goodI:
  assumes "\<And>s x s'. I s \<Longrightarrow> m s = (x, s') \<Longrightarrow>
    (\<forall>e. x \<noteq> Err e) \<and> x \<noteq> NoFuel \<and> (\<forall>v. x = Ok v \<longrightarrow> I s')"
  shows "good I m"
  unfolding good_def
proof (intro allI impI)
  fix s assume "I s"
  obtain x s' where m: "m s = (x, s')" by (cases "m s")
  from assms [OF \<open>I s\<close> m] m
  show "case m s of (Ok _, s') \<Rightarrow> I s' | (Err _, _) \<Rightarrow> False | (NoFuel, _) \<Rightarrow> False | _ \<Rightarrow> True"
    by (cases x) auto
qed

lemma goodD:
  assumes "good I m" and "I s" and "m s = (x, s')"
  shows "x \<noteq> Err e" "x \<noteq> NoFuel" "x = Ok v \<Longrightarrow> I s'"
  using assms unfolding good_def by (auto dest!: spec [of _ s])

lemma good_bind [good_rules]:
  assumes "good I m" and "\<And>x. good I (f x)"
  shows "good I (bind m f)"
proof (rule goodI)
  fix s x s' assume I: "I s" and b: "bind m f s = (x, s')"
  obtain y s1 where m: "m s = (y, s1)" by (cases "m s")
  show "(\<forall>e. x \<noteq> Err e) \<and> x \<noteq> NoFuel \<and> (\<forall>v. x = Ok v \<longrightarrow> I s')"
  proof (cases y)
    case (Ok v)
    with b m have f: "f v s1 = (x, s')" by (simp add: bind_def)
    have "I s1" using goodD(3) [OF assms(1) I m Ok] .
    from goodD [OF assms(2) this f] show ?thesis by blast
  qed (use b m goodD [OF assms(1) I m] in \<open>auto simp: bind_def\<close>)
qed

text \<open>The value read by a getter may be used.\<close>

lemma good_bind_called:
  "(\<And>s. I s \<Longrightarrow> good I (f (FindProcessInstancesByParentExecutionTokenKey (objs s) (mem s) k))) \<Longrightarrow>
     good I (bind (find_called k) f)"
  unfolding good_def find_called_def by (simp add: bind_def eng_simps)

lemma good_for_each [good_rules]: "(\<And>x. x \<in> set xs \<Longrightarrow> good I (f x)) \<Longrightarrow> good I (for_each xs f)"
  by (induction xs) (auto intro: good_rules)

lemma good_attempt [good_rules]: "good I m \<Longrightarrow> good I (attempt m)"
  by (rule goodI) (auto simp: attempt_def split: prod.splits res.splits dest: goodD)

lemma good_wrap [good_rules]: "good I m \<Longrightarrow> good I (wrap g m)"
  by (rule goodI) (auto simp: wrap_def split: prod.splits res.splits dest: goodD)

text \<open>
  The shape of the heap and the table of instances that every store built by the engine has: a stored
  reference points to an instance with the key it is stored under.
\<close>

definition inst_wf :: "heap \<Rightarrow> Storage \<Rightarrow> bool" where
  "inst_wf h d \<longleftrightarrow> twf (ProcessInstances d) \<and>
     (\<forall>k r. tget (ProcessInstances d) k = Some r \<longrightarrow> r < length h \<and> pi_Key (h ! r) = k)"

definition stored :: "Storage \<Rightarrow> nat \<Rightarrow> bool" where
  "stored d r \<longleftrightarrow> (\<exists>k. tget (ProcessInstances d) k = Some r)"

definition unlocked :: "Storage \<Rightarrow> estate \<Rightarrow> nat" where
  "unlocked d s = card {k. (\<exists>r. tget (ProcessInstances d) k = Some r) \<and> \<not> held (running s) k}"

definition cancel_inv :: "Storage \<Rightarrow> nat \<Rightarrow> estate \<Rightarrow> bool" where
  "cancel_inv d n s \<longleftrightarrow> mem s = d \<and> inst_wf (objs s) d \<and> unlocked d s < n"

lemma find_called_stored:
  "inst_wf h d \<Longrightarrow> p \<in> set (FindProcessInstancesByParentExecutionTokenKey h d k) \<Longrightarrow> stored d p"
  by (auto simp: FindProcessInstancesByParentExecutionTokenKey_def inst_wf_def set_trows stored_def)

lemma finite_keys: "finite {k. (\<exists>r. tget t k = Some r) \<and> P k}"
  by (rule finite_subset [of _ "fst ` set t"]) (auto simp: tget_def image_iff dest!: map_of_SomeD, force)

lemma inst_wf_update:
  "inst_wf h d \<Longrightarrow> pi_Key i = pi_Key (h ! r) \<Longrightarrow> inst_wf (h[r := i]) d"
  by (cases "r < length h") (auto simp: inst_wf_def nth_list_update list_update_beyond)

lemma refresh_stored:
  assumes "inst_wf h d" and "stored d p"
  obtains h' where "RefreshProcessInstance d p h = Inr h'" and "inst_wf h' d" and "length h' = length h"
    and "\<And>q. pi_Key (h' ! q) = pi_Key (h ! q)" and "\<And>q. pi_State (h' ! q) = pi_State (h ! q)"
proof -
  from assms have p: "p < length h" "tget (ProcessInstances d) (pi_Key (h ! p)) = Some p"
    by (auto simp: stored_def inst_wf_def)
  let ?i = "h ! p"
  have same: "?i\<lparr>pi_State := pi_State ?i, pi_Variables := pi_Variables ?i\<rparr> = ?i" by simp
  obtain i' where r: "RefreshProcessInstance d p h = Inr (h[p := i'])"
    and k: "pi_Key i' = pi_Key ?i" "pi_State i' = pi_State ?i"
  proof (cases "kind_parent_token (pi_Kind ?i)")
    case None
    with p have "RefreshProcessInstance d p h = Inr (h[p := ?i])"
      by (simp add: RefreshProcessInstance_def)
    with that [of ?i] show ?thesis by simp
  next
    case (Some t)
    with p that show ?thesis by (auto simp: RefreshProcessInstance_def Let_def)
  qed
  show ?thesis
    by (rule that [OF r]) (use p k inst_wf_update [OF assms(1) k(1)] in \<open>auto simp: nth_list_update\<close>)
qed

lemma good_cancel_inv_prims [good_rules]:
  "good (cancel_inv d n) (add_stmt st)" "good (cancel_inv d n) (time_now E)"
  "good (cancel_inv d n) (set_state r x)"
  by (auto simp: good_def add_stmt_def upd_batch_def time_now_def set_state_def update_instance_def
      eng_simps cancel_inv_def unlocked_def intro: inst_wf_update)

lemma good_cancel_tokens:
  assumes "\<And>p. stored d p \<Longrightarrow> good (cancel_inv d n) (sub p)"
  shows "good (cancel_inv d n) (cancel_tokens sub omits tokens)"
proof (induction tokens)
  case (Cons t ts)
  have "good (cancel_inv d n) (sub p)"
    if "cancel_inv d n s" and "p \<in> set (FindProcessInstancesByParentExecutionTokenKey (objs s) (mem s) (tok_Key t))"
    for s p
    using that assms find_called_stored by (auto simp: cancel_inv_def)
  with Cons show ?case
    unfolding cancel_tokens.simps Let_def
    by (intro good_bind_called) (auto intro!: good_rules)
qed (auto intro: good_rules)

lemma good_inner:
  assumes "\<And>p. stored d p \<Longrightarrow> good (cancel_inv d n) (sub p)"
  shows "good (cancel_inv d n) (inner_cancel_with sub E r omits)"
  unfolding inner_cancel_with_def resolve_incident_def
  by (intro good_rules good_cancel_tokens assms)

lemma good_cancel_instance:
  assumes "\<And>p. stored d p \<Longrightarrow> good (cancel_inv d n) (sub p)"
  shows "good (cancel_inv d n) (cancel_instance_with sub E r)"
  unfolding cancel_instance_with_def by (intro good_rules good_inner assms)

lemma AddLockedInstance_eval:
  assumes "inst_wf (objs s) (mem s)" and "stored (mem s) p"
  shows "(\<exists>s'. AddLockedInstance p s = (Blocked, s')) \<or>
    (\<exists>s'. AddLockedInstance p s = (Ok (), s') \<and> \<not> held (running s) (pi_Key (objs s ! p)) \<and>
       mem s' = mem s \<and> inst_wf (objs s') (mem s) \<and>
       (\<forall>j. held (running s') j \<longleftrightarrow> j = pi_Key (objs s ! p) \<or> held (running s) j))"
proof -
  let ?k = "pi_Key (objs s ! p)"
  from assms have p: "p < length (objs s)" by (auto simp: stored_def inst_wf_def)
  obtain x s1 where l: "lock ?k s = (x, s1)" by (cases "lock ?k s")
  from l have x: "x = Blocked \<or> x = Ok ()" by (auto simp: lock_def split: prod.splits bool.splits)
  show ?thesis
  proof (cases "x = Blocked")
    case True
    with l p show ?thesis by (simp add: AddLockedInstance_def bind_def deref_def)
  next
    case False
    with x have ok: "lock ?k s = (Ok (), s1)" using l by simp
    then have s1: "mem s1 = mem s" "objs s1 = objs s" "\<not> held (running s) ?k" by (auto simp: lock_Ok)
    from refresh_stored [OF assms] obtain h' where
      h': "RefreshProcessInstance (mem s) p (objs s) = Inr h'" "inst_wf h' (mem s)" by metis
    have "AddLockedInstance p s = touch ?k (s1\<lparr>objs := h'\<rparr>)"
      using p ok s1 h' by (simp add: AddLockedInstance_def bind_def deref_def attempt_def refresh_def)
    with s1 h'(2) held_after_lock [OF ok] show ?thesis
      by (simp add: touch_def upd_batch_def eng_simps)
  qed
qed

lemma unlocked_less:
  assumes "tget (ProcessInstances d) k = Some r" and "\<not> held (running s) k"
    and "\<And>j. held (running s') j \<longleftrightarrow> j = k \<or> held (running s) j"
  shows "unlocked d s' < unlocked d s"
  unfolding unlocked_def by (rule psubset_card_mono) (use assms finite_keys in auto)

text \<open>Fuel above the number of instances that are not locked is never exhausted.\<close>

lemma cancelSubProcessInstance_fuel:
  "stored d p \<Longrightarrow> good (cancel_inv d n) (cancelSubProcessInstance n E p)"
proof (induction n arbitrary: p)
  case 0
  then show ?case by (simp add: good_def cancel_inv_def)
next
  case (Suc n)
  have body: "good (cancel_inv d n) (bind (deref p) (\<lambda>i.
       if is_final (pi_State i) then ret ()
       else cancel_instance_with (cancelSubProcessInstance n E) E p))"
    by (intro good_bind) (auto intro: good_rules good_cancel_instance Suc.IH)
  show ?case
    unfolding good_def
  proof (intro allI impI)
    fix s assume inv: "cancel_inv d (Suc n) s"
    then have w: "inst_wf (objs s) (mem s)" and st: "stored (mem s) p" and d: "mem s = d"
      using Suc.prems by (auto simp: cancel_inv_def)
    from st w have key: "tget (ProcessInstances d) (pi_Key (objs s ! p)) = Some p"
      by (auto simp: stored_def inst_wf_def d)
    show "case cancelSubProcessInstance (Suc n) E p s of
        (Ok _, s') \<Rightarrow> cancel_inv d (Suc n) s' | (Err _, _) \<Rightarrow> False | (NoFuel, _) \<Rightarrow> False | _ \<Rightarrow> True"
      using AddLockedInstance_eval [OF w st]
    proof (elim disjE exE conjE)
      fix s' assume "AddLockedInstance p s = (Blocked, s')"
      then show ?thesis by (simp add: bind_def)
    next
      fix s' assume a: "AddLockedInstance p s = (Ok (), s')" "\<not> held (running s) (pi_Key (objs s ! p))"
        "mem s' = mem s" "inst_wf (objs s') (mem s)"
        "\<forall>j. held (running s') j \<longleftrightarrow> j = pi_Key (objs s ! p) \<or> held (running s) j"
      have "unlocked d s' < unlocked d s" using unlocked_less [OF key a(2)] a(5) by blast
      with inv a d have "cancel_inv d n s'" by (simp add: cancel_inv_def)
      moreover obtain x s2 where b: "bind (deref p) (\<lambda>i. if is_final (pi_State i) then ret ()
          else cancel_instance_with (cancelSubProcessInstance n E) E p) s' = (x, s2)" by fastforce
      ultimately have g: "x \<noteq> Err e" "x \<noteq> NoFuel" "x = Ok v \<Longrightarrow> cancel_inv d n s2" for e v
        using goodD [OF body _ b] by blast+
      have "cancelSubProcessInstance (Suc n) E p s = (x, s2)" using a(1) b by (simp add: bind_def)
      then show ?thesis using g by (cases x) (auto simp: cancel_inv_def)
    qed
  qed
qed

section \<open>Cancelling a root instance\<close>

definition CancelInstanceByKey :: "nat \<Rightarrow> env \<Rightarrow> int \<Rightarrow> unit em" where
  "CancelInstanceByKey F E instanceKey =
     bind (wrap (Wrapf ''failed to find process instance'')
             (db_find (\<lambda>d. FindProcessInstanceByKey d instanceKey))) (\<lambda>r.
     bind (deref r) (\<lambda>i.
       if Type i \<noteq> ProcessTypeDefault
       then throw (Errorf ''cannot cancel process instance, it is not a root process'')
       else if pi_State i \<noteq> ActivityStateActive \<and> pi_State i \<noteq> ActivityStateFailed
       then throw (Wrapf ''cannot cancel process instance, it is not in correct state'' InvalidStateError)
       else
         bind (wrap (Wrapf ''failed to create engine batch'') (NewEngineBatch r)) (\<lambda>_.
           on_error Clear (bind (cancelInstance F E r) (\<lambda>_. Flush)))))"

text \<open>The rows of an instance that still wait for something.\<close>

definition nothing_pending :: "Storage \<Rightarrow> int \<Rightarrow> bool" where
  "nothing_pending d k \<longleftrightarrow>
     GetActiveTokensForProcessInstance d k = [] \<and> FindProcessInstanceTimers d k TimerStateCreated = [] \<and>
     FindPendingProcessInstanceJobs d k = [] \<and>
     FindProcessInstanceMessageSubscriptions d k ActivityStateActive = []"

lemma flush_clears_pending:
  assumes wf: "store_wf d" and sts: "list_all cancels sts" "cancel_stmts d k [] \<subseteq> set sts"
    and ok: "fst (run_stmts h sts None d) = None"
  shows "nothing_pending (snd (run_stmts h sts None d)) k"
proof -
  let ?d = "snd (run_stmts h sts None d)"
  have wf': "store_wf ?d" using wf by (rule store_wf_run_stmts)
  have c: "st \<in> set sts \<Longrightarrow> cancels st" for st using sts(1) by (simp add: list_all_iff)
  have tok: "\<not> (tok_ProcessInstanceKey t = k \<and> token_active (tok_State t))"
    if "tget (ExecutionTokens ?d) (tok_Key t) = Some t" for t
  proof (rule token_store.fold_save_clears [of "written stmt_tokens sts" _ d])
    show "\<forall>t \<in> set (written stmt_tokens sts). \<not> (tok_ProcessInstanceKey t = k \<and> token_active (tok_State t))"
      using c by (fastforce simp: in_written token_active_def)
    show "tget (ExecutionTokens (fold SaveToken (written stmt_tokens sts) d)) (tok_Key t) = Some t"
      using that by (simp add: run_stmts_tokens)
    fix r assume r: "tget (ExecutionTokens d) (tok_Key r) = Some r"
      "tok_ProcessInstanceKey r = k \<and> token_active (tok_State r)"
    then have "StToken (r\<lparr>tok_State := TokenStateCanceled\<rparr>) \<in> set sts"
      using sts(2) tget_in_trows [OF r(1)]
      by (auto simp: cancel_stmts_def GetActiveTokensForProcessInstance_def)
    then have "r\<lparr>tok_State := TokenStateCanceled\<rparr> \<in> set (written stmt_tokens sts)" by (simp add: in_written)
    then show "tok_Key r \<in> tok_Key ` set (written stmt_tokens sts)" by (rule rev_image_eqI) simp
  qed
  have tim: "\<not> (tm_ProcessInstanceKey t = k \<and> tm_State t = TimerStateCreated)"
    if "tget (Timers ?d) (tm_Key t) = Some t" for t
  proof (rule timer_store.fold_save_clears [of "written stmt_timers sts" _ d])
    show "\<forall>t \<in> set (written stmt_timers sts). \<not> (tm_ProcessInstanceKey t = k \<and> tm_State t = TimerStateCreated)"
      using c by (fastforce simp: in_written)
    show "tget (Timers (fold SaveTimer (written stmt_timers sts) d)) (tm_Key t) = Some t"
      using that by (simp add: run_stmts_timers)
    fix r assume r: "tget (Timers d) (tm_Key r) = Some r"
      "tm_ProcessInstanceKey r = k \<and> tm_State r = TimerStateCreated"
    then have "StTimer (r\<lparr>tm_State := TimerStateCancelled\<rparr>) \<in> set sts"
      using sts(2) tget_in_trows [OF r(1)] by (auto simp: cancel_stmts_def FindProcessInstanceTimers_def)
    then have "r\<lparr>tm_State := TimerStateCancelled\<rparr> \<in> set (written stmt_timers sts)" by (simp add: in_written)
    then show "tm_Key r \<in> tm_Key ` set (written stmt_timers sts)" by (rule rev_image_eqI) simp
  qed
  let ?pending = "\<lambda>j. job_ProcessInstanceKey j = k \<and> (job_State j = ActivityStateActive \<or>
    job_State j = ActivityStateCompleting \<or> job_State j = ActivityStateFailed)"
  have job: "\<not> ?pending j" if "tget (Jobs ?d) (job_Key j) = Some j" for j
  proof (rule job_store.fold_save_clears [of "written stmt_jobs sts" _ d])
    show "\<forall>j \<in> set (written stmt_jobs sts). \<not> ?pending j" using c by (fastforce simp: in_written)
    show "tget (Jobs (fold SaveJob (written stmt_jobs sts) d)) (job_Key j) = Some j"
      using that by (simp add: run_stmts_jobs)
    fix r assume r: "tget (Jobs d) (job_Key r) = Some r" "?pending r"
    then have "StJob (r\<lparr>job_State := ActivityStateTerminated\<rparr>) \<in> set sts"
      using sts(2) tget_in_trows [OF r(1)] by (auto simp: cancel_stmts_def FindPendingProcessInstanceJobs_def)
    then have "r\<lparr>job_State := ActivityStateTerminated\<rparr> \<in> set (written stmt_jobs sts)" by (simp add: in_written)
    then show "job_Key r \<in> job_Key ` set (written stmt_jobs sts)" by (rule rev_image_eqI) simp
  qed
  have sub: "\<not> (ms_ProcessInstanceKey m = k \<and> ms_State m = ActivityStateActive)"
    if "tget (MessageSubscriptions ?d) (ms_Key m) = Some m" for m
  proof (rule subscription_store.fold_save_clears [of "written stmt_subscriptions sts" _ d])
    show "\<forall>m \<in> set (written stmt_subscriptions sts).
        \<not> (ms_ProcessInstanceKey m = k \<and> ms_State m = ActivityStateActive)"
      using c by (fastforce simp: in_written)
    show "tget (MessageSubscriptions (fold put_subscription (written stmt_subscriptions sts) d)) (ms_Key m) = Some m"
      using that by (simp add: run_stmts_subscriptions [OF ok])
    fix r assume r: "tget (MessageSubscriptions d) (ms_Key r) = Some r"
      "ms_ProcessInstanceKey r = k \<and> ms_State r = ActivityStateActive"
    then have "StMessageSubscription (r\<lparr>ms_State := ActivityStateTerminated\<rparr>) \<in> set sts"
      using sts(2) tget_in_trows [OF r(1)]
      by (auto simp: cancel_stmts_def FindProcessInstanceMessageSubscriptions_def)
    then have "r\<lparr>ms_State := ActivityStateTerminated\<rparr> \<in> set (written stmt_subscriptions sts)"
      by (simp add: in_written)
    then show "ms_Key r \<in> ms_Key ` set (written stmt_subscriptions sts)" by (rule rev_image_eqI) simp
  qed
  from wf' tok tim job sub show ?thesis
    by (auto simp: nothing_pending_def store_wf_def GetActiveTokensForProcessInstance_def
        FindProcessInstanceTimers_def FindPendingProcessInstanceJobs_def
        FindProcessInstanceMessageSubscriptions_def filter_empty_conv keyed_rows)
qed

subsection \<open>The public operation\<close>

lemma NewEngineBatch_OkD:
  assumes "NewEngineBatch r s = (Ok u, s')" and "inst_wf (objs s) (mem s)" and "stored (mem s) r"
  shows "mem s' = mem s" and "inst_wf (objs s') (mem s)" and "pi_Key (objs s' ! r) = pi_Key (objs s ! r)"
    and "b_stmts (batch s') = []" and "length (objs s') = length (objs s)"
    and "batch_touched s' = [pi_Key (objs s ! r)]" and "\<not> is_final (pi_State (objs s' ! r))"
proof -
  obtain h where h: "RefreshProcessInstance (mem s) r (objs s) = Inr h" "inst_wf h (mem s)"
    "length h = length (objs s)" "\<And>q. pi_Key (h ! q) = pi_Key (objs s ! q)"
    using refresh_stored [OF assms(2,3)] by metis
  from assms(1) obtain s1 where l: "lock (pi_Key (objs s ! r)) s = (Ok (), s1)"
    and r: "r < length (objs s)"
    by (auto simp: NewEngineBatch_def bind_Ok_iff deref_def split: if_splits)
  from l have s1: "mem s1 = mem s" "objs s1 = objs s" by (auto simp: lock_Ok)
  have "s' = s1\<lparr>objs := h, batch := clean_batch\<lparr>touchedInstances := [pi_Key (objs s ! r)]\<rparr>\<rparr> \<and>
      \<not> is_final (pi_State (h ! r))"
    using assms(1) l r s1 h
    by (auto simp: NewEngineBatch_def bind_Ok_iff deref_def attempt_def refresh_def throw_def
        upd_batch_def modify_def split: if_splits)
  with s1 h show "mem s' = mem s" "inst_wf (objs s') (mem s)" "pi_Key (objs s' ! r) = pi_Key (objs s ! r)"
    "b_stmts (batch s') = []" "length (objs s') = length (objs s)"
    "batch_touched s' = [pi_Key (objs s ! r)]" "\<not> is_final (pi_State (objs s' ! r))"
    by (simp_all add: clean_batch_def batch_touched_def)
qed

lemma unlocked_le: "unlocked d s \<le> length (ProcessInstances d)"
proof -
  have "{k. (\<exists>r. tget (ProcessInstances d) k = Some r) \<and> \<not> held (running s) k} \<subseteq> fst ` set (ProcessInstances d)"
    by (auto simp: tget_def image_iff dest!: map_of_SomeD) force
  from card_mono [OF _ this] have "unlocked d s \<le> card (fst ` set (ProcessInstances d))"
    by (simp add: unlocked_def)
  also have "\<dots> \<le> length (ProcessInstances d)" by (metis card_length length_map list.set_map)
  finally show ?thesis .
qed

lemma good_cancelInstance: "good (cancel_inv d n) (cancelInstance n E r)"
  unfolding cancelInstance_def by (intro good_cancel_instance cancelSubProcessInstance_fuel)

lemma keeps_mem_cancelInstance [keeps_rules]: "keeps mem (cancelInstance n E r)"
  unfolding cancelInstance_def by (intro keeps_mem_cancel_instance keeps_mem_cancelSub)

lemma cancelInstance_writes:
  assumes inv: "cancel_inv d n s" and c: "cancelInstance n E r s = (Ok u, s')" and r: "r < length (objs s)"
  shows "\<exists>sts. b_stmts (batch s') = b_stmts (batch s) @ sts @ [StProcessInstance r] \<and> list_all cancels sts \<and>
      cancel_stmts d (pi_Key (objs s ! r)) [] \<subseteq> set (b_stmts (batch s'))"
    and "pi_State (objs s' ! r) = ActivityStateTerminated \<or> length (objs s') \<le> r"
proof -
  let ?m = "inner_cancel_with (cancelSubProcessInstance n E) E r []"
  obtain y s1 where m: "?m s = (y, s1)" by (cases "?m s")
  have "good (cancel_inv d n) ?m" by (intro good_inner cancelSubProcessInstance_fuel)
  from goodD [OF this inv m] have "\<nexists>e. y = Err e" by blast
  with c m obtain toks where y: "y = Ok toks"
    by (cases y) (auto simp: cancelInstance_def cancel_instance_with_def bind_def attempt_def)
  with c m have s': "s' = s1\<lparr>objs := (objs s1)[r := (objs s1 ! r)\<lparr>pi_State := ActivityStateTerminated\<rparr>],
      batch := (batch s1)\<lparr>b_stmts := b_stmts (batch s1) @ [StProcessInstance r]\<rparr>\<rparr>"
    by (simp add: cancelInstance_def cancel_instance_with_def bind_def attempt_def set_state_def
        update_instance_def add_stmt_def upd_batch_def eng_simps)
  obtain sts where 1: "b_stmts (batch s1) = b_stmts (batch s) @ sts" "list_all cancels sts"
    using emitsD [OF emits_inner_cancel [OF emits_cancelSub] m] by blast
  have "mem s = d" using inv by (simp add: cancel_inv_def)
  with inner_cancel_writes [OF emits_cancelSub m [unfolded y]] s'
  have "cancel_stmts d (pi_Key (objs s ! r)) [] \<subseteq> set (b_stmts (batch s'))" by auto
  with 1 s' show "\<exists>sts. b_stmts (batch s') = b_stmts (batch s) @ sts @ [StProcessInstance r] \<and>
      list_all cancels sts \<and> cancel_stmts d (pi_Key (objs s ! r)) [] \<subseteq> set (b_stmts (batch s'))"
    by simp
  show "pi_State (objs s' ! r) = ActivityStateTerminated \<or> length (objs s') \<le> r"
    using s' by (cases "r < length (objs s1)") simp_all
qed

lemma run_stmts_append:
  "run_stmts h (xs @ ys) e d = (case run_stmts h xs e d of (e', d') \<Rightarrow> run_stmts h ys e' d')"
  by (induction xs arbitrary: e d) (auto split: prod.splits)

lemma flushes_cancel: "flushes (bind (cancelInstance F E r) (\<lambda>_. Flush))"
  by (intro flushes_bind flushes_Flush pres_lk_cancelInstance)

lemma balanced_CancelInstanceByKey [balanced_rules]: "balanced (CancelInstanceByKey F E k)"
  unfolding CancelInstanceByKey_def
  by (intro balanced_rules balanced_api flushes_cancel)

lemma cancel_batch:
  assumes wf: "store_wf (mem s)" and w: "inst_wf (objs s) (mem s)" and st: "tget (ProcessInstances (mem s)) k = Some r"
    and F: "length (ProcessInstances (mem s)) < F"
    and n: "NewEngineBatch r s = (Ok u, s1)" and c: "cancelInstance F E r s1 = (Ok u', s2)"
    and f: "Flush s2 = (Ok u'', s3)" and lk: "lk H s2"
  shows "nothing_pending (mem s3) k" and "tget (ProcessInstances (mem s3)) k = Some r"
    and "pi_State (objs s3 ! r) = ActivityStateTerminated"
proof -
  from st w have sr: "stored (mem s) r" and r: "r < length (objs s)" and k: "pi_Key (objs s ! r) = k"
    by (auto simp: stored_def inst_wf_def)
  note N = NewEngineBatch_OkD [OF n w sr]
  have inv: "cancel_inv (mem s) F s1"
    using N F unlocked_le [of "mem s" s1] by (simp add: cancel_inv_def)
  have inv2: "cancel_inv (mem s) F s2" using goodD(3) [OF good_cancelInstance inv c refl] .
  then have m2: "mem s2 = mem s" and w2: "inst_wf (objs s2) (mem s)" by (simp_all add: cancel_inv_def)
  with st have r2: "r < length (objs s2)" and k2: "pi_Key (objs s2 ! r) = k" by (auto simp: inst_wf_def)
  note W = cancelInstance_writes [OF inv c]
  from lk_Flush [OF lk f] have fl: "flush_error s2 = None" "mem s3 = flush_mem s2" "objs s3 = objs s2"
    by (auto split: option.splits)
  then have run: "fst (run_stmts (objs s2) (b_stmts (batch s2)) None (mem s)) = None"
    "mem s3 = snd (run_stmts (objs s2) (b_stmts (batch s2)) None (mem s))"
    using m2 by (auto simp: flush_error_def flush_mem_def StorageBatch_Flush_def split: option.splits)
  from W(1) N k r obtain sts where sts: "b_stmts (batch s2) = sts @ [StProcessInstance r]" "list_all cancels sts"
    "cancel_stmts (mem s) k [] \<subseteq> set (b_stmts (batch s2))" by auto
  show "nothing_pending (mem s3) k"
    unfolding run(2) by (rule flush_clears_pending [OF wf _ sts(3) run(1)]) (simp add: sts)
  show "tget (ProcessInstances (mem s3)) k = Some r"
    using run(2) sts(1) k2 by (simp add: run_stmts_append SaveProcessInstance_def split: prod.splits)
  show "pi_State (objs s3 ! r) = ActivityStateTerminated" using W(2) N r r2 fl(3) by simp
qed

lemma NewEngineBatch_fuel: "NewEngineBatch r s \<noteq> (NoFuel, s')"
  unfolding NewEngineBatch_def bind_def deref_def lock_def attempt_def refresh_def unlock_def
    throw_def upd_batch_def modify_def
  by (auto split: prod.splits res.splits sum.splits option.splits bool.splits if_splits)

lemma CancelInstanceByKey_cases:
  assumes "CancelInstanceByKey F E k s = (x, s')"
  obtains "\<not> is_Ok x" "x \<noteq> NoFuel"
  | r s1 where "tget (ProcessInstances (mem s)) k = Some r" "NewEngineBatch r s = (Ok (), s1)"
      "on_error Clear (bind (cancelInstance F E r) (\<lambda>_. Flush)) s1 = (x, s')"
proof (cases "tget (ProcessInstances (mem s)) k")
  case None
  with assms that(1) show ?thesis
    by (auto simp: CancelInstanceByKey_def FindProcessInstanceByKey_def db_find_def db_def lift_sum_def
        bind_def wrap_def eng_simps)
next
  case (Some r)
  obtain y s1 where n: "NewEngineBatch r s = (y, s1)" by (cases "NewEngineBatch r s")
  with NewEngineBatch_fuel have "y \<noteq> NoFuel" by blast
  with assms Some n that show ?thesis
    by (cases y) (auto simp: CancelInstanceByKey_def FindProcessInstanceByKey_def db_find_def db_def
        lift_sum_def deref_def bind_def wrap_def eng_simps split: if_splits)
qed

text \<open>C1. Cancelling a root instance with \<^verbatim>\<open>CancelInstanceByKey\<close> on a well-formed store, with more fuel
  than there are instances: the recursion over called instances ends (the fuel is not used up), and when
  the call succeeds no active token, running timer, pending job or active message subscription of the
  instance is left in the store, the stored instance is terminated, and every lock taken on the way,
  also on called instances, has been given back.\<close>

theorem cancelled_instance_has_nothing_pending:
  assumes "store_wf (mem s)" and "inst_wf (objs s) (mem s)" and "released H s"
    and "length (ProcessInstances (mem s)) < F"
    and "CancelInstanceByKey F E k s = (x, s')"
  shows "x \<noteq> NoFuel \<and> (x = Ok () \<longrightarrow> nothing_pending (mem s') k \<and>
      (\<exists>r. tget (ProcessInstances (mem s')) k = Some r \<and> pi_State (objs s' ! r) = ActivityStateTerminated) \<and>
      (\<forall>j. held (running s') j \<longleftrightarrow> H j))"
proof -
  have "x \<noteq> NoFuel \<and> (x = Ok () \<longrightarrow> nothing_pending (mem s') k \<and>
      (\<exists>r. tget (ProcessInstances (mem s')) k = Some r \<and> pi_State (objs s' ! r) = ActivityStateTerminated))"
  proof (rule CancelInstanceByKey_cases [OF assms(5)])
    fix r s1 assume r: "tget (ProcessInstances (mem s)) k = Some r" and n: "NewEngineBatch r s = (Ok (), s1)"
      and b: "on_error Clear (bind (cancelInstance F E r) (\<lambda>_. Flush)) s1 = (x, s')"
    from r have sr: "stored (mem s) r" by (auto simp: stored_def)
    note N = NewEngineBatch_OkD [OF n assms(2) sr]
    have inv: "cancel_inv (mem s) F s1"
      using N assms(4) unlocked_le [of "mem s" s1] by (simp add: cancel_inv_def)
    obtain y s2 where c: "cancelInstance F E r s1 = (y, s2)" by (cases "cancelInstance F E r s1")
    obtain z s3 where f: "Flush s2 = (z, s3)" by (cases "Flush s2")
    have lk: "lk H s2"
      using lk_NewEngineBatch(1) [OF assms(3) n] presD [OF pres_lk_cancelInstance c] by blast
    from lk_Flush [OF lk f] have z: "z = Ok () \<or> is_Err z" by (auto split: option.splits)
    obtain w s4 where cl: "Clear s3 = (w, s4)" by (cases "Clear s3")
    have "lk H s3" using lk_Flush [OF lk f] by blast
    with lk_Clear cl have w: "w = Ok ()" by blast
    note G = goodD [OF good_cancelInstance inv c]
    show ?thesis
    proof (cases "y = Ok () \<and> z = Ok ()")
      case True
      with cancel_batch [OF assms(1,2) r assms(4) n] c f lk
      have "nothing_pending (mem s3) k \<and> tget (ProcessInstances (mem s3)) k = Some r \<and>
        pi_State (objs s3 ! r) = ActivityStateTerminated" by blast
      moreover have "x = Ok () \<and> s' = s3"
        using True b c f by (simp add: on_error_def bind_def attempt_def eng_simps)
      ultimately show ?thesis by auto
    next
      case False
      with b c f cl w z G show ?thesis
        by (cases y; cases z) (auto simp: on_error_def bind_def attempt_def eng_simps)
    qed
  qed auto
  moreover have "\<forall>j. held (running s') j \<longleftrightarrow> H j" if "x = Ok ()"
    using balancedD [OF balanced_CancelInstanceByKey assms(3,5)] that by (auto simp: released_held)
  ultimately show ?thesis by blast
qed

lemma demo_busy_inst_wf: "inst_wf (objs demo_busy) (mem demo_busy)"
  by (auto simp: inst_wf_def demo_busy_def NewEngine_def demo_child_def bare_instance_def
      twf_def tget_def split: if_splits)

lemma demo_busy_released: "released (\<lambda>_. False) demo_busy"
  by (simp add: released_def lk_def demo_busy_def NewEngine_def batch_touched_def
      clean_batch_def held_def)

theorem cancelled_instance_has_nothing_pending_witness:
  "(case CancelInstanceByKey 3 demo_env 500 demo_busy of
      (x, s') \<Rightarrow> x = Ok () \<and> nothing_pending (mem s') 500 \<and> pi_State (objs s' ! 1) = ActivityStateTerminated) \<and>
   \<not> nothing_pending (mem demo_busy) 500"
proof -
  obtain x s' where c: "CancelInstanceByKey 3 demo_env 500 demo_busy = (x, s')"
    by (cases "CancelInstanceByKey 3 demo_env 500 demo_busy")
  have wf: "store_wf (mem demo_busy)" by code_simp
  have "length (ProcessInstances (mem demo_busy)) < 3" by code_simp
  from cancelled_instance_has_nothing_pending [OF wf demo_busy_inst_wf demo_busy_released this c]
  have "x = Ok () \<longrightarrow> nothing_pending (mem s') 500" by blast
  moreover have "is_Ok (fst (CancelInstanceByKey 3 demo_env 500 demo_busy)) \<and>
      pi_State (objs (snd (CancelInstanceByKey 3 demo_env 500 demo_busy)) ! 1) = ActivityStateTerminated"
    by code_simp
  moreover have "\<not> nothing_pending (mem demo_busy) 500" by code_simp
  ultimately show ?thesis using c by (cases x) auto
qed


section \<open>The tokens left by a modification\<close>

text \<open>\<^verbatim>\<open>terminateExecutionTokens\<close> returns an active token that is at none of the element instances to
  terminate once for \<^emph>\<open>each\<close> of them: with two or more keys the instance is run on with the same token
  several times.\<close>

theorem untouched_token_is_returned_once_per_key:
  assumes "tok_ElementInstanceKey t \<notin> set ks"
    and "GetActiveTokensForProcessInstance (mem s) k = [t]"
  shows "terminateExecutionTokens F E ks k s = (Ok (replicate (length ks) t), s)"
proof -
  have "terminate_keys F E t ks s = (Ok (replicate (length ks) t), s)"
    using assms(1) by (induction ks) (auto simp: bind_def ret_def)
  with assms(2) show ?thesis
    by (simp add: terminateExecutionTokens_def bind_def db_def ret_def eng_simps)
qed

theorem untouched_token_is_returned_once_per_key_witness:
  "fst (terminateExecutionTokens 1 demo_env [7, 8] 500 demo_busy) =
     Ok [demo_token ''task'' TokenStateWaiting, demo_token ''task'' TokenStateWaiting]"
proof -
  have "tok_ElementInstanceKey (demo_token ''task'' TokenStateWaiting) \<notin> set [7, 8]" by (simp add: demo_token_def)
  moreover have "GetActiveTokensForProcessInstance (mem demo_busy) 500 = [demo_token ''task'' TokenStateWaiting]"
    by (simp add: GetActiveTokensForProcessInstance_def demo_busy_def trows_def demo_token_def token_active_def)
  ultimately have "terminateExecutionTokens 1 demo_env [7, 8] 500 demo_busy =
      (Ok (replicate (length [7::int, 8]) (demo_token ''task'' TokenStateWaiting)), demo_busy)"
    by (rule untouched_token_is_returned_once_per_key)
  then show ?thesis by (simp add: numeral_2_eq_2)
qed

end
