(* ===== verification/Engine_Jobs.thy ===== *)
theory Engine_Jobs
  imports Engine_Cancel
begin

text \<open>
  Jobs: the creation of a job for a task and its execution by a registered handler (\<^verbatim>\<open>jobs.go\<close>,
  \<^verbatim>\<open>usertasks.go\<close>, \<^verbatim>\<open>jobs_activated.go\<close>), and the public operations on jobs of external workers that do
  not move tokens (\<^verbatim>\<open>jobs_api.go\<close>: assign, fail, activate). Completing a job runs the instance on and is
  modelled with the main loop.

  Go functions that return a state together with an error return a pair here: the caller looks at the
  state even when there is an error.
\<close>

section \<open>Creating a job\<close>

text \<open>The job while its handler runs: its state, the reason of the last \<^verbatim>\<open>Fail\<close> and the outputs set.\<close>

fun run_handler :: "handler_call list \<Rightarrow> ActivityState \<times> string \<times> vars \<Rightarrow> ActivityState \<times> string \<times> vars" where
  "run_handler [] x = x"
| "run_handler (SetOutputVariable k v # cs) (st, reason, outs) = run_handler cs (st, reason, outs(k \<mapsto> v))"
| "run_handler (CallFail msg # cs) (st, reason, outs) = run_handler cs (ActivityStateFailing, msg, outs)"
| "run_handler (CallComplete # cs) (st, reason, outs) = run_handler cs (ActivityStateCompleting, reason, outs)"

definition job_assignee :: "env \<Rightarrow> FlowNode \<Rightarrow> vars \<Rightarrow> error + string option" where
  "job_assignee E element locals =
     (case element of
        FUserTask u \<Rightarrow>
          (case evaluateExpression E (Assignee u) locals of
             Inl e \<Rightarrow> Inl (Wrapf ''failed to create job'' e)
           | Inr (VStr a) \<Rightarrow> Inr (Some a)
           | Inr v \<Rightarrow> Inr (Some (go_sprint v)))
      | _ \<Rightarrow> Inr None)"

definition activate_job :: "env \<Rightarrow> nat \<Rightarrow> Job \<Rightarrow> vars \<Rightarrow> activatedJob em" where
  "activate_job E r job locals =
     bind (generateKey E) (\<lambda>k.
     bind (deref r) (\<lambda>i.
       ret \<lparr>aj_key = k, aj_processInstanceKey = pi_Key i,
            aj_bpmnProcessId = pd_BpmnProcessId (pi_Definition i),
            aj_processDefinitionVersion = pd_Version (pi_Definition i),
            aj_processDefinitionKey = pd_Key (pi_Definition i),
            aj_elementId = job_ElementId job, aj_createdAt = job_CreatedAt job,
            aj_localVariables = locals\<rparr>))"

text \<open>The part with a handler: only a completed or failed mapping saves the job again.\<close>

definition handle_job :: "env \<Rightarrow> nat \<Rightarrow> FlowNode \<Rightarrow> Job \<Rightarrow> vars \<Rightarrow> taskHandler \<Rightarrow> (ActivityState \<times> error option) em" where
  "handle_job E r element job locals handler =
     bind (activate_job E r job locals) (\<lambda>aj.
       case run_handler (th_handler handler aj) (ActivityStateActive, [], Map.empty) of
         (st, failReason, outs) \<Rightarrow>
           if st = ActivityStateFailing
           then ret (ActivityStateFailed,
                     Some (EngineError (''failing internal job with message: '' @ failReason)))
           else if st = ActivityStateCompleting
           then
             bind (attempt (propagate E r locals (GetOutputMapping element) outs)) (\<lambda>x.
               case x of
                 Inl e \<Rightarrow>
                   bind (add_stmt (StJob (job\<lparr>job_State := ActivityStateFailed\<rparr>))) (\<lambda>_.
                     ret (ActivityStateFailed, Some (EngineError ''failing internal job with message'')))
               | Inr output \<Rightarrow>
                   bind (add_stmt (StUpdateOutput (tok_ElementInstanceKey (job_Token job)) output)) (\<lambda>_.
                   bind (add_stmt (StJob (job\<lparr>job_State := ActivityStateCompleted\<rparr>))) (\<lambda>_.
                     ret (ActivityStateCompleted, None))))
           else ret (st, None))"

definition createInternalTask ::
  "env \<Rightarrow> nat \<Rightarrow> FlowNode \<Rightarrow> ExecutionToken \<Rightarrow> (ActivityState \<times> error option) em" where
  "createInternalTask E r element currentToken =
     bind (deref r) (\<lambda>i.
       case EvaluateAndSetMappingsToLocalVariables (GetInputMapping element) (evaluateExpression E)
              (NewVariableHolder (Some (pi_Variables i)) None) of
         (_, Some e) \<Rightarrow> ret (ActivityStateFailed, Some (Wrapf ''failed to evaluate input variables'' e))
       | (vh, None) \<Rightarrow>
           (case GetTaskType element of
              None \<Rightarrow> panic ''invalid memory address or nil pointer dereference''
            | Some ty \<Rightarrow>
                bind (generateKey E) (\<lambda>k.
                bind (time_now E) (\<lambda>t.
                  case job_assignee E element (vh_localVariables vh) of
                    Inl e \<Rightarrow> ret (ActivityStateFailed, Some e)
                  | Inr assignee \<Rightarrow>
                      (let job = \<lparr>job_ElementId = tok_ElementId currentToken,
                                  job_ElementInstanceKey = tok_ElementInstanceKey currentToken,
                                  job_ProcessInstanceKey = tok_ProcessInstanceKey currentToken, job_Key = k,
                                  job_State = ActivityStateActive, job_Type = ty,
                                  job_Variables = vh_localVariables vh, job_CreatedAt = t,
                                  job_Token = currentToken, job_Assignee = assignee\<rparr>
                       in bind (add_stmt (StJob job)) (\<lambda>_.
                          bind (save_history E r (tok_ElementInstanceKey currentToken) (GetId element)
                                  (tok_Key currentToken) (vh_localVariables vh) Map.empty) (\<lambda>_.
                          bind (gets taskHandlers) (\<lambda>hs.
                            case findTaskHandler hs element of
                              None \<Rightarrow> ret (ActivityStateActive, None)
                            | Some handler \<Rightarrow> handle_job E r element job (vh_localVariables vh) handler))))))))"

definition createUserTask :: "env \<Rightarrow> nat \<Rightarrow> FlowNode \<Rightarrow> ExecutionToken \<Rightarrow> (ActivityState \<times> error option) em" where
  "createUserTask E r element currentToken = createInternalTask E r element currentToken"

section \<open>Jobs of external workers\<close>

definition JobAssignByKey :: "int \<Rightarrow> string option \<Rightarrow> unit em" where
  "JobAssignByKey jobKey assignee =
     bind (wrap (\<lambda>_. EngineError ''failed to find job with key'') (db_find (\<lambda>d. FindJobByJobKey d jobKey))) (\<lambda>job.
       set_mem (SaveJob (job\<lparr>job_Assignee := assignee\<rparr>)))"

text \<open>The check of the refreshed job that failing and completing share.\<close>

definition check_job_open :: "Job \<Rightarrow> unit em" where
  "check_job_open job =
     (case job_State job of
        ActivityStateCompleted \<Rightarrow> throw (EngineError ''job already completed'')
      | ActivityStateTerminated \<Rightarrow> throw (EngineError ''job already terminated'')
      | ActivityStateFailed \<Rightarrow> throw (EngineError ''job already failed'')
      | _ \<Rightarrow> ret ())"

text \<open>The message is part of the format string the code builds; the error code is its argument.\<close>

definition fail_job :: "env \<Rightarrow> nat \<Rightarrow> int \<Rightarrow> string \<Rightarrow> string option \<Rightarrow> unit em" where
  "fail_job E r jobKey message errorCode =
     bind (wrap (\<lambda>_. EngineError ''failed to find job with key'') (db_find (\<lambda>d. FindJobByJobKey d jobKey))) (\<lambda>job.
     bind (check_job_open job) (\<lambda>_.
       (let token = (job_Token job)\<lparr>tok_State := TokenStateFailed\<rparr>;
            job' = job\<lparr>job_State := ActivityStateFailed, job_Token := token\<rparr>
        in bind (set_state r ActivityStateFailed) (\<lambda>_.
           bind (add_stmt (StJob job')) (\<lambda>_.
           bind (add_stmt (StToken token)) (\<lambda>_.
           bind (add_stmt (StProcessInstance r)) (\<lambda>_.
           bind (createNewIncidentFromToken E
                   (ErrorfArgs (''%s :'' @ message) [case errorCode of None \<Rightarrow> [] | Some c \<Rightarrow> c]) token) (\<lambda>inc.
           bind (add_stmt (StIncident inc)) (\<lambda>_.
             wrap (Wrapf ''failed to fail job'') Flush)))))))))"

definition JobFailByKey :: "env \<Rightarrow> int \<Rightarrow> string \<Rightarrow> string option \<Rightarrow> unit em" where
  "JobFailByKey E jobKey message errorCode =
     bind (wrap (\<lambda>_. EngineError ''failed to find job with key'') (db_find (\<lambda>d. FindJobByJobKey d jobKey))) (\<lambda>job.
       if job_State job = ActivityStateFailed then throw (EngineError ''job is already failed'')
       else
         bind (wrap (\<lambda>_. EngineError ''failed to find process instance with key'')
                 (db_find (\<lambda>d. FindProcessInstanceByKey d (job_ProcessInstanceKey job)))) (\<lambda>r.
         bind (wrap (\<lambda>_. EngineError ''failed to create engine batch'') (NewEngineBatch r)) (\<lambda>_.
           on_error Clear (fail_job E r jobKey message errorCode))))"

definition activate_one :: "env \<Rightarrow> Job \<Rightarrow> activatedJob em" where
  "activate_one E job =
     bind (wrap (Wrapf ''failed to find process instance for job key'')
             (db_find (\<lambda>d. FindProcessInstanceByKey d (job_ProcessInstanceKey job)))) (\<lambda>r.
     bind (deref r) (\<lambda>i.
       case GetInternalTaskById (instance_container i) (tok_ElementId (job_Token job)) of
         None \<Rightarrow> throw (EngineError ''failed to find task element for job'')
       | Some task \<Rightarrow>
           (case EvaluateAndSetMappingsToLocalVariables (GetInputMapping task) (evaluateExpression E)
                   (NewVariableHolder (Some (pi_Variables i)) None) of
              (_, Some e) \<Rightarrow>
                bind (set_mem (SaveJob (job\<lparr>job_State := ActivityStateFailed\<rparr>))) (\<lambda>_.
                  throw (Wrapf ''failed to evaluate variables'' e))
            | (vh, None) \<Rightarrow>
                ret \<lparr>aj_key = job_Key job, aj_processInstanceKey = job_ProcessInstanceKey job,
                     aj_bpmnProcessId = [], aj_processDefinitionVersion = 0, aj_processDefinitionKey = 0,
                     aj_elementId = job_ElementId job, aj_createdAt = job_CreatedAt job,
                     aj_localVariables = vh_localVariables vh\<rparr>)))"

definition ActivateJobs :: "env \<Rightarrow> string \<Rightarrow> activatedJob list em" where
  "ActivateJobs E jobType =
     bind (db (\<lambda>d. FindActiveJobsByType d jobType)) (\<lambda>jobs. map_each jobs (activate_one E))"

section \<open>Frames and locks\<close>

lemma keeps_handle_job [keeps_rules]: "keeps frame (handle_job E r element job locals h)"
  unfolding handle_job_def activate_job_def by (intro keeps_rules)

lemma keeps_createInternalTask [keeps_rules]: "keeps frame (createInternalTask E r element tok)"
  unfolding createInternalTask_def Let_def by (intro keeps_rules)

lemma keeps_createUserTask [keeps_rules]: "keeps frame (createUserTask E r element tok)"
  unfolding createUserTask_def by (intro keeps_rules)

lemma pres_lk_check_job [pres_rules]: "pres (lk H) (check_job_open job)"
  by (cases "job_State job") (simp_all add: check_job_open_def pres_basic)

lemma pres_lk_incident [pres_rules]: "pres (lk H) (createNewIncidentFromToken E err tok)"
  by (intro pres_lk_frame keeps_rules)

lemma flushes_fail_job: "flushes (fail_job E r k msg code)"
  unfolding fail_job_def Let_def
  by (intro flushes_bind flushes_wrap flushes_Flush pres_rules)

lemma balanced_JobFailByKey [balanced_rules]: "balanced (JobFailByKey E k msg code)"
  unfolding JobFailByKey_def by (intro balanced_rules balanced_api flushes_fail_job)

lemma balanced_JobAssignByKey [balanced_rules]: "balanced (JobAssignByKey k a)"
  unfolding JobAssignByKey_def by (intro balanced_rules)

section \<open>Failing a job\<close>

lemma db_find_Ok_iff: "db_find f s = (Ok x, t) \<longleftrightarrow> f (mem s) = Inr x \<and> t = s"
  by (simp add: db_find_def db_def lift_sum_Ok_iff)

lemma check_job_open_Ok:
  "check_job_open job s = (Ok u, t) \<longleftrightarrow> t = s \<and>
     job_State job \<notin> {ActivityStateCompleted, ActivityStateTerminated, ActivityStateFailed}"
  by (cases "job_State job") (auto simp: check_job_open_def ret_def throw_def)

text \<open>The rows that failing a job writes.\<close>

definition failed_job :: "Job \<Rightarrow> Job" where
  "failed_job job = job\<lparr>job_State := ActivityStateFailed,
     job_Token := (job_Token job)\<lparr>tok_State := TokenStateFailed\<rparr>\<rparr>"

lemma fail_job_OkD:
  assumes f: "fail_job E r k msg code s = (Ok (), s')" and lk: "lk H s" and b: "b_stmts (batch s) = []"
  obtains job inc where "tget (Jobs (mem s)) k = Some job"
    and "job_State job \<notin> {ActivityStateCompleted, ActivityStateTerminated, ActivityStateFailed}"
    and "inc_Token inc = job_Token (failed_job job)" and "inc_ResolvedAt inc = None"
    and "objs s' = (objs s)[r := (objs s ! r)\<lparr>pi_State := ActivityStateFailed\<rparr>]"
    and "mem s' = SaveIncident inc (SaveProcessInstance (objs s') r
      (SaveToken (job_Token (failed_job job)) (SaveJob (failed_job job) (mem s))))"
proof -
  from f obtain job where j: "tget (Jobs (mem s)) k = Some job"
    and st: "job_State job \<notin> {ActivityStateCompleted, ActivityStateTerminated, ActivityStateFailed}"
    by (auto simp: fail_job_def eng_Ok_iffs db_find_Ok_iff FindJobByJobKey_def or_not_found_Inr check_job_open_Ok)
  let ?j = "failed_job job"
  let ?o = "(objs s)[r := (objs s ! r)\<lparr>pi_State := ActivityStateFailed\<rparr>]"
  let ?inc = "\<lparr>inc_Key = gen E (keyc s), inc_ElementInstanceKey = tok_ElementInstanceKey (job_Token job),
      inc_ElementId = tok_ElementId (job_Token job), inc_ProcessInstanceKey = tok_ProcessInstanceKey (job_Token job),
      inc_Message = ErrorfArgs (''%s :'' @ msg) [case code of None \<Rightarrow> [] | Some c \<Rightarrow> c],
      inc_CreatedAt = clock E (tickc s), inc_ResolvedAt = None, inc_Token = job_Token ?j\<rparr>"
  let ?s2 = "s\<lparr>objs := ?o, keyc := Suc (keyc s), tickc := Suc (tickc s),
       batch := (batch s)\<lparr>b_stmts := [StJob ?j, StToken (job_Token ?j), StProcessInstance r, StIncident ?inc]\<rparr>\<rparr>"
  from f j st have fl: "Flush ?s2 = (Ok (), s')"
    by (simp add: fail_job_def eng_Ok_iffs db_find_Ok_iff FindJobByJobKey_def or_not_found_Inr
        check_job_open_Ok Let_def set_state_def update_instance_def add_stmt_def upd_batch_def
        createNewIncidentFromToken_def generateKey_def time_now_def modify_def ret_def failed_job_def b)
  have "lk H ?s2" by (rule lk_batch_touched_cong [OF lk]) (simp_all add: batch_touched_def)
  from lk_Flush [OF this fl] have m: "flush_error ?s2 = None" "mem s' = flush_mem ?s2" "objs s' = ?o"
    by (auto split: option.splits)
  have "mem s' = SaveIncident ?inc (SaveProcessInstance ?o r (SaveToken (job_Token ?j) (SaveJob ?j (mem s))))"
    using m(1,2)
    by (auto simp: flush_error_def flush_mem_def StorageBatch_Flush_def split: option.splits)
  from that [OF j st _ _ m(3) this [folded m(3)]] show ?thesis by simp
qed

lemma JobFailByKey_OkD:
  assumes "JobFailByKey E k msg code s = (Ok (), s')"
  obtains job r s1 where "tget (Jobs (mem s)) k = Some job"
    and "tget (ProcessInstances (mem s)) (job_ProcessInstanceKey job) = Some r"
    and "NewEngineBatch r s = (Ok (), s1)" and "fail_job E r k msg code s1 = (Ok (), s')"
  using assms
  by (auto simp: JobFailByKey_def eng_Ok_iffs db_find_Ok_iff FindJobByJobKey_def FindProcessInstanceByKey_def
      or_not_found_Inr on_error_Ok_iff throw_def split: if_splits)

text \<open>C17. Failing a job through \<^verbatim>\<open>JobFailByKey\<close>: a call that succeeds had an open job (not completed,
  terminated or failed); afterwards the stored job, its token and the instance are failed, there is an
  unresolved incident for the token, and all locks are given back.\<close>

theorem failing_a_job_records_the_failure:
  assumes "store_wf (mem s)" and "inst_wf (objs s) (mem s)" and "released H s"
    and "JobFailByKey E k msg code s = (Ok (), s')"
  shows "\<exists>job r inc. tget (Jobs (mem s)) k = Some job \<and>
    job_State job \<notin> {ActivityStateCompleted, ActivityStateTerminated, ActivityStateFailed} \<and>
    tget (Jobs (mem s')) k = Some (failed_job job) \<and>
    tget (ExecutionTokens (mem s')) (tok_Key (job_Token job)) = Some (job_Token (failed_job job)) \<and>
    tget (ProcessInstances (mem s')) (job_ProcessInstanceKey job) = Some r \<and>
    pi_State (objs s' ! r) = ActivityStateFailed \<and>
    tget (Incidents (mem s')) (inc_Key inc) = Some inc \<and>
    inc_Token inc = job_Token (failed_job job) \<and> inc_ResolvedAt inc = None \<and>
    (\<forall>j. held (running s') j \<longleftrightarrow> H j)"
proof -
  from JobFailByKey_OkD [OF assms(4)] obtain job r s1 where j: "tget (Jobs (mem s)) k = Some job"
    and r: "tget (ProcessInstances (mem s)) (job_ProcessInstanceKey job) = Some r"
    and n: "NewEngineBatch r s = (Ok (), s1)" and f: "fail_job E r k msg code s1 = (Ok (), s')" .
  from r have sr: "stored (mem s) r" by (auto simp: stored_def)
  note N = NewEngineBatch_OkD [OF n assms(2) sr]
  have lk1: "lk H s1" using lk_NewEngineBatch(1) [OF assms(3) n] .
  from fail_job_OkD [OF f lk1 N(4)] obtain job' inc where j': "tget (Jobs (mem s1)) k = Some job'"
    and st: "job_State job' \<notin> {ActivityStateCompleted, ActivityStateTerminated, ActivityStateFailed}"
    and inc: "inc_Token inc = job_Token (failed_job job')" "inc_ResolvedAt inc = None"
    and o: "objs s' = (objs s1)[r := (objs s1 ! r)\<lparr>pi_State := ActivityStateFailed\<rparr>]"
    and m: "mem s' = SaveIncident inc (SaveProcessInstance (objs s') r
      (SaveToken (job_Token (failed_job job')) (SaveJob (failed_job job') (mem s1))))" .
  from j j' N(1) have [simp]: "job' = job" by simp
  have kj: "job_Key job = k" using assms(1) j by (auto simp: store_wf_def dest: keyed_tget)
  from r assms(2) have rl: "r < length (objs s)" "pi_Key (objs s ! r) = job_ProcessInstanceKey job"
    by (auto simp: inst_wf_def)
  with o N have kr: "pi_Key (objs s' ! r) = job_ProcessInstanceKey job" "pi_State (objs s' ! r) = ActivityStateFailed"
    by simp_all
  have "released H s'" using balancedD [OF balanced_JobFailByKey assms(3,4)] by simp
  then have "held (running s') i \<longleftrightarrow> H i" for i by (rule released_held)
  moreover have "tget (Jobs (mem s')) k = Some (failed_job job)"
    "tget (ExecutionTokens (mem s')) (tok_Key (job_Token job)) = Some (job_Token (failed_job job))"
    "tget (ProcessInstances (mem s')) (job_ProcessInstanceKey job) = Some r"
    "tget (Incidents (mem s')) (inc_Key inc) = Some inc"
    unfolding m by (simp_all add: kj kr(1) SaveIncident_def SaveProcessInstance_def SaveToken_def SaveJob_def failed_job_def)
  moreover have "inc_Token inc = job_Token (failed_job job)"
    "job_State job \<notin> {ActivityStateCompleted, ActivityStateTerminated, ActivityStateFailed}"
    using inc(1) st by simp_all
  ultimately show ?thesis using j inc(2) kr(2) by blast
qed

theorem failing_a_job_records_the_failure_witness:
  "\<exists>job. tget (Jobs (mem (snd (JobFailByKey demo_env 700 ''no paper'' None demo_busy)))) 700 = Some job \<and>
     job_State job = ActivityStateFailed"
proof -
  obtain x s' where c: "JobFailByKey demo_env 700 ''no paper'' None demo_busy = (x, s')"
    by (cases "JobFailByKey demo_env 700 ''no paper'' None demo_busy")
  have "is_Ok (fst (JobFailByKey demo_env 700 ''no paper'' None demo_busy))" by code_simp
  with c have ok: "JobFailByKey demo_env 700 ''no paper'' None demo_busy = (Ok (), s')" by (cases x) auto
  have wf: "store_wf (mem demo_busy)" by code_simp
  from failing_a_job_records_the_failure [OF wf demo_busy_inst_wf demo_busy_released ok]
  obtain job where "tget (Jobs (mem s')) 700 = Some (failed_job job)" by blast
  then show ?thesis using ok by (simp add: failed_job_def)
qed

section \<open>Creating a job\<close>

text \<open>A task without a registered handler: if its input mappings evaluate (and, for a user task, its
  assignee), the task waits with exactly one new job in the batch, active, for the task's element, instance
  and token, carrying the mapped variables, followed by a history row; nothing else is added and the
  instance is not changed.\<close>

theorem task_without_handler_gets_one_active_job:
  assumes "r < length (objs s)"
    and "eval_mappings (evaluateExpression E) (pi_Variables (objs s ! r)) (GetInputMapping element) = Inr kvs"
    and "GetTaskType element = Some ty"
    and "job_assignee E element (assign_all kvs (pi_Variables (objs s ! r))) = Inr a"
    and "findTaskHandler (taskHandlers s) element = None"
  shows "\<exists>job f s'. createInternalTask E r element tok s = (Ok (ActivityStateActive, None), s') \<and>
    b_stmts (batch s') = b_stmts (batch s) @ [StJob job, StFlowElementInstance f] \<and>
    job_State job = ActivityStateActive \<and> job_Type job = ty \<and> job_Token job = tok \<and> job_Assignee job = a \<and>
    job_ElementId job = tok_ElementId tok \<and> job_ProcessInstanceKey job = tok_ProcessInstanceKey tok \<and>
    job_Variables job = assign_all kvs (pi_Variables (objs s ! r)) \<and>
    fe_Key f = tok_ElementInstanceKey tok \<and> objs s' = objs s \<and> frame s' = frame s"
proof -
  let ?vs = "pi_Variables (objs s ! r)"
  have ev: "EvaluateAndSetMappingsToLocalVariables (GetInputMapping element) (evaluateExpression E)
      (NewVariableHolder (Some ?vs) None) =
      (\<lparr>vh_parent = Some ?vs, vh_localVariables = assign_all kvs ?vs\<rparr>, None)"
    using set_mappings_spec [OF assms(2)]
    by (simp add: EvaluateAndSetMappingsToLocalVariables_def NewVariableHolder_def)
  show ?thesis
    using assms(1,3-5)
    by (simp add: createInternalTask_def bind_def deref_def ev generateKey_def time_now_def Let_def add_stmt_def
        save_history_def upd_batch_def frame_defs eng_simps)
qed

theorem task_without_handler_gets_one_active_job_witness:
  "\<exists>job f s'. createInternalTask demo_env 0 (FServiceTask demo_task) (demo_token ''task'' TokenStateRunning) demo_busy =
      (Ok (ActivityStateActive, None), s') \<and> b_stmts (batch s') = [StJob job, StFlowElementInstance f] \<and>
      job_Type job = ''work''"
proof -
  have "0 < length (objs demo_busy)" by (simp add: demo_busy_def)
  moreover have "eval_mappings (evaluateExpression demo_env) (pi_Variables (objs demo_busy ! 0))
      (GetInputMapping (FServiceTask demo_task)) = Inr []" by code_simp
  moreover have "GetTaskType (FServiceTask demo_task) = Some ''work''" by code_simp
  moreover have "job_assignee demo_env (FServiceTask demo_task) (assign_all [] (pi_Variables (objs demo_busy ! 0))) = Inr None"
    by (simp add: job_assignee_def)
  moreover have "findTaskHandler (taskHandlers demo_busy) (FServiceTask demo_task) = None" by code_simp
  ultimately obtain job f s' where "createInternalTask demo_env 0 (FServiceTask demo_task)
        (demo_token ''task'' TokenStateRunning) demo_busy = (Ok (ActivityStateActive, None), s')"
    "b_stmts (batch s') = b_stmts (batch demo_busy) @ [StJob job, StFlowElementInstance f]" "job_Type job = ''work''"
    using task_without_handler_gets_one_active_job [of 0 demo_busy demo_env "FServiceTask demo_task" "[]" "''work''" None
        "demo_token ''task'' TokenStateRunning"] by auto
  then show ?thesis by (auto simp: demo_busy_def NewEngine_def clean_batch_def)
qed

end
