(* ===== verification/Engine_SubProcess.thy ===== *)
theory Engine_SubProcess
  imports Engine_Jobs
begin

text \<open>
  Instances that run for an element of another instance: called processes, embedded sub-processes and
  multi-instance activities (\<^verbatim>\<open>sub_process.go\<close>), the creation of instances (\<^verbatim>\<open>createInstance\<close> and
  \<^verbatim>\<open>createInstanceWithStartingElements\<close> of \<^verbatim>\<open>engine.go\<close>), business rule tasks, and the continuation of the
  parent when such an instance completes.

  The called instance is saved by the caller's batch and started by a goroutine after the flush; the
  goroutine is an entry of the batch's post-flush actions. The variable map of a called instance is a
  copy of the input variables of the history row here, while the code shares the map; nothing reads the
  row's input variables of a call or sub-process again.
\<close>

section \<open>Creating instances\<close>

definition createInstanceWithStartingElements ::
  "env \<Rightarrow> ProcessDefinition \<Rightarrow> string list \<Rightarrow> vars \<Rightarrow> instance_kind \<Rightarrow> string option \<Rightarrow>
     (nat \<times> ExecutionToken list) em" where
  "createInstanceWithStartingElements E processDefinition startNodeIds variables kind businessKey =
     bind (generateKey E) (\<lambda>k.
     bind (time_now E) (\<lambda>t.
     bind (alloc \<lparr>pi_Kind = kind, pi_Definition = processDefinition, pi_Key = k,
             pi_BusinessKey = businessKey, pi_Variables = variables, pi_CreatedAt = t,
             pi_State = ActivityStateReady\<rparr>) (\<lambda>r.
     bind (add_stmt (StProcessInstance r)) (\<lambda>_.
     bind (map_each startNodeIds (\<lambda>elementId.
             bind (new_token E r elementId TokenStateRunning) (\<lambda>token.
             bind (add_stmt (StToken token)) (\<lambda>_. ret token)))) (\<lambda>executionTokens.
       ret (r, executionTokens))))))"

definition createInstance ::
  "env \<Rightarrow> ProcessDefinition \<Rightarrow> vars \<Rightarrow> instance_kind \<Rightarrow> string option \<Rightarrow> (nat \<times> ExecutionToken list) em" where
  "createInstance E process variables kind businessKey =
     createInstanceWithStartingElements E process
       (map fn_Id (StartEvents (proc_Container (def_Process (pd_Definitions process)))))
       variables kind businessKey"

section \<open>Call activities and sub-processes\<close>

definition createCallActivity ::
  "env \<Rightarrow> nat \<Rightarrow> TCallActivity \<Rightarrow> ExecutionToken \<Rightarrow> (ActivityState \<times> error option) em" where
  "createCallActivity E r element currentToken =
     bind (deref r) (\<lambda>i.
       case EvaluateAndSetMappingsToLocalVariables (GetInputMapping (FCallActivity element)) (evaluateExpression E)
              (NewVariableHolder (Some (pi_Variables i)) (Some Map.empty)) of
         (_, Some e) \<Rightarrow>
           ret (ActivityStateFailed, Some (Wrapf ''failed to evaluate local variables for call activity'' e))
       | (vh, None) \<Rightarrow>
           bind (save_history E r (tok_ElementInstanceKey currentToken) (fn_Id element)
                   (tok_Key currentToken) (vh_localVariables vh) Map.empty) (\<lambda>_.
           bind (attempt (db_find (\<lambda>d. FindLatestProcessDefinitionById d (CalledProcessId element)))) (\<lambda>x.
             case x of
               Inl e \<Rightarrow>
                 ret (ActivityStateFailed, Some (Joined (EngineError ''no process with id was found'') e))
             | Inr processDefinition \<Rightarrow>
                 bind (createInstance E processDefinition (vh_localVariables vh)
                         (CallActivityInstance currentToken (tok_ElementInstanceKey currentToken)) None) (\<lambda>(p, tokens).
                 bind (AddPostFlushAction p tokens) (\<lambda>_. ret (ActivityStateActive, None))))))"

definition createSubProcess ::
  "env \<Rightarrow> nat \<Rightarrow> TSubProcess \<Rightarrow> ExecutionToken \<Rightarrow> (ActivityState \<times> error option) em" where
  "createSubProcess E r element currentToken =
     bind (deref r) (\<lambda>i.
       case EvaluateAndSetMappingsToLocalVariables (GetInputMapping (FSubProcess element)) (evaluateExpression E)
              (NewVariableHolder (Some (pi_Variables i)) (Some Map.empty)) of
         (_, Some e) \<Rightarrow>
           bind (set_state r ActivityStateFailed) (\<lambda>_.
             ret (ActivityStateFailed, Some (Wrapf ''failed to evaluate local variables for sub process'' e)))
       | (vh, None) \<Rightarrow>
           bind (save_history E r (tok_ElementInstanceKey currentToken) (GetId (FSubProcess element))
                   (tok_Key currentToken) (vh_localVariables vh) Map.empty) (\<lambda>_.
           bind (createInstanceWithStartingElements E (pi_Definition i)
                   (map fn_Id (StartEvents (sp_Container element))) (vh_localVariables vh)
                   (SubProcessInstance currentToken (tok_ElementInstanceKey currentToken)
                      (GetId (FSubProcess element))) None) (\<lambda>(p, tokens).
           bind (AddPostFlushAction p tokens) (\<lambda>_. ret (ActivityStateActive, None)))))"

section \<open>Business rule tasks\<close>

definition handleLocalBusinessRuleTask ::
  "env \<Rightarrow> nat \<Rightarrow> TBusinessRuleTask \<Rightarrow> TCalledDecision \<Rightarrow> ExecutionToken \<Rightarrow> (ActivityState \<times> error option) em" where
  "handleLocalBusinessRuleTask E r element decision currentToken =
     (let failed = (\<lambda>e. bind (set_state r ActivityStateFailed) (\<lambda>_. ret (ActivityStateFailed, Some e)))
      in bind (deref r) (\<lambda>i.
         case EvaluateAndSetMappingsToLocalVariables (GetInputMapping (FBusinessRuleTask element))
                (evaluateExpression E) (NewVariableHolder (Some (pi_Variables i)) None) of
           (_, Some e) \<Rightarrow> failed (Wrapf ''failed to evaluate local variables for business rule'' e)
         | (vh, None) \<Rightarrow>
             bind (save_history E r (tok_ElementInstanceKey currentToken) (fn_Id element)
                     (tok_Key currentToken) (vh_localVariables vh) Map.empty) (\<lambda>_.
               case dmn E (BindingType decision) (DecisionId decision) (VersionTag decision) (vh_localVariables vh) of
                 Inl e \<Rightarrow> failed (Wrapf ''failed to evaluate business rule'' e)
               | Inr result \<Rightarrow>
                   if GetOutputMapping (FBusinessRuleTask element) \<noteq> []
                   then
                     bind (attempt (propagate E r (vh_localVariables vh) (GetOutputMapping (FBusinessRuleTask element))
                             [ResultVariable decision \<mapsto> result])) (\<lambda>x.
                       case x of
                         Inl e \<Rightarrow> failed (Wrapf ''failed to propagate variables back to parent for business rule'' e)
                       | Inr outputVariables \<Rightarrow>
                           bind (add_stmt (StUpdateOutput (tok_ElementInstanceKey currentToken) outputVariables)) (\<lambda>_.
                             ret (ActivityStateCompleted, None)))
                   else
                     bind (set_variables r ((pi_Variables i)(ResultVariable decision \<mapsto> result))) (\<lambda>_.
                     bind (add_stmt (StUpdateOutput (tok_ElementInstanceKey currentToken)
                             [ResultVariable decision \<mapsto> result])) (\<lambda>_.
                       ret (ActivityStateCompleted, None))))))"

definition createExternalBusinessRuleTask ::
  "env \<Rightarrow> nat \<Rightarrow> TBusinessRuleTask \<Rightarrow> ExecutionToken \<Rightarrow> (ActivityState \<times> error option) em" where
  "createExternalBusinessRuleTask E r element currentToken =
     bind (createInternalTask E r (FBusinessRuleTask element) currentToken) (\<lambda>(activityState, err).
       case err of
         Some e \<Rightarrow>
           bind (set_state r ActivityStateFailed) (\<lambda>_.
             ret (ActivityStateFailed, Some (Wrapf ''failed to create internal task for business rule'' e)))
       | None \<Rightarrow> ret (activityState, None))"

definition createBusinessRuleTask ::
  "env \<Rightarrow> nat \<Rightarrow> TBusinessRuleTask \<Rightarrow> ExecutionToken \<Rightarrow> (ActivityState \<times> error option) em" where
  "createBusinessRuleTask E r element currentToken =
     (case brt_Implementation element of
        Some (TBusinessRuleTaskLocal decision) \<Rightarrow> handleLocalBusinessRuleTask E r element decision currentToken
      | Some (TBusinessRuleTaskExternal _) \<Rightarrow> createExternalBusinessRuleTask E r element currentToken
      | None \<Rightarrow> ret (ActivityStateFailed, Some (Errorf ''unsupported BusinessRuleTask Implementation'')))"

section \<open>Starting an activity\<close>

text \<open>The type switch of \<^verbatim>\<open>handleActivity\<close> and \<^verbatim>\<open>handleMultiInstanceActivity\<close>; \<open>None\<close> is its default.\<close>

definition create_activity ::
  "env \<Rightarrow> nat \<Rightarrow> FlowNode \<Rightarrow> ExecutionToken \<Rightarrow> (ActivityState \<times> error option) em option" where
  "create_activity E r element currentToken =
     (case element of
        FServiceTask _ \<Rightarrow> Some (createInternalTask E r element currentToken)
      | FSendTask _ \<Rightarrow> Some (createInternalTask E r element currentToken)
      | FUserTask _ \<Rightarrow> Some (createUserTask E r element currentToken)
      | FCallActivity c \<Rightarrow> Some (createCallActivity E r c currentToken)
      | FSubProcess sp \<Rightarrow> Some (createSubProcess E r sp currentToken)
      | FBusinessRuleTask b \<Rightarrow> Some (createBusinessRuleTask E r b currentToken)
      | _ \<Rightarrow> None)"

definition failed_activity :: "error option \<Rightarrow> error" where
  "failed_activity err = (case err of Some e \<Rightarrow> Wrapf ''failed to process'' e | None \<Rightarrow> Errorf ''failed to process'')"

definition handleActivity :: "env \<Rightarrow> nat \<Rightarrow> FlowNode \<Rightarrow> ExecutionToken \<Rightarrow> ExecutionToken list em" where
  "handleActivity E r element currentToken =
     (case create_activity E r element currentToken of
        None \<Rightarrow> throw (Errorf ''unsupported element type'')
      | Some create \<Rightarrow>
          bind create (\<lambda>(activityResult, err).
            case activityResult of
              ActivityStateActive \<Rightarrow>
                bind (wrap (Wrapf ''failed to process boundary events'')
                        (createBoundaryEventSubscriptions E r element
                           (currentToken\<lparr>tok_State := TokenStateWaiting\<rparr>))) (\<lambda>_.
                  ret [currentToken\<lparr>tok_State := TokenStateWaiting\<rparr>])
            | ActivityStateCompleted \<Rightarrow>
                wrap (Wrapf ''failed to process flow transition'')
                  (handleElementTransition E r element currentToken)
            | ActivityStateFailed \<Rightarrow> throw (failed_activity err)
            | _ \<Rightarrow> throw (Errorf ''unsupported activity state'')))"

section \<open>Multi-instance activities\<close>

text \<open>The evaluated input collection: nil counts as empty, anything else that is not a list is refused.\<close>

definition input_collection :: "env \<Rightarrow> vars \<Rightarrow> TMultiInstance \<Rightarrow> error + val list" where
  "input_collection E vs mi =
     (case evaluateExpression E (InputCollectionExpression (LoopCharacteristics mi)) vs of
        Inl e \<Rightarrow> Inl (Wrapf ''failed to evaluate inputCollection expression'' e)
      | Inr VNil \<Rightarrow> Inr []
      | Inr (VList xs) \<Rightarrow> Inr xs
      | Inr _ \<Rightarrow> Inl (Errorf ''failed to evaluate inputCollection''))"

definition start_multi_instance ::
  "env \<Rightarrow> nat \<Rightarrow> FlowNode \<Rightarrow> TMultiInstance \<Rightarrow> (val list \<Rightarrow> string list) \<Rightarrow> ExecutionToken \<Rightarrow> ActivityState em" where
  "start_multi_instance E r element mi starts currentToken =
     bind (deref r) (\<lambda>i.
     bind (lift_sum (input_collection E (pi_Variables i) mi)) (\<lambda>inputCollection.
     bind (save_history E r (tok_ElementInstanceKey currentToken) (GetId element) (tok_Key currentToken)
             [InputElementName (LoopCharacteristics mi) \<mapsto> VList inputCollection] Map.empty) (\<lambda>_.
       if inputCollection = []
       then
         bind (set_variables r ((pi_Variables i)(OutputCollectionName (LoopCharacteristics mi) \<mapsto> VList []))) (\<lambda>_.
           ret ActivityStateCompleted)
       else
         bind (createInstanceWithStartingElements E (pi_Definition i) (starts inputCollection) Map.empty
                 (MultiInstanceInstance currentToken (tok_ElementInstanceKey currentToken) (GetId element)) None)
           (\<lambda>(p, tokens). bind (AddPostFlushAction p tokens) (\<lambda>_. ret ActivityStateActive)))))"

definition startParallelMultiInstance ::
  "env \<Rightarrow> nat \<Rightarrow> FlowNode \<Rightarrow> TMultiInstance \<Rightarrow> ExecutionToken \<Rightarrow> ActivityState em" where
  "startParallelMultiInstance E r element mi currentToken =
     start_multi_instance E r element mi (\<lambda>xs. replicate (length xs) (GetId element)) currentToken"

definition startSequentialMultiInstance ::
  "env \<Rightarrow> nat \<Rightarrow> FlowNode \<Rightarrow> TMultiInstance \<Rightarrow> ExecutionToken \<Rightarrow> ActivityState em" where
  "startSequentialMultiInstance E r element mi currentToken =
     start_multi_instance E r element mi (\<lambda>_. [GetId element]) currentToken"

text \<open>The multi-instance activity as an element of its own instance: the next element of the collection
  is the one whose index is the number of element instances stored so far.\<close>

definition run_multi_instance ::
  "env \<Rightarrow> nat \<Rightarrow> FlowNode \<Rightarrow> TMultiInstance \<Rightarrow> int \<Rightarrow> ExecutionToken \<Rightarrow> ExecutionToken list em" where
  "run_multi_instance E r element mi eik currentToken =
     bind (deref r) (\<lambda>i.
     bind (multi_instance_collection mi eik) (\<lambda>inputCollection.
     bind (db (\<lambda>d. GetFlowElementInstanceCountByProcessInstanceKey d (pi_Key i))) (\<lambda>started.
       if started = int (length inputCollection)
       then
         bind (set_state r ActivityStateCompleted) (\<lambda>_.
           ret [currentToken\<lparr>tok_State := TokenStateCompleted\<rparr>])
       else if started > int (length inputCollection) then panic ''index out of range''
       else
         bind (set_variables r ((pi_Variables i)(InputElementName (LoopCharacteristics mi) \<mapsto>
                 inputCollection ! nat started))) (\<lambda>_.
           case create_activity E r element currentToken of
             None \<Rightarrow> throw (Errorf ''unsupported activity'')
           | Some create \<Rightarrow>
               bind create (\<lambda>(activityResult, err).
                 case activityResult of
                   ActivityStateActive \<Rightarrow> ret [currentToken\<lparr>tok_State := TokenStateWaiting\<rparr>]
                 | ActivityStateCompleted \<Rightarrow> handleMultiInstanceElementTransition E r eik element currentToken
                 | ActivityStateFailed \<Rightarrow> throw (failed_activity err)
                 | _ \<Rightarrow> throw (Errorf ''unsupported activity state''))))))"

definition handleMultiInstanceActivity ::
  "env \<Rightarrow> nat \<Rightarrow> FlowNode \<Rightarrow> TMultiInstance \<Rightarrow> ExecutionToken \<Rightarrow> ExecutionToken list em" where
  "handleMultiInstanceActivity E r element mi currentToken =
     bind (deref r) (\<lambda>i.
       case pi_Kind i of
         MultiInstanceInstance _ eik _ \<Rightarrow> run_multi_instance E r element mi eik currentToken
       | _ \<Rightarrow>
           bind (if IsSequential mi then startSequentialMultiInstance E r element mi currentToken
                 else startParallelMultiInstance E r element mi currentToken) (\<lambda>activityState.
             case activityState of
               ActivityStateActive \<Rightarrow>
                 bind (wrap (Wrapf ''failed to process boundary events'')
                         (createBoundaryEventSubscriptions E r element currentToken)) (\<lambda>_.
                   ret [currentToken\<lparr>tok_State := TokenStateWaiting\<rparr>])
             | ActivityStateFailed \<Rightarrow> ret [currentToken\<lparr>tok_State := TokenStateFailed\<rparr>]
             | ActivityStateCompleted \<Rightarrow>
                 wrap (Wrapf ''failed to process flow transition'')
                   (handleElementTransition E r element currentToken)
             | _ \<Rightarrow> throw (Errorf ''unsupported activity state'')))"

section \<open>Continuing the parent\<close>

text \<open>The part all three continuations begin with: \<open>None\<close> when the parent is finished or its token has
  left the element.\<close>

definition parent_setup :: "env \<Rightarrow> ExecutionToken \<Rightarrow> int \<Rightarrow> (nat \<times> ExecutionToken) option em" where
  "parent_setup E parentToken eik =
     bind (wrap (Wrapf ''failed to find parent process instance'')
             (db_find (\<lambda>d. FindProcessInstanceByKey d (tok_ProcessInstanceKey parentToken)))) (\<lambda>p.
     bind (AddParentLockedInstance E p) (\<lambda>_.
     bind (deref p) (\<lambda>parent.
       if is_final (pi_State parent) then ret None
       else
         bind (wrap (Wrapf ''failed to get token by key'')
                 (db_find (\<lambda>d. GetTokenByKey d (tok_Key parentToken)))) (\<lambda>updatedParentToken.
           if tok_ElementInstanceKey updatedParentToken \<noteq> eik then ret None
           else ret (Some (p, updatedParentToken))))))"

definition parent_finish :: "env \<Rightarrow> nat \<Rightarrow> FlowNode \<Rightarrow> ExecutionToken \<Rightarrow> vars \<Rightarrow> unit em" where
  "parent_finish E p parentElement token output =
     bind (cancelBoundarySubscriptions token) (\<lambda>_.
     bind (wrap (Wrapf ''failed to handle simple trasition for parent instance'')
             (handleElementTransition E p parentElement token)) (\<lambda>tokens.
     bind (for_each tokens (\<lambda>tok. add_stmt (StToken tok))) (\<lambda>_.
     bind (add_stmt (StProcessInstance p)) (\<lambda>_.
     bind (add_stmt (StUpdateOutput (tok_ElementInstanceKey token) output)) (\<lambda>_.
       AddPostFlushAction p tokens)))))"

definition propagate_to_parent :: "env \<Rightarrow> nat \<Rightarrow> nat \<Rightarrow> FlowNode \<Rightarrow> vars em" where
  "propagate_to_parent E r p parentElement =
     bind (deref r) (\<lambda>i.
     bind (attempt (propagate_output E p (GetOutputMapping parentElement) (pi_Variables i))) (\<lambda>x.
       case x of
         Inl e \<Rightarrow>
           bind (set_state r ActivityStateFailed) (\<lambda>_.
             throw (Wrapf ''failed to propagate variables back to parent'' e))
       | Inr output \<Rightarrow> ret output))"

definition handleParentProcessContinuationForSubProcess ::
  "env \<Rightarrow> nat \<Rightarrow> ExecutionToken \<Rightarrow> int \<Rightarrow> string \<Rightarrow> unit em" where
  "handleParentProcessContinuationForSubProcess E r parentToken eik elementId =
     bind (parent_setup E parentToken eik) (\<lambda>x.
       case x of
         None \<Rightarrow> ret ()
       | Some (p, token) \<Rightarrow>
           bind (deref p) (\<lambda>parent.
             case GetFlowNodeById (instance_container parent) elementId of
               Some (FSubProcess sp) \<Rightarrow>
                 bind (propagate_to_parent E r p (FSubProcess sp)) (\<lambda>output.
                   parent_finish E p (FSubProcess sp) token output)
             | _ \<Rightarrow> throw (Errorf ''failed to find flow node by id'')))"

definition handleParentProcessContinuationForCallActivity ::
  "env \<Rightarrow> nat \<Rightarrow> ExecutionToken \<Rightarrow> int \<Rightarrow> unit em" where
  "handleParentProcessContinuationForCallActivity E r parentToken eik =
     bind (parent_setup E parentToken eik) (\<lambda>x.
       case x of
         None \<Rightarrow> ret ()
       | Some (p, token) \<Rightarrow>
           bind (deref p) (\<lambda>parent.
             case GetFlowNodeById (instance_container parent) (tok_ElementId token) of
               Some (FCallActivity ca) \<Rightarrow>
                 bind (propagate_to_parent E r p (FCallActivity ca)) (\<lambda>output.
                   parent_finish E p (FCallActivity ca) token output)
             | _ \<Rightarrow> throw (Errorf ''failed to find flow node by id'')))"

definition output_collection :: "env \<Rightarrow> TMultiInstance \<Rightarrow> FlowElementInstance list \<Rightarrow> val list em" where
  "output_collection E mi elementInstances =
     map_each elementInstances (\<lambda>f.
       wrap (Wrapf ''failed to evaluate outputElementExpression on elementInstance'')
         (lift_sum (evaluateExpression E (OutputElementExpression (LoopCharacteristics mi)) (fe_OutputVariables f))))"

definition handleParentProcessContinuationForMultiInstance ::
  "env \<Rightarrow> nat \<Rightarrow> ExecutionToken \<Rightarrow> int \<Rightarrow> string \<Rightarrow> unit em" where
  "handleParentProcessContinuationForMultiInstance E r parentToken eik elementId =
     bind (parent_setup E parentToken eik) (\<lambda>x.
       case x of
         None \<Rightarrow> ret ()
       | Some (p, token) \<Rightarrow>
           bind (deref p) (\<lambda>parent.
             case GetFlowNodeById (instance_container parent) elementId of
               None \<Rightarrow> throw (Errorf ''failed to find flow node by id'')
             | Some parentElement \<Rightarrow>
                 (case GetMultiInstance parentElement of
                    None \<Rightarrow> throw (Errorf ''failed to find flow node by id'')
                  | Some mi \<Rightarrow>
                      bind (deref r) (\<lambda>i.
                      bind (db (\<lambda>d. GetFlowElementInstancesByProcessInstanceKey d (pi_Key i) True)) (\<lambda>elementInstances.
                      bind (output_collection E mi elementInstances) (\<lambda>outputCollection.
                      bind (set_variables p ((pi_Variables parent)
                              (OutputCollectionName (LoopCharacteristics mi) \<mapsto> VList outputCollection))) (\<lambda>_.
                        parent_finish E p parentElement token
                          [OutputCollectionName (LoopCharacteristics mi) \<mapsto> VList outputCollection])))))))"

definition handleParentProcessContinuation :: "env \<Rightarrow> nat \<Rightarrow> unit em" where
  "handleParentProcessContinuation E r =
     bind (deref r) (\<lambda>i.
       case pi_Kind i of
         SubProcessInstance parentToken eik elementId \<Rightarrow>
           handleParentProcessContinuationForSubProcess E r parentToken eik elementId
       | CallActivityInstance parentToken eik \<Rightarrow>
           handleParentProcessContinuationForCallActivity E r parentToken eik
       | MultiInstanceInstance parentToken eik elementId \<Rightarrow>
           handleParentProcessContinuationForMultiInstance E r parentToken eik elementId
       | DefaultProcessInstance \<Rightarrow> ret ())"

section \<open>Frames and locks\<close>

lemma keeps_createInstance [keeps_rules]:
  "keeps frame (createInstanceWithStartingElements E pd ids vs kind bk)"
  "keeps frame (createInstance E pd vs kind bk)"
  unfolding createInstance_def createInstanceWithStartingElements_def by (intro keeps_rules)+

lemma keeps_call [keeps_rules]: "keeps frame (createCallActivity E r c tok)"
  unfolding createCallActivity_def by (intro keeps_rules)

lemma keeps_sub_process [keeps_rules]: "keeps frame (createSubProcess E r sp tok)"
  unfolding createSubProcess_def by (intro keeps_rules)

lemma keeps_local_rule [keeps_rules]: "keeps frame (handleLocalBusinessRuleTask E r b dec tok)"
  unfolding handleLocalBusinessRuleTask_def Let_def by (intro keeps_rules)

lemma keeps_external_rule [keeps_rules]: "keeps frame (createExternalBusinessRuleTask E r b tok)"
  unfolding createExternalBusinessRuleTask_def by (intro keeps_rules)

lemma keeps_business_rule [keeps_rules]: "keeps frame (createBusinessRuleTask E r b tok)"
  unfolding createBusinessRuleTask_def
  by (auto intro!: keeps_rules split: option.splits TBusinessRuleTaskImplementation.splits)

lemma keeps_create_activity [keeps_rules]:
  assumes "keeps frame n" and "\<And>x. keeps frame (f x)"
  shows "keeps frame (case create_activity E r element tok of None \<Rightarrow> n | Some m \<Rightarrow> bind m f)"
  using assms by (cases element) (auto simp: create_activity_def intro!: keeps_rules)

lemma keeps_case_state [keeps_rules]:
  assumes "keeps v a" and "keeps v b" and "keeps v c" and "keeps v d"
  shows "keeps v (case st of ActivityStateActive \<Rightarrow> a | ActivityStateCompleted \<Rightarrow> b | ActivityStateFailed \<Rightarrow> c | _ \<Rightarrow> d)"
  using assms by (cases st) auto

lemma keeps_case_state' [keeps_rules]:
  assumes "keeps v a" and "keeps v c" and "keeps v b" and "keeps v d"
  shows "keeps v (case st of ActivityStateActive \<Rightarrow> a | ActivityStateFailed \<Rightarrow> c | ActivityStateCompleted \<Rightarrow> b | _ \<Rightarrow> d)"
  using assms by (cases st) auto

lemma keeps_handleActivity [keeps_rules]: "keeps frame (handleActivity E r element tok)"
  unfolding handleActivity_def by (intro keeps_rules)

lemma keeps_start_multi [keeps_rules]: "keeps frame (start_multi_instance E r element mi starts tok)"
  unfolding start_multi_instance_def by (intro keeps_rules)

lemma keeps_multi_instance_collection [keeps_rules]: "keeps frame (multi_instance_collection mi eik)"
  unfolding multi_instance_collection_def by (intro keeps_rules)

lemma keeps_run_multi [keeps_rules]: "keeps frame (run_multi_instance E r element mi eik tok)"
  unfolding run_multi_instance_def by (intro keeps_rules)

lemma keeps_handleMulti [keeps_rules]: "keeps frame (handleMultiInstanceActivity E r element mi tok)"
  unfolding handleMultiInstanceActivity_def startSequentialMultiInstance_def startParallelMultiInstance_def
  by (intro keeps_rules)

lemma keeps_cancelBoundary [keeps_rules]: "keeps frame (cancelBoundarySubscriptions tok)"
  unfolding cancelBoundarySubscriptions_def by (intro keeps_rules)

lemma keeps_parent_parts [keeps_rules]:
  "keeps frame (parent_finish E p element tok out)" "keeps frame (propagate_to_parent E r p element)"
  "keeps frame (output_collection E mi fs)"
  unfolding parent_finish_def propagate_to_parent_def output_collection_def by (intro keeps_rules)+

lemma pres_lk_parent_setup [pres_rules]: "pres (lk H) (parent_setup E tok eik)"
  unfolding parent_setup_def by (intro pres_rules)

text \<open>A continuation is its setup, which may lock the parent, and a rest that locks nothing.\<close>

lemma pres_lk_parent [pres_rules]:
  "pres (lk H) (handleParentProcessContinuationForSubProcess E r tok eik e)"
  "pres (lk H) (handleParentProcessContinuationForCallActivity E r tok eik)"
  "pres (lk H) (handleParentProcessContinuationForMultiInstance E r tok eik e)"
  unfolding handleParentProcessContinuationForSubProcess_def handleParentProcessContinuationForCallActivity_def
    handleParentProcessContinuationForMultiInstance_def
  by (rule pres_bind [OF pres_lk_parent_setup pres_lk_frame];
      auto intro!: keeps_rules split: option.splits FlowNode.splits)+

lemma pres_lk_handleParent [pres_rules]: "pres (lk H) (handleParentProcessContinuation E r)"
  unfolding handleParentProcessContinuation_def
  by (rule pres_bind [OF pres_lk_prims(3)]) (auto intro: pres_rules split: instance_kind.splits)

end
