(* ===== verification/Engine_Events.thy ===== *)
theory Engine_Events
  imports Engine_SubProcess
begin

text \<open>
  What happens inside an instance when a message is correlated or a timer fires: listeners, boundary
  events, event based gateways, and throw events (\<^verbatim>\<open>events.go\<close>, \<^verbatim>\<open>handleBoundaryTimer\<close> of \<^verbatim>\<open>timer.go\<close>).
  The public operations that find the instance, open the batch and run the instance on are modelled
  with the main loop.
\<close>

section \<open>Messages\<close>

definition publishMessageOnListener ::
  "env \<Rightarrow> nat \<Rightarrow> TIntermediateCatchEvent \<Rightarrow> MessageSubscription \<Rightarrow> vars \<Rightarrow> ExecutionToken list em" where
  "publishMessageOnListener E r listener message variables =
     bind (add_stmt (StMessageSubscription (message\<lparr>ms_State := ActivityStateCompleted\<rparr>))) (\<lambda>_.
     bind (wrap (Wrapf ''failed to propagate variables to process instance'')
             (propagate_output E r (ice_Output listener) variables)) (\<lambda>_.
     bind (add_stmt (StProcessInstance r)) (\<lambda>_.
       wrap (Wrapf ''failed to process MessageSubscription flow transition'')
         (handleElementTransition E r (FIntermediateCatchEvent listener) (ms_Token message)))))"

text \<open>Terminating what waits at an interrupted activity. The order of the two parts differs between
  messages and timers.\<close>

definition terminate_jobs :: "ExecutionToken \<Rightarrow> unit em" where
  "terminate_jobs token =
     bind (db (\<lambda>d. GetJobsInStateByTokenKey d (tok_Key token) [ActivityStateActive])) (\<lambda>jobs.
       for_each jobs (\<lambda>x. add_stmt (StJob (x\<lparr>job_State := ActivityStateTerminated\<rparr>))))"

definition cancel_called :: "nat \<Rightarrow> env \<Rightarrow> ExecutionToken \<Rightarrow> unit em" where
  "cancel_called F E token =
     bind (find_called (tok_Key token)) (\<lambda>ps.
       for_each ps (\<lambda>p. wrap (Wrapf ''failed to cancel child instance for token'') (cancelSubProcessInstance F E p)))"

definition publishMessageOnBoundaryListener ::
  "nat \<Rightarrow> env \<Rightarrow> nat \<Rightarrow> TBoundaryEvent \<Rightarrow> MessageSubscription \<Rightarrow> vars \<Rightarrow> ExecutionToken list em" where
  "publishMessageOnBoundaryListener F E r listener message variables =
     (let token = ms_Token message in
      bind (add_stmt (StMessageSubscription (message\<lparr>ms_State := ActivityStateCompleted\<rparr>))) (\<lambda>_.
      bind (wrap (Wrapf ''failed to propagate variables to process instance'')
              (propagate_output E r (be_Output listener) variables)) (\<lambda>outputVariables.
      bind (add_stmt (StProcessInstance r)) (\<lambda>_.
      bind (if CancellActivity listener
            then
              bind (terminate_jobs token) (\<lambda>_.
              bind (cancel_called F E token) (\<lambda>_.
              bind (cancelBoundarySubscriptions token) (\<lambda>_. ret token)))
            else
              bind (deref r) (\<lambda>i.
                case (GetFlowNodeById (instance_container i) (tok_ElementId token), be_EventDefinition listener) of
                  (Some element, Some (TMessageEventDefinition messageRef)) \<Rightarrow>
                    bind (wrap (Wrapf ''failed to recreate message subscription'')
                            (createMessageCatchEvent E r messageRef (GetId element) token)) (\<lambda>_.
                    bind (new_token E r (fn_Id listener) TokenStateRunning) (\<lambda>token'.
                    bind (add_stmt (StToken token')) (\<lambda>_. ret token')))
                | _ \<Rightarrow> panic ''invalid memory address or nil pointer dereference'')) (\<lambda>token'.
      bind (generateKey E) (\<lambda>k.
      bind (save_history E r k (fn_Id listener) (tok_Key token') Map.empty outputVariables) (\<lambda>_.
        wrap (Wrapf ''failed to process MessageSubscription flow transition'')
          (handleElementTransition E r (FBoundaryEvent listener) token'))))))))"

fun find_message_listener :: "TDefinitions \<Rightarrow> string \<Rightarrow> TBoundaryEvent list \<Rightarrow> error + TBoundaryEvent option" where
  "find_message_listener ds name [] = Inr None"
| "find_message_listener ds name (be # bes) =
     (case be_EventDefinition be of
        Some (TMessageEventDefinition messageRef) \<Rightarrow>
          (case GetMessageByRef ds messageRef of
             Inl e \<Rightarrow> Inl (Wrapf ''failed to find message'' e)
           | Inr m \<Rightarrow> if msg_Name m = name then Inr (Some be) else find_message_listener ds name bes)
      | _ \<Rightarrow> find_message_listener ds name bes)"

definition handleBoundaryMessage ::
  "nat \<Rightarrow> env \<Rightarrow> nat \<Rightarrow> MessageSubscription \<Rightarrow> vars \<Rightarrow> ExecutionToken list em" where
  "handleBoundaryMessage F E r message variables =
     bind (deref r) (\<lambda>i.
     bind (lift_sum (find_message_listener (instance_definitions i) (ms_Name message)
             (FindBoundaryEventsForActivity (instance_container i) (tok_ElementId (ms_Token message))))) (\<lambda>found.
       case found of
         None \<Rightarrow> throw (Errorf ''failed to find boundary event for message subscription'')
       | Some listener \<Rightarrow>
           wrap (Joined (EngineError ''failed to publish message to listener in instance''))
             (publishMessageOnBoundaryListener F E r listener message variables)))"

section \<open>Event based gateways\<close>

datatype GatewayEvent = GatewayMessage MessageSubscription | GatewayTimer Timer

fun event_GetId :: "GatewayEvent \<Rightarrow> string" where
  "event_GetId (GatewayMessage m) = ms_ElementId m"
| "event_GetId (GatewayTimer t) = tm_ElementId t"

fun event_GetKey :: "GatewayEvent \<Rightarrow> int" where
  "event_GetKey (GatewayMessage m) = ms_Key m"
| "event_GetKey (GatewayTimer t) = tm_Key t"

text \<open>The loop over the outgoing flows: the last message or timer catch event with the id of the event.\<close>

fun find_catch_event ::
  "TDefinitions \<Rightarrow> string \<Rightarrow> TSequenceFlow list \<Rightarrow> TIntermediateCatchEvent option \<Rightarrow> TIntermediateCatchEvent option res" where
  "find_catch_event ds i [] found = Ok found"
| "find_catch_event ds i (flow # flows) found =
     (case GetTargetRef ds flow of
        None \<Rightarrow> Panic ''invalid memory address or nil pointer dereference''
      | Some n \<Rightarrow>
          if GetId n \<noteq> i then find_catch_event ds i flows found
          else (case n of
                  FIntermediateCatchEvent e \<Rightarrow>
                    (case ice_EventDefinition e of
                       Some (TMessageEventDefinition _) \<Rightarrow> find_catch_event ds i flows (Some e)
                     | Some (TTimerEventDefinition _ _) \<Rightarrow> find_catch_event ds i flows (Some e)
                     | _ \<Rightarrow> find_catch_event ds i flows found)
                | _ \<Rightarrow> Panic ''interface conversion: FlowNode is not TIntermediateCatchEvent''))"

definition consume_event ::
  "env \<Rightarrow> nat \<Rightarrow> TIntermediateCatchEvent \<Rightarrow> GatewayEvent \<Rightarrow> vars \<Rightarrow> ExecutionToken em" where
  "consume_event E r catchEvent event variables =
     (case (ice_EventDefinition catchEvent, event) of
        (Some (TMessageEventDefinition _), GatewayMessage message) \<Rightarrow>
          bind (add_stmt (StMessageSubscription (message\<lparr>ms_State := ActivityStateCompleted\<rparr>))) (\<lambda>_.
          bind (propagate_output E r (ice_Output catchEvent) variables) (\<lambda>_.
          bind (add_stmt (StProcessInstance r)) (\<lambda>_. ret (ms_Token message))))
      | (Some (TTimerEventDefinition _ _), GatewayTimer timer) \<Rightarrow>
          bind (add_stmt (StTimer (timer\<lparr>tm_State := TimerStateTriggered\<rparr>))) (\<lambda>_. ret (tm_Token timer))
      | _ \<Rightarrow> panic ''interface conversion'')"

definition cancel_other_events :: "ExecutionToken \<Rightarrow> int \<Rightarrow> unit em" where
  "cancel_other_events token eventKey =
     bind (db (\<lambda>d. FindTokenMessageSubscriptions d (tok_Key token) ActivityStateActive)) (\<lambda>msubs.
     bind (for_each msubs (\<lambda>sub.
             if eventKey = ms_Key sub then ret ()
             else add_stmt (StMessageSubscription (sub\<lparr>ms_State := ActivityStateTerminated\<rparr>)))) (\<lambda>_.
     bind (db (\<lambda>d. FindTokenActiveTimerSubscriptions d (tok_Key token))) (\<lambda>tsubs.
       for_each tsubs (\<lambda>sub.
         if eventKey = tm_Key sub then ret ()
         else
           (let sub' = sub\<lparr>tm_State := TimerStateCancelled\<rparr> in
            bind (with_timers (removeTimer sub')) (\<lambda>_. add_stmt (StTimer sub')))))))"

definition publishEventOnEventGateway ::
  "env \<Rightarrow> nat \<Rightarrow> TFlowNode \<Rightarrow> GatewayEvent \<Rightarrow> vars \<Rightarrow> ExecutionToken list em" where
  "publishEventOnEventGateway E r gateway event variables =
     bind (deref r) (\<lambda>i.
     bind (lift_res (find_catch_event (instance_definitions i) (event_GetId event)
             (OutgoingAssociations gateway) None)) (\<lambda>found.
       case found of
         None \<Rightarrow> ret []
       | Some catchEvent \<Rightarrow>
           bind (consume_event E r catchEvent event variables) (\<lambda>token.
           bind (cancel_other_events token (event_GetKey event)) (\<lambda>_.
             wrap (Wrapf ''failed to process gateway event flow transition'')
               (handleElementTransition E r (FIntermediateCatchEvent catchEvent) token)))))"

section \<open>Throw events\<close>

text \<open>A task for a message, as throw events and end events create it.\<close>

definition throw_message :: "env \<Rightarrow> nat \<Rightarrow> FlowNode \<Rightarrow> ExecutionToken \<Rightarrow> ExecutionToken list em" where
  "throw_message E r element currentToken =
     bind (createInternalTask E r element currentToken) (\<lambda>(activityResult, err).
       case err of
         Some e \<Rightarrow> throw (Wrapf ''failed to process message event'' e)
       | None \<Rightarrow>
           (case activityResult of
              ActivityStateActive \<Rightarrow> ret [currentToken\<lparr>tok_State := TokenStateWaiting\<rparr>]
            | ActivityStateCompleted \<Rightarrow>
                wrap (Wrapf ''failed to process message event flow transition'')
                  (handleElementTransition E r element currentToken)
            | _ \<Rightarrow> throw (Errorf ''unexpected activity state in handling message event'')))"

definition handleIntermediateThrowEvent ::
  "env \<Rightarrow> nat \<Rightarrow> TIntermediateThrowEvent \<Rightarrow> ExecutionToken \<Rightarrow> ExecutionToken list em" where
  "handleIntermediateThrowEvent E r ite currentToken =
     (case ite_EventDefinition ite of
        Some (TMessageEventDefinition _) \<Rightarrow> throw_message E r (FIntermediateThrowEvent ite) currentToken
      | Some (TLinkEventDefinition _ name) \<Rightarrow>
          bind (wrap (Wrapf ''failed to handle IntermediateThrowLinkEvent'')
                  (handleIntermediateThrowLinkEvent E r ite name currentToken)) (\<lambda>token. ret [token])
      | None \<Rightarrow> throw (Errorf ''unsupported element: intermediateThrowEvent has no event definition'')
      | Some _ \<Rightarrow> throw (Errorf ''[invariant check] unhandled type for IntermediateThrowEvent EventDefinition''))"

section \<open>Boundary timers\<close>

definition timer_listener :: "TFlowElementsContainer \<Rightarrow> string \<Rightarrow> TBoundaryEvent option" where
  "timer_listener c elementId =
     List.find (\<lambda>be. AttachedToRef be = elementId \<and>
        (case be_EventDefinition be of Some (TTimerEventDefinition _ _) \<Rightarrow> True | _ \<Rightarrow> False)) (BoundaryEvent c)"

definition handleBoundaryTimer :: "nat \<Rightarrow> env \<Rightarrow> nat \<Rightarrow> Timer \<Rightarrow> ExecutionToken list em" where
  "handleBoundaryTimer F E r timer =
     (let token = tm_Token timer in
      bind (deref r) (\<lambda>i.
        case timer_listener (instance_container i) (tok_ElementId token) of
          None \<Rightarrow> throw (Errorf ''failed to find boundary event for timer'')
        | Some listener \<Rightarrow>
            bind (add_stmt (StTimer (timer\<lparr>tm_State := TimerStateTriggered\<rparr>))) (\<lambda>_.
            bind (if CancellActivity listener
                  then
                    bind (terminate_jobs token) (\<lambda>_.
                    bind (cancelBoundarySubscriptions token) (\<lambda>_. cancel_called F E token))
                  else
                    (case (GetFlowNodeById (instance_container i) (tok_ElementId token), be_EventDefinition listener) of
                       (Some element, Some (TTimerEventDefinition _ durationStr)) \<Rightarrow>
                         bind (wrap (Wrapf ''failed to recreate message subscription'')
                                 (createTimerCatchEvent E r durationStr (GetId element) token)) (\<lambda>_. ret ())
                     | _ \<Rightarrow> panic ''invalid memory address or nil pointer dereference'')) (\<lambda>_.
              wrap (Wrapf ''failed to handle boundary timer transition'')
                (handleElementTransition E r (FBoundaryEvent listener) token)))))"

section \<open>Frames and locks\<close>

lemma keeps_publish_listener [keeps_rules]: "keeps frame (publishMessageOnListener E r l m vs)"
  unfolding publishMessageOnListener_def by (intro keeps_rules)

lemma keeps_terminate_jobs [keeps_rules]: "keeps frame (terminate_jobs tok)"
  unfolding terminate_jobs_def by (intro keeps_rules)

lemma keeps_consume [keeps_rules]: "keeps frame (consume_event E r ce ev vs)"
  unfolding consume_event_def
  by (auto intro!: keeps_rules split: option.splits EventDefinition.splits GatewayEvent.splits)

lemma keeps_cancel_other [keeps_rules]: "keeps frame (cancel_other_events tok k)"
  unfolding cancel_other_events_def Let_def by (intro keeps_rules)

lemma keeps_gateway_event [keeps_rules]: "keeps frame (publishEventOnEventGateway E r g ev vs)"
  unfolding publishEventOnEventGateway_def by (intro keeps_rules)

lemma keeps_throw_message [keeps_rules]: "keeps frame (throw_message E r element tok)"
  unfolding throw_message_def
  by (auto intro!: keeps_rules split: option.splits ActivityState.splits)

lemma keeps_throw_event [keeps_rules]: "keeps frame (handleIntermediateThrowEvent E r ite tok)"
  unfolding handleIntermediateThrowEvent_def
  by (auto intro!: keeps_rules split: option.splits EventDefinition.splits)

lemma pres_lk_cancel_called [pres_rules]: "pres (lk H) (cancel_called F E tok)"
  unfolding cancel_called_def by (intro pres_rules)

lemma pres_lk_terminate_jobs [pres_rules]: "pres (lk H) (terminate_jobs tok)"
  by (intro pres_lk_frame keeps_rules)

lemma pres_lk_recreate:
  "pres (lk H) (createMessageCatchEvent E r mr e tok)" "pres (lk H) (createTimerCatchEvent E r ds e tok)"
  "pres (lk H) (new_token E r e st)" "pres (lk H) (save_history E r k e tk iv ov)"
  "pres (lk H) (propagate_output E r ms vs)" "pres (lk H) (handleElementTransition E r el tok)"
  by (intro pres_lk_frame keeps_rules)+

lemma pres_lk_boundary_message [pres_rules]:
  "pres (lk H) (publishMessageOnBoundaryListener F E r l m vs)"
  unfolding publishMessageOnBoundaryListener_def Let_def
  by (intro pres_rules pres_lk_recreate)
    (auto intro!: pres_rules pres_lk_recreate split: option.splits EventDefinition.splits)

lemma pres_lk_handleBoundaryMessage [pres_rules]: "pres (lk H) (handleBoundaryMessage F E r m vs)"
  unfolding handleBoundaryMessage_def by (intro pres_rules)

lemma pres_lk_handleBoundaryTimer [pres_rules]: "pres (lk H) (handleBoundaryTimer F E r t)"
  unfolding handleBoundaryTimer_def Let_def
  by (intro pres_rules pres_lk_recreate)
    (auto intro!: pres_rules pres_lk_recreate split: option.splits EventDefinition.splits)

end
