(* ===== verification/Engine_Run.thy ===== *)
theory Engine_Run
  imports Engine_Events
begin

text \<open>
  The main loop: the element of a token (\<^verbatim>\<open>getExecutionTokenActivity\<close>), the dispatch over the kinds of
  elements (\<^verbatim>\<open>processFlowNode\<close>), end events, and \<^verbatim>\<open>RunProcessInstance\<close> (\<^verbatim>\<open>engine.go\<close>, \<^verbatim>\<open>engine_api.go\<close>).

  One pass of the loop takes the first token of the queue and works on a fresh batch, which is flushed
  before the next pass. A process with a cycle can keep the loop busy for ever, so the number of passes
  is bounded by the fuel \<open>N\<close>; the fuel \<open>F\<close> bounds the depth of cancelled calls. Every caller of
  \<^verbatim>\<open>RunProcessInstance\<close> has flushed its own batch before, so the batch of the loop can take its place in the
  state.
\<close>

section \<open>End events\<close>

definition getExecutionTokenActivity :: "env \<Rightarrow> nat \<Rightarrow> ExecutionToken \<Rightarrow> FlowNode em" where
  "getExecutionTokenActivity E r token =
     bind (deref r) (\<lambda>i.
     bind (case pi_Kind i of
             SubProcessInstance _ _ elementId \<Rightarrow>
               (case GetFlowNodeById (instance_container i) elementId of
                  Some (FSubProcess sp) \<Rightarrow> ret (GetFlowNodeById (sp_Container sp) (tok_ElementId token))
                | _ \<Rightarrow> panic ''interface conversion: FlowNode is not TSubProcess'')
           | _ \<Rightarrow> ret (GetFlowNodeById (instance_container i) (tok_ElementId token))) (\<lambda>currentFlowNode.
       case currentFlowNode of
         None \<Rightarrow> throw (Errorf ''failed to find flow node for execution token in process definition'')
       | Some n \<Rightarrow> bind (generateKey E) (\<lambda>_. ret n)))"

text \<open>A message end event whose task completes at once returns the completed token and leaves the
  state of the instance as it is.\<close>

definition handleMessageEndEvent :: "env \<Rightarrow> nat \<Rightarrow> TEndEvent \<Rightarrow> ExecutionToken \<Rightarrow> ExecutionToken list em" where
  "handleMessageEndEvent E r endEvent currentToken = throw_message E r (FEndEvent endEvent) currentToken"

fun end_definitions ::
  "nat \<Rightarrow> env \<Rightarrow> nat \<Rightarrow> TEndEvent \<Rightarrow> EventDefinition list \<Rightarrow> ExecutionToken \<Rightarrow> ExecutionToken list em" where
  "end_definitions F E r endEvent [] currentToken = ret []"
| "end_definitions F E r endEvent (d # ds) currentToken =
     (case d of
        TTerminateEventDefinition \<Rightarrow>
          (let currentToken' = currentToken\<lparr>tok_State := TokenStateCompleted\<rparr> in
           bind (handleTerminateEndEvent F E r currentToken') (\<lambda>tokens.
           bind (end_definitions F E r endEvent ds currentToken') (\<lambda>more. ret (tokens @ more))))
      | TMessageEventDefinition _ \<Rightarrow>
          bind (wrap (Wrapf ''failed to process messageEndEvent'') (handleMessageEndEvent E r endEvent currentToken)) (\<lambda>tokens.
          bind (end_definitions F E r endEvent ds currentToken) (\<lambda>more. ret (tokens @ more)))
      | _ \<Rightarrow> throw (Errorf ''unsupported end event definition''))"

definition handleEndEvent :: "nat \<Rightarrow> env \<Rightarrow> nat \<Rightarrow> TEndEvent \<Rightarrow> ExecutionToken \<Rightarrow> ExecutionToken list em" where
  "handleEndEvent F E r endEvent currentToken =
     (if EvenDefinitions endEvent \<noteq> []
      then end_definitions F E r endEvent (EvenDefinitions endEvent) currentToken
      else
        bind (handlePlainEndEvent r False) (\<lambda>_.
          ret [currentToken\<lparr>tok_State := TokenStateCompleted\<rparr>]))"

definition handleExternalEndEventContinuation ::
  "nat \<Rightarrow> TEndEvent \<Rightarrow> ExecutionToken \<Rightarrow> ExecutionToken list \<Rightarrow> ExecutionToken list em" where
  "handleExternalEndEventContinuation r endEvent jobToken tokens =
     (if \<exists>d \<in> set (EvenDefinitions endEvent). (case d of TMessageEventDefinition _ \<Rightarrow> True | _ \<Rightarrow> False)
      then
        bind (handlePlainEndEvent r True) (\<lambda>_.
          ret (map (\<lambda>t. if tok_Key t = tok_Key jobToken then t\<lparr>tok_State := TokenStateCompleted\<rparr> else t) tokens))
      else ret tokens)"

section \<open>Dispatch\<close>

definition process_activity :: "env \<Rightarrow> nat \<Rightarrow> FlowNode \<Rightarrow> ExecutionToken \<Rightarrow> ExecutionToken list em" where
  "process_activity E r element currentToken =
     (case GetMultiInstance element of
        Some mi \<Rightarrow> wrap (Wrapf ''failed to process MultiInstance'')
                     (handleMultiInstanceActivity E r element mi currentToken)
      | None \<Rightarrow> handleActivity E r element currentToken)"

definition processFlowNode :: "nat \<Rightarrow> env \<Rightarrow> nat \<Rightarrow> FlowNode \<Rightarrow> ExecutionToken \<Rightarrow> ExecutionToken list em" where
  "processFlowNode F E r element currentToken =
     bind (save_history E r (tok_ElementInstanceKey currentToken) (GetId element) (tok_Key currentToken)
             Map.empty Map.empty) (\<lambda>_.
       case element of
         FStartEvent _ \<Rightarrow>
           wrap (Wrapf ''failed to process StartEvent flow transition'')
             (handleElementTransition E r element currentToken)
       | FEndEvent e \<Rightarrow> wrap (Wrapf ''failed to process EndEvent'') (handleEndEvent F E r e currentToken)
       | FServiceTask _ \<Rightarrow> process_activity E r element currentToken
       | FUserTask _ \<Rightarrow> process_activity E r element currentToken
       | FCallActivity _ \<Rightarrow> process_activity E r element currentToken
       | FBusinessRuleTask _ \<Rightarrow> process_activity E r element currentToken
       | FSendTask _ \<Rightarrow> process_activity E r element currentToken
       | FSubProcess _ \<Rightarrow> process_activity E r element currentToken
       | FIntermediateCatchEvent ice \<Rightarrow>
           wrap (Wrapf ''failed to process IntermediateCatchEvent'')
             (createIntermediateCatchEvent E r ice currentToken)
       | FIntermediateThrowEvent ite \<Rightarrow>
           wrap (Wrapf ''failed to process IntermediateThrowEvent'')
             (handleIntermediateThrowEvent E r ite currentToken)
       | FExclusiveGateway g \<Rightarrow>
           wrap (Wrapf ''failed to process ExclusiveGateway'') (handleExclusiveGateway E r g currentToken)
       | FInclusiveGateway g \<Rightarrow>
           wrap (Wrapf ''failed to process InclusiveGateway'') (handleInclusiveGateway E r g currentToken)
       | FEventBasedGateway g \<Rightarrow>
           wrap (Wrapf ''failed to process EventBasedGateway'') (handleEventBasedGateway E r g currentToken)
       | FParallelGateway g \<Rightarrow>
           wrap (Wrapf ''failed to process EventBasedGateway'') (handleParallelGateway E r g currentToken)
       | FBoundaryEvent _ \<Rightarrow> panic ''[invariant check] unsupported element'')"

section \<open>The main loop\<close>

text \<open>A failed step: the incident replaces what the batch held and is flushed; the error of that flush
  joins the others.\<close>

definition token_incident :: "env \<Rightarrow> nat \<Rightarrow> ExecutionToken \<Rightarrow> error \<Rightarrow> error option \<Rightarrow> error option em" where
  "token_incident E r token err runErr =
     bind (WriteTokenIncident E token r err) (\<lambda>_.
     bind (attempt Flush) (\<lambda>x.
       ret (join_err (join_err runErr (Some err)) (case x of Inl e \<Rightarrow> Some e | Inr _ \<Rightarrow> None))))"

text \<open>The end of a successful pass: the tokens to queue, the errors so far, and whether the loop ends.\<close>

definition finish_token ::
  "env \<Rightarrow> nat \<Rightarrow> ExecutionToken \<Rightarrow> ExecutionToken list \<Rightarrow> error option \<Rightarrow> (ExecutionToken list \<times> error option \<times> bool) em" where
  "finish_token E r currentToken queued runErr =
     bind (deref r) (\<lambda>i.
     bind (if pi_State i = ActivityStateCompleted \<and> Type i \<noteq> ProcessTypeDefault
           then attempt (handleParentProcessContinuation E r) else ret (Inr ())) (\<lambda>continued.
       case continued of
         Inl e \<Rightarrow> bind (token_incident E r currentToken e runErr) (\<lambda>runErr'. ret ([], runErr', True))
       | Inr _ \<Rightarrow>
           bind (attempt Flush) (\<lambda>flushed.
             case flushed of
               Inl e \<Rightarrow>
                 bind (token_incident E r currentToken e runErr) (\<lambda>runErr'.
                   ret (queued, runErr', pi_State i = ActivityStateCompleted))
             | Inr _ \<Rightarrow> ret (queued, runErr, pi_State i = ActivityStateCompleted))))"

definition process_token ::
  "nat \<Rightarrow> env \<Rightarrow> nat \<Rightarrow> ExecutionToken \<Rightarrow> ExecutionToken list em" where
  "process_token F E r currentToken =
     bind (getExecutionTokenActivity E r currentToken) (\<lambda>element.
       processFlowNode F E r element currentToken)"

definition run_token ::
  "nat \<Rightarrow> env \<Rightarrow> nat \<Rightarrow> ExecutionToken \<Rightarrow> error option \<Rightarrow> (ExecutionToken list \<times> error option \<times> bool) em" where
  "run_token F E r currentToken runErr =
     bind NewEngineBatchClean (\<lambda>_.
       if tok_State currentToken \<noteq> TokenStateRunning then ret ([], runErr, False)
       else
         bind (attempt (process_token F E r currentToken)) (\<lambda>processed.
           case processed of
             Inl e \<Rightarrow> bind (token_incident E r currentToken e runErr) (\<lambda>runErr'. ret ([], runErr', False))
           | Inr updatedTokens \<Rightarrow>
               bind (for_each updatedTokens (\<lambda>tok. add_stmt (StToken tok))) (\<lambda>_.
               bind (do_when (runErr \<noteq> None) (set_state r ActivityStateFailed)) (\<lambda>_.
               bind (add_stmt (StProcessInstance r)) (\<lambda>_.
                 finish_token E r currentToken
                   (filter (\<lambda>t. tok_State t = TokenStateRunning) updatedTokens) runErr)))))"

primrec run_loop ::
  "nat \<Rightarrow> nat \<Rightarrow> env \<Rightarrow> nat \<Rightarrow> ExecutionToken list \<Rightarrow> error option \<Rightarrow> error option em" where
  "run_loop 0 F E r tokens runErr = (case tokens of [] \<Rightarrow> ret runErr | _ \<Rightarrow> no_fuel)"
| "run_loop (Suc n) F E r tokens runErr =
     (case tokens of
        [] \<Rightarrow> ret runErr
      | currentToken # rest \<Rightarrow>
          bind (run_token F E r currentToken runErr) (\<lambda>(queued, runErr', stop).
            if stop then ret runErr' else run_loop n F E r (rest @ queued) runErr'))"

definition save_instance :: "nat \<Rightarrow> unit em" where
  "save_instance r = modify (\<lambda>s. s\<lparr>mem := SaveProcessInstance (objs s) r (mem s)\<rparr>)"

definition exportEndProcessEvent :: "nat \<Rightarrow> unit em" where
  "exportEndProcessEvent r =
     bind (deref r) (\<lambda>i.
       modify (\<lambda>s. s\<lparr>exported := exported s @
         [EndProcessEvent (pd_BpmnProcessId (pi_Definition i)) (pd_Key (pi_Definition i))
            (pd_Version (pi_Definition i)) (pi_Key i)]\<rparr>))"

text \<open>\<^verbatim>\<open>defer\<close> of a clean-up that runs on every return.\<close>

definition finally_do :: "unit em \<Rightarrow> 'a em \<Rightarrow> 'a em" where
  "finally_do cleanup m =
     bind (attempt m) (\<lambda>x. bind cleanup (\<lambda>_. case x of Inl e \<Rightarrow> throw e | Inr v \<Rightarrow> ret v))"

definition run_locked :: "nat \<Rightarrow> nat \<Rightarrow> env \<Rightarrow> nat \<Rightarrow> ExecutionToken list \<Rightarrow> unit em" where
  "run_locked N F E r executionTokens =
     bind (wrap (Wrapf ''failed to refresh process instance'') (refresh r)) (\<lambda>_.
     bind (deref r) (\<lambda>i.
       case pi_State i of
         ActivityStateTerminated \<Rightarrow> throw (EngineError ''process instance is terminated'')
       | ActivityStateCompleted \<Rightarrow> throw (EngineError ''process instance is completed'')
       | _ \<Rightarrow>
           bind (set_state r ActivityStateActive) (\<lambda>_.
           bind (save_instance r) (\<lambda>_.
           bind (run_loop N F E r executionTokens None) (\<lambda>runErr.
           bind (deref r) (\<lambda>i'.
           bind (do_when (pi_State i' = ActivityStateCompleted \<or> pi_State i' = ActivityStateFailed)
                   (exportEndProcessEvent r)) (\<lambda>_.
             case runErr of
               Some e \<Rightarrow> throw (Joined (EngineError ''failed to run process instance'') e)
             | None \<Rightarrow> ret ())))))))"

definition RunProcessInstance :: "nat \<Rightarrow> nat \<Rightarrow> env \<Rightarrow> nat \<Rightarrow> ExecutionToken list \<Rightarrow> unit em" where
  "RunProcessInstance N F E r executionTokens =
     bind (deref r) (\<lambda>i.
     bind (lock (pi_Key i)) (\<lambda>_.
       finally_do (unlock (pi_Key i)) (run_locked N F E r executionTokens)))"

section \<open>The store changes at the flush only\<close>

lemma keeps_mem_terminate [keeps_rules]: "keeps mem (handleTerminateEndEvent F E r tok)"
  unfolding handleTerminateEndEvent_def handleProcessInstanceInnerCancel_def
  by (intro keeps_rules keeps_mem_inner)

lemma pres_lk_terminate [pres_rules]: "pres (lk H) (handleTerminateEndEvent F E r tok)"
  unfolding handleTerminateEndEvent_def handleProcessInstanceInnerCancel_def
  by (intro pres_rules pres_lk_inner)

lemma keeps_frame_message_end [keeps_rules]: "keeps frame (handleMessageEndEvent E r e tok)"
  unfolding handleMessageEndEvent_def by (intro keeps_rules)

lemma keeps_frame_plain_end [keeps_rules]: "keeps frame (handlePlainEndEvent r b)"
  unfolding handlePlainEndEvent_def by (intro keeps_rules)

lemma message_end_frames [keeps_rules, pres_rules]:
  "keeps mem (handleMessageEndEvent E r e tok)" "pres (lk H) (handleMessageEndEvent E r e tok)"
  by (intro keeps_of_frame(1) pres_lk_frame keeps_rules)+

lemma keeps_mem_end_definitions [keeps_rules]: "keeps mem (end_definitions F E r e ds tok)"
proof (induction ds arbitrary: tok)
  case (Cons d ds)
  then show ?case
    by (cases d) (auto simp: Let_def intro!: keeps_rules)
qed (simp add: keeps_basic)

lemma pres_lk_end_definitions [pres_rules]: "pres (lk H) (end_definitions F E r e ds tok)"
proof (induction ds arbitrary: tok)
  case (Cons d ds)
  then show ?case
    by (cases d) (auto simp: Let_def intro!: pres_rules)
qed (simp add: pres_basic)

lemma keeps_mem_handleEndEvent [keeps_rules]: "keeps mem (handleEndEvent F E r e tok)"
  unfolding handleEndEvent_def by (auto intro!: keeps_rules keeps_of_frame(1))

lemma pres_lk_handleEndEvent [pres_rules]: "pres (lk H) (handleEndEvent F E r e tok)"
  unfolding handleEndEvent_def by (auto intro!: pres_rules pres_lk_frame keeps_rules)

lemma keeps_frame_activity [keeps_rules]: "keeps frame (process_activity E r element tok)"
  unfolding process_activity_def by (intro keeps_rules)

lemma keeps_frame_getActivity [keeps_rules]: "keeps frame (getExecutionTokenActivity E r tok)"
  unfolding getExecutionTokenActivity_def
  by (auto intro!: keeps_rules split: instance_kind.splits option.splits FlowNode.splits)

lemma keeps_mem_processFlowNode [keeps_rules]: "keeps mem (processFlowNode F E r element tok)"
  unfolding processFlowNode_def
  by (cases element) (auto intro!: keeps_bind keeps_wrap keeps_mem_handleEndEvent intro: keeps_of_frame(1) keeps_rules)

lemma pres_lk_processFlowNode [pres_rules]: "pres (lk H) (processFlowNode F E r element tok)"
  unfolding processFlowNode_def
  by (cases element) (auto intro!: pres_bind pres_wrap pres_lk_handleEndEvent intro: pres_lk_frame keeps_rules)

lemma keeps_mem_process_token [keeps_rules]: "keeps mem (process_token F E r tok)"
  unfolding process_token_def by (intro keeps_bind keeps_mem_processFlowNode keeps_of_frame(1) keeps_frame_getActivity)

lemma pres_lk_process_token [pres_rules]: "pres (lk H) (process_token F E r tok)"
  unfolding process_token_def by (intro pres_bind pres_lk_processFlowNode pres_lk_frame keeps_frame_getActivity)

section \<open>Locks\<close>

text \<open>Operations that return no error, and operations that release the batch however they return.\<close>

named_theorems no_err_rules \<open>operations that return no error\<close>
named_theorems settles_rules \<open>operations that release the locks of the batch\<close>

definition no_err :: "'a em \<Rightarrow> bool" where
  "no_err m \<longleftrightarrow> (\<forall>s. \<not> is_Err (fst (m s)))"

lemma no_errD: "no_err m \<Longrightarrow> m s = (x, s') \<Longrightarrow> \<not> is_Err x"
  by (metis no_err_def fst_conv)

lemma no_err_basic [no_err_rules]:
  "no_err (ret x)" "no_err (gets g)" "no_err (db f)" "no_err (deref r)" "no_err (set_state r st)"
  "no_err (add_stmt st')" "no_err (panic msg)" "no_err (generateKey E)" "no_err (time_now E)"
  "no_err drop_statements" "no_err (modify h)"
  by (auto simp: no_err_def em_defs eng_simps)

lemma no_err_attempt [no_err_rules]: "no_err (attempt m)"
  by (auto simp: no_err_def attempt_def split: prod.splits res.splits)

lemma no_err_bind [no_err_rules]:
  assumes "no_err m" and "\<And>x. no_err (f x)"
  shows "no_err (bind m f)"
  unfolding no_err_def
proof
  fix s
  obtain y s1 where m: "m s = (y, s1)" by (cases "m s")
  show "\<not> is_Err (fst (bind m f s))"
    using no_errD [OF assms(1) m] assms(2) m by (cases y) (auto simp: bind_def no_err_def)
qed

lemma no_err_for_each [no_err_rules]: "(\<And>x. no_err (f x)) \<Longrightarrow> no_err (for_each xs f)"
  by (induction xs) (auto intro: no_err_rules)

lemma no_err_when [no_err_rules]: "no_err m \<Longrightarrow> no_err (do_when b m)"
  by (simp add: do_when_def no_err_basic)

lemma no_err_if [no_err_rules]: "no_err m \<Longrightarrow> no_err n \<Longrightarrow> no_err (if b then m else n)"
  by simp

lemma no_err_WriteTokenIncident [no_err_rules]: "no_err (WriteTokenIncident E tok r e)"
  unfolding WriteTokenIncident_def createNewIncidentFromToken_def Let_def by (intro no_err_rules)

definition settles :: "'a em \<Rightarrow> bool" where
  "settles m \<longleftrightarrow>
     (\<forall>H s x s'. lk H s \<longrightarrow> m s = (x, s') \<longrightarrow> is_Ok x \<or> is_Err x \<longrightarrow> released H s')"

lemma settlesI:
  assumes "\<And>H s x s'. lk H s \<Longrightarrow> m s = (x, s') \<Longrightarrow> is_Ok x \<or> is_Err x \<Longrightarrow> released H s'"
  shows "settles m"
  unfolding settles_def using assms by blast

lemma settlesD: "settles m \<Longrightarrow> lk H s \<Longrightarrow> m s = (x, s') \<Longrightarrow> is_Ok x \<or> is_Err x \<Longrightarrow> released H s'"
  unfolding settles_def by blast

lemma settles_balanced: "settles m \<Longrightarrow> balanced m"
  by (rule balancedI) (auto simp: released_def dest: settlesD)

lemma settles_Flush [settles_rules]: "settles (attempt Flush)"
proof (rule settlesI)
  fix H s x s' assume a: "lk H s" "attempt Flush s = (x, s')" "is_Ok x \<or> is_Err x"
  obtain y s1 where f: "Flush s = (y, s1)" by (cases "Flush s")
  have "s' = s1" using a f by (cases y) (auto simp: attempt_def)
  with lk_Flush [OF a(1) f] show "released H s'" by (simp add: released_def batch_touched_def clean_batch_def)
qed

lemma settles_bind:
  assumes "\<And>H. pres (lk H) m" and "no_err m" and "\<And>x. settles (f x)"
  shows "settles (bind m f)"
proof (rule settlesI)
  fix H s x s' assume a: "lk H s" "bind m f s = (x, s')" "is_Ok x \<or> is_Err x"
  obtain y s1 where m: "m s = (y, s1)" by (cases "m s")
  have 1: "lk H s1" using presD [OF assms(1) m a(1)] .
  show "released H s'"
    using no_errD [OF assms(2) m] a m settlesD [OF assms(3) 1]
    by (cases y) (auto simp: bind_def)
qed

text \<open>After the locks are released the rest runs without the batch.\<close>

lemma settles_then:
  assumes "settles m" and "\<And>x. balanced (f x)"
  shows "settles (bind m f)"
proof (rule settlesI)
  fix H s x s' assume a: "lk H s" "bind m f s = (x, s')" "is_Ok x \<or> is_Err x"
  obtain y s1 where m: "m s = (y, s1)" by (cases "m s")
  show "released H s'"
  proof (cases "is_Ok y \<or> is_Err y")
    case True
    from settlesD [OF assms(1) a(1) m True] have 1: "released H s1" .
    show ?thesis
      using True m a 1 balancedD [OF assms(2) 1] by (cases y) (auto simp: bind_def)
  qed (use a m in \<open>cases y; auto simp: bind_def\<close>)
qed

lemma settles_case_sum [settles_rules]:
  "(\<And>e. settles (g e)) \<Longrightarrow> (\<And>x. settles (f x)) \<Longrightarrow> settles (case y of Inl e \<Rightarrow> g e | Inr x \<Rightarrow> f x)"
  by (cases y) auto

lemma settles_token_incident: "settles (token_incident E r tok e runErr)"
  unfolding token_incident_def
  by (intro settles_bind settles_then settles_Flush pres_rules no_err_rules balanced_rules)

lemma settles_finish_token: "settles (finish_token E r tok more_tokens runErr)"
  unfolding finish_token_def
  by (intro settles_bind settles_case_sum settles_then [OF settles_token_incident]
      settles_then [OF settles_Flush] balanced_case_sum balanced_bind balanced_basic pres_rules no_err_rules
      settles_balanced [OF settles_token_incident])

lemma balanced_NewEngineBatchClean [balanced_rules]: "balanced NewEngineBatchClean"
  by (rule balancedI)
    (auto simp: NewEngineBatchClean_def upd_batch_def eng_simps released_def lk_def batch_touched_def clean_batch_def)

lemma balanced_run_token [balanced_rules]: "balanced (run_token F E r tok runErr)"
proof -
  have "settles (bind (attempt (process_token F E r tok)) (\<lambda>processed.
           case processed of
             Inl e \<Rightarrow> bind (token_incident E r tok e runErr) (\<lambda>runErr'. ret ([], runErr', False))
           | Inr updatedTokens \<Rightarrow>
               bind (for_each updatedTokens (\<lambda>tok. add_stmt (StToken tok))) (\<lambda>_.
               bind (do_when (runErr \<noteq> None) (set_state r ActivityStateFailed)) (\<lambda>_.
               bind (add_stmt (StProcessInstance r)) (\<lambda>_.
                 finish_token E r tok
                   (filter (\<lambda>t. tok_State t = TokenStateRunning) updatedTokens) runErr)))))"
    by (intro settles_bind settles_case_sum settles_then [OF settles_token_incident] balanced_basic
        settles_finish_token pres_rules no_err_rules)
  from settles_balanced [OF this] show ?thesis
    unfolding run_token_def
    by (intro balanced_bind [OF balanced_NewEngineBatchClean] balanced_if balanced_basic(1)) assumption
qed

lemma balanced_no_fuel [balanced_rules]: "balanced no_fuel"
  by (rule balancedI) (auto simp: eng_simps)

lemma balanced_case_list [balanced_rules]:
  "balanced m \<Longrightarrow> (\<And>x xs. balanced (f x xs)) \<Longrightarrow> balanced (case y of [] \<Rightarrow> m | x # xs \<Rightarrow> f x xs)"
  by (cases y) auto

lemma balanced_case_prod [balanced_rules]:
  "(\<And>x z. balanced (f x z)) \<Longrightarrow> balanced (case y of (x, z) \<Rightarrow> f x z)"
  by (cases y) auto

lemma balanced_when [balanced_rules]: "balanced m \<Longrightarrow> balanced (do_when b m)"
  by (simp add: do_when_def balanced_basic)

lemma balanced_run_loop [balanced_rules]: "balanced (run_loop n F E r toks runErr)"
proof (induction n arbitrary: toks runErr)
  case (Suc n)
  then show ?case unfolding run_loop.simps by (intro balanced_rules)
qed (auto intro!: balanced_rules)

lemma balanced_updates [balanced_rules]:
  "balanced (set_state r st)" "balanced (refresh r)" "balanced (save_instance r)" "balanced (exportEndProcessEvent r)"
proof -
  show "balanced (set_state r st)" "balanced (refresh r)" by (intro balanced_frame keeps_rules)+
  show "balanced (save_instance r)"
    by (auto simp: balanced_def save_instance_def eng_simps released_def lk_def batch_touched_def)
  have "balanced (modify (\<lambda>s. s\<lparr>exported := exported s @ es\<rparr>))" for es
    by (auto simp: balanced_def eng_simps released_def lk_def batch_touched_def)
  then show "balanced (exportEndProcessEvent r)"
    unfolding exportEndProcessEvent_def by (intro balanced_bind balanced_basic)
qed

lemma balanced_run_locked [balanced_rules]: "balanced (run_locked N F E r toks)"
  unfolding run_locked_def
  by (intro balanced_rules) (auto intro!: balanced_rules split: ActivityState.splits)

text \<open>Locking around an operation that gives back what it locks.\<close>

lemma released_lock:
  assumes "released H s" and "lock k s = (Ok (), s1)"
  shows "released (\<lambda>j. j = k \<or> H j) s1" and "\<not> H k"
  using assms held_after_lock [OF assms(2)] by (auto simp: released_def lk_def batch_touched_def lock_Ok)

lemma released_unlock:
  assumes "released (\<lambda>j. j = k \<or> H j) s" and "\<not> H k" and "unlock k s = (x, s1)"
  shows "x = Ok ()" and "released H s1"
proof -
  have k: "held (running s) k" using released_held [OF assms(1)] by simp
  note u = held_after_unlock [OF assms(3) k]
  from u show "x = Ok ()" by blast
  have "batch s1 = batch s" using assms(3) by (auto simp: unlock_def split: option.splits)
  with assms(1,2) u show "released H s1" by (auto simp: released_def lk_def batch_touched_def)
qed

lemma balanced_locked:
  assumes "balanced m"
  shows "balanced (bind (lock k) (\<lambda>_. finally_do (unlock k) m))"
proof (rule balancedI)
  fix H s x s' assume a: "released H s" "bind (lock k) (\<lambda>_. finally_do (unlock k) m) s = (x, s')"
    "is_Ok x \<or> is_Err x"
  obtain y s1 where l: "lock k s = (y, s1)" by (cases "lock k s")
  have y: "y = Ok () \<or> y = Blocked" using l by (auto simp: lock_def split: prod.splits bool.splits)
  with a l have ok: "y = Ok ()" by (auto simp: bind_def)
  note L = released_lock [OF a(1) l [unfolded ok]]
  obtain z s2 where m: "m s1 = (z, s2)" by (cases "m s1")
  obtain w s3 where u: "unlock k s2 = (w, s3)" by (cases "unlock k s2")
  have z: "is_Ok z \<or> is_Err z" using a l ok m by (cases z) (auto simp: bind_def finally_do_def attempt_def)
  from balancedD [OF assms L(1) m z] have "released (\<lambda>j. j = k \<or> H j) s2" .
  note U = released_unlock [OF this L(2) u]
  have "s' = s3" using a l ok m u z U(1)
    by (cases z) (auto simp: bind_def finally_do_def attempt_def eng_simps)
  with U(2) show "released H s'" by simp
qed

lemma balanced_RunProcessInstance [balanced_rules]: "balanced (RunProcessInstance N F E r toks)"
  unfolding RunProcessInstance_def by (intro balanced_bind balanced_basic balanced_locked balanced_run_locked)

section \<open>Failed steps\<close>

definition failed_token :: "ExecutionToken \<Rightarrow> ExecutionToken" where
  "failed_token t = t\<lparr>tok_State := TokenStateFailed\<rparr>"

lemma token_incident_eval:
  assumes "lk H s"
  obtains inc s' where "token_incident E r tok e runErr s = (Ok (join_err runErr (Some e)), s')"
    and "inc_Token inc = failed_token tok" and "inc_Message inc = e" and "inc_ResolvedAt inc = None"
    and "objs s' = (objs s)[r := (objs s ! r)\<lparr>pi_State := ActivityStateFailed\<rparr>]"
    and "mem s' = SaveIncident inc (SaveProcessInstance (objs s') r (SaveToken (failed_token tok) (mem s)))"
    and "released H s'"
proof -
  let ?t = "failed_token tok"
  let ?o = "(objs s)[r := (objs s ! r)\<lparr>pi_State := ActivityStateFailed\<rparr>]"
  let ?inc = "\<lparr>inc_Key = gen E (keyc s), inc_ElementInstanceKey = tok_ElementInstanceKey tok,
      inc_ElementId = tok_ElementId tok, inc_ProcessInstanceKey = tok_ProcessInstanceKey tok, inc_Message = e,
      inc_CreatedAt = clock E (tickc s), inc_ResolvedAt = None, inc_Token = ?t\<rparr>"
  let ?s1 = "s\<lparr>objs := ?o, keyc := Suc (keyc s), tickc := Suc (tickc s), batch := clean_batch
      \<lparr>touchedInstances := touchedInstances (batch s), b_stmts := [StToken ?t, StProcessInstance r, StIncident ?inc]\<rparr>\<rparr>"
  have w: "WriteTokenIncident E tok r e s = (Ok (), ?s1)"
    by (simp add: WriteTokenIncident_def Let_def bind_def drop_statements_def upd_batch_def set_state_def
        update_instance_def add_stmt_def createNewIncidentFromToken_def generateKey_def time_now_def eng_simps
        failed_token_def clean_batch_def)
  obtain x s' where f: "Flush ?s1 = (x, s')" by (cases "Flush ?s1")
  have lk1: "lk H ?s1" by (rule lk_batch_touched_cong [OF assms]) (simp_all add: batch_touched_def)
  note F = lk_Flush [OF lk1 f]
  have ok: "flush_error ?s1 = None"
    "flush_mem ?s1 = SaveIncident ?inc (SaveProcessInstance ?o r (SaveToken ?t (mem s)))"
    by (simp_all add: flush_error_def flush_mem_def clean_batch_def StorageBatch_Flush_def join_err_def)
  have "token_incident E r tok e runErr s = (Ok (join_err runErr (Some e)), s')"
    using F ok f w by (simp add: token_incident_def bind_def attempt_def eng_simps join_err_def split: option.splits)
  moreover have "released H s'" using F by (simp add: released_def batch_touched_def clean_batch_def)
  ultimately show ?thesis using that [of s' ?inc] F ok by simp
qed

text \<open>C2. A step of the main loop that fails is rolled back: when processing the token returns an
  error, nothing the handlers put into the batch reaches the store; exactly the failed token, the
  failed instance and an open incident with the error are written, no token is queued, the error is
  joined to those before, and the loop goes on with all locks of the step given back.\<close>

theorem failed_step_writes_only_the_incident:
  assumes "released H s" and "tok_State tok = TokenStateRunning"
    and "process_token F E r tok (s\<lparr>batch := clean_batch\<rparr>) = (Err e, s1)"
  shows "\<exists>inc s'. run_token F E r tok runErr s = (Ok ([], join_err runErr (Some e), False), s') \<and>
    inc_Token inc = failed_token tok \<and> inc_Message inc = e \<and> inc_ResolvedAt inc = None \<and>
    objs s' = (objs s1)[r := (objs s1 ! r)\<lparr>pi_State := ActivityStateFailed\<rparr>] \<and>
    mem s' = SaveIncident inc (SaveProcessInstance (objs s') r (SaveToken (failed_token tok) (mem s))) \<and>
    (\<forall>k. held (running s') k \<longleftrightarrow> H k)"
proof -
  have "lk H (s\<lparr>batch := clean_batch\<rparr>)"
    using assms(1) by (auto simp: released_def lk_def batch_touched_def clean_batch_def)
  then have lk1: "lk H s1" using presD [OF pres_lk_process_token assms(3)] by blast
  have m1: "mem s1 = mem s" using keepsD [OF keeps_mem_process_token assms(3)] by simp
  from token_incident_eval [OF lk1, of E r tok e runErr] obtain inc s' where
    t: "token_incident E r tok e runErr s1 = (Ok (join_err runErr (Some e)), s')"
    and i: "inc_Token inc = failed_token tok" "inc_Message inc = e" "inc_ResolvedAt inc = None"
    and o: "objs s' = (objs s1)[r := (objs s1 ! r)\<lparr>pi_State := ActivityStateFailed\<rparr>]"
    and m: "mem s' = SaveIncident inc (SaveProcessInstance (objs s') r (SaveToken (failed_token tok) (mem s1)))"
    and rel: "released H s'" .
  have "run_token F E r tok runErr s = (Ok ([], join_err runErr (Some e), False), s')"
    using assms(2,3) t
    by (simp add: run_token_def NewEngineBatchClean_def upd_batch_def bind_def attempt_def eng_simps)
  moreover have "held (running s') k \<longleftrightarrow> H k" for k using released_held [OF rel] .
  ultimately show ?thesis using i o m m1 by metis
qed

theorem failed_step_writes_only_the_incident_witness:
  "\<exists>inc s'. run_token 1 demo_env 0 (demo_token ''nowhere'' TokenStateRunning) None demo_busy =
      (Ok ([], Some (Errorf ''failed to find flow node for execution token in process definition''), False), s') \<and>
    tget (Incidents (mem s')) (inc_Key inc) = Some inc \<and> inc_Token inc = demo_token ''nowhere'' TokenStateFailed"
proof -
  let ?t = "demo_token ''nowhere'' TokenStateRunning"
  let ?e = "Errorf ''failed to find flow node for execution token in process definition''"
  have p: "process_token 1 demo_env 0 ?t (demo_busy\<lparr>batch := clean_batch\<rparr>) = (Err ?e, demo_busy\<lparr>batch := clean_batch\<rparr>)"
    by (simp add: process_token_def getExecutionTokenActivity_def bind_def deref_def demo_busy_def NewEngine_def
        bare_instance_def bare_pd_def instance_container_def instance_definitions_def by_id_def eng_simps)
  have run: "tok_State ?t = TokenStateRunning" by (simp add: demo_token_def)
  from failed_step_writes_only_the_incident [OF demo_busy_released run p, of None] show ?thesis
    by (auto simp: SaveIncident_def failed_token_def demo_token_def join_err_def)
qed

section \<open>Finished and locked instances\<close>

text \<open>\<^verbatim>\<open>RunProcessInstance\<close> on a stored instance that is completed or terminated returns an error
  and leaves the store, the exported events and the locks as they were; while another goroutine holds
  the lock of the instance it blocks, and has not touched the store either.\<close>

theorem finished_instance_is_not_run:
  assumes "released H s" and "inst_wf (objs s) (mem s)" and "stored (mem s) r" and "is_final (pi_State (objs s ! r))"
  shows "\<exists>x s'. RunProcessInstance N F E r toks s = (x, s') \<and> mem s' = mem s \<and> exported s' = exported s \<and>
    (if H (pi_Key (objs s ! r)) then x = Blocked
     else is_Err x \<and> (\<forall>j. held (running s') j \<longleftrightarrow> H j))"
proof -
  let ?k = "pi_Key (objs s ! r)"
  from assms have r: "r < length (objs s)" by (auto simp: stored_def inst_wf_def)
  obtain y s1 where l: "lock ?k s = (y, s1)" by (cases "lock ?k s")
  have s1: "mem s1 = mem s" "objs s1 = objs s" "exported s1 = exported s"
    using l by (auto simp: lock_def split: prod.splits bool.splits)
  show ?thesis
  proof (cases "H ?k")
    case True
    then have "held (running s) ?k" using released_held [OF assms(1)] by simp
    then have "y \<noteq> Ok ()" using l lock_Ok by blast
    then have "y = Blocked" using l by (auto simp: lock_def split: prod.splits bool.splits)
    with l r s1 True show ?thesis by (auto simp: RunProcessInstance_def bind_def deref_def)
  next
    case False
    then have "\<not> held (running s) ?k" using released_held [OF assms(1)] by simp
    then have y: "y = Ok ()" using l lock_Ok [of ?k s] by auto
    from refresh_stored [OF assms(2,3)] obtain h where h: "RefreshProcessInstance (mem s) r (objs s) = Inr h"
      "length h = length (objs s)" "pi_State (h ! r) = pi_State (objs s ! r)" by metis
    have "\<exists>e. run_locked N F E r toks s1 = (Err e, s1\<lparr>objs := h\<rparr>)"
      using h r s1 assms(4)
      by (auto simp: run_locked_def bind_def refresh_def wrap_def deref_def is_final_def eng_simps)
    then obtain e where e: "run_locked N F E r toks s1 = (Err e, s1\<lparr>objs := h\<rparr>)" by blast
    obtain w s3 where u: "unlock ?k (s1\<lparr>objs := h\<rparr>) = (w, s3)" by (cases "unlock ?k (s1\<lparr>objs := h\<rparr>)")
    have "released (\<lambda>j. j = ?k \<or> H j) (s1\<lparr>objs := h\<rparr>)"
      using released_lock(1) [OF assms(1) l [unfolded y]] by (simp add: released_def lk_def batch_touched_def)
    note U = released_unlock [OF this False u]
    have "mem s3 = mem s" "exported s3 = exported s"
      using u s1 by (auto simp: unlock_def split: option.splits)
    moreover have "RunProcessInstance N F E r toks s = (Err e, s3)"
      using r l y e u U(1) by (simp add: RunProcessInstance_def bind_def deref_def finally_do_def attempt_def eng_simps)
    ultimately show ?thesis using False released_held [OF U(2)] by simp
  qed
qed

theorem finished_instance_is_not_run_witness:
  "is_Err (fst (RunProcessInstance 1 1 demo_env 0 [demo_token ''start'' TokenStateRunning]
     (demo_busy\<lparr>objs := [bare_instance\<lparr>pi_State := ActivityStateTerminated\<rparr>, demo_child]\<rparr>)))"
proof -
  let ?s = "demo_busy\<lparr>objs := [bare_instance\<lparr>pi_State := ActivityStateTerminated\<rparr>, demo_child]\<rparr>"
  have rel: "released (\<lambda>_. False) ?s"
    using demo_busy_released by (simp add: released_def lk_def batch_touched_def)
  have wf: "inst_wf (objs ?s) (mem ?s)" using demo_busy_inst_wf
    by (auto simp: inst_wf_def demo_busy_def NewEngine_def demo_child_def bare_instance_def twf_def tget_def
        split: if_splits)
  have st: "stored (mem ?s) 0"
    unfolding stored_def by (rule exI [of _ 500]) (simp add: demo_busy_def NewEngine_def tget_def)
  have fin: "is_final (pi_State (objs ?s ! 0))" by (simp add: is_final_def)
  from finished_instance_is_not_run [OF rel wf st fin, of 1 1 demo_env "[demo_token ''start'' TokenStateRunning]"]
  show ?thesis by auto
qed

end
