(* ===== verification/Engine_Api.thy ===== *)
theory Engine_Api
  imports Engine_Run
begin

text \<open>
  The public operations that create, move and change instances: \<^verbatim>\<open>engine_api.go\<close>, \<^verbatim>\<open>events_api.go\<close>,
  \<^verbatim>\<open>timer_api.go\<close>, \<^verbatim>\<open>incident_api.go\<close>, the completion of jobs in \<^verbatim>\<open>jobs_api.go\<close>, and the deployment of
  process definitions in \<^verbatim>\<open>xml_loader.go\<close>.

  \<open>N\<close> bounds the passes of the main loop and \<open>F\<close> the depth of cancelled calls, as in the main loop.
\<close>

section \<open>Creating instances\<close>

text \<open>These operations work on a plain storage batch, not on an engine batch: nothing is locked.\<close>

definition flush_storage :: "unit em" where
  "flush_storage =
     bind (gets batch) (\<lambda>b.
     bind (run_batch (b_stmts b)) (\<lambda>err.
     bind (upd_batch (\<lambda>_. clean_batch)) (\<lambda>_.
       case err of None \<Rightarrow> ret () | Some e \<Rightarrow> throw e)))"

definition CreateInstance :: "nat \<Rightarrow> nat \<Rightarrow> env \<Rightarrow> ProcessDefinition \<Rightarrow> vars \<Rightarrow> nat em" where
  "CreateInstance N F E process variableContext =
     bind NewEngineBatchClean (\<lambda>_.
     bind (createInstance E process variableContext DefaultProcessInstance None) (\<lambda>(r, executionTokens).
     bind (wrap (Wrapf ''failed to start process instance'') flush_storage) (\<lambda>_.
     bind (wrap (Wrapf ''failed to run process instance'') (RunProcessInstance N F E r executionTokens)) (\<lambda>_.
       ret r))))"

definition CreateInstanceById :: "nat \<Rightarrow> nat \<Rightarrow> env \<Rightarrow> string \<Rightarrow> vars \<Rightarrow> nat em" where
  "CreateInstanceById N F E processId variableContext =
     bind (wrap (Joined (EngineError ''no process definition with id was found''))
             (db_find (\<lambda>d. FindLatestProcessDefinitionById d processId))) (\<lambda>processDefinition.
       wrap (Joined (EngineError ''failed to create process instance''))
         (CreateInstance N F E processDefinition variableContext))"

definition CreateInstanceByKey :: "nat \<Rightarrow> nat \<Rightarrow> env \<Rightarrow> int \<Rightarrow> vars \<Rightarrow> nat em" where
  "CreateInstanceByKey N F E definitionKey variableContext =
     bind (wrap (Joined (EngineError ''no process definition with key was found''))
             (db_find (\<lambda>d. FindProcessDefinitionByKey d definitionKey))) (\<lambda>processDefinition.
       wrap (Joined (EngineError ''failed to create process instance with definition key''))
         (CreateInstance N F E processDefinition variableContext))"

definition starting_nodes :: "ProcessDefinition \<Rightarrow> string list \<Rightarrow> string list em" where
  "starting_nodes processDefinition startingElementIds =
     map_each startingElementIds (\<lambda>i.
       case GetFlowNodeById (proc_Container (def_Process (pd_Definitions processDefinition))) i of
         None \<Rightarrow> throw (Errorf ''could not find starting flow node with id in process definition'')
       | Some n \<Rightarrow> ret (GetId n))"

definition CreateInstanceWithStartingElements ::
  "nat \<Rightarrow> nat \<Rightarrow> env \<Rightarrow> int \<Rightarrow> string list \<Rightarrow> vars \<Rightarrow> nat em" where
  "CreateInstanceWithStartingElements N F E processDefinitionKey startingElementIds variableContext =
     bind (wrap (Joined (EngineError ''no process definition with key was found''))
             (db_find (\<lambda>d. FindProcessDefinitionByKey d processDefinitionKey))) (\<lambda>processDefinition.
     bind (starting_nodes processDefinition startingElementIds) (\<lambda>startingFlowNodes.
     bind NewEngineBatchClean (\<lambda>_.
     bind (createInstanceWithStartingElements E processDefinition startingFlowNodes variableContext
             DefaultProcessInstance None) (\<lambda>(r, executionTokens).
     bind (wrap (Wrapf ''failed to start process instance'') flush_storage) (\<lambda>_.
     bind (wrap (Wrapf ''failed to run process instance'') (RunProcessInstance N F E r executionTokens)) (\<lambda>_.
       ret r))))))"

section \<open>Changing instances\<close>

definition modify_batch ::
  "nat \<Rightarrow> env \<Rightarrow> nat \<Rightarrow> int \<Rightarrow> int list \<Rightarrow> string list \<Rightarrow> vars \<Rightarrow> ExecutionToken list em" where
  "modify_batch F E r processInstanceKey toTerminate toStart variableContext =
     bind (if toTerminate \<noteq> [] then terminateExecutionTokens F E toTerminate processInstanceKey else ret []) (\<lambda>activeTokensLeft.
     bind (startExecutionTokens E r toStart) (\<lambda>startedTokens.
     bind (deref r) (\<lambda>i.
     bind (set_variables r (pi_Variables i ++ variableContext)) (\<lambda>_.
     bind (add_stmt (StProcessInstance r)) (\<lambda>_.
     bind (wrap (Wrapf ''failed to modify process instance'') Flush) (\<lambda>_.
       ret (activeTokensLeft @ startedTokens)))))))"

definition ModifyInstance ::
  "nat \<Rightarrow> nat \<Rightarrow> env \<Rightarrow> int \<Rightarrow> int list \<Rightarrow> string list \<Rightarrow> vars \<Rightarrow> (nat \<times> ExecutionToken list) em" where
  "ModifyInstance N F E processInstanceKey toTerminate toStart variableContext =
     bind (wrap (Wrapf ''failed to find process instance'')
             (db_find (\<lambda>d. FindProcessInstanceByKey d processInstanceKey))) (\<lambda>r.
     bind (wrap (Wrapf ''failed to create engine batch'') (NewEngineBatch r)) (\<lambda>_.
       on_error Clear
         (bind (modify_batch F E r processInstanceKey toTerminate toStart variableContext) (\<lambda>activeTokens.
          bind (RunProcessInstance N F E r activeTokens) (\<lambda>_. ret (r, activeTokens))))))"

definition DeleteInstanceVariable :: "int \<Rightarrow> string \<Rightarrow> nat em" where
  "DeleteInstanceVariable processInstanceKey variable =
     bind (lock processInstanceKey) (\<lambda>_.
       finally_do (unlock processInstanceKey)
         (bind (wrap (Wrapf ''failed to find process instance'')
                  (db_find (\<lambda>d. FindProcessInstanceByKey d processInstanceKey))) (\<lambda>r.
          bind NewEngineBatchClean (\<lambda>_.
          bind (deref r) (\<lambda>i.
          bind (set_variables r ((pi_Variables i)(variable := None))) (\<lambda>_.
          bind (add_stmt (StProcessInstance r)) (\<lambda>_.
          bind (wrap (Wrapf ''failed to delete variable for process instance'') flush_storage) (\<lambda>_.
            ret r))))))))"

section \<open>Completing a job\<close>

definition end_event_continuation ::
  "nat \<Rightarrow> FlowNode \<Rightarrow> ExecutionToken \<Rightarrow> ExecutionToken list \<Rightarrow> (ExecutionToken list \<times> bool) em" where
  "end_event_continuation r element jobToken tokens =
     (case element of
        FEndEvent e \<Rightarrow>
          bind (wrap (Wrapf ''failed to handle message end event continuation'')
                  (handleExternalEndEventContinuation r e jobToken tokens)) (\<lambda>tokens'. ret (tokens', True))
      | _ \<Rightarrow> ret (tokens, False))"

text \<open>The error of \<^verbatim>\<open>getExecutionTokenActivity\<close> is not looked at: its activity is dereferenced, and a
  missing one panics.\<close>

definition complete_job :: "env \<Rightarrow> nat \<Rightarrow> int \<Rightarrow> vars \<Rightarrow> (bool \<times> ExecutionToken list) em" where
  "complete_job E r jobKey variables =
     bind (wrap (\<lambda>_. EngineError ''failed to find job with key'') (db_find (\<lambda>d. FindJobByJobKey d jobKey))) (\<lambda>job.
     bind (check_job_open job) (\<lambda>_.
     bind (deref r) (\<lambda>i.
       case GetInternalTaskById (instance_container i) (tok_ElementId (job_Token job)) of
         None \<Rightarrow> throw (EngineError ''failed to find task element for job'')
       | Some task \<Rightarrow>
           bind (wrap (\<lambda>_. EngineError ''failed to map output variables for job'')
                   (propagate_output E r (GetOutputMapping task) variables)) (\<lambda>outputVariables.
           bind (add_stmt (StUpdateOutput (tok_ElementInstanceKey (job_Token job)) outputVariables)) (\<lambda>_.
           bind (cancelBoundarySubscriptions (job_Token job)) (\<lambda>_.
           bind (wrap (Wrapf ''failed to complete job'') (handleElementTransition E r task (job_Token job))) (\<lambda>tokens.
           bind (add_stmt (StJob (job\<lparr>job_State := ActivityStateCompleted\<rparr>))) (\<lambda>_.
           bind (attempt (getExecutionTokenActivity E r (job_Token job))) (\<lambda>x.
             case x of
               Inl _ \<Rightarrow> panic ''invalid memory address or nil pointer dereference''
             | Inr element \<Rightarrow>
                 bind (end_event_continuation r element (job_Token job) tokens) (\<lambda>(tokens', messageEndEventHandled).
                 bind (for_each tokens' (\<lambda>t. add_stmt (StToken t))) (\<lambda>_.
                 bind (add_stmt (StProcessInstance r)) (\<lambda>_.
                 bind (deref r) (\<lambda>i'.
                   if pi_State i' = ActivityStateCompleted \<and> Type i' \<noteq> ProcessTypeDefault
                   then
                     bind (wrap (Wrapf ''failed to handle parent process continuation for job'')
                             (handleParentProcessContinuation E r)) (\<lambda>_.
                     bind (wrap (Wrapf ''failed to complete job'') Flush) (\<lambda>_. ret (False, tokens')))
                   else
                     bind (wrap (Wrapf ''failed to complete job'') Flush) (\<lambda>_.
                       ret (\<not> messageEndEventHandled, tokens')))))))))))))))"

definition JobCompleteByKey :: "nat \<Rightarrow> nat \<Rightarrow> env \<Rightarrow> int \<Rightarrow> vars \<Rightarrow> unit em" where
  "JobCompleteByKey N F E jobKey variables =
     bind (wrap (\<lambda>_. EngineError ''failed to find job with key'') (db_find (\<lambda>d. FindJobByJobKey d jobKey))) (\<lambda>job.
       if job_State job = ActivityStateCompleted then ret ()
       else
         bind (wrap (\<lambda>_. EngineError ''failed to find process instance with key'')
                 (db_find (\<lambda>d. FindProcessInstanceByKey d (job_ProcessInstanceKey job)))) (\<lambda>r.
         bind (wrap (\<lambda>_. EngineError ''failed to create engine batch'') (NewEngineBatch r)) (\<lambda>_.
           on_error Clear
             (bind (complete_job E r jobKey variables) (\<lambda>(go, tokens).
                do_when go (wrap (Wrapf ''failed to run process instance'') (RunProcessInstance N F E r tokens)))))))"

section \<open>Publishing messages\<close>

text \<open>What a failed publication writes: the failed message and the failed instance, flushed; then an
  error is returned in any case. On a listener the flush overwrites the error, so that the cause is lost.\<close>

definition message_failure :: "nat \<Rightarrow> MessageSubscription \<Rightarrow> error \<Rightarrow> ExecutionToken list em" where
  "message_failure r message err =
     bind (set_state r ActivityStateFailed) (\<lambda>_.
     bind (WriteMessageIncident (message\<lparr>ms_State := ActivityStateFailed\<rparr>) r) (\<lambda>_.
     bind (wrap (Joined (EngineError ''failed to flush and failed to publish message to listener in instance'')) Flush) (\<lambda>_.
       throw err)))"

definition check_subscription_open :: "MessageSubscription \<Rightarrow> unit em" where
  "check_subscription_open message =
     (case ms_State message of
        ActivityStateCompleted \<Rightarrow> throw (EngineError ''message subscription already completed'')
      | ActivityStateTerminated \<Rightarrow> throw (EngineError ''message subscription already terminated'')
      | _ \<Rightarrow> ret ())"

definition publish_batch :: "nat \<Rightarrow> env \<Rightarrow> nat \<Rightarrow> int \<Rightarrow> vars \<Rightarrow> ExecutionToken list em" where
  "publish_batch F E r subscriptionKey variables =
     bind (wrap (Joined (EngineError ''failed to find active message subscription''))
             (db_find (\<lambda>d. FindMessageSubscriptionById d subscriptionKey ActivityStateActive))) (\<lambda>message.
     bind (check_subscription_open message) (\<lambda>_.
     bind (deref r) (\<lambda>i.
       case GetFlowNodeById (instance_container i) (tok_ElementId (ms_Token message)) of
         Some (FEventBasedGateway g) \<Rightarrow>
           bind (wrap (Wrapf ''failed to publishEventOnEventGateway'')
                   (publishEventOnEventGateway E r g (GatewayMessage message) variables)) (\<lambda>tokens.
           bind (wrap (Wrapf ''failed to flush publish message'') Flush) (\<lambda>_. ret tokens))
       | Some (FIntermediateCatchEvent ice) \<Rightarrow>
           bind (attempt (publishMessageOnListener E r ice message variables)) (\<lambda>x.
             case x of
               Inl _ \<Rightarrow> message_failure r message (EngineError ''failed to publish message to listener in instance'')
             | Inr tokens \<Rightarrow>
                 bind (wrap (Wrapf ''failed to flush publish message batch'') Flush) (\<lambda>_. ret tokens))
       | Some n \<Rightarrow>
           if as_Activity n \<noteq> None
           then
             bind (attempt (handleBoundaryMessage F E r message variables)) (\<lambda>x.
               case x of
                 Inl e \<Rightarrow> message_failure r message (Joined (EngineError ''failed to publish message to task'') e)
               | Inr tokens \<Rightarrow>
                   bind (wrap (Wrapf ''failed to flush publish message batch'') Flush) (\<lambda>_. ret tokens))
           else throw (EngineError ''failed to publish message to instance. Unexpected node type'')
       | None \<Rightarrow> throw (EngineError ''failed to publish message to instance. Unexpected node type''))))"

definition PublishMessage :: "nat \<Rightarrow> nat \<Rightarrow> env \<Rightarrow> int \<Rightarrow> vars \<Rightarrow> unit em" where
  "PublishMessage N F E subscriptionKey variables =
     bind (wrap (Joined (EngineError ''failed to find active message subscription''))
             (db_find (\<lambda>d. FindMessageSubscriptionById d subscriptionKey ActivityStateActive))) (\<lambda>message.
     bind (wrap (Joined (EngineError ''no process instance with key''))
             (db_find (\<lambda>d. FindProcessInstanceByKey d (ms_ProcessInstanceKey message)))) (\<lambda>r.
     bind (wrap (Wrapf ''failed to create engine batch'') (NewEngineBatch r)) (\<lambda>_.
       on_error Clear
         (bind (publish_batch F E r subscriptionKey variables) (\<lambda>tokens. RunProcessInstance N F E r tokens)))))"

definition PublishMessageByName :: "nat \<Rightarrow> nat \<Rightarrow> env \<Rightarrow> string \<Rightarrow> string \<Rightarrow> vars \<Rightarrow> unit em" where
  "PublishMessageByName N F E name correlationKey variables =
     bind (wrap (Joined (EngineError ''failed to find active message subscription''))
             (db_find (\<lambda>d. FindActiveMessageSubscriptionKey d name correlationKey))) (\<lambda>subscriptionKey.
       PublishMessage N F E subscriptionKey variables)"

section \<open>Timers\<close>

text \<open>\<^verbatim>\<open>TriggerTimer\<close> clears the batch on some of its errors only: not when the timer is missing,
  triggered or cancelled, nor for an unexpected node.\<close>

definition trigger_batch :: "nat \<Rightarrow> env \<Rightarrow> nat \<Rightarrow> FlowNode \<Rightarrow> Timer \<Rightarrow> ExecutionToken list em" where
  "trigger_batch F E r tokenNode timer =
     (case tokenNode of
        FEventBasedGateway g \<Rightarrow>
          bind (on_error Clear (wrap (Wrapf ''failed to handle timer event gateway transition'')
                  (publishEventOnEventGateway E r g (GatewayTimer timer) Map.empty))) (\<lambda>tokens.
          bind (wrap (Wrapf ''failed to flush trigger timer batch'') Flush) (\<lambda>_. ret tokens))
      | FIntermediateCatchEvent ice \<Rightarrow>
          bind (add_stmt (StTimer (timer\<lparr>tm_State := TimerStateTriggered\<rparr>))) (\<lambda>_.
          bind (on_error Clear (wrap (Wrapf ''failed to handle timer transition'')
                  (handleElementTransition E r (FIntermediateCatchEvent ice) (tm_Token timer)))) (\<lambda>tokens.
          bind (on_error Clear (wrap (Wrapf ''failed to flush trigger timer batch'') Flush)) (\<lambda>_. ret tokens)))
      | n \<Rightarrow>
          if as_Activity n \<noteq> None
          then
            bind (on_error Clear (wrap (Wrapf ''failed to handle timer transition'')
                    (handleBoundaryTimer F E r timer))) (\<lambda>tokens.
            bind (on_error Clear (wrap (Wrapf ''failed to flush trigger timer batch'') Flush)) (\<lambda>_. ret tokens))
          else throw (EngineError ''failed to trigger timer. Unexpected node type''))"

definition TriggerTimer :: "nat \<Rightarrow> env \<Rightarrow> Timer \<Rightarrow> (nat \<times> ExecutionToken list) em" where
  "TriggerTimer F E timer =
     bind (wrap (Joined (EngineError ''failed to find process instance with key''))
             (db_find (\<lambda>d. FindProcessInstanceByKey d (tm_ProcessInstanceKey timer)))) (\<lambda>r.
     bind (deref r) (\<lambda>i.
       case GetFlowNodeById (instance_container i) (tok_ElementId (tm_Token timer)) of
         None \<Rightarrow> panic ''invalid memory address or nil pointer dereference''
       | Some tokenNode \<Rightarrow>
           if GetId tokenNode = [] then throw (EngineError ''failed to find timer node with elementId'')
           else
             bind (wrap (\<lambda>_. EngineError ''failed to create batch for timer'') (NewEngineBatch r)) (\<lambda>_.
             bind (wrap (\<lambda>_. EngineError ''failed to find timer'') (db_find (\<lambda>d. GetTimer d (tm_Key timer)))) (\<lambda>timer'.
               case tm_State timer' of
                 TimerStateTriggered \<Rightarrow> throw (EngineError ''timer is already triggered'')
               | TimerStateCancelled \<Rightarrow> throw (EngineError ''timer is already cancelled'')
               | _ \<Rightarrow>
                   bind (trigger_batch F E r tokenNode timer') (\<lambda>tokens. ret (r, tokens))))))"

text \<open>Errors are logged.\<close>

definition ProcessTimer :: "nat \<Rightarrow> nat \<Rightarrow> env \<Rightarrow> Timer \<Rightarrow> unit em" where
  "ProcessTimer N F E timer =
     bind (attempt (TriggerTimer F E timer)) (\<lambda>x.
       case x of
         Inl _ \<Rightarrow> ret ()
       | Inr (r, tokens) \<Rightarrow> bind (attempt (RunProcessInstance N F E r tokens)) (\<lambda>_. ret ()))"

section \<open>Incidents\<close>

definition resolve_batch :: "env \<Rightarrow> nat \<Rightarrow> int \<Rightarrow> ExecutionToken em" where
  "resolve_batch E r k =
     bind (wrap (Wrapf ''failed to find incident with key'') (db_find (\<lambda>d. FindIncidentByKey d k))) (\<lambda>incident.
       if inc_ResolvedAt incident \<noteq> None then throw (EngineError ''incident was already resolved'')
       else
         bind (db (\<lambda>d. FindPendingProcessInstanceJobs d (inc_ProcessInstanceKey incident))) (\<lambda>jobs.
         bind (resolve_incident E incident) (\<lambda>_.
         bind (case List.find (\<lambda>j. tok_Key (job_Token j) = tok_Key (inc_Token incident)) jobs of
                 Some job \<Rightarrow>
                   bind (add_stmt (StJob (job\<lparr>job_State := ActivityStateActive\<rparr>))) (\<lambda>_.
                     ret ((inc_Token incident)\<lparr>tok_State := TokenStateWaiting\<rparr>))
               | None \<Rightarrow> ret ((inc_Token incident)\<lparr>tok_State := TokenStateRunning\<rparr>)) (\<lambda>token.
         bind (add_stmt (StToken token)) (\<lambda>_.
         bind (set_state r ActivityStateActive) (\<lambda>_.
         bind (add_stmt (StProcessInstance r)) (\<lambda>_.
         bind (wrap (\<lambda>_. EngineError ''failed to complete incident with key'') Flush) (\<lambda>_. ret token))))))))"

definition ResolveIncident :: "nat \<Rightarrow> nat \<Rightarrow> env \<Rightarrow> int \<Rightarrow> unit em" where
  "ResolveIncident N F E k =
     bind (wrap (Wrapf ''failed to find incident with key'') (db_find (\<lambda>d. FindIncidentByKey d k))) (\<lambda>incident.
       if inc_ResolvedAt incident \<noteq> None then throw (EngineError ''incident already resolved'')
       else
         bind (wrap (Wrapf ''failed to find process instance with key'')
                 (db_find (\<lambda>d. FindProcessInstanceByKey d (inc_ProcessInstanceKey incident)))) (\<lambda>r.
         bind (wrap (\<lambda>_. EngineError ''failed to create engine batch'') (NewEngineBatch r)) (\<lambda>_.
           on_error Clear
             (bind (resolve_batch E r k) (\<lambda>token. RunProcessInstance N F E r [token])))))"

section \<open>Start\<close>

text \<open>The running tokens grouped by instance, in the order of their first token (the code iterates
  over a map, in any order).\<close>

fun group_tokens :: "ExecutionToken list \<Rightarrow> (int \<times> ExecutionToken list) list \<Rightarrow> (int \<times> ExecutionToken list) list" where
  "group_tokens [] acc = acc"
| "group_tokens (t # ts) acc =
     group_tokens ts
       (case map_of acc (tok_ProcessInstanceKey t) of
          Some us \<Rightarrow> map (\<lambda>p. if fst p = tok_ProcessInstanceKey t then (fst p, us @ [t]) else p) acc
        | None \<Rightarrow> acc @ [(tok_ProcessInstanceKey t, [t])])"

definition Start :: "nat \<Rightarrow> nat \<Rightarrow> env \<Rightarrow> unit em" where
  "Start N F E =
     bind (time_now E) (\<lambda>now.
     bind (modify (\<lambda>s. s\<lparr>timerManager := Some (start_manager now (newTimerManager 10000000000))\<rparr>)) (\<lambda>_.
     bind (db GetRunningTokens) (\<lambda>tokens.
     bind (map_each (group_tokens tokens []) (\<lambda>(k, ts).
             bind (wrap (Wrapf ''failed to load instance for token'')
                     (db_find (\<lambda>d. FindProcessInstanceByKey d k))) (\<lambda>r. ret (r, ts)))) (\<lambda>toStart.
       for_each toStart (\<lambda>(r, ts). bind (attempt (RunProcessInstance N F E r ts)) (\<lambda>_. ret ()))))))"

section \<open>Deployment\<close>

text \<open>The checksum and the XML decoder are parameters: \<open>md5\<close>, and \<open>unmarshal\<close>, which returns the
  resolved definitions or an error.\<close>

fun latest_version :: "ProcessDefinition \<Rightarrow> ProcessDefinition list \<Rightarrow> ProcessDefinition" where
  "latest_version latest [] = latest"
| "latest_version latest (p # ps) =
     latest_version (if pd_Version latest < pd_Version p then p else latest) ps"

definition load :: "(string \<Rightarrow> int) \<Rightarrow> (string \<Rightarrow> error + TDefinitions) \<Rightarrow> string \<Rightarrow> int \<Rightarrow> ProcessDefinition em" where
  "load md5 unmarshal xmlData k =
     bind (wrap (Wrapf ''failed to unmarshal xml data'') (lift_sum (unmarshal xmlData))) (\<lambda>definitions.
     bind (db (\<lambda>d. FindProcessDefinitionsById d (proc_Id (def_Process definitions)))) (\<lambda>processes.
       (let processInfo = \<lparr>pd_BpmnProcessId = proc_Id (def_Process definitions), pd_Version = 1, pd_Key = k,
              pd_Definitions = definitions, pd_BpmnData = xmlData,
              pd_BpmnProcessName = proc_Name (def_Process definitions), pd_BpmnChecksum = md5 xmlData\<rparr>;
            save = (\<lambda>p. bind (set_mem (SaveProcessDefinition p)) (\<lambda>_.
                        bind (modify (\<lambda>s. s\<lparr>exported := exported s @
                               [NewProcessEvent (pd_BpmnProcessId p) (pd_Key p) (pd_Version p)]\<rparr>)) (\<lambda>_. ret p)))
        in case processes of
             [] \<Rightarrow> save processInfo
           | p # ps \<Rightarrow>
               (let latest = latest_version p processes in
                if pd_BpmnChecksum latest = md5 xmlData then ret latest
                else save (processInfo\<lparr>pd_Version := pd_Version latest + 1\<rparr>)))))"

definition LoadFromBytes ::
  "(string \<Rightarrow> int) \<Rightarrow> (string \<Rightarrow> error + TDefinitions) \<Rightarrow> string \<Rightarrow> int \<Rightarrow> ProcessDefinition em" where
  "LoadFromBytes md5 unmarshal xmlData k =
     wrap (Wrapf ''failed to load from bytes'') (load md5 unmarshal xmlData k)"

section \<open>Every public operation gives its locks back\<close>

lemma balanced_flush_storage [balanced_rules]: "balanced flush_storage"
proof (rule balancedI)
  fix H s x s' assume "released H s" "flush_storage s = (x, s')"
  then show "released H s'"
    by (auto simp: flush_storage_def bind_def run_batch_def upd_batch_def eng_simps released_def lk_def
        batch_touched_def clean_batch_def split: prod.splits option.splits)
qed

lemma balanced_creates [balanced_rules]:
  "balanced (createInstance E pd vs kind bk)" "balanced (createInstanceWithStartingElements E pd ids vs kind bk)"
  "balanced (starting_nodes pd ids)" "balanced (add_stmt st)"
  unfolding starting_nodes_def by (intro balanced_frame keeps_rules)+

lemma balanced_CreateInstance [balanced_rules]: "balanced (CreateInstance N F E pd vs)"
  unfolding CreateInstance_def by (intro balanced_rules)

lemma balanced_create_operations:
  "balanced (CreateInstanceById N F E i vs)" "balanced (CreateInstanceByKey N F E k vs)"
  "balanced (CreateInstanceWithStartingElements N F E k ids vs)"
  unfolding CreateInstanceById_def CreateInstanceByKey_def CreateInstanceWithStartingElements_def
  by (intro balanced_rules)+

lemma pres_lk_terminateExecutionTokens [pres_rules]: "pres (lk H) (terminateExecutionTokens F E ks k)"
proof -
  have "pres (lk H) (terminate_keys F E t ks)" for t
    by (induction F E t ks rule: terminate_keys.induct)
      (auto simp: terminate_token_def resolve_incident_def intro!: pres_rules)
  then show ?thesis unfolding terminateExecutionTokens_def by (intro pres_rules)
qed

lemma pres_lk_startExecutionTokens [pres_rules]: "pres (lk H) (startExecutionTokens E r ids)"
  unfolding startExecutionTokens_def Let_def by (intro pres_lk_frame keeps_rules)

lemma flushes_modify_batch: "flushes (modify_batch F E r k ks ids vs)"
  unfolding modify_batch_def
  by (intro flushes_bind flushes_then [OF flushes_wrap [OF flushes_Flush]] balanced_basic pres_rules)

lemma balanced_ModifyInstance: "balanced (ModifyInstance N F E k ks ids vs)"
  unfolding ModifyInstance_def
  by (intro balanced_rules balanced_api flushes_then [OF flushes_modify_batch])

lemma balanced_DeleteInstanceVariable: "balanced (DeleteInstanceVariable k v)"
  unfolding DeleteInstanceVariable_def by (intro balanced_locked balanced_rules)

lemma pres_lk_end_continuation [pres_rules]: "pres (lk H) (end_event_continuation r e jt toks)"
proof (rule pres_lk_frame)
  show "keeps frame (end_event_continuation r e jt toks)"
    by (cases e) (auto simp: end_event_continuation_def handleExternalEndEventContinuation_def intro!: keeps_rules)
qed

lemma pres_lk_getActivity [pres_rules]: "pres (lk H) (getExecutionTokenActivity E r tok)"
  by (intro pres_lk_frame keeps_rules)

lemma flushes_complete_job: "flushes (complete_job E r k vs)"
  unfolding complete_job_def
  by (intro flushes_bind flushes_case_option flushes_case_sum flushes_case_prod flushes_if flushes_Flush_ret
      flushes_throw flushes_panic pres_rules pres_lk_recreate)

lemma balanced_JobCompleteByKey: "balanced (JobCompleteByKey N F E k vs)"
  unfolding JobCompleteByKey_def
  by (intro balanced_rules balanced_api flushes_then [OF flushes_complete_job])

lemma flushes_message_failure: "flushes (message_failure r m e)"
  unfolding message_failure_def by (intro flushes_bind flushes_Flush_throw pres_rules)

lemma pres_lk_check_subscription [pres_rules]: "pres (lk H) (check_subscription_open m)"
  by (cases "ms_State m") (simp_all add: check_subscription_open_def pres_basic)

lemma pres_lk_publish [pres_rules]:
  "pres (lk H) (publishMessageOnListener E r l m vs)" "pres (lk H) (publishEventOnEventGateway E r g ev vs)"
  by (intro pres_lk_frame keeps_rules)+

lemma flushes_publish_batch: "flushes (publish_batch F E r k vs)"
proof -
  note rules = flushes_bind flushes_case_sum flushes_Flush_ret flushes_message_failure flushes_throw pres_rules
  have "flushes (case n of
         Some (FEventBasedGateway g) \<Rightarrow>
           bind (wrap (Wrapf ''failed to publishEventOnEventGateway'')
                   (publishEventOnEventGateway E r g (GatewayMessage message) vs)) (\<lambda>tokens.
           bind (wrap (Wrapf ''failed to flush publish message'') Flush) (\<lambda>_. ret tokens))
       | Some (FIntermediateCatchEvent ice) \<Rightarrow>
           bind (attempt (publishMessageOnListener E r ice message vs)) (\<lambda>x.
             case x of
               Inl _ \<Rightarrow> message_failure r message (EngineError ''failed to publish message to listener in instance'')
             | Inr tokens \<Rightarrow>
                 bind (wrap (Wrapf ''failed to flush publish message batch'') Flush) (\<lambda>_. ret tokens))
       | Some n \<Rightarrow>
           if as_Activity n \<noteq> None
           then
             bind (attempt (handleBoundaryMessage F E r message vs)) (\<lambda>x.
               case x of
                 Inl e \<Rightarrow> message_failure r message (Joined (EngineError ''failed to publish message to task'') e)
               | Inr tokens \<Rightarrow>
                   bind (wrap (Wrapf ''failed to flush publish message batch'') Flush) (\<lambda>_. ret tokens))
           else throw (EngineError ''failed to publish message to instance. Unexpected node type'')
       | None \<Rightarrow> throw (EngineError ''failed to publish message to instance. Unexpected node type''))" for n message
    by (cases n; (simp only: option.case, rule flushes_throw)?)
      (rename_tac f, case_tac f; simp only: option.case FlowNode.case; intro rules flushes_if)
  then show ?thesis unfolding publish_batch_def by (intro flushes_bind pres_rules)
qed

lemma balanced_PublishMessage [balanced_rules]: "balanced (PublishMessage N F E k vs)"
  unfolding PublishMessage_def
  by (intro balanced_rules balanced_api flushes_then [OF flushes_publish_batch])

lemma balanced_PublishMessageByName: "balanced (PublishMessageByName N F E n ck vs)"
  unfolding PublishMessageByName_def by (intro balanced_rules)

lemma flushes_resolve_batch: "flushes (resolve_batch E r k)"
  unfolding resolve_batch_def resolve_incident_def
  by (intro flushes_bind flushes_if flushes_throw flushes_Flush_ret pres_rules)

lemma balanced_ResolveIncident: "balanced (ResolveIncident N F E k)"
  unfolding ResolveIncident_def
  by (intro balanced_rules balanced_api flushes_then [OF flushes_resolve_batch])

end
