(* ===== verification/Engine_Invariants.thy ===== *)
theory Engine_Invariants
  imports Engine_Api
begin

text \<open>
  The well-formedness of the whole engine state and its preservation by every public operation: the
  tables of the store are keyed, every stored process instance is a valid pointer to an instance with
  that key, and every instance the batch is about to save is a valid pointer.

  The rules carry the set \<open>R\<close> of pointers known to be valid: dereferencing, allocating or finding an
  instance adds to it.
\<close>

section \<open>The invariant\<close>

definition refs_ok :: "nat set \<Rightarrow> estate \<Rightarrow> bool" where
  "refs_ok R s \<longleftrightarrow> store_wf (mem s) \<and> history_keyed (mem s) \<and> inst_wf (objs s) (mem s) \<and>
     (\<forall>r. StProcessInstance r \<in> set (b_stmts (batch s)) \<longrightarrow> r < length (objs s)) \<and>
     (\<forall>r \<in> R. r < length (objs s))"

abbreviation engine_wf :: "estate \<Rightarrow> bool" where
  "engine_wf \<equiv> refs_ok {}"

named_theorems wf_rules \<open>operations that keep the engine state well formed\<close>

lemma refs_ok_mono: "refs_ok R s \<Longrightarrow> R' \<subseteq> R \<Longrightarrow> refs_ok R' s"
  by (auto simp: refs_ok_def)

lemma refs_ok_insert: "refs_ok (insert r R) s \<longleftrightarrow> r < length (objs s) \<and> refs_ok R s"
  by (auto simp: refs_ok_def)

lemma refs_ok_Un: "refs_ok (A \<union> R) s \<longleftrightarrow> (\<forall>r \<in> A. r < length (objs s)) \<and> refs_ok R s"
  by (auto simp: refs_ok_def)

text \<open>The parts of the state the invariant looks at.\<close>

definition wf_view :: "estate \<Rightarrow> Storage \<times> heap \<times> stmt list" where
  "wf_view s = (mem s, objs s, b_stmts (batch s))"

lemma wf_keeps: "keeps wf_view m \<Longrightarrow> pres (refs_ok R) m"
  unfolding pres_def keeps_def wf_view_def refs_ok_def by simp

lemma keeps_wf_view [keeps_rules]:
  "keeps wf_view (generateKey E)" "keeps wf_view (time_now E)" "keeps wf_view (deref r)"
  "keeps wf_view (with_timers g)" "keeps wf_view (lock k)" "keeps wf_view (try_lock E k)"
  "keeps wf_view (unlock k)" "keeps wf_view (touch k)" "keeps wf_view (AddPostFlushAction r ts)"
  by (auto simp: keeps_def em_defs eng_simps wf_view_def
      split: option.splits sum.splits prod.splits bool.splits)

lemma keeps_wf_view_unlock_touched [keeps_rules]: "keeps wf_view unlock_touched"
  unfolding unlock_touched_def by (intro keeps_rules)

lemma wf_view_prims [wf_rules]:
  "pres (refs_ok R) (generateKey E)" "pres (refs_ok R) (time_now E)" "pres (refs_ok R) (deref r)"
  "pres (refs_ok R) (with_timers g)" "pres (refs_ok R) (lock k)" "pres (refs_ok R) (try_lock E k)"
  "pres (refs_ok R) (unlock k)" "pres (refs_ok R) (touch k)" "pres (refs_ok R) (AddPostFlushAction r ts)"
  "pres (refs_ok R) unlock_touched" "pres (refs_ok R) (db fd)" "pres (refs_ok R) (db_find fe)"
  by (intro wf_keeps keeps_rules)+

lemma wf_basic [wf_rules]:
  "pres I (ret x)" "pres I (throw e)" "pres I (panic msg)" "pres I no_fuel" "pres I (gets g)"
  "pres I (lift_sum y)" "pres I (lift_res z)"
  by (simp_all add: pres_rules) (simp add: pres_def lift_res_def)

lemmas wf_control [wf_rules] = pres_attempt pres_wrap pres_when pres_if pres_case_option pres_case_sum
  pres_case_list pres_map_each

lemma pres_case_prod [wf_rules]: "(\<And>x z. pres I (f x z)) \<Longrightarrow> pres I (case y of (x, z) \<Rightarrow> f x z)"
  by (cases y) auto

lemma wf_for_each [wf_rules]:
  "(\<And>x. x \<in> set xs \<Longrightarrow> pres I (f x)) \<Longrightarrow> pres I (for_each xs f)"
  by (induction xs) (auto intro: pres_rules)

lemma wf_update:
  assumes "\<And>i. pi_Key (f i) = pi_Key i"
  shows "pres (refs_ok R) (update_instance r f)"
  unfolding pres_def refs_ok_def
  using inst_wf_update [of _ _ "f (_ ! r)"] assms by (auto simp: update_instance_def)

lemma wf_set [wf_rules]: "pres (refs_ok R) (set_state r st)" "pres (refs_ok R) (set_variables r vs)"
  unfolding set_state_def set_variables_def by (rule wf_update, simp)+

lemma refresh_shape:
  assumes "RefreshProcessInstance d r h = Inr h'"
  obtains i where "h' = h[r := i]" and "pi_Key i = pi_Key (h ! r)"
  using assms by (auto simp: RefreshProcessInstance_def Let_def split: option.splits if_splits)

lemma wf_refresh [wf_rules]: "pres (refs_ok R) (refresh r)"
  unfolding pres_def
proof (intro allI impI)
  fix s assume "refs_ok R s"
  then show "refs_ok R (snd (refresh r s))"
    by (cases "RefreshProcessInstance (mem s) r (objs s)")
      (auto simp: refresh_def refs_ok_def elim!: refresh_shape intro!: inst_wf_update)
qed

lemma wf_add_stmt [wf_rules]:
  "(\<And>r. st = StProcessInstance r \<Longrightarrow> r \<in> R) \<Longrightarrow> pres (refs_ok R) (add_stmt st)"
  by (auto simp: pres_def refs_ok_def add_stmt_def upd_batch_def eng_simps)

text \<open>Binding a pointer makes it known.\<close>

lemma wf_bind:
  assumes "pres (refs_ok R) m" and "\<And>x s s'. m s = (Ok x, s') \<Longrightarrow> refs_ok R s \<Longrightarrow> \<forall>r \<in> A x. r < length (objs s')"
    and "\<And>x. pres (refs_ok (A x \<union> R)) (f x)"
  shows "pres (refs_ok R) (bind m f)"
  unfolding pres_def
proof (intro allI impI)
  fix s assume I: "refs_ok R s"
  obtain y s1 where m: "m s = (y, s1)" by (cases "m s")
  have 1: "refs_ok R s1" using presD [OF assms(1) m I] .
  show "refs_ok R (snd (bind m f s))"
  proof (cases y)
    case (Ok x)
    with assms(2) m I 1 have "refs_ok (A x \<union> R) s1" by (simp add: refs_ok_Un)
    with assms(3) have "refs_ok (A x \<union> R) (snd (f x s1))" by (simp add: pres_def)
    with Ok m show ?thesis by (simp add: bind_def refs_ok_Un)
  qed (use m 1 in \<open>auto simp: bind_def\<close>)
qed

lemma wf_bind_plain:
  "pres (refs_ok R) m \<Longrightarrow> (\<And>x. pres (refs_ok R) (f x)) \<Longrightarrow> pres (refs_ok R) (bind m f)"
  by (rule pres_bind)

lemma wf_bind_deref:
  "(\<And>i. pres (refs_ok (insert r R)) (f i)) \<Longrightarrow> pres (refs_ok R) (bind (deref r) f)"
  by (rule wf_bind [where A = "\<lambda>_. {r}"])
    (auto intro: wf_rules simp: deref_def split: if_splits)

lemma wf_bind_alloc:
  assumes "\<And>r. pres (refs_ok (insert r R)) (f r)"
  shows "pres (refs_ok R) (bind (alloc i) f)"
proof -
  have a: "pres (refs_ok R) (alloc i)"
    by (auto simp: pres_def alloc_def refs_ok_def inst_wf_def nth_append)
      (metis less_SucI)+
  show ?thesis
    by (rule wf_bind [where A = "\<lambda>r. {r}", OF a]) (use assms in \<open>auto simp: alloc_def\<close>)
qed

lemma wf_bind_called:
  "(\<And>ps. pres (refs_ok (set ps \<union> R)) (f ps)) \<Longrightarrow> pres (refs_ok R) (bind (find_called k) f)"
  by (rule wf_bind [where A = set])
    (auto simp: find_called_def eng_simps FindProcessInstancesByParentExecutionTokenKey_def intro: wf_basic)


lemmas wf_heads = wf_bind_deref wf_bind_alloc wf_bind_called wf_bind_plain

section \<open>Batches\<close>

lemma wf_case_EventDefinition [wf_rules]:
  "pres I a \<Longrightarrow> (\<And>x. pres I (b x)) \<Longrightarrow> (\<And>x y. pres I (c x y)) \<Longrightarrow> (\<And>x y. pres I (d x y)) \<Longrightarrow>
   pres I (case e of TTerminateEventDefinition \<Rightarrow> a | TMessageEventDefinition x \<Rightarrow> b x
     | TTimerEventDefinition x y \<Rightarrow> c x y | TLinkEventDefinition x y \<Rightarrow> d x y)"
  by (cases e) auto

lemma wf_case_kind [wf_rules]:
  "pres I a \<Longrightarrow> (\<And>t k e. pres I (b t k e)) \<Longrightarrow> (\<And>t k. pres I (c t k)) \<Longrightarrow> (\<And>t k e. pres I (d t k e)) \<Longrightarrow>
   pres I (case x of DefaultProcessInstance \<Rightarrow> a | SubProcessInstance t k e \<Rightarrow> b t k e
     | CallActivityInstance t k \<Rightarrow> c t k | MultiInstanceInstance t k e \<Rightarrow> d t k e)"
  by (cases x) auto

lemma wf_clean [wf_rules]:
  "pres (refs_ok R) drop_statements" "pres (refs_ok R) NewEngineBatchClean"
  "pres (refs_ok R) (upd_batch (\<lambda>_. clean_batch))"
  "pres (refs_ok R) (upd_batch (\<lambda>_. clean_batch\<lparr>touchedInstances := ks\<rparr>))"
  by (auto simp: pres_def refs_ok_def em_defs eng_simps clean_batch_def)

lemma wf_incident [wf_rules]: "pres (refs_ok R) (createNewIncidentFromToken E e tok)"
  unfolding createNewIncidentFromToken_def by (rule wf_heads wf_rules)+

lemma wf_WriteTokenIncident [wf_rules]: "r \<in> R \<Longrightarrow> pres (refs_ok R) (WriteTokenIncident E tok r e)"
  unfolding WriteTokenIncident_def Let_def by (rule wf_heads wf_rules | simp)+

lemma wf_WriteMessageIncident [wf_rules]: "r \<in> R \<Longrightarrow> pres (refs_ok R) (WriteMessageIncident m r)"
  unfolding WriteMessageIncident_def by (rule wf_heads wf_rules | simp)+

lemma wf_on_error [wf_rules]: "pres I c \<Longrightarrow> pres I m \<Longrightarrow> pres I (on_error c m)"
  by (rule pres_on_error)

lemma wf_NewEngineBatch [wf_rules]: "pres (refs_ok R) (NewEngineBatch r)"
  unfolding NewEngineBatch_def by (rule wf_heads wf_rules | simp)+

lemma wf_AddLocked [wf_rules]:
  "pres (refs_ok R) (AddLockedInstance r)" "pres (refs_ok R) (AddParentLockedInstance E r)"
  unfolding AddLockedInstance_def AddParentLockedInstance_def by (rule wf_heads wf_rules | simp)+

lemma inst_wf_run_stmts:
  "inst_wf h d \<Longrightarrow> (\<And>r. StProcessInstance r \<in> set sts \<Longrightarrow> r < length h) \<Longrightarrow> inst_wf h (snd (run_stmts h sts e d))"
proof (induction sts arbitrary: e d)
  case (Cons st sts)
  have "inst_wf h (snd (run_stmt h st d))"
    using Cons.prems
    by (cases st) (auto simp: inst_wf_def save_defs Let_def tget_tput split: sum.splits if_splits)
  then show ?case using Cons.IH Cons.prems(2) by (simp add: case_prod_beta)
qed simp

lemma wf_run_batch:
  assumes "refs_ok R s" and "\<And>r. StProcessInstance r \<in> set sts \<Longrightarrow> r < length (objs s)"
  shows "refs_ok R (snd (run_batch sts s))"
  using assms store_wf_run_stmts [of "mem s" "objs s" sts None]
    history_keyed_run_stmts [of "mem s" "objs s" sts None] inst_wf_run_stmts [of "objs s" "mem s" sts None]
  by (simp add: run_batch_def refs_ok_def StorageBatch_Flush_def case_prod_beta)

lemma wf_bind_run_batch:
  assumes "\<And>x. pres (refs_ok R) (f x)"
  shows "pres (refs_ok R) (bind (gets batch) (\<lambda>b. bind (run_batch (b_stmts b)) f))"
  unfolding pres_def
proof (intro allI impI)
  fix s assume I: "refs_ok R s"
  then have "refs_ok R (snd (run_batch (b_stmts (batch s)) s))"
    by (intro wf_run_batch) (auto simp: refs_ok_def)
  then show "refs_ok R (snd (bind (gets batch) (\<lambda>b. bind (run_batch (b_stmts b)) f) s))"
    using assms by (auto simp: bind_def pres_def eng_simps run_batch_def split: prod.splits)
qed

lemma wf_flush_storage [wf_rules]: "pres (refs_ok R) flush_storage"
  unfolding flush_storage_def by (rule wf_bind_run_batch wf_heads wf_rules)+

lemma wf_spawn [wf_rules]:
  "pres (refs_ok R) (modify (\<lambda>s. s\<lparr>spawned := g s\<rparr>))" "pres (refs_ok R) (modify (\<lambda>s. s\<lparr>exported := x s\<rparr>))"
  "pres (refs_ok R) (modify (\<lambda>s. s\<lparr>timerManager := y s\<rparr>))"
  by (auto simp: pres_def refs_ok_def eng_simps)

lemma wf_Flush [wf_rules]: "pres (refs_ok R) Flush"
  unfolding pres_def
proof (intro allI impI)
  fix s assume I: "refs_ok R s"
  let ?rest = "\<lambda>err. bind unlock_touched (\<lambda>_.
     bind (do_when (err = None) (modify (\<lambda>t. t\<lparr>spawned := spawned t @ postFlushActions (batch s)\<rparr>))) (\<lambda>_.
     bind (upd_batch (\<lambda>_. clean_batch)) (\<lambda>_. case err of None \<Rightarrow> ret () | Some e \<Rightarrow> throw e)))"
  have rest: "pres (refs_ok R) (?rest err)" for err
    by (rule wf_heads wf_rules)+
  let ?head = "case first_error (preFlushActions (batch s)) of
    Some e \<Rightarrow> ret (Some e) | None \<Rightarrow> run_batch (b_stmts (batch s))"
  have b: "refs_ok R (snd (run_batch (b_stmts (batch s)) s))"
    using I by (intro wf_run_batch) (auto simp: refs_ok_def)
  obtain err s1 where h: "?head s = (Ok err, s1)" and s1: "refs_ok R s1"
  proof (cases "first_error (preFlushActions (batch s))")
    case None
    with b that show ?thesis by (auto simp: run_batch_def split: prod.splits)
  next
    case (Some e)
    with I that show ?thesis by (simp add: eng_simps)
  qed
  have "Flush s = ?rest err s1" unfolding Flush_def by (simp add: bind_eval [where m = ?head, OF h])
  moreover from rest [of err] s1 have "refs_ok R (snd (?rest err s1))"
    unfolding pres_def by blast
  ultimately show "refs_ok R (snd (Flush s))" by (simp only:)
qed

lemma wf_Clear [wf_rules]: "pres (refs_ok R) Clear"
  unfolding Clear_def by (rule wf_heads wf_rules)+


section \<open>Flow handlers\<close>

lemma wf_flow_helpers [wf_rules]:
  "pres (refs_ok R) (target_id r flow)" "pres (refs_ok R) (new_token E r e st)"
  "pres (refs_ok R) (save_history E r k e tk iv ov)"
  unfolding target_id_def new_token_def save_history_def by (rule wf_heads wf_rules | simp)+

lemma wf_flow_history [wf_rules]: "pres (refs_ok R) (save_flow_history E r f k)"
  unfolding save_flow_history_def by (rule wf_heads wf_rules)+

lemma wf_fork_token [wf_rules]:
  "pres (refs_ok R) (fork_token E r flow)" "pres (refs_ok R) (first_transition E r flow tok)"
  unfolding fork_token_def first_transition_def Let_def by (rule wf_heads wf_rules)+

lemma wf_propagate [wf_rules]: "pres (refs_ok R) (propagate E r locals ms outs)"
  unfolding propagate_def Let_def by (rule wf_heads wf_rules)+

lemma wf_propagate_output [wf_rules]: "pres (refs_ok R) (propagate_output E r ms outs)"
  unfolding propagate_output_def by (rule wf_heads wf_rules)+

lemma wf_case_val [wf_rules]:
  "pres I a \<Longrightarrow> (\<And>x. pres I (b x)) \<Longrightarrow> (\<And>x. pres I (c x)) \<Longrightarrow> (\<And>x. pres I (d x)) \<Longrightarrow>
   (\<And>x. pres I (e x)) \<Longrightarrow> (\<And>x. pres I (f x)) \<Longrightarrow>
   pres I (case y of VNil \<Rightarrow> a | VBool x \<Rightarrow> b x | VNum x \<Rightarrow> c x | VStr x \<Rightarrow> d x | VList x \<Rightarrow> e x
     | VMap x \<Rightarrow> f x)"
  by (cases y) auto

lemma wf_collection [wf_rules]: "pres (refs_ok R) (multi_instance_collection mi eik)"
  unfolding multi_instance_collection_def by (rule wf_heads wf_rules)+

lemma wf_transitions [wf_rules]:
  "pres (refs_ok R) (handleDefaultElementTransition E r element tok)"
  "pres (refs_ok R) (handleMultiInstanceElementTransition E r eik element tok)"
  unfolding handleDefaultElementTransition_def handleMultiInstanceElementTransition_def
  by (rule wf_heads wf_rules)+

lemma wf_handleElementTransition [wf_rules]: "pres (refs_ok R) (handleElementTransition E r element tok)"
  unfolding handleElementTransition_def by (rule wf_heads wf_rules)+

lemma wf_gateways [wf_rules]:
  "pres (refs_ok R) (handleExclusiveGateway E r g tok)" "pres (refs_ok R) (handleInclusiveGateway E r g tok)"
  "pres (refs_ok R) (handleParallelGateway E r n tok)"
  unfolding handleExclusiveGateway_def handleInclusiveGateway_def handleParallelGateway_def Let_def
  by (rule wf_heads wf_rules)+

lemma wf_messages [wf_rules]: "pres (refs_ok R) (createMessageSubscription E r m e tok)"
  unfolding createMessageSubscription_def by (rule wf_heads wf_rules)+

lemma wf_createTimer [wf_rules]: "pres (refs_ok R) (createTimer E r du e tok)"
  unfolding createTimer_def Let_def by (rule wf_heads wf_rules | simp)+

lemma wf_catch [wf_rules]:
  "pres (refs_ok R) (createMessageCatchEvent E r m e tok)" "pres (refs_ok R) (createTimerCatchEvent E r du e tok)"
  unfolding createMessageCatchEvent_def createTimerCatchEvent_def by (rule wf_heads wf_rules | simp)+

lemma wf_catch_event [wf_rules]: "pres (refs_ok R) (createIntermediateCatchEvent E r ice tok)"
  unfolding createIntermediateCatchEvent_def by (rule wf_heads wf_rules)+

lemma wf_event_gateway [wf_rules]: "pres (refs_ok R) (handleEventBasedGateway E r n tok)"
  unfolding handleEventBasedGateway_def
  by (rule wf_heads wf_rules | (auto intro!: wf_rules split: option.splits FlowNode.splits))+

lemma wf_boundary [wf_rules]: "pres (refs_ok R) (createBoundaryEventSubscriptions E r element tok)"
  unfolding createBoundaryEventSubscriptions_def by (rule wf_heads wf_rules)+

lemma wf_link [wf_rules]: "pres (refs_ok R) (handleIntermediateThrowLinkEvent E r ite n tok)"
  unfolding handleIntermediateThrowLinkEvent_def by (rule wf_heads wf_rules)+

lemma wf_plain_end [wf_rules]: "pres (refs_ok R) (handlePlainEndEvent r b)"
  unfolding handlePlainEndEvent_def by (rule wf_heads wf_rules)+

section \<open>Cancellation\<close>

lemma wf_cancelBoundary [wf_rules]: "pres (refs_ok R) (cancelBoundarySubscriptions tok)"
  unfolding cancelBoundarySubscriptions_def by (rule wf_heads wf_rules | simp)+

lemma wf_resolve [wf_rules]: "pres (refs_ok R) (resolve_incident E inc)"
  unfolding resolve_incident_def by (rule wf_heads wf_rules | simp)+

lemma wf_cancel_tokens:
  assumes "\<And>R p. p \<in> R \<Longrightarrow> pres (refs_ok R) (sub p)"
  shows "pres (refs_ok R) (cancel_tokens sub omits tokens)"
proof (induction tokens arbitrary: R)
  case (Cons t ts)
  show ?case unfolding cancel_tokens.simps Let_def by (rule wf_heads wf_rules assms Cons.IH | simp)+
qed (simp add: pres_basic)

lemma wf_inner_cancel:
  assumes "\<And>R p. p \<in> R \<Longrightarrow> pres (refs_ok R) (sub p)"
  shows "pres (refs_ok R) (inner_cancel_with sub E r omits)"
  unfolding inner_cancel_with_def by (rule wf_heads wf_rules wf_cancel_tokens assms | simp)+

lemma wf_cancel_with:
  assumes "\<And>R p. p \<in> R \<Longrightarrow> pres (refs_ok R) (sub p)" and "r \<in> R"
  shows "pres (refs_ok R) (cancel_instance_with sub E r)"
  unfolding cancel_instance_with_def
  by (rule wf_heads wf_rules wf_inner_cancel assms(1) | simp add: assms(2))+

lemma wf_cancelSub [wf_rules]: "pres (refs_ok R) (cancelSubProcessInstance n E p)"
proof (induction n arbitrary: R p)
  case (Suc n)
  show ?case
    by (simp, (rule wf_heads wf_rules wf_cancel_with Suc.IH | simp)+)
qed (simp add: pres_basic)

lemma wf_cancelInstance [wf_rules]: "r \<in> R \<Longrightarrow> pres (refs_ok R) (cancelInstance n E r)"
  unfolding cancelInstance_def by (rule wf_cancel_with wf_cancelSub | simp)+

lemma wf_terminate_end [wf_rules]: "pres (refs_ok R) (handleTerminateEndEvent F E r tok)"
  unfolding handleTerminateEndEvent_def handleProcessInstanceInnerCancel_def
  by (rule wf_heads wf_rules wf_inner_cancel | simp)+

lemma wf_terminate_token [wf_rules]: "pres (refs_ok R) (terminate_token F E tok)"
  unfolding terminate_token_def by (rule wf_heads wf_rules | simp)+

lemma wf_terminate_keys [wf_rules]: "pres (refs_ok R) (terminate_keys F E tok ks)"
  by (induction F E tok ks rule: terminate_keys.induct) (auto intro!: wf_bind_plain wf_rules)

lemma wf_token_surgery [wf_rules]:
  "pres (refs_ok R) (terminateExecutionTokens F E ks k)" "pres (refs_ok R) (startExecutionTokens E r ids)"
  unfolding terminateExecutionTokens_def startExecutionTokens_def Let_def
  by (rule wf_heads wf_rules | simp)+

lemma wf_CancelInstanceByKey: "pres engine_wf (CancelInstanceByKey F E k)"
  unfolding CancelInstanceByKey_def by (rule wf_heads wf_rules | simp)+


section \<open>Jobs, called instances and events\<close>

lemma wf_handle_job [wf_rules]: "pres (refs_ok R) (handle_job E r element job locals h)"
  unfolding handle_job_def activate_job_def by (rule wf_heads wf_rules | simp)+

lemma wf_createInternalTask [wf_rules]: "pres (refs_ok R) (createInternalTask E r element tok)"
  unfolding createInternalTask_def Let_def by (rule wf_heads wf_rules | simp)+

lemma wf_check_job [wf_rules]: "pres I (check_job_open job)"
  by (cases "job_State job") (simp_all add: check_job_open_def pres_basic)

lemma wf_set_mem_job [wf_rules]: "pres (refs_ok R) (set_mem (SaveJob j))"
  by (auto simp: pres_def refs_ok_def set_mem_def eng_simps store_wf_def history_keyed_def inst_wf_def SaveJob_def)

lemma wf_bind_batch:
  assumes "\<And>x. pres (refs_ok (insert r R)) (f x)"
  shows "pres (refs_ok R) (bind (wrap g (NewEngineBatch r)) f)"
proof (rule wf_bind [where A = "\<lambda>_. {r}"])
  fix x s s' assume n: "wrap g (NewEngineBatch r) s = (Ok x, s')" and I: "refs_ok R s"
  then have n': "NewEngineBatch r s = (Ok x, s')" by (simp add: wrap_Ok_iff)
  then have "refs_ok {r} s"
    using I by (auto simp: NewEngineBatch_def bind_Ok_iff deref_def refs_ok_def split: if_splits)
  from presD [OF wf_NewEngineBatch n' this] show "\<forall>q \<in> {r}. q < length (objs s')" by (simp add: refs_ok_def)
qed (use assms in \<open>auto intro: wf_rules\<close>)

lemma wf_job_operations:
  "pres engine_wf (JobAssignByKey k a)" "pres engine_wf (JobFailByKey E k m c)" "pres engine_wf (ActivateJobs E ty)"
  unfolding JobAssignByKey_def JobFailByKey_def ActivateJobs_def activate_one_def fail_job_def Let_def
  by (rule wf_bind_batch wf_heads wf_rules | simp)+

lemma wf_creates [wf_rules]: "pres (refs_ok R) (createInstanceWithStartingElements E pd ids vs kind bk)"
  unfolding createInstanceWithStartingElements_def by (rule wf_heads wf_rules | simp)+

lemma wf_create [wf_rules]: "pres (refs_ok R) (createInstance E pd vs kind bk)"
  unfolding createInstance_def by (rule wf_rules)

lemma wf_calls [wf_rules]:
  "pres (refs_ok R) (createCallActivity E r c tok)" "pres (refs_ok R) (createSubProcess E r sp tok)"
  "pres (refs_ok R) (handleLocalBusinessRuleTask E r b dec tok)"
  "pres (refs_ok R) (createExternalBusinessRuleTask E r b tok)"
  unfolding createCallActivity_def createSubProcess_def handleLocalBusinessRuleTask_def
    createExternalBusinessRuleTask_def Let_def
  by (rule wf_heads wf_rules | simp)+

lemma wf_business_rule [wf_rules]: "pres (refs_ok R) (createBusinessRuleTask E r b tok)"
  unfolding createBusinessRuleTask_def
  by (auto intro!: wf_rules split: option.splits TBusinessRuleTaskImplementation.splits)

lemma wf_create_activity:
  assumes "pres (refs_ok R) n" and "\<And>x. pres (refs_ok R) (f x)"
  shows "pres (refs_ok R) (case create_activity E r element tok of None \<Rightarrow> n | Some m \<Rightarrow> bind m f)"
  unfolding create_activity_def createUserTask_def
  by (cases element) (auto intro!: wf_bind_plain wf_rules assms)

lemma wf_case_activity [wf_rules]:
  "pres I a \<Longrightarrow> pres I b \<Longrightarrow> pres I c \<Longrightarrow> pres I d \<Longrightarrow>
   pres I (case st of ActivityStateActive \<Rightarrow> a | ActivityStateCompleted \<Rightarrow> b | ActivityStateFailed \<Rightarrow> c | _ \<Rightarrow> d)"
  "pres I a \<Longrightarrow> pres I b \<Longrightarrow> pres I d \<Longrightarrow>
   pres I (case st of ActivityStateActive \<Rightarrow> a | ActivityStateCompleted \<Rightarrow> b | _ \<Rightarrow> d)"
  by (cases st; simp)+

lemma wf_handleActivity [wf_rules]: "pres (refs_ok R) (handleActivity E r element tok)"
  unfolding handleActivity_def by (rule wf_create_activity wf_heads wf_rules)+

lemma wf_start_multi [wf_rules]: "pres (refs_ok R) (start_multi_instance E r element mi starts tok)"
  unfolding start_multi_instance_def by (rule wf_heads wf_rules | simp)+

lemma wf_run_multi [wf_rules]: "pres (refs_ok R) (run_multi_instance E r element mi eik tok)"
  unfolding run_multi_instance_def by (rule wf_create_activity wf_heads wf_rules)+

lemma wf_handleMulti [wf_rules]: "pres (refs_ok R) (handleMultiInstanceActivity E r element mi tok)"
  unfolding handleMultiInstanceActivity_def startSequentialMultiInstance_def startParallelMultiInstance_def
  by (rule wf_heads wf_rules)+

lemma wf_parent [wf_rules]:
  "pres (refs_ok R) (parent_setup E t eik)" "pres (refs_ok R) (propagate_to_parent E r p element)"
  "pres (refs_ok R) (output_collection E mi fs)" "p \<in> R \<Longrightarrow> pres (refs_ok R) (parent_finish E p element tok out)"
  unfolding parent_setup_def propagate_to_parent_def output_collection_def parent_finish_def
  by (rule wf_heads wf_rules | simp)+

lemma wf_continuations [wf_rules]:
  "pres (refs_ok R) (handleParentProcessContinuationForSubProcess E r t eik e)"
  "pres (refs_ok R) (handleParentProcessContinuationForCallActivity E r t eik)"
  "pres (refs_ok R) (handleParentProcessContinuationForMultiInstance E r t eik e)"
  unfolding handleParentProcessContinuationForSubProcess_def handleParentProcessContinuationForCallActivity_def
    handleParentProcessContinuationForMultiInstance_def
  by (rule wf_heads wf_rules |
      (auto intro!: wf_rules wf_heads split: option.splits FlowNode.splits))+

lemma wf_continuation [wf_rules]: "pres (refs_ok R) (handleParentProcessContinuation E r)"
  unfolding handleParentProcessContinuation_def by (rule wf_heads wf_rules)+


lemma wf_terminate_jobs [wf_rules]:
  "pres (refs_ok R) (terminate_jobs tok)" "pres (refs_ok R) (cancel_called F E tok)"
  unfolding terminate_jobs_def cancel_called_def by (rule wf_heads wf_rules | simp)+

lemma wf_listener [wf_rules]: "r \<in> R \<Longrightarrow> pres (refs_ok R) (publishMessageOnListener E r l m vs)"
  unfolding publishMessageOnListener_def by (rule wf_heads wf_rules | simp)+

lemma wf_boundary_listener [wf_rules]:
  "r \<in> R \<Longrightarrow> pres (refs_ok R) (publishMessageOnBoundaryListener F E r l m vs)"
  unfolding publishMessageOnBoundaryListener_def Let_def by (rule wf_heads wf_rules | simp)+

lemma wf_boundary_message [wf_rules]: "pres (refs_ok R) (handleBoundaryMessage F E r m vs)"
  unfolding handleBoundaryMessage_def by (rule wf_heads wf_rules | simp)+

lemma wf_consume [wf_rules]: "r \<in> R \<Longrightarrow> pres (refs_ok R) (consume_event E r ce ev vs)"
  unfolding consume_event_def
  by (auto intro!: wf_heads wf_rules split: option.splits EventDefinition.splits GatewayEvent.splits)

lemma wf_cancel_other [wf_rules]: "pres (refs_ok R) (cancel_other_events tok k)"
  unfolding cancel_other_events_def Let_def by (rule wf_heads wf_rules | simp)+

lemma wf_gateway_event [wf_rules]: "pres (refs_ok R) (publishEventOnEventGateway E r g ev vs)"
  unfolding publishEventOnEventGateway_def by (rule wf_heads wf_rules | simp)+

lemma wf_throw_message [wf_rules]: "pres (refs_ok R) (throw_message E r element tok)"
  unfolding throw_message_def by (rule wf_heads wf_rules)+

lemma wf_throw_event [wf_rules]: "pres (refs_ok R) (handleIntermediateThrowEvent E r ite tok)"
  unfolding handleIntermediateThrowEvent_def by (rule wf_heads wf_rules)+

lemma wf_boundary_timer [wf_rules]: "pres (refs_ok R) (handleBoundaryTimer F E r t)"
  unfolding handleBoundaryTimer_def Let_def by (rule wf_heads wf_rules | simp)+

section \<open>The main loop\<close>

lemma wf_getActivity [wf_rules]: "pres (refs_ok R) (getExecutionTokenActivity E r tok)"
  unfolding getExecutionTokenActivity_def
  by (rule wf_heads wf_rules | (auto intro!: wf_rules split: option.splits FlowNode.splits))+

lemma wf_end_definitions [wf_rules]: "pres (refs_ok R) (end_definitions F E r e ds tok)"
proof (induction ds arbitrary: tok)
  case (Cons d ds)
  show ?case
    by (cases d) (auto simp: Let_def handleMessageEndEvent_def intro!: wf_bind_plain wf_rules Cons.IH)
qed (simp add: pres_basic)

lemma wf_end_event [wf_rules]: "pres (refs_ok R) (handleEndEvent F E r e tok)"
  unfolding handleEndEvent_def by (rule wf_heads wf_rules)+

lemma wf_processFlowNode [wf_rules]: "pres (refs_ok R) (processFlowNode F E r element tok)"
  unfolding processFlowNode_def process_activity_def
  by (cases element; simp only: FlowNode.case; (rule wf_heads wf_rules)+)

lemma wf_process_token [wf_rules]: "pres (refs_ok R) (process_token F E r tok)"
  unfolding process_token_def by (rule wf_heads wf_rules)+

lemma wf_token_incident [wf_rules]: "r \<in> R \<Longrightarrow> pres (refs_ok R) (token_incident E r tok e re)"
  unfolding token_incident_def by (rule wf_heads wf_rules | simp)+

lemma wf_run_token [wf_rules]: "r \<in> R \<Longrightarrow> pres (refs_ok R) (run_token F E r tok re)"
  unfolding run_token_def finish_token_def by (rule wf_heads wf_rules | simp)+

lemma wf_run_loop [wf_rules]: "r \<in> R \<Longrightarrow> pres (refs_ok R) (run_loop n F E r toks re)"
proof (induction n arbitrary: toks re)
  case 0
  then show ?case by (cases toks) (auto intro: wf_rules)
next
  case (Suc n)
  then show ?case by (cases toks) (auto intro!: wf_bind_plain wf_rules)
qed

lemma wf_save_instance [wf_rules]:
  "r \<in> R \<Longrightarrow> pres (refs_ok R) (save_instance r)"
  unfolding save_instance_def
  by (auto simp: pres_def refs_ok_def eng_simps store_wf_def history_keyed_def inst_wf_def SaveProcessInstance_def tget_tput)

lemma wf_finally [wf_rules]: "pres I c \<Longrightarrow> pres I m \<Longrightarrow> pres I (finally_do c m)"
  unfolding finally_do_def by (intro pres_rules)

lemma wf_case_finished:
  "pres I a \<Longrightarrow> pres I b \<Longrightarrow> pres I d \<Longrightarrow>
   pres I (case st of ActivityStateTerminated \<Rightarrow> a | ActivityStateCompleted \<Rightarrow> b | _ \<Rightarrow> d)"
  by (cases st; simp)

lemma wf_export [wf_rules]: "pres (refs_ok R) (exportEndProcessEvent r)"
  unfolding exportEndProcessEvent_def by (rule wf_heads wf_rules)+

lemma wf_run_locked [wf_rules]: "pres (refs_ok R) (run_locked N F E r toks)"
  unfolding run_locked_def by (rule wf_case_finished wf_heads wf_rules | simp)+

lemma wf_RunProcessInstance [wf_rules]: "pres (refs_ok R) (RunProcessInstance N F E r toks)"
  unfolding RunProcessInstance_def by (rule wf_heads wf_rules)+

section \<open>Public operations\<close>

lemma wf_starting_nodes [wf_rules]: "pres (refs_ok R) (starting_nodes pd ids)"
  unfolding starting_nodes_def by (rule wf_rules)+

lemma wf_CreateInstance [wf_rules]: "pres (refs_ok R) (CreateInstance N F E pd vs)"
  unfolding CreateInstance_def by (rule wf_heads wf_rules)+

lemma wf_create_operations:
  "pres engine_wf (CreateInstanceById N F E i vs)" "pres engine_wf (CreateInstanceByKey N F E k vs)"
  "pres engine_wf (CreateInstanceWithStartingElements N F E k ids vs)"
  unfolding CreateInstanceById_def CreateInstanceByKey_def CreateInstanceWithStartingElements_def
  by (rule wf_heads wf_rules)+

lemma wf_ModifyInstance: "pres engine_wf (ModifyInstance N F E k ks ids vs)"
  unfolding ModifyInstance_def modify_batch_def by (rule wf_bind_batch wf_heads wf_rules | simp)+

lemma wf_DeleteInstanceVariable: "pres engine_wf (DeleteInstanceVariable k v)"
  unfolding DeleteInstanceVariable_def by (rule wf_heads wf_rules | simp)+

lemma wf_end_continuation [wf_rules]: "pres (refs_ok R) (end_event_continuation r e jt toks)"
  by (cases e) (auto simp: end_event_continuation_def handleExternalEndEventContinuation_def
      intro!: wf_bind_plain wf_rules)

lemma wf_JobCompleteByKey: "pres engine_wf (JobCompleteByKey N F E k vs)"
  unfolding JobCompleteByKey_def complete_job_def by (rule wf_bind_batch wf_heads wf_rules | simp)+

lemma wf_check_subscription [wf_rules]: "pres I (check_subscription_open m)"
  by (cases "ms_State m") (simp_all add: check_subscription_open_def pres_basic)

lemma wf_message_failure [wf_rules]: "r \<in> R \<Longrightarrow> pres (refs_ok R) (message_failure r m e)"
  unfolding message_failure_def by (rule wf_heads wf_rules | simp)+

lemma wf_publish_batch [wf_rules]: "r \<in> R \<Longrightarrow> pres (refs_ok R) (publish_batch F E r k vs)"
  unfolding publish_batch_def
  by (rule wf_heads wf_rules | (auto intro!: wf_bind_plain wf_rules split: option.splits FlowNode.splits))+

lemma wf_PublishMessage [wf_rules]: "pres (refs_ok R) (PublishMessage N F E k vs)"
  unfolding PublishMessage_def by (rule wf_bind_batch wf_heads wf_rules | simp)+

lemma wf_PublishMessageByName: "pres engine_wf (PublishMessageByName N F E n ck vs)"
  unfolding PublishMessageByName_def by (rule wf_heads wf_rules)+

lemma wf_trigger_batch [wf_rules]: "pres (refs_ok R) (trigger_batch F E r n t)"
  unfolding trigger_batch_def by (cases n; simp only: FlowNode.case; (rule wf_heads wf_rules | simp)+)

lemma wf_TriggerTimer [wf_rules]: "pres (refs_ok R) (TriggerTimer F E t)"
  unfolding TriggerTimer_def
  by (rule wf_bind_batch wf_heads wf_rules | (auto intro!: wf_bind_plain wf_rules split: TimerState.splits))+

lemma wf_ProcessTimer: "pres engine_wf (ProcessTimer N F E t)"
  unfolding ProcessTimer_def by (rule wf_heads wf_rules)+

lemma wf_ResolveIncident: "pres engine_wf (ResolveIncident N F E k)"
  unfolding ResolveIncident_def resolve_batch_def by (rule wf_bind_batch wf_heads wf_rules | simp)+

lemma wf_Start: "pres engine_wf (Start N F E)"
  unfolding Start_def by (rule wf_heads wf_rules)+

lemma wf_set_mem_definition [wf_rules]: "pres (refs_ok R) (set_mem (SaveProcessDefinition p))"
  by (auto simp: pres_def refs_ok_def set_mem_def eng_simps store_wf_def history_keyed_def inst_wf_def SaveProcessDefinition_def)

lemma wf_LoadFromBytes: "pres engine_wf (LoadFromBytes md5 unmarshal x k)"
  unfolding LoadFromBytes_def load_def Let_def by (rule wf_heads wf_rules)+

end
