(* ===== verification/Engine_Calls.thy ===== *)
theory Engine_Calls
  imports Engine_Invariants Demo_Process
begin

text \<open>
  The engine as its callers see it: a value for every public call, the operation that answers it, and
  the states that sequences of completed calls reach from a new engine. Goroutines that a flush left to
  be run are calls of their own, so that any order of them is covered.
\<close>

section \<open>Calls\<close>

datatype api_call =
    CallDeploy string int
  | CallCreate ProcessDefinition vars
  | CallCreateById string vars
  | CallCreateByKey int vars
  | CallCreateAt int "string list" vars
  | CallCancel int
  | CallModify int "int list" "string list" vars
  | CallDeleteVariable int string
  | CallActivateJobs string
  | CallJobAssign int "string option"
  | CallJobComplete int vars
  | CallJobFail int string "string option"
  | CallPublish int vars
  | CallPublishByName string string vars
  | CallProcessTimer Timer
  | CallResolveIncident int
  | CallStart
  | CallGoroutine

text \<open>The first goroutine that waits to run; its error is logged only.\<close>

definition run_goroutine :: "nat \<Rightarrow> nat \<Rightarrow> env \<Rightarrow> unit em" where
  "run_goroutine N F E =
     bind (gets spawned) (\<lambda>gs.
       case gs of
         [] \<Rightarrow> ret ()
       | g # rest \<Rightarrow>
           bind (modify (\<lambda>s. s\<lparr>spawned := rest\<rparr>)) (\<lambda>_.
           bind (attempt (RunProcessInstance N F E (fst g) (snd g))) (\<lambda>_. ret ())))"

definition ignore :: "'a em \<Rightarrow> unit em" where
  "ignore m = bind m (\<lambda>_. ret ())"

record params =
  loopFuel :: nat
  callFuel :: nat
  environment :: env
  checksum :: "string \<Rightarrow> int"
  decode :: "string \<Rightarrow> error + TDefinitions"

fun api :: "params \<Rightarrow> api_call \<Rightarrow> unit em" where
  "api P (CallDeploy x k) = ignore (LoadFromBytes (checksum P) (decode P) x k)"
| "api P (CallCreate pd vs) = ignore (CreateInstance (loopFuel P) (callFuel P) (environment P) pd vs)"
| "api P (CallCreateById i vs) = ignore (CreateInstanceById (loopFuel P) (callFuel P) (environment P) i vs)"
| "api P (CallCreateByKey k vs) = ignore (CreateInstanceByKey (loopFuel P) (callFuel P) (environment P) k vs)"
| "api P (CallCreateAt k ids vs) =
     ignore (CreateInstanceWithStartingElements (loopFuel P) (callFuel P) (environment P) k ids vs)"
| "api P (CallCancel k) = CancelInstanceByKey (callFuel P) (environment P) k"
| "api P (CallModify k ks ids vs) =
     ignore (ModifyInstance (loopFuel P) (callFuel P) (environment P) k ks ids vs)"
| "api P (CallDeleteVariable k v) = ignore (DeleteInstanceVariable k v)"
| "api P (CallActivateJobs ty) = ignore (ActivateJobs (environment P) ty)"
| "api P (CallJobAssign k a) = JobAssignByKey k a"
| "api P (CallJobComplete k vs) = JobCompleteByKey (loopFuel P) (callFuel P) (environment P) k vs"
| "api P (CallJobFail k m c) = JobFailByKey (environment P) k m c"
| "api P (CallPublish k vs) = PublishMessage (loopFuel P) (callFuel P) (environment P) k vs"
| "api P (CallPublishByName n ck vs) =
     PublishMessageByName (loopFuel P) (callFuel P) (environment P) n ck vs"
| "api P (CallProcessTimer t) = ProcessTimer (loopFuel P) (callFuel P) (environment P) t"
| "api P (CallResolveIncident k) = ResolveIncident (loopFuel P) (callFuel P) (environment P) k"
| "api P CallStart = Start (loopFuel P) (callFuel P) (environment P)"
| "api P CallGoroutine = run_goroutine (loopFuel P) (callFuel P) (environment P)"

text \<open>States reached by completed calls from the set \<open>C\<close>: each returned a value or an error.\<close>

inductive reached :: "api_call set \<Rightarrow> estate \<Rightarrow> bool" for C where
  new: "reached C NewEngine"
| call: "reached C s \<Longrightarrow> c \<in> C \<Longrightarrow> api P c s = (x, s') \<Longrightarrow> is_Ok x \<or> is_Err x \<Longrightarrow> reached C s'"

section \<open>The state stays well formed\<close>

lemma pres_ignore: "pres I m \<Longrightarrow> pres I (ignore m)"
  unfolding ignore_def by (intro pres_rules)

lemma wf_run_goroutine: "pres engine_wf (run_goroutine N F E)"
  unfolding run_goroutine_def by (rule wf_heads wf_rules)+

lemmas wf_operations = wf_create_operations wf_ModifyInstance wf_DeleteInstanceVariable wf_job_operations
  wf_JobCompleteByKey wf_PublishMessageByName wf_ProcessTimer wf_ResolveIncident wf_Start wf_LoadFromBytes
  wf_CancelInstanceByKey wf_run_goroutine wf_CreateInstance wf_PublishMessage

lemma wf_api: "pres engine_wf (api P c)"
  by (cases c) (simp_all only: api.simps, (intro pres_ignore wf_operations)+)

lemma engine_wf_new: "engine_wf NewEngine"
  using store_wf_New history_keyed_New
  by (simp add: refs_ok_def NewEngine_def clean_batch_def inst_wf_def) (simp add: NewStorage_def tget_def twf_def)

section \<open>No lock is left behind\<close>

lemma balanced_ignore: "balanced m \<Longrightarrow> balanced (ignore m)"
  unfolding ignore_def by (intro balanced_rules)

lemma balanced_run_goroutine: "balanced (run_goroutine N F E)"
proof -
  have "balanced (modify (\<lambda>s. s\<lparr>spawned := g s\<rparr>) :: unit em)" for g
    by (auto simp: balanced_def eng_simps released_def lk_def batch_touched_def)
  then show ?thesis unfolding run_goroutine_def by (intro balanced_rules)
qed

lemma balanced_for_each: "(\<And>x. balanced (f x)) \<Longrightarrow> balanced (for_each xs f)"
  by (induction xs) (auto intro!: balanced_rules)

lemma balanced_map_each: "(\<And>x. balanced (f x)) \<Longrightarrow> balanced (map_each xs f)"
  by (induction xs) (auto intro!: balanced_rules)

lemma balanced_ActivateJobs: "balanced (ActivateJobs E ty)"
  unfolding ActivateJobs_def activate_one_def
  by (intro balanced_rules balanced_map_each)

lemma balanced_modify_timers: "balanced (modify (\<lambda>s. s\<lparr>timerManager := y s\<rparr>) :: unit em)"
  "balanced (modify (\<lambda>s. s\<lparr>exported := z s\<rparr>) :: unit em)"
  by (auto simp: balanced_def eng_simps released_def lk_def batch_touched_def)

lemma balanced_Start: "balanced (Start N F E)"
  unfolding Start_def by (intro balanced_rules balanced_modify_timers balanced_map_each balanced_for_each)

lemma balanced_LoadFromBytes: "balanced (LoadFromBytes md5 unmarshal x k)"
  unfolding LoadFromBytes_def load_def Let_def by (intro balanced_rules balanced_modify_timers)

lemmas balanced_operations = balanced_create_operations balanced_ModifyInstance balanced_DeleteInstanceVariable
  balanced_JobCompleteByKey balanced_PublishMessageByName balanced_ResolveIncident balanced_Start
  balanced_LoadFromBytes balanced_run_goroutine balanced_ActivateJobs balanced_rules

definition timer_calls :: "api_call set" where
  "timer_calls = range CallProcessTimer"

lemma balanced_api_call: "c \<notin> timer_calls \<Longrightarrow> balanced (api P c)"
  unfolding timer_calls_def
  by (cases c) (simp_all only: api.simps, (intro balanced_ignore balanced_operations | simp)+)

lemma released_new: "released (\<lambda>_. False) NewEngine"
  by (simp add: released_def lk_def NewEngine_def batch_touched_def clean_batch_def held_def tget_def)

section \<open>Properties\<close>

definition demo_params :: params where
  "demo_params = \<lparr>loopFuel = 3, callFuel = 3, environment = demo_env, checksum = (\<lambda>_. 0),
     decode = (\<lambda>_. Inl ErrNotFound)\<rparr>"

definition demo_created :: estate where
  "demo_created = snd (api demo_params (CallCreate bare_pd Map.empty) NewEngine)"

lemma demo_created_reached: "reached (- timer_calls) demo_created"
proof -
  have "is_Ok (fst (api demo_params (CallCreate bare_pd Map.empty) NewEngine))" by code_simp
  then show ?thesis
    unfolding demo_created_def
    by (intro reached.call [OF reached.new, where c = "CallCreate bare_pd Map.empty" and P = demo_params
          and x = "fst (api demo_params (CallCreate bare_pd Map.empty) NewEngine)"])
      (auto simp: timer_calls_def)
qed



text \<open>C9. No lock is left behind: after any sequence of completed calls other than timers, made on a
  new engine one after the other, no process instance is locked, whether the calls succeeded or failed.\<close>

theorem completed_calls_hold_no_lock:
  assumes "reached (- timer_calls) s"
  shows "\<not> held (running s) k"
proof -
  from assms have "released (\<lambda>_. False) s"
    by (induction rule: reached.induct) (auto intro: released_new balancedD [OF balanced_api_call])
  then show ?thesis by (simp add: released_held)
qed

theorem completed_calls_hold_no_lock_witness: "\<not> held (running demo_created) 0"
  by (rule completed_calls_hold_no_lock [OF demo_created_reached])

end
