(* ===== verification/Engine_Triples.thy ===== *)
theory Engine_Triples
  imports Engine_Invariants
begin

text \<open>
  A small program logic for the handlers of the main loop. \<open>runs B I m Q\<close> says that \<open>m\<close>, started in a
  state with \<open>I\<close>, ends in a state with \<open>I\<close>, that a result it returns satisfies \<open>Q\<close>, and that it stops
  for lack of fuel only if \<open>B\<close> allows it. Errors, panics and waiting for a lock are always allowed.

  The locale \<open>heap_invariant\<close> states what an invariant has to promise about the primitive operations on
  process instances: it looks at the instances only, and survives a new instance, a change of state or
  variables, and a refresh. All handlers of the engine then keep it. The invariant the main loop relies
  on is \<open>placed r c\<close>: the instance behind \<open>r\<close> exists, and its process definition, its kind and the
  element it runs for never change.
\<close>

section \<open>Triples\<close>

definition runs :: "bool \<Rightarrow> ('s \<Rightarrow> bool) \<Rightarrow> ('s, 'a) eng \<Rightarrow> ('a \<Rightarrow> bool) \<Rightarrow> bool" where
  "runs B I m Q \<longleftrightarrow>
     (\<forall>s. I s \<longrightarrow> I (snd (m s)) \<and> (case fst (m s) of Ok x \<Rightarrow> Q x | NoFuel \<Rightarrow> B | _ \<Rightarrow> True))"

named_theorems calm_rules \<open>operations that keep the invariant, with no claim about their result\<close>

lemma runsD:
  assumes "runs B I m Q" and "I s" and "m s = (x, s')"
  shows "I s'" and "x = Ok v \<Longrightarrow> Q v" and "x = NoFuel \<Longrightarrow> B"
  using assms unfolding runs_def by (metis fst_conv snd_conv, metis fst_conv res.case(1), metis fst_conv res.case(5))

lemma runs_basic [calm_rules]:
  "runs B I (throw e) Q" "runs B I (panic msg) Q" "runs B I (gets g) (\<lambda>_. True)"
  "runs B I (lift_sum y) (\<lambda>_. True)"
  by (auto simp: runs_def eng_simps lift_sum_def split: sum.splits)

lemma runs_ret: "Q x \<Longrightarrow> runs B I (ret x) Q"
  by (simp add: runs_def eng_simps)

lemma runs_weaken: "runs B I m P \<Longrightarrow> (\<And>x. P x \<Longrightarrow> Q x) \<Longrightarrow> runs B I m Q"
  by (fastforce simp: runs_def split: res.splits)

lemma runs_bind:
  assumes "runs B I m P" and "\<And>x. P x \<Longrightarrow> runs B I (f x) Q"
  shows "runs B I (bind m f) Q"
  unfolding runs_def
proof (intro allI impI)
  fix s assume I: "I s"
  obtain y s1 where m: "m s = (y, s1)" by (cases "m s")
  note 1 = runsD [OF assms(1) I m]
  show "I (snd (bind m f s)) \<and> (case fst (bind m f s) of Ok x \<Rightarrow> Q x | NoFuel \<Rightarrow> B | _ \<Rightarrow> True)"
  proof (cases y)
    case (Ok x)
    with assms(2) [OF 1(2)] 1(1) m show ?thesis by (auto simp: runs_def bind_def)
  qed (use m 1 in \<open>auto simp: bind_def\<close>)
qed

lemma runs_bind_any: "runs B I m (\<lambda>_. True) \<Longrightarrow> (\<And>x. runs B I (f x) Q) \<Longrightarrow> runs B I (bind m f) Q"
  by (rule runs_bind)

lemma runs_wrap: "runs B I m Q \<Longrightarrow> runs B I (wrap f m) Q"
  unfolding runs_def wrap_def by (fastforce split: prod.splits res.splits)

lemma runs_attempt: "runs B I m Q \<Longrightarrow> runs B I (attempt m) (\<lambda>x. \<forall>v. x = Inr v \<longrightarrow> Q v)"
  unfolding runs_def attempt_def by (fastforce split: prod.splits res.splits)

lemma calm_attempt: "runs B I m (\<lambda>_. True) \<Longrightarrow> runs B I (attempt m) (\<lambda>_. True)"
  unfolding runs_def attempt_def by (fastforce split: prod.splits res.splits)

lemma runs_for_each:
  "(\<And>x. x \<in> set xs \<Longrightarrow> runs B I (f x) (\<lambda>_. True)) \<Longrightarrow> runs B I (for_each xs f) (\<lambda>_. True)"
  by (induction xs) (auto intro: runs_ret runs_bind_any)

lemma calm_map_each: "(\<And>x. runs B I (f x) (\<lambda>_. True)) \<Longrightarrow> runs B I (map_each xs f) (\<lambda>_. True)"
  by (induction xs) (auto intro!: runs_ret runs_bind_any)

text \<open>One result per element.\<close>

lemma runs_map_each:
  assumes "\<And>x. x \<in> set xs \<Longrightarrow> runs B I (f x) (R x)"
  shows "runs B I (map_each xs f) (list_all2 R xs)"
  using assms
proof (induction xs)
  case (Cons x xs)
  show ?case unfolding map_each.simps
    by (rule runs_bind [OF Cons.prems [of x]], simp, rule runs_bind [OF Cons.IH], rule Cons.prems, simp,
        rule runs_ret, simp)
qed (auto intro: runs_ret)

lemma runs_when: "runs B I m (\<lambda>_. True) \<Longrightarrow> runs B I (do_when b m) (\<lambda>_. True)"
  by (simp add: do_when_def runs_ret)

lemma runs_if:
  "(b \<Longrightarrow> runs B I m Q) \<Longrightarrow> (\<not> b \<Longrightarrow> runs B I n Q) \<Longrightarrow> runs B I (if b then m else n) Q"
  by simp

lemma runs_case_option:
  "runs B I m Q \<Longrightarrow> (\<And>x. runs B I (f x) Q) \<Longrightarrow> runs B I (case y of None \<Rightarrow> m | Some x \<Rightarrow> f x) Q"
  by (cases y) auto

lemma runs_case_sum:
  "(\<And>e. runs B I (g e) Q) \<Longrightarrow> (\<And>x. runs B I (f x) Q) \<Longrightarrow> runs B I (case y of Inl e \<Rightarrow> g e | Inr x \<Rightarrow> f x) Q"
  by (cases y) auto

lemma runs_case_option_eq:
  "(y = None \<Longrightarrow> runs B I m Q) \<Longrightarrow> (\<And>x. y = Some x \<Longrightarrow> runs B I (f x) Q) \<Longrightarrow>
   runs B I (case y of None \<Rightarrow> m | Some x \<Rightarrow> f x) Q"
  by (cases y) auto

lemma runs_case_sum_eq:
  "(\<And>e. y = Inl e \<Longrightarrow> runs B I (g e) Q) \<Longrightarrow> (\<And>x. y = Inr x \<Longrightarrow> runs B I (f x) Q) \<Longrightarrow>
   runs B I (case y of Inl e \<Rightarrow> g e | Inr x \<Rightarrow> f x) Q"
  by (cases y) auto

lemma runs_case_list_eq:
  "(y = [] \<Longrightarrow> runs B I m Q) \<Longrightarrow> (\<And>x xs. y = x # xs \<Longrightarrow> runs B I (f x xs) Q) \<Longrightarrow>
   runs B I (case y of [] \<Rightarrow> m | x # xs \<Rightarrow> f x xs) Q"
  by (cases y) auto

lemma runs_case_list:
  "runs B I m Q \<Longrightarrow> (\<And>x xs. runs B I (f x xs) Q) \<Longrightarrow> runs B I (case y of [] \<Rightarrow> m | x # xs \<Rightarrow> f x xs) Q"
  by (cases y) auto

lemma runs_case_prod: "(\<And>x z. runs B I (f x z) Q) \<Longrightarrow> runs B I (case y of (x, z) \<Rightarrow> f x z) Q"
  by (cases y) auto

lemma runs_case_val:
  "runs B I a Q \<Longrightarrow> (\<And>x. runs B I (b x) Q) \<Longrightarrow> (\<And>x. runs B I (c x) Q) \<Longrightarrow> (\<And>x. runs B I (d x) Q) \<Longrightarrow>
   (\<And>x. runs B I (e x) Q) \<Longrightarrow> (\<And>x. runs B I (f x) Q) \<Longrightarrow>
   runs B I (case y of VNil \<Rightarrow> a | VBool x \<Rightarrow> b x | VNum x \<Rightarrow> c x | VStr x \<Rightarrow> d x | VList x \<Rightarrow> e x
     | VMap x \<Rightarrow> f x) Q"
  by (cases y) auto

lemma runs_case_definition:
  "runs B I a Q \<Longrightarrow> (\<And>x. runs B I (b x) Q) \<Longrightarrow> (\<And>x y. runs B I (c x y) Q) \<Longrightarrow> (\<And>x y. runs B I (d x y) Q) \<Longrightarrow>
   runs B I (case e of TTerminateEventDefinition \<Rightarrow> a | TMessageEventDefinition x \<Rightarrow> b x
     | TTimerEventDefinition x y \<Rightarrow> c x y | TLinkEventDefinition x y \<Rightarrow> d x y) Q"
  by (cases e) auto

lemma runs_case_kind:
  "runs B I a Q \<Longrightarrow> (\<And>t k e. runs B I (b t k e) Q) \<Longrightarrow> (\<And>t k. runs B I (c t k) Q) \<Longrightarrow>
   (\<And>t k e. runs B I (d t k e) Q) \<Longrightarrow>
   runs B I (case x of DefaultProcessInstance \<Rightarrow> a | SubProcessInstance t k e \<Rightarrow> b t k e
     | CallActivityInstance t k \<Rightarrow> c t k | MultiInstanceInstance t k e \<Rightarrow> d t k e) Q"
  by (cases x) auto

lemma calm_ret: "runs B I (ret x) (\<lambda>_. True)"
  by (rule runs_ret) simp

lemmas calm_control [calm_rules] = calm_ret calm_attempt runs_wrap runs_for_each calm_map_each runs_when runs_if
  runs_case_option runs_case_sum runs_case_list runs_case_prod runs_case_val runs_case_definition runs_case_kind
  runs_bind_any

section \<open>Invariants of the instances\<close>

locale heap_invariant =
  fixes B :: bool and I :: "estate \<Rightarrow> bool"
  assumes same_heap: "I s \<Longrightarrow> objs s' = objs s \<Longrightarrow> I s'"
    and kept_by_alloc: "I s \<Longrightarrow> objs s' = objs s @ [i] \<Longrightarrow> I s'"
    and kept_by_update: "I s \<Longrightarrow> objs s' = (objs s)[p := (objs s ! p)\<lparr>pi_State := st, pi_Variables := vs\<rparr>] \<Longrightarrow> I s'"
    and kept_by_refresh: "I s \<Longrightarrow> RefreshProcessInstance d p (objs s) = Inr h \<Longrightarrow> objs s' = h \<Longrightarrow> I s'"
begin

abbreviation calm :: "'a em \<Rightarrow> bool" where
  "calm m \<equiv> runs B I m (\<lambda>_. True)"

lemma calm_heap:
  assumes "\<And>s. objs (snd (m s)) = objs s" and "\<And>s. fst (m s) \<noteq> NoFuel"
  shows "calm m"
  unfolding runs_def
proof (intro allI impI)
  fix s assume "I s"
  then have "I (snd (m s))" using assms(1) by (rule same_heap)
  then show "I (snd (m s)) \<and> (case fst (m s) of Ok x \<Rightarrow> True | NoFuel \<Rightarrow> B | _ \<Rightarrow> True)"
    using assms(2) [of s] by (cases "fst (m s)") auto
qed

lemma calm_prims [calm_rules]:
  "calm (generateKey E)" "calm (time_now E)" "calm (deref p)" "calm (with_timers g)" "calm (lock k)"
  "calm (try_lock E k)" "calm (unlock k)" "calm (touch k)" "calm (AddPostFlushAction p ts)"
  "calm (add_stmt x)" "calm drop_statements" "calm NewEngineBatchClean" "calm (upd_batch b)" "calm (db fd)"
  "calm (run_batch sts)" "calm (set_mem fm)"
  by (rule calm_heap;
      auto simp: em_defs eng_simps split: option.splits sum.splits prod.splits bool.splits)+

lemma calm_db_find [calm_rules]: "calm (db_find f)"
  unfolding db_find_def by (rule calm_rules)+

lemma calm_spawned [calm_rules]: "calm (modify (\<lambda>s. s\<lparr>spawned := g s\<rparr>))"
  by (rule calm_heap) (auto simp: eng_simps)

lemma calm_update:
  assumes "\<And>i. f i = i\<lparr>pi_State := pi_State (f i), pi_Variables := pi_Variables (f i)\<rparr>"
  shows "calm (update_instance p f)"
  unfolding runs_def
proof (intro allI impI)
  fix s assume s: "I s"
  let ?i = "f (objs s ! p)"
  from assms have "objs (s\<lparr>objs := (objs s)[p := ?i]\<rparr>) =
    (objs s)[p := (objs s ! p)\<lparr>pi_State := pi_State ?i, pi_Variables := pi_Variables ?i\<rparr>]" by simp
  from kept_by_update [OF s this]
  show "I (snd (update_instance p f s)) \<and>
    (case fst (update_instance p f s) of Ok x \<Rightarrow> True | NoFuel \<Rightarrow> B | _ \<Rightarrow> True)"
    by (simp add: update_instance_def)
qed

lemma calm_set [calm_rules]: "calm (set_state p st)" "calm (set_variables p vs)"
  unfolding set_state_def set_variables_def by (rule calm_update; simp)+

lemma calm_alloc [calm_rules]: "calm (alloc i)"
  unfolding runs_def
proof (intro allI impI)
  fix s assume "I s"
  then have "I (s\<lparr>objs := objs s @ [i]\<rparr>)" by (rule kept_by_alloc) simp
  then show "I (snd (alloc i s)) \<and> (case fst (alloc i s) of Ok x \<Rightarrow> True | NoFuel \<Rightarrow> B | _ \<Rightarrow> True)"
    by (simp add: alloc_def)
qed

lemma calm_refresh [calm_rules]: "calm (refresh p)"
  unfolding runs_def
proof (intro allI impI)
  fix s assume "I s"
  then show "I (snd (refresh p s)) \<and> (case fst (refresh p s) of Ok x \<Rightarrow> True | NoFuel \<Rightarrow> B | _ \<Rightarrow> True)"
    by (cases "RefreshProcessInstance (mem s) p (objs s)") (auto simp: refresh_def intro: kept_by_refresh)
qed

subsection \<open>Batches\<close>

lemma calm_unlock_touched [calm_rules]: "calm unlock_touched"
  unfolding unlock_touched_def by (rule calm_rules)+

lemma calm_Flush [calm_rules]: "calm Flush"
  unfolding Flush_def by (rule calm_rules)+

lemma calm_AddLocked [calm_rules]: "calm (AddLockedInstance p)" "calm (AddParentLockedInstance E p)"
  unfolding AddLockedInstance_def AddParentLockedInstance_def by (rule calm_rules)+

lemma calm_incident [calm_rules]: "calm (createNewIncidentFromToken E e tok)"
  unfolding createNewIncidentFromToken_def by (rule calm_rules)+

lemma calm_WriteTokenIncident [calm_rules]: "calm (WriteTokenIncident E tok p e)"
  unfolding WriteTokenIncident_def Let_def by (rule calm_rules)+

lemma calm_token_incident [calm_rules]: "calm (token_incident E p tok e re)"
  unfolding token_incident_def by (rule calm_rules)+

subsection \<open>Handlers\<close>

lemma calm_flow_helpers [calm_rules]:
  "calm (target_id p flow)" "calm (new_token E p e st)" "calm (save_history E p k e tk iv ov)"
  unfolding target_id_def new_token_def save_history_def by (rule calm_rules)+

lemma calm_flow_history [calm_rules]: "calm (save_flow_history E p f k)"
  unfolding save_flow_history_def by (rule calm_rules)+

lemma calm_fork_token [calm_rules]: "calm (fork_token E p flow)" "calm (first_transition E p flow tok)"
  unfolding fork_token_def first_transition_def Let_def by (rule calm_rules)+

lemma calm_propagate [calm_rules]: "calm (propagate E p locals ms outs)"
  unfolding propagate_def Let_def by (rule calm_rules)+

lemma calm_propagate_output [calm_rules]: "calm (propagate_output E p ms outs)"
  unfolding propagate_output_def by (rule calm_rules)+

lemma calm_collection [calm_rules]: "calm (multi_instance_collection mi eik)"
  unfolding multi_instance_collection_def by (rule calm_rules)+

lemma calm_transitions [calm_rules]:
  "calm (handleDefaultElementTransition E p element tok)"
  "calm (handleMultiInstanceElementTransition E p eik element tok)"
  unfolding handleDefaultElementTransition_def handleMultiInstanceElementTransition_def by (rule calm_rules)+

lemma calm_handleElementTransition [calm_rules]: "calm (handleElementTransition E p element tok)"
  unfolding handleElementTransition_def by (rule calm_rules)+

lemma calm_subscriptions [calm_rules]: "calm (createMessageSubscription E p m e tok)" "calm (createTimer E p du e tok)"
  unfolding createMessageSubscription_def createTimer_def Let_def by (rule calm_rules)+

lemma calm_catch [calm_rules]:
  "calm (createMessageCatchEvent E p m e tok)" "calm (createTimerCatchEvent E p du e tok)"
  unfolding createMessageCatchEvent_def createTimerCatchEvent_def by (rule calm_rules)+

lemma calm_boundary [calm_rules]:
  "calm (createBoundaryEventSubscriptions E p element tok)" "calm (cancelBoundarySubscriptions tok)"
  unfolding createBoundaryEventSubscriptions_def cancelBoundarySubscriptions_def by (rule calm_rules)+

lemma calm_plain_end [calm_rules]: "calm (handlePlainEndEvent p b)"
  unfolding handlePlainEndEvent_def by (rule calm_rules)+

lemma calm_jobs [calm_rules]: "calm (handle_job E p element job locals h)"
  unfolding handle_job_def activate_job_def by (rule calm_rules)+

lemma calm_createInternalTask [calm_rules]: "calm (createInternalTask E p element tok)"
  unfolding createInternalTask_def Let_def by (rule calm_rules)+

lemma calm_create_instance [calm_rules]:
  "calm (createInstanceWithStartingElements E pd ids vs kind bk)" "calm (createInstance E pd vs kind bk)"
  unfolding createInstance_def createInstanceWithStartingElements_def by (rule calm_rules)+

lemma calm_calls [calm_rules]:
  "calm (createCallActivity E p c tok)" "calm (createSubProcess E p sp tok)"
  "calm (handleLocalBusinessRuleTask E p b dec tok)" "calm (createExternalBusinessRuleTask E p b tok)"
  unfolding createCallActivity_def createSubProcess_def handleLocalBusinessRuleTask_def
    createExternalBusinessRuleTask_def Let_def
  by (rule calm_rules)+

lemma calm_business_rule [calm_rules]: "calm (createBusinessRuleTask E p b tok)"
  unfolding createBusinessRuleTask_def
  by (auto intro!: calm_rules split: option.splits TBusinessRuleTaskImplementation.splits)

lemma calm_create_activity: "create_activity E p element tok = Some m \<Longrightarrow> calm m"
  by (cases element) (auto simp: create_activity_def createUserTask_def intro!: calm_rules)

lemma calm_start_multi [calm_rules]: "calm (start_multi_instance E p element mi starts tok)"
  unfolding start_multi_instance_def by (rule calm_rules)+

subsection \<open>The parent of an instance\<close>

lemma calm_parent [calm_rules]:
  "calm (parent_setup E t eik)" "calm (propagate_to_parent E p q element)" "calm (output_collection E mi fs)"
  "calm (parent_finish E q element tok out)"
  unfolding parent_setup_def propagate_to_parent_def output_collection_def parent_finish_def
  by (rule calm_rules)+

lemma calm_continuations [calm_rules]:
  "calm (handleParentProcessContinuationForSubProcess E p t eik e)"
  "calm (handleParentProcessContinuationForCallActivity E p t eik)"
  "calm (handleParentProcessContinuationForMultiInstance E p t eik e)"
  unfolding handleParentProcessContinuationForSubProcess_def handleParentProcessContinuationForCallActivity_def
    handleParentProcessContinuationForMultiInstance_def
  by (rule calm_rules | (auto intro!: calm_rules split: option.splits FlowNode.splits))+

lemma calm_continuation [calm_rules]: "calm (handleParentProcessContinuation E p)"
  unfolding handleParentProcessContinuation_def by (rule calm_rules)+

subsection \<open>Cancellation, which may run out of fuel\<close>

lemma calm_find_called [calm_rules]: "calm (find_called k)"
  unfolding find_called_def by (rule calm_rules)

lemma calm_resolve [calm_rules]: "calm (resolve_incident E inc)"
  unfolding resolve_incident_def by (rule calm_rules)+

lemma runs_cancel_tokens:
  assumes "\<And>p. calm (sub p)"
  shows "runs B I (cancel_tokens sub omits tokens) (\<lambda>ts. \<forall>t \<in> set ts. tok_State t = TokenStateCanceled)"
proof (induction tokens)
  case (Cons t ts)
  have sub: "calm (for_each ps (\<lambda>p. wrap f (sub p)))" for ps f by (rule calm_rules assms)+
  show ?case unfolding cancel_tokens.simps Let_def
    by (rule runs_bind_any [OF calm_find_called], rule runs_bind_any [OF sub], rule runs_if, rule Cons.IH,
        rule runs_bind_any, rule calm_rules, rule runs_bind [OF Cons.IH], rule runs_ret, simp)
qed (simp add: runs_ret)

lemma runs_inner_cancel:
  assumes "\<And>p. calm (sub p)"
  shows "runs B I (inner_cancel_with sub E p omits) (\<lambda>ts. \<forall>t \<in> set ts. tok_State t = TokenStateCanceled)"
  unfolding inner_cancel_with_def
  by (rule runs_bind_any [OF calm_prims(3)] runs_bind_any [OF calm_prims(14)] runs_bind_any [OF runs_for_each]
      runs_cancel_tokens [OF assms] calm_prims calm_resolve)+

lemma calm_cancel_sub:
  assumes B
  shows "calm (cancelSubProcessInstance n E p)"
proof (induction n arbitrary: p)
  case 0
  from assms show ?case by (simp add: runs_def eng_simps)
next
  case (Suc n)
  have inner: "calm (inner_cancel_with (cancelSubProcessInstance n E) E q [])" for q
    by (rule runs_weaken [OF runs_inner_cancel [OF Suc.IH]]) simp
  show ?case unfolding cancelSubProcessInstance.simps cancel_instance_with_def by (rule calm_rules inner)+
qed

lemma runs_terminate_end:
  assumes B
  shows "runs B I (handleTerminateEndEvent F E p tok)
    (\<lambda>ts. \<forall>t \<in> set ts. tok_State t = TokenStateCanceled \<or> t = tok)"
  unfolding handleTerminateEndEvent_def handleProcessInstanceInnerCancel_def
  by (rule runs_bind, rule runs_attempt, rule runs_inner_cancel [OF calm_cancel_sub [OF assms]],
      rule runs_bind_any, rule calm_rules, rule runs_ret, auto split: sum.splits)

end

text \<open>What never changes about an instance.\<close>

type_synonym instance_shape = "ProcessDefinition \<times> ProcessType \<times> string"

fun kind_elementId :: "instance_kind \<Rightarrow> string" where
  "kind_elementId (SubProcessInstance _ _ i) = i"
| "kind_elementId (MultiInstanceInstance _ _ i) = i"
| "kind_elementId _ = []"

definition shape :: "ProcessInstance \<Rightarrow> instance_shape" where
  "shape i = (pi_Definition i, Type i, kind_elementId (pi_Kind i))"

definition placed :: "nat \<Rightarrow> instance_shape \<Rightarrow> estate \<Rightarrow> bool" where
  "placed r c s \<longleftrightarrow> r < length (objs s) \<and> shape (objs s ! r) = c"

lemma kind_set_parent_token_sels [simp]:
  "kind_Type (kind_set_parent_token t k) = kind_Type k"
  "kind_elementId (kind_set_parent_token t k) = kind_elementId k"
  by (cases k; simp)+

lemma shape_updates [simp]:
  "shape (i\<lparr>pi_State := st\<rparr>) = shape i" "shape (i\<lparr>pi_Variables := vs\<rparr>) = shape i"
  "shape (i\<lparr>pi_Kind := kind_set_parent_token t (pi_Kind i)\<rparr>) = shape i"
  by (simp_all add: shape_def Type_def)

lemma refresh_keeps_shape:
  assumes "RefreshProcessInstance d p h = Inr h'"
  shows "\<exists>i. h' = h[p := i] \<and> shape i = shape (h ! p)"
proof -
  have "shape ((h ! p)\<lparr>pi_State := st, pi_Variables := vs,
      pi_Kind := kind_set_parent_token t (pi_Kind (h ! p))\<rparr>) = shape (h ! p)" for st vs t
    by (simp add: shape_def Type_def)
  moreover have "shape ((h ! p)\<lparr>pi_State := st, pi_Variables := vs\<rparr>) = shape (h ! p)" for st vs
    by (simp add: shape_def Type_def)
  ultimately show ?thesis
    using assms by (auto simp: RefreshProcessInstance_def Let_def split: option.splits if_splits)
qed

interpretation placed: heap_invariant B "placed r c" for B r c
proof unfold_locales
  fix s s' :: estate and i p st vs d h
  assume s: "placed r c s"
  { assume "objs s' = objs s" with s show "placed r c s'" by (simp add: placed_def) }
  { assume "objs s' = objs s @ [i]" with s show "placed r c s'" by (simp add: placed_def nth_append) }
  { assume "objs s' = (objs s)[p := (objs s ! p)\<lparr>pi_State := st, pi_Variables := vs\<rparr>]"
    with s show "placed r c s'" by (cases "p = r") (auto simp: placed_def) }
  { assume "RefreshProcessInstance d p (objs s) = Inr h" "objs s' = h"
    with s refresh_keeps_shape [of d p "objs s" h] show "placed r c s'"
      by (cases "p = r") (auto simp: placed_def) }
qed

end
