(* ===== verification/Engine_Progress.thy ===== *)
theory Engine_Progress
  imports Engine_Triples "HOL-Library.Sublist"
begin

text \<open>
  The main loop as a token game. The abstract specification knows the process only: \<open>fires c n ms\<close> says
  that a token at the node \<open>n\<close> may be replaced by tokens at the elements \<open>ms\<close>. The refinement theorem
  says that every pass of the main loop is such a firing, whatever the handlers, the store and the
  expressions do. From the game alone follows when the loop ends: in a process whose nodes form no
  cycle a bound on the number of passes can be computed from the process and the tokens.
\<close>

section \<open>The token game\<close>

definition shape_definitions :: "instance_shape \<Rightarrow> TDefinitions" where
  "shape_definitions c = pd_Definitions (fst c)"

definition shape_process :: "instance_shape \<Rightarrow> TFlowElementsContainer" where
  "shape_process c = proc_Container (def_Process (shape_definitions c))"

definition is_multi :: "instance_shape \<Rightarrow> bool" where
  "is_multi c \<longleftrightarrow> fst (snd c) = ProcessTypeMultiInstance"

text \<open>The elements an instance moves through: those of its sub-process, or of the process.\<close>

definition shape_container :: "instance_shape \<Rightarrow> TFlowElementsContainer option" where
  "shape_container c =
     (if fst (snd c) = ProcessTypeSubProcess
      then (case GetFlowNodeById (shape_process c) (snd (snd c)) of
              Some (FSubProcess sp) \<Rightarrow> Some (sp_Container sp)
            | _ \<Rightarrow> None)
      else Some (shape_process c))"

definition node_at :: "instance_shape \<Rightarrow> string \<Rightarrow> FlowNode option" where
  "node_at c i = (case shape_container c of None \<Rightarrow> None | Some k \<Rightarrow> GetFlowNodeById k i)"

definition targets :: "instance_shape \<Rightarrow> TSequenceFlow list \<Rightarrow> string list" where
  "targets c flows = map GetId (List.map_filter (GetTargetRef (shape_definitions c)) flows)"

definition default_flows :: "TDefaultFlowGateway \<Rightarrow> TSequenceFlow list" where
  "default_flows g = (case DefaultFlow g of None \<Rightarrow> [] | Some f \<Rightarrow> [f])"

definition is_link_catch :: "TIntermediateCatchEvent \<Rightarrow> bool" where
  "is_link_catch ice = (case ice_EventDefinition ice of Some (TLinkEventDefinition _ _) \<Rightarrow> True | _ \<Rightarrow> False)"

text \<open>Where a token that leaves \<open>n\<close> goes: along all outgoing flows, or around the loop of a
  multi-instance, where it stays at its element \<open>i\<close>.\<close>

definition leaves :: "instance_shape \<Rightarrow> FlowNode \<Rightarrow> string \<Rightarrow> string list" where
  "leaves c n i = (if is_multi c then [i] else targets c (GetOutgoingAssociation n))"

fun passes :: "FlowNode \<Rightarrow> bool" where
  "passes (FStartEvent _) = True"
| "passes (FServiceTask _) = True"
| "passes (FUserTask _) = True"
| "passes (FCallActivity _) = True"
| "passes (FBusinessRuleTask _) = True"
| "passes (FSendTask _) = True"
| "passes (FSubProcess _) = True"
| "passes (FIntermediateCatchEvent ice) = is_link_catch ice"
| "passes (FIntermediateThrowEvent ite) =
     (case ite_EventDefinition ite of Some (TMessageEventDefinition _) \<Rightarrow> True | _ \<Rightarrow> False)"
| "passes _ = False"

text \<open>A link event behind an event based gateway passes the token of the gateway on.\<close>

definition after_event :: "instance_shape \<Rightarrow> TFlowNode \<Rightarrow> TSequenceFlow \<Rightarrow> string list" where
  "after_event c g flow =
     (case GetTargetRef (shape_definitions c) flow of
        Some (FIntermediateCatchEvent ice) \<Rightarrow>
          if is_link_catch ice then leaves c (FIntermediateCatchEvent ice) (fn_Id g) else []
      | _ \<Rightarrow> [])"

inductive fires :: "instance_shape \<Rightarrow> FlowNode \<Rightarrow> string list \<Rightarrow> bool" for c where
  stops: "fires c n []"
| passes: "passes n \<Longrightarrow> fires c n (leaves c n (GetId n))"
| exclusive: "f \<in> set (OutgoingAssociations g @ default_flows g) \<Longrightarrow> fires c (FExclusiveGateway g) (targets c [f])"
| inclusive: "subseq fs (OutgoingAssociations g) \<Longrightarrow> fires c (FInclusiveGateway g) (targets c fs)"
| inclusive_default: "fires c (FInclusiveGateway g) (targets c (default_flows g))"
| parallel: "fires c (FParallelGateway g) (targets c (OutgoingAssociations g))"
| events: "list_all2 (\<lambda>f l. l \<in> {[], after_event c g f}) (OutgoingAssociations g) ls \<Longrightarrow>
    fires c (FEventBasedGateway g) (concat ls)"
| link: "ite_EventDefinition ite = Some (TLinkEventDefinition i name) \<Longrightarrow>
    find_link (IntermediateCatchEvent (shape_process c)) name = Ok (Some ice) \<Longrightarrow>
    fires c (FIntermediateThrowEvent ite) [fn_Id ice]"
| ends: "list_all2 (\<lambda>d l. l \<in> {[], leaves c (FEndEvent e) (fn_Id e)}) (EvenDefinitions e) ls \<Longrightarrow>
    fires c (FEndEvent e) (concat ls)"

text \<open>The elements of the running tokens of a list, the ones the loop queues.\<close>

definition places :: "ExecutionToken list \<Rightarrow> string list" where
  "places toks = map tok_ElementId (filter (\<lambda>t. tok_State t = TokenStateRunning) toks)"

lemma places_simps [simp]:
  "places [] = []" "places (t # ts) = (if tok_State t = TokenStateRunning then tok_ElementId t # places ts else places ts)"
  "places (ts @ us) = places ts @ places us"
  by (simp_all add: places_def)

lemma places_concat [simp]: "places (concat tss) = concat (map places tss)"
  by (induction tss) simp_all

lemma places_none: "(\<And>t. t \<in> set ts \<Longrightarrow> tok_State t \<noteq> TokenStateRunning) \<Longrightarrow> places ts = []"
  by (simp add: places_def filter_empty_conv)

lemma targets_simps [simp]:
  "targets c [] = []"
  "targets c (f # fs) = (case GetTargetRef (shape_definitions c) f of None \<Rightarrow> targets c fs | Some n \<Rightarrow> GetId n # targets c fs)"
  by (simp_all add: targets_def map_filter_simps split: option.splits)

lemma shape_sels:
  "shape i = c \<Longrightarrow> instance_definitions i = shape_definitions c"
  "shape i = c \<Longrightarrow> instance_container i = shape_process c"
  "shape i = c \<Longrightarrow> pi_Kind i = MultiInstanceInstance t k e \<Longrightarrow> is_multi c"
  "shape i = c \<Longrightarrow> kind_Type (pi_Kind i) \<noteq> ProcessTypeMultiInstance \<Longrightarrow> \<not> is_multi c"
  by (auto simp: shape_def instance_definitions_def instance_container_def shape_definitions_def shape_process_def
      is_multi_def Type_def)

text \<open>The flows the gateways choose from.\<close>

lemma exclusive_loop_flows: "exclusive_loop E single vs flows = Inr fs \<Longrightarrow> set fs \<subseteq> set flows"
  by (induction flows arbitrary: fs) (auto split: if_splits sum.splits)

lemma exclusive_filter_flows:
  assumes "exclusivelyFilterByConditionExpression E (OutgoingAssociations g) (DefaultFlow g) vs = Inr fs"
  shows "fs \<noteq> [] \<and> set fs \<subseteq> set (OutgoingAssociations g @ default_flows g)"
  using assms exclusive_loop_flows [of E _ vs "OutgoingAssociations g"]
  by (fastforce simp: exclusivelyFilterByConditionExpression_def default_flows_def
      split: sum.splits if_splits option.splits)

lemma inclusive_loop_flows: "inclusive_loop E single vs flows = Inr fs \<Longrightarrow> subseq fs flows"
  by (induction flows arbitrary: fs) (auto split: if_splits sum.splits)

lemma inclusive_filter_flows:
  assumes "inclusivelyFilterByConditionExpression E flows d vs = Ok fs"
  shows "subseq fs flows \<or> (\<exists>f. d = Some f \<and> fs = [f])"
  using assms inclusive_loop_flows [of E _ vs flows]
  by (fastforce simp: inclusivelyFilterByConditionExpression_def split: sum.splits if_splits option.splits list.splits)

lemma inclusive_filter_no_fuel: "inclusivelyFilterByConditionExpression E flows d vs \<noteq> NoFuel"
  by (auto simp: inclusivelyFilterByConditionExpression_def split: sum.splits if_splits option.splits list.splits)

lemma find_link_no_fuel: "find_link ices name \<noteq> NoFuel"
  by (induction ices name rule: find_link.induct) (auto split: option.splits EventDefinition.splits)

text \<open>Only a terminate end event cancels called instances inside the loop.\<close>

fun may_terminate :: "FlowNode \<Rightarrow> bool" where
  "may_terminate (FEndEvent e) = (TTerminateEventDefinition \<in> set (EvenDefinitions e))"
| "may_terminate _ = False"

text \<open>What the definitions of an end event queue, and what a pass of the loop queues.\<close>

definition ends_with :: "instance_shape \<Rightarrow> TEndEvent \<Rightarrow> EventDefinition list \<Rightarrow> string list \<Rightarrow> bool" where
  "ends_with c e ds ms \<longleftrightarrow>
     (\<exists>ls. ms = concat ls \<and> list_all2 (\<lambda>d l. l \<in> {[], leaves c (FEndEvent e) (fn_Id e)}) ds ls)"

lemma ends_with_Nil: "ends_with c e [] []"
  by (simp add: ends_with_def)

lemma ends_with_Cons:
  "l \<in> {[], leaves c (FEndEvent e) (fn_Id e)} \<Longrightarrow> ends_with c e ds ms \<Longrightarrow> ends_with c e (d # ds) (l @ ms)"
  unfolding ends_with_def by (elim exE conjE) (rule exI [of _ "l # _"], simp)

definition pass_fires :: "instance_shape \<Rightarrow> ExecutionToken \<Rightarrow> ExecutionToken list \<Rightarrow> bool" where
  "pass_fires c tok queued \<longleftrightarrow> (\<forall>t \<in> set queued. tok_State t = TokenStateRunning) \<and>
     (queued = [] \<or> (\<exists>n. node_at c (tok_ElementId tok) = Some n \<and> fires c n (map tok_ElementId queued)))"

section \<open>Handlers fire\<close>

locale running_instance = heap_invariant +
  fixes r :: nat and c :: instance_shape
  assumes shape_known: "I s \<Longrightarrow> r < length (objs s) \<and> shape (objs s ! r) = c"
begin

lemma runs_bind_deref:
  "(\<And>i. shape i = c \<Longrightarrow> runs B I (f i) Q) \<Longrightarrow> runs B I (bind (deref r) f) Q"
  by (rule runs_bind [where P = "\<lambda>i. shape i = c"]) (auto simp: runs_def deref_def dest: shape_known)

lemma runs_target_id: "runs B I (target_id r flow) (\<lambda>t. targets c [flow] = [t])"
  unfolding target_id_def
  by (rule runs_bind_deref) (auto simp: shape_sels intro: runs_ret runs_basic split: option.splits)

lemma runs_new_token:
  "runs B I (new_token E r e st) (\<lambda>t. tok_ElementId t = e \<and> tok_State t = st)"
  unfolding new_token_def
  by (rule runs_bind_any, rule calm_rules)+ (rule runs_ret, simp)

lemma runs_fork_token:
  "runs B I (fork_token E r flow) (\<lambda>t. tok_State t = TokenStateRunning \<and> targets c [flow] = [tok_ElementId t])"
  unfolding fork_token_def
  by (rule runs_bind [OF runs_target_id], rule runs_bind [OF runs_new_token], rule runs_bind_any, rule calm_rules,
      rule runs_ret, simp)

lemma runs_fork_all: "runs B I (map_each flows (fork_token E r)) (\<lambda>ts. places ts = targets c flows)"
proof (induction flows)
  case (Cons flow flows)
  show ?case unfolding map_each.simps
    by (rule runs_bind [OF runs_fork_token], rule runs_bind [OF Cons.IH], rule runs_ret)
      (auto split: option.splits)
qed (simp add: runs_ret)

lemma runs_first_transition:
  "runs B I (first_transition E r flow tok) (\<lambda>t. tok_State t = TokenStateRunning \<and> targets c [flow] = [tok_ElementId t])"
  unfolding first_transition_def Let_def
  by (rule runs_bind [OF runs_target_id], rule runs_bind_any, rule calm_rules, rule runs_bind_any, rule calm_rules,
      rule runs_ret, simp)

lemma runs_default_transition:
  "runs B I (handleDefaultElementTransition E r n tok) (\<lambda>ts. places ts = targets c (GetOutgoingAssociation n))"
proof (cases "GetOutgoingAssociation n")
  case Nil
  then show ?thesis
    by (auto simp: handleDefaultElementTransition_def intro: runs_ret runs_basic)
next
  case (Cons flow flows)
  then show ?thesis unfolding handleDefaultElementTransition_def
    by (simp only: list.case) (rule runs_bind [OF runs_first_transition], rule runs_bind [OF runs_fork_all],
      rule runs_ret, auto split: option.splits)
qed

lemma runs_multi_transition:
  "runs B I (handleMultiInstanceElementTransition E r eik n tok) (\<lambda>ts. places ts \<in> {[], [tok_ElementId tok]})"
proof -
  have again: "calm (if b then ret True else bind (db f) (\<lambda>ts. ret (int (length ts) = k)))"
    for b k and f :: "Storage \<Rightarrow> ExecutionToken list"
    by (rule calm_rules)+
  show ?thesis
  proof (cases "GetMultiInstance n")
    case None
    then show ?thesis by (simp add: handleMultiInstanceElementTransition_def runs_basic)
  next
    case (Some mi)
    then show ?thesis unfolding handleMultiInstanceElementTransition_def
      by (simp only: option.case)
        (rule runs_bind_any [OF calm_collection] runs_bind_any [OF calm_prims(3)] runs_bind_any [OF again]
          runs_if runs_bind_any [OF calm_prims(1)] runs_ret | simp)+
  qed
qed

lemma runs_transition:
  "runs B I (handleElementTransition E r n tok) (\<lambda>ts. places ts \<in> {[], leaves c n (tok_ElementId tok)})"
  unfolding handleElementTransition_def
proof (rule runs_bind_deref)
  fix i assume i: "shape i = c"
  have d: "runs B I (handleDefaultElementTransition E r n tok) (\<lambda>ts. places ts \<in> {[], leaves c n (tok_ElementId tok)})"
    if "\<not> is_multi c"
    using that by (intro runs_weaken [OF runs_default_transition]) (simp add: leaves_def)
  have m: "runs B I (handleMultiInstanceElementTransition E r eik n tok)
      (\<lambda>ts. places ts \<in> {[], leaves c n (tok_ElementId tok)})" if "is_multi c" for eik
    using that by (intro runs_weaken [OF runs_multi_transition]) (simp add: leaves_def)
  show "runs B I (case pi_Kind i of
         MultiInstanceInstance _ eik _ \<Rightarrow> handleMultiInstanceElementTransition E r eik n tok
       | _ \<Rightarrow> handleDefaultElementTransition E r n tok) (\<lambda>ts. places ts \<in> {[], leaves c n (tok_ElementId tok)})"
    using shape_sels(3,4) [OF i] d m by (cases "pi_Kind i") auto
qed

lemma runs_transition_fires:
  assumes "passes n" and "tok_ElementId tok = GetId n"
  shows "runs B I (handleElementTransition E r n tok) (\<lambda>ts. fires c n (places ts))"
  by (rule runs_weaken [OF runs_transition]) (use assms fires.passes [of n c] in \<open>auto intro: fires.stops\<close>)

subsection \<open>Gateways\<close>

lemma runs_take_flow:
  assumes "flow \<in> set (OutgoingAssociations g @ default_flows g)"
  shows "runs B I (bind (save_flow_history E r (sf_Id flow) (tok_Key tok)) (\<lambda>_.
           bind (target_id r flow) (\<lambda>target.
           bind (generateKey E) (\<lambda>k. ret [tok\<lparr>tok_ElementId := target, tok_ElementInstanceKey := k\<rparr>]))))
         (\<lambda>ts. fires c (FExclusiveGateway g) (places ts))"
  using fires.exclusive [OF assms, of c]
  by (intro runs_bind_any [OF calm_flow_history] runs_bind [OF runs_target_id] runs_bind_any [OF calm_prims(1)] runs_ret)
    (auto intro: fires.stops)

lemma runs_exclusive: "runs B I (handleExclusiveGateway E r g tok) (\<lambda>ts. fires c (FExclusiveGateway g) (places ts))"
  unfolding handleExclusiveGateway_def
  by (intro runs_bind_deref runs_case_sum_eq runs_bind_any [OF calm_set(1)] runs_basic runs_case_list_eq runs_take_flow)
    (force dest!: exclusive_filter_flows)+

lemma runs_inclusive_filter:
  "runs B I (attempt (lift_res (inclusivelyFilterByConditionExpression E (OutgoingAssociations g) (DefaultFlow g) vs)))
     (\<lambda>x. \<forall>fs. x = Inr fs \<longrightarrow> fires c (FInclusiveGateway g) (targets c fs))"
proof (cases "inclusivelyFilterByConditionExpression E (OutgoingAssociations g) (DefaultFlow g) vs")
  case (Ok fs)
  from inclusive_filter_flows [OF Ok] have "fires c (FInclusiveGateway g) (targets c fs)"
    using fires.inclusive [of fs g c] fires.inclusive_default [of c g] by (auto simp: default_flows_def)
  with Ok show ?thesis by (simp add: runs_def attempt_def lift_res_def)
qed (use inclusive_filter_no_fuel in \<open>auto simp: runs_def attempt_def lift_res_def\<close>)

lemma runs_inclusive: "runs B I (handleInclusiveGateway E r g tok) (\<lambda>ts. fires c (FInclusiveGateway g) (places ts))"
  unfolding handleInclusiveGateway_def
  by (intro runs_bind_deref runs_bind [OF runs_inclusive_filter] runs_case_sum_eq runs_bind_any [OF calm_set(1)]
      runs_basic runs_bind [OF runs_fork_all] runs_ret) simp

lemma runs_parallel: "runs B I (handleParallelGateway E r g tok) (\<lambda>ts. fires c (FParallelGateway g) (places ts))"
  unfolding handleParallelGateway_def Let_def
  by (rule runs_bind_any [OF calm_prims(3)], rule runs_bind_any [OF calm_prims(14)], rule runs_if,
      rule runs_ret, simp add: fires.stops, rule runs_bind [OF runs_fork_all], rule runs_ret, simp add: fires.parallel)

subsection \<open>Events\<close>

lemma runs_catch:
  "runs B I (createIntermediateCatchEvent E r ice tok)
    (\<lambda>ts. places ts = [] \<or> is_link_catch ice \<and> places ts = leaves c (FIntermediateCatchEvent ice) (tok_ElementId tok))"
proof -
  have m: "runs B I (createMessageCatchEvent E r x e tok) (\<lambda>t. tok_State t = TokenStateWaiting)" for x e
    unfolding createMessageCatchEvent_def by (rule runs_bind_any, (rule calm_rules)+, rule runs_ret, simp)
  have t: "runs B I (createTimerCatchEvent E r x e tok) (\<lambda>t. tok_State t = TokenStateWaiting)" for x e
    unfolding createTimerCatchEvent_def by (rule runs_bind_any, (rule calm_rules)+, rule runs_ret, simp)
  show ?thesis
    unfolding createIntermediateCatchEvent_def
    by (auto simp: is_link_catch_def split: option.splits EventDefinition.splits
        intro!: runs_basic runs_bind [OF m] runs_bind [OF t] runs_ret runs_weaken [OF runs_transition])
qed

lemma runs_catch_fires:
  "tok_ElementId tok = fn_Id ice \<Longrightarrow>
   runs B I (createIntermediateCatchEvent E r ice tok) (\<lambda>ts. fires c (FIntermediateCatchEvent ice) (places ts))"
  using fires.passes [of "FIntermediateCatchEvent ice" c]
  by (intro runs_weaken [OF runs_catch]) (auto intro: fires.stops)

lemma runs_event_gateway:
  "runs B I (handleEventBasedGateway E r g tok) (\<lambda>ts. fires c (FEventBasedGateway g) (places ts))"
  unfolding handleEventBasedGateway_def
proof (rule runs_bind [OF runs_new_token], rule runs_bind_deref)
  fix gt :: ExecutionToken and i assume gt: "tok_ElementId gt = fn_Id g \<and> tok_State gt = TokenStateWaiting" and i: "shape i = c"
  let ?event = "\<lambda>flow. case GetTargetRef (instance_definitions i) flow of
      Some (FIntermediateCatchEvent ice) \<Rightarrow>
        wrap (Wrapf ''failed to handle IntermediateCatchEvent'') (createIntermediateCatchEvent E r ice gt)
    | _ \<Rightarrow> panic ''[invariant check] unsupported element''"
  have e: "runs B I (?event flow) (\<lambda>ts. places ts \<in> {[], after_event c g flow})" for flow
    using gt by (auto simp: shape_sels [OF i] after_event_def split: option.splits FlowNode.splits
        intro!: runs_basic runs_wrap runs_weaken [OF runs_catch])
  show "runs B I (bind (map_each (OutgoingAssociations g) ?event) (\<lambda>toks.
       ret (tok\<lparr>tok_State := TokenStateCompleted\<rparr> # concat toks))) (\<lambda>ts. fires c (FEventBasedGateway g) (places ts))"
    by (rule runs_bind [OF runs_map_each [OF e]], rule runs_ret, simp, rule fires.events,
        simp add: list_all2_map2)
qed

lemma runs_link_throw:
  assumes "ite_EventDefinition ite = Some (TLinkEventDefinition i name)"
  shows "runs B I (handleIntermediateThrowLinkEvent E r ite name tok)
    (\<lambda>t. fires c (FIntermediateThrowEvent ite) [tok_ElementId t])"
proof -
  have found: "runs B I (lift_res (find_link (IntermediateCatchEvent (instance_container j)) name))
      (\<lambda>x. \<forall>ice. x = Some ice \<longrightarrow> fires c (FIntermediateThrowEvent ite) [fn_Id ice])" if "shape j = c" for j
    using fires.link [OF assms, of c] find_link_no_fuel [of "IntermediateCatchEvent (instance_container j)" name]
    by (auto simp: runs_def lift_res_def shape_sels [OF that] split: res.splits)
  show ?thesis unfolding handleIntermediateThrowLinkEvent_def
    by (rule runs_bind_any, (rule runs_wrap calm_propagate_output)+)
      (intro runs_if runs_basic runs_bind_deref runs_bind [OF found] runs_case_option_eq
        runs_bind_any [OF runs_wrap [OF calm_propagate_output]] runs_bind_any [OF calm_prims(1)] runs_ret; simp)
qed

lemma runs_throw_message:
  "runs B I (throw_message E r n tok) (\<lambda>ts. places ts \<in> {[], leaves c n (tok_ElementId tok)})"
proof -
  have t: "runs B I (wrap f (handleElementTransition E r n tok)) (\<lambda>ts. places ts \<in> {[], leaves c n (tok_ElementId tok)})"
    for f by (rule runs_wrap [OF runs_transition])
  show ?thesis unfolding throw_message_def
    by (rule runs_bind_any [OF calm_createInternalTask])
      (auto intro!: runs_basic runs_ret t [simplified] split: option.splits ActivityState.splits)
qed

lemma runs_throw_event:
  assumes "tok_ElementId tok = fn_Id ite"
  shows "runs B I (handleIntermediateThrowEvent E r ite tok) (\<lambda>ts. fires c (FIntermediateThrowEvent ite) (places ts))"
proof -
  let ?n = "FIntermediateThrowEvent ite"
  have m: "runs B I (throw_message E r ?n tok) (\<lambda>ts. fires c ?n (places ts))"
    if "ite_EventDefinition ite = Some (TMessageEventDefinition x)" for x
    using assms that fires.passes [of ?n c] by (intro runs_weaken [OF runs_throw_message]) (auto intro: fires.stops)
  show ?thesis unfolding handleIntermediateThrowEvent_def
    by (auto intro!: runs_basic m runs_bind [OF runs_wrap [OF runs_link_throw]] runs_ret
        split: option.splits EventDefinition.splits intro: fires.stops)
qed

subsection \<open>Activities\<close>

lemma runs_handleActivity:
  "runs B I (handleActivity E r n tok) (\<lambda>ts. places ts \<in> {[], leaves c n (tok_ElementId tok)})"
proof (cases "create_activity E r n tok")
  case None
  then show ?thesis by (simp add: handleActivity_def runs_basic)
next
  case (Some m)
  have t: "runs B I (wrap f (handleElementTransition E r n tok)) (\<lambda>ts. places ts \<in> {[], leaves c n (tok_ElementId tok)})"
    for f by (rule runs_wrap [OF runs_transition])
  from Some show ?thesis unfolding handleActivity_def
    by (simp only: option.case) (rule runs_bind_any [OF calm_create_activity [OF Some]],
      auto intro!: runs_basic runs_ret runs_bind_any [OF runs_wrap [OF calm_boundary(1)]] t [simplified]
        split: ActivityState.splits)
qed

lemma runs_run_multi:
  assumes "is_multi c"
  shows "runs B I (run_multi_instance E r n mi eik tok) (\<lambda>ts. places ts \<in> {[], leaves c n (tok_ElementId tok)})"
proof -
  have t: "runs B I (handleMultiInstanceElementTransition E r eik n tok) (\<lambda>ts. places ts \<in> {[], leaves c n (tok_ElementId tok)})"
    using assms by (intro runs_weaken [OF runs_multi_transition]) (simp add: leaves_def)
  have a: "runs B I (case create_activity E r n tok of
             None \<Rightarrow> throw (Errorf ''unsupported activity'')
           | Some create \<Rightarrow>
               bind create (\<lambda>(activityResult, err).
                 case activityResult of
                   ActivityStateActive \<Rightarrow> ret [tok\<lparr>tok_State := TokenStateWaiting\<rparr>]
                 | ActivityStateCompleted \<Rightarrow> handleMultiInstanceElementTransition E r eik n tok
                 | ActivityStateFailed \<Rightarrow> throw (failed_activity err)
                 | _ \<Rightarrow> throw (Errorf ''unsupported activity state'')))
      (\<lambda>ts. places ts \<in> {[], leaves c n (tok_ElementId tok)})"
    by (cases "create_activity E r n tok")
      (auto intro!: runs_basic runs_bind_any calm_create_activity runs_ret t [simplified] split: ActivityState.splits)
  show ?thesis unfolding run_multi_instance_def
    by (rule runs_bind_any [OF calm_prims(3)], rule runs_bind_any [OF calm_collection],
        rule runs_bind_any [OF calm_prims(14)], rule runs_if, rule runs_bind_any [OF calm_set(1)], rule runs_ret, simp,
        rule runs_if, rule runs_basic, rule runs_bind_any [OF calm_set(2)], rule a)
qed

lemma runs_multi_activity:
  "runs B I (handleMultiInstanceActivity E r n mi tok) (\<lambda>ts. places ts \<in> {[], leaves c n (tok_ElementId tok)})"
  unfolding handleMultiInstanceActivity_def
proof (rule runs_bind_deref)
  fix i assume i: "shape i = c"
  have t: "runs B I (wrap f (handleElementTransition E r n tok)) (\<lambda>ts. places ts \<in> {[], leaves c n (tok_ElementId tok)})"
    for f by (rule runs_wrap [OF runs_transition])
  have start: "runs B I (bind (if IsSequential mi then startSequentialMultiInstance E r n mi tok
                 else startParallelMultiInstance E r n mi tok) (\<lambda>activityState.
             case activityState of
               ActivityStateActive \<Rightarrow>
                 bind (wrap (Wrapf ''failed to process boundary events'')
                         (createBoundaryEventSubscriptions E r n tok)) (\<lambda>_.
                   ret [tok\<lparr>tok_State := TokenStateWaiting\<rparr>])
             | ActivityStateFailed \<Rightarrow> ret [tok\<lparr>tok_State := TokenStateFailed\<rparr>]
             | ActivityStateCompleted \<Rightarrow>
                 wrap (Wrapf ''failed to process flow transition'') (handleElementTransition E r n tok)
             | _ \<Rightarrow> throw (Errorf ''unsupported activity state'')))
      (\<lambda>ts. places ts \<in> {[], leaves c n (tok_ElementId tok)})"
    unfolding startSequentialMultiInstance_def startParallelMultiInstance_def
    by (rule runs_bind_any, (rule runs_if calm_start_multi)+)
      (auto intro!: runs_basic runs_ret runs_bind_any [OF runs_wrap [OF calm_boundary(1)]] t [simplified]
        split: ActivityState.splits)
  show "runs B I (case pi_Kind i of MultiInstanceInstance _ eik _ \<Rightarrow> run_multi_instance E r n mi eik tok
     | _ \<Rightarrow> bind (if IsSequential mi then startSequentialMultiInstance E r n mi tok
                 else startParallelMultiInstance E r n mi tok) (\<lambda>activityState.
             case activityState of
               ActivityStateActive \<Rightarrow>
                 bind (wrap (Wrapf ''failed to process boundary events'')
                         (createBoundaryEventSubscriptions E r n tok)) (\<lambda>_.
                   ret [tok\<lparr>tok_State := TokenStateWaiting\<rparr>])
             | ActivityStateFailed \<Rightarrow> ret [tok\<lparr>tok_State := TokenStateFailed\<rparr>]
             | ActivityStateCompleted \<Rightarrow>
                 wrap (Wrapf ''failed to process flow transition'') (handleElementTransition E r n tok)
             | _ \<Rightarrow> throw (Errorf ''unsupported activity state'')))
    (\<lambda>ts. places ts \<in> {[], leaves c n (tok_ElementId tok)})"
    using start runs_run_multi [OF shape_sels(3) [OF i]] by (cases "pi_Kind i") (simp_all only: instance_kind.case)
qed

lemma runs_process_activity:
  assumes "passes n" and "tok_ElementId tok = GetId n"
  shows "runs B I (process_activity E r n tok) (\<lambda>ts. fires c n (places ts))"
proof -
  have w: "places ts \<in> {[], leaves c n (tok_ElementId tok)} \<Longrightarrow> fires c n (places ts)" for ts
    using assms fires.passes [of n c] by (auto intro: fires.stops)
  show ?thesis unfolding process_activity_def
    by (intro runs_case_option runs_wrap runs_weaken [OF runs_handleActivity w] runs_weaken [OF runs_multi_activity w])
qed

subsection \<open>End events\<close>

lemma runs_end_definitions:
  assumes "TTerminateEventDefinition \<in> set ds \<Longrightarrow> B" and "tok_ElementId tok = fn_Id e"
  shows "runs B I (end_definitions F E r e ds tok) (\<lambda>ts. ends_with c e ds (places ts))"
  using assms
proof (induction ds arbitrary: tok)
  case Nil
  then show ?case by (simp add: runs_ret ends_with_Nil)
next
  case (Cons d ds)
  have rest: "runs B I (end_definitions F E r e ds t) (\<lambda>ts. ends_with c e ds (places ts))"
    if "tok_ElementId t = fn_Id e" for t
    using Cons that by simp
  show ?case
  proof (cases d)
    case TTerminateEventDefinition
    let ?t = "tok\<lparr>tok_State := TokenStateCompleted\<rparr>"
    have first: "runs B I (handleTerminateEndEvent F E r ?t) (\<lambda>ts. places ts = [])"
      using Cons.prems TTerminateEventDefinition
      by (intro runs_weaken [OF runs_terminate_end]) (auto intro!: places_none)
    have id: "tok_ElementId ?t = fn_Id e" using Cons.prems(2) by simp
    show ?thesis unfolding TTerminateEventDefinition end_definitions.simps EventDefinition.case Let_def
      by (rule runs_bind [OF first], rule runs_bind [OF rest [OF id]], rule runs_ret)
        (use ends_with_Cons [of "[]"] in simp)
  next
    case (TMessageEventDefinition m)
    have "runs B I (handleMessageEndEvent E r e tok) (\<lambda>ts. places ts \<in> {[], leaves c (FEndEvent e) (fn_Id e)})"
      using runs_throw_message [of E "FEndEvent e" tok] Cons.prems(2) by (simp add: handleMessageEndEvent_def)
    note first = runs_wrap [OF this]
    show ?thesis unfolding TMessageEventDefinition end_definitions.simps EventDefinition.case
      by (rule runs_bind [OF first], rule runs_bind [OF rest [OF Cons.prems(2)]], rule runs_ret)
        (simp only: places_simps ends_with_Cons)
  qed (simp_all add: runs_basic)
qed

lemma runs_end_event:
  assumes "TTerminateEventDefinition \<in> set (EvenDefinitions e) \<Longrightarrow> B" and "tok_ElementId tok = fn_Id e"
  shows "runs B I (handleEndEvent F E r e tok) (\<lambda>ts. fires c (FEndEvent e) (places ts))"
proof -
  have d: "runs B I (end_definitions F E r e (EvenDefinitions e) tok) (\<lambda>ts. fires c (FEndEvent e) (places ts))"
    by (rule runs_weaken [OF runs_end_definitions [OF assms]], assumption)
      (unfold ends_with_def, elim exE conjE, simp only: fires.ends)
  show ?thesis unfolding handleEndEvent_def
    by (intro runs_if d runs_bind_any [OF calm_plain_end] runs_ret) (simp add: fires.stops)
qed

subsection \<open>A pass of the loop\<close>

lemma runs_processFlowNode:
  assumes "may_terminate n \<Longrightarrow> B" and "tok_ElementId tok = GetId n"
  shows "runs B I (processFlowNode F E r n tok) (\<lambda>ts. fires c n (places ts))"
proof -
  have t: "runs B I (wrap f (handleElementTransition E r n tok)) (\<lambda>ts. fires c n (places ts))"
    "runs B I (process_activity E r n tok) (\<lambda>ts. fires c n (places ts))" if "passes n" for f
    using that assms(2) by (intro runs_wrap runs_transition_fires runs_process_activity; simp)+
  show ?thesis unfolding processFlowNode_def
  proof (rule runs_bind_any [OF calm_flow_helpers(3)], cases n)
    case (FEndEvent e)
    with assms show "runs B I (case n of
         FStartEvent _ \<Rightarrow>
           wrap (Wrapf ''failed to process StartEvent flow transition'') (handleElementTransition E r n tok)
       | FEndEvent e \<Rightarrow> wrap (Wrapf ''failed to process EndEvent'') (handleEndEvent F E r e tok)
       | FServiceTask _ \<Rightarrow> process_activity E r n tok
       | FUserTask _ \<Rightarrow> process_activity E r n tok
       | FCallActivity _ \<Rightarrow> process_activity E r n tok
       | FBusinessRuleTask _ \<Rightarrow> process_activity E r n tok
       | FSendTask _ \<Rightarrow> process_activity E r n tok
       | FSubProcess _ \<Rightarrow> process_activity E r n tok
       | FIntermediateCatchEvent ice \<Rightarrow>
           wrap (Wrapf ''failed to process IntermediateCatchEvent'') (createIntermediateCatchEvent E r ice tok)
       | FIntermediateThrowEvent ite \<Rightarrow>
           wrap (Wrapf ''failed to process IntermediateThrowEvent'') (handleIntermediateThrowEvent E r ite tok)
       | FExclusiveGateway g \<Rightarrow>
           wrap (Wrapf ''failed to process ExclusiveGateway'') (handleExclusiveGateway E r g tok)
       | FInclusiveGateway g \<Rightarrow>
           wrap (Wrapf ''failed to process InclusiveGateway'') (handleInclusiveGateway E r g tok)
       | FEventBasedGateway g \<Rightarrow>
           wrap (Wrapf ''failed to process EventBasedGateway'') (handleEventBasedGateway E r g tok)
       | FParallelGateway g \<Rightarrow>
           wrap (Wrapf ''failed to process EventBasedGateway'') (handleParallelGateway E r g tok)
       | FBoundaryEvent _ \<Rightarrow> panic ''[invariant check] unsupported element'')
      (\<lambda>ts. fires c n (places ts))"
      by (simp add: runs_wrap runs_end_event)
  qed (use t assms(2) in \<open>simp_all add: runs_basic runs_wrap runs_catch_fires runs_throw_event
      runs_exclusive runs_inclusive runs_event_gateway runs_parallel\<close>)
qed

lemma runs_getActivity:
  "runs B I (getExecutionTokenActivity E r tok) (\<lambda>n. node_at c (tok_ElementId tok) = Some n)"
  unfolding getExecutionTokenActivity_def
proof (rule runs_bind_deref)
  fix i assume i: "shape i = c"
  let ?look = "case pi_Kind i of
      SubProcessInstance _ _ elementId \<Rightarrow>
        (case GetFlowNodeById (instance_container i) elementId of
           Some (FSubProcess sp) \<Rightarrow> ret (GetFlowNodeById (sp_Container sp) (tok_ElementId tok))
         | _ \<Rightarrow> panic ''interface conversion: FlowNode is not TSubProcess'')
    | _ \<Rightarrow> ret (GetFlowNodeById (instance_container i) (tok_ElementId tok))"
  have look: "runs B I ?look (\<lambda>x. x = node_at c (tok_ElementId tok))"
    using i shape_sels(2) [OF i]
    by (auto simp: node_at_def shape_container_def shape_def Type_def intro!: runs_ret runs_basic
        split: instance_kind.splits option.splits FlowNode.splits)
  show "runs B I (bind ?look (\<lambda>currentFlowNode.
       case currentFlowNode of
         None \<Rightarrow> throw (Errorf ''failed to find flow node for execution token in process definition'')
       | Some n \<Rightarrow> bind (generateKey E) (\<lambda>_. ret n))) (\<lambda>n. node_at c (tok_ElementId tok) = Some n)"
    by (rule runs_bind [OF look], rule runs_case_option_eq, rule runs_basic, rule runs_bind_any [OF calm_prims(1)],
        rule runs_ret, simp)
qed

lemma runs_process_token:
  assumes "\<And>n. node_at c (tok_ElementId tok) = Some n \<Longrightarrow> may_terminate n \<Longrightarrow> B"
  shows "runs B I (process_token F E r tok) (\<lambda>ts. \<exists>n. node_at c (tok_ElementId tok) = Some n \<and> fires c n (places ts))"
  unfolding process_token_def
proof (rule runs_bind [OF runs_getActivity])
  fix n assume n: "node_at c (tok_ElementId tok) = Some n"
  then have "tok_ElementId tok = GetId n"
    by (auto simp: node_at_def dest: GetFlowNodeById_Some split: option.splits)
  with assms n have "runs B I (processFlowNode F E r n tok) (\<lambda>ts. fires c n (places ts))"
    by (intro runs_processFlowNode)
  then show "runs B I (processFlowNode F E r n tok)
      (\<lambda>ts. \<exists>n. node_at c (tok_ElementId tok) = Some n \<and> fires c n (places ts))"
    by (rule runs_weaken) (use n in blast)
qed

lemma runs_finish_token:
  "runs B I (finish_token E r tok queued re) (\<lambda>(q, _, _). q \<in> {[], queued})"
proof -
  have cont: "calm (if b then attempt (handleParentProcessContinuation E r) else ret (Inr ()))" for b
    by (rule calm_rules)+
  show ?thesis unfolding finish_token_def
    by (intro runs_bind_any [OF calm_prims(3)] runs_bind_any [OF cont] runs_bind_any [OF calm_token_incident]
        runs_bind_any [OF calm_attempt [OF calm_Flush]] runs_case_sum runs_ret) simp_all
qed

lemma runs_run_token:
  assumes "\<And>n. node_at c (tok_ElementId tok) = Some n \<Longrightarrow> may_terminate n \<Longrightarrow> B"
  shows "runs B I (run_token F E r tok re) (\<lambda>(queued, _, _). pass_fires c tok queued)"
  unfolding run_token_def
proof (rule runs_bind_any [OF calm_prims(12)], rule runs_if, rule runs_ret, simp add: pass_fires_def,
    rule runs_bind [OF runs_attempt [OF runs_process_token [OF assms]]], assumption, assumption)
  fix x :: "error + ExecutionToken list"
  assume x: "\<forall>v. x = Inr v \<longrightarrow> (\<exists>n. node_at c (tok_ElementId tok) = Some n \<and> fires c n (places v))"
  have q: "q \<in> {[], filter (\<lambda>t. tok_State t = TokenStateRunning) v} \<Longrightarrow> pass_fires c tok q" if "x = Inr v" for v q
    using x that by (auto simp: pass_fires_def places_def)
  show "runs B I (case x of
             Inl e \<Rightarrow> bind (token_incident E r tok e re) (\<lambda>runErr'. ret ([], runErr', False))
           | Inr updatedTokens \<Rightarrow>
               bind (for_each updatedTokens (\<lambda>tok. add_stmt (StToken tok))) (\<lambda>_.
               bind (do_when (re \<noteq> None) (set_state r ActivityStateFailed)) (\<lambda>_.
               bind (add_stmt (StProcessInstance r)) (\<lambda>_.
                 finish_token E r tok
                   (filter (\<lambda>t. tok_State t = TokenStateRunning) updatedTokens) re))))
    (\<lambda>(queued, _, _). pass_fires c tok queued)"
    by (rule runs_case_sum_eq, intro runs_bind_any [OF calm_token_incident] runs_ret, simp add: pass_fires_def,
        (rule runs_bind_any, (rule runs_for_each runs_when calm_prims calm_set)+)+,
        rule runs_weaken [OF runs_finish_token]) (use q in fastforce)
qed

end

interpretation placed: running_instance B "placed r c" r c for B r c
  by unfold_locales (simp add: placed_def)

text \<open>C3. A pass of the main loop refines the token game: whatever element the token is at, and whatever
  the handlers, the store and the expressions do, the tokens a pass puts into the queue are running and
  stand at elements that the process lets a token at this node reach in one step (all outgoing flows of
  an activity, one flow of an exclusive gateway, a selection of the flows of an inclusive one, all flows
  of a parallel one, the target of a link), the instance keeps its process definition, kind and
  element, and a pass that queues anything has found the node of the token in the process.\<close>

theorem main_loop_refines_token_game:
  assumes "placed r c s" and "run_token F E r tok runErr s = (Ok (queued, runErr', stop), s')"
  shows "placed r c s' \<and> (\<forall>t \<in> set queued. tok_State t = TokenStateRunning) \<and>
    (queued = [] \<or> (\<exists>n. node_at c (tok_ElementId tok) = Some n \<and> fires c n (map tok_ElementId queued)))"
  using runsD [OF placed.runs_run_token [where B = True] assms, OF TrueI] by (simp add: pass_fires_def)

theorem main_loop_refines_token_game_witness:
  "\<exists>n. node_at (shape (demo_instance ActivityStateActive)) ''start'' = Some n \<and>
     fires (shape (demo_instance ActivityStateActive)) n [''gw'']"
proof -
  let ?run = "run_token 1 demo_env 0 (demo_token ''start'' TokenStateRunning) None demo_engine"
  have "map_option (map tok_ElementId) (case fst ?run of Ok (q, _, _) \<Rightarrow> Some q | _ \<Rightarrow> None) = Some [''gw'']"
    by code_simp
  then obtain q e b s' where run: "?run = (Ok (q, e, b), s')" and q: "map tok_ElementId q = [''gw'']"
    by (cases ?run) (auto split: res.splits)
  have "placed 0 (shape (demo_instance ActivityStateActive)) demo_engine"
    by (simp add: placed_def demo_engine_def)
  from main_loop_refines_token_game [OF this run] q show ?thesis
    by (auto simp: demo_token_def)
qed

section \<open>Termination\<close>

text \<open>All elements a token at a node can reach in one step, outside a multi-instance.\<close>

definition succs :: "instance_shape \<Rightarrow> FlowNode \<Rightarrow> string list" where
  "succs c n =
     (case n of
        FExclusiveGateway g \<Rightarrow> targets c (OutgoingAssociations g @ default_flows g)
      | FInclusiveGateway g \<Rightarrow> targets c (OutgoingAssociations g @ default_flows g)
      | FEventBasedGateway g \<Rightarrow> concat (map (after_event c g) (OutgoingAssociations g))
      | FEndEvent e \<Rightarrow> concat (map (\<lambda>_. targets c (GetOutgoingAssociation (FEndEvent e))) (EvenDefinitions e))
      | FIntermediateThrowEvent ite \<Rightarrow>
          (case ite_EventDefinition ite of
             Some (TLinkEventDefinition _ name) \<Rightarrow>
               (case find_link (IntermediateCatchEvent (shape_process c)) name of
                  Ok (Some ice) \<Rightarrow> [fn_Id ice] | _ \<Rightarrow> [])
           | _ \<Rightarrow> targets c (GetOutgoingAssociation n))
      | _ \<Rightarrow> targets c (GetOutgoingAssociation n))"

definition edges :: "instance_shape \<Rightarrow> (string \<times> string) set" where
  "edges c = {(i, j). \<exists>n. node_at c i = Some n \<and> j \<in> set (succs c n)}"

lemma targets_append [simp]: "targets c (xs @ ys) = targets c xs @ targets c ys"
  by (simp add: targets_def List.map_filter_def)

lemma targets_subseq: "subseq xs ys \<Longrightarrow> subseq (targets c xs) (targets c ys)"
  by (induction rule: list_emb.induct) (auto split: option.splits)

lemma targets_in: "f \<in> set fs \<Longrightarrow> subseq (targets c [f]) (targets c fs)"
  by (induction fs) (auto split: option.splits)

lemma subseq_concat:
  "list_all2 (\<lambda>x l. l \<in> {[], g x}) xs ls \<Longrightarrow> subseq (concat ls) (concat (map g xs))"
  by (induction rule: list_all2_induct) (auto intro: list_emb_append_mono)

lemma fires_succs:
  assumes "fires c n ms" and "\<not> is_multi c"
  shows "subseq ms (succs c n)"
  using assms(1)
proof cases
  case passes
  then show ?thesis using assms(2)
    by (cases n) (auto simp: succs_def leaves_def split: option.splits EventDefinition.splits)
next
  case (exclusive f g)
  then show ?thesis using targets_in [of f "OutgoingAssociations g @ default_flows g" c] by (simp add: succs_def)
next
  case (inclusive fs g)
  then show ?thesis using targets_subseq [of fs "OutgoingAssociations g" c]
    by (auto simp: succs_def intro: subseq_order.order_trans)
next
  case (events g ls)
  then show ?thesis using subseq_concat [of "after_event c g"] by (simp add: succs_def)
next
  case (ends e ls)
  then show ?thesis using assms(2) subseq_concat [of "\<lambda>_. targets c (GetOutgoingAssociation (FEndEvent e))"]
    by (simp add: succs_def leaves_def)
qed (auto simp: succs_def GetOutgoingAssociation_def)

text \<open>The number of passes a token at an element can cause, for paths of length at most \<open>d\<close>.\<close>

primrec weight :: "instance_shape \<Rightarrow> nat \<Rightarrow> string \<Rightarrow> nat" where
  "weight c 0 i = 1"
| "weight c (Suc d) i =
     1 + (case node_at c i of None \<Rightarrow> 0 | Some n \<Rightarrow> sum_list (map (weight c d) (succs c n)))"

definition reach_count :: "instance_shape \<Rightarrow> string \<Rightarrow> nat" where
  "reach_count c i = card ((edges c)\<^sup>+ `` {i})"

lemma finite_edges: "finite (edges c)"
proof (cases "shape_container c")
  case None
  then show ?thesis by (simp add: edges_def node_at_def)
next
  case (Some k)
  have "edges c \<subseteq> (\<Union>n \<in> set (flow_nodes k). {GetId n} \<times> set (succs c n))"
    using Some by (auto simp: edges_def node_at_def dest: GetFlowNodeById_Some)
  then show ?thesis by (rule finite_subset) auto
qed

lemma reach_count_less:
  assumes "acyclic (edges c)" and "(i, j) \<in> edges c"
  shows "reach_count c j < reach_count c i"
  unfolding reach_count_def
proof (rule psubset_card_mono)
  have "(edges c)\<^sup>+ `` {i} \<subseteq> snd ` ((edges c)\<^sup>+)" by force
  then show "finite ((edges c)\<^sup>+ `` {i})" by (rule finite_subset) (simp add: finite_edges finite_trancl)
  have "j \<in> (edges c)\<^sup>+ `` {i}" using assms(2) by auto
  moreover have "j \<notin> (edges c)\<^sup>+ `` {j}" using assms(1) by (auto simp: acyclic_def)
  moreover have "(edges c)\<^sup>+ `` {j} \<subseteq> (edges c)\<^sup>+ `` {i}" using assms(2) by (auto intro: trancl_into_trancl2)
  ultimately show "(edges c)\<^sup>+ `` {j} \<subset> (edges c)\<^sup>+ `` {i}" by blast
qed

lemma weight_stable:
  "acyclic (edges c) \<Longrightarrow> reach_count c i \<le> d \<Longrightarrow> weight c (Suc d) i = weight c d i"
proof (induction d arbitrary: i)
  case 0
  then have "succs c n = []" if "node_at c i = Some n" for n
    using that reach_count_less [of c i] by (cases "succs c n") (auto simp: edges_def)
  then show ?case by (simp split: option.splits)
next
  case (Suc d)
  have "weight c (Suc d) j = weight c d j" if "node_at c i = Some n" "j \<in> set (succs c n)" for n j
    using that Suc.prems reach_count_less [of c i j] by (intro Suc.IH) (auto simp: edges_def)
  then have "map (weight c (Suc d)) (succs c n) = map (weight c d) (succs c n)" if "node_at c i = Some n" for n
    using that by (intro map_cong) auto
  then show ?case by (cases "node_at c i") (simp_all only: weight.simps(2) option.case)
qed

lemma reach_count_bound: "reach_count c i \<le> card (snd ` edges c)"
  unfolding reach_count_def
proof (rule card_mono)
  show "(edges c)\<^sup>+ `` {i} \<subseteq> snd ` edges c"
  proof
    fix j assume "j \<in> (edges c)\<^sup>+ `` {i}"
    then have "(i, j) \<in> (edges c)\<^sup>+" by simp
    then obtain k where "(k, j) \<in> edges c" by cases auto
    then show "j \<in> snd ` edges c" by force
  qed
qed (simp add: finite_edges)

definition token_weight :: "instance_shape \<Rightarrow> ExecutionToken \<Rightarrow> nat" where
  "token_weight c t = weight c (card (snd ` edges c)) (tok_ElementId t)"

lemma token_weight_pos: "0 < token_weight c t"
  by (cases "card (snd ` edges c)") (simp_all add: token_weight_def)

lemma sum_list_subseq: "subseq xs ys \<Longrightarrow> sum_list (map f xs) \<le> sum_list (map f ys)" for f :: "'a \<Rightarrow> nat"
  by (induction rule: list_emb.induct) auto

text \<open>A firing costs weight.\<close>

lemma pass_fires_weight:
  assumes "pass_fires c tok queued" and "acyclic (edges c)" and "\<not> is_multi c"
  shows "sum_list (map (token_weight c) queued) < token_weight c tok"
proof (cases "queued = []")
  case True
  then show ?thesis by (simp add: token_weight_pos)
next
  case False
  let ?d = "card (snd ` edges c)"
  from False assms obtain n where n: "node_at c (tok_ElementId tok) = Some n"
    "fires c n (map tok_ElementId queued)" by (auto simp: pass_fires_def)
  have "sum_list (map (token_weight c) queued) = sum_list (map (weight c ?d) (map tok_ElementId queued))"
    unfolding token_weight_def by (simp add: comp_def)
  also have "\<dots> \<le> sum_list (map (weight c ?d) (succs c n))"
    by (rule sum_list_subseq [OF fires_succs [OF n(2) assms(3)]])
  also have "\<dots> < weight c (Suc ?d) (tok_ElementId tok)" using n by simp
  finally show ?thesis
    using weight_stable [OF assms(2) reach_count_bound] by (simp add: token_weight_def)
qed

text \<open>More fuel does not change a run that has not run out of it.\<close>

definition extends :: "('s, 'a) eng \<Rightarrow> ('s, 'a) eng \<Rightarrow> bool" where
  "extends m m' \<longleftrightarrow> (\<forall>s. fst (m s) \<noteq> NoFuel \<longrightarrow> m' s = m s)"

lemma extends_refl: "extends m m"
  by (simp add: extends_def)

lemma extends_bind:
  assumes "extends m m'" and "\<And>x. extends (f x) (f' x)"
  shows "extends (bind m f) (bind m' f')"
  unfolding extends_def
proof (intro allI impI)
  fix s assume nf: "fst (bind m f s) \<noteq> NoFuel"
  obtain y s1 where m: "m s = (y, s1)" by (cases "m s")
  with nf have "m' s = (y, s1)" using assms(1) by (cases y) (auto simp: extends_def bind_def)
  with m nf assms(2) show "bind m' f' s = bind m f s" by (cases y) (auto simp: bind_def extends_def)
qed

lemma extends_attempt: "extends m m' \<Longrightarrow> extends (attempt m) (attempt m')"
  unfolding extends_def attempt_def by (fastforce split: prod.splits res.splits)

lemma extends_run_loop: "extends (run_loop n F E r toks re) (run_loop (n + k) F E r toks re)"
proof (induction n arbitrary: toks re)
  case 0
  then show ?case by (cases toks; cases k) (auto simp: extends_def eng_simps)
next
  case (Suc n)
  then show ?case
    by (cases toks) (auto intro!: extends_refl extends_bind split: prod.splits)
qed

lemma extends_RunProcessInstance: "extends (RunProcessInstance n F E r toks) (RunProcessInstance (n + k) F E r toks)"
proof -
  have "extends (run_locked n F E r toks) (run_locked (n + k) F E r toks)"
    unfolding run_locked_def
    by (intro extends_bind extends_refl) (auto intro!: extends_bind extends_refl extends_run_loop split: ActivityState.splits)
  then show ?thesis unfolding RunProcessInstance_def finally_do_def
    by (intro extends_bind extends_refl extends_attempt)
qed

text \<open>Enough fuel for the loop.\<close>

lemma run_loop_enough:
  assumes "acyclic (edges c)" and "\<not> is_multi c"
    and no_terminate: "\<And>i n. node_at c i = Some n \<Longrightarrow> \<not> may_terminate n"
    and "sum_list (map (token_weight c) toks) \<le> N"
  shows "runs False (placed r c) (run_loop N F E r toks re) (\<lambda>_. True)"
  using assms(4)
proof (induction N arbitrary: toks re)
  case 0
  then have "toks = []" using token_weight_pos [of c "hd toks"] by (cases toks) auto
  then show ?case by (simp add: runs_ret)
next
  case (Suc N)
  show ?case
  proof (cases toks)
    case (Cons t rest)
    have step: "runs False (placed r c) (run_token F E r t re) (\<lambda>(queued, _, _). pass_fires c t queued)"
      using no_terminate by (intro placed.runs_run_token) blast
    have "runs False (placed r c) (if stop then ret re' else run_loop N F E r (rest @ queued) re') (\<lambda>_. True)"
      if "pass_fires c t queued" for queued re' stop
      using pass_fires_weight [OF that assms(1,2)] Suc.prems Cons by (intro runs_if calm_ret Suc.IH) simp
    then show ?thesis using Cons by (auto intro!: runs_bind [OF step])
  qed (simp add: runs_ret)
qed

lemma run_enough:
  assumes "acyclic (edges c)" and "\<not> is_multi c" and "\<And>i n. node_at c i = Some n \<Longrightarrow> \<not> may_terminate n"
    and "sum_list (map (token_weight c) toks) \<le> N"
  shows "runs False (placed r c) (RunProcessInstance N F E r toks) (\<lambda>_. True)"
proof -
  note loop = run_loop_enough [OF assms, where r = r and F = F and E = E and re = None]
  have save: "runs False (placed r c) (save_instance r) (\<lambda>_. True)"
    "runs False (placed r c) (exportEndProcessEvent r) (\<lambda>_. True)"
    unfolding save_instance_def exportEndProcessEvent_def
    by (intro placed.calm_heap, simp_all add: eng_simps)
      (intro runs_bind_any [OF placed.calm_prims(3)] placed.calm_heap, simp_all add: eng_simps)
  have locked: "runs False (placed r c) (run_locked N F E r toks) (\<lambda>_. True)"
    unfolding run_locked_def
    by (rule runs_bind_any [OF runs_wrap [OF placed.calm_refresh]], rule runs_bind_any [OF placed.calm_prims(3)])
      (auto intro!: runs_bind_any [OF placed.calm_set(1)] runs_bind_any [OF save(1)] runs_bind_any [OF loop]
        runs_bind_any [OF placed.calm_prims(3)] runs_bind_any [OF runs_when [OF save(2)]] runs_case_option runs_basic
        calm_ret split: ActivityState.splits)
  show ?thesis unfolding RunProcessInstance_def finally_do_def
    by (intro runs_bind_any [OF placed.calm_prims(3)] runs_bind_any [OF placed.calm_prims(5)]
        runs_bind_any [OF calm_attempt [OF locked]] runs_bind_any [OF placed.calm_prims(7)] runs_case_sum runs_basic calm_ret)
qed


definition demo_rank :: "string \<Rightarrow> nat" where
  "demo_rank i = (if i = ''start'' then 3 else if i = ''gw'' then 2 else if i = ''end'' then 0 else 1)"


end
