(* ===== verification/Engine_Deploy.thy ===== *)
theory Engine_Deploy
  imports Engine_Api Demo_Process
begin

text \<open>
  Deployment of process definitions: what \<^verbatim>\<open>load\<close> of \<^verbatim>\<open>xml_loader.go\<close> stores, which version it assigns, and
  what the store answers afterwards.
\<close>

section \<open>The latest version\<close>

lemma latest_version_max:
  "latest_version p ps \<in> insert p (set ps) \<and> (\<forall>q \<in> insert p (set ps). pd_Version q \<le> pd_Version (latest_version p ps))"
proof (induction ps arbitrary: p)
  case (Cons q qs)
  from Cons [of "if pd_Version p < pd_Version q then q else p"] show ?case by (auto split: if_splits)
qed simp

lemma latest_version_Max:
  assumes "ps \<noteq> []"
  shows "latest_version (hd ps) ps \<in> set ps" and "pd_Version (latest_version (hd ps) ps) = Max (pd_Version ` set ps)"
proof -
  from assms have i: "insert (hd ps) (set ps) = set ps" by auto
  note m = latest_version_max [of "hd ps" ps, unfolded i]
  then show "latest_version (hd ps) ps \<in> set ps" by simp
  from m show "pd_Version (latest_version (hd ps) ps) = Max (pd_Version ` set ps)"
    by (intro Max_eqI [symmetric]) auto
qed

lemma trows_tput_new:
  assumes "twf t" and "tget t k = None"
  shows "set (trows (tput k r t)) = insert r (set (trows t))"
proof -
  have "twf (tput k r t)" using assms(1) by simp
  then show ?thesis using assms by (auto simp: set_trows split: if_splits) (metis option.distinct(1))
qed

text \<open>A definition with a higher version than all others of its process is the latest one.\<close>

lemma find_latest_unique:
  assumes pos: "\<forall>q \<in> set (trows (ProcessDefinitions d)). 0 < pd_Version q"
    and p: "p \<in> set (trows (ProcessDefinitions d))" "pd_BpmnProcessId p = i"
    and top: "\<forall>q \<in> set (trows (ProcessDefinitions d)). q \<noteq> p \<longrightarrow> pd_BpmnProcessId q = i \<longrightarrow> pd_Version q < pd_Version p"
  shows "FindLatestProcessDefinitionById d i = Inr p"
proof -
  let ?xs = "filter (\<lambda>r. pd_BpmnProcessId r = i) (trows (ProcessDefinitions d))"
  have "\<forall>x \<in> set ?xs. 0 < pd_Version x" using pos by simp
  note l = latest_loop_None [OF this]
  have px: "p \<in> set ?xs" using p by simp
  show ?thesis
  proof (cases "latest_loop ?xs None")
    case None
    with l have "?xs = []" by simp
    with px show ?thesis by simp
  next
    case (Some r)
    with l have r: "r \<in> set ?xs" and "\<forall>x \<in> set ?xs. pd_Version x \<le> pd_Version r" by simp_all
    with px have "pd_Version p \<le> pd_Version r" by blast
    with r top have "r = p" by fastforce
    with Some show ?thesis by (simp add: FindLatestProcessDefinitionById_def)
  qed
qed

section \<open>Deploying\<close>

definition new_version :: "ProcessDefinition list \<Rightarrow> int" where
  "new_version ps = (if ps = [] then 1 else Max (pd_Version ` set ps) + 1)"

definition deployed :: "(string \<Rightarrow> int) \<Rightarrow> TDefinitions \<Rightarrow> string \<Rightarrow> int \<Rightarrow> int \<Rightarrow> ProcessDefinition" where
  "deployed md5 ds x k v = \<lparr>pd_BpmnProcessId = proc_Id (def_Process ds), pd_Version = v, pd_Key = k,
     pd_Definitions = ds, pd_BpmnData = x, pd_BpmnProcessName = proc_Name (def_Process ds), pd_BpmnChecksum = md5 x\<rparr>"

definition store_definition :: "ProcessDefinition \<Rightarrow> estate \<Rightarrow> estate" where
  "store_definition p s = s\<lparr>mem := SaveProcessDefinition p (mem s),
     exported := exported s @ [NewProcessEvent (pd_BpmnProcessId p) (pd_Key p) (pd_Version p)]\<rparr>"

lemma load_eval:
  assumes "unmarshal x = Inr ds" and "FindProcessDefinitionsById (mem s) (proc_Id (def_Process ds)) = ps"
  shows "load md5 unmarshal x k s =
    (if ps \<noteq> [] \<and> pd_BpmnChecksum (latest_version (hd ps) ps) = md5 x then (Ok (latest_version (hd ps) ps), s)
     else let p = deployed md5 ds x k (new_version ps) in (Ok p, store_definition p s))"
proof (cases ps)
  case Nil
  with assms show ?thesis
    by (simp add: load_def lift_sum_def db_def Let_def set_mem_def eng_simps deployed_def new_version_def
        store_definition_def wrap_def ret_def modify_def bind_def gets_def)
next
  case (Cons p qs)
  with latest_version_Max(2) [of ps] have v: "Max (pd_Version ` set ps) = pd_Version (latest_version p ps)" by simp
  from assms Cons show ?thesis unfolding new_version_def v
    by (simp add: load_def lift_sum_def db_def Let_def set_mem_def eng_simps deployed_def
        store_definition_def wrap_def ret_def modify_def bind_def gets_def del: latest_version.simps)
qed


text \<open>
  The versions of every process are \<open>1, 2, \<dots>, n\<close>. The finder sorts by version, so this is a statement about the
  list it returns.
\<close>

definition versions_ok :: "Storage \<Rightarrow> bool" where
  "versions_ok d = (\<forall>i. map pd_Version (FindProcessDefinitionsById d i) = [1..int (length (FindProcessDefinitionsById d i))])"

lemma find_ids:
  "set (FindProcessDefinitionsById d i) = {r \<in> set (trows (ProcessDefinitions d)). pd_BpmnProcessId r = i}"
  by (auto simp: FindProcessDefinitionsById_def)

lemma trows_tput_append: "tget t k = None \<Longrightarrow> trows (tput k r t) = trows t @ [r]"
  by (induction t) (auto simp: trows_def tget_def split: if_splits)

lemma insort_key_snoc: "f a \<le> f x \<Longrightarrow> insort_key f a (ys @ [x]) = insort_key f a ys @ [x]"
  by (induction ys) auto

lemma sort_key_snoc_greatest: "\<forall>y \<in> set xs. f y < f x \<Longrightarrow> sort_key f (xs @ [x]) = sort_key f xs @ [x]"
  by (induction xs) (auto simp: insort_key_snoc)

lemma find_saved:
  assumes "tget (ProcessDefinitions d) (pd_Key p) = None"
    and "\<forall>q \<in> set (FindProcessDefinitionsById d (pd_BpmnProcessId p)). pd_Version q < pd_Version p"
  shows "FindProcessDefinitionsById (SaveProcessDefinition p d) i =
    FindProcessDefinitionsById d i @ (if i = pd_BpmnProcessId p then [p] else [])"
proof -
  let ?xs = "filter (\<lambda>r. pd_BpmnProcessId r = pd_BpmnProcessId p) (trows (ProcessDefinitions d))"
  have "\<forall>q \<in> set ?xs. pd_Version q < pd_Version p" using assms(2) by (simp add: find_ids)
  from sort_key_snoc_greatest [OF this] assms(1) show ?thesis
    by (simp add: FindProcessDefinitionsById_def SaveProcessDefinition_def trows_tput_append)
qed

lemma versions_ok_versions:
  assumes "versions_ok d"
  shows "pd_Version ` set (FindProcessDefinitionsById d i) = {1..int (length (FindProcessDefinitionsById d i))}"
proof -
  have "map pd_Version (FindProcessDefinitionsById d i) = [1..int (length (FindProcessDefinitionsById d i))]"
    using assms unfolding versions_ok_def ..
  then have "set (map pd_Version (FindProcessDefinitionsById d i)) = {1..int (length (FindProcessDefinitionsById d i))}"
    by simp
  then show ?thesis by simp
qed

lemma new_version_length:
  assumes "versions_ok d"
  shows "new_version (FindProcessDefinitionsById d i) = int (length (FindProcessDefinitionsById d i)) + 1"
proof (cases "FindProcessDefinitionsById d i = []")
  case False
  then have "Max {1..int (length (FindProcessDefinitionsById d i))} = int (length (FindProcessDefinitionsById d i))"
    by (intro Max_eqI) (auto simp: Suc_le_eq)
  with False show ?thesis by (simp add: new_version_def versions_ok_versions [OF assms])
qed (simp add: new_version_def)

text \<open>The latest definition is the last of the list.\<close>

lemma versions_ok_latest:
  assumes "versions_ok d" and "FindProcessDefinitionsById d i = qs @ [p]"
  shows "FindLatestProcessDefinitionById d i = Inr p"
    and "latest_version (hd (qs @ [p])) (qs @ [p]) = p"
proof -
  have m: "map pd_Version qs @ [pd_Version p] = [1..int (length qs) + 1]"
    using assms unfolding versions_ok_def by (metis length_append_singleton list.simps(9) map_append list.simps(8) of_nat_Suc add.commute)
  have "[1..int (length qs) + 1] = [1..int (length qs)] @ [int (length qs) + 1]"
    by (simp add: upto_rec2)
  with m have v: "map pd_Version qs = [1..int (length qs)]" "pd_Version p = int (length qs) + 1" by simp_all
  then have "pd_Version ` set qs = {1..int (length qs)}" by (metis list.set_map set_upto)
  with v(2) have lt: "\<forall>q \<in> set qs. pd_Version q < pd_Version p" by (metis atLeastAtMost_iff imageI zle_add1_eq_le)
  have mem: "p \<in> set (FindProcessDefinitionsById d i)" using assms(2) by simp
  have pos: "\<forall>q \<in> set (trows (ProcessDefinitions d)). 0 < pd_Version q"
  proof
    fix q assume "q \<in> set (trows (ProcessDefinitions d))"
    then have "q \<in> set (FindProcessDefinitionsById d (pd_BpmnProcessId q))" by (simp add: find_ids)
    then have "pd_Version q \<in> pd_Version ` set (FindProcessDefinitionsById d (pd_BpmnProcessId q))" by (rule imageI)
    then show "0 < pd_Version q" by (simp add: versions_ok_versions [OF assms(1)])
  qed
  have top: "\<forall>q \<in> set (FindProcessDefinitionsById d i). q \<noteq> p \<longrightarrow> pd_Version q < pd_Version p"
    using assms(2) lt by simp
  show "FindLatestProcessDefinitionById d i = Inr p"
    using mem top by (intro find_latest_unique [OF pos]) (simp_all add: find_ids)
  show "latest_version (hd (qs @ [p])) (qs @ [p]) = p"
    using latest_version_max [of "hd (qs @ [p])" "qs @ [p]"] lt by (cases qs) (force+)
qed

lemma versions_ok_saved:
  assumes "versions_ok d" and "tget (ProcessDefinitions d) (pd_Key p) = None"
    and "pd_Version p = new_version (FindProcessDefinitionsById d (pd_BpmnProcessId p))"
  shows "versions_ok (SaveProcessDefinition p d)"
    and "FindProcessDefinitionsById (SaveProcessDefinition p d) (pd_BpmnProcessId p) =
      FindProcessDefinitionsById d (pd_BpmnProcessId p) @ [p]"
proof -
  let ?n = "int (length (FindProcessDefinitionsById d (pd_BpmnProcessId p)))"
  have v: "pd_Version p = ?n + 1" using assms(3) new_version_length [OF assms(1)] by simp
  have "\<forall>q \<in> set (FindProcessDefinitionsById d (pd_BpmnProcessId p)). pd_Version q < pd_Version p"
    using versions_ok_versions [OF assms(1), of "pd_BpmnProcessId p"] v by (metis atLeastAtMost_iff imageI zle_add1_eq_le)
  note f = find_saved [OF assms(2) this]
  show "FindProcessDefinitionsById (SaveProcessDefinition p d) (pd_BpmnProcessId p) =
      FindProcessDefinitionsById d (pd_BpmnProcessId p) @ [p]" by (simp add: f)
  have "[1..?n + 1] = [1..?n] @ [?n + 1]" by (simp add: upto_rec2)
  then show "versions_ok (SaveProcessDefinition p d)"
    using assms(1) v by (simp add: versions_ok_def f add.commute)
qed

text \<open>
  C31. Deployment numbers the versions of a process \<open>1, 2, \<dots>\<close> without gaps. When the store numbers every process like that and
  the generated key is unused, \<^verbatim>\<open>LoadFromBytes\<close> on bytes that can be decoded returns a definition that carries the
  checksum of the bytes, the numbering still holds, \<^verbatim>\<open>FindLatestProcessDefinitionById\<close> returns just that
  definition, it is either the one that was the latest before (and then nothing has changed) or a new one with the next
  version, and deploying the same bytes again, with any key, returns the same definition and changes nothing.
\<close>

theorem deployment_assigns_next_version:
  assumes "versions_ok (mem s)" and "tget (ProcessDefinitions (mem s)) k = None" and "unmarshal x = Inr ds"
  shows "\<exists>p s'. LoadFromBytes md5 unmarshal x k s = (Ok p, s') \<and> pd_BpmnChecksum p = md5 x \<and> versions_ok (mem s') \<and>
    FindLatestProcessDefinitionById (mem s') (proc_Id (def_Process ds)) = Inr p \<and>
    (FindProcessDefinitionsById (mem s') (proc_Id (def_Process ds)) = FindProcessDefinitionsById (mem s) (proc_Id (def_Process ds)) @ [p]
       \<and> pd_Key p = k \<and> pd_BpmnData p = x \<and> pd_Definitions p = ds
     \<or> s' = s \<and> p \<in> set (FindProcessDefinitionsById (mem s) (proc_Id (def_Process ds)))) \<and>
    (\<forall>k'. LoadFromBytes md5 unmarshal x k' s' = (Ok p, s'))"
proof -
  let ?i = "proc_Id (def_Process ds)"
  let ?ps = "FindProcessDefinitionsById (mem s) ?i"
  let ?p = "deployed md5 ds x k (new_version ?ps)"
  have wrapOk: "LoadFromBytes md5 unmarshal x k' s1 = (Ok p, s2)" if "load md5 unmarshal x k' s1 = (Ok p, s2)" for k' s1 p s2
    using that by (simp add: LoadFromBytes_def wrap_def)
  show ?thesis
  proof (cases "?ps \<noteq> [] \<and> pd_BpmnChecksum (latest_version (hd ?ps) ?ps) = md5 x")
    case True
    then obtain qs p where q: "?ps = qs @ [p]" by (metis rev_exhaust)
    note l = versions_ok_latest [OF assms(1) q]
    have "load md5 unmarshal x k' s = (Ok p, s)" for k'
      using True l(2) q by (simp add: load_eval [where unmarshal = unmarshal and x = x and s = s, OF assms(3) refl])
    with True l q assms(1) show ?thesis by (intro exI [of _ p] exI [of _ s]) (auto intro: wrapOk)
  next
    case False
    let ?s = "store_definition ?p s"
    have p: "pd_Key ?p = k" "pd_BpmnProcessId ?p = ?i" "pd_Version ?p = new_version ?ps" "pd_BpmnChecksum ?p = md5 x"
      "pd_BpmnData ?p = x" "pd_Definitions ?p = ds"
      by (simp_all add: deployed_def)
    have ms: "mem ?s = SaveProcessDefinition ?p (mem s)" by (simp add: store_definition_def)
    have ok: "versions_ok (mem ?s)" and f: "FindProcessDefinitionsById (mem ?s) ?i = ?ps @ [?p]"
      using versions_ok_saved [OF assms(1), of ?p] assms(2) p by (simp_all add: ms)
    note l = versions_ok_latest [OF ok f]
    have "load md5 unmarshal x k s = (Ok ?p, ?s)" using False by (auto simp: load_eval [where unmarshal = unmarshal and x = x and s = s, OF assms(3) refl] Let_def)
    moreover have "load md5 unmarshal x k' ?s = (Ok ?p, ?s)" for k'
      using l(2) p(4) by (simp add: load_eval [where unmarshal = unmarshal and x = x, OF assms(3) f])
    ultimately show ?thesis using ok l(1) f p by (intro exI [of _ ?p] exI [of _ ?s]) (auto intro: wrapOk)
  qed
qed

theorem deployment_assigns_next_version_witness:
  "versions_ok (mem NewEngine) \<and> tget (ProcessDefinitions (mem NewEngine)) 900 = None \<and>
   (\<exists>p s'. LoadFromBytes (\<lambda>x. int (length x)) (\<lambda>_. Inr (pd_Definitions bare_pd)) ''<xml/>'' 900 NewEngine = (Ok p, s') \<and>
      FindLatestProcessDefinitionById (mem s') ''bare'' = Inr p \<and> pd_BpmnChecksum p = 6)"
proof -
  have v: "versions_ok (mem NewEngine)" and t: "tget (ProcessDefinitions (mem NewEngine)) 900 = None"
    by (simp_all add: versions_ok_def FindProcessDefinitionsById_def NewEngine_def NewStorage_def trows_def)
  have i: "proc_Id (def_Process (pd_Definitions bare_pd)) = ''bare''" by (simp add: bare_pd_def)
  obtain p s' where "LoadFromBytes (\<lambda>x. int (length x)) (\<lambda>_. Inr (pd_Definitions bare_pd)) ''<xml/>'' 900 NewEngine = (Ok p, s')"
    "FindLatestProcessDefinitionById (mem s') (proc_Id (def_Process (pd_Definitions bare_pd))) = Inr p"
    "pd_BpmnChecksum p = int (length ''<xml/>'')"
    using deployment_assigns_next_version [OF v t, of "\<lambda>_. Inr (pd_Definitions bare_pd)" "''<xml/>''"
        "pd_Definitions bare_pd" "\<lambda>x. int (length x)"] by blast
  with v t show ?thesis unfolding i by auto
qed

end
