(* ===== verification/Dmn_Engine.thy ===== *)
theory Dmn_Engine
  imports In_Memory
begin

text \<open>
  The decision engine (\<^verbatim>\<open>pkg/dmn\<close>): evaluation of decision tables under their hit policies, of literal expressions
  and of contexts, evaluation of a decision after the decisions it requires, and deployment of decision
  models. The FEEL runtime and the JSON encoder are parameters. The recursion over required decisions has fuel,
  since nothing excludes that decisions require each other in a cycle.
\<close>

section \<open>Results\<close>

record EvaluatedOutput =
  eo_OutputId :: string
  eo_OutputName :: string
  eo_OutputJsonName :: string
  eo_OutputValue :: dval

record EvaluatedInput =
  ei_InputId :: string
  ei_InputName :: string
  ei_InputExpression :: string
  ei_InputValue :: dval

record EvaluatedRule =
  er_RuleId :: string
  er_RuleIndex :: int
  er_EvaluatedOutputs :: "EvaluatedOutput list"

type_synonym dmn_output = "(string \<times> dval) list"

record EvaluatedDecisionResult =
  ed_DecisionId :: string
  ed_DecisionName :: string
  ed_DecisionType :: string
  ed_DecisionDefinitionVersion :: int
  ed_DecisionDefinitionKey :: int
  ed_DmnResourceDefinitionId :: string
  ed_MatchedRules :: "EvaluatedRule list"
  ed_DecisionOutput :: dmn_output
  ed_EvaluatedInputs :: "EvaluatedInput list"

record EvaluatedDRDResult =
  drd_EvaluatedDecisions :: "EvaluatedDecisionResult list"
  drd_DecisionOutput :: dval
  drd_DecisionInstanceKey :: int

record feel_runtime =
  Evaluate :: "string \<Rightarrow> dvars \<Rightarrow> error + dval"
  UnaryTest :: "string \<Rightarrow> dvars \<Rightarrow> error + bool"

fun rbind :: "'a res \<Rightarrow> ('a \<Rightarrow> 'b res) \<Rightarrow> 'b res" where
  "rbind (Ok x) f = f x"
| "rbind (Err e) f = Err e"
| "rbind (Panic m) f = Panic m"
| "rbind Blocked f = Blocked"
| "rbind NoFuel f = NoFuel"

section \<open>Hit policies\<close>

fun outputs_map :: "EvaluatedOutput list \<Rightarrow> dmn_output \<Rightarrow> dmn_output" where
  "outputs_map [] result = result"
| "outputs_map (o' # os) result = outputs_map os (AList.update (eo_OutputJsonName o') (eo_OutputValue o') result)"

definition single_unnamed :: "TDecisionTable \<Rightarrow> bool" where
  "single_unnamed dt \<longleftrightarrow> (case dt_Outputs dt of [o'] \<Rightarrow> out_Name o' = [] | _ \<Rightarrow> False)"

text \<open>The value of one rule. The first output is indexed without a check.\<close>

definition rule_value :: "TDecisionTable \<Rightarrow> EvaluatedRule \<Rightarrow> dval res" where
  "rule_value dt r =
     (if single_unnamed dt
      then case er_EvaluatedOutputs r of [] \<Rightarrow> Panic ''index out of range'' | o' # _ \<Rightarrow> Ok (eo_OutputValue o')
      else Ok (DMap (outputs_map (er_EvaluatedOutputs r) [])))"

fun collect_values :: "TDecisionTable \<Rightarrow> EvaluatedRule list \<Rightarrow> dval list res" where
  "collect_values dt [] = Ok []"
| "collect_values dt (r # rs) = rbind (rule_value dt r) (\<lambda>v. rbind (collect_values dt rs) (\<lambda>vs. Ok (v # vs)))"

definition evaluateCollectOutput :: "TDecisionTable \<Rightarrow> string \<Rightarrow> EvaluatedRule list \<Rightarrow> dmn_output res" where
  "evaluateCollectOutput dt decisionId matchedRules =
     rbind (collect_values dt matchedRules) (\<lambda>vs. Ok [(decisionId, DList vs)])"

definition evaluateFirstRuleOutput :: "TDecisionTable \<Rightarrow> string \<Rightarrow> EvaluatedRule list \<Rightarrow> dmn_output res" where
  "evaluateFirstRuleOutput dt decisionId matchedRules =
     (case matchedRules of
        [] \<Rightarrow> Ok [(decisionId, DNil)]
      | r # _ \<Rightarrow> rbind (rule_value dt r) (\<lambda>v. Ok [(decisionId, v)]))"

definition evaluateUniqueOutput :: "TDecisionTable \<Rightarrow> string \<Rightarrow> EvaluatedRule list \<Rightarrow> dmn_output res" where
  "evaluateUniqueOutput dt decisionId matchedRules =
     (if length matchedRules > 1 then Ok [] else evaluateFirstRuleOutput dt decisionId matchedRules)"

definition EvaluateHitPolicyOutput ::
    "TDecisionTable \<Rightarrow> string \<Rightarrow> HitPolicy \<Rightarrow> HitPolicyAggregation \<Rightarrow> EvaluatedRule list \<Rightarrow> dmn_output res" where
  "EvaluateHitPolicyOutput dt decisionId hitPolicy aggregation matchedRules =
     (case hitPolicy of
        HitPolicyCollect \<Rightarrow>
          (case aggregation of
             HitPolicyAggregationSum \<Rightarrow> Panic ''Not implemented''
           | HitPolicyAggregationMin \<Rightarrow> Panic ''Not implemented''
           | HitPolicyAggregationMax \<Rightarrow> Panic ''Not implemented''
           | HitPolicyAggregationCount \<Rightarrow> Panic ''Not implemented''
           | HitPolicyAggregationOther _ \<Rightarrow> evaluateCollectOutput dt decisionId matchedRules)
      | HitPolicyFirst \<Rightarrow> evaluateFirstRuleOutput dt decisionId matchedRules
      | HitPolicyPriority \<Rightarrow> evaluateFirstRuleOutput dt decisionId matchedRules
      | HitPolicyAny \<Rightarrow> evaluateFirstRuleOutput dt decisionId matchedRules
      | HitPolicyRuleOrder \<Rightarrow> evaluateFirstRuleOutput dt decisionId matchedRules
      | HitPolicyOutputOrder \<Rightarrow> evaluateFirstRuleOutput dt decisionId matchedRules
      | HitPolicyOther _ \<Rightarrow> evaluateUniqueOutput dt decisionId matchedRules)"

section \<open>Decision tables\<close>

fun is_unique :: "string list \<Rightarrow> TOutput list \<Rightarrow> bool" where
  "is_unique seen [] = True"
| "is_unique seen (s # ss) = (if out_Name s \<in> set seen then False else is_unique (out_Name s # seen) ss)"

definition isUnique :: "TOutput list \<Rightarrow> bool" where
  "isUnique l = is_unique [] l"

fun evaluate_inputs :: "feel_runtime \<Rightarrow> dvars \<Rightarrow> TInput list \<Rightarrow> EvaluatedInput list res" where
  "evaluate_inputs F vs [] = Ok []"
| "evaluate_inputs F vs (i # is) =
     (case Evaluate F (ie_Text (in_InputExpression i)) vs of
        Inl e \<Rightarrow> Err (Wrapf ''error while evaluating epression'' e)
      | Inr value \<Rightarrow>
          rbind (evaluate_inputs F vs is) (\<lambda>r. Ok (
            \<lparr>ei_InputId = in_Id i, ei_InputName = in_Label i, ei_InputExpression = ie_Text (in_InputExpression i),
             ei_InputValue = value\<rparr> # r)))"

fun match_columns :: "feel_runtime \<Rightarrow> dvars \<Rightarrow> EvaluatedInput list \<Rightarrow> nat \<Rightarrow> TInputEntry list \<Rightarrow> bool res" where
  "match_columns F vs inputs i [] = Ok True"
| "match_columns F vs inputs i (inputEntry # es) =
     (if i \<ge> length inputs then Panic ''index out of range''
      else case UnaryTest F (if ient_Text inputEntry = [] then ''-'' else ient_Text inputEntry)
                  (vs(''?'' \<mapsto> ei_InputValue (inputs ! i))) of
             Inl e \<Rightarrow> Err (Wrapf ''error while evaluating cell match'' e)
           | Inr match \<Rightarrow> if \<not> match then Ok False else match_columns F vs inputs (Suc i) es)"

fun evaluate_outputs :: "feel_runtime \<Rightarrow> dvars \<Rightarrow> TRule \<Rightarrow> nat \<Rightarrow> TOutput list \<Rightarrow> EvaluatedOutput list res" where
  "evaluate_outputs F vs rule i [] = Ok []"
| "evaluate_outputs F vs rule i (output # os) =
     (if i \<ge> length (rule_OutputEntry rule) then Panic ''index out of range''
      else case Evaluate F (oent_Text (rule_OutputEntry rule ! i)) vs of
             Inl e \<Rightarrow> Err (Wrapf ''error while evaluating output'' e)
           | Inr value \<Rightarrow>
               rbind (evaluate_outputs F vs rule (Suc i) os) (\<lambda>r. Ok (
                 \<lparr>eo_OutputId = out_Id output, eo_OutputName = out_Name output, eo_OutputJsonName = out_Name output,
                  eo_OutputValue = value\<rparr> # r)))"

fun rule_loop ::
    "feel_runtime \<Rightarrow> dvars \<Rightarrow> TDecisionTable \<Rightarrow> EvaluatedInput list \<Rightarrow> int \<Rightarrow> TRule list \<Rightarrow> EvaluatedRule list \<Rightarrow> EvaluatedRule list res" where
  "rule_loop F vs dt inputs ruleIndex [] matchedRules = Ok matchedRules"
| "rule_loop F vs dt inputs ruleIndex (rule # rules) matchedRules =
     rbind (match_columns F vs inputs 0 (rule_InputEntry rule)) (\<lambda>allColumnsMatch.
       if \<not> allColumnsMatch then rule_loop F vs dt inputs (ruleIndex + 1) rules matchedRules
       else rbind (evaluate_outputs F vs rule 0 (dt_Outputs dt)) (\<lambda>outs.
              (let matchedRules = matchedRules @ [\<lparr>er_RuleId = rule_Id rule, er_RuleIndex = ruleIndex + 1,
                                                   er_EvaluatedOutputs = outs\<rparr>]
               in if dt_HitPolicy dt = HitPolicyFirst then Ok matchedRules
                  else rule_loop F vs dt inputs (ruleIndex + 1) rules matchedRules)))"

definition evaluateDecisionTable ::
    "feel_runtime \<Rightarrow> TDecisionTable \<Rightarrow> string \<Rightarrow> dvars \<Rightarrow> (dmn_output \<times> EvaluatedRule list \<times> EvaluatedInput list) res" where
  "evaluateDecisionTable F dt decisionId vs =
     (if length (dt_Outputs dt) > 1 \<and> \<not> isUnique (dt_Outputs dt)
      then Err (Errorf ''decision table contains more than one output and all of them have to have unique names'')
      else rbind (evaluate_inputs F vs (dt_Inputs dt)) (\<lambda>evaluatedInputs.
           rbind (rule_loop F vs dt evaluatedInputs 0 (dt_Rules dt) []) (\<lambda>matchedRules.
           rbind (EvaluateHitPolicyOutput dt decisionId (dt_HitPolicy dt) (dt_HitPolicyAggregation dt) matchedRules) (\<lambda>out.
             Ok (out, matchedRules, evaluatedInputs)))))"

section \<open>Literal expressions and contexts\<close>

definition cannot_cast :: error where
  "cannot_cast = Errorf ''literal expression result value cannot be cast''"

definition cast_result :: "string \<Rightarrow> dval \<Rightarrow> dval res" where
  "cast_result typeRef v =
     (if typeRef = ''string'' then (case v of DStr s \<Rightarrow> Ok (DStr s) | _ \<Rightarrow> Err cannot_cast)
      else if typeRef = ''boolean'' then (case v of DBool b \<Rightarrow> Ok (DBool b) | DNil \<Rightarrow> Ok DNil | _ \<Rightarrow> Err cannot_cast)
      else if typeRef = ''integer'' then (case v of DInt n \<Rightarrow> Ok (DInt n) | _ \<Rightarrow> Err cannot_cast)
      else if typeRef = ''long'' then (case v of DInt64 n \<Rightarrow> Ok (DInt64 n) | _ \<Rightarrow> Err cannot_cast)
      else if typeRef = ''double'' then (case v of DFloat64 n \<Rightarrow> Ok (DFloat64 n) | _ \<Rightarrow> Err cannot_cast)
      else if typeRef = ''date'' then (case v of DTime t \<Rightarrow> Ok (DTime t) | _ \<Rightarrow> Err cannot_cast)
      else if typeRef = ''number''
           then (case v of DFloat64 n \<Rightarrow> Ok (DFloat64 n) | DInt64 n \<Rightarrow> Ok (DInt64 n) | DNil \<Rightarrow> Ok DNil | _ \<Rightarrow> Err cannot_cast)
      else Ok v)"

text \<open>A decision without a variable dereferences a nil pointer after the expression has been evaluated.\<close>

definition evaluateLiteralExpression ::
    "feel_runtime \<Rightarrow> TLiteralExpression \<Rightarrow> TVariable option \<Rightarrow> dvars \<Rightarrow> dmn_output res" where
  "evaluateLiteralExpression F le variable vs =
     (if le_ExpressionLanguage le = ''feel'' \<or> le_ExpressionLanguage le = []
      then case Evaluate F (le_Text le) vs of
             Inl e \<Rightarrow> Err (Wrapf ''failed to evaluated expression'' e)
           | Inr (DException m) \<Rightarrow> Err (Errorf m)
           | Inr resultValue \<Rightarrow>
               (case variable of
                  None \<Rightarrow> Panic ''nil pointer dereference''
                | Some v \<Rightarrow> rbind (cast_result (var_TypeRef v) resultValue) (\<lambda>x. Ok [(var_Name v, x)]))
      else Err (Errorf ''unsupported literal expression language''))"

definition set_all :: "dmn_output \<Rightarrow> dvars \<Rightarrow> dvars" where
  "set_all out vs = fold (\<lambda>(k, v) m. m(k \<mapsto> v)) out vs"

definition put_all :: "dmn_output \<Rightarrow> dmn_output \<Rightarrow> dmn_output" where
  "put_all out m = fold (\<lambda>(k, v) m. AList.update k v m) out m"

definition table_output :: "feel_runtime \<Rightarrow> TDecisionTable \<Rightarrow> string \<Rightarrow> dvars \<Rightarrow> dmn_output res" where
  "table_output F dt i vs = rbind (evaluateDecisionTable F dt i vs) (\<lambda>(out, _, _). Ok out)"

fun evaluateContext :: "feel_runtime \<Rightarrow> TContext \<Rightarrow> string \<Rightarrow> dvars \<Rightarrow> dmn_output res"
  and context_loop :: "feel_runtime \<Rightarrow> TContextEntry list \<Rightarrow> string \<Rightarrow> dvars \<Rightarrow> dmn_output \<Rightarrow> dmn_output res" where
  "evaluateContext F (TContext es) name vs = context_loop F es name vs []"
| "context_loop F [] name vs out = Ok [(name, DMap out)]"
| "context_loop F (TContextEntry dt var le ctx # es) name vs out =
     (if es = [] \<and> var = None
      then case dt of
             Some t \<Rightarrow> table_output F t name vs
           | None \<Rightarrow>
               (case le of
                  Some l \<Rightarrow> evaluateLiteralExpression F l (Some \<lparr>var_Id = name, var_Name = name, var_TypeRef = []\<rparr>) vs
                | None \<Rightarrow> (case ctx of Some c \<Rightarrow> evaluateContext F c name vs | None \<Rightarrow> Ok []))
      else rbind (case dt of
                    Some t \<Rightarrow>
                      (case var of None \<Rightarrow> Panic ''nil pointer dereference'' | Some v \<Rightarrow> table_output F t (var_Name v) vs)
                  | None \<Rightarrow>
                      (case le of
                         Some l \<Rightarrow>
                           (case var of None \<Rightarrow> Panic ''nil pointer dereference''
                            | Some v \<Rightarrow> evaluateLiteralExpression F l (Some v) vs)
                       | None \<Rightarrow>
                           (case ctx of
                              Some c \<Rightarrow>
                                (case var of None \<Rightarrow> Panic ''nil pointer dereference''
                                 | Some v \<Rightarrow> evaluateContext F c (var_Name v) vs)
                            | None \<Rightarrow> Ok [])))
             (\<lambda>output. context_loop F es name (set_all output vs) (put_all output out)))"

section \<open>Decisions\<close>

definition findDecisionDefinition :: "DmnResourceDefinition \<Rightarrow> string \<Rightarrow> TDecision option" where
  "findDecisionDefinition d decisionId = List.find (\<lambda>x. dec_Id x = decisionId) (dmn_Decisions (drd_Definitions d))"

fun input_missing :: "string \<Rightarrow> dvars \<Rightarrow> TInputData list \<Rightarrow> bool" where
  "input_missing i vs [] = False"
| "input_missing i vs (input # is) =
     (if id_Id input = i \<and> vs (id_Name input) = None then True else input_missing i vs is)"

text \<open>The loop over the requirements; \<open>rec\<close> evaluates a required decision.\<close>

fun requirement_loop ::
    "(string \<Rightarrow> (EvaluatedDecisionResult \<times> EvaluatedDecisionResult list) res) \<Rightarrow> TInputData list \<Rightarrow> dvars \<Rightarrow>
     TInformationRequirement list \<Rightarrow> dvars \<Rightarrow> EvaluatedDecisionResult list \<Rightarrow> (dvars \<times> EvaluatedDecisionResult list) res" where
  "requirement_loop rec inputData vs [] local deps = Ok (local, deps)"
| "requirement_loop rec inputData vs (requirement # rs) local deps =
     (case req_RequiredResource requirement of
        TRequiredDecision href \<Rightarrow>
          rbind (rec (TrimPrefix href ''#'')) (\<lambda>(result, dependencies).
            requirement_loop rec inputData vs rs (set_all (ed_DecisionOutput result) local) (deps @ result # dependencies))
      | TRequiredInput href \<Rightarrow>
          if input_missing (TrimPrefix href ''#'') vs inputData then Err (Errorf ''required input missing'')
          else requirement_loop rec inputData vs rs local deps
      | NoRequiredResource \<Rightarrow> Panic ''unsupported TInformationRequirement'')"

definition decision_logic ::
    "feel_runtime \<Rightarrow> TDecision \<Rightarrow> dvars \<Rightarrow> (dmn_output \<times> EvaluatedRule list \<times> EvaluatedInput list \<times> string) res" where
  "decision_logic F dec vs =
     (let decisionName = (if dec_Name dec \<noteq> [] then dec_Name dec else dec_Id dec) in
      case dec_DecisionTable dec of
        Some dt \<Rightarrow> rbind (evaluateDecisionTable F dt decisionName vs) (\<lambda>(out, rules, inputs). Ok (out, rules, inputs, ''DECISION_TABLE''))
      | None \<Rightarrow>
          (case dec_LiteralExpression dec of
             Some le \<Rightarrow>
               rbind (evaluateLiteralExpression F le (dec_Variable dec) vs) (\<lambda>out. Ok (out, [], [], ''LITERAL_EXPRESSION''))
           | None \<Rightarrow>
               (case dec_Context dec of
                  Some c \<Rightarrow> rbind (evaluateContext F c decisionName vs) (\<lambda>out. Ok (out, [], [], ''CONTEXT''))
                | None \<Rightarrow> Err (Errorf ''decision type unsupported''))))"

fun evaluateDecision ::
    "feel_runtime \<Rightarrow> DmnResourceDefinition \<Rightarrow> nat \<Rightarrow> string \<Rightarrow> dvars \<Rightarrow>
     (EvaluatedDecisionResult \<times> EvaluatedDecisionResult list) res" where
  "evaluateDecision F d 0 decisionId vs = NoFuel"
| "evaluateDecision F d (Suc f) decisionId vs =
     (case findDecisionDefinition d decisionId of
        None \<Rightarrow> Err (ErrorfArgs ''decision not found'' [decisionId])
      | Some dec \<Rightarrow>
          rbind (requirement_loop (\<lambda>i. evaluateDecision F d f i vs) (dmn_InputData (drd_Definitions d)) vs
                   (dec_InformationRequirement dec) vs []) (\<lambda>(local, deps).
          rbind (decision_logic F dec local) (\<lambda>(out, rules, inputs, ty).
            Ok (\<lparr>ed_DecisionId = dec_Id dec, ed_DecisionName = dec_Name dec, ed_DecisionType = ty,
                 ed_DecisionDefinitionVersion = drd_Version d, ed_DecisionDefinitionKey = drd_Key d,
                 ed_DmnResourceDefinitionId = drd_Id d, ed_MatchedRules = rules, ed_DecisionOutput = out,
                 ed_EvaluatedInputs = inputs\<rparr>, deps))))"

section \<open>Evaluation of a stored decision\<close>

record dmn_env =
  de_feel :: feel_runtime
  de_marshal :: "dval \<Rightarrow> error + string"
  de_marshalDecisions :: "EvaluatedDecisionResult list \<Rightarrow> error + string"

text \<open>The last value of the output map in the order of iteration; a map without entries leaves nil.\<close>

fun last_value :: "dval \<Rightarrow> dmn_output \<Rightarrow> dval" where
  "last_value x [] = x"
| "last_value x ((_, v) # out) = last_value v out"

definition evaluateDRD ::
    "dmn_env \<Rightarrow> nat \<Rightarrow> int \<Rightarrow> int \<Rightarrow> DmnResourceDefinition \<Rightarrow> DecisionDefinition \<Rightarrow> dvars \<Rightarrow> Storage \<Rightarrow>
     EvaluatedDRDResult res \<times> Storage" where
  "evaluateDRD E fuel key now rd dd vs d =
     (case evaluateDecision (de_feel E) rd fuel (dd_Id dd) vs of
        Ok (result, dependencies) \<Rightarrow>
          (let evaluatedDecisions = result # dependencies;
               decisionOutput = last_value DNil (ed_DecisionOutput result)
           in case de_marshal E decisionOutput of
                Inl e \<Rightarrow> (Err (Wrapf ''failed to marshal business rule output variables'' e), d)
              | Inr outputVariables \<Rightarrow>
                  (case de_marshalDecisions E evaluatedDecisions of
                     Inl e \<Rightarrow> (Err (Wrapf ''failed to marshal business rule evaluated decisions'' e), d)
                   | Inr evaluatedDecisionsJson \<Rightarrow>
                       (Ok \<lparr>drd_EvaluatedDecisions = evaluatedDecisions, drd_DecisionOutput = decisionOutput,
                            drd_DecisionInstanceKey = key\<rparr>,
                        SaveDecisionInstance
                          \<lparr>di_Key = key, di_ElementInstanceKey = 0, di_ElementId = [], di_ProcessInstanceKey = 0,
                           di_ExecutionTokenKey = 0, di_DecisionId = dd_Id dd, di_CreatedAt = now,
                           di_OutputVariables = outputVariables, di_EvaluatedDecisions = evaluatedDecisionsJson,
                           di_DmnResourceDefinitionKey = drd_Key rd, di_DecisionDefinitionKey = dd_Key dd\<rparr> d)))
      | Err e \<Rightarrow> (Err (Wrapf ''failed to evaluate DecisionDefinition'' e), d)
      | Panic m \<Rightarrow> (Panic m, d)
      | Blocked \<Rightarrow> (Blocked, d)
      | NoFuel \<Rightarrow> (NoFuel, d))"

definition find_with_resource ::
    "(error + DecisionDefinition) \<Rightarrow> Storage \<Rightarrow> error + DecisionDefinition \<times> DmnResourceDefinition" where
  "find_with_resource found d =
     (case found of
        Inl e \<Rightarrow> Inl (Wrapf ''failed to find decisionDefinition'' e)
      | Inr dd \<Rightarrow>
          (case FindDmnResourceDefinitionByKey d (dd_DmnResourceDefinitionKey dd) of
             Inl e \<Rightarrow> Inl (Wrapf ''failed to find dmnResourceDefinition'' e)
           | Inr rd \<Rightarrow> Inr (dd, rd)))"

definition find_decision :: "string \<Rightarrow> string \<Rightarrow> string \<Rightarrow> Storage \<Rightarrow> error + DecisionDefinition \<times> DmnResourceDefinition" where
  "find_decision bindingType decisionId versionTag d =
     (if bindingType = [] \<or> bindingType = ''latest''
      then case Split_on CHR ''.'' decisionId [] of
             [i] \<Rightarrow> find_with_resource (GetLatestDecisionDefinitionById d i) d
           | [ri, i] \<Rightarrow> find_with_resource (GetLatestDecisionDefinitionByIdAndDmnResourceDefinitionId d i ri) d
           | _ \<Rightarrow> Inl (Errorf ''failed to process decisionDefinition: DecisionId has wrong format'')
      else if bindingType = ''deployment'' then Inl (Errorf ''bindingType deployment unsupported'')
      else if bindingType = ''versionTag''
           then find_with_resource (GetLatestDecisionDefinitionByIdAndVersionTag d decisionId versionTag) d
      else Inl (Errorf ''BindingType unsupported''))"

definition FindAndEvaluateDRD ::
    "dmn_env \<Rightarrow> nat \<Rightarrow> int \<Rightarrow> int \<Rightarrow> string \<Rightarrow> string \<Rightarrow> string \<Rightarrow> dvars \<Rightarrow> Storage \<Rightarrow> EvaluatedDRDResult res \<times> Storage" where
  "FindAndEvaluateDRD E fuel key now bindingType decisionId versionTag vs d =
     (case find_decision bindingType decisionId versionTag d of
        Inl e \<Rightarrow> (Err e, d)
      | Inr (dd, rd) \<Rightarrow> evaluateDRD E fuel key now rd dd vs d)"

section \<open>Deployment\<close>

fun latest_resource :: "DmnResourceDefinition \<Rightarrow> DmnResourceDefinition list \<Rightarrow> DmnResourceDefinition" where
  "latest_resource latest [] = latest"
| "latest_resource latest (r # rs) = latest_resource (if drd_Version latest < drd_Version r then r else latest) rs"

fun latest_decision :: "DecisionDefinition \<Rightarrow> DecisionDefinition list \<Rightarrow> DecisionDefinition" where
  "latest_decision latest [] = latest"
| "latest_decision latest (r # rs) = latest_decision (if dd_Version latest < dd_Version r then r else latest) rs"

text \<open>Whether a decision gets the next version depends on whether the resource is known, not the decision.\<close>

fun save_decisions :: "bool \<Rightarrow> DecisionDefinition list \<Rightarrow> DecisionDefinition list \<Rightarrow> Storage \<Rightarrow> DecisionDefinition list res \<times> Storage" where
  "save_decisions known [] resultDecisions d = (Ok resultDecisions, d)"
| "save_decisions known (x # xs) resultDecisions d =
     (if known
      then case GetDecisionDefinitionsById d (dd_Id x) of
             [] \<Rightarrow> (Panic ''index out of range'', d)
           | p # ps \<Rightarrow>
               (let x = x\<lparr>dd_Version := dd_Version (latest_decision p (p # ps)) + 1\<rparr>
                in save_decisions known xs (resultDecisions @ [x]) (SaveDecisionDefinition x d))
      else save_decisions known xs (resultDecisions @ [x]) (SaveDecisionDefinition x d))"

definition Validate :: "DmnResourceDefinition \<Rightarrow> error option" where
  "Validate r = None"

definition saveDmnResourceDefinition ::
    "DmnResourceDefinition \<Rightarrow> DecisionDefinition list \<Rightarrow> Storage \<Rightarrow>
     (DmnResourceDefinition \<times> DecisionDefinition list option) res \<times> Storage" where
  "saveDmnResourceDefinition rd decisionDefinitions d =
     (let known = FindDmnResourceDefinitionsById d (drd_Id rd);
          store = (\<lambda>rd. case save_decisions (known \<noteq> []) decisionDefinitions [] (SaveDmnResourceDefinition rd d) of
                    (Ok ds, d') \<Rightarrow> (case Validate rd of None \<Rightarrow> (Ok (rd, Some ds), d') | Some e \<Rightarrow> (Err e, d'))
                  | (Err e, d') \<Rightarrow> (Err e, d')
                  | (Panic m, d') \<Rightarrow> (Panic m, d')
                  | (Blocked, d') \<Rightarrow> (Blocked, d')
                  | (NoFuel, d') \<Rightarrow> (NoFuel, d'))
      in case known of
           [] \<Rightarrow> store rd
         | p # ps \<Rightarrow>
             (let latest = latest_resource p known in
              if drd_DmnChecksum latest = drd_DmnChecksum rd then (Ok (latest, None), d)
              else store (rd\<lparr>drd_Version := drd_Version latest + 1\<rparr>)))"

fun new_decisions :: "(nat \<Rightarrow> int) \<Rightarrow> string \<Rightarrow> int \<Rightarrow> TDecision list \<Rightarrow> DecisionDefinition list" where
  "new_decisions keys i k [] = []"
| "new_decisions keys i k (x # xs) =
     \<lparr>dd_Version = 1, dd_Key = keys 0, dd_Id = dec_Id x, dd_VersionTag = dec_VersionTag x,
      dd_DmnResourceDefinitionId = i, dd_DmnResourceDefinitionKey = k\<rparr> # new_decisions (\<lambda>n. keys (Suc n)) i k xs"

definition deploy_dmn ::
    "(string \<Rightarrow> int) \<Rightarrow> (nat \<Rightarrow> int) \<Rightarrow> dmn_TDefinitions \<Rightarrow> string \<Rightarrow> int \<Rightarrow> Storage \<Rightarrow>
     (DmnResourceDefinition \<times> DecisionDefinition list option) res \<times> Storage" where
  "deploy_dmn md5 keys definition' xmlData key d =
     saveDmnResourceDefinition
       \<lparr>drd_Version = 1, drd_Key = key, drd_Id = dmn_Id definition', drd_Definitions = definition', drd_DmnData = xmlData,
        drd_DmnDefinitionName = dmn_Name definition', drd_DmnChecksum = md5 xmlData\<rparr>
       (new_decisions keys (dmn_Id definition') key (dmn_Decisions definition')) d"

section \<open>The evaluation of tables as a specification\<close>

text \<open>
  A decision table is readable for a context when no expression of it fails and every rule has as many entries as its
  columns need. For such tables the loops are simple list functions.
\<close>

definition cell :: "feel_runtime \<Rightarrow> dvars \<Rightarrow> TInputEntry \<Rightarrow> dval \<Rightarrow> error + bool" where
  "cell F vs e v = UnaryTest F (if ient_Text e = [] then ''-'' else ient_Text e) (vs(''?'' \<mapsto> v))"

definition values_ok :: "('e + 'v) list \<Rightarrow> bool" where
  "values_ok xs = list_all (\<lambda>x. case x of Inl _ \<Rightarrow> False | Inr _ \<Rightarrow> True) xs"

definition input_values :: "feel_runtime \<Rightarrow> dvars \<Rightarrow> TDecisionTable \<Rightarrow> (error + dval) list" where
  "input_values F vs dt = map (\<lambda>i. Evaluate F (ie_Text (in_InputExpression i)) vs) (dt_Inputs dt)"

definition evaluated_inputs :: "feel_runtime \<Rightarrow> dvars \<Rightarrow> TInput list \<Rightarrow> EvaluatedInput list" where
  "evaluated_inputs F vs is = map (\<lambda>i. \<lparr>ei_InputId = in_Id i, ei_InputName = in_Label i,
     ei_InputExpression = ie_Text (in_InputExpression i),
     ei_InputValue = projr (Evaluate F (ie_Text (in_InputExpression i)) vs)\<rparr>) is"

definition rule_cells :: "feel_runtime \<Rightarrow> dvars \<Rightarrow> EvaluatedInput list \<Rightarrow> TRule \<Rightarrow> (error + bool) list" where
  "rule_cells F vs inputs r = map2 (\<lambda>e i. cell F vs e (ei_InputValue i)) (rule_InputEntry r) inputs"

definition readable :: "feel_runtime \<Rightarrow> dvars \<Rightarrow> TDecisionTable \<Rightarrow> bool" where
  "readable F vs dt \<longleftrightarrow> (length (dt_Outputs dt) > 1 \<longrightarrow> isUnique (dt_Outputs dt)) \<and> values_ok (input_values F vs dt) \<and>
     list_all (\<lambda>r. length (rule_InputEntry r) \<le> length (dt_Inputs dt) \<and>
       values_ok (rule_cells F vs (evaluated_inputs F vs (dt_Inputs dt)) r) \<and>
       length (dt_Outputs dt) \<le> length (rule_OutputEntry r) \<and>
       values_ok (map (\<lambda>e. Evaluate F (oent_Text e) vs) (rule_OutputEntry r))) (dt_Rules dt)"

definition hits :: "feel_runtime \<Rightarrow> dvars \<Rightarrow> EvaluatedInput list \<Rightarrow> TRule \<Rightarrow> bool" where
  "hits F vs inputs r = list_all (\<lambda>c. c = Inr True) (rule_cells F vs inputs r)"

definition rule_outputs :: "feel_runtime \<Rightarrow> dvars \<Rightarrow> TDecisionTable \<Rightarrow> TRule \<Rightarrow> EvaluatedOutput list" where
  "rule_outputs F vs dt r = map2 (\<lambda>o' e. \<lparr>eo_OutputId = out_Id o', eo_OutputName = out_Name o', eo_OutputJsonName = out_Name o',
     eo_OutputValue = projr (Evaluate F (oent_Text e) vs)\<rparr>) (dt_Outputs dt) (rule_OutputEntry r)"

definition matched :: "feel_runtime \<Rightarrow> dvars \<Rightarrow> TDecisionTable \<Rightarrow> EvaluatedRule list" where
  "matched F vs dt = map (\<lambda>(n, r). \<lparr>er_RuleId = rule_Id r, er_RuleIndex = int n + 1, er_EvaluatedOutputs = rule_outputs F vs dt r\<rparr>)
     (filter (\<lambda>(n, r). hits F vs (evaluated_inputs F vs (dt_Inputs dt)) r) (enumerate 0 (dt_Rules dt)))"

definition value_of :: "TDecisionTable \<Rightarrow> EvaluatedRule \<Rightarrow> dval" where
  "value_of dt r = (if single_unnamed dt then eo_OutputValue (hd (er_EvaluatedOutputs r))
     else DMap (outputs_map (er_EvaluatedOutputs r) []))"

definition first_value :: "TDecisionTable \<Rightarrow> string \<Rightarrow> EvaluatedRule list \<Rightarrow> dmn_output" where
  "first_value dt i rs = [(i, case rs of [] \<Rightarrow> DNil | r # _ \<Rightarrow> value_of dt r)]"

definition hit_policy_spec :: "TDecisionTable \<Rightarrow> string \<Rightarrow> EvaluatedRule list \<Rightarrow> dmn_output" where
  "hit_policy_spec dt i rs =
     (case dt_HitPolicy dt of
        HitPolicyCollect \<Rightarrow> [(i, DList (map (value_of dt) rs))]
      | HitPolicyOther _ \<Rightarrow> if length rs > 1 then [] else first_value dt i rs
      | _ \<Rightarrow> first_value dt i rs)"

definition aggregated :: "TDecisionTable \<Rightarrow> bool" where
  "aggregated dt \<longleftrightarrow> dt_HitPolicy dt = HitPolicyCollect \<and>
     (case dt_HitPolicyAggregation dt of HitPolicyAggregationOther _ \<Rightarrow> False | _ \<Rightarrow> True)"

lemma values_ok_simps [simp]:
  "values_ok []" "values_ok (Inr x # xs) = values_ok xs" "\<not> values_ok (Inl e # xs)"
  by (auto simp: values_ok_def)

lemma values_okE: "values_ok (x # xs) \<Longrightarrow> (\<And>y. x = Inr y \<Longrightarrow> values_ok xs \<Longrightarrow> P) \<Longrightarrow> P"
  by (cases x) auto

lemma evaluate_inputs_ok:
  "values_ok (map (\<lambda>i. Evaluate F (ie_Text (in_InputExpression i)) vs) is) \<Longrightarrow> evaluate_inputs F vs is = Ok (evaluated_inputs F vs is)"
  by (induction "is") (auto simp: evaluated_inputs_def elim: values_okE)

lemma match_columns_ok:
  assumes "i + length es \<le> length inputs" and "values_ok (map2 (\<lambda>e j. cell F vs e (ei_InputValue j)) es (drop i inputs))"
  shows "match_columns F vs inputs i es =
    Ok (list_all (\<lambda>c. c = Inr True) (map2 (\<lambda>e j. cell F vs e (ei_InputValue j)) es (drop i inputs)))"
  using assms
proof (induction es arbitrary: i)
  case (Cons e es)
  then have i: "i < length inputs" by simp
  then have d: "drop i inputs = inputs ! i # drop (Suc i) inputs" by (simp add: Cons_nth_drop_Suc)
  have "values_ok (cell F vs e (ei_InputValue (inputs ! i)) # map2 (\<lambda>e j. cell F vs e (ei_InputValue j)) es (drop (Suc i) inputs))"
    using Cons.prems(2) unfolding d by simp
  then obtain b where b: "cell F vs e (ei_InputValue (inputs ! i)) = Inr b"
    and ok: "values_ok (map2 (\<lambda>e j. cell F vs e (ei_InputValue j)) es (drop (Suc i) inputs))" by (rule values_okE)
  from Cons.IH [OF _ ok] Cons.prems(1) b i show ?case unfolding d by (cases b) (simp_all add: cell_def)
qed simp

lemma evaluate_outputs_ok:
  assumes "i + length os \<le> length (rule_OutputEntry r)" and "values_ok (map (\<lambda>e. Evaluate F (oent_Text e) vs) (drop i (rule_OutputEntry r)))"
  shows "evaluate_outputs F vs r i os = Ok (map2 (\<lambda>o' e. \<lparr>eo_OutputId = out_Id o', eo_OutputName = out_Name o',
    eo_OutputJsonName = out_Name o', eo_OutputValue = projr (Evaluate F (oent_Text e) vs)\<rparr>) os (drop i (rule_OutputEntry r)))"
  using assms
proof (induction os arbitrary: i)
  case (Cons o' os)
  let ?es = "rule_OutputEntry r"
  from Cons.prems have i: "i < length ?es" by simp
  then have d: "drop i ?es = ?es ! i # drop (Suc i) ?es" by (simp add: Cons_nth_drop_Suc)
  have "values_ok (Evaluate F (oent_Text (?es ! i)) vs # map (\<lambda>e. Evaluate F (oent_Text e) vs) (drop (Suc i) ?es))"
    using Cons.prems(2) unfolding d by simp
  then obtain v where v: "Evaluate F (oent_Text (?es ! i)) vs = Inr v"
    and ok: "values_ok (map (\<lambda>e. Evaluate F (oent_Text e) vs) (drop (Suc i) ?es))" by (rule values_okE)
  from Cons.IH [OF _ ok] Cons.prems(1) v i show ?case unfolding d by simp
qed simp

definition row :: "feel_runtime \<Rightarrow> dvars \<Rightarrow> TDecisionTable \<Rightarrow> nat \<times> TRule \<Rightarrow> EvaluatedRule" where
  "row F vs dt = (\<lambda>(n, r). \<lparr>er_RuleId = rule_Id r, er_RuleIndex = int n + 1, er_EvaluatedOutputs = rule_outputs F vs dt r\<rparr>)"

lemma rule_loop_ok:
  assumes "list_all (\<lambda>r. length (rule_InputEntry r) \<le> length inputs \<and> values_ok (rule_cells F vs inputs r) \<and>
       length (dt_Outputs dt) \<le> length (rule_OutputEntry r) \<and>
       values_ok (map (\<lambda>e. Evaluate F (oent_Text e) vs) (rule_OutputEntry r))) rules"
  shows "rule_loop F vs dt inputs (int n) rules acc = Ok (acc @ (if dt_HitPolicy dt = HitPolicyFirst then take 1 else id)
    (map (row F vs dt) (filter (\<lambda>(n, r). hits F vs inputs r) (enumerate n rules))))"
  using assms
proof (induction rules arbitrary: n acc)
  case (Cons r rules)
  from Cons.prems have m: "match_columns F vs inputs 0 (rule_InputEntry r) = Ok (hits F vs inputs r)"
    using match_columns_ok [of 0 "rule_InputEntry r" inputs F vs] by (simp add: hits_def rule_cells_def)
  from Cons.prems have o: "evaluate_outputs F vs r 0 (dt_Outputs dt) = Ok (rule_outputs F vs dt r)"
    using evaluate_outputs_ok [of 0 "dt_Outputs dt" r F vs] by (simp add: rule_outputs_def)
  have i: "int n + 1 = int (Suc n)" by simp
  from Cons.prems have p: "list_all (\<lambda>r. length (rule_InputEntry r) \<le> length inputs \<and> values_ok (rule_cells F vs inputs r) \<and>
       length (dt_Outputs dt) \<le> length (rule_OutputEntry r) \<and>
       values_ok (map (\<lambda>e. Evaluate F (oent_Text e) vs) (rule_OutputEntry r))) rules" by simp
  note IH = Cons.IH [OF p, of "Suc n", folded i]
  show ?case
    by (cases "hits F vs inputs r") (simp_all add: m o IH Let_def row_def)
qed simp

lemma rule_value_ok:
  assumes "length (dt_Outputs dt) \<le> length (rule_OutputEntry (snd nr))"
  shows "rule_value dt (row F vs dt nr) = Ok (value_of dt (row F vs dt nr))"
proof (cases "single_unnamed dt")
  case True
  then obtain o' where o: "dt_Outputs dt = [o']" by (auto simp: single_unnamed_def split: list.splits)
  with assms obtain e es where "rule_OutputEntry (snd nr) = e # es" by (cases "rule_OutputEntry (snd nr)") auto
  with o True show ?thesis by (cases nr) (simp add: rule_value_def value_of_def row_def rule_outputs_def)
qed (simp add: rule_value_def value_of_def)

lemma collect_values_ok: "\<forall>r \<in> set rs. rule_value dt r = Ok (value_of dt r) \<Longrightarrow> collect_values dt rs = Ok (map (value_of dt) rs)"
  by (induction rs) auto

lemma first_rule_ok: "\<forall>r \<in> set rs. rule_value dt r = Ok (value_of dt r) \<Longrightarrow> evaluateFirstRuleOutput dt i rs = Ok (first_value dt i rs)"
  by (cases rs) (simp_all add: evaluateFirstRuleOutput_def first_value_def)

lemma hit_policy_ok:
  assumes "\<forall>r \<in> set rs. rule_value dt r = Ok (value_of dt r)" and "\<not> aggregated dt"
  shows "EvaluateHitPolicyOutput dt i (dt_HitPolicy dt) (dt_HitPolicyAggregation dt) rs = Ok (hit_policy_spec dt i rs)"
  using assms first_rule_ok [OF assms(1), of i] collect_values_ok [OF assms(1)]
  by (auto simp: EvaluateHitPolicyOutput_def hit_policy_spec_def evaluateUniqueOutput_def evaluateCollectOutput_def aggregated_def
      split: HitPolicy.splits HitPolicyAggregation.splits)

lemma first_value_take: "first_value dt i (take (Suc 0) rs) = first_value dt i rs"
  by (cases rs) (simp_all add: first_value_def)

section \<open>Required decisions\<close>

lemma rbind_NoFuel: "rbind m f = NoFuel \<longleftrightarrow> m = NoFuel \<or> (\<exists>x. m = Ok x \<and> f x = NoFuel)"
  by (cases m) auto

lemma rbind_cong: "m = m' \<Longrightarrow> (\<And>x. m' = Ok x \<Longrightarrow> f x = g x) \<Longrightarrow> rbind m f = rbind m' g"
  by (cases m') auto

text \<open>The logic of a single decision is total: it uses no fuel.\<close>

lemma evaluate_inputs_total: "evaluate_inputs F vs is \<noteq> NoFuel"
  by (induction "is") (auto simp: rbind_NoFuel split: sum.splits)

lemma match_columns_total: "match_columns F vs inputs i es \<noteq> NoFuel"
  by (induction es arbitrary: i) (auto split: sum.splits)

lemma evaluate_outputs_total: "evaluate_outputs F vs r i os \<noteq> NoFuel"
  by (induction os arbitrary: i) (auto simp: rbind_NoFuel split: sum.splits)

lemma rule_loop_total: "rule_loop F vs dt inputs n rules acc \<noteq> NoFuel"
  by (induction rules arbitrary: n acc)
    (auto simp: rbind_NoFuel match_columns_total evaluate_outputs_total Let_def split: if_splits)

lemma rule_value_total: "rule_value dt r \<noteq> NoFuel"
  by (auto simp: rule_value_def split: list.splits)

lemma collect_values_total: "collect_values dt rs \<noteq> NoFuel"
  by (induction rs) (auto simp: rbind_NoFuel rule_value_total)

lemma hit_policy_total: "EvaluateHitPolicyOutput dt i hp ag rs \<noteq> NoFuel"
  by (auto simp: EvaluateHitPolicyOutput_def evaluateCollectOutput_def evaluateFirstRuleOutput_def evaluateUniqueOutput_def
      rbind_NoFuel rule_value_total collect_values_total split: HitPolicy.splits HitPolicyAggregation.splits list.splits)

lemma evaluateDecisionTable_total: "evaluateDecisionTable F dt i vs \<noteq> NoFuel"
  by (auto simp: evaluateDecisionTable_def rbind_NoFuel evaluate_inputs_total rule_loop_total hit_policy_total)

lemma table_output_total: "table_output F dt i vs \<noteq> NoFuel"
  by (auto simp: table_output_def rbind_NoFuel evaluateDecisionTable_total)

lemma cast_result_total: "cast_result ty v \<noteq> NoFuel"
  by (auto simp: cast_result_def split: dval.splits)

lemma literal_total: "evaluateLiteralExpression F le var vs \<noteq> NoFuel"
  by (auto simp: evaluateLiteralExpression_def rbind_NoFuel cast_result_total split: sum.splits dval.splits option.splits)

lemma context_total: "evaluateContext F c name vs \<noteq> NoFuel" "context_loop F es name vs out \<noteq> NoFuel"
  by (induction F c name vs and F es name vs out rule: evaluateContext_context_loop.induct)
    (auto simp: rbind_NoFuel table_output_total literal_total split: option.splits)

lemma decision_logic_total: "decision_logic F dec vs \<noteq> NoFuel"
  by (auto simp: decision_logic_def Let_def rbind_NoFuel evaluateDecisionTable_total literal_total context_total split: option.splits)

lemma requirement_loop_total:
  assumes "\<And>r href. r \<in> set rs \<Longrightarrow> req_RequiredResource r = TRequiredDecision href \<Longrightarrow> rec (TrimPrefix href ''#'') \<noteq> NoFuel"
  shows "requirement_loop rec inputs vs rs local deps \<noteq> NoFuel"
  using assms
  by (induction rs arbitrary: local deps) (auto simp: rbind_NoFuel split: TRequiredResource.splits)

lemma requirement_loop_cong:
  assumes "\<And>r href. r \<in> set rs \<Longrightarrow> req_RequiredResource r = TRequiredDecision href \<Longrightarrow>
    rec (TrimPrefix href ''#'') = rec' (TrimPrefix href ''#'')"
  shows "requirement_loop rec inputs vs rs local deps = requirement_loop rec' inputs vs rs local deps"
  using assms
  by (induction rs arbitrary: local deps) (auto split: TRequiredResource.splits intro!: rbind_cong)

definition requires :: "DmnResourceDefinition \<Rightarrow> string \<Rightarrow> string set" where
  "requires d i = {TrimPrefix href ''#'' |href dec r. findDecisionDefinition d i = Some dec \<and>
     r \<in> set (dec_InformationRequirement dec) \<and> req_RequiredResource r = TRequiredDecision href}"

lemma evaluateDecision_step:
  assumes "\<And>j. j \<in> requires d i \<Longrightarrow> evaluateDecision F d f j vs \<noteq> NoFuel"
  shows "evaluateDecision F d (Suc f) i vs \<noteq> NoFuel"
proof (cases "findDecisionDefinition d i")
  case (Some dec)
  then have "requirement_loop (\<lambda>i. evaluateDecision F d f i vs) (dmn_InputData (drd_Definitions d)) vs
      (dec_InformationRequirement dec) vs [] \<noteq> NoFuel"
    using assms by (intro requirement_loop_total) (auto simp: requires_def)
  with Some show ?thesis by (auto simp: rbind_NoFuel decision_logic_total)
qed simp

lemma evaluateDecision_fuel:
  assumes rank: "\<And>i j. j \<in> requires d i \<Longrightarrow> rank j < (rank i :: nat)"
  shows "rank i < f \<Longrightarrow> evaluateDecision F d f i vs \<noteq> NoFuel \<and> evaluateDecision F d (f + n) i vs = evaluateDecision F d f i vs"
proof (induction f arbitrary: i)
  case (Suc f)
  have IH: "evaluateDecision F d f j vs \<noteq> NoFuel" "evaluateDecision F d (f + n) j vs = evaluateDecision F d f j vs"
    if "j \<in> requires d i" for j
    using Suc.IH [of j] rank [OF that] Suc.prems by auto
  have "evaluateDecision F d (Suc f + n) i vs = evaluateDecision F d (Suc f) i vs"
  proof (cases "findDecisionDefinition d i")
    case (Some dec)
    then have "requirement_loop (\<lambda>i. evaluateDecision F d (f + n) i vs) (dmn_InputData (drd_Definitions d)) vs
        (dec_InformationRequirement dec) vs [] =
      requirement_loop (\<lambda>i. evaluateDecision F d f i vs) (dmn_InputData (drd_Definitions d)) vs
        (dec_InformationRequirement dec) vs []"
      using IH(2) by (intro requirement_loop_cong) (auto simp: requires_def)
    with Some show ?thesis by simp
  qed simp
  with evaluateDecision_step [OF IH(1)] show ?case by blast
qed simp

section \<open>Properties\<close>

text \<open>C23. A decision table computes what its hit policy says. For a table without an aggregation whose expressions
  can be evaluated, the inputs are evaluated in order, the matched rules are those all of whose cells hold,
  numbered from 1 in the order of the table (only the first of them under \<^verbatim>\<open>FIRST\<close>), and the output is
  determined by all the matching rules: the list of their values under \<^verbatim>\<open>COLLECT\<close>, the value of the single one
  (nil for none, nothing for several) under a unique policy, the value of the first under every other policy.\<close>

theorem decision_table_follows_hit_policy:
  assumes "readable F vs dt" and "\<not> aggregated dt"
  shows "evaluateDecisionTable F dt i vs =
    Ok (hit_policy_spec dt i (matched F vs dt),
        (if dt_HitPolicy dt = HitPolicyFirst then take 1 else id) (matched F vs dt),
        evaluated_inputs F vs (dt_Inputs dt))"
proof -
  let ?in = "evaluated_inputs F vs (dt_Inputs dt)"
  let ?ms = "(if dt_HitPolicy dt = HitPolicyFirst then take 1 else id) (matched F vs dt)"
  note r = assms(1) [unfolded readable_def]
  have inp: "evaluate_inputs F vs (dt_Inputs dt) = Ok ?in"
    using r by (intro evaluate_inputs_ok) (simp add: input_values_def)
  have m: "matched F vs dt = map (row F vs dt) (filter (\<lambda>(n, r). hits F vs ?in r) (enumerate 0 (dt_Rules dt)))"
    unfolding matched_def row_def ..
  have "length ?in = length (dt_Inputs dt)" by (simp add: evaluated_inputs_def)
  with r have "rule_loop F vs dt ?in (int 0) (dt_Rules dt) [] = Ok ([] @ ?ms)"
    unfolding m by (intro rule_loop_ok) simp
  then have loop: "rule_loop F vs dt ?in 0 (dt_Rules dt) [] = Ok ?ms" by simp
  have "\<forall>x \<in> set (matched F vs dt). rule_value dt x = Ok (value_of dt x)"
    using r unfolding m by (auto simp: list_all_iff in_set_enumerate_eq intro!: rule_value_ok)
  then have "\<forall>x \<in> set ?ms. rule_value dt x = Ok (value_of dt x)" by (auto dest: in_set_takeD)
  from hit_policy_ok [OF this assms(2)]
  have "EvaluateHitPolicyOutput dt i (dt_HitPolicy dt) (dt_HitPolicyAggregation dt) ?ms = Ok (hit_policy_spec dt i ?ms)" .
  moreover have "hit_policy_spec dt i ?ms = hit_policy_spec dt i (matched F vs dt)"
    by (cases "dt_HitPolicy dt") (simp_all add: hit_policy_spec_def first_value_take)
  moreover have "\<not> (length (dt_Outputs dt) > 1 \<and> \<not> isUnique (dt_Outputs dt))" using r by blast
  ultimately show ?thesis by (simp add: evaluateDecisionTable_def inp loop)
qed


text \<open>C24. Evaluating a decision ends when the requirements have no cycle. If the decisions can be ranked such that every
  decision requires only decisions of lower rank, the recursion with more fuel than the rank of a decision
  returns a result, an error or a panic, and more fuel does not change it.\<close>

theorem acyclic_decision_is_evaluated:
  assumes "\<And>i j. j \<in> requires d i \<Longrightarrow> rank j < (rank i :: nat)"
  shows "evaluateDecision F d (Suc (rank i)) i vs \<noteq> NoFuel \<and>
    evaluateDecision F d (Suc (rank i) + n) i vs = evaluateDecision F d (Suc (rank i)) i vs"
  by (rule evaluateDecision_fuel [where rank = rank]) (auto intro: assms)

text \<open>Decisions that require each other in a cycle are never evaluated. If every decision of a set has as its first
  requirement a decision of the set, the recursion started in the set never returns, whatever the FEEL
  runtime answers; the validation that would exclude such a model accepts everything, and the model is deployed.\<close>

theorem cyclic_decision_never_returns:
  assumes "i \<in> C" and "\<And>j. j \<in> C \<Longrightarrow> \<exists>dec r rs href. findDecisionDefinition d j = Some dec \<and>
      dec_InformationRequirement dec = r # rs \<and> req_RequiredResource r = TRequiredDecision href \<and> TrimPrefix href ''#'' \<in> C"
  shows "evaluateDecision F d fuel i vs = NoFuel \<and> Validate d = None"
proof -
  have "\<forall>i \<in> C. evaluateDecision F d fuel i vs = NoFuel"
  proof (induction fuel)
    case (Suc f)
    show ?case
    proof
      fix j assume "j \<in> C"
      then obtain dec r rs href where r: "findDecisionDefinition d j = Some dec" "dec_InformationRequirement dec = r # rs"
        "req_RequiredResource r = TRequiredDecision href" "TrimPrefix href ''#'' \<in> C" using assms(2) by blast
      with Suc have "evaluateDecision F d f (TrimPrefix href ''#'') vs = NoFuel" by blast
      with r show "evaluateDecision F d (Suc f) j vs = NoFuel" by simp
    qed
  qed simp
  with assms(1) show ?thesis by (simp add: Validate_def)
qed

text \<open>A new decision in a known resource cannot be deployed. When a resource with this id but another checksum is stored and the
  first decision of the new version is not, the deployment panics, after it has stored the new version of the resource:
  whether a decision is new is decided by whether its resource is.\<close>

theorem new_decision_in_known_resource_panics:
  assumes "FindDmnResourceDefinitionsById d (dmn_Id ds) = p # ps" and "drd_DmnChecksum (latest_resource p (p # ps)) \<noteq> md5 xml"
    and "dmn_Decisions ds = x # xs" and "GetDecisionDefinitionsById d (dec_Id x) = []"
  shows "fst (deploy_dmn md5 keys ds xml k d) = Panic ''index out of range'' \<and>
    tget (DmnResourceDefinitions (snd (deploy_dmn md5 keys ds xml k d))) k =
      Some \<lparr>drd_Version = drd_Version (latest_resource p (p # ps)) + 1, drd_Key = k, drd_Id = dmn_Id ds,
        drd_Definitions = ds, drd_DmnData = xml, drd_DmnDefinitionName = dmn_Name ds, drd_DmnChecksum = md5 xml\<rparr>"
proof -
  have "GetDecisionDefinitionsById (SaveDmnResourceDefinition r d) i = GetDecisionDefinitionsById d i" for r i
    by (simp add: GetDecisionDefinitionsById_def SaveDmnResourceDefinition_def)
  with assms(3,4) have sv: "save_decisions True (new_decisions keys (dmn_Id ds) k (dmn_Decisions ds)) []
      (SaveDmnResourceDefinition r d) = (Panic ''index out of range'', SaveDmnResourceDefinition r d)" for r
    by simp
  from assms(1,2) show ?thesis
    by (simp add: deploy_dmn_def saveDmnResourceDefinition_def Let_def sv del: latest_resource.simps)
      (simp add: SaveDmnResourceDefinition_def)
qed

section \<open>Instances\<close>

definition demo_feel :: feel_runtime where
  "demo_feel = \<lparr>Evaluate = (\<lambda>t vs. Inr (case vs t of Some v \<Rightarrow> v | None \<Rightarrow> DStr t)),
     UnaryTest = (\<lambda>t vs. Inr (t = ''-'' \<or> vs ''?'' = Some (DStr t)))\<rparr>"

definition demo_rule :: "string \<Rightarrow> string \<Rightarrow> TRule" where
  "demo_rule i o' = \<lparr>rule_Id = o', rule_InputEntry = [\<lparr>ient_Id = [], ient_Text = i\<rparr>],
     rule_OutputEntry = [\<lparr>oent_Id = [], oent_Text = o'\<rparr>]\<rparr>"

definition demo_table :: TDecisionTable where
  "demo_table = \<lparr>dt_Id = ''t'', dt_HitPolicy = HitPolicyCollect, dt_HitPolicyAggregation = HitPolicyAggregationOther [],
     dt_Inputs = [\<lparr>in_Id = ''i'', in_Label = [], in_InputExpression = \<lparr>ie_Id = [], ie_TypeRef = [], ie_Text = ''x''\<rparr>\<rparr>],
     dt_Outputs = [\<lparr>out_Id = ''o'', out_Label = [], out_Name = [], out_TypeRef = []\<rparr>],
     dt_Rules = [demo_rule ''a'' ''A'', demo_rule ''b'' ''B'', demo_rule [] ''C'']\<rparr>"

definition demo_decision :: "string \<Rightarrow> string list \<Rightarrow> TDecision" where
  "demo_decision i rs = \<lparr>dec_Id = i, dec_Name = [], dec_DecisionTable = Some demo_table, dec_Variable = None,
     dec_LiteralExpression = None, dec_Context = None, dec_VersionTag = [],
     dec_InformationRequirement = map (\<lambda>h. \<lparr>req_Id = [], req_RequiredResource = TRequiredDecision h\<rparr>) rs\<rparr>"

definition demo_resource :: "TDecision list \<Rightarrow> DmnResourceDefinition" where
  "demo_resource ds = \<lparr>drd_Version = 1, drd_Key = 70, drd_Id = ''r'',
     drd_Definitions = \<lparr>dmn_Id = ''r'', dmn_Name = [], dmn_Decisions = ds, dmn_InputData = []\<rparr>, drd_DmnData = [],
     drd_DmnDefinitionName = [], drd_DmnChecksum = 0\<rparr>"

theorem decision_table_follows_hit_policy_witness:
  "readable demo_feel [''x'' \<mapsto> DStr ''a''] demo_table \<and> \<not> aggregated demo_table \<and>
   (\<exists>ms. evaluateDecisionTable demo_feel demo_table ''d'' [''x'' \<mapsto> DStr ''a''] =
      Ok ([(''d'', DList [DStr ''A'', DStr ''C''])], ms, evaluated_inputs demo_feel [''x'' \<mapsto> DStr ''a''] (dt_Inputs demo_table)))"
proof -
  have r: "readable demo_feel [''x'' \<mapsto> DStr ''a''] demo_table" and a: "\<not> aggregated demo_table" by code_simp+
  have "hit_policy_spec demo_table ''d'' (matched demo_feel [''x'' \<mapsto> DStr ''a''] demo_table) =
    [(''d'', DList [DStr ''A'', DStr ''C''])]" by code_simp
  with decision_table_follows_hit_policy [OF r a, of "''d''"] r a show ?thesis by auto
qed

theorem acyclic_decision_is_evaluated_witness:
  "evaluateDecision demo_feel (demo_resource [demo_decision ''a'' [''#b''], demo_decision ''b'' []]) 2 ''a'' [''x'' \<mapsto> DStr ''a''] \<noteq> NoFuel"
proof -
  let ?d = "demo_resource [demo_decision ''a'' [''#b''], demo_decision ''b'' []]"
  have t: "TrimPrefix ''#b'' ''#'' = ''b''" by code_simp
  have "rank j < rank i" if "j \<in> requires ?d i" and "rank = (\<lambda>i :: string. if i = ''a'' then 1 else 0 :: nat)" for i j rank
    using that by (auto simp: requires_def findDecisionDefinition_def demo_resource_def demo_decision_def t split: if_splits)
  from acyclic_decision_is_evaluated [of ?d "\<lambda>i. if i = ''a'' then 1 else 0" demo_feel "''a''" "[''x'' \<mapsto> DStr ''a'']", OF this]
  show ?thesis by (simp add: numeral_2_eq_2 del: evaluateDecision.simps)
qed

theorem cyclic_decision_never_returns_witness:
  "evaluateDecision demo_feel (demo_resource [demo_decision ''a'' [''#a'']]) 1000 ''a'' Map.empty = NoFuel"
proof -
  let ?d = "demo_resource [demo_decision ''a'' [''#a'']]"
  have t: "TrimPrefix ''#a'' ''#'' = ''a''" by code_simp
  have "\<exists>dec r rs href. findDecisionDefinition ?d j = Some dec \<and> dec_InformationRequirement dec = r # rs \<and>
      req_RequiredResource r = TRequiredDecision href \<and> TrimPrefix href ''#'' \<in> {''a''}" if "j \<in> {''a''}" for j
    using that t by (simp add: findDecisionDefinition_def demo_resource_def demo_decision_def)
  from cyclic_decision_never_returns [of "''a''" "{''a''}" ?d demo_feel 1000 Map.empty, OF _ this] show ?thesis by blast
qed

theorem new_decision_in_known_resource_panics_witness:
  "fst (deploy_dmn (\<lambda>_. 1) (\<lambda>n. int n) (drd_Definitions (demo_resource [demo_decision ''new'' []])) ''<xml/>'' 71
     (SaveDmnResourceDefinition (demo_resource []) NewStorage)) = Panic ''index out of range''"
proof -
  let ?ds = "drd_Definitions (demo_resource [demo_decision ''new'' []])"
  let ?d = "SaveDmnResourceDefinition (demo_resource []) NewStorage"
  have "FindDmnResourceDefinitionsById ?d (dmn_Id ?ds) = [demo_resource []]" and "dmn_Decisions ?ds = [demo_decision ''new'' []]"
    and "drd_DmnChecksum (latest_resource (demo_resource []) [demo_resource []]) \<noteq> 1"
    and "GetDecisionDefinitionsById ?d (dec_Id (demo_decision ''new'' [])) = []"
    by (simp_all add: FindDmnResourceDefinitionsById_def GetDecisionDefinitionsById_def SaveDmnResourceDefinition_def
        NewStorage_def demo_resource_def demo_decision_def trows_def)
  from new_decision_in_known_resource_panics [OF this(1) _ this(2) this(4), of "\<lambda>_. 1" "''<xml/>''"] this(3)
  show ?thesis by simp
qed

end
