(* ===== verification/Zenflake.thy ===== *)
theory Zenflake
  imports "HOL-Library.Word"
begin

text \<open>
  Keys carry the partition that created them (\<^verbatim>\<open>pkg/zenflake/snowflake.go\<close>). A key is a signed 64-bit
  number with the time in its upper bits, then 10 bits for the partition (the node of the third-party
  generator \<^verbatim>\<open>bwmarrin/snowflake\<close>) and 12 bits for a step counter; \<^verbatim>\<open>GetPartitionId\<close> reads the partition
  back. The generator itself is a parameter: a function of time, node and step, of which only the
  documented layout of its result is used.
\<close>

unbundle bit_operations_syntax

section \<open>Definitions\<close>

definition NodeBits :: nat where "NodeBits = 10"

definition StepBits :: nat where "StepBits = 12"

definition nodeMax :: "64 word" where "nodeMax = - 1 XOR push_bit NodeBits (- 1)"

definition nodeMask :: "64 word" where "nodeMask = push_bit StepBits nodeMax"

definition stepMask :: "64 word" where "stepMask = - 1 XOR push_bit StepBits (- 1)"

definition timeShift :: nat where "timeShift = NodeBits + StepBits"

definition nodeShift :: nat where "nodeShift = StepBits"

definition GetPartitionMask :: "64 word" where "GetPartitionMask = nodeMask"

text \<open>The shift of a signed number keeps the sign, the conversion to 32 bits cuts off the upper half.\<close>

definition GetPartitionId :: "64 word \<Rightarrow> 32 word" where
  "GetPartitionId i = ucast (signed_drop_bit nodeShift (i AND GetPartitionMask))"

section \<open>Bits of the masks\<close>

lemmas zenflake_defs = NodeBits_def StepBits_def nodeMax_def nodeMask_def stepMask_def timeShift_def
  nodeShift_def GetPartitionMask_def

lemma nodeMax_mask: "nodeMax = mask NodeBits"
  by (rule bit_word_eqI) (auto simp: nodeMax_def NodeBits_def bit_simps)

lemma nodeMask_eq: "nodeMask = push_bit StepBits (mask NodeBits)"
  by (simp add: nodeMask_def nodeMax_mask)

lemma stepMask_mask: "stepMask = mask StepBits"
  by (rule bit_word_eqI) (auto simp: stepMask_def StepBits_def bit_simps)

text \<open>The mask of partition and step and the shift of the time leave no gap and do not overlap.\<close>

lemma masks_disjoint: "nodeMask AND stepMask = 0" and masks_cover: "nodeMask OR stepMask = mask timeShift"
  by (rule bit_word_eqI, auto simp: nodeMask_eq stepMask_mask zenflake_defs bit_simps)+

lemma bit_GetPartitionId: "bit (GetPartitionId i) n \<longleftrightarrow> n < NodeBits \<and> bit i (StepBits + n)"
  by (auto simp: GetPartitionId_def GetPartitionMask_def nodeMask_eq nodeShift_def NodeBits_def StepBits_def
      bit_simps min_def not_less)

lemma GetPartitionId_take: "GetPartitionId i = ucast (take_bit NodeBits (drop_bit StepBits i))"
  by (rule bit_word_eqI) (auto simp: bit_GetPartitionId NodeBits_def StepBits_def bit_simps)

lemma uint_GetPartitionId: "uint (GetPartitionId i) = uint i div 2 ^ StepBits mod 2 ^ NodeBits"
proof -
  have "uint (GetPartitionId i) = take_bit 32 (take_bit NodeBits (drop_bit StepBits (uint i)))"
    by (simp add: GetPartitionId_take unsigned_ucast_eq unsigned_take_bit_eq unsigned_drop_bit_eq NodeBits_def StepBits_def
        take_bit_drop_bit)
  then show ?thesis by (simp add: NodeBits_def take_bit_eq_mod drop_bit_eq_div mod_mod_cancel)
qed

lemma GetPartitionId_eq_iff: "GetPartitionId i = GetPartitionId j \<longleftrightarrow> i AND GetPartitionMask = j AND GetPartitionMask"
proof
  assume l: "GetPartitionId i = GetPartitionId j"
  have b: "n < NodeBits \<Longrightarrow> bit i (StepBits + n) = bit j (StepBits + n)" for n
    using arg_cong [OF l, of "\<lambda>w. bit w n"] by (simp add: bit_GetPartitionId)
  show "i AND GetPartitionMask = j AND GetPartitionMask"
  proof (rule bit_word_eqI)
    fix n
    show "bit (i AND GetPartitionMask) n = bit (j AND GetPartitionMask) n"
      using b [of "n - StepBits"] by (auto simp: GetPartitionMask_def nodeMask_eq bit_simps)
  qed
qed (simp add: GetPartitionId_def)

lemma div_mod_cut: "(x mod 2 ^ 64) div 2 ^ 12 mod 2 ^ 10 = x div 2 ^ 12 mod 2 ^ (10 :: nat)" for x :: int
proof -
  have "take_bit 10 (drop_bit 12 (take_bit 64 x)) = take_bit 10 (drop_bit 12 x)"
    by (rule bit_eqI) (auto simp: bit_simps)
  then show ?thesis by (simp only: take_bit_eq_mod drop_bit_eq_div)
qed

section \<open>Properties\<close>

text \<open>C29. The partition of a key is the partition it was generated for. When the generator puts time, node
  and step at their documented places, the 10 bits above the 12 bits of the step are read back as the
  node, for every time, also when the key as a signed number is negative; the result is always below
  1024, and keys with the same bits there belong to the same partition whatever their time and step.\<close>

theorem partition_of_generated_key:
  assumes layout: "\<And>t n s. 0 \<le> t \<Longrightarrow> 0 \<le> n \<Longrightarrow> n < 2 ^ NodeBits \<Longrightarrow> 0 \<le> s \<Longrightarrow> s < 2 ^ StepBits \<Longrightarrow>
      uint (Generate t n s) = (t * 2 ^ timeShift + n * 2 ^ StepBits + s) mod 2 ^ 64"
    and bounds: "0 \<le> t" "0 \<le> n" "n < 2 ^ NodeBits" "0 \<le> s" "s < 2 ^ StepBits"
  shows "uint (GetPartitionId (Generate t n s)) = n \<and> uint (GetPartitionId i) < 1024 \<and>
    (GetPartitionId i = GetPartitionId j) = (i AND GetPartitionMask = j AND GetPartitionMask)"
proof (intro conjI)
  have "uint (Generate t n s) div 2 ^ StepBits mod 2 ^ NodeBits =
      ((t * 2 ^ timeShift + n * 2 ^ StepBits + s) mod 2 ^ 64) div 2 ^ 12 mod 2 ^ 10"
    using layout [OF bounds] by (simp add: NodeBits_def StepBits_def)
  also have "\<dots> = (t * 2 ^ timeShift + n * 2 ^ StepBits + s) div 2 ^ 12 mod 2 ^ 10"
    by (rule div_mod_cut)
  also have "\<dots> = (s + (n + t * 2 ^ 10) * 2 ^ 12) div 2 ^ 12 mod 2 ^ 10" by (simp add: zenflake_defs algebra_simps)
  also have "\<dots> = (n + t * 2 ^ 10) mod 2 ^ 10" 
    using bounds(4,5) by (subst div_mult_self1) (simp_all only: StepBits_def, simp_all)
  also have "\<dots> = n" using bounds by (simp add: NodeBits_def)
  finally show "uint (GetPartitionId (Generate t n s)) = n" by (simp add: uint_GetPartitionId)
  show "uint (GetPartitionId i) < 1024" by (simp add: uint_GetPartitionId NodeBits_def)
  show "(GetPartitionId i = GetPartitionId j) = (i AND GetPartitionMask = j AND GetPartitionMask)"
    by (rule GetPartitionId_eq_iff)
qed

theorem partition_of_generated_key_witness:
  "uint (GetPartitionId (word_of_int (77 * 2 ^ timeShift + 5 * 2 ^ StepBits + 9))) = 5"
proof -
  have "uint ((\<lambda>t n s. word_of_int (t * 2 ^ timeShift + n * 2 ^ StepBits + s) :: 64 word) t n s) =
      (t * 2 ^ timeShift + n * 2 ^ StepBits + s) mod 2 ^ 64" for t n s
    by (simp only: uint_word_of_int) simp
  then show ?thesis
    using partition_of_generated_key [of "\<lambda>t n s. word_of_int (t * 2 ^ timeShift + n * 2 ^ StepBits + s)" 77 5 9 0 0]
    by (simp add: NodeBits_def StepBits_def)
qed

end
