(* ===== verification/Cluster_State.thy ===== *)
theory Cluster_State
  imports Zen_Prelude "HOL-Library.AList" "HOL-Library.Word"
begin

text \<open>
  The replicated state of the cluster (\<^verbatim>\<open>internal/cluster/state/state.go\<close>): which nodes there are, which
  partitions each of them holds and in which role, and who leads each partition; and the choices made from
  it: the node that gets the next partition, the node that answers a read, the partition of a message.

  A Go map is an association list in the order of iteration. The map of the partitions of a node may be nil
  (\<open>None\<close>), as it is in a zero \<^verbatim>\<open>Node\<close>; writing to a nil map panics. Enumerations have their zero value as a
  constructor; the enumerations of the protocol have the same numbers, so that a conversion is the identity.
  A string that is hashed is the list of its runes.
\<close>

section \<open>Data\<close>

datatype Role = RoleUnknown | RoleFollower | RoleLeader

datatype NodeState = NodeStateUnknown | NodeStateError | NodeStateStarted | NodeStateShutdown

datatype NodePartitionState = NodePartitionStateUnknown | NodePartitionStateError | NodePartitionStateJoining
  | NodePartitionStateLeaving | NodePartitionStateInitializing | NodePartitionStateInitialized

datatype ServerSuffrage = Voter | Nonvoter

type_synonym partition_id = "32 word"

record NodePartition =
  np_Id :: partition_id
  np_State :: NodePartitionState
  np_Role :: Role

record Node =
  nd_Id :: string
  nd_Addr :: string
  nd_Suffrage :: ServerSuffrage
  nd_State :: NodeState
  nd_Role :: Role
  nd_Partitions :: "(partition_id \<times> NodePartition) list option"

definition zero_Node :: Node where
  "zero_Node = \<lparr>nd_Id = [], nd_Addr = [], nd_Suffrage = Voter, nd_State = NodeStateUnknown,
     nd_Role = RoleUnknown, nd_Partitions = None\<rparr>"

record Partition =
  pa_Id :: partition_id
  pa_LeaderId :: string

record Cluster =
  DesiredPartitions :: "32 word"
  Partitions :: "(partition_id \<times> Partition) list"
  Nodes :: "(string \<times> Node) list"

text \<open>Reading, ranging over and taking the length of a nil map is allowed.\<close>

definition node_partitions :: "Node \<Rightarrow> (partition_id \<times> NodePartition) list" where
  "node_partitions n = (case nd_Partitions n of None \<Rightarrow> [] | Some ps \<Rightarrow> ps)"

section \<open>Operations\<close>

datatype cluster_error = ErrNodeNotFound | FailedToFindNode | PartitionNotFound

fun get_node :: "string \<Rightarrow> (string \<times> Node) list \<Rightarrow> cluster_error + Node" where
  "get_node nodeId [] = Inl ErrNodeNotFound"
| "get_node nodeId ((i, node) # ns) = (if i \<noteq> nodeId then get_node nodeId ns else Inr node)"

definition GetNode :: "Cluster \<Rightarrow> string \<Rightarrow> cluster_error + Node" where
  "GetNode c nodeId = get_node nodeId (Nodes c)"

definition leads_some :: "Node \<Rightarrow> bool" where
  "leads_some n \<longleftrightarrow> list_ex (\<lambda>(_, p). np_Role p = RoleLeader) (node_partitions n)"

fun least_leader :: "Node \<Rightarrow> (string \<times> Node) list \<Rightarrow> Node" where
  "least_leader minNode [] = minNode"
| "least_leader minNode ((_, node) # ns) =
     least_leader
       (if length (node_partitions node) \<noteq> 0 \<and>
           (nd_Partitions minNode = None \<or> length (node_partitions minNode) > length (node_partitions node)) \<and>
           leads_some node
        then node else minNode) ns"

definition GetLeastStressedPartitionLeader :: "Cluster \<Rightarrow> cluster_error + Node" where
  "GetLeastStressedPartitionLeader c =
     (let minNode = least_leader zero_Node (Nodes c) in
      if nd_Id minNode = [] then Inl FailedToFindNode else Inr minNode)"

fun least_node :: "Node \<Rightarrow> (string \<times> Node) list \<Rightarrow> Node" where
  "least_node minNode [] = minNode"
| "least_node minNode ((_, node) # ns) =
     least_node
       (if nd_Partitions minNode = None \<or> length (node_partitions minNode) > length (node_partitions node)
        then node else minNode) ns"

definition GetLeastStressedNode :: "Cluster \<Rightarrow> cluster_error + Node" where
  "GetLeastStressedNode c =
     (let minNode = least_node zero_Node (Nodes c) in
      if nd_Id minNode = [] then Inl FailedToFindNode else Inr minNode)"

fun first_follower :: "partition_id \<Rightarrow> (string \<times> Node) list \<Rightarrow> Node" where
  "first_follower p [] = zero_Node"
| "first_follower p ((_, node) # ns) =
     (case map_of (node_partitions node) p of
        None \<Rightarrow> first_follower p ns
      | Some np \<Rightarrow> if np_Role np = RoleFollower then node else first_follower p ns)"

definition GetPartitionFollower :: "Cluster \<Rightarrow> partition_id \<Rightarrow> cluster_error + Node" where
  "GetPartitionFollower c p =
     (case map_of (Partitions c) p of
        None \<Rightarrow> Inl PartitionNotFound
      | Some partitionState \<Rightarrow>
          (let partitionFollower = first_follower p (Nodes c) in
           Inr (if nd_Addr partitionFollower = []
                then (case map_of (Nodes c) (pa_LeaderId partitionState) of None \<Rightarrow> zero_Node | Some n \<Rightarrow> n)
                else partitionFollower)))"

text \<open>\<^verbatim>\<open>rand.Intn\<close> is a parameter; it panics on a bound that is not positive.\<close>

definition LeastStressedPartition :: "(int \<Rightarrow> int) \<Rightarrow> Cluster \<Rightarrow> (cluster_error + Partition) res" where
  "LeastStressedPartition Intn c =
     (if int (length (Partitions c)) - 1 \<le> 0 then Panic ''invalid argument to Intn''
      else (let pick = Intn (int (length (Partitions c)) - 1) in
            if 0 \<le> pick \<and> pick < int (length (Partitions c)) then Ok (Inr (snd (Partitions c ! nat pick)))
            else Ok (Inl FailedToFindNode)))"

definition AnyNodeHasPartition :: "Cluster \<Rightarrow> int \<Rightarrow> bool" where
  "AnyNodeHasPartition c partitionId \<longleftrightarrow>
     list_ex (\<lambda>(_, node). map_of (node_partitions node) (word_of_int partitionId) \<noteq> None) (Nodes c)"

fun bit_sum :: "32 word \<Rightarrow> 32 word list \<Rightarrow> 32 word" where
  "bit_sum bitSum [] = bitSum"
| "bit_sum bitSum (character # cs) = bit_sum (bitSum + character) cs"

definition GetPartitionIdFromString :: "Cluster \<Rightarrow> 32 word list \<Rightarrow> partition_id" where
  "GetPartitionIdFromString c str =
     (if length (Partitions c) = 0 then 0
      else bit_sum 0 str mod of_nat (length (Partitions c)) + 1)"

section \<open>Servers of a raft configuration\<close>

fun find_server :: "string \<Rightarrow> Node list \<Rightarrow> Node option" where
  "find_server i [] = None"
| "find_server i (n # ns) = (if nd_Id n = i then Some n else find_server i ns)"

definition IsReadOnly :: "Node list \<Rightarrow> string \<Rightarrow> bool \<times> bool" where
  "IsReadOnly ns i =
     (if i = [] then (False, False)
      else case find_server i ns of None \<Rightarrow> (False, False) | Some n \<Rightarrow> (nd_Suffrage n = Nonvoter, True))"

definition Contains :: "Node list \<Rightarrow> string \<Rightarrow> bool" where
  "Contains ns i = (if i = [] then False else find_server i ns \<noteq> None)"

section \<open>Lemmas\<close>

lemma get_node_map_of: "get_node i ns = (case map_of ns i of None \<Rightarrow> Inl ErrNodeNotFound | Some n \<Rightarrow> Inr n)"
  by (induction ns) auto

lemma GetNode_map_of: "GetNode c i = Inr n \<longleftrightarrow> map_of (Nodes c) i = Some n"
  by (simp add: GetNode_def get_node_map_of split: option.splits)

lemma find_server_Some: "find_server i ns = Some n \<Longrightarrow> n \<in> set ns \<and> nd_Id n = i"
  by (induction ns) (auto split: if_splits)

lemma find_server_None: "find_server i ns = None \<longleftrightarrow> i \<notin> nd_Id ` set ns"
  by (induction ns) auto

lemma Contains_iff: "Contains ns i \<longleftrightarrow> i \<noteq> [] \<and> i \<in> nd_Id ` set ns"
  by (simp add: Contains_def find_server_None)

lemma IsReadOnly_found: "snd (IsReadOnly ns i) = Contains ns i"
  by (simp add: IsReadOnly_def Contains_def split: option.splits)

text \<open>
  Both searches for the least stressed node keep the first node with the fewest partitions among those that
  qualify: the search is the same up to the test, so one lemma about a fold serves both.
\<close>

fun least_by :: "(Node \<Rightarrow> bool) \<Rightarrow> Node \<Rightarrow> Node list \<Rightarrow> Node" where
  "least_by P m [] = m"
| "least_by P m (n # ns) =
     least_by P (if P n \<and> (nd_Partitions m = None \<or> length (node_partitions m) > length (node_partitions n)) then n else m) ns"

lemma least_node_by: "least_node m ns = least_by (\<lambda>_. True) m (map snd ns)"
  by (induction m ns rule: least_node.induct) auto

lemma least_leader_by: "least_leader m ns = least_by (\<lambda>n. node_partitions n \<noteq> [] \<and> leads_some n) m (map snd ns)"
proof (induction m ns rule: least_leader.induct)
  case (2 m k n ns)
  have c: "(length (node_partitions n) \<noteq> 0 \<and>
      (nd_Partitions m = None \<or> length (node_partitions m) > length (node_partitions n)) \<and> leads_some n) =
    ((node_partitions n \<noteq> [] \<and> leads_some n) \<and>
      (nd_Partitions m = None \<or> length (node_partitions m) > length (node_partitions n)))" by auto
  from 2 show ?case unfolding least_leader.simps list.map snd_conv least_by.simps c .
qed simp

lemma least_by_start:
  assumes "\<forall>n \<in> set ns. nd_Partitions n \<noteq> None" and "nd_Partitions m \<noteq> None"
  shows "least_by P m ns \<in> insert m {n \<in> set ns. P n} \<and>
    (\<forall>n \<in> insert m {n \<in> set ns. P n}. length (node_partitions (least_by P m ns)) \<le> length (node_partitions n))"
  using assms
proof (induction ns arbitrary: m)
  case (Cons n ns)
  let ?m = "if P n \<and> length (node_partitions m) > length (node_partitions n) then n else m"
  obtain ps where "nd_Partitions m = Some ps" using Cons.prems(2) by blast
  then have "least_by P m (n # ns) = least_by P ?m ns" by simp
  moreover have "nd_Partitions ?m \<noteq> None" using Cons.prems by simp
  ultimately show ?case using Cons.IH [of ?m] Cons.prems(1) by (auto split: if_splits)
qed simp

lemma least_by_zero:
  assumes ok: "\<forall>n \<in> set ns. nd_Partitions n \<noteq> None" and m: "nd_Partitions m = None"
  shows "if filter P ns = [] then least_by P m ns = m
    else least_by P m ns \<in> set (filter P ns) \<and>
      (\<forall>n \<in> set (filter P ns). length (node_partitions (least_by P m ns)) \<le> length (node_partitions n))"
  using assms
proof (induction ns arbitrary: m)
  case (Cons n ns)
  show ?case
  proof (cases "P n")
    case True
    then have "least_by P m (n # ns) = least_by P n ns" using Cons.prems by simp
    with True Cons.prems least_by_start [of ns n P] show ?thesis by auto
  next
    case False
    then have e: "least_by P m (n # ns) = least_by P m ns" and f: "filter P (n # ns) = filter P ns" by simp_all
    have "\<forall>n \<in> set ns. nd_Partitions n \<noteq> None" using Cons.prems(1) by simp
    then show ?thesis unfolding e f by (rule Cons.IH [OF _ Cons.prems(2)])
  qed
qed simp

lemma zero_Node_nil [simp]: "nd_Partitions zero_Node = None" "nd_Id zero_Node = []" "nd_Addr zero_Node = []"
  by (simp_all add: zero_Node_def)

text \<open>Nodes as the state machine creates them: a name, and a map of partitions that is not nil.\<close>

definition nodes_ok :: "Cluster \<Rightarrow> bool" where
  "nodes_ok c = list_all (\<lambda>(i, n). nd_Id n = i \<and> i \<noteq> [] \<and> nd_Partitions n \<noteq> None) (Nodes c)"

lemma least_node_exists:
  assumes "nodes_ok c"
  shows "case GetLeastStressedNode c of Inl e \<Rightarrow> Nodes c = [] | Inr m \<Rightarrow> m \<in> snd ` set (Nodes c)"
proof -
  have ok: "\<forall>n \<in> set (map snd (Nodes c)). nd_Partitions n \<noteq> None"
    and named: "\<forall>n \<in> set (map snd (Nodes c)). nd_Id n \<noteq> []"
    using assms by (auto simp: nodes_ok_def list_all_iff)
  from least_by_zero [OF ok zero_Node_nil(1), of "\<lambda>_. True"] named show ?thesis
    by (cases "Nodes c = []") (auto simp: GetLeastStressedNode_def least_node_by Let_def)
qed

lemma bit_sum_shift: "bit_sum s cs = s + bit_sum 0 cs"
proof (induction cs arbitrary: s)
  case (Cons x xs)
  show ?case using Cons [of "s + x"] Cons [of x] by (simp add: add.assoc)
qed simp

section \<open>Properties\<close>

text \<open>The node chosen for new work has the least partitions. In a cluster whose nodes have names and
  partition maps, \<^verbatim>\<open>GetLeastStressedNode\<close> fails only when there is no node, and otherwise returns a node
  that holds no more partitions than any other; \<^verbatim>\<open>GetLeastStressedPartitionLeader\<close> fails only when no node
  leads a partition, and otherwise returns one that leads some partition and holds no more partitions
  than any other node that does. Both hold for every order in which the map is iterated.\<close>

theorem least_stressed_choice:
  assumes "nodes_ok c"
  shows "(case GetLeastStressedNode c of
        Inl e \<Rightarrow> Nodes c = []
      | Inr m \<Rightarrow> m \<in> snd ` set (Nodes c) \<and>
          (\<forall>n \<in> snd ` set (Nodes c). length (node_partitions m) \<le> length (node_partitions n))) \<and>
    (case GetLeastStressedPartitionLeader c of
        Inl e \<Rightarrow> {n \<in> snd ` set (Nodes c). leads_some n} = {}
      | Inr m \<Rightarrow> m \<in> {n \<in> snd ` set (Nodes c). leads_some n} \<and>
          (\<forall>n \<in> {n \<in> snd ` set (Nodes c). leads_some n}. length (node_partitions m) \<le> length (node_partitions n)))"
proof (intro conjI)
  have ok: "\<forall>n \<in> set (map snd (Nodes c)). nd_Partitions n \<noteq> None"
    and named: "\<forall>n \<in> set (map snd (Nodes c)). nd_Id n \<noteq> []"
    using assms by (auto simp: nodes_ok_def list_all_iff)
  let ?m = "least_by (\<lambda>_. True) zero_Node (map snd (Nodes c))"
  show "case GetLeastStressedNode c of Inl e \<Rightarrow> Nodes c = []
      | Inr m \<Rightarrow> m \<in> snd ` set (Nodes c) \<and>
          (\<forall>n \<in> snd ` set (Nodes c). length (node_partitions m) \<le> length (node_partitions n))"
    using least_by_zero [OF ok zero_Node_nil(1), of "\<lambda>_. True"] named
    by (cases "Nodes c = []") (auto simp: GetLeastStressedNode_def least_node_by Let_def)
  let ?P = "\<lambda>n. node_partitions n \<noteq> [] \<and> leads_some n"
  have P: "?P n \<longleftrightarrow> leads_some n" for n by (auto simp: leads_some_def)
  let ?l = "least_by ?P zero_Node (map snd (Nodes c))"
  have f: "(filter ?P (map snd (Nodes c)) = []) = ({n \<in> snd ` set (Nodes c). leads_some n} = {})"
    unfolding P by (auto simp: filter_empty_conv)
  show "case GetLeastStressedPartitionLeader c of Inl e \<Rightarrow> {n \<in> snd ` set (Nodes c). leads_some n} = {}
      | Inr m \<Rightarrow> m \<in> {n \<in> snd ` set (Nodes c). leads_some n} \<and>
          (\<forall>n \<in> {n \<in> snd ` set (Nodes c). leads_some n}. length (node_partitions m) \<le> length (node_partitions n))"
  proof (cases "filter ?P (map snd (Nodes c)) = []")
    case True
    with least_by_zero [OF ok zero_Node_nil(1), of ?P] have "?l = zero_Node" by simp
    with True f show ?thesis by (simp add: GetLeastStressedPartitionLeader_def least_leader_by Let_def)
  next
    case False
    with least_by_zero [OF ok zero_Node_nil(1), of ?P]
    have l: "?l \<in> set (filter ?P (map snd (Nodes c)))"
      "\<forall>n \<in> set (filter ?P (map snd (Nodes c))). length (node_partitions ?l) \<le> length (node_partitions n)" by simp_all
    have s: "set (filter ?P (map snd (Nodes c))) = {n \<in> snd ` set (Nodes c). leads_some n}" unfolding P by auto
    have "nd_Id ?l \<noteq> []" using l(1) named by auto
    with l show ?thesis unfolding s by (simp add: GetLeastStressedPartitionLeader_def least_leader_by Let_def)
  qed
qed

definition demo_node :: "string \<Rightarrow> Role \<Rightarrow> partition_id list \<Rightarrow> Node" where
  "demo_node i r ps = \<lparr>nd_Id = i, nd_Addr = i, nd_Suffrage = Voter, nd_State = NodeStateStarted, nd_Role = r,
     nd_Partitions = Some (map (\<lambda>p. (p, \<lparr>np_Id = p, np_State = NodePartitionStateInitialized, np_Role = r\<rparr>)) ps)\<rparr>"

definition demo_cluster :: Cluster where
  "demo_cluster = \<lparr>DesiredPartitions = 2, Partitions = [(1, \<lparr>pa_Id = 1, pa_LeaderId = ''a''\<rparr>)],
     Nodes = [(''a'', demo_node ''a'' RoleLeader [1]), (''b'', demo_node ''b'' RoleFollower [])]\<rparr>"

theorem least_stressed_choice_witness:
  "nodes_ok demo_cluster \<and> GetLeastStressedNode demo_cluster = Inr (demo_node ''b'' RoleFollower []) \<and>
   length (node_partitions (demo_node ''b'' RoleFollower [])) \<le> length (node_partitions (demo_node ''a'' RoleLeader [1]))"
proof -
  have n: "nodes_ok demo_cluster" by (simp add: nodes_ok_def demo_cluster_def demo_node_def)
  have g: "GetLeastStressedNode demo_cluster = Inr (demo_node ''b'' RoleFollower [])"
    by (simp add: GetLeastStressedNode_def demo_cluster_def demo_node_def zero_Node_def node_partitions_def)
  have "demo_node ''a'' RoleLeader [1] \<in> snd ` set (Nodes demo_cluster)" by (simp add: demo_cluster_def)
  with least_stressed_choice [OF n] g have "length (node_partitions (demo_node ''b'' RoleFollower [])) \<le> length (node_partitions (demo_node ''a'' RoleLeader [1]))" by auto
  with n g show ?thesis by blast
qed

text \<open>C34. A message is sent to an existing partition. For a cluster with partitions, fewer than \<open>2^32\<close>, the
  partition computed from a correlation key is between 1 and their number, although the sum of the
  characters wraps around at 32 bits, so that it is one of the partitions when these are numbered from 1
  without gaps; without partitions it is 0.\<close>

theorem correlation_key_has_partition:
  assumes "length (Partitions c) < 2 ^ 32"
  shows "(if Partitions c = [] then GetPartitionIdFromString c str = 0
     else 1 \<le> unat (GetPartitionIdFromString c str) \<and>
       unat (GetPartitionIdFromString c str) \<le> length (Partitions c) \<and>
       ({1..length (Partitions c)} \<subseteq> unat ` fst ` set (Partitions c) \<longrightarrow>
         map_of (Partitions c) (GetPartitionIdFromString c str) \<noteq> None))"
proof (cases "Partitions c = []")
  case False
  let ?n = "length (Partitions c)" and ?p = "GetPartitionIdFromString c str"
  have pos: "0 < ?n" using False by simp
  have n: "unat (of_nat ?n :: 32 word) = ?n" using assms by (simp add: unat_of_nat)
  then have "unat (bit_sum 0 str mod of_nat ?n) = unat (bit_sum 0 str) mod ?n" by (simp add: unat_mod)
  then have lt: "unat (bit_sum 0 str mod of_nat ?n) < ?n" using pos by simp
  then have "unat (bit_sum 0 str mod of_nat ?n) + 1 < 2 ^ 32" using assms by simp
  then have p: "unat ?p = unat (bit_sum 0 str mod of_nat ?n) + 1"
    using False by (simp add: GetPartitionIdFromString_def unat_word_ariths)
  with lt have b: "1 \<le> unat ?p" "unat ?p \<le> ?n" by simp_all
  moreover have "map_of (Partitions c) ?p \<noteq> None" if "{1..?n} \<subseteq> unat ` fst ` set (Partitions c)"
  proof -
    from b that have "unat ?p \<in> unat ` fst ` set (Partitions c)" by auto
    then have "?p \<in> fst ` set (Partitions c)" by (metis (no_types, lifting) imageE word_unat_eq_iff)
    then show ?thesis by (simp add: map_of_eq_None_iff)
  qed
  ultimately show ?thesis using False by simp
qed (simp add: GetPartitionIdFromString_def)

theorem correlation_key_has_partition_witness:
  "unat (GetPartitionIdFromString demo_cluster [107, 101, 121]) \<le> 1 \<and>
   map_of (Partitions demo_cluster) (GetPartitionIdFromString demo_cluster [107, 101, 121]) \<noteq> None"
  using correlation_key_has_partition [of demo_cluster "[107, 101, 121]"] by (simp add: demo_cluster_def)

end
