(* ===== verification/Cluster_Fsm.thy ===== *)
theory Cluster_Fsm
  imports Cluster_State
begin

text \<open>
  The state machine that raft replicates (\<^verbatim>\<open>internal/cluster/store/fsm.go\<close>), the commands the store writes to
  the log when it observes its peers (\<^verbatim>\<open>store.go\<close>), and what the leader does when the state has changed
  (\<^verbatim>\<open>controller.go\<close>). Raft is a library: \<^verbatim>\<open>LeaderID\<close> is what the local raft node believes at the time a
  command is applied, and an argument of the transition.
\<close>

section \<open>Commands\<close>

record NodeChange =
  nc_NodeId :: string
  nc_Addr :: string
  nc_Suffrage :: "ServerSuffrage option"
  nc_State :: NodeState
  nc_Role :: Role

record NodePartitionChange =
  pc_NodeId :: string
  pc_PartitionId :: partition_id
  pc_State :: NodePartitionState
  pc_Role :: Role

datatype Command = NodeChangeCommand NodeChange | NodePartitionChangeCommand NodePartitionChange | OtherCommand

text \<open>The node a change is about, as it is or new, and the fields the change sets in it.\<close>

definition current_node :: "NodeChange \<Rightarrow> Cluster \<Rightarrow> Node" where
  "current_node ch c =
     (case map_of (Nodes c) (nc_NodeId ch) of
        Some n \<Rightarrow> n
      | None \<Rightarrow> zero_Node\<lparr>nd_Id := nc_NodeId ch, nd_Addr := nc_Addr ch, nd_State := nc_State ch,
                  nd_Partitions := Some []\<rparr>)"

definition change_node :: "Role \<Rightarrow> NodeChange \<Rightarrow> Node \<Rightarrow> Node" where
  "change_node role ch node =
     (let node = node\<lparr>nd_Role := role\<rparr>;
          node = (if nc_Addr ch \<noteq> [] then node\<lparr>nd_Addr := nc_Addr ch\<rparr> else node);
          node = (case nc_Suffrage ch of None \<Rightarrow> node | Some s \<Rightarrow> node\<lparr>nd_Suffrage := s\<rparr>)
      in if nc_State ch \<noteq> NodeStateUnknown then node\<lparr>nd_State := nc_State ch\<rparr> else node)"

definition FsmApplyNodeChange :: "string \<Rightarrow> NodeChange \<Rightarrow> Cluster \<Rightarrow> Cluster" where
  "FsmApplyNodeChange leaderId ch currState =
     (let node = current_node ch currState;
          role = (if leaderId = nc_NodeId ch then RoleLeader else RoleFollower);
          nodes = (if leaderId = nd_Id node \<and> nd_Role node \<noteq> RoleLeader \<and> role = RoleLeader
                   then map (\<lambda>(k, n). (k, n\<lparr>nd_Role := RoleFollower\<rparr>)) (Nodes currState)
                   else Nodes currState)
      in currState\<lparr>Nodes := AList.update (nc_NodeId ch) (change_node role ch node) nodes\<rparr>)"

definition FsmApplyPartitionChange :: "NodePartitionChange \<Rightarrow> Cluster \<Rightarrow> Cluster res" where
  "FsmApplyPartitionChange ch currState =
     (let node = (case map_of (Nodes currState) (pc_NodeId ch) of
                    Some n \<Rightarrow> n
                  | None \<Rightarrow> zero_Node\<lparr>nd_Id := pc_NodeId ch, nd_Partitions := Some []\<rparr>)
      in if pc_State ch = NodePartitionStateLeaving
         then Ok (currState\<lparr>Nodes := AList.update (pc_NodeId ch)
                    (node\<lparr>nd_Partitions := map_option (AList.delete (pc_PartitionId ch)) (nd_Partitions node)\<rparr>)
                    (Nodes currState)\<rparr>)
         else case nd_Partitions node of
                None \<Rightarrow> Panic ''assignment to entry in nil map''
              | Some ps \<Rightarrow>
                  (let node = node\<lparr>nd_Partitions := Some (AList.update (pc_PartitionId ch)
                                \<lparr>np_Id = pc_PartitionId ch, np_State = pc_State ch, np_Role = pc_Role ch\<rparr> ps)\<rparr>;
                       parts = (if pc_Role ch = RoleLeader
                                then AList.update (pc_PartitionId ch)
                                       \<lparr>pa_Id = pc_PartitionId ch, pa_LeaderId = pc_NodeId ch\<rparr> (Partitions currState)
                                else Partitions currState)
                   in Ok (currState\<lparr>Partitions := parts, Nodes := AList.update (pc_NodeId ch) node (Nodes currState)\<rparr>)))"

text \<open>
  The machine with its observer: a goroutine is started for every applied command, with a context of its own;
  \<open>fs_contexts\<close> has an entry for each, which is \<open>True\<close> until the context is cancelled.
\<close>

record FSM =
  fs_state :: Cluster
  fs_observed :: bool
  fs_contexts :: "bool list"
  fs_applied :: nat

definition notify_observer :: "FSM \<Rightarrow> FSM" where
  "notify_observer f =
     (if fs_observed f then f\<lparr>fs_contexts := (fs_contexts f)[length (fs_contexts f) - 1 := False] @ [True]\<rparr> else f)"

definition applyNodeChange :: "string \<Rightarrow> NodeChange \<Rightarrow> FSM \<Rightarrow> FSM" where
  "applyNodeChange leaderId ch f = f\<lparr>fs_state := FsmApplyNodeChange leaderId ch (fs_state f)\<rparr>"

definition applyPartitionChange :: "NodePartitionChange \<Rightarrow> FSM \<Rightarrow> FSM res" where
  "applyPartitionChange ch f =
     (case FsmApplyPartitionChange ch (fs_state f) of
        Ok c \<Rightarrow> Ok (f\<lparr>fs_state := c\<rparr>)
      | Panic m \<Rightarrow> Panic m
      | Err e \<Rightarrow> Err e
      | Blocked \<Rightarrow> Blocked
      | NoFuel \<Rightarrow> NoFuel)"

definition Apply :: "('b \<Rightarrow> Command option) \<Rightarrow> string \<Rightarrow> nat \<Rightarrow> 'b \<Rightarrow> FSM \<Rightarrow> FSM res" where
  "Apply unmarshal leaderId index data f =
     (case unmarshal data of
        None \<Rightarrow> Panic ''failed to unmarshal command''
      | Some OtherCommand \<Rightarrow> Panic ''unrecognized command type''
      | Some (NodeChangeCommand ch) \<Rightarrow> Ok ((notify_observer (applyNodeChange leaderId ch f))\<lparr>fs_applied := index\<rparr>)
      | Some (NodePartitionChangeCommand ch) \<Rightarrow>
          (case applyPartitionChange ch f of
             Ok f' \<Rightarrow> Ok ((notify_observer f')\<lparr>fs_applied := index\<rparr>)
           | Panic m \<Rightarrow> Panic m
           | Err e \<Rightarrow> Err e
           | Blocked \<Rightarrow> Blocked
           | NoFuel \<Rightarrow> NoFuel))"

definition New :: "bool \<Rightarrow> FSM" where
  "New observed = \<lparr>fs_state = \<lparr>DesiredPartitions = 1, Partitions = [], Nodes = []\<rparr>, fs_observed = observed,
     fs_contexts = [], fs_applied = 0\<rparr>"

definition Snapshot :: "(Cluster \<Rightarrow> 'b) \<Rightarrow> FSM \<Rightarrow> 'b" where
  "Snapshot marshal f = marshal (fs_state f)"

definition Restore :: "('b \<Rightarrow> error + Cluster) \<Rightarrow> 'b \<Rightarrow> FSM \<Rightarrow> error option \<times> FSM" where
  "Restore decode rc f = (case decode rc of Inl e \<Rightarrow> (Some e, f) | Inr c \<Rightarrow> (None, f\<lparr>fs_state := c\<rparr>))"

section \<open>What the store writes\<close>

record raft_server =
  srv_ID :: string
  srv_Address :: string
  srv_Suffrage :: ServerSuffrage

definition addNewNode :: "bool \<Rightarrow> raft_server \<Rightarrow> NodeChange option" where
  "addNewNode isLeader node =
     (if \<not> isLeader then None
      else Some \<lparr>nc_NodeId = srv_ID node, nc_Addr = srv_Address node, nc_Suffrage = Some (srv_Suffrage node),
                  nc_State = NodeStateStarted, nc_Role = RoleFollower\<rparr>)"

definition shutdownNode :: "bool \<Rightarrow> string \<Rightarrow> NodeChange option" where
  "shutdownNode isLeader nodeId =
     (if \<not> isLeader then None
      else Some \<lparr>nc_NodeId = nodeId, nc_Addr = [], nc_Suffrage = None, nc_State = NodeStateShutdown, nc_Role = RoleFollower\<rparr>)"

definition resumeNode :: "bool \<Rightarrow> string \<Rightarrow> NodeChange option" where
  "resumeNode isLeader nodeId =
     (if \<not> isLeader then None
      else Some \<lparr>nc_NodeId = nodeId, nc_Addr = [], nc_Suffrage = None, nc_State = NodeStateStarted, nc_Role = RoleFollower\<rparr>)"

definition selfLeaderChange :: "bool \<Rightarrow> string \<Rightarrow> string \<Rightarrow> NodeChange option" where
  "selfLeaderChange leader raftID addr =
     (if \<not> leader then None
      else Some \<lparr>nc_NodeId = raftID, nc_Addr = addr, nc_Suffrage = Some Voter, nc_State = NodeStateStarted,
                  nc_Role = RoleLeader\<rparr>)"

definition PartitionLeaderWithID :: "bool \<Rightarrow> Cluster \<Rightarrow> partition_id \<Rightarrow> string \<times> string" where
  "PartitionLeaderWithID opened c p =
     (if \<not> opened then ([], [])
      else case map_of (Partitions c) p of
             None \<Rightarrow> ([], [])
           | Some partitionInfo \<Rightarrow>
               (case map_of (Nodes c) (pa_LeaderId partitionInfo) of
                  None \<Rightarrow> ([], [])
                | Some partitionLeader \<Rightarrow> (nd_Addr partitionLeader, pa_LeaderId partitionInfo)))"

section \<open>What the leader does on a change\<close>

text \<open>
  \<open>write\<close> is the effect on the state of writing a change to the raft log (nothing, when that fails). Every check of
  the context has its own argument, since the context may expire between two of them.
\<close>

definition assignPartition ::
    "bool \<Rightarrow> (NodePartitionChange \<Rightarrow> Cluster \<Rightarrow> Cluster) \<Rightarrow> partition_id \<Rightarrow> string \<Rightarrow> Cluster \<Rightarrow> Cluster" where
  "assignPartition expired write partitionId nodeId c =
     (if expired then c
      else write \<lparr>pc_NodeId = nodeId, pc_PartitionId = partitionId, pc_State = NodePartitionStateJoining,
                  pc_Role = RoleUnknown\<rparr> c)"

definition assignNewPartition ::
    "bool \<Rightarrow> bool \<Rightarrow> (NodePartitionChange \<Rightarrow> Cluster \<Rightarrow> Cluster) \<Rightarrow> int \<Rightarrow> Cluster \<Rightarrow> Cluster" where
  "assignNewPartition expired expired' write newPartitionId cs =
     (case GetLeastStressedNode cs of
        Inl _ \<Rightarrow> cs
      | Inr partitionCandidate \<Rightarrow>
          if AnyNodeHasPartition cs newPartitionId then cs
          else if expired then cs
          else assignPartition expired' write (word_of_int newPartitionId) (nd_Id partitionCandidate) cs)"

fun assign_idle ::
    "(nat \<Rightarrow> bool) \<Rightarrow> (NodePartitionChange \<Rightarrow> Cluster \<Rightarrow> Cluster) \<Rightarrow> (string \<times> Node) list \<Rightarrow> Cluster \<Rightarrow> Cluster" where
  "assign_idle expired write [] c = c"
| "assign_idle expired write ((_, node) # ns) c =
     assign_idle (\<lambda>i. expired (Suc i)) write ns
       (if length (node_partitions node) = 0 then assignPartition (expired 0) write 1 (nd_Id node) c else c)"

definition performLeaderOperations ::
    "(nat \<Rightarrow> bool) \<Rightarrow> (NodePartitionChange \<Rightarrow> Cluster \<Rightarrow> Cluster) \<Rightarrow> Cluster \<Rightarrow> Cluster" where
  "performLeaderOperations expired write cs =
     (if expired 0 then cs
      else (let currentPartitionCount = int (length (Partitions cs));
                cs = (if uint (DesiredPartitions cs) > currentPartitionCount
                      then assignNewPartition (expired 1) (expired 2) write (currentPartitionCount + 1) cs
                      else cs)
            in assign_idle (\<lambda>i. expired (3 + i)) write (Nodes cs) cs))"

section \<open>Invariant\<close>

definition node_ok :: "string \<Rightarrow> Node \<Rightarrow> bool" where
  "node_ok i n \<longleftrightarrow> nd_Id n = i \<and> (\<exists>ps. nd_Partitions n = Some ps \<and> (\<forall>p np. map_of ps p = Some np \<longrightarrow> np_Id np = p))"

definition nodes_wf :: "(string \<rightharpoonup> Node) \<Rightarrow> bool" where
  "nodes_wf N \<longleftrightarrow> (\<forall>i n. N i = Some n \<longrightarrow> node_ok i n)"

definition partitions_wf :: "(partition_id \<rightharpoonup> Partition) \<Rightarrow> (string \<rightharpoonup> Node) \<Rightarrow> bool" where
  "partitions_wf P N \<longleftrightarrow> (\<forall>p pa. P p = Some pa \<longrightarrow> pa_Id pa = p \<and> N (pa_LeaderId pa) \<noteq> None)"

definition cluster_wf :: "Cluster \<Rightarrow> bool" where
  "cluster_wf c \<longleftrightarrow> distinct (map fst (Nodes c)) \<and> distinct (map fst (Partitions c)) \<and>
     nodes_wf (map_of (Nodes c)) \<and> partitions_wf (map_of (Partitions c)) (map_of (Nodes c))"

lemma nodes_wf_upd: "nodes_wf N \<Longrightarrow> node_ok i n \<Longrightarrow> nodes_wf (N(i \<mapsto> n))"
  by (simp add: nodes_wf_def)

lemma nodes_wf_roles: "nodes_wf N \<Longrightarrow> nodes_wf (map_option (\<lambda>n. n\<lparr>nd_Role := r\<rparr>) \<circ> N)"
  by (auto simp: nodes_wf_def node_ok_def)

lemma partitions_wf_mono: "partitions_wf P N \<Longrightarrow> dom N \<subseteq> dom N' \<Longrightarrow> partitions_wf P N'"
  unfolding partitions_wf_def dom_def by blast

lemma partitions_wf_upd:
  "partitions_wf P N \<Longrightarrow> N i \<noteq> None \<Longrightarrow> partitions_wf (P(p \<mapsto> \<lparr>pa_Id = p, pa_LeaderId = i\<rparr>)) N"
  by (simp add: partitions_wf_def)

definition leaders :: "Cluster \<Rightarrow> string set" where
  "leaders c = {i. \<exists>n. map_of (Nodes c) i = Some n \<and> nd_Role n = RoleLeader}"

text \<open>The state of a replica: any sequence of committed commands, each applied with some belief about the leader.\<close>

inductive replica :: "Cluster \<Rightarrow> bool" where
  start: "replica (fs_state (New b))"
| node_change: "replica c \<Longrightarrow> replica (FsmApplyNodeChange leaderId ch c)"
| partition_change: "replica c \<Longrightarrow> FsmApplyPartitionChange ch c = Ok c' \<Longrightarrow> replica c'"

lemma map_of_roles: "map_of (map (\<lambda>(k, n). (k, f n)) xs) = map_option f \<circ> map_of xs"
  by (simp add: map_of_map)

lemma keys_roles: "map fst (map (\<lambda>(k, n). (k, f n)) xs) = map fst xs"
  by (induction xs) auto

lemma change_node_sel [simp]:
  "nd_Id (change_node r ch n) = nd_Id n" "nd_Partitions (change_node r ch n) = nd_Partitions n"
  "nd_Role (change_node r ch n) = r"
  by (simp_all add: change_node_def Let_def split: option.splits)

lemma current_node_wf: "cluster_wf c \<Longrightarrow> node_ok (nc_NodeId ch) (current_node ch c)"
  by (auto simp: current_node_def cluster_wf_def nodes_wf_def node_ok_def split: option.splits)

lemma node_change_Partitions: "Partitions (FsmApplyNodeChange l ch c) = Partitions c"
  by (simp add: FsmApplyNodeChange_def Let_def)

lemma node_change_distinct:
  "distinct (map fst (Nodes c)) \<Longrightarrow> distinct (map fst (Nodes (FsmApplyNodeChange l ch c)))"
  by (simp add: FsmApplyNodeChange_def Let_def distinct_update keys_roles del: map_map)

text \<open>On a well-formed state the roles of all other nodes are reset just when a new leader is recorded.\<close>

lemma node_change_nodes:
  assumes "cluster_wf c"
  shows "map_of (Nodes (FsmApplyNodeChange l ch c)) =
    ((if l = nc_NodeId ch \<and> nd_Role (current_node ch c) \<noteq> RoleLeader
      then map_option (\<lambda>n. n\<lparr>nd_Role := RoleFollower\<rparr>) \<circ> map_of (Nodes c) else map_of (Nodes c))
     (nc_NodeId ch \<mapsto> change_node (if l = nc_NodeId ch then RoleLeader else RoleFollower) ch (current_node ch c)))"
  using current_node_wf [OF assms, of ch]
  by (simp add: FsmApplyNodeChange_def Let_def update_conv' map_of_roles node_ok_def)

lemma node_change_leaders:
  assumes wf: "cluster_wf c" and one: "leaders c \<subseteq> {j}"
  shows "leaders (FsmApplyNodeChange l ch c) = (if l = nc_NodeId ch then {l} else leaders c - {nc_NodeId ch})"
proof (cases "l = nc_NodeId ch")
  case True
  show ?thesis
  proof (cases "nd_Role (current_node ch c) = RoleLeader")
    case leader: True
    then have "nc_NodeId ch \<in> leaders c" by (auto simp: current_node_def leaders_def zero_Node_def split: option.splits)
    with one have "leaders c = {nc_NodeId ch}" by auto
    with leader True show ?thesis unfolding leaders_def node_change_nodes [OF wf] by (auto split: if_splits)
  next
    case False
    with True show ?thesis unfolding leaders_def node_change_nodes [OF wf] by auto
  qed
next
  case False
  then show ?thesis unfolding leaders_def node_change_nodes [OF wf] by auto
qed

lemma node_change_wf:
  assumes "cluster_wf c"
  shows "cluster_wf (FsmApplyNodeChange l ch c)"
proof -
  note wf = assms [unfolded cluster_wf_def]
  let ?N = "map_of (Nodes (FsmApplyNodeChange l ch c))"
  have "node_ok (nc_NodeId ch) (change_node r ch (current_node ch c))" for r
    using current_node_wf [OF assms, of ch] by (simp add: node_ok_def)
  then have "nodes_wf ?N"
    using wf unfolding node_change_nodes [OF assms] by (auto intro!: nodes_wf_upd nodes_wf_roles)
  moreover have "partitions_wf (map_of (Partitions c)) ?N"
    using wf unfolding node_change_nodes [OF assms] by (auto intro: partitions_wf_mono)
  ultimately show ?thesis
    using wf node_change_distinct [of c l ch] unfolding cluster_wf_def node_change_Partitions by blast
qed

text \<open>A partition change on a well-formed state never writes to a nil map.\<close>

lemma partition_change_wf:
  assumes "cluster_wf c"
  shows "\<exists>c'. FsmApplyPartitionChange ch c = Ok c' \<and> cluster_wf c' \<and> leaders c' = leaders c"
proof -
  note wf = assms [unfolded cluster_wf_def]
  define node where "node = (case map_of (Nodes c) (pc_NodeId ch) of Some n \<Rightarrow> n
      | None \<Rightarrow> zero_Node\<lparr>nd_Id := pc_NodeId ch, nd_Partitions := Some []\<rparr>)"
  have "node_ok (pc_NodeId ch) node" using wf by (auto simp: node_def nodes_wf_def node_ok_def split: option.splits)
  then obtain ps where n: "nd_Id node = pc_NodeId ch" "nd_Partitions node = Some ps"
    "\<forall>p np. map_of ps p = Some np \<longrightarrow> np_Id np = p" unfolding node_ok_def by blast
  have role: "pc_NodeId ch \<in> leaders c \<longleftrightarrow> nd_Role node = RoleLeader"
    by (auto simp: leaders_def node_def zero_Node_def split: option.splits)
  show ?thesis
  proof (cases "pc_State ch = NodePartitionStateLeaving")
    case True
    let ?c = "c\<lparr>Nodes := AList.update (pc_NodeId ch) (node\<lparr>nd_Partitions := Some (AList.delete (pc_PartitionId ch) ps)\<rparr>) (Nodes c)\<rparr>"
    have "FsmApplyPartitionChange ch c = Ok ?c"
      using True n(2) by (simp add: FsmApplyPartitionChange_def Let_def node_def [symmetric])
    moreover have "leaders ?c = leaders c" using role by (auto simp: leaders_def update_conv')
    moreover have "node_ok (pc_NodeId ch) (node\<lparr>nd_Partitions := Some (AList.delete (pc_PartitionId ch) ps)\<rparr>)"
      using n by (auto simp: node_ok_def delete_conv' restrict_map_def split: if_splits)
    then have "cluster_wf ?c"
      using wf by (auto simp: cluster_wf_def update_conv' distinct_update intro!: nodes_wf_upd intro: partitions_wf_mono)
    ultimately show ?thesis by blast
  next
    case False
    let ?n = "node\<lparr>nd_Partitions := Some (AList.update (pc_PartitionId ch)
      \<lparr>np_Id = pc_PartitionId ch, np_State = pc_State ch, np_Role = pc_Role ch\<rparr> ps)\<rparr>"
    let ?c = "c\<lparr>Partitions := if pc_Role ch = RoleLeader then AList.update (pc_PartitionId ch)
        \<lparr>pa_Id = pc_PartitionId ch, pa_LeaderId = pc_NodeId ch\<rparr> (Partitions c) else Partitions c,
      Nodes := AList.update (pc_NodeId ch) ?n (Nodes c)\<rparr>"
    have "FsmApplyPartitionChange ch c = Ok ?c"
      using False n(2) by (simp add: FsmApplyPartitionChange_def Let_def node_def [symmetric])
    moreover have "leaders ?c = leaders c" using role by (auto simp: leaders_def update_conv')
    moreover have "node_ok (pc_NodeId ch) ?n" using n by (simp add: node_ok_def update_conv')
    then have "cluster_wf ?c"
      using wf by (auto simp: cluster_wf_def update_conv' distinct_update intro!: nodes_wf_upd partitions_wf_upd
          intro: partitions_wf_mono)
    ultimately show ?thesis by blast
  qed
qed

lemma replica_inv: "replica c \<Longrightarrow> cluster_wf c \<and> (\<exists>j. leaders c \<subseteq> {j})"
proof (induction rule: replica.induct)
  case (start b)
  show ?case by (simp add: New_def cluster_wf_def leaders_def nodes_wf_def partitions_wf_def)
next
  case (node_change c l ch)
  then obtain j where "cluster_wf c" "leaders c \<subseteq> {j}" by blast
  with node_change_leaders [OF this, of l ch] node_change_wf [of c l ch] show ?case by (auto split: if_splits)
next
  case (partition_change c ch c')
  with partition_change_wf [of c ch] show ?case by auto
qed

section \<open>Assignment of partitions\<close>

definition held_by :: "Cluster \<Rightarrow> string \<Rightarrow> partition_id set" where
  "held_by c i = (case map_of (Nodes c) i of None \<Rightarrow> {} | Some n \<Rightarrow> fst ` set (node_partitions n))"

text \<open>A write that raft commits.\<close>

definition committed :: "NodePartitionChange \<Rightarrow> Cluster \<Rightarrow> Cluster" where
  "committed ch c = (case FsmApplyPartitionChange ch c of Ok c' \<Rightarrow> c' | _ \<Rightarrow> c)"

definition grown :: "Cluster \<Rightarrow> Cluster \<Rightarrow> bool" where
  "grown c c' \<longleftrightarrow> cluster_wf c' \<and> map fst (Nodes c') = map fst (Nodes c) \<and> Partitions c' = Partitions c \<and>
     (\<forall>i. held_by c i \<subseteq> held_by c' i)"

lemma grown_refl: "cluster_wf c \<Longrightarrow> grown c c"
  by (simp add: grown_def)

lemma grown_trans: "grown c c' \<Longrightarrow> grown c' c'' \<Longrightarrow> grown c c''"
  unfolding grown_def by (metis order_trans)

lemma held_by_iff: "p \<in> held_by c i \<longleftrightarrow> (\<exists>n. map_of (Nodes c) i = Some n \<and> p \<in> fst ` set (node_partitions n))"
  by (simp add: held_by_def split: option.splits)

lemma AnyNodeHasPartition_held:
  assumes "cluster_wf c"
  shows "AnyNodeHasPartition c p \<longleftrightarrow> (\<exists>i. word_of_int p \<in> held_by c i)"
proof -
  have d: "distinct (map fst (Nodes c))" using assms by (simp add: cluster_wf_def)
  have "AnyNodeHasPartition c p \<longleftrightarrow> (\<exists>i n. (i, n) \<in> set (Nodes c) \<and> word_of_int p \<in> fst ` set (node_partitions n))"
    by (simp add: AnyNodeHasPartition_def list_ex_iff map_of_eq_None_iff Bex_def)
  also have "\<dots> \<longleftrightarrow> (\<exists>i. word_of_int p \<in> held_by c i)"
    unfolding held_by_iff map_of_eq_Some_iff [OF d] ..
  finally show ?thesis .
qed

lemma assignPartition_grows:
  assumes wf: "cluster_wf c" and i: "i \<in> fst ` set (Nodes c)"
  shows "grown c (assignPartition False committed p i c)" and "p \<in> held_by (assignPartition False committed p i c) i"
proof -
  let ?ch = "\<lparr>pc_NodeId = i, pc_PartitionId = p, pc_State = NodePartitionStateJoining, pc_Role = RoleUnknown\<rparr>"
  obtain n where n: "map_of (Nodes c) i = Some n" using i by (metis map_of_eq_None_iff not_None_eq)
  then have "node_ok i n" using wf by (simp add: cluster_wf_def nodes_wf_def)
  then obtain ps where ps: "nd_Partitions n = Some ps" by (auto simp: node_ok_def)
  let ?c = "c\<lparr>Nodes := AList.update i (n\<lparr>nd_Partitions := Some (AList.update p
    \<lparr>np_Id = p, np_State = NodePartitionStateJoining, np_Role = RoleUnknown\<rparr> ps)\<rparr>) (Nodes c)\<rparr>"
  have e: "FsmApplyPartitionChange ?ch c = Ok ?c" using n ps by (simp add: FsmApplyPartitionChange_def Let_def)
  then have a: "assignPartition False committed p i c = ?c" by (simp add: assignPartition_def committed_def)
  have "cluster_wf ?c" using partition_change_wf [OF wf, of ?ch] e by auto
  then show "grown c (assignPartition False committed p i c)"
    using n ps i unfolding a by (auto simp: grown_def held_by_def update_conv' update_keys node_partitions_def dom_update)
  show "p \<in> held_by (assignPartition False committed p i c) i"
    unfolding a by (simp add: held_by_def update_conv' node_partitions_def dom_update)
qed

lemma assign_idle_grows:
  assumes "cluster_wf c" and "\<forall>(i, n) \<in> set ns. nd_Id n = i \<and> i \<in> fst ` set (Nodes c) \<and> fst ` set (node_partitions n) \<subseteq> held_by c i"
  shows "grown c (assign_idle (\<lambda>_. False) committed ns c) \<and>
    (\<forall>i \<in> fst ` set ns. held_by (assign_idle (\<lambda>_. False) committed ns c) i \<noteq> {})"
  using assms
proof (induction ns arbitrary: c)
  case Nil
  then show ?case by (simp add: grown_refl)
next
  case (Cons x ns)
  obtain i n where x: "x = (i, n)" by (cases x)
  let ?c = "if length (node_partitions n) = 0 then assignPartition False committed 1 i c else c"
  have i: "nd_Id n = i" "i \<in> fst ` set (Nodes c)" "fst ` set (node_partitions n) \<subseteq> held_by c i"
    using Cons.prems(2) x by auto
  have g: "grown c ?c" and h: "held_by ?c i \<noteq> {}"
    using assignPartition_grows [OF Cons.prems(1) i(2), of 1] grown_refl [OF Cons.prems(1)] i(3) by auto
  have keys: "fst ` set (Nodes ?c) = fst ` set (Nodes c)"
    using g unfolding grown_def by (metis list.set_map)
  have "\<forall>(i, n) \<in> set ns. nd_Id n = i \<and> i \<in> fst ` set (Nodes ?c) \<and> fst ` set (node_partitions n) \<subseteq> held_by ?c i"
    unfolding keys using Cons.prems(2) g unfolding grown_def by fastforce
  moreover have "cluster_wf ?c" using g by (simp add: grown_def)
  ultimately have "grown ?c (assign_idle (\<lambda>_. False) committed ns ?c) \<and>
      (\<forall>i \<in> fst ` set ns. held_by (assign_idle (\<lambda>_. False) committed ns ?c) i \<noteq> {})"
    using Cons.IH [of ?c] by blast
  moreover have "assign_idle (\<lambda>_. False) committed (x # ns) c = assign_idle (\<lambda>_. False) committed ns ?c"
    by (simp add: x i(1))
  ultimately have r: "grown ?c (assign_idle (\<lambda>_. False) committed (x # ns) c)"
    "\<forall>i \<in> fst ` set ns. held_by (assign_idle (\<lambda>_. False) committed (x # ns) c) i \<noteq> {}" by simp_all
  have "held_by ?c i \<subseteq> held_by (assign_idle (\<lambda>_. False) committed (x # ns) c) i"
    using r(1) unfolding grown_def by blast
  with h have "held_by (assign_idle (\<lambda>_. False) committed (x # ns) c) i \<noteq> {}" by blast
  with r(2) grown_trans [OF g r(1)] show ?case by (simp add: x del: assign_idle.simps)
qed

lemma assignNewPartition_grows:
  assumes "cluster_wf c" and "nodes_ok c"
  shows "grown c (assignNewPartition False False committed p c)"
    and "Nodes c \<noteq> [] \<Longrightarrow> AnyNodeHasPartition (assignNewPartition False False committed p c) p"
proof -
  let ?c = "assignNewPartition False False committed p c"
  have "grown c ?c \<and> (Nodes c \<noteq> [] \<longrightarrow> AnyNodeHasPartition ?c p)"
  proof (cases "GetLeastStressedNode c")
    case (Inl e)
    with least_node_exists [OF assms(2)] show ?thesis by (simp add: assignNewPartition_def grown_refl assms(1))
  next
    case (Inr m)
    then obtain i where m: "(i, m) \<in> set (Nodes c)" "nd_Id m = i"
      using least_node_exists [OF assms(2)] assms(2) by (fastforce simp: nodes_ok_def list_all_iff)
    then have "i \<in> fst ` set (Nodes c)" by force
    note a = assignPartition_grows [OF assms(1) this, of "word_of_int p"]
    then have "AnyNodeHasPartition (assignPartition False committed (word_of_int p) i c) p"
      by (subst AnyNodeHasPartition_held) (auto simp: grown_def)
    with a(1) Inr m(2) show ?thesis by (simp add: assignNewPartition_def grown_refl assms(1))
  qed
  then show "grown c ?c" and "Nodes c \<noteq> [] \<Longrightarrow> AnyNodeHasPartition ?c p" by simp_all
qed

section \<open>Properties\<close>

text \<open>C25. The replicated cluster state is consistent: after any committed commands, applied with any beliefs
  about the leader, at most one node is recorded as leader, a node change for the node that is believed to be
  the leader makes it the only one, no partition change panics on a nil map, and every partition that has a
  recorded leader has a node of that name, whose address \<^verbatim>\<open>PartitionLeaderWithID\<close> returns.\<close>

theorem cluster_state_invariant:
  assumes "replica c"
  shows "(\<exists>j. leaders c \<subseteq> {j}) \<and> leaders (FsmApplyNodeChange (nc_NodeId ch) ch c) = {nc_NodeId ch} \<and>
    (\<exists>c'. FsmApplyPartitionChange pch c = Ok c') \<and>
    (\<forall>p pa. map_of (Partitions c) p = Some pa \<longrightarrow>
      (\<exists>n. GetNode c (pa_LeaderId pa) = Inr n \<and> PartitionLeaderWithID True c p = (nd_Addr n, nd_Id n)))"
proof -
  from replica_inv [OF assms] obtain j where wf: "cluster_wf c" and j: "leaders c \<subseteq> {j}" by blast
  have "\<exists>n. GetNode c (pa_LeaderId pa) = Inr n \<and> PartitionLeaderWithID True c p = (nd_Addr n, nd_Id n)"
    if "map_of (Partitions c) p = Some pa" for p pa
    using wf that by (fastforce simp: cluster_wf_def partitions_wf_def nodes_wf_def node_ok_def GetNode_map_of
        PartitionLeaderWithID_def)
  with j node_change_leaders [OF wf j, of "nc_NodeId ch" ch] partition_change_wf [OF wf, of pch] show ?thesis by auto
qed

text \<open>Applying a node change is not deterministic across replicas, contrary to what raft requires: two replicas
  in the same state reach the same state by the same command exactly when their local raft nodes agree on
  whether the changed node is the leader.\<close>

theorem apply_depends_on_local_leader:
  assumes "replica c"
  shows "(FsmApplyNodeChange l ch c = FsmApplyNodeChange l' ch c) = ((l = nc_NodeId ch) = (l' = nc_NodeId ch))"
proof
  from replica_inv [OF assms] obtain j where wf: "cluster_wf c" and j: "leaders c \<subseteq> {j}" by blast
  assume "FsmApplyNodeChange l ch c = FsmApplyNodeChange l' ch c"
  then have "leaders (FsmApplyNodeChange l ch c) = leaders (FsmApplyNodeChange l' ch c)" by simp
  then show "(l = nc_NodeId ch) = (l' = nc_NodeId ch)"
    unfolding node_change_leaders [OF wf j] by (auto split: if_splits)
next
  from replica_inv [OF assms] have "nd_Id (current_node ch c) = nc_NodeId ch"
    using current_node_wf [of c ch] by (auto simp: node_ok_def)
  moreover assume "(l = nc_NodeId ch) = (l' = nc_NodeId ch)"
  ultimately show "FsmApplyNodeChange l ch c = FsmApplyNodeChange l' ch c"
    by (simp add: FsmApplyNodeChange_def Let_def)
qed

text \<open>C28. The leader gets every partition and every node into use. When no context expires and raft commits the
  writes, one run of \<^verbatim>\<open>performLeaderOperations\<close> over a state with named nodes leaves no node without a partition;
  if the cluster has fewer partitions than desired, the next one is assigned to some node; no node is
  added and no recorded partition leader changes.\<close>

theorem leader_assigns_partitions:
  assumes "replica c" and "nodes_ok c"
  shows "(\<forall>i \<in> fst ` set (Nodes c). held_by (performLeaderOperations (\<lambda>_. False) committed c) i \<noteq> {}) \<and>
    (Nodes c \<noteq> [] \<and> int (length (Partitions c)) < uint (DesiredPartitions c) \<longrightarrow>
      AnyNodeHasPartition (performLeaderOperations (\<lambda>_. False) committed c) (int (length (Partitions c)) + 1)) \<and>
    map fst (Nodes (performLeaderOperations (\<lambda>_. False) committed c)) = map fst (Nodes c) \<and>
    Partitions (performLeaderOperations (\<lambda>_. False) committed c) = Partitions c"
proof -
  let ?p = "int (length (Partitions c)) + 1"
  define c1 where "c1 = (if uint (DesiredPartitions c) > int (length (Partitions c))
    then assignNewPartition False False committed ?p c else c)"
  let ?c = "performLeaderOperations (\<lambda>_. False) committed c"
  have c: "?c = assign_idle (\<lambda>_. False) committed (Nodes c1) c1"
    unfolding performLeaderOperations_def Let_def c1_def by simp
  have wf: "cluster_wf c" using replica_inv [OF assms(1)] by blast
  have g1: "grown c c1" using assignNewPartition_grows(1) [OF wf assms(2), of ?p] grown_refl [OF wf] by (simp add: c1_def)
  then have wf1: "cluster_wf c1" by (simp add: grown_def)
  then have d: "distinct (map fst (Nodes c1))" and ok: "nodes_wf (map_of (Nodes c1))" by (simp_all add: cluster_wf_def)
  have "\<forall>(i, n) \<in> set (Nodes c1). nd_Id n = i \<and> i \<in> fst ` set (Nodes c1) \<and> fst ` set (node_partitions n) \<subseteq> held_by c1 i"
    using ok d by (force simp: nodes_wf_def node_ok_def held_by_def)
  from assign_idle_grows [OF wf1 this] have g2: "grown c1 ?c" and h: "\<forall>i \<in> fst ` set (Nodes c1). held_by ?c i \<noteq> {}"
    unfolding c by blast+
  have keys: "fst ` set (Nodes c1) = fst ` set (Nodes c)" using g1 unfolding grown_def by (metis list.set_map)
  have "AnyNodeHasPartition ?c ?p" if "Nodes c \<noteq> []" "int (length (Partitions c)) < uint (DesiredPartitions c)"
  proof -
    have "AnyNodeHasPartition c1 ?p"
      using assignNewPartition_grows(2) [OF wf assms(2) that(1)] that(2) by (simp add: c1_def)
    then obtain i where "word_of_int ?p \<in> held_by c1 i" using AnyNodeHasPartition_held [OF wf1] by blast
    then have "word_of_int ?p \<in> held_by ?c i" using g2 unfolding grown_def by blast
    then show ?thesis using AnyNodeHasPartition_held g2 unfolding grown_def by blast
  qed
  with h keys grown_trans [OF g1 g2] show ?thesis unfolding grown_def by simp
qed

definition demo_change :: "string \<Rightarrow> NodeChange" where
  "demo_change i = \<lparr>nc_NodeId = i, nc_Addr = i, nc_Suffrage = Some Voter, nc_State = NodeStateStarted, nc_Role = RoleFollower\<rparr>"

definition demo_replica :: Cluster where
  "demo_replica = FsmApplyNodeChange ''b'' (demo_change ''b'') (FsmApplyNodeChange ''a'' (demo_change ''a'') (fs_state (New True)))"

lemma demo_replica_ok: "replica demo_replica" "nodes_ok demo_replica" "fst ` set (Nodes demo_replica) = {''a'', ''b''}"
  unfolding demo_replica_def
  by (intro replica.intros)
    (simp_all add: nodes_ok_def FsmApplyNodeChange_def Let_def current_node_def change_node_def demo_change_def New_def zero_Node_def)

theorem cluster_state_invariant_witness:
  "replica demo_replica \<and> leaders (FsmApplyNodeChange ''a'' (demo_change ''a'') demo_replica) = {''a''}"
  using cluster_state_invariant [OF demo_replica_ok(1), of "demo_change ''a''"] demo_replica_ok(1)
  by (simp add: demo_change_def)

theorem apply_depends_on_local_leader_witness:
  "replica demo_replica \<and>
   FsmApplyNodeChange ''a'' (demo_change ''a'') demo_replica \<noteq> FsmApplyNodeChange ''b'' (demo_change ''a'') demo_replica"
  using apply_depends_on_local_leader [OF demo_replica_ok(1), of "''a''" "demo_change ''a''" "''b''"] demo_replica_ok(1)
  by (simp add: demo_change_def)

theorem leader_assigns_partitions_witness:
  "replica demo_replica \<and> nodes_ok demo_replica \<and>
   held_by (performLeaderOperations (\<lambda>_. False) committed demo_replica) ''b'' \<noteq> {}"
  using leader_assigns_partitions [OF demo_replica_ok(1,2)] demo_replica_ok by simp

end
