(* ===== verification/Job_Server.thy ===== *)
theory Job_Server
  imports Zen_Prelude "HOL-Library.AList" "HOL-Library.Sublist"
begin

text \<open>
  Distribution of jobs to the clients of a partition leader (\<^verbatim>\<open>internal/cluster/jobmanager/server.go\<close>): clients
  subscribe to job types through the node they are connected to; a loop loads open jobs, picks a client for
  each, and remembers for how long the job is taken. The streams and the database behind \<^verbatim>\<open>JobLoader\<close> are
  parameters. Go maps are association lists in the order of iteration; a stream is known by a number, and what
  is sent is an output. Time is in nanoseconds.
\<close>

section \<open>State\<close>

type_synonym client_id = string
type_synonym job_type = string

record distributedJob =
  dj_sentTime :: int
  dj_client :: client_id
  dj_jobKey :: int

record nodeSub =
  ns_nodeID :: string
  ns_stream :: nat

record jobTypeData =
  jt_index :: int
  jt_clients :: "client_id list"

text \<open>\<open>nodeMu_readers\<close> counts the read locks held on \<^verbatim>\<open>nodeMu\<close> between the operations.\<close>

record jobServer =
  nodeSubs :: "(string \<times> nodeSub) list"
  subscriptions :: "(job_type \<times> (client_id \<times> nodeSub) list) list"
  jobTypes :: "(job_type \<times> jobTypeData) list"
  distributedJobs :: "distributedJob list"
  emptyDistributionCounter :: int
  nodeMu_readers :: nat

record sql_Job =
  sj_Key :: int
  sj_ProcessInstanceKey :: int
  sj_Variables :: string
  sj_Type :: job_type
  sj_State :: int
  sj_ElementID :: string
  sj_CreatedAt :: int

definition jobLockDuration :: int where "jobLockDuration = 30 * 10 ^ 9"

definition maxActiveJobsPerClient :: int where "maxActiveJobsPerClient = 10"

definition maxPartitionJobLoadCount :: int where "maxPartitionJobLoadCount = 300"

definition newJobServer :: jobServer where
  "newJobServer = \<lparr>nodeSubs = [], subscriptions = [], jobTypes = [], distributedJobs = [],
     emptyDistributionCounter = 0, nodeMu_readers = 0\<rparr>"

section \<open>Subscriptions\<close>

definition type_data :: "jobServer \<Rightarrow> job_type \<Rightarrow> jobTypeData" where
  "type_data s t = (case map_of (jobTypes s) t of None \<Rightarrow> \<lparr>jt_index = 0, jt_clients = []\<rparr> | Some d \<Rightarrow> d)"

definition subs :: "jobServer \<Rightarrow> job_type \<Rightarrow> (client_id \<times> nodeSub) list" where
  "subs s t = (case map_of (subscriptions s) t of None \<Rightarrow> [] | Some m \<Rightarrow> m)"

text \<open>The write lock of \<^verbatim>\<open>nodeMu\<close> waits for all readers.\<close>

definition addNodeSubscription :: "string list \<Rightarrow> nat \<Rightarrow> jobServer \<Rightarrow> jobServer res" where
  "addNodeSubscription nodeIds stream s =
     (case nodeIds of
        [nodeID] \<Rightarrow>
          if nodeMu_readers s > 0 then Blocked
          else Ok (s\<lparr>nodeSubs := AList.update nodeID \<lparr>ns_nodeID = nodeID, ns_stream = stream\<rparr> (nodeSubs s)\<rparr>)
      | _ \<Rightarrow> Err (EngineError ''expected nodeId to be present in metadata in SubscribeJob stream''))"

definition removeNode :: "string \<Rightarrow> jobServer \<Rightarrow> jobServer res" where
  "removeNode nodeId s =
     (if nodeMu_readers s > 0 then Blocked
      else Ok (s\<lparr>nodeSubs := AList.delete nodeId (nodeSubs s),
                subscriptions := map (\<lambda>(t, m). (t, filter (\<lambda>(_, n). ns_nodeID n \<noteq> nodeId) m)) (subscriptions s)\<rparr>))"

text \<open>The early return leaves the read lock of \<^verbatim>\<open>nodeMu\<close> held.\<close>

definition subscribeClient :: "string \<Rightarrow> client_id \<Rightarrow> job_type \<Rightarrow> jobServer \<Rightarrow> jobServer" where
  "subscribeClient clientsNodeID clientID jType s =
     (case map_of (nodeSubs s) clientsNodeID of
        None \<Rightarrow> s\<lparr>nodeMu_readers := nodeMu_readers s + 1\<rparr>
      | Some clientsNode \<Rightarrow>
          (let d = type_data s jType in
           s\<lparr>subscriptions := AList.update jType (AList.update clientID clientsNode (subs s jType)) (subscriptions s),
             jobTypes := AList.update jType (d\<lparr>jt_clients := jt_clients d @ [clientID]\<rparr>) (jobTypes s)\<rparr>))"

definition unsubscribeClient :: "client_id \<Rightarrow> job_type \<Rightarrow> jobServer \<Rightarrow> jobServer" where
  "unsubscribeClient clientID jType s =
     (let s = (case map_of (subscriptions s) jType of
                 None \<Rightarrow> s
               | Some m \<Rightarrow> s\<lparr>subscriptions := AList.update jType (AList.delete clientID m) (subscriptions s)\<rparr>);
          d = type_data s jType
      in if clientID \<notin> set (jt_clients d) then s
         else s\<lparr>jobTypes := AList.update jType (d\<lparr>jt_clients := remove1 clientID (jt_clients d)\<rparr>) (jobTypes s)\<rparr>)"

text \<open>\<^verbatim>\<open>removeClient\<close> drops the first entry of the client in every job type, job types without clients, and its jobs.\<close>

definition removeClient :: "client_id \<Rightarrow> jobServer \<Rightarrow> jobServer" where
  "removeClient clientID s =
     s\<lparr>subscriptions := map (\<lambda>(t, m). (t, AList.delete clientID m)) (subscriptions s),
       jobTypes := filter (\<lambda>(_, d). jt_clients d \<noteq> [])
         (map (\<lambda>(t, d). (t, d\<lparr>jt_clients := remove1 clientID (jt_clients d)\<rparr>)) (jobTypes s)),
       distributedJobs := filter (\<lambda>j. dj_client j \<noteq> clientID) (distributedJobs s)\<rparr>"

datatype SubscribeJobRequest = TYPE_SUBSCRIBE client_id job_type | TYPE_UNSUBSCRIBE client_id job_type
  | TYPE_UNSUBSCRIBE_ALL client_id

definition handleJobStreamRecv :: "string \<Rightarrow> SubscribeJobRequest \<Rightarrow> jobServer \<Rightarrow> jobServer" where
  "handleJobStreamRecv nodeID req s =
     (case req of
        TYPE_SUBSCRIBE c t \<Rightarrow> subscribeClient nodeID c t s
      | TYPE_UNSUBSCRIBE c t \<Rightarrow> unsubscribeClient c t s
      | TYPE_UNSUBSCRIBE_ALL c \<Rightarrow> removeClient c s)"

section \<open>Completion\<close>

fun remove_job :: "int \<Rightarrow> distributedJob list \<Rightarrow> distributedJob list" where
  "remove_job jobKey [] = []"
| "remove_job jobKey (job # js) = (if dj_jobKey job \<noteq> jobKey then job # remove_job jobKey js else js)"

definition completeJob :: "error option \<Rightarrow> int \<Rightarrow> jobServer \<Rightarrow> error option \<times> jobServer" where
  "completeJob err jobKey s =
     (case err of
        Some e \<Rightarrow> (Some (Wrapf ''failed to complete job'' e), s)
      | None \<Rightarrow> (None, s\<lparr>distributedJobs := remove_job jobKey (distributedJobs s)\<rparr>))"

definition failJob :: "error option \<Rightarrow> int \<Rightarrow> jobServer \<Rightarrow> error option \<times> jobServer" where
  "failJob err jobKey s =
     (case err of
        Some e \<Rightarrow> (Some (Wrapf ''failed to fail job'' e), s)
      | None \<Rightarrow> (None, s\<lparr>distributedJobs := remove_job jobKey (distributedJobs s)\<rparr>))"

section \<open>Distribution\<close>

type_synonym slots = "(client_id \<times> int) list"

definition free :: "slots \<Rightarrow> client_id \<Rightarrow> int" where
  "free cl c = (case map_of cl c of None \<Rightarrow> 0 | Some n \<Rightarrow> n)"

fun open_slots :: "client_id list \<Rightarrow> slots \<Rightarrow> slots" where
  "open_slots [] cl = cl"
| "open_slots (c # cs) cl = open_slots cs (AList.update c maxActiveJobsPerClient cl)"

definition all_slots :: "jobServer \<Rightarrow> slots" where
  "all_slots s = open_slots (concat (map (\<lambda>(_, d). jt_clients d) (jobTypes s))) []"

definition expired :: "int \<Rightarrow> distributedJob \<Rightarrow> bool" where
  "expired now job \<longleftrightarrow> dj_sentTime job + jobLockDuration < now"

text \<open>The loop runs from the last job to the first; the counter is one more than the index of the source.\<close>

fun release_loop :: "int \<Rightarrow> nat \<Rightarrow> distributedJob list \<Rightarrow> slots \<Rightarrow> int list \<Rightarrow> distributedJob list \<times> slots \<times> int list" where
  "release_loop now 0 ds cl currentKeys = (ds, cl, currentKeys)"
| "release_loop now (Suc i) ds cl currentKeys =
     (let job = ds ! i in
      if expired now job then release_loop now i (take i ds @ drop (Suc i) ds) cl currentKeys
      else release_loop now i ds (AList.update (dj_client job) (free cl (dj_client job) - 1) cl)
             (currentKeys[i := dj_jobKey job]))"

definition next_index :: "client_id list \<Rightarrow> int \<Rightarrow> int" where
  "next_index cs i = (if i + 1 \<ge> int (length cs) - 1 then 0 else i + 1)"

text \<open>The backward jump \<^verbatim>\<open>indexLogic\<close>, with fuel.\<close>

fun index_logic :: "nat \<Rightarrow> slots \<Rightarrow> client_id list \<Rightarrow> int \<Rightarrow> int \<Rightarrow> int option" where
  "index_logic 0 cl cs candidateIndex i = None"
| "index_logic (Suc f) cl cs candidateIndex i =
     (if free cl (cs ! nat i) \<le> 0
      then (let i' = next_index cs i in
            if candidateIndex \<noteq> i' then index_logic f cl cs candidateIndex i' else Some i')
      else Some i)"

definition pick_client :: "slots \<Rightarrow> jobTypeData \<Rightarrow> int option" where
  "pick_client cl d =
     (let i = next_index (jt_clients d) (jt_index d) in index_logic (length (jt_clients d)) cl (jt_clients d) i i)"

text \<open>One job: the state after it and what is sent to which stream.\<close>

definition distribute_job ::
    "int \<Rightarrow> slots \<Rightarrow> sql_Job \<Rightarrow> jobServer \<Rightarrow> ((nodeSub \<times> client_id \<times> sql_Job) list \<times> jobServer) res" where
  "distribute_job now cl job s =
     (let d = type_data s (sj_Type job) in
      if jt_clients d = [] then Ok ([], s)
      else case pick_client cl d of
             None \<Rightarrow> NoFuel
           | Some i \<Rightarrow>
               (let clientID = jt_clients d ! nat i;
                    s = s\<lparr>jobTypes := AList.update (sj_Type job) (d\<lparr>jt_index := i\<rparr>) (jobTypes s)\<rparr>
                in case map_of (subs s (sj_Type job)) clientID of
                     None \<Rightarrow> Ok ([], s)
                   | Some nodeStream \<Rightarrow>
                       Ok ([(nodeStream, clientID, job)],
                           s\<lparr>distributedJobs := distributedJobs s @
                               [\<lparr>dj_sentTime = now, dj_client = clientID, dj_jobKey = sj_Key job\<rparr>]\<rparr>)))"

fun distribute_all ::
    "(nat \<Rightarrow> int) \<Rightarrow> slots \<Rightarrow> sql_Job list \<Rightarrow> jobServer \<Rightarrow> ((nodeSub \<times> client_id \<times> sql_Job) list \<times> jobServer) res" where
  "distribute_all clock cl [] s = Ok ([], s)"
| "distribute_all clock cl (job # js) s =
     (case distribute_job (clock 0) cl job s of
        Ok (out, s) \<Rightarrow>
          (case distribute_all (\<lambda>i. clock (Suc i)) cl js s of
             Ok (out', s) \<Rightarrow> Ok (out @ out', s)
           | r \<Rightarrow> r)
      | r \<Rightarrow> r)"

text \<open>
  One pass of the loop of \<^verbatim>\<open>distributeJobs\<close> with a live context. The loader gets the job types, the keys to skip and
  the number of jobs to load.
\<close>

definition distributeJobs ::
    "(nat \<Rightarrow> int) \<Rightarrow> (job_type list \<Rightarrow> int list \<Rightarrow> int \<Rightarrow> error + sql_Job list) \<Rightarrow> jobServer \<Rightarrow>
     ((nodeSub \<times> client_id \<times> sql_Job) list \<times> jobServer) res" where
  "distributeJobs clock LoadJobsToDistribute s =
     (case release_loop (clock 0) (length (distributedJobs s)) (distributedJobs s) (all_slots s)
             (replicate (length (distributedJobs s)) 0) of
        (ds, cl, currentKeys) \<Rightarrow>
          (let s = s\<lparr>distributedJobs := ds\<rparr>;
               jobsToLoad = sum_list (map snd cl)
           in if jobsToLoad \<le> 0 then Ok ([], s)
              else case LoadJobsToDistribute (map fst (jobTypes s)) currentKeys (min jobsToLoad maxPartitionJobLoadCount) of
                     Inl e \<Rightarrow> Ok ([], s)
                   | Inr jobs \<Rightarrow>
                       if jobs = [] then Ok ([], s\<lparr>emptyDistributionCounter := emptyDistributionCounter s + 1\<rparr>)
                       else distribute_all (\<lambda>i. clock (Suc i)) cl jobs (s\<lparr>emptyDistributionCounter := 0\<rparr>)))"

text \<open>A pass after the context has ended: every node gets an empty message and is forgotten.\<close>

definition stop_distribution :: "jobServer \<Rightarrow> nat list \<times> jobServer" where
  "stop_distribution s = (map (\<lambda>(_, n). ns_stream n) (nodeSubs s), s\<lparr>nodeSubs := []\<rparr>)"

section \<open>Releasing\<close>

text \<open>The loop that deletes by index while it counts slots and keys is a filter.\<close>

lemma free_update [simp]: "free (AList.update c n cl) c' = (if c' = c then n else free cl c')"
  by (simp add: free_def update_conv')

lemma release_loop_spec:
  assumes "i \<le> length ds" and "i \<le> length ks" and "take i ks = replicate i 0"
  shows "fst (release_loop now i ds cl ks) = filter (\<lambda>j. \<not> expired now j) (take i ds) @ drop i ds"
    and "free (fst (snd (release_loop now i ds cl ks))) c =
      free cl c - int (length (filter (\<lambda>j. \<not> expired now j \<and> dj_client j = c) (take i ds)))"
    and "snd (snd (release_loop now i ds cl ks)) =
      map (\<lambda>j. if expired now j then 0 else dj_jobKey j) (take i ds) @ drop i ks"
proof -
  have "fst (release_loop now i ds cl ks) = filter (\<lambda>j. \<not> expired now j) (take i ds) @ drop i ds \<and>
    free (fst (snd (release_loop now i ds cl ks))) c =
      free cl c - int (length (filter (\<lambda>j. \<not> expired now j \<and> dj_client j = c) (take i ds))) \<and>
    snd (snd (release_loop now i ds cl ks)) =
      map (\<lambda>j. if expired now j then 0 else dj_jobKey j) (take i ds) @ drop i ks"
    using assms
  proof (induction i arbitrary: ds cl ks)
    case (Suc i)
    then have i: "i < length ds" "i < length ks" by simp_all
    have d: "drop i ds = ds ! i # drop (Suc i) ds" "drop i ks = ks ! i # drop (Suc i) ks"
      using i by (simp_all add: Cons_nth_drop_Suc)
    have t: "take (Suc i) ds = take i ds @ [ds ! i]" using i by (simp add: take_Suc_conv_app_nth)
    have z: "ks ! i = 0" "take i ks = replicate i 0"
      using arg_cong [OF Suc.prems(3), of "\<lambda>l. l ! i"] arg_cong [OF Suc.prems(3), of "take i"]
      by (simp_all add: min_def del: replicate.simps)
    show ?case
    proof (cases "expired now (ds ! i)")
      case True
      let ?ds = "take i ds @ drop (Suc i) ds"
      have l: "i \<le> length ?ds" "i \<le> length ks" using i by simp_all
      have e: "take i ?ds = take i ds" "drop i ?ds = drop (Suc i) ds" using i by (simp_all add: min_def)
      from Suc.IH [OF l z(2), of cl, unfolded e] True t z(1) d show ?thesis by (simp add: Let_def)
    next
      case False
      let ?ks = "ks[i := dj_jobKey (ds ! i)]"
      have l: "i \<le> length ds" "i \<le> length ?ks" "take i ?ks = replicate i 0" using i z(2) by simp_all
      have "drop i ?ks = dj_jobKey (ds ! i) # drop (Suc i) ks"
        using i d(2) by (simp add: drop_update_swap)
      with Suc.IH [OF l] False t d show ?thesis by (simp add: Let_def)
    qed
  qed simp
  then show "fst (release_loop now i ds cl ks) = filter (\<lambda>j. \<not> expired now j) (take i ds) @ drop i ds"
    and "free (fst (snd (release_loop now i ds cl ks))) c =
      free cl c - int (length (filter (\<lambda>j. \<not> expired now j \<and> dj_client j = c) (take i ds)))"
    and "snd (snd (release_loop now i ds cl ks)) =
      map (\<lambda>j. if expired now j then 0 else dj_jobKey j) (take i ds) @ drop i ks" by blast+
qed

section \<open>Picking a client\<close>

definition last_index :: "client_id list \<Rightarrow> int" where
  "last_index cs = (if length cs \<le> 1 then 0 else int (length cs) - 2)"

lemma next_index_range: "cs \<noteq> [] \<Longrightarrow> 0 \<le> i \<or> i = -1 \<Longrightarrow> 0 \<le> next_index cs i \<and> next_index cs i \<le> last_index cs"
  by (cases cs) (auto simp: next_index_def last_index_def)

text \<open>
  The indices visited from the candidate on are \<open>cand, cand + 1, \<dots>, last, 0, \<dots>\<close>; the distance to the candidate in
  this cycle decreases, so as much fuel as there are clients is enough.
\<close>

definition cycle_distance :: "client_id list \<Rightarrow> int \<Rightarrow> int \<Rightarrow> nat" where
  "cycle_distance cs cand i = nat (if i < cand then cand - i else cand + last_index cs + 1 - i)"

lemma next_index_cycle:
  assumes "0 \<le> i" "i \<le> last_index cs" "0 \<le> cand" "cand \<le> last_index cs" "next_index cs i \<noteq> cand"
  shows "cycle_distance cs cand (next_index cs i) < cycle_distance cs cand i"
  using assms by (auto simp: cycle_distance_def next_index_def last_index_def split: if_splits)

lemma index_logic_returns:
  assumes "0 \<le> i" "i \<le> last_index cs" "0 \<le> cand" "cand \<le> last_index cs" "cs \<noteq> []" "cycle_distance cs cand i \<le> f"
  shows "\<exists>j. index_logic f cl cs cand i = Some j \<and> 0 \<le> j \<and> j \<le> last_index cs \<and>
    (free cl (cs ! nat j) > 0 \<or> j = cand)"
  using assms
proof (induction f arbitrary: i)
  case 0
  then show ?case by (auto simp: cycle_distance_def last_index_def split: if_splits)
next
  case (Suc f)
  let ?i = "next_index cs i"
  have r: "0 \<le> ?i" "?i \<le> last_index cs" using next_index_range [OF Suc.prems(5)] Suc.prems(1) by auto
  show ?case
  proof (cases "free cl (cs ! nat i) \<le> 0 \<and> cand \<noteq> ?i")
    case True
    with next_index_cycle [OF Suc.prems(1-4)] Suc.prems(6) have "cycle_distance cs cand ?i \<le> f" by simp
    from Suc.IH [OF r Suc.prems(3-5) this] True show ?thesis by (simp add: Let_def)
  next
    case False
    with r Suc.prems show ?thesis by (auto simp: Let_def)
  qed
qed

lemma pick_client_returns:
  assumes "jt_clients d \<noteq> []" and "0 \<le> jt_index d"
  shows "\<exists>j. pick_client cl d = Some j \<and> 0 \<le> j \<and> j \<le> last_index (jt_clients d)"
proof -
  let ?cs = "jt_clients d" and ?i = "next_index (jt_clients d) (jt_index d)"
  have r: "0 \<le> ?i" "?i \<le> last_index ?cs" using next_index_range [OF assms(1)] assms(2) by auto
  have "cycle_distance ?cs ?i ?i \<le> length ?cs"
    using assms(1) by (cases "jt_clients d") (auto simp: cycle_distance_def last_index_def)
  from index_logic_returns [OF r r assms(1) this] show ?thesis by (auto simp: pick_client_def Let_def)
qed

lemma last_index_lt: "cs \<noteq> [] \<Longrightarrow> j \<le> last_index cs \<Longrightarrow> 0 \<le> j \<Longrightarrow> nat j < length cs"
  by (cases cs) (auto simp: last_index_def split: if_splits)

section \<open>One pass\<close>

definition indices_ok :: "jobServer \<Rightarrow> bool" where
  "indices_ok s = list_all (\<lambda>(_, d). 0 \<le> jt_index d) (jobTypes s)"

lemma list_all_update: "list_all P al \<Longrightarrow> P (k, v) \<Longrightarrow> list_all P (AList.update k v al)"
  by (induction al) auto

lemma indices_ok_type_data: "indices_ok s \<Longrightarrow> 0 \<le> jt_index (type_data s t)"
  by (auto simp: indices_ok_def type_data_def list_all_iff dest: map_of_SomeD split: option.splits)

definition taken :: "jobServer \<Rightarrow> (client_id \<times> int) list" where
  "taken s = map (\<lambda>j. (dj_client j, dj_jobKey j)) (distributedJobs s)"

text \<open>What a pass over some jobs guarantees for what it sends and for the state it leaves.\<close>

definition served :: "jobServer \<Rightarrow> sql_Job list \<Rightarrow> (nodeSub \<times> client_id \<times> sql_Job) list \<Rightarrow> jobServer \<Rightarrow> bool" where
  "served s js out s' \<longleftrightarrow> indices_ok s' \<and> subscriptions s' = subscriptions s \<and>
     (\<forall>t. jt_clients (type_data s' t) = jt_clients (type_data s t)) \<and>
     taken s' = taken s @ map (\<lambda>(_, c, j). (c, sj_Key j)) out \<and>
     subseq (map (\<lambda>(_, _, j). j) out) js \<and>
     (\<forall>(n, c, j) \<in> set out. map_of (subs s (sj_Type j)) c = Some n \<and>
        (\<exists>i. 0 \<le> i \<and> i \<le> last_index (jt_clients (type_data s (sj_Type j))) \<and> jt_clients (type_data s (sj_Type j)) \<noteq> [] \<and>
           c = jt_clients (type_data s (sj_Type j)) ! nat i))"

lemma subs_cong: "subscriptions s' = subscriptions s \<Longrightarrow> subs s' t = subs s t"
  by (simp add: subs_def)

lemma distribute_job_served:
  assumes "indices_ok s"
  shows "\<exists>out s'. distribute_job now cl job s = Ok (out, s') \<and> served s [job] out s'"
proof -
  let ?d = "type_data s (sj_Type job)"
  have i0: "0 \<le> jt_index ?d" using assms by (rule indices_ok_type_data)
  show ?thesis
  proof (cases "jt_clients ?d = []")
    case True
    then show ?thesis using assms by (simp add: distribute_job_def Let_def served_def)
  next
    case False
    then obtain i where i: "pick_client cl ?d = Some i" "0 \<le> i" "i \<le> last_index (jt_clients ?d)"
      using pick_client_returns [OF _ i0] by blast
    let ?s = "s\<lparr>jobTypes := AList.update (sj_Type job) (?d\<lparr>jt_index := i\<rparr>) (jobTypes s)\<rparr>"
    let ?c = "jt_clients ?d ! nat i"
    have ok: "indices_ok (?s\<lparr>distributedJobs := x\<rparr>)" for x
      using assms i(2) by (simp add: indices_ok_def list_all_update)
    have cl: "jt_clients (type_data (?s\<lparr>distributedJobs := x\<rparr>) t) = jt_clients (type_data s t)" for x t
      by (simp add: type_data_def update_conv')
    have sub: "subs ?s (sj_Type job) = subs s (sj_Type job)" by (simp add: subs_def)
    have "served s [job] [] ?s" using ok [of "distributedJobs s"] cl [of "distributedJobs s"]
      by (simp add: served_def taken_def)
    moreover have "served s [job] [(n, ?c, job)] (?s\<lparr>distributedJobs := distributedJobs s @
        [\<lparr>dj_sentTime = now, dj_client = ?c, dj_jobKey = sj_Key job\<rparr>]\<rparr>)"
      if "map_of (subs s (sj_Type job)) ?c = Some n" for n
      using that ok cl i False by (auto simp: served_def taken_def)
    ultimately show ?thesis using False i(1)
      by (auto simp: distribute_job_def Let_def sub split: option.splits)
  qed
qed

lemma distribute_all_served:
  "indices_ok s \<Longrightarrow> \<exists>out s'. distribute_all clock cl js s = Ok (out, s') \<and> served s js out s'"
proof (induction js arbitrary: s clock)
  case Nil
  then show ?case by (simp add: served_def)
next
  case (Cons job js)
  from distribute_job_served [OF Cons.prems] obtain o1 s1 where
    j: "distribute_job (clock 0) cl job s = Ok (o1, s1)" "served s [job] o1 s1" by blast
  then have "indices_ok s1" by (simp add: served_def)
  from Cons.IH [OF this] obtain o2 s2 where
    r: "distribute_all (\<lambda>i. clock (Suc i)) cl js s1 = Ok (o2, s2)" "served s1 js o2 s2" by blast
  have "subseq (map (\<lambda>(_, _, j). j) (o1 @ o2)) ([job] @ js)"
    unfolding map_append using j(2) r(2) unfolding served_def by (intro list_emb_append_mono) blast+
  moreover have "subs s1 t = subs s t" for t using j(2) by (auto simp: served_def intro: subs_cong)
  ultimately have "served s (job # js) (o1 @ o2) s2" using j(2) r(2) unfolding served_def by auto
  with j(1) r(1) show ?case by simp
qed

section \<open>Invariant\<close>

text \<open>What is relied on of the loader: it skips the keys it is told to and returns no job twice.\<close>

definition loader_ok :: "(job_type list \<Rightarrow> int list \<Rightarrow> int \<Rightarrow> error + sql_Job list) \<Rightarrow> bool" where
  "loader_ok load \<longleftrightarrow> (\<forall>ts ks n js. load ts ks n = Inr js \<longrightarrow> distinct (map sj_Key js) \<and> sj_Key ` set js \<inter> set ks = {})"

definition job_keys :: "jobServer \<Rightarrow> int list" where
  "job_keys s = map dj_jobKey (distributedJobs s)"

definition server_wf :: "jobServer \<Rightarrow> bool" where
  "server_wf s \<longleftrightarrow> indices_ok s \<and> distinct (job_keys s)"

lemma job_keys_taken: "job_keys s = map snd (taken s)"
  by (simp add: job_keys_def taken_def)

lemma distribute_all_keeps:
  assumes s: "server_wf s" and js: "distinct (map sj_Key js)" "sj_Key ` set js \<inter> set (job_keys s) = {}"
  shows "\<exists>out s'. distribute_all clock cl js s = Ok (out, s') \<and> served s js out s' \<and> server_wf s'"
proof -
  from distribute_all_served [of s clock cl js] s obtain out s' where
    d: "distribute_all clock cl js s = Ok (out, s')" and v: "served s js out s'" unfolding server_wf_def by blast
  let ?js = "map (\<lambda>(_, _, j). j) out"
  have k: "job_keys s' = job_keys s @ map sj_Key ?js"
    using v by (simp add: served_def job_keys_taken case_prod_unfold comp_def)
  have sub: "subseq ?js js" using v by (simp add: served_def)
  then obtain N where N: "?js = nths js N" unfolding subseq_conv_nths by blast
  then have "distinct (map sj_Key ?js)" using js(1) by (simp add: nths_map [symmetric] distinct_nthsI del: map_map)
  moreover have "set (map sj_Key ?js) \<subseteq> sj_Key ` set js" unfolding N set_map by (intro image_mono set_nths_subset)
  ultimately have "distinct (job_keys s')"
    using js(2) s unfolding k server_wf_def distinct_append by blast
  with d v show ?thesis by (auto simp: server_wf_def served_def)
qed

lemma distributeJobs_keeps:
  assumes s: "server_wf s" and load: "loader_ok load"
  shows "\<exists>out s'. distributeJobs clock load s = Ok (out, s') \<and> server_wf s' \<and> (\<exists>js. served
    (s\<lparr>distributedJobs := filter (\<lambda>j. \<not> expired (clock 0) j) (distributedJobs s), emptyDistributionCounter := 0\<rparr>) js out
    (s'\<lparr>emptyDistributionCounter := 0\<rparr>))"
proof -
  let ?ds = "distributedJobs s" and ?now = "clock 0"
  obtain ds cl ks where r: "release_loop ?now (length ?ds) ?ds (all_slots s) (replicate (length ?ds) 0) = (ds, cl, ks)"
    by (cases "release_loop ?now (length ?ds) ?ds (all_slots s) (replicate (length ?ds) 0)") auto
  note spec = release_loop_spec [of "length ?ds" ?ds "replicate (length ?ds) 0" ?now "all_slots s"]
  have ds: "ds = filter (\<lambda>j. \<not> expired ?now j) ?ds"
    and ks: "ks = map (\<lambda>j. if expired ?now j then 0 else dj_jobKey j) ?ds"
    using spec(1,3) by (simp_all add: r)
  let ?s = "s\<lparr>distributedJobs := ds\<rparr>"
  have wf: "server_wf (?s\<lparr>emptyDistributionCounter := n\<rparr>)" for n
    using s by (auto simp: server_wf_def indices_ok_def job_keys_def ds intro: distinct_map_filter)
  have sub: "set (job_keys (?s\<lparr>emptyDistributionCounter := 0\<rparr>)) \<subseteq> set ks" by (auto simp: job_keys_def ds ks)
  have idle: "served (?s\<lparr>emptyDistributionCounter := 0\<rparr>) [] [] (?s\<lparr>emptyDistributionCounter := 0\<rparr>)"
    using wf [of 0] by (simp add: served_def server_wf_def)
  let ?j = "sum_list (map snd cl)"
  let ?l = "load (map fst (jobTypes s)) ks (min ?j maxPartitionJobLoadCount)"
  show ?thesis
  proof (cases "?j \<le> 0 \<or> (\<exists>e. ?l = Inl e) \<or> ?l = Inr []")
    case True
    then show ?thesis using wf wf [of "emptyDistributionCounter s"] idle unfolding ds [symmetric]
      by (fastforce simp: distributeJobs_def r Let_def)
  next
    case False
    then obtain js where l: "?l = Inr js" "js \<noteq> []" "\<not> ?j \<le> 0" by (cases ?l) auto
    then have "distinct (map sj_Key js)" "sj_Key ` set js \<inter> set (job_keys (?s\<lparr>emptyDistributionCounter := 0\<rparr>)) = {}"
      using load sub unfolding loader_ok_def by blast+
    from distribute_all_keeps [OF wf this] obtain out s' where
      d: "distribute_all (\<lambda>i. clock (Suc i)) cl js (?s\<lparr>emptyDistributionCounter := 0\<rparr>) = Ok (out, s')"
      "served (?s\<lparr>emptyDistributionCounter := 0\<rparr>) js out s'" "server_wf s'" by blast
    from d(2) have "served (?s\<lparr>emptyDistributionCounter := 0\<rparr>) js out (s'\<lparr>emptyDistributionCounter := 0\<rparr>)"
      by (simp add: served_def indices_ok_def taken_def type_data_def)
    with d l show ?thesis unfolding ds [symmetric] by (auto simp: distributeJobs_def r Let_def)
  qed
qed

lemma remove_job_filter: "distinct (map dj_jobKey js) \<Longrightarrow> remove_job k js = filter (\<lambda>j. dj_jobKey j \<noteq> k) js"
proof (induction js)
  case (Cons a js)
  then have "dj_jobKey a \<notin> dj_jobKey ` set js" by simp
  then have "dj_jobKey a = k \<Longrightarrow> filter (\<lambda>j. dj_jobKey j \<noteq> k) js = js" by (intro filter_True) (metis imageI)
  with Cons show ?case by simp
qed simp

inductive serving :: "jobServer \<Rightarrow> bool" where
  start: "serving newJobServer"
| add_node: "serving s \<Longrightarrow> addNodeSubscription ids stream s = Ok s' \<Longrightarrow> serving s'"
| remove_node: "serving s \<Longrightarrow> removeNode i s = Ok s' \<Longrightarrow> serving s'"
| request: "serving s \<Longrightarrow> serving (handleJobStreamRecv i req s)"
| complete: "serving s \<Longrightarrow> serving (snd (completeJob err k s))"
| fail: "serving s \<Longrightarrow> serving (snd (failJob err k s))"
| pass: "serving s \<Longrightarrow> loader_ok load \<Longrightarrow> distributeJobs clock load s = Ok (out, s') \<Longrightarrow> serving s'"

lemma wf_cong: "jobTypes s' = jobTypes s \<Longrightarrow> distributedJobs s' = distributedJobs s \<Longrightarrow> server_wf s \<Longrightarrow> server_wf s'"
  by (simp add: server_wf_def indices_ok_def job_keys_def)

lemma wf_subscribe: "server_wf s \<Longrightarrow> server_wf (subscribeClient i c t s)"
  using indices_ok_type_data [of s t]
  by (auto simp: subscribeClient_def server_wf_def indices_ok_def job_keys_def Let_def list_all_update split: option.splits)

lemma wf_unsubscribe: "server_wf s \<Longrightarrow> server_wf (unsubscribeClient c t s)"
  using indices_ok_type_data [of s t]
  by (auto simp: unsubscribeClient_def server_wf_def indices_ok_def job_keys_def Let_def list_all_update type_data_def
      split: option.splits)

lemma wf_removeClient: "server_wf s \<Longrightarrow> server_wf (removeClient c s)"
  by (auto simp: server_wf_def indices_ok_def job_keys_def removeClient_def list_all_iff intro: distinct_map_filter)

lemma wf_remove_job:
  "server_wf s \<Longrightarrow> server_wf (s\<lparr>distributedJobs := remove_job k (distributedJobs s)\<rparr>)"
  by (auto simp: server_wf_def indices_ok_def job_keys_def remove_job_filter intro: distinct_map_filter)

lemma serving_wf: "serving s \<Longrightarrow> server_wf s"
proof (induction rule: serving.induct)
  case (add_node s ids stream s')
  then show ?case by (auto simp: addNodeSubscription_def intro: wf_cong split: list.splits if_splits)
next
  case (remove_node s i s')
  then show ?case by (auto simp: removeNode_def intro: wf_cong split: if_splits)
next
  case (request s i req)
  then show ?case
    by (cases req) (simp_all add: handleJobStreamRecv_def wf_subscribe wf_unsubscribe wf_removeClient)
next
  case (pass s load clock out s')
  from distributeJobs_keeps [OF pass.IH pass.hyps(2), of clock] pass.hyps(3) show ?case by auto
next
  case start
  show ?case by (simp add: newJobServer_def server_wf_def indices_ok_def job_keys_def)
qed (auto simp: completeJob_def failJob_def intro: wf_remove_job split: option.splits)

text \<open>A subscription through an unknown node leaves the lock of the nodes held: no node can be added or removed any more.\<close>

lemma failed_subscription_blocks_nodes:
  assumes "map_of (nodeSubs s) i = None"
  shows "addNodeSubscription [j] n (subscribeClient i c t s) = Blocked" and "removeNode j (subscribeClient i c t s) = Blocked"
  using assms by (simp_all add: subscribeClient_def addNodeSubscription_def removeNode_def)

section \<open>Properties\<close>

text \<open>C22. A job is given to one client at a time. Whatever nodes and clients come and go and whatever jobs
  complete, fail or expire, with a loader that skips the keys it is told to and loads no job twice: every
  job is recorded for at most one client; a pass of the distribution always ends, each job it sends goes
  through the stream over which the chosen client subscribed to the type of that job, and what is recorded
  afterwards is what had not expired, in order, followed by just the jobs sent.\<close>

theorem job_is_given_to_one_client:
  assumes "serving s" and "loader_ok load"
  shows "distinct (job_keys s) \<and> (\<exists>out s'. distributeJobs clock load s = Ok (out, s') \<and>
    (\<forall>(n, c, j) \<in> set out. map_of (subs s (sj_Type j)) c = Some n \<and> c \<in> set (jt_clients (type_data s (sj_Type j)))) \<and>
    job_keys s' = map dj_jobKey (filter (\<lambda>j. \<not> expired (clock 0) j) (distributedJobs s)) @ map (\<lambda>(_, _, j). sj_Key j) out \<and>
    distinct (job_keys s'))"
proof -
  have wf: "server_wf s" by (rule serving_wf [OF assms(1)])
  let ?s = "s\<lparr>distributedJobs := filter (\<lambda>j. \<not> expired (clock 0) j) (distributedJobs s), emptyDistributionCounter := 0\<rparr>"
  from distributeJobs_keeps [OF wf assms(2)] obtain out s' js where
    d: "distributeJobs clock load s = Ok (out, s')" "server_wf s'"
    and v: "served ?s js out (s'\<lparr>emptyDistributionCounter := 0\<rparr>)" by blast
  have e: "type_data ?s t = type_data s t" "subs ?s t = subs s t" for t by (simp_all add: type_data_def subs_def)
  have "\<forall>(n, c, j) \<in> set out. map_of (subs s (sj_Type j)) c = Some n \<and> c \<in> set (jt_clients (type_data s (sj_Type j)))"
    using v unfolding served_def e by (fastforce dest: last_index_lt)
  moreover have "job_keys s' = map dj_jobKey (filter (\<lambda>j. \<not> expired (clock 0) j) (distributedJobs s)) @ map (\<lambda>(_, _, j). sj_Key j) out"
  proof -
    have "map snd (taken (s'\<lparr>emptyDistributionCounter := 0\<rparr>)) = map snd (taken ?s @ map (\<lambda>(_, c, j). (c, sj_Key j)) out)"
      using v by (simp add: served_def)
    then show ?thesis by (simp add: job_keys_def taken_def case_prod_unfold comp_def)
  qed
  ultimately show ?thesis using wf d by (auto simp: server_wf_def)
qed

text \<open>The last of several clients is left out. When a job type has at least two clients, each subscribed once, no pass
  of the distribution sends a job of that type to the client that subscribed last: the index wraps around one
  position too early. With two clients the first gets all the jobs, also beyond its limit.\<close>

theorem last_client_gets_no_job:
  assumes "serving s" and "loader_ok load" and "distributeJobs clock load s = Ok (out, s')"
    and "distinct (jt_clients (type_data s t))" and "length (jt_clients (type_data s t)) \<ge> 2"
  shows "\<forall>(_, c, j) \<in> set out. sj_Type j = t \<longrightarrow> c \<noteq> last (jt_clients (type_data s t))"
proof -
  let ?s = "s\<lparr>distributedJobs := filter (\<lambda>j. \<not> expired (clock 0) j) (distributedJobs s), emptyDistributionCounter := 0\<rparr>"
  from distributeJobs_keeps [OF serving_wf [OF assms(1)] assms(2), of clock] assms(3) obtain js where
    v: "served ?s js out (s'\<lparr>emptyDistributionCounter := 0\<rparr>)" by auto
  have e: "type_data ?s t = type_data s t" for t by (simp add: type_data_def)
  let ?cs = "jt_clients (type_data s t)"
  have "?cs ! nat i \<noteq> last ?cs" if "0 \<le> i" "i \<le> last_index ?cs" for i
  proof -
    have "nat i < length ?cs - 1" using that assms(5) by (auto simp: last_index_def)
    moreover have "last ?cs = ?cs ! (length ?cs - 1)" using assms(5) by (intro last_conv_nth) auto
    ultimately show ?thesis using assms(4) by (simp add: nth_eq_iff_index_eq)
  qed
  with v show ?thesis unfolding served_def e by fastforce
qed

definition demo_job :: "int \<Rightarrow> sql_Job" where
  "demo_job k = \<lparr>sj_Key = k, sj_ProcessInstanceKey = 1, sj_Variables = [], sj_Type = ''t'', sj_State = 1,
     sj_ElementID = ''e'', sj_CreatedAt = 0\<rparr>"

definition demo_loader :: "job_type list \<Rightarrow> int list \<Rightarrow> int \<Rightarrow> error + sql_Job list" where
  "demo_loader ts ks n = Inr (filter (\<lambda>j. sj_Key j \<notin> set ks) [demo_job 1, demo_job 2])"

definition demo_server :: jobServer where
  "demo_server = handleJobStreamRecv ''n'' (TYPE_SUBSCRIBE ''b'' ''t'')
     (handleJobStreamRecv ''n'' (TYPE_SUBSCRIBE ''a'' ''t'') (newJobServer\<lparr>nodeSubs := [(''n'', \<lparr>ns_nodeID = ''n'', ns_stream = 0\<rparr>)]\<rparr>))"

lemma demo_serving: "serving demo_server" "loader_ok demo_loader"
proof -
  have "addNodeSubscription [''n''] 0 newJobServer = Ok (newJobServer\<lparr>nodeSubs := [(''n'', \<lparr>ns_nodeID = ''n'', ns_stream = 0\<rparr>)]\<rparr>)"
    by (simp add: addNodeSubscription_def newJobServer_def)
  then show "serving demo_server" unfolding demo_server_def by (intro serving.request serving.add_node [OF serving.start])
  show "loader_ok demo_loader" by (auto simp: loader_ok_def demo_loader_def demo_job_def)
qed

theorem job_is_given_to_one_client_witness:
  "\<exists>out s'. distributeJobs (\<lambda>_. 0) demo_loader demo_server = Ok (out, s') \<and> distinct (job_keys s')"
  using job_is_given_to_one_client [OF demo_serving, of "\<lambda>_. 0"] by blast

theorem last_client_gets_no_job_witness:
  "jt_clients (type_data demo_server ''t'') = [''a'', ''b''] \<and>
   (\<exists>out s'. distributeJobs (\<lambda>_. 0) demo_loader demo_server = Ok (out, s') \<and>
      map (\<lambda>(_, c, j). (c, sj_Key j)) out = [(''a'', 1), (''a'', 2)] \<and> ''b'' \<notin> (\<lambda>(_, c, _). c) ` {x \<in> set out. sj_Type (snd (snd x)) = ''t''})"
proof -
  have c: "jt_clients (type_data demo_server ''t'') = [''a'', ''b'']" by code_simp
  have "case distributeJobs (\<lambda>_. 0) demo_loader demo_server of
      Ok r \<Rightarrow> map (\<lambda>(_, c, j). (c, sj_Key j)) (fst r) = [(''a'', 1), (''a'', 2)] | _ \<Rightarrow> False" by code_simp
  then obtain out s' where d: "distributeJobs (\<lambda>_. 0) demo_loader demo_server = Ok (out, s')"
    and o: "map (\<lambda>(_, c, j). (c, sj_Key j)) out = [(''a'', 1), (''a'', 2)]"
    by (auto split: res.splits)
  from last_client_gets_no_job [OF demo_serving d, of "''t''"] c
  have "''b'' \<notin> (\<lambda>(_, c, _). c) ` {x \<in> set out. sj_Type (snd (snd x)) = ''t''}" by auto
  with c d o show ?thesis by (intro conjI exI [of _ out] exI [of _ s'])
qed

end
