(* ===== verification/Job_Client.thy ===== *)
theory Job_Client
  imports In_Memory Job_Server Cluster_Fsm Zenflake
begin

text \<open>
  The client side of job distribution (\<^verbatim>\<open>jobmanager/client.go\<close>, \<^verbatim>\<open>jobmanager/manager.go\<close>) and the connections it
  uses (\<^verbatim>\<open>client/client_manager.go\<close>). A node holds one stream to the leader of every partition; its own clients
  subscribe to job types through it and receive jobs on a channel each.

  Streams, channels, contexts and connections are numbers. What is sent and what is closed is recorded in
  the state, so that sending on a closed channel and closing a channel twice, which panic in Go, are visible.
  Dialling, opening a stream, sending on it, and whether a context is done are parameters.

  The safety theorem says that the channels of clients are never used after they are closed; the last one
  that a node never opens a stream to a new partition leader.
\<close>

section \<open>Connections\<close>

type_synonym connection = nat

record ClientManager =
  activeClients :: "(string \<times> connection) list"

definition newClient :: "(string \<Rightarrow> error + connection) \<Rightarrow> string \<Rightarrow> ClientManager \<Rightarrow> (error + connection) \<times> ClientManager" where
  "newClient dial nodeAddr m =
     (case dial nodeAddr of
        Inl e \<Rightarrow> (Inl (Wrapf ''failed to create new GRPC client'' e), m)
      | Inr c \<Rightarrow> (Inr c, m\<lparr>activeClients := AList.update nodeAddr c (activeClients m)\<rparr>))"

definition client_For :: "(string \<Rightarrow> error + connection) \<Rightarrow> string \<Rightarrow> ClientManager \<Rightarrow> (error + connection) \<times> ClientManager" where
  "client_For dial targetAddr m =
     (case map_of (activeClients m) targetAddr of
        None \<Rightarrow> newClient dial targetAddr m
      | Some c \<Rightarrow> (Inr c, m))"

definition client_PartitionLeaderWithID ::
  "(string \<Rightarrow> error + connection) \<Rightarrow> (partition_id \<Rightarrow> string \<times> string) \<Rightarrow> partition_id \<Rightarrow> ClientManager \<Rightarrow>
     (error + connection \<times> string) \<times> ClientManager" where
  "client_PartitionLeaderWithID dial leaderOf p m =
     (case leaderOf p of
        (leaderAddr, nodeId) \<Rightarrow>
          if leaderAddr = [] then (Inl (Errorf ''failed to get leader address for cluster client: no leader available''), m)
          else (case map_of (activeClients m) leaderAddr of
                  None \<Rightarrow>
                    (case newClient dial leaderAddr m of
                       (Inl e, m') \<Rightarrow> (Inl e, m')
                     | (Inr c, m') \<Rightarrow> (Inr (c, nodeId), m'))
                | Some c \<Rightarrow> (Inr (c, nodeId), m)))"

definition client_PartitionLeader ::
  "(string \<Rightarrow> error + connection) \<Rightarrow> (partition_id \<Rightarrow> string \<times> string) \<Rightarrow> partition_id \<Rightarrow> ClientManager \<Rightarrow>
     (error + connection) \<times> ClientManager" where
  "client_PartitionLeader dial leaderOf p m =
     (case client_PartitionLeaderWithID dial leaderOf p m of
        (Inl e, m') \<Rightarrow> (Inl e, m')
      | (Inr (c, _), m') \<Rightarrow> (Inr c, m'))"

definition ClusterLeader ::
  "(string \<Rightarrow> error + connection) \<Rightarrow> string \<times> string \<Rightarrow> ClientManager \<Rightarrow> (error + connection) \<times> ClientManager" where
  "ClusterLeader dial leader m =
     (if fst leader = [] then (Inl (Errorf ''failed to get leader address for cluster client: no leader available''), m)
      else client_For dial (fst leader) m)"

section \<open>State of the job client\<close>

record clientSub =
  cs_ctx :: nat
  cs_ch :: nat
  cs_clientID :: client_id

record clientNodeStream =
  st_stream :: nat
  st_nodeID :: string
  st_partition :: partition_id

record Job_msg =
  jm_Key :: int
  jm_InstanceKey :: int
  jm_Variables :: string
  jm_Type :: job_type
  jm_State :: int
  jm_ElementID :: string
  jm_CreatedAt :: int
  jm_ClientID :: client_id

record jobClient =
  clientSubs :: "(client_id \<times> clientSub) list"
  nodeStreams :: "clientNodeStream list"
  jc_manager :: ClientManager
  delivered :: "(nat \<times> Job_msg) list"
  closedChannels :: "nat list"
  requests :: "(nat \<times> SubscribeJobRequest) list"
  closedStreams :: "nat list"

definition newJobClient :: jobClient where
  "newJobClient = \<lparr>clientSubs = [], nodeStreams = [], jc_manager = \<lparr>activeClients = []\<rparr>, delivered = [],
     closedChannels = [], requests = [], closedStreams = []\<rparr>"

text \<open>What the network does: dialling, the leaders known to the store, opening a job stream, sending, and
  which streams are dead.\<close>

record net =
  net_dial :: "string \<Rightarrow> error + connection"
  net_leader :: "partition_id \<Rightarrow> string \<times> string"
  net_SubscribeJob :: "connection \<Rightarrow> error + nat"
  net_Send :: "nat \<Rightarrow> SubscribeJobRequest \<Rightarrow> error option"
  net_streamErr :: "nat \<Rightarrow> bool"
  net_ctxErr :: "nat \<Rightarrow> bool"

section \<open>Streams to the partition leaders\<close>

text \<open>The stream is stored without its partition, which keeps its zero value.\<close>

definition subscribeNodeToPartition :: "net \<Rightarrow> partition_id \<Rightarrow> jobClient \<Rightarrow> jobClient" where
  "subscribeNodeToPartition N p c =
     (case client_PartitionLeaderWithID (net_dial N) (net_leader N) p (jc_manager c) of
        (Inl _, m) \<Rightarrow> c\<lparr>jc_manager := m\<rparr>
      | (Inr (lClient, nodeID), m) \<Rightarrow>
          (case net_SubscribeJob N lClient of
             Inl _ \<Rightarrow> c\<lparr>jc_manager := m\<rparr>
           | Inr stream \<Rightarrow>
               c\<lparr>jc_manager := m,
                 nodeStreams := nodeStreams c @ [\<lparr>st_stream = stream, st_nodeID = nodeID, st_partition = 0\<rparr>]\<rparr>))"

definition subscribeNode :: "net \<Rightarrow> Cluster \<Rightarrow> jobClient \<Rightarrow> jobClient" where
  "subscribeNode N s c = fold (\<lambda>p. subscribeNodeToPartition N (pa_Id (snd p))) (Partitions s) c"

text \<open>The leaders of the initialized partitions; a missing entry of a map has the zero state.\<close>

definition leader_initialized :: "Cluster \<Rightarrow> Partition \<Rightarrow> bool" where
  "leader_initialized s pa \<longleftrightarrow>
     (case map_of (Nodes s) (pa_LeaderId pa) of
        None \<Rightarrow> False
      | Some node \<Rightarrow>
          (case map_of (node_partitions node) (pa_Id pa) of
             None \<Rightarrow> False
           | Some np \<Rightarrow> np_State np = NodePartitionStateInitialized))"

definition known_leaders :: "Cluster \<Rightarrow> (partition_id \<times> string) list" where
  "known_leaders s =
     fold (\<lambda>p ls. if leader_initialized s (snd p) then AList.update (pa_Id (snd p)) (pa_LeaderId (snd p)) ls else ls)
       (Partitions s) []"

text \<open>The loop over the streams, from the last to the first; \<open>kept\<close> are the streams that stay.\<close>

fun update_streams ::
  "net \<Rightarrow> (partition_id \<times> string) list \<Rightarrow> clientNodeStream list \<Rightarrow>
     clientNodeStream list \<times> nat list \<times> partition_id list \<Rightarrow> clientNodeStream list \<times> nat list \<times> partition_id list" where
  "update_streams N ls [] acc = acc"
| "update_streams N ls (stream # streams) (kept, closed, toSubscribe) =
     update_streams N ls streams
       (if st_nodeID stream \<notin> snd ` set ls \<or> net_streamErr N (st_stream stream)
        then (kept, closed @ [st_stream stream], toSubscribe)
        else case map_of ls (st_partition stream) of
               None \<Rightarrow> (stream # kept, closed, toSubscribe)
             | Some assignedLeader \<Rightarrow>
                 if assignedLeader \<noteq> st_nodeID stream
                 then (kept, closed @ [st_stream stream], toSubscribe)
                 else (stream # kept, closed, filter (\<lambda>a. a \<noteq> st_partition stream) toSubscribe))"

definition updateNodeSubs :: "net \<Rightarrow> Cluster \<Rightarrow> jobClient \<Rightarrow> jobClient" where
  "updateNodeSubs N s c =
     (case update_streams N (known_leaders s) (rev (nodeStreams c)) ([], [], []) of
        (kept, closed, partitionsToSubscribe) \<Rightarrow>
          fold (subscribeNodeToPartition N) partitionsToSubscribe
            (c\<lparr>nodeStreams := kept, closedStreams := closedStreams c @ closed\<rparr>))"

section \<open>Clients\<close>

fun broadcast_loop :: "net \<Rightarrow> SubscribeJobRequest \<Rightarrow> clientNodeStream list \<Rightarrow> (nat \<times> SubscribeJobRequest) list \<times> error option" where
  "broadcast_loop N req [] = ([], None)"
| "broadcast_loop N req (stream # streams) =
     (case broadcast_loop N req streams of
        (sent, err) \<Rightarrow>
          (case net_Send N (st_stream stream) req of
             None \<Rightarrow> ((st_stream stream, req) # sent, err)
           | Some e \<Rightarrow> (sent, join_err (Some (Wrapf ''failed to send request to nodeID'' e)) err)))"

definition broadcastToNodes :: "net \<Rightarrow> SubscribeJobRequest \<Rightarrow> jobClient \<Rightarrow> error option \<times> jobClient" where
  "broadcastToNodes N req c =
     (case broadcast_loop N req (nodeStreams c) of
        (sent, err) \<Rightarrow> (err, c\<lparr>requests := requests c @ sent\<rparr>))"

definition addClient :: "nat \<Rightarrow> client_id \<Rightarrow> nat \<Rightarrow> jobClient \<Rightarrow> error option \<times> jobClient" where
  "addClient ctx clientID clientRcv c =
     (case map_of (clientSubs c) clientID of
        Some _ \<Rightarrow> (Some (Errorf ''client with this id is already subscribed''), c)
      | None \<Rightarrow>
          (None, c\<lparr>clientSubs := AList.update clientID
             \<lparr>cs_ctx = ctx, cs_ch = clientRcv, cs_clientID = clientID\<rparr> (clientSubs c)\<rparr>))"

definition close_channel :: "nat \<Rightarrow> jobClient \<Rightarrow> jobClient res" where
  "close_channel ch c =
     (if ch \<in> set (closedChannels c) then Panic ''close of closed channel''
      else Ok (c\<lparr>closedChannels := closedChannels c @ [ch]\<rparr>))"

definition removeClient_sub :: "net \<Rightarrow> client_id \<Rightarrow> jobClient \<Rightarrow> jobClient res" where
  "removeClient_sub N clientID c =
     (case map_of (clientSubs c) clientID of
        None \<Rightarrow> Ok c
      | Some sub \<Rightarrow>
          (let c1 = snd (broadcastToNodes N (TYPE_UNSUBSCRIBE_ALL clientID) c) in
           close_channel (cs_ch sub) (c1\<lparr>clientSubs := AList.delete clientID (clientSubs c1)\<rparr>)))"

definition sendJobToClient :: "net \<Rightarrow> Job_msg \<Rightarrow> jobClient \<Rightarrow> jobClient res" where
  "sendJobToClient N job c =
     (case map_of (clientSubs c) (jm_ClientID job) of
        None \<Rightarrow> Ok c
      | Some pickedClient \<Rightarrow>
          if net_ctxErr N (cs_ctx pickedClient) then removeClient_sub N (cs_clientID pickedClient) c
          else if cs_ch pickedClient \<in> set (closedChannels c) then Panic ''send on closed channel''
          else Ok (c\<lparr>delivered := delivered c @ [(cs_ch pickedClient, job)]\<rparr>))"

definition addJobSub :: "net \<Rightarrow> client_id \<Rightarrow> job_type \<Rightarrow> jobClient \<Rightarrow> error option \<times> jobClient" where
  "addJobSub N clientID jobType c =
     (case broadcastToNodes N (TYPE_SUBSCRIBE clientID jobType) c of
        (None, c') \<Rightarrow> (None, c')
      | (Some e, c') \<Rightarrow> (Some (Wrapf ''failed to subscribe client to jobType'' e), c'))"

definition removeJobSub :: "net \<Rightarrow> client_id \<Rightarrow> job_type \<Rightarrow> jobClient \<Rightarrow> error option \<times> jobClient" where
  "removeJobSub N clientID jobType c =
     (case broadcastToNodes N (TYPE_UNSUBSCRIBE clientID jobType) c of
        (None, c') \<Rightarrow> (None, c')
      | (Some e, c') \<Rightarrow> (Some (Wrapf ''failed to unsubscribe client from jobType'' e), c'))"

text \<open>Completing and failing a job are calls to the leader of the partition in its key.\<close>

definition client_completeJob ::
  "net \<Rightarrow> (vars \<Rightarrow> error + string) \<Rightarrow> (connection \<Rightarrow> client_id \<Rightarrow> 64 word \<Rightarrow> string \<Rightarrow> error option) \<Rightarrow>
     client_id \<Rightarrow> 64 word \<Rightarrow> vars \<Rightarrow> jobClient \<Rightarrow> error option \<times> jobClient" where
  "client_completeJob N Marshal CompleteJob clientID jobKey variables c =
     (case client_PartitionLeader (net_dial N) (net_leader N) (GetPartitionId jobKey) (jc_manager c) of
        (Inl e, m) \<Rightarrow> (Some (Wrapf ''failed to retrieve client for partition leader'' e), c\<lparr>jc_manager := m\<rparr>)
      | (Inr lClient, m) \<Rightarrow>
          (case Marshal variables of
             Inl e \<Rightarrow> (Some (Wrapf ''failed to marshal variables for job completion'' e), c\<lparr>jc_manager := m\<rparr>)
           | Inr vs \<Rightarrow>
               (map_option (Wrapf ''failed to complete job from client'') (CompleteJob lClient clientID jobKey vs),
                c\<lparr>jc_manager := m\<rparr>)))"

definition client_failJob ::
  "net \<Rightarrow> (vars \<Rightarrow> error + string) \<Rightarrow> (connection \<Rightarrow> 64 word \<Rightarrow> string \<Rightarrow> string option \<Rightarrow> string \<Rightarrow> error option) \<Rightarrow>
     64 word \<Rightarrow> string \<Rightarrow> string option \<Rightarrow> vars \<Rightarrow> jobClient \<Rightarrow> error option \<times> jobClient" where
  "client_failJob N Marshal FailJob jobKey message errorCode variables c =
     (case client_PartitionLeader (net_dial N) (net_leader N) (GetPartitionId jobKey) (jc_manager c) of
        (Inl e, m) \<Rightarrow> (Some (Wrapf ''failed to retrieve client for partition leader'' e), c\<lparr>jc_manager := m\<rparr>)
      | (Inr lClient, m) \<Rightarrow>
          (case Marshal variables of
             Inl e \<Rightarrow> (Some (Wrapf ''failed to marshal variables for job failure'' e), c\<lparr>jc_manager := m\<rparr>)
           | Inr vs \<Rightarrow>
               (map_option (Wrapf ''failed to fail job from client'') (FailJob lClient jobKey message errorCode vs),
                c\<lparr>jc_manager := m\<rparr>)))"

section \<open>The job manager\<close>

text \<open>\<open>jm_server\<close> is \<open>None\<close> while the server is not running; \<^verbatim>\<open>serverCtx\<close> is nil exactly then.\<close>

record JobManager =
  jm_client :: jobClient
  jm_server :: "jobServer option"
  currentPartitionRoles :: "(partition_id \<times> string \<times> NodePartitionState) list"

definition NodeIsNotALeader :: error where
  "NodeIsNotALeader = Errorf ''Node is not a leader''"

definition manager_Start :: "net \<Rightarrow> Cluster \<Rightarrow> JobManager \<Rightarrow> JobManager" where
  "manager_Start N s m = m\<lparr>jm_server := Some newJobServer, jm_client := subscribeNode N s (jm_client m)\<rparr>"

definition AddNodeSubscription :: "string list \<Rightarrow> nat \<Rightarrow> JobManager \<Rightarrow> JobManager res" where
  "AddNodeSubscription nodeIds stream m =
     (case jm_server m of
        None \<Rightarrow> Err NodeIsNotALeader
      | Some srv \<Rightarrow>
          (case addNodeSubscription nodeIds stream srv of
             Ok srv' \<Rightarrow> Ok (m\<lparr>jm_server := Some srv'\<rparr>)
           | Err e \<Rightarrow> Err e
           | Panic msg \<Rightarrow> Panic msg
           | Blocked \<Rightarrow> Blocked
           | NoFuel \<Rightarrow> NoFuel))"

text \<open>\<open>err\<close> is what completing the job in the engine returns.\<close>

definition manager_CompleteJob :: "error option \<Rightarrow> int \<Rightarrow> JobManager \<Rightarrow> error option \<times> JobManager" where
  "manager_CompleteJob err jobKey m =
     (case jm_server m of
        None \<Rightarrow> (Some NodeIsNotALeader, m)
      | Some srv \<Rightarrow> (case completeJob err jobKey srv of (e, srv') \<Rightarrow> (e, m\<lparr>jm_server := Some srv'\<rparr>)))"

definition manager_FailJob :: "error option \<Rightarrow> int \<Rightarrow> JobManager \<Rightarrow> error option \<times> JobManager" where
  "manager_FailJob err jobKey m =
     (case jm_server m of
        None \<Rightarrow> (Some NodeIsNotALeader, m)
      | Some srv \<Rightarrow> (case failJob err jobKey srv of (e, srv') \<Rightarrow> (e, m\<lparr>jm_server := Some srv'\<rparr>)))"

text \<open>A missing node or partition entry has the zero state.\<close>

definition partition_roles :: "Cluster \<Rightarrow> (partition_id \<times> string \<times> NodePartitionState) list" where
  "partition_roles s =
     map (\<lambda>(i, pa).
       (i, pa_LeaderId pa,
        (case map_of (Nodes s) (pa_LeaderId pa) of
           None \<Rightarrow> NodePartitionStateUnknown
         | Some node \<Rightarrow>
             (case map_of (node_partitions node) (pa_Id pa) of
                None \<Rightarrow> NodePartitionStateUnknown
              | Some np \<Rightarrow> np_State np)))) (Partitions s)"

text \<open>The reaction to a change of leaders is commented out in the code: only the roles are remembered.\<close>

definition OnClusterStateChange :: "Cluster \<Rightarrow> JobManager \<Rightarrow> JobManager" where
  "OnClusterStateChange s m =
     (if map_of (currentPartitionRoles m) = map_of (partition_roles s) then m
      else m\<lparr>currentPartitionRoles := partition_roles s\<rparr>)"

definition OnPartitionRoleChange :: "net \<Rightarrow> string \<Rightarrow> Cluster \<Rightarrow> JobManager \<Rightarrow> JobManager" where
  "OnPartitionRoleChange N nodeID s m =
     (let isLeader = list_ex (\<lambda>(_, pa). leader_initialized s pa \<and> pa_LeaderId pa = nodeID) (Partitions s);
          m1 = (if isLeader \<and> jm_server m = None then m\<lparr>jm_server := Some newJobServer\<rparr> else m);
          m2 = (if \<not> isLeader \<and> jm_server m1 \<noteq> None then m1\<lparr>jm_server := None\<rparr> else m1)
      in m2\<lparr>jm_client := updateNodeSubs N s (jm_client m2)\<rparr>)"

text \<open>\<^verbatim>\<open>onJobRejected\<close> of the server is empty.\<close>

definition OnJobRejected :: "JobManager \<Rightarrow> error option" where
  "OnJobRejected m = (case jm_server m of None \<Rightarrow> Some NodeIsNotALeader | Some _ \<Rightarrow> None)"

section \<open>Channels of clients\<close>

text \<open>The operations on the clients and streams of a node, each with the behaviour of the network at that time.\<close>

datatype client_op =
    OpAddClient nat client_id nat
  | OpRemoveClient client_id
  | OpSendJob Job_msg
  | OpAddJobSub client_id job_type
  | OpRemoveJobSub client_id job_type
  | OpUpdateNodeSubs Cluster
  | OpSubscribeNode Cluster

fun exec_op :: "net \<Rightarrow> client_op \<Rightarrow> jobClient \<Rightarrow> jobClient res" where
  "exec_op N (OpAddClient ctx i ch) c = Ok (snd (addClient ctx i ch c))"
| "exec_op N (OpRemoveClient i) c = removeClient_sub N i c"
| "exec_op N (OpSendJob job) c = sendJobToClient N job c"
| "exec_op N (OpAddJobSub i t) c = Ok (snd (addJobSub N i t c))"
| "exec_op N (OpRemoveJobSub i t) c = Ok (snd (removeJobSub N i t c))"
| "exec_op N (OpUpdateNodeSubs s) c = Ok (updateNodeSubs N s c)"
| "exec_op N (OpSubscribeNode s) c = Ok (subscribeNode N s c)"

fun exec_ops :: "(net \<times> client_op) list \<Rightarrow> jobClient \<Rightarrow> jobClient res" where
  "exec_ops [] c = Ok c"
| "exec_ops ((N, op) # ops) c =
     (case exec_op N op c of
        Ok c' \<Rightarrow> exec_ops ops c'
      | Err e \<Rightarrow> Err e | Panic msg \<Rightarrow> Panic msg | Blocked \<Rightarrow> Blocked | NoFuel \<Rightarrow> NoFuel)"

fun op_channels :: "client_op \<Rightarrow> nat list" where
  "op_channels (OpAddClient _ _ ch) = [ch]"
| "op_channels _ = []"

definition added_channels :: "(net \<times> client_op) list \<Rightarrow> nat list" where
  "added_channels ops = concat (map (op_channels \<circ> snd) ops)"

text \<open>The invariant, with the channels handed out so far (\<open>used\<close>) and the registrations \<open>reg\<close> made with them.\<close>

definition channels_ok :: "nat set \<Rightarrow> (client_id \<times> nat) set \<Rightarrow> jobClient \<Rightarrow> bool" where
  "channels_ok used reg c \<longleftrightarrow>
     (\<forall>i sub. map_of (clientSubs c) i = Some sub \<longrightarrow>
        cs_clientID sub = i \<and> cs_ch sub \<in> used \<and> cs_ch sub \<notin> set (closedChannels c) \<and> (i, cs_ch sub) \<in> reg) \<and>
     (\<forall>i j a b. map_of (clientSubs c) i = Some a \<longrightarrow> map_of (clientSubs c) j = Some b \<longrightarrow> cs_ch a = cs_ch b \<longrightarrow> i = j) \<and>
     set (closedChannels c) \<subseteq> used \<and>
     (\<forall>(ch, job) \<in> set (delivered c). (jm_ClientID job, ch) \<in> reg)"

fun op_registers :: "client_op \<Rightarrow> (client_id \<times> nat) set" where
  "op_registers (OpAddClient _ i ch) = {(i, ch)}"
| "op_registers _ = {}"

lemma channels_ok_cong:
  "channels_ok used reg c \<Longrightarrow> clientSubs c' = clientSubs c \<Longrightarrow> closedChannels c' = closedChannels c \<Longrightarrow>
   delivered c' = delivered c \<Longrightarrow> channels_ok used reg c'"
  by (simp add: channels_ok_def)

lemma subscribe_keeps:
  "clientSubs (subscribeNodeToPartition N p c) = clientSubs c"
  "closedChannels (subscribeNodeToPartition N p c) = closedChannels c"
  "delivered (subscribeNodeToPartition N p c) = delivered c"
  by (auto simp: subscribeNodeToPartition_def split: prod.splits sum.splits)

lemma fold_subscribe_keeps:
  "clientSubs (fold (\<lambda>x. subscribeNodeToPartition N (f x)) ps c) = clientSubs c"
  "closedChannels (fold (\<lambda>x. subscribeNodeToPartition N (f x)) ps c) = closedChannels c"
  "delivered (fold (\<lambda>x. subscribeNodeToPartition N (f x)) ps c) = delivered c"
  by (induction ps arbitrary: c) (simp_all add: subscribe_keeps)

lemma broadcast_keeps:
  "clientSubs (snd (broadcastToNodes N req c)) = clientSubs c"
  "closedChannels (snd (broadcastToNodes N req c)) = closedChannels c"
  "delivered (snd (broadcastToNodes N req c)) = delivered c"
  by (auto simp: broadcastToNodes_def split: prod.splits)

lemma job_sub_keeps:
  "snd (addJobSub N i t c) = snd (broadcastToNodes N (TYPE_SUBSCRIBE i t) c)"
  "snd (removeJobSub N i t c) = snd (broadcastToNodes N (TYPE_UNSUBSCRIBE i t) c)"
  by (auto simp: addJobSub_def removeJobSub_def split: prod.splits option.splits)

lemma channels_ok_add:
  assumes "channels_ok used reg c" and "ch \<notin> used"
  shows "channels_ok (insert ch used) (insert (i, ch) reg) (snd (addClient ctx i ch c))"
  using assms by (auto simp: channels_ok_def addClient_def update_conv' split: option.splits)

lemma channels_ok_remove:
  assumes "channels_ok used reg c"
  shows "\<exists>c'. removeClient_sub N i c = Ok c' \<and> channels_ok used reg c'"
proof (cases "map_of (clientSubs c) i")
  case None
  with assms show ?thesis by (simp add: removeClient_sub_def)
next
  case (Some sub)
  with assms show ?thesis
    by (auto simp: removeClient_sub_def close_channel_def channels_ok_def broadcast_keeps delete_conv' Let_def split: if_splits)
qed

lemma exec_op_ok:
  assumes "channels_ok used reg c" and "\<forall>ch \<in> set (op_channels op). ch \<notin> used"
  shows "\<exists>c'. exec_op N op c = Ok c' \<and> channels_ok (set (op_channels op) \<union> used) (op_registers op \<union> reg) c'"
proof (cases op)
  case (OpAddClient ctx i ch)
  with assms channels_ok_add show ?thesis by simp
next
  case (OpRemoveClient i)
  with assms channels_ok_remove show ?thesis by simp
next
  case (OpSendJob job)
  show ?thesis
  proof (cases "map_of (clientSubs c) (jm_ClientID job)")
    case None
    with assms OpSendJob show ?thesis by (simp add: sendJobToClient_def)
  next
    case (Some sub)
    then have ok: "cs_ch sub \<notin> set (closedChannels c)" "(jm_ClientID job, cs_ch sub) \<in> reg"
      using assms(1) by (auto simp: channels_ok_def)
    then have "channels_ok used reg (c\<lparr>delivered := delivered c @ [(cs_ch sub, job)]\<rparr>)"
      using assms(1) by (auto simp: channels_ok_def)
    with Some ok OpSendJob channels_ok_remove [OF assms(1)] show ?thesis by (simp add: sendJobToClient_def)
  qed
next
  case (OpUpdateNodeSubs s)
  with assms(1) show ?thesis
    by (auto simp: updateNodeSubs_def fold_subscribe_keeps [where f = "\<lambda>x. x", simplified]
        intro!: channels_ok_cong [OF assms(1)] split: prod.splits)
next
  case (OpSubscribeNode s)
  then show ?thesis
    by (auto simp: subscribeNode_def fold_subscribe_keeps intro!: channels_ok_cong [OF assms(1)])
qed (auto simp: job_sub_keeps broadcast_keeps intro!: channels_ok_cong [OF assms(1)])

lemma exec_ops_ok:
  assumes "channels_ok used reg c" and "distinct (added_channels ops)" and "set (added_channels ops) \<inter> used = {}"
  shows "\<exists>c'. exec_ops ops c = Ok c' \<and>
    channels_ok (set (added_channels ops) \<union> used) ((\<Union>x \<in> set ops. op_registers (snd x)) \<union> reg) c'"
  using assms
proof (induction ops arbitrary: used reg c)
  case (Cons x ops)
  obtain N op where x: "x = (N, op)" by (cases x)
  have fresh: "\<forall>ch \<in> set (op_channels op). ch \<notin> used" using Cons.prems(3) x by (auto simp: added_channels_def)
  from exec_op_ok [OF Cons.prems(1) fresh] obtain c1 where c1: "exec_op N op c = Ok c1"
    "channels_ok (set (op_channels op) \<union> used) (op_registers op \<union> reg) c1" by blast
  have "distinct (added_channels ops)" "set (added_channels ops) \<inter> (set (op_channels op) \<union> used) = {}"
    using Cons.prems(2,3) x by (auto simp: added_channels_def)
  from Cons.IH [OF c1(2) this] show ?case
    using c1(1) x by (auto simp: added_channels_def Un_assoc Un_left_commute)
qed (simp add: added_channels_def)

text \<open>C30. The channels of job clients are safe: in every sequence of operations on a node (clients coming, leaving and
  subscribing, jobs arriving, streams being opened and closed, with any behaviour of the network and of the
  contexts of clients) in which each client comes with a channel of its own, no operation sends on a closed
  channel or closes one twice, and every job is delivered on a channel that was registered by the client the
  job is meant for.\<close>

theorem job_channels_are_safe:
  assumes "distinct (added_channels ops)"
  shows "\<exists>c. exec_ops ops newJobClient = Ok c \<and>
    (\<forall>(ch, job) \<in> set (delivered c). \<exists>N ctx. (N, OpAddClient ctx (jm_ClientID job) ch) \<in> set ops)"
proof -
  have "channels_ok {} {} newJobClient" by (simp add: channels_ok_def newJobClient_def)
  from exec_ops_ok [OF this assms] obtain c where c: "exec_ops ops newJobClient = Ok c"
    "channels_ok (set (added_channels ops) \<union> {}) ((\<Union>x \<in> set ops. op_registers (snd x)) \<union> {}) c" by auto
  have "\<exists>N ctx. (N, OpAddClient ctx i ch) \<in> set ops" if "(i, ch) \<in> (\<Union>x \<in> set ops. op_registers (snd x))" for i ch
  proof -
    from that obtain N op where "(N, op) \<in> set ops" "(i, ch) \<in> op_registers op" by auto
    then show ?thesis by (cases op) auto
  qed
  with c show ?thesis by (fastforce simp: channels_ok_def)
qed

definition demo_net :: net where
  "demo_net = \<lparr>net_dial = (\<lambda>_. Inr 0), net_leader = (\<lambda>_. (''addr2'', ''n2'')), net_SubscribeJob = (\<lambda>_. Inr 7),
     net_Send = (\<lambda>_ _. None), net_streamErr = (\<lambda>_. False), net_ctxErr = (\<lambda>ctx. ctx = 1)\<rparr>"

definition demo_msg :: "client_id \<Rightarrow> Job_msg" where
  "demo_msg i = \<lparr>jm_Key = 1, jm_InstanceKey = 2, jm_Variables = [], jm_Type = ''work'', jm_State = 0, jm_ElementID = [],
     jm_CreatedAt = 0, jm_ClientID = i\<rparr>"

theorem job_channels_are_safe_witness:
  "\<exists>c. exec_ops [(demo_net, OpAddClient 0 ''a'' 10), (demo_net, OpAddClient 1 ''b'' 11), (demo_net, OpSendJob (demo_msg ''a'')),
      (demo_net, OpSendJob (demo_msg ''b'')), (demo_net, OpSendJob (demo_msg ''b'')), (demo_net, OpRemoveClient ''b''),
      (demo_net, OpAddClient 0 ''b'' 12), (demo_net, OpRemoveClient ''b'')] newJobClient = Ok c"
  (is "\<exists>c. exec_ops ?ops _ = _")
proof -
  have "distinct (added_channels ?ops)" by (simp add: added_channels_def)
  from job_channels_are_safe [OF this] show ?thesis by blast
qed

section \<open>New leaders\<close>

lemma update_streams_none: "snd (snd (update_streams N ls streams (kept, closed, []))) = []"
  by (induction streams arbitrary: kept closed) (auto split: option.splits)

lemma update_streams_subset:
  "set (fst (update_streams N ls streams (kept, closed, ts))) \<subseteq> set streams \<union> set kept"
proof (induction streams arbitrary: kept closed ts)
  case (Cons st streams)
  show ?case using Cons.IH by (auto split: option.splits) (metis (no_types, lifting) Un_iff list.set_intros set_ConsD subsetD)+
qed simp

text \<open>A node never opens a job stream to a new partition leader: whatever leaders the cluster state names, the
  streams after the reaction to a change of leaders are among those before, so a leader the node had no
  stream to stays without one; the list of partitions to subscribe to starts empty and only shrinks.\<close>

theorem new_leader_gets_no_stream:
  assumes "\<forall>st \<in> set (nodeStreams c). st_nodeID st \<noteq> leader"
  shows "set (nodeStreams (updateNodeSubs N s c)) \<subseteq> set (nodeStreams c) \<and>
    (\<forall>st \<in> set (nodeStreams (updateNodeSubs N s c)). st_nodeID st \<noteq> leader)"
proof -
  obtain kept closed ts where u: "update_streams N (known_leaders s) (rev (nodeStreams c)) ([], [], []) = (kept, closed, ts)"
    by (metis prod_cases3)
  from update_streams_none [of N "known_leaders s" "rev (nodeStreams c)" "[]" "[]"] u have "ts = []" by simp
  moreover from update_streams_subset [of N "known_leaders s" "rev (nodeStreams c)" "[]" "[]" "[]"] u
  have "set kept \<subseteq> set (nodeStreams c)" by simp
  ultimately show ?thesis using u assms by (auto simp: updateNodeSubs_def)
qed

text \<open>A cluster whose only partition has moved from the node \<open>n1\<close> to the node \<open>n2\<close>.\<close>

definition moved_cluster :: Cluster where
  "moved_cluster = \<lparr>DesiredPartitions = 1, Partitions = [(1, \<lparr>pa_Id = 1, pa_LeaderId = ''n2''\<rparr>)],
     Nodes = [(''n2'', zero_Node\<lparr>nd_Id := ''n2'', nd_Addr := ''addr2'',
       nd_Partitions := Some [(1, \<lparr>np_Id = 1, np_State = NodePartitionStateInitialized, np_Role = RoleLeader\<rparr>)]\<rparr>)]\<rparr>"

theorem new_leader_gets_no_stream_witness:
  "known_leaders moved_cluster = [(1, ''n2'')] \<and>
   ''n2'' \<notin> st_nodeID ` set (nodeStreams (updateNodeSubs demo_net moved_cluster
     (newJobClient\<lparr>nodeStreams := [\<lparr>st_stream = 3, st_nodeID = ''n1'', st_partition = 0\<rparr>]\<rparr>)))"
proof -
  let ?c = "newJobClient\<lparr>nodeStreams := [\<lparr>st_stream = 3, st_nodeID = ''n1'', st_partition = 0\<rparr>]\<rparr>"
  have "\<forall>st \<in> set (nodeStreams ?c). st_nodeID st \<noteq> ''n2''" by simp
  from new_leader_gets_no_stream [OF this, of demo_net moved_cluster]
  have "''n2'' \<notin> st_nodeID ` set (nodeStreams (updateNodeSubs demo_net moved_cluster ?c))" by auto
  moreover have "known_leaders moved_cluster = [(1, ''n2'')]"
    by (simp add: known_leaders_def moved_cluster_def leader_initialized_def node_partitions_def)
  ultimately show ?thesis by simp
qed

end
