(* ===== verification/Ttl.thy ===== *)
theory Ttl
  imports Zen_Prelude "HOL-Library.Word"
begin

text \<open>
  The parser of time-to-live strings (\<^verbatim>\<open>types/ttl.go\<close>), on 64-bit words. Strings are bytes. Fractions are
  computed in \<^verbatim>\<open>float64\<close> arithmetic: a non-negative float is a dyadic number \<open>m * 2 ^ e\<close>, and every operation
  rounds its exact result to 53 significant bits, ties to even. The exponent is unbounded here; the
  floats that occur are far from underflow, and a scale that overflows to infinity in Go gives the
  fraction 0 in both.

  The theorem on sums says what the parser computes on every string of whole numbers and units within
  the range; the one on wrap-around shows that the overflow check of the sum misses one value.
\<close>

section \<open>Floats\<close>

type_synonym float64 = "int \<times> int"

function bit_length :: "int \<Rightarrow> nat" where
  "bit_length m = (if m \<le> 0 then 0 else Suc (bit_length (m div 2)))"
  by pat_completeness auto
termination by (relation "measure nat") auto

declare bit_length.simps [simp del]

definition round53 :: "int \<Rightarrow> int \<Rightarrow> float64" where
  "round53 m e =
     (let b = bit_length m in
      if b \<le> 53 then (m, e)
      else
        (let k = b - 53; q = m div 2 ^ k; r = m mod 2 ^ k; half = 2 ^ (k - 1)
         in (if r > half \<or> r = half \<and> odd q then q + 1 else q, e + int k)))"

definition float_of :: "64 word \<Rightarrow> float64" where
  "float_of w = round53 (uint w) 0"

definition float_mul :: "float64 \<Rightarrow> float64 \<Rightarrow> float64" where
  "float_mul a b = round53 (fst a * fst b) (snd a + snd b)"

text \<open>The quotient is computed with at least 55 bits, the last of which says whether anything is left.\<close>

definition float_div :: "float64 \<Rightarrow> float64 \<Rightarrow> float64" where
  "float_div a b =
     (let k = 55 + bit_length (fst b); n = fst a * 2 ^ k; q = n div fst b; sticky = (if n mod fst b = 0 then 0 else 1)
      in round53 (2 * q + sticky) (snd a - snd b - int k - 1))"

definition float_to_uint64 :: "float64 \<Rightarrow> 64 word" where
  "float_to_uint64 a =
     (if snd a \<ge> 0 then of_int (fst a * 2 ^ nat (snd a)) else of_int (fst a div 2 ^ nat (- snd a)))"

section \<open>Units\<close>

definition Nanosecond :: "64 word" where "Nanosecond = 1"
definition Microsecond :: "64 word" where "Microsecond = 1000 * Nanosecond"
definition Millisecond :: "64 word" where "Millisecond = 1000 * Microsecond"
definition Second :: "64 word" where "Second = 1000 * Millisecond"
definition Minute :: "64 word" where "Minute = 60 * Second"
definition Hour :: "64 word" where "Hour = 60 * Minute"
definition Day :: "64 word" where "Day = 24 * Hour"
definition Week :: "64 word" where "Week = 7 * Day"
definition Month :: "64 word" where "Month = 30 * Day"
definition Year :: "64 word" where "Year = 365 * Day"

lemmas unit_defs = Nanosecond_def Microsecond_def Millisecond_def Second_def Minute_def Hour_def Day_def Week_def
  Month_def Year_def

definition unitMap :: "(string \<times> 64 word) list" where
  "unitMap =
     [(''ns'', Nanosecond), (''us'', Microsecond),
      ([CHR 0xC2, CHR 0xB5, CHR ''s''], Microsecond), ([CHR 0xCE, CHR 0xBC, CHR ''s''], Microsecond),
      (''ms'', Millisecond), (''s'', Second), (''m'', Minute), (''h'', Hour), (''d'', Day), (''w'', Week),
      (''M'', Month), (''Y'', Year)]"

section \<open>Parsing\<close>

definition is_digit :: "char \<Rightarrow> bool" where
  "is_digit c \<longleftrightarrow> 48 \<le> (of_char c :: nat) \<and> (of_char c :: nat) \<le> 57"

definition digit :: "char \<Rightarrow> 64 word" where
  "digit c = of_nat (of_char c) - 48"

definition number_char :: "char \<Rightarrow> bool" where
  "number_char c \<longleftrightarrow> c = CHR ''.'' \<or> is_digit c"

fun leadingInt :: "64 word \<Rightarrow> string \<Rightarrow> error + (64 word \<times> string)" where
  "leadingInt x [] = Inr (x, [])"
| "leadingInt x (c # cs) =
     (if \<not> is_digit c then Inr (x, c # cs)
      else if x > 2 ^ 63 div 10 then Inl (Errorf ''time: bad [0-9]*'')
      else
        (let x' = x * 10 + digit c in
         if x' > 2 ^ 63 then Inl (Errorf ''time: bad [0-9]*'') else leadingInt x' cs))"

fun leadingFraction :: "64 word \<Rightarrow> float64 \<Rightarrow> bool \<Rightarrow> string \<Rightarrow> 64 word \<times> float64 \<times> string" where
  "leadingFraction x scale overflow [] = (x, scale, [])"
| "leadingFraction x scale overflow (c # cs) =
     (if \<not> is_digit c then (x, scale, c # cs)
      else if overflow then leadingFraction x scale overflow cs
      else if x > (2 ^ 63 - 1) div 10 then leadingFraction x scale True cs
      else
        (let y = x * 10 + digit c in
         if y > 2 ^ 63 then leadingFraction x scale True cs
         else leadingFraction y (float_mul scale (10, 0)) overflow cs))"

definition invalid_ttl :: error where
  "invalid_ttl = Errorf ''time: invalid TTL''"

text \<open>The optional part after a period: the fraction, its scale, the rest, and whether digits were read.\<close>

definition parse_fraction :: "string \<Rightarrow> 64 word \<times> float64 \<times> string \<times> bool" where
  "parse_fraction s =
     (case s of
        CHR ''.'' # t \<Rightarrow> (case leadingFraction 0 (1, 0) False t of (f, scale, u) \<Rightarrow> (f, scale, u, length t \<noteq> length u))
      | _ \<Rightarrow> (0, (1, 0), s, False))"

definition with_fraction :: "64 word \<Rightarrow> 64 word \<Rightarrow> float64 \<Rightarrow> 64 word \<Rightarrow> error + 64 word" where
  "with_fraction v f scale unit =
     (if v > 2 ^ 63 div unit then Inl invalid_ttl
      else if f > 0
      then
        (let v' = v * unit + float_to_uint64 (float_mul (float_of f) (float_div (float_of unit) scale))
         in if v' > 2 ^ 63 then Inl invalid_ttl else Inr v')
      else Inr (v * unit))"

text \<open>One number with its unit.\<close>

definition parse_term :: "string \<Rightarrow> error + (64 word \<times> string)" where
  "parse_term s =
     (if s = [] \<or> \<not> number_char (hd s) then Inl invalid_ttl
      else
        (case leadingInt 0 s of
           Inl _ \<Rightarrow> Inl invalid_ttl
         | Inr (v, s1) \<Rightarrow>
             (case parse_fraction s1 of
                (f, scale, s2, post) \<Rightarrow>
                  if length s = length s1 \<and> \<not> post then Inl invalid_ttl
                  else
                    (let u = takeWhile (\<lambda>c. \<not> number_char c) s2; s3 = dropWhile (\<lambda>c. \<not> number_char c) s2 in
                     if u = [] then Inl (Errorf ''time: missing unit in TTL'')
                     else
                       (case map_of unitMap u of
                          None \<Rightarrow> Inl (Errorf ''time: unknown unit in TTL'')
                        | Some unit \<Rightarrow>
                            (case with_fraction v f scale unit of
                               Inl e \<Rightarrow> Inl e
                             | Inr x \<Rightarrow> Inr (x, s3)))))))"

lemma leadingInt_length: "leadingInt x s = Inr (v, r) \<Longrightarrow> length r \<le> length s"
  by (induction x s rule: leadingInt.induct) (auto simp: Let_def split: if_splits)

lemma leadingFraction_length: "leadingFraction x sc ov s = (f, sc', r) \<Longrightarrow> length r \<le> length s"
  by (induction x sc ov s rule: leadingFraction.induct) (auto simp: Let_def split: if_splits)

lemma parse_fraction_length: "parse_fraction s = (f, sc, r, p) \<Longrightarrow> length r \<le> length s"
  unfolding parse_fraction_def
  by (auto split: list.splits char.splits bool.splits prod.splits dest!: leadingFraction_length)

lemma drop_take_length: "takeWhile P s \<noteq> [] \<Longrightarrow> length (dropWhile P s) < length s"
  by (cases s) (auto simp: le_imp_less_Suc length_dropWhile_le split: if_splits)

lemma parse_term_length: "parse_term s = Inr (v, r) \<Longrightarrow> length r < length s"
  unfolding parse_term_def Let_def
  by (auto split: if_splits sum.splits option.splits prod.splits
      dest!: leadingInt_length parse_fraction_length drop_take_length)

function parse_terms :: "64 word \<Rightarrow> string \<Rightarrow> error + 64 word" where
  "parse_terms ttl s =
     (if s = [] then Inr ttl
      else
        (case parse_term s of
           Inl e \<Rightarrow> Inl e
         | Inr (v, r) \<Rightarrow>
             (let ttl' = ttl + v in if ttl' > 2 ^ 63 then Inl invalid_ttl else parse_terms ttl' r)))"
  by pat_completeness auto
termination by (relation "measure (\<lambda>(_, s). length s)") (auto dest: parse_term_length)

declare parse_terms.simps [simp del]

text \<open>The result is an \<^verbatim>\<open>int64\<close>, a word that is read with a sign.\<close>

definition ParseTTL :: "string \<Rightarrow> error + 64 word" where
  "ParseTTL orig =
     (let signed = orig \<noteq> [] \<and> (hd orig = CHR ''-'' \<or> hd orig = CHR ''+'');
          neg = signed \<and> hd orig = CHR ''-'';
          s = (if signed then tl orig else orig)
      in if s = ''0'' then Inr 0
         else if s = [] then Inl invalid_ttl
         else
           (case parse_terms 0 s of
              Inl e \<Rightarrow> Inl e
            | Inr ttl \<Rightarrow>
                if neg then Inr (- ttl)
                else if ttl > 2 ^ 63 - 1 then Inl invalid_ttl
                else Inr ttl))"

section \<open>Sums of whole numbers of units\<close>

definition add_digit :: "nat \<Rightarrow> char \<Rightarrow> nat" where
  "add_digit n c = 10 * n + (of_char c - 48)"

definition decimal :: "string \<Rightarrow> nat" where
  "decimal ds = foldl add_digit 0 ds"

definition unit_ns :: "string \<Rightarrow> nat" where
  "unit_ns u = (case map_of unitMap u of None \<Rightarrow> 0 | Some w \<Rightarrow> unat w)"

text \<open>A string of digits and a unit.\<close>

definition whole_term :: "string \<times> string \<Rightarrow> bool" where
  "whole_term t \<longleftrightarrow> fst t \<noteq> [] \<and> (\<forall>c \<in> set (fst t). is_digit c) \<and> snd t \<in> fst ` set unitMap"

definition term_ns :: "string \<times> string \<Rightarrow> nat" where
  "term_ns t = decimal (fst t) * unit_ns (snd t)"

definition show_terms :: "(string \<times> string) list \<Rightarrow> string" where
  "show_terms ts = concat (map (\<lambda>t. fst t @ snd t) ts)"

lemma foldl_add_digit_mono: "n \<le> foldl add_digit n ds"
proof (induction ds arbitrary: n)
  case (Cons d ds)
  from Cons.IH [of "add_digit n d"] show ?case by (simp add: add_digit_def)
qed simp

lemma small_unat: "n \<le> 2 ^ 63 \<Longrightarrow> unat (of_nat n :: 64 word) = n"
  by (simp add: unat_of_nat take_bit_nat_eq_self)

lemma sint_of_small: "- (2 ^ 63) \<le> k \<Longrightarrow> k < 2 ^ 63 \<Longrightarrow> sint (of_int k :: 64 word) = k"
  by (simp add: sint_sbintrunc' signed_take_bit_int_eq_self)

lemma leadingInt_digits:
  assumes "\<forall>c \<in> set ds. is_digit c" and "foldl add_digit n ds \<le> 2 ^ 63" and "rest = [] \<or> \<not> is_digit (hd rest)"
  shows "leadingInt (of_nat n) (ds @ rest) = Inr (of_nat (foldl add_digit n ds), rest)"
  using assms
proof (induction ds arbitrary: n)
  case Nil
  then show ?case by (cases rest) auto
next
  case (Cons c cs)
  have n': "add_digit n c \<le> 2 ^ 63"
    using Cons.prems(2) foldl_add_digit_mono [of "add_digit n c" cs] by simp
  then have n: "n \<le> 2 ^ 63 div 10" by (simp add: add_digit_def)
  have w: "of_nat n * 10 + digit c = (of_nat (add_digit n c) :: 64 word)"
    using Cons.prems(1) by (simp add: add_digit_def digit_def is_digit_def of_nat_diff)
  have "unat (of_nat n :: 64 word) = n" "unat (of_nat (add_digit n c) :: 64 word) = add_digit n c"
    using n n' by (simp_all add: small_unat)
  then have "\<not> (of_nat n :: 64 word) > 2 ^ 63 div 10" "\<not> (of_nat (add_digit n c) :: 64 word) > 2 ^ 63"
    using n n' by (simp_all add: word_less_nat_alt unat_div)
  with Cons.IH [of "add_digit n c"] Cons.prems w show ?case by (simp add: Let_def)
qed

lemma unit_chars: "(u, w) \<in> set unitMap \<Longrightarrow> u \<noteq> [] \<and> (\<forall>c \<in> set u. \<not> number_char c)"
proof -
  have "list_all (\<lambda>(u, w). u \<noteq> [] \<and> list_all (\<lambda>c. \<not> number_char c) u) unitMap" by code_simp
  then show "(u, w) \<in> set unitMap \<Longrightarrow> u \<noteq> [] \<and> (\<forall>c \<in> set u. \<not> number_char c)" by (auto simp: list_all_iff)
qed

lemma unit_positive: "map_of unitMap u = Some w \<Longrightarrow> 0 < unat w"
proof -
  have "list_all (\<lambda>(u, w). w \<noteq> 0) unitMap" by code_simp
  then show "map_of unitMap u = Some w \<Longrightarrow> 0 < unat w"
    by (auto simp: list_all_iff unat_gt_0 dest!: map_of_SomeD)
qed

lemma parse_term_whole:
  assumes t: "whole_term t" and le: "term_ns t \<le> 2 ^ 63" and rest: "rest = [] \<or> number_char (hd rest)"
  shows "parse_term (fst t @ snd t @ rest) = Inr (of_nat (term_ns t), rest)"
proof -
  obtain ds u where tu: "t = (ds, u)" by (cases t)
  from t tu obtain w where w: "map_of unitMap u = Some w"
    by (cases "map_of unitMap u") (auto simp: whole_term_def map_of_eq_None_iff)
  from unit_chars [OF map_of_SomeD [OF w]] have u: "u \<noteq> []" "\<forall>c \<in> set u. \<not> number_char c" by auto
  from t tu have ds: "ds \<noteq> []" "\<forall>c \<in> set ds. is_digit c" by (auto simp: whole_term_def)
  have ns: "term_ns t = decimal ds * unat w" using tu w by (simp add: term_ns_def unit_ns_def)
  have pos: "0 < unat w" by (rule unit_positive [OF w])
  have dec: "decimal ds \<le> 2 ^ 63 div unat w" using le ns pos by (simp add: less_eq_div_iff_mult_less_eq)
  then have dec': "decimal ds \<le> 2 ^ 63" by (meson div_le_dividend le_trans)
  have int: "leadingInt 0 (ds @ u @ rest) = Inr (of_nat (decimal ds), u @ rest)"
    using leadingInt_digits [OF ds(2), of 0 "u @ rest"] u dec' by (cases u) (auto simp: decimal_def number_char_def)
  have frac: "parse_fraction (u @ rest) = (0, (1, 0), u @ rest, False)"
    using u by (cases u) (auto simp: parse_fraction_def number_char_def split: char.splits bool.splits)
  have take: "takeWhile (\<lambda>c. \<not> number_char c) (u @ rest) = u" "dropWhile (\<lambda>c. \<not> number_char c) (u @ rest) = rest"
    using u rest by (cases rest; auto simp: takeWhile_append dropWhile_append)+
  have "\<not> (of_nat (decimal ds) :: 64 word) > 2 ^ 63 div w"
    using dec dec' by (simp add: word_less_nat_alt unat_div small_unat)
  then have val: "with_fraction (of_nat (decimal ds)) 0 (1, 0) w = Inr (of_nat (term_ns t))"
    by (simp add: with_fraction_def ns)
  have hd: "number_char (hd (ds @ u @ rest))" using ds by (cases ds) (auto simp: number_char_def)
  show ?thesis unfolding tu fst_conv snd_conv parse_term_def
    using ds u hd int frac take w val by (simp add: tu)
qed

lemma parse_terms_whole:
  assumes "\<forall>t \<in> set ts. whole_term t" and "n + sum_list (map term_ns ts) \<le> 2 ^ 63"
  shows "parse_terms (of_nat n) (show_terms ts) = Inr (of_nat (n + sum_list (map term_ns ts)))"
  using assms
proof (induction ts arbitrary: n)
  case Nil
  then show ?case by (simp add: show_terms_def parse_terms.simps)
next
  case (Cons t ts)
  from Cons.prems have t: "whole_term t" "term_ns t \<le> 2 ^ 63" by auto
  have "show_terms ts = [] \<or> number_char (hd (show_terms ts))"
    using Cons.prems(1) by (cases ts) (auto simp: show_terms_def whole_term_def number_char_def neq_Nil_conv)
  note p = parse_term_whole [OF t this]
  have e: "show_terms (t # ts) = fst t @ snd t @ show_terms ts" by (simp add: show_terms_def)
  have ne: "fst t @ snd t @ show_terms ts \<noteq> []" using t by (simp add: whole_term_def)
  have "\<not> (of_nat (n + term_ns t) :: 64 word) > 2 ^ 63"
    using Cons.prems(2) small_unat [of "n + term_ns t"] by (simp add: word_less_nat_alt)
  moreover have "parse_terms (of_nat (n + term_ns t)) (show_terms ts) = Inr (of_nat (n + term_ns t + sum_list (map term_ns ts)))"
    using Cons.prems by (intro Cons.IH) simp_all
  ultimately show ?case using p e ne
    by (subst parse_terms.simps) (simp only: if_False sum.case prod.case Let_def of_nat_add list.map sum_list.Cons add.assoc)
qed

text \<open>C36. A time to live written as a sum of whole numbers of units, with an optional sign, is that many
  nanoseconds: \<^verbatim>\<open>ParseTTL\<close> accepts every such string whose sum fits into 63 bits, for every unit, any number
  of terms and leading zeros, and the signed value of the result is the sum.\<close>

theorem ttl_is_sum_of_terms:
  assumes "ts \<noteq> []" and "\<forall>t \<in> set ts. whole_term t" and "sum_list (map term_ns ts) < 2 ^ 63"
    and "sign \<in> {[], ''+'', ''-''}"
  shows "\<exists>w. ParseTTL (sign @ show_terms ts) = Inr w \<and>
    sint w = (if sign = ''-'' then - 1 else 1) * int (sum_list (map term_ns ts))"
proof -
  let ?n = "sum_list (map term_ns ts)"
  let ?s = "show_terms ts"
  have terms: "parse_terms 0 ?s = Inr (of_nat ?n)" using parse_terms_whole [of ts 0] assms by simp
  obtain c cs where s: "?s = c # cs" "is_digit c" and two: "cs \<noteq> []"
  proof -
    obtain t ts' where ts: "ts = t # ts'" using assms(1) by (cases ts) auto
    with assms(2) have t: "whole_term t" by simp
    then obtain d ds where d: "fst t = d # ds" "is_digit d" by (cases "fst t") (auto simp: whole_term_def)
    from t obtain w where "(snd t, w) \<in> set unitMap" by (auto simp: whole_term_def)
    from unit_chars [OF this] have "snd t \<noteq> []" by blast
    with ts d show ?thesis by (intro that [of d "ds @ snd t @ show_terms ts'"]) (auto simp: show_terms_def)
  qed
  have nosign: "c \<noteq> CHR ''-''" "c \<noteq> CHR ''+''" using s(2) by (auto simp: is_digit_def)
  have small: "\<not> (of_nat ?n :: 64 word) > 2 ^ 63 - 1"
    using assms(3) small_unat [of ?n] by (simp add: word_less_nat_alt)
  have si: "sint (of_nat ?n :: 64 word) = int ?n" "sint (- of_nat ?n :: 64 word) = - int ?n"
    using sint_of_small [of "int ?n"] sint_of_small [of "- int ?n"] assms(3) by simp_all
  show ?thesis
    using assms(4) terms s two nosign small si by (auto simp: ParseTTL_def Let_def)
qed

theorem ttl_is_sum_of_terms_witness:
  "\<exists>w. ParseTTL ''-1Y02h'' = Inr w \<and> sint w = - 31543200000000000"
proof -
  let ?ts = "[(''1'', ''Y''), (''02'', ''h'')]"
  have ok: "?ts \<noteq> []" "\<forall>t \<in> set ?ts. whole_term t" "''-'' \<in> {[], ''+'', ''-''}"
    by (simp_all add: whole_term_def is_digit_def unitMap_def)
  have sum: "sum_list (map term_ns ?ts) = 31543200000000000"
    by (simp add: term_ns_def decimal_def add_digit_def unit_ns_def unitMap_def unit_defs)
  have small: "sum_list (map term_ns ?ts) < 2 ^ 63" by (subst sum) simp
  have shown: "''-'' @ show_terms ?ts = ''-1Y02h''" by (simp add: show_terms_def)
  from ttl_is_sum_of_terms [OF ok(1,2) small ok(3)] show ?thesis
    unfolding shown sum by simp
qed

text \<open>The overflow check of the sum misses a wrap-around: two terms of exactly 2 to the 63 nanoseconds
  each are accepted one by one, their sum wraps to 0, which passes the check, and the string is
  parsed as the time to live 0 instead of being refused.\<close>

theorem ttl_overflow_is_missed:
  assumes "whole_term t" and "whole_term t'" and "term_ns t = 2 ^ 63" and "term_ns t' = 2 ^ 63"
  shows "ParseTTL (show_terms [t, t']) = Inr 0"
proof -
  have w: "(of_nat (2 ^ 63) :: 64 word) + of_nat (2 ^ 63) = 0" by simp
  have e: "show_terms [t, t'] = fst t @ snd t @ fst t' @ snd t'" by (simp add: show_terms_def)
  have d: "number_char (hd (fst t' @ snd t'))" using assms(2)
    by (cases "fst t'") (auto simp: whole_term_def number_char_def)
  have 1: "parse_term (show_terms [t, t']) = Inr (of_nat (2 ^ 63), fst t' @ snd t')"
    using parse_term_whole [OF assms(1), of "fst t' @ snd t'"] d assms(3) e by simp
  have 2: "parse_term (fst t' @ snd t') = Inr (of_nat (2 ^ 63), [])"
    using parse_term_whole [OF assms(2), of "[]"] assms(4) by simp
  have ne: "fst t' @ snd t' \<noteq> []" "show_terms [t, t'] \<noteq> []" using assms by (auto simp: e whole_term_def)
  have "parse_terms 0 (show_terms [t, t']) = parse_terms (of_nat (2 ^ 63)) (fst t' @ snd t')"
    by (subst parse_terms.simps) (simp add: 1 ne Let_def)
  also have "\<dots> = parse_terms 0 []"
    by (subst parse_terms.simps) (simp only: 2 ne w Let_def if_False sum.case prod.case, simp)
  finally have p: "parse_terms 0 (show_terms [t, t']) = Inr 0" by (simp add: parse_terms.simps)
  obtain c cs where s: "show_terms [t, t'] = c # cs" "is_digit c"
    using assms(1) by (cases "fst t") (auto simp: e whole_term_def)
  have nosign: "c \<noteq> CHR ''-''" "c \<noteq> CHR ''+''" using s(2) by (auto simp: is_digit_def)
  show ?thesis using p s nosign by (simp add: ParseTTL_def Let_def)
qed

theorem ttl_overflow_is_missed_witness:
  "ParseTTL ''9223372036854775808ns9223372036854775808ns'' = Inr 0"
proof -
  let ?t = "(''9223372036854775808'', ''ns'')"
  have t: "whole_term ?t" by (simp add: whole_term_def is_digit_def unitMap_def)
  have ns: "term_ns ?t = 2 ^ 63"
    by (simp add: term_ns_def decimal_def add_digit_def unit_ns_def unitMap_def unit_defs)
  from ttl_overflow_is_missed [OF t t ns ns] show ?thesis by (simp add: show_terms_def)
qed

end
