(* ===== verification/Sql_Queries.thy ===== *)
theory Sql_Queries
  imports In_Memory "HOL-Library.AList"
begin

text \<open>
  The SQL schema of a partition (\<^verbatim>\<open>internal/sql/models.go\<close>, the tables of \<^verbatim>\<open>internal/sql/migrations\<close>) and
  the queries of \<^verbatim>\<open>internal/sql/*.sql.go\<close>: one record per row type, one table per row type, and one
  definition per query with the meaning SQLite gives to its text.

  \<^item> A table maps the primary key to the row. The order in which a \<^verbatim>\<open>SELECT\<close> without \<^verbatim>\<open>ORDER BY\<close> returns
    rows is left open by SQL: the list order of the table is one of them.
  \<^item> \<^verbatim>\<open>INSERT ... ON CONFLICT DO UPDATE SET\<close> inserts the row or changes only the columns it names.
  \<^item> \<^verbatim>\<open>x IN (...)\<close> over an empty list is rendered as \<^verbatim>\<open>IN (NULL)\<close>: never true, and neither is
    \<^verbatim>\<open>NOT IN (NULL)\<close>.
  \<^item> With \<^verbatim>\<open>FKConstraints\<close> (set in \<^verbatim>\<open>GetRqliteDefaultConfig\<close>) an insert whose reference has no row fails, and
    so does deleting a row that is still referenced.
  \<^item> The text columns that hold variables are JSON documents: \<open>Json vs\<close> is a document that encodes \<open>vs\<close>,
    \<open>NotJson\<close> a text that is no document, such as the empty string.

  The lemmas show that every statement keeps the primary keys and the references of the database
  intact, and describe the pages that \<^verbatim>\<open>LIMIT\<close> and \<^verbatim>\<open>OFFSET\<close> cut out of a result.
\<close>

section \<open>Rows\<close>

datatype json_text = Json vars | NotJson string

record sql_DecisionDefinition =
  sdd_Key :: int
  sdd_Version :: int
  sdd_DecisionID :: string
  sdd_VersionTag :: string
  sdd_DmnResourceDefinitionID :: string
  sdd_DmnResourceDefinitionKey :: int

record sql_DecisionInstance =
  sdi_Key :: int
  sdi_DecisionID :: string
  sdi_CreatedAt :: int
  sdi_OutputVariables :: string
  sdi_EvaluatedDecisions :: string
  sdi_DmnResourceDefinitionKey :: int
  sdi_DecisionDefinitionKey :: int
  sdi_ProcessInstanceKey :: "int option"
  sdi_FlowElementInstanceKey :: "int option"

record sql_DmnResourceDefinition =
  sdr_Key :: int
  sdr_Version :: int
  sdr_DmnResourceDefinitionID :: string
  sdr_DmnData :: string
  sdr_DmnChecksum :: int
  sdr_DmnDefinitionName :: string

record sql_ExecutionToken =
  stk_Key :: int
  stk_ElementInstanceKey :: int
  stk_ElementID :: string
  stk_ProcessInstanceKey :: int
  stk_State :: int
  stk_CreatedAt :: int

record sql_FlowElementInstance =
  sfe_Key :: int
  sfe_ElementID :: string
  sfe_ProcessInstanceKey :: int
  sfe_ExecutionTokenKey :: int
  sfe_CreatedAt :: int
  sfe_InputVariables :: json_text
  sfe_OutputVariables :: json_text

record sql_Incident =
  sic_Key :: int
  sic_ElementInstanceKey :: int
  sic_ElementID :: string
  sic_ProcessInstanceKey :: int
  sic_Message :: error
  sic_CreatedAt :: int
  sic_ResolvedAt :: "int option"
  sic_ExecutionToken :: int

record sql_Job =
  sjb_Key :: int
  sjb_ElementInstanceKey :: int
  sjb_ElementID :: string
  sjb_ProcessInstanceKey :: int
  sjb_Type :: string
  sjb_State :: int
  sjb_CreatedAt :: int
  sjb_Variables :: json_text
  sjb_ExecutionToken :: int
  sjb_Assignee :: "string option"

record sql_MessageSubscription =
  sms_Key :: int
  sms_ElementID :: string
  sms_ProcessDefinitionKey :: int
  sms_ProcessInstanceKey :: int
  sms_Name :: string
  sms_State :: int
  sms_CreatedAt :: int
  sms_CorrelationKey :: string
  sms_ExecutionToken :: int

record sql_MessageSubscriptionPointer =
  smp_Name :: string
  smp_CorrelationKey :: string
  smp_State :: int
  smp_CreatedAt :: int
  smp_MessageSubscriptionKey :: int
  smp_ExecutionTokenKey :: int

record sql_ProcessDefinition =
  spd_Key :: int
  spd_Version :: int
  spd_BpmnProcessID :: string
  spd_BpmnData :: string
  spd_BpmnChecksum :: int
  spd_BpmnProcessName :: string

record sql_ProcessInstance =
  spi_Key :: int
  spi_ProcessDefinitionKey :: int
  spi_BusinessKey :: "string option"
  spi_CreatedAt :: int
  spi_State :: int
  spi_Variables :: json_text
  spi_ParentProcessExecutionToken :: "int option"
  spi_ParentProcessTargetElementID :: "string option"
  spi_ParentProcessTargetElementInstanceKey :: "int option"
  spi_ProcessType :: int
  spi_HistoryTtlSec :: "int option"
  spi_HistoryDeleteSec :: "int option"

record sql_Timer =
  stm_Key :: int
  stm_ElementInstanceKey :: int
  stm_ElementID :: string
  stm_ProcessDefinitionKey :: int
  stm_ProcessInstanceKey :: int
  stm_State :: int
  stm_CreatedAt :: int
  stm_DueAt :: int
  stm_ExecutionToken :: int

text \<open>The tables; \<open>message_subscription_pointer\<close> has the primary key (name, correlation key).\<close>

record Database =
  FKConstraints :: bool
  process_instance :: "sql_ProcessInstance table"
  process_definition :: "sql_ProcessDefinition table"
  message_subscription_pointer :: "((string \<times> string) \<times> sql_MessageSubscriptionPointer) list"
  message_subscription :: "sql_MessageSubscription table"
  timer :: "sql_Timer table"
  job :: "sql_Job table"
  execution_token :: "sql_ExecutionToken table"
  flow_element_instance :: "sql_FlowElementInstance table"
  incident :: "sql_Incident table"
  dmn_resource_definition :: "sql_DmnResourceDefinition table"
  decision_definition :: "sql_DecisionDefinition table"
  decision_instance :: "sql_DecisionInstance table"

definition new_Database :: Database where
  "new_Database = \<lparr>FKConstraints = True, process_instance = [], process_definition = [],
     message_subscription_pointer = [], message_subscription = [], timer = [], job = [],
     execution_token = [], flow_element_instance = [], incident = [], dmn_resource_definition = [],
     decision_definition = [], decision_instance = []\<rparr>"

section \<open>The enumerations as numbers\<close>

text \<open>
  Go converts an enumeration to its number with \<^verbatim>\<open>int64(s)\<close> and back with \<^verbatim>\<open>ActivityState(n)\<close>. A number
  without a name is a value that equals none of the named states: the constructor ending in \<open>Zero\<close>.
\<close>

fun ActivityState_int :: "ActivityState \<Rightarrow> int" where
  "ActivityState_int ActivityStateZero = 0"
| "ActivityState_int ActivityStateActive = 1"
| "ActivityState_int ActivityStateCompensated = 2"
| "ActivityState_int ActivityStateCompensating = 3"
| "ActivityState_int ActivityStateCompleted = 4"
| "ActivityState_int ActivityStateCompleting = 5"
| "ActivityState_int ActivityStateFailed = 6"
| "ActivityState_int ActivityStateFailing = 7"
| "ActivityState_int ActivityStateReady = 8"
| "ActivityState_int ActivityStateTerminated = 9"
| "ActivityState_int ActivityStateTerminating = 10"
| "ActivityState_int ActivityStateWithdrawn = 11"

definition ActivityState_of :: "int \<Rightarrow> ActivityState" where
  "ActivityState_of n =
     (if n = 1 then ActivityStateActive else if n = 2 then ActivityStateCompensated
      else if n = 3 then ActivityStateCompensating else if n = 4 then ActivityStateCompleted
      else if n = 5 then ActivityStateCompleting else if n = 6 then ActivityStateFailed
      else if n = 7 then ActivityStateFailing else if n = 8 then ActivityStateReady
      else if n = 9 then ActivityStateTerminated else if n = 10 then ActivityStateTerminating
      else if n = 11 then ActivityStateWithdrawn else ActivityStateZero)"

fun TimerState_int :: "TimerState \<Rightarrow> int" where
  "TimerState_int TimerStateZero = 0"
| "TimerState_int TimerStateCreated = 1"
| "TimerState_int TimerStateTriggered = 2"
| "TimerState_int TimerStateCancelled = 3"

definition TimerState_of :: "int \<Rightarrow> TimerState" where
  "TimerState_of n =
     (if n = 1 then TimerStateCreated else if n = 2 then TimerStateTriggered
      else if n = 3 then TimerStateCancelled else TimerStateZero)"

fun TokenState_int :: "TokenState \<Rightarrow> int" where
  "TokenState_int TokenStateZero = 0"
| "TokenState_int TokenStateRunning = 1"
| "TokenState_int TokenStateWaiting = 2"
| "TokenState_int TokenStateCompleted = 3"
| "TokenState_int TokenStateCanceled = 4"
| "TokenState_int TokenStateFailed = 5"

definition TokenState_of :: "int \<Rightarrow> TokenState" where
  "TokenState_of n =
     (if n = 1 then TokenStateRunning else if n = 2 then TokenStateWaiting
      else if n = 3 then TokenStateCompleted else if n = 4 then TokenStateCanceled
      else if n = 5 then TokenStateFailed else TokenStateZero)"

fun ProcessType_int :: "ProcessType \<Rightarrow> int" where
  "ProcessType_int ProcessTypeDefault = 1"
| "ProcessType_int ProcessTypeSubProcess = 2"
| "ProcessType_int ProcessTypeCallActivity = 3"
| "ProcessType_int ProcessTypeMultiInstance = 4"

definition ProcessType_of :: "int \<Rightarrow> ProcessType option" where
  "ProcessType_of n =
     (if n = 1 then Some ProcessTypeDefault else if n = 2 then Some ProcessTypeSubProcess
      else if n = 3 then Some ProcessTypeCallActivity else if n = 4 then Some ProcessTypeMultiInstance
      else None)"

lemma ActivityState_of_int [simp]: "ActivityState_of (ActivityState_int s) = s"
  by (cases s) (simp_all add: ActivityState_of_def)

lemma TimerState_of_int [simp]: "TimerState_of (TimerState_int s) = s"
  by (cases s) (simp_all add: TimerState_of_def)

lemma TokenState_of_int [simp]: "TokenState_of (TokenState_int s) = s"
  by (cases s) (simp_all add: TokenState_of_def)

lemma ProcessType_of_int [simp]: "ProcessType_of (ProcessType_int s) = Some s"
  by (cases s) (simp_all add: ProcessType_of_def)

lemma ActivityState_int_inject [simp]: "ActivityState_int s = ActivityState_int t \<longleftrightarrow> s = t"
  by (metis ActivityState_of_int)

lemma TokenState_int_inject [simp]: "TokenState_int s = TokenState_int t \<longleftrightarrow> s = t"
  by (metis TokenState_of_int)

lemma TimerState_int_inject [simp]: "TimerState_int s = TimerState_int t \<longleftrightarrow> s = t"
  by (metis TimerState_of_int)

section \<open>The pieces of SQL the queries are made of\<close>

definition sql_ErrNoRows :: error where
  "sql_ErrNoRows = Errorf ''No result row''"

definition fk_failed :: error where
  "fk_failed = Errorf ''FOREIGN KEY constraint failed''"

definition unique_failed :: error where
  "unique_failed = Errorf ''UNIQUE constraint failed''"

text \<open>\<^verbatim>\<open>IN\<close> and \<^verbatim>\<open>NOT IN\<close> over a parameter list, an empty list being \<^verbatim>\<open>NULL\<close>.\<close>

definition sql_in :: "'a \<Rightarrow> 'a list \<Rightarrow> bool" where
  "sql_in x xs \<longleftrightarrow> x \<in> set xs"

definition sql_not_in :: "'a \<Rightarrow> 'a list \<Rightarrow> bool" where
  "sql_not_in x xs \<longleftrightarrow> xs \<noteq> [] \<and> x \<notin> set xs"

text \<open>\<^verbatim>\<open>LIMIT\<close> and \<^verbatim>\<open>OFFSET\<close>: a negative limit is no limit, a negative offset is 0.\<close>

definition sql_page :: "int \<Rightarrow> int \<Rightarrow> 'a list \<Rightarrow> 'a list" where
  "sql_page lim offset xs =
     (let ys = drop (nat offset) xs in if lim < 0 then ys else take (nat lim) ys)"

text \<open>\<^verbatim>\<open>SELECT ..., COUNT(*) OVER () ... LIMIT ... OFFSET\<close>: each row of the page carries the number of all rows.\<close>

definition counted_page :: "int \<Rightarrow> int \<Rightarrow> 'a list \<Rightarrow> ('a \<times> int) list" where
  "counted_page lim offset xs = sql_page lim offset (map (\<lambda>x. (x, int (length xs))) xs)"

text \<open>The first row of a \<^verbatim>\<open>:one\<close> query.\<close>

definition sql_one :: "'a list \<Rightarrow> error + 'a" where
  "sql_one xs = (case xs of [] \<Rightarrow> Inl sql_ErrNoRows | x # _ \<Rightarrow> Inr x)"

definition one_row :: "'a option \<Rightarrow> error + 'a" where
  "one_row r = (case r of None \<Rightarrow> Inl sql_ErrNoRows | Some x \<Rightarrow> Inr x)"

text \<open>\<^verbatim>\<open>ORDER BY version DESC\<close>.\<close>

definition by_version_desc :: "('a \<Rightarrow> int) \<Rightarrow> 'a list \<Rightarrow> 'a list" where
  "by_version_desc v xs = sort_key (\<lambda>x. - v x) xs"

text \<open>\<^verbatim>\<open>DELETE FROM t WHERE\<close> the condition.\<close>

definition tdelete :: "('r \<Rightarrow> bool) \<Rightarrow> 'r table \<Rightarrow> 'r table" where
  "tdelete P t = filter (\<lambda>p. \<not> P (snd p)) t"

lemma tget_tdelete: "twf t \<Longrightarrow> tget (tdelete P t) k = (case tget t k of None \<Rightarrow> None | Some r \<Rightarrow> if P r then None else Some r)"
  unfolding tget_def tdelete_def twf_def
  by (induction t) (auto simp: map_of_eq_None_iff image_iff split: option.splits)

lemma twf_tdelete [simp]: "twf t \<Longrightarrow> twf (tdelete P t)"
  unfolding tdelete_def twf_def by (induction t) auto

lemma keyed_tdelete [simp]: "keyed key t \<Longrightarrow> keyed key (tdelete P t)"
  by (auto simp: keyed_def tdelete_def twf_def distinct_map_filter)

lemma set_trows_tdelete: "set (trows (tdelete P t)) = {r \<in> set (trows t). \<not> P r}"
  by (auto simp: trows_def tdelete_def)

lemma set_trows_tput: "set (trows (tput k r t)) \<subseteq> insert r (set (trows t))"
  using set_tput [of k r t] unfolding trows_def by auto

lemma sql_page_all: "sql_page (-1) 0 xs = xs"
  by (simp add: sql_page_def)

lemma length_sql_page: "0 \<le> lim \<Longrightarrow> length (sql_page lim offset xs) \<le> nat lim"
  by (simp add: sql_page_def Let_def)

lemma set_sql_page: "set (sql_page lim offset xs) \<subseteq> set xs"
  by (auto simp: sql_page_def Let_def dest: in_set_takeD in_set_dropD)

text \<open>The pages of a fixed size, one after the other, are the whole result.\<close>

lemma pages_cover:
  assumes "0 < s"
  shows "concat (map (\<lambda>p. sql_page (int s) (int s * int p) xs) [0..<n]) = take (n * s) xs"
proof (induction n)
  case 0
  show ?case by simp
next
  case (Suc n)
  have "sql_page (int s) (int s * int n) xs = take s (drop (n * s) xs)"
    by (simp add: sql_page_def Let_def nat_mult_distrib mult.commute)
  with Suc show ?case
    by (simp add: take_add [symmetric] add.commute)
qed

section \<open>Statements that change rows\<close>

text \<open>The reference checks of an insert.\<close>

definition pi_exists :: "Database \<Rightarrow> int \<Rightarrow> bool" where
  "pi_exists d = (\<lambda>k. FKConstraints d \<longrightarrow> tget (process_instance d) k \<noteq> None)"

definition pd_exists :: "Database \<Rightarrow> int \<Rightarrow> bool" where
  "pd_exists d = (\<lambda>k. FKConstraints d \<longrightarrow> tget (process_definition d) k \<noteq> None)"

definition drd_exists :: "Database \<Rightarrow> int \<Rightarrow> bool" where
  "drd_exists d = (\<lambda>k. FKConstraints d \<longrightarrow> tget (dmn_resource_definition d) k \<noteq> None)"

definition dd_exists :: "Database \<Rightarrow> int \<Rightarrow> bool" where
  "dd_exists d = (\<lambda>k. FKConstraints d \<longrightarrow> tget (decision_definition d) k \<noteq> None)"

text \<open>\<^verbatim>\<open>INSERT ... ON CONFLICT DO UPDATE\<close>: \<open>ok\<close> are the references of the new row, \<open>upd\<close> the \<^verbatim>\<open>SET\<close> clause.\<close>

definition upsert :: "bool \<Rightarrow> int \<Rightarrow> 'r \<Rightarrow> ('r \<Rightarrow> 'r) \<Rightarrow> 'r table \<Rightarrow> error + 'r table" where
  "upsert ok k r upd t =
     (case tget t k of
        Some old \<Rightarrow> Inr (tput k (upd old) t)
      | None \<Rightarrow> if ok then Inr (tput k r t) else Inl fk_failed)"

text \<open>\<^verbatim>\<open>INSERT\<close> without a conflict clause: a primary key that is taken is an error.\<close>

definition sql_insert :: "bool \<Rightarrow> int \<Rightarrow> 'r \<Rightarrow> 'r table \<Rightarrow> error + 'r table" where
  "sql_insert ok k r t =
     (case tget t k of
        Some _ \<Rightarrow> Inl unique_failed
      | None \<Rightarrow> if ok then Inr (tput k r t) else Inl fk_failed)"

definition map_sum_right :: "('a \<Rightarrow> 'b) \<Rightarrow> error + 'a \<Rightarrow> error + 'b" where
  "map_sum_right f x = (case x of Inl e \<Rightarrow> Inl e | Inr y \<Rightarrow> Inr (f y))"

definition q_SaveToken :: "sql_ExecutionToken \<Rightarrow> Database \<Rightarrow> error + Database" where
  "q_SaveToken r d =
     map_sum_right (\<lambda>t. d\<lparr>execution_token := t\<rparr>)
       (upsert (pi_exists d (stk_ProcessInstanceKey r)) (stk_Key r) r
          (\<lambda>old. old\<lparr>stk_State := stk_State r, stk_ElementInstanceKey := stk_ElementInstanceKey r,
                     stk_ElementID := stk_ElementID r\<rparr>)
          (execution_token d))"

definition q_SaveJob :: "sql_Job \<Rightarrow> Database \<Rightarrow> error + Database" where
  "q_SaveJob r d =
     map_sum_right (\<lambda>t. d\<lparr>job := t\<rparr>)
       (upsert (pi_exists d (sjb_ProcessInstanceKey r)) (sjb_Key r) r
          (\<lambda>old. old\<lparr>sjb_State := sjb_State r, sjb_Variables := sjb_Variables r,
                     sjb_Assignee := sjb_Assignee r\<rparr>)
          (job d))"

definition q_SaveTimer :: "sql_Timer \<Rightarrow> Database \<Rightarrow> error + Database" where
  "q_SaveTimer r d =
     map_sum_right (\<lambda>t. d\<lparr>timer := t\<rparr>)
       (upsert (pi_exists d (stm_ProcessInstanceKey r) \<and> pd_exists d (stm_ProcessDefinitionKey r))
          (stm_Key r) r (\<lambda>old. old\<lparr>stm_State := stm_State r\<rparr>) (timer d))"

definition q_SaveMessageSubscription :: "sql_MessageSubscription \<Rightarrow> Database \<Rightarrow> error + Database" where
  "q_SaveMessageSubscription r d =
     map_sum_right (\<lambda>t. d\<lparr>message_subscription := t\<rparr>)
       (upsert (pi_exists d (sms_ProcessInstanceKey r) \<and> pd_exists d (sms_ProcessDefinitionKey r))
          (sms_Key r) r (\<lambda>old. old\<lparr>sms_State := sms_State r\<rparr>) (message_subscription d))"

definition pointer_key :: "sql_MessageSubscriptionPointer \<Rightarrow> string \<times> string" where
  "pointer_key r = (smp_Name r, smp_CorrelationKey r)"

definition q_SaveMessageSubscriptionPointer ::
  "sql_MessageSubscriptionPointer \<Rightarrow> Database \<Rightarrow> error + Database" where
  "q_SaveMessageSubscriptionPointer r d =
     Inr (d\<lparr>message_subscription_pointer :=
       AList.update (pointer_key r)
         (case map_of (message_subscription_pointer d) (pointer_key r) of
            None \<Rightarrow> r
          | Some old \<Rightarrow> old\<lparr>smp_State := smp_State r, smp_CreatedAt := smp_CreatedAt r,
                            smp_MessageSubscriptionKey := smp_MessageSubscriptionKey r,
                            smp_ExecutionTokenKey := smp_ExecutionTokenKey r\<rparr>)
         (message_subscription_pointer d)\<rparr>)"

definition q_SaveIncident :: "sql_Incident \<Rightarrow> Database \<Rightarrow> error + Database" where
  "q_SaveIncident r d =
     map_sum_right (\<lambda>t. d\<lparr>incident := t\<rparr>)
       (upsert (pi_exists d (sic_ProcessInstanceKey r)) (sic_Key r) r
          (\<lambda>old. old\<lparr>sic_ResolvedAt := sic_ResolvedAt r\<rparr>) (incident d))"

definition q_SaveFlowElementInstance :: "sql_FlowElementInstance \<Rightarrow> Database \<Rightarrow> error + Database" where
  "q_SaveFlowElementInstance r d =
     map_sum_right (\<lambda>t. d\<lparr>flow_element_instance := t\<rparr>)
       (upsert (pi_exists d (sfe_ProcessInstanceKey r)) (sfe_Key r) r
          (\<lambda>old. old\<lparr>sfe_InputVariables := sfe_InputVariables r\<rparr>) (flow_element_instance d))"

definition q_UpdateOutputFlowElementInstance :: "sql_FlowElementInstance \<Rightarrow> Database \<Rightarrow> error + Database" where
  "q_UpdateOutputFlowElementInstance r d =
     map_sum_right (\<lambda>t. d\<lparr>flow_element_instance := t\<rparr>)
       (upsert (pi_exists d (sfe_ProcessInstanceKey r)) (sfe_Key r) r
          (\<lambda>old. old\<lparr>sfe_OutputVariables := sfe_OutputVariables r\<rparr>) (flow_element_instance d))"

text \<open>\<^verbatim>\<open>SaveProcessInstance\<close> does not name the two history columns: a new row has them \<^verbatim>\<open>NULL\<close>.\<close>

definition q_SaveProcessInstance :: "sql_ProcessInstance \<Rightarrow> Database \<Rightarrow> error + Database" where
  "q_SaveProcessInstance r d =
     map_sum_right (\<lambda>t. d\<lparr>process_instance := t\<rparr>)
       (upsert (pd_exists d (spi_ProcessDefinitionKey r)) (spi_Key r)
          (r\<lparr>spi_HistoryTtlSec := None, spi_HistoryDeleteSec := None\<rparr>)
          (\<lambda>old. old\<lparr>spi_State := spi_State r, spi_Variables := spi_Variables r,
                     spi_BusinessKey := spi_BusinessKey r\<rparr>)
          (process_instance d))"

definition q_SetProcessInstanceTTL :: "int option \<Rightarrow> int option \<Rightarrow> int \<Rightarrow> Database \<Rightarrow> error + Database" where
  "q_SetProcessInstanceTTL ttl del k d =
     Inr (case tget (process_instance d) k of
            None \<Rightarrow> d
          | Some r \<Rightarrow> d\<lparr>process_instance := tput k
              (r\<lparr>spi_HistoryTtlSec := (case ttl of Some _ \<Rightarrow> ttl | None \<Rightarrow> spi_HistoryTtlSec r),
                 spi_HistoryDeleteSec := (case del of Some _ \<Rightarrow> del | None \<Rightarrow> spi_HistoryDeleteSec r)\<rparr>)
              (process_instance d)\<rparr>)"

definition q_SaveProcessDefinition :: "sql_ProcessDefinition \<Rightarrow> Database \<Rightarrow> error + Database" where
  "q_SaveProcessDefinition r d =
     map_sum_right (\<lambda>t. d\<lparr>process_definition := t\<rparr>) (sql_insert True (spd_Key r) r (process_definition d))"

definition q_SaveDmnResourceDefinition :: "sql_DmnResourceDefinition \<Rightarrow> Database \<Rightarrow> error + Database" where
  "q_SaveDmnResourceDefinition r d =
     map_sum_right (\<lambda>t. d\<lparr>dmn_resource_definition := t\<rparr>)
       (sql_insert True (sdr_Key r) r (dmn_resource_definition d))"

definition q_SaveDecisionDefinition :: "sql_DecisionDefinition \<Rightarrow> Database \<Rightarrow> error + Database" where
  "q_SaveDecisionDefinition r d =
     map_sum_right (\<lambda>t. d\<lparr>decision_definition := t\<rparr>)
       (sql_insert (drd_exists d (sdd_DmnResourceDefinitionKey r)) (sdd_Key r) r (decision_definition d))"

definition q_SaveDecisionInstance :: "sql_DecisionInstance \<Rightarrow> Database \<Rightarrow> error + Database" where
  "q_SaveDecisionInstance r d =
     map_sum_right (\<lambda>t. d\<lparr>decision_instance := t\<rparr>)
       (sql_insert
          (drd_exists d (sdi_DmnResourceDefinitionKey r) \<and> dd_exists d (sdi_DecisionDefinitionKey r) \<and>
           pred_option (pi_exists d) (sdi_ProcessInstanceKey r))
          (sdi_Key r) r (decision_instance d))"

text \<open>The deletes of the history clean-up.\<close>

definition q_DeleteProcessInstancesTokens :: "int list \<Rightarrow> Database \<Rightarrow> error + Database" where
  "q_DeleteProcessInstancesTokens keys d =
     Inr (d\<lparr>execution_token := tdelete (\<lambda>r. sql_in (stk_ProcessInstanceKey r) keys) (execution_token d)\<rparr>)"

definition q_DeleteProcessInstancesJobs :: "int list \<Rightarrow> Database \<Rightarrow> error + Database" where
  "q_DeleteProcessInstancesJobs keys d =
     Inr (d\<lparr>job := tdelete (\<lambda>r. sql_in (sjb_ProcessInstanceKey r) keys) (job d)\<rparr>)"

definition q_DeleteProcessInstancesTimers :: "int list \<Rightarrow> Database \<Rightarrow> error + Database" where
  "q_DeleteProcessInstancesTimers keys d =
     Inr (d\<lparr>timer := tdelete (\<lambda>r. sql_in (stm_ProcessInstanceKey r) keys) (timer d)\<rparr>)"

definition q_DeleteProcessInstancesMessageSubscriptions :: "int list \<Rightarrow> Database \<Rightarrow> error + Database" where
  "q_DeleteProcessInstancesMessageSubscriptions keys d =
     Inr (d\<lparr>message_subscription :=
       tdelete (\<lambda>r. sql_in (sms_ProcessInstanceKey r) keys) (message_subscription d)\<rparr>)"

definition q_DeleteProcessInstancesIncidents :: "int list \<Rightarrow> Database \<Rightarrow> error + Database" where
  "q_DeleteProcessInstancesIncidents keys d =
     Inr (d\<lparr>incident := tdelete (\<lambda>r. sql_in (sic_ProcessInstanceKey r) keys) (incident d)\<rparr>)"

definition q_DeleteFlowElementInstance :: "int list \<Rightarrow> Database \<Rightarrow> error + Database" where
  "q_DeleteFlowElementInstance keys d =
     Inr (d\<lparr>flow_element_instance :=
       tdelete (\<lambda>r. sql_in (sfe_ProcessInstanceKey r) keys) (flow_element_instance d)\<rparr>)"

definition q_DeleteProcessInstancesDecisionInstances :: "int option list \<Rightarrow> Database \<Rightarrow> error + Database" where
  "q_DeleteProcessInstancesDecisionInstances keys d =
     Inr (d\<lparr>decision_instance :=
       tdelete (\<lambda>r. sdi_ProcessInstanceKey r \<noteq> None \<and> sql_in (sdi_ProcessInstanceKey r) keys)
         (decision_instance d)\<rparr>)"

text \<open>A row of \<open>process_instance\<close> that some row still refers to is not deleted.\<close>

definition pi_referenced :: "Database \<Rightarrow> int \<Rightarrow> bool" where
  "pi_referenced d k \<longleftrightarrow>
     list_ex (\<lambda>r. stk_ProcessInstanceKey r = k) (trows (execution_token d)) \<or>
     list_ex (\<lambda>r. sjb_ProcessInstanceKey r = k) (trows (job d)) \<or>
     list_ex (\<lambda>r. stm_ProcessInstanceKey r = k) (trows (timer d)) \<or>
     list_ex (\<lambda>r. sms_ProcessInstanceKey r = k) (trows (message_subscription d)) \<or>
     list_ex (\<lambda>r. sic_ProcessInstanceKey r = k) (trows (incident d)) \<or>
     list_ex (\<lambda>r. sfe_ProcessInstanceKey r = k) (trows (flow_element_instance d)) \<or>
     list_ex (\<lambda>r. sdi_ProcessInstanceKey r = Some k) (trows (decision_instance d))"

definition q_DeleteProcessInstances :: "int list \<Rightarrow> Database \<Rightarrow> error + Database" where
  "q_DeleteProcessInstances keys d =
     (let gone = filter (\<lambda>k. sql_in k keys) (map spi_Key (trows (process_instance d))) in
      if FKConstraints d \<and> list_ex (pi_referenced d) gone then Inl fk_failed
      else Inr (d\<lparr>process_instance := tdelete (\<lambda>r. sql_in (spi_Key r) keys) (process_instance d)\<rparr>))"

text \<open>A statement with its parameters, as \<^verbatim>\<open>generateStatement\<close> builds it, and its execution.\<close>

datatype sql_stmt =
    St_SaveToken sql_ExecutionToken
  | St_SaveJob sql_Job
  | St_SaveTimer sql_Timer
  | St_SaveMessageSubscription sql_MessageSubscription
  | St_SaveMessageSubscriptionPointer sql_MessageSubscriptionPointer
  | St_SaveIncident sql_Incident
  | St_SaveFlowElementInstance sql_FlowElementInstance
  | St_UpdateOutputFlowElementInstance sql_FlowElementInstance
  | St_SaveProcessInstance sql_ProcessInstance
  | St_SetProcessInstanceTTL "int option" "int option" int
  | St_SaveProcessDefinition sql_ProcessDefinition
  | St_SaveDmnResourceDefinition sql_DmnResourceDefinition
  | St_SaveDecisionDefinition sql_DecisionDefinition
  | St_SaveDecisionInstance sql_DecisionInstance
  | St_DeleteProcessInstancesTokens "int list"
  | St_DeleteProcessInstancesJobs "int list"
  | St_DeleteProcessInstancesTimers "int list"
  | St_DeleteProcessInstancesMessageSubscriptions "int list"
  | St_DeleteProcessInstancesIncidents "int list"
  | St_DeleteFlowElementInstance "int list"
  | St_DeleteProcessInstancesDecisionInstances "int option list"
  | St_DeleteProcessInstances "int list"

primrec exec_stmt :: "sql_stmt \<Rightarrow> Database \<Rightarrow> error + Database" where
  "exec_stmt (St_SaveToken r) = q_SaveToken r"
| "exec_stmt (St_SaveJob r) = q_SaveJob r"
| "exec_stmt (St_SaveTimer r) = q_SaveTimer r"
| "exec_stmt (St_SaveMessageSubscription r) = q_SaveMessageSubscription r"
| "exec_stmt (St_SaveMessageSubscriptionPointer r) = q_SaveMessageSubscriptionPointer r"
| "exec_stmt (St_SaveIncident r) = q_SaveIncident r"
| "exec_stmt (St_SaveFlowElementInstance r) = q_SaveFlowElementInstance r"
| "exec_stmt (St_UpdateOutputFlowElementInstance r) = q_UpdateOutputFlowElementInstance r"
| "exec_stmt (St_SaveProcessInstance r) = q_SaveProcessInstance r"
| "exec_stmt (St_SetProcessInstanceTTL ttl del k) = q_SetProcessInstanceTTL ttl del k"
| "exec_stmt (St_SaveProcessDefinition r) = q_SaveProcessDefinition r"
| "exec_stmt (St_SaveDmnResourceDefinition r) = q_SaveDmnResourceDefinition r"
| "exec_stmt (St_SaveDecisionDefinition r) = q_SaveDecisionDefinition r"
| "exec_stmt (St_SaveDecisionInstance r) = q_SaveDecisionInstance r"
| "exec_stmt (St_DeleteProcessInstancesTokens ks) = q_DeleteProcessInstancesTokens ks"
| "exec_stmt (St_DeleteProcessInstancesJobs ks) = q_DeleteProcessInstancesJobs ks"
| "exec_stmt (St_DeleteProcessInstancesTimers ks) = q_DeleteProcessInstancesTimers ks"
| "exec_stmt (St_DeleteProcessInstancesMessageSubscriptions ks) = q_DeleteProcessInstancesMessageSubscriptions ks"
| "exec_stmt (St_DeleteProcessInstancesIncidents ks) = q_DeleteProcessInstancesIncidents ks"
| "exec_stmt (St_DeleteFlowElementInstance ks) = q_DeleteFlowElementInstance ks"
| "exec_stmt (St_DeleteProcessInstancesDecisionInstances ks) = q_DeleteProcessInstancesDecisionInstances ks"
| "exec_stmt (St_DeleteProcessInstances ks) = q_DeleteProcessInstances ks"

section \<open>Queries that read rows\<close>

subsection \<open>Tokens\<close>

definition q_GetTokensInState :: "int \<Rightarrow> Database \<Rightarrow> sql_ExecutionToken list" where
  "q_GetTokensInState st d = filter (\<lambda>r. stk_State r = st) (trows (execution_token d))"

definition q_GetTokensForProcessInstance :: "int \<Rightarrow> int list \<Rightarrow> Database \<Rightarrow> sql_ExecutionToken list" where
  "q_GetTokensForProcessInstance pk states d =
     filter (\<lambda>r. stk_ProcessInstanceKey r = pk \<and> sql_in (stk_State r) states) (trows (execution_token d))"

definition q_GetAllTokensForProcessInstance :: "int \<Rightarrow> Database \<Rightarrow> sql_ExecutionToken list" where
  "q_GetAllTokensForProcessInstance pk d =
     filter (\<lambda>r. stk_ProcessInstanceKey r = pk) (trows (execution_token d))"

definition q_GetTokens :: "int list \<Rightarrow> Database \<Rightarrow> sql_ExecutionToken list" where
  "q_GetTokens keys d = filter (\<lambda>r. sql_in (stk_Key r) keys) (trows (execution_token d))"

subsection \<open>Jobs\<close>

definition q_FindJobByKey :: "int \<Rightarrow> Database \<Rightarrow> error + sql_Job" where
  "q_FindJobByKey k d = one_row (tget (job d) k)"

definition q_FindActiveJobsByType :: "string \<Rightarrow> Database \<Rightarrow> sql_Job list" where
  "q_FindActiveJobsByType ty d = filter (\<lambda>r. sjb_Type r = ty \<and> sjb_State r = 1) (trows (job d))"

definition q_FindJobByJobKey :: "int \<Rightarrow> Database \<Rightarrow> error + sql_Job" where
  "q_FindJobByJobKey k d = one_row (tget (job d) k)"

definition q_FindProcessInstanceJobs :: "int \<Rightarrow> int \<Rightarrow> int \<Rightarrow> Database \<Rightarrow> (sql_Job \<times> int) list" where
  "q_FindProcessInstanceJobs pk sz offset d =
     counted_page sz offset (filter (\<lambda>r. sjb_ProcessInstanceKey r = pk) (trows (job d)))"

definition q_FindProcessInstanceJobsInState :: "int \<Rightarrow> int list \<Rightarrow> Database \<Rightarrow> sql_Job list" where
  "q_FindProcessInstanceJobsInState pk states d =
     filter (\<lambda>r. sjb_ProcessInstanceKey r = pk \<and> sql_in (sjb_State r) states) (trows (job d))"

definition q_FindAllJobs :: "int \<Rightarrow> int \<Rightarrow> Database \<Rightarrow> sql_Job list" where
  "q_FindAllJobs sz offset d = sql_page sz offset (trows (job d))"

definition q_GetWaitingJobs :: "int list \<Rightarrow> string list \<Rightarrow> int \<Rightarrow> Database \<Rightarrow> sql_Job list" where
  "q_GetWaitingJobs key_skip types lim d =
     sql_page lim 0 (sort_key sjb_CreatedAt
       (filter (\<lambda>r. sjb_State r = 1 \<and> sql_in (sjb_Type r) types \<and> sql_not_in (sjb_Key r) key_skip)
          (trows (job d))))"

definition q_GetJobsInStateByTokenKey :: "int \<Rightarrow> int list \<Rightarrow> Database \<Rightarrow> sql_Job list" where
  "q_GetJobsInStateByTokenKey tk states d =
     filter (\<lambda>r. sjb_ExecutionToken r = tk \<and> sql_in (sjb_State r) states) (trows (job d))"

definition q_CountWaitingJobs :: "Database \<Rightarrow> int" where
  "q_CountWaitingJobs d = int (length (filter (\<lambda>r. sjb_State r = 1) (trows (job d))))"

subsection \<open>Timers\<close>

definition q_GetTimerByKey :: "int \<Rightarrow> Database \<Rightarrow> error + sql_Timer" where
  "q_GetTimerByKey k d = one_row (tget (timer d) k)"

definition q_FindElementTimers :: "int \<Rightarrow> int \<Rightarrow> Database \<Rightarrow> sql_Timer list" where
  "q_FindElementTimers ek st d =
     filter (\<lambda>r. stm_ElementInstanceKey r = ek \<and> stm_State r = st) (trows (timer d))"

definition q_FindTokenTimers :: "int \<Rightarrow> int \<Rightarrow> Database \<Rightarrow> sql_Timer list" where
  "q_FindTokenTimers tk st d = filter (\<lambda>r. stm_ExecutionToken r = tk \<and> stm_State r = st) (trows (timer d))"

definition q_FindProcessInstanceTimersInState :: "int \<Rightarrow> int \<Rightarrow> Database \<Rightarrow> sql_Timer list" where
  "q_FindProcessInstanceTimersInState pk st d =
     filter (\<lambda>r. stm_ProcessInstanceKey r = pk \<and> stm_State r = st) (trows (timer d))"

definition q_FindTimersInStateTillDueAt :: "int \<Rightarrow> int \<Rightarrow> Database \<Rightarrow> sql_Timer list" where
  "q_FindTimersInStateTillDueAt due st d =
     filter (\<lambda>r. stm_DueAt r < due \<and> stm_State r = st) (trows (timer d))"

subsection \<open>Message subscriptions and their pointers\<close>

definition q_FindTokenMessageSubscriptions :: "int \<Rightarrow> int \<Rightarrow> Database \<Rightarrow> sql_MessageSubscription list" where
  "q_FindTokenMessageSubscriptions tk st d =
     filter (\<lambda>r. sms_ExecutionToken r = tk \<and> sms_State r = st) (trows (message_subscription d))"

definition q_FindProcessInstanceMessageSubscriptions ::
  "int \<Rightarrow> int \<Rightarrow> Database \<Rightarrow> sql_MessageSubscription list" where
  "q_FindProcessInstanceMessageSubscriptions pk st d =
     filter (\<lambda>r. sms_ProcessInstanceKey r = pk \<and> sms_State r = st) (trows (message_subscription d))"

definition q_FindMessageSubscriptionByNameAndCorrelationKeyAndState ::
  "string \<Rightarrow> string \<Rightarrow> int \<Rightarrow> Database \<Rightarrow> error + sql_MessageSubscription" where
  "q_FindMessageSubscriptionByNameAndCorrelationKeyAndState ck name st d =
     sql_one (filter (\<lambda>r. sms_CorrelationKey r = ck \<and> sms_Name r = name \<and> sms_State r = st)
       (trows (message_subscription d)))"

definition q_GetMessageSubscriptionById :: "int \<Rightarrow> int \<Rightarrow> Database \<Rightarrow> error + sql_MessageSubscription" where
  "q_GetMessageSubscriptionById k st d =
     (case tget (message_subscription d) k of
        Some r \<Rightarrow> if sms_State r = st then Inr r else Inl sql_ErrNoRows
      | None \<Rightarrow> Inl sql_ErrNoRows)"

definition q_FindMessageSubscriptionPointer ::
  "string \<Rightarrow> string \<Rightarrow> int \<Rightarrow> Database \<Rightarrow> error + sql_MessageSubscriptionPointer" where
  "q_FindMessageSubscriptionPointer ck name st d =
     (case map_of (message_subscription_pointer d) (name, ck) of
        Some r \<Rightarrow> if smp_State r = st then Inr r else Inl sql_ErrNoRows
      | None \<Rightarrow> Inl sql_ErrNoRows)"

subsection \<open>Incidents and history\<close>

definition q_FindIncidents :: "int option \<Rightarrow> int option \<Rightarrow> Database \<Rightarrow> sql_Incident list" where
  "q_FindIncidents pk ek d =
     filter (\<lambda>r. (case pk of None \<Rightarrow> True | Some k \<Rightarrow> k = sic_ProcessInstanceKey r) \<and>
                 (case ek of None \<Rightarrow> True | Some k \<Rightarrow> k = sic_ElementInstanceKey r)) (trows (incident d))"

definition q_FindIncidentByKey :: "int \<Rightarrow> Database \<Rightarrow> error + sql_Incident" where
  "q_FindIncidentByKey k d = one_row (tget (incident d) k)"

definition q_FindIncidentsByProcessInstanceKey :: "int \<Rightarrow> Database \<Rightarrow> sql_Incident list" where
  "q_FindIncidentsByProcessInstanceKey pk d =
     filter (\<lambda>r. sic_ProcessInstanceKey r = pk) (trows (incident d))"

definition q_FindIncidentsPageByProcessInstanceKey ::
  "int \<Rightarrow> string option \<Rightarrow> int \<Rightarrow> int \<Rightarrow> Database \<Rightarrow> (sql_Incident \<times> int) list" where
  "q_FindIncidentsPageByProcessInstanceKey pk st sz offset d =
     counted_page sz offset
       (filter (\<lambda>r. sic_ProcessInstanceKey r = pk \<and>
          (case st of
             None \<Rightarrow> True
           | Some s \<Rightarrow> if s = ''resolved'' then sic_ResolvedAt r \<noteq> None
                       else if s = ''unresolved'' then sic_ResolvedAt r = None
                       else True))
         (trows (incident d)))"

definition q_FindIncidentsByExecutionTokenKey :: "int \<Rightarrow> Database \<Rightarrow> sql_Incident list" where
  "q_FindIncidentsByExecutionTokenKey tk d = filter (\<lambda>r. sic_ExecutionToken r = tk) (trows (incident d))"

text \<open>The join of the history page: one row per token of the instance, per instance that is the instance
  itself or was started by that token (call activities excepted), per history row of that instance.\<close>

definition flow_element_history :: "int \<Rightarrow> Database \<Rightarrow> sql_FlowElementInstance list" where
  "flow_element_history pk d =
     concat (map (\<lambda>et. concat (map
         (\<lambda>pi. filter (\<lambda>fei. sfe_ProcessInstanceKey fei = spi_Key pi) (trows (flow_element_instance d)))
         (filter (\<lambda>pi. (spi_ParentProcessExecutionToken pi = Some (stk_Key et) \<or> spi_Key pi = pk) \<and>
                       spi_ProcessType pi \<noteq> 3) (trows (process_instance d)))))
       (filter (\<lambda>et. stk_ProcessInstanceKey et = pk) (trows (execution_token d))))"

definition q_FindFlowElementInstances :: "int \<Rightarrow> int \<Rightarrow> int \<Rightarrow> Database \<Rightarrow> (sql_FlowElementInstance \<times> int) list" where
  "q_FindFlowElementInstances pk lim offset d = counted_page lim offset (flow_element_history pk d)"

definition q_GetFlowElementInstances :: "int \<Rightarrow> int \<Rightarrow> int \<Rightarrow> Database \<Rightarrow> (sql_FlowElementInstance \<times> int) list" where
  "q_GetFlowElementInstances pk lim offset d =
     counted_page lim offset (filter (\<lambda>r. sfe_ProcessInstanceKey r = pk) (trows (flow_element_instance d)))"

definition q_GetFlowElementInstanceByTokenKey :: "int \<Rightarrow> Database \<Rightarrow> error + sql_FlowElementInstance" where
  "q_GetFlowElementInstanceByTokenKey tk d =
     sql_one (sort_key (\<lambda>r. - sfe_CreatedAt r)
       (filter (\<lambda>r. sfe_ExecutionTokenKey r = tk) (trows (flow_element_instance d))))"

definition q_GetFlowElementInstanceByKey :: "int \<Rightarrow> Database \<Rightarrow> error + sql_FlowElementInstance" where
  "q_GetFlowElementInstanceByKey k d = one_row (tget (flow_element_instance d) k)"

definition q_CountFlowElementInstances :: "int \<Rightarrow> Database \<Rightarrow> int" where
  "q_CountFlowElementInstances pk d =
     int (length (filter (\<lambda>r. sfe_ProcessInstanceKey r = pk) (trows (flow_element_instance d))))"

subsection \<open>Process instances and definitions\<close>

text \<open>The numbers 4, 6 and 9 are the states completed, failed and terminated.\<close>

definition ended_state :: "int \<Rightarrow> bool" where
  "ended_state n \<longleftrightarrow> n = 4 \<or> n = 6 \<or> n = 9"

text \<open>The two left joins: the instance that owns the parent token, where token and instance exist.\<close>

definition parent_instance_row :: "Database \<Rightarrow> sql_ProcessInstance \<Rightarrow> sql_ProcessInstance option" where
  "parent_instance_row d pi =
     (case spi_ParentProcessExecutionToken pi of
        None \<Rightarrow> None
      | Some tk \<Rightarrow>
          (case tget (execution_token d) tk of
             None \<Rightarrow> None
           | Some et \<Rightarrow> tget (process_instance d) (stk_ProcessInstanceKey et)))"

definition deletable :: "int \<Rightarrow> Database \<Rightarrow> sql_ProcessInstance \<Rightarrow> bool" where
  "deletable now d pi \<longleftrightarrow>
     ended_state (spi_State pi) \<and>
     (spi_ParentProcessExecutionToken pi = None \<or>
      (case parent_instance_row d pi of None \<Rightarrow> False | Some pp \<Rightarrow> ended_state (spi_State pp))) \<and>
     (case spi_HistoryDeleteSec pi of None \<Rightarrow> True | Some t \<Rightarrow> t < now)"

definition q_FindInactiveInstancesToDelete :: "int \<Rightarrow> int \<Rightarrow> Database \<Rightarrow> int list" where
  "q_FindInactiveInstancesToDelete now lim d =
     sql_page lim 0 (map spi_Key (filter (deletable now d) (trows (process_instance d))))"

definition q_FindActiveInstances :: "Database \<Rightarrow> int list" where
  "q_FindActiveInstances d =
     map spi_Key (filter (\<lambda>r. spi_State r = 1 \<or> spi_State r = 8) (trows (process_instance d)))"

definition q_FindProcessesByParentExecutionToken :: "int \<Rightarrow> Database \<Rightarrow> sql_ProcessInstance list" where
  "q_FindProcessesByParentExecutionToken tk d =
     filter (\<lambda>r. spi_ParentProcessExecutionToken r = Some tk) (trows (process_instance d))"

definition q_GetProcessInstance :: "int \<Rightarrow> Database \<Rightarrow> error + sql_ProcessInstance" where
  "q_GetProcessInstance k d = one_row (tget (process_instance d) k)"

definition q_CountActiveProcessInstances :: "Database \<Rightarrow> int" where
  "q_CountActiveProcessInstances d = int (length (filter (\<lambda>r. spi_State r = 1) (trows (process_instance d))))"

definition q_FindAllProcessDefinitions :: "Database \<Rightarrow> sql_ProcessDefinition list" where
  "q_FindAllProcessDefinitions d = by_version_desc spd_Version (trows (process_definition d))"

definition q_FindProcessDefinitionByKey :: "int \<Rightarrow> Database \<Rightarrow> error + sql_ProcessDefinition" where
  "q_FindProcessDefinitionByKey k d = one_row (tget (process_definition d) k)"

definition q_FindLatestProcessDefinitionById :: "string \<Rightarrow> Database \<Rightarrow> error + sql_ProcessDefinition" where
  "q_FindLatestProcessDefinitionById i d =
     sql_one (by_version_desc spd_Version (filter (\<lambda>r. spd_BpmnProcessID r = i) (trows (process_definition d))))"

definition q_FindProcessDefinitionsById :: "string \<Rightarrow> Database \<Rightarrow> sql_ProcessDefinition list" where
  "q_FindProcessDefinitionsById i d =
     sort_key spd_Version (filter (\<lambda>r. spd_BpmnProcessID r = i) (trows (process_definition d)))"

definition q_FindProcessDefinitionsByKeys :: "int list \<Rightarrow> Database \<Rightarrow> sql_ProcessDefinition list" where
  "q_FindProcessDefinitionsByKeys ks d =
     filter (\<lambda>r. sql_in (spd_Key r) ks) (trows (process_definition d))"

definition q_GetDefinitionKeyByChecksum :: "int \<Rightarrow> Database \<Rightarrow> error + int" where
  "q_GetDefinitionKeyByChecksum c d =
     sql_one (map spd_Key (filter (\<lambda>r. spd_BpmnChecksum r = c) (trows (process_definition d))))"

subsection \<open>Decisions\<close>

definition q_FindDecisionDefinitionByIdAndDmnResourceDefinitionKey ::
  "int \<Rightarrow> string \<Rightarrow> Database \<Rightarrow> error + sql_DecisionDefinition" where
  "q_FindDecisionDefinitionByIdAndDmnResourceDefinitionKey k i d =
     sql_one (filter (\<lambda>r. sdd_DmnResourceDefinitionKey r = k \<and> sdd_DecisionID r = i)
       (trows (decision_definition d)))"

definition q_FindLatestDecisionDefinitionById :: "string \<Rightarrow> Database \<Rightarrow> error + sql_DecisionDefinition" where
  "q_FindLatestDecisionDefinitionById i d =
     sql_one (by_version_desc sdd_Version (filter (\<lambda>r. sdd_DecisionID r = i) (trows (decision_definition d))))"

definition q_FindLatestDecisionDefinitionByIdAndVersionTag ::
  "string \<Rightarrow> string \<Rightarrow> Database \<Rightarrow> error + sql_DecisionDefinition" where
  "q_FindLatestDecisionDefinitionByIdAndVersionTag i tag d =
     sql_one (by_version_desc sdd_Version
       (filter (\<lambda>r. sdd_DecisionID r = i \<and> sdd_VersionTag r = tag) (trows (decision_definition d))))"

definition q_FindLatestDecisionDefinitionByIdAndDmnResourceDefinitionId ::
  "string \<Rightarrow> string \<Rightarrow> Database \<Rightarrow> error + sql_DecisionDefinition" where
  "q_FindLatestDecisionDefinitionByIdAndDmnResourceDefinitionId i ri d =
     sql_one (by_version_desc sdd_Version
       (filter (\<lambda>r. sdd_DecisionID r = i \<and> sdd_DmnResourceDefinitionID r = ri) (trows (decision_definition d))))"

definition q_FindDecisionDefinitionsById :: "string \<Rightarrow> Database \<Rightarrow> sql_DecisionDefinition list" where
  "q_FindDecisionDefinitionsById i d =
     by_version_desc sdd_Version (filter (\<lambda>r. sdd_DecisionID r = i) (trows (decision_definition d)))"

definition q_FindDecisionInstanceByKey :: "int \<Rightarrow> Database \<Rightarrow> error + sql_DecisionInstance" where
  "q_FindDecisionInstanceByKey k d = one_row (tget (decision_instance d) k)"

definition q_FindDmnResourceDefinitionByKey :: "int \<Rightarrow> Database \<Rightarrow> error + sql_DmnResourceDefinition" where
  "q_FindDmnResourceDefinitionByKey k d = one_row (tget (dmn_resource_definition d) k)"

definition q_FindLatestDmnResourceDefinitionById :: "string \<Rightarrow> Database \<Rightarrow> error + sql_DmnResourceDefinition" where
  "q_FindLatestDmnResourceDefinitionById i d =
     sql_one (by_version_desc sdr_Version
       (filter (\<lambda>r. sdr_DmnResourceDefinitionID r = i) (trows (dmn_resource_definition d))))"

definition q_FindDmnResourceDefinitionsById :: "string \<Rightarrow> Database \<Rightarrow> sql_DmnResourceDefinition list" where
  "q_FindDmnResourceDefinitionsById i d =
     by_version_desc sdr_Version
       (filter (\<lambda>r. sdr_DmnResourceDefinitionID r = i) (trows (dmn_resource_definition d)))"

definition q_GetDmnResourceDefinitionKeyByChecksum :: "int \<Rightarrow> Database \<Rightarrow> error + int" where
  "q_GetDmnResourceDefinitionKeyByChecksum c d =
     sql_one (map sdr_Key (filter (\<lambda>r. sdr_DmnChecksum r = c) (trows (dmn_resource_definition d))))"

end
