(* ===== verification/Sql_Integrity.thy ===== *)
theory Sql_Integrity
  imports Sql_Queries
begin

text \<open>
  Integrity of the database: every row is stored under its own primary key (\<open>db_keyed\<close>) and, while
  \<^verbatim>\<open>FKConstraints\<close> is on, every reference has its row (\<open>db_refs\<close>). The interface \<open>child_table\<close> names what a
  table whose rows refer to other rows needs to keep that when it is inserted into, updated or deleted
  from; it is interpreted on the seven tables below the process instances. \<open>exec_stmt_ok\<close> is the result:
  each of the statements of \<open>Sql_Queries\<close> keeps \<open>db_ok\<close>.
\<close>

section \<open>Integrity\<close>

definition has_pi :: "Database \<Rightarrow> int \<Rightarrow> bool" where
  "has_pi d = (\<lambda>k. tget (process_instance d) k \<noteq> None)"

definition has_pd :: "Database \<Rightarrow> int \<Rightarrow> bool" where
  "has_pd d = (\<lambda>k. tget (process_definition d) k \<noteq> None)"

definition has_drd :: "Database \<Rightarrow> int \<Rightarrow> bool" where
  "has_drd d = (\<lambda>k. tget (dmn_resource_definition d) k \<noteq> None)"

definition has_dd :: "Database \<Rightarrow> int \<Rightarrow> bool" where
  "has_dd d = (\<lambda>k. tget (decision_definition d) k \<noteq> None)"

text \<open>Every row is stored under its own primary key.\<close>

definition db_keyed :: "Database \<Rightarrow> bool" where
  "db_keyed d \<longleftrightarrow>
     keyed spi_Key (process_instance d) \<and> keyed spd_Key (process_definition d) \<and>
     keyed sms_Key (message_subscription d) \<and> keyed stm_Key (timer d) \<and> keyed sjb_Key (job d) \<and>
     keyed stk_Key (execution_token d) \<and> keyed sfe_Key (flow_element_instance d) \<and>
     keyed sic_Key (incident d) \<and> keyed sdr_Key (dmn_resource_definition d) \<and>
     keyed sdd_Key (decision_definition d) \<and> keyed sdi_Key (decision_instance d) \<and>
     distinct (map fst (message_subscription_pointer d)) \<and>
     list_all (\<lambda>p. pointer_key (snd p) = fst p) (message_subscription_pointer d)"

text \<open>Every declared reference has its row.\<close>

definition db_refs :: "Database \<Rightarrow> bool" where
  "db_refs d \<longleftrightarrow>
     list_all (\<lambda>r. has_pd d (spi_ProcessDefinitionKey r)) (trows (process_instance d)) \<and>
     list_all (\<lambda>r. has_pi d (stk_ProcessInstanceKey r)) (trows (execution_token d)) \<and>
     list_all (\<lambda>r. has_pi d (sjb_ProcessInstanceKey r)) (trows (job d)) \<and>
     list_all (\<lambda>r. has_pi d (stm_ProcessInstanceKey r) \<and> has_pd d (stm_ProcessDefinitionKey r)) (trows (timer d)) \<and>
     list_all (\<lambda>r. has_pi d (sms_ProcessInstanceKey r) \<and> has_pd d (sms_ProcessDefinitionKey r))
       (trows (message_subscription d)) \<and>
     list_all (\<lambda>r. has_pi d (sfe_ProcessInstanceKey r)) (trows (flow_element_instance d)) \<and>
     list_all (\<lambda>r. has_pi d (sic_ProcessInstanceKey r)) (trows (incident d)) \<and>
     list_all (\<lambda>r. has_drd d (sdd_DmnResourceDefinitionKey r)) (trows (decision_definition d)) \<and>
     list_all (\<lambda>r. has_drd d (sdi_DmnResourceDefinitionKey r) \<and> has_dd d (sdi_DecisionDefinitionKey r) \<and>
        pred_option (has_pi d) (sdi_ProcessInstanceKey r)) (trows (decision_instance d))"

definition db_ok :: "Database \<Rightarrow> bool" where
  "db_ok d \<longleftrightarrow> db_keyed d \<and> (FKConstraints d \<longrightarrow> db_refs d)"

lemma db_ok_new [simp]: "db_ok new_Database"
  by (simp add: db_ok_def db_keyed_def db_refs_def new_Database_def)

lemma db_ok_keyed: "db_ok d \<Longrightarrow> db_keyed d"
  by (simp add: db_ok_def)

subsection \<open>What a statement does to its table\<close>

lemma upsert_cases:
  assumes "upsert ok k r upd t = Inr t'"
  obtains (insert) "tget t k = None" ok "t' = tput k r t"
  | (update) old where "tget t k = Some old" "t' = tput k (upd old) t"
  using assms by (auto simp: upsert_def split: option.splits if_splits)

lemma sql_insert_cases:
  assumes "sql_insert ok k r t = Inr t'"
  obtains "tget t k = None" ok "t' = tput k r t"
  using assms by (auto simp: sql_insert_def split: option.splits if_splits)

lemma map_sum_right_Inr: "map_sum_right f x = Inr y \<longleftrightarrow> (\<exists>z. x = Inr z \<and> y = f z)"
  by (auto simp: map_sum_right_def split: sum.splits)

lemma list_all_tput: "list_all P (trows t) \<Longrightarrow> P r \<Longrightarrow> list_all P (trows (tput k r t))"
  using set_trows_tput [of k r t] by (auto simp: list_all_iff)

lemma list_all_tget: "list_all P (trows t) \<Longrightarrow> tget t k = Some r \<Longrightarrow> P r"
  using tget_in_trows [of t k r] by (auto simp: list_all_iff)

lemma list_all_tdelete: "list_all P (trows t) \<Longrightarrow> list_all P (trows (tdelete Q t))"
  by (auto simp: list_all_iff set_trows_tdelete)

text \<open>A property of all rows of a table that the \<^verbatim>\<open>SET\<close> clause keeps, and that the inserted row has.\<close>

lemma upsert_list_all:
  assumes "upsert ok k r upd t = Inr t'" and "list_all P (trows t)"
    and "ok \<Longrightarrow> P r" and "\<And>old. P old \<Longrightarrow> P (upd old)"
  shows "list_all P (trows t')"
  using assms(1)
proof (cases rule: upsert_cases)
  case insert
  with assms show ?thesis by (simp add: list_all_tput)
next
  case (update old)
  with assms show ?thesis by (metis list_all_tget list_all_tput)
qed

lemma upsert_keyed:
  assumes "upsert ok k r upd t = Inr t'" and "keyed key t" and "key r = k" and "\<And>old. key (upd old) = key old"
  shows "keyed key t'"
  using assms(1)
proof (cases rule: upsert_cases)
  case insert
  with assms show ?thesis by simp
next
  case (update old)
  with assms show ?thesis using keyed_tget [of key t k old] by simp
qed

lemma upsert_dom: "upsert ok k r upd t = Inr t' \<Longrightarrow> tget t k' \<noteq> None \<Longrightarrow> tget t' k' \<noteq> None"
  by (auto simp: upsert_def split: option.splits if_splits)

lemma sql_insert_list_all:
  assumes "sql_insert ok k r t = Inr t'" and "list_all P (trows t)" and "ok \<Longrightarrow> P r"
  shows "list_all P (trows t')"
  using assms(1) by (rule sql_insert_cases) (simp add: assms list_all_tput)

lemma sql_insert_keyed:
  assumes "sql_insert ok k r t = Inr t'" and "keyed key t" and "key r = k"
  shows "keyed key t'"
  using assms(1) by (rule sql_insert_cases) (simp add: assms)

lemma sql_insert_dom: "sql_insert ok k r t = Inr t' \<Longrightarrow> tget t k' \<noteq> None \<Longrightarrow> tget t' k' \<noteq> None"
  by (erule sql_insert_cases) simp

text \<open>References stay valid when the referenced tables only grow.\<close>

definition grows :: "Database \<Rightarrow> Database \<Rightarrow> bool" where
  "grows d d' \<longleftrightarrow> (\<forall>k. (has_pi d k \<longrightarrow> has_pi d' k) \<and> (has_pd d k \<longrightarrow> has_pd d' k) \<and>
     (has_drd d k \<longrightarrow> has_drd d' k) \<and> (has_dd d k \<longrightarrow> has_dd d' k))"

lemma list_all_mono: "list_all P xs \<Longrightarrow> (\<And>x. P x \<Longrightarrow> Q x) \<Longrightarrow> list_all Q xs"
  by (auto simp: list_all_iff)

lemma db_refs_grows:
  assumes "db_refs d" and "grows d d'"
    and "process_instance d' = process_instance d" "execution_token d' = execution_token d" "job d' = job d"
    "timer d' = timer d" "message_subscription d' = message_subscription d"
    "flow_element_instance d' = flow_element_instance d" "incident d' = incident d"
    "decision_definition d' = decision_definition d" "decision_instance d' = decision_instance d"
  shows "db_refs d'"
  using assms unfolding db_refs_def grows_def
  by (auto elim!: list_all_mono option.pred_mono_strong)

subsection \<open>Every statement keeps the integrity\<close>

lemma process_instance_keeps_refs:
  assumes "db_refs d" and "\<And>k. has_pi d k \<Longrightarrow> has_pi (d\<lparr>process_instance := t\<rparr>) k"
    and "list_all (\<lambda>r. has_pd d (spi_ProcessDefinitionKey r)) (trows t)"
  shows "db_refs (d\<lparr>process_instance := t\<rparr>)"
proof -
  have g: "has_pd (d\<lparr>process_instance := t\<rparr>) = has_pd d" "has_drd (d\<lparr>process_instance := t\<rparr>) = has_drd d"
    "has_dd (d\<lparr>process_instance := t\<rparr>) = has_dd d"
    by (simp_all add: fun_eq_iff has_pd_def has_drd_def has_dd_def)
  show ?thesis
    using assms unfolding db_refs_def g by (auto elim!: list_all_mono option.pred_mono_strong)
qed

lemmas has_defs = has_pi_def has_pd_def has_drd_def has_dd_def
lemmas exists_defs = pi_exists_def pd_exists_def drd_exists_def dd_exists_def

text \<open>
  The interface of a table that no other table refers to: the rows of a database that is intact are
  keyed and have their references, and replacing the table by one with this property keeps the
  database intact. The three kinds of statement on such a table follow.
\<close>

locale child_table =
  fixes get :: "Database \<Rightarrow> 'r table"
    and put :: "'r table \<Rightarrow> Database \<Rightarrow> Database"
    and key :: "'r \<Rightarrow> int"
    and refs :: "Database \<Rightarrow> 'r \<Rightarrow> bool"
  assumes get_ok: "db_ok d \<Longrightarrow> keyed key (get d) \<and> (FKConstraints d \<longrightarrow> list_all (refs d) (trows (get d)))"
    and put_ok: "db_ok d \<Longrightarrow> keyed key t \<Longrightarrow> (FKConstraints d \<Longrightarrow> list_all (refs d) (trows t)) \<Longrightarrow> db_ok (put t d)"
    and put_FK: "FKConstraints (put t d) = FKConstraints d"
begin

lemma upsert_ok:
  assumes "db_ok d" and "map_sum_right (\<lambda>t. put t d) (upsert ok (key r) r upd (get d)) = Inr d'"
    and "ok \<Longrightarrow> FKConstraints d \<Longrightarrow> refs d r"
    and "\<And>old. key (upd old) = key old" and "\<And>old. refs d old \<Longrightarrow> refs d (upd old)"
  shows "db_ok d' \<and> FKConstraints d' = FKConstraints d"
proof -
  from assms(2) obtain t where u: "upsert ok (key r) r upd (get d) = Inr t" and d': "d' = put t d"
    by (auto simp: map_sum_right_Inr)
  have "keyed key t"
    by (rule upsert_keyed [OF u]) (use get_ok [OF assms(1)] assms(4) in simp_all)
  moreover have "list_all (refs d) (trows t)" if "FKConstraints d"
    by (rule upsert_list_all [OF u]) (use get_ok [OF assms(1)] assms(3,5) that in simp_all)
  ultimately show ?thesis
    unfolding d' using put_ok [OF assms(1)] by (simp add: put_FK)
qed

lemma insert_ok:
  assumes "db_ok d" and "map_sum_right (\<lambda>t. put t d) (sql_insert ok (key r) r (get d)) = Inr d'"
    and "ok \<Longrightarrow> FKConstraints d \<Longrightarrow> refs d r"
  shows "db_ok d' \<and> FKConstraints d' = FKConstraints d"
proof -
  from assms(2) obtain t where u: "sql_insert ok (key r) r (get d) = Inr t" and d': "d' = put t d"
    by (auto simp: map_sum_right_Inr)
  have "keyed key t"
    by (rule sql_insert_keyed [OF u]) (use get_ok [OF assms(1)] in simp_all)
  moreover have "list_all (refs d) (trows t)" if "FKConstraints d"
    by (rule sql_insert_list_all [OF u]) (use get_ok [OF assms(1)] assms(3) that in simp_all)
  ultimately show ?thesis
    unfolding d' using put_ok [OF assms(1)] by (simp add: put_FK)
qed

lemma delete_ok: "db_ok d \<Longrightarrow> db_ok (put (tdelete P (get d)) d)"
  using get_ok [of d] by (auto intro!: put_ok list_all_tdelete)

end

interpretation tokens: child_table execution_token "\<lambda>t d. d\<lparr>execution_token := t\<rparr>" stk_Key
  "\<lambda>d r. has_pi d (stk_ProcessInstanceKey r)"
  by unfold_locales (auto simp: db_ok_def db_keyed_def db_refs_def has_defs)

interpretation jobs: child_table job "\<lambda>t d. d\<lparr>job := t\<rparr>" sjb_Key
  "\<lambda>d r. has_pi d (sjb_ProcessInstanceKey r)"
  by unfold_locales (auto simp: db_ok_def db_keyed_def db_refs_def has_defs)

interpretation timers: child_table timer "\<lambda>t d. d\<lparr>timer := t\<rparr>" stm_Key
  "\<lambda>d r. has_pi d (stm_ProcessInstanceKey r) \<and> has_pd d (stm_ProcessDefinitionKey r)"
  by unfold_locales (auto simp: db_ok_def db_keyed_def db_refs_def has_defs)

interpretation subscriptions: child_table message_subscription "\<lambda>t d. d\<lparr>message_subscription := t\<rparr>" sms_Key
  "\<lambda>d r. has_pi d (sms_ProcessInstanceKey r) \<and> has_pd d (sms_ProcessDefinitionKey r)"
  by unfold_locales (auto simp: db_ok_def db_keyed_def db_refs_def has_defs)

interpretation incidents: child_table incident "\<lambda>t d. d\<lparr>incident := t\<rparr>" sic_Key
  "\<lambda>d r. has_pi d (sic_ProcessInstanceKey r)"
  by unfold_locales (auto simp: db_ok_def db_keyed_def db_refs_def has_defs)

interpretation history: child_table flow_element_instance "\<lambda>t d. d\<lparr>flow_element_instance := t\<rparr>" sfe_Key
  "\<lambda>d r. has_pi d (sfe_ProcessInstanceKey r)"
  by unfold_locales (auto simp: db_ok_def db_keyed_def db_refs_def has_defs)

interpretation decisions: child_table decision_instance "\<lambda>t d. d\<lparr>decision_instance := t\<rparr>" sdi_Key
  "\<lambda>d r. has_drd d (sdi_DmnResourceDefinitionKey r) \<and> has_dd d (sdi_DecisionDefinitionKey r) \<and>
     pred_option (has_pi d) (sdi_ProcessInstanceKey r)"
  by unfold_locales (auto simp: db_ok_def db_keyed_def db_refs_def has_defs)

text \<open>The four tables that are referred to only grow under inserts.\<close>

lemma db_ok_process_instance:
  assumes "db_ok d" and "keyed spi_Key t" and "\<And>k. has_pi d k \<Longrightarrow> tget t k \<noteq> None"
    and "FKConstraints d \<Longrightarrow> list_all (\<lambda>r. has_pd d (spi_ProcessDefinitionKey r)) (trows t)"
  shows "db_ok (d\<lparr>process_instance := t\<rparr>)"
  using assms process_instance_keeps_refs [of d t]
  by (auto simp: db_ok_def db_keyed_def has_pi_def)

lemma db_ok_grows:
  assumes "db_ok d" and "db_keyed d'" and "grows d d'" and "FKConstraints d' = FKConstraints d"
    and "process_instance d' = process_instance d" "execution_token d' = execution_token d" "job d' = job d"
    "timer d' = timer d" "message_subscription d' = message_subscription d"
    "flow_element_instance d' = flow_element_instance d" "incident d' = incident d"
    "decision_definition d' = decision_definition d" "decision_instance d' = decision_instance d"
  shows "db_ok d'"
  using assms db_refs_grows [OF _ assms(3) assms(5-)] by (simp add: db_ok_def)

lemma q_SaveProcessInstance_ok:
  assumes "db_ok d" and "q_SaveProcessInstance r d = Inr d'"
  shows "db_ok d' \<and> FKConstraints d' = FKConstraints d"
proof -
  let ?r = "r\<lparr>spi_HistoryTtlSec := None, spi_HistoryDeleteSec := None\<rparr>"
  let ?upd = "\<lambda>old. old\<lparr>spi_State := spi_State r, spi_Variables := spi_Variables r, spi_BusinessKey := spi_BusinessKey r\<rparr>"
  from assms(2) obtain t where u: "upsert (pd_exists d (spi_ProcessDefinitionKey r)) (spi_Key r) ?r ?upd
      (process_instance d) = Inr t" and d': "d' = d\<lparr>process_instance := t\<rparr>"
    by (auto simp: q_SaveProcessInstance_def map_sum_right_Inr)
  have "keyed spi_Key t"
    by (rule upsert_keyed [OF u]) (use assms(1) in \<open>simp_all add: db_ok_def db_keyed_def\<close>)
  moreover have "list_all (\<lambda>r. has_pd d (spi_ProcessDefinitionKey r)) (trows t)" if "FKConstraints d"
    by (rule upsert_list_all [OF u])
      (use assms(1) that in \<open>simp_all add: db_ok_def db_refs_def exists_defs has_pd_def\<close>)
  ultimately show ?thesis
    unfolding d' using db_ok_process_instance [OF assms(1)] upsert_dom [OF u] by (simp add: has_pi_def)
qed

lemma q_SetProcessInstanceTTL_ok:
  assumes "db_ok d" and "q_SetProcessInstanceTTL ttl del k d = Inr d'"
  shows "db_ok d' \<and> FKConstraints d' = FKConstraints d"
proof (cases "tget (process_instance d) k")
  case None
  with assms show ?thesis by (simp add: q_SetProcessInstanceTTL_def)
next
  case (Some r)
  let ?r = "r\<lparr>spi_HistoryTtlSec := (case ttl of Some _ \<Rightarrow> ttl | None \<Rightarrow> spi_HistoryTtlSec r),
    spi_HistoryDeleteSec := (case del of Some _ \<Rightarrow> del | None \<Rightarrow> spi_HistoryDeleteSec r)\<rparr>"
  have d': "d' = d\<lparr>process_instance := tput k ?r (process_instance d)\<rparr>"
    using assms(2) Some by (simp add: q_SetProcessInstanceTTL_def)
  have "keyed spi_Key (process_instance d)"
    using assms(1) by (simp add: db_ok_def db_keyed_def)
  with Some have "keyed spi_Key (tput k ?r (process_instance d))"
    using keyed_tget [of spi_Key "process_instance d" k r] by simp
  moreover have "list_all (\<lambda>r. has_pd d (spi_ProcessDefinitionKey r)) (trows (tput k ?r (process_instance d)))"
    if "FKConstraints d"
    using assms(1) that list_all_tget [OF _ Some, of "\<lambda>r. has_pd d (spi_ProcessDefinitionKey r)"]
    by (intro list_all_tput) (simp_all add: db_ok_def db_refs_def)
  ultimately show ?thesis
    unfolding d' using db_ok_process_instance [OF assms(1)] by (simp add: has_pi_def)
qed

lemma q_SaveProcessDefinition_ok:
  assumes "db_ok d" and "q_SaveProcessDefinition r d = Inr d'"
  shows "db_ok d' \<and> FKConstraints d' = FKConstraints d"
proof -
  from assms(2) obtain t where u: "sql_insert True (spd_Key r) r (process_definition d) = Inr t"
    and d': "d' = d\<lparr>process_definition := t\<rparr>"
    by (auto simp: q_SaveProcessDefinition_def map_sum_right_Inr)
  have "keyed spd_Key t"
    by (rule sql_insert_keyed [OF u]) (use assms(1) in \<open>simp_all add: db_ok_def db_keyed_def\<close>)
  with assms(1) have "db_keyed d'"
    by (simp add: d' db_ok_def db_keyed_def)
  moreover have "grows d d'"
    using sql_insert_dom [OF u] by (simp add: d' grows_def has_defs)
  ultimately have "db_ok d'"
    by (rule db_ok_grows [OF assms(1)]) (simp_all add: d')
  then show ?thesis by (simp add: d')
qed

lemma q_SaveDmnResourceDefinition_ok:
  assumes "db_ok d" and "q_SaveDmnResourceDefinition r d = Inr d'"
  shows "db_ok d' \<and> FKConstraints d' = FKConstraints d"
proof -
  from assms(2) obtain t where u: "sql_insert True (sdr_Key r) r (dmn_resource_definition d) = Inr t"
    and d': "d' = d\<lparr>dmn_resource_definition := t\<rparr>"
    by (auto simp: q_SaveDmnResourceDefinition_def map_sum_right_Inr)
  have "keyed sdr_Key t"
    by (rule sql_insert_keyed [OF u]) (use assms(1) in \<open>simp_all add: db_ok_def db_keyed_def\<close>)
  with assms(1) have "db_keyed d'"
    by (simp add: d' db_ok_def db_keyed_def)
  moreover have "grows d d'"
    using sql_insert_dom [OF u] by (simp add: d' grows_def has_defs)
  ultimately have "db_ok d'"
    by (rule db_ok_grows [OF assms(1)]) (simp_all add: d')
  then show ?thesis by (simp add: d')
qed

lemma q_SaveDecisionDefinition_ok:
  assumes "db_ok d" and "q_SaveDecisionDefinition r d = Inr d'"
  shows "db_ok d' \<and> FKConstraints d' = FKConstraints d"
proof -
  from assms(2) obtain t where u: "sql_insert (drd_exists d (sdd_DmnResourceDefinitionKey r)) (sdd_Key r) r
      (decision_definition d) = Inr t" and d': "d' = d\<lparr>decision_definition := t\<rparr>"
    by (auto simp: q_SaveDecisionDefinition_def map_sum_right_Inr)
  have "keyed sdd_Key t"
    by (rule sql_insert_keyed [OF u]) (use assms(1) in \<open>simp_all add: db_ok_def db_keyed_def\<close>)
  then have k: "db_keyed d'"
    using assms(1) by (simp add: d' db_ok_def db_keyed_def)
  have g: "has_dd d k \<Longrightarrow> has_dd d' k" for k
    using sql_insert_dom [OF u] by (simp add: d' has_dd_def)
  have "db_refs d'" if "FKConstraints d"
  proof -
    have "list_all (\<lambda>r. has_drd d (sdd_DmnResourceDefinitionKey r)) (trows t)"
      by (rule sql_insert_list_all [OF u])
        (use assms(1) that in \<open>simp_all add: db_ok_def db_refs_def exists_defs has_drd_def\<close>)
    with assms(1) that show ?thesis
      using g unfolding d' db_ok_def db_refs_def has_defs
      by (auto elim!: list_all_mono option.pred_mono_strong)
  qed
  with k show ?thesis by (simp add: db_ok_def d')
qed


lemma q_DeleteProcessInstances_ok:
  assumes "db_ok d" and "q_DeleteProcessInstances ks d = Inr d'"
  shows "db_ok d' \<and> FKConstraints d' = FKConstraints d"
proof -
  let ?t = "tdelete (\<lambda>r. sql_in (spi_Key r) ks) (process_instance d)"
  have d': "d' = d\<lparr>process_instance := ?t\<rparr>"
    using assms(2) by (simp add: q_DeleteProcessInstances_def Let_def split: if_splits)
  have k: "keyed spi_Key (process_instance d)" "db_keyed d'"
    using assms(1) by (simp_all add: d' db_ok_def db_keyed_def)
  have "db_refs d'" if fk: "FKConstraints d"
  proof -
    have free: "\<not> pi_referenced d k" if "has_pi d k" "sql_in k ks" for k
    proof -
      from \<open>has_pi d k\<close> obtain r where "tget (process_instance d) k = Some r"
        by (auto simp: has_pi_def)
      then have "k \<in> set (map spi_Key (trows (process_instance d)))"
        using keyed_tget [OF k(1)] tget_in_trows by fastforce
      with assms(2) fk \<open>sql_in k ks\<close> show ?thesis
        by (auto simp: q_DeleteProcessInstances_def Let_def list_ex_iff split: if_splits)
    qed
    have still: "has_pi d' k" if "has_pi d k" "pi_referenced d k" for k
      using that free [of k] k(1) keyed_tget [OF k(1)]
      by (fastforce simp: d' has_pi_def tget_tdelete keyed_def split: option.splits)
    have r: "has_pd d' = has_pd d" "has_drd d' = has_drd d" "has_dd d' = has_dd d"
      by (simp_all add: d' has_defs)
    have referenced:
      "x \<in> set (trows (execution_token d)) \<Longrightarrow> pi_referenced d (stk_ProcessInstanceKey x)"
      "y \<in> set (trows (job d)) \<Longrightarrow> pi_referenced d (sjb_ProcessInstanceKey y)"
      "z \<in> set (trows (timer d)) \<Longrightarrow> pi_referenced d (stm_ProcessInstanceKey z)"
      "m \<in> set (trows (message_subscription d)) \<Longrightarrow> pi_referenced d (sms_ProcessInstanceKey m)"
      "i \<in> set (trows (incident d)) \<Longrightarrow> pi_referenced d (sic_ProcessInstanceKey i)"
      "f \<in> set (trows (flow_element_instance d)) \<Longrightarrow> pi_referenced d (sfe_ProcessInstanceKey f)"
      "g \<in> set (trows (decision_instance d)) \<Longrightarrow> sdi_ProcessInstanceKey g = Some k \<Longrightarrow> pi_referenced d k"
      for x y z m i f g k
      by (auto simp: pi_referenced_def list_ex_iff)
    have tables: "process_instance d' = ?t" "execution_token d' = execution_token d" "job d' = job d"
      "timer d' = timer d" "message_subscription d' = message_subscription d"
      "flow_element_instance d' = flow_element_instance d" "incident d' = incident d"
      "decision_definition d' = decision_definition d" "decision_instance d' = decision_instance d"
      by (simp_all add: d')
    have refs: "db_refs d" using assms(1) fk by (simp add: db_ok_def)
    have "list_all (\<lambda>r. has_pd d (spi_ProcessDefinitionKey r)) (trows ?t)"
      using refs by (auto simp: db_refs_def intro: list_all_tdelete)
    then show ?thesis
      using refs unfolding db_refs_def r tables
      by (auto simp: list_all_iff pred_option_def referenced intro!: still)
  qed
  with k show ?thesis by (simp add: db_ok_def d')
qed

lemma set_alist_update: "set (AList.update k v ps) \<subseteq> insert (k, v) (set ps)"
  by (induction ps) auto

lemma q_SaveMessageSubscriptionPointer_ok:
  assumes "db_ok d" and "q_SaveMessageSubscriptionPointer r d = Inr d'"
  shows "db_ok d' \<and> FKConstraints d' = FKConstraints d"
proof -
  let ?ps = "message_subscription_pointer d"
  let ?r = "case map_of ?ps (pointer_key r) of None \<Rightarrow> r
    | Some old \<Rightarrow> old\<lparr>smp_State := smp_State r, smp_CreatedAt := smp_CreatedAt r,
        smp_MessageSubscriptionKey := smp_MessageSubscriptionKey r, smp_ExecutionTokenKey := smp_ExecutionTokenKey r\<rparr>"
  have d': "d' = d\<lparr>message_subscription_pointer := AList.update (pointer_key r) ?r ?ps\<rparr>"
    using assms(2) by (simp add: q_SaveMessageSubscriptionPointer_def)
  have ps: "distinct (map fst ?ps)" "list_all (\<lambda>p. pointer_key (snd p) = fst p) ?ps"
    using assms(1) by (simp_all add: db_ok_def db_keyed_def)
  have "pointer_key ?r = pointer_key r"
    using ps(2) map_of_SomeD [of ?ps "pointer_key r"]
    by (cases "map_of ?ps (pointer_key r)") (fastforce simp: list_all_iff pointer_key_def)+
  with ps have "list_all (\<lambda>p. pointer_key (snd p) = fst p) (AList.update (pointer_key r) ?r ?ps)"
    unfolding list_all_iff using set_alist_update [of "pointer_key r" ?r ?ps] by fastforce
  moreover have "distinct (map fst (AList.update (pointer_key r) ?r ?ps))"
    using ps(1) by (rule distinct_update)
  ultimately show ?thesis
    using assms(1) by (simp add: d' db_ok_def db_keyed_def db_refs_def has_defs)
qed

lemmas child_query_defs = q_SaveToken_def q_SaveJob_def q_SaveTimer_def q_SaveMessageSubscription_def
  q_SaveIncident_def q_SaveFlowElementInstance_def q_UpdateOutputFlowElementInstance_def
  q_SaveDecisionInstance_def

lemmas delete_query_defs = q_DeleteProcessInstancesTokens_def q_DeleteProcessInstancesJobs_def
  q_DeleteProcessInstancesTimers_def q_DeleteProcessInstancesMessageSubscriptions_def
  q_DeleteProcessInstancesIncidents_def q_DeleteFlowElementInstance_def
  q_DeleteProcessInstancesDecisionInstances_def

lemma delete_stmts_ok:
  "db_ok d \<Longrightarrow> q_DeleteProcessInstancesTokens ks d = Inr d' \<Longrightarrow> db_ok d' \<and> FKConstraints d' = FKConstraints d"
  "db_ok d \<Longrightarrow> q_DeleteProcessInstancesJobs ks d = Inr d' \<Longrightarrow> db_ok d' \<and> FKConstraints d' = FKConstraints d"
  "db_ok d \<Longrightarrow> q_DeleteProcessInstancesTimers ks d = Inr d' \<Longrightarrow> db_ok d' \<and> FKConstraints d' = FKConstraints d"
  "db_ok d \<Longrightarrow> q_DeleteProcessInstancesMessageSubscriptions ks d = Inr d' \<Longrightarrow> db_ok d' \<and> FKConstraints d' = FKConstraints d"
  "db_ok d \<Longrightarrow> q_DeleteProcessInstancesIncidents ks d = Inr d' \<Longrightarrow> db_ok d' \<and> FKConstraints d' = FKConstraints d"
  "db_ok d \<Longrightarrow> q_DeleteFlowElementInstance ks d = Inr d' \<Longrightarrow> db_ok d' \<and> FKConstraints d' = FKConstraints d"
  "db_ok d \<Longrightarrow> q_DeleteProcessInstancesDecisionInstances oks d = Inr d' \<Longrightarrow> db_ok d' \<and> FKConstraints d' = FKConstraints d"
  by (auto simp: delete_query_defs intro: tokens.delete_ok jobs.delete_ok timers.delete_ok
      subscriptions.delete_ok incidents.delete_ok history.delete_ok decisions.delete_ok)

lemma save_stmts_ok:
  "db_ok d \<Longrightarrow> q_SaveToken a d = Inr d' \<Longrightarrow> db_ok d' \<and> FKConstraints d' = FKConstraints d"
  "db_ok d \<Longrightarrow> q_SaveJob b d = Inr d' \<Longrightarrow> db_ok d' \<and> FKConstraints d' = FKConstraints d"
  "db_ok d \<Longrightarrow> q_SaveTimer c d = Inr d' \<Longrightarrow> db_ok d' \<and> FKConstraints d' = FKConstraints d"
  "db_ok d \<Longrightarrow> q_SaveMessageSubscription m d = Inr d' \<Longrightarrow> db_ok d' \<and> FKConstraints d' = FKConstraints d"
  "db_ok d \<Longrightarrow> q_SaveIncident i d = Inr d' \<Longrightarrow> db_ok d' \<and> FKConstraints d' = FKConstraints d"
  "db_ok d \<Longrightarrow> q_SaveFlowElementInstance f d = Inr d' \<Longrightarrow> db_ok d' \<and> FKConstraints d' = FKConstraints d"
  "db_ok d \<Longrightarrow> q_UpdateOutputFlowElementInstance f d = Inr d' \<Longrightarrow> db_ok d' \<and> FKConstraints d' = FKConstraints d"
  "db_ok d \<Longrightarrow> q_SaveDecisionInstance g d = Inr d' \<Longrightarrow> db_ok d' \<and> FKConstraints d' = FKConstraints d"
  unfolding child_query_defs
         apply (erule (1) tokens.upsert_ok; simp add: exists_defs has_defs)
        apply (erule (1) jobs.upsert_ok; simp add: exists_defs has_defs)
       apply (erule (1) timers.upsert_ok; simp add: exists_defs has_defs)
      apply (erule (1) subscriptions.upsert_ok; simp add: exists_defs has_defs)
     apply (erule (1) incidents.upsert_ok; simp add: exists_defs has_defs)
    apply (erule (1) history.upsert_ok; simp add: exists_defs has_defs)
   apply (erule (1) history.upsert_ok; simp add: exists_defs has_defs)
  apply (erule (1) decisions.insert_ok; simp add: exists_defs has_defs)
  done

lemmas stmts_ok = delete_stmts_ok save_stmts_ok q_DeleteProcessInstances_ok q_SaveMessageSubscriptionPointer_ok
  q_SaveProcessInstance_ok q_SetProcessInstanceTTL_ok q_SaveProcessDefinition_ok
  q_SaveDmnResourceDefinition_ok q_SaveDecisionDefinition_ok

lemma exec_stmt_ok:
  "db_ok d \<Longrightarrow> exec_stmt st d = Inr d' \<Longrightarrow> db_ok d' \<and> FKConstraints d' = FKConstraints d"
  by (cases st; simp only: exec_stmt.simps; erule (1) stmts_ok)

end
