(* ===== verification/Sql_Persistence.thy ===== *)
theory Sql_Persistence
  imports Sql_Integrity
begin

text \<open>
  The storage of a partition, \<^verbatim>\<open>internal/cluster/partition/partition_persistence.go\<close>: the type \<^verbatim>\<open>DB\<close>, which
  implements the storage interface of the engine with the queries of \<open>Sql_Queries\<close>, and \<^verbatim>\<open>DBBatch\<close>,
  which collects statements and runs them in one transaction.

  \<^item> Rows are converted to the runtime records and back. Times are nanoseconds since Go's zero time and
    are stored as Unix milliseconds.
  \<^item> The functions \<^verbatim>\<open>Save...With\<close> take the \<^verbatim>\<open>Querier\<close> they issue their statements on: the database itself
    (a transaction of its own) or a batch (the statement is queued).
  \<^item> The XML decoders and the caches' eviction are parameters; a query does not fail.

  The lemmas interpret the interface \<open>querier\<close> on both implementations, give what a reader returns
  after a save, and show the caches transparent and the clean-up safe.
\<close>

section \<open>State\<close>

record DB =
  db_Store :: Database
  db_Partition :: int
  db_pdCache :: "int \<rightharpoonup> ProcessDefinition"
  db_drdCache :: "int \<rightharpoonup> DmnResourceDefinition"
  db_historyDeleteThreshold :: int

text \<open>The values the context of a call carries (\<^verbatim>\<open>internal/appcontext\<close>); the time to live in whole
  seconds, \<^verbatim>\<open>int64(historyTTL.Seconds())\<close>.\<close>

record call_context =
  ctx_HistoryTTL :: "int option"
  ctx_BusinessKey :: "string option"
  ctx_ProcessInstanceKey :: "int option"
  ctx_ElementInstanceKey :: "int option"

section \<open>Conversions\<close>

definition UnixMilli :: "int \<Rightarrow> int" where
  "UnixMilli t = t div 1000000 - 62135596800000"

definition time_UnixMilli :: "int \<Rightarrow> int" where
  "time_UnixMilli n = (n + 62135596800000) * 1000000"

definition Unix :: "int \<Rightarrow> int" where
  "Unix t = t div 1000000000 - 62135596800"

definition int32 :: "int \<Rightarrow> int" where
  "int32 n = (n + 2147483648) mod 4294967296 - 2147483648"

definition int64 :: "int \<Rightarrow> int" where
  "int64 n = (n + 9223372036854775808) mod 18446744073709551616 - 9223372036854775808"

definition json_Marshal :: "vars \<Rightarrow> json_text" where
  "json_Marshal vs = Json vs"

definition json_Unmarshal :: "json_text \<Rightarrow> error + vars" where
  "json_Unmarshal j = (case j of Json vs \<Rightarrow> Inr vs | NotJson _ \<Rightarrow> Inl (ExternalError ''json''))"

lemma json_round_trip [simp]: "json_Unmarshal (json_Marshal vs) = Inr vs"
  by (simp add: json_Unmarshal_def json_Marshal_def)

lemma UnixMilli_of_time [simp]: "UnixMilli (time_UnixMilli n) = n"
  by (simp add: UnixMilli_def time_UnixMilli_def)

lemma time_of_UnixMilli [simp]: "time_UnixMilli (UnixMilli t) = truncate_ms t"
  by (simp add: UnixMilli_def time_UnixMilli_def truncate_ms_def minus_mod_eq_div_mult)

lemma UnixMilli_mono: "t \<le> u \<Longrightarrow> UnixMilli t \<le> UnixMilli u"
  by (simp add: UnixMilli_def zdiv_mono1)

lemma int32_id: "- 2147483648 \<le> n \<Longrightarrow> n < 2147483648 \<Longrightarrow> int32 n = n"
  by (simp add: int32_def)

text \<open>An execution token as the finders of tokens return it, and as they attach it to another row,
  without its time of creation.\<close>

definition token_of_row :: "sql_ExecutionToken \<Rightarrow> ExecutionToken" where
  "token_of_row r = \<lparr>tok_Key = stk_Key r, tok_ElementInstanceKey = stk_ElementInstanceKey r,
     tok_ElementId = stk_ElementID r, tok_ProcessInstanceKey = stk_ProcessInstanceKey r,
     tok_State = TokenState_of (stk_State r), tok_CreatedAt = time_UnixMilli (stk_CreatedAt r)\<rparr>"

definition attached_token :: "sql_ExecutionToken \<Rightarrow> ExecutionToken" where
  "attached_token r = (token_of_row r)\<lparr>tok_CreatedAt := 0\<rparr>"

definition key_token :: "int \<Rightarrow> ExecutionToken" where
  "key_token k = zero_Token\<lparr>tok_Key := k\<rparr>"

text \<open>The two loops that attach the loaded tokens: to every row with the token's key, or
  (\<^verbatim>\<open>continue token\<close>) to the first such row only.\<close>

fun attach_all :: "('r \<Rightarrow> ExecutionToken) \<Rightarrow> (ExecutionToken \<Rightarrow> 'r \<Rightarrow> 'r) \<Rightarrow> sql_ExecutionToken list \<Rightarrow> 'r list \<Rightarrow> 'r list" where
  "attach_all get put [] res = res"
| "attach_all get put (t # ts) res =
     attach_all get put ts
       (map (\<lambda>x. if tok_Key (get x) = stk_Key t then put (attached_token t) x else x) res)"

fun upd_first :: "('r \<Rightarrow> bool) \<Rightarrow> ('r \<Rightarrow> 'r) \<Rightarrow> 'r list \<Rightarrow> 'r list" where
  "upd_first P f [] = []"
| "upd_first P f (x # xs) = (if P x then f x # xs else x # upd_first P f xs)"

fun attach_first :: "('r \<Rightarrow> ExecutionToken) \<Rightarrow> (ExecutionToken \<Rightarrow> 'r \<Rightarrow> 'r) \<Rightarrow> sql_ExecutionToken list \<Rightarrow> 'r list \<Rightarrow> 'r list" where
  "attach_first get put [] res = res"
| "attach_first get put (t # ts) res =
     attach_first get put ts
       (upd_first (\<lambda>x. tok_Key (get x) = stk_Key t) (put (attached_token t)) res)"

section \<open>Executing statements\<close>

text \<open>\<^verbatim>\<open>ExecuteStatements\<close> runs its statements in one transaction: the first error rolls all of them back.\<close>

fun run_statements :: "sql_stmt list \<Rightarrow> Database \<Rightarrow> error + Database" where
  "run_statements [] d = Inr d"
| "run_statements (st # sts) d = (case exec_stmt st d of Inl e \<Rightarrow> Inl e | Inr d' \<Rightarrow> run_statements sts d')"

definition ExecuteStatements :: "sql_stmt list \<Rightarrow> (DB, unit) eng" where
  "ExecuteStatements sts s =
     (case run_statements sts (db_Store s) of
        Inl e \<Rightarrow> (Err e, s)
      | Inr d \<Rightarrow> (Ok (), s\<lparr>db_Store := d\<rparr>))"

definition DB_ExecContext :: "sql_stmt \<Rightarrow> (DB, unit) eng" where
  "DB_ExecContext st = ExecuteStatements [st]"

definition query :: "(Database \<Rightarrow> 'a) \<Rightarrow> (DB, 'a) eng" where
  "query q = gets (\<lambda>s. q (db_Store s))"

definition not_found_of :: "error \<Rightarrow> error" where
  "not_found_of e = (if e = sql_ErrNoRows then ErrNotFound else e)"

text \<open>\<^verbatim>\<open>if errors.Is(err, sql.ErrNoRows) \{ err = storage.ErrNotFound \}\<close> and the wrapping of the error.\<close>

definition find_row :: "string \<Rightarrow> (Database \<Rightarrow> error + 'a) \<Rightarrow> (DB, 'a) eng" where
  "find_row msg q = wrap (\<lambda>e. Wrapf msg (not_found_of e)) (bind (query q) lift_sum)"

definition NewDB :: "int \<Rightarrow> DB" where
  "NewDB partition_id = \<lparr>db_Store = new_Database, db_Partition = partition_id, db_pdCache = Map.empty,
     db_drdCache = Map.empty, db_historyDeleteThreshold = 1000\<rparr>"

section \<open>The writers\<close>

text \<open>
  \<^verbatim>\<open>Querier\<close> has two implementations. \<open>issue\<close> is the \<^verbatim>\<open>ExecContext\<close> behind its \<^verbatim>\<open>getQueries()\<close>, \<open>readDB\<close> the
  database behind its \<^verbatim>\<open>getReadDB()\<close>; the writers are written for any querier.
\<close>

type_synonym 's issuer = "sql_stmt \<Rightarrow> ('s, unit) eng"

definition SaveDecisionDefinitionWith :: "'s issuer \<Rightarrow> DecisionDefinition \<Rightarrow> ('s, unit) eng" where
  "SaveDecisionDefinitionWith issue decision =
     wrap (Wrapf ''failed to save decision'') (issue (St_SaveDecisionDefinition
       \<lparr>sdd_Key = dd_Key decision, sdd_Version = dd_Version decision, sdd_DecisionID = dd_Id decision,
        sdd_VersionTag = dd_VersionTag decision,
        sdd_DmnResourceDefinitionID = dd_DmnResourceDefinitionId decision,
        sdd_DmnResourceDefinitionKey = dd_DmnResourceDefinitionKey decision\<rparr>))"

definition SaveDmnResourceDefinitionWith :: "'s issuer \<Rightarrow> DmnResourceDefinition \<Rightarrow> ('s, unit) eng" where
  "SaveDmnResourceDefinitionWith issue drd =
     wrap (Wrapf ''failed to save dmn resource definition'') (issue (St_SaveDmnResourceDefinition
       \<lparr>sdr_Key = drd_Key drd, sdr_Version = drd_Version drd, sdr_DmnResourceDefinitionID = drd_Id drd,
        sdr_DmnData = drd_DmnData drd, sdr_DmnChecksum = drd_DmnChecksum drd,
        sdr_DmnDefinitionName = drd_DmnDefinitionName drd\<rparr>))"

definition SaveProcessDefinitionWith :: "'s issuer \<Rightarrow> ProcessDefinition \<Rightarrow> ('s, unit) eng" where
  "SaveProcessDefinitionWith issue pd =
     wrap (Wrapf ''failed to save process definition'') (issue (St_SaveProcessDefinition
       \<lparr>spd_Key = pd_Key pd, spd_Version = pd_Version pd, spd_BpmnProcessID = pd_BpmnProcessId pd,
        spd_BpmnData = pd_BpmnData pd, spd_BpmnChecksum = pd_BpmnChecksum pd,
        spd_BpmnProcessName = pd_BpmnProcessName pd\<rparr>))"

text \<open>The parent columns of the four kinds of instances.\<close>

fun parent_columns :: "instance_kind \<Rightarrow> int option \<times> string option \<times> int option" where
  "parent_columns DefaultProcessInstance = (None, None, None)"
| "parent_columns (MultiInstanceInstance t k i) = (Some (tok_Key t), Some i, Some k)"
| "parent_columns (SubProcessInstance t k i) = (Some (tok_Key t), Some i, Some k)"
| "parent_columns (CallActivityInstance t k) = (Some (tok_Key t), None, Some k)"

definition process_instance_row :: "call_context \<Rightarrow> ProcessInstance \<Rightarrow> sql_ProcessInstance" where
  "process_instance_row c i =
     (case parent_columns (pi_Kind i) of (tk, ei, ek) \<Rightarrow>
       \<lparr>spi_Key = pi_Key i, spi_ProcessDefinitionKey = pd_Key (pi_Definition i),
        spi_BusinessKey = (case ctx_BusinessKey c of Some b \<Rightarrow> Some b | None \<Rightarrow> pi_BusinessKey i),
        spi_CreatedAt = UnixMilli (pi_CreatedAt i), spi_State = ActivityState_int (pi_State i),
        spi_Variables = json_Marshal (pi_Variables i), spi_ParentProcessExecutionToken = tk,
        spi_ParentProcessTargetElementID = ei, spi_ParentProcessTargetElementInstanceKey = ek,
        spi_ProcessType = ProcessType_int (Type i), spi_HistoryTtlSec = None, spi_HistoryDeleteSec = None\<rparr>)"

text \<open>
  The instance is saved; a ready instance gets the time to live of the context, an instance that ended
  gets its time of deletion from the time to live that the database, not the batch, has for it.
\<close>

definition SaveProcessInstanceWith ::
  "'s issuer \<Rightarrow> ('s \<Rightarrow> Database) \<Rightarrow> call_context \<Rightarrow> int \<Rightarrow> ProcessInstance \<Rightarrow> ('s, unit) eng" where
  "SaveProcessInstanceWith issue readDB c now i =
     bind (wrap (Wrapf ''failed to save process instance'')
       (issue (St_SaveProcessInstance (process_instance_row c i)))) (\<lambda>_.
     if pi_State i = ActivityStateReady then
       (case ctx_HistoryTTL c of
          None \<Rightarrow> ret ()
        | Some ttl \<Rightarrow> wrap (Wrapf ''failed to set process instance TTL'')
            (issue (St_SetProcessInstanceTTL (Some ttl) None (pi_Key i))))
     else if pi_State i = ActivityStateCompleted \<or> pi_State i = ActivityStateTerminated then
       bind (wrap (Wrapf ''failed to read process instance for history processing'')
         (bind (gets (\<lambda>s. q_GetProcessInstance (pi_Key i) (readDB s))) lift_sum)) (\<lambda>r.
       (case spi_HistoryTtlSec r of
          None \<Rightarrow> ret ()
        | Some ttl \<Rightarrow> wrap (Wrapf ''failed to set process instance deletion mark'')
            (issue (St_SetProcessInstanceTTL None
              (Some (Unix (now + int64 (ttl * 1000000000)))) (pi_Key i)))))
     else ret ())"

text \<open>\<^verbatim>\<open>GetState\<close> turns the state of a timer into an activity state, and panics on an unnamed one.\<close>

definition timer_row :: "ActivityState \<Rightarrow> Timer \<Rightarrow> sql_Timer" where
  "timer_row st t =
     \<lparr>stm_Key = tm_Key t, stm_ElementInstanceKey = tm_ElementInstanceKey t, stm_ElementID = tm_ElementId t,
      stm_ProcessDefinitionKey = tm_ProcessDefinitionKey t, stm_ProcessInstanceKey = tm_ProcessInstanceKey t,
      stm_State = ActivityState_int st, stm_CreatedAt = UnixMilli (tm_CreatedAt t),
      stm_DueAt = UnixMilli (tm_DueAt t), stm_ExecutionToken = tok_Key (tm_Token t)\<rparr>"

definition SaveTimerWith :: "'s issuer \<Rightarrow> Timer \<Rightarrow> ('s, unit) eng" where
  "SaveTimerWith issue t =
     (case Timer_GetState (tm_State t) of
        None \<Rightarrow> panic ''unexpected timer state''
      | Some st \<Rightarrow> wrap (Wrapf ''failed to save timer'') (issue (St_SaveTimer (timer_row st t))))"

definition job_row :: "Job \<Rightarrow> sql_Job" where
  "job_row j =
     \<lparr>sjb_Key = job_Key j, sjb_ElementInstanceKey = job_ElementInstanceKey j,
      sjb_ElementID = job_ElementId j, sjb_ProcessInstanceKey = job_ProcessInstanceKey j,
      sjb_Type = job_Type j, sjb_State = ActivityState_int (job_State j),
      sjb_CreatedAt = UnixMilli (job_CreatedAt j), sjb_Variables = json_Marshal (job_Variables j),
      sjb_ExecutionToken = tok_Key (job_Token j), sjb_Assignee = job_Assignee j\<rparr>"

definition SaveJobWith :: "'s issuer \<Rightarrow> Job \<Rightarrow> ('s, unit) eng" where
  "SaveJobWith issue j = wrap (Wrapf ''failed to save job'') (issue (St_SaveJob (job_row j)))"

definition subscription_row :: "MessageSubscription \<Rightarrow> sql_MessageSubscription" where
  "subscription_row m =
     \<lparr>sms_Key = ms_Key m, sms_ElementID = ms_ElementId m, sms_ProcessDefinitionKey = ms_ProcessDefinitionKey m,
      sms_ProcessInstanceKey = ms_ProcessInstanceKey m, sms_Name = ms_Name m,
      sms_State = ActivityState_int (ms_State m), sms_CreatedAt = UnixMilli (ms_CreatedAt m),
      sms_CorrelationKey = ms_CorrelationKey m, sms_ExecutionToken = tok_Key (ms_Token m)\<rparr>"

definition SaveMessageSubscriptionWith :: "'s issuer \<Rightarrow> MessageSubscription \<Rightarrow> ('s, unit) eng" where
  "SaveMessageSubscriptionWith issue m =
     wrap (Wrapf ''failed to save message subscription'') (issue (St_SaveMessageSubscription (subscription_row m)))"

text \<open>The pointer that \<^verbatim>\<open>SaveMessageSubscription\<close> writes for a subscription.\<close>

definition pointer_of :: "MessageSubscription \<Rightarrow> sql_MessageSubscriptionPointer" where
  "pointer_of m =
     \<lparr>smp_Name = ms_Name m, smp_CorrelationKey = ms_CorrelationKey m,
      smp_State = ActivityState_int (ms_State m), smp_CreatedAt = UnixMilli (ms_CreatedAt m),
      smp_MessageSubscriptionKey = ms_Key m, smp_ExecutionTokenKey = tok_Key (ms_Token m)\<rparr>"

text \<open>\<^verbatim>\<open>SaveToken\<close> writes the current time, not the token's time of creation.\<close>

definition token_row :: "int \<Rightarrow> ExecutionToken \<Rightarrow> sql_ExecutionToken" where
  "token_row now t =
     \<lparr>stk_Key = tok_Key t, stk_ElementInstanceKey = tok_ElementInstanceKey t, stk_ElementID = tok_ElementId t,
      stk_ProcessInstanceKey = tok_ProcessInstanceKey t, stk_State = TokenState_int (tok_State t),
      stk_CreatedAt = UnixMilli now\<rparr>"

definition SaveTokenWith :: "'s issuer \<Rightarrow> int \<Rightarrow> ExecutionToken \<Rightarrow> ('s, unit) eng" where
  "SaveTokenWith issue now t = issue (St_SaveToken (token_row now t))"

definition SaveFlowElementInstanceWith :: "'s issuer \<Rightarrow> FlowElementInstance \<Rightarrow> ('s, unit) eng" where
  "SaveFlowElementInstanceWith issue f = issue (St_SaveFlowElementInstance
     \<lparr>sfe_Key = fe_Key f, sfe_ElementID = fe_ElementId f, sfe_ProcessInstanceKey = fe_ProcessInstanceKey f,
      sfe_ExecutionTokenKey = fe_ExecutionTokenKey f, sfe_CreatedAt = UnixMilli (fe_CreatedAt f),
      sfe_InputVariables = json_Marshal (fe_InputVariables f),
      sfe_OutputVariables = json_Marshal (fe_OutputVariables f)\<rparr>)"

text \<open>\<^verbatim>\<open>InputVariables\<close> is left out of the parameters: an inserted row has the empty text there.\<close>

definition UpdateOutputFlowElementInstanceWith :: "'s issuer \<Rightarrow> FlowElementInstance \<Rightarrow> ('s, unit) eng" where
  "UpdateOutputFlowElementInstanceWith issue f = issue (St_UpdateOutputFlowElementInstance
     \<lparr>sfe_Key = fe_Key f, sfe_ElementID = fe_ElementId f, sfe_ProcessInstanceKey = fe_ProcessInstanceKey f,
      sfe_ExecutionTokenKey = fe_ExecutionTokenKey f, sfe_CreatedAt = UnixMilli (fe_CreatedAt f),
      sfe_InputVariables = NotJson [],
      sfe_OutputVariables = json_Marshal (fe_OutputVariables f)\<rparr>)"

definition incident_row :: "Incident \<Rightarrow> sql_Incident" where
  "incident_row i =
     \<lparr>sic_Key = inc_Key i, sic_ElementInstanceKey = inc_ElementInstanceKey i, sic_ElementID = inc_ElementId i,
      sic_ProcessInstanceKey = inc_ProcessInstanceKey i, sic_Message = inc_Message i,
      sic_CreatedAt = UnixMilli (inc_CreatedAt i), sic_ResolvedAt = map_option UnixMilli (inc_ResolvedAt i),
      sic_ExecutionToken = tok_Key (inc_Token i)\<rparr>"

definition SaveIncidentWith :: "'s issuer \<Rightarrow> Incident \<Rightarrow> ('s, unit) eng" where
  "SaveIncidentWith issue i = issue (St_SaveIncident (incident_row i))"

text \<open>The methods of \<^verbatim>\<open>DB\<close>.\<close>

definition DB_SaveDecisionDefinition :: "DecisionDefinition \<Rightarrow> (DB, unit) eng" where
  "DB_SaveDecisionDefinition = SaveDecisionDefinitionWith DB_ExecContext"

definition DB_SaveDmnResourceDefinition :: "DmnResourceDefinition \<Rightarrow> (DB, unit) eng" where
  "DB_SaveDmnResourceDefinition = SaveDmnResourceDefinitionWith DB_ExecContext"

definition DB_SaveDecisionInstance :: "call_context \<Rightarrow> DecisionInstance \<Rightarrow> (DB, unit) eng" where
  "DB_SaveDecisionInstance c r = DB_ExecContext (St_SaveDecisionInstance
     \<lparr>sdi_Key = di_Key r, sdi_DecisionID = di_DecisionId r, sdi_CreatedAt = UnixMilli (di_CreatedAt r),
      sdi_OutputVariables = di_OutputVariables r, sdi_EvaluatedDecisions = di_EvaluatedDecisions r,
      sdi_DmnResourceDefinitionKey = di_DmnResourceDefinitionKey r,
      sdi_DecisionDefinitionKey = di_DecisionDefinitionKey r,
      sdi_ProcessInstanceKey = ctx_ProcessInstanceKey c,
      sdi_FlowElementInstanceKey = ctx_ElementInstanceKey c\<rparr>)"

definition DB_SaveProcessDefinition :: "ProcessDefinition \<Rightarrow> (DB, unit) eng" where
  "DB_SaveProcessDefinition = SaveProcessDefinitionWith DB_ExecContext"

definition DB_SaveProcessInstance :: "call_context \<Rightarrow> int \<Rightarrow> ProcessInstance \<Rightarrow> (DB, unit) eng" where
  "DB_SaveProcessInstance = SaveProcessInstanceWith DB_ExecContext db_Store"

definition DB_SaveTimer :: "Timer \<Rightarrow> (DB, unit) eng" where
  "DB_SaveTimer = SaveTimerWith DB_ExecContext"

definition DB_SaveJob :: "Job \<Rightarrow> (DB, unit) eng" where
  "DB_SaveJob = SaveJobWith DB_ExecContext"

definition DB_SaveToken :: "int \<Rightarrow> ExecutionToken \<Rightarrow> (DB, unit) eng" where
  "DB_SaveToken = SaveTokenWith DB_ExecContext"

definition DB_SaveFlowElementInstance :: "FlowElementInstance \<Rightarrow> (DB, unit) eng" where
  "DB_SaveFlowElementInstance = SaveFlowElementInstanceWith DB_ExecContext"

definition DB_UpdateOutputFlowElementInstance :: "FlowElementInstance \<Rightarrow> (DB, unit) eng" where
  "DB_UpdateOutputFlowElementInstance = UpdateOutputFlowElementInstanceWith DB_ExecContext"

definition DB_SaveIncident :: "Incident \<Rightarrow> (DB, unit) eng" where
  "DB_SaveIncident = SaveIncidentWith DB_ExecContext"

section \<open>Batches\<close>

text \<open>
  A batch holds its statements, the pointers its pre-flush actions will save, and its post-flush
  actions; it shares the database it was made from.
\<close>

record 'a DBBatch =
  b_db :: DB
  b_stmtToRun :: "sql_stmt list"
  b_preFlushActions :: "sql_MessageSubscriptionPointer list"
  b_postFlushActions :: "'a list"

definition NewBatch :: "DB \<Rightarrow> 'a DBBatch" where
  "NewBatch db = \<lparr>b_db = db, b_stmtToRun = [], b_preFlushActions = [], b_postFlushActions = []\<rparr>"

definition DBBatch_ExecContext :: "sql_stmt \<Rightarrow> ('a DBBatch, unit) eng" where
  "DBBatch_ExecContext st = modify (\<lambda>b. b\<lparr>b_stmtToRun := b_stmtToRun b @ [st]\<rparr>)"

definition AddPostFlushAction :: "'a \<Rightarrow> ('a DBBatch, unit) eng" where
  "AddPostFlushAction f = modify (\<lambda>b. b\<lparr>b_postFlushActions := b_postFlushActions b @ [f]\<rparr>)"

definition AddPreFlushAction :: "sql_MessageSubscriptionPointer \<Rightarrow> ('a DBBatch, unit) eng" where
  "AddPreFlushAction f = modify (\<lambda>b. b\<lparr>b_preFlushActions := b_preFlushActions b @ [f]\<rparr>)"

definition batch_db :: "'a DBBatch \<Rightarrow> Database" where
  "batch_db b = db_Store (b_db b)"

definition DBBatch_SaveProcessDefinition :: "ProcessDefinition \<Rightarrow> ('a DBBatch, unit) eng" where
  "DBBatch_SaveProcessDefinition = SaveProcessDefinitionWith DBBatch_ExecContext"

definition DBBatch_SaveProcessInstance :: "call_context \<Rightarrow> int \<Rightarrow> ProcessInstance \<Rightarrow> ('a DBBatch, unit) eng" where
  "DBBatch_SaveProcessInstance = SaveProcessInstanceWith DBBatch_ExecContext batch_db"

definition DBBatch_SaveTimer :: "Timer \<Rightarrow> ('a DBBatch, unit) eng" where
  "DBBatch_SaveTimer = SaveTimerWith DBBatch_ExecContext"

definition DBBatch_SaveJob :: "Job \<Rightarrow> ('a DBBatch, unit) eng" where
  "DBBatch_SaveJob = SaveJobWith DBBatch_ExecContext"

definition DBBatch_SaveMessageSubscription :: "MessageSubscription \<Rightarrow> ('a DBBatch, unit) eng" where
  "DBBatch_SaveMessageSubscription m =
     bind (AddPreFlushAction (pointer_of m)) (\<lambda>_. SaveMessageSubscriptionWith DBBatch_ExecContext m)"

definition DBBatch_SaveToken :: "int \<Rightarrow> ExecutionToken \<Rightarrow> ('a DBBatch, unit) eng" where
  "DBBatch_SaveToken = SaveTokenWith DBBatch_ExecContext"

definition DBBatch_SaveFlowElementInstance :: "FlowElementInstance \<Rightarrow> ('a DBBatch, unit) eng" where
  "DBBatch_SaveFlowElementInstance = SaveFlowElementInstanceWith DBBatch_ExecContext"

definition DBBatch_UpdateOutputFlowElementInstance :: "FlowElementInstance \<Rightarrow> ('a DBBatch, unit) eng" where
  "DBBatch_UpdateOutputFlowElementInstance = UpdateOutputFlowElementInstanceWith DBBatch_ExecContext"

definition DBBatch_SaveIncident :: "Incident \<Rightarrow> ('a DBBatch, unit) eng" where
  "DBBatch_SaveIncident = SaveIncidentWith DBBatch_ExecContext"

section \<open>The readers\<close>

subsection \<open>Tokens\<close>

definition GetTokensForProcessInstance_rows :: "int \<Rightarrow> int list \<Rightarrow> (DB, ExecutionToken list) eng" where
  "GetTokensForProcessInstance_rows pk states =
     bind (query (q_GetTokensForProcessInstance pk states)) (\<lambda>rs. ret (map token_of_row rs))"

definition DB_GetCompletedTokensForProcessInstance :: "int \<Rightarrow> (DB, ExecutionToken list) eng" where
  "DB_GetCompletedTokensForProcessInstance pk =
     GetTokensForProcessInstance_rows pk [TokenState_int TokenStateCompleted]"

definition DB_GetActiveTokensForProcessInstance :: "int \<Rightarrow> (DB, ExecutionToken list) eng" where
  "DB_GetActiveTokensForProcessInstance pk =
     GetTokensForProcessInstance_rows pk
       [TokenState_int TokenStateWaiting, TokenState_int TokenStateRunning, TokenState_int TokenStateFailed]"

definition DB_GetAllTokensForProcessInstance :: "int \<Rightarrow> (DB, ExecutionToken list) eng" where
  "DB_GetAllTokensForProcessInstance pk =
     bind (query (q_GetAllTokensForProcessInstance pk)) (\<lambda>rs. ret (map token_of_row rs))"

definition DB_GetRunningTokens :: "(DB, ExecutionToken list) eng" where
  "DB_GetRunningTokens =
     bind (query (q_GetTokensInState (TokenState_int TokenStateRunning))) (\<lambda>rs. ret (map token_of_row rs))"

definition DB_GetTokenByKey :: "int \<Rightarrow> (DB, ExecutionToken) eng" where
  "DB_GetTokenByKey k =
     bind (query (q_GetTokens [k])) (\<lambda>rs.
     case rs of
       [r] \<Rightarrow> ret (token_of_row r)
     | _ \<Rightarrow> throw (Wrapf ''invalid key'' ErrNotFound))"

subsection \<open>Decisions\<close>

definition decision_of_row :: "sql_DecisionDefinition \<Rightarrow> DecisionDefinition" where
  "decision_of_row r = \<lparr>dd_Version = sdd_Version r, dd_Key = sdd_Key r, dd_Id = sdd_DecisionID r,
     dd_VersionTag = sdd_VersionTag r, dd_DmnResourceDefinitionId = sdd_DmnResourceDefinitionID r,
     dd_DmnResourceDefinitionKey = sdd_DmnResourceDefinitionKey r\<rparr>"

definition DB_GetLatestDecisionDefinitionById :: "string \<Rightarrow> (DB, DecisionDefinition) eng" where
  "DB_GetLatestDecisionDefinitionById i =
     bind (find_row ''failed to find latest decision definition by id'' (q_FindLatestDecisionDefinitionById i))
       (\<lambda>r. ret (decision_of_row r))"

definition DB_GetDecisionDefinitionsById :: "string \<Rightarrow> (DB, DecisionDefinition list) eng" where
  "DB_GetDecisionDefinitionsById i =
     bind (query (q_FindDecisionDefinitionsById i)) (\<lambda>rs. ret (map decision_of_row rs))"

definition DB_GetLatestDecisionDefinitionByIdAndVersionTag ::
  "string \<Rightarrow> string \<Rightarrow> (DB, DecisionDefinition) eng" where
  "DB_GetLatestDecisionDefinitionByIdAndVersionTag i tag =
     bind (find_row ''failed to find latest decision by id and version tag''
       (q_FindLatestDecisionDefinitionByIdAndVersionTag i tag)) (\<lambda>r. ret (decision_of_row r))"

definition DB_GetLatestDecisionDefinitionByIdAndDmnResourceDefinitionId ::
  "string \<Rightarrow> string \<Rightarrow> (DB, DecisionDefinition) eng" where
  "DB_GetLatestDecisionDefinitionByIdAndDmnResourceDefinitionId i ri =
     bind (find_row ''failed to find latest decision by id and dmnResourceDefinitionId''
       (q_FindLatestDecisionDefinitionByIdAndDmnResourceDefinitionId i ri)) (\<lambda>r. ret (decision_of_row r))"

definition DB_GetDecisionDefinitionByIdAndDmnResourceDefinitionKey ::
  "string \<Rightarrow> int \<Rightarrow> (DB, DecisionDefinition) eng" where
  "DB_GetDecisionDefinitionByIdAndDmnResourceDefinitionKey i k =
     bind (find_row ''failed to find decision by decisionId and dmnResourceDefinitionKey''
       (q_FindDecisionDefinitionByIdAndDmnResourceDefinitionKey k i)) (\<lambda>r. ret (decision_of_row r))"

definition DB_FindDecisionInstanceByKey :: "int \<Rightarrow> (DB, DecisionInstance) eng" where
  "DB_FindDecisionInstanceByKey k =
     bind (find_row ''failed to find decision instance by key'' (q_FindDecisionInstanceByKey k)) (\<lambda>r. ret
       \<lparr>di_Key = sdi_Key r, di_ElementInstanceKey = 0, di_ElementId = [],
        di_ProcessInstanceKey = (case sdi_ProcessInstanceKey r of Some p \<Rightarrow> p | None \<Rightarrow> 0),
        di_ExecutionTokenKey = 0, di_DecisionId = sdi_DecisionID r,
        di_CreatedAt = time_UnixMilli (sdi_CreatedAt r), di_OutputVariables = sdi_OutputVariables r,
        di_EvaluatedDecisions = sdi_EvaluatedDecisions r,
        di_DmnResourceDefinitionKey = sdi_DmnResourceDefinitionKey r,
        di_DecisionDefinitionKey = sdi_DecisionDefinitionKey r\<rparr>)"

subsection \<open>Definitions, through their caches\<close>

text \<open>
  \<open>xml\<close> is the XML decoder. A definition that is found in the cache is returned as it is; otherwise
  the row is decoded and added to the cache. The least-recently-used cache may drop entries at any
  time, which the lemmas below allow for.
\<close>

definition decode_and_cache ::
  "(DB \<Rightarrow> int \<rightharpoonup> 'd) \<Rightarrow> ((int \<rightharpoonup> 'd) \<Rightarrow> DB \<Rightarrow> DB) \<Rightarrow> (error + 'd) \<Rightarrow> int \<Rightarrow> (DB, 'd) eng" where
  "decode_and_cache cache put_cache decoded k =
     bind (wrap (Wrapf ''failed to unmarshal xml data'') (lift_sum decoded)) (\<lambda>d.
     bind (modify (\<lambda>s. put_cache ((cache s)(k \<mapsto> d)) s)) (\<lambda>_. ret d))"

definition cached ::
  "(DB \<Rightarrow> int \<rightharpoonup> 'd) \<Rightarrow> ((int \<rightharpoonup> 'd) \<Rightarrow> DB \<Rightarrow> DB) \<Rightarrow> (error + 'd) \<Rightarrow> int \<Rightarrow> (DB, 'd) eng" where
  "cached cache put_cache decoded k =
     bind (gets (\<lambda>s. cache s k)) (\<lambda>c.
     case c of
       Some d \<Rightarrow> ret d
     | None \<Rightarrow> decode_and_cache cache put_cache decoded k)"

definition put_pdCache :: "(int \<rightharpoonup> ProcessDefinition) \<Rightarrow> DB \<Rightarrow> DB" where
  "put_pdCache c s = s\<lparr>db_pdCache := c\<rparr>"

definition put_drdCache :: "(int \<rightharpoonup> DmnResourceDefinition) \<Rightarrow> DB \<Rightarrow> DB" where
  "put_drdCache c s = s\<lparr>db_drdCache := c\<rparr>"

definition process_definition_of_row ::
  "(string \<Rightarrow> error + TDefinitions) \<Rightarrow> sql_ProcessDefinition \<Rightarrow> error + ProcessDefinition" where
  "process_definition_of_row xml r =
     (case xml (spd_BpmnData r) of
        Inl e \<Rightarrow> Inl e
      | Inr defs \<Rightarrow> Inr
          \<lparr>pd_BpmnProcessId = spd_BpmnProcessID r, pd_Version = int32 (spd_Version r), pd_Key = spd_Key r,
           pd_Definitions = defs, pd_BpmnData = spd_BpmnData r, pd_BpmnProcessName = [],
           pd_BpmnChecksum = spd_BpmnChecksum r\<rparr>)"

definition cached_process_definition ::
  "(string \<Rightarrow> error + TDefinitions) \<Rightarrow> sql_ProcessDefinition \<Rightarrow> (DB, ProcessDefinition) eng" where
  "cached_process_definition xml r =
     cached db_pdCache put_pdCache (process_definition_of_row xml r) (spd_Key r)"

definition DB_FindLatestProcessDefinitionById ::
  "(string \<Rightarrow> error + TDefinitions) \<Rightarrow> string \<Rightarrow> (DB, ProcessDefinition) eng" where
  "DB_FindLatestProcessDefinitionById xml i =
     bind (find_row ''failed to find latest process definition by id'' (q_FindLatestProcessDefinitionById i))
       (cached_process_definition xml)"

definition DB_FindProcessDefinitionByKey ::
  "(string \<Rightarrow> error + TDefinitions) \<Rightarrow> int \<Rightarrow> (DB, ProcessDefinition) eng" where
  "DB_FindProcessDefinitionByKey xml k =
     bind (gets (\<lambda>s. db_pdCache s k)) (\<lambda>c.
     case c of
       Some d \<Rightarrow> ret d
     | None \<Rightarrow>
         bind (find_row ''failed to find latest process definition by key'' (q_FindProcessDefinitionByKey k))
           (\<lambda>r. decode_and_cache db_pdCache put_pdCache (process_definition_of_row xml r) k))"

definition DB_FindProcessDefinitionsById ::
  "(string \<Rightarrow> error + TDefinitions) \<Rightarrow> string \<Rightarrow> (DB, ProcessDefinition list) eng" where
  "DB_FindProcessDefinitionsById xml i =
     bind (query (q_FindProcessDefinitionsById i)) (\<lambda>rs. map_each rs (cached_process_definition xml))"

definition dmn_resource_of_row ::
  "(string \<Rightarrow> error + dmn_TDefinitions) \<Rightarrow> sql_DmnResourceDefinition \<Rightarrow> error + DmnResourceDefinition" where
  "dmn_resource_of_row xml r =
     (case xml (sdr_DmnData r) of
        Inl e \<Rightarrow> Inl e
      | Inr defs \<Rightarrow> Inr
          \<lparr>drd_Version = sdr_Version r, drd_Key = sdr_Key r, drd_Id = sdr_DmnResourceDefinitionID r,
           drd_Definitions = defs, drd_DmnData = sdr_DmnData r, drd_DmnDefinitionName = sdr_DmnDefinitionName r,
           drd_DmnChecksum = sdr_DmnChecksum r\<rparr>)"

definition cached_dmn_resource ::
  "(string \<Rightarrow> error + dmn_TDefinitions) \<Rightarrow> sql_DmnResourceDefinition \<Rightarrow> (DB, DmnResourceDefinition) eng" where
  "cached_dmn_resource xml r =
     cached db_drdCache put_drdCache (dmn_resource_of_row xml r) (sdr_Key r)"

definition DB_FindLatestDmnResourceDefinitionById ::
  "(string \<Rightarrow> error + dmn_TDefinitions) \<Rightarrow> string \<Rightarrow> (DB, DmnResourceDefinition) eng" where
  "DB_FindLatestDmnResourceDefinitionById xml i =
     bind (find_row ''failed to find latest dmn resource definition by id'' (q_FindLatestDmnResourceDefinitionById i))
       (cached_dmn_resource xml)"

definition DB_FindDmnResourceDefinitionByKey ::
  "(string \<Rightarrow> error + dmn_TDefinitions) \<Rightarrow> int \<Rightarrow> (DB, DmnResourceDefinition) eng" where
  "DB_FindDmnResourceDefinitionByKey xml k =
     bind (gets (\<lambda>s. db_drdCache s k)) (\<lambda>c.
     case c of
       Some d \<Rightarrow> ret d
     | None \<Rightarrow>
         bind (find_row ''failed to find latest dmn resource definition by key'' (q_FindDmnResourceDefinitionByKey k))
           (\<lambda>r. decode_and_cache db_drdCache put_drdCache (dmn_resource_of_row xml r) k))"

definition DB_FindDmnResourceDefinitionsById ::
  "(string \<Rightarrow> error + dmn_TDefinitions) \<Rightarrow> string \<Rightarrow> (DB, DmnResourceDefinition list) eng" where
  "DB_FindDmnResourceDefinitionsById xml i =
     bind (query (q_FindDmnResourceDefinitionsById i)) (\<lambda>rs. map_each rs (cached_dmn_resource xml))"

subsection \<open>Process instances\<close>

definition read_variables :: "json_text \<Rightarrow> ('s, vars) eng" where
  "read_variables j = wrap (Wrapf ''failed to unmarshal variables'') (lift_sum (json_Unmarshal j))"

definition parent_token_of_row :: "sql_ProcessInstance \<Rightarrow> (DB, ExecutionToken) eng" where
  "parent_token_of_row r =
     (case spi_ParentProcessExecutionToken r of
        None \<Rightarrow> ret zero_Token
      | Some tk \<Rightarrow> wrap (Wrapf ''failed to find parent process execution token by key'') (DB_GetTokenByKey tk))"

text \<open>\<^verbatim>\<open>.Int64\<close> and \<^verbatim>\<open>.String\<close> of a column that is \<^verbatim>\<open>NULL\<close> are the zero value.\<close>

definition kind_of_row :: "sql_ProcessInstance \<Rightarrow> ExecutionToken \<Rightarrow> instance_kind option" where
  "kind_of_row r parentToken =
     (let ek = (case spi_ParentProcessTargetElementInstanceKey r of Some k \<Rightarrow> k | None \<Rightarrow> 0);
          ei = (case spi_ParentProcessTargetElementID r of Some i \<Rightarrow> i | None \<Rightarrow> [])
      in case ProcessType_of (spi_ProcessType r) of
           Some ProcessTypeDefault \<Rightarrow> Some DefaultProcessInstance
         | Some ProcessTypeMultiInstance \<Rightarrow> Some (MultiInstanceInstance parentToken ek ei)
         | Some ProcessTypeSubProcess \<Rightarrow> Some (SubProcessInstance parentToken ek ei)
         | Some ProcessTypeCallActivity \<Rightarrow> Some (CallActivityInstance parentToken ek)
         | None \<Rightarrow> None)"

definition inflateProcessInstance ::
  "(string \<Rightarrow> error + TDefinitions) \<Rightarrow> sql_ProcessInstance \<Rightarrow> (DB, ProcessInstance) eng" where
  "inflateProcessInstance xml r =
     bind (read_variables (spi_Variables r)) (\<lambda>variables.
     bind (DB_FindProcessDefinitionByKey xml (spi_ProcessDefinitionKey r)) (\<lambda>def.
     bind (parent_token_of_row r) (\<lambda>parentToken.
     case kind_of_row r parentToken of
       None \<Rightarrow> throw (Errorf ''not Supported Process Instance type'')
     | Some kind \<Rightarrow> ret
         \<lparr>pi_Kind = kind, pi_Definition = def, pi_Key = spi_Key r, pi_BusinessKey = spi_BusinessKey r,
          pi_Variables = variables, pi_CreatedAt = time_UnixMilli (spi_CreatedAt r),
          pi_State = ActivityState_of (spi_State r)\<rparr>)))"

definition DB_FindProcessInstanceByKey ::
  "(string \<Rightarrow> error + TDefinitions) \<Rightarrow> int \<Rightarrow> (DB, ProcessInstance) eng" where
  "DB_FindProcessInstanceByKey xml k =
     bind (find_row ''failed to find process instance by key'' (q_GetProcessInstance k)) (inflateProcessInstance xml)"

definition DB_FindProcessInstancesByParentExecutionTokenKey ::
  "(string \<Rightarrow> error + TDefinitions) \<Rightarrow> int \<Rightarrow> (DB, ProcessInstance list) eng" where
  "DB_FindProcessInstancesByParentExecutionTokenKey xml tk =
     bind (query (q_FindProcessesByParentExecutionToken tk)) (\<lambda>rs.
       map_each rs (\<lambda>r. wrap (Wrapf ''failed to inflate process instance'') (inflateProcessInstance xml r)))"

text \<open>
  \<^verbatim>\<open>RefreshProcessInstance\<close> assigns to the instance it is given, which must have the kind of the row
  unless that is the default kind.
\<close>

definition DB_RefreshProcessInstance :: "ProcessInstance \<Rightarrow> (DB, ProcessInstance) eng" where
  "DB_RefreshProcessInstance i =
     bind (find_row ''failed to find process instance by key'' (q_GetProcessInstance (pi_Key i))) (\<lambda>r.
     bind (read_variables (spi_Variables r)) (\<lambda>variables.
     bind (parent_token_of_row r) (\<lambda>parentToken.
     let i' = i\<lparr>pi_State := ActivityState_of (spi_State r), pi_Variables := variables\<rparr> in
     case ProcessType_of (spi_ProcessType r) of
       None \<Rightarrow> ret i
     | Some ty \<Rightarrow>
         if ty = ProcessTypeDefault then ret i'
         else if Type i = ty then ret (i'\<lparr>pi_Kind := kind_set_parent_token parentToken (pi_Kind i)\<rparr>)
         else throw (Errorf ''processInstance has a different type''))))"

subsection \<open>Timers\<close>

definition timer_of_row :: "sql_Timer \<Rightarrow> Timer" where
  "timer_of_row r = \<lparr>tm_ElementId = stm_ElementID r, tm_Key = stm_Key r,
     tm_ElementInstanceKey = stm_ElementInstanceKey r, tm_ProcessDefinitionKey = stm_ProcessDefinitionKey r,
     tm_ProcessInstanceKey = stm_ProcessInstanceKey r, tm_State = TimerState_of (stm_State r),
     tm_CreatedAt = time_UnixMilli (stm_CreatedAt r), tm_DueAt = time_UnixMilli (stm_DueAt r),
     tm_Duration = time_UnixMilli (stm_DueAt r) - time_UnixMilli (stm_CreatedAt r),
     tm_Token = key_token (stm_ExecutionToken r)\<rparr>"

definition set_tm_Token :: "ExecutionToken \<Rightarrow> Timer \<Rightarrow> Timer" where
  "set_tm_Token t x = x\<lparr>tm_Token := t\<rparr>"

definition inflateTimers :: "sql_Timer list \<Rightarrow> (DB, Timer list) eng" where
  "inflateTimers rs =
     bind (query (q_GetTokens (map stm_ExecutionToken rs))) (\<lambda>ts.
       ret (attach_all tm_Token set_tm_Token ts (map timer_of_row rs)))"

definition DB_GetTimer :: "int \<Rightarrow> (DB, Timer) eng" where
  "DB_GetTimer k =
     bind (find_row ''failed to find timer by key'' (q_GetTimerByKey k)) (\<lambda>r.
     bind (inflateTimers [r]) (\<lambda>ts. ret (hd ts)))"

definition DB_FindTokenActiveTimerSubscriptions :: "int \<Rightarrow> (DB, Timer list) eng" where
  "DB_FindTokenActiveTimerSubscriptions tk =
     bind (query (q_FindTokenTimers tk (TimerState_int TimerStateCreated))) inflateTimers"

definition DB_FindProcessInstanceTimers :: "int \<Rightarrow> TimerState \<Rightarrow> (DB, Timer list) eng" where
  "DB_FindProcessInstanceTimers pk st =
     bind (query (q_FindProcessInstanceTimersInState pk (TimerState_int st))) inflateTimers"

definition DB_FindTimersTo :: "int \<Rightarrow> (DB, Timer list) eng" where
  "DB_FindTimersTo end_time =
     bind (query (q_FindTimersInStateTillDueAt (UnixMilli end_time) (TimerState_int TimerStateCreated))) inflateTimers"

subsection \<open>Jobs\<close>

text \<open>No reader of jobs sets the assignee.\<close>

definition job_of_row :: "sql_Job \<Rightarrow> vars \<Rightarrow> Job" where
  "job_of_row r variables = \<lparr>job_ElementId = sjb_ElementID r, job_ElementInstanceKey = sjb_ElementInstanceKey r,
     job_ProcessInstanceKey = sjb_ProcessInstanceKey r, job_Key = sjb_Key r,
     job_State = ActivityState_of (sjb_State r), job_Type = sjb_Type r, job_Variables = variables,
     job_CreatedAt = time_UnixMilli (sjb_CreatedAt r), job_Token = key_token (sjb_ExecutionToken r),
     job_Assignee = None\<rparr>"

definition set_job_Token :: "ExecutionToken \<Rightarrow> Job \<Rightarrow> Job" where
  "set_job_Token t x = x\<lparr>job_Token := t\<rparr>"

definition inflate_jobs :: "sql_Job list \<Rightarrow> (DB, Job list) eng" where
  "inflate_jobs rs =
     bind (map_each rs (\<lambda>r.
       bind (wrap (Wrapf ''failed to unmarshal job variables'') (lift_sum (json_Unmarshal (sjb_Variables r))))
         (\<lambda>variables. ret (job_of_row r variables)))) (\<lambda>res.
     bind (query (q_GetTokens (map sjb_ExecutionToken rs))) (\<lambda>ts.
       ret (attach_all job_Token set_job_Token ts res)))"

text \<open>\<^verbatim>\<open>make([]int64, len(states))\<close> followed by \<^verbatim>\<open>append\<close>: as many zeros as there are states come first.\<close>

definition DB_GetJobsInStateByTokenKey :: "int \<Rightarrow> ActivityState list \<Rightarrow> (DB, Job list) eng" where
  "DB_GetJobsInStateByTokenKey tk states =
     bind (query (q_GetJobsInStateByTokenKey tk (replicate (length states) 0 @ map ActivityState_int states)))
       inflate_jobs"

definition DB_FindActiveJobsByType :: "string \<Rightarrow> (DB, Job list) eng" where
  "DB_FindActiveJobsByType ty =
     bind (query (q_FindActiveJobsByType ty)) (\<lambda>rs.
     bind (query (q_GetTokens (map sjb_ExecutionToken rs))) (\<lambda>ts.
       ret (attach_first job_Token set_job_Token ts (map (\<lambda>r. job_of_row r Map.empty) rs))))"

definition DB_FindJobByJobKey :: "int \<Rightarrow> (DB, Job) eng" where
  "DB_FindJobByJobKey k =
     bind (find_row ''failed to find job with key'' (q_FindJobByJobKey k)) (\<lambda>r.
     bind (query (q_GetTokens [sjb_ExecutionToken r])) (\<lambda>ts.
     case ts of
       [t] \<Rightarrow>
         bind (wrap (Wrapf ''failed to unmarshal job variables'') (lift_sum (json_Unmarshal (sjb_Variables r))))
           (\<lambda>variables. ret ((job_of_row r variables)\<lparr>job_Token := attached_token t\<rparr>))
     | _ \<Rightarrow> throw (Errorf ''failed to find job token in the database'')))"

definition DB_FindPendingProcessInstanceJobs :: "int \<Rightarrow> (DB, Job list) eng" where
  "DB_FindPendingProcessInstanceJobs pk =
     bind (query (q_FindProcessInstanceJobsInState pk
       [ActivityState_int ActivityStateCompleting, ActivityState_int ActivityStateActive,
        ActivityState_int ActivityStateFailed])) inflate_jobs"

subsection \<open>Message subscriptions\<close>

definition subscription_of_row :: "sql_MessageSubscription \<Rightarrow> ExecutionToken \<Rightarrow> MessageSubscription" where
  "subscription_of_row r t = \<lparr>ms_Key = sms_Key r, ms_ElementId = sms_ElementID r,
     ms_ProcessDefinitionKey = sms_ProcessDefinitionKey r, ms_ProcessInstanceKey = sms_ProcessInstanceKey r,
     ms_Name = sms_Name r, ms_CorrelationKey = sms_CorrelationKey r, ms_State = ActivityState_of (sms_State r),
     ms_CreatedAt = time_UnixMilli (sms_CreatedAt r), ms_Token = t\<rparr>"

definition set_ms_Token :: "ExecutionToken \<Rightarrow> MessageSubscription \<Rightarrow> MessageSubscription" where
  "set_ms_Token t x = x\<lparr>ms_Token := t\<rparr>"

definition token_not_loaded :: error where
  "token_not_loaded = Errorf ''failed to load message subscription token''"

definition DB_FindActiveMessageSubscriptionPointer :: "string \<Rightarrow> string \<Rightarrow> (DB, sql_MessageSubscriptionPointer) eng" where
  "DB_FindActiveMessageSubscriptionPointer name ck =
     find_row ''failed to find ready message subscription pointer''
       (q_FindMessageSubscriptionPointer ck name (ActivityState_int ActivityStateActive))"

definition DB_FindActiveMessageSubscriptionKey :: "string \<Rightarrow> string \<Rightarrow> (DB, int) eng" where
  "DB_FindActiveMessageSubscriptionKey name ck =
     bind (find_row ''can't find active message subscription by name and correlationKey''
       (q_FindMessageSubscriptionByNameAndCorrelationKeyAndState ck name (ActivityState_int ActivityStateActive)))
       (\<lambda>r. ret (sms_Key r))"

definition DB_FindTokenMessageSubscriptions :: "int \<Rightarrow> ActivityState \<Rightarrow> (DB, MessageSubscription list) eng" where
  "DB_FindTokenMessageSubscriptions tk st =
     bind (query (q_FindTokenMessageSubscriptions tk (ActivityState_int st))) (\<lambda>rs.
     bind (query (q_GetTokens [tk])) (\<lambda>ts.
     case ts of
       [t] \<Rightarrow> ret (map (\<lambda>r. subscription_of_row r (attached_token t)) rs)
     | _ \<Rightarrow> throw token_not_loaded))"

definition DB_FindMessageSubscriptionById :: "int \<Rightarrow> ActivityState \<Rightarrow> (DB, MessageSubscription) eng" where
  "DB_FindMessageSubscriptionById k st =
     bind (find_row ''failed to find active message subscription'' (q_GetMessageSubscriptionById k (ActivityState_int st)))
     (\<lambda>r. bind (query (q_GetTokens [sms_ExecutionToken r])) (\<lambda>ts.
     case ts of
       [t] \<Rightarrow> ret (subscription_of_row r (attached_token t))
     | _ \<Rightarrow> throw token_not_loaded))"

definition DB_FindProcessInstanceMessageSubscriptions ::
  "int \<Rightarrow> ActivityState \<Rightarrow> (DB, MessageSubscription list) eng" where
  "DB_FindProcessInstanceMessageSubscriptions pk st =
     bind (query (q_FindProcessInstanceMessageSubscriptions pk (ActivityState_int st))) (\<lambda>rs.
     bind (query (q_GetTokens (map sms_ExecutionToken rs))) (\<lambda>ts.
       ret (attach_all ms_Token set_ms_Token ts
         (map (\<lambda>r. subscription_of_row r (key_token (sms_ExecutionToken r))) rs))))"

subsection \<open>History and incidents\<close>

definition flow_element_of_row :: "sql_FlowElementInstance \<Rightarrow> (DB, FlowElementInstance) eng" where
  "flow_element_of_row r =
     bind (wrap (Wrapf ''failed to marshal variables for flow element instance'')
       (lift_sum (json_Unmarshal (sfe_InputVariables r)))) (\<lambda>inputVariables.
     bind (wrap (Wrapf ''failed to marshal variables for flow element instance'')
       (lift_sum (json_Unmarshal (sfe_OutputVariables r)))) (\<lambda>outputVariables. ret
     \<lparr>fe_Key = sfe_Key r, fe_ProcessInstanceKey = sfe_ProcessInstanceKey r, fe_ElementId = sfe_ElementID r,
      fe_CreatedAt = time_UnixMilli (sfe_CreatedAt r), fe_ExecutionTokenKey = sfe_ExecutionTokenKey r,
      fe_InputVariables = inputVariables, fe_OutputVariables = outputVariables\<rparr>))"

definition DB_GetFlowElementInstanceCountByProcessInstanceKey :: "int \<Rightarrow> (DB, int) eng" where
  "DB_GetFlowElementInstanceCountByProcessInstanceKey pk = query (q_CountFlowElementInstances pk)"

definition DB_GetFlowElementInstancesByProcessInstanceKey :: "int \<Rightarrow> bool \<Rightarrow> (DB, FlowElementInstance list) eng" where
  "DB_GetFlowElementInstancesByProcessInstanceKey pk orderByTimeCreated =
     bind (query (q_GetFlowElementInstances pk 1000 0)) (\<lambda>rs.
     bind (map_each (map fst rs) flow_element_of_row) (\<lambda>fs.
       ret (if orderByTimeCreated then sort_key (\<lambda>f. - fe_CreatedAt f) fs else fs)))"

text \<open>This reader puts the key of the row into the field for the token.\<close>

definition DB_GetFlowElementInstanceByKey :: "int \<Rightarrow> (DB, FlowElementInstance) eng" where
  "DB_GetFlowElementInstanceByKey k =
     bind (bind (query (q_GetFlowElementInstanceByKey k)) lift_sum) (\<lambda>r.
     bind (flow_element_of_row r) (\<lambda>f. ret (f\<lparr>fe_ExecutionTokenKey := sfe_Key r\<rparr>)))"

definition incident_of_row :: "sql_Incident \<Rightarrow> ExecutionToken \<Rightarrow> Incident" where
  "incident_of_row r t = \<lparr>inc_Key = sic_Key r, inc_ElementInstanceKey = sic_ElementInstanceKey r,
     inc_ElementId = sic_ElementID r, inc_ProcessInstanceKey = sic_ProcessInstanceKey r,
     inc_Message = sic_Message r, inc_CreatedAt = time_UnixMilli (sic_CreatedAt r),
     inc_ResolvedAt = map_option time_UnixMilli (sic_ResolvedAt r), inc_Token = t\<rparr>"

text \<open>\<^verbatim>\<open>tokens[0]\<close> is evaluated for every incident.\<close>

definition DB_FindIncidentsByExecutionTokenKey :: "int \<Rightarrow> (DB, Incident list) eng" where
  "DB_FindIncidentsByExecutionTokenKey tk =
     bind (query (q_FindIncidentsByExecutionTokenKey tk)) (\<lambda>rs.
     bind (query (q_GetTokens [tk])) (\<lambda>ts.
     case (rs, ts) of
       ([], _) \<Rightarrow> ret []
     | (_, t # _) \<Rightarrow> ret (map (\<lambda>r. incident_of_row r (attached_token t)) rs)
     | (_, []) \<Rightarrow> panic ''index out of range''))"

definition DB_FindIncidentByKey :: "int \<Rightarrow> (DB, Incident) eng" where
  "DB_FindIncidentByKey k =
     bind (find_row ''incident with key not found'' (q_FindIncidentByKey k)) (\<lambda>r.
     bind (query (q_GetTokens [sic_ExecutionToken r])) (\<lambda>ts.
     case ts of
       t # _ \<Rightarrow> ret (incident_of_row r (attached_token t))
     | [] \<Rightarrow> throw (Errorf ''no incidents found'')))"

definition set_inc_Token :: "ExecutionToken \<Rightarrow> Incident \<Rightarrow> Incident" where
  "set_inc_Token t x = x\<lparr>inc_Token := t\<rparr>"

text \<open>The token key is not set before the tokens are attached, the two times are not read.\<close>

definition DB_FindIncidentsByProcessInstanceKey :: "int \<Rightarrow> (DB, Incident list) eng" where
  "DB_FindIncidentsByProcessInstanceKey pk =
     bind (query (q_FindIncidentsByProcessInstanceKey pk)) (\<lambda>rs.
     bind (query (q_GetTokens (map sic_ExecutionToken rs))) (\<lambda>ts.
       ret (attach_first inc_Token set_inc_Token ts
         (map (\<lambda>r. (incident_of_row r zero_Token)\<lparr>inc_CreatedAt := 0, inc_ResolvedAt := None\<rparr>) rs))))"

section \<open>Clean-up of the history\<close>

text \<open>
  \<^verbatim>\<open>dataCleanup\<close> asks for at most \<open>historyDeleteThreshold\<close> ended instances and deletes them only when it
  got that many. Every delete is a transaction of its own whose error is joined to the others and
  then dropped.
\<close>

definition cleanup_stmts :: "int list \<Rightarrow> sql_stmt list" where
  "cleanup_stmts keys =
     [St_DeleteProcessInstancesDecisionInstances (map Some keys), St_DeleteFlowElementInstance keys,
      St_DeleteProcessInstancesTokens keys, St_DeleteProcessInstancesJobs keys,
      St_DeleteProcessInstancesTimers keys, St_DeleteProcessInstancesMessageSubscriptions keys,
      St_DeleteProcessInstancesIncidents keys, St_DeleteProcessInstances keys]"

definition dataCleanup :: "int \<Rightarrow> (DB, bool) eng" where
  "dataCleanup currTime =
     bind (gets db_historyDeleteThreshold) (\<lambda>threshold.
     bind (query (q_FindInactiveInstancesToDelete (Unix currTime) threshold)) (\<lambda>processes.
     if int (length processes) = threshold then
       bind (for_each (cleanup_stmts processes)
         (\<lambda>st. bind (attempt (DB_ExecContext st)) (\<lambda>_. ret ()))) (\<lambda>_. ret True)
     else ret False))"

text \<open>The seconds until the next clean-up that \<^verbatim>\<open>scheduleDataCleanup\<close> sets.\<close>

definition scheduleDataCleanup_step :: "int \<Rightarrow> (DB, int) eng" where
  "scheduleDataCleanup_step currTime =
     bind (attempt (dataCleanup currTime)) (\<lambda>r.
       ret (case r of Inl _ \<Rightarrow> 30 | Inr cleaningTriggered \<Rightarrow> if cleaningTriggered then 5 else 30))"

end
