(* ===== verification/Sql_Batches.thy ===== *)
theory Sql_Batches
  imports Sql_Persistence
begin

text \<open>
  Batches and transactions of \<^verbatim>\<open>partition_persistence.go\<close>. The writers of \<open>Sql_Persistence\<close> are written
  against the interface \<open>querier\<close>, interpreted on the database itself (every statement commits alone) and
  on \<^verbatim>\<open>DBBatch\<close> (every statement is queued). The properties compare the two, and describe what the
  history clean-up deletes.
\<close>

section \<open>Transactions\<close>

lemma run_statements_append:
  "run_statements (xs @ ys) d = (case run_statements xs d of Inl e \<Rightarrow> Inl e | Inr d' \<Rightarrow> run_statements ys d')"
  by (induction xs arbitrary: d) (auto split: sum.splits)

lemma run_statements_ok:
  "db_ok d \<Longrightarrow> run_statements sts d = Inr d' \<Longrightarrow> db_ok d' \<and> FKConstraints d' = FKConstraints d"
proof (induction sts arbitrary: d)
  case Nil
  then show ?case by simp
next
  case (Cons st sts)
  then obtain e where e: "exec_stmt st d = Inr e" "run_statements sts e = Inr d'"
    by (auto split: sum.splits)
  with Cons.IH [of e] exec_stmt_ok [OF Cons.prems(1) e(1)] show ?case by simp
qed

lemma ExecuteStatements_cases:
  obtains (fail) e where "run_statements sts (db_Store s) = Inl e" "ExecuteStatements sts s = (Err e, s)"
  | (fine) d where "run_statements sts (db_Store s) = Inr d" "ExecuteStatements sts s = (Ok (), s\<lparr>db_Store := d\<rparr>)"
  by (cases "run_statements sts (db_Store s)") (simp_all add: ExecuteStatements_def)

section \<open>The interface of a querier\<close>

text \<open>
  What the writers rely on: a statement that is accepted extends the statements whose effect the
  querier stands for. \<open>effect\<close> is the database as it will be once everything issued has been run.
\<close>

locale querier =
  fixes issue :: "sql_stmt \<Rightarrow> ('s, unit) eng"
    and effect :: "'s \<Rightarrow> error + Database"
  assumes issue_effect: "issue st s = (Ok u, s') \<Longrightarrow>
      effect s' = (case effect s of Inl e \<Rightarrow> Inl e | Inr d \<Rightarrow> exec_stmt st d)"
begin

lemma issue_wrapped:
  "wrap f (issue st) s = (Ok u, s') \<Longrightarrow> effect s' = (case effect s of Inl e \<Rightarrow> Inl e | Inr d \<Rightarrow> exec_stmt st d)"
  by (simp add: wrap_Ok_iff issue_effect)

lemma issue_all:
  "for_each sts issue s = (Ok (), s') \<Longrightarrow>
     effect s' = (case effect s of Inl e \<Rightarrow> Inl e | Inr d \<Rightarrow> run_statements sts d)"
proof (induction sts arbitrary: s)
  case Nil
  then show ?case by (simp add: ret_def split: sum.splits)
next
  case (Cons st sts)
  then obtain s1 where i: "issue st s = (Ok (), s1)" and r: "for_each sts issue s1 = (Ok (), s')"
    by (auto simp: bind_Ok_iff)
  from Cons.IH [OF r] issue_effect [OF i] show ?case by (auto split: sum.splits)
qed

end

interpretation direct: querier DB_ExecContext "\<lambda>s. Inr (db_Store s)"
  by unfold_locales (auto simp: DB_ExecContext_def ExecuteStatements_def split: sum.splits)

interpretation batched: querier DBBatch_ExecContext "\<lambda>b. run_statements (b_stmtToRun b) (batch_db b)"
  by unfold_locales
    (auto simp: DBBatch_ExecContext_def modify_def batch_db_def run_statements_append split: sum.splits)

section \<open>The writes an engine makes\<close>

text \<open>The calls of the storage interface that write a row, and the statement each issues. For the save of a message
  subscription this is its row, \<^verbatim>\<open>SaveMessageSubscriptionWith\<close>; the pointer that is saved before it is the
  business of \<open>batch_write\<close> below and of \<open>DB_SaveMessageSubscription\<close> in \<open>Zen_Messages\<close>.\<close>

datatype storage_write =
    W_Token ExecutionToken
  | W_Job Job
  | W_Timer Timer
  | W_MessageSubscription MessageSubscription
  | W_Incident Incident
  | W_FlowElementInstance FlowElementInstance
  | W_UpdateOutput FlowElementInstance
  | W_ProcessDefinition ProcessDefinition

primrec write_with :: "'s issuer \<Rightarrow> int \<Rightarrow> storage_write \<Rightarrow> ('s, unit) eng" where
  "write_with issue now (W_Token x) = SaveTokenWith issue now x"
| "write_with issue now (W_Job x) = SaveJobWith issue x"
| "write_with issue now (W_Timer x) = SaveTimerWith issue x"
| "write_with issue now (W_MessageSubscription x) = SaveMessageSubscriptionWith issue x"
| "write_with issue now (W_Incident x) = SaveIncidentWith issue x"
| "write_with issue now (W_FlowElementInstance x) = SaveFlowElementInstanceWith issue x"
| "write_with issue now (W_UpdateOutput x) = UpdateOutputFlowElementInstanceWith issue x"
| "write_with issue now (W_ProcessDefinition x) = SaveProcessDefinitionWith issue x"

definition write_all :: "'s issuer \<Rightarrow> int \<Rightarrow> storage_write list \<Rightarrow> ('s, unit) eng" where
  "write_all issue now ws = for_each ws (write_with issue now)"

lemmas writer_defs = SaveTokenWith_def SaveJobWith_def SaveTimerWith_def SaveMessageSubscriptionWith_def
  SaveIncidentWith_def SaveFlowElementInstanceWith_def UpdateOutputFlowElementInstanceWith_def
  SaveProcessDefinitionWith_def

text \<open>The statement of a write: what it issues on a querier that only records.\<close>

definition recorder :: "sql_stmt option issuer" where
  "recorder st s = (Ok (), Some st)"

definition write_stmt :: "int \<Rightarrow> storage_write \<Rightarrow> sql_stmt option" where
  "write_stmt now w = snd (write_with recorder now w None)"

definition write_error :: "storage_write \<Rightarrow> error \<Rightarrow> error" where
  "write_error w =
     (case w of W_Job _ \<Rightarrow> Wrapf ''failed to save job''
      | W_Timer _ \<Rightarrow> Wrapf ''failed to save timer''
      | W_MessageSubscription _ \<Rightarrow> Wrapf ''failed to save message subscription''
      | W_ProcessDefinition _ \<Rightarrow> Wrapf ''failed to save process definition''
      | _ \<Rightarrow> (\<lambda>e. e))"

lemma wrap_id: "wrap (\<lambda>e. e) m = m"
  by (auto simp: wrap_def fun_eq_iff split: prod.splits res.splits)

lemma write_with_eq:
  "write_with issue now w =
     (case write_stmt now w of
        None \<Rightarrow> panic ''unexpected timer state''
      | Some st \<Rightarrow> wrap (write_error w) (issue st))"
  by (cases w)
    (auto simp: write_stmt_def writer_defs write_error_def wrap_id recorder_def wrap_def panic_def split: option.splits)

lemma run_statements_snoc:
  "run_statements (sts @ [st]) d = (case run_statements sts d of Inl e \<Rightarrow> Inl e | Inr d' \<Rightarrow> exec_stmt st d')"
  by (auto simp: run_statements_append split: sum.splits)

section \<open>Flushing a batch\<close>

text \<open>
  \<^verbatim>\<open>Flush\<close> of a batch: the pre-flush actions save the message pointers one by one, outside of the transaction, then
  the statements run in one transaction, then the post-flush actions run (the result).
  \<open>save_pointer\<close> is \<^verbatim>\<open>SaveMessageSubscriptionPointer\<close> and \<open>execute\<close> is \<^verbatim>\<open>ExecuteStatements\<close> on the state of the
  cluster, of which the batch's database is a part.
\<close>

text \<open>The text of the error of a statement becomes a new error.\<close>

definition statement_error :: "error \<Rightarrow> error" where
  "statement_error e = ErrorfArgs ''statement %d error: %s'' [error_text e]"

text \<open>A pre-flush action.\<close>

definition save_pointer_first :: "(sql_MessageSubscriptionPointer \<Rightarrow> ('s, unit) eng) \<Rightarrow> sql_MessageSubscriptionPointer \<Rightarrow> ('s, unit) eng" where
  "save_pointer_first save_pointer ptr =
     wrap (\<lambda>e. Wrapf ''failed pre-flush action'' (Wrapf ''failed to update message pointer'' e)) (save_pointer ptr)"

definition DBBatch_Flush ::
  "(sql_MessageSubscriptionPointer \<Rightarrow> ('s, unit) eng) \<Rightarrow> (sql_stmt list \<Rightarrow> ('s, unit) eng) \<Rightarrow> 'a DBBatch \<Rightarrow> ('s, 'a list) eng" where
  "DBBatch_Flush save_pointer execute b =
     bind (for_each (b_preFlushActions b) (save_pointer_first save_pointer))
     (\<lambda>_. bind (wrap statement_error (execute (b_stmtToRun b))) (\<lambda>_. ret (b_postFlushActions b)))"

text \<open>The methods of a batch: each queues the statement of its row, and the save of a subscription queues its
  pointer as well.\<close>

primrec batch_write :: "int \<Rightarrow> storage_write \<Rightarrow> ('a DBBatch, unit) eng" where
  "batch_write now (W_Token x) = DBBatch_SaveToken now x"
| "batch_write now (W_Job x) = DBBatch_SaveJob x"
| "batch_write now (W_Timer x) = DBBatch_SaveTimer x"
| "batch_write now (W_MessageSubscription x) = DBBatch_SaveMessageSubscription x"
| "batch_write now (W_Incident x) = DBBatch_SaveIncident x"
| "batch_write now (W_FlowElementInstance x) = DBBatch_SaveFlowElementInstance x"
| "batch_write now (W_UpdateOutput x) = DBBatch_UpdateOutputFlowElementInstance x"
| "batch_write now (W_ProcessDefinition x) = DBBatch_SaveProcessDefinition x"

lemmas batch_method_defs = DBBatch_SaveToken_def DBBatch_SaveJob_def DBBatch_SaveTimer_def DBBatch_SaveMessageSubscription_def
  DBBatch_SaveIncident_def DBBatch_SaveFlowElementInstance_def DBBatch_UpdateOutputFlowElementInstance_def
  DBBatch_SaveProcessDefinition_def

fun pointers_of :: "storage_write list \<Rightarrow> sql_MessageSubscriptionPointer list" where
  "pointers_of [] = []"
| "pointers_of (W_MessageSubscription m # ws) = pointer_of m # pointers_of ws"
| "pointers_of (_ # ws) = pointers_of ws"

lemma batch_write_eq:
  "batch_write now w = bind (for_each (pointers_of [w]) AddPreFlushAction) (\<lambda>_. write_with DBBatch_ExecContext now w)"
  by (cases w) (auto simp: batch_method_defs bind_def ret_def fun_eq_iff split: prod.splits res.splits)

lemma pointers_of_Cons: "pointers_of (w # ws) = pointers_of [w] @ pointers_of ws"
  by (cases w) simp_all

lemma queue_pointers:
  "for_each (pointers_of [w]) AddPreFlushAction b = (Ok (), b\<lparr>b_preFlushActions := b_preFlushActions b @ pointers_of [w]\<rparr>)"
  by (cases w) (simp_all add: bind_def ret_def AddPreFlushAction_def modify_def)

lemma batch_collects:
  assumes "for_each ws (batch_write now) b = (Ok (), b')"
  obtains sts where "map (write_stmt now) ws = map Some sts"
    and "b' = b\<lparr>b_stmtToRun := b_stmtToRun b @ sts, b_preFlushActions := b_preFlushActions b @ pointers_of ws\<rparr>"
  using assms
proof (induction ws arbitrary: b thesis)
  case Nil
  from Nil.prems(1) [of "[]"] Nil.prems(2) show ?case by (simp add: ret_def)
next
  case (Cons w ws)
  let ?b = "b\<lparr>b_preFlushActions := b_preFlushActions b @ pointers_of [w]\<rparr>"
  from Cons.prems(2) obtain b1 where "batch_write now w b = (Ok (), b1)"
    and ws: "for_each ws (batch_write now) b1 = (Ok (), b')"
    by (auto simp: bind_Ok_iff)
  then have w: "write_with DBBatch_ExecContext now w ?b = (Ok (), b1)"
    by (simp add: batch_write_eq bind_def queue_pointers)
  from w obtain st where st: "write_stmt now w = Some st" "b1 = ?b\<lparr>b_stmtToRun := b_stmtToRun b @ [st]\<rparr>"
    by (auto simp: write_with_eq wrap_Ok_iff panic_def DBBatch_ExecContext_def modify_def split: option.splits)
  from Cons.IH [OF _ ws] obtain sts where "map (write_stmt now) ws = map Some sts"
    "b' = b1\<lparr>b_stmtToRun := b_stmtToRun b1 @ sts, b_preFlushActions := b_preFlushActions b1 @ pointers_of ws\<rparr>" by blast
  with st Cons.prems(1) [of "st # sts"] show ?case by (simp add: pointers_of_Cons [of w ws])
qed

lemma direct_writes:
  assumes "map (write_stmt now) ws = map Some sts"
  shows "(\<exists>d. run_statements sts (db_Store s) = Inr d \<and>
            write_all DB_ExecContext now ws s = (Ok (), s\<lparr>db_Store := d\<rparr>)) \<or>
         (\<exists>w e. w \<in> set ws \<and> run_statements sts (db_Store s) = Inl e \<and>
            fst (write_all DB_ExecContext now ws s) = Err (write_error w e))"
  using assms
proof (induction ws arbitrary: sts s)
  case Nil
  then show ?case by (simp add: write_all_def ret_def)
next
  case (Cons w ws)
  then obtain st sts' where sts: "sts = st # sts'" "write_stmt now w = Some st" "map (write_stmt now) ws = map Some sts'"
    by auto
  have w: "write_all DB_ExecContext now (w # ws) s =
      bind (wrap (write_error w) (DB_ExecContext st)) (\<lambda>_. write_all DB_ExecContext now ws) s"
    by (simp add: write_all_def write_with_eq sts(2))
  show ?case
  proof (cases "exec_stmt st (db_Store s)")
    case (Inl e)
    then have "wrap (write_error w) (DB_ExecContext st) s = (Err (write_error w e), s)"
      by (simp add: DB_ExecContext_def ExecuteStatements_def wrap_def)
    with w Inl sts(1) show ?thesis by (auto simp: bind_eval_Err)
  next
    case (Inr d)
    then have "wrap (write_error w) (DB_ExecContext st) s = (Ok (), s\<lparr>db_Store := d\<rparr>)"
      by (simp add: DB_ExecContext_def ExecuteStatements_def wrap_def)
    with w Inr sts(1) Cons.IH [OF sts(3), of "s\<lparr>db_Store := d\<rparr>"] show ?thesis
      by (auto simp: bind_eval)
  qed
qed

section \<open>An example database\<close>

text \<open>A completed instance 10 with one completed token 20, and a completed sub-process 11 of that token
  whose time of deletion is second 500.\<close>

definition sqldemo_instance_row :: "int \<Rightarrow> int option \<Rightarrow> int option \<Rightarrow> sql_ProcessInstance" where
  "sqldemo_instance_row k parent del =
     \<lparr>spi_Key = k, spi_ProcessDefinitionKey = 1, spi_BusinessKey = None, spi_CreatedAt = 5, spi_State = 4,
      spi_Variables = Json Map.empty, spi_ParentProcessExecutionToken = parent,
      spi_ParentProcessTargetElementID = map_option (\<lambda>_. ''sub'') parent,
      spi_ParentProcessTargetElementInstanceKey = map_option (\<lambda>_. 30) parent,
      spi_ProcessType = (if parent = None then 1 else 2), spi_HistoryTtlSec = None, spi_HistoryDeleteSec = del\<rparr>"

definition sqldemo_rows :: Database where
  "sqldemo_rows = new_Database\<lparr>
     process_definition := [(1, \<lparr>spd_Key = 1, spd_Version = 1, spd_BpmnProcessID = ''p'', spd_BpmnData = ''<xml/>'',
        spd_BpmnChecksum = 7, spd_BpmnProcessName = ''P''\<rparr>)],
     process_instance := [(10, sqldemo_instance_row 10 None None), (11, sqldemo_instance_row 11 (Some 20) (Some 500))],
     execution_token := [(20, \<lparr>stk_Key = 20, stk_ElementInstanceKey = 30, stk_ElementID = ''sub'',
        stk_ProcessInstanceKey = 10, stk_State = 3, stk_CreatedAt = 5\<rparr>)]\<rparr>"

definition sqldemo_DB :: DB where
  "sqldemo_DB = (NewDB 1)\<lparr>db_Store := sqldemo_rows, db_historyDeleteThreshold := 1\<rparr>"

definition sqldemo_token :: "int \<Rightarrow> int \<Rightarrow> ExecutionToken" where
  "sqldemo_token k pk = \<lparr>tok_Key = k, tok_ElementInstanceKey = 31, tok_ElementId = ''task'',
     tok_ProcessInstanceKey = pk, tok_State = TokenStateRunning, tok_CreatedAt = 0\<rparr>"

definition sqldemo_definitions :: TDefinitions where
  "sqldemo_definitions = \<lparr>def_Id = ''d'', def_Process = \<lparr>proc_Id = ''p'', proc_Name = ''P'',
     proc_Container = FlowElements [] [] [] [] [] [] [] [] [] [] [] [] [] [] [] [] []\<rparr>, def_Messages = []\<rparr>"

definition sqldemo_definition :: ProcessDefinition where
  "sqldemo_definition = \<lparr>pd_BpmnProcessId = ''p'', pd_Version = 1, pd_Key = 1, pd_Definitions = sqldemo_definitions,
     pd_BpmnData = ''<xml/>'', pd_BpmnProcessName = [], pd_BpmnChecksum = 7\<rparr>"

lemmas sqldemo_defs = sqldemo_DB_def sqldemo_rows_def sqldemo_instance_row_def NewDB_def new_Database_def sqldemo_token_def

lemma sqldemo_ok: "db_ok sqldemo_rows"
  by (simp add: sqldemo_defs db_ok_def db_keyed_def db_refs_def has_defs keyed_def twf_def trows_def tget_def)

section \<open>Properties\<close>


definition sqldemo_subscription :: MessageSubscription where
  "sqldemo_subscription = \<lparr>ms_Key = 50, ms_ElementId = ''wait'', ms_ProcessDefinitionKey = 1, ms_ProcessInstanceKey = 10,
     ms_Name = ''paid'', ms_CorrelationKey = ''a'', ms_State = ActivityStateActive, ms_CreatedAt = 0, ms_Token = sqldemo_token 20 10\<rparr>"


section \<open>What the clean-up deletes\<close>

definition cleaned :: "int list \<Rightarrow> Database \<Rightarrow> Database" where
  "cleaned keys d = d\<lparr>
     decision_instance := tdelete (\<lambda>r. sdi_ProcessInstanceKey r \<in> Some ` set keys) (decision_instance d),
     flow_element_instance := tdelete (\<lambda>r. sfe_ProcessInstanceKey r \<in> set keys) (flow_element_instance d),
     execution_token := tdelete (\<lambda>r. stk_ProcessInstanceKey r \<in> set keys) (execution_token d),
     job := tdelete (\<lambda>r. sjb_ProcessInstanceKey r \<in> set keys) (job d),
     timer := tdelete (\<lambda>r. stm_ProcessInstanceKey r \<in> set keys) (timer d),
     message_subscription := tdelete (\<lambda>r. sms_ProcessInstanceKey r \<in> set keys) (message_subscription d),
     incident := tdelete (\<lambda>r. sic_ProcessInstanceKey r \<in> set keys) (incident d),
     process_instance := tdelete (\<lambda>r. spi_Key r \<in> set keys) (process_instance d)\<rparr>"

lemma cleanup_statements_run: "run_statements (cleanup_stmts keys) d = Inr (cleaned keys d)"
proof -
  have e: "(\<lambda>r. (\<exists>y. sdi_ProcessInstanceKey r = Some y) \<and> sdi_ProcessInstanceKey r \<in> Some ` set keys) =
      (\<lambda>r. sdi_ProcessInstanceKey r \<in> Some ` set keys)"
    by auto
  have c: "q_DeleteProcessInstances keys (d\<lparr>
     decision_instance := tdelete (\<lambda>r. sdi_ProcessInstanceKey r \<in> Some ` set keys) (decision_instance d),
     flow_element_instance := tdelete (\<lambda>r. sfe_ProcessInstanceKey r \<in> set keys) (flow_element_instance d),
     execution_token := tdelete (\<lambda>r. stk_ProcessInstanceKey r \<in> set keys) (execution_token d),
     job := tdelete (\<lambda>r. sjb_ProcessInstanceKey r \<in> set keys) (job d),
     timer := tdelete (\<lambda>r. stm_ProcessInstanceKey r \<in> set keys) (timer d),
     message_subscription := tdelete (\<lambda>r. sms_ProcessInstanceKey r \<in> set keys) (message_subscription d),
     incident := tdelete (\<lambda>r. sic_ProcessInstanceKey r \<in> set keys) (incident d)\<rparr>) = Inr (cleaned keys d)"
    by (auto simp: q_DeleteProcessInstances_def cleaned_def sql_in_def pi_referenced_def list_ex_iff
        set_trows_tdelete)
  show ?thesis
    unfolding cleanup_stmts_def by (simp add: delete_query_defs sql_in_def e c)
qed

lemma best_effort_run:
  "run_statements sts (db_Store s) = Inr d \<Longrightarrow>
     for_each sts (\<lambda>st. bind (attempt (DB_ExecContext st)) (\<lambda>_. ret ())) s = (Ok (), s\<lparr>db_Store := d\<rparr>)"
proof (induction sts arbitrary: s)
  case Nil
  then show ?case by (simp add: ret_def)
next
  case (Cons st sts)
  then obtain d1 where d1: "exec_stmt st (db_Store s) = Inr d1" "run_statements sts d1 = Inr d"
    by (auto split: sum.splits)
  then have "bind (attempt (DB_ExecContext st)) (\<lambda>_. ret ()) s = (Ok (), s\<lparr>db_Store := d1\<rparr>)"
    by (simp add: bind_def attempt_def DB_ExecContext_def ExecuteStatements_def ret_def)
  with Cons.IH [of "s\<lparr>db_Store := d1\<rparr>"] d1 show ?case by (simp add: bind_eval)
qed

lemma found_deletable:
  assumes "db_ok d" and "k \<in> set (q_FindInactiveInstancesToDelete now lim d)"
  obtains r where "tget (process_instance d) k = Some r" and "deletable now d r"
proof -
  from assms(2) set_sql_page obtain r where "r \<in> set (trows (process_instance d))" "deletable now d r" "k = spi_Key r"
    unfolding q_FindInactiveInstancesToDelete_def by (fastforce dest: subsetD)
  with that assms(1) show thesis
    by (auto simp: db_ok_def db_keyed_def keyed_rows)
qed

text \<open>C21. The history clean-up. When fewer ended instances than the threshold are found nothing changes. When
  the threshold is reached, the clean-up reports True, none of its deletes fails on a foreign key
  although the errors are dropped, and afterwards exactly the rows of the found instances are gone from
  all tables. Every deleted instance was completed, failed or terminated, its time of deletion, where it
  has one, had passed, and a child instance was only deleted if the instance that owns its parent token
  had ended as well. References stay intact.\<close>

theorem cleanup_removes_ended_instances_only:
  assumes "db_ok (db_Store s)"
    and "found = q_FindInactiveInstancesToDelete (Unix now) (db_historyDeleteThreshold s) (db_Store s)"
  shows "dataCleanup now s =
      (if int (length found) = db_historyDeleteThreshold s
       then (Ok True, s\<lparr>db_Store := cleaned found (db_Store s)\<rparr>) else (Ok False, s)) \<and>
    db_ok (cleaned found (db_Store s)) \<and>
    (\<forall>k\<in>set found. \<exists>r. tget (process_instance (db_Store s)) k = Some r \<and> ended_state (spi_State r) \<and>
       (\<forall>t. spi_HistoryDeleteSec r = Some t \<longrightarrow> t < Unix now) \<and>
       (spi_ParentProcessExecutionToken r = None \<or>
        (\<exists>p. parent_instance_row (db_Store s) r = Some p \<and> ended_state (spi_State p))))"
proof (intro conjI ballI)
  have "for_each (cleanup_stmts found) (\<lambda>st. bind (attempt (DB_ExecContext st)) (\<lambda>_. ret ())) s =
      (Ok (), s\<lparr>db_Store := cleaned found (db_Store s)\<rparr>)"
    by (rule best_effort_run [OF cleanup_statements_run])
  then show "dataCleanup now s =
      (if int (length found) = db_historyDeleteThreshold s
       then (Ok True, s\<lparr>db_Store := cleaned found (db_Store s)\<rparr>) else (Ok False, s))"
    by (simp add: dataCleanup_def query_def assms(2) [symmetric] bind_eval ret_def)
  show "db_ok (cleaned found (db_Store s))"
    using run_statements_ok [OF assms(1) cleanup_statements_run] by simp
  fix k
  assume "k \<in> set found"
  then obtain r where r: "tget (process_instance (db_Store s)) k = Some r" "deletable (Unix now) (db_Store s) r"
    unfolding assms(2) by (rule found_deletable [OF assms(1)])
  then show "\<exists>r. tget (process_instance (db_Store s)) k = Some r \<and> ended_state (spi_State r) \<and>
       (\<forall>t. spi_HistoryDeleteSec r = Some t \<longrightarrow> t < Unix now) \<and>
       (spi_ParentProcessExecutionToken r = None \<or>
        (\<exists>p. parent_instance_row (db_Store s) r = Some p \<and> ended_state (spi_State p)))"
    by (intro exI [of _ r]) (auto simp: deletable_def split: option.splits)
qed

theorem cleanup_removes_ended_instances_only_witness:
  "fst (dataCleanup ((100 + 62135596800) * 1000000000) sqldemo_DB) = Ok True \<and>
   map fst (process_instance (db_Store (snd (dataCleanup ((100 + 62135596800) * 1000000000) sqldemo_DB)))) = [11]"
proof -
  have f: "q_FindInactiveInstancesToDelete 100 1 sqldemo_rows = [10]"
    by (simp add: q_FindInactiveInstancesToDelete_def deletable_def parent_instance_row_def ended_state_def
        sql_page_def trows_def tget_def sqldemo_defs)
  have u: "Unix ((100 + 62135596800) * 1000000000) = 100" by (simp add: Unix_def)
  have s: "db_Store sqldemo_DB = sqldemo_rows" "db_historyDeleteThreshold sqldemo_DB = 1"
    by (simp_all add: sqldemo_DB_def)
  have "dataCleanup ((100 + 62135596800) * 1000000000) sqldemo_DB = (Ok True, sqldemo_DB\<lparr>db_Store := cleaned [10] sqldemo_rows\<rparr>)"
    using cleanup_removes_ended_instances_only [of sqldemo_DB, OF _ refl, of "(100 + 62135596800) * 1000000000"]
    unfolding u s f by (simp add: sqldemo_ok)
  then show ?thesis
    by (simp add: cleaned_def tdelete_def sqldemo_rows_def sqldemo_instance_row_def new_Database_def)
qed

end
