(* ===== verification/Sql_Refinement.thy ===== *)
theory Sql_Refinement
  imports Sql_Batches
begin

text \<open>
  The two implementations of the storage interface of the engine, the in-memory store (\<open>In_Memory\<close>,
  \<^verbatim>\<open>pkg/storage/inmemory\<close>) and the database of a partition (\<open>Sql_Persistence\<close>), related by a simulation:
  \<open>stores_rel\<close> holds between a database and an in-memory store whose rows correspond, and flushing the
  same writes keeps it.
\<close>

section \<open>Rows against in-memory records\<close>

text \<open>
  The two implementations of the storage interface side by side. The database holds, for every
  record of the in-memory store, the row its writer makes of it; a token row keeps the time of its
  first save.
\<close>

definition token_rel :: "sql_ExecutionToken \<Rightarrow> ExecutionToken \<Rightarrow> bool" where
  "token_rel r t \<longleftrightarrow> (\<exists>c. r = token_row c t)"

definition job_rel :: "sql_Job \<Rightarrow> Job \<Rightarrow> bool" where
  "job_rel r j \<longleftrightarrow> r = job_row j"

definition timer_rel :: "sql_Timer \<Rightarrow> Timer \<Rightarrow> bool" where
  "timer_rel r t \<longleftrightarrow> (\<exists>st. Timer_GetState (tm_State t) = Some st \<and> r = timer_row st t)"

definition subscription_rel :: "sql_MessageSubscription \<Rightarrow> MessageSubscription \<Rightarrow> bool" where
  "subscription_rel r m \<longleftrightarrow> r = subscription_row m"

definition incident_rel :: "sql_Incident \<Rightarrow> Incident \<Rightarrow> bool" where
  "incident_rel r i \<longleftrightarrow> r = incident_row i"

definition table_rel :: "('r \<Rightarrow> 'x \<Rightarrow> bool) \<Rightarrow> 'r table \<Rightarrow> 'x table \<Rightarrow> bool" where
  "table_rel R t m \<longleftrightarrow> (\<forall>k. rel_option R (tget t k) (tget m k))"

definition stores_rel :: "Database \<Rightarrow> Storage \<Rightarrow> bool" where
  "stores_rel d m \<longleftrightarrow>
     table_rel token_rel (execution_token d) (ExecutionTokens m) \<and> table_rel job_rel (job d) (Jobs m) \<and>
     table_rel timer_rel (timer d) (Timers m) \<and>
     table_rel subscription_rel (message_subscription d) (MessageSubscriptions m) \<and>
     table_rel incident_rel (incident d) (Incidents m)"

lemma stores_rel_new: "stores_rel new_Database NewStorage"
  by (simp add: stores_rel_def table_rel_def new_Database_def NewStorage_def)

subsection \<open>Records that keep their identity\<close>

text \<open>
  The \<^verbatim>\<open>SET\<close> clauses leave most columns alone. The engine only ever changes the other fields of a stored
  record: a save is \<^emph>\<open>steady\<close> if the fields that the database does not update are those of the record
  that is already stored.
\<close>

definition same_token :: "ExecutionToken \<Rightarrow> ExecutionToken \<Rightarrow> bool" where
  "same_token t0 t \<longleftrightarrow> tok_Key t0 = tok_Key t \<and> tok_ProcessInstanceKey t0 = tok_ProcessInstanceKey t"

definition same_job :: "Job \<Rightarrow> Job \<Rightarrow> bool" where
  "same_job j0 j \<longleftrightarrow> job_Key j0 = job_Key j \<and> job_ElementInstanceKey j0 = job_ElementInstanceKey j \<and> job_ElementId j0 = job_ElementId j \<and>
     job_ProcessInstanceKey j0 = job_ProcessInstanceKey j \<and> job_Type j0 = job_Type j \<and>
     UnixMilli (job_CreatedAt j0) = UnixMilli (job_CreatedAt j) \<and> tok_Key (job_Token j0) = tok_Key (job_Token j)"

definition same_timer :: "Timer \<Rightarrow> Timer \<Rightarrow> bool" where
  "same_timer t0 t \<longleftrightarrow> tm_Key t0 = tm_Key t \<and> tm_ElementInstanceKey t0 = tm_ElementInstanceKey t \<and> tm_ElementId t0 = tm_ElementId t \<and>
     tm_ProcessDefinitionKey t0 = tm_ProcessDefinitionKey t \<and> tm_ProcessInstanceKey t0 = tm_ProcessInstanceKey t \<and>
     UnixMilli (tm_CreatedAt t0) = UnixMilli (tm_CreatedAt t) \<and> UnixMilli (tm_DueAt t0) = UnixMilli (tm_DueAt t) \<and>
     tok_Key (tm_Token t0) = tok_Key (tm_Token t)"

definition same_subscription :: "MessageSubscription \<Rightarrow> MessageSubscription \<Rightarrow> bool" where
  "same_subscription m0 m \<longleftrightarrow> ms_Key m0 = ms_Key m \<and> ms_ElementId m0 = ms_ElementId m \<and>
     ms_ProcessDefinitionKey m0 = ms_ProcessDefinitionKey m \<and> ms_ProcessInstanceKey m0 = ms_ProcessInstanceKey m \<and>
     ms_Name m0 = ms_Name m \<and> UnixMilli (ms_CreatedAt m0) = UnixMilli (ms_CreatedAt m) \<and>
     ms_CorrelationKey m0 = ms_CorrelationKey m \<and> tok_Key (ms_Token m0) = tok_Key (ms_Token m)"

definition same_incident :: "Incident \<Rightarrow> Incident \<Rightarrow> bool" where
  "same_incident i0 i \<longleftrightarrow> inc_Key i0 = inc_Key i \<and> inc_ElementInstanceKey i0 = inc_ElementInstanceKey i \<and> inc_ElementId i0 = inc_ElementId i \<and>
     inc_ProcessInstanceKey i0 = inc_ProcessInstanceKey i \<and> inc_Message i0 = inc_Message i \<and>
     UnixMilli (inc_CreatedAt i0) = UnixMilli (inc_CreatedAt i) \<and> tok_Key (inc_Token i0) = tok_Key (inc_Token i)"

primrec steady :: "Storage \<Rightarrow> stmt \<Rightarrow> bool" where
  "steady m (StToken t) = pred_option (\<lambda>t0. same_token t0 t) (tget (ExecutionTokens m) (tok_Key t))"
| "steady m (StJob j) = pred_option (\<lambda>j0. same_job j0 j) (tget (Jobs m) (job_Key j))"
| "steady m (StTimer t) = pred_option (\<lambda>t0. same_timer t0 t) (tget (Timers m) (tm_Key t))"
| "steady m (StMessageSubscription x) = pred_option (\<lambda>x0. same_subscription x0 x) (tget (MessageSubscriptions m) (ms_Key x))"
| "steady m (StIncident i) = pred_option (\<lambda>i0. same_incident i0 i) (tget (Incidents m) (inc_Key i))"
| "steady m (StProcessDefinition _) = True"
| "steady m (StProcessInstance _) = True"
| "steady m (StFlowElementInstance _) = True"
| "steady m (StUpdateOutput _ _) = True"

fun steady_run :: "heap \<Rightarrow> Storage \<Rightarrow> stmt list \<Rightarrow> bool" where
  "steady_run h m [] = True"
| "steady_run h m (st # sts) = (steady m st \<and> steady_run h (snd (run_stmt h st m)) sts)"

subsection \<open>The statements of a batch in both stores\<close>

text \<open>What the SQL batch queues for the call that the in-memory batch queues as \<open>st\<close>; the save of an
  instance without the statements for its history marks, which no other table sees.\<close>

definition sql_of :: "heap \<Rightarrow> call_context \<Rightarrow> int \<Rightarrow> stmt \<Rightarrow> sql_stmt option" where
  "sql_of h c now st =
     (case st of
        StToken x \<Rightarrow> write_stmt now (W_Token x)
      | StJob x \<Rightarrow> write_stmt now (W_Job x)
      | StTimer x \<Rightarrow> write_stmt now (W_Timer x)
      | StMessageSubscription x \<Rightarrow> write_stmt now (W_MessageSubscription x)
      | StIncident x \<Rightarrow> write_stmt now (W_Incident x)
      | StProcessDefinition x \<Rightarrow> write_stmt now (W_ProcessDefinition x)
      | StFlowElementInstance x \<Rightarrow> write_stmt now (W_FlowElementInstance x)
      | StUpdateOutput k out \<Rightarrow>
          write_stmt now (W_UpdateOutput (zero_FlowElementInstance\<lparr>fe_Key := k, fe_OutputVariables := out\<rparr>))
      | StProcessInstance r \<Rightarrow> Some (St_SaveProcessInstance (process_instance_row c (h ! r))))"

text \<open>One upsert against one assignment to the map, for a record that keeps its identity.\<close>

lemma table_rel_upsert:
  assumes "table_rel R t m" and "upsert ok k r upd t = Inr t'" and "R r x"
    and "\<And>old x0. R old x0 \<Longrightarrow> tget t k = Some old \<Longrightarrow> tget m k = Some x0 \<Longrightarrow> R (upd old) x"
  shows "table_rel R t' (tput k x m)"
  unfolding table_rel_def
proof
  fix k'
  have k': "rel_option R (tget t k') (tget m k')" using assms(1) by (simp add: table_rel_def)
  show "rel_option R (tget t' k') (tget (tput k x m) k')"
    using assms(2)
  proof (cases rule: upsert_cases)
    case insert
    with k' assms(3) show ?thesis by simp
  next
    case (update old)
    then obtain x0 where "tget m k = Some x0" "R old x0"
      using assms(1) [unfolded table_rel_def, rule_format, of k] by (cases "tget m k") auto
    with assms(4) update k' show ?thesis by simp
  qed
qed

lemma write_stmt_simps:
  "write_stmt now (W_Token x) = Some (St_SaveToken (token_row now x))"
  "write_stmt now (W_Job j) = Some (St_SaveJob (job_row j))"
  "write_stmt now (W_Timer t) = map_option (\<lambda>st. St_SaveTimer (timer_row st t)) (Timer_GetState (tm_State t))"
  "write_stmt now (W_MessageSubscription m) = Some (St_SaveMessageSubscription (subscription_row m))"
  "write_stmt now (W_Incident i) = Some (St_SaveIncident (incident_row i))"
  by (auto simp: write_stmt_def writer_defs recorder_def wrap_def panic_def split: option.splits)

lemma write_stmt_others:
  "\<exists>r. write_stmt now (W_ProcessDefinition p) = Some (St_SaveProcessDefinition r)"
  "\<exists>r. write_stmt now (W_FlowElementInstance f) = Some (St_SaveFlowElementInstance r)"
  "\<exists>r. write_stmt now (W_UpdateOutput f) = Some (St_UpdateOutputFlowElementInstance r)"
  by (simp_all add: write_stmt_def writer_defs recorder_def wrap_def)

lemmas same_defs = same_token_def same_job_def same_timer_def same_subscription_def same_incident_def
lemmas rel_defs = token_rel_def job_rel_def timer_rel_def subscription_rel_def incident_rel_def
lemmas row_defs = token_row_def job_row_def timer_row_def subscription_row_def incident_row_def

lemma token_step:
  assumes "stores_rel d m" and "exec_stmt (St_SaveToken (token_row now t)) d = Inr d'" and "steady m (StToken t)"
  shows "stores_rel d' (SaveToken t m)"
proof -
  from assms(2) obtain tab where u: "upsert (pi_exists d (tok_ProcessInstanceKey t)) (tok_Key t) (token_row now t)
      (\<lambda>old. old\<lparr>stk_State := TokenState_int (tok_State t), stk_ElementInstanceKey := tok_ElementInstanceKey t,
         stk_ElementID := tok_ElementId t\<rparr>) (execution_token d) = Inr tab" and d': "d' = d\<lparr>execution_token := tab\<rparr>"
    by (auto simp: q_SaveToken_def map_sum_right_Inr token_row_def)
  have "table_rel token_rel tab (tput (tok_Key t) t (ExecutionTokens m))"
    by (rule table_rel_upsert [OF _ u])
      (use assms(1,3) in \<open>auto simp: stores_rel_def token_rel_def token_row_def same_token_def\<close>)
  with assms(1) show ?thesis by (simp add: stores_rel_def d' SaveToken_def)
qed

lemma job_step:
  assumes "stores_rel d m" and "exec_stmt (St_SaveJob (job_row j)) d = Inr d'" and "steady m (StJob j)"
  shows "stores_rel d' (SaveJob j m)"
proof -
  from assms(2) obtain tab where u: "upsert (pi_exists d (job_ProcessInstanceKey j)) (job_Key j) (job_row j)
      (\<lambda>old. old\<lparr>sjb_State := sjb_State (job_row j), sjb_Variables := sjb_Variables (job_row j),
         sjb_Assignee := sjb_Assignee (job_row j)\<rparr>) (job d) = Inr tab" and d': "d' = d\<lparr>job := tab\<rparr>"
    by (auto simp: q_SaveJob_def map_sum_right_Inr job_row_def)
  have "table_rel job_rel tab (tput (job_Key j) j (Jobs m))"
    by (rule table_rel_upsert [OF _ u])
      (use assms(1,3) in \<open>auto simp: stores_rel_def job_rel_def job_row_def same_job_def\<close>)
  with assms(1) show ?thesis by (simp add: stores_rel_def d' SaveJob_def)
qed

lemma timer_step:
  assumes "stores_rel d m" and "exec_stmt (St_SaveTimer (timer_row st t)) d = Inr d'"
    and "Timer_GetState (tm_State t) = Some st" and "steady m (StTimer t)"
  shows "stores_rel d' (SaveTimer t m)"
proof -
  from assms(2) obtain tab where u: "upsert (pi_exists d (tm_ProcessInstanceKey t) \<and> pd_exists d (tm_ProcessDefinitionKey t))
      (tm_Key t) (timer_row st t) (\<lambda>old. old\<lparr>stm_State := ActivityState_int st\<rparr>) (timer d) = Inr tab"
    and d': "d' = d\<lparr>timer := tab\<rparr>"
    by (auto simp: q_SaveTimer_def map_sum_right_Inr timer_row_def)
  have "table_rel timer_rel tab (tput (tm_Key t) t (Timers m))"
    by (rule table_rel_upsert [OF _ u])
      (use assms(1,3,4) in \<open>auto simp: stores_rel_def timer_rel_def timer_row_def same_timer_def\<close>)
  with assms(1) show ?thesis by (simp add: stores_rel_def d' SaveTimer_def)
qed

lemma incident_step:
  assumes "stores_rel d m" and "exec_stmt (St_SaveIncident (incident_row i)) d = Inr d'" and "steady m (StIncident i)"
  shows "stores_rel d' (SaveIncident i m)"
proof -
  from assms(2) obtain tab where u: "upsert (pi_exists d (inc_ProcessInstanceKey i)) (inc_Key i) (incident_row i)
      (\<lambda>old. old\<lparr>sic_ResolvedAt := sic_ResolvedAt (incident_row i)\<rparr>) (incident d) = Inr tab"
    and d': "d' = d\<lparr>incident := tab\<rparr>"
    by (auto simp: q_SaveIncident_def map_sum_right_Inr incident_row_def)
  have "table_rel incident_rel tab (tput (inc_Key i) i (Incidents m))"
    by (rule table_rel_upsert [OF _ u])
      (use assms(1,3) in \<open>auto simp: stores_rel_def incident_rel_def incident_row_def same_incident_def\<close>)
  with assms(1) show ?thesis by (simp add: stores_rel_def d' SaveIncident_def)
qed

lemma subscription_step:
  assumes "stores_rel d m" and "exec_stmt (St_SaveMessageSubscription (subscription_row x)) d = Inr d'"
    and "steady m (StMessageSubscription x)" and "SaveMessageSubscription x m = Inr m'"
  shows "stores_rel d' m'"
proof -
  from assms(2) obtain tab where u: "upsert (pi_exists d (ms_ProcessInstanceKey x) \<and> pd_exists d (ms_ProcessDefinitionKey x))
      (ms_Key x) (subscription_row x) (\<lambda>old. old\<lparr>sms_State := sms_State (subscription_row x)\<rparr>)
      (message_subscription d) = Inr tab"
    and d': "d' = d\<lparr>message_subscription := tab\<rparr>"
    by (auto simp: q_SaveMessageSubscription_def map_sum_right_Inr subscription_row_def)
  have "table_rel subscription_rel tab (tput (ms_Key x) x (MessageSubscriptions m))"
    by (rule table_rel_upsert [OF _ u])
      (use assms(1,3) in \<open>auto simp: stores_rel_def subscription_rel_def subscription_row_def same_subscription_def\<close>)
  with assms(1,4) show ?thesis
    by (auto simp: stores_rel_def d' SaveMessageSubscription_def split: if_splits)
qed

text \<open>Statements on the other tables do not touch the related ones.\<close>

lemma other_step:
  assumes "stores_rel d m" and "exec_stmt st d = Inr d'"
    and "(\<exists>r. st = St_SaveProcessDefinition r) \<or> (\<exists>r. st = St_SaveFlowElementInstance r) \<or>
      (\<exists>r. st = St_UpdateOutputFlowElementInstance r) \<or> (\<exists>r. st = St_SaveProcessInstance r)"
    and "ExecutionTokens m' = ExecutionTokens m" "Jobs m' = Jobs m" "Timers m' = Timers m"
      "MessageSubscriptions m' = MessageSubscriptions m" "Incidents m' = Incidents m"
  shows "stores_rel d' m'"
  using assms
  by (auto simp: stores_rel_def map_sum_right_Inr q_SaveProcessDefinition_def q_SaveFlowElementInstance_def
      q_UpdateOutputFlowElementInstance_def q_SaveProcessInstance_def)

lemma step_refines:
  assumes "stores_rel d m" and "sql_of h c now st = Some q" and "exec_stmt q d = Inr d'" and "steady m st"
    and "fst (run_stmt h st m) = None"
  shows "stores_rel d' (snd (run_stmt h st m))"
proof (cases st)
  case (StTimer t)
  with assms obtain a where "Timer_GetState (tm_State t) = Some a" "q = St_SaveTimer (timer_row a t)"
    by (auto simp: sql_of_def write_stmt_simps)
  with assms StTimer timer_step [OF assms(1), of a t d'] show ?thesis by simp
next
  case (StMessageSubscription x)
  with assms(5) obtain m' where "SaveMessageSubscription x m = Inr m'"
    by (auto split: sum.splits)
  with assms StMessageSubscription subscription_step [OF assms(1), of x d' m'] show ?thesis
    by (simp add: sql_of_def write_stmt_simps)
next
  case (StProcessDefinition x)
  with assms write_stmt_others(1) [of now x] show ?thesis
    by (auto simp: sql_of_def SaveProcessDefinition_def intro!: other_step [OF assms(1,3)])
next
  case (StFlowElementInstance x)
  with assms write_stmt_others(2) [of now x] show ?thesis
    by (auto simp: sql_of_def SaveFlowElementInstance_def intro!: other_step [OF assms(1,3)])
next
  case (StUpdateOutput k out)
  with assms write_stmt_others(3) [of now "zero_FlowElementInstance\<lparr>fe_Key := k, fe_OutputVariables := out\<rparr>"]
  show ?thesis
    by (auto simp: sql_of_def UpdateOutputFlowElementInstance_def Let_def intro!: other_step [OF assms(1,3)])
next
  case (StProcessInstance x)
  with assms show ?thesis
    by (auto simp: sql_of_def SaveProcessInstance_def intro!: other_step [OF assms(1,3)])
next
  case (StToken t)
  with assms token_step [OF assms(1), of now t d'] show ?thesis by (simp add: sql_of_def write_stmt_simps)
next
  case (StJob j)
  with assms job_step [OF assms(1), of j d'] show ?thesis by (simp add: sql_of_def write_stmt_simps)
next
  case (StIncident i)
  with assms incident_step [OF assms(1), of i d'] show ?thesis by (simp add: sql_of_def write_stmt_simps)
qed

lemma run_stmts_joined: "fst (run_stmts h sts e d) = None \<Longrightarrow> e = None"
proof (induction sts arbitrary: e d)
  case (Cons st sts)
  from Cons.prems have "fst (run_stmts h sts (join_err e (fst (run_stmt h st d))) (snd (run_stmt h st d))) = None"
    by (simp add: case_prod_beta)
  then have "join_err e (fst (run_stmt h st d)) = None" by (rule Cons.IH)
  then show ?case by simp
qed simp

lemma run_refines:
  assumes "stores_rel d m" and "map (sql_of h c now) sts = map Some qs" and "run_statements qs d = Inr d'"
    and "steady_run h m sts" and "run_stmts h sts None m = (None, m')"
  shows "stores_rel d' m'"
  using assms
proof (induction sts arbitrary: d m qs)
  case Nil
  then show ?case by simp
next
  case (Cons st sts)
  from Cons.prems(2) obtain q qs' where qs: "qs = q # qs'" "sql_of h c now st = Some q"
      "map (sql_of h c now) sts = map Some qs'"
    by (cases qs) auto
  with Cons.prems(3) obtain d1 where d1: "exec_stmt q d = Inr d1" "run_statements qs' d1 = Inr d'"
    by (auto split: sum.splits)
  obtain e m1 where m1: "run_stmt h st m = (e, m1)" by (cases "run_stmt h st m")
  with Cons.prems(5) have "fst (run_stmts h sts (join_err None e) m1) = None" by simp
  with run_stmts_joined have "join_err None e = None" by blast
  with m1 have ok: "fst (run_stmt h st m) = None" and e: "e = None" by simp_all
  have "stores_rel d1 (snd (run_stmt h st m))"
    using step_refines [OF Cons.prems(1) qs(2) d1(1) _ ok] Cons.prems(4) by simp
  then show ?case
    using Cons.IH [OF _ qs(3) d1(2)] Cons.prems(4,5) m1 e by (simp add: join_err_def)
qed

subsection \<open>What the finders return\<close>

lemma table_rel_rows:
  assumes "table_rel R t m" and "twf t" and "twf m" and "\<And>r x. R r x \<Longrightarrow> P r = Q x"
    and "\<And>r x. R r x \<Longrightarrow> P r \<Longrightarrow> f r = g x"
  shows "f ` set (filter P (trows t)) = g ` set (filter Q (trows m))"
proof (intro equalityI image_subsetI)
  fix r assume "r \<in> set (filter P (trows t))"
  with assms(2) obtain k where r: "tget t k = Some r" "P r" by (auto simp: set_trows)
  with assms(1) obtain x where x: "tget m k = Some x" "R r x"
    unfolding table_rel_def by (metis option_rel_Some1)
  with r assms(4) have "x \<in> set (filter Q (trows m))" by (simp add: tget_in_trows)
  with assms(5) [OF x(2) r(2)] show "f r \<in> g ` set (filter Q (trows m))" by simp
next
  fix x assume "x \<in> set (filter Q (trows m))"
  with assms(3) obtain k where x: "tget m k = Some x" "Q x" by (auto simp: set_trows)
  with assms(1) obtain r where r: "tget t k = Some r" "R r x"
    unfolding table_rel_def by (metis option_rel_Some2)
  with x assms(4) have "r \<in> set (filter P (trows t))" by (simp add: tget_in_trows)
  with assms(4,5) [OF r(2)] x show "g x \<in> f ` set (filter P (trows t))" by (metis image_eqI)
qed

text \<open>A token without the time of its creation, which the database keeps from the first save.\<close>

definition untimed :: "ExecutionToken \<Rightarrow> ExecutionToken" where
  "untimed t = t\<lparr>tok_CreatedAt := 0\<rparr>"

lemmas table_rel_image = table_rel_rows [where f = id, unfolded image_id id_apply]

lemma active_timer_code: "Timer_GetState st = Some a \<Longrightarrow> ActivityState_int a = 1 \<longleftrightarrow> st = TimerStateCreated"
  by (cases st) auto

lemma finders_agree:
  assumes "stores_rel d m" and "db_ok d" and "store_wf m"
  shows
    "untimed ` set (map token_of_row (q_GetTokensForProcessInstance pk [TokenState_int TokenStateWaiting, TokenState_int TokenStateRunning, TokenState_int TokenStateFailed] d)) =
       untimed ` set (GetActiveTokensForProcessInstance m pk)"
    "set (q_FindProcessInstanceJobsInState pk [ActivityState_int ActivityStateCompleting, ActivityState_int ActivityStateActive,
         ActivityState_int ActivityStateFailed] d) = job_row ` set (FindPendingProcessInstanceJobs m pk)"
    "set (q_FindTokenTimers tk (TimerState_int TimerStateCreated) d) = timer_row ActivityStateActive ` set (FindTokenActiveTimerSubscriptions m tk)"
    "set (q_FindProcessInstanceMessageSubscriptions pk (ActivityState_int st) d) =
       subscription_row ` set (FindProcessInstanceMessageSubscriptions m pk st)"
proof -
  have wf: "twf (execution_token d)" "twf (job d)" "twf (timer d)" "twf (message_subscription d)"
      "twf (ExecutionTokens m)" "twf (Jobs m)" "twf (Timers m)" "twf (MessageSubscriptions m)"
    using assms(2,3) by (simp_all add: db_ok_def db_keyed_def store_wf_def keyed_def)
  have rel: "table_rel token_rel (execution_token d) (ExecutionTokens m)" "table_rel job_rel (job d) (Jobs m)"
      "table_rel timer_rel (timer d) (Timers m)"
      "table_rel subscription_rel (message_subscription d) (MessageSubscriptions m)"
    using assms(1) by (simp_all add: stores_rel_def)
  show "untimed ` set (map token_of_row (q_GetTokensForProcessInstance pk [TokenState_int TokenStateWaiting, TokenState_int TokenStateRunning, TokenState_int TokenStateFailed] d)) =
       untimed ` set (GetActiveTokensForProcessInstance m pk)"
    unfolding q_GetTokensForProcessInstance_def GetActiveTokensForProcessInstance_def set_map image_comp
    by (rule table_rel_rows [OF rel(1) wf(1,5)])
      (auto simp: token_rel_def token_row_def untimed_def token_of_row_def sql_in_def token_active_def simp del: TokenState_int.simps)
  show "set (q_FindProcessInstanceJobsInState pk [ActivityState_int ActivityStateCompleting, ActivityState_int ActivityStateActive,
         ActivityState_int ActivityStateFailed] d) = job_row ` set (FindPendingProcessInstanceJobs m pk)"
    unfolding q_FindProcessInstanceJobsInState_def FindPendingProcessInstanceJobs_def
    by (rule table_rel_image [OF rel(2) wf(2,6)])
      (auto simp: job_rel_def job_row_def sql_in_def simp del: ActivityState_int.simps)
  show "set (q_FindTokenTimers tk (TimerState_int TimerStateCreated) d) = timer_row ActivityStateActive ` set (FindTokenActiveTimerSubscriptions m tk)"
    unfolding q_FindTokenTimers_def FindTokenActiveTimerSubscriptions_def
    by (rule table_rel_image [OF rel(3) wf(3,7)])
      (auto simp: timer_rel_def timer_row_def active_timer_code)
  show "set (q_FindProcessInstanceMessageSubscriptions pk (ActivityState_int st) d) =
       subscription_row ` set (FindProcessInstanceMessageSubscriptions m pk st)"
    unfolding q_FindProcessInstanceMessageSubscriptions_def FindProcessInstanceMessageSubscriptions_def
    by (rule table_rel_image [OF rel(4) wf(4,8)])
      (auto simp: subscription_rel_def subscription_row_def)
qed

text \<open>The finders of the database return records that are not those in memory. \<open>job_seen\<close>, \<open>timer_seen\<close> and
  \<open>subscription_seen\<close> say what is left of a record in memory: times are cut to milliseconds, the assignee of a job is
  dropped, the duration of a timer is computed from its times; of the token, which the database reads afresh, the
  key is compared only.\<close>

definition job_key_only :: "Job \<Rightarrow> Job" where
  "job_key_only j = j\<lparr>job_Token := key_token (tok_Key (job_Token j))\<rparr>"

definition job_seen :: "Job \<Rightarrow> Job" where
  "job_seen j = (job_key_only j)\<lparr>job_CreatedAt := truncate_ms (job_CreatedAt j), job_Assignee := None\<rparr>"

definition timer_key_only :: "Timer \<Rightarrow> Timer" where
  "timer_key_only t = t\<lparr>tm_Token := key_token (tok_Key (tm_Token t))\<rparr>"

definition timer_seen :: "Timer \<Rightarrow> Timer" where
  "timer_seen t = (timer_key_only t)\<lparr>tm_CreatedAt := truncate_ms (tm_CreatedAt t), tm_DueAt := truncate_ms (tm_DueAt t),
     tm_Duration := truncate_ms (tm_DueAt t) - truncate_ms (tm_CreatedAt t)\<rparr>"

definition subscription_key_only :: "MessageSubscription \<Rightarrow> MessageSubscription" where
  "subscription_key_only m = m\<lparr>ms_Token := key_token (tok_Key (ms_Token m))\<rparr>"

definition subscription_seen :: "MessageSubscription \<Rightarrow> MessageSubscription" where
  "subscription_seen m = (subscription_key_only m)\<lparr>ms_CreatedAt := truncate_ms (ms_CreatedAt m)\<rparr>"

text \<open>Attaching tokens changes neither their keys nor anything else.\<close>

lemma attach_all_key_only:
  assumes "\<And>t x. tok_Key (get x) = tok_Key t \<Longrightarrow> f (put t x) = f x" and "\<And>t x. get (put t x) = t"
  shows "map f (attach_all get put ts xs) = map f xs"
proof (induction ts arbitrary: xs)
  case (Cons t ts)
  have "tok_Key (attached_token t) = stk_Key t" by (simp add: attached_token_def token_of_row_def)
  with assms(1) have "f (if tok_Key (get x) = stk_Key t then put (attached_token t) x else x) = f x" for x by simp
  then show ?case by (simp add: Cons.IH comp_def)
qed simp

lemma key_of_key_token [simp]: "tok_Key (key_token k) = k"
  by (simp add: key_token_def)

definition job_variables :: "sql_Job \<Rightarrow> vars" where
  "job_variables r = (case sjb_Variables r of Json vs \<Rightarrow> vs | NotJson _ \<Rightarrow> Map.empty)"

lemma inflate_jobs_eval:
  assumes "\<forall>r \<in> set rs. sjb_Variables r \<in> range json_Marshal"
  shows "inflate_jobs rs s = (Ok (attach_all job_Token set_job_Token (q_GetTokens (map sjb_ExecutionToken rs) (db_Store s))
    (map (\<lambda>r. job_of_row r (job_variables r)) rs)), s)"
proof -
  have "map_each rs (\<lambda>r. bind (wrap (Wrapf ''failed to unmarshal job variables'') (lift_sum (json_Unmarshal (sjb_Variables r))))
      (\<lambda>variables. ret (job_of_row r variables))) s = (Ok (map (\<lambda>r. job_of_row r (job_variables r)) rs), s)"
    using assms
    by (induction rs) (auto simp: ret_def bind_def wrap_def lift_sum_def json_Unmarshal_def json_Marshal_def job_variables_def)
  then show ?thesis by (simp add: inflate_jobs_def bind_def query_def gets_def ret_def)
qed

lemma seen_job_row: "job_key_only (job_of_row (job_row j) (job_variables (job_row j))) = job_seen j"
  by (simp add: job_key_only_def job_seen_def job_of_row_def job_row_def job_variables_def json_Marshal_def)

lemma seen_timer_row:
  assumes "tm_State t = TimerStateCreated"
  shows "timer_key_only (timer_of_row (timer_row ActivityStateActive t)) = timer_seen t"
proof -
  have "TimerState_of 1 = TimerStateCreated" by (simp add: TimerState_of_def)
  with assms show ?thesis
    by (simp add: timer_key_only_def timer_seen_def timer_of_row_def timer_row_def)
qed

lemma seen_subscription_row:
  "subscription_key_only (subscription_of_row (subscription_row m) (key_token (sms_ExecutionToken (subscription_row m)))) =
     subscription_seen m"
  by (simp add: subscription_key_only_def subscription_seen_def subscription_of_row_def subscription_row_def)

lemmas seen_rows = seen_job_row seen_subscription_row

lemma read_finders_agree:
  assumes "stores_rel (db_Store s) m" and "db_ok (db_Store s)" and "store_wf m"
  shows
    "\<exists>js. DB_FindPendingProcessInstanceJobs pk s = (Ok js, s) \<and>
       job_key_only ` set js = job_seen ` set (FindPendingProcessInstanceJobs m pk)"
    "\<exists>ts. DB_FindTokenActiveTimerSubscriptions tk s = (Ok ts, s) \<and>
       timer_key_only ` set ts = timer_seen ` set (FindTokenActiveTimerSubscriptions m tk)"
    "\<exists>ms. DB_FindProcessInstanceMessageSubscriptions pk st s = (Ok ms, s) \<and>
       subscription_key_only ` set ms = subscription_seen ` set (FindProcessInstanceMessageSubscriptions m pk st)"
proof -
  note agree = finders_agree [OF assms]
  let ?rs = "q_FindProcessInstanceJobsInState pk [ActivityState_int ActivityStateCompleting, ActivityState_int ActivityStateActive,
      ActivityState_int ActivityStateFailed] (db_Store s)"
  have "\<forall>r \<in> set ?rs. sjb_Variables r \<in> range json_Marshal" using agree(2) [of pk] by (auto simp: job_row_def)
  from inflate_jobs_eval [OF this, of s] obtain js where js: "DB_FindPendingProcessInstanceJobs pk s = (Ok js, s)"
    "js = attach_all job_Token set_job_Token (q_GetTokens (map sjb_ExecutionToken ?rs) (db_Store s))
       (map (\<lambda>r. job_of_row r (job_variables r)) ?rs)"
    by (simp add: DB_FindPendingProcessInstanceJobs_def bind_def query_def gets_def)
  have "map job_key_only js = map (\<lambda>r. job_key_only (job_of_row r (job_variables r))) ?rs"
    unfolding js(2) by (subst attach_all_key_only) (auto simp: job_key_only_def set_job_Token_def)
  then have "job_key_only ` set js = (\<lambda>r. job_key_only (job_of_row r (job_variables r))) ` set ?rs"
    by (metis set_map)
  also have "\<dots> = job_seen ` set (FindPendingProcessInstanceJobs m pk)"
    unfolding agree(2) by (simp add: image_image seen_rows)
  finally show "\<exists>js. DB_FindPendingProcessInstanceJobs pk s = (Ok js, s) \<and>
       job_key_only ` set js = job_seen ` set (FindPendingProcessInstanceJobs m pk)" using js(1) by blast
next
  note agree = finders_agree [OF assms]
  let ?rs = "q_FindTokenTimers tk (TimerState_int TimerStateCreated) (db_Store s)"
  obtain ts where ts: "DB_FindTokenActiveTimerSubscriptions tk s = (Ok ts, s)"
    "ts = attach_all tm_Token set_tm_Token (q_GetTokens (map stm_ExecutionToken ?rs) (db_Store s)) (map timer_of_row ?rs)"
    by (simp add: DB_FindTokenActiveTimerSubscriptions_def inflateTimers_def bind_def query_def gets_def ret_def)
  have "map timer_key_only ts = map (\<lambda>r. timer_key_only (timer_of_row r)) ?rs"
    unfolding ts(2) by (subst attach_all_key_only) (auto simp: timer_key_only_def set_tm_Token_def)
  then have "timer_key_only ` set ts = (\<lambda>r. timer_key_only (timer_of_row r)) ` set ?rs"
    by (metis set_map)
  also have "\<dots> = (\<lambda>t. timer_key_only (timer_of_row (timer_row ActivityStateActive t))) ` set (FindTokenActiveTimerSubscriptions m tk)"
    unfolding agree(3) by (simp only: image_image)
  also have "\<dots> = timer_seen ` set (FindTokenActiveTimerSubscriptions m tk)"
    by (intro image_cong refl seen_timer_row) (simp add: FindTokenActiveTimerSubscriptions_def)
  finally show "\<exists>ts. DB_FindTokenActiveTimerSubscriptions tk s = (Ok ts, s) \<and>
       timer_key_only ` set ts = timer_seen ` set (FindTokenActiveTimerSubscriptions m tk)" using ts(1) by blast
next
  note agree = finders_agree [OF assms]
  let ?rs = "q_FindProcessInstanceMessageSubscriptions pk (ActivityState_int st) (db_Store s)"
  let ?of = "\<lambda>r. subscription_of_row r (key_token (sms_ExecutionToken r))"
  obtain ms where ms: "DB_FindProcessInstanceMessageSubscriptions pk st s = (Ok ms, s)"
    "ms = attach_all ms_Token set_ms_Token (q_GetTokens (map sms_ExecutionToken ?rs) (db_Store s)) (map ?of ?rs)"
    by (simp add: DB_FindProcessInstanceMessageSubscriptions_def bind_def query_def gets_def ret_def)
  have "map subscription_key_only ms = map (\<lambda>r. subscription_key_only (?of r)) ?rs"
    unfolding ms(2) by (subst attach_all_key_only) (auto simp: subscription_key_only_def set_ms_Token_def)
  then have "subscription_key_only ` set ms = (\<lambda>r. subscription_key_only (?of r)) ` set ?rs"
    by (metis set_map)
  also have "\<dots> = subscription_seen ` set (FindProcessInstanceMessageSubscriptions m pk st)"
    unfolding agree(4) by (simp add: image_image seen_rows)
  finally show "\<exists>ms. DB_FindProcessInstanceMessageSubscriptions pk st s = (Ok ms, s) \<and>
       subscription_key_only ` set ms = subscription_seen ` set (FindProcessInstanceMessageSubscriptions m pk st)"
    using ms(1) by blast
qed

section \<open>Properties\<close>


definition sqldemo_job :: Job where
  "sqldemo_job = \<lparr>job_ElementId = ''task'', job_ElementInstanceKey = 31, job_ProcessInstanceKey = 10, job_Key = 40,
     job_State = ActivityStateActive, job_Type = ''mail'', job_Variables = Map.empty, job_CreatedAt = 5000000,
     job_Token = sqldemo_token 21 10, job_Assignee = None\<rparr>"

definition sqldemo_empty :: DB where
  "sqldemo_empty = sqldemo_DB\<lparr>db_Store := sqldemo_rows\<lparr>execution_token := []\<rparr>\<rparr>"


end
