(* ===== verification/Sql_Cache.thy ===== *)
theory Sql_Cache
  imports Sql_Batches
begin

text \<open>
  The caches of decoded definitions in \<^verbatim>\<open>DB\<close> (\<^verbatim>\<open>partition_persistence.go\<close>): a reader that consults the
  cache returns what a reader without one returns.
\<close>

section \<open>The caches of definitions\<close>

text \<open>
  A cache is coherent with the database when each entry is what decoding the row of its key yields.
  Definitions are only ever inserted, so a coherent cache stays coherent, also when entries are dropped.
\<close>

definition coherent :: "(int \<rightharpoonup> 'd) \<Rightarrow> 'r table \<Rightarrow> ('r \<Rightarrow> error + 'd) \<Rightarrow> bool" where
  "coherent c t decode \<longleftrightarrow> (\<forall>k d. c k = Some d \<longrightarrow> (\<exists>r. tget t k = Some r \<and> decode r = Inr d))"

definition pd_coherent :: "(string \<Rightarrow> error + TDefinitions) \<Rightarrow> DB \<Rightarrow> bool" where
  "pd_coherent xml s \<longleftrightarrow> coherent (db_pdCache s) (process_definition (db_Store s)) (process_definition_of_row xml)"

definition drd_coherent :: "(string \<Rightarrow> error + dmn_TDefinitions) \<Rightarrow> DB \<Rightarrow> bool" where
  "drd_coherent xml s \<longleftrightarrow> coherent (db_drdCache s) (dmn_resource_definition (db_Store s)) (dmn_resource_of_row xml)"

lemma coherent_empty [simp]: "coherent Map.empty t decode"
  by (simp add: coherent_def)

lemma coherent_drop: "coherent c t decode \<Longrightarrow> c' \<subseteq>\<^sub>m c \<Longrightarrow> coherent c' t decode"
  by (force simp: coherent_def map_le_def)

lemma coherent_add:
  "coherent c t decode \<Longrightarrow> tget t k = Some r \<Longrightarrow> decode r = Inr d \<Longrightarrow> coherent (c(k \<mapsto> d)) t decode"
  by (auto simp: coherent_def)

lemma coherentD: "coherent c t decode \<Longrightarrow> c k = Some d \<Longrightarrow> \<exists>r. tget t k = Some r \<and> decode r = Inr d"
  by (simp add: coherent_def)

text \<open>What a lookup means without a cache: the row is decoded.\<close>

definition decoded :: "(error + 'd) \<Rightarrow> 'd res" where
  "decoded x = (case x of Inl e \<Rightarrow> Err (Wrapf ''failed to unmarshal xml data'' e) | Inr d \<Rightarrow> Ok d)"

lemma decode_and_cache_eval:
  "decode_and_cache cache put_cache x k s =
     (decoded x, case x of Inl _ \<Rightarrow> s | Inr d \<Rightarrow> put_cache ((cache s)(k \<mapsto> d)) s)"
  by (auto simp: decode_and_cache_def decoded_def bind_def wrap_def lift_sum_def throw_def ret_def modify_def
      split: sum.splits)

lemma cached_eval:
  "coherent (cache s) t decode \<Longrightarrow> tget t k = Some r \<Longrightarrow>
     fst (cached cache put_cache (decode r) k s) = decoded (decode r)"
  using coherentD [of "cache s" t decode k]
  by (cases "cache s k") (auto simp: cached_def decode_and_cache_eval ret_def decoded_def)

text \<open>The state after a cached lookup: only the cache has changed, by at most the decoded row.\<close>

lemma cached_state:
  "snd (cached cache put_cache (decode r) k s) = s \<or>
   (\<exists>d. decode r = Inr d \<and> snd (cached cache put_cache (decode r) k s) = put_cache ((cache s)(k \<mapsto> d)) s)"
  by (auto simp: cached_def bind_def gets_def decode_and_cache_eval ret_def split: option.splits sum.splits)

lemma find_row_eval:
  "find_row msg q s = (case q (db_Store s) of Inl e \<Rightarrow> (Err (Wrapf msg (not_found_of e)), s) | Inr r \<Rightarrow> (Ok r, s))"
  by (auto simp: find_row_def query_def wrap_def bind_def gets_def lift_sum_def throw_def ret_def split: sum.splits)

text \<open>The lookup by key as it is without a cache.\<close>

definition uncached_by_key :: "(string \<Rightarrow> error + TDefinitions) \<Rightarrow> int \<Rightarrow> Database \<Rightarrow> ProcessDefinition res" where
  "uncached_by_key xml k d =
     (case tget (process_definition d) k of
        None \<Rightarrow> Err (Wrapf ''failed to find latest process definition by key'' ErrNotFound)
      | Some r \<Rightarrow> decoded (process_definition_of_row xml r))"

definition uncached_latest :: "(string \<Rightarrow> error + TDefinitions) \<Rightarrow> string \<Rightarrow> Database \<Rightarrow> ProcessDefinition res" where
  "uncached_latest xml i d =
     (case q_FindLatestProcessDefinitionById i d of
        Inl _ \<Rightarrow> Err (Wrapf ''failed to find latest process definition by id'' ErrNotFound)
      | Inr r \<Rightarrow> decoded (process_definition_of_row xml r))"

lemma sql_one_in: "sql_one xs = Inr x \<Longrightarrow> x \<in> set xs"
  by (cases xs) (auto simp: sql_one_def)

lemma sql_one_Inl: "sql_one xs = Inl e \<Longrightarrow> e = sql_ErrNoRows"
  by (cases xs) (auto simp: sql_one_def)

lemma latest_row:
  assumes "db_ok d" and "q_FindLatestProcessDefinitionById i d = Inr r"
  shows "tget (process_definition d) (spd_Key r) = Some r"
proof -
  have "r \<in> set (trows (process_definition d))"
    using sql_one_in [OF assms(2) [unfolded q_FindLatestProcessDefinitionById_def]]
    by (auto simp: by_version_desc_def)
  moreover have "keyed spd_Key (process_definition d)" using assms(1) by (simp add: db_ok_def db_keyed_def)
  ultimately show ?thesis by (simp add: keyed_rows)
qed

lemma by_key_eval:
  assumes "pd_coherent xml s"
  shows "fst (DB_FindProcessDefinitionByKey xml k s) = uncached_by_key xml k (db_Store s)"
  using coherentD [OF assms [unfolded pd_coherent_def], of k]
  by (cases "db_pdCache s k")
    (auto simp: DB_FindProcessDefinitionByKey_def uncached_by_key_def decoded_def
      bind_def gets_def find_row_eval q_FindProcessDefinitionByKey_def one_row_def not_found_of_def
      decode_and_cache_eval ret_def split: option.splits)

lemma latest_eval:
  assumes "db_ok (db_Store s)" and "pd_coherent xml s"
  shows "fst (DB_FindLatestProcessDefinitionById xml i s) = uncached_latest xml i (db_Store s)"
proof (cases "q_FindLatestProcessDefinitionById i (db_Store s)")
  case (Inl e)
  then have "e = sql_ErrNoRows"
    by (simp add: q_FindLatestProcessDefinitionById_def sql_one_Inl)
  with Inl show ?thesis
    by (simp add: DB_FindLatestProcessDefinitionById_def uncached_latest_def bind_def find_row_eval not_found_of_def)
next
  case (Inr r)
  have "fst (cached_process_definition xml r s) = decoded (process_definition_of_row xml r)"
    unfolding cached_process_definition_def
    by (rule cached_eval [where t = "process_definition (db_Store s)"])
      (use assms(2) latest_row [OF assms(1) Inr] in \<open>simp_all add: pd_coherent_def\<close>)
  with Inr show ?thesis
    by (simp add: DB_FindLatestProcessDefinitionById_def uncached_latest_def bind_def find_row_eval)
qed

text \<open>What keeps the cache coherent: lookups, evictions, and every statement, since none of them changes or
  deletes the row of a definition.\<close>

lemma pd_lookup_coherent:
  assumes "pd_coherent xml s" and "tget (process_definition (db_Store s)) k = Some r"
  shows "pd_coherent xml (snd (cached db_pdCache put_pdCache (process_definition_of_row xml r) k s)) \<and>
    db_Store (snd (cached db_pdCache put_pdCache (process_definition_of_row xml r) k s)) = db_Store s"
  using cached_state [of db_pdCache put_pdCache "process_definition_of_row xml" r k s] assms
  by (auto simp: pd_coherent_def put_pdCache_def intro: coherent_add)

lemma exec_keeps_definitions:
  "exec_stmt st d = Inr d' \<Longrightarrow> tget (process_definition d) k = Some r \<Longrightarrow> tget (process_definition d') k = Some r"
  by (cases st)
    (auto simp: child_query_defs delete_query_defs q_SaveProcessInstance_def q_SetProcessInstanceTTL_def
      q_SaveProcessDefinition_def q_SaveDmnResourceDefinition_def q_SaveDecisionDefinition_def
      q_SaveMessageSubscriptionPointer_def q_DeleteProcessInstances_def Let_def map_sum_right_Inr sql_insert_def
      split: option.splits if_splits)

lemma run_keeps_definitions:
  "run_statements sts d = Inr d' \<Longrightarrow> tget (process_definition d) k = Some r \<Longrightarrow> tget (process_definition d') k = Some r"
  by (induction sts arbitrary: d) (auto split: sum.splits dest: exec_keeps_definitions)

lemma statements_coherent:
  assumes "pd_coherent xml s" and "ExecuteStatements sts s = (res, s')"
  shows "pd_coherent xml s'"
proof (cases rule: ExecuteStatements_cases [of sts s])
  case (fail e)
  with assms show ?thesis by simp
next
  case (fine d)
  with assms show ?thesis
    unfolding pd_coherent_def coherent_def using run_keeps_definitions [OF fine(1)] by fastforce
qed

text \<open>C39. The cache of process definitions is transparent. Let every row of the database be stored under its own key
  with its references intact. Whenever every cached definition is the decoded row of its key, the lookups by key and by process id return exactly what decoding the stored row returns,
  errors included, and they leave the database unchanged and the cache coherent; dropping cache entries
  and executing any statements (also ones that fail) keep it coherent, so a stale definition is never
  returned.\<close>

theorem definition_cache_is_transparent:
  assumes "db_ok (db_Store s)" and "pd_coherent xml s"
  shows "fst (DB_FindProcessDefinitionByKey xml k s) = uncached_by_key xml k (db_Store s) \<and>
    fst (DB_FindLatestProcessDefinitionById xml i s) = uncached_latest xml i (db_Store s) \<and>
    db_Store (snd (DB_FindProcessDefinitionByKey xml k s)) = db_Store s \<and>
    db_Store (snd (DB_FindLatestProcessDefinitionById xml i s)) = db_Store s \<and>
    pd_coherent xml (snd (DB_FindProcessDefinitionByKey xml k s)) \<and>
    pd_coherent xml (snd (DB_FindLatestProcessDefinitionById xml i s)) \<and>
    (\<forall>c. c \<subseteq>\<^sub>m db_pdCache s \<longrightarrow> pd_coherent xml (s\<lparr>db_pdCache := c\<rparr>)) \<and>
    pd_coherent xml (snd (ExecuteStatements sts s))"
proof (intro conjI allI impI)
  let ?k = "DB_FindProcessDefinitionByKey xml k s" and ?l = "DB_FindLatestProcessDefinitionById xml i s"
  show "fst ?k = uncached_by_key xml k (db_Store s)" using assms(2) by (rule by_key_eval)
  show "fst ?l = uncached_latest xml i (db_Store s)" using assms by (rule latest_eval)
  have k: "snd ?k = s \<or> (\<exists>r d. tget (process_definition (db_Store s)) k = Some r \<and>
      process_definition_of_row xml r = Inr d \<and> snd ?k = put_pdCache ((db_pdCache s)(k \<mapsto> d)) s)"
    by (auto simp: DB_FindProcessDefinitionByKey_def bind_def gets_def find_row_eval q_FindProcessDefinitionByKey_def
        one_row_def decode_and_cache_eval ret_def split: option.splits sum.splits)
  then show "db_Store (snd ?k) = db_Store s" by (auto simp: put_pdCache_def)
  from k assms(2) show "pd_coherent xml (snd ?k)"
    by (auto simp: pd_coherent_def put_pdCache_def intro: coherent_add)
  have l: "pd_coherent xml (snd ?l) \<and> db_Store (snd ?l) = db_Store s"
  proof (cases "q_FindLatestProcessDefinitionById i (db_Store s)")
    case (Inl e)
    with assms(2) show ?thesis by (simp add: DB_FindLatestProcessDefinitionById_def bind_def find_row_eval)
  next
    case (Inr r)
    with pd_lookup_coherent [OF assms(2) latest_row [OF assms(1) Inr]] show ?thesis
      by (simp add: DB_FindLatestProcessDefinitionById_def bind_def find_row_eval cached_process_definition_def)
  qed
  from l show "pd_coherent xml (snd ?l)" "db_Store (snd ?l) = db_Store s" by blast+
  show "pd_coherent xml (snd (ExecuteStatements sts s))"
    using assms(2) by (rule statements_coherent) (rule prod.collapse [symmetric])
  fix c
  assume "c \<subseteq>\<^sub>m db_pdCache s"
  with assms(2) show "pd_coherent xml (s\<lparr>db_pdCache := c\<rparr>)"
    by (simp add: pd_coherent_def coherent_drop)
qed

theorem definition_cache_is_transparent_witness:
  "fst (DB_FindProcessDefinitionByKey (\<lambda>_. Inr sqldemo_definitions) 1 (sqldemo_DB\<lparr>db_pdCache := [1 \<mapsto> sqldemo_definition]\<rparr>)) =
     Ok sqldemo_definition"
proof -
  let ?xml = "\<lambda>_. Inr sqldemo_definitions" and ?s = "sqldemo_DB\<lparr>db_pdCache := [1 \<mapsto> sqldemo_definition]\<rparr>"
  have "pd_coherent ?xml ?s"
    by (simp add: pd_coherent_def coherent_def process_definition_of_row_def sqldemo_definition_def int32_def
        sqldemo_defs tget_def)
  moreover have "db_ok (db_Store ?s)" using sqldemo_ok by (simp add: sqldemo_DB_def)
  ultimately have "fst (DB_FindProcessDefinitionByKey ?xml 1 ?s) = uncached_by_key ?xml 1 (db_Store ?s)"
    using definition_cache_is_transparent [of ?s ?xml 1 "[]" "[]"] by blast
  also have "\<dots> = Ok sqldemo_definition"
    by (simp add: uncached_by_key_def decoded_def process_definition_of_row_def sqldemo_definition_def int32_def
        sqldemo_defs tget_def)
  finally show ?thesis .
qed

end
