(* ===== verification/Sql_History.thy ===== *)
theory Sql_History
  imports Sql_Batches
begin

text \<open>
  The life of an instance row in the database of a partition: how \<^verbatim>\<open>SaveProcessInstance\<close> of
  \<^verbatim>\<open>partition_persistence.go\<close> marks it for deletion, and what the history clean-up leaves behind.
\<close>

section \<open>Time to live\<close>

lemma DB_ExecContext_eval:
  "exec_stmt st (db_Store s) = Inr d \<Longrightarrow> DB_ExecContext st s = (Ok (), s\<lparr>db_Store := d\<rparr>)"
  by (simp add: DB_ExecContext_def ExecuteStatements_def)

lemma wrap_eval: "m s = (Ok x, s') \<Longrightarrow> wrap f m s = (Ok x, s')"
  by (simp add: wrap_def)

text \<open>The stored row after an instance that has a row was saved in a given state.\<close>

definition saved_row :: "call_context \<Rightarrow> int \<Rightarrow> ProcessInstance \<Rightarrow> sql_ProcessInstance \<Rightarrow> sql_ProcessInstance" where
  "saved_row c now i old = old\<lparr>
     spi_State := ActivityState_int (pi_State i), spi_Variables := json_Marshal (pi_Variables i),
     spi_BusinessKey := (case ctx_BusinessKey c of Some b \<Rightarrow> Some b | None \<Rightarrow> pi_BusinessKey i),
     spi_HistoryTtlSec := (if pi_State i = ActivityStateReady \<and> ctx_HistoryTTL c \<noteq> None
       then ctx_HistoryTTL c else spi_HistoryTtlSec old),
     spi_HistoryDeleteSec := (if is_final (pi_State i) \<and> spi_HistoryTtlSec old \<noteq> None
       then map_option (\<lambda>ttl. Unix (now + int64 (ttl * 1000000000))) (spi_HistoryTtlSec old)
       else spi_HistoryDeleteSec old)\<rparr>"

lemma save_instance_row:
  assumes "tget (process_instance (db_Store s)) (pi_Key i) = Some old"
  shows "DB_SaveProcessInstance c now i s =
    (Ok (), s\<lparr>db_Store := (db_Store s)\<lparr>process_instance :=
       tput (pi_Key i) (saved_row c now i old) (process_instance (db_Store s))\<rparr>\<rparr>)"
  (is "_ = (Ok (), ?s')")
proof -
  obtain bk where bk: "(case ctx_BusinessKey c of Some b \<Rightarrow> Some b | None \<Rightarrow> pi_BusinessKey i) = bk" by blast
  let ?d = "db_Store s" and ?k = "pi_Key i" and ?t = "process_instance (db_Store s)"
  let ?r1 = "old\<lparr>spi_State := ActivityState_int (pi_State i), spi_Variables := json_Marshal (pi_Variables i),
     spi_BusinessKey := bk\<rparr>"
  let ?s1 = "s\<lparr>db_Store := ?d\<lparr>process_instance := tput ?k ?r1 ?t\<rparr>\<rparr>"
  have tput2: "tput k x (tput k y t) = tput k x t" for k x y and t :: "'r table"
    by (induction t) auto
  have row: "spi_Key (process_instance_row c i) = ?k" "spi_State (process_instance_row c i) = ActivityState_int (pi_State i)"
    "spi_Variables (process_instance_row c i) = json_Marshal (pi_Variables i)"
    "spi_BusinessKey (process_instance_row c i) = bk"
    using bk by (auto simp: process_instance_row_def split: prod.splits)
  have "exec_stmt (St_SaveProcessInstance (process_instance_row c i)) ?d = Inr (db_Store ?s1)"
    using assms by (simp add: q_SaveProcessInstance_def upsert_def map_sum_right_def row)
  then have save: "wrap (Wrapf ''failed to save process instance'')
      (DB_ExecContext (St_SaveProcessInstance (process_instance_row c i))) s = (Ok (), ?s1)"
    by (simp add: wrap_eval DB_ExecContext_eval)
  have step: "bind (wrap (Wrapf ''failed to save process instance'')
      (DB_ExecContext (St_SaveProcessInstance (process_instance_row c i)))) F s = F () ?s1" for F :: "unit \<Rightarrow> (DB, unit) eng"
    by (rule bind_eval) (rule save)
  have old1: "tget (process_instance (db_Store ?s1)) ?k = Some ?r1" by simp
  have same: "?r1\<lparr>spi_HistoryTtlSec := spi_HistoryTtlSec old, spi_HistoryDeleteSec := spi_HistoryDeleteSec old\<rparr> = ?r1"
    by simp
  show ?thesis
    unfolding DB_SaveProcessInstance_def SaveProcessInstanceWith_def
    using bk by (cases old, simp only: step) (auto simp: saved_row_def is_final_def q_GetProcessInstance_def one_row_def
        lift_sum_def ret_def wrap_def bind_def gets_def DB_ExecContext_def ExecuteStatements_def
        q_SetProcessInstanceTTL_def tput2 same split: option.split)
qed

text \<open>Saving an instance that has a row changes its state, variables and business key, and only its history
  marks beside: a ready instance takes the time to live of the call, a completed or terminated instance
  with a time to live gets now plus that time as its time of deletion. All other rows stay as they are.
  A failed instance gets no time of deletion, so that a failed instance without a parent is ready for
  deletion at any time, whatever its time to live and although its incident may still be
  resolved.\<close>

theorem instance_save_sets_history_marks:
  assumes "tget (process_instance (db_Store s)) (pi_Key i) = Some old"
  shows "\<exists>s'. DB_SaveProcessInstance c now i s = (Ok (), s') \<and>
    (\<forall>k. tget (process_instance (db_Store s')) k =
       (if k = pi_Key i then Some (saved_row c now i old) else tget (process_instance (db_Store s)) k)) \<and>
    (\<forall>t. pi_State i = ActivityStateFailed \<longrightarrow> spi_HistoryDeleteSec old = None \<longrightarrow>
       spi_ParentProcessExecutionToken old = None \<longrightarrow> deletable t (db_Store s') (saved_row c now i old))"
  unfolding save_instance_row [OF assms]
  by (intro exI conjI allI impI, rule refl)
    (simp_all add: deletable_def saved_row_def is_final_def ended_state_def)

theorem instance_save_sets_history_marks_witness:
  "\<exists>s'. DB_SaveProcessInstance \<lparr>ctx_HistoryTTL = None, ctx_BusinessKey = None, ctx_ProcessInstanceKey = None,
        ctx_ElementInstanceKey = None\<rparr> 0
      \<lparr>pi_Kind = DefaultProcessInstance, pi_Definition = sqldemo_definition, pi_Key = 10, pi_BusinessKey = None,
       pi_Variables = Map.empty, pi_CreatedAt = 0, pi_State = ActivityStateFailed\<rparr> sqldemo_DB = (Ok (), s') \<and>
    map_option spi_State (tget (process_instance (db_Store s')) 10) = Some 6"
  (is "\<exists>s'. DB_SaveProcessInstance ?c 0 ?i _ = _ \<and> _")
proof -
  have "tget (process_instance (db_Store sqldemo_DB)) (pi_Key ?i) = Some (sqldemo_instance_row 10 None None)"
    by (simp add: sqldemo_DB_def sqldemo_rows_def tget_def)
  from instance_save_sets_history_marks [OF this, of ?c 0] obtain s' where
    "DB_SaveProcessInstance ?c 0 ?i sqldemo_DB = (Ok (), s')"
    "tget (process_instance (db_Store s')) 10 = Some (saved_row ?c 0 ?i (sqldemo_instance_row 10 None None))" by auto
  then show ?thesis by (auto simp: saved_row_def)
qed

section \<open>Orphans\<close>

lemma deletable_needs_token:
  "deletable now d r \<Longrightarrow> spi_ParentProcessExecutionToken r = Some tk \<Longrightarrow> tget (execution_token d) tk \<noteq> None"
  by (auto simp: deletable_def parent_instance_row_def split: option.splits)

text \<open>The clean-up orphans children: when it deletes the instance that owns the parent token of a child that
  is not deleted in the same round, the child's row stays and no later clean-up selects it, at any time
  and with any limit.\<close>

theorem cleanup_orphans_children:
  assumes "db_ok d" and "tget (process_instance d) k = Some r" and "k \<notin> set found"
    and "spi_ParentProcessExecutionToken r = Some tk" and "tget (execution_token d) tk = Some et"
    and "stk_ProcessInstanceKey et \<in> set found"
  shows "tget (process_instance (cleaned found d)) k = Some r \<and>
    (\<forall>now lim. k \<notin> set (q_FindInactiveInstancesToDelete now lim (cleaned found d)))"
proof (intro conjI allI)
  have k: "keyed spi_Key (process_instance d)" "twf (process_instance d)" "twf (execution_token d)"
    using assms(1) by (auto simp: db_ok_def db_keyed_def keyed_def)
  have "spi_Key r = k" using k(1) assms(2) by (rule keyed_tget)
  with k(2) assms(2,3) show t: "tget (process_instance (cleaned found d)) k = Some r"
    by (simp add: cleaned_def tget_tdelete)
  have ok: "db_ok (cleaned found d)"
    using run_statements_ok [OF assms(1) cleanup_statements_run] by simp
  fix now lim
  have gone: "tget (execution_token (cleaned found d)) tk = None"
    using k(3) assms(5,6) by (simp add: cleaned_def tget_tdelete)
  show "k \<notin> set (q_FindInactiveInstancesToDelete now lim (cleaned found d))"
  proof
    assume "k \<in> set (q_FindInactiveInstancesToDelete now lim (cleaned found d))"
    then obtain r' where r': "tget (process_instance (cleaned found d)) k = Some r'" "deletable now (cleaned found d) r'"
      by (rule found_deletable [OF ok])
    with t have "r' = r" by simp
    with assms(4) gone deletable_needs_token [OF r'(2), of tk] show False by simp
  qed
qed

theorem cleanup_orphans_children_witness:
  "tget (process_instance (cleaned [10] sqldemo_rows)) 11 = Some (sqldemo_instance_row 11 (Some 20) (Some 500)) \<and>
   11 \<notin> set (q_FindInactiveInstancesToDelete 1000 5 (cleaned [10] sqldemo_rows)) \<and>
   11 \<in> set (q_FindInactiveInstancesToDelete 1000 5 sqldemo_rows)"
proof -
  have "11 \<in> set (q_FindInactiveInstancesToDelete 1000 5 sqldemo_rows)"
    by (simp add: q_FindInactiveInstancesToDelete_def deletable_def parent_instance_row_def ended_state_def
        sql_page_def trows_def tget_def sqldemo_defs)
  moreover have "tget (process_instance sqldemo_rows) 11 = Some (sqldemo_instance_row 11 (Some 20) (Some 500))"
    by (simp add: sqldemo_rows_def tget_def)
  from cleanup_orphans_children [OF sqldemo_ok this, of "[10]" 20] have
    "tget (process_instance (cleaned [10] sqldemo_rows)) 11 = Some (sqldemo_instance_row 11 (Some 20) (Some 500)) \<and>
     11 \<notin> set (q_FindInactiveInstancesToDelete 1000 5 (cleaned [10] sqldemo_rows))"
    by (simp add: sqldemo_rows_def sqldemo_instance_row_def tget_def)
  ultimately show ?thesis by blast
qed

end
