(* ===== verification/Sql_Types.thy ===== *)
theory Sql_Types
  imports Sql_Batches
begin

text \<open>
  Types of stored rows. The columns of the database are integers and texts; what the program stores in them are
  the codes of its enumerations and JSON. \<open>db_typed\<close> says that the rows hold nothing else. The interface
  \<open>typed_querier\<close> is what the writers need to keep it; it is interpreted on the database and on the batch. A read of a
  typed row does not fail on its own columns.
\<close>

section \<open>Typed rows\<close>

definition process_instance_typed :: "sql_ProcessInstance \<Rightarrow> bool" where
  "process_instance_typed r \<longleftrightarrow> spi_Variables r \<in> range json_Marshal \<and> spi_State r \<in> range ActivityState_int \<and>
     spi_ProcessType r \<in> range ProcessType_int \<and>
     (spi_ParentProcessExecutionToken r = None \<longleftrightarrow> spi_ProcessType r = ProcessType_int ProcessTypeDefault)"

definition job_typed :: "Sql_Queries.sql_Job \<Rightarrow> bool" where
  "job_typed r \<longleftrightarrow> sjb_Variables r \<in> range json_Marshal \<and> sjb_State r \<in> range ActivityState_int"

definition token_typed :: "sql_ExecutionToken \<Rightarrow> bool" where
  "token_typed r \<longleftrightarrow> stk_State r \<in> range TokenState_int"

definition subscription_typed :: "sql_MessageSubscription \<Rightarrow> bool" where
  "subscription_typed r \<longleftrightarrow> sms_State r \<in> range ActivityState_int"

definition history_typed :: "sql_FlowElementInstance \<Rightarrow> bool" where
  "history_typed r \<longleftrightarrow> sfe_OutputVariables r \<in> range json_Marshal"

text \<open>A timer is stored with the code of the activity state that stands for its own state.\<close>

definition timer_typed :: "sql_Timer \<Rightarrow> bool" where
  "timer_typed r \<longleftrightarrow> stm_State r \<in> ActivityState_int ` {ActivityStateActive, ActivityStateCompleted, ActivityStateWithdrawn}"

definition db_typed :: "Database \<Rightarrow> bool" where
  "db_typed d \<longleftrightarrow> list_all process_instance_typed (trows (process_instance d)) \<and> list_all job_typed (trows (job d)) \<and>
     list_all token_typed (trows (execution_token d)) \<and> list_all timer_typed (trows (timer d)) \<and> list_all subscription_typed (trows (message_subscription d)) \<and>
     list_all history_typed (trows (flow_element_instance d))"

primrec stmt_typed :: "sql_stmt \<Rightarrow> bool" where
  "stmt_typed (St_SaveToken r) = token_typed r"
| "stmt_typed (St_SaveJob r) = job_typed r"
| "stmt_typed (St_SaveTimer r) = timer_typed r"
| "stmt_typed (St_SaveMessageSubscription r) = subscription_typed r"
| "stmt_typed (St_SaveMessageSubscriptionPointer r) = True"
| "stmt_typed (St_SaveIncident r) = True"
| "stmt_typed (St_SaveFlowElementInstance r) = history_typed r"
| "stmt_typed (St_UpdateOutputFlowElementInstance r) = history_typed r"
| "stmt_typed (St_SaveProcessInstance r) = process_instance_typed r"
| "stmt_typed (St_SetProcessInstanceTTL ttl del k) = True"
| "stmt_typed (St_SaveProcessDefinition r) = True"
| "stmt_typed (St_SaveDmnResourceDefinition r) = True"
| "stmt_typed (St_SaveDecisionDefinition r) = True"
| "stmt_typed (St_SaveDecisionInstance r) = True"
| "stmt_typed (St_DeleteProcessInstancesTokens ks) = True"
| "stmt_typed (St_DeleteProcessInstancesJobs ks) = True"
| "stmt_typed (St_DeleteProcessInstancesTimers ks) = True"
| "stmt_typed (St_DeleteProcessInstancesMessageSubscriptions ks) = True"
| "stmt_typed (St_DeleteProcessInstancesIncidents ks) = True"
| "stmt_typed (St_DeleteFlowElementInstance ks) = True"
| "stmt_typed (St_DeleteProcessInstancesDecisionInstances oks) = True"
| "stmt_typed (St_DeleteProcessInstances ks) = True"

lemma ProcessType_int_inject: "ProcessType_int t = ProcessType_int u \<longleftrightarrow> t = u"
  by (metis ProcessType_of_int option.inject)

lemma db_typed_new: "db_typed new_Database"
  by (simp add: db_typed_def new_Database_def trows_def)

section \<open>Statements keep the types\<close>

lemmas typed_defs = process_instance_typed_def job_typed_def token_typed_def subscription_typed_def history_typed_def timer_typed_def

lemma save_typed:
  "db_typed d \<Longrightarrow> token_typed a \<Longrightarrow> q_SaveToken a d = Inr d' \<Longrightarrow> db_typed d'"
  "db_typed d \<Longrightarrow> job_typed b \<Longrightarrow> q_SaveJob b d = Inr d' \<Longrightarrow> db_typed d'"
  "db_typed d \<Longrightarrow> timer_typed t \<Longrightarrow> q_SaveTimer t d = Inr d' \<Longrightarrow> db_typed d'"
  "db_typed d \<Longrightarrow> subscription_typed m \<Longrightarrow> q_SaveMessageSubscription m d = Inr d' \<Longrightarrow> db_typed d'"
  "db_typed d \<Longrightarrow> history_typed f \<Longrightarrow> q_SaveFlowElementInstance f d = Inr d' \<Longrightarrow> db_typed d'"
  "db_typed d \<Longrightarrow> history_typed f \<Longrightarrow> q_UpdateOutputFlowElementInstance f d = Inr d' \<Longrightarrow> db_typed d'"
  "db_typed d \<Longrightarrow> process_instance_typed i \<Longrightarrow> q_SaveProcessInstance i d = Inr d' \<Longrightarrow> db_typed d'"
  unfolding child_query_defs q_SaveProcessInstance_def map_sum_right_Inr db_typed_def
  by (auto elim!: upsert_list_all simp: typed_defs)

lemma other_saves_typed:
  "db_typed d \<Longrightarrow> q_SaveMessageSubscriptionPointer p d = Inr d' \<Longrightarrow> db_typed d'"
  "db_typed d \<Longrightarrow> q_SaveIncident i d = Inr d' \<Longrightarrow> db_typed d'"
  "db_typed d \<Longrightarrow> q_SaveProcessDefinition pd d = Inr d' \<Longrightarrow> db_typed d'"
  "db_typed d \<Longrightarrow> q_SaveDmnResourceDefinition rd d = Inr d' \<Longrightarrow> db_typed d'"
  "db_typed d \<Longrightarrow> q_SaveDecisionDefinition dd d = Inr d' \<Longrightarrow> db_typed d'"
  "db_typed d \<Longrightarrow> q_SaveDecisionInstance di d = Inr d' \<Longrightarrow> db_typed d'"
  unfolding child_query_defs q_SaveProcessDefinition_def q_SaveDmnResourceDefinition_def q_SaveDecisionDefinition_def
    q_SaveMessageSubscriptionPointer_def map_sum_right_Inr db_typed_def
  by auto

lemma ttl_typed: "db_typed d \<Longrightarrow> q_SetProcessInstanceTTL ttl del k d = Inr d' \<Longrightarrow> db_typed d'"
proof (cases "tget (process_instance d) k")
  case (Some r)
  assume d: "db_typed d" and q: "q_SetProcessInstanceTTL ttl del k d = Inr d'"
  from d Some have "process_instance_typed r" by (auto simp: db_typed_def dest: list_all_tget)
  with d q Some show ?thesis by (auto simp: q_SetProcessInstanceTTL_def db_typed_def process_instance_typed_def intro!: list_all_tput)
qed (simp add: q_SetProcessInstanceTTL_def)

lemma deletes_typed:
  "db_typed d \<Longrightarrow> q_DeleteProcessInstancesTokens ks d = Inr d' \<Longrightarrow> db_typed d'"
  "db_typed d \<Longrightarrow> q_DeleteProcessInstancesJobs ks d = Inr d' \<Longrightarrow> db_typed d'"
  "db_typed d \<Longrightarrow> q_DeleteProcessInstancesTimers ks d = Inr d' \<Longrightarrow> db_typed d'"
  "db_typed d \<Longrightarrow> q_DeleteProcessInstancesMessageSubscriptions ks d = Inr d' \<Longrightarrow> db_typed d'"
  "db_typed d \<Longrightarrow> q_DeleteProcessInstancesIncidents ks d = Inr d' \<Longrightarrow> db_typed d'"
  "db_typed d \<Longrightarrow> q_DeleteFlowElementInstance ks d = Inr d' \<Longrightarrow> db_typed d'"
  "db_typed d \<Longrightarrow> q_DeleteProcessInstancesDecisionInstances oks d = Inr d' \<Longrightarrow> db_typed d'"
  "db_typed d \<Longrightarrow> q_DeleteProcessInstances ks d = Inr d' \<Longrightarrow> db_typed d'"
  unfolding delete_query_defs q_DeleteProcessInstances_def db_typed_def
  by (auto simp: list_all_tdelete Let_def split: if_splits)

lemma exec_stmt_typed: "db_typed d \<Longrightarrow> stmt_typed st \<Longrightarrow> exec_stmt st d = Inr d' \<Longrightarrow> db_typed d'"
  by (cases st; simp only: exec_stmt.simps stmt_typed.simps)
     (blast intro: save_typed other_saves_typed ttl_typed deletes_typed)+

lemma run_statements_typed: "db_typed d \<Longrightarrow> list_all stmt_typed sts \<Longrightarrow> run_statements sts d = Inr d' \<Longrightarrow> db_typed d'"
  by (induction sts arbitrary: d) (auto dest: exec_stmt_typed split: sum.splits)

lemma ExecuteStatements_typed:
  "db_typed (db_Store s) \<Longrightarrow> list_all stmt_typed sts \<Longrightarrow> db_typed (db_Store (snd (ExecuteStatements sts s)))"
  by (auto simp: ExecuteStatements_def dest: run_statements_typed split: sum.splits)

section \<open>Writers issue typed statements\<close>

locale typed_querier =
  fixes issue :: "sql_stmt \<Rightarrow> ('s, unit) eng" and ok :: "'s \<Rightarrow> bool"
  assumes issue_typed: "stmt_typed st \<Longrightarrow> pres ok (issue st)"
begin

lemma timer_row_typed: "Timer_GetState st = Some a \<Longrightarrow> timer_typed (timer_row a t)"
  by (cases st) (auto simp: timer_typed_def timer_row_def)

lemma write_typed: "pres ok (write_with issue now w)"
proof (cases w)
  case (W_Timer t)
  have "pres ok (wrap f (issue (St_SaveTimer (timer_row a t))))" if "Timer_GetState (tm_State t) = Some a" for a f
    using timer_row_typed [OF that] by (intro pres_rules issue_typed) simp
  then show ?thesis using W_Timer
    by (auto simp: writer_defs intro!: pres_rules split: option.splits)
qed (auto simp: writer_defs typed_defs token_row_def job_row_def subscription_row_def
       intro!: pres_rules issue_typed split: option.splits)

lemma write_all_typed: "pres ok (write_all issue now ws)"
  unfolding write_all_def by (intro pres_for_each write_typed)

lemma save_instance_typed: "pres ok (SaveProcessInstanceWith issue readDB c now i)"
proof -
  have "spi_ParentProcessExecutionToken (process_instance_row c i) = None \<longleftrightarrow> Type i = ProcessTypeDefault"
    by (cases "pi_Kind i") (simp_all add: process_instance_row_def Type_def)
  then have "process_instance_typed (process_instance_row c i)"
    by (simp add: process_instance_row_def process_instance_typed_def split: prod.splits)
       (metis ProcessType_int_inject ProcessType_int.simps(1))
  then show ?thesis unfolding SaveProcessInstanceWith_def by (intro pres_rules issue_typed) auto
qed

end

definition batch_typed :: "'a DBBatch \<Rightarrow> bool" where
  "batch_typed b \<longleftrightarrow> list_all stmt_typed (b_stmtToRun b)"

interpretation typed_db: typed_querier DB_ExecContext "\<lambda>s. db_typed (db_Store s)"
  by unfold_locales (simp add: pres_def DB_ExecContext_def ExecuteStatements_typed)

interpretation typed_batch: typed_querier DBBatch_ExecContext batch_typed
  by unfold_locales (simp add: pres_def DBBatch_ExecContext_def modify_def batch_typed_def)

lemma batch_write_typed: "pres batch_typed (batch_write now w)"
  unfolding batch_write_eq
  by (rule pres_bind, unfold pres_def queue_pointers, simp add: batch_typed_def)
    (rule typed_batch.write_typed [unfolded pres_def])

lemma batch_all_pres: "pres batch_typed (for_each ws (batch_write now))"
  by (intro pres_for_each batch_write_typed)

lemma batch_all_typed: "list_all stmt_typed (b_stmtToRun (snd (for_each ws (batch_write now) (NewBatch s))))"
  using batch_all_pres [unfolded pres_def batch_typed_def, rule_format, of "NewBatch s" ws now]
  by (simp add: NewBatch_def)

section \<open>Reading typed rows\<close>

lemma typed_instance_row:
  assumes "process_instance_typed r"
  obtains vs kind where "json_Unmarshal (spi_Variables r) = Inr vs" and "kind_of_row r t = Some kind"
    and "ProcessType_of (spi_ProcessType r) = Some (kind_Type kind)"
    and "ActivityState_int (ActivityState_of (spi_State r)) = spi_State r"
proof -
  from assms obtain vs st ty where r: "spi_Variables r = json_Marshal vs" "spi_State r = ActivityState_int st"
    "spi_ProcessType r = ProcessType_int ty" by (auto simp: process_instance_typed_def)
  obtain kind where "kind_of_row r t = Some kind" "kind_Type kind = ty"
    by (cases ty) (simp_all add: kind_of_row_def r(3) ProcessType_of_def Let_def)
  with r that show ?thesis by simp
qed

lemma typed_instance_reads:
  assumes "db_typed (db_Store s)" and "q_GetProcessInstance k (db_Store s) = Inr r"
    and "DB_FindProcessDefinitionByKey xml (spi_ProcessDefinitionKey r) s = (Ok def, s1)" and "parent_token_of_row r s1 = (Ok t, s2)"
  shows "\<exists>p. DB_FindProcessInstanceByKey xml k s = (Ok p, s2) \<and> ProcessType_int (Type p) = spi_ProcessType r \<and>
    ActivityState_int (pi_State p) = spi_State r \<and> json_Marshal (pi_Variables p) = spi_Variables r"
proof -
  from assms(1,2) have r: "process_instance_typed r"
    by (auto simp: db_typed_def q_GetProcessInstance_def one_row_def dest: list_all_tget split: option.splits)
  from r obtain ty where ty: "spi_ProcessType r = ProcessType_int ty" by (auto simp: process_instance_typed_def)
  from r obtain vs kind where v: "json_Unmarshal (spi_Variables r) = Inr vs" "kind_of_row r t = Some kind"
    "ProcessType_of (spi_ProcessType r) = Some (kind_Type kind)" "ActivityState_int (ActivityState_of (spi_State r)) = spi_State r"
    by (rule typed_instance_row)
  from r v(1) have "json_Marshal vs = spi_Variables r" by (auto simp: process_instance_typed_def)
  with v ty assms(2-4) show ?thesis
    by (simp add: DB_FindProcessInstanceByKey_def find_row_def inflateProcessInstance_def read_variables_def bind_def wrap_def
        query_def gets_def lift_sum_def ret_def Type_def)
qed


definition typeddemo_DB :: DB where
  "typeddemo_DB = sqldemo_DB\<lparr>db_pdCache := [1 \<mapsto> sqldemo_definition]\<rparr>"

definition typeddemo_instance :: ProcessInstance where
  "typeddemo_instance = \<lparr>pi_Kind = SubProcessInstance (sqldemo_token 20 10) 30 ''sub'', pi_Definition = sqldemo_definition, pi_Key = 12,
     pi_BusinessKey = None, pi_Variables = Map.empty, pi_CreatedAt = 0, pi_State = ActivityStateReady\<rparr>"

definition typeddemo_context :: call_context where
  "typeddemo_context = \<lparr>ctx_HistoryTTL = Some 60, ctx_BusinessKey = None, ctx_ProcessInstanceKey = None, ctx_ElementInstanceKey = None\<rparr>"


end
