(* ===== verification/Sql_Pages.thy ===== *)
theory Sql_Pages
  imports Sql_Integrity "HOL-Library.Multiset"
begin

text \<open>
  The queries of \<^verbatim>\<open>internal/sql/*.sql.go\<close> that answer the read requests of the cluster server: filtered and
  sorted pages of jobs, instances, definitions and decisions, and the statistics of elements and
  definitions.

  \<^item> \<^verbatim>\<open>ORDER BY\<close> is a list of terms, compared from the first to the last; \<^verbatim>\<open>CASE sort WHEN name THEN column END\<close>
    is \<^verbatim>\<open>NULL\<close> in every row unless \<open>sort\<close> is that name. \<^verbatim>\<open>NULL\<close> comes before numbers, numbers before texts, and
    texts compare byte by byte.
  \<^item> A filter whose parameter is \<^verbatim>\<open>NULL\<close> (\<open>None\<close>) is not applied.
  \<^item> Rows that no term tells apart keep the order of the table, one of those SQL allows.

  The lemmas show that \<^verbatim>\<open>ORDER BY\<close> permutes and sorts, and that the pages of a query, put together, are its
  rows.
\<close>

section \<open>Sorting\<close>

datatype sql_value = SNull | SInt int | SText string

fun text_less :: "string \<Rightarrow> string \<Rightarrow> bool" where
  "text_less [] [] = False"
| "text_less [] (_ # _) = True"
| "text_less (_ # _) [] = False"
| "text_less (c # s) (d # t) =
     (if c = d then text_less s t else (of_char c :: nat) < of_char d)"

fun value_less :: "sql_value \<Rightarrow> sql_value \<Rightarrow> bool" where
  "value_less SNull SNull = False"
| "value_less SNull _ = True"
| "value_less (SInt i) (SInt j) = (i < j)"
| "value_less (SInt _) (SText _) = True"
| "value_less (SText s) (SText t) = text_less s t"
| "value_less _ _ = False"

datatype 'r order_term = Asc "'r \<Rightarrow> sql_value" | Desc "'r \<Rightarrow> sql_value"

fun row_less :: "'r order_term list \<Rightarrow> 'r \<Rightarrow> 'r \<Rightarrow> bool" where
  "row_less [] a b = False"
| "row_less (Asc f # ts) a b = (if f a = f b then row_less ts a b else value_less (f a) (f b))"
| "row_less (Desc f # ts) a b = (if f a = f b then row_less ts a b else value_less (f b) (f a))"

fun insert_row :: "'r order_term list \<Rightarrow> 'r \<Rightarrow> 'r list \<Rightarrow> 'r list" where
  "insert_row ts r [] = [r]"
| "insert_row ts r (x # xs) = (if row_less ts x r then x # insert_row ts r xs else r # x # xs)"

definition order_by :: "'r order_term list \<Rightarrow> 'r list \<Rightarrow> 'r list" where
  "order_by ts xs = foldr (insert_row ts) xs []"

text \<open>The pair of terms that every sortable column contributes.\<close>

definition sort_column :: "string option \<Rightarrow> string \<Rightarrow> ('r \<Rightarrow> sql_value) \<Rightarrow> 'r order_term list" where
  "sort_column srt name f =
     [Asc (\<lambda>r. if srt = Some (name @ ''_asc'') then f r else SNull),
      Desc (\<lambda>r. if srt = Some (name @ ''_desc'') then f r else SNull)]"

definition opt_text :: "string option \<Rightarrow> sql_value" where
  "opt_text x = (case x of None \<Rightarrow> SNull | Some s \<Rightarrow> SText s)"

subsection \<open>Sorting is sorting\<close>

lemma text_less_irrefl [simp]: "\<not> text_less s s"
  by (induction s) simp_all

lemma text_less_trans: "text_less s t \<Longrightarrow> text_less t u \<Longrightarrow> text_less s u"
proof (induction s t arbitrary: u rule: text_less.induct)
  case (4 c s d t)
  then show ?case by (cases u) (auto split: if_splits)
qed (auto elim: text_less.elims)

lemma text_less_total: "s \<noteq> t \<Longrightarrow> text_less s t \<or> text_less t s"
proof (induction s t rule: text_less.induct)
  case (4 c s d t)
  then show ?case by (cases "c = d") (auto simp: nat_neq_iff [symmetric])
qed auto

lemma value_less_irrefl [simp]: "\<not> value_less v v"
  by (cases v) simp_all

lemma value_less_trans: "value_less a b \<Longrightarrow> value_less b c \<Longrightarrow> value_less a c"
  by (cases a; cases b; cases c) (auto intro: text_less_trans)

lemma value_less_asym: "value_less a b \<Longrightarrow> \<not> value_less b a"
  using value_less_trans [of a b a] by auto

lemma value_less_total: "a \<noteq> b \<Longrightarrow> value_less a b \<or> value_less b a"
  by (cases a; cases b) (auto dest: text_less_total)

lemma row_less_irrefl [simp]: "\<not> row_less ts a a"
proof (induction ts)
  case (Cons t ts)
  then show ?case by (cases t) simp_all
qed simp

lemma row_less_trans: "row_less ts a b \<Longrightarrow> row_less ts b c \<Longrightarrow> row_less ts a c"
  by (induction ts a b rule: row_less.induct) (auto split: if_splits intro: value_less_trans dest: value_less_asym)

lemma row_less_neg_trans: "\<not> row_less ts a b \<Longrightarrow> \<not> row_less ts b c \<Longrightarrow> \<not> row_less ts a c"
  by (induction ts a b rule: row_less.induct)
    (auto split: if_splits dest: value_less_total value_less_trans)

lemma set_insert_row [simp]: "set (insert_row ts r xs) = insert r (set xs)"
  by (induction xs) auto

lemma mset_insert_row: "mset (insert_row ts r xs) = add_mset r (mset xs)"
  by (induction xs) auto

lemma mset_order_by: "mset (order_by ts xs) = mset xs"
  by (induction xs) (simp_all add: order_by_def mset_insert_row)

lemma set_order_by [simp]: "set (order_by ts xs) = set xs"
  using mset_order_by [of ts xs] by (metis set_mset_mset)

lemma length_order_by [simp]: "length (order_by ts xs) = length xs"
  using mset_order_by [of ts xs] by (metis size_mset)

lemma sorted_insert_row:
  "sorted_wrt (\<lambda>a b. \<not> row_less ts b a) xs \<Longrightarrow> sorted_wrt (\<lambda>a b. \<not> row_less ts b a) (insert_row ts r xs)"
proof (induction xs)
  case (Cons x xs)
  show ?case
  proof (cases "row_less ts x r")
    case True
    then have "\<not> row_less ts r x" using row_less_trans [of ts r x r] by auto
    with True Cons show ?thesis by simp
  next
    case False
    then have "\<not> row_less ts y r" if "\<not> row_less ts y x" for y
      using that row_less_neg_trans by metis
    with False Cons.prems show ?thesis by simp
  qed
qed simp

lemma sorted_order_by: "sorted_wrt (\<lambda>a b. \<not> row_less ts b a) (order_by ts xs)"
  by (induction xs) (simp_all add: order_by_def sorted_insert_row)

section \<open>Filters\<close>

text \<open>A filter by equality that is off without a parameter; a \<^verbatim>\<open>NULL\<close> in the column equals nothing.\<close>

definition matches :: "'a option \<Rightarrow> 'a \<Rightarrow> bool" where
  "matches p x \<longleftrightarrow> (case p of None \<Rightarrow> True | Some v \<Rightarrow> x = v)"

definition matches_nullable :: "'a option \<Rightarrow> 'a option \<Rightarrow> bool" where
  "matches_nullable p x \<longleftrightarrow> (case p of None \<Rightarrow> True | Some v \<Rightarrow> x = Some v)"

definition at_least :: "int option \<Rightarrow> int \<Rightarrow> bool" where
  "at_least p x \<longleftrightarrow> (case p of None \<Rightarrow> True | Some v \<Rightarrow> v \<le> x)"

definition at_most :: "int option \<Rightarrow> int \<Rightarrow> bool" where
  "at_most p x \<longleftrightarrow> (case p of None \<Rightarrow> True | Some v \<Rightarrow> x \<le> v)"

text \<open>\<^verbatim>\<open>LIKE\<close>: a percent sign stands for any text, an underscore for any character, and letters of the
  ASCII range match without regard to case.\<close>

definition lower_char :: "char \<Rightarrow> char" where
  "lower_char c =
     (let n = (of_char c :: nat) in if 65 \<le> n \<and> n \<le> 90 then char_of (n + 32) else c)"

fun sql_like :: "string \<Rightarrow> string \<Rightarrow> bool" where
  "sql_like [] t = (t = [])"
| "sql_like (c # p) [] = (c = CHR ''%'' \<and> sql_like p [])"
| "sql_like (c # p) (x # t) =
     (if c = CHR ''%'' then sql_like p (x # t) \<or> sql_like (c # p) t
      else (c = CHR ''_'' \<or> lower_char c = lower_char x) \<and> sql_like p t)"

definition name_contains :: "string option \<Rightarrow> string \<Rightarrow> bool" where
  "name_contains p x \<longleftrightarrow> (case p of None \<Rightarrow> True | Some v \<Rightarrow> sql_like (''%'' @ v @ ''%'') x)"

lemma sql_like_any: "sql_like ''%'' t"
  by (induction t) simp_all

lemma sql_like_prefix: "sql_like p t \<Longrightarrow> sql_like (CHR ''%'' # p) (s @ t)"
  by (induction s) (cases t; simp)+

section \<open>Pages\<close>

definition q_FindJobs ::
  "string option \<Rightarrow> string option \<Rightarrow> int option \<Rightarrow> int option \<Rightarrow> string option \<Rightarrow> int \<Rightarrow> int \<Rightarrow> Database \<Rightarrow>
     (sql_Job \<times> int) list" where
  "q_FindJobs srt jobType st pk assignee offset lim d =
     counted_page lim offset
       (order_by
         (sort_column srt ''created_at'' (\<lambda>r. SInt (sjb_CreatedAt r)) @ sort_column srt ''key'' (\<lambda>r. SInt (sjb_Key r)) @
          sort_column srt ''type'' (\<lambda>r. SText (sjb_Type r)) @ sort_column srt ''state'' (\<lambda>r. SInt (sjb_State r)) @
          [Desc (\<lambda>r. SInt (sjb_Key r))])
         (filter (\<lambda>r. matches jobType (sjb_Type r) \<and> matches st (sjb_State r) \<and>
             matches pk (sjb_ProcessInstanceKey r) \<and> matches_nullable assignee (sjb_Assignee r))
           (trows (job d))))"

text \<open>An instance with the id of its process, the row of the inner join; \<open>0\<close> switches the filters by
  definition and by parent off.\<close>

definition with_definition :: "Database \<Rightarrow> (sql_ProcessInstance \<times> string) list" where
  "with_definition d =
     concat (map (\<lambda>pi. case tget (process_definition d) (spi_ProcessDefinitionKey pi) of
         None \<Rightarrow> [] | Some pd \<Rightarrow> [(pi, spd_BpmnProcessID pd)]) (trows (process_instance d)))"

record instance_filter =
  if_ProcessDefinitionKey :: int
  if_ParentInstanceKey :: int
  if_BusinessKey :: "string option"
  if_BpmnProcessID :: "string option"
  if_ActivityID :: "string option"
  if_CreatedFrom :: "int option"
  if_CreatedTo :: "int option"
  if_State :: "int option"
  if_Types :: "int list"

definition instance_selected :: "Database \<Rightarrow> instance_filter \<Rightarrow> sql_ProcessInstance \<times> string \<Rightarrow> bool" where
  "instance_selected d f = (\<lambda>(pi, bpmn_process_id).
     (if_ProcessDefinitionKey f \<noteq> 0 \<longrightarrow> spi_ProcessDefinitionKey pi = if_ProcessDefinitionKey f) \<and>
     (if_ParentInstanceKey f \<noteq> 0 \<longrightarrow>
        list_ex (\<lambda>et. spi_ParentProcessExecutionToken pi = Some (stk_Key et) \<and>
          stk_ProcessInstanceKey et = if_ParentInstanceKey f) (trows (execution_token d))) \<and>
     matches_nullable (if_BusinessKey f) (spi_BusinessKey pi) \<and> matches (if_BpmnProcessID f) bpmn_process_id \<and>
     (case if_ActivityID f of
        None \<Rightarrow> True
      | Some a \<Rightarrow> list_ex (\<lambda>et. stk_ProcessInstanceKey et = spi_Key pi \<and> stk_ElementID et = a)
          (trows (execution_token d))) \<and>
     at_least (if_CreatedFrom f) (spi_CreatedAt pi) \<and> at_most (if_CreatedTo f) (spi_CreatedAt pi) \<and>
     matches (if_State f) (spi_State pi) \<and> (if_Types f = [] \<or> spi_ProcessType pi \<in> set (if_Types f)))"

definition q_FindProcessInstancesPage ::
  "string option \<Rightarrow> instance_filter \<Rightarrow> int \<Rightarrow> int \<Rightarrow> Database \<Rightarrow> ((sql_ProcessInstance \<times> string) \<times> int) list" where
  "q_FindProcessInstancesPage srt f offset sz d =
     counted_page sz offset
       (order_by
         (sort_column srt ''createdAt'' (\<lambda>r. SInt (spi_CreatedAt (fst r))) @
          sort_column srt ''key'' (\<lambda>r. SInt (spi_Key (fst r))) @
          sort_column srt ''state'' (\<lambda>r. SInt (spi_State (fst r))) @
          sort_column srt ''businessKey'' (\<lambda>r. opt_text (spi_BusinessKey (fst r))) @
          [Desc (\<lambda>r. SInt (spi_CreatedAt (fst r)))])
         (filter (instance_selected d f) (with_definition d)))"

definition latest_version_of :: "sql_ProcessDefinition \<Rightarrow> sql_ProcessDefinition list \<Rightarrow> bool" where
  "latest_version_of pd pds \<longleftrightarrow>
     list_all (\<lambda>pd2. spd_BpmnProcessID pd2 = spd_BpmnProcessID pd \<longrightarrow> spd_Version pd2 \<le> spd_Version pd) pds"

definition q_FindProcessDefinitions ::
  "string option \<Rightarrow> string option \<Rightarrow> int \<Rightarrow> int \<Rightarrow> int \<Rightarrow> Database \<Rightarrow> (sql_ProcessDefinition \<times> int) list" where
  "q_FindProcessDefinitions srt i only_latest offset lim d =
     counted_page lim offset
       (order_by
         (sort_column srt ''version'' (\<lambda>r. SInt (spd_Version r)) @ sort_column srt ''key'' (\<lambda>r. SInt (spd_Key r)) @
          sort_column srt ''bpmnProcessId'' (\<lambda>r. SText (spd_BpmnProcessID r)) @
          sort_column srt ''bpmnProcessName'' (\<lambda>r. SText (spd_BpmnProcessName r)) @ [Desc (\<lambda>r. SInt (spd_Key r))])
         (filter (\<lambda>pd. matches i (spd_BpmnProcessID pd) \<and>
             (only_latest = 0 \<or> latest_version_of pd (trows (process_definition d))))
           (trows (process_definition d))))"

definition latest_resource_of :: "sql_DmnResourceDefinition \<Rightarrow> sql_DmnResourceDefinition list \<Rightarrow> bool" where
  "latest_resource_of r rs \<longleftrightarrow>
     list_all (\<lambda>r2. sdr_DmnResourceDefinitionID r2 = sdr_DmnResourceDefinitionID r \<longrightarrow> sdr_Version r2 \<le> sdr_Version r) rs"

definition q_FindAllDmnResourceDefinitions ::
  "string option \<Rightarrow> int \<Rightarrow> string option \<Rightarrow> string option \<Rightarrow> int \<Rightarrow> int \<Rightarrow> Database \<Rightarrow>
     (sql_DmnResourceDefinition \<times> int) list" where
  "q_FindAllDmnResourceDefinitions srt only_latest i name offset sz d =
     counted_page sz offset
       (order_by
         (sort_column srt ''dmnDefinitionName'' (\<lambda>r. SText (sdr_DmnDefinitionName r)) @
          sort_column srt ''dmnResourceDefinitionId'' (\<lambda>r. SText (sdr_DmnResourceDefinitionID r)) @
          sort_column srt ''version'' (\<lambda>r. SInt (sdr_Version r)) @ sort_column srt ''key'' (\<lambda>r. SInt (sdr_Key r)) @
          [Asc (\<lambda>r. SText (sdr_DmnResourceDefinitionID r)), Desc (\<lambda>r. SInt (sdr_Version r))])
         (filter (\<lambda>r. (only_latest = 0 \<or> latest_resource_of r (trows (dmn_resource_definition d))) \<and>
             matches i (sdr_DmnResourceDefinitionID r) \<and> name_contains name (sdr_DmnDefinitionName r))
           (trows (dmn_resource_definition d))))"

definition q_FindDecisionInstancesPage ::
  "string option \<Rightarrow> int option \<Rightarrow> string option \<Rightarrow> int option \<Rightarrow> int option \<Rightarrow> int option \<Rightarrow> int \<Rightarrow> int \<Rightarrow> Database \<Rightarrow>
     (sql_DecisionInstance \<times> int) list" where
  "q_FindDecisionInstancesPage srt drk dri pk evaluatedFrom evaluatedTo offset sz d =
     counted_page sz offset
       (order_by
         (sort_column srt ''evaluatedAt'' (\<lambda>r. SInt (sdi_CreatedAt r)) @ sort_column srt ''key'' (\<lambda>r. SInt (sdi_Key r)) @
          [Desc (\<lambda>r. SInt (sdi_CreatedAt r))])
         (filter (\<lambda>r. (case drk of None \<Rightarrow> True | Some k \<Rightarrow> k \<noteq> 0 \<longrightarrow> sdi_DmnResourceDefinitionKey r = k) \<and>
             (case dri of
                None \<Rightarrow> True
              | Some i \<Rightarrow> list_ex (\<lambda>x. sdr_Key x = sdi_DmnResourceDefinitionKey r \<and> sdr_DmnResourceDefinitionID x = i)
                  (trows (dmn_resource_definition d))) \<and>
             matches_nullable pk (sdi_ProcessInstanceKey r) \<and> at_least evaluatedFrom (sdi_CreatedAt r) \<and>
             at_most evaluatedTo (sdi_CreatedAt r))
           (trows (decision_instance d))))"

section \<open>Statistics\<close>

record element_statistics =
  es_ElementID :: string
  es_ActiveCount :: int
  es_IncidentCount :: int

text \<open>A token at a multi-instance activity is counted by the tokens of its running instances.\<close>

definition running_multi_instance :: "Database \<Rightarrow> int \<Rightarrow> bool" where
  "running_multi_instance d tk \<longleftrightarrow>
     list_ex (\<lambda>c. spi_ParentProcessExecutionToken c = Some tk \<and> spi_ProcessType c = 4 \<and> spi_State c = 1)
       (trows (process_instance d))"

definition open_tokens :: "(sql_ExecutionToken \<Rightarrow> bool) \<Rightarrow> Database \<Rightarrow> sql_ExecutionToken list" where
  "open_tokens P d =
     filter (\<lambda>et. P et \<and> sql_in (stk_State et) [1, 2] \<and> \<not> running_multi_instance d (stk_Key et))
       (trows (execution_token d))"

text \<open>The union of both groupings, grouped by the element: one row per element that has a token or an
  incident.\<close>

definition element_counts :: "sql_ExecutionToken list \<Rightarrow> sql_Incident list \<Rightarrow> element_statistics list" where
  "element_counts ts is =
     map (\<lambda>e. \<lparr>es_ElementID = e, es_ActiveCount = int (length (filter (\<lambda>t. stk_ElementID t = e) ts)),
        es_IncidentCount = int (length (filter (\<lambda>i. sic_ElementID i = e) is))\<rparr>)
       (remdups (map stk_ElementID ts @ map sic_ElementID is))"

definition instance_of_definition :: "Database \<Rightarrow> int \<Rightarrow> int \<Rightarrow> bool" where
  "instance_of_definition d dk pk \<longleftrightarrow>
     (case tget (process_instance d) pk of None \<Rightarrow> False | Some pi \<Rightarrow> spi_ProcessDefinitionKey pi = dk)"

definition q_GetElementStatisticsByProcessDefinitionKey :: "int \<Rightarrow> Database \<Rightarrow> element_statistics list" where
  "q_GetElementStatisticsByProcessDefinitionKey dk d =
     element_counts (open_tokens (\<lambda>et. instance_of_definition d dk (stk_ProcessInstanceKey et)) d)
       (filter (\<lambda>i. instance_of_definition d dk (sic_ProcessInstanceKey i) \<and> sic_ResolvedAt i = None) (trows (incident d)))"

text \<open>The instance and its running multi-instance children.\<close>

definition relevant_instances :: "int \<Rightarrow> Database \<Rightarrow> int list" where
  "relevant_instances pk d =
     pk # map spi_Key (filter (\<lambda>c. spi_ProcessType c = 4 \<and> spi_State c = 1 \<and>
         list_ex (\<lambda>et. spi_ParentProcessExecutionToken c = Some (stk_Key et) \<and> stk_ProcessInstanceKey et = pk)
           (trows (execution_token d))) (trows (process_instance d)))"

definition q_GetElementStatisticsByProcessInstanceKey :: "int \<Rightarrow> Database \<Rightarrow> element_statistics list" where
  "q_GetElementStatisticsByProcessInstanceKey pk d =
     element_counts (open_tokens (\<lambda>et. sql_in (stk_ProcessInstanceKey et) (relevant_instances pk d)) d)
       (filter (\<lambda>i. sql_in (sic_ProcessInstanceKey i) (relevant_instances pk d) \<and> sic_ResolvedAt i = None \<and>
          \<not> running_multi_instance d (sic_ExecutionToken i)) (trows (incident d)))"

record definition_statistics =
  ds_Definition :: sql_ProcessDefinition
  ds_TotalInstances :: int
  ds_ActiveCount :: int
  ds_CompletedCount :: int
  ds_TerminatedCount :: int
  ds_FailedCount :: int

definition statistics_of :: "Database \<Rightarrow> sql_ProcessDefinition \<Rightarrow> definition_statistics" where
  "statistics_of d pd =
     (let is = filter (\<lambda>pi. spi_ProcessDefinitionKey pi = spd_Key pd \<and> sql_not_in (spi_ProcessType pi) [2, 4])
           (trows (process_instance d));
          count = (\<lambda>st. int (length (filter (\<lambda>pi. spi_State pi = st) is)))
      in \<lparr>ds_Definition = pd, ds_TotalInstances = int (length is), ds_ActiveCount = count 1,
          ds_CompletedCount = count 4, ds_TerminatedCount = count 9, ds_FailedCount = count 6\<rparr>)"

text \<open>The two \<^verbatim>\<open>IN\<close> lists arrive as JSON arrays; no array and an empty array select everything.\<close>

definition q_FindProcessDefinitionStatistics ::
  "string option \<Rightarrow> string option \<Rightarrow> int \<Rightarrow> string list \<Rightarrow> int list \<Rightarrow> int \<Rightarrow> int \<Rightarrow> Database \<Rightarrow>
     (definition_statistics \<times> int) list" where
  "q_FindProcessDefinitionStatistics srt name only_latest ids keys offset lim d =
     counted_page lim offset
       (order_by
         (sort_column srt ''name'' (\<lambda>r. SText (spd_BpmnProcessName (ds_Definition r))) @
          sort_column srt ''bpmnProcessId'' (\<lambda>r. SText (spd_BpmnProcessID (ds_Definition r))) @
          sort_column srt ''version'' (\<lambda>r. SInt (spd_Version (ds_Definition r))) @
          sort_column srt ''instanceCount'' (\<lambda>r. SInt (ds_TotalInstances r)) @
          [Desc (\<lambda>r. SInt (spd_Key (ds_Definition r)))])
         (map (statistics_of d)
           (filter (\<lambda>pd. name_contains name (spd_BpmnProcessName pd) \<and>
               (only_latest = 0 \<or> latest_version_of pd (trows (process_definition d))) \<and>
               (ids = [] \<or> sql_in (spd_BpmnProcessID pd) ids) \<and> (keys = [] \<or> sql_in (spd_Key pd) keys))
             (trows (process_definition d)))))"

section \<open>All pages together\<close>

text \<open>The pages of a request with a page number from 1 and a size, as the server computes the offset.\<close>

definition page_offset :: "int \<Rightarrow> int \<Rightarrow> int" where
  "page_offset sz pg = sz * (pg - 1)"

lemma counted_pages:
  assumes "0 < s" and "length xs \<le> n * s"
  shows "concat (map (\<lambda>p. counted_page (int s) (page_offset (int s) (int p + 1)) xs) [0..<n]) =
    map (\<lambda>x. (x, int (length xs))) xs"
  using pages_cover [OF assms(1), of "map (\<lambda>x. (x, int (length xs))) xs" n] assms(2)
  by (simp add: counted_page_def page_offset_def)

lemma keyed_distinct_rows: "keyed key t \<Longrightarrow> distinct (map key (trows t))"
proof -
  assume k: "keyed key t"
  then have "map key (trows t) = map fst t" by (auto simp: keyed_def trows_def)
  with k show ?thesis by (simp add: keyed_def twf_def)
qed

text \<open>Rows of a total order that ends in the key are listed in a strict order.\<close>

lemma distinct_order_by: "distinct xs \<Longrightarrow> distinct (order_by ts xs)"
  using mset_order_by [of ts xs] by (metis mset_eq_imp_distinct_iff)

lemma off_sort_column:
  "srt = None \<Longrightarrow> row_less (sort_column srt name f @ ts) a b = row_less ts a b"
  by (simp add: sort_column_def)

lemma sorted_wrt_distinct_key:
  assumes "sorted_wrt (\<lambda>a b. \<not> key a < (key b :: int)) xs" and "distinct (map key xs)"
  shows "sorted_wrt (\<lambda>a b. key b < key a) xs"
  using assms
proof (induction xs)
  case (Cons a xs)
  have "key b < key a" if "b \<in> set xs" for b
    using that Cons.prems by (metis image_eqI linorder_neqE_linordered_idom list.simps(9) distinct.simps(2) set_map sorted_wrt.simps(2))
  with Cons show ?case by simp
qed simp

section \<open>Properties\<close>

text \<open>C37. The pages of jobs. Asking for page after page of a fixed size, until all rows are covered, lists
  exactly the stored jobs that match the filters by type, state, instance and assignee, each of them
  once, and every row carries the number of all matches. Without a sort parameter the jobs come in
  descending order of their keys, across the borders of the pages.\<close>

theorem job_pages_list_each_match_once:
  assumes "db_ok d" and "0 < s"
    and "M = {r. tget (job d) (sjb_Key r) = Some r \<and> matches jobType (sjb_Type r) \<and> matches st (sjb_State r) \<and>
      matches pk (sjb_ProcessInstanceKey r) \<and> matches_nullable assignee (sjb_Assignee r)}"
    and "card M \<le> n * s"
    and "rows = concat (map (\<lambda>p. q_FindJobs srt jobType st pk assignee (page_offset (int s) (int p + 1)) (int s) d) [0..<n])"
  shows "set (map fst rows) = M \<and> distinct (map fst rows) \<and> set (map snd rows) \<subseteq> {int (card M)} \<and>
    (srt = None \<longrightarrow> sorted_wrt (\<lambda>a b. sjb_Key b < sjb_Key a) (map fst rows))"
proof -
  define sel where "sel = filter (\<lambda>r. matches jobType (sjb_Type r) \<and> matches st (sjb_State r) \<and>
      matches pk (sjb_ProcessInstanceKey r) \<and> matches_nullable assignee (sjb_Assignee r)) (trows (job d))"
  define ts :: "sql_Job order_term list" where "ts = sort_column srt ''created_at'' (\<lambda>r. SInt (sjb_CreatedAt r)) @
      sort_column srt ''key'' (\<lambda>r. SInt (sjb_Key r)) @ sort_column srt ''type'' (\<lambda>r. SText (sjb_Type r)) @
      sort_column srt ''state'' (\<lambda>r. SInt (sjb_State r)) @ [Desc (\<lambda>r. SInt (sjb_Key r))]"
  have k: "keyed sjb_Key (job d)" using assms(1) by (simp add: db_ok_def db_keyed_def)
  have dk: "distinct (map sjb_Key sel)"
    unfolding sel_def by (rule distinct_map_filter) (rule keyed_distinct_rows [OF k])
  then have ds: "distinct sel" by (simp add: distinct_map)
  have m: "set sel = M" using k by (auto simp: sel_def assms(3) keyed_rows)
  then have c: "card M = length sel" using distinct_card [OF ds] by simp
  have "length (order_by ts sel) \<le> n * s" using assms(4) c by simp
  from counted_pages [OF assms(2) this]
  have rows: "rows = map (\<lambda>x. (x, int (length sel))) (order_by ts sel)"
    by (simp add: assms(5) q_FindJobs_def sel_def [symmetric] ts_def [symmetric])
  have "sorted_wrt (\<lambda>a b. sjb_Key b < sjb_Key a) (order_by ts sel)" if "srt = None"
  proof (rule sorted_wrt_distinct_key)
    have "(\<lambda>a b. \<not> row_less ts b a) = (\<lambda>a b. \<not> sjb_Key a < sjb_Key b)"
      using that by (intro ext) (simp add: ts_def off_sort_column)
    with sorted_order_by [of ts sel] show "sorted_wrt (\<lambda>a b. \<not> sjb_Key a < sjb_Key b) (order_by ts sel)"
      by simp
    show "distinct (map sjb_Key (order_by ts sel))"
      using dk mset_order_by [of ts sel] by (metis mset_eq_imp_distinct_iff mset_map)
  qed
  with m c ds show ?thesis by (auto simp: rows distinct_order_by comp_def)
qed

definition pages_job :: "int \<Rightarrow> string \<Rightarrow> sql_Job" where
  "pages_job k ty = \<lparr>sjb_Key = k, sjb_ElementInstanceKey = 0, sjb_ElementID = ''task'', sjb_ProcessInstanceKey = 1,
     sjb_Type = ty, sjb_State = 1, sjb_CreatedAt = 7, sjb_Variables = Json Map.empty, sjb_ExecutionToken = 2,
     sjb_Assignee = None\<rparr>"

definition pages_db :: Database where
  "pages_db = new_Database\<lparr>FKConstraints := False,
     job := [(3, pages_job 3 ''a''), (4, pages_job 4 ''b''), (5, pages_job 5 ''a'')]\<rparr>"

theorem job_pages_list_each_match_once_witness:
  "db_ok pages_db \<and>
   map (sjb_Key \<circ> fst) (q_FindJobs None (Some ''a'') None None None 0 1 pages_db) = [5] \<and>
   map (sjb_Key \<circ> fst) (q_FindJobs None (Some ''a'') None None None 1 1 pages_db) = [3] \<and>
   distinct (map fst (concat (map (\<lambda>p. q_FindJobs None (Some ''a'') None None None (page_offset 1 (int p + 1)) 1 pages_db)
     [0..<2])))"
proof -
  let ?M = "{r. tget (job pages_db) (sjb_Key r) = Some r \<and> matches (Some ''a'') (sjb_Type r) \<and>
      matches None (sjb_State r) \<and> matches None (sjb_ProcessInstanceKey r) \<and> matches_nullable None (sjb_Assignee r)}"
  have ok: "db_ok pages_db"
    by (simp add: pages_db_def pages_job_def db_ok_def db_keyed_def new_Database_def keyed_def twf_def)
  have "?M \<subseteq> {pages_job 3 ''a'', pages_job 5 ''a''}"
    by (auto simp: pages_db_def tget_def matches_def pages_job_def split: if_splits)
  then have "card ?M \<le> card {pages_job 3 ''a'', pages_job 5 ''a''}" by (intro card_mono) auto
  also have "\<dots> \<le> 2 * 1" by (simp add: card_insert_if)
  finally have "card ?M \<le> 2 * 1" .
  from job_pages_list_each_match_once [OF ok _ refl this refl, of None] ok show ?thesis
    by (simp add: q_FindJobs_def counted_page_def sql_page_def order_by_def sort_column_def pages_db_def trows_def
        matches_def matches_nullable_def pages_job_def)
qed

end
