(* ===== verification/Zen_Server.thy ===== *)
theory Zen_Server
  imports Sql_Pages Sql_Persistence Engine_Api Dmn_Engine Job_Client
begin

text \<open>
  The server of a cluster node: errors with codes (\<^verbatim>\<open>internal/cluster/zenerr\<close>), the partitions a node runs
  and the look-ups of its controller (\<^verbatim>\<open>internal/cluster/controller\<close>), and the handlers of
  \<^verbatim>\<open>internal/cluster/server/server.go\<close>.

  \<^item> A node (\<open>ZenNode\<close>) has its own view of the cluster state, its connections, its job manager, and for each
    partition it runs a copy of the database and, where it was the leader at start, an engine. The engine is
    the model of \<open>Engine_Api\<close> with a store of its own, whose flushes \<open>Sql_Refinement\<close> relates to those of the
    database; the tables that the reading handlers see are the copy that raft has applied on the node, and
    that replication from the engine to the copies is not a step of the model.
  \<^item> A handler is an operation on the node it runs on. Its result is a response, which carries either an
    error result or the payload; an error that the handler returns itself reaches the caller as a status of
    gRPC and without a response.
  \<^item> Requests and responses are records without optional fields where the code always sets them. JSON texts
    are \<open>json_text\<close>; the random choice of an engine, fuel and the environment of the engines are parameters.
\<close>

section \<open>Errors with codes\<close>

datatype ZenErrorCode = NoErrorCode | TechnicalErrorCode | ClusterErrorCode | NotFoundCode | BadRequestCode
  | ConflictCode | UnknownCode int

fun code_number :: "ZenErrorCode \<Rightarrow> int" where
  "code_number NoErrorCode = 0"
| "code_number TechnicalErrorCode = 1"
| "code_number ClusterErrorCode = 2"
| "code_number NotFoundCode = 3"
| "code_number BadRequestCode = 4"
| "code_number ConflictCode = 5"
| "code_number (UnknownCode n) = n"

definition code_of :: "int \<Rightarrow> ZenErrorCode" where
  "code_of n =
     (if n = 0 then NoErrorCode else if n = 1 then TechnicalErrorCode else if n = 2 then ClusterErrorCode
      else if n = 3 then NotFoundCode else if n = 4 then BadRequestCode else if n = 5 then ConflictCode
      else UnknownCode n)"

fun code_ToString :: "ZenErrorCode \<Rightarrow> string" where
  "code_ToString NoErrorCode = []"
| "code_ToString TechnicalErrorCode = ''TECHNICAL_ERROR''"
| "code_ToString ClusterErrorCode = ''CLUSTER_ERROR''"
| "code_ToString NotFoundCode = ''NOT_FOUND''"
| "code_ToString BadRequestCode = ''BAD_REQUEST''"
| "code_ToString ConflictCode = ''CONFLICT''"
| "code_ToString (UnknownCode _) = ''UNKNOWN_ERROR''"

record ZenError =
  ze_Code :: ZenErrorCode
  ze_err :: error

definition TechnicalError :: "error \<Rightarrow> ZenError" where
  "TechnicalError e = \<lparr>ze_Code = TechnicalErrorCode, ze_err = e\<rparr>"

definition ClusterError :: "error \<Rightarrow> ZenError" where
  "ClusterError e = \<lparr>ze_Code = ClusterErrorCode, ze_err = e\<rparr>"

definition NotFound :: "error \<Rightarrow> ZenError" where
  "NotFound e = \<lparr>ze_Code = NotFoundCode, ze_err = e\<rparr>"

definition BadRequest :: "error \<Rightarrow> ZenError" where
  "BadRequest e = \<lparr>ze_Code = BadRequestCode, ze_err = e\<rparr>"

definition Conflict :: "error \<Rightarrow> ZenError" where
  "Conflict e = \<lparr>ze_Code = ConflictCode, ze_err = e\<rparr>"

text \<open>\<^verbatim>\<open>errors.Is\<close> along \<^verbatim>\<open>%w\<close> and \<^verbatim>\<open>errors.Join\<close>; errors of the engine wrap nothing.\<close>

primrec errors_Is :: "error \<Rightarrow> error \<Rightarrow> bool" where
  "errors_Is ErrNotFound t = (t = ErrNotFound)"
| "errors_Is ErrUniqueConstraint t = (t = ErrUniqueConstraint)"
| "errors_Is InvalidStateError t = (t = InvalidStateError)"
| "errors_Is (EngineError m) t = False"
| "errors_Is (Errorf m) t = (t = Errorf m \<and> Errorf m = sql_ErrNoRows)"
| "errors_Is (ErrorfArgs m as) t = False"
| "errors_Is (Wrapf m e) t = errors_Is e t"
| "errors_Is (Joined a b) t = (errors_Is a t \<or> errors_Is b t)"
| "errors_Is (ExpressionEvaluationError m e) t = False"
| "errors_Is (ExternalError m) t = False"

definition isErrNotFound :: "error \<Rightarrow> bool" where
  "isErrNotFound e \<longleftrightarrow> errors_Is e sql_ErrNoRows \<or> errors_Is e ErrNotFound"

record ErrorResult =
  er_Code :: "int option"
  er_Message :: "string option"

definition ToProtoError :: "ZenError \<Rightarrow> ErrorResult" where
  "ToProtoError z = \<lparr>er_Code = Some (code_number (ze_Code z)), er_Message = Some (error_text (ze_err z))\<rparr>"

definition ToZenError :: "ErrorResult \<Rightarrow> error \<Rightarrow> ZenError" where
  "ToZenError p e =
     \<lparr>ze_Code = (case er_Code p of None \<Rightarrow> TechnicalErrorCode | Some n \<Rightarrow> code_of n),
      ze_err = (case er_Message p of None \<Rightarrow> e | Some m \<Rightarrow> Joined e (Errorf m))\<rparr>"

lemma code_of_number: "(\<And>n. c \<noteq> UnknownCode n) \<Longrightarrow> code_of (code_number c) = c"
  by (cases c) (auto simp: code_of_def)

section \<open>Partitions of a node\<close>

record ZenPartitionNode =
  zp_PartitionId :: partition_id
  zp_DB :: DB
  zp_Engine :: "estate option"
  zp_IsLeader :: bool
  zp_FeelRuntime :: bool
  zp_JsRuntime :: bool

record ZenNode =
  zn_ID :: string
  zn_StoreOpen :: bool
  zn_ClusterState :: Cluster
  zn_partitions :: "(partition_id \<times> ZenPartitionNode) list"
  zn_client :: ClientManager
  zn_jobManager :: JobManager
  zn_InstanceHistoryTTL :: int
  zn_idGen :: nat

definition GetPartition :: "ZenNode \<Rightarrow> partition_id \<Rightarrow> ZenPartitionNode option" where
  "GetPartition n p = map_of (zn_partitions n) p"

definition IsPartitionLeader :: "ZenNode \<Rightarrow> partition_id \<Rightarrow> bool" where
  "IsPartitionLeader n p = (case map_of (zn_partitions n) p of None \<Rightarrow> False | Some x \<Rightarrow> zp_IsLeader x)"

definition IsAnyPartitionLeader :: "ZenNode \<Rightarrow> bool" where
  "IsAnyPartitionLeader n = list_ex (\<lambda>(p, _). IsPartitionLeader n p) (zn_partitions n)"

definition PartitionEngine :: "ZenNode \<Rightarrow> partition_id \<Rightarrow> estate option" where
  "PartitionEngine n p = (case map_of (zn_partitions n) p of None \<Rightarrow> None | Some x \<Rightarrow> zp_Engine x)"

definition Engines :: "ZenNode \<Rightarrow> (partition_id \<times> estate) list" where
  "Engines n = List.map_filter (\<lambda>(p, x). map_option (\<lambda>e. (p, e)) (zp_Engine x)) (zn_partitions n)"

definition AllPartitionLeaderDBs :: "ZenNode \<Rightarrow> DB list" where
  "AllPartitionLeaderDBs n = map (zp_DB \<circ> snd) (filter (\<lambda>(_, x). zp_IsLeader x) (zn_partitions n))"

definition PartitionQueries :: "ZenNode \<Rightarrow> partition_id \<Rightarrow> Database option" where
  "PartitionQueries n p = map_option (\<lambda>x. db_Store (zp_DB x)) (map_of (zn_partitions n) p)"

definition GetReadOnlyDB :: "ZenNode \<Rightarrow> error + DB" where
  "GetReadOnlyDB n =
     (case List.find (\<lambda>(_, x). \<not> zp_IsLeader x) (zn_partitions n) of
        Some (_, x) \<Rightarrow> Inr (zp_DB x)
      | None \<Rightarrow>
          (case zn_partitions n of
             (_, x) # _ \<Rightarrow> Inr (zp_DB x)
           | [] \<Rightarrow> Inl (Errorf ''no partition available to get read only database'')))"

text \<open>Keys are 64-bit integers; a key of the model is an \<open>int\<close>.\<close>

definition partition_of_key :: "int \<Rightarrow> partition_id" where
  "partition_of_key k = GetPartitionId (word_of_int k)"

definition set_partition :: "partition_id \<Rightarrow> (ZenPartitionNode \<Rightarrow> ZenPartitionNode) \<Rightarrow> ZenNode \<Rightarrow> ZenNode" where
  "set_partition p f n =
     n\<lparr>zn_partitions := map (\<lambda>(q, x). if q = p then (q, f x) else (q, x)) (zn_partitions n)\<rparr>"

text \<open>A call of a method of the engine of partition \<open>p\<close>, which keeps its changes whatever it returns; the
  caller has checked that there is an engine.\<close>

definition on_engine :: "partition_id \<Rightarrow> 'a em \<Rightarrow> (ZenNode, 'a) eng" where
  "on_engine p m n =
     (case PartitionEngine n p of
        None \<Rightarrow> (Panic ''nil pointer dereference'', n)
      | Some e \<Rightarrow> (case m e of (r, e') \<Rightarrow> (r, set_partition p (\<lambda>x. x\<lparr>zp_Engine := Some e'\<rparr>) n)))"

section \<open>Requests and responses\<close>

datatype 'a response = RespError ErrorResult | Resp 'a

type_synonym 'a handler = "(ZenNode, 'a response) eng"

text \<open>What the engines of the nodes use besides their state: fuel for the main loop and for called
  instances, the environment, the checksum and the decoders, the decision engine, and \<^verbatim>\<open>rand.Intn\<close>.\<close>

record engine_deps =
  dp_N :: nat
  dp_F :: nat
  dp_env :: env
  dp_md5 :: "string \<Rightarrow> int"
  dp_bpmn_xml :: "string \<Rightarrow> error + TDefinitions"
  dp_dmn_xml :: "string \<Rightarrow> error + dmn_TDefinitions"
  dp_dmn_env :: dmn_env
  dp_dmn_fuel :: nat
  dp_dvars :: "json_text \<Rightarrow> error + dvars"
  dp_Intn :: "int \<Rightarrow> int"

record proto_ProcessInstance =
  ppi_Key :: int
  ppi_ProcessId :: string
  ppi_Variables :: json_text
  ppi_State :: int
  ppi_CreatedAt :: int
  ppi_DefinitionKey :: int
  ppi_ParentInstanceKey :: "int option"
  ppi_BusinessKey :: "string option"
  ppi_Type :: int

record proto_ExecutionToken =
  pet_Key :: int
  pet_ElementInstanceKey :: int
  pet_ElementId :: string
  pet_ProcessInstanceKey :: int
  pet_CreatedAt :: int
  pet_State :: int

record proto_Job =
  pjb_Key :: int
  pjb_ElementInstanceKey :: int
  pjb_ElementId :: string
  pjb_ProcessInstanceKey :: int
  pjb_Type :: string
  pjb_State :: int
  pjb_CreatedAt :: int
  pjb_Variables :: json_text
  pjb_Assignee :: "string option"

record proto_Incident =
  pin_Key :: int
  pin_ElementInstanceKey :: int
  pin_ElementId :: string
  pin_ProcessInstanceKey :: int
  pin_Message :: error
  pin_CreatedAt :: int
  pin_ResolvedAt :: "int option"
  pin_ExecutionToken :: int

record proto_FlowElement =
  pfe_Key :: int
  pfe_ElementId :: string
  pfe_ProcessInstanceKey :: int
  pfe_CreatedAt :: int

record proto_DecisionInstance =
  pdi_Key :: int
  pdi_DmnResourceDefinitionKey :: int
  pdi_ProcessInstanceKey :: "int option"
  pdi_FlowElementInstanceKey :: "int option"
  pdi_EvaluatedAt :: int
  pdi_EvaluatedDecisions :: "string option"
  pdi_DecisionOutput :: "string option"

record 'a partitioned =
  pp_PartitionId :: partition_id
  pp_Items :: "'a list"
  pp_TotalCount :: int

definition proto_of_instance :: "ProcessInstance \<Rightarrow> int option \<Rightarrow> string option \<Rightarrow> proto_ProcessInstance" where
  "proto_of_instance i parent bk =
     \<lparr>ppi_Key = pi_Key i, ppi_ProcessId = pd_BpmnProcessId (pi_Definition i), ppi_Variables = json_Marshal (pi_Variables i),
      ppi_State = ActivityState_int (pi_State i), ppi_CreatedAt = UnixMilli (pi_CreatedAt i),
      ppi_DefinitionKey = pd_Key (pi_Definition i), ppi_ParentInstanceKey = parent, ppi_BusinessKey = bk,
      ppi_Type = ProcessType_int (Type i)\<rparr>"

definition proto_of_token :: "ExecutionToken \<Rightarrow> proto_ExecutionToken" where
  "proto_of_token t =
     \<lparr>pet_Key = tok_Key t, pet_ElementInstanceKey = tok_ElementInstanceKey t, pet_ElementId = tok_ElementId t,
      pet_ProcessInstanceKey = tok_ProcessInstanceKey t, pet_CreatedAt = UnixMilli (tok_CreatedAt t),
      pet_State = TokenState_int (tok_State t)\<rparr>"

definition proto_of_token_row :: "sql_ExecutionToken \<Rightarrow> proto_ExecutionToken" where
  "proto_of_token_row t =
     \<lparr>pet_Key = stk_Key t, pet_ElementInstanceKey = stk_ElementInstanceKey t, pet_ElementId = stk_ElementID t,
      pet_ProcessInstanceKey = stk_ProcessInstanceKey t, pet_CreatedAt = stk_CreatedAt t, pet_State = stk_State t\<rparr>"

definition proto_of_job :: "Sql_Queries.sql_Job \<Rightarrow> proto_Job" where
  "proto_of_job j =
     \<lparr>pjb_Key = sjb_Key j, pjb_ElementInstanceKey = sjb_ElementInstanceKey j, pjb_ElementId = sjb_ElementID j,
      pjb_ProcessInstanceKey = sjb_ProcessInstanceKey j, pjb_Type = sjb_Type j, pjb_State = sjb_State j,
      pjb_CreatedAt = sjb_CreatedAt j, pjb_Variables = sjb_Variables j, pjb_Assignee = sjb_Assignee j\<rparr>"

section \<open>Building blocks of the handlers\<close>

definition reply_error :: "ZenError \<Rightarrow> 'a handler" where
  "reply_error z = ret (RespError (ToProtoError z))"

definition reply :: "'a \<Rightarrow> 'a handler" where
  "reply x = ret (Resp x)"

text \<open>An operation whose error becomes an error result, and the usual choice of its code.\<close>

definition respond :: "(error \<Rightarrow> ZenError) \<Rightarrow> (ZenNode, 'a) eng \<Rightarrow> ('a \<Rightarrow> 'b handler) \<Rightarrow> 'b handler" where
  "respond z m f = bind (attempt m) (\<lambda>r. case r of Inl e \<Rightarrow> reply_error (z e) | Inr x \<Rightarrow> f x)"

definition not_found_or :: "string \<Rightarrow> string \<Rightarrow> error \<Rightarrow> ZenError" where
  "not_found_or nf te e =
     (if isErrNotFound e then NotFound (Wrapf nf e) else TechnicalError (Wrapf te e))"

definition with_engine :: "partition_id \<Rightarrow> 'a handler \<Rightarrow> 'a handler" where
  "with_engine p h = bind (gets (\<lambda>n. PartitionEngine n p)) (\<lambda>e.
     case e of
       None \<Rightarrow> reply_error (TechnicalError (Errorf ''engine with partition was not found''))
     | Some _ \<Rightarrow> h)"

definition with_queries :: "partition_id \<Rightarrow> (Database \<Rightarrow> 'a handler) \<Rightarrow> 'a handler" where
  "with_queries p h = bind (gets (\<lambda>n. PartitionQueries n p)) (\<lambda>q.
     case q of
       None \<Rightarrow> reply_error (TechnicalError (Errorf ''queries for partition not found''))
     | Some d \<Rightarrow> h d)"

definition with_variables :: "string \<Rightarrow> json_text \<Rightarrow> (vars \<Rightarrow> 'a handler) \<Rightarrow> 'a handler" where
  "with_variables msg j h =
     (case json_Unmarshal j of Inl e \<Rightarrow> reply_error (TechnicalError (Wrapf msg e)) | Inr vs \<Rightarrow> h vs)"

text \<open>\<^verbatim>\<open>GetRandomEngine\<close>: the partition of the engine at a random position of the map.\<close>

definition GetRandomEngine :: "engine_deps \<Rightarrow> ZenNode \<Rightarrow> partition_id option" where
  "GetRandomEngine D n =
     (let es = Engines n; i = dp_Intn D (int (length es)) in
      if es = [] then None else if 0 \<le> i \<and> i < int (length es) then Some (fst (es ! nat i)) else None)"

definition with_random_engine :: "engine_deps \<Rightarrow> (partition_id \<Rightarrow> 'a handler) \<Rightarrow> 'a handler" where
  "with_random_engine D h = bind (gets (GetRandomEngine D)) (\<lambda>e.
     case e of
       None \<Rightarrow> reply_error (TechnicalError (Errorf ''no engine available on this node''))
     | Some p \<Rightarrow> h p)"

section \<open>Handlers that change an instance\<close>

subsection \<open>Jobs\<close>

text \<open>The node itself completes, fails and assigns jobs for the job manager, on the local engine.\<close>

definition local_engine :: "int \<Rightarrow> string \<Rightarrow> 'a em \<Rightarrow> (ZenNode, 'a) eng" where
  "local_engine k msg m = bind (gets (\<lambda>n. PartitionEngine n (partition_of_key k))) (\<lambda>e.
     case e of None \<Rightarrow> throw (Errorf msg) | Some _ \<Rightarrow> on_engine (partition_of_key k) m)"

definition node_JobCompleteByKey :: "engine_deps \<Rightarrow> int \<Rightarrow> vars \<Rightarrow> (ZenNode, unit) eng" where
  "node_JobCompleteByKey D k vs =
     local_engine k ''Engine to complete job was not found on the node'' (JobCompleteByKey (dp_N D) (dp_F D) (dp_env D) k vs)"

definition node_JobAssignByKey :: "int \<Rightarrow> string option \<Rightarrow> (ZenNode, unit) eng" where
  "node_JobAssignByKey k a = local_engine k ''engine to assign job was not found on the node'' (JobAssignByKey k a)"

definition node_JobFailByKey :: "engine_deps \<Rightarrow> int \<Rightarrow> string \<Rightarrow> string option \<Rightarrow> (ZenNode, unit) eng" where
  "node_JobFailByKey D k msg code =
     local_engine k ''Engine to fail job was not found on the node'' (JobFailByKey (dp_env D) k msg code)"

text \<open>The job manager calls the node only while its server runs, and then forgets the job.\<close>

definition through_manager ::
  "(error option \<Rightarrow> int \<Rightarrow> JobManager \<Rightarrow> error option \<times> JobManager) \<Rightarrow> int \<Rightarrow> (ZenNode, unit) eng \<Rightarrow> (ZenNode, unit) eng" where
  "through_manager manage k m = bind (gets (\<lambda>n. jm_server (zn_jobManager n))) (\<lambda>srv.
     bind (case srv of None \<Rightarrow> ret None | Some _ \<Rightarrow> bind (attempt m) (\<lambda>r. ret (case r of Inl e \<Rightarrow> Some e | Inr _ \<Rightarrow> None))) (\<lambda>err.
     bind (gets (\<lambda>n. manage err k (zn_jobManager n))) (\<lambda>(e, jm).
     bind (modify (\<lambda>n. n\<lparr>zn_jobManager := jm\<rparr>)) (\<lambda>_.
       case e of None \<Rightarrow> ret () | Some x \<Rightarrow> throw x))))"

definition server_CompleteJob :: "engine_deps \<Rightarrow> int \<Rightarrow> json_text \<Rightarrow> unit handler" where
  "server_CompleteJob D k j =
     with_variables ''failed to unmarshal job input variables'' j (\<lambda>vs.
       respond (\<lambda>e. if isErrNotFound e then NotFound (Errorf ''job not found'')
                    else TechnicalError (Wrapf ''failed to complete job'' e))
         (through_manager manager_CompleteJob k (node_JobCompleteByKey D k vs)) reply)"

text \<open>\<^verbatim>\<open>FailJob\<close> returns its errors as errors of the call.\<close>

definition server_FailJob :: "engine_deps \<Rightarrow> int \<Rightarrow> string \<Rightarrow> string option \<Rightarrow> json_text \<Rightarrow> unit handler" where
  "server_FailJob D k msg code j =
     (case json_Unmarshal j of
        Inl e \<Rightarrow> throw (Wrapf ''failed to unmarshal job input variables'' e)
      | Inr _ \<Rightarrow>
          bind (wrap (Wrapf ''failed to fail job'') (through_manager manager_FailJob k (node_JobFailByKey D k msg code)))
            reply)"

definition server_AssignJobToAssignee :: "int \<Rightarrow> string \<Rightarrow> unit handler" where
  "server_AssignJobToAssignee k assignee =
     with_engine (partition_of_key k)
       (respond (not_found_or ''job not found'' ''failed to assign job'')
         (on_engine (partition_of_key k) (JobAssignByKey k (if assignee = [] then None else Some assignee))) reply)"

subsection \<open>Instances\<close>

datatype start_by = DefinitionKey int | LatestProcessId string

text \<open>
  \<^verbatim>\<open>CreateInstance\<close> of the engine returns the instance together with the error when only its run failed; the
  server looks at the error only if there is no instance.
\<close>

definition create_and_run :: "engine_deps \<Rightarrow> ProcessDefinition \<Rightarrow> vars \<Rightarrow> (nat \<times> error option) em" where
  "create_and_run D process vs =
     bind NewEngineBatchClean (\<lambda>_.
     bind (createInstance (dp_env D) process vs DefaultProcessInstance None) (\<lambda>(r, executionTokens).
     bind (wrap (Wrapf ''failed to start process instance'') flush_storage) (\<lambda>_.
     bind (attempt (wrap (Wrapf ''failed to run process instance'')
       (RunProcessInstance (dp_N D) (dp_F D) (dp_env D) r executionTokens))) (\<lambda>x.
       ret (r, case x of Inl e \<Rightarrow> Some e | Inr _ \<Rightarrow> None)))))"

definition find_start_definition :: "start_by \<Rightarrow> ProcessDefinition em" where
  "find_start_definition st =
     (case st of
        DefinitionKey k \<Rightarrow> wrap (Joined (EngineError ''no process definition with key was found''))
          (db_find (\<lambda>d. FindProcessDefinitionByKey d k))
      | LatestProcessId i \<Rightarrow> wrap (Joined (EngineError ''no process definition with id was found''))
          (db_find (\<lambda>d. FindLatestProcessDefinitionById d i)))"

definition start_failed :: "start_by \<Rightarrow> error \<Rightarrow> error" where
  "start_failed st =
     Joined (EngineError (case st of DefinitionKey _ \<Rightarrow> ''failed to create process instance with definition key''
       | LatestProcessId _ \<Rightarrow> ''failed to create process instance''))"

definition engine_create :: "engine_deps \<Rightarrow> start_by \<Rightarrow> vars \<Rightarrow> (nat \<times> error option) em" where
  "engine_create D st vs =
     bind (find_start_definition st) (\<lambda>process. wrap (start_failed st) (create_and_run D process vs))"

text \<open>The history TTL (in whole seconds, as in \<open>call_context\<close>) and the business key of a request travel in the context of the call, from
  which the persistence layer reads them when it saves the instance.\<close>

record create_request =
  cq_StartBy :: start_by
  cq_Variables :: json_text
  cq_HistoryTTL :: "int option"
  cq_BusinessKey :: "string option"

definition request_context :: "create_request \<Rightarrow> call_context" where
  "request_context q =
     \<lparr>ctx_HistoryTTL = cq_HistoryTTL q, ctx_BusinessKey = cq_BusinessKey q, ctx_ProcessInstanceKey = None,
      ctx_ElementInstanceKey = None\<rparr>"

definition server_CreateInstance :: "engine_deps \<Rightarrow> create_request \<Rightarrow> proto_ProcessInstance handler" where
  "server_CreateInstance D q =
     with_random_engine D (\<lambda>p.
     with_variables ''failed to unmarshal process variables'' (cq_Variables q) (\<lambda>vs.
       respond (not_found_or ''process definition not found'' ''failed to create process instance'')
         (on_engine p (bind (engine_create D (cq_StartBy q) vs) (\<lambda>(r, _). deref r)))
         (\<lambda>i. reply (proto_of_instance i None (pi_BusinessKey i)))))"

definition server_StartProcessInstanceOnElements ::
  "engine_deps \<Rightarrow> int \<Rightarrow> string list \<Rightarrow> json_text \<Rightarrow> proto_ProcessInstance handler" where
  "server_StartProcessInstanceOnElements D k ids j =
     with_random_engine D (\<lambda>p.
     with_variables ''failed to unmarshal process variables'' j (\<lambda>vs.
       respond (not_found_or ''process definition not found'' ''failed to create process instance on elements'')
         (on_engine p (bind (CreateInstanceWithStartingElements (dp_N D) (dp_F D) (dp_env D) k ids vs) deref))
         (\<lambda>i. reply (proto_of_instance i None None))))"

definition server_ModifyProcessInstance ::
  "engine_deps \<Rightarrow> int \<Rightarrow> int list \<Rightarrow> string list \<Rightarrow> json_text \<Rightarrow> (proto_ProcessInstance \<times> proto_ExecutionToken list) handler" where
  "server_ModifyProcessInstance D k toTerminate toStart j =
     with_engine (partition_of_key k)
      (with_variables ''failed to unmarshal process variables'' j (\<lambda>vs.
       respond (not_found_or ''process instance not found'' ''failed to modify process instance'')
         (on_engine (partition_of_key k)
           (bind (ModifyInstance (dp_N D) (dp_F D) (dp_env D) k toTerminate toStart vs) (\<lambda>(r, tokens).
            bind (deref r) (\<lambda>i. ret (i, tokens)))))
         (\<lambda>(i, tokens). reply (proto_of_instance i (GetParentProcessInstanceKey i) None, map proto_of_token tokens))))"

definition server_DeleteProcessInstanceVariable :: "int \<Rightarrow> string \<Rightarrow> proto_ProcessInstance handler" where
  "server_DeleteProcessInstanceVariable k variable =
     with_engine (partition_of_key k)
       (respond (not_found_or ''process instance not found'' ''failed to delete process instance variable'')
         (on_engine (partition_of_key k) (bind (DeleteInstanceVariable k variable) deref))
         (\<lambda>i. reply (proto_of_instance i (GetParentProcessInstanceKey i) None)))"

definition server_CancelProcessInstance :: "engine_deps \<Rightarrow> int \<Rightarrow> unit handler" where
  "server_CancelProcessInstance D k =
     with_engine (partition_of_key k)
       (respond (\<lambda>e. if isErrNotFound e then NotFound (Wrapf ''process instance not found'' e)
                     else if errors_Is e InvalidStateError then Conflict e
                     else TechnicalError (Wrapf ''failed to cancel process instance'' e))
         (on_engine (partition_of_key k) (CancelInstanceByKey (dp_F D) (dp_env D) k)) reply)"

definition server_ResolveIncident :: "engine_deps \<Rightarrow> int \<Rightarrow> unit handler" where
  "server_ResolveIncident D k =
     with_engine (partition_of_key k)
       (respond (\<lambda>e. if isErrNotFound e then NotFound e else TechnicalError (Wrapf ''failed to resolve incident'' e))
         (on_engine (partition_of_key k) (ResolveIncident (dp_N D) (dp_F D) (dp_env D) k)) reply)"

definition server_PublishMessage :: "engine_deps \<Rightarrow> int \<Rightarrow> json_text \<Rightarrow> unit handler" where
  "server_PublishMessage D k j =
     with_engine (partition_of_key k)
      (with_variables ''failed to unmarshal message input variables'' j (\<lambda>vs.
       respond (\<lambda>e. if isErrNotFound e then NotFound (Errorf ''message subscription for key not found'')
                    else TechnicalError (Wrapf ''failed to publish message event'' e))
         (on_engine (partition_of_key k) (PublishMessage (dp_N D) (dp_F D) (dp_env D) k vs)) reply))"

subsection \<open>Deployment\<close>

text \<open>Both deployments go to every engine of the node, in the order of the map, and stop at the first error.\<close>

definition server_DeployProcessDefinition :: "engine_deps \<Rightarrow> int \<Rightarrow> string \<Rightarrow> unit handler" where
  "server_DeployProcessDefinition D k xmlData =
     bind (gets Engines) (\<lambda>es.
     bind (for_each es (\<lambda>(p, _). bind (wrap (Wrapf ''failed to deploy process definition'')
       (on_engine p (LoadFromBytes (dp_md5 D) (dp_bpmn_xml D) xmlData k))) (\<lambda>_. ret ()))) reply)"

text \<open>An operation of the decision engine on the store of the engine; its keys come from the key generator.\<close>

definition dmn_op :: "(Storage \<Rightarrow> 'a res \<times> Storage) \<Rightarrow> 'a em" where
  "dmn_op f s = (case f (mem s) of (r, d) \<Rightarrow> (r, s\<lparr>mem := d\<rparr>))"

definition deploy_dmn_on :: "engine_deps \<Rightarrow> dmn_TDefinitions \<Rightarrow> string \<Rightarrow> int \<Rightarrow> unit em" where
  "deploy_dmn_on D definition' xmlData k s =
     (let keys = (\<lambda>i. gen (dp_env D) (keyc s + i)) in
      bind (modify (\<lambda>s. s\<lparr>keyc := keyc s + length (dmn_Decisions definition')\<rparr>)) (\<lambda>_.
      bind (dmn_op (deploy_dmn (dp_md5 D) keys definition' xmlData k)) (\<lambda>_. ret ())) s)"

definition server_DeployDmnResourceDefinition :: "engine_deps \<Rightarrow> int \<Rightarrow> string \<Rightarrow> unit handler" where
  "server_DeployDmnResourceDefinition D k xmlData =
     bind (gets Engines) (\<lambda>es.
       if es = [] then reply_error (TechnicalError (Errorf ''no engines available''))
       else case dp_dmn_xml D xmlData of
              Inl e \<Rightarrow> reply_error (TechnicalError (Wrapf ''failed to parse request data''
                (Wrapf ''failed to parse dmn resource definition from bytes'' e)))
            | Inr definition' \<Rightarrow>
                respond (\<lambda>e. TechnicalError (Wrapf ''failed to deploy dmn resource definition'' e))
                  (for_each es (\<lambda>(p, _). on_engine p (deploy_dmn_on D definition' xmlData k))) reply)"

text \<open>\<^verbatim>\<open>EvaluateDecision\<close>; the result of the decision engine stands for its encoding.\<close>

definition decision_not_found :: "error \<Rightarrow> bool" where
  "decision_not_found e \<longleftrightarrow> (case e of Wrapf _ (ErrorfArgs m _) \<Rightarrow> m = ''decision not found'' | _ \<Rightarrow> False)"

definition evaluate_on :: "engine_deps \<Rightarrow> string \<Rightarrow> string \<Rightarrow> string \<Rightarrow> dvars \<Rightarrow> EvaluatedDRDResult em" where
  "evaluate_on D bindingType decisionId versionTag vs =
     bind (generateKey (dp_env D)) (\<lambda>k. bind (time_now (dp_env D)) (\<lambda>now.
       dmn_op (FindAndEvaluateDRD (dp_dmn_env D) (dp_dmn_fuel D) k now bindingType decisionId versionTag vs)))"

definition server_EvaluateDecision ::
  "engine_deps \<Rightarrow> string \<Rightarrow> string \<Rightarrow> string \<Rightarrow> json_text \<Rightarrow> EvaluatedDRDResult handler" where
  "server_EvaluateDecision D bindingType decisionId versionTag j =
     with_random_engine D (\<lambda>p.
       case dp_dvars D j of
         Inl e \<Rightarrow> reply_error (TechnicalError (Wrapf ''failed to unmarshal decision variables'' e))
       | Inr vs \<Rightarrow>
           respond (\<lambda>e. if decision_not_found e \<or> isErrNotFound e then NotFound (Wrapf ''decision definition not found'' e)
                        else TechnicalError (Wrapf ''failed to evaluate decision'' e))
             (on_engine p (evaluate_on D bindingType decisionId versionTag vs)) reply)"

section \<open>Handlers that read\<close>

text \<open>The offset is computed from the 32-bit page and size in 64 bits.\<close>

definition row_offset :: "int \<Rightarrow> int \<Rightarrow> int" where
  "row_offset sz pg = sz * int32 (pg - 1)"

text \<open>The rows of a counted page as the items of a response, with the total of the first row in 32 bits.\<close>

definition total_count :: "('a \<times> int) list \<Rightarrow> int" where
  "total_count rows = (case rows of [] \<Rightarrow> 0 | (_, n) # _ \<Rightarrow> int32 n)"

definition page_of :: "('a \<Rightarrow> 'b) \<Rightarrow> ('a \<times> int) list \<Rightarrow> 'b list \<times> int" where
  "page_of f rows = (map (f \<circ> fst) rows, total_count rows)"

text \<open>\<^verbatim>\<open>for _, partitionId := range req.Partitions\<close>; the first partition that is not on the node ends the loop.\<close>

fun for_partitions ::
  "partition_id list \<Rightarrow> (Database \<Rightarrow> 'b list \<times> int) \<Rightarrow> 'b partitioned list \<Rightarrow> 'b partitioned list handler" where
  "for_partitions [] f acc = reply acc"
| "for_partitions (p # ps) f acc =
     with_queries p (\<lambda>d. for_partitions ps f
       (acc @ [\<lparr>pp_PartitionId = p, pp_Items = fst (f d), pp_TotalCount = snd (f d)\<rparr>]))"

subsection \<open>Instances\<close>

definition server_GetProcessInstance :: "int \<Rightarrow> (proto_ProcessInstance \<times> proto_ExecutionToken list) handler" where
  "server_GetProcessInstance k =
     (let p = partition_of_key k in
      with_engine p
       (respond (not_found_or ''process instance not found'' ''failed to get process instance'')
         (on_engine p (bind (db_find (\<lambda>d. FindProcessInstanceByKey d k)) deref))
         (\<lambda>i. with_queries p (\<lambda>d.
            reply (proto_of_instance i (GetParentProcessInstanceKey i) (pi_BusinessKey i),
              map proto_of_token_row (q_GetTokensForProcessInstance k
                [TokenState_int TokenStateWaiting, TokenState_int TokenStateRunning, TokenState_int TokenStateFailed] d))))))"

record instance_request =
  ir_Page :: int
  ir_Size :: int
  ir_SortByOrder :: "string option"
  ir_DefinitionKey :: int
  ir_ParentKey :: int
  ir_BusinessKey :: "string option"
  ir_ProcessId :: "string option"
  ir_CreatedFrom :: "int option"
  ir_CreatedTo :: "int option"
  ir_State :: "int option"
  ir_ActivityId :: "string option"
  ir_ShowChildProcesses :: bool

text \<open>The key of the parent instance is read from the loaded parent tokens; a token that is gone has the zero
  value.\<close>

definition proto_of_instance_row :: "sql_ExecutionToken list \<Rightarrow> sql_ProcessInstance \<times> string \<Rightarrow> proto_ProcessInstance" where
  "proto_of_instance_row tokens = (\<lambda>(r, processId).
     \<lparr>ppi_Key = spi_Key r, ppi_ProcessId = processId, ppi_Variables = spi_Variables r, ppi_State = spi_State r,
      ppi_CreatedAt = spi_CreatedAt r, ppi_DefinitionKey = spi_ProcessDefinitionKey r,
      ppi_ParentInstanceKey = map_option (\<lambda>tk. case List.find (\<lambda>t. stk_Key t = tk) tokens of
         None \<Rightarrow> 0 | Some t \<Rightarrow> stk_ProcessInstanceKey t) (spi_ParentProcessExecutionToken r),
      ppi_BusinessKey = spi_BusinessKey r, ppi_Type = spi_ProcessType r\<rparr>)"

definition instance_page ::
  "string option \<Rightarrow> instance_filter \<Rightarrow> int \<Rightarrow> int \<Rightarrow> Database \<Rightarrow> proto_ProcessInstance list \<times> int" where
  "instance_page srt f offset sz d =
     (let rows = q_FindProcessInstancesPage srt f offset sz d;
          parentTokens = q_GetTokens (map (\<lambda>((r, _), _). case spi_ParentProcessExecutionToken r of None \<Rightarrow> 0 | Some k \<Rightarrow> k) rows) d
      in page_of (proto_of_instance_row parentTokens) rows)"

definition server_GetProcessInstances ::
  "partition_id list \<Rightarrow> instance_request \<Rightarrow> proto_ProcessInstance partitioned list handler" where
  "server_GetProcessInstances ps r =
     for_partitions ps (instance_page (ir_SortByOrder r)
       \<lparr>if_ProcessDefinitionKey = ir_DefinitionKey r, if_ParentInstanceKey = ir_ParentKey r,
        if_BusinessKey = ir_BusinessKey r, if_BpmnProcessID = ir_ProcessId r, if_ActivityID = ir_ActivityId r,
        if_CreatedFrom = ir_CreatedFrom r, if_CreatedTo = ir_CreatedTo r, if_State = ir_State r,
        if_Types = (if ir_ShowChildProcesses r
          then map ProcessType_int [ProcessTypeCallActivity, ProcessTypeMultiInstance, ProcessTypeDefault, ProcessTypeSubProcess]
          else map ProcessType_int [ProcessTypeDefault, ProcessTypeCallActivity])\<rparr>
       (row_offset (ir_Size r) (ir_Page r)) (ir_Size r)) []"

text \<open>\<^verbatim>\<open>GetChildProcessInstances\<close> returns a missing partition as an error of the call.\<close>

definition server_GetChildProcessInstances ::
  "int \<Rightarrow> string option \<Rightarrow> int option \<Rightarrow> int \<Rightarrow> int \<Rightarrow> (proto_ProcessInstance list \<times> int) handler" where
  "server_GetChildProcessInstances parent srt st pg sz =
     bind (gets (\<lambda>n. PartitionQueries n (partition_of_key parent))) (\<lambda>q.
       case q of
         None \<Rightarrow> throw (Errorf ''queries for partition not found'')
       | Some d \<Rightarrow> reply (instance_page srt
           \<lparr>if_ProcessDefinitionKey = 0, if_ParentInstanceKey = parent, if_BusinessKey = None, if_BpmnProcessID = None,
            if_ActivityID = None, if_CreatedFrom = None, if_CreatedTo = None, if_State = st,
            if_Types = map ProcessType_int [ProcessTypeCallActivity, ProcessTypeMultiInstance, ProcessTypeSubProcess]\<rparr>
           (row_offset sz pg) sz d))"

subsection \<open>Jobs, history, incidents, decisions\<close>

definition server_GetJobs ::
  "partition_id list \<Rightarrow> int \<Rightarrow> int \<Rightarrow> string option \<Rightarrow> int option \<Rightarrow> string option \<Rightarrow> int option \<Rightarrow> string option \<Rightarrow>
     proto_Job partitioned list handler" where
  "server_GetJobs ps pg sz jobType st assignee pk srt =
     for_partitions ps (\<lambda>d. page_of proto_of_job (q_FindJobs srt jobType st pk assignee (row_offset sz pg) sz d)) []"

definition server_GetJob :: "int \<Rightarrow> proto_Job handler" where
  "server_GetJob k =
     with_queries (partition_of_key k) (\<lambda>d.
       case q_FindJobByJobKey k d of
         Inl e \<Rightarrow> reply_error (if isErrNotFound e then NotFound (Errorf ''job not found'')
                               else TechnicalError (Wrapf ''failed to get job'' e))
       | Inr j \<Rightarrow> reply (proto_of_job j))"

definition server_GetProcessInstanceJobs :: "int \<Rightarrow> int \<Rightarrow> int \<Rightarrow> (proto_Job list \<times> int) handler" where
  "server_GetProcessInstanceJobs k pg sz =
     with_queries (partition_of_key k) (\<lambda>d. reply (page_of proto_of_job (q_FindProcessInstanceJobs k sz (row_offset sz pg) d)))"

definition server_GetFlowElementHistory :: "int \<Rightarrow> int \<Rightarrow> int \<Rightarrow> (proto_FlowElement list \<times> int) handler" where
  "server_GetFlowElementHistory k pg sz =
     with_queries (partition_of_key k) (\<lambda>d. reply (page_of
       (\<lambda>f. \<lparr>pfe_Key = sfe_Key f, pfe_ElementId = sfe_ElementID f, pfe_ProcessInstanceKey = sfe_ProcessInstanceKey f,
             pfe_CreatedAt = sfe_CreatedAt f\<rparr>)
       (q_FindFlowElementInstances k sz (row_offset sz pg) d)))"

definition server_GetIncidents :: "int \<Rightarrow> string option \<Rightarrow> int \<Rightarrow> int \<Rightarrow> (proto_Incident list \<times> int) handler" where
  "server_GetIncidents k st pg sz =
     with_queries (partition_of_key k) (\<lambda>d. reply (page_of
       (\<lambda>i. \<lparr>pin_Key = sic_Key i, pin_ElementInstanceKey = sic_ElementInstanceKey i, pin_ElementId = sic_ElementID i,
             pin_ProcessInstanceKey = sic_ProcessInstanceKey i, pin_Message = sic_Message i, pin_CreatedAt = sic_CreatedAt i,
             pin_ResolvedAt = sic_ResolvedAt i, pin_ExecutionToken = sic_ExecutionToken i\<rparr>)
       (q_FindIncidentsPageByProcessInstanceKey k st sz (row_offset sz pg) d)))"

definition server_GetDecisionInstance :: "int \<Rightarrow> proto_DecisionInstance handler" where
  "server_GetDecisionInstance k =
     with_queries (partition_of_key k) (\<lambda>d.
       case q_FindDecisionInstanceByKey k d of
         Inl e \<Rightarrow> reply_error (if isErrNotFound e then NotFound (Errorf ''decision instance not found'')
                               else TechnicalError (Wrapf ''failed to find decision instance'' e))
       | Inr r \<Rightarrow> reply \<lparr>pdi_Key = sdi_Key r, pdi_DmnResourceDefinitionKey = sdi_DmnResourceDefinitionKey r,
           pdi_ProcessInstanceKey = sdi_ProcessInstanceKey r, pdi_FlowElementInstanceKey = sdi_FlowElementInstanceKey r,
           pdi_EvaluatedAt = sdi_CreatedAt r, pdi_EvaluatedDecisions = Some (sdi_EvaluatedDecisions r),
           pdi_DecisionOutput = Some (sdi_OutputVariables r)\<rparr>)"

record decision_request =
  dr_Page :: int
  dr_Size :: int
  dr_SortByOrder :: "string option"
  dr_DmnResourceDefinitionKey :: "int option"
  dr_DmnResourceDefinitionId :: "string option"
  dr_ProcessInstanceKey :: "int option"
  dr_EvaluatedFrom :: "int option"
  dr_EvaluatedTo :: "int option"

definition server_GetDecisionInstances ::
  "partition_id list \<Rightarrow> decision_request \<Rightarrow> proto_DecisionInstance partitioned list handler" where
  "server_GetDecisionInstances ps r =
     for_partitions ps (\<lambda>d. page_of
       (\<lambda>i. \<lparr>pdi_Key = sdi_Key i, pdi_DmnResourceDefinitionKey = sdi_DmnResourceDefinitionKey i,
             pdi_ProcessInstanceKey = sdi_ProcessInstanceKey i, pdi_FlowElementInstanceKey = sdi_FlowElementInstanceKey i,
             pdi_EvaluatedAt = sdi_CreatedAt i, pdi_EvaluatedDecisions = None, pdi_DecisionOutput = None\<rparr>)
       (q_FindDecisionInstancesPage (dr_SortByOrder r) (dr_DmnResourceDefinitionKey r) (dr_DmnResourceDefinitionId r)
         (dr_ProcessInstanceKey r) (dr_EvaluatedFrom r) (dr_EvaluatedTo r) (row_offset (dr_Size r) (dr_Page r))
         (dr_Size r) d)) []"

subsection \<open>Statistics\<close>

definition proto_statistics :: "element_statistics list \<Rightarrow> element_statistics list \<times> int" where
  "proto_statistics rows =
     (map (\<lambda>r. r\<lparr>es_ActiveCount := int32 (es_ActiveCount r), es_IncidentCount := int32 (es_IncidentCount r)\<rparr>) rows, 0)"

definition server_GetProcessDefinitionElementStatistics ::
  "partition_id list \<Rightarrow> int \<Rightarrow> element_statistics partitioned list handler" where
  "server_GetProcessDefinitionElementStatistics ps k =
     for_partitions ps (\<lambda>d. proto_statistics (q_GetElementStatisticsByProcessDefinitionKey k d)) []"

definition server_GetProcessInstanceElementStatistics ::
  "partition_id list \<Rightarrow> int \<Rightarrow> element_statistics partitioned list handler" where
  "server_GetProcessInstanceElementStatistics ps k =
     for_partitions ps (\<lambda>d. proto_statistics (q_GetElementStatisticsByProcessInstanceKey k d)) []"

record statistics_request =
  sr_Page :: int
  sr_Size :: int
  sr_OnlyLatest :: bool
  sr_BpmnProcessIdIn :: "string list"
  sr_BpmnProcessDefinitionKeyIn :: "int list"
  sr_Name :: "string option"
  sr_Sort :: "string option"

definition server_GetProcessDefinitionStatistics ::
  "partition_id list \<Rightarrow> statistics_request \<Rightarrow> definition_statistics partitioned list handler" where
  "server_GetProcessDefinitionStatistics ps r =
     for_partitions ps (\<lambda>d. page_of id (q_FindProcessDefinitionStatistics (sr_Sort r) (sr_Name r)
       (if sr_OnlyLatest r then 1 else 0) (sr_BpmnProcessIdIn r) (sr_BpmnProcessDefinitionKeyIn r)
       (row_offset (sr_Size r) (sr_Page r)) (sr_Size r) d)) []"

section \<open>Message subscriptions across partitions\<close>

text \<open>An error with a status code of gRPC; every other error has the code \<^verbatim>\<open>Unknown\<close>.\<close>

definition status_Error :: "string \<Rightarrow> string \<Rightarrow> error" where
  "status_Error code msg = ErrorfArgs ''rpc error'' [code, msg]"

fun status_Code :: "error \<Rightarrow> string" where
  "status_Code (ErrorfArgs m [code, msg]) = (if m = ''rpc error'' then code else ''Unknown'')"
| "status_Code _ = ''Unknown''"

definition server_FindActiveMessage :: "string \<Rightarrow> string \<Rightarrow> int \<Rightarrow> sql_MessageSubscription handler" where
  "server_FindActiveMessage name ck tk =
     bind (gets (\<lambda>n. PartitionQueries n (partition_of_key tk))) (\<lambda>q.
       case q of
         None \<Rightarrow> throw (Errorf ''failed to find partition'')
       | Some d \<Rightarrow>
           (case List.find (\<lambda>m. sms_CorrelationKey m = ck \<and> sms_Name m = name)
                   (q_FindTokenMessageSubscriptions tk (ActivityState_int ActivityStateActive) d) of
              Some m \<Rightarrow> reply m
            | None \<Rightarrow> throw (status_Error ''NotFound'' ''message subscription was not found in partition'')))"

text \<open>\<^verbatim>\<open>SetMessageSubscriptionPointer\<close> upserts without looking at a pointer that is there. \<open>runes\<close> gives the
  characters of a correlation key as code points.\<close>

definition runes :: "string \<Rightarrow> 32 word list" where
  "runes s = map of_char s"

definition home_partition :: "ZenNode \<Rightarrow> string \<Rightarrow> partition_id" where
  "home_partition n ck = GetPartitionIdFromString (zn_ClusterState n) (runes ck)"

definition on_database :: "partition_id \<Rightarrow> (DB, 'a) eng \<Rightarrow> (ZenNode, 'a) eng" where
  "on_database p m n =
     (case map_of (zn_partitions n) p of
        None \<Rightarrow> (Panic ''nil pointer dereference'', n)
      | Some x \<Rightarrow> (case m (zp_DB x) of (r, d) \<Rightarrow> (r, set_partition p (\<lambda>x. x\<lparr>zp_DB := d\<rparr>) n)))"

definition server_SetMessageSubscriptionPointer ::
  "partition_id \<Rightarrow> sql_MessageSubscriptionPointer \<Rightarrow> unit handler" where
  "server_SetMessageSubscriptionPointer p ptr =
     bind (gets (\<lambda>n. (GetPartition n p, home_partition n (smp_CorrelationKey ptr)))) (\<lambda>(x, home).
       case x of
         None \<Rightarrow> throw (Errorf ''node for partition was not found'')
       | Some z \<Rightarrow>
           if zp_PartitionId z = home \<and> zp_IsLeader z
           then bind (wrap (Wrapf ''failed to save message subscription pointer for message subscription'')
                  (on_database p (DB_ExecContext (St_SaveMessageSubscriptionPointer ptr)))) reply
           else throw (Errorf ''Node is not a leader for partition''))"

end
