(* ===== verification/Zen_Node.thy ===== *)
theory Zen_Node
  imports Zen_Server
begin

text \<open>
  The operations of a cluster node (\<^verbatim>\<open>internal/cluster/node.go\<close>): each finds the node that has to serve a
  request, calls its server and translates the outcome.

  \<^item> The nodes that are up are a map from addresses to nodes. Connections and dialling are parameters
    (\<open>network\<close>); what is used of them is that a connection reaches the address it was dialled for.
  \<^item> An operation runs at an address \<open>self\<close>. Its value is an error with a code or a result; the errors that the
    code returns without a code are errors of the monad.
  \<^item> A remote call runs the handler of the peer as one step. A handler that returns an error itself reaches the
    caller as a status error.
  \<^item> The operations that ask every partition start one goroutine each in an \<^verbatim>\<open>errgroup\<close>. The schedule, the order
    in which their calls happen, is a parameter; after the first error the context is cancelled and no further
    call is sent. The results stand at the index of their partition.
\<close>

section \<open>Nodes, connections and calls\<close>

type_synonym world = "(string \<times> ZenNode) list"

record network =
  nw_dial :: "string \<Rightarrow> error + connection"
  nw_peer :: "connection \<Rightarrow> string"
  nw_generate :: "nat \<Rightarrow> int"

text \<open>Every node draws the keys of definitions from a generator of its own, \<^verbatim>\<open>snowflake.NewNode(0)\<close>.\<close>

definition on_node :: "string \<Rightarrow> (ZenNode, 'a) eng \<Rightarrow> (world, 'a) eng" where
  "on_node a m w =
     (case map_of w a of
        None \<Rightarrow> (Err (status_Error ''Unavailable'' ''connection error''), w)
      | Some n \<Rightarrow> (case m n of (r, n') \<Rightarrow> (r, AList.update a n' w)))"

definition rpc :: "network \<Rightarrow> connection \<Rightarrow> 'a handler \<Rightarrow> (world, 'a response) eng" where
  "rpc N c h = wrap (\<lambda>e. status_Error (status_Code e) (error_text e)) (on_node (nw_peer N c) h)"

definition node_For :: "network \<Rightarrow> string \<Rightarrow> (ZenNode, connection) eng" where
  "node_For N addr n =
     (case client_For (nw_dial N) addr (zn_client n) of
        (Inl e, m) \<Rightarrow> (Err e, n\<lparr>zn_client := m\<rparr>)
      | (Inr c, m) \<Rightarrow> (Ok c, n\<lparr>zn_client := m\<rparr>))"

definition node_PartitionLeader :: "network \<Rightarrow> partition_id \<Rightarrow> (ZenNode, connection) eng" where
  "node_PartitionLeader N p n =
     (case client_PartitionLeader (nw_dial N) (PartitionLeaderWithID (zn_StoreOpen n) (zn_ClusterState n)) p (zn_client n) of
        (Inl e, m) \<Rightarrow> (Err e, n\<lparr>zn_client := m\<rparr>)
      | (Inr c, m) \<Rightarrow> (Ok c, n\<lparr>zn_client := m\<rparr>))"

section \<open>Results with error codes\<close>

type_synonym 'a zop = "(world, ZenError + 'a) eng"

definition zret :: "'a \<Rightarrow> 'a zop" where
  "zret x = ret (Inr x)"

definition zfail :: "ZenError \<Rightarrow> 'a zop" where
  "zfail z = ret (Inl z)"

definition zbind :: "'a zop \<Rightarrow> ('a \<Rightarrow> 'b zop) \<Rightarrow> 'b zop" where
  "zbind m f = bind m (\<lambda>r. case r of Inl z \<Rightarrow> zfail z | Inr x \<Rightarrow> f x)"

definition ztry :: "(error \<Rightarrow> ZenError) \<Rightarrow> (world, 'a) eng \<Rightarrow> 'a zop" where
  "ztry z m = bind (attempt m) (\<lambda>r. case r of Inl e \<Rightarrow> zfail (z e) | Inr x \<Rightarrow> zret x)"

definition zsum :: "(error \<Rightarrow> ZenError) \<Rightarrow> error + 'a \<Rightarrow> 'a zop" where
  "zsum z r = (case r of Inl e \<Rightarrow> zfail (z e) | Inr x \<Rightarrow> zret x)"

definition payload :: "(ErrorResult \<Rightarrow> error) \<Rightarrow> 'a response \<Rightarrow> 'a zop" where
  "payload z r = (case r of RespError e \<Rightarrow> zfail (ToZenError e (z e)) | Resp x \<Rightarrow> zret x)"

text \<open>The common shape of the operations: a client, the call, and its outcome; \<open>ce\<close> is the code for a failure
  to get the client, \<open>re\<close> that of a failed call and \<open>z\<close> the error that an error result is joined to.\<close>

definition call_on ::
  "network \<Rightarrow> (world, connection) eng \<Rightarrow> (error \<Rightarrow> ZenError) \<Rightarrow> (error \<Rightarrow> ZenError) \<Rightarrow> (ErrorResult \<Rightarrow> error) \<Rightarrow> 'a handler \<Rightarrow> 'a zop" where
  "call_on N client ce re z h = zbind (ztry ce client) (\<lambda>c. zbind (ztry re (rpc N c h)) (payload z))"

definition to_leader ::
  "network \<Rightarrow> string \<Rightarrow> partition_id \<Rightarrow> string \<Rightarrow> (error \<Rightarrow> ZenError) \<Rightarrow> (ErrorResult \<Rightarrow> error) \<Rightarrow> 'a handler \<Rightarrow> 'a zop" where
  "to_leader N self p msg re z h =
     call_on N (on_node self (node_PartitionLeader N p)) (\<lambda>e. ClusterError (Wrapf msg e)) re z h"

definition to_address ::
  "network \<Rightarrow> string \<Rightarrow> string \<Rightarrow> (error \<Rightarrow> ZenError) \<Rightarrow> (error \<Rightarrow> ZenError) \<Rightarrow> (ErrorResult \<Rightarrow> error) \<Rightarrow> 'a handler \<Rightarrow> 'a zop" where
  "to_address N self addr ce re z h = call_on N (on_node self (node_For N addr)) ce re z h"

definition cluster_error_text :: "cluster_error \<Rightarrow> error" where
  "cluster_error_text e =
     (case e of ErrNodeNotFound \<Rightarrow> Errorf ''node was not found in cluster state''
      | FailedToFindNode \<Rightarrow> Errorf ''failed to find node'' | PartitionNotFound \<Rightarrow> Errorf ''partition not found'')"

definition of_cluster :: "cluster_error + 'a \<Rightarrow> error + 'a" where
  "of_cluster r = (case r of Inl e \<Rightarrow> Inl (cluster_error_text e) | Inr x \<Rightarrow> Inr x)"

definition my_state :: "string \<Rightarrow> (world, Cluster) eng" where
  "my_state self = on_node self (gets zn_ClusterState)"

text \<open>A call to a follower of partition \<open>p\<close>, or to its leader when it has none.\<close>

definition to_follower ::
  "network \<Rightarrow> string \<Rightarrow> Cluster \<Rightarrow> partition_id \<Rightarrow> string \<Rightarrow> (error \<Rightarrow> ZenError) \<Rightarrow> string \<Rightarrow> 'a handler \<Rightarrow> 'a zop" where
  "to_follower N self cs p msg ce call h =
     zbind (zsum (\<lambda>e. ClusterError (Wrapf msg e)) (of_cluster (GetPartitionFollower cs p))) (\<lambda>follower.
       to_address N self (nd_Addr follower) ce (\<lambda>e. TechnicalError (Wrapf call e)) (\<lambda>_. Errorf call) h)"

section \<open>Operations on a key\<close>

definition node_CompleteJob :: "engine_deps \<Rightarrow> network \<Rightarrow> string \<Rightarrow> int \<Rightarrow> vars \<Rightarrow> unit zop" where
  "node_CompleteJob D N self k vs =
     to_leader N self (partition_of_key k) ''failed to get client''
       (\<lambda>e. TechnicalError (Wrapf ''client call to complete job failed'' e)) (\<lambda>_. Errorf ''client call to complete job failed'')
       (server_CompleteJob D k (json_Marshal vs))"

definition node_AssignJob :: "network \<Rightarrow> string \<Rightarrow> int \<Rightarrow> string \<Rightarrow> unit zop" where
  "node_AssignJob N self k assignee =
     to_leader N self (partition_of_key k) ''failed to get client''
       (\<lambda>e. TechnicalError (Wrapf ''client call to assign job failed'' e)) (\<lambda>_. Errorf ''client call to assign job failed'')
       (server_AssignJobToAssignee k assignee)"

definition node_ResolveIncident :: "engine_deps \<Rightarrow> network \<Rightarrow> string \<Rightarrow> int \<Rightarrow> unit zop" where
  "node_ResolveIncident D N self k =
     to_leader N self (partition_of_key k) ''failed to get client''
       (\<lambda>e. TechnicalError (Wrapf ''client call to resolve incident failed'' e))
       (\<lambda>_. Errorf ''client call to resolve incident failed'')
       (server_ResolveIncident D k)"

definition node_DeleteProcessInstanceVariable :: "network \<Rightarrow> string \<Rightarrow> int \<Rightarrow> string \<Rightarrow> unit zop" where
  "node_DeleteProcessInstanceVariable N self k variable =
     zbind (to_leader N self (partition_of_key k) ''failed to get client to delete process instance variable''
       (\<lambda>e. TechnicalError (Wrapf ''failed to delete process instance variable'' e))
       (\<lambda>_. Errorf ''failed to delete process instance variable'')
       (server_DeleteProcessInstanceVariable k variable)) (\<lambda>_. zret ())"

definition node_CancelProcessInstance :: "engine_deps \<Rightarrow> network \<Rightarrow> string \<Rightarrow> int \<Rightarrow> unit zop" where
  "node_CancelProcessInstance D N self k =
     to_leader N self (partition_of_key k) ''failed to get client to cancel process instance''
       (\<lambda>e. TechnicalError (Wrapf ''failed to cancel process instance'' e))
       (\<lambda>r. ErrorfArgs ''failed to cancel process instance'' [case er_Message r of None \<Rightarrow> [] | Some m \<Rightarrow> m])
       (server_CancelProcessInstance D k)"

definition node_ModifyProcessInstance ::
  "engine_deps \<Rightarrow> network \<Rightarrow> string \<Rightarrow> int \<Rightarrow> int list \<Rightarrow> string list \<Rightarrow> vars \<Rightarrow>
     (proto_ProcessInstance \<times> proto_ExecutionToken list) zop" where
  "node_ModifyProcessInstance D N self k toTerminate toStart vs =
     to_leader N self (partition_of_key k) ''failed to get client to modify process instance''
       (\<lambda>e. TechnicalError (Wrapf ''failed to modify process instance'' e)) (\<lambda>_. Errorf ''failed to modify process instance'')
       (server_ModifyProcessInstance D k toTerminate toStart (json_Marshal vs))"

definition node_UpdateProcessInstanceVariables ::
  "engine_deps \<Rightarrow> network \<Rightarrow> string \<Rightarrow> int \<Rightarrow> vars \<Rightarrow> unit zop" where
  "node_UpdateProcessInstanceVariables D N self k vs =
     zbind (node_ModifyProcessInstance D N self k [] [] vs) (\<lambda>_. zret ())"

text \<open>\<^verbatim>\<open>PublishMessage\<close> reads the pointer in the node's own copy of the partition of the correlation key.\<close>

definition find_pointer :: "string \<Rightarrow> string \<Rightarrow> string \<Rightarrow> sql_MessageSubscriptionPointer zop" where
  "find_pointer self name ck =
     bind (on_node self (gets (\<lambda>n. (home_partition n ck, GetPartition n (home_partition n ck))))) (\<lambda>(p, x).
       case x of
         None \<Rightarrow> zfail (TechnicalError (Errorf ''partition not found for correlation key''))
       | Some _ \<Rightarrow>
           ztry (\<lambda>e. if errors_Is e ErrNotFound then NotFound (Errorf ''no active message subscription found'')
                     else TechnicalError (Wrapf ''failed to find message subscription'' e))
             (on_node self (on_database p (DB_FindActiveMessageSubscriptionPointer name ck))))"

definition node_PublishMessage ::
  "engine_deps \<Rightarrow> network \<Rightarrow> string \<Rightarrow> string \<Rightarrow> string \<Rightarrow> vars \<Rightarrow> unit zop" where
  "node_PublishMessage D N self name ck vs =
     zbind (find_pointer self name ck) (\<lambda>msPointer.
       to_leader N self (partition_of_key (smp_MessageSubscriptionKey msPointer)) ''failed to get partition leader''
         (\<lambda>e. ClusterError (Wrapf ''client call to publish message failed'' e))
         (\<lambda>_. Errorf ''client call to publish message failed'')
         (server_PublishMessage D (smp_MessageSubscriptionKey msPointer) (json_Marshal vs)))"

section \<open>Operations on the least stressed leader\<close>

definition to_least_stressed ::
  "network \<Rightarrow> string \<Rightarrow> string \<Rightarrow> (error \<Rightarrow> ZenError) \<Rightarrow> (error \<Rightarrow> ZenError) \<Rightarrow> string \<Rightarrow> 'a handler \<Rightarrow> 'a zop" where
  "to_least_stressed N self msg ce re call h =
     bind (my_state self) (\<lambda>cs.
     zbind (zsum (\<lambda>e. ClusterError (Wrapf msg e)) (of_cluster (GetLeastStressedPartitionLeader cs))) (\<lambda>candidate.
       to_address N self (nd_Addr candidate) ce re (\<lambda>_. Errorf call) h))"

definition start_of :: "int option \<Rightarrow> string option \<Rightarrow> start_by option" where
  "start_of processDefinitionKey bpmnProcessId =
     (case processDefinitionKey of
        Some k \<Rightarrow> Some (DefinitionKey k)
      | None \<Rightarrow> map_option LatestProcessId bpmnProcessId)"

text \<open>\<^verbatim>\<open>CreateInstance\<close>: the client is fetched before it is seen that nothing says what to start.\<close>

definition node_CreateInstance ::
  "engine_deps \<Rightarrow> network \<Rightarrow> string \<Rightarrow> int option \<Rightarrow> string option \<Rightarrow> string option \<Rightarrow> vars \<Rightarrow> int option \<Rightarrow>
     proto_ProcessInstance zop" where
  "node_CreateInstance D N self processDefinitionKey bpmnProcessId businessKey vs timeToLive =
     bind (my_state self) (\<lambda>cs.
     zbind (zsum (\<lambda>e. ClusterError (Wrapf ''failed to get node to create process instance'' e))
       (of_cluster (GetLeastStressedPartitionLeader cs))) (\<lambda>candidate.
     zbind (ztry (\<lambda>e. TechnicalError (Wrapf ''failed to get client to create process instance'' e))
       (on_node self (node_For N (nd_Addr candidate)))) (\<lambda>c.
     bind (on_node self (gets zn_InstanceHistoryTTL)) (\<lambda>configured.
       case start_of processDefinitionKey bpmnProcessId of
         None \<Rightarrow> zfail (TechnicalError (Errorf
           ''failed to create process instance: processDefinitionKey and bpmnProcessId are both null''))
       | Some st \<Rightarrow>
           zbind (ztry (\<lambda>e. TechnicalError (Wrapf ''failed to create process instance'' e))
             (rpc N c (server_CreateInstance D
               \<lparr>cq_StartBy = st, cq_Variables = json_Marshal vs,
                cq_HistoryTTL = (case timeToLive of
                  Some t \<Rightarrow> Some t | None \<Rightarrow> if configured \<noteq> 0 then Some configured else None),
                cq_BusinessKey = businessKey\<rparr>)))
             (payload (\<lambda>_. Errorf ''failed to create process instance''))))))"

definition node_StartProcessInstanceOnElements ::
  "engine_deps \<Rightarrow> network \<Rightarrow> string \<Rightarrow> int \<Rightarrow> string list \<Rightarrow> vars \<Rightarrow> proto_ProcessInstance zop" where
  "node_StartProcessInstanceOnElements D N self k ids vs =
     to_least_stressed N self ''failed to get node to start process instance on elements''
       (\<lambda>e. TechnicalError (Wrapf ''failed to get client to start process instance on elements'' e))
       (\<lambda>e. TechnicalError (Wrapf ''failed to start process instance on elements'' e))
       ''failed to start process instance on elements''
       (server_StartProcessInstanceOnElements D k ids (json_Marshal vs))"

definition node_EvaluateDecision ::
  "engine_deps \<Rightarrow> network \<Rightarrow> string \<Rightarrow> string \<Rightarrow> string \<Rightarrow> string \<Rightarrow> vars \<Rightarrow> EvaluatedDRDResult zop" where
  "node_EvaluateDecision D N self bindingType decisionId versionTag vs =
     to_least_stressed N self ''failed to get node to evaluate decision''
       (\<lambda>e. ClusterError (Wrapf ''failed to get client to evaluate decision'' e))
       (\<lambda>e. ClusterError (Wrapf ''failed to evaluate decision'' e)) ''failed to evaluate decision''
       (server_EvaluateDecision D bindingType decisionId versionTag (json_Marshal vs))"

section \<open>Groups of calls\<close>

text \<open>\<^verbatim>\<open>group.Go\<close> for every item and \<^verbatim>\<open>group.Wait\<close>, the calls happening in the order of the list.\<close>

fun run_group :: "'i list \<Rightarrow> ('i \<Rightarrow> 'a zop) \<Rightarrow> ('i \<times> 'a) list zop" where
  "run_group [] f = zret []"
| "run_group (i # is) f = zbind (f i) (\<lambda>x. zbind (run_group is f) (\<lambda>rs. zret ((i, x) # rs)))"

definition concat_results :: "'i list \<Rightarrow> ('i \<times> 'a list) list \<Rightarrow> 'a list" where
  "concat_results ids rs = concat (map (\<lambda>i. case map_of rs i of None \<Rightarrow> [] | Some x \<Rightarrow> x) ids)"

definition sortedPartitionIds :: "Cluster \<Rightarrow> partition_id list" where
  "sortedPartitionIds cs = sort (map fst (Partitions cs))"

type_synonym schedule = "partition_id list \<Rightarrow> partition_id list"

definition ask_partitions :: "schedule \<Rightarrow> string \<Rightarrow> (Cluster \<Rightarrow> partition_id \<Rightarrow> 'a list zop) \<Rightarrow> 'a list zop" where
  "ask_partitions \<sigma> self f =
     bind (my_state self) (\<lambda>cs.
       zbind (run_group (\<sigma> (sortedPartitionIds cs)) (f cs)) (\<lambda>rs. zret (concat_results (sortedPartitionIds cs) rs)))"

subsection \<open>Deployment\<close>

text \<open>Both deployments return the key with the error.\<close>

definition node_getDmnResourceDefinitionKeyByBytes :: "engine_deps \<Rightarrow> string \<Rightarrow> (ZenNode, int) eng" where
  "node_getDmnResourceDefinitionKeyByBytes D data n =
     (case GetReadOnlyDB n of
        Inl e \<Rightarrow> (Err (Wrapf ''failed to get database for dmn resource definition key lookup'' e), n)
      | Inr copy \<Rightarrow>
          (case q_GetDmnResourceDefinitionKeyByChecksum (dp_md5 D data) (db_Store copy) of
             Inr key \<Rightarrow> (Ok key, n)
           | Inl e \<Rightarrow> if errors_Is e sql_ErrNoRows then (Ok 0, n)
                      else (Err (Wrapf ''failed to find dmn resource definition by checksum'' e), n)))"

definition node_GetDefinitionKeyByBytes :: "engine_deps \<Rightarrow> string \<Rightarrow> (ZenNode, int) eng" where
  "node_GetDefinitionKeyByBytes D data n =
     (case GetReadOnlyDB n of
        Inl e \<Rightarrow> (Err (Wrapf ''failed to get database for definition key lookup'' e), n)
      | Inr copy \<Rightarrow>
          (case q_GetDefinitionKeyByChecksum (dp_md5 D data) (db_Store copy) of
             Inr key \<Rightarrow> (Ok key, n)
           | Inl e \<Rightarrow> if error_text e = ''No result row'' then (Ok 0, n)
                      else (Err (Wrapf ''failed to find process definition by checksum'' e), n)))"

definition generate_key :: "network \<Rightarrow> (ZenNode, int) eng" where
  "generate_key N n = (Ok (nw_generate N (zn_idGen n)), n\<lparr>zn_idGen := Suc (zn_idGen n)\<rparr>)"

text \<open>\<^verbatim>\<open>clusterState.Nodes[partitionLeaderId]\<close> is the zero node when the leader is not a node of the state.\<close>

definition leader_address :: "Cluster \<Rightarrow> partition_id \<Rightarrow> string" where
  "leader_address cs p =
     (case map_of (Partitions cs) p of
        None \<Rightarrow> []
      | Some pa \<Rightarrow> (case map_of (Nodes cs) (pa_LeaderId pa) of None \<Rightarrow> [] | Some n \<Rightarrow> nd_Addr n))"

definition deploy_error :: "string \<Rightarrow> ErrorResult \<Rightarrow> error" where
  "deploy_error msg r = Wrapf msg (Errorf (case er_Message r of None \<Rightarrow> [] | Some m \<Rightarrow> m))"

definition deployDmnResourceDefinitionToPartition ::
  "engine_deps \<Rightarrow> network \<Rightarrow> string \<Rightarrow> int \<Rightarrow> string \<Rightarrow> Cluster \<Rightarrow> partition_id \<Rightarrow> unit zop" where
  "deployDmnResourceDefinitionToPartition D N self k data cs p =
     to_address N self (leader_address cs p) (\<lambda>e. TechnicalError (Wrapf ''failed to get client'' e))
       (\<lambda>e. TechnicalError (Wrapf ''client call to deploy dmn resource definition failed'' e))
       (deploy_error ''client call to deploy dmn resource definition failed'')
       (server_DeployDmnResourceDefinition D k data)"

definition deployProcessDefinitionToPartition ::
  "engine_deps \<Rightarrow> network \<Rightarrow> string \<Rightarrow> int \<Rightarrow> string \<Rightarrow> Cluster \<Rightarrow> partition_id \<Rightarrow> unit zop" where
  "deployProcessDefinitionToPartition D N self k data cs p =
     to_address N self (leader_address cs p) (\<lambda>e. TechnicalError (Wrapf ''failed to get client'' e))
       (\<lambda>e. TechnicalError (Wrapf ''client call to deploy process definition failed'' e))
       (deploy_error ''client call to deploy process definition failed'')
       (server_DeployProcessDefinition D k data)"

definition deploy_to_all ::
  "schedule \<Rightarrow> network \<Rightarrow> string \<Rightarrow> string \<Rightarrow> (ZenNode, int) eng \<Rightarrow> (Cluster \<Rightarrow> partition_id list) \<Rightarrow>
     (int \<Rightarrow> Cluster \<Rightarrow> partition_id \<Rightarrow> unit zop) \<Rightarrow> (world, int \<times> ZenError option) eng" where
  "deploy_to_all \<sigma> N self what lookup_key ids deploy =
     bind (attempt (on_node self lookup_key)) (\<lambda>r.
       case r of
         Inl e \<Rightarrow> ret (0, Some (TechnicalError (Wrapf (''failed to get '' @ what @ '' key by bytes'') e)))
       | Inr key \<Rightarrow>
           if key \<noteq> 0 then ret (key, Some (Conflict (Errorf (''duplicate '' @ what @ '' exists''))))
           else bind (on_node self (generate_key N)) (\<lambda>definitionKey.
                bind (my_state self) (\<lambda>cs.
                bind (run_group (\<sigma> (ids cs)) (deploy definitionKey cs)) (\<lambda>w.
                  ret (definitionKey, case w of Inl z \<Rightarrow> Some z | Inr _ \<Rightarrow> None)))))"

definition node_DeployDmnResourceDefinitionToAllPartitions ::
  "schedule \<Rightarrow> engine_deps \<Rightarrow> network \<Rightarrow> string \<Rightarrow> string \<Rightarrow> (world, int \<times> ZenError option) eng" where
  "node_DeployDmnResourceDefinitionToAllPartitions \<sigma> D N self data =
     deploy_to_all \<sigma> N self ''dmn resource definition'' (node_getDmnResourceDefinitionKeyByBytes D data)
       (\<lambda>cs. map fst (Partitions cs)) (\<lambda>k. deployDmnResourceDefinitionToPartition D N self k data)"

definition node_DeployProcessDefinitionToAllPartitions ::
  "schedule \<Rightarrow> engine_deps \<Rightarrow> network \<Rightarrow> string \<Rightarrow> string \<Rightarrow> (world, int \<times> ZenError option) eng" where
  "node_DeployProcessDefinitionToAllPartitions \<sigma> D N self data =
     deploy_to_all \<sigma> N self ''process definition'' (node_GetDefinitionKeyByBytes D data)
       sortedPartitionIds (\<lambda>k. deployProcessDefinitionToPartition D N self k data)"

subsection \<open>Reads from all partitions\<close>

definition technical :: "string \<Rightarrow> error \<Rightarrow> ZenError" where
  "technical msg e = TechnicalError (Wrapf msg e)"

definition getJobsForPartition ::
  "network \<Rightarrow> string \<Rightarrow> int \<Rightarrow> int \<Rightarrow> string option \<Rightarrow> ActivityState option \<Rightarrow> string option \<Rightarrow> int option \<Rightarrow> string option \<Rightarrow>
     Cluster \<Rightarrow> partition_id \<Rightarrow> proto_Job partitioned list zop" where
  "getJobsForPartition N self pg sz jobType st assignee pk srt cs p =
     to_follower N self cs p ''failed to get follower node for partition'' (technical ''failed to get client to get jobs'')
       ''failed to get jobs from partition''
       (server_GetJobs [p] pg sz jobType (map_option ActivityState_int st) assignee pk
         (Some (case srt of None \<Rightarrow> [] | Some s \<Rightarrow> s)))"

definition node_GetJobs ::
  "schedule \<Rightarrow> network \<Rightarrow> string \<Rightarrow> int \<Rightarrow> int \<Rightarrow> string option \<Rightarrow> ActivityState option \<Rightarrow> string option \<Rightarrow> int option \<Rightarrow>
     string option \<Rightarrow> proto_Job partitioned list zop" where
  "node_GetJobs \<sigma> N self pg sz jobType st assignee pk srt =
     ask_partitions \<sigma> self (getJobsForPartition N self pg sz jobType st assignee pk srt)"

definition getProcessInstancesForPartition ::
  "network \<Rightarrow> string \<Rightarrow> instance_request \<Rightarrow> Cluster \<Rightarrow> partition_id \<Rightarrow> proto_ProcessInstance partitioned list zop" where
  "getProcessInstancesForPartition N self r cs p =
     to_follower N self cs p ''failed to get follower node for partition'' (technical ''failed to get client for partition'')
       ''failed to get process instances from partition'' (server_GetProcessInstances [p] r)"

definition node_GetProcessInstances ::
  "schedule \<Rightarrow> network \<Rightarrow> string \<Rightarrow> instance_request \<Rightarrow> proto_ProcessInstance partitioned list zop" where
  "node_GetProcessInstances \<sigma> N self r = ask_partitions \<sigma> self (getProcessInstancesForPartition N self r)"

definition getDecisionInstancesForPartition ::
  "network \<Rightarrow> string \<Rightarrow> decision_request \<Rightarrow> Cluster \<Rightarrow> partition_id \<Rightarrow> proto_DecisionInstance partitioned list zop" where
  "getDecisionInstancesForPartition N self r cs p =
     to_follower N self cs p ''failed to get follower node to get decision instances''
       (technical ''failed to get client to get decision instances'')
       ''failed to get decision instances from partition'' (server_GetDecisionInstances [p] r)"

definition node_GetDecisionInstances ::
  "schedule \<Rightarrow> network \<Rightarrow> string \<Rightarrow> decision_request \<Rightarrow> proto_DecisionInstance partitioned list zop" where
  "node_GetDecisionInstances \<sigma> N self r = ask_partitions \<sigma> self (getDecisionInstancesForPartition N self r)"

definition getProcessDefinitionElementStatisticsForPartition ::
  "network \<Rightarrow> string \<Rightarrow> int \<Rightarrow> Cluster \<Rightarrow> partition_id \<Rightarrow> element_statistics partitioned list zop" where
  "getProcessDefinitionElementStatisticsForPartition N self k cs p =
     to_follower N self cs p ''failed to read follower node to get element statistics from partition''
       (technical ''failed to get client to get element statistics from partition'')
       ''failed to get element statistics from partition'' (server_GetProcessDefinitionElementStatistics [p] k)"

definition node_GetProcessDefinitionElementStatistics ::
  "schedule \<Rightarrow> network \<Rightarrow> string \<Rightarrow> int \<Rightarrow> element_statistics partitioned list zop" where
  "node_GetProcessDefinitionElementStatistics \<sigma> N self k =
     ask_partitions \<sigma> self (getProcessDefinitionElementStatisticsForPartition N self k)"

definition getProcessInstanceElementStatisticsForPartition ::
  "network \<Rightarrow> string \<Rightarrow> int \<Rightarrow> Cluster \<Rightarrow> partition_id \<Rightarrow> element_statistics partitioned list zop" where
  "getProcessInstanceElementStatisticsForPartition N self k cs p =
     to_follower N self cs p ''failed to read follower node to get element statistics from partition''
       (technical ''failed to get client to get element statistics from partition'')
       ''failed to get element statistics from partition'' (server_GetProcessInstanceElementStatistics [p] k)"

definition node_GetProcessInstanceElementStatistics ::
  "schedule \<Rightarrow> network \<Rightarrow> string \<Rightarrow> int \<Rightarrow> element_statistics partitioned list zop" where
  "node_GetProcessInstanceElementStatistics \<sigma> N self k =
     ask_partitions \<sigma> self (getProcessInstanceElementStatisticsForPartition N self k)"

definition getProcessDefinitionStatisticsForPartition ::
  "network \<Rightarrow> string \<Rightarrow> statistics_request \<Rightarrow> Cluster \<Rightarrow> partition_id \<Rightarrow> definition_statistics partitioned list zop" where
  "getProcessDefinitionStatisticsForPartition N self r cs p =
     to_follower N self cs p ''failed to read follower node to get process definition statistics''
       (technical ''failed to get client to get process definition statistics'')
       ''failed to get definition statistics from partition'' (server_GetProcessDefinitionStatistics [p] r)"

definition node_GetProcessDefinitionStatistics ::
  "schedule \<Rightarrow> network \<Rightarrow> string \<Rightarrow> statistics_request \<Rightarrow> definition_statistics partitioned list zop" where
  "node_GetProcessDefinitionStatistics \<sigma> N self r =
     ask_partitions \<sigma> self (getProcessDefinitionStatisticsForPartition N self r)"

section \<open>Reads of one partition\<close>

definition read_by_key :: "network \<Rightarrow> string \<Rightarrow> int \<Rightarrow> string \<Rightarrow> (error \<Rightarrow> ZenError) \<Rightarrow> string \<Rightarrow> 'a handler \<Rightarrow> 'a zop" where
  "read_by_key N self k msg ce call h =
     bind (my_state self) (\<lambda>cs. to_follower N self cs (partition_of_key k) msg ce call h)"

definition node_GetJob :: "network \<Rightarrow> string \<Rightarrow> int \<Rightarrow> proto_Job zop" where
  "node_GetJob N self k =
     read_by_key N self k ''failed to get follower node to get job'' (technical ''failed to get client to get job'')
       ''failed to get job from partition'' (server_GetJob k)"

definition node_GetProcessInstance ::
  "network \<Rightarrow> string \<Rightarrow> int \<Rightarrow> (proto_ProcessInstance \<times> proto_ExecutionToken list) zop" where
  "node_GetProcessInstance N self k =
     read_by_key N self k ''failed to get follower node to get process instance''
       (technical ''failed to get client to get process instance'')
       ''failed to get process instance from partition'' (server_GetProcessInstance k)"

definition node_GetDecisionInstance :: "network \<Rightarrow> string \<Rightarrow> int \<Rightarrow> proto_DecisionInstance zop" where
  "node_GetDecisionInstance N self k =
     read_by_key N self k ''failed to get follower node to get decision instance''
       (\<lambda>e. ClusterError (Wrapf ''failed to get client to get decision instance'' e))
       ''failed to get decision instance from partition'' (server_GetDecisionInstance k)"

definition node_GetProcessInstanceJobs :: "network \<Rightarrow> string \<Rightarrow> int \<Rightarrow> int \<Rightarrow> int \<Rightarrow> (proto_Job list \<times> int) zop" where
  "node_GetProcessInstanceJobs N self pg sz k =
     read_by_key N self k ''failed to get follower node to get process instance jobs''
       (technical ''failed to get client to get process instance jobs'')
       ''failed to get process instance jobs from partition'' (server_GetProcessInstanceJobs k pg sz)"

definition node_GetFlowElementHistory :: "network \<Rightarrow> string \<Rightarrow> int \<Rightarrow> int \<Rightarrow> int \<Rightarrow> (proto_FlowElement list \<times> int) zop" where
  "node_GetFlowElementHistory N self pg sz k =
     read_by_key N self k ''failed to get follower node to get flow element history''
       (technical ''failed to get client to get flow element history'')
       ''failed to get process instance flow element history from partition'' (server_GetFlowElementHistory k pg sz)"

definition node_GetIncidents ::
  "network \<Rightarrow> string \<Rightarrow> int \<Rightarrow> int \<Rightarrow> int \<Rightarrow> string option \<Rightarrow> (proto_Incident list \<times> int) zop" where
  "node_GetIncidents N self pg sz k st =
     read_by_key N self k ''failed to get follower node to get incidents'' (technical ''failed to get client to get incidents'')
       ''failed to get incidents from partition'' (server_GetIncidents k st pg sz)"

text \<open>\<^verbatim>\<open>GetChildProcessInstances\<close> returns the failure of the call and an error result without a code.\<close>

definition node_GetChildProcessInstances ::
  "network \<Rightarrow> string \<Rightarrow> int option \<Rightarrow> string option \<Rightarrow> int option \<Rightarrow> int \<Rightarrow> int \<Rightarrow>
     proto_ProcessInstance partitioned list zop" where
  "node_GetChildProcessInstances N self parent srt st pg sz =
     bind (my_state self) (\<lambda>cs.
       case parent of
         None \<Rightarrow> zfail (ClusterError (Errorf ''parentInstanceKey is null''))
       | Some k \<Rightarrow>
           zbind (zsum (\<lambda>e. ClusterError (Wrapf ''failed to get follower node to get child process instances'' e))
             (of_cluster (GetPartitionFollower cs (partition_of_key k)))) (\<lambda>follower.
           zbind (ztry (technical ''failed to get client to get child process instances'')
             (on_node self (node_For N (nd_Addr follower)))) (\<lambda>c.
           bind (wrap (\<lambda>e. Joined (Errorf ''failed to get child process instances from partition'') e)
             (rpc N c (server_GetChildProcessInstances k srt st pg sz))) (\<lambda>r.
             case r of
               RespError e \<Rightarrow> throw (Joined (Errorf ''failed to get child process instances from partition'')
                 (Errorf (case er_Message e of None \<Rightarrow> [] | Some m \<Rightarrow> m)))
             | Resp (instances, totalCount) \<Rightarrow>
                 zret [\<lparr>pp_PartitionId = partition_of_key k, pp_Items = instances, pp_TotalCount = totalCount\<rparr>]))))"

section \<open>Definitions\<close>

record proto_ProcessDefinition =
  ppd_Key :: int
  ppd_Version :: int
  ppd_ProcessId :: string
  ppd_ProcessName :: "string option"
  ppd_Definition :: "string option"

record proto_DmnResourceDefinition =
  pdr_Key :: int
  pdr_Version :: int
  pdr_DmnResourceDefinitionId :: string
  pdr_Definition :: string
  pdr_DmnDefinitionName :: string

text \<open>These reads use any copy the node has. The offset of a page is a product of 32-bit integers.\<close>

definition from_copy :: "string \<Rightarrow> string \<Rightarrow> (Database \<Rightarrow> 'a zop) \<Rightarrow> 'a zop" where
  "from_copy self msg f =
     bind (on_node self (gets GetReadOnlyDB)) (\<lambda>r. zbind (zsum (technical msg) r) (\<lambda>copy. f (db_Store copy)))"

definition offset32 :: "int \<Rightarrow> int \<Rightarrow> int" where
  "offset32 pg sz = int32 (int32 (pg - 1) * sz)"

definition only_latest :: "bool option \<Rightarrow> int" where
  "only_latest b = (if b = Some True then 1 else 0)"

definition dmn_definition_of :: "sql_DmnResourceDefinition \<Rightarrow> proto_DmnResourceDefinition" where
  "dmn_definition_of r =
     \<lparr>pdr_Key = sdr_Key r, pdr_Version = int32 (sdr_Version r), pdr_DmnResourceDefinitionId = sdr_DmnResourceDefinitionID r,
      pdr_Definition = sdr_DmnData r, pdr_DmnDefinitionName = sdr_DmnDefinitionName r\<rparr>"

definition node_GetDmnResourceDefinitions ::
  "string \<Rightarrow> int \<Rightarrow> int \<Rightarrow> bool option \<Rightarrow> string option \<Rightarrow> string option \<Rightarrow> string option \<Rightarrow>
     (proto_DmnResourceDefinition list \<times> int) zop" where
  "node_GetDmnResourceDefinitions self pg sz latest srt i name =
     from_copy self ''failed to get node DB'' (\<lambda>d. zret (page_of dmn_definition_of
       (q_FindAllDmnResourceDefinitions srt (only_latest latest) i name (offset32 pg sz) sz d)))"

definition node_GetDmnResourceDefinition :: "string \<Rightarrow> int \<Rightarrow> proto_DmnResourceDefinition zop" where
  "node_GetDmnResourceDefinition self k =
     from_copy self ''failed to get node DB'' (\<lambda>d.
       zbind (zsum (\<lambda>e. if errors_Is e sql_ErrNoRows then NotFound (Errorf ''dmn resource definition by key not found'')
                        else technical ''failed to read dmn resource definition by key from database'' e)
         (q_FindDmnResourceDefinitionByKey k d)) (\<lambda>r. zret (dmn_definition_of r)))"

definition node_GetProcessDefinitions ::
  "string \<Rightarrow> string option \<Rightarrow> bool option \<Rightarrow> string option \<Rightarrow> int \<Rightarrow> int \<Rightarrow> (proto_ProcessDefinition list \<times> int) zop" where
  "node_GetProcessDefinitions self i latest srt pg sz =
     from_copy self ''failed to get partition store'' (\<lambda>d. zret (page_of
       (\<lambda>r. \<lparr>ppd_Key = spd_Key r, ppd_Version = int32 (spd_Version r), ppd_ProcessId = spd_BpmnProcessID r,
             ppd_ProcessName = Some (spd_BpmnProcessName r), ppd_Definition = None\<rparr>)
       (q_FindProcessDefinitions srt i (only_latest latest) (offset32 pg sz) sz d)))"

definition process_definition_proto :: "sql_ProcessDefinition \<Rightarrow> proto_ProcessDefinition" where
  "process_definition_proto r =
     \<lparr>ppd_Key = spd_Key r, ppd_Version = int32 (spd_Version r), ppd_ProcessId = spd_BpmnProcessID r,
      ppd_ProcessName = None, ppd_Definition = Some (spd_BpmnData r)\<rparr>"

definition one_definition :: "string \<Rightarrow> string \<Rightarrow> (Database \<Rightarrow> error + sql_ProcessDefinition) \<Rightarrow> proto_ProcessDefinition zop" where
  "one_definition self msg q =
     from_copy self ''failed to get node db to get process definition'' (\<lambda>d.
       zbind (zsum (\<lambda>e. if errors_Is e sql_ErrNoRows then NotFound (Errorf msg)
                        else technical ''failed to read process definition from database'' e) (q d))
         (\<lambda>r. zret (process_definition_proto r)))"

definition node_GetLatestProcessDefinition :: "string \<Rightarrow> string \<Rightarrow> proto_ProcessDefinition zop" where
  "node_GetLatestProcessDefinition self i =
     one_definition self ''process definition with id not found'' (q_FindLatestProcessDefinitionById i)"

definition node_GetProcessDefinition :: "string \<Rightarrow> int \<Rightarrow> proto_ProcessDefinition zop" where
  "node_GetProcessDefinition self k =
     one_definition self ''process definition with key not found'' (q_FindProcessDefinitionByKey k)"

section \<open>Jobs to distribute\<close>

text \<open>\<^verbatim>\<open>LoadJobsToDistribute\<close> asks every database the node leads for \<^verbatim>\<open>count\<close> jobs; an empty list of keys to skip
  becomes the list of 0.\<close>

definition LoadJobsToDistribute :: "string list \<Rightarrow> int list \<Rightarrow> int \<Rightarrow> (ZenNode, Sql_Queries.sql_Job list) eng" where
  "LoadJobsToDistribute types idsToSkip limit n =
     (if AllPartitionLeaderDBs n = [] then (Err (Errorf ''no partitions where node is a leader were found''), n)
      else (Ok (concat (map (\<lambda>copy. q_GetWaitingJobs (if idsToSkip = [] then [0] else idsToSkip) types limit (db_Store copy))
        (AllPartitionLeaderDBs n))), n))"

definition GetPartitionStore :: "partition_id \<Rightarrow> (ZenNode, DB) eng" where
  "GetPartitionStore p n =
     (case GetPartition n p of
        None \<Rightarrow> (Err (Errorf ''partition storage not available in zen node''), n)
      | Some x \<Rightarrow> (Ok (zp_DB x), n))"

end
