(* ===== verification/Zen_Routing.thy ===== *)
theory Zen_Routing
  imports Zen_Node
begin

text \<open>
  Where the calls of a node go. \<open>to_leader_delivers\<close> says what a call to the leader of a partition does; the
  frame lemmas (\<open>keeps_but\<close>) say which partitions of a node a handler may change.
\<close>

section \<open>Connections\<close>

definition conns_ok :: "network \<Rightarrow> ClientManager \<Rightarrow> bool" where
  "conns_ok N m \<longleftrightarrow> (\<forall>a c. nw_dial N a = Inr c \<longrightarrow> nw_peer N c = a) \<and>
     (\<forall>a c. map_of (activeClients m) a = Some c \<longrightarrow> nw_peer N c = a)"

definition world_conns :: "network \<Rightarrow> world \<Rightarrow> bool" where
  "world_conns N w \<longleftrightarrow> (\<forall>a n. map_of w a = Some n \<longrightarrow> conns_ok N (zn_client n))"

lemma client_For_conn:
  assumes "conns_ok N m" and "client_For (nw_dial N) a m = (Inr c, m')"
  shows "nw_peer N c = a" and "conns_ok N m'"
  using assms by (auto simp: conns_ok_def client_For_def newClient_def AList.update_conv'
      split: option.splits sum.splits if_splits)

lemma client_For_fails:
  assumes "conns_ok N m" and "client_For (nw_dial N) a m = (Inl e, m')"
  shows "m' = m"
  using assms by (auto simp: client_For_def newClient_def split: option.splits sum.splits)

lemma client_For_dialled: "nw_dial N a = Inr c \<Longrightarrow> \<exists>c'. fst (client_For (nw_dial N) a m) = Inr c'"
  by (cases "map_of (activeClients m) a") (simp_all add: client_For_def newClient_def)

lemma client_PartitionLeader_For:
  "client_PartitionLeader dial f p m =
     (if fst (f p) = [] then (Inl (Errorf ''failed to get leader address for cluster client: no leader available''), m)
      else client_For dial (fst (f p)) m)"
  by (auto simp: client_PartitionLeader_def client_PartitionLeaderWithID_def client_For_def newClient_def
      split: prod.splits option.splits sum.splits)

section \<open>The nodes that are up\<close>

lemma on_node_at: "map_of w a = Some n \<Longrightarrow> on_node a m w = (fst (m n), AList.update a (snd (m n)) w)"
  by (simp add: on_node_def split: prod.splits)

lemma on_node_down: "map_of w a = None \<Longrightarrow> on_node a m w = (Err (status_Error ''Unavailable'' ''connection error''), w)"
  by (simp add: on_node_def)

lemmas map_of_node_update = AList.update_conv'

section \<open>What a call does\<close>

text \<open>The outcome of a handler as the caller of the operation sees it.\<close>

primrec call_outcome :: "(error \<Rightarrow> ZenError) \<Rightarrow> (ErrorResult \<Rightarrow> error) \<Rightarrow> 'a response res \<Rightarrow> (ZenError + 'a) res" where
  "call_outcome re z (Ok r) = Ok (case r of RespError e \<Rightarrow> Inl (ToZenError e (z e)) | Resp x \<Rightarrow> Inr x)"
| "call_outcome re z (Err e) = Ok (Inl (re (status_Error (status_Code e) (error_text e))))"
| "call_outcome re z (Panic m) = Panic m"
| "call_outcome re z Blocked = Blocked"
| "call_outcome re z NoFuel = NoFuel"

lemma call_on_delivers:
  assumes "client w = (Ok c, w1)" and "map_of w1 (nw_peer N c) = Some l"
  shows "call_on N client ce re z h w = (call_outcome re z (fst (h l)), AList.update (nw_peer N c) (snd (h l)) w1)"
  using assms
  by (cases "fst (h l)")
     (simp_all add: call_on_def zbind_def ztry_def rpc_def wrap_def bind_def attempt_def on_node_at ret_def zret_def zfail_def
      payload_def split: response.splits)

lemma call_on_no_client:
  assumes "client w = (Err e, w1)"
  shows "call_on N client ce re z h w = (Ok (Inl (ce e)), w1)"
  using assms by (simp add: call_on_def zbind_def ztry_def bind_def attempt_def ret_def zfail_def)

lemma call_on_peer_down:
  assumes "client w = (Ok c, w1)" and "map_of w1 (nw_peer N c) = None"
  shows "call_on N client ce re z h w = (Ok (Inl (re (status_Error ''Unavailable'' (error_text (status_Error ''Unavailable'' ''connection error''))))), w1)"
  using assms
  by (simp add: call_on_def zbind_def ztry_def rpc_def wrap_def bind_def attempt_def on_node_down ret_def zret_def zfail_def
      status_Error_def)

text \<open>The address an operation on partition \<open>p\<close> goes to, as node \<open>n\<close> sees the cluster.\<close>

definition leader_seen :: "ZenNode \<Rightarrow> partition_id \<Rightarrow> string" where
  "leader_seen n p = fst (PartitionLeaderWithID (zn_StoreOpen n) (zn_ClusterState n) p)"

lemma node_PartitionLeader_For:
  "node_PartitionLeader N p n =
     (if leader_seen n p = [] then (Err (Errorf ''failed to get leader address for cluster client: no leader available''), n)
      else node_For N (leader_seen n p) n)"
  by (simp add: node_PartitionLeader_def node_For_def client_PartitionLeader_For leader_seen_def)

definition with_client :: "network \<Rightarrow> string \<Rightarrow> ZenNode \<Rightarrow> ZenNode" where
  "with_client N a n = n\<lparr>zn_client := snd (client_For (nw_dial N) a (zn_client n))\<rparr>"

lemma with_client_keeps [simp]:
  "zn_partitions (with_client N a n) = zn_partitions n" "zn_ClusterState (with_client N a n) = zn_ClusterState n"
  "zn_StoreOpen (with_client N a n) = zn_StoreOpen n" "zn_jobManager (with_client N a n) = zn_jobManager n"
  by (simp_all add: with_client_def)

lemma with_client_GetPartition [simp]: "GetPartition (with_client N a n) = GetPartition n"
  by (simp add: fun_eq_iff GetPartition_def)

lemma node_For_eval:
  "node_For N a n = ((case fst (client_For (nw_dial N) a (zn_client n)) of Inl e \<Rightarrow> Err e | Inr c \<Rightarrow> Ok c), with_client N a n)"
  by (simp add: node_For_def with_client_def split: prod.splits sum.splits)

text \<open>A call from \<open>self\<close> to the address \<open>a\<close>. Unless the client cannot be had or the peer is down, the handler runs once,
  on the node at \<open>a\<close>; nothing else changes but the connections of \<open>self\<close>.\<close>

definition caller_connected :: "network \<Rightarrow> string \<Rightarrow> string \<Rightarrow> ZenNode \<Rightarrow> world \<Rightarrow> world" where
  "caller_connected N self a n w = AList.update self (with_client N a n) w"

lemma call_address:
  assumes "map_of w self = Some n" and "conns_ok N (zn_client n)"
  shows "call_on N (on_node self (node_For N a)) ce re z h w =
    (case fst (client_For (nw_dial N) a (zn_client n)) of
       Inl e \<Rightarrow> (Ok (Inl (ce e)), caller_connected N self a n w)
     | Inr c \<Rightarrow>
         (case map_of (caller_connected N self a n w) a of
            None \<Rightarrow> (Ok (Inl (re (status_Error ''Unavailable'' (error_text (status_Error ''Unavailable'' ''connection error''))))),
                     caller_connected N self a n w)
          | Some l \<Rightarrow> (call_outcome re z (fst (h l)), AList.update a (snd (h l)) (caller_connected N self a n w))))"
proof (cases "client_For (nw_dial N) a (zn_client n)")
  case (Pair r m')
  have run: "on_node self (node_For N a) w = ((case r of Inl e \<Rightarrow> Err e | Inr c \<Rightarrow> Ok c), caller_connected N self a n w)"
    using assms(1) Pair by (simp add: on_node_at node_For_eval caller_connected_def)
  show ?thesis
  proof (cases r)
    case (Inl e)
    with run have "on_node self (node_For N a) w = (Err e, caller_connected N self a n w)" by simp
    then show ?thesis using Pair Inl by (simp add: call_on_no_client)
  next
    case (Inr c)
    with run have r: "on_node self (node_For N a) w = (Ok c, caller_connected N self a n w)" by simp
    from assms(2) Pair Inr have p: "nw_peer N c = a" by (auto dest: client_For_conn)
    show ?thesis
    proof (cases "map_of (caller_connected N self a n w) a")
      case None
      then show ?thesis using Pair Inr by (simp add: call_on_peer_down [where client = "on_node self (node_For N a)", OF r] p)
    next
      case (Some l)
      then show ?thesis using Pair Inr by (simp add: call_on_delivers [where client = "on_node self (node_For N a)", OF r] p)
    qed
  qed
qed

lemma to_leader_eval:
  assumes "map_of w self = Some n"
  shows "to_leader N self p msg re z h w =
    (if leader_seen n p = []
     then (Ok (Inl (ClusterError (Wrapf msg (Errorf ''failed to get leader address for cluster client: no leader available'')))),
           AList.update self n w)
     else call_on N (on_node self (node_For N (leader_seen n p))) (\<lambda>e. ClusterError (Wrapf msg e)) re z h w)"
proof (cases "leader_seen n p = []")
  case True
  then have "on_node self (node_PartitionLeader N p) w =
      (Err (Errorf ''failed to get leader address for cluster client: no leader available''), AList.update self n w)"
    using assms by (simp add: on_node_at node_PartitionLeader_For)
  then show ?thesis using True by (simp add: to_leader_def call_on_no_client)
next
  case False
  then have e: "on_node self (node_PartitionLeader N p) w = on_node self (node_For N (leader_seen n p)) w"
    using assms by (simp add: on_node_at node_PartitionLeader_For)
  show ?thesis using False by (simp add: to_leader_def call_on_def zbind_def ztry_def bind_def attempt_def e)
qed

section \<open>Frames\<close>

text \<open>An operation of a node that changes no partition but \<open>p\<close>, and neither adds nor removes one.\<close>

definition keeps_but :: "partition_id \<Rightarrow> (ZenNode, 'a) eng \<Rightarrow> bool" where
  "keeps_but p m \<longleftrightarrow> (\<forall>n q. q \<noteq> p \<longrightarrow> GetPartition (snd (m n)) q = GetPartition n q)"

named_theorems frame

lemma keeps_ret [frame]: "keeps_but p (ret x)"
  by (simp add: keeps_but_def ret_def)

lemma keeps_throw [frame]: "keeps_but p (throw e)"
  by (simp add: keeps_but_def throw_def)

lemma keeps_gets [frame]: "keeps_but p (gets f)"
  by (simp add: keeps_but_def gets_def)

lemma keeps_but_bind [frame]: "keeps_but p m \<Longrightarrow> (\<And>x. keeps_but p (f x)) \<Longrightarrow> keeps_but p (bind m f)"
  unfolding keeps_but_def bind_def by (auto split: prod.splits res.splits) (metis snd_conv)+

lemma keeps_but_attempt [frame]: "keeps_but p m \<Longrightarrow> keeps_but p (attempt m)"
  unfolding keeps_but_def attempt_def by (auto split: prod.splits res.splits) (metis snd_conv)+

lemma keeps_but_wrap [frame]: "keeps_but p m \<Longrightarrow> keeps_but p (wrap g m)"
  unfolding keeps_but_def wrap_def by (auto split: prod.splits res.splits) (metis snd_conv)+

lemma map_of_set_partition:
  "map_of (zn_partitions (set_partition p f n)) q = (if q = p then map_option f (map_of (zn_partitions n) q) else map_of (zn_partitions n) q)"
proof -
  have "map_of (map (\<lambda>(q, x). if q = p then (q, f x) else (q, x)) xs) q =
      (if q = p then map_option f (map_of xs q) else map_of xs q)" for xs
    by (induction xs) auto
  then show ?thesis by (simp add: set_partition_def)
qed

lemma keeps_on_engine [frame]: "keeps_but p (on_engine p m)"
  by (auto simp: keeps_but_def on_engine_def GetPartition_def map_of_set_partition split: option.splits prod.splits)

lemma keeps_on_database [frame]: "keeps_but p (on_database p m)"
  by (auto simp: keeps_but_def on_database_def GetPartition_def map_of_set_partition split: option.splits prod.splits)

lemma keeps_reply [frame]: "keeps_but p (reply x)" "keeps_but p (reply_error z)"
  by (simp_all add: reply_def reply_error_def keeps_ret)

lemma keeps_respond [frame]: "keeps_but p m \<Longrightarrow> (\<And>x. keeps_but p (f x)) \<Longrightarrow> keeps_but p (respond z m f)"
  unfolding respond_def by (intro frame) (auto intro: frame split: sum.splits)

lemma keeps_with_engine [frame]: "keeps_but p h \<Longrightarrow> keeps_but p (with_engine q h)"
  unfolding with_engine_def by (intro frame) (auto intro: frame split: option.splits)

lemma keeps_with_variables [frame]: "(\<And>vs. keeps_but p (h vs)) \<Longrightarrow> keeps_but p (with_variables msg j h)"
  unfolding with_variables_def by (auto intro: frame split: sum.splits)

lemma keeps_local_engine [frame]: "keeps_but (partition_of_key k) (local_engine k msg m)"
  unfolding local_engine_def by (intro frame) (auto intro: frame split: option.splits)

lemma keeps_job_manager [frame]: "keeps_but p (modify (\<lambda>n. n\<lparr>zn_jobManager := jm\<rparr>))"
  by (simp add: keeps_but_def modify_def GetPartition_def)

lemma keeps_through_manager [frame]: "keeps_but p m \<Longrightarrow> keeps_but p (through_manager f k m)"
  unfolding through_manager_def by (intro frame) (auto intro!: frame split: option.splits prod.splits)

lemma keeps_key_handlers [frame]:
  "keeps_but (partition_of_key k) (server_CompleteJob D k j)"
  "keeps_but (partition_of_key k) (server_AssignJobToAssignee k assignee)"
  "keeps_but (partition_of_key k) (server_ResolveIncident D k)"
  "keeps_but (partition_of_key k) (server_DeleteProcessInstanceVariable k variable)"
  "keeps_but (partition_of_key k) (server_CancelProcessInstance D k)"
  "keeps_but (partition_of_key k) (server_ModifyProcessInstance D k toTerminate toStart j)"
  "keeps_but (partition_of_key k) (server_PublishMessage D k j)"
  unfolding server_CompleteJob_def server_AssignJobToAssignee_def server_ResolveIncident_def node_JobCompleteByKey_def
    server_DeleteProcessInstanceVariable_def server_CancelProcessInstance_def server_ModifyProcessInstance_def
    server_PublishMessage_def
  by (auto intro!: frame split: prod.splits)

section \<open>Operations on a key stay in its partition\<close>

definition partition_at :: "world \<Rightarrow> string \<Rightarrow> partition_id \<Rightarrow> ZenPartitionNode option" where
  "partition_at w a p = (case map_of w a of None \<Rightarrow> None | Some n \<Rightarrow> GetPartition n p)"

definition same_but :: "string \<Rightarrow> partition_id \<Rightarrow> world \<Rightarrow> world \<Rightarrow> bool" where
  "same_but a p w w' \<longleftrightarrow> (\<forall>b q. (b, q) \<noteq> (a, p) \<longrightarrow> partition_at w' b q = partition_at w b q)"

lemma same_but_refl [intro, simp]: "same_but a p w w"
  by (simp add: same_but_def)

lemma same_but_trans: "same_but a p w w1 \<Longrightarrow> same_but a p w1 w2 \<Longrightarrow> same_but a p w w2"
  by (simp add: same_but_def)

lemma same_but_update:
  assumes "map_of w b = Some n" and "\<And>q. (b, q) \<noteq> (a, p) \<Longrightarrow> GetPartition n' q = GetPartition n q"
  shows "same_but a p w (AList.update b n' w)"
  using assms by (auto simp: same_but_def partition_at_def AList.update_conv')

lemma same_but_connected: "map_of w self = Some n \<Longrightarrow> same_but a p w (caller_connected N self b n w)"
  unfolding caller_connected_def by (rule same_but_update) simp_all

lemma call_on_same_but:
  assumes "map_of w self = Some n" and "conns_ok N (zn_client n)" and h: "keeps_but p h"
  shows "same_but a p w (snd (call_on N (on_node self (node_For N a)) ce re z h w))"
proof (cases "client_For (nw_dial N) a (zn_client n)")
  case (Pair r m')
  let ?w = "caller_connected N self a n w"
  have c: "same_but a p w ?w" by (rule same_but_connected [OF assms(1)])
  have "same_but a p w (AList.update a (snd (h l)) ?w)" if "map_of ?w a = Some l" for l
    using h by (intro same_but_trans [OF c] same_but_update [OF that]) (auto simp: keeps_but_def)
  then show ?thesis unfolding call_address [OF assms(1,2)] using c Pair by (auto split: sum.splits option.splits)
qed

datatype key_operation = Op_CompleteJob vars | Op_AssignJob string | Op_ResolveIncident | Op_DeleteVariable string
  | Op_Cancel | Op_Modify "int list" "string list" vars | Op_UpdateVariables vars

definition zvoid :: "'a zop \<Rightarrow> unit zop" where
  "zvoid m = zbind m (\<lambda>_. zret ())"

primrec node_operation :: "engine_deps \<Rightarrow> network \<Rightarrow> string \<Rightarrow> int \<Rightarrow> key_operation \<Rightarrow> unit zop" where
  "node_operation D N self k (Op_CompleteJob vs) = node_CompleteJob D N self k vs"
| "node_operation D N self k (Op_AssignJob assignee) = node_AssignJob N self k assignee"
| "node_operation D N self k Op_ResolveIncident = node_ResolveIncident D N self k"
| "node_operation D N self k (Op_DeleteVariable variable) = node_DeleteProcessInstanceVariable N self k variable"
| "node_operation D N self k Op_Cancel = node_CancelProcessInstance D N self k"
| "node_operation D N self k (Op_Modify toTerminate toStart vs) = zvoid (node_ModifyProcessInstance D N self k toTerminate toStart vs)"
| "node_operation D N self k (Op_UpdateVariables vs) = node_UpdateProcessInstanceVariables D N self k vs"

lemma snd_zvoid [simp]: "snd (zvoid m w) = snd (m w)"
  by (simp add: zvoid_def zbind_def bind_def zret_def zfail_def ret_def split: prod.splits res.splits sum.splits)

lemma zvoid_fails [simp]: "fst (zvoid m w) = Ok (Inl z) \<longleftrightarrow> fst (m w) = Ok (Inl z)"
  by (auto simp: zvoid_def zbind_def bind_def zret_def zfail_def ret_def split: prod.splits res.splits sum.splits)

text \<open>The outcome of a call to a leader, by what is seen of it and whether it is up.\<close>

lemma to_leader_frame:
  assumes "map_of w self = Some n" and "conns_ok N (zn_client n)" and "keeps_but p h"
  shows "same_but (leader_seen n p) p w (snd (to_leader N self p msg re z h w))"
  unfolding to_leader_eval [OF assms(1)]
  using call_on_same_but [OF assms] same_but_update [OF assms(1), where n' = n] by simp

lemma to_leader_unknown:
  assumes "map_of w self = Some n" and "leader_seen n p = []"
  shows "\<exists>e. fst (to_leader N self p msg re z h w) = Ok (Inl (ClusterError e))"
  using assms by (simp add: to_leader_eval) blast

lemma to_leader_down:
  assumes "map_of w self = Some n" and "conns_ok N (zn_client n)" and "leader_seen n p \<noteq> []"
    and "nw_dial N (leader_seen n p) = Inr c" and "map_of w (leader_seen n p) = None"
  shows "\<exists>e. fst (to_leader N self p msg re z h w) = Ok (Inl (re e))"
proof -
  have "\<exists>c'. fst (client_For (nw_dial N) (leader_seen n p) (zn_client n)) = Inr c'"
    by (rule client_For_dialled [OF assms(4)])
  moreover have "map_of (caller_connected N self (leader_seen n p) n w) (leader_seen n p) = None"
    using assms(1,5) by (auto simp: caller_connected_def AList.update_conv')
  ultimately show ?thesis using assms(1,3) by (auto simp: to_leader_eval call_address [OF assms(1,2)])
qed

lemmas node_operation_defs = node_CompleteJob_def node_AssignJob_def node_ResolveIncident_def
  node_DeleteProcessInstanceVariable_def node_CancelProcessInstance_def node_ModifyProcessInstance_def
  node_UpdateProcessInstanceVariables_def zvoid_def [symmetric]


section \<open>Completing a job\<close>

lemma to_leader_up:
  assumes "map_of w self = Some n" and "conns_ok N (zn_client n)" and "leader_seen n p = a" and "a \<noteq> []"
    and "nw_dial N a = Inr c" and "map_of w a = Some l"
  shows "\<exists>l'. (\<exists>m. l' = l\<lparr>zn_client := m\<rparr>) \<and>
    fst (to_leader N self p msg re z h w) = call_outcome re z (fst (h l')) \<and>
    map_of (snd (to_leader N self p msg re z h w)) a = Some (snd (h l'))"
proof -
  obtain c' where f: "fst (client_For (nw_dial N) a (zn_client n)) = Inr c'"
    using client_For_dialled [OF assms(5)] by blast
  have "\<exists>l' m. map_of (caller_connected N self a n w) a = Some l' \<and> l' = l\<lparr>zn_client := m\<rparr>"
  proof (cases "a = self")
    case True
    then show ?thesis using assms(1,6) by (auto simp: caller_connected_def AList.update_conv' with_client_def)
  next
    case False
    then have "map_of (caller_connected N self a n w) a = Some l \<and> l = l\<lparr>zn_client := zn_client l\<rparr>"
      using assms(6) by (simp add: caller_connected_def AList.update_conv')
    then show ?thesis by blast
  qed
  then obtain l' m where l': "map_of (caller_connected N self a n w) a = Some l'" "l' = l\<lparr>zn_client := m\<rparr>" by blast
  have e: "to_leader N self p msg re z h w =
      (call_outcome re z (fst (h l')), AList.update a (snd (h l')) (caller_connected N self a n w))"
    using assms(3,4) f l'(1) by (simp add: to_leader_eval [OF assms(1)] call_address [OF assms(1,2)])
  show ?thesis unfolding e using l'(2) by (auto simp: AList.update_conv')
qed

text \<open>An operation on the engine of partition \<open>p\<close>.\<close>

lemma on_engine_eval:
  assumes "PartitionEngine n p = Some e" and "m e = (r, e')"
  shows "on_engine p m n = (r, set_partition p (\<lambda>x. x\<lparr>zp_Engine := Some e'\<rparr>) n)"
  using assms by (simp add: on_engine_def)

lemma engine_after_update [simp]:
  "PartitionEngine n p \<noteq> None \<Longrightarrow> PartitionEngine (set_partition p (\<lambda>x. x\<lparr>zp_Engine := Some e\<rparr>) n) p = Some e"
  by (auto simp: PartitionEngine_def map_of_set_partition split: option.splits)

lemma engine_of_client [simp]: "PartitionEngine (n\<lparr>zn_client := m\<rparr>) p = PartitionEngine n p"
  by (simp add: PartitionEngine_def)

lemma engine_of_job_manager [simp]: "PartitionEngine (n\<lparr>zn_jobManager := m\<rparr>) p = PartitionEngine n p"
  by (simp add: PartitionEngine_def)

lemma job_manager_of_partition [simp]: "zn_jobManager (set_partition p f n) = zn_jobManager n"
  by (simp add: set_partition_def)

definition complete_code :: "error \<Rightarrow> ZenErrorCode" where
  "complete_code x = (if isErrNotFound x then NotFoundCode else TechnicalErrorCode)"

lemma isErrNotFound_Wrapf [simp]: "isErrNotFound (Wrapf m e) = isErrNotFound e"
  by (simp add: isErrNotFound_def)

lemma server_CompleteJob_eval:
  assumes "PartitionEngine n (partition_of_key k) = Some e" and "jm_server (zn_jobManager n) = Some srv"
    and "JobCompleteByKey (dp_N D) (dp_F D) (dp_env D) k vs e = (r, e')"
  shows "PartitionEngine (snd (server_CompleteJob D k (json_Marshal vs) n)) (partition_of_key k) = Some e'"
    and "r = Ok () \<Longrightarrow> fst (server_CompleteJob D k (json_Marshal vs) n) = Ok (Resp ())"
    and "r = Err x \<Longrightarrow> \<exists>y. fst (server_CompleteJob D k (json_Marshal vs) n) =
      Ok (RespError (ToProtoError \<lparr>ze_Code = complete_code x, ze_err = y\<rparr>))"
proof -
  let ?n = "set_partition (partition_of_key k) (\<lambda>x. x\<lparr>zp_Engine := Some e'\<rparr>) n"
  have l: "node_JobCompleteByKey D k vs n = (r, ?n)"
    using assms by (simp add: node_JobCompleteByKey_def local_engine_def bind_def gets_def on_engine_eval)
  have m: "through_manager manager_CompleteJob k (node_JobCompleteByKey D k vs) n =
     (case r of
        Ok _ \<Rightarrow> (Ok (), ?n\<lparr>zn_jobManager := (zn_jobManager n)\<lparr>jm_server := Some (snd (completeJob None k srv))\<rparr>\<rparr>)
      | Err x \<Rightarrow> (Err (Wrapf ''failed to complete job'' x), ?n\<lparr>zn_jobManager := (zn_jobManager n)\<lparr>jm_server := Some srv\<rparr>\<rparr>)
      | Panic s \<Rightarrow> (Panic s, ?n) | Blocked \<Rightarrow> (Blocked, ?n) | NoFuel \<Rightarrow> (NoFuel, ?n))"
    using assms(2) by (cases r)
      (simp_all add: through_manager_def bind_def gets_def attempt_def l ret_def throw_def modify_def manager_CompleteJob_def completeJob_def)
  show "PartitionEngine (snd (server_CompleteJob D k (json_Marshal vs) n)) (partition_of_key k) = Some e'"
    using assms(1) by (cases r) (simp_all add: server_CompleteJob_def with_variables_def respond_def attempt_def bind_def m
        reply_def reply_error_def ret_def)
  show "fst (server_CompleteJob D k (json_Marshal vs) n) = Ok (Resp ())" if "r = Ok ()"
    using m that by (simp add: server_CompleteJob_def with_variables_def respond_def attempt_def bind_def reply_def ret_def)
  show "\<exists>y. fst (server_CompleteJob D k (json_Marshal vs) n) =
      Ok (RespError (ToProtoError \<lparr>ze_Code = complete_code x, ze_err = y\<rparr>))" if "r = Err x"
    using m that by (auto simp: server_CompleteJob_def with_variables_def respond_def attempt_def bind_def reply_error_def ret_def
        complete_code_def NotFound_def TechnicalError_def)
qed

lemma ToZenError_code: "(\<And>i. c \<noteq> UnknownCode i) \<Longrightarrow> ze_Code (ToZenError (ToProtoError \<lparr>ze_Code = c, ze_err = y\<rparr>) x) = c"
  by (simp add: ToZenError_def ToProtoError_def code_of_number)

lemma complete_code_known [simp]: "complete_code x \<noteq> UnknownCode i"
  by (simp add: complete_code_def)

text \<open>A job completed at any node of the cluster is completed by the engine of its partition on the leader: that
  engine makes its step and nothing else is lost, the caller gets success exactly when it succeeded, and
  otherwise an error whose code is \<^verbatim>\<open>NOT_FOUND\<close> or \<^verbatim>\<open>TECHNICAL_ERROR\<close> by what the engine returned.\<close>

theorem job_is_completed_by_the_leader:
  assumes "map_of w self = Some n" and "conns_ok N (zn_client n)" and "leader_seen n (partition_of_key k) = a" and "a \<noteq> []"
    and "nw_dial N a = Inr c" and "map_of w a = Some l" and "PartitionEngine l (partition_of_key k) = Some e"
    and "jm_server (zn_jobManager l) = Some srv"
    and "JobCompleteByKey (dp_N D) (dp_F D) (dp_env D) k vs e = (r, e')"
  shows "\<exists>l'. map_of (snd (node_CompleteJob D N self k vs w)) a = Some l' \<and> PartitionEngine l' (partition_of_key k) = Some e' \<and>
    (r = Ok () \<longrightarrow> fst (node_CompleteJob D N self k vs w) = Ok (Inr ())) \<and>
    (\<forall>x. r = Err x \<longrightarrow> (\<exists>z. fst (node_CompleteJob D N self k vs w) = Ok (Inl z) \<and>
       ze_Code z = (if isErrNotFound x then NotFoundCode else TechnicalErrorCode)))"
proof -
  from to_leader_up [OF assms(1-6)] obtain l' m where l': "l' = l\<lparr>zn_client := m\<rparr>"
    and f: "fst (node_CompleteJob D N self k vs w) = call_outcome (\<lambda>e. TechnicalError (Wrapf ''client call to complete job failed'' e))
         (\<lambda>_. Errorf ''client call to complete job failed'') (fst (server_CompleteJob D k (json_Marshal vs) l'))"
    and s: "map_of (snd (node_CompleteJob D N self k vs w)) a = Some (snd (server_CompleteJob D k (json_Marshal vs) l'))"
    unfolding node_CompleteJob_def by blast
  have le: "PartitionEngine l' (partition_of_key k) = Some e" "jm_server (zn_jobManager l') = Some srv"
    using assms(7,8) l' by simp_all
  note ev = server_CompleteJob_eval [OF le assms(9)]
  have "\<exists>z. fst (node_CompleteJob D N self k vs w) = Ok (Inl z) \<and> ze_Code z = complete_code x" if "r = Err x" for x
    using ev(3) [OF that] f by (auto simp: ToZenError_code)
  then show ?thesis using ev(1,2) f s by (simp add: complete_code_def)
qed

section \<open>A job that does not exist\<close>

lemma missing_job_complete:
  "FindJobByJobKey (mem e) k = Inl x \<Longrightarrow> JobCompleteByKey f F E k vs e = (Err (EngineError ''failed to find job with key''), e)"
  by (simp add: JobCompleteByKey_def wrap_def db_find_def db_def bind_def lift_sum_def throw_def gets_def)

lemma missing_job_assign:
  "FindJobByJobKey (mem e) k = Inl x \<Longrightarrow> JobAssignByKey k assignee e = (Err (EngineError ''failed to find job with key''), e)"
  by (simp add: JobAssignByKey_def wrap_def db_find_def db_def bind_def lift_sum_def throw_def gets_def)

lemma engine_error_not_found [simp]: "\<not> isErrNotFound (EngineError m)"
  by (simp add: isErrNotFound_def)

lemma ToZenError_Technical [simp]: "ze_Code (ToZenError (ToProtoError (TechnicalError y)) x) = TechnicalErrorCode"
  by (simp add: ToZenError_def ToProtoError_def TechnicalError_def code_of_def)

lemma server_AssignJob_missing:
  assumes "PartitionEngine n (partition_of_key k) = Some e" and "FindJobByJobKey (mem e) k = Inl x"
  shows "\<exists>y. fst (server_AssignJobToAssignee k assignee n) = Ok (RespError (ToProtoError (TechnicalError y)))"
  using assms by (auto simp: server_AssignJobToAssignee_def with_engine_def bind_def gets_def respond_def attempt_def on_engine_def
      missing_job_assign not_found_or_def reply_error_def ret_def)

lemma server_GetJob_missing:
  assumes "PartitionQueries n (partition_of_key k) = Some d" and "tget (job d) k = None"
  shows "fst (server_GetJob k n) = Ok (RespError (ToProtoError (NotFound (Errorf ''job not found''))))"
  using assms by (simp add: server_GetJob_def with_queries_def bind_def gets_def q_FindJobByJobKey_def one_row_def isErrNotFound_def
      sql_ErrNoRows_def reply_error_def ret_def)

text \<open>A job that does not exist is reported as such only to readers: \<^verbatim>\<open>GetJob\<close> answers \<^verbatim>\<open>NOT_FOUND\<close>, but completing and
  assigning it ends with \<^verbatim>\<open>TECHNICAL_ERROR\<close>, since the error of the engine does not wrap that of the
  storage, for which the handlers look.\<close>

theorem missing_job_is_a_technical_error:
  assumes "map_of w self = Some n" and "conns_ok N (zn_client n)" and "leader_seen n (partition_of_key k) = a" and "a \<noteq> []"
    and "nw_dial N a = Inr c" and "map_of w a = Some l" and "PartitionEngine l (partition_of_key k) = Some e"
    and "jm_server (zn_jobManager l) = Some srv" and "FindJobByJobKey (mem e) k = Inl ErrNotFound"
    and "PartitionQueries l (partition_of_key k) = Some d" and "tget (job d) k = None"
  shows "(\<exists>z. fst (node_CompleteJob D N self k vs w) = Ok (Inl z) \<and> ze_Code z = TechnicalErrorCode) \<and>
    (\<exists>z. fst (node_AssignJob N self k assignee w) = Ok (Inl z) \<and> ze_Code z = TechnicalErrorCode) \<and>
    (\<exists>y. fst (server_GetJob k l) = Ok (RespError (ToProtoError (NotFound y))))"
proof (intro conjI)
  note up = to_leader_up [OF assms(1-6)]
  from up obtain l' m where l': "l' = l\<lparr>zn_client := m\<rparr>"
    and f: "fst (node_CompleteJob D N self k vs w) = call_outcome (\<lambda>e. TechnicalError (Wrapf ''client call to complete job failed'' e))
         (\<lambda>_. Errorf ''client call to complete job failed'') (fst (server_CompleteJob D k (json_Marshal vs) l'))"
    unfolding node_CompleteJob_def by blast
  have le: "PartitionEngine l' (partition_of_key k) = Some e" "jm_server (zn_jobManager l') = Some srv"
    using assms(7,8) l' by simp_all
  from server_CompleteJob_eval(3) [OF le missing_job_complete [OF assms(9)] refl, of D vs] f
  show "\<exists>z. fst (node_CompleteJob D N self k vs w) = Ok (Inl z) \<and> ze_Code z = TechnicalErrorCode"
    by (auto simp: ToZenError_code complete_code_def)
next
  from to_leader_up [OF assms(1-6)] obtain l' m where l': "l' = l\<lparr>zn_client := m\<rparr>"
    and f: "fst (node_AssignJob N self k assignee w) = call_outcome (\<lambda>e. TechnicalError (Wrapf ''client call to assign job failed'' e))
         (\<lambda>_. Errorf ''client call to assign job failed'') (fst (server_AssignJobToAssignee k assignee l'))"
    unfolding node_AssignJob_def by blast
  have "PartitionEngine l' (partition_of_key k) = Some e" using assms(7) l' by simp
  from server_AssignJob_missing [OF this assms(9), of assignee] f
  show "\<exists>z. fst (node_AssignJob N self k assignee w) = Ok (Inl z) \<and> ze_Code z = TechnicalErrorCode" by auto
next
  show "\<exists>y. fst (server_GetJob k l) = Ok (RespError (ToProtoError (NotFound y)))"
    using server_GetJob_missing [OF assms(10,11)] by blast
qed

section \<open>A cluster of two nodes\<close>

definition zendemo_net :: network where
  "zendemo_net = \<lparr>nw_dial = (\<lambda>a. if a = ''n1'' then Inr 1 else if a = ''n2'' then Inr 2 else Inl (ExternalError ''dial'')),
     nw_peer = (\<lambda>c. if c = 1 then ''n1'' else ''n2''), nw_generate = int\<rparr>"

definition zendemo_member :: "string \<Rightarrow> Role \<Rightarrow> Node" where
  "zendemo_member i r = \<lparr>nd_Id = i, nd_Addr = i, nd_Suffrage = Voter, nd_State = NodeStateStarted, nd_Role = r,
     nd_Partitions = Some [(1, \<lparr>np_Id = 1, np_State = NodePartitionStateInitialized, np_Role = r\<rparr>)]\<rparr>"

definition zendemo_cluster :: Cluster where
  "zendemo_cluster = \<lparr>DesiredPartitions = 1, Partitions = [(1, \<lparr>pa_Id = 1, pa_LeaderId = ''n2''\<rparr>)],
     Nodes = [(''n1'', zendemo_member ''n1'' RoleFollower), (''n2'', zendemo_member ''n2'' RoleLeader)]\<rparr>"

definition zendemo_partition :: "estate option \<Rightarrow> ZenPartitionNode" where
  "zendemo_partition e = \<lparr>zp_PartitionId = 1, zp_DB = NewDB 1, zp_Engine = e, zp_IsLeader = (e \<noteq> None),
     zp_FeelRuntime = (e \<noteq> None), zp_JsRuntime = (e \<noteq> None)\<rparr>"

definition zendemo_node :: "string \<Rightarrow> estate option \<Rightarrow> ZenNode" where
  "zendemo_node i e = \<lparr>zn_ID = i, zn_StoreOpen = True, zn_ClusterState = zendemo_cluster,
     zn_partitions = [(1, zendemo_partition e)], zn_client = \<lparr>activeClients = []\<rparr>,
     zn_jobManager = \<lparr>jm_client = newJobClient, jm_server = Some newJobServer, currentPartitionRoles = []\<rparr>,
     zn_InstanceHistoryTTL = 0, zn_idGen = 0\<rparr>"

definition zendemo_world :: "estate option \<Rightarrow> world" where
  "zendemo_world e = [(''n1'', zendemo_node ''n1'' None), (''n2'', zendemo_node ''n2'' e)]"

definition zendemo_deps :: engine_deps where
  "zendemo_deps = \<lparr>dp_N = 3, dp_F = 3, dp_env = demo_env, dp_md5 = (\<lambda>_. 0), dp_bpmn_xml = (\<lambda>_. Inl ErrNotFound),
     dp_dmn_xml = (\<lambda>_. Inl ErrNotFound), dp_dmn_env = \<lparr>de_feel = demo_feel, de_marshal = (\<lambda>_. Inl ErrNotFound),
     de_marshalDecisions = (\<lambda>_. Inl ErrNotFound)\<rparr>, dp_dmn_fuel = 1, dp_dvars = (\<lambda>_. Inr Map.empty), dp_Intn = (\<lambda>_. 0)\<rparr>"

lemma zendemo_key: "partition_of_key 4096 = 1"
  by (rule word_uint_eqI) (simp add: partition_of_key_def uint_GetPartitionId StepBits_def NodeBits_def)

lemma zendemo_conns: "conns_ok zendemo_net (zn_client (zendemo_node i e))"
  by (simp add: conns_ok_def zendemo_net_def zendemo_node_def)

lemma zendemo_world_conns: "world_conns zendemo_net (zendemo_world e)"
  by (simp add: world_conns_def zendemo_world_def zendemo_conns)

lemma zendemo_leader: "leader_seen (zendemo_node i e) 1 = ''n2''"
  by (simp add: leader_seen_def PartitionLeaderWithID_def zendemo_node_def zendemo_cluster_def zendemo_member_def)

lemma zendemo_up:
  "map_of (zendemo_world e) ''n1'' = Some (zendemo_node ''n1'' None)" "map_of (zendemo_world e) ''n2'' = Some (zendemo_node ''n2'' e)"
  "nw_dial zendemo_net ''n2'' = Inr 2" "PartitionEngine (zendemo_node i e) 1 = e"
  "jm_server (zn_jobManager (zendemo_node i e)) = Some newJobServer"
  by (simp_all add: zendemo_world_def zendemo_net_def PartitionEngine_def zendemo_node_def zendemo_partition_def)

definition zendemo_engine :: estate where
  "zendemo_engine = NewEngine\<lparr>mem := SaveJob \<lparr>job_ElementId = ''task'', job_ElementInstanceKey = 4097, job_ProcessInstanceKey = 4098,
     job_Key = 4096, job_State = ActivityStateCompleted, job_Type = ''work'', job_Variables = Map.empty, job_CreatedAt = 0,
     job_Token = \<lparr>tok_Key = 4099, tok_ElementInstanceKey = 4097, tok_ElementId = ''task'', tok_ProcessInstanceKey = 4098,
       tok_State = TokenStateWaiting, tok_CreatedAt = 0\<rparr>, job_Assignee = None\<rparr> NewStorage\<rparr>"

lemma zendemo_complete: "JobCompleteByKey f F E 4096 vs zendemo_engine = (Ok (), zendemo_engine)"
  by (simp add: JobCompleteByKey_def wrap_def db_find_def db_def bind_def lift_sum_def ret_def gets_def zendemo_engine_def
      FindJobByJobKey_def SaveJob_def NewEngine_def or_not_found_def)


theorem job_is_completed_by_the_leader_witness:
  "\<exists>l'. map_of (snd (node_CompleteJob zendemo_deps zendemo_net ''n1'' 4096 Map.empty (zendemo_world (Some zendemo_engine)))) ''n2'' = Some l' \<and>
    PartitionEngine l' 1 = Some zendemo_engine \<and>
    fst (node_CompleteJob zendemo_deps zendemo_net ''n1'' 4096 Map.empty (zendemo_world (Some zendemo_engine))) = Ok (Inr ())"
  using job_is_completed_by_the_leader [OF zendemo_up(1) zendemo_conns, of 4096 "''n2''" 2, unfolded zendemo_key,
    OF zendemo_leader _ zendemo_up(3,2) zendemo_up(4,5) zendemo_complete] by simp

theorem missing_job_is_a_technical_error_witness:
  "\<exists>z. fst (node_CompleteJob zendemo_deps zendemo_net ''n1'' 4096 Map.empty (zendemo_world (Some NewEngine))) = Ok (Inl z) \<and>
     ze_Code z = TechnicalErrorCode"
proof -
  have j: "FindJobByJobKey (mem NewEngine) 4096 = Inl ErrNotFound"
    by (simp add: FindJobByJobKey_def NewEngine_def NewStorage_def tget_def or_not_found_def)
  have q: "PartitionQueries (zendemo_node i e) 1 = Some (db_Store (NewDB 1))" for i e
    by (simp add: PartitionQueries_def zendemo_node_def zendemo_partition_def)
  have t: "tget (job (db_Store (NewDB 1))) 4096 = None" by (simp add: NewDB_def new_Database_def tget_def)
  show ?thesis
    using missing_job_is_a_technical_error [OF zendemo_up(1) zendemo_conns, of 4096 "''n2''" 2, unfolded zendemo_key,
      OF zendemo_leader _ zendemo_up(3,2) zendemo_up(4,5) j q t] by simp
qed

end
