(* ===== verification/Zen_Members.thy ===== *)
theory Zen_Members
  imports Zen_Routing
begin

text \<open>
  What every node of the cluster does when the cluster state changes (\<^verbatim>\<open>performMemberOperations\<close> in
  \<^verbatim>\<open>internal/cluster/controller\<close>): it starts the partitions it is assigned to, creates the engine of a partition
  it leads and reports its progress to the leader of the cluster.

  Starting and stopping a partition node, waiting for its leader, migrations, and whether the commands sent
  to the cluster leader are accepted are parameters, as is the engine that \<^verbatim>\<open>NewEngine\<close> and \<^verbatim>\<open>Start\<close> make of a database.
  Every check of the context has an argument of its own. Commands and the goroutines that retry joining are
  recorded in the order in which they are issued.
\<close>

section \<open>Members\<close>

record member =
  mb_node :: ZenNode
  mb_commands :: "NodePartitionChange list"
  mb_rejoining :: "partition_id list"

record member_env =
  me_dial :: "string \<Rightarrow> error + connection"
  me_clusterLeader :: "string \<times> string"
  me_Role :: Role
  me_Start :: "partition_id \<Rightarrow> error + ZenPartitionNode"
  me_Stop :: "partition_id \<Rightarrow> error option"
  me_LeaderTimeout :: "partition_id \<Rightarrow> bool"
  me_Migrate :: "partition_id \<Rightarrow> error option"
  me_Engine :: "DB \<Rightarrow> estate"
  me_NodeCommand :: "NodePartitionChange \<Rightarrow> error option"
  me_expired :: bool
  me_expiredJoining :: "partition_id \<Rightarrow> bool"
  me_expiredInitializing :: "partition_id \<Rightarrow> bool"

definition NodeCommand :: "member_env \<Rightarrow> NodePartitionChange \<Rightarrow> (member, error option) eng" where
  "NodeCommand V ch m =
     (Ok (me_NodeCommand V ch), m\<lparr>mb_commands := mb_commands m @ [ch]\<rparr>)"

definition set_running :: "partition_id \<Rightarrow> ZenPartitionNode \<Rightarrow> member \<Rightarrow> member" where
  "set_running p x m = m\<lparr>mb_node := (mb_node m)\<lparr>zn_partitions := AList.update p x (zn_partitions (mb_node m))\<rparr>\<rparr>"

definition running_partition :: "partition_id \<Rightarrow> member \<Rightarrow> ZenPartitionNode option" where
  "running_partition p m = GetPartition (mb_node m) p"

text \<open>\<^verbatim>\<open>createEngine\<close>; without its error check, \<^verbatim>\<open>Start\<close> is called on the nil engine.\<close>

definition createEngine :: "member_env \<Rightarrow> partition_id \<Rightarrow> DB \<Rightarrow> error + estate" where
  "createEngine V p d = (case me_Migrate V p of Some e \<Rightarrow> Inl e | None \<Rightarrow> Inr (me_Engine V d))"

definition leader_runtimes :: "ZenPartitionNode \<Rightarrow> ZenPartitionNode" where
  "leader_runtimes x = (if zp_IsLeader x then x\<lparr>zp_FeelRuntime := True, zp_JsRuntime := True\<rparr> else x)"

definition start_engine :: "member_env \<Rightarrow> partition_id \<Rightarrow> ZenPartitionNode \<Rightarrow> (member, unit) eng" where
  "start_engine V p x =
     (if zp_Engine x = None \<and> zp_IsLeader x
      then case createEngine V p (zp_DB x) of
             Inl e \<Rightarrow> panic ''nil pointer dereference''
           | Inr e \<Rightarrow> modify (set_running p (x\<lparr>zp_Engine := Some e\<rparr>))
      else modify (set_running p x))"

definition partition_Role :: "ZenPartitionNode \<Rightarrow> Role" where
  "partition_Role x = (if zp_IsLeader x then RoleLeader else RoleFollower)"

definition handlePartitionStateInitializing :: "member_env \<Rightarrow> partition_id \<Rightarrow> (member, unit) eng" where
  "handlePartitionStateInitializing V p =
     bind (gets (running_partition p)) (\<lambda>r.
       case r of
         None \<Rightarrow> modify (\<lambda>m. m\<lparr>mb_rejoining := mb_rejoining m @ [p]\<rparr>)
       | Some x \<Rightarrow>
           if me_LeaderTimeout V p then ret ()
           else if me_expiredInitializing V p then ret ()
           else bind (start_engine V p (leader_runtimes x)) (\<lambda>_.
                bind (gets (\<lambda>m. zn_ID (mb_node m))) (\<lambda>i.
                bind (NodeCommand V \<lparr>pc_NodeId = i, pc_PartitionId = p, pc_State = NodePartitionStateInitialized,
                        pc_Role = partition_Role x\<rparr>) (\<lambda>_. ret ()))))"

text \<open>A node that is already running the partition and registered as such does not join again. The command that
  announces the start of the joining carries the role of the node in the cluster, \<^verbatim>\<open>c.store.Role()\<close>.\<close>

definition already_joined :: "partition_id \<Rightarrow> member \<Rightarrow> bool" where
  "already_joined p m \<longleftrightarrow>
     (case GetNode (zn_ClusterState (mb_node m)) (zn_ID (mb_node m)) of
        Inl _ \<Rightarrow> False
      | Inr node \<Rightarrow>
          (case map_of (node_partitions node) p of
             None \<Rightarrow> False
           | Some np \<Rightarrow> running_partition p m \<noteq> None \<and>
               (np_State np = NodePartitionStateInitializing \<or> np_State np = NodePartitionStateInitialized)))"

definition handlePartitionStateJoining :: "member_env \<Rightarrow> partition_id \<Rightarrow> (member, unit) eng" where
  "handlePartitionStateJoining V p =
     (if me_expiredJoining V p then ret ()
      else bind (gets (already_joined p)) (\<lambda>joined.
        if joined then ret ()
        else bind (gets (\<lambda>m. zn_ID (mb_node m))) (\<lambda>i.
             bind (NodeCommand V \<lparr>pc_NodeId = i, pc_PartitionId = p, pc_State = NodePartitionStateInitializing,
                     pc_Role = me_Role V\<rparr>) (\<lambda>_.
               case me_Start V p of
                 Inl e \<Rightarrow> panic ''nil pointer dereference''
               | Inr x \<Rightarrow> bind (modify (set_running p x)) (\<lambda>_. handlePartitionStateInitializing V p)))))"

definition handlePartitionStateInitialized :: "member_env \<Rightarrow> partition_id \<Rightarrow> (member, unit) eng" where
  "handlePartitionStateInitialized V p =
     bind (gets (running_partition p)) (\<lambda>r.
       case r of None \<Rightarrow> handlePartitionStateJoining V p | Some _ \<Rightarrow> ret ())"

definition handlePartitionStateLeaving :: "member_env \<Rightarrow> partition_id \<Rightarrow> (member, unit) eng" where
  "handlePartitionStateLeaving V p =
     bind (gets (running_partition p)) (\<lambda>r.
       case r of
         None \<Rightarrow> ret ()
       | Some _ \<Rightarrow>
           (case me_Stop V p of
              Some e \<Rightarrow> ret ()
            | None \<Rightarrow> modify (\<lambda>m. m\<lparr>mb_node := (mb_node m)\<lparr>zn_partitions :=
                AList.delete p (zn_partitions (mb_node m))\<rparr>\<rparr>)))"

definition handle_partition :: "member_env \<Rightarrow> partition_id \<Rightarrow> NodePartitionState \<Rightarrow> (member, unit) eng" where
  "handle_partition V p st =
     (case st of
        NodePartitionStateError \<Rightarrow> ret ()
      | NodePartitionStateJoining \<Rightarrow> handlePartitionStateJoining V p
      | NodePartitionStateInitializing \<Rightarrow> handlePartitionStateInitializing V p
      | NodePartitionStateInitialized \<Rightarrow> handlePartitionStateInitialized V p
      | NodePartitionStateLeaving \<Rightarrow> handlePartitionStateLeaving V p
      | NodePartitionStateUnknown \<Rightarrow> panic ''unexpected store.NodePartitionState'')"

definition performMemberOperations :: "member_env \<Rightarrow> (member, unit) eng" where
  "performMemberOperations V m =
     (if me_expired V then (Ok (), m)
      else case GetNode (zn_ClusterState (mb_node m)) (zn_ID (mb_node m)) of
             Inl _ \<Rightarrow> (Ok (), m)
           | Inr currentNode \<Rightarrow>
               (case ClusterLeader (me_dial V) (me_clusterLeader V) (zn_client (mb_node m)) of
                  (r, cm) \<Rightarrow>
                    (let m1 = m\<lparr>mb_node := (mb_node m)\<lparr>zn_client := cm\<rparr>\<rparr> in
                     case r of
                       Inl _ \<Rightarrow> (Ok (), m1)
                     | Inr _ \<Rightarrow> for_each (node_partitions currentNode) (\<lambda>(p, np). handle_partition V p (np_State np)) m1)))"

text \<open>\<^verbatim>\<open>ClusterStateChangeNotification\<close>: the leader's operations, on the state the leader sees, come first, then those of
  every member, then the hooks; \<open>handles\<close> is set once the controller has started.\<close>

definition ClusterStateChangeNotification ::
  "bool \<Rightarrow> bool \<Rightarrow> (nat \<Rightarrow> bool) \<Rightarrow> (NodePartitionChange \<Rightarrow> Cluster \<Rightarrow> Cluster) \<Rightarrow> member_env \<Rightarrow> (member, unit) eng list \<Rightarrow> (member, unit) eng" where
  "ClusterStateChangeNotification handles isLeader lapsed write V hooks =
     (if \<not> handles then ret ()
      else bind (do_when isLeader (modify (\<lambda>m. m\<lparr>mb_node := (mb_node m)\<lparr>zn_ClusterState :=
             performLeaderOperations lapsed write (zn_ClusterState (mb_node m))\<rparr>\<rparr>))) (\<lambda>_.
           bind (performMemberOperations V) (\<lambda>_. for_each hooks (\<lambda>hook. hook))))"

section \<open>A partition that is initialized is left alone\<close>

text \<open>An operation of a member that keeps partition \<open>q\<close>.\<close>

definition keeps_partition :: "partition_id \<Rightarrow> (member, 'a) eng \<Rightarrow> bool" where
  "keeps_partition q f \<longleftrightarrow> (\<forall>m. running_partition q (snd (f m)) = running_partition q m)"

named_theorems member_frame

lemma kp_ret [member_frame]: "keeps_partition q (ret x)"
  by (simp add: keeps_partition_def ret_def)

lemma kp_panic [member_frame]: "keeps_partition q (panic x)"
  by (simp add: keeps_partition_def panic_def)

lemma kp_gets [member_frame]: "keeps_partition q (gets f)"
  by (simp add: keeps_partition_def gets_def)

lemma kp_command [member_frame]: "keeps_partition q (NodeCommand V ch)"
  by (simp add: keeps_partition_def NodeCommand_def running_partition_def)

lemma kp_rejoining [member_frame]: "keeps_partition q (modify (\<lambda>m. m\<lparr>mb_rejoining := mb_rejoining m @ [p]\<rparr>))"
  by (simp add: keeps_partition_def modify_def running_partition_def)

lemma kp_set_running [member_frame]: "q \<noteq> p \<Longrightarrow> keeps_partition q (modify (set_running p x))"
  by (simp add: keeps_partition_def modify_def running_partition_def set_running_def GetPartition_def AList.update_conv')

lemma kp_delete [member_frame]:
  "q \<noteq> p \<Longrightarrow> keeps_partition q (modify (\<lambda>m. m\<lparr>mb_node := (mb_node m)\<lparr>zn_partitions := AList.delete p (zn_partitions (mb_node m))\<rparr>\<rparr>))"
  by (simp add: keeps_partition_def modify_def running_partition_def GetPartition_def AList.delete_conv')

lemma kp_bind [member_frame]:
  "keeps_partition q f \<Longrightarrow> (\<And>x. keeps_partition q (g x)) \<Longrightarrow> keeps_partition q (bind f g)"
  unfolding keeps_partition_def bind_def by (auto split: prod.splits res.splits) (metis snd_conv)+

lemma kp_initializing [member_frame]: "q \<noteq> p \<Longrightarrow> keeps_partition q (handlePartitionStateInitializing V p)"
  unfolding handlePartitionStateInitializing_def start_engine_def
  by (auto intro!: member_frame split: option.splits sum.splits)

lemma kp_joining [member_frame]: "q \<noteq> p \<Longrightarrow> keeps_partition q (handlePartitionStateJoining V p)"
  unfolding handlePartitionStateJoining_def by (auto intro!: member_frame split: sum.splits)

lemma kp_initialized [member_frame]: "q \<noteq> p \<Longrightarrow> keeps_partition q (handlePartitionStateInitialized V p)"
  unfolding handlePartitionStateInitialized_def by (auto intro!: member_frame split: option.splits)

lemma kp_leaving [member_frame]: "q \<noteq> p \<Longrightarrow> keeps_partition q (handlePartitionStateLeaving V p)"
  unfolding handlePartitionStateLeaving_def by (auto intro!: member_frame split: option.splits)

lemma kp_handle: "q \<noteq> p \<Longrightarrow> keeps_partition q (handle_partition V p st)"
  unfolding handle_partition_def by (cases st) (simp_all add: member_frame)

lemma initialized_running:
  "running_partition p m = Some x \<Longrightarrow> handle_partition V p NodePartitionStateInitialized m = (Ok (), m)"
  by (simp add: handle_partition_def handlePartitionStateInitialized_def bind_def gets_def ret_def)

lemma members_loop_keeps:
  assumes "running_partition q m = Some x" and "\<And>np. (q, np) \<in> set ps \<Longrightarrow> np_State np = NodePartitionStateInitialized"
  shows "running_partition q (snd (for_each ps (\<lambda>(p, np). handle_partition V p (np_State np)) m)) = Some x"
  using assms
proof (induction ps arbitrary: m)
  case Nil
  then show ?case by (simp add: ret_def)
next
  case (Cons e ps)
  obtain p np where e: "e = (p, np)" by fastforce
  have step: "running_partition q (snd (handle_partition V p (np_State np) m)) = Some x"
  proof (cases "p = q")
    case True
    then have "np_State np = NodePartitionStateInitialized" using Cons.prems(2) e by auto
    with True Cons.prems(1) show ?thesis by (simp add: initialized_running)
  next
    case False
    then show ?thesis using Cons.prems(1) kp_handle [of q p V "np_State np"] by (simp add: keeps_partition_def)
  qed
  obtain r m1 where h: "handle_partition V p (np_State np) m = (r, m1)" by fastforce
  show ?case
  proof (cases "r = Ok ()")
    case True
    then show ?thesis using Cons.IH [of m1] Cons.prems(2) step h e by (simp add: bind_def)
  next
    case False
    then show ?thesis using step h e by (cases r) (simp_all add: bind_def)
  qed
qed

text \<open>The node's own entry for \<open>p\<close> in the cluster state says that it is initialized.\<close>

definition initialized :: "partition_id \<Rightarrow> member \<Rightarrow> bool" where
  "initialized p m \<longleftrightarrow> (\<exists>node. GetNode (zn_ClusterState (mb_node m)) (zn_ID (mb_node m)) = Inr node \<and>
     (\<forall>np. (p, np) \<in> set (node_partitions node) \<longrightarrow> np_State np = NodePartitionStateInitialized))"

lemma member_operations_keep:
  assumes "initialized p m" and "running_partition p m = Some x"
  shows "running_partition p (snd (performMemberOperations V m)) = Some x"
proof -
  obtain node where n: "GetNode (zn_ClusterState (mb_node m)) (zn_ID (mb_node m)) = Inr node"
    "\<And>np. (p, np) \<in> set (node_partitions node) \<Longrightarrow> np_State np = NodePartitionStateInitialized"
    using assms(1) by (auto simp: initialized_def)
  obtain r cm where c: "ClusterLeader (me_dial V) (me_clusterLeader V) (zn_client (mb_node m)) = (r, cm)" by fastforce
  have "running_partition p (m\<lparr>mb_node := (mb_node m)\<lparr>zn_client := cm\<rparr>\<rparr>) = Some x"
    using assms(2) by (simp add: running_partition_def GetPartition_def)
  note l = members_loop_keeps [OF this n(2), where V = V]
  show ?thesis using n(1) c l assms(2)
    by (cases r) (simp_all add: performMemberOperations_def Let_def running_partition_def GetPartition_def)
qed

text \<open>The life of a member as far as partition \<open>p\<close> goes, from when it is initialized: notifications about the cluster
  state, elections in the raft group of the partition, and changes of the state the node sees.\<close>

inductive later :: "partition_id \<Rightarrow> member \<Rightarrow> member \<Rightarrow> bool" for p :: partition_id and m :: member where
  now: "later p m m"
| notified: "later p m m1 \<Longrightarrow> initialized p m1 \<Longrightarrow> later p m (snd (performMemberOperations V m1))"
| elected: "later p m m1 \<Longrightarrow> running_partition p m1 = Some x \<Longrightarrow> later p m (set_running p (x\<lparr>zp_IsLeader := b\<rparr>) m1)"
| cluster_state: "later p m m1 \<Longrightarrow> later p m (m1\<lparr>mb_node := (mb_node m1)\<lparr>zn_ClusterState := c\<rparr>\<rparr>)"

lemma later_no_engine:
  assumes "later p m m'" and "running_partition p m = Some x" and "zp_Engine x = None"
  shows "\<exists>x'. running_partition p m' = Some x' \<and> zp_Engine x' = None"
  using assms
proof (induction rule: later.induct)
  case now
  then show ?case by blast
next
  case (notified m1 V)
  then obtain x1 where "running_partition p m1 = Some x1" "zp_Engine x1 = None" by blast
  with member_operations_keep [OF notified.hyps(2)] show ?case by blast
next
  case (elected m1 y b)
  then show ?case by (auto simp: running_partition_def set_running_def GetPartition_def AList.update_conv')
next
  case (cluster_state m1 c)
  then show ?case by (auto simp: running_partition_def GetPartition_def)
qed

section \<open>Operations on a partition without an engine\<close>

lemma no_engine_handlers:
  assumes "PartitionEngine n (partition_of_key k) = None"
  shows "\<exists>y. fst (server_CompleteJob D k (json_Marshal vs) n) = Ok (RespError (ToProtoError (TechnicalError y)))"
    and "\<exists>y. fst (server_AssignJobToAssignee k assignee n) = Ok (RespError (ToProtoError (TechnicalError y)))"
    and "\<exists>y. fst (server_ResolveIncident D k n) = Ok (RespError (ToProtoError (TechnicalError y)))"
    and "\<exists>y. fst (server_DeleteProcessInstanceVariable k variable n) = Ok (RespError (ToProtoError (TechnicalError y)))"
    and "\<exists>y. fst (server_CancelProcessInstance D k n) = Ok (RespError (ToProtoError (TechnicalError y)))"
    and "\<exists>y. fst (server_ModifyProcessInstance D k toTerminate toStart (json_Marshal vs) n) = Ok (RespError (ToProtoError (TechnicalError y)))"
proof -
  have m: "\<exists>e n'. through_manager manager_CompleteJob k (node_JobCompleteByKey D k vs) n = (Err e, n') \<and> \<not> isErrNotFound e"
    using assms by (cases "jm_server (zn_jobManager n)")
      (simp_all add: through_manager_def bind_def gets_def attempt_def ret_def throw_def modify_def manager_CompleteJob_def
        completeJob_def node_JobCompleteByKey_def local_engine_def NodeIsNotALeader_def isErrNotFound_def sql_ErrNoRows_def)
  show "\<exists>y. fst (server_CompleteJob D k (json_Marshal vs) n) = Ok (RespError (ToProtoError (TechnicalError y)))"
    using m by (auto simp: server_CompleteJob_def with_variables_def respond_def attempt_def bind_def reply_error_def ret_def)
qed (use assms in \<open>auto simp: server_AssignJobToAssignee_def server_ResolveIncident_def server_DeleteProcessInstanceVariable_def
    server_CancelProcessInstance_def server_ModifyProcessInstance_def with_engine_def bind_def gets_def reply_error_def ret_def\<close>)

lemma call_outcome_Technical:
  "\<exists>y. r = Ok (RespError (ToProtoError (TechnicalError y))) \<Longrightarrow> \<exists>z. call_outcome re f r = Ok (Inl z) \<and> ze_Code z = TechnicalErrorCode"
  by auto

lemma operation_without_engine:
  assumes "map_of w self = Some n" and "conns_ok N (zn_client n)" and "leader_seen n (partition_of_key k) = a" and "a \<noteq> []"
    and "nw_dial N a = Inr c" and "map_of w a = Some l" and "PartitionEngine l (partition_of_key k) = None"
  shows "\<exists>z. fst (node_operation D N self k op w) = Ok (Inl z) \<and> ze_Code z = TechnicalErrorCode"
proof -
  have up: "\<exists>l'. PartitionEngine l' (partition_of_key k) = None \<and>
      fst (to_leader N self (partition_of_key k) msg re z h w) = call_outcome re z (fst (h l'))" for msg re z and h :: "'b handler"
    using to_leader_up [OF assms(1-6), of msg re z h] assms(7) by (metis engine_of_client)
  have t: "\<exists>z'. fst (to_leader N self (partition_of_key k) msg re z h w) = Ok (Inl z') \<and> ze_Code z' = TechnicalErrorCode"
    if "\<And>l'. PartitionEngine l' (partition_of_key k) = None \<Longrightarrow> \<exists>y. fst (h l') = Ok (RespError (ToProtoError (TechnicalError y)))"
    for msg re z and h :: "'b handler"
    using up [of msg re z h] that call_outcome_Technical [where re = re and f = z] by metis
  show ?thesis
    by (cases op) (simp_all add: node_operation_defs t no_engine_handlers)
qed

text \<open>A partition that a node entered as a follower never gets an engine there: not when the raft group of the
  partition elects the node, and not by any number of notifications, while its entry in the cluster state
  stays initialized. Once the cluster sees the node as the leader, every operation on a key of the
  partition ends with \<^verbatim>\<open>TECHNICAL_ERROR\<close>.\<close>

theorem elected_follower_gets_no_engine:
  assumes "running_partition (partition_of_key k) m = Some x" and "zp_Engine x = None" and "later (partition_of_key k) m m'"
    and "map_of w self = Some n" and "conns_ok N (zn_client n)" and "leader_seen n (partition_of_key k) = a" and "a \<noteq> []"
    and "nw_dial N a = Inr c" and "map_of w a = Some (mb_node m')"
  shows "\<exists>z. fst (node_operation D N self k op w) = Ok (Inl z) \<and> ze_Code z = TechnicalErrorCode"
proof -
  from later_no_engine [OF assms(3,1,2)] have "PartitionEngine (mb_node m') (partition_of_key k) = None"
    by (auto simp: running_partition_def GetPartition_def PartitionEngine_def)
  from operation_without_engine [OF assms(4-9) this] show ?thesis .
qed

section \<open>The role that a joining node announces\<close>

lemma joining_commands:
  assumes "me_expiredJoining V p = False" and "\<not> already_joined p m" and "me_Start V p = Inr x" and "zp_IsLeader x = False"
    and "me_LeaderTimeout V p = False" and "me_expiredInitializing V p = False"
  shows "handlePartitionStateJoining V p m = (Ok (), (set_running p x m)\<lparr>mb_commands := mb_commands m @
    [\<lparr>pc_NodeId = zn_ID (mb_node m), pc_PartitionId = p, pc_State = NodePartitionStateInitializing, pc_Role = me_Role V\<rparr>,
     \<lparr>pc_NodeId = zn_ID (mb_node m), pc_PartitionId = p, pc_State = NodePartitionStateInitialized, pc_Role = RoleFollower\<rparr>]\<rparr>)"
  using assms
  by (simp add: handlePartitionStateJoining_def handlePartitionStateInitializing_def bind_def gets_def NodeCommand_def modify_def
      ret_def running_partition_def set_running_def GetPartition_def AList.update_conv' start_engine_def leader_runtimes_def
      partition_Role_def)

text \<open>The two commands, applied one after the other.\<close>

definition apply_changes :: "NodePartitionChange list \<Rightarrow> Cluster \<Rightarrow> Cluster res" where
  "apply_changes = foldl (\<lambda>r ch c. case r c of Ok c' \<Rightarrow> FsmApplyPartitionChange ch c' | x \<Rightarrow> x) Ok"

lemma partition_change_known:
  assumes "map_of (Nodes c) (pc_NodeId ch) = Some n" and "nd_Partitions n = Some ps" and "pc_State ch \<noteq> NodePartitionStateLeaving"
  shows "\<exists>c'. FsmApplyPartitionChange ch c = Ok c' \<and>
    map_of (Partitions c') (pc_PartitionId ch) = (if pc_Role ch = RoleLeader
      then Some \<lparr>pa_Id = pc_PartitionId ch, pa_LeaderId = pc_NodeId ch\<rparr> else map_of (Partitions c) (pc_PartitionId ch)) \<and>
    (\<exists>n' ps'. map_of (Nodes c') (pc_NodeId ch) = Some n' \<and> nd_Addr n' = nd_Addr n \<and> nd_Partitions n' = Some ps')"
  using assms by (simp add: FsmApplyPartitionChange_def Let_def AList.update_conv')

text \<open>A node that leads the cluster and joins a partition whose raft group another node leads takes over that
  partition in the cluster state: the command that announces the start of the joining carries its role in the
  cluster, and the one that follows, which carries its role in the partition, does not undo it. All operations
  on the keys of the partition are then sent to a node that has no engine for it, and fail.\<close>

theorem joining_leader_takes_over_the_partition:
  assumes "me_Role V = RoleLeader" and "me_expiredJoining V p = False" and "\<not> already_joined p m"
    and "me_Start V p = Inr x" and "zp_IsLeader x = False" and "zp_Engine x = None"
    and "me_LeaderTimeout V p = False" and "me_expiredInitializing V p = False"
    and "mb_commands m = []" and "map_of (Nodes c) (zn_ID (mb_node m)) = Some n" and "nd_Partitions n = Some ps"
  shows "\<exists>m' c'. handlePartitionStateJoining V p m = (Ok (), m') \<and> PartitionEngine (mb_node m') p = None \<and>
    apply_changes (mb_commands m') c = Ok c' \<and> PartitionLeaderWithID True c' p = (nd_Addr n, zn_ID (mb_node m))"
proof -
  let ?i = "zn_ID (mb_node m)"
  let ?a = "\<lparr>pc_NodeId = ?i, pc_PartitionId = p, pc_State = NodePartitionStateInitializing, pc_Role = RoleLeader\<rparr>"
  let ?b = "\<lparr>pc_NodeId = ?i, pc_PartitionId = p, pc_State = NodePartitionStateInitialized, pc_Role = RoleFollower\<rparr>"
  let ?m = "(set_running p x m)\<lparr>mb_commands := [?a, ?b]\<rparr>"
  have j: "handlePartitionStateJoining V p m = (Ok (), ?m)"
    using joining_commands [OF assms(2-5,7,8)] assms(1,9) by simp
  have e: "PartitionEngine (mb_node ?m) p = None"
    using assms(6) by (simp add: PartitionEngine_def set_running_def AList.update_conv')
  obtain c1 n1 ps1 where c1: "FsmApplyPartitionChange ?a c = Ok c1"
    "map_of (Partitions c1) p = Some \<lparr>pa_Id = p, pa_LeaderId = ?i\<rparr>"
    "map_of (Nodes c1) ?i = Some n1" "nd_Addr n1 = nd_Addr n" "nd_Partitions n1 = Some ps1"
    using partition_change_known [of c ?a n ps] assms(10,11) by auto
  obtain c2 n2 where c2: "FsmApplyPartitionChange ?b c1 = Ok c2" "map_of (Partitions c2) p = Some \<lparr>pa_Id = p, pa_LeaderId = ?i\<rparr>"
    "map_of (Nodes c2) ?i = Some n2" "nd_Addr n2 = nd_Addr n"
    using partition_change_known [of c1 ?b n1 ps1] c1 by auto
  have "apply_changes (mb_commands ?m) c = Ok c2" using c1(1) c2(1) by (simp add: apply_changes_def)
  moreover have "PartitionLeaderWithID True c2 p = (nd_Addr n, ?i)" using c2 by (simp add: PartitionLeaderWithID_def)
  ultimately show ?thesis using j e by blast
qed

section \<open>Witnesses\<close>

definition zendemo_env :: member_env where
  "zendemo_env = \<lparr>me_dial = nw_dial zendemo_net, me_clusterLeader = (''n2'', ''n2''), me_Role = RoleLeader,
     me_Start = (\<lambda>_. Inr (zendemo_partition None)), me_Stop = (\<lambda>_. None), me_LeaderTimeout = (\<lambda>_. False), me_Migrate = (\<lambda>_. None),
     me_Engine = (\<lambda>_. NewEngine), me_NodeCommand = (\<lambda>_. None), me_expired = False, me_expiredJoining = (\<lambda>_. False),
     me_expiredInitializing = (\<lambda>_. False)\<rparr>"

definition zendemo_follower :: member where
  "zendemo_follower = \<lparr>mb_node = zendemo_node ''n2'' None, mb_commands = [], mb_rejoining = []\<rparr>"

definition zendemo_elected :: member where
  "zendemo_elected = snd (performMemberOperations zendemo_env
     (set_running 1 ((zendemo_partition None)\<lparr>zp_IsLeader := True\<rparr>) zendemo_follower))"

lemma zendemo_follower_running: "running_partition 1 zendemo_follower = Some (zendemo_partition None)"
  by (simp add: running_partition_def GetPartition_def zendemo_follower_def zendemo_node_def)

lemma zendemo_later: "later 1 zendemo_follower zendemo_elected"
proof -
  have "later 1 zendemo_follower (set_running 1 ((zendemo_partition None)\<lparr>zp_IsLeader := True\<rparr>) zendemo_follower)"
    by (rule later.elected [OF later.now zendemo_follower_running])
  moreover have "initialized 1 (set_running 1 ((zendemo_partition None)\<lparr>zp_IsLeader := True\<rparr>) zendemo_follower)"
    by (simp add: initialized_def set_running_def zendemo_follower_def zendemo_node_def zendemo_cluster_def GetNode_def
        zendemo_member_def node_partitions_def)
  ultimately show ?thesis unfolding zendemo_elected_def by (rule later.notified)
qed

theorem elected_follower_gets_no_engine_witness:
  "\<exists>z. fst (node_operation zendemo_deps zendemo_net ''n1'' 4096 Op_ResolveIncident
      [(''n1'', zendemo_node ''n1'' None), (''n2'', mb_node zendemo_elected)]) = Ok (Inl z) \<and> ze_Code z = TechnicalErrorCode"
proof -
  have "map_of [(''n1'', zendemo_node ''n1'' None), (''n2'', mb_node zendemo_elected)] ''n1'' = Some (zendemo_node ''n1'' None)"
    "map_of [(''n1'', zendemo_node ''n1'' None), (''n2'', mb_node zendemo_elected)] ''n2'' = Some (mb_node zendemo_elected)"
    by simp_all
  from elected_follower_gets_no_engine [where k = 4096 and D = zendemo_deps and op = Op_ResolveIncident, unfolded zendemo_key, OF zendemo_follower_running _ zendemo_later this(1)
      zendemo_conns zendemo_leader _ zendemo_up(3) this(2)]
  show ?thesis by (simp add: zendemo_partition_def)
qed

theorem joining_leader_takes_over_the_partition_witness:
  "\<exists>m' c'. handlePartitionStateJoining zendemo_env 7 zendemo_follower = (Ok (), m') \<and> PartitionEngine (mb_node m') 7 = None \<and>
    apply_changes (mb_commands m') (zendemo_cluster\<lparr>Partitions := (7, \<lparr>pa_Id = 7, pa_LeaderId = ''n1''\<rparr>) # Partitions zendemo_cluster\<rparr>) = Ok c' \<and>
    PartitionLeaderWithID True c' 7 = (''n2'', ''n2'')"
proof -
  let ?c = "zendemo_cluster\<lparr>Partitions := (7, \<lparr>pa_Id = 7, pa_LeaderId = ''n1''\<rparr>) # Partitions zendemo_cluster\<rparr>"
  have "\<not> already_joined 7 zendemo_follower"
    by (simp add: already_joined_def zendemo_follower_def zendemo_node_def zendemo_cluster_def GetNode_def zendemo_member_def
        node_partitions_def running_partition_def GetPartition_def)
  moreover have "map_of (Nodes ?c) (zn_ID (mb_node zendemo_follower)) = Some (zendemo_member ''n2'' RoleLeader)"
    by (simp add: zendemo_cluster_def zendemo_follower_def zendemo_node_def)
  moreover have "mb_commands zendemo_follower = []" "zn_ID (mb_node zendemo_follower) = ''n2''"
    by (simp_all add: zendemo_follower_def zendemo_node_def)
  ultimately show ?thesis
    using joining_leader_takes_over_the_partition [of zendemo_env 7 zendemo_follower "zendemo_partition None" ?c
      "zendemo_member ''n2'' RoleLeader"] by (simp add: zendemo_env_def zendemo_partition_def zendemo_member_def)
qed

end
