(* ===== verification/Zen_Messages.thy ===== *)
theory Zen_Messages
  imports Zen_Routing Sql_Batches
begin

text \<open>
  Message subscriptions across partitions. A subscription lives in the partition of its instance; a pointer to
  it, keyed by message name and correlation key, lives in the partition computed from the correlation key.
  \<open>DB_SaveMessageSubscriptionPointer\<close> is \<^verbatim>\<open>SaveMessageSubscriptionPointer\<close> of \<^verbatim>\<open>partition_persistence.go\<close>, run
  on the database of partition \<open>p\<close> of the node at \<open>self\<close>; publishing (\<open>node_PublishMessage\<close>) goes the other way.
\<close>

section \<open>Saving a pointer\<close>

definition upsert_pointer :: "string \<Rightarrow> partition_id \<Rightarrow> sql_MessageSubscriptionPointer \<Rightarrow> (world, unit) eng" where
  "upsert_pointer self p ptr =
     wrap (Wrapf ''failed to save message subscription pointer for message subscription'')
       (on_node self (on_database p (DB_ExecContext (St_SaveMessageSubscriptionPointer ptr))))"

text \<open>The check before an active pointer is replaced: the subscription it points to must not be active in its partition.\<close>

definition replace_pointer ::
  "network \<Rightarrow> string \<Rightarrow> partition_id \<Rightarrow> sql_MessageSubscriptionPointer \<Rightarrow> sql_MessageSubscriptionPointer \<Rightarrow> (world, unit) eng" where
  "replace_pointer N self p ptr oldPointer =
     bind (wrap (Wrapf ''failed to get partition leader client'')
       (on_node self (node_PartitionLeader N (partition_of_key (smp_MessageSubscriptionKey oldPointer))))) (\<lambda>messageLeader.
     bind (attempt (rpc N messageLeader (server_FindActiveMessage (smp_Name oldPointer) (smp_CorrelationKey oldPointer)
       (smp_ExecutionTokenKey oldPointer)))) (\<lambda>r.
       case r of
         Inl e \<Rightarrow> if status_Code e = ''NotFound'' then upsert_pointer self p ptr
                  else throw (Wrapf ''failed to check if message assigned to pointer is active'' e)
       | Inr _ \<Rightarrow> throw (Errorf ''message has already active subscription for this correlationKey'')))"

definition save_local ::
  "network \<Rightarrow> string \<Rightarrow> partition_id \<Rightarrow> sql_MessageSubscriptionPointer \<Rightarrow> (world, unit) eng" where
  "save_local N self p ptr =
     bind (on_node self (on_database p (query (q_FindMessageSubscriptionPointer (smp_CorrelationKey ptr) (smp_Name ptr)
       (ActivityState_int ActivityStateActive))))) (\<lambda>r.
       case r of
         Inl _ \<Rightarrow> upsert_pointer self p ptr
       | Inr oldPointer \<Rightarrow>
           if smp_State ptr \<noteq> ActivityState_int ActivityStateActive then upsert_pointer self p ptr
           else replace_pointer N self p ptr oldPointer)"

text \<open>An error result comes together with an error of the call, so that only the latter is seen.\<close>

definition save_remote ::
  "network \<Rightarrow> string \<Rightarrow> partition_id \<Rightarrow> sql_MessageSubscriptionPointer \<Rightarrow> (world, unit) eng" where
  "save_remote N self home ptr =
     bind (wrap (Wrapf ''failed to get client for partition leader'') (on_node self (node_PartitionLeader N home))) (\<lambda>leader.
     bind (wrap (\<lambda>e. Joined (Errorf ''failed to save message subscription pointer for message subscription'') e)
       (rpc N leader (server_SetMessageSubscriptionPointer home ptr))) (\<lambda>r.
       case r of
         RespError e \<Rightarrow> throw (Joined (Errorf ''failed to save message subscription pointer for message subscription'')
           (Errorf (case er_Message e of None \<Rightarrow> [] | Some m \<Rightarrow> m)))
       | Resp _ \<Rightarrow> ret ()))"

definition DB_SaveMessageSubscriptionPointer ::
  "network \<Rightarrow> string \<Rightarrow> partition_id \<Rightarrow> sql_MessageSubscriptionPointer \<Rightarrow> (world, unit) eng" where
  "DB_SaveMessageSubscriptionPointer N self p ptr =
     bind (on_node self (gets (\<lambda>n. (home_partition n (smp_CorrelationKey ptr), IsPartitionLeader n p)))) (\<lambda>(home, leads).
       if p = home \<and> leads then save_local N self p ptr else save_remote N self home ptr)"

text \<open>\<^verbatim>\<open>SaveMessageSubscription\<close> of the database, and the flush of a batch of partition \<open>p\<close> on the node at \<open>self\<close>.\<close>

definition DB_SaveMessageSubscription :: "network \<Rightarrow> string \<Rightarrow> partition_id \<Rightarrow> MessageSubscription \<Rightarrow> (world, unit) eng" where
  "DB_SaveMessageSubscription N self p m =
     bind (wrap (Wrapf ''failed to update message pointer'') (DB_SaveMessageSubscriptionPointer N self p (pointer_of m))) (\<lambda>_.
       on_node self (on_database p (SaveMessageSubscriptionWith DB_ExecContext m)))"

definition flush_at :: "network \<Rightarrow> string \<Rightarrow> partition_id \<Rightarrow> 'a DBBatch \<Rightarrow> (world, 'a list) eng" where
  "flush_at N self p b =
     DBBatch_Flush (DB_SaveMessageSubscriptionPointer N self p) (\<lambda>sts. on_node self (on_database p (ExecuteStatements sts))) b"

section \<open>The pointer that is stored\<close>

lemma stored_pointer:
  "q_FindMessageSubscriptionPointer (smp_CorrelationKey ptr) (smp_Name ptr) st
     (projr (q_SaveMessageSubscriptionPointer ptr d)) =
   (if smp_State ptr = st
    then Inr (case map_of (message_subscription_pointer d) (pointer_key ptr) of None \<Rightarrow> ptr
      | Some old \<Rightarrow> old\<lparr>smp_State := smp_State ptr, smp_CreatedAt := smp_CreatedAt ptr,
          smp_MessageSubscriptionKey := smp_MessageSubscriptionKey ptr, smp_ExecutionTokenKey := smp_ExecutionTokenKey ptr\<rparr>)
    else Inl sql_ErrNoRows)"
  by (simp add: q_FindMessageSubscriptionPointer_def q_SaveMessageSubscriptionPointer_def pointer_key_def AList.update_conv'
      split: option.splits)

text \<open>\<open>points_to\<close>: in the copy of partition \<open>p\<close> of node \<open>n\<close> the message name and the correlation key lead to
  the subscription with key \<open>k\<close>.\<close>

definition points_to :: "ZenNode \<Rightarrow> partition_id \<Rightarrow> string \<Rightarrow> string \<Rightarrow> int \<Rightarrow> bool" where
  "points_to n p name ck k \<longleftrightarrow> (\<exists>x r. GetPartition n p = Some x \<and>
     q_FindMessageSubscriptionPointer ck name (ActivityState_int ActivityStateActive) (db_Store (zp_DB x)) = Inr r \<and>
     smp_MessageSubscriptionKey r = k)"

definition node_wf :: "ZenNode \<Rightarrow> bool" where
  "node_wf n \<longleftrightarrow> (\<forall>p x. GetPartition n p = Some x \<longrightarrow> zp_PartitionId x = p)"

lemma save_pointer_stmt:
  "DB_ExecContext (St_SaveMessageSubscriptionPointer ptr) d =
     (Ok (), d\<lparr>db_Store := projr (q_SaveMessageSubscriptionPointer ptr (db_Store d))\<rparr>)"
  by (simp add: DB_ExecContext_def ExecuteStatements_def q_SaveMessageSubscriptionPointer_def)

lemma upsert_on_node:
  assumes "GetPartition n p = Some x" and "smp_State ptr = ActivityState_int ActivityStateActive"
  shows "\<exists>n'. on_database p (DB_ExecContext (St_SaveMessageSubscriptionPointer ptr)) n = (Ok (), n') \<and>
    points_to n' p (smp_Name ptr) (smp_CorrelationKey ptr) (smp_MessageSubscriptionKey ptr) \<and>
    zn_ClusterState n' = zn_ClusterState n \<and> zn_client n' = zn_client n"
proof -
  let ?d = "(zp_DB x)\<lparr>db_Store := projr (q_SaveMessageSubscriptionPointer ptr (db_Store (zp_DB x)))\<rparr>"
  let ?n = "set_partition p (\<lambda>x. x\<lparr>zp_DB := ?d\<rparr>) n"
  have "on_database p (DB_ExecContext (St_SaveMessageSubscriptionPointer ptr)) n = (Ok (), ?n)"
    using assms(1) by (simp add: on_database_def GetPartition_def save_pointer_stmt)
  moreover have "GetPartition ?n p = Some (x\<lparr>zp_DB := ?d\<rparr>)"
    using assms(1) by (simp add: GetPartition_def map_of_set_partition)
  moreover from this have "points_to ?n p (smp_Name ptr) (smp_CorrelationKey ptr) (smp_MessageSubscriptionKey ptr)"
    unfolding points_to_def using assms(2) by (auto simp: stored_pointer split: option.splits)
  moreover have "zn_ClusterState ?n = zn_ClusterState n" "zn_client ?n = zn_client n" by (simp_all add: set_partition_def)
  ultimately show ?thesis by blast
qed

section \<open>Saving from another partition\<close>

lemma handler_saves:
  assumes "GetPartition l home = Some x" and "zp_PartitionId x = home" and "home_partition l (smp_CorrelationKey ptr) = home"
    and "zp_IsLeader x" and "smp_State ptr = ActivityState_int ActivityStateActive"
  shows "\<exists>l'. server_SetMessageSubscriptionPointer home ptr l = (Ok (Resp ()), l') \<and>
    points_to l' home (smp_Name ptr) (smp_CorrelationKey ptr) (smp_MessageSubscriptionKey ptr) \<and> zn_ClusterState l' = zn_ClusterState l"
  using upsert_on_node [OF assms(1,5)] assms(1-4)
  by (auto simp: server_SetMessageSubscriptionPointer_def bind_def gets_def wrap_def reply_def ret_def)

lemma node_PartitionLeader_up:
  assumes "conns_ok N (zn_client n)" and "leader_seen n p = a" and "a \<noteq> []" and "nw_dial N a = Inr c"
  shows "\<exists>c'. node_PartitionLeader N p n = (Ok c', with_client N a n) \<and> nw_peer N c' = a"
proof -
  obtain c' m where c': "client_For (nw_dial N) a (zn_client n) = (Inr c', m)"
    using client_For_dialled [OF assms(4), of "zn_client n"] by (metis prod.collapse)
  then show ?thesis using assms client_For_conn(1) [OF assms(1) c']
    by (simp add: node_PartitionLeader_For node_For_eval)
qed

text \<open>What a call made with a connection from \<open>node_PartitionLeader\<close> does.\<close>

lemma rpc_delivers:
  assumes "map_of w (nw_peer N c) = Some l" and "h l = (Ok r, l')"
  shows "rpc N c h w = (Ok r, AList.update (nw_peer N c) l' w)"
  using assms by (simp add: rpc_def wrap_def on_node_at)

lemma home_with_client [simp]: "home_partition (with_client N a n) ck = home_partition n ck"
  by (simp add: home_partition_def)

lemma home_of_state: "zn_ClusterState n = zn_ClusterState n' \<Longrightarrow> home_partition n ck = home_partition n' ck"
  by (simp add: home_partition_def)

lemma remote_save:
  assumes self: "map_of w self = Some n" "conns_ok N (zn_client n)" and other: "p \<noteq> home_partition n (smp_CorrelationKey ptr)"
    and a: "leader_seen n (home_partition n (smp_CorrelationKey ptr)) = a" "a \<noteq> []" "a \<noteq> self" "nw_dial N a = Inr c"
    and l: "map_of w a = Some l" "GetPartition l (home_partition n (smp_CorrelationKey ptr)) = Some x" "zp_IsLeader x"
      "node_wf l" "zn_ClusterState l = zn_ClusterState n"
    and "smp_State ptr = ActivityState_int ActivityStateActive"
  shows "\<exists>w' l'. DB_SaveMessageSubscriptionPointer N self p ptr w = (Ok (), w') \<and> map_of w' a = Some l' \<and>
    zn_ClusterState l' = zn_ClusterState l \<and>
    points_to l' (home_partition n (smp_CorrelationKey ptr)) (smp_Name ptr) (smp_CorrelationKey ptr) (smp_MessageSubscriptionKey ptr)"
proof -
  let ?h = "home_partition n (smp_CorrelationKey ptr)"
  have hl: "home_partition l (smp_CorrelationKey ptr) = ?h" using l(5) by (rule home_of_state)
  have "zp_PartitionId x = ?h" using l(2,4) by (simp add: node_wf_def)
  from handler_saves [OF l(2) this hl l(3) assms(13)] obtain l' where
    h: "server_SetMessageSubscriptionPointer ?h ptr l = (Ok (Resp ()), l')"
    "points_to l' ?h (smp_Name ptr) (smp_CorrelationKey ptr) (smp_MessageSubscriptionKey ptr)" "zn_ClusterState l' = zn_ClusterState l" by blast
  let ?w = "AList.update self n w"
  let ?w1 = "AList.update self (with_client N a n) ?w"
  obtain c' where c': "node_PartitionLeader N ?h n = (Ok c', with_client N a n)" "nw_peer N c' = a"
    using node_PartitionLeader_up [OF self(2) a(1,2,4)] by blast
  have s: "on_node self (gets (\<lambda>n. (home_partition n (smp_CorrelationKey ptr), IsPartitionLeader n p))) w = (Ok (?h, IsPartitionLeader n p), ?w)"
    using self(1) by (simp add: on_node_at gets_def)
  have k: "on_node self (node_PartitionLeader N ?h) ?w = (Ok c', ?w1)"
    using c'(1) by (simp add: on_node_at AList.update_conv')
  have "map_of ?w1 (nw_peer N c') = Some l" using l(1) a(3) c'(2) by (simp add: AList.update_conv')
  from rpc_delivers [OF this, where h = "server_SetMessageSubscriptionPointer ?h ptr"] h(1) c'(2) have r: "rpc N c' (server_SetMessageSubscriptionPointer ?h ptr) ?w1 = (Ok (Resp ()), AList.update a l' ?w1)" by simp
  have e: "DB_SaveMessageSubscriptionPointer N self p ptr w = (Ok (), AList.update a l' ?w1)"
    using s k r other by (simp add: DB_SaveMessageSubscriptionPointer_def save_remote_def bind_def wrap_def ret_def)
  show ?thesis unfolding e using h(2,3) by (auto simp: AList.update_conv')
qed

section \<open>Publishing to the stored subscription\<close>

text \<open>A read of the database changes nothing that is observed of a node.\<close>

definition node_same :: "ZenNode \<Rightarrow> ZenNode \<Rightarrow> bool" where
  "node_same n n' \<longleftrightarrow> GetPartition n = GetPartition n' \<and> zn_ClusterState n = zn_ClusterState n' \<and> zn_StoreOpen n = zn_StoreOpen n' \<and>
     zn_client n = zn_client n' \<and> zn_jobManager n = zn_jobManager n'"

lemma node_same_engine: "node_same n n' \<Longrightarrow> PartitionEngine n = PartitionEngine n'"
  by (simp add: node_same_def PartitionEngine_def GetPartition_def fun_eq_iff)

lemma node_same_leader: "node_same n n' \<Longrightarrow> leader_seen n = leader_seen n'"
  by (simp add: node_same_def leader_seen_def fun_eq_iff)

lemma find_pointer_points:
  assumes "map_of w a = Some l" and "points_to l (home_partition l ck) name ck k"
  shows "\<exists>r l' w'. find_pointer a name ck w = (Ok (Inr r), w') \<and> smp_MessageSubscriptionKey r = k \<and> node_same l l' \<and>
    map_of w' = (map_of w)(a \<mapsto> l')"
proof -
  let ?p = "home_partition l ck"
  let ?w = "AList.update a l w"
  obtain x r where x: "GetPartition l ?p = Some x"
    "q_FindMessageSubscriptionPointer ck name (ActivityState_int ActivityStateActive) (db_Store (zp_DB x)) = Inr r"
    "smp_MessageSubscriptionKey r = k" using assms(2) by (auto simp: points_to_def)
  have f: "DB_FindActiveMessageSubscriptionPointer name ck (zp_DB x) = (Ok r, zp_DB x)"
    using x(2) by (simp add: DB_FindActiveMessageSubscriptionPointer_def find_row_def wrap_def bind_def query_def gets_def lift_sum_def ret_def)
  let ?l = "set_partition ?p (\<lambda>y. y\<lparr>zp_DB := zp_DB x\<rparr>) l"
  have q: "on_database ?p (DB_FindActiveMessageSubscriptionPointer name ck) l = (Ok r, ?l)"
    using x(1) f by (simp add: on_database_def GetPartition_def)
  have "find_pointer a name ck w = (Ok (Inr r), AList.update a ?l ?w)"
    using x(1) q by (simp add: find_pointer_def bind_def on_node_at [OF assms(1)] gets_def ztry_def attempt_def
        on_node_at AList.update_conv' zret_def ret_def)
  moreover have "GetPartition l q = GetPartition ?l q" for q
    using x(1) by (simp add: GetPartition_def map_of_set_partition)
  then have "node_same l ?l" by (simp add: node_same_def set_partition_def fun_eq_iff)
  ultimately show ?thesis using x(3) by (auto simp: AList.update_conv')
qed

lemma server_PublishMessage_eval:
  assumes "PartitionEngine n (partition_of_key k) = Some e" and "PublishMessage (dp_N D) (dp_F D) (dp_env D) k vs e = (r, e')"
  shows "PartitionEngine (snd (server_PublishMessage D k (json_Marshal vs) n)) (partition_of_key k) = Some e'"
    and "r = Ok () \<Longrightarrow> fst (server_PublishMessage D k (json_Marshal vs) n) = Ok (Resp ())"
  using assms
  by (cases r; simp add: server_PublishMessage_def with_engine_def bind_def gets_def with_variables_def respond_def attempt_def
      on_engine_eval reply_def reply_error_def ret_def)+

text \<open>C6. A message published at a node whose copy of the partition of the correlation key has an active pointer
  is delivered to the engine of the subscription that the pointer names, wherever that subscription
  lives: the engine of the subscription's partition, on the leader of that partition, makes the step
  for exactly that subscription, and its success is the caller's.\<close>

theorem published_message_reaches_its_subscription:
  assumes "map_of w a = Some l" and "conns_ok N (zn_client l)" and "points_to l (home_partition l ck) name ck k"
    and "leader_seen l (partition_of_key k) = b" and "b \<noteq> []" and "nw_dial N b = Inr c"
    and "map_of w b = Some m" and "PartitionEngine m (partition_of_key k) = Some e"
    and "PublishMessage (dp_N D) (dp_F D) (dp_env D) k vs e = (r, e')"
  shows "\<exists>m'. map_of (snd (node_PublishMessage D N a name ck vs w)) b = Some m' \<and> PartitionEngine m' (partition_of_key k) = Some e' \<and>
    (r = Ok () \<longrightarrow> fst (node_PublishMessage D N a name ck vs w) = Ok (Inr ()))"
proof -
  from find_pointer_points [OF assms(1,3)] obtain r' l' w' where p: "find_pointer a name ck w = (Ok (Inr r'), w')"
    "smp_MessageSubscriptionKey r' = k" "node_same l l'" "map_of w' = (map_of w)(a \<mapsto> l')" by blast
  have s: "map_of w' a = Some l'" "conns_ok N (zn_client l')" "leader_seen l' (partition_of_key k) = b"
    using p(3,4) assms(2,4) node_same_leader [OF p(3)] by (simp_all add: node_same_def)
  obtain m1 where m1: "map_of w' b = Some m1" "PartitionEngine m1 (partition_of_key k) = Some e"
    using p(3,4) assms(1,7,8) node_same_engine [OF p(3)] by (cases "b = a") auto
  let ?h = "server_PublishMessage D k (json_Marshal vs)"
  let ?t = "to_leader N a (partition_of_key k) ''failed to get partition leader''
      (\<lambda>e. ClusterError (Wrapf ''client call to publish message failed'' e)) (\<lambda>_. Errorf ''client call to publish message failed'') ?h"
  have e: "node_PublishMessage D N a name ck vs w = ?t w'"
    using p(1,2) by (simp add: node_PublishMessage_def zbind_def bind_def)
  from to_leader_up [OF s assms(5,6) m1(1), where h = ?h] obtain m2 mm where m2: "m2 = m1\<lparr>zn_client := mm\<rparr>"
    "fst (?t w') = call_outcome (\<lambda>e. ClusterError (Wrapf ''client call to publish message failed'' e))
       (\<lambda>_. Errorf ''client call to publish message failed'') (fst (?h m2))" "map_of (snd (?t w')) b = Some (snd (?h m2))" by blast
  have "PartitionEngine m2 (partition_of_key k) = Some e" using m1(2) m2(1) by simp
  note ev = server_PublishMessage_eval [OF this assms(9)]
  show ?thesis unfolding e using m2(2,3) ev by simp
qed

lemma points_to_unique: "points_to n p name ck k \<Longrightarrow> points_to n p name ck k' \<Longrightarrow> k = k'"
  by (auto simp: points_to_def)

text \<open>C40. The rule that a message name and a correlation key have at most one active subscription does not hold across
  partitions: a subscription saved by an instance of another partition than that of the correlation
  key replaces the pointer there without any check, although that pointer is active, so that the
  subscription it named is not reached by messages any more. (The check that its absence violates is made only when the pointer
  is saved in the partition of the correlation key itself.)\<close>

theorem remote_subscription_displaces_active_one:
  assumes "map_of w self = Some n" and "conns_ok N (zn_client n)" and "p \<noteq> home_partition n (smp_CorrelationKey ptr)"
    and "leader_seen n (home_partition n (smp_CorrelationKey ptr)) = a" and "a \<noteq> []" and "a \<noteq> self" and "nw_dial N a = Inr c"
    and "map_of w a = Some l" and "GetPartition l (home_partition n (smp_CorrelationKey ptr)) = Some x" and "zp_IsLeader x"
    and "node_wf l" and "zn_ClusterState l = zn_ClusterState n" and "smp_State ptr = ActivityState_int ActivityStateActive"
    and "points_to l (home_partition n (smp_CorrelationKey ptr)) (smp_Name ptr) (smp_CorrelationKey ptr) old"
    and "old \<noteq> smp_MessageSubscriptionKey ptr"
  shows "\<exists>w' l'. DB_SaveMessageSubscriptionPointer N self p ptr w = (Ok (), w') \<and> map_of w' a = Some l' \<and>
    \<not> points_to l' (home_partition l' (smp_CorrelationKey ptr)) (smp_Name ptr) (smp_CorrelationKey ptr) old \<and>
    points_to l' (home_partition l' (smp_CorrelationKey ptr)) (smp_Name ptr) (smp_CorrelationKey ptr) (smp_MessageSubscriptionKey ptr)"
proof -
  from remote_save [OF assms(1-13)] obtain w' l' where s: "DB_SaveMessageSubscriptionPointer N self p ptr w = (Ok (), w')"
    "map_of w' a = Some l'" "zn_ClusterState l' = zn_ClusterState l"
    "points_to l' (home_partition n (smp_CorrelationKey ptr)) (smp_Name ptr) (smp_CorrelationKey ptr) (smp_MessageSubscriptionKey ptr)"
    by blast
  have "home_partition l' (smp_CorrelationKey ptr) = home_partition n (smp_CorrelationKey ptr)"
    using s(3) assms(12) by (intro home_of_state) simp
  with s points_to_unique [OF _ s(4), of old] assms(15) show ?thesis by auto
qed

section \<open>Two partitions\<close>

text \<open>A cluster of two partitions, led by \<open>n1\<close> and \<open>n2\<close>. The correlation key of the example belongs to partition 2,
  the subscriptions belong to instances of partition 1.\<close>

definition zenpair_member :: "string \<Rightarrow> partition_id \<Rightarrow> Node" where
  "zenpair_member i p = \<lparr>nd_Id = i, nd_Addr = i, nd_Suffrage = Voter, nd_State = NodeStateStarted, nd_Role = RoleFollower,
     nd_Partitions = Some [(p, \<lparr>np_Id = p, np_State = NodePartitionStateInitialized, np_Role = RoleLeader\<rparr>)]\<rparr>"

definition zenpair_cluster :: Cluster where
  "zenpair_cluster = \<lparr>DesiredPartitions = 2,
     Partitions = [(1, \<lparr>pa_Id = 1, pa_LeaderId = ''n1''\<rparr>), (2, \<lparr>pa_Id = 2, pa_LeaderId = ''n2''\<rparr>)],
     Nodes = [(''n1'', zenpair_member ''n1'' 1), (''n2'', zenpair_member ''n2'' 2)]\<rparr>"

definition zenpair_raw :: TDefinitions where
  "zenpair_raw = \<lparr>def_Id = ''defs'',
     def_Process = \<lparr>proc_Id = ''pay'', proc_Name = [],
       proc_Container = FlowElements [] [demo_end\<lparr>IncomingAssociationsIDs := [''f1'']\<rparr>] [mk_flow ''f1'' ''wait'' ''end'' []]
         [] [] [] [] [] [] [] []
         [TFlowNode.extend (mk_node ''wait'' [] [''f1'']) (TIntermediateCatchEvent.fields (Some (TMessageEventDefinition ''m'')) [])]
         [] [] [] [] []\<rparr>,
     def_Messages = [\<lparr>msg_Id = ''m'', msg_Name = ''paid'', CorrelationKey = ''a''\<rparr>]\<rparr>"

definition zenpair_instance :: ProcessInstance where
  "zenpair_instance = bare_instance\<lparr>pi_Definition :=
     bare_pd\<lparr>pd_Definitions := (case ResolveReferences zenpair_raw of Ok d \<Rightarrow> d | _ \<Rightarrow> zenpair_raw)\<rparr>\<rparr>"

definition zenpair_token :: ExecutionToken where
  "zenpair_token = (demo_token ''wait'' TokenStateWaiting)\<lparr>tok_Key := 4097\<rparr>"

definition zenpair_engine :: estate where
  "zenpair_engine = NewEngine\<lparr>objs := [zenpair_instance],
     mem := NewStorage\<lparr>ProcessInstances := [(500, 0)], ExecutionTokens := [(4097, zenpair_token)],
       MessageSubscriptions := [(4096, \<lparr>ms_Key = 4096, ms_ElementId = ''wait'', ms_ProcessDefinitionKey = 900, ms_ProcessInstanceKey = 500,
         ms_Name = ''paid'', ms_CorrelationKey = ''a'', ms_State = ActivityStateActive, ms_CreatedAt = 0, ms_Token = zenpair_token\<rparr>)]\<rparr>\<rparr>"

definition zenpair_node :: "string \<Rightarrow> partition_id \<Rightarrow> estate \<Rightarrow> Database \<Rightarrow> ZenNode" where
  "zenpair_node i p e s = (zendemo_node i None)\<lparr>zn_ClusterState := zenpair_cluster,
     zn_partitions := [(p, (zendemo_partition (Some e))\<lparr>zp_PartitionId := p, zp_DB := (NewDB (uint p))\<lparr>db_Store := s\<rparr>\<rparr>)]\<rparr>"

definition zenpair_pointer :: "int \<Rightarrow> sql_MessageSubscriptionPointer" where
  "zenpair_pointer k = \<lparr>smp_Name = ''paid'', smp_CorrelationKey = ''a'', smp_State = 1, smp_CreatedAt = 0,
     smp_MessageSubscriptionKey = k, smp_ExecutionTokenKey = 4097\<rparr>"

definition zenpair_world :: world where
  "zenpair_world = [(''n1'', zenpair_node ''n1'' 1 zenpair_engine new_Database),
     (''n2'', zenpair_node ''n2'' 2 NewEngine (projr (q_SaveMessageSubscriptionPointer (zenpair_pointer 4096) new_Database)))]"

lemma zenpair_nodes:
  "map_of zenpair_world ''n1'' = Some (zenpair_node ''n1'' 1 zenpair_engine new_Database)"
  "map_of zenpair_world ''n2'' = Some (zenpair_node ''n2'' 2 NewEngine (projr (q_SaveMessageSubscriptionPointer (zenpair_pointer 4096) new_Database)))"
  by (simp_all add: zenpair_world_def)

lemma zenpair_leaders: "leader_seen (zenpair_node i p e s) 1 = ''n1''" "leader_seen (zenpair_node i p e s) 2 = ''n2''"
  by (simp_all add: leader_seen_def PartitionLeaderWithID_def zenpair_node_def zenpair_cluster_def zenpair_member_def
      zendemo_node_def)

lemma zenpair_home: "home_partition (zenpair_node i p e s) ''a'' = 2"
  by (simp add: home_partition_def GetPartitionIdFromString_def zenpair_node_def zenpair_cluster_def runes_def)

lemma zenpair_conns: "conns_ok zendemo_net (zn_client (zenpair_node i p e s))"
  by (simp add: zenpair_node_def conns_ok_def zendemo_net_def zendemo_node_def)


lemma zenpair_parts:
  "GetPartition (zenpair_node i p e s) q = (if q = p then Some ((zendemo_partition (Some e))\<lparr>zp_PartitionId := p,
     zp_DB := (NewDB (uint p))\<lparr>db_Store := s\<rparr>\<rparr>) else None)"
  "PartitionEngine (zenpair_node i p e s) p = Some e" "zn_ClusterState (zenpair_node i p e s) = zenpair_cluster"
  by (simp_all add: GetPartition_def PartitionEngine_def zenpair_node_def zendemo_partition_def)

lemma zenpair_points: "points_to (zenpair_node ''n2'' 2 NewEngine (projr (q_SaveMessageSubscriptionPointer (zenpair_pointer 4096) new_Database)))
    2 ''paid'' ''a'' 4096"
  using stored_pointer [of "zenpair_pointer 4096" 1 new_Database]
  by (simp add: points_to_def zenpair_parts zenpair_pointer_def new_Database_def)

lemma zenpair_publish: "PublishMessage (dp_N zendemo_deps) (dp_F zendemo_deps) (dp_env zendemo_deps) 4096 Map.empty zenpair_engine =
    (Ok (), snd (PublishMessage 3 3 demo_env 4096 Map.empty zenpair_engine))"
proof -
  have "fst (PublishMessage 3 3 demo_env 4096 Map.empty zenpair_engine) = Ok ()" by code_simp
  then show ?thesis by (simp add: zendemo_deps_def prod_eq_iff)
qed

theorem published_message_reaches_its_subscription_witness:
  "fst (node_PublishMessage zendemo_deps zendemo_net ''n2'' ''paid'' ''a'' Map.empty zenpair_world) = Ok (Inr ()) \<and>
   (\<exists>m' e'. map_of (snd (node_PublishMessage zendemo_deps zendemo_net ''n2'' ''paid'' ''a'' Map.empty zenpair_world)) ''n1'' = Some m' \<and>
     PartitionEngine m' 1 = Some e' \<and> map pi_State (objs e') = [ActivityStateCompleted])"
proof -
  have d: "nw_dial zendemo_net ''n1'' = Inr 1" by (simp add: zendemo_net_def)
  have s: "map pi_State (objs (snd (PublishMessage 3 3 demo_env 4096 Map.empty zenpair_engine))) = [ActivityStateCompleted]" by code_simp
  show ?thesis
    using published_message_reaches_its_subscription [OF zenpair_nodes(2) zenpair_conns, unfolded zendemo_key,
      where ck = "''a''" and name = "''paid''" and k = 4096 and b = "''n1''" and c = 1 and D = zendemo_deps and vs = Map.empty,
      unfolded zenpair_home zendemo_key, OF zenpair_points zenpair_leaders(1) _ d zenpair_nodes(1) zenpair_parts(2) zenpair_publish]
      s by auto
qed

theorem remote_subscription_displaces_active_one_witness:
  "\<exists>w' l'. DB_SaveMessageSubscriptionPointer zendemo_net ''n1'' 1 (zenpair_pointer 8192) zenpair_world = (Ok (), w') \<and>
    map_of w' ''n2'' = Some l' \<and> \<not> points_to l' (home_partition l' ''a'') ''paid'' ''a'' 4096 \<and>
    points_to l' (home_partition l' ''a'') ''paid'' ''a'' 8192"
proof -
  have d: "nw_dial zendemo_net ''n2'' = Inr 2" by (simp add: zendemo_net_def)
  have wf: "node_wf (zenpair_node i p e s)" for i p e s by (simp add: node_wf_def zenpair_parts)
  have p: "smp_CorrelationKey (zenpair_pointer k) = ''a''" "smp_Name (zenpair_pointer k) = ''paid''"
    "smp_MessageSubscriptionKey (zenpair_pointer k) = k" "smp_State (zenpair_pointer k) = ActivityState_int ActivityStateActive" for k
    by (simp_all add: zenpair_pointer_def)
  show ?thesis
    using remote_subscription_displaces_active_one [OF zenpair_nodes(1) zenpair_conns, where p = 1 and ptr = "zenpair_pointer 8192"
        and a = "''n2''" and c = 2 and old = 4096, unfolded p zenpair_home, OF _ zenpair_leaders(2) _ _ d zenpair_nodes(2)]
      wf zenpair_points by (simp add: zenpair_parts zendemo_partition_def)
qed

end
