(* ===== verification/Zen_Fanout.thy ===== *)
theory Zen_Fanout
  imports Zen_Routing
begin

text \<open>
  Reads that ask every partition (\<^verbatim>\<open>GetJobs\<close>, \<^verbatim>\<open>GetProcessInstances\<close>, decisions and statistics). Their goroutines run in an
  order nobody controls; the locale \<open>partition_reader\<close> collects what makes their result independent of it,
  and is interpreted for the per-partition reads of the node.
\<close>

section \<open>Worlds that answer reads alike\<close>

definition client_available :: "network \<Rightarrow> ClientManager \<Rightarrow> string \<Rightarrow> bool" where
  "client_available N m a \<longleftrightarrow> map_of (activeClients m) a \<noteq> None \<or> nw_dial N a \<in> range Inr"

definition node_like :: "network \<Rightarrow> ZenNode \<Rightarrow> ZenNode \<Rightarrow> bool" where
  "node_like N n n' \<longleftrightarrow> zn_partitions n = zn_partitions n' \<and> zn_ClusterState n = zn_ClusterState n' \<and>
     conns_ok N (zn_client n) \<and> conns_ok N (zn_client n') \<and>
     client_available N (zn_client n) = client_available N (zn_client n')"

definition reads_like :: "network \<Rightarrow> world \<Rightarrow> world \<Rightarrow> bool" where
  "reads_like N w w' \<longleftrightarrow> (\<forall>a. rel_option (node_like N) (map_of w a) (map_of w' a))"

lemma reads_like_refl: "world_conns N w \<Longrightarrow> reads_like N w w"
  unfolding reads_like_def world_conns_def by (auto intro: option.rel_refl_strong simp: node_like_def)

lemma reads_likeD: "reads_like N w w' \<Longrightarrow> rel_option (node_like N) (map_of w a) (map_of w' a)"
  by (simp add: reads_like_def)

lemma reads_like_at:
  assumes "reads_like N w w'" and "map_of w a = Some n"
  obtains n' where "map_of w' a = Some n'" and "node_like N n n'"
  using reads_likeD [OF assms(1), of a] assms(2) by (auto simp: option_rel_Some1)

lemma reads_like_down: "reads_like N w w' \<Longrightarrow> map_of w a = None \<longleftrightarrow> map_of w' a = None"
  using reads_likeD [of N w w' a] by (cases "map_of w a"; cases "map_of w' a") auto

lemma reads_like_sym:
  assumes "reads_like N w w'"
  shows "reads_like N w' w"
proof (unfold reads_like_def, rule allI)
  fix a
  show "rel_option (node_like N) (map_of w' a) (map_of w a)" using reads_likeD [OF assms, of a]
    by (cases "map_of w a"; cases "map_of w' a") (auto simp: node_like_def)
qed

lemma client_For_available:
  assumes "client_For (nw_dial N) a m = (r, m')"
  shows "client_available N m a \<longleftrightarrow> r \<in> range Inr" and "client_available N m' = client_available N m"
    and "\<not> client_available N m a \<Longrightarrow> r = Inl (Wrapf ''failed to create new GRPC client'' (projl (nw_dial N a)))"
proof -
  have "(client_available N m a \<longleftrightarrow> r \<in> range Inr) \<and> client_available N m' = client_available N m \<and>
      (\<not> client_available N m a \<longrightarrow> r = Inl (Wrapf ''failed to create new GRPC client'' (projl (nw_dial N a))))"
  proof (cases "map_of (activeClients m) a")
    case (Some c)
    with assms show ?thesis by (auto simp: client_available_def client_For_def)
  next
    case None
    show ?thesis
    proof (cases "nw_dial N a")
      case (Inl e)
      with None assms show ?thesis by (auto simp: client_available_def client_For_def newClient_def)
    next
      case (Inr c)
      then have r: "r = Inr c" "m' = m\<lparr>activeClients := AList.update a c (activeClients m)\<rparr>"
        using None assms by (simp_all add: client_For_def newClient_def)
      have "client_available N m a" using Inr by (simp add: client_available_def)
      moreover have "client_available N m' x = client_available N m x" for x
        using Inr r(2) by (cases "x = a") (simp_all add: client_available_def AList.update_conv')
      ultimately show ?thesis using r(1) by (simp add: fun_eq_iff)
    qed
  qed
  then show "client_available N m a \<longleftrightarrow> r \<in> range Inr" and "client_available N m' = client_available N m"
    and "\<not> client_available N m a \<Longrightarrow> r = Inl (Wrapf ''failed to create new GRPC client'' (projl (nw_dial N a)))" by blast+
qed

lemma connected_reads_like:
  assumes "map_of w self = Some n" and "reads_like N w w0"
  shows "reads_like N (caller_connected N self a n w) w0"
proof -
  from reads_like_at [OF assms(2,1)] obtain n' where n': "map_of w0 self = Some n'" "node_like N n n'" by blast
  then have c: "conns_ok N (zn_client n)" by (simp add: node_like_def)
  obtain r m where r: "client_For (nw_dial N) a (zn_client n) = (r, m)" by fastforce
  have "conns_ok N m"
  proof (cases r)
    case (Inl e)
    with client_For_fails [OF c, of a e m] r c show ?thesis by simp
  next
    case (Inr x)
    with client_For_conn(2) [OF c, of a x m] r show ?thesis by simp
  qed
  with n'(2) r client_For_available(2) [OF r] have "node_like N (with_client N a n) n'"
    by (simp add: node_like_def with_client_def)
  with assms(2) n'(1) show ?thesis by (simp add: reads_like_def caller_connected_def AList.update_conv')
qed

section \<open>Groups of reads\<close>

locale partition_reader =
  fixes N :: network and reader :: "partition_id \<Rightarrow> 'a list zop"
  assumes like: "reads_like N w w' \<Longrightarrow> fst (reader i w) = fst (reader i w')"
    and keeps: "reads_like N w w' \<Longrightarrow> reads_like N (snd (reader i w)) w'"
begin

lemma group_answers:
  assumes "\<And>i. i \<in> set is \<Longrightarrow> fst (reader i w0) = Ok (Inr (v i))" and "reads_like N w w0"
  shows "fst (run_group is reader w) = Ok (Inr (map (\<lambda>i. (i, v i)) is)) \<and> reads_like N (snd (run_group is reader w)) w0"
  using assms
proof (induction "is" arbitrary: w)
  case Nil
  then show ?case by (simp add: zret_def ret_def)
next
  case (Cons i "is")
  obtain w1 where f: "reader i w = (Ok (Inr (v i)), w1)" using like [OF Cons.prems(2)] Cons.prems(1) [of i]
    by (metis list.set_intros(1) prod.collapse)
  have "reads_like N w1 w0" using keeps [OF Cons.prems(2), of i] f by simp
  with Cons.IH [of w1] Cons.prems(1) f show ?case
    by (cases "run_group is reader w1") (simp add: zbind_def bind_def zret_def ret_def)
qed

lemma group_fails:
  assumes "\<And>i. i \<in> set is \<Longrightarrow> \<exists>r. fst (reader i w0) = Ok r" and "i \<in> set is" and "fst (reader i w0) = Ok (Inl z)"
    and "reads_like N w w0"
  shows "\<exists>i \<in> set is. \<exists>z. fst (reader i w0) = Ok (Inl z) \<and> fst (run_group is reader w) = Ok (Inl z)"
  using assms
proof (induction "is" arbitrary: w)
  case Nil
  then show ?case by simp
next
  case (Cons j js)
  obtain r w1 where f: "reader j w = (Ok r, w1)" using like [OF Cons.prems(4)] Cons.prems(1) [of j]
    by (metis list.set_intros(1) prod.collapse)
  then have r: "fst (reader j w0) = Ok r" using like [OF Cons.prems(4), of j] by simp
  have l: "reads_like N w1 w0" using keeps [OF Cons.prems(4), of j] f by simp
  show ?case
  proof (cases r)
    case (Inl y)
    with f r show ?thesis by (auto simp: zbind_def bind_def zfail_def ret_def)
  next
    case (Inr y)
    with Cons.prems(2,3) r have "i \<in> set js" by auto
    from Cons.IH [OF Cons.prems(1) this Cons.prems(3) l] obtain i' z' where
      g: "i' \<in> set js" "fst (reader i' w0) = Ok (Inl z')" "fst (run_group js reader w1) = Ok (Inl z')" by auto
    then have "fst (run_group (j # js) reader w) = Ok (Inl z')" using f Inr
      by (cases "run_group js reader w1") (simp add: zbind_def bind_def zfail_def ret_def)
    with g show ?thesis by auto
  qed
qed

end

section \<open>Reads from a follower\<close>

text \<open>A handler that only reads the partitions of its node.\<close>

definition pure_read :: "'a handler \<Rightarrow> bool" where
  "pure_read h \<longleftrightarrow> (\<forall>n. snd (h n) = n) \<and> (\<forall>n n'. zn_partitions n = zn_partitions n' \<longrightarrow> fst (h n) = fst (h n'))"

lemma pure_with_queries:
  assumes "\<And>d. pure_read (h d)"
  shows "pure_read (with_queries p h)"
proof (unfold pure_read_def, intro conjI allI impI)
  fix n
  show "snd (with_queries p h n) = n" using assms
    by (cases "PartitionQueries n p") (simp_all add: pure_read_def with_queries_def bind_def gets_def reply_error_def ret_def)
next
  fix n n' :: ZenNode
  assume z: "zn_partitions n = zn_partitions n'"
  then have "PartitionQueries n' p = PartitionQueries n p" by (simp add: PartitionQueries_def)
  moreover have "fst (h d n) = fst (h d n')" for d using assms z unfolding pure_read_def by blast
  ultimately show "fst (with_queries p h n) = fst (with_queries p h n')"
    by (cases "PartitionQueries n p") (simp_all add: with_queries_def bind_def gets_def reply_error_def ret_def)
qed

lemma pure_for_partitions: "pure_read (for_partitions ps f acc)"
proof (induction ps arbitrary: acc)
  case Nil
  then show ?case by (simp add: pure_read_def reply_def ret_def)
next
  case (Cons p ps)
  then show ?case by (simp add: pure_with_queries)
qed

lemma to_follower_eval:
  "to_follower N self cs p msg ce call h w =
    (case GetPartitionFollower cs p of
       Inl e \<Rightarrow> (Ok (Inl (ClusterError (Wrapf msg (cluster_error_text e)))), w)
     | Inr f \<Rightarrow> call_on N (on_node self (node_For N (nd_Addr f))) ce (\<lambda>e. TechnicalError (Wrapf call e)) (\<lambda>_. Errorf call) h w)"
  by (simp add: to_follower_def zbind_def zsum_def of_cluster_def bind_def zfail_def zret_def ret_def to_address_def split: sum.splits)

lemma update_same: "map_of w a = Some n \<Longrightarrow> map_of (AList.update a n w) = map_of w"
  by (auto simp: AList.update_conv')

lemma reads_like_cong: "map_of w1 = map_of w2 \<Longrightarrow> reads_like N w1 w = reads_like N w2 w"
  by (simp add: reads_like_def)

lemma call_address_reads:
  assumes "pure_read h" and "reads_like N w w'" and "map_of w self = Some n"
  shows "fst (call_on N (on_node self (node_For N a)) ce re z h w) = fst (call_on N (on_node self (node_For N a)) ce re z h w')"
    and "reads_like N (snd (call_on N (on_node self (node_For N a)) ce re z h w)) w'"
proof -
  from reads_like_at [OF assms(2,3)] obtain n' where n': "map_of w' self = Some n'" "conns_ok N (zn_client n)"
    "conns_ok N (zn_client n')" "client_available N (zn_client n) = client_available N (zn_client n')"
    unfolding node_like_def by blast
  let ?w = "caller_connected N self a n w" and ?w' = "caller_connected N self a n' w'"
  have c: "reads_like N ?w w'" by (rule connected_reads_like [OF assms(3,2)])
  have cc: "reads_like N ?w ?w'"
    using connected_reads_like [OF n'(1) reads_like_sym [OF c]] by (rule reads_like_sym)
  note e = call_address [OF assms(3) n'(2), where a = a and ce = ce and re = re and z = z and h = h]
  note e' = call_address [OF n'(1) n'(3), where a = a and ce = ce and re = re and z = z and h = h]
  obtain r m r' m' where r: "client_For (nw_dial N) a (zn_client n) = (r, m)"
    "client_For (nw_dial N) a (zn_client n') = (r', m')" by fastforce
  note av = client_For_available [OF r(1)] client_For_available [OF r(2)]
  have "fst (call_on N (on_node self (node_For N a)) ce re z h w) = fst (call_on N (on_node self (node_For N a)) ce re z h w') \<and>
      reads_like N (snd (call_on N (on_node self (node_For N a)) ce re z h w)) w'"
  proof (cases "client_available N (zn_client n) a")
    case False
    then have "r = r'" using av(3,6) n'(4) by simp
    moreover have "\<exists>e. r = Inl e" using av(3) False by blast
    ultimately show ?thesis using r c unfolding e e' by auto
  next
    case True
    then obtain x x' where x: "r = Inr x" "r' = Inr x'" using av(1,4) n'(4) by auto
    show ?thesis
    proof (cases "map_of ?w a")
      case None
      then have "map_of ?w' a = None" using reads_like_down [OF cc] by blast
      with None x r c show ?thesis unfolding e e' by simp
    next
      case (Some l)
      from reads_like_at [OF cc Some] obtain l' where l': "map_of ?w' a = Some l'" "zn_partitions l = zn_partitions l'"
        unfolding node_like_def by blast
      have "snd (h l) = l" "fst (h l) = fst (h l')" using assms(1) l'(2) unfolding pure_read_def by blast+
      with Some l'(1) x r c show ?thesis unfolding e e'
        by (simp add: reads_like_cong [OF update_same [OF Some]])
    qed
  qed
  then show "fst (call_on N (on_node self (node_For N a)) ce re z h w) = fst (call_on N (on_node self (node_For N a)) ce re z h w')"
    and "reads_like N (snd (call_on N (on_node self (node_For N a)) ce re z h w)) w'" by blast+
qed

lemma call_address_no_caller:
  assumes "map_of w self = None"
  shows "call_on N (on_node self (node_For N a)) ce re z h w = (Ok (Inl (ce (status_Error ''Unavailable'' ''connection error''))), w)"
  by (simp add: call_on_def zbind_def ztry_def bind_def attempt_def on_node_down [OF assms] zfail_def ret_def)

lemma follower_reader:
  fixes h :: "partition_id \<Rightarrow> 'a list handler"
  assumes "\<And>p. pure_read (h p)"
  shows "partition_reader N (\<lambda>p. to_follower N self cs p msg ce call (h p))"
proof (unfold_locales, goal_cases)
  case (1 w w' p)
  then show ?case
  proof (cases "map_of w self")
    case None
    then have "map_of w' self = None" using reads_like_down [OF 1] by blast
    with None show ?thesis by (simp add: to_follower_eval call_address_no_caller split: sum.splits)
  next
    case (Some n)
    with call_address_reads(1) [OF assms 1 Some] show ?thesis by (simp add: to_follower_eval split: sum.splits)
  qed
next
  case (2 w w' p)
  then show ?case
  proof (cases "map_of w self")
    case None
    with 2 show ?thesis by (simp add: to_follower_eval call_address_no_caller split: sum.splits)
  next
    case (Some n)
    with 2 call_address_reads(2) [OF assms 2 Some] show ?thesis by (simp add: to_follower_eval split: sum.splits)
  qed
qed

interpretation jobs: partition_reader N "getJobsForPartition N self pg sz jobType st assignee pk srt cs"
  for N self pg sz jobType st assignee pk srt cs
  unfolding getJobsForPartition_def server_GetJobs_def
  by (rule follower_reader) (rule pure_for_partitions)

interpretation instances: partition_reader N "getProcessInstancesForPartition N self r cs" for N self r cs
  unfolding getProcessInstancesForPartition_def server_GetProcessInstances_def
  by (rule follower_reader) (rule pure_for_partitions)

interpretation decisions: partition_reader N "getDecisionInstancesForPartition N self r cs" for N self r cs
  unfolding getDecisionInstancesForPartition_def server_GetDecisionInstances_def
  by (rule follower_reader) (rule pure_for_partitions)

section \<open>What the caller gets\<close>

text \<open>The copy of partition \<open>p\<close> that answers node \<open>n\<close>: the one on the follower it picks, when that can be reached.\<close>

definition serving_copy :: "network \<Rightarrow> world \<Rightarrow> ZenNode \<Rightarrow> partition_id \<Rightarrow> Database option" where
  "serving_copy N w n p =
     (case GetPartitionFollower (zn_ClusterState n) p of
        Inl _ \<Rightarrow> None
      | Inr f \<Rightarrow>
          if client_available N (zn_client n) (nd_Addr f)
          then (case map_of w (nd_Addr f) of None \<Rightarrow> None | Some l \<Rightarrow> PartitionQueries l p) else None)"

definition part :: "partition_id \<Rightarrow> 'a list \<times> int \<Rightarrow> 'a partitioned" where
  "part p r = \<lparr>pp_PartitionId = p, pp_Items = fst r, pp_TotalCount = snd r\<rparr>"

lemma for_one_partition:
  "fst (for_partitions [p] g [] n) =
     (case PartitionQueries n p of
        None \<Rightarrow> Ok (RespError (ToProtoError (TechnicalError (Errorf ''queries for partition not found''))))
      | Some d \<Rightarrow> Ok (Resp [part p (g d)]))"
  by (simp add: with_queries_def bind_def gets_def reply_def reply_error_def ret_def part_def split: option.splits)

lemma PartitionQueries_connected:
  assumes "map_of w self = Some n"
  shows "map_of (caller_connected N self a n w) b = None \<longleftrightarrow> map_of w b = None"
    and "map_of (caller_connected N self a n w) b = Some l \<Longrightarrow> \<exists>l'. map_of w b = Some l' \<and> PartitionQueries l = PartitionQueries l'"
  using assms by (auto simp: caller_connected_def AList.update_conv' PartitionQueries_def fun_eq_iff split: if_splits)

lemma follower_answers:
  assumes "map_of w self = Some n" and "conns_ok N (zn_client n)"
  shows "case serving_copy N w n p of
      Some d \<Rightarrow> fst (to_follower N self (zn_ClusterState n) p msg ce call (for_partitions [p] g []) w) = Ok (Inr [part p (g d)])
    | None \<Rightarrow> (\<exists>z. fst (to_follower N self (zn_ClusterState n) p msg ce call (for_partitions [p] g []) w) = Ok (Inl z))"
proof (cases "GetPartitionFollower (zn_ClusterState n) p")
  case (Inl e)
  then show ?thesis by (simp add: serving_copy_def to_follower_eval)
next
  case (Inr f)
  let ?a = "nd_Addr f"
  let ?w = "caller_connected N self ?a n w"
  obtain r m where r: "client_For (nw_dial N) ?a (zn_client n) = (r, m)" by fastforce
  note av = client_For_available(1) [OF r]
  note e = call_address [OF assms, where a = ?a and h = "for_partitions [p] g []"]
  show ?thesis
  proof (cases "client_available N (zn_client n) ?a")
    case False
    then have "\<exists>e. r = Inl e" using av by (cases r) auto
    with Inr False r show ?thesis by (auto simp: serving_copy_def to_follower_eval e simp del: for_partitions.simps)
  next
    case True
    then obtain c where c: "r = Inr c" using av by auto
    show ?thesis
    proof (cases "map_of ?w ?a")
      case None
      then have "map_of w ?a = None" using PartitionQueries_connected(1) [OF assms(1)] by blast
      with Inr True None r c show ?thesis by (simp add: serving_copy_def to_follower_eval e del: for_partitions.simps)
    next
      case (Some l)
      from PartitionQueries_connected(2) [OF assms(1) Some] obtain l' where
        l': "map_of w ?a = Some l'" "PartitionQueries l p = PartitionQueries l' p" by auto
      show ?thesis
        using Inr True Some r c l' for_one_partition [of p g l]
        by (cases "PartitionQueries l' p") (simp_all add: serving_copy_def to_follower_eval e del: for_partitions.simps)
    qed
  qed
qed

lemma concat_results_all: "set xs = set ids \<Longrightarrow> concat_results ids (map (\<lambda>i. (i, v i)) xs) = concat (map v ids)"
proof -
  assume "set xs = set ids"
  then have "map (\<lambda>i. case map_of (map (\<lambda>i. (i, v i)) xs) i of None \<Rightarrow> [] | Some x \<Rightarrow> x) ids = map v ids"
    by (simp add: map_of_map_restrict restrict_map_def)
  then show ?thesis unfolding concat_results_def by (rule arg_cong)
qed

lemma ask_partitions_eval:
  assumes "map_of w self = Some n"
  shows "fst (ask_partitions \<sigma> self f w) =
    fst (zbind (run_group (\<sigma> (sortedPartitionIds (zn_ClusterState n))) (f (zn_ClusterState n)))
      (\<lambda>rs. zret (concat_results (sortedPartitionIds (zn_ClusterState n)) rs)) (AList.update self n w))"
  by (simp add: ask_partitions_def my_state_def bind_def on_node_at [OF assms] gets_def)

lemma world_conns_same: "map_of w self = Some n \<Longrightarrow> world_conns N w \<Longrightarrow> reads_like N (AList.update self n w) w"
  using reads_like_cong [OF update_same] reads_like_refl by blast

context partition_reader
begin

text \<open>A read of all partitions, whatever the schedule.\<close>

lemma all_answer:
  assumes "map_of w self = Some n" and "world_conns N w" and "set (\<sigma> ids) = set ids"
    and "ids = sortedPartitionIds (zn_ClusterState n)" and "f (zn_ClusterState n) = reader"
    and "\<And>i. i \<in> set ids \<Longrightarrow> fst (reader i w) = Ok (Inr (v i))"
  shows "fst (ask_partitions \<sigma> self f w) = Ok (Inr (concat (map v ids)))"
proof -
  have "fst (run_group (\<sigma> ids) reader (AList.update self n w)) = Ok (Inr (map (\<lambda>i. (i, v i)) (\<sigma> ids)))"
    using group_answers [of "\<sigma> ids" w v, OF _ world_conns_same [OF assms(1,2)]] assms(3,6) by simp
  then show ?thesis unfolding ask_partitions_eval [OF assms(1)] assms(5) assms(4) [symmetric]
    using concat_results_all [OF assms(3), of v]
    by (cases "run_group (\<sigma> ids) reader (AList.update self n w)") (simp add: zbind_def bind_def zret_def ret_def)
qed

lemma some_fails:
  assumes "map_of w self = Some n" and "world_conns N w" and "set (\<sigma> ids) = set ids"
    and "ids = sortedPartitionIds (zn_ClusterState n)" and "f (zn_ClusterState n) = reader"
    and "\<And>i. i \<in> set ids \<Longrightarrow> \<exists>r. fst (reader i w) = Ok r" and "i \<in> set ids" and "fst (reader i w) = Ok (Inl z)"
  shows "\<exists>z. fst (ask_partitions \<sigma> self f w) = Ok (Inl z)"
proof -
  obtain y where "fst (run_group (\<sigma> ids) reader (AList.update self n w)) = Ok (Inl y)"
    using group_fails [of "\<sigma> ids" w i z, OF _ _ assms(8) world_conns_same [OF assms(1,2)]] assms(3,6,7) by auto
  then show ?thesis unfolding ask_partitions_eval [OF assms(1)] assms(5) assms(4) [symmetric]
    by (cases "run_group (\<sigma> ids) reader (AList.update self n w)") (simp add: zbind_def bind_def zfail_def ret_def)
qed

end

definition jobs_page ::
  "int \<Rightarrow> int \<Rightarrow> string option \<Rightarrow> ActivityState option \<Rightarrow> string option \<Rightarrow> int option \<Rightarrow> string option \<Rightarrow> Database \<Rightarrow>
     proto_Job list \<times> int" where
  "jobs_page pg sz jobType st assignee pk srt d =
     page_of proto_of_job (q_FindJobs (Some (case srt of None \<Rightarrow> [] | Some s \<Rightarrow> s)) jobType
       (map_option ActivityState_int st) pk assignee (row_offset sz pg) sz d)"

text \<open>The pages that node \<open>n\<close> gets from the copies that serve it.\<close>

definition job_parts ::
  "network \<Rightarrow> world \<Rightarrow> ZenNode \<Rightarrow> int \<Rightarrow> int \<Rightarrow> string option \<Rightarrow> ActivityState option \<Rightarrow> string option \<Rightarrow> int option \<Rightarrow>
     string option \<Rightarrow> proto_Job partitioned list" where
  "job_parts N w n pg sz jobType st assignee pk srt =
     map (\<lambda>p. part p (jobs_page pg sz jobType st assignee pk srt (the (serving_copy N w n p))))
       (sortedPartitionIds (zn_ClusterState n))"

definition all_served :: "network \<Rightarrow> world \<Rightarrow> ZenNode \<Rightarrow> bool" where
  "all_served N w n \<longleftrightarrow> list_all (\<lambda>p. serving_copy N w n p \<noteq> None) (sortedPartitionIds (zn_ClusterState n))"

lemma one_partition_of_jobs:
  assumes "map_of w self = Some n" and "world_conns N w"
  shows "case serving_copy N w n p of
      Some d \<Rightarrow> fst (getJobsForPartition N self pg sz jobType st assignee pk srt (zn_ClusterState n) p w) =
        Ok (Inr [part p (jobs_page pg sz jobType st assignee pk srt d)])
    | None \<Rightarrow> (\<exists>z. fst (getJobsForPartition N self pg sz jobType st assignee pk srt (zn_ClusterState n) p w) = Ok (Inl z))"
proof -
  have c: "conns_ok N (zn_client n)" using assms by (simp add: world_conns_def)
  show ?thesis unfolding getJobsForPartition_def server_GetJobs_def jobs_page_def by (rule follower_answers [OF assms(1) c])
qed

lemma node_GetJobs_answers:
  assumes "map_of w self = Some n" and "world_conns N w" and "\<And>ids. mset (\<sigma> ids) = mset ids" and "all_served N w n"
  shows "fst (node_GetJobs \<sigma> N self pg sz jobType st assignee pk srt w) = Ok (Inr (job_parts N w n pg sz jobType st assignee pk srt))"
proof -
  define ids where "ids = sortedPartitionIds (zn_ClusterState n)"
  let ?f = "getJobsForPartition N self pg sz jobType st assignee pk srt"
  let ?v = "\<lambda>p. [part p (jobs_page pg sz jobType st assignee pk srt (the (serving_copy N w n p)))]"
  have s: "set (\<sigma> ids) = set ids" using assms(3) by (metis set_mset_mset)
  have "fst (node_GetJobs \<sigma> N self pg sz jobType st assignee pk srt w) = Ok (Inr (concat (map ?v ids)))"
    unfolding node_GetJobs_def
  proof (rule jobs.all_answer [where \<sigma> = \<sigma> and w = w and self = self and n = n and ids = ids and f = ?f, OF assms(1,2) s ids_def refl])
    fix p
    assume "p \<in> set ids"
    with assms(4) have "serving_copy N w n p \<noteq> None" by (simp add: all_served_def list_all_iff ids_def)
    with one_partition_of_jobs [OF assms(1,2), where p = p and pg = pg and sz = sz and jobType = jobType and st = st
      and assignee = assignee and pk = pk and srt = srt]
    show "fst (?f (zn_ClusterState n) p w) = Ok (Inr (?v p))" by auto
  qed
  then show ?thesis by (simp add: job_parts_def ids_def)
qed

text \<open>Asking for jobs gives the same answer under every schedule of the goroutines: if the chosen follower of every
  partition can be reached and holds it, the pages of the partitions in ascending order of their numbers,
  each computed from that follower's copy; otherwise an error.\<close>

theorem jobs_of_all_partitions:
  assumes "map_of w self = Some n" and "world_conns N w" and "\<And>ids. mset (\<sigma> ids) = mset ids"
  shows "if all_served N w n
    then fst (node_GetJobs \<sigma> N self pg sz jobType st assignee pk srt w) = Ok (Inr (job_parts N w n pg sz jobType st assignee pk srt))
    else (\<exists>z. fst (node_GetJobs \<sigma> N self pg sz jobType st assignee pk srt w) = Ok (Inl z))"
proof (cases "all_served N w n")
  case True
  with node_GetJobs_answers [OF assms True] show ?thesis by simp
next
  case False
  define ids where "ids = sortedPartitionIds (zn_ClusterState n)"
  let ?f = "getJobsForPartition N self pg sz jobType st assignee pk srt"
  note one = one_partition_of_jobs [OF assms(1,2), where pg = pg and sz = sz and jobType = jobType and st = st
    and assignee = assignee and pk = pk and srt = srt]
  have s: "set (\<sigma> ids) = set ids" using assms(3) by (metis set_mset_mset)
  from False obtain p0 where p0: "p0 \<in> set ids" "serving_copy N w n p0 = None"
    by (auto simp: all_served_def list_all_iff ids_def)
  with one [of p0] obtain p z where p: "p \<in> set ids" "fst (?f (zn_ClusterState n) p w) = Ok (Inl z)" by auto
  have "\<exists>z. fst (node_GetJobs \<sigma> N self pg sz jobType st assignee pk srt w) = Ok (Inl z)"
    unfolding node_GetJobs_def
  proof (rule jobs.some_fails [where \<sigma> = \<sigma> and w = w and self = self and n = n and ids = ids and f = ?f, OF assms(1,2) s ids_def refl _ p])
    fix q
    show "\<exists>r. fst (?f (zn_ClusterState n) q w) = Ok r" using one [of q] by (auto split: option.splits)
  qed
  with False show ?thesis by simp
qed

section \<open>Reading one instance\<close>

lemma my_state_eval: "map_of w self = Some n \<Longrightarrow> my_state self w = (Ok (zn_ClusterState n), AList.update self n w)"
  by (simp add: my_state_def on_node_at gets_def)

lemma read_by_key_up:
  assumes "map_of w self = Some n" and "conns_ok N (zn_client n)"
    and "GetPartitionFollower (zn_ClusterState n) (partition_of_key k) = Inr f" and "nw_dial N (nd_Addr f) = Inr c"
    and "map_of w (nd_Addr f) = Some l"
  shows "\<exists>l' m. l' = l\<lparr>zn_client := m\<rparr> \<and> fst (read_by_key N self k msg ce call h w) =
    call_outcome (\<lambda>e. TechnicalError (Wrapf call e)) (\<lambda>_. Errorf call) (fst (h l'))"
proof -
  let ?w = "AList.update self n w" and ?a = "nd_Addr f"
  have s: "map_of ?w self = Some n" by (simp add: AList.update_conv')
  obtain c' where c': "fst (client_For (nw_dial N) ?a (zn_client n)) = Inr c'" using client_For_dialled [OF assms(4)] by blast
  have "\<exists>l' m. map_of (caller_connected N self ?a n ?w) ?a = Some l' \<and> l' = l\<lparr>zn_client := m\<rparr>"
  proof (cases "?a = self")
    case True
    then show ?thesis using assms(1,5) by (auto simp: caller_connected_def AList.update_conv' with_client_def)
  next
    case False
    then have "map_of (caller_connected N self ?a n ?w) ?a = Some l \<and> l = l\<lparr>zn_client := zn_client l\<rparr>"
      using assms(5) by (simp add: caller_connected_def AList.update_conv')
    then show ?thesis by blast
  qed
  then obtain l' m where l': "map_of (caller_connected N self ?a n ?w) ?a = Some l'" "l' = l\<lparr>zn_client := m\<rparr>" by blast
  have "fst (read_by_key N self k msg ce call h w) = call_outcome (\<lambda>e. TechnicalError (Wrapf call e)) (\<lambda>_. Errorf call) (fst (h l'))"
    using assms(3) c' l'(1)
    by (simp add: read_by_key_def bind_def my_state_eval [OF assms(1)] to_follower_eval call_address [OF s assms(2)])
  with l'(2) show ?thesis by blast
qed

lemma GetProcessInstance_without_engine:
  "PartitionEngine n (partition_of_key k) = None \<Longrightarrow>
   \<exists>y. fst (server_GetProcessInstance k n) = Ok (RespError (ToProtoError (TechnicalError y)))"
  by (auto simp: server_GetProcessInstance_def Let_def with_engine_def bind_def gets_def reply_error_def ret_def)

lemma server_GetJob_found:
  "PartitionQueries n (partition_of_key k) = Some d \<Longrightarrow> tget (job d) k = Some r \<Longrightarrow> fst (server_GetJob k n) = Ok (Resp (proto_of_job r))"
  by (simp add: server_GetJob_def with_queries_def bind_def gets_def q_FindJobByJobKey_def one_row_def reply_def ret_def)

lemma PartitionQueries_client [simp]: "PartitionQueries (n\<lparr>zn_client := m\<rparr>) p = PartitionQueries n p"
  by (simp add: PartitionQueries_def)

text \<open>An instance cannot be read while its partition has a follower: \<^verbatim>\<open>GetProcessInstance\<close> is sent to the follower like the
  other reads, but its handler asks the engine, and only the node that leads the partition when it enters it has one.
  The caller gets \<^verbatim>\<open>TECHNICAL_ERROR\<close>, whatever the instance; the jobs of the partition are found at the same
  node.\<close>

theorem instance_is_not_readable_from_a_follower:
  assumes "map_of w self = Some n" and "conns_ok N (zn_client n)"
    and "GetPartitionFollower (zn_ClusterState n) (partition_of_key k) = Inr f" and "nw_dial N (nd_Addr f) = Inr c"
    and "map_of w (nd_Addr f) = Some l" and "PartitionEngine l (partition_of_key k) = None"
    and "PartitionQueries l (partition_of_key k) = Some d" and "tget (job d) k = Some r"
  shows "(\<exists>z. fst (node_GetProcessInstance N self k w) = Ok (Inl z) \<and> ze_Code z = TechnicalErrorCode) \<and>
    fst (node_GetJob N self k w) = Ok (Inr (proto_of_job r))"
proof (rule conjI)
  from read_by_key_up [OF assms(1-5), where h = "server_GetProcessInstance k"] obtain l' m where l': "l' = l\<lparr>zn_client := m\<rparr>"
    and f: "fst (node_GetProcessInstance N self k w) = call_outcome
      (\<lambda>e. TechnicalError (Wrapf ''failed to get process instance from partition'' e))
      (\<lambda>_. Errorf ''failed to get process instance from partition'') (fst (server_GetProcessInstance k l'))"
    unfolding node_GetProcessInstance_def by blast
  have "PartitionEngine l' (partition_of_key k) = None" using assms(6) l' by simp
  from GetProcessInstance_without_engine [OF this] f
  show "\<exists>z. fst (node_GetProcessInstance N self k w) = Ok (Inl z) \<and> ze_Code z = TechnicalErrorCode" by auto
next
  from read_by_key_up [OF assms(1-5), where h = "server_GetJob k"] obtain l' m where l': "l' = l\<lparr>zn_client := m\<rparr>"
    and f: "fst (node_GetJob N self k w) = call_outcome (\<lambda>e. TechnicalError (Wrapf ''failed to get job from partition'' e))
      (\<lambda>_. Errorf ''failed to get job from partition'') (fst (server_GetJob k l'))"
    unfolding node_GetJob_def by blast
  have "PartitionQueries l' (partition_of_key k) = Some d" using assms(7) l' by simp
  from server_GetJob_found [OF this assms(8)] f show "fst (node_GetJob N self k w) = Ok (Inr (proto_of_job r))" by simp
qed

section \<open>Witnesses\<close>

definition zendemo_job :: Sql_Queries.sql_Job where
  "zendemo_job = \<lparr>sjb_Key = 4096, sjb_ElementInstanceKey = 4097, sjb_ElementID = ''task'', sjb_ProcessInstanceKey = 4098,
     sjb_Type = ''work'', sjb_State = 1, sjb_CreatedAt = 5, sjb_Variables = Json Map.empty, sjb_ExecutionToken = 4099,
     sjb_Assignee = None\<rparr>"

definition zendemo_copy :: Database where
  "zendemo_copy = new_Database\<lparr>job := [(4096, zendemo_job)]\<rparr>"

definition zendemo_reader :: ZenNode where
  "zendemo_reader = (zendemo_node ''n1'' None)\<lparr>zn_partitions :=
     [(1, (zendemo_partition None)\<lparr>zp_DB := (NewDB 1)\<lparr>db_Store := zendemo_copy\<rparr>\<rparr>)]\<rparr>"

definition zendemo_readers :: world where
  "zendemo_readers = [(''n1'', zendemo_reader), (''n2'', zendemo_node ''n2'' (Some NewEngine))]"

lemma zendemo_readers_conns: "world_conns zendemo_net zendemo_readers" "conns_ok zendemo_net (zn_client zendemo_reader)"
  using zendemo_conns [of "''n1''" None] zendemo_conns [of "''n2''" "Some NewEngine"]
  by (simp_all add: world_conns_def zendemo_readers_def zendemo_reader_def)

lemma zendemo_follower_seen: "GetPartitionFollower (zn_ClusterState zendemo_reader) 1 = Inr (zendemo_member ''n1'' RoleFollower)"
  by (simp add: GetPartitionFollower_def zendemo_reader_def zendemo_node_def zendemo_cluster_def zendemo_member_def
      node_partitions_def zero_Node_def)

lemma zendemo_reader_queries: "PartitionQueries zendemo_reader 1 = Some zendemo_copy"
  by (simp add: PartitionQueries_def zendemo_reader_def)

theorem jobs_of_all_partitions_witness:
  "fst (node_GetJobs (\<lambda>ids. rev ids) zendemo_net ''n1'' 1 10 None None None None None zendemo_readers) =
     Ok (Inr [part 1 (jobs_page 1 10 None None None None None zendemo_copy)])"
proof -
  have ids: "sortedPartitionIds (zn_ClusterState zendemo_reader) = [1]"
    by (simp add: sortedPartitionIds_def zendemo_reader_def zendemo_node_def zendemo_cluster_def)
  have sv: "serving_copy zendemo_net zendemo_readers zendemo_reader 1 = Some zendemo_copy"
    using zendemo_follower_seen zendemo_reader_queries
    by (simp add: serving_copy_def client_available_def zendemo_member_def zendemo_net_def zendemo_readers_def)
  have up: "map_of zendemo_readers ''n1'' = Some zendemo_reader" by (simp add: zendemo_readers_def)
  show ?thesis
    using jobs_of_all_partitions [OF up zendemo_readers_conns(1), of rev 1 10 None None None None None]
    by (simp add: all_served_def job_parts_def ids sv)
qed

theorem instance_is_not_readable_from_a_follower_witness:
  "(\<exists>z. fst (node_GetProcessInstance zendemo_net ''n1'' 4096 zendemo_readers) = Ok (Inl z) \<and> ze_Code z = TechnicalErrorCode) \<and>
    fst (node_GetJob zendemo_net ''n1'' 4096 zendemo_readers) = Ok (Inr (proto_of_job zendemo_job))"
proof -
  have a: "nd_Addr (zendemo_member ''n1'' RoleFollower) = ''n1''" by (simp add: zendemo_member_def)
  have up: "map_of zendemo_readers ''n1'' = Some zendemo_reader" "nw_dial zendemo_net ''n1'' = Inr 1"
    by (simp_all add: zendemo_readers_def zendemo_net_def)
  have e: "PartitionEngine zendemo_reader 1 = None" by (simp add: PartitionEngine_def zendemo_reader_def zendemo_partition_def)
  have t: "tget (job zendemo_copy) 4096 = Some zendemo_job" by (simp add: zendemo_copy_def tget_def)
  show ?thesis
    by (rule instance_is_not_readable_from_a_follower [where k = 4096, unfolded zendemo_key, OF up(1) zendemo_readers_conns(2)
      zendemo_follower_seen, unfolded a, OF up(2,1) e zendemo_reader_queries t])
qed

end
