(* ===== verification/Rest_Api.thy ===== *)
theory Rest_Api
  imports Zen_Fanout Ttl
begin

text \<open>
  The handlers of the REST API (\<^verbatim>\<open>internal/rest/server.go\<close>) on top of the operations of the node they run on.
  A handler gives a status with a body; it never returns a Go error, but it may panic. Parameters that are
  optional in the API are optional here; times are the nanoseconds of \<^verbatim>\<open>time.Time\<close>. What the generated
  router does with a request before the handler is called is not part of the model.
\<close>

section \<open>Statuses\<close>

datatype 'a rest = RestError (rest_status: nat) string string | Rest (rest_status: nat) 'a

type_synonym 'a rest_handler = "(world, 'a rest) eng"

definition ToApiError :: "nat \<Rightarrow> ZenError \<Rightarrow> 'a rest" where
  "ToApiError status z = RestError status (code_ToString (ze_Code z)) (error_text (ze_err z))"

definition bad_request :: "string \<Rightarrow> 'a rest" where
  "bad_request msg = ToApiError 400 (BadRequest (Errorf msg))"

definition internal_error :: "error \<Rightarrow> 'a rest" where
  "internal_error e = ToApiError 500 (TechnicalError e)"

text \<open>The handling of an error of the node, the same in every handler but for the codes that have a status of
  their own.\<close>

definition node_call :: "(ZenErrorCode \<times> nat) list \<Rightarrow> 'a zop \<Rightarrow> ('a \<Rightarrow> 'b rest_handler) \<Rightarrow> 'b rest_handler" where
  "node_call statuses m f =
     bind (attempt m) (\<lambda>r.
       case r of
         Inl e \<Rightarrow> ret (internal_error e)
       | Inr (Inl z) \<Rightarrow> ret (ToApiError (case map_of statuses (ze_Code z) of None \<Rightarrow> 500 | Some st \<Rightarrow> st) z)
       | Inr (Inr x) \<Rightarrow> f x)"

definition created :: "'a \<Rightarrow> 'a rest_handler" where
  "created x = ret (Rest 201 x)"

definition no_content :: "unit rest_handler" where
  "no_content = ret (Rest 204 ())"

text \<open>The conversion of a result: an item whose JSON cannot be read makes the whole answer an error.\<close>

definition answer :: "nat \<Rightarrow> (world, 'a) eng \<Rightarrow> 'a rest_handler" where
  "answer status m = bind (attempt m) (\<lambda>r. ret (case r of Inl e \<Rightarrow> internal_error e | Inr x \<Rightarrow> Rest status x))"

section \<open>Pages and sorting\<close>

definition defaultPagination :: "int option \<Rightarrow> int option \<Rightarrow> int \<times> int" where
  "defaultPagination page pageSize =
     (case page of None \<Rightarrow> 1 | Some p \<Rightarrow> p, case pageSize of None \<Rightarrow> 10 | Some s \<Rightarrow> s)"

definition validatePagination :: "int \<Rightarrow> int \<Rightarrow> ZenError option" where
  "validatePagination page pageSize =
     (if page < 1 then Some (BadRequest (Errorf ''page must be >= 1''))
      else if pageSize < 1 \<or> pageSize > 100 then Some (BadRequest (Errorf ''size must be between 1 and 100''))
      else None)"

definition SortString :: "string option \<Rightarrow> string option \<Rightarrow> string option" where
  "SortString sortOrder sortBy =
     (case sortBy of
        None \<Rightarrow> None
      | Some b \<Rightarrow> Some (b @ ''_'' @ (case sortOrder of None \<Rightarrow> ''asc'' | Some s \<Rightarrow> s)))"

text \<open>The checks of the sort parameters; without an order the newest come first.\<close>

definition check_sort ::
  "(string \<Rightarrow> 'a rest) \<Rightarrow> string list \<Rightarrow> string option \<Rightarrow> string option \<Rightarrow> (string option \<Rightarrow> 'a rest_handler) \<Rightarrow> 'a rest_handler" where
  "check_sort bad supported sortBy sortOrder f =
     (if (case sortBy of None \<Rightarrow> False | Some b \<Rightarrow> b \<notin> set supported) then ret (bad ''unexpected SortBy'')
      else case sortOrder of
        None \<Rightarrow> f (SortString (Some ''desc'') sortBy)
      | Some s \<Rightarrow> if s \<in> {''asc'', ''desc''} then f (SortString (Some s) sortBy) else ret (bad ''unexpected SortOrder''))"

record 'a rest_page =
  pg_Items :: "'a list"
  pg_Count :: int
  pg_Page :: int
  pg_Size :: int
  pg_TotalCount :: int

definition page_answer :: "int \<Rightarrow> int \<Rightarrow> int \<Rightarrow> 'a list \<Rightarrow> 'a rest_page" where
  "page_answer page pageSize totalCount items =
     \<lparr>pg_Items = items, pg_Count = int (length items), pg_Page = page, pg_Size = pageSize, pg_TotalCount = totalCount\<rparr>"

text \<open>Pages that hold the items of each partition: the counts are summed over the partitions, those of
  jobs in 32 bits.\<close>

definition rest_partitions :: "('a \<Rightarrow> (world, 'b) eng) \<Rightarrow> 'a partitioned list \<Rightarrow> (world, (int \<times> 'b list) list) eng" where
  "rest_partitions conv ps =
     map_each ps (\<lambda>p. bind (map_each (pp_Items p) conv) (\<lambda>items. ret (uint (pp_PartitionId p), items)))"

definition partitioned_answer ::
  "int \<Rightarrow> int \<Rightarrow> int \<Rightarrow> ('a \<Rightarrow> (world, 'b) eng) \<Rightarrow> 'a partitioned list \<Rightarrow> (world, (int \<times> 'b list) rest_page) eng" where
  "partitioned_answer page pageSize totalCount conv ps =
     bind (rest_partitions conv ps) (\<lambda>partitions. ret
       \<lparr>pg_Items = partitions, pg_Count = int (sum_list (map (length \<circ> pp_Items) ps)), pg_Page = page, pg_Size = pageSize,
        pg_TotalCount = totalCount\<rparr>)"

definition total_of :: "'a partitioned list \<Rightarrow> int" where
  "total_of ps = sum_list (map pp_TotalCount ps)"

definition total32_of :: "'a partitioned list \<Rightarrow> int" where
  "total32_of ps = foldl (\<lambda>n p. int32 (n + pp_TotalCount p)) 0 ps"

section \<open>States\<close>

definition unexpected_state :: "('s, 'a) eng" where
  "unexpected_state = panic ''unexpected runtime.ActivityState''"

definition getRestJobState :: "ActivityState \<Rightarrow> ('s, string) eng" where
  "getRestJobState st =
     (case st of
        ActivityStateActive \<Rightarrow> ret ''active''
      | ActivityStateCompleted \<Rightarrow> ret ''completed''
      | ActivityStateTerminated \<Rightarrow> ret ''terminated''
      | ActivityStateFailed \<Rightarrow> ret ''failed''
      | _ \<Rightarrow> unexpected_state)"

definition getRestProcessInstanceState :: "ActivityState \<Rightarrow> ('s, string) eng" where
  "getRestProcessInstanceState st =
     (case st of
        ActivityStateReady \<Rightarrow> ret ''active''
      | ActivityStateActive \<Rightarrow> ret ''active''
      | ActivityStateCompleted \<Rightarrow> ret ''completed''
      | ActivityStateFailed \<Rightarrow> ret ''failed''
      | ActivityStateTerminated \<Rightarrow> ret ''terminated''
      | _ \<Rightarrow> unexpected_state)"

definition getRestProcessInstanceType :: "int \<Rightarrow> ('s, string) eng" where
  "getRestProcessInstanceType ty =
     (case ProcessType_of ty of
        Some ProcessTypeDefault \<Rightarrow> ret ''default''
      | Some ProcessTypeSubProcess \<Rightarrow> ret ''subprocess''
      | Some ProcessTypeCallActivity \<Rightarrow> ret ''callActivity''
      | Some ProcessTypeMultiInstance \<Rightarrow> ret ''multiInstance''
      | None \<Rightarrow> panic ''unexpected runtime.ProcessType'')"

text \<open>\<^verbatim>\<open>String\<close> of the states. A number that is no state prints as such.\<close>

definition stringer :: "string \<Rightarrow> string list \<Rightarrow> int \<Rightarrow> string" where
  "stringer type names i =
     (if 1 \<le> i \<and> i \<le> int (length names) then type @ names ! nat (i - 1)
      else type @ ''('' @ int_digits i @ '')'')"

definition ActivityState_String :: "int \<Rightarrow> string" where
  "ActivityState_String = stringer ''ActivityState''
     [''Active'', ''Compensated'', ''Compensating'', ''Completed'', ''Completing'', ''Failed'', ''Failing'', ''Ready'',
      ''Terminated'', ''Terminating'', ''Withdrawn'']"

definition TokenState_String :: "int \<Rightarrow> string" where
  "TokenState_String = stringer ''TokenState'' [''Running'', ''Waiting'', ''Completed'', ''Canceled'', ''Failed'']"

section \<open>Jobs\<close>

record rest_Job =
  rj_CreatedAt :: int
  rj_ElementId :: string
  rj_Key :: int
  rj_ProcessInstanceKey :: int
  rj_State :: string
  rj_Type :: string
  rj_Variables :: vars
  rj_Assignee :: "string option"

definition rest_job :: "string option \<Rightarrow> proto_Job \<Rightarrow> (world, rest_Job) eng" where
  "rest_job assignee j =
     bind (lift_sum (json_Unmarshal (pjb_Variables j))) (\<lambda>vs.
     bind (getRestJobState (ActivityState_of (pjb_State j))) (\<lambda>st. ret
       \<lparr>rj_CreatedAt = time_UnixMilli (pjb_CreatedAt j), rj_ElementId = pjb_ElementId j, rj_Key = pjb_Key j,
        rj_ProcessInstanceKey = pjb_ProcessInstanceKey j, rj_State = st, rj_Type = pjb_Type j, rj_Variables = vs,
        rj_Assignee = assignee\<rparr>))"

definition rest_CompleteJob :: "engine_deps \<Rightarrow> network \<Rightarrow> string \<Rightarrow> int \<Rightarrow> vars option \<Rightarrow> unit rest_handler" where
  "rest_CompleteJob D N self k vs =
     node_call [(ClusterErrorCode, 502), (BadRequestCode, 400), (NotFoundCode, 404)]
       (node_CompleteJob D N self k (case vs of None \<Rightarrow> Map.empty | Some m \<Rightarrow> m)) created"

text \<open>An error without a status of its own is wrapped into a technical error.\<close>

definition rest_AssignJob :: "network \<Rightarrow> string \<Rightarrow> int \<Rightarrow> string \<Rightarrow> unit rest_handler" where
  "rest_AssignJob N self k assignee =
     bind (attempt (node_AssignJob N self k assignee)) (\<lambda>r.
       case r of
         Inl e \<Rightarrow> ret (internal_error e)
       | Inr (Inl z) \<Rightarrow> ret (case ze_Code z of
             ClusterErrorCode \<Rightarrow> ToApiError 502 z
           | NotFoundCode \<Rightarrow> ToApiError 404 z
           | BadRequestCode \<Rightarrow> ToApiError 400 z
           | _ \<Rightarrow> internal_error (ze_err z))
       | Inr (Inr _) \<Rightarrow> no_content)"

text \<open>The filter \<open>terminated\<close> is turned into the state of active jobs.\<close>

definition job_state_filter :: "string option \<Rightarrow> ActivityState option option" where
  "job_state_filter st =
     (case st of
        None \<Rightarrow> Some None
      | Some s \<Rightarrow>
          if s = ''active'' then Some (Some ActivityStateActive)
          else if s = ''completed'' then Some (Some ActivityStateCompleted)
          else if s = ''terminated'' then Some (Some ActivityStateActive)
          else None)"

definition rest_GetJobs ::
  "schedule \<Rightarrow> network \<Rightarrow> string \<Rightarrow> int option \<Rightarrow> int option \<Rightarrow> string option \<Rightarrow> string option \<Rightarrow> string option \<Rightarrow> int option \<Rightarrow>
     string option \<Rightarrow> string option \<Rightarrow> (int \<times> rest_Job list) rest_page rest_handler" where
  "rest_GetJobs \<sigma> N self page pageSize jobType st assignee pk sortBy sortOrder =
     (let (pg, sz) = defaultPagination page pageSize in
      case job_state_filter st of
        None \<Rightarrow> ret (bad_request ''unexpected GetJobsRequest state'')
      | Some reqState \<Rightarrow>
          node_call [(ClusterErrorCode, 502)]
            (node_GetJobs \<sigma> N self pg sz jobType reqState assignee pk (SortString sortOrder sortBy)) (\<lambda>jobs.
            answer 200 (partitioned_answer pg sz (total32_of jobs) (\<lambda>j. rest_job (pjb_Assignee j) j) jobs)))"

definition rest_GetJob :: "network \<Rightarrow> string \<Rightarrow> int \<Rightarrow> rest_Job rest_handler" where
  "rest_GetJob N self k =
     node_call [(ClusterErrorCode, 502), (NotFoundCode, 404)] (node_GetJob N self k)
       (\<lambda>j. answer 200 (rest_job None j))"

definition rest_GetProcessInstanceJobs ::
  "network \<Rightarrow> string \<Rightarrow> int option \<Rightarrow> int option \<Rightarrow> int \<Rightarrow> rest_Job rest_page rest_handler" where
  "rest_GetProcessInstanceJobs N self page pageSize k =
     (let (pg, sz) = defaultPagination page pageSize in
      node_call [(ClusterErrorCode, 502)] (node_GetProcessInstanceJobs N self pg sz k) (\<lambda>(jobs, totalCount).
        answer 200 (bind (map_each jobs (\<lambda>j. rest_job (Some (case pjb_Assignee j of None \<Rightarrow> [] | Some a \<Rightarrow> a)) j))
          (\<lambda>items. ret (page_answer pg sz totalCount items)))))"

section \<open>Messages and incidents\<close>

definition rest_PublishMessage ::
  "engine_deps \<Rightarrow> network \<Rightarrow> string \<Rightarrow> string \<Rightarrow> string \<Rightarrow> vars option \<Rightarrow> unit rest_handler" where
  "rest_PublishMessage D N self name ck vs =
     node_call [(NotFoundCode, 404), (ClusterErrorCode, 502)]
       (node_PublishMessage D N self name ck (case vs of None \<Rightarrow> Map.empty | Some m \<Rightarrow> m)) created"

definition rest_GetIncidents ::
  "network \<Rightarrow> string \<Rightarrow> int option \<Rightarrow> int option \<Rightarrow> int \<Rightarrow> string option \<Rightarrow> proto_Incident rest_page rest_handler" where
  "rest_GetIncidents N self page pageSize k st =
     (let (pg, sz) = defaultPagination page pageSize in
      node_call [(ClusterErrorCode, 502)] (node_GetIncidents N self pg sz k st) (\<lambda>(incidents, totalCount).
        ret (Rest 200 (page_answer pg sz totalCount (map (\<lambda>i. i\<lparr>pin_CreatedAt := time_UnixMilli (pin_CreatedAt i),
          pin_ResolvedAt := map_option time_UnixMilli (pin_ResolvedAt i)\<rparr>) incidents)))))"

definition rest_ResolveIncident :: "engine_deps \<Rightarrow> network \<Rightarrow> string \<Rightarrow> int \<Rightarrow> unit rest_handler" where
  "rest_ResolveIncident D N self k =
     node_call [(ClusterErrorCode, 502), (NotFoundCode, 404)] (node_ResolveIncident D N self k) created"

section \<open>Process instances\<close>

record rest_ElementInstance =
  rei_CreatedAt :: int
  rei_ElementId :: string
  rei_ElementInstanceKey :: int
  rei_State :: string

record rest_ProcessInstance =
  rpi_ActiveElementInstances :: "rest_ElementInstance list"
  rpi_BpmnProcessId :: "string option"
  rpi_BusinessKey :: "string option"
  rpi_CreatedAt :: int
  rpi_Key :: int
  rpi_ParentProcessInstanceKey :: "int option"
  rpi_ProcessDefinitionKey :: int
  rpi_ProcessType :: string
  rpi_State :: string
  rpi_Variables :: vars

definition rest_element :: "(int \<Rightarrow> string) \<Rightarrow> proto_ExecutionToken \<Rightarrow> rest_ElementInstance" where
  "rest_element state_string t =
     \<lparr>rei_CreatedAt = time_UnixMilli (pet_CreatedAt t), rei_ElementId = pet_ElementId t,
      rei_ElementInstanceKey = pet_ElementInstanceKey t, rei_State = state_string (pet_State t)\<rparr>"

definition rest_parent :: "proto_ProcessInstance \<Rightarrow> int option" where
  "rest_parent i =
     (case ppi_ParentInstanceKey i of None \<Rightarrow> None | Some k \<Rightarrow> if k = 0 then None else Some k)"

text \<open>The instance of the list and of the single reads.\<close>

definition rest_instance :: "rest_ElementInstance list \<Rightarrow> proto_ProcessInstance \<Rightarrow> (world, rest_ProcessInstance) eng" where
  "rest_instance elements i =
     bind (lift_sum (json_Unmarshal (ppi_Variables i))) (\<lambda>vs.
     bind (getRestProcessInstanceType (ppi_Type i)) (\<lambda>ty.
     bind (getRestProcessInstanceState (ActivityState_of (ppi_State i))) (\<lambda>st. ret
       \<lparr>rpi_ActiveElementInstances = elements, rpi_BpmnProcessId = Some (ppi_ProcessId i), rpi_BusinessKey = ppi_BusinessKey i,
        rpi_CreatedAt = time_UnixMilli (ppi_CreatedAt i), rpi_Key = ppi_Key i, rpi_ParentProcessInstanceKey = rest_parent i,
        rpi_ProcessDefinitionKey = ppi_DefinitionKey i, rpi_ProcessType = ty, rpi_State = st, rpi_Variables = vs\<rparr>)))"

text \<open>The answers to a creation leave the other fields at their zero values.\<close>

definition rest_created :: "string \<Rightarrow> string \<Rightarrow> vars \<Rightarrow> proto_ProcessInstance \<Rightarrow> rest_ProcessInstance" where
  "rest_created ty st vs i =
     \<lparr>rpi_ActiveElementInstances = [], rpi_BpmnProcessId = None, rpi_BusinessKey = None,
      rpi_CreatedAt = time_UnixMilli (ppi_CreatedAt i), rpi_Key = ppi_Key i, rpi_ParentProcessInstanceKey = None,
      rpi_ProcessDefinitionKey = ppi_DefinitionKey i, rpi_ProcessType = ty, rpi_State = st, rpi_Variables = vs\<rparr>"

definition rest_CreateProcessInstance ::
  "engine_deps \<Rightarrow> network \<Rightarrow> string \<Rightarrow> int option \<Rightarrow> string option \<Rightarrow> string option \<Rightarrow> vars option \<Rightarrow> string option \<Rightarrow>
     rest_ProcessInstance rest_handler" where
  "rest_CreateProcessInstance D N self processDefinitionKey bpmnProcessId businessKey vs historyTimeToLive =
     (case (case historyTimeToLive of None \<Rightarrow> Inr None | Some t \<Rightarrow>
         (case ParseTTL t of Inl e \<Rightarrow> Inl e | Inr w \<Rightarrow> Inr (Some (sint w)))) of
        Inl e \<Rightarrow> ret (ToApiError 400 (BadRequest (Wrapf ''failed to parse historyTimeToLive'' e)))
      | Inr ttl \<Rightarrow>
          if processDefinitionKey = None \<and> bpmnProcessId = None
          then ret (bad_request ''failed to parse processDefinitionKey and bpmnProcessId'')
          else node_call [(ClusterErrorCode, 502), (NotFoundCode, 404)]
            (node_CreateInstance D N self processDefinitionKey bpmnProcessId businessKey
               (case vs of None \<Rightarrow> Map.empty | Some m \<Rightarrow> m) ttl) (\<lambda>i.
            answer 201 (bind (lift_sum (json_Unmarshal (ppi_Variables i))) (\<lambda>processVars.
              bind (getRestProcessInstanceState (ActivityState_of (ppi_State i))) (\<lambda>st. ret (rest_created [] st processVars i))))))"

definition rest_StartProcessInstanceOnElements ::
  "engine_deps \<Rightarrow> network \<Rightarrow> string \<Rightarrow> int \<Rightarrow> string list \<Rightarrow> vars option \<Rightarrow> rest_ProcessInstance rest_handler" where
  "rest_StartProcessInstanceOnElements D N self k ids vs =
     node_call [(ClusterErrorCode, 502), (BadRequestCode, 400), (NotFoundCode, 404)]
       (node_StartProcessInstanceOnElements D N self k ids (case vs of None \<Rightarrow> Map.empty | Some m \<Rightarrow> m)) (\<lambda>i.
       answer 201 (bind (lift_sum (json_Unmarshal (ppi_Variables i))) (\<lambda>processVars.
         ret (rest_created [] (ActivityState_String (ppi_State i)) processVars i))))"

definition instance_state_filter :: "string option \<Rightarrow> int option option" where
  "instance_state_filter st =
     (case st of
        None \<Rightarrow> Some None
      | Some s \<Rightarrow>
          if s = ''active'' then Some (Some (ActivityState_int ActivityStateActive))
          else if s = ''completed'' then Some (Some (ActivityState_int ActivityStateCompleted))
          else if s = ''terminated'' then Some (Some (ActivityState_int ActivityStateTerminated))
          else if s = ''failed'' then Some (Some (ActivityState_int ActivityStateFailed))
          else None)"

record instances_params =
  gi_Page :: "int option"
  gi_Size :: "int option"
  gi_ProcessDefinitionKey :: "int option"
  gi_ParentProcessInstanceKey :: "int option"
  gi_BusinessKey :: "string option"
  gi_BpmnProcessId :: "string option"
  gi_State :: "string option"
  gi_CreatedFrom :: "int option"
  gi_CreatedTo :: "int option"
  gi_IncludeChildProcesses :: "bool option"
  gi_ActivityId :: "string option"
  gi_SortBy :: "string option"
  gi_SortOrder :: "string option"

text \<open>The loop over the active element instances runs over the item it is about to fill, so that there are
  none.\<close>

definition rest_GetProcessInstances ::
  "schedule \<Rightarrow> network \<Rightarrow> string \<Rightarrow> instances_params \<Rightarrow> (int \<times> rest_ProcessInstance list) rest_page rest_handler" where
  "rest_GetProcessInstances \<sigma> N self q =
     (let (pg, sz) = defaultPagination (gi_Page q) (gi_Size q) in
      case instance_state_filter (gi_State q) of
        None \<Rightarrow> ret (bad_request ''unexpected GetProcessInstancesRequest.state'')
      | Some st \<Rightarrow>
          check_sort bad_request [''key'', ''state'', ''createdAt'', ''businessKey''] (gi_SortBy q) (gi_SortOrder q) (\<lambda>srt.
          node_call [(ClusterErrorCode, 502)]
            (node_GetProcessInstances \<sigma> N self
               \<lparr>ir_Page = pg, ir_Size = sz, ir_SortByOrder = srt,
                ir_DefinitionKey = (case gi_ProcessDefinitionKey q of None \<Rightarrow> 0 | Some k \<Rightarrow> k),
                ir_ParentKey = (case gi_ParentProcessInstanceKey q of None \<Rightarrow> 0 | Some k \<Rightarrow> k),
                ir_BusinessKey = gi_BusinessKey q, ir_ProcessId = gi_BpmnProcessId q,
                ir_CreatedFrom = map_option UnixMilli (gi_CreatedFrom q), ir_CreatedTo = map_option UnixMilli (gi_CreatedTo q),
                ir_State = st, ir_ActivityId = gi_ActivityId q, ir_ShowChildProcesses = (gi_IncludeChildProcesses q = Some True)\<rparr>)
            (\<lambda>ps. answer 200 (partitioned_answer pg sz (total_of ps) (rest_instance []) ps))))"

definition rest_GetProcessInstance :: "network \<Rightarrow> string \<Rightarrow> int \<Rightarrow> rest_ProcessInstance rest_handler" where
  "rest_GetProcessInstance N self k =
     node_call [(ClusterErrorCode, 502), (NotFoundCode, 404)] (node_GetProcessInstance N self k) (\<lambda>(i, tokens).
       answer 200 (rest_instance (map (rest_element TokenState_String) tokens) i))"

text \<open>\<^verbatim>\<open>GetChildProcessInstances\<close>: its errors have the code \<^verbatim>\<open>TODO\<close>, and every failure of the node is a 502.\<close>

definition todo_error :: "nat \<Rightarrow> string \<Rightarrow> 'a rest" where
  "todo_error status msg = RestError status ''TODO'' msg"

definition rest_GetChildProcessInstances ::
  "network \<Rightarrow> string \<Rightarrow> int option \<Rightarrow> int option \<Rightarrow> int \<Rightarrow> string option \<Rightarrow> string option \<Rightarrow> string option \<Rightarrow>
     (int \<times> rest_ProcessInstance list) rest_page rest_handler" where
  "rest_GetChildProcessInstances N self page pageSize k st sortBy sortOrder =
     (let (pg, sz0) = defaultPagination page pageSize;
          sz = (if sz0 \<noteq> -1 then sz0 else 20)
      in case instance_state_filter st of
        None \<Rightarrow> ret (todo_error 400 ''unexpected GetChildProcessInstancesRequest.state'')
      | Some state \<Rightarrow>
          check_sort (todo_error 400) [''key'', ''state''] sortBy sortOrder (\<lambda>srt.
          bind (attempt (node_GetChildProcessInstances N self (Some k) srt state pg sz)) (\<lambda>r.
            case r of
              Inl e \<Rightarrow> ret (todo_error 502 (error_text e))
            | Inr (Inl z) \<Rightarrow> ret (todo_error 502 (error_text (ze_err z)))
            | Inr (Inr ps) \<Rightarrow>
                bind (attempt (partitioned_answer pg sz (total_of ps) (rest_instance []) ps)) (\<lambda>x.
                  ret (case x of Inl e \<Rightarrow> todo_error 500 (error_text e) | Inr p \<Rightarrow> Rest 200 p)))))"

definition rest_UpdateProcessInstanceVariables ::
  "engine_deps \<Rightarrow> network \<Rightarrow> string \<Rightarrow> int \<Rightarrow> vars \<Rightarrow> unit rest_handler" where
  "rest_UpdateProcessInstanceVariables D N self k vs =
     node_call [(ClusterErrorCode, 502), (NotFoundCode, 404)] (node_GetProcessInstance N self k) (\<lambda>(i, _).
       if ppi_State i \<noteq> ActivityState_int ActivityStateActive \<and> ppi_State i \<noteq> ActivityState_int ActivityStateFailed
       then ret (ToApiError 409 (Conflict (Errorf ''Can update variables only for process instances in active or failed state'')))
       else node_call [(ClusterErrorCode, 502), (BadRequestCode, 400), (NotFoundCode, 404)]
         (node_UpdateProcessInstanceVariables D N self k vs) (\<lambda>_. no_content))"

definition rest_DeleteProcessInstanceVariable :: "network \<Rightarrow> string \<Rightarrow> int \<Rightarrow> string \<Rightarrow> unit rest_handler" where
  "rest_DeleteProcessInstanceVariable N self k variable =
     node_call [(ClusterErrorCode, 502), (NotFoundCode, 404)] (node_GetProcessInstance N self k) (\<lambda>(i, _).
       case json_Unmarshal (ppi_Variables i) of
         Inl e \<Rightarrow> ret (internal_error e)
       | Inr existingVars \<Rightarrow>
           if existingVars variable = None
           then ret (ToApiError 404 (NotFound (Errorf ''variable does not exist for process instance'')))
           else if ppi_State i \<noteq> ActivityState_int ActivityStateActive
           then ret (ToApiError 409 (Conflict (Errorf ''can delete variables only for process instances in active state'')))
           else node_call [(ClusterErrorCode, 502)] (node_DeleteProcessInstanceVariable N self k variable) (\<lambda>_. no_content))"

definition rest_CancelProcessInstance :: "engine_deps \<Rightarrow> network \<Rightarrow> string \<Rightarrow> int \<Rightarrow> unit rest_handler" where
  "rest_CancelProcessInstance D N self k =
     node_call [(ClusterErrorCode, 502), (NotFoundCode, 404), (ConflictCode, 409)]
       (node_CancelProcessInstance D N self k) (\<lambda>_. no_content)"

text \<open>\<^verbatim>\<open>ModifyProcessInstance\<close> prints the states of tokens with the names of activity states.\<close>

definition rest_ModifyProcessInstance ::
  "engine_deps \<Rightarrow> network \<Rightarrow> string \<Rightarrow> int \<Rightarrow> int list option \<Rightarrow> string list option \<Rightarrow> vars option \<Rightarrow>
     (rest_ProcessInstance \<times> rest_ElementInstance list) rest_handler" where
  "rest_ModifyProcessInstance D N self k toTerminate toStart vs =
     node_call [(ClusterErrorCode, 502), (BadRequestCode, 400), (NotFoundCode, 404)]
       (node_ModifyProcessInstance D N self k (case toTerminate of None \<Rightarrow> [] | Some ks \<Rightarrow> ks)
         (case toStart of None \<Rightarrow> [] | Some ids \<Rightarrow> ids) (case vs of None \<Rightarrow> Map.empty | Some m \<Rightarrow> m)) (\<lambda>(i, tokens).
       answer 201 (bind (lift_sum (json_Unmarshal (ppi_Variables i))) (\<lambda>processVars.
         bind (getRestProcessInstanceType (ppi_Type i)) (\<lambda>ty.
           ret (rest_created ty (ActivityState_String (ppi_State i)) processVars i,
                map (rest_element ActivityState_String) tokens)))))"

definition rest_GetHistory ::
  "network \<Rightarrow> string \<Rightarrow> int option \<Rightarrow> int option \<Rightarrow> int \<Rightarrow> proto_FlowElement rest_page rest_handler" where
  "rest_GetHistory N self page pageSize k =
     (let (pg, sz) = defaultPagination page pageSize in
      node_call [(ClusterErrorCode, 502)] (node_GetFlowElementHistory N self pg sz k) (\<lambda>(flow, totalCount).
        ret (Rest 200 (page_answer pg sz totalCount
          (map (\<lambda>f. f\<lparr>pfe_CreatedAt := time_UnixMilli (pfe_CreatedAt f)\<rparr>) flow)))))"

section \<open>Process definitions\<close>

text \<open>The parts of the multipart body: each a failure to read it, or a form name with its file name and the
  outcome of reading its data. The first part named \<^verbatim>\<open>resource\<close> counts.\<close>

type_synonym body_part = "error + string \<times> (error + string)"

fun read_resource :: "body_part list \<Rightarrow> ZenError + string" where
  "read_resource [] = Inl (BadRequest (Errorf ''resource file is required''))"
| "read_resource (Inl e # ps) = Inl (BadRequest (Wrapf ''failed to read multipart form'' e))"
| "read_resource (Inr (name, r) # ps) =
     (if name = ''resource'' then (case r of Inl e \<Rightarrow> Inl (BadRequest e) | Inr data \<Rightarrow> Inr data)
      else read_resource ps)"

text \<open>The deployments give a key next to the error.\<close>

definition deployed :: "(ZenErrorCode \<times> nat) list \<Rightarrow> (world, int \<times> ZenError option) eng \<Rightarrow> int rest_handler" where
  "deployed statuses m =
     node_call statuses (bind m (\<lambda>(key, z). case z of Some e \<Rightarrow> zfail e | None \<Rightarrow> zret key)) created"

definition rest_CreateProcessDefinition ::
  "schedule \<Rightarrow> engine_deps \<Rightarrow> network \<Rightarrow> string \<Rightarrow> body_part list \<Rightarrow> int rest_handler" where
  "rest_CreateProcessDefinition \<sigma> D N self parts =
     (case read_resource parts of
        Inl z \<Rightarrow> ret (ToApiError 400 z)
      | Inr data \<Rightarrow> deployed [(ClusterErrorCode, 500), (ConflictCode, 409)]
          (node_DeployProcessDefinitionToAllPartitions \<sigma> D N self data))"

definition rest_GetProcessDefinitions ::
  "string \<Rightarrow> int option \<Rightarrow> int option \<Rightarrow> string option \<Rightarrow> bool option \<Rightarrow> string option \<Rightarrow> string option \<Rightarrow>
     proto_ProcessDefinition rest_page rest_handler" where
  "rest_GetProcessDefinitions self page pageSize bpmnProcessId onlyLatest sortBy sortOrder =
     (let (pg, sz) = defaultPagination page pageSize in
      case validatePagination pg sz of
        Some z \<Rightarrow> ret (ToApiError 400 z)
      | None \<Rightarrow>
          node_call [(BadRequestCode, 400)]
            (node_GetProcessDefinitions self bpmnProcessId onlyLatest (SortString sortOrder sortBy) pg sz) (\<lambda>(ds, totalCount).
            ret (Rest 200 (page_answer pg sz totalCount ds))))"

definition positive_key :: "string \<Rightarrow> int \<Rightarrow> 'a rest_handler \<Rightarrow> 'a rest_handler" where
  "positive_key msg k h = (if k \<le> 0 then ret (bad_request msg) else h)"

text \<open>The answer has no process name.\<close>

definition rest_GetProcessDefinition :: "string \<Rightarrow> int \<Rightarrow> proto_ProcessDefinition rest_handler" where
  "rest_GetProcessDefinition self k =
     positive_key ''processDefinitionKey must be > 0'' k
       (node_call [(NotFoundCode, 404), (BadRequestCode, 400)] (node_GetProcessDefinition self k) (\<lambda>d.
         ret (Rest 200 (d\<lparr>ppd_ProcessName := None,
           ppd_Definition := Some (case ppd_Definition d of None \<Rightarrow> [] | Some x \<Rightarrow> x)\<rparr>))))"

type_synonym element_counts_map = "string \<rightharpoonup> int \<times> int"

definition rest_element_statistics :: "element_statistics partitioned list \<Rightarrow> (int \<times> element_counts_map) list" where
  "rest_element_statistics ps =
     map (\<lambda>p. (uint (pp_PartitionId p),
       fold (\<lambda>e m. m(es_ElementID e \<mapsto> (es_ActiveCount e, es_IncidentCount e))) (pp_Items p) Map.empty)) ps"

definition rest_GetProcessDefinitionElementStatistics ::
  "schedule \<Rightarrow> network \<Rightarrow> string \<Rightarrow> int \<Rightarrow> (int \<times> element_counts_map) list rest_handler" where
  "rest_GetProcessDefinitionElementStatistics \<sigma> N self k =
     positive_key ''processDefinitionKey must be > 0'' k
       (node_call [(NotFoundCode, 404)] (node_GetProcessDefinition self k) (\<lambda>_.
        node_call [(ClusterErrorCode, 502), (BadRequestCode, 400)] (node_GetProcessDefinitionElementStatistics \<sigma> N self k)
          (\<lambda>ps. ret (Rest 200 (rest_element_statistics ps)))))"

definition rest_GetProcessInstanceElementStatistics ::
  "schedule \<Rightarrow> network \<Rightarrow> string \<Rightarrow> int \<Rightarrow> (int \<times> element_counts_map) list rest_handler" where
  "rest_GetProcessInstanceElementStatistics \<sigma> N self k =
     positive_key ''processInstanceKey must be > 0'' k
       (node_call [(NotFoundCode, 404), (ClusterErrorCode, 502)] (node_GetProcessInstance N self k) (\<lambda>_.
        node_call [(ClusterErrorCode, 502), (BadRequestCode, 400)] (node_GetProcessInstanceElementStatistics \<sigma> N self k)
          (\<lambda>ps. ret (Rest 200 (rest_element_statistics ps)))))"

definition rest_GetProcessDefinitionStatistics ::
  "schedule \<Rightarrow> network \<Rightarrow> string \<Rightarrow> int option \<Rightarrow> int option \<Rightarrow> bool option \<Rightarrow> string list option \<Rightarrow> int list option \<Rightarrow>
     string option \<Rightarrow> string option \<Rightarrow> string option \<Rightarrow> (int \<times> definition_statistics list) rest_page rest_handler" where
  "rest_GetProcessDefinitionStatistics \<sigma> N self page pageSize onlyLatest ids keys name sortBy sortOrder =
     (let (pg, sz) = defaultPagination page pageSize in
      case validatePagination pg sz of
        Some z \<Rightarrow> ret (ToApiError 400 z)
      | None \<Rightarrow>
          node_call [(ClusterErrorCode, 502), (BadRequestCode, 400)]
            (node_GetProcessDefinitionStatistics \<sigma> N self
               \<lparr>sr_Page = pg, sr_Size = sz, sr_OnlyLatest = (onlyLatest = Some True),
                sr_BpmnProcessIdIn = (case ids of None \<Rightarrow> [] | Some xs \<Rightarrow> xs),
                sr_BpmnProcessDefinitionKeyIn = (case keys of None \<Rightarrow> [] | Some xs \<Rightarrow> xs),
                sr_Name = name, sr_Sort = SortString sortOrder sortBy\<rparr>)
            (\<lambda>ps. answer 200 (partitioned_answer pg sz (total_of ps) ret ps)))"

section \<open>Decisions\<close>

definition rest_dmn_definition :: "bool \<Rightarrow> proto_DmnResourceDefinition \<Rightarrow> proto_DmnResourceDefinition" where
  "rest_dmn_definition detail d = (if detail then d else d\<lparr>pdr_Definition := []\<rparr>)"

definition rest_GetDmnResourceDefinitions ::
  "string \<Rightarrow> int option \<Rightarrow> int option \<Rightarrow> bool option \<Rightarrow> string option \<Rightarrow> string option \<Rightarrow> string option \<Rightarrow> string option \<Rightarrow>
     proto_DmnResourceDefinition rest_page rest_handler" where
  "rest_GetDmnResourceDefinitions self page pageSize onlyLatest i name sortBy sortOrder =
     (let (pg, sz) = defaultPagination page pageSize in
      check_sort bad_request [''key'', ''version'', ''dmnDefinitionName'', ''dmnResourceDefinitionId''] sortBy sortOrder (\<lambda>srt.
      node_call [(ClusterErrorCode, 502)] (node_GetDmnResourceDefinitions self pg sz onlyLatest srt i name) (\<lambda>(ds, totalCount).
        ret (Rest 200 (page_answer pg sz totalCount (map (rest_dmn_definition False) ds))))))"

definition rest_GetDmnResourceDefinition :: "string \<Rightarrow> int \<Rightarrow> proto_DmnResourceDefinition rest_handler" where
  "rest_GetDmnResourceDefinition self k =
     node_call [(NotFoundCode, 404)] (node_GetDmnResourceDefinition self k) (\<lambda>d. ret (Rest 200 (rest_dmn_definition True d)))"

definition rest_CreateDmnResourceDefinition ::
  "schedule \<Rightarrow> engine_deps \<Rightarrow> network \<Rightarrow> string \<Rightarrow> error + string \<Rightarrow> int rest_handler" where
  "rest_CreateDmnResourceDefinition \<sigma> D N self body =
     (case body of
        Inl e \<Rightarrow> ret (ToApiError 400 (BadRequest (Wrapf ''failed to read the request body'' e)))
      | Inr data \<Rightarrow> deployed [(ClusterErrorCode, 502), (ConflictCode, 409)]
          (node_DeployDmnResourceDefinitionToAllPartitions \<sigma> D N self data))"

text \<open>
  A value that was written as JSON and is read into \<^verbatim>\<open>map[string]any\<close>: it must be an object, or \<^verbatim>\<open>null\<close>, which leaves the
  map empty. \<open>X\<close> says how the exceptions of the FEEL library are written; values are kept as the engine has
  them, not as the numbers and strings of JSON.
\<close>

type_synonym json_map = "(string \<times> dval) list"

definition json_as_map :: "(string \<Rightarrow> error + json_map) \<Rightarrow> dval \<Rightarrow> error + json_map" where
  "json_as_map X v =
     (case v of
        DMap m \<Rightarrow> Inr m
      | DNil \<Rightarrow> Inr []
      | DException m \<Rightarrow> X m
      | _ \<Rightarrow> Inl (ExternalError ''json: cannot unmarshal into Go value of type map[string]interface {}''))"

record rest_EvaluatedDecision =
  red_Decision :: EvaluatedDecisionResult
  red_Outputs :: "json_map list list"
  red_DecisionOutput :: json_map

text \<open>An output of a rule arrives as the object with its value under its name. The output of every evaluated
  decision is read from the output of the whole evaluation.\<close>

definition rest_evaluated ::
  "(string \<Rightarrow> error + json_map) \<Rightarrow> dval \<Rightarrow> EvaluatedDecisionResult \<Rightarrow> (world, rest_EvaluatedDecision) eng" where
  "rest_evaluated X overall d =
     bind (map_each (ed_MatchedRules d) (\<lambda>r. map_each (er_EvaluatedOutputs r) (\<lambda>out.
       lift_sum (json_as_map X (DMap [(eo_OutputJsonName out, eo_OutputValue out)]))))) (\<lambda>outputs.
     bind (lift_sum (json_as_map X overall)) (\<lambda>decisionOutput. ret
       \<lparr>red_Decision = d, red_Outputs = outputs, red_DecisionOutput = decisionOutput\<rparr>))"

definition rest_decision_id :: "string \<Rightarrow> string option \<Rightarrow> string \<Rightarrow> string" where
  "rest_decision_id bindingType resourceId decisionId =
     (case resourceId of
        Some r \<Rightarrow> if bindingType = ''latest'' then r @ ''.'' @ decisionId else decisionId
      | None \<Rightarrow> decisionId)"

definition rest_EvaluateDecision ::
  "(string \<Rightarrow> error + json_map) \<Rightarrow> engine_deps \<Rightarrow> network \<Rightarrow> string \<Rightarrow> string \<Rightarrow> string \<Rightarrow> string option \<Rightarrow> string option \<Rightarrow> vars option \<Rightarrow>
     (int \<times> dval \<times> rest_EvaluatedDecision list) rest_handler" where
  "rest_EvaluateDecision X D N self decisionId bindingType resourceId versionTag vs =
     (if bindingType = ''deployment'' then ret (bad_request ''bindingType 'deployment' is not supported'')
      else node_call [(ClusterErrorCode, 502), (NotFoundCode, 404), (BadRequestCode, 400)]
          (node_EvaluateDecision D N self bindingType (rest_decision_id bindingType resourceId decisionId) (case versionTag of None \<Rightarrow> [] | Some t \<Rightarrow> t)
             (case vs of None \<Rightarrow> Map.empty | Some m \<Rightarrow> m)) (\<lambda>result.
          answer 200 (bind (map_each (drd_EvaluatedDecisions result) (rest_evaluated X (drd_DecisionOutput result)))
            (\<lambda>ds. ret (drd_DecisionInstanceKey result, drd_DecisionOutput result, ds)))))"

record decisions_params =
  gd_Page :: "int option"
  gd_Size :: "int option"
  gd_DmnResourceDefinitionKey :: "int option"
  gd_DmnResourceDefinitionId :: "string option"
  gd_ProcessInstanceKey :: "int option"
  gd_EvaluatedFrom :: "int option"
  gd_EvaluatedTo :: "int option"
  gd_SortBy :: "string option"
  gd_SortOrder :: "string option"

definition rest_decision_summary :: "proto_DecisionInstance \<Rightarrow> proto_DecisionInstance" where
  "rest_decision_summary i = i\<lparr>pdi_EvaluatedAt := time_UnixMilli (pdi_EvaluatedAt i),
     pdi_EvaluatedDecisions := None, pdi_DecisionOutput := None\<rparr>"

definition rest_GetDecisionInstances ::
  "schedule \<Rightarrow> network \<Rightarrow> string \<Rightarrow> decisions_params \<Rightarrow> (int \<times> proto_DecisionInstance list) rest_page rest_handler" where
  "rest_GetDecisionInstances \<sigma> N self q =
     (let (pg, sz) = defaultPagination (gd_Page q) (gd_Size q) in
      check_sort bad_request [''key'', ''evaluatedAt''] (gd_SortBy q) (gd_SortOrder q) (\<lambda>srt.
      node_call [(ClusterErrorCode, 502)]
        (node_GetDecisionInstances \<sigma> N self
           \<lparr>dr_Page = pg, dr_Size = sz, dr_SortByOrder = srt, dr_DmnResourceDefinitionKey = gd_DmnResourceDefinitionKey q,
            dr_DmnResourceDefinitionId = gd_DmnResourceDefinitionId q, dr_ProcessInstanceKey = gd_ProcessInstanceKey q,
            dr_EvaluatedFrom = map_option UnixMilli (gd_EvaluatedFrom q), dr_EvaluatedTo = map_option UnixMilli (gd_EvaluatedTo q)\<rparr>)
        (\<lambda>ps. answer 200 (partitioned_answer pg sz (total_of ps) (\<lambda>i. ret (rest_decision_summary i)) ps))))"

text \<open>\<open>J\<close> reads the stored evaluated decisions; the output is passed on as it is stored.\<close>

record rest_StoredDecision =
  rsd_DecisionId :: string
  rsd_DecisionName :: string
  rsd_DecisionType :: string
  rsd_Inputs :: "EvaluatedInput list"
  rsd_MatchedRules :: "EvaluatedRule list"

definition getEvaluatedDecisionsResponse :: "EvaluatedDecisionResult list \<Rightarrow> rest_StoredDecision list" where
  "getEvaluatedDecisionsResponse ds =
     map (\<lambda>d. \<lparr>rsd_DecisionId = ed_DecisionId d, rsd_DecisionName = ed_DecisionName d, rsd_DecisionType = ed_DecisionType d,
       rsd_Inputs = ed_EvaluatedInputs d, rsd_MatchedRules = ed_MatchedRules d\<rparr>) ds"

definition rest_GetDecisionInstance ::
  "(string \<Rightarrow> error + EvaluatedDecisionResult list) \<Rightarrow> network \<Rightarrow> string \<Rightarrow> int \<Rightarrow>
     (proto_DecisionInstance \<times> rest_StoredDecision list) rest_handler" where
  "rest_GetDecisionInstance J N self k =
     node_call [(ClusterErrorCode, 502), (NotFoundCode, 404)] (node_GetDecisionInstance N self k) (\<lambda>i.
       answer 200 (bind (case pdi_EvaluatedDecisions i of None \<Rightarrow> ret [] | Some t \<Rightarrow> lift_sum (J t)) (\<lambda>ds.
         ret (i\<lparr>pdi_EvaluatedAt := time_UnixMilli (pdi_EvaluatedAt i), pdi_EvaluatedDecisions := None\<rparr>,
              getEvaluatedDecisionsResponse ds))))"

section \<open>The list of jobs\<close>

lemma map_each_pure: "(\<And>x. x \<in> set xs \<Longrightarrow> f x s = (Ok (g x), s)) \<Longrightarrow> map_each xs f s = (Ok (map g xs), s)"
  by (induction xs) (simp_all add: bind_def ret_def)

text \<open>A job that can be shown: its variables are JSON and its state is one that jobs have in the API.\<close>

definition job_presentable :: "proto_Job \<Rightarrow> bool" where
  "job_presentable j \<longleftrightarrow> json_Unmarshal (pjb_Variables j) \<in> range Inr \<and>
     ActivityState_of (pjb_State j) \<in> {ActivityStateActive, ActivityStateCompleted, ActivityStateTerminated, ActivityStateFailed}"

definition job_view :: "proto_Job \<Rightarrow> rest_Job" where
  "job_view j =
     \<lparr>rj_CreatedAt = time_UnixMilli (pjb_CreatedAt j), rj_ElementId = pjb_ElementId j, rj_Key = pjb_Key j,
      rj_ProcessInstanceKey = pjb_ProcessInstanceKey j,
      rj_State = (case ActivityState_of (pjb_State j) of ActivityStateActive \<Rightarrow> ''active'' | ActivityStateCompleted \<Rightarrow> ''completed''
        | ActivityStateTerminated \<Rightarrow> ''terminated'' | _ \<Rightarrow> ''failed''),
      rj_Type = pjb_Type j, rj_Variables = projr (json_Unmarshal (pjb_Variables j)), rj_Assignee = pjb_Assignee j\<rparr>"

lemma rest_job_view: "job_presentable j \<Longrightarrow> rest_job (pjb_Assignee j) j w = (Ok (job_view j), w)"
  by (auto simp: job_presentable_def rest_job_def job_view_def bind_def lift_sum_def getRestJobState_def ret_def)

lemma job_pages_answer:
  assumes "list_all (\<lambda>p. list_all job_presentable (pp_Items p)) ps"
  shows "partitioned_answer pg sz t (\<lambda>j. rest_job (pjb_Assignee j) j) ps w =
    (Ok \<lparr>pg_Items = map (\<lambda>p. (uint (pp_PartitionId p), map job_view (pp_Items p))) ps,
      pg_Count = int (length (concat (map pp_Items ps))), pg_Page = pg, pg_Size = sz, pg_TotalCount = t\<rparr>, w)"
proof -
  have "map_each (pp_Items p) (\<lambda>j. rest_job (pjb_Assignee j) j) w = (Ok (map job_view (pp_Items p)), w)" if "p \<in> set ps" for p
    using assms that by (intro map_each_pure) (auto simp: list_all_iff rest_job_view)
  then have "map_each ps (\<lambda>p. bind (map_each (pp_Items p) (\<lambda>j. rest_job (pjb_Assignee j) j)) (\<lambda>items. ret (uint (pp_PartitionId p), items))) w =
      (Ok (map (\<lambda>p. (uint (pp_PartitionId p), map job_view (pp_Items p))) ps), w)"
    by (intro map_each_pure) (simp add: bind_def ret_def)
  then show ?thesis
    by (simp add: partitioned_answer_def rest_partitions_def bind_def ret_def length_concat comp_def)
qed

lemma node_call_Ok:
  assumes "fst (m w) = Ok (Inr x)"
  shows "\<exists>w'. node_call st m f w = f x w'"
  using assms by (cases "m w") (auto simp: node_call_def bind_def attempt_def)

text \<open>The state that a filter of the API names, for the filters that the handler applies as documented.\<close>

definition requested_state :: "string option \<Rightarrow> ActivityState option" where
  "requested_state f = map_option (\<lambda>s. if s = ''active'' then ActivityStateActive else ActivityStateCompleted) f"

lemma job_parts_state:
  assumes "p \<in> set (job_parts N w n pg sz jobType (Some st) assignee pk srt)" and "j \<in> set (pp_Items p)"
  shows "ActivityState_of (pjb_State j) = st"
  using assms
  by (auto simp: job_parts_def part_def jobs_page_def page_of_def q_FindJobs_def counted_page_def sql_page_def matches_def
      proto_of_job_def Let_def split: if_splits dest!: in_set_takeD in_set_dropD)

lemma job_parts_requested:
  assumes "f \<in> {None, Some ''active'', Some ''completed''}"
    and "p \<in> set (job_parts N w n pg sz jobType (requested_state f) assignee pk srt)" and "j \<in> set (pp_Items p)"
  shows "f \<in> {None, Some (rj_State (job_view j))}"
  using assms job_parts_state [of p N w n pg sz jobType _ assignee pk srt j]
  by (fastforce simp: requested_state_def job_view_def)


lemma terminated_filter_lists_active_jobs:
  "rest_GetJobs \<sigma> N self page pageSize jobType (Some ''terminated'') assignee pk sortBy sortOrder =
   rest_GetJobs \<sigma> N self page pageSize jobType (Some ''active'') assignee pk sortBy sortOrder"
  by (simp add: rest_GetJobs_def job_state_filter_def)

text \<open>The jobs cannot be sorted by their creation: the API offers \<^verbatim>\<open>sortBy=createdAt\<close> and the handler passes \<^verbatim>\<open>createdAt_\<close> with the
  order on, but the query knows the column as \<^verbatim>\<open>created_at_\<close>, so that the parameter has no effect, whatever the order
  and the cluster: the answer is the one without it, the latest keys first.\<close>

theorem jobs_are_not_sorted_by_creation:
  "rest_GetJobs \<sigma> N self page pageSize jobType f assignee pk (Some ''createdAt'') sortOrder =
   rest_GetJobs \<sigma> N self page pageSize jobType f assignee pk None sortOrder"
proof -
  have "sort_column (Some (''createdAt_'' @ s)) c g = sort_column (Some []) c g"
    if "c \<in> {''created_at'', ''key'', ''type'', ''state''}" for s c and g :: "Sql_Queries.sql_Job \<Rightarrow> sql_value"
    using that by (auto simp: sort_column_def)
  then have "q_FindJobs (Some (''createdAt_'' @ s)) = q_FindJobs (Some [])" for s
    by (simp add: q_FindJobs_def fun_eq_iff)
  then have "getJobsForPartition N self pg sz jobType st assignee pk (Some (''createdAt_'' @ s)) =
      getJobsForPartition N self pg sz jobType st assignee pk None" for pg sz st s
    by (intro ext) (simp add: getJobsForPartition_def server_GetJobs_def)
  then have "node_GetJobs \<sigma> N self pg sz jobType st assignee pk (SortString sortOrder (Some ''createdAt'')) =
      node_GetJobs \<sigma> N self pg sz jobType st assignee pk (SortString sortOrder None)" for pg sz st
    by (simp add: node_GetJobs_def SortString_def)
  then show ?thesis by (simp only: rest_GetJobs_def)
qed

section \<open>Decisions whose result is no object\<close>

text \<open>\<open>gives\<close>: every value that is returned has the property.\<close>

definition gives :: "('a \<Rightarrow> bool) \<Rightarrow> ('s, 'a) eng \<Rightarrow> bool" where
  "gives P m \<longleftrightarrow> (\<forall>s x s'. m s = (Ok x, s') \<longrightarrow> P x)"

lemma gives_bind: "gives Q m \<Longrightarrow> (\<And>x. Q x \<Longrightarrow> gives P (f x)) \<Longrightarrow> gives P (bind m f)"
  unfolding gives_def bind_def by (fastforce split: prod.splits res.splits)

lemma gives_after: "(\<And>x. gives P (f x)) \<Longrightarrow> gives P (bind m f)"
  by (rule gives_bind [where Q = "\<lambda>_. True"]) (auto simp: gives_def)

lemma gives_ret: "P x \<Longrightarrow> gives P (ret x)"
  by (simp add: gives_def ret_def)

lemma gives_attempt: "gives P m \<Longrightarrow> gives (pred_sum (\<lambda>_. True) P) (attempt m)"
  unfolding gives_def attempt_def by (auto split: prod.splits res.splits)

lemma gives_wrap: "gives P m \<Longrightarrow> gives P (wrap g m)"
  unfolding gives_def wrap_def by (auto split: prod.splits res.splits)

lemma gives_on_node: "gives P m \<Longrightarrow> gives P (on_node a m)"
  unfolding gives_def on_node_def by (auto split: prod.splits option.splits)

lemma gives_on_engine: "gives P m \<Longrightarrow> gives P (on_engine p m)"
  unfolding gives_def on_engine_def by (auto split: prod.splits option.splits)

abbreviation zgives :: "('a \<Rightarrow> bool) \<Rightarrow> 'a zop \<Rightarrow> bool" where
  "zgives P \<equiv> gives (pred_sum (\<lambda>_. True) P)"

lemma gives_zbind:
  assumes "zgives Q m" and "\<And>x. Q x \<Longrightarrow> zgives P (f x)"
  shows "zgives P (zbind m f)"
  unfolding zbind_def
  by (rule gives_bind [OF assms(1)]) (auto simp: zfail_def gives_ret assms(2) split: sum.splits)

lemma gives_zsum: "zgives (\<lambda>_. True) (zsum z r)"
  by (simp add: zsum_def zfail_def zret_def gives_ret split: sum.splits)

lemma gives_ztry:
  assumes "gives P m"
  shows "zgives P (ztry z m)"
  unfolding ztry_def
  by (rule gives_bind [OF gives_attempt [OF assms]]) (auto simp: zfail_def zret_def gives_ret split: sum.splits)

definition resp_ok :: "('a \<Rightarrow> bool) \<Rightarrow> 'a response \<Rightarrow> bool" where
  "resp_ok P r = (case r of Resp x \<Rightarrow> P x | RespError _ \<Rightarrow> True)"

lemma gives_call_on:
  assumes "gives (resp_ok P) h"
  shows "zgives P (call_on N client ce re z h)"
  unfolding call_on_def
proof (rule gives_zbind [where Q = "\<lambda>_. True"])
  show "zgives (\<lambda>_. True) (ztry ce client)" by (rule gives_ztry) (simp add: gives_def)
next
  fix c
  have "zgives (resp_ok P) (ztry re (rpc N c h))"
    unfolding rpc_def by (intro gives_ztry gives_wrap gives_on_node assms)
  then show "zgives P (zbind (ztry re (rpc N c h)) (payload z))"
    by (rule gives_zbind) (auto simp: resp_ok_def payload_def zfail_def zret_def gives_ret split: response.splits)
qed

lemma gives_respond:
  assumes "gives P m" and "\<And>x. P x \<Longrightarrow> gives (resp_ok Q) (f x)"
  shows "gives (resp_ok Q) (respond z m f)"
  unfolding respond_def
  by (rule gives_bind [OF gives_attempt [OF assms(1)]])
     (auto simp: assms(2) reply_error_def gives_ret resp_ok_def split: sum.splits)

text \<open>An evaluation lists at least the decision that was asked for.\<close>

definition lists_decisions :: "EvaluatedDRDResult \<Rightarrow> bool" where
  "lists_decisions r \<longleftrightarrow> drd_EvaluatedDecisions r \<noteq> []"

lemma evaluate_on_lists: "gives lists_decisions (evaluate_on D bt i tag vs)"
  unfolding evaluate_on_def
proof (intro gives_after)
  fix k now
  show "gives lists_decisions (dmn_op (FindAndEvaluateDRD (dp_dmn_env D) (dp_dmn_fuel D) k now bt i tag vs))"
    unfolding gives_def dmn_op_def FindAndEvaluateDRD_def evaluateDRD_def
    by (auto simp: lists_decisions_def Let_def split: prod.splits sum.splits res.splits)
qed

lemma server_evaluation_lists: "gives (resp_ok lists_decisions) (server_EvaluateDecision D bt i tag j)"
proof -
  have r: "gives (resp_ok lists_decisions) (reply_error z)" for z by (simp add: reply_error_def gives_ret resp_ok_def)
  show ?thesis
    unfolding server_EvaluateDecision_def with_random_engine_def
    by (rule gives_after)
       (auto simp: r reply_def resp_ok_def intro!: gives_respond [OF gives_on_engine [OF evaluate_on_lists]] gives_ret
         split: option.splits sum.splits)
qed

lemma node_evaluation_lists: "zgives lists_decisions (node_EvaluateDecision D N self bt i tag vs)"
  unfolding node_EvaluateDecision_def to_least_stressed_def to_address_def
  by (intro gives_after gives_zbind [OF gives_zsum] gives_call_on server_evaluation_lists)

lemma evaluated_fails:
  assumes "json_as_map X v = Inl e"
  shows "rest_evaluated X v d w = (Err e, w)"
proof -
  have "map_each (er_EvaluatedOutputs r) (\<lambda>out. lift_sum (json_as_map X (DMap [(eo_OutputJsonName out, eo_OutputValue out)]))) w =
      (Ok (map (\<lambda>out. [(eo_OutputJsonName out, eo_OutputValue out)]) (er_EvaluatedOutputs r)), w)" for r
    by (rule map_each_pure) (simp add: json_as_map_def lift_sum_def ret_def)
  then have "map_each (ed_MatchedRules d) (\<lambda>r. map_each (er_EvaluatedOutputs r) (\<lambda>out.
      lift_sum (json_as_map X (DMap [(eo_OutputJsonName out, eo_OutputValue out)])))) w =
    (Ok (map (\<lambda>r. map (\<lambda>out. [(eo_OutputJsonName out, eo_OutputValue out)]) (er_EvaluatedOutputs r)) (ed_MatchedRules d)), w)"
    by (rule map_each_pure)
  with assms show ?thesis by (simp add: rest_evaluated_def bind_def lift_sum_def throw_def)
qed

text \<open>A decision whose result is not an object (the list of a collecting table, the value of a literal expression) cannot be
  evaluated over the REST API: the engine evaluates it and stores the decision instance, but the handler reads the
  result into a map for every evaluated decision, of which there is always one, and answers 500.\<close>

theorem non_object_decision_answers_500:
  assumes "bindingType \<noteq> ''deployment''"
    and "node_EvaluateDecision D N self bindingType (rest_decision_id bindingType resourceId decisionId)
      (case versionTag of None \<Rightarrow> [] | Some t \<Rightarrow> t) (case vs of None \<Rightarrow> Map.empty | Some m \<Rightarrow> m) w = (Ok (Inr result), w')"
    and "json_as_map X (drd_DecisionOutput result) = Inl e"
  shows "rest_EvaluateDecision X D N self decisionId bindingType resourceId versionTag vs w =
    (Ok (RestError 500 ''TECHNICAL_ERROR'' (error_text e)), w')"
proof -
  have "lists_decisions result" using node_evaluation_lists assms(2) by (fastforce simp: gives_def)
  then obtain d ds where "drd_EvaluatedDecisions result = d # ds"
    by (auto simp: lists_decisions_def neq_Nil_conv)
  then show ?thesis using assms evaluated_fails [OF assms(3)]
    by (simp add: rest_EvaluateDecision_def node_call_def answer_def bind_def attempt_def ret_def internal_error_def
        ToApiError_def TechnicalError_def)
qed

section \<open>Examples\<close>

definition restdemo_store :: Storage where
  "restdemo_store = NewStorage\<lparr>DmnResourceDefinitions := [(70, demo_resource [demo_decision ''d'' []])],
     DecisionDefinitions := [(71, \<lparr>dd_Version = 1, dd_Key = 71, dd_Id = ''d'', dd_VersionTag = [],
       dd_DmnResourceDefinitionId = ''r'', dd_DmnResourceDefinitionKey = 70\<rparr>)]\<rparr>"

definition restdemo_deps :: engine_deps where
  "restdemo_deps = zendemo_deps\<lparr>dp_dmn_env := \<lparr>de_feel = demo_feel, de_marshal = (\<lambda>_. Inr ''[]''),
     de_marshalDecisions = (\<lambda>_. Inr ''[]'')\<rparr>, dp_dvars := (\<lambda>_. Inr [''x'' \<mapsto> DStr ''a''])\<rparr>"

definition restdemo_world :: world where
  "restdemo_world = zendemo_world (Some (NewEngine\<lparr>mem := restdemo_store\<rparr>))"

theorem non_object_decision_answers_500_witness:
  "fst (rest_EvaluateDecision (\<lambda>_. Inr []) restdemo_deps zendemo_net ''n1'' ''d'' ''latest'' (Some ''r'') None None restdemo_world) =
   Ok (RestError 500 ''TECHNICAL_ERROR'' ''json: cannot unmarshal into Go value of type map[string]interface {}'')"
proof -
  let ?m = "node_EvaluateDecision restdemo_deps zendemo_net ''n1'' ''latest'' (rest_decision_id ''latest'' (Some ''r'') ''d'') [] Map.empty"
  have "(case fst (?m restdemo_world) of Ok (Inr r) \<Rightarrow> drd_DecisionOutput r = DList [DStr ''A'', DStr ''C''] | _ \<Rightarrow> False)" by code_simp
  then obtain r where r: "fst (?m restdemo_world) = Ok (Inr r)" "drd_DecisionOutput r = DList [DStr ''A'', DStr ''C'']"
    by (auto split: res.splits sum.splits)
  show ?thesis
    using non_object_decision_answers_500 [where bindingType = "''latest''" and D = restdemo_deps and N = zendemo_net
        and self = "''n1''" and resourceId = "Some ''r''" and decisionId = "''d''" and versionTag = None and vs = None
        and w = restdemo_world and w' = "snd (?m restdemo_world)" and result = r and X = "\<lambda>_. Inr []"] r
    by (simp add: json_as_map_def prod_eq_iff)
qed


end
