(* ===== verification/Grpc_Api.thy ===== *)
theory Grpc_Api
  imports Job_Client Sql_Persistence
begin

text \<open>
  The job stream of the public gRPC server (\<^verbatim>\<open>internal/grpc/server.go\<close>), over which a worker subscribes to job types, gets
  jobs and completes or fails them. The state is that of the job client of the node and what was sent on
  the stream. The receiving goroutine handles one request after the other; the sending one passes jobs on and ends with
  the context of the stream. They run at the same time: a run of the stream is a list of turns of the two in any
  order. A panic in either is not recovered and ends the process.
\<close>

datatype stream_request =
    JobStreamRequest_Complete "64 word" json_text
  | JobStreamRequest_Fail "64 word" string "string option" json_text
  | JobStreamRequest_Subscription int job_type
  | JobStreamRequest_None

datatype received = Received stream_request | Recv_EOF | Recv_Error error

datatype stream_response = StreamError string "64 word" | StreamJob Job_msg

record job_stream =
  gs_client :: jobClient
  gs_sent :: "stream_response list"

record grpc_env =
  ge_net :: net
  ge_Marshal :: "vars \<Rightarrow> error + string"
  ge_CompleteJob :: "connection \<Rightarrow> client_id \<Rightarrow> 64 word \<Rightarrow> string \<Rightarrow> error option"
  ge_FailJob :: "connection \<Rightarrow> 64 word \<Rightarrow> string \<Rightarrow> string option \<Rightarrow> string \<Rightarrow> error option"

text \<open>The metadata value counts only if there is exactly one; otherwise the client gets a new UUID.\<close>

definition getClientID :: "string list option \<Rightarrow> client_id" where
  "getClientID md = (case md of Some [i] \<Rightarrow> i | _ \<Rightarrow> [])"

definition stream_client :: "string list option \<Rightarrow> string \<Rightarrow> client_id" where
  "stream_client md uuid = (if getClientID md = [] then uuid else getClientID md)"

text \<open>A failed request is answered with its key, and the next one is received.\<close>

definition report :: "string \<Rightarrow> 64 word \<Rightarrow> error option \<times> jobClient \<Rightarrow> job_stream \<Rightarrow> job_stream" where
  "report msg key r s =
     (case r of (None, c) \<Rightarrow> s\<lparr>gs_client := c\<rparr>
      | (Some _, c) \<Rightarrow> s\<lparr>gs_client := c, gs_sent := gs_sent s @ [StreamError msg key]\<rparr>)"

definition handle_request :: "grpc_env \<Rightarrow> client_id \<Rightarrow> stream_request \<Rightarrow> (job_stream, unit) eng" where
  "handle_request E i r =
     (case r of
        JobStreamRequest_Complete key j \<Rightarrow>
          (case json_Unmarshal j of
             Inl e \<Rightarrow> modify (\<lambda>s. s\<lparr>gs_sent := gs_sent s @ [StreamError ''Failed to unmarshal variables'' key]\<rparr>)
           | Inr vs \<Rightarrow> modify (\<lambda>s. report ''Failed to complete job'' key
               (client_completeJob (ge_net E) (ge_Marshal E) (ge_CompleteJob E) i key vs (gs_client s)) s))
      | JobStreamRequest_Fail key message errorCode j \<Rightarrow>
          (case json_Unmarshal j of
             Inl e \<Rightarrow> modify (\<lambda>s. s\<lparr>gs_sent := gs_sent s @ [StreamError ''Failed to unmarshal variables'' key]\<rparr>)
           | Inr vs \<Rightarrow> modify (\<lambda>s. report ''Failed to fail job'' key
               (client_failJob (ge_net E) (ge_Marshal E) (ge_FailJob E) key message errorCode vs (gs_client s)) s))
      | JobStreamRequest_Subscription ty jobType \<Rightarrow>
          if ty = 0 then ret ()
          else if ty = 1 then modify (\<lambda>s. s\<lparr>gs_client := snd (addJobSub (ge_net E) i jobType (gs_client s))\<rparr>)
          else if ty = 2 then modify (\<lambda>s. s\<lparr>gs_client := snd (removeJobSub (ge_net E) i jobType (gs_client s))\<rparr>)
          else panic ''unexpected proto.StreamSubscriptionRequest_Type''
      | JobStreamRequest_None \<Rightarrow> panic ''unexpected proto.isJobStreamRequest_Request'')"

text \<open>A turn of the loop of \<^verbatim>\<open>recvClientRequests\<close>; its result says whether the loop goes on.\<close>

definition recvClientRequests :: "grpc_env \<Rightarrow> client_id \<Rightarrow> received \<Rightarrow> (job_stream, bool) eng" where
  "recvClientRequests E i x =
     (case x of
        Recv_EOF \<Rightarrow> ret False
      | Recv_Error e \<Rightarrow> ret False
      | Received r \<Rightarrow> bind (handle_request E i r) (\<lambda>_. ret True))"

text \<open>What wakes the sender: the end of the server, the end of the stream, or a job, which is passed on (\<open>ok\<close> says
  whether sending worked; a failure is only logged). A turn of the loop of \<^verbatim>\<open>sendClientJobs\<close>, with the same result.\<close>

datatype wake = ServerDone | StreamDone | JobReady Job_msg bool

definition remove_client :: "net \<Rightarrow> client_id \<Rightarrow> (job_stream, unit) eng" where
  "remove_client N i s =
     (case removeClient_sub N i (gs_client s) of
        Ok c \<Rightarrow> (Ok (), s\<lparr>gs_client := c\<rparr>)
      | Err e \<Rightarrow> (Err e, s) | Panic m \<Rightarrow> (Panic m, s) | Blocked \<Rightarrow> (Blocked, s) | NoFuel \<Rightarrow> (NoFuel, s))"

definition sendClientJobs :: "net \<Rightarrow> client_id \<Rightarrow> wake \<Rightarrow> (job_stream, bool) eng" where
  "sendClientJobs N i x =
     (case x of
        ServerDone \<Rightarrow> ret False
      | StreamDone \<Rightarrow> bind (remove_client N i) (\<lambda>_. ret False)
      | JobReady j ok \<Rightarrow>
          bind (modify (\<lambda>s. if ok then s\<lparr>gs_sent := gs_sent s @ [StreamJob j]\<rparr> else s)) (\<lambda>_. ret True))"

text \<open>The two goroutines take turns in any order; the turns of one that has ended do not take place. The result says
  whether the receiver and the sender are still at work.\<close>

datatype turn = Receiver received | Sender wake

fun stream_turns :: "grpc_env \<Rightarrow> client_id \<Rightarrow> turn list \<Rightarrow> bool \<Rightarrow> bool \<Rightarrow> (job_stream, bool \<times> bool) eng" where
  "stream_turns E i [] receiving sending = ret (receiving, sending)"
| "stream_turns E i (Receiver x # ts) receiving sending =
     (if receiving then bind (recvClientRequests E i x) (\<lambda>receiving'. stream_turns E i ts receiving' sending)
      else stream_turns E i ts receiving sending)"
| "stream_turns E i (Sender x # ts) receiving sending =
     (if sending then bind (sendClientJobs (ge_net E) i x) (\<lambda>sending'. stream_turns E i ts receiving sending')
      else stream_turns E i ts receiving sending)"

text \<open>\<^verbatim>\<open>JobStream\<close> starts the receiver and is the sender itself: it has returned (\<open>True\<close>) when the sender has ended. The
  receiver may still handle requests then.\<close>

definition JobStream ::
  "grpc_env \<Rightarrow> nat \<Rightarrow> nat \<Rightarrow> string list option \<Rightarrow> string \<Rightarrow> turn list \<Rightarrow> (job_stream, bool) eng" where
  "JobStream E ctx ch md uuid ts s =
     (let i = stream_client md uuid in
      case addClient ctx i ch (gs_client s) of
        (Some e, c) \<Rightarrow> (Err (Wrapf ''failed to add client'' e), s\<lparr>gs_client := c\<rparr>)
      | (None, c) \<Rightarrow> bind (stream_turns E i ts True True) (\<lambda>(_, sending). ret (\<not> sending)) (s\<lparr>gs_client := c\<rparr>))"

section \<open>Clients come and go\<close>

lemma complete_keeps:
  "clientSubs (snd (client_completeJob N M C i k vs c)) = clientSubs c" "closedChannels (snd (client_completeJob N M C i k vs c)) = closedChannels c"
  "clientSubs (snd (client_failJob N M F k m ec vs c)) = clientSubs c" "closedChannels (snd (client_failJob N M F k m ec vs c)) = closedChannels c"
  by (auto simp: client_completeJob_def client_failJob_def split: prod.splits sum.splits)

lemma report_client: "gs_client (report msg k r s) = snd r"
  by (auto simp: report_def split: prod.splits option.splits)

text \<open>A request the server can handle; any other one makes it panic.\<close>

fun handled :: "received \<Rightarrow> bool" where
  "handled (Received JobStreamRequest_None) = False"
| "handled (Received (JobStreamRequest_Subscription ty jobType)) = (ty \<in> {0, 1, 2})"
| "handled _ = True"

definition jobs_sent :: "job_stream \<Rightarrow> Job_msg list" where
  "jobs_sent s = List.map_filter (\<lambda>x. case x of StreamJob j \<Rightarrow> Some j | StreamError _ _ \<Rightarrow> None) (gs_sent s)"

lemma jobs_sent_append:
  "jobs_sent (s\<lparr>gs_sent := gs_sent s @ [StreamError m k]\<rparr>) = jobs_sent s"
  "jobs_sent (s\<lparr>gs_sent := gs_sent s @ [StreamJob j]\<rparr>) = jobs_sent s @ [j]"
  "jobs_sent (s\<lparr>gs_client := c\<rparr>) = jobs_sent s"
  "jobs_sent (s\<lparr>gs_client := c, gs_sent := gs_sent s @ [StreamError m k]\<rparr>) = jobs_sent s"
  by (simp_all add: jobs_sent_def List.map_filter_def)

text \<open>What a turn of the receiver keeps: who is registered, the channels, and the jobs that were sent.\<close>

definition stream_view :: "job_stream \<Rightarrow> (client_id \<times> clientSub) list \<times> nat list \<times> Job_msg list" where
  "stream_view s = (clientSubs (gs_client s), closedChannels (gs_client s), jobs_sent s)"

lemma report_view:
  "clientSubs (snd r) = clientSubs (gs_client s) \<Longrightarrow> closedChannels (snd r) = closedChannels (gs_client s) \<Longrightarrow>
     stream_view (report msg k r s) = stream_view s"
  by (auto simp: report_def stream_view_def jobs_sent_append split: prod.splits option.splits)

lemma recv_turn:
  assumes "handled x"
  shows "\<exists>go s'. recvClientRequests E i x s = (Ok go, s') \<and> stream_view s' = stream_view s"
proof (cases x)
  case (Received r)
  show ?thesis
  proof (cases r)
    case (JobStreamRequest_Complete key j)
    with Received show ?thesis
      by (cases "json_Unmarshal j")
        (auto simp: recvClientRequests_def handle_request_def modify_def bind_def ret_def report_view complete_keeps
          stream_view_def [of "s\<lparr>gs_sent := _\<rparr>"] stream_view_def [of s] jobs_sent_append)
  next
    case (JobStreamRequest_Fail key message errorCode j)
    with Received show ?thesis
      by (cases "json_Unmarshal j")
        (auto simp: recvClientRequests_def handle_request_def modify_def bind_def ret_def report_view complete_keeps
          stream_view_def [of "s\<lparr>gs_sent := _\<rparr>"] stream_view_def [of s] jobs_sent_append)
  next
    case (JobStreamRequest_Subscription ty jobType)
    with Received assms show ?thesis
      by (auto simp: recvClientRequests_def handle_request_def modify_def bind_def ret_def stream_view_def jobs_sent_append
          job_sub_keeps broadcast_keeps)
  qed (use Received assms in simp)
qed (auto simp: recvClientRequests_def ret_def)

text \<open>The jobs that reach the client, and whether the stream ends before the server does.\<close>

fun passed :: "turn list \<Rightarrow> Job_msg list" where
  "passed [] = []"
| "passed (Receiver _ # ts) = passed ts"
| "passed (Sender (JobReady j ok) # ts) = (if ok then j # passed ts else passed ts)"
| "passed (Sender _ # ts) = []"

fun stream_ends :: "turn list \<Rightarrow> bool" where
  "stream_ends [] = False"
| "stream_ends (Receiver _ # ts) = stream_ends ts"
| "stream_ends (Sender (JobReady j ok) # ts) = stream_ends ts"
| "stream_ends (Sender StreamDone # ts) = True"
| "stream_ends (Sender ServerDone # ts) = False"

lemma ended_sender_turns:
  assumes "\<forall>x. Receiver x \<in> set ts \<longrightarrow> handled x"
  shows "\<exists>r s'. stream_turns E i ts receiving False s = (Ok (r, False), s') \<and> stream_view s' = stream_view s"
  using assms
proof (induction ts arbitrary: receiving s)
  case Nil
  then show ?case by (simp add: ret_def)
next
  case (Cons t ts)
  have rest: "\<forall>x. Receiver x \<in> set ts \<longrightarrow> handled x" using Cons.prems by simp
  show ?case
  proof (cases t)
    case (Receiver x)
    with Cons.prems have "handled x" by simp
    from recv_turn [OF this, of E i s] obtain go s1 where s1: "recvClientRequests E i x s = (Ok go, s1)"
      "stream_view s1 = stream_view s" by blast
    show ?thesis
    proof (cases receiving)
      case True
      from Cons.IH [OF rest, of go s1] s1 Receiver True show ?thesis by (auto simp: bind_def)
    next
      case False
      with Cons.IH [OF rest, of False s] Receiver show ?thesis by simp
    qed
  next
    case (Sender x)
    with Cons.IH [OF rest, of receiving s] show ?thesis by simp
  qed
qed

definition turns_outcome :: "turn list \<Rightarrow> client_id \<Rightarrow> clientSub \<Rightarrow> job_stream \<Rightarrow> bool \<Rightarrow> job_stream \<Rightarrow> bool" where
  "turns_outcome ts i sub s w s' \<longleftrightarrow> jobs_sent s' = jobs_sent s @ passed ts \<and>
    (if stream_ends ts
     then \<not> w \<and> map_of (clientSubs (gs_client s')) = (map_of (clientSubs (gs_client s)))(i := None) \<and>
       closedChannels (gs_client s') = closedChannels (gs_client s) @ [cs_ch sub]
     else map_of (clientSubs (gs_client s')) = map_of (clientSubs (gs_client s)) \<and>
       closedChannels (gs_client s') = closedChannels (gs_client s))"

lemma turns_outcome_view:
  "stream_view s1 = stream_view s \<Longrightarrow> turns_outcome ts i sub s1 w s' = turns_outcome (Receiver x # ts) i sub s w s'"
  by (simp add: turns_outcome_def stream_view_def)

lemma turns_outcome_ended:
  "stream_view s' = stream_view s1 \<Longrightarrow> turns_outcome [Sender x] i sub s False s1 \<Longrightarrow> x \<in> {ServerDone, StreamDone} \<Longrightarrow>
     turns_outcome (Sender x # ts) i sub s False s'"
  by (auto simp: turns_outcome_def stream_view_def)

lemma turns_outcome_job:
  "turns_outcome ts i sub (if ok then s\<lparr>gs_sent := gs_sent s @ [StreamJob j]\<rparr> else s) w s' =
     turns_outcome (Sender (JobReady j ok) # ts) i sub s w s'"
  by (simp add: turns_outcome_def jobs_sent_append)

lemma send_done:
  assumes "map_of (clientSubs (gs_client s)) i = Some sub" and "cs_ch sub \<notin> set (closedChannels (gs_client s))"
    and "x \<in> {ServerDone, StreamDone}"
  shows "\<exists>s1. sendClientJobs N i x s = (Ok False, s1) \<and> turns_outcome [Sender x] i sub s False s1"
  using assms
  by (auto simp: sendClientJobs_def remove_client_def bind_def ret_def removeClient_sub_def turns_outcome_def
      close_channel_def broadcast_keeps delete_conv' Let_def jobs_sent_append)

lemma stream_turns_outcome:
  assumes "\<forall>x. Receiver x \<in> set ts \<longrightarrow> handled x"
    and "map_of (clientSubs (gs_client s)) i = Some sub" and "cs_ch sub \<notin> set (closedChannels (gs_client s))"
  shows "\<exists>r w s'. stream_turns E i ts receiving True s = (Ok (r, w), s') \<and> turns_outcome ts i sub s w s'"
  using assms
proof (induction ts arbitrary: receiving s)
  case Nil
  then show ?case by (auto simp: ret_def turns_outcome_def)
next
  case (Cons t ts)
  have rest: "\<forall>x. Receiver x \<in> set ts \<longrightarrow> handled x" using Cons.prems(1) by simp
  show ?case
  proof (cases t)
    case (Receiver x)
    with Cons.prems have "handled x" by simp
    from recv_turn [OF this, of E i s] obtain go s1 where s1: "recvClientRequests E i x s = (Ok go, s1)"
      "stream_view s1 = stream_view s" by blast
    have "\<exists>go' s2. stream_turns E i (t # ts) receiving True s = stream_turns E i ts go' True s2 \<and> stream_view s2 = stream_view s"
      using s1 Receiver by (cases receiving) (auto simp: bind_def)
    then obtain go' s2 where s2: "stream_turns E i (t # ts) receiving True s = stream_turns E i ts go' True s2"
      "stream_view s2 = stream_view s" by blast
    have "map_of (clientSubs (gs_client s2)) i = Some sub" "cs_ch sub \<notin> set (closedChannels (gs_client s2))"
      using Cons.prems(2,3) s2(2) by (simp_all add: stream_view_def)
    from Cons.IH [OF rest this, of go'] show ?thesis
      using s2(1) Receiver by (simp only: turns_outcome_view [OF s2(2), of _ _ _ _ _ x])
  next
    case (Sender x)
    show ?thesis
    proof (cases "x \<in> {ServerDone, StreamDone}")
      case True
      from send_done [OF Cons.prems(2,3) True, of "ge_net E"] obtain s1 where
        s1: "sendClientJobs (ge_net E) i x s = (Ok False, s1)" "turns_outcome [Sender x] i sub s False s1" by blast
      from ended_sender_turns [OF rest, of E i receiving s1] obtain r s' where
        "stream_turns E i ts receiving False s1 = (Ok (r, False), s')" "stream_view s' = stream_view s1" by blast
      with s1 turns_outcome_ended [OF _ s1(2) True] Sender show ?thesis by (auto simp: bind_def)
    next
      case False
      then obtain j ok where x: "x = JobReady j ok" by (cases x) auto
      let ?s = "if ok then s\<lparr>gs_sent := gs_sent s @ [StreamJob j]\<rparr> else s"
      have t: "stream_turns E i (t # ts) receiving True s = stream_turns E i ts receiving True ?s"
        using Sender x by (simp add: sendClientJobs_def bind_def modify_def ret_def)
      have "map_of (clientSubs (gs_client ?s)) i = Some sub" "cs_ch sub \<notin> set (closedChannels (gs_client ?s))"
        using Cons.prems(2,3) by simp_all
      from Cons.IH [OF rest this, of receiving] show ?thesis
        using t Sender x by (simp only: turns_outcome_job)
    qed
  qed
qed


text \<open>A request without content, which any client can send, makes the receiving goroutine panic.\<close>

lemma empty_request_panics:
  "recvClientRequests E i (Received JobStreamRequest_None) s = (Panic ''unexpected proto.isJobStreamRequest_Request'', s)"
  by (simp add: recvClientRequests_def handle_request_def bind_def panic_def)

definition grpcdemo_env :: grpc_env where
  "grpcdemo_env = \<lparr>ge_net = demo_net, ge_Marshal = (\<lambda>_. Inr ''{}''), ge_CompleteJob = (\<lambda>_ _ _ _. None), ge_FailJob = (\<lambda>_ _ _ _ _. None)\<rparr>"

definition grpcdemo_turns :: "turn list" where
  "grpcdemo_turns = [Receiver (Received (JobStreamRequest_Subscription 1 ''work'')), Sender (JobReady (demo_msg ''w'') True),
     Receiver (Received (JobStreamRequest_Complete 7 (Json Map.empty))), Sender StreamDone, Receiver Recv_EOF]"


end
