(* ===== verification/Cluster_Boot.thy ===== *)
theory Cluster_Boot
  imports Cluster_Fsm
begin

text \<open>
  How nodes come together: the membership operations of the store (\<^verbatim>\<open>store.go\<close>, \<^verbatim>\<open>store_helper.go\<close>) with their
  handlers in \<^verbatim>\<open>server.go\<close>, and the bootstrapper and the joiner that call them (\<^verbatim>\<open>bootstrap.go\<close>, \<^verbatim>\<open>join.go\<close>).

  Raft is a library. What the local raft node believes (who leads, which servers the configuration has) is part of
  the state of a store; what its calls do to the configuration, whether an entry is accepted by the log, and whether an
  address can be resolved are the fields of \<open>raft_lib\<close>. An accepted entry is recorded in \<open>st_log\<close>; its effect on
  the state is \<open>Apply\<close> of \<open>Cluster_Fsm\<close>. Peers are stores by address; a call to a peer is one step.
\<close>

section \<open>The store\<close>

record Store =
  st_open :: bool
  st_raftID :: string
  st_Addr :: string
  st_bootstrapExpect :: int
  st_bootstrapped :: bool
  st_notifyingNodes :: "(string \<times> raft_server) list"
  st_isRaftLeader :: bool
  st_LeaderWithID :: "string \<times> string"
  st_Servers :: "raft_server list"
  st_state :: Cluster
  st_log :: "Command list"
  st_ReapTimeout :: int
  st_ReapReadOnlyTimeout :: int
  st_NodeHearbeatShutdownTimeout :: int

record raft_lib =
  rl_Apply :: "Command \<Rightarrow> error option"
  rl_Response :: "Command \<Rightarrow> bool"
  rl_GetConfiguration :: "error option"
  rl_BootstrapCluster :: "raft_server list \<Rightarrow> raft_server list \<Rightarrow> error + raft_server list"
  rl_AddVoter :: "string \<Rightarrow> string \<Rightarrow> raft_server list \<Rightarrow> error + raft_server list"
  rl_AddNonvoter :: "string \<Rightarrow> string \<Rightarrow> raft_server list \<Rightarrow> error + raft_server list"
  rl_RemoveServer :: "string \<Rightarrow> raft_server list \<Rightarrow> error + raft_server list"
  rl_resolvableAddress :: "string \<Rightarrow> error option"

definition ErrNotOpen :: error where
  "ErrNotOpen = Errorf ''store not open''"

definition ErrNotLeader :: error where
  "ErrNotLeader = Errorf ''not leader''"

definition raft_ErrNotLeader :: error where
  "raft_ErrNotLeader = ExternalError ''node is not the leader''"

definition store_IsLeader :: "Store \<Rightarrow> bool" where
  "store_IsLeader s \<longleftrightarrow> st_open s \<and> st_isRaftLeader s"

definition store_HasLeader :: "Store \<Rightarrow> bool" where
  "store_HasLeader s \<longleftrightarrow> st_open s \<and> fst (st_LeaderWithID s) \<noteq> []"

definition store_LeaderAddr :: "Store \<Rightarrow> string" where
  "store_LeaderAddr s = (if st_open s then fst (st_LeaderWithID s) else [])"

definition store_LeaderID :: "Store \<Rightarrow> string" where
  "store_LeaderID s = (if st_open s then snd (st_LeaderWithID s) else [])"

definition store_HasLeaderID :: "Store \<Rightarrow> bool" where
  "store_HasLeaderID s \<longleftrightarrow> st_open s \<and> snd (st_LeaderWithID s) \<noteq> []"

definition store_Role :: "Store \<Rightarrow> Role" where
  "store_Role s = (if store_IsLeader s then RoleLeader else RoleFollower)"

definition store_IsVoter :: "raft_lib \<Rightarrow> Store \<Rightarrow> error + bool" where
  "store_IsVoter R s =
     (if \<not> st_open s then Inl ErrNotOpen
      else case rl_GetConfiguration R of
             Some e \<Rightarrow> Inl e
           | None \<Rightarrow> Inr (case List.find (\<lambda>srv. srv_ID srv = st_raftID s) (st_Servers s) of
               None \<Rightarrow> False | Some srv \<Rightarrow> srv_Suffrage srv = Voter))"

text \<open>The nodes of the configuration in the order of their ids, with what the state knows of them.\<close>

fun id_less :: "string \<Rightarrow> string \<Rightarrow> bool" where
  "id_less _ [] = False"
| "id_less [] (_ # _) = True"
| "id_less (a # as) (b # bs) =
     ((of_char a :: nat) < of_char b \<or> a = b \<and> id_less as bs)"

fun insert_by_id :: "Node \<Rightarrow> Node list \<Rightarrow> Node list" where
  "insert_by_id n [] = [n]"
| "insert_by_id n (m # ms) = (if id_less (nd_Id m) (nd_Id n) then m # insert_by_id n ms else n # m # ms)"

definition server_node :: "Cluster \<Rightarrow> raft_server \<Rightarrow> Node" where
  "server_node c srv =
     (let node = zero_Node\<lparr>nd_Id := srv_ID srv, nd_Addr := srv_Address srv, nd_Suffrage := srv_Suffrage srv\<rparr> in
      case GetNode c (srv_ID srv) of
        Inl _ \<Rightarrow> node
      | Inr n \<Rightarrow> node\<lparr>nd_State := nd_State n, nd_Role := nd_Role n, nd_Partitions := nd_Partitions n\<rparr>)"

definition store_Nodes :: "raft_lib \<Rightarrow> Store \<Rightarrow> error + Node list" where
  "store_Nodes R s =
     (if \<not> st_open s then Inl ErrNotOpen
      else case rl_GetConfiguration R of
             Some e \<Rightarrow> Inl (Wrapf ''failed to get raft configuration for nodes'' e)
           | None \<Rightarrow> Inr (foldr insert_by_id (map (server_node (st_state s)) (st_Servers s)) []))"

section \<open>Writing to the log\<close>

text \<open>An error of the log is returned only if there is a response as well, which the state machine never gives.\<close>

definition write_command :: "raft_lib \<Rightarrow> string \<Rightarrow> Command \<Rightarrow> (Store, unit) eng" where
  "write_command R msg cmd =
     (case rl_Apply R cmd of
        None \<Rightarrow> modify (\<lambda>s. s\<lparr>st_log := st_log s @ [cmd]\<rparr>)
      | Some e \<Rightarrow> if rl_Response R cmd then throw (Wrapf msg e) else ret ())"

definition WriteNodeChange :: "raft_lib \<Rightarrow> NodeChange \<Rightarrow> (Store, unit) eng" where
  "WriteNodeChange R ch = write_command R ''failed to apply NodeChange message to raft log'' (NodeChangeCommand ch)"

definition WritePartitionChange :: "raft_lib \<Rightarrow> NodePartitionChange \<Rightarrow> (Store, unit) eng" where
  "WritePartitionChange R ch =
     write_command R ''failed to apply NodePartitionChange message to raft log'' (NodePartitionChangeCommand ch)"

definition write_observed :: "raft_lib \<Rightarrow> string \<Rightarrow> NodeChange option \<Rightarrow> (Store, unit) eng" where
  "write_observed R msg ch =
     (case ch of None \<Rightarrow> ret () | Some c \<Rightarrow> wrap (Wrapf msg) (WriteNodeChange R c))"

definition store_shutdownNode :: "raft_lib \<Rightarrow> string \<Rightarrow> (Store, unit) eng" where
  "store_shutdownNode R i = bind (gets store_IsLeader) (\<lambda>l.
     write_observed R ''failed to write shutdown NodeChange'' (shutdownNode l i))"

section \<open>Members\<close>

definition store_remove :: "raft_lib \<Rightarrow> string \<Rightarrow> (Store, unit) eng" where
  "store_remove R i =
     bind (wrap (Wrapf ''failed to shutdown node'') (store_shutdownNode R i)) (\<lambda>_.
     bind (gets st_Servers) (\<lambda>servers.
       case rl_RemoveServer R i servers of
         Inl e \<Rightarrow> throw (if e = raft_ErrNotLeader then ErrNotLeader else Wrapf ''failed to remove node'' e)
       | Inr servers' \<Rightarrow> modify (\<lambda>s. s\<lparr>st_Servers := servers'\<rparr>)))"

text \<open>The loop of \<^verbatim>\<open>Join\<close> over the configuration it has read; \<open>True\<close> if the node is a member already.\<close>

fun join_scan :: "raft_lib \<Rightarrow> string \<Rightarrow> string \<Rightarrow> raft_server list \<Rightarrow> (Store, bool) eng" where
  "join_scan R i addr [] = ret False"
| "join_scan R i addr (srv # srvs) =
     (if srv_ID srv = i \<or> srv_Address srv = addr
      then if srv_Address srv = addr \<and> srv_ID srv = i then ret True
           else bind (store_remove R i) (\<lambda>_. join_scan R i addr srvs)
      else join_scan R i addr srvs)"

definition add_server :: "raft_lib \<Rightarrow> string \<Rightarrow> string \<Rightarrow> bool \<Rightarrow> (Store, unit) eng" where
  "add_server R i addr voter =
     bind (gets st_Servers) (\<lambda>servers.
       case (if voter then rl_AddVoter R else rl_AddNonvoter R) i addr servers of
         Inl e \<Rightarrow> throw (if e = raft_ErrNotLeader then ErrNotLeader else e)
       | Inr servers' \<Rightarrow> modify (\<lambda>s. s\<lparr>st_Servers := servers'\<rparr>))"

definition store_Join :: "raft_lib \<Rightarrow> string \<Rightarrow> string \<Rightarrow> bool \<Rightarrow> (Store, unit) eng" where
  "store_Join R i addr voter =
     bind get_state (\<lambda>s.
       if \<not> st_open s then throw ErrNotOpen
       else if \<not> st_isRaftLeader s then throw ErrNotLeader
       else case rl_resolvableAddress R addr of
              Some e \<Rightarrow> throw (Wrapf ''failed to resolve'' e)
            | None \<Rightarrow>
                (case rl_GetConfiguration R of
                   Some e \<Rightarrow> throw e
                 | None \<Rightarrow> bind (join_scan R i addr (st_Servers s)) (\<lambda>already.
                     if already then ret () else add_server R i addr voter)))"

definition store_Bootstrap :: "raft_lib \<Rightarrow> Node list \<Rightarrow> (Store, unit) eng" where
  "store_Bootstrap R nodes =
     bind get_state (\<lambda>s.
       if \<not> st_open s then throw ErrNotOpen
       else case rl_BootstrapCluster R
                (map (\<lambda>n. \<lparr>srv_ID = nd_Id n, srv_Address = nd_Addr n, srv_Suffrage = Voter\<rparr>) nodes) (st_Servers s) of
              Inl e \<Rightarrow> throw (Wrapf ''failed to bootstrap cluster'' e)
            | Inr servers \<Rightarrow> modify (\<lambda>s. s\<lparr>st_Servers := servers\<rparr>))"

text \<open>\<^verbatim>\<open>Notify\<close>; a bootstrap that fails is only logged.\<close>

definition bootstrapped_servers :: "raft_lib \<Rightarrow> raft_server list \<Rightarrow> raft_server list \<Rightarrow> raft_server list" where
  "bootstrapped_servers R raftServers servers =
     (case rl_BootstrapCluster R raftServers servers of Inl _ \<Rightarrow> servers | Inr servers' \<Rightarrow> servers')"

definition store_Notify :: "raft_lib \<Rightarrow> string \<Rightarrow> string \<Rightarrow> (Store, unit) eng" where
  "store_Notify R i addr =
     bind get_state (\<lambda>s.
       if \<not> st_open s then throw ErrNotOpen
       else if st_bootstrapExpect s = 0 \<or> st_bootstrapped s \<or> store_HasLeader s then ret ()
       else if map_of (st_notifyingNodes s) i \<noteq> None then ret ()
       else case rl_resolvableAddress R addr of
              Some e \<Rightarrow> throw (Wrapf ''failed to resolve'' e)
            | None \<Rightarrow>
                (let notifying = AList.update i \<lparr>srv_ID = i, srv_Address = addr, srv_Suffrage = Voter\<rparr> (st_notifyingNodes s);
                     s' = s\<lparr>st_notifyingNodes := notifying\<rparr>
                 in if int (length notifying) < st_bootstrapExpect s then modify (\<lambda>_. s')
                    else modify (\<lambda>_. s'\<lparr>st_Servers := bootstrapped_servers R (map snd notifying) (st_Servers s),
                           st_bootstrapped := True\<rparr>)))"

section \<open>Observations\<close>

datatype observation =
    ResumedHeartbeatObservation string
  | FailedHeartbeatObservation string int
  | LeaderObservation string
  | PeerObservation bool raft_server

text \<open>The filter of the observer, and one pass of the loop that handles what it lets through. Errors are logged.\<close>

fun observer_filter :: "observation \<Rightarrow> bool" where
  "observer_filter (LeaderObservation _) = True"
| "observer_filter (FailedHeartbeatObservation _ _) = True"
| "observer_filter (PeerObservation _ _) = True"
| "observer_filter (ResumedHeartbeatObservation _) = False"

definition logged :: "(Store, unit) eng \<Rightarrow> (Store, unit) eng" where
  "logged m = bind (attempt m) (\<lambda>_. ret ())"

definition reap_due :: "bool \<Rightarrow> int \<Rightarrow> Store \<Rightarrow> bool" where
  "reap_due isReadOnly dur s \<longleftrightarrow>
     isReadOnly \<and> st_ReapReadOnlyTimeout s > 0 \<and> dur > st_ReapReadOnlyTimeout s \<or>
     \<not> isReadOnly \<and> st_ReapTimeout s > 0 \<and> dur > st_ReapTimeout s"

definition failed_heartbeat :: "raft_lib \<Rightarrow> string \<Rightarrow> int \<Rightarrow> (Store, unit) eng" where
  "failed_heartbeat R i dur =
     bind get_state (\<lambda>s.
       case IsReadOnly (case store_Nodes R s of Inl _ \<Rightarrow> [] | Inr nodes \<Rightarrow> nodes) i of (isReadOnly, found) \<Rightarrow>
         if \<not> found then ret ()
         else bind (do_when (st_NodeHearbeatShutdownTimeout s > 0 \<and> dur > st_NodeHearbeatShutdownTimeout s)
                (logged (store_shutdownNode R i))) (\<lambda>_.
              do_when (reap_due isReadOnly dur s) (logged (store_remove R i))))"

fun handle_observation :: "raft_lib \<Rightarrow> observation \<Rightarrow> (Store, unit) eng" where
  "handle_observation R (ResumedHeartbeatObservation i) =
     bind (gets store_IsLeader) (\<lambda>l. logged (write_observed R ''failed to write shutdown NodeChange'' (resumeNode l i)))"
| "handle_observation R (FailedHeartbeatObservation i dur) = failed_heartbeat R i dur"
| "handle_observation R (LeaderObservation i) =
     bind get_state (\<lambda>s. logged (write_observed R ''failed to send NodeChange - leadership change message''
       (selfLeaderChange (i = st_raftID s) (st_raftID s) (st_Addr s))))"
| "handle_observation R (PeerObservation removed peer) =
     (if removed then logged (store_shutdownNode R (srv_ID peer))
      else bind (gets store_IsLeader) (\<lambda>l.
        logged (write_observed R ''failed to write NodeChange update'' (addNewNode l peer))))"

definition observe :: "raft_lib \<Rightarrow> observation list \<Rightarrow> (Store, unit) eng" where
  "observe R os = for_each (filter observer_filter os) (handle_observation R)"

section \<open>Handlers\<close>

definition server_Notify :: "bool \<Rightarrow> raft_lib \<Rightarrow> string \<Rightarrow> string \<Rightarrow> (Store, unit) eng" where
  "server_Notify expired R i addr =
     (if expired then throw (ExternalError ''context canceled'')
      else wrap (Wrapf ''failed to notify store'') (store_Notify R i addr))"

definition server_Join :: "bool \<Rightarrow> raft_lib \<Rightarrow> string \<Rightarrow> string \<Rightarrow> bool \<Rightarrow> (Store, unit) eng" where
  "server_Join expired R i addr voter =
     (if expired then throw (ExternalError ''context canceled'')
      else wrap (Wrapf ''failed to notify store'') (store_Join R i addr voter))"

definition server_NodeCommand :: "bool \<Rightarrow> raft_lib \<Rightarrow> Command \<Rightarrow> (Store, unit) eng" where
  "server_NodeCommand expired R cmd =
     (if expired then throw (ExternalError ''context canceled'')
      else case cmd of
             NodeChangeCommand ch \<Rightarrow> wrap (Wrapf ''failed to write node change to store'') (WriteNodeChange R ch)
           | NodePartitionChangeCommand ch \<Rightarrow>
               wrap (Wrapf ''failed to write node change to store'') (WritePartitionChange R ch)
           | OtherCommand \<Rightarrow> panic ''unexpected protoc.Command_Type'')"

section \<open>Joining and booting\<close>

type_synonym peers = "(string \<times> Store) list"

text \<open>The environment of a joining node: the raft of its peers, the connections it can open, and its own id, address and
  suffrage.\<close>

record boot_env =
  be_raft :: raft_lib
  be_For :: "string \<Rightarrow> error option"
  be_expired :: "string \<Rightarrow> bool"
  be_id :: string
  be_addr :: string
  be_voter :: bool

definition call_peer :: "boot_env \<Rightarrow> string \<Rightarrow> string \<Rightarrow> (bool \<Rightarrow> (Store, unit) eng) \<Rightarrow> (peers, unit) eng" where
  "call_peer B msg t h ps =
     (case be_For B t of
        Some e \<Rightarrow> (Err (Wrapf ''failed to create client'' e), ps)
      | None \<Rightarrow>
          (case map_of ps t of
             None \<Rightarrow> (Err (Wrapf msg (ExternalError ''connection error'')), ps)
           | Some s \<Rightarrow>
               (case h (be_expired B t) s of
                  (Err e, s') \<Rightarrow> (Err (Wrapf msg e), AList.update t s' ps)
                | (r, s') \<Rightarrow> (r, AList.update t s' ps))))"

definition joiner_join :: "boot_env \<Rightarrow> string \<Rightarrow> (peers, string) eng" where
  "joiner_join B t =
     bind (call_peer B ''failed to call Join'' t (\<lambda>x. server_Join x (be_raft B) (be_id B) (be_addr B) (be_voter B)))
       (\<lambda>_. ret t)"

definition ErrNodeIDRequired :: error where
  "ErrNodeIDRequired = Errorf ''node required''"

definition ErrJoinFailed :: error where
  "ErrJoinFailed = Errorf ''failed to join cluster''"

definition ErrJoinCanceled :: error where
  "ErrJoinCanceled = Errorf ''join operation canceled''"

text \<open>\<open>cancelled\<close> is the look at the context before each target and before each new attempt.\<close>

fun try_targets :: "boot_env \<Rightarrow> (nat \<Rightarrow> bool) \<Rightarrow> string list \<Rightarrow> (peers, string option) eng" where
  "try_targets B cancelled [] = ret None"
| "try_targets B cancelled (t # ts) =
     (if cancelled 0 then throw ErrJoinCanceled
      else bind (attempt (joiner_join B t)) (\<lambda>r.
        case r of Inr j \<Rightarrow> ret (Some j) | Inl _ \<Rightarrow> try_targets B (\<lambda>i. cancelled (Suc i)) ts))"

fun join_attempts :: "nat \<Rightarrow> boot_env \<Rightarrow> (nat \<Rightarrow> nat \<Rightarrow> bool) \<Rightarrow> (nat \<Rightarrow> bool) \<Rightarrow> string list \<Rightarrow> (peers, string) eng" where
  "join_attempts 0 B cancelled waiting ts = throw ErrJoinFailed"
| "join_attempts (Suc n) B cancelled waiting ts =
     bind (try_targets B (cancelled 0) ts) (\<lambda>r.
       case r of
         Some j \<Rightarrow> ret j
       | None \<Rightarrow>
           if n = 0 then throw ErrJoinFailed
           else if waiting 0 then throw ErrJoinCanceled
           else join_attempts n B (\<lambda>i. cancelled (Suc i)) (\<lambda>i. waiting (Suc i)) ts)"

definition Joiner_Do ::
  "nat \<Rightarrow> boot_env \<Rightarrow> (nat \<Rightarrow> nat \<Rightarrow> bool) \<Rightarrow> (nat \<Rightarrow> bool) \<Rightarrow> string list \<Rightarrow> (peers, string) eng" where
  "Joiner_Do numAttempts B cancelled waiting ts =
     (if be_id B = [] then throw ErrNodeIDRequired else join_attempts numAttempts B cancelled waiting ts)"

definition boot_notify :: "boot_env \<Rightarrow> string list \<Rightarrow> (peers, unit) eng" where
  "boot_notify B ts =
     for_each ts (\<lambda>t. call_peer B ''failed to notify node'' t (\<lambda>x. server_Notify x (be_raft B) (be_id B) (be_addr B)))"

datatype BootStatus = BootJoin | BootDone | BootTimeout | BootCanceled

text \<open>What the select of \<^verbatim>\<open>Boot\<close> receives: the end of the context or a tick, each with the answer of \<^verbatim>\<open>done()\<close>, the
  latter also with the addresses the provider has, or the end of the timeout. With nothing to receive it waits.\<close>

datatype boot_event = CtxDone bool | TimeoutFired | Tick bool "string list"

fun Boot :: "boot_env \<Rightarrow> (nat \<Rightarrow> nat \<Rightarrow> bool) \<Rightarrow> boot_event list \<Rightarrow> (peers, BootStatus \<times> error option) eng" where
  "Boot B cancelled [] = block"
| "Boot B cancelled (CtxDone is_done # es) =
     ret (if is_done then (BootDone, None) else (BootCanceled, Some (ExternalError ''boot canceled'')))"
| "Boot B cancelled (TimeoutFired # es) = ret (BootTimeout, Some (ExternalError ''boot timeout''))"
| "Boot B cancelled (Tick is_done targets # es) =
     (if is_done then ret (BootDone, None)
      else if targets = [] then Boot B cancelled es
      else bind (attempt (Joiner_Do 1 B (\<lambda>_. cancelled 0) (\<lambda>_. False) targets)) (\<lambda>r.
        case r of
          Inr j \<Rightarrow> ret (BootJoin, None)
        | Inl _ \<Rightarrow>
            bind (if be_voter B then bind (attempt (boot_notify B targets)) (\<lambda>_. ret ()) else ret ()) (\<lambda>_.
              Boot B (\<lambda>i. cancelled (Suc i)) es)))"

section \<open>Notifications\<close>

definition notifying_server :: "string \<Rightarrow> string \<Rightarrow> raft_server" where
  "notifying_server i a = \<lparr>srv_ID = i, srv_Address = a, srv_Suffrage = Voter\<rparr>"

text \<open>The store has been notified by the nodes \<open>A\<close>, with requests from \<open>Q\<close>; \<open>servers\<close> is the configuration it started with.\<close>

definition notified :: "raft_lib \<Rightarrow> nat \<Rightarrow> raft_server list \<Rightarrow> (string \<times> string) set \<Rightarrow> string set \<Rightarrow> Store \<Rightarrow> bool" where
  "notified R n servers Q A s \<longleftrightarrow>
     st_open s \<and> \<not> store_HasLeader s \<and> st_bootstrapExpect s = int n \<and>
     distinct (map fst (st_notifyingNodes s)) \<and> fst ` set (st_notifyingNodes s) \<subseteq> A \<and>
     (\<forall>(i, srv) \<in> set (st_notifyingNodes s). \<exists>a. (i, a) \<in> Q \<and> srv = notifying_server i a) \<and>
     (if st_bootstrapped s
      then length (st_notifyingNodes s) = n \<and>
        st_Servers s = bootstrapped_servers R (map snd (st_notifyingNodes s)) servers
      else length (st_notifyingNodes s) < n \<and> fst ` set (st_notifyingNodes s) = A \<and> st_Servers s = servers)"

lemma update_new: "map_of xs k = None \<Longrightarrow> AList.update k v xs = xs @ [(k, v)]"
  by (induction xs) auto

lemma store_Notify_notified:
  assumes "notified R n servers Q A s" and "(i, a) \<in> Q" and "rl_resolvableAddress R a = None" and "0 < n"
  shows "\<exists>s'. store_Notify R i a s = (Ok (), s') \<and> notified R n servers Q (insert i A) s'"
proof (cases "st_bootstrapped s \<or> map_of (st_notifyingNodes s) i \<noteq> None")
  case True
  then have "store_Notify R i a s = (Ok (), s)"
    using assms(1) by (auto simp: store_Notify_def notified_def bind_def get_state_def ret_def)
  moreover have "notified R n servers Q (insert i A) s"
  proof (cases "st_bootstrapped s")
    case b: True
    then show ?thesis using assms(1) by (auto simp: notified_def)
  next
    case b: False
    with True obtain srv where "(i, srv) \<in> set (st_notifyingNodes s)" by (auto dest: map_of_SomeD)
    then have "i \<in> A" using b assms(1) by (force simp: notified_def)
    then show ?thesis using assms(1) by (simp add: insert_absorb)
  qed
  ultimately show ?thesis by blast
next
  case False
  let ?nn = "st_notifyingNodes s @ [(i, notifying_server i a)]"
  have new: "i \<notin> fst ` set (st_notifyingNodes s)" using False by (simp add: map_of_eq_None_iff)
  have e: "AList.update i \<lparr>srv_ID = i, srv_Address = a, srv_Suffrage = Voter\<rparr> (st_notifyingNodes s) = ?nn"
    using False by (simp add: update_new notifying_server_def)
  let ?s = "s\<lparr>st_notifyingNodes := ?nn\<rparr>"
  let ?s' = "if length ?nn < n then ?s
    else ?s\<lparr>st_Servers := bootstrapped_servers R (map snd ?nn) (st_Servers s), st_bootstrapped := True\<rparr>"
  have "store_Notify R i a s = (Ok (), ?s')"
    using assms(1,3,4) False
    by (simp add: store_Notify_def notified_def bind_def get_state_def ret_def modify_def e Let_def)
  moreover have "notified R n servers Q (insert i A) ?s'"
    using assms(1,2) False new by (auto simp: notified_def store_HasLeader_def)
  ultimately show ?thesis by blast
qed

definition notify_all :: "raft_lib \<Rightarrow> (string \<times> string) list \<Rightarrow> (Store, unit) eng" where
  "notify_all R rs = for_each rs (\<lambda>(i, a). store_Notify R i a)"

lemma notify_all_notified:
  assumes "notified R n servers Q A s" and "set rs \<subseteq> Q" and "\<forall>(i, a) \<in> Q. rl_resolvableAddress R a = None" and "0 < n"
  shows "\<exists>s'. notify_all R rs s = (Ok (), s') \<and> notified R n servers Q (A \<union> fst ` set rs) s'"
  using assms(1,2)
proof (induction rs arbitrary: A s)
  case Nil
  then show ?case by (simp add: notify_all_def ret_def)
next
  case (Cons r rs)
  obtain i a where r: "r = (i, a)" by fastforce
  with Cons.prems assms(3) have "(i, a) \<in> Q" "rl_resolvableAddress R a = None" by auto
  from store_Notify_notified [OF Cons.prems(1) this assms(4)] obtain s1 where
    s1: "store_Notify R i a s = (Ok (), s1)" "notified R n servers Q (insert i A) s1" by blast
  from Cons.IH [OF s1(2)] Cons.prems(2) obtain s2 where
    "notify_all R rs s1 = (Ok (), s2)" "notified R n servers Q (insert i A \<union> fst ` set rs) s2" by auto
  then show ?case using s1(1) r by (auto simp: notify_all_def bind_def)
qed

definition awaiting :: "nat \<Rightarrow> Store \<Rightarrow> bool" where
  "awaiting n s \<longleftrightarrow> st_open s \<and> \<not> store_HasLeader s \<and> \<not> st_isRaftLeader s \<and> st_bootstrapExpect s = int n \<and> 0 < n \<and>
     \<not> st_bootstrapped s \<and> st_notifyingNodes s = []"

text \<open>
  A store that waits for \<open>n\<close> nodes bootstraps after the notifications \<open>rs\<close>, in whatever order and however often they
  are repeated, if and only if they come from \<open>n\<close> different nodes at least; it then bootstraps once, with the
  first \<open>n\<close> of them. When there are just \<open>n\<close> nodes it bootstraps with exactly these.
\<close>

lemma notifications_bootstrap:
  assumes "awaiting n s" and "\<forall>(i, a) \<in> set rs. rl_resolvableAddress R a = None"
  shows "\<exists>s'. notify_all R rs s = (Ok (), s') \<and> (st_bootstrapped s' \<longleftrightarrow> n \<le> card (fst ` set rs)) \<and>
    (st_bootstrapped s' \<longrightarrow> length (st_notifyingNodes s') = n \<and>
       st_Servers s' = bootstrapped_servers R (map snd (st_notifyingNodes s')) (st_Servers s)) \<and>
    (\<not> st_bootstrapped s' \<longrightarrow> st_Servers s' = st_Servers s) \<and>
    (distinct (map fst rs) \<and> length rs = n \<longrightarrow>
       set (map snd (st_notifyingNodes s')) = (\<lambda>(i, a). notifying_server i a) ` set rs)"
proof -
  have "notified R n (st_Servers s) (set rs) {} s" using assms(1) by (simp add: awaiting_def notified_def)
  from notify_all_notified [OF this order_refl assms(2)] assms(1) obtain s' where
    s': "notify_all R rs s = (Ok (), s')" "notified R n (st_Servers s) (set rs) (fst ` set rs) s'" by (auto simp: awaiting_def)
  let ?nn = "st_notifyingNodes s'"
  have keys: "card (fst ` set ?nn) = length ?nn" "fst ` set ?nn \<subseteq> fst ` set rs"
    using s'(2) distinct_card [of "map fst ?nn"] by (auto simp: notified_def)
  have b: "st_bootstrapped s' \<longleftrightarrow> n \<le> card (fst ` set rs)"
    using s'(2) keys card_mono [OF _ keys(2)] by (auto simp: notified_def split: if_splits)
  have all: "set (map snd ?nn) = (\<lambda>(i, a). notifying_server i a) ` set rs" if d: "distinct (map fst rs)" "length rs = n"
  proof -
    have c: "card (fst ` set rs) = n" using d by (metis distinct_card length_map list.set_map)
    then have "length ?nn = n" using b s'(2) by (simp add: notified_def)
    then have k: "fst ` set ?nn = fst ` set rs" using keys c by (metis List.finite_set card_subset_eq finite_imageI)
    have from_rs: "\<exists>a. (i, a) \<in> set rs \<and> srv = notifying_server i a" if "(i, srv) \<in> set ?nn" for i srv
      using s'(2) that by (auto simp: notified_def)
    have "notifying_server i a \<in> set (map snd ?nn)" if "(i, a) \<in> set rs" for i a
    proof -
      from that have "i \<in> fst ` set ?nn" unfolding k by force
      then obtain srv where m: "(i, srv) \<in> set ?nn" by force
      from from_rs [OF this] obtain a' where "(i, a') \<in> set rs" "srv = notifying_server i a'" by blast
      then have "srv = notifying_server i a" using eq_key_imp_eq_value [OF d(1) that] by simp
      with m show ?thesis by force
    qed
    then show ?thesis using from_rs by fastforce
  qed
  show ?thesis using s' b all by (auto simp: notified_def)
qed

section \<open>Joining\<close>

text \<open>What raft documents of changes of the configuration: two servers cannot have one address, and removing a server that
  is not there changes nothing.\<close>

definition raft_membership :: "raft_lib \<Rightarrow> bool" where
  "raft_membership R \<longleftrightarrow>
     (\<forall>i a cfg. list_ex (\<lambda>srv. srv_ID srv \<noteq> i \<and> srv_Address srv = a) cfg \<longrightarrow>
        rl_AddVoter R i a cfg \<in> range Inl \<and> rl_AddNonvoter R i a cfg \<in> range Inl) \<and>
     (\<forall>i cfg. list_all (\<lambda>srv. srv_ID srv \<noteq> i) cfg \<longrightarrow> rl_RemoveServer R i cfg = Inr cfg)"

lemma store_remove_absent:
  assumes "raft_membership R" and "list_all (\<lambda>srv. srv_ID srv \<noteq> i) (st_Servers s)"
  shows "\<exists>r s'. store_remove R i s = (r, s') \<and> (is_Ok r \<or> is_Err r) \<and> st_Servers s' = st_Servers s"
  using assms
  by (auto simp: store_remove_def store_shutdownNode_def write_observed_def WriteNodeChange_def write_command_def bind_def
      wrap_def gets_def modify_def ret_def throw_def raft_membership_def split: option.splits)

lemma join_scan_absent:
  assumes "raft_membership R" and "list_all (\<lambda>srv. srv_ID srv \<noteq> i) (st_Servers s)" and "list_all (\<lambda>srv. srv_ID srv \<noteq> i) srvs"
  shows "\<exists>r s'. join_scan R i addr srvs s = (r, s') \<and> (r = Ok False \<or> is_Err r) \<and> st_Servers s' = st_Servers s"
  using assms(2,3)
proof (induction srvs arbitrary: s)
  case Nil
  then show ?case by (simp add: ret_def)
next
  case (Cons srv srvs)
  show ?case
  proof (cases "srv_Address srv = addr")
    case True
    from store_remove_absent [OF assms(1) Cons.prems(1)] obtain r s1 where
      s1: "store_remove R i s = (r, s1)" "is_Ok r \<or> is_Err r" "st_Servers s1 = st_Servers s" by blast
    show ?thesis
    proof (cases r)
      case (Ok x)
      with s1 Cons.IH [of s1] Cons.prems True show ?thesis by (auto simp: bind_def)
    qed (use s1 Cons.prems True in \<open>auto simp: bind_def\<close>)
  next
    case False
    with Cons show ?thesis by simp
  qed
qed

text \<open>
  A node with a new id cannot join at an address that the configuration has under another id: the handler removes the id
  that joins, not the one that is in the way, and raft refuses the second server at the address. The configuration
  stays as it is, so that every further attempt fails too.
\<close>

theorem reused_address_cannot_join:
  assumes "raft_membership R" and "store_IsLeader s" and "list_ex (\<lambda>srv. srv_Address srv = addr) (st_Servers s)"
    and "list_all (\<lambda>srv. srv_ID srv \<noteq> i) (st_Servers s)"
  shows "\<exists>e s'. store_Join R i addr voter s = (Err e, s') \<and> st_Servers s' = st_Servers s"
proof -
  from join_scan_absent [OF assms(1,4,4)] obtain r s1 where
    s1: "join_scan R i addr (st_Servers s) s = (r, s1)" "r = Ok False \<or> is_Err r" "st_Servers s1 = st_Servers s" by blast
  have "list_ex (\<lambda>srv. srv_ID srv \<noteq> i \<and> srv_Address srv = addr) (st_Servers s)"
    using assms(3,4) by (auto simp: list_ex_iff list_all_iff)
  then obtain e e' where "rl_AddVoter R i addr (st_Servers s) = Inl e" "rl_AddNonvoter R i addr (st_Servers s) = Inl e'"
    using assms(1) unfolding raft_membership_def by blast
  then have "\<exists>e. add_server R i addr voter s1 = (Err e, s1)"
    using s1(3) by (cases voter) (auto simp: add_server_def bind_def gets_def throw_def)
  then show ?thesis using s1 assms(2)
    by (cases r) (auto simp: store_Join_def store_IsLeader_def bind_def get_state_def throw_def split: option.splits)
qed

lemma join_scan_fresh:
  "list_all (\<lambda>srv. srv_ID srv \<noteq> i \<and> srv_Address srv \<noteq> addr) srvs \<Longrightarrow> join_scan R i addr srvs s = (Ok False, s)"
  by (induction srvs) (simp_all add: ret_def)

lemma fresh_node_joins:
  assumes "store_IsLeader s" and "rl_resolvableAddress R addr = None" and "rl_GetConfiguration R = None"
    and "list_all (\<lambda>srv. srv_ID srv \<noteq> i \<and> srv_Address srv \<noteq> addr) (st_Servers s)"
    and "(if voter then rl_AddVoter R else rl_AddNonvoter R) i addr (st_Servers s) = Inr servers"
  shows "store_Join R i addr voter s = (Ok (), s\<lparr>st_Servers := servers\<rparr>)"
  using assms
  by (simp add: store_Join_def store_IsLeader_def bind_def get_state_def join_scan_fresh add_server_def gets_def modify_def)

lemma join_scan_member:
  assumes "distinct (map srv_ID srvs)" and "distinct (map srv_Address srvs)" and "srv \<in> set srvs"
    and "srv_ID srv = i" and "srv_Address srv = addr"
  shows "join_scan R i addr srvs s = (Ok True, s)"
  using assms by (induction srvs) (auto simp: ret_def)

lemma member_joins_again:
  assumes "store_IsLeader s" and "rl_resolvableAddress R addr = None" and "rl_GetConfiguration R = None"
    and "distinct (map srv_ID (st_Servers s))" and "distinct (map srv_Address (st_Servers s))"
    and "srv \<in> set (st_Servers s)" and "srv_ID srv = i" and "srv_Address srv = addr"
  shows "store_Join R i addr voter s = (Ok (), s)"
  using assms join_scan_member [OF assms(4-8)]
  by (simp add: store_Join_def store_IsLeader_def bind_def get_state_def ret_def)

lemma not_leader_refuses:
  "\<not> st_isRaftLeader s \<Longrightarrow> \<exists>e. store_Join R i addr voter s = (Err e, s)"
  by (simp add: store_Join_def bind_def get_state_def throw_def)

section \<open>Booting\<close>

text \<open>What a notification leaves in a store; joining does not touch it.\<close>

definition notice :: "Store \<Rightarrow> (string \<times> raft_server) list \<times> bool" where
  "notice s = (st_notifyingNodes s, st_bootstrapped s)"

lemma keeps_write_observed: "keeps notice (write_observed R msg ch)"
  by (auto simp: keeps_def notice_def write_observed_def WriteNodeChange_def write_command_def wrap_def modify_def ret_def throw_def
      split: option.splits)

lemma keeps_store_remove: "keeps notice (store_remove R i)"
  unfolding store_remove_def store_shutdownNode_def
  by (intro keeps_rules allI keeps_write_observed) (auto simp: keeps_def notice_def gets_def modify_def throw_def split: sum.splits)

lemma keeps_join_scan: "keeps notice (join_scan R i addr srvs)"
  by (induction srvs) (auto intro!: keeps_rules keeps_store_remove)

lemma keeps_add_server: "keeps notice (add_server R i addr voter)"
  by (auto simp: keeps_def notice_def add_server_def bind_def gets_def modify_def throw_def split: sum.splits)

lemma keeps_store_Join: "keeps notice (store_Join R i addr voter)"
  unfolding store_Join_def by (intro keeps_rules keeps_join_scan keeps_add_server)

text \<open>An operation that neither panics nor blocks.\<close>

definition returns :: "('s, 'a) eng \<Rightarrow> bool" where
  "returns m \<longleftrightarrow> (\<forall>s. is_Ok (fst (m s)) \<or> is_Err (fst (m s)))"

named_theorems returns_rules \<open>operations that neither panic nor block\<close>

lemma returns_basic [returns_rules]:
  "returns (ret x)" "returns (throw e)" "returns (gets f)" "returns (modify g)" "returns get_state"
  by (simp_all add: returns_def ret_def throw_def gets_def modify_def get_state_def)

lemma returns_bind [returns_rules]: "returns m \<Longrightarrow> (\<And>x. returns (f x)) \<Longrightarrow> returns (bind m f)"
  by (auto simp: returns_def bind_def split: prod.splits res.splits) (metis fst_conv is_Err.simps(2-) is_Ok.simps(2-))+

lemma returns_attempt [returns_rules]: "returns m \<Longrightarrow> returns (attempt m)"
  by (auto simp: returns_def attempt_def split: prod.splits res.splits) (metis fst_conv is_Err.simps(2-) is_Ok.simps(2-))+

lemma returns_wrap [returns_rules]: "returns m \<Longrightarrow> returns (wrap g m)"
  by (auto simp: returns_def wrap_def split: prod.splits res.splits) (metis fst_conv is_Err.simps(2-) is_Ok.simps(2-))+

lemma returns_for_each [returns_rules]: "(\<And>x. returns (f x)) \<Longrightarrow> returns (for_each xs f)"
  by (induction xs) (auto intro: returns_rules)

lemma returns_if [returns_rules]: "(b \<Longrightarrow> returns m) \<Longrightarrow> (\<not> b \<Longrightarrow> returns m') \<Longrightarrow> returns (if b then m else m')"
  by simp

lemma returns_option [returns_rules]:
  "returns m \<Longrightarrow> (\<And>x. returns (f x)) \<Longrightarrow> returns (case v of None \<Rightarrow> m | Some x \<Rightarrow> f x)"
  by (cases v) auto

lemma returns_sum [returns_rules]:
  "(\<And>x. returns (f x)) \<Longrightarrow> (\<And>x. returns (g x)) \<Longrightarrow> returns (case v of Inl x \<Rightarrow> f x | Inr x \<Rightarrow> g x)"
  by (cases v) auto

lemma returns_store_remove: "returns (store_remove R i)"
  unfolding store_remove_def store_shutdownNode_def write_observed_def WriteNodeChange_def write_command_def
  by (intro returns_rules)

lemma returns_join_scan: "returns (join_scan R i addr srvs)"
  by (induction srvs) (auto intro!: returns_rules returns_store_remove)

lemma returns_store_Join: "returns (store_Join R i addr voter)"
  unfolding store_Join_def add_server_def by (intro returns_rules returns_join_scan)

lemma returns_store_Notify: "returns (store_Notify R i addr)"
  unfolding store_Notify_def Let_def by (intro returns_rules)

lemma returns_call_peer: "(\<And>x. returns (h x)) \<Longrightarrow> returns (call_peer B msg t h)"
  unfolding returns_def
proof
  fix ps
  assume h: "\<And>x. \<forall>s. is_Ok (fst (h x s)) \<or> is_Err (fst (h x s))"
  show "is_Ok (fst (call_peer B msg t h ps)) \<or> is_Err (fst (call_peer B msg t h ps))"
  proof (cases "be_For B t = None \<and> map_of ps t \<noteq> None")
    case True
    then obtain s where "be_For B t = None" "map_of ps t = Some s" by auto
    then show ?thesis using h [of "be_expired B t"]
      by (auto simp: call_peer_def split: prod.splits res.splits) (metis fst_conv is_Err.simps(2-) is_Ok.simps(2-))+
  qed (auto simp: call_peer_def split: option.splits)
qed

lemma returns_joiner_join: "returns (joiner_join B t)"
  unfolding joiner_join_def server_Join_def
  by (intro returns_rules returns_call_peer) (auto intro!: returns_rules returns_store_Join)

lemma returns_try_targets: "returns (try_targets B c ts)"
  by (induction ts arbitrary: c) (auto intro!: returns_rules returns_joiner_join)

lemma returns_Joiner_Do: "returns (Joiner_Do n B c w ts)"
proof -
  have "returns (join_attempts n B c w ts)"
    by (induction n arbitrary: c w) (auto intro!: returns_rules returns_try_targets)
  then show ?thesis unfolding Joiner_Do_def by (intro returns_rules)
qed

lemma returns_boot_notify: "returns (boot_notify B ts)"
  unfolding boot_notify_def server_Notify_def
  by (intro returns_rules returns_call_peer) (auto intro!: returns_rules returns_store_Notify)

text \<open>Booting ends at the latest when its timeout fires.\<close>

theorem boot_ends_with_its_timeout: "TimeoutFired \<in> set es \<Longrightarrow> is_Ok (fst (Boot B cancelled es ps))"
proof (induction es arbitrary: cancelled ps)
  case Nil
  then show ?case by simp
next
  case (Cons e es)
  show ?case
  proof (cases e)
    case (Tick d ts)
    let ?m = "attempt (Joiner_Do 1 B (\<lambda>_. cancelled 0) (\<lambda>_. False) ts)"
    let ?n = "if be_voter B then bind (attempt (boot_notify B ts)) (\<lambda>_. ret ()) else ret ()"
    have ok: "\<exists>x ps'. attempt m ps = (Ok x, ps')" if "returns m" for m :: "(peers, 'x) eng" and ps
      using that unfolding returns_def attempt_def by (cases "m ps"; cases "fst (m ps)") (auto dest: spec [of _ ps])
    obtain x ps1 where x: "?m ps = (Ok x, ps1)" using ok [OF returns_Joiner_Do] by blast
    obtain ps2 where n: "?n ps1 = (Ok (), ps2)"
      using ok [OF returns_boot_notify, of B ts ps1] by (cases "be_voter B") (auto simp: bind_def ret_def)
    show ?thesis using Cons Tick x n by (auto simp: bind_def ret_def split: sum.splits)
  qed (use Cons in \<open>auto simp: ret_def\<close>)
qed

subsection \<open>A cluster that has a leader is joined\<close>

definition notices :: "peers \<Rightarrow> string \<Rightarrow> ((string \<times> raft_server) list \<times> bool) option" where
  "notices ps a = map_option notice (map_of ps a)"

lemma joiner_join_frame:
  assumes "joiner_join B t ps = (r, ps')"
  shows "(r = Ok t \<or> is_Err r) \<and> (\<forall>a. a \<noteq> t \<longrightarrow> map_of ps' a = map_of ps a) \<and> notices ps' = notices ps"
proof (cases "be_For B t = None \<and> map_of ps t \<noteq> None")
  case True
  then obtain s where s: "be_For B t = None" "map_of ps t = Some s" by auto
  let ?m = "server_Join (be_expired B t) (be_raft B) (be_id B) (be_addr B) (be_voter B)"
  have "keeps notice ?m" unfolding server_Join_def by (intro keeps_rules keeps_store_Join)
  moreover have "returns ?m" unfolding server_Join_def by (intro returns_rules returns_store_Join)
  ultimately obtain x s' where m: "?m s = (x, s')" "notice s' = notice s" "is_Ok x \<or> is_Err x"
    unfolding keeps_def returns_def by (metis prod.collapse)
  have "notices (AList.update t s' ps) = notices ps" using s(2) m(2) by (auto simp: fun_eq_iff notices_def AList.update_conv')
  then show ?thesis using assms s m(1,3)
    by (cases x) (auto simp: joiner_join_def call_peer_def bind_def ret_def AList.update_conv')
qed (use assms in \<open>auto simp: joiner_join_def call_peer_def bind_def split: option.splits\<close>)

lemma try_targets_joins:
  assumes "t \<in> set ts" and "be_For B t = None" and "\<not> be_expired B t" and "map_of ps t = Some s"
    and "is_Ok (fst (store_Join (be_raft B) (be_id B) (be_addr B) (be_voter B) s))"
  shows "\<exists>j ps'. try_targets B (\<lambda>_. False) ts ps = (Ok (Some j), ps') \<and> notices ps' = notices ps"
  using assms(1,4)
proof (induction ts arbitrary: ps)
  case Nil
  then show ?case by simp
next
  case (Cons u ts)
  obtain r ps1 where j: "joiner_join B u ps = (r, ps1)" by fastforce
  note f = joiner_join_frame [OF j]
  show ?case
  proof (cases "is_Err r")
    case True
    have "u \<noteq> t"
    proof
      assume "u = t"
      then have "is_Ok r" using j assms(2,3,5) Cons.prems(2)
        by (cases "store_Join (be_raft B) (be_id B) (be_addr B) (be_voter B) s"; cases "fst (store_Join (be_raft B) (be_id B) (be_addr B) (be_voter B) s)")
           (auto simp: joiner_join_def call_peer_def server_Join_def wrap_def bind_def ret_def)
      with True show False by (cases r) auto
    qed
    with f Cons.prems have "t \<in> set ts" "map_of ps1 t = Some s" by auto
    from Cons.IH [OF this] obtain x ps' where "try_targets B (\<lambda>_. False) ts ps1 = (Ok (Some x), ps')" "notices ps' = notices ps1"
      by blast
    with True j f show ?thesis by (cases r) (auto simp: bind_def attempt_def)
  next
    case False
    with j f show ?thesis by (auto simp: bind_def attempt_def ret_def)
  qed
qed

text \<open>
  Joining has priority: when the store of one of the targets accepts the node, booting ends at the first tick with the node
  joined, whatever the other targets answer, and no store has noted a notification or started a bootstrap.
\<close>

theorem boot_joins_before_it_notifies:
  assumes "t \<in> set ts" and "be_id B \<noteq> []" and "be_For B t = None" and "\<not> be_expired B t" and "map_of ps t = Some s"
    and "is_Ok (fst (store_Join (be_raft B) (be_id B) (be_addr B) (be_voter B) s))"
  shows "\<exists>ps'. Boot B (\<lambda>_ _. False) (Tick False ts # es) ps = (Ok (BootJoin, None), ps') \<and> notices ps' = notices ps"
proof -
  from try_targets_joins [OF assms(1,3-6)] obtain j ps' where
    "try_targets B (\<lambda>_. False) ts ps = (Ok (Some j), ps')" "notices ps' = notices ps" by blast
  moreover have "ts \<noteq> []" using assms(1) by auto
  ultimately show ?thesis using assms(2) by (simp add: Joiner_Do_def bind_def attempt_def ret_def)
qed

subsection \<open>The expected nodes form one cluster\<close>

lemma joins_refused:
  assumes "\<forall>t \<in> set ts. \<exists>s. map_of ps t = Some s \<and> \<not> st_isRaftLeader s"
  shows "\<exists>ps'. try_targets B (\<lambda>_. False) ts ps = (Ok None, ps') \<and> map_of ps' = map_of ps"
  using assms
proof (induction ts arbitrary: ps)
  case Nil
  then show ?case by (simp add: ret_def)
next
  case (Cons t ts)
  then obtain s where s: "map_of ps t = Some s" "\<not> st_isRaftLeader s" by auto
  have "\<exists>e. server_Join (be_expired B t) (be_raft B) (be_id B) (be_addr B) (be_voter B) s = (Err e, s)"
    using not_leader_refuses [OF s(2), of "be_raft B" "be_id B" "be_addr B" "be_voter B"]
    by (auto simp: server_Join_def wrap_def throw_def)
  moreover have "map_of (AList.update t s ps) = map_of ps" using s(1) by (simp add: AList.update_conv' map_upd_triv)
  ultimately have "\<exists>e ps1. joiner_join B t ps = (Err e, ps1) \<and> map_of ps1 = map_of ps"
    using s(1) by (cases "be_For B t") (auto simp: joiner_join_def call_peer_def bind_def)
  then obtain e ps1 where j: "joiner_join B t ps = (Err e, ps1)" "map_of ps1 = map_of ps" by blast
  from Cons.IH [of ps1] Cons.prems j(2) obtain ps2 where
    "try_targets B (\<lambda>_. False) ts ps1 = (Ok None, ps2)" "map_of ps2 = map_of ps1" by auto
  with j show ?case by (auto simp: bind_def attempt_def)
qed

lemma store_Notify_open:
  assumes "st_open s" and "rl_resolvableAddress R a = None"
  shows "\<exists>s'. store_Notify R i a s = (Ok (), s') \<and> st_open s' \<and> st_isRaftLeader s' = st_isRaftLeader s"
  using assms by (auto simp: store_Notify_def bind_def get_state_def ret_def modify_def Let_def)

lemma targets_notified:
  assumes "\<forall>t \<in> set ts. be_For B t = None \<and> \<not> be_expired B t \<and> (\<exists>s. map_of ps t = Some s \<and> st_open s)"
    and "rl_resolvableAddress (be_raft B) (be_addr B) = None" and "distinct ts"
  shows "\<exists>ps'. boot_notify B ts ps = (Ok (), ps') \<and>
    map_of ps' = (\<lambda>a. if a \<in> set ts then map_option (\<lambda>s. snd (store_Notify (be_raft B) (be_id B) (be_addr B) s)) (map_of ps a)
      else map_of ps a)"
  using assms(1,3)
proof (induction ts arbitrary: ps)
  case Nil
  then show ?case by (simp add: boot_notify_def ret_def)
next
  case (Cons t ts)
  then obtain s where s: "be_For B t = None" "\<not> be_expired B t" "map_of ps t = Some s" "st_open s" by auto
  from store_Notify_open [OF s(4) assms(2)] obtain s' where
    s': "store_Notify (be_raft B) (be_id B) (be_addr B) s = (Ok (), s')" by blast
  let ?ps = "AList.update t s' ps"
  have c: "call_peer B msg t (\<lambda>x. server_Notify x (be_raft B) (be_id B) (be_addr B)) ps = (Ok (), ?ps)" for msg
    using s s' by (simp add: call_peer_def server_Notify_def wrap_def)
  have "\<forall>u \<in> set ts. be_For B u = None \<and> \<not> be_expired B u \<and> (\<exists>s. map_of ?ps u = Some s \<and> st_open s)"
    using Cons.prems by (auto simp: AList.update_conv')
  from Cons.IH [OF this] Cons.prems(2) obtain ps2 where
    "boot_notify B ts ?ps = (Ok (), ps2)"
    "map_of ps2 = (\<lambda>a. if a \<in> set ts then map_option (\<lambda>s. snd (store_Notify (be_raft B) (be_id B) (be_addr B) s)) (map_of ?ps a)
      else map_of ?ps a)" by auto
  then show ?case using c s s' Cons.prems(2) by (auto simp: boot_notify_def bind_def fun_eq_iff AList.update_conv')
qed

text \<open>One tick of a node that is not done: the peers after it.\<close>

definition boot_tick :: "boot_env \<Rightarrow> string list \<Rightarrow> string \<times> string \<Rightarrow> peers \<Rightarrow> peers" where
  "boot_tick B ts = (\<lambda>(i, a) ps. snd (Boot (B\<lparr>be_id := i, be_addr := a\<rparr>) (\<lambda>_ _. False) [Tick False ts] ps))"

lemma boot_tick_notifies:
  assumes "\<forall>t \<in> set ts. be_For B t = None \<and> \<not> be_expired B t \<and> (\<exists>s. map_of ps t = Some s \<and> st_open s \<and> \<not> st_isRaftLeader s)"
    and "rl_resolvableAddress (be_raft B) a = None" and "distinct ts" and "ts \<noteq> []" and "i \<noteq> []" and "be_voter B"
  shows "map_of (boot_tick B ts (i, a) ps) =
    (\<lambda>t. if t \<in> set ts then map_option (\<lambda>s. snd (store_Notify (be_raft B) i a s)) (map_of ps t) else map_of ps t)"
proof -
  let ?B = "B\<lparr>be_id := i, be_addr := a\<rparr>"
  obtain ps1 where j: "try_targets ?B (\<lambda>_. False) ts ps = (Ok None, ps1)" "map_of ps1 = map_of ps"
    using joins_refused [of ts ps ?B] assms(1) by blast
  have "\<forall>t \<in> set ts. be_For ?B t = None \<and> \<not> be_expired ?B t \<and> (\<exists>s. map_of ps1 t = Some s \<and> st_open s)"
    using assms(1) j(2) by auto
  from targets_notified [OF this _ assms(3)] assms(2) obtain ps2 where n1: "boot_notify ?B ts ps1 = (Ok (), ps2)"
    "map_of ps2 = (\<lambda>a. if a \<in> set ts then map_option (\<lambda>s. snd (store_Notify (be_raft ?B) (be_id ?B) (be_addr ?B) s)) (map_of ps1 a)
      else map_of ps1 a)" by auto
  then have n: "boot_notify ?B ts ps1 = (Ok (), ps2)"
    "map_of ps2 = (\<lambda>t. if t \<in> set ts then map_option (\<lambda>s. snd (store_Notify (be_raft B) i a s)) (map_of ps t) else map_of ps t)"
    using j(2) by (auto simp: fun_eq_iff)
  show ?thesis using assms(4-6) j(1) n
    by (simp add: boot_tick_def Joiner_Do_def bind_def attempt_def throw_def ret_def block_def)
qed

lemma boot_ticks_notify:
  assumes "\<forall>t \<in> set ts. be_For B t = None \<and> \<not> be_expired B t \<and> (\<exists>s. map_of ps t = Some s \<and> st_open s \<and> \<not> st_isRaftLeader s)"
    and "\<forall>(i, a) \<in> set nodes. i \<noteq> [] \<and> rl_resolvableAddress (be_raft B) a = None"
    and "distinct ts" and "ts \<noteq> []" and "be_voter B" and "t \<in> set ts"
  shows "map_of (fold (boot_tick B ts) nodes ps) t = map_option (\<lambda>s. snd (notify_all (be_raft B) nodes s)) (map_of ps t)"
  using assms(1,2)
proof (induction nodes arbitrary: ps)
  case Nil
  then show ?case by (simp add: notify_all_def ret_def option.map_ident)
next
  case (Cons x nodes)
  obtain i a where x: "x = (i, a)" by fastforce
  with Cons.prems(2) have ia: "i \<noteq> []" "rl_resolvableAddress (be_raft B) a = None" by auto
  let ?ps = "boot_tick B ts (i, a) ps"
  have m: "map_of ?ps = (\<lambda>t. if t \<in> set ts then map_option (\<lambda>s. snd (store_Notify (be_raft B) i a s)) (map_of ps t) else map_of ps t)"
    by (rule boot_tick_notifies [OF Cons.prems(1) ia(2) assms(3,4) ia(1) assms(5)])
  have n: "\<exists>s'. store_Notify (be_raft B) i a s = (Ok (), s') \<and> st_open s' \<and> st_isRaftLeader s' = st_isRaftLeader s"
    if "st_open s" for s using store_Notify_open [OF that ia(2)] .
  have p: "be_For B u = None \<and> \<not> be_expired B u \<and> (\<exists>s. map_of ?ps u = Some s \<and> st_open s \<and> \<not> st_isRaftLeader s)"
    if "u \<in> set ts" for u
  proof -
    from Cons.prems(1) that obtain s where "be_For B u = None" "\<not> be_expired B u" "map_of ps u = Some s" "st_open s"
      "\<not> st_isRaftLeader s" by blast
    with n [of s] that show ?thesis unfolding m by auto
  qed
  from Cons.prems(1) assms(6) obtain s where s: "map_of ps t = Some s" "st_open s" by blast
  from n [OF s(2)] obtain s' where "store_Notify (be_raft B) i a s = (Ok (), s')" by blast
  with Cons.IH [of ?ps] Cons.prems(2) p s(1) assms(6) x show ?case
    by (auto simp: m notify_all_def bind_def)
qed

lemma notify_all_open:
  assumes "st_open s" and "\<forall>(i, a) \<in> set rs. rl_resolvableAddress R a = None"
  shows "st_open (snd (notify_all R rs s)) \<and> st_isRaftLeader (snd (notify_all R rs s)) = st_isRaftLeader s"
  using assms
proof (induction rs arbitrary: s)
  case Nil
  then show ?case by (simp add: notify_all_def ret_def)
next
  case (Cons r rs)
  obtain i a where r: "r = (i, a)" by fastforce
  with Cons.prems(2) store_Notify_open [OF Cons.prems(1), of R a i] obtain s1 where
    s1: "store_Notify R i a s = (Ok (), s1)" "st_open s1" "st_isRaftLeader s1 = st_isRaftLeader s" by auto
  from Cons.IH [OF s1(2)] Cons.prems(2) s1 show ?case by (simp add: notify_all_def bind_def r)
qed

text \<open>
  What the raft library documents of \<^verbatim>\<open>BootstrapCluster\<close>: on a server without a configuration it adopts one that is valid.
\<close>

definition valid_configuration :: "raft_server list \<Rightarrow> bool" where
  "valid_configuration servers \<longleftrightarrow> servers \<noteq> [] \<and> distinct (map srv_ID servers) \<and> distinct (map srv_Address servers) \<and>
     list_all (\<lambda>srv. srv_ID srv \<noteq> [] \<and> srv_Address srv \<noteq> [] \<and> srv_Suffrage srv = Voter) servers"

definition bootstraps_new_servers :: "raft_lib \<Rightarrow> bool" where
  "bootstraps_new_servers R \<longleftrightarrow> (\<forall>servers. valid_configuration servers \<longrightarrow> rl_BootstrapCluster R servers [] = Inr servers)"

lemma notified_configuration:
  assumes "set servers = (\<lambda>(i, a). notifying_server i a) ` set nodes" and "length servers = length nodes" and "nodes \<noteq> []"
    and "distinct (map fst nodes)" and "distinct (map snd nodes)" and "\<forall>(i, a) \<in> set nodes. i \<noteq> [] \<and> a \<noteq> []"
  shows "valid_configuration servers" and "distinct servers"
proof -
  have one: "i = i' \<longleftrightarrow> a = a'" if "(i, a) \<in> set nodes" "(i', a') \<in> set nodes" for i a i' a'
    using that assms(4,5) unfolding distinct_map inj_on_def by (metis fst_conv snd_conv)
  have inj: "inj_on (\<lambda>(i, a). notifying_server i a) (set nodes)" by (auto simp: inj_on_def notifying_server_def)
  have "card (set servers) = length servers"
    unfolding assms(1,2) card_image [OF inj] using assms(4) by (simp add: distinct_map distinct_card)
  then show d: "distinct servers" by (rule card_distinct)
  have "distinct (map srv_ID servers)" "distinct (map srv_Address servers)"
    using d one by (auto simp: distinct_map inj_on_def assms(1) notifying_server_def)
  moreover have "servers \<noteq> []" using assms(2,3) by auto
  moreover have "list_all (\<lambda>srv. srv_ID srv \<noteq> [] \<and> srv_Address srv \<noteq> [] \<and> srv_Suffrage srv = Voter) servers"
    using assms(6) by (auto simp: list_all_iff assms(1) notifying_server_def)
  ultimately show "valid_configuration servers" by (simp add: valid_configuration_def)
qed

text \<open>A node that is looking for a leader finds none: its joiner fails.\<close>

lemma no_join_succeeds:
  assumes "\<forall>t \<in> set ts. \<exists>s. map_of ps t = Some s \<and> \<not> st_isRaftLeader s" and "be_id B \<noteq> []"
  shows "fst (Joiner_Do 1 B (\<lambda>_ _. False) (\<lambda>_. False) ts ps) = Err ErrJoinFailed"
proof -
  obtain ps' where "try_targets B (\<lambda>_. False) ts ps = (Ok None, ps')" using joins_refused [OF assms(1)] by blast
  then show ?thesis using assms(2) by (simp add: Joiner_Do_def bind_def throw_def)
qed

text \<open>
  C26. Bootstrapping. \<open>n\<close> new nodes with different names and addresses, each waiting for \<open>n\<close> notifications, without a
  configuration and leader of nothing, look at their peers once, one after the other, while every peer can be reached.
  No join succeeds; each node notifies all; and after the last one every peer has bootstrapped with the configuration of exactly
  these \<open>n\<close> nodes, the same on every peer up to the order, so that they form one cluster. (Assumed of the raft library: a
  server without a configuration adopts a valid one.)
\<close>

theorem expected_nodes_form_one_cluster:
  assumes "\<forall>t \<in> set ts. be_For B t = None \<and> \<not> be_expired B t \<and> (\<exists>s. map_of ps t = Some s \<and> awaiting n s \<and> st_Servers s = [])"
    and "\<forall>(i, a) \<in> set nodes. i \<noteq> [] \<and> a \<noteq> [] \<and> rl_resolvableAddress (be_raft B) a = None"
    and "distinct (map fst nodes)" and "distinct (map snd nodes)" and "length nodes = n" and "distinct ts" and "be_voter B" and "t \<in> set ts"
    and "bootstraps_new_servers (be_raft B)"
  shows "(\<forall>k < n. fst (Joiner_Do 1 (B\<lparr>be_id := fst (nodes ! k), be_addr := snd (nodes ! k)\<rparr>) (\<lambda>_ _. False) (\<lambda>_. False) ts
            (fold (boot_tick B ts) (take k nodes) ps)) = Err ErrJoinFailed) \<and>
    (\<exists>s'. map_of (fold (boot_tick B ts) nodes ps) t = Some s' \<and> st_bootstrapped s' \<and> distinct (st_Servers s') \<and>
      set (st_Servers s') = (\<lambda>(i, a). notifying_server i a) ` set nodes)"
proof (intro conjI allI impI)
  have p: "\<forall>t \<in> set ts. be_For B t = None \<and> \<not> be_expired B t \<and> (\<exists>s. map_of ps t = Some s \<and> st_open s \<and> \<not> st_isRaftLeader s)"
    using assms(1) by (auto simp: awaiting_def)
  have ne: "ts \<noteq> []" using assms(8) by auto
  have nodes: "\<forall>(i, a) \<in> set nodes. i \<noteq> [] \<and> rl_resolvableAddress (be_raft B) a = None" using assms(2) by auto
  fix k assume k: "k < n"
  have some: "\<forall>(i, a) \<in> set (take k nodes). i \<noteq> [] \<and> rl_resolvableAddress (be_raft B) a = None"
    using nodes by (auto dest: in_set_takeD)
  have "\<exists>s'. map_of (fold (boot_tick B ts) (take k nodes) ps) u = Some s' \<and> \<not> st_isRaftLeader s'" if u: "u \<in> set ts" for u
  proof -
    from p u obtain s where s: "map_of ps u = Some s" "st_open s" "\<not> st_isRaftLeader s" by blast
    have "\<forall>(i, a) \<in> set (take k nodes). rl_resolvableAddress (be_raft B) a = None" using some by auto
    from notify_all_open [OF s(2) this] boot_ticks_notify [OF p some assms(6) ne assms(7) u] s(1,3)
    show ?thesis by simp
  qed
  moreover have "fst (nodes ! k) \<noteq> []" using bspec [OF nodes nth_mem [of k nodes]] k assms(5) by (simp add: case_prod_beta)
  ultimately show "fst (Joiner_Do 1 (B\<lparr>be_id := fst (nodes ! k), be_addr := snd (nodes ! k)\<rparr>) (\<lambda>_ _. False) (\<lambda>_. False) ts
      (fold (boot_tick B ts) (take k nodes) ps)) = Err ErrJoinFailed"
    by (intro no_join_succeeds) auto
next
  have p: "\<forall>t \<in> set ts. be_For B t = None \<and> \<not> be_expired B t \<and> (\<exists>s. map_of ps t = Some s \<and> st_open s \<and> \<not> st_isRaftLeader s)"
    using assms(1) by (auto simp: awaiting_def)
  have ne: "ts \<noteq> []" using assms(8) by auto
  have nodes: "\<forall>(i, a) \<in> set nodes. i \<noteq> [] \<and> rl_resolvableAddress (be_raft B) a = None" using assms(2) by auto
  from assms(1,8) obtain s where s: "map_of ps t = Some s" "awaiting n s" "st_Servers s = []" by blast
  from boot_ticks_notify [OF p nodes assms(6) ne assms(7,8)] s(1)
  have m: "map_of (fold (boot_tick B ts) nodes ps) t = Some (snd (notify_all (be_raft B) nodes s))" by simp
  have "card (fst ` set nodes) = n" using assms(3,5) distinct_card [OF assms(3)] by simp
  with notifications_bootstrap [OF s(2), of nodes "be_raft B"] nodes assms(3,5) obtain s' where
    n: "notify_all (be_raft B) nodes s = (Ok (), s')" "st_bootstrapped s'"
    "st_Servers s' = bootstrapped_servers (be_raft B) (map snd (st_notifyingNodes s')) []" "length (st_notifyingNodes s') = n"
    "set (map snd (st_notifyingNodes s')) = (\<lambda>(i, a). notifying_server i a) ` set nodes" using s(3) by fastforce
  have "nodes \<noteq> []" using s(2) assms(5) by (auto simp: awaiting_def)
  with notified_configuration [OF n(5) _ _ assms(3,4)] n(4) assms(2,5)
  have "valid_configuration (map snd (st_notifyingNodes s'))" "distinct (map snd (st_notifyingNodes s'))" by auto
  with n assms(9) m show "\<exists>s'. map_of (fold (boot_tick B ts) nodes ps) t = Some s' \<and> st_bootstrapped s' \<and> distinct (st_Servers s') \<and>
      set (st_Servers s') = (\<lambda>(i, a). notifying_server i a) ` set nodes"
    by (simp add: bootstraps_new_servers_def bootstrapped_servers_def)
qed

subsection \<open>Two nodes\<close>

definition bootdemo_add :: "string \<Rightarrow> string \<Rightarrow> raft_server list \<Rightarrow> error + raft_server list" where
  "bootdemo_add i a cfg =
     (if list_ex (\<lambda>srv. srv_ID srv \<noteq> i \<and> srv_Address srv = a) cfg then Inl (ExternalError ''found duplicate address in configuration'')
      else Inr (filter (\<lambda>srv. srv_ID srv \<noteq> i) cfg @ [notifying_server i a]))"

definition bootdemo_raft :: raft_lib where
  "bootdemo_raft =
     \<lparr>rl_Apply = (\<lambda>_. None), rl_Response = (\<lambda>_. False), rl_GetConfiguration = None,
      rl_BootstrapCluster = (\<lambda>servers old. if old = [] then Inr servers else Inl (ExternalError ''bootstrap only works on new clusters'')),
      rl_AddVoter = bootdemo_add, rl_AddNonvoter = bootdemo_add,
      rl_RemoveServer = (\<lambda>i cfg. Inr (filter (\<lambda>srv. srv_ID srv \<noteq> i) cfg)), rl_resolvableAddress = (\<lambda>_. None)\<rparr>"

definition bootdemo_env :: boot_env where
  "bootdemo_env = \<lparr>be_raft = bootdemo_raft, be_For = (\<lambda>_. None), be_expired = (\<lambda>_. False), be_id = [], be_addr = [], be_voter = True\<rparr>"

definition bootdemo_store :: "string \<Rightarrow> string \<Rightarrow> Store" where
  "bootdemo_store i a =
     \<lparr>st_open = True, st_raftID = i, st_Addr = a, st_bootstrapExpect = 2, st_bootstrapped = False, st_notifyingNodes = [],
      st_isRaftLeader = False, st_LeaderWithID = ([], []), st_Servers = [], st_state = fs_state (New True), st_log = [],
      st_ReapTimeout = 0, st_ReapReadOnlyTimeout = 0, st_NodeHearbeatShutdownTimeout = 2\<rparr>"

definition bootdemo_peers :: peers where
  "bootdemo_peers = [(''a1'', bootdemo_store ''n1'' ''a1''), (''a2'', bootdemo_store ''n2'' ''a2'')]"

lemma bootdemo_awaiting: "awaiting 2 (bootdemo_store i a)"
  by (simp add: awaiting_def bootdemo_store_def store_HasLeader_def)

theorem expected_nodes_form_one_cluster_witness:
  "\<exists>s'. map_of (fold (boot_tick bootdemo_env [''a1'', ''a2'']) [(''n1'', ''a1''), (''n2'', ''a2'')] bootdemo_peers) ''a2'' = Some s' \<and>
    st_bootstrapped s' \<and> distinct (st_Servers s') \<and>
    set (st_Servers s') = {notifying_server ''n1'' ''a1'', notifying_server ''n2'' ''a2''}"
proof -
  let ?nodes = "[(''n1'', ''a1''), (''n2'', ''a2'')]" and ?ts = "[''a1'', ''a2'']"
  have stores: "st_Servers (bootdemo_store i a) = []" for i a by (simp add: bootdemo_store_def)
  have up: "\<forall>t \<in> set ?ts. be_For bootdemo_env t = None \<and> \<not> be_expired bootdemo_env t \<and>
      (\<exists>s. map_of bootdemo_peers t = Some s \<and> awaiting 2 s \<and> st_Servers s = [])"
    by (simp add: bootdemo_env_def bootdemo_peers_def bootdemo_awaiting stores)
  have res: "\<forall>(i, a) \<in> set ?nodes. i \<noteq> [] \<and> a \<noteq> [] \<and> rl_resolvableAddress (be_raft bootdemo_env) a = None"
    by (simp add: bootdemo_env_def bootdemo_raft_def)
  have raft: "bootstraps_new_servers (be_raft bootdemo_env)"
    by (simp add: bootstraps_new_servers_def bootdemo_env_def bootdemo_raft_def)
  show ?thesis
    using expected_nodes_form_one_cluster [OF up res, where t = "''a2''"] raft by (simp add: bootdemo_env_def)
qed

lemma bootdemo_membership: "raft_membership bootdemo_raft"
  by (auto simp: raft_membership_def bootdemo_raft_def bootdemo_add_def list_all_iff list_ex_iff intro!: filter_True)

theorem reused_address_cannot_join_witness:
  "\<exists>e s'. store_Join bootdemo_raft ''n3'' ''a1'' True
       ((bootdemo_store ''n1'' ''a1'')\<lparr>st_isRaftLeader := True, st_Servers := [notifying_server ''n1'' ''a1'']\<rparr>) = (Err e, s') \<and>
     st_Servers s' = [notifying_server ''n1'' ''a1'']"
  using reused_address_cannot_join [OF bootdemo_membership,
    of "(bootdemo_store ''n1'' ''a1'')\<lparr>st_isRaftLeader := True, st_Servers := [notifying_server ''n1'' ''a1'']\<rparr>" "''a1''" "''n3''" True]
  by (simp add: store_IsLeader_def bootdemo_store_def notifying_server_def)

end
