(* ===== verification/Script_Pool.thy ===== *)
theory Script_Pool
  imports Zen_Prelude
begin

text \<open>
  The script runtimes (\<^verbatim>\<open>pkg/script\<close>): a pool of embedded interpreters, between \<^verbatim>\<open>minVmPoolSize\<close> and
  \<^verbatim>\<open>maxVmPoolSize\<close> of them, shared by the goroutines that evaluate expressions.

  The pool is a buffered channel, a counter under a mutex and a cleaner goroutine. The program is a function \<open>exec\<close>
  from the moves of the goroutines to states; a move is what a goroutine does between two points where others can
  interfere. The channel is Go's: a sender hands over to the goroutine that has waited longest, else the buffer takes
  the value. Critical sections without a blocking operation are one move; the cleaner's section, which receives from
  the channel with the mutex held, is three.

  Rule induction over \<open>pool_reachable\<close> shows that the counter is the number of live runners and stays between the two
  sizes, that no runner is used by two goroutines, that a runner is never thrown away when it is returned, and that
  with a minimum of at least one runner everybody who waits can be served. Without a minimum a goroutine can wait for
  ever for a runner that the cleaner has taken.

  The interpreters themselves (\<^verbatim>\<open>goja\<close>, the FEEL library) are parameters.
\<close>

section \<open>The pool\<close>

datatype receiver = Caller nat | Cleaner

record RunnerPool =
  rp_pool :: "nat list"
  rp_waiting :: "receiver list"
  rp_activeRunnersCount :: int
  rp_locked :: bool
  rp_maxVmPoolSize :: int
  rp_minVmPoolSize :: int
  rp_created :: nat
  rp_cancelled :: bool

text \<open>Receiving from the channel and a \<^verbatim>\<open>select\<close> that sends with a \<^verbatim>\<open>default\<close>.\<close>

definition chan_recv :: "RunnerPool \<Rightarrow> (nat \<times> RunnerPool) option" where
  "chan_recv p = (case rp_pool p of [] \<Rightarrow> None | r # rs \<Rightarrow> Some (r, p\<lparr>rp_pool := rs\<rparr>))"

datatype sent = Handed receiver | Buffered | Full

definition chan_send :: "nat \<Rightarrow> RunnerPool \<Rightarrow> sent \<times> RunnerPool" where
  "chan_send r p =
     (case rp_waiting p of
        w # ws \<Rightarrow> (Handed w, p\<lparr>rp_waiting := ws\<rparr>)
      | [] \<Rightarrow> if int (length (rp_pool p)) < rp_maxVmPoolSize p then (Buffered, p\<lparr>rp_pool := rp_pool p @ [r]\<rparr>)
             else (Full, p))"

text \<open>\<^verbatim>\<open>runnerFactory.NewRunner()\<close>, the runners numbered as they are made.\<close>

definition new_runner :: "RunnerPool \<Rightarrow> nat \<times> RunnerPool" where
  "new_runner p = (rp_created p, p\<lparr>rp_created := Suc (rp_created p)\<rparr>)"

text \<open>The loop that starts the smallest number of runners: its sends block when the buffer is full.\<close>

fun start_runners :: "nat \<Rightarrow> RunnerPool \<Rightarrow> RunnerPool res" where
  "start_runners 0 p = Ok p"
| "start_runners (Suc n) p =
     (case new_runner p of
        (r, p1) \<Rightarrow>
          if int (length (rp_pool p1)) < rp_maxVmPoolSize p1
          then start_runners n (p1\<lparr>rp_pool := rp_pool p1 @ [r], rp_activeRunnersCount := rp_activeRunnersCount p1 + 1\<rparr>)
          else Blocked)"

definition NewRunnerPool :: "int \<Rightarrow> int \<Rightarrow> RunnerPool res" where
  "NewRunnerPool maxVmPoolSize minVmPoolSize =
     (if maxVmPoolSize < minVmPoolSize then Panic ''vm pool min size is smaller than vm pool max size''
      else if maxVmPoolSize < 0 then Panic ''makechan: size out of range''
      else start_runners (nat minVmPoolSize)
        \<lparr>rp_pool = [], rp_waiting = [], rp_activeRunnersCount = 0, rp_locked = False,
         rp_maxVmPoolSize = maxVmPoolSize, rp_minVmPoolSize = minVmPoolSize, rp_created = 0, rp_cancelled = False\<rparr>)"

definition pool_Stop :: "RunnerPool \<Rightarrow> RunnerPool" where
  "pool_Stop p = p\<lparr>rp_cancelled := True\<rparr>"

text \<open>The critical section of \<^verbatim>\<open>GetRunnerFromPool\<close>: a new runner as long as there are fewer than the most.\<close>

definition grow :: "RunnerPool \<Rightarrow> nat option \<times> RunnerPool" where
  "grow p =
     (if rp_activeRunnersCount p < rp_maxVmPoolSize p
      then (case new_runner p of (r, p1) \<Rightarrow> (Some r, p1\<lparr>rp_activeRunnersCount := rp_activeRunnersCount p1 + 1\<rparr>))
      else (None, p))"

definition forget :: "RunnerPool \<Rightarrow> RunnerPool" where
  "forget p = p\<lparr>rp_activeRunnersCount := rp_activeRunnersCount p - 1\<rparr>"

section \<open>The goroutines\<close>

text \<open>Where a caller is: outside the pool, after the first \<^verbatim>\<open>select\<close> found the channel empty, after the critical section
  gave it nothing, blocked on the channel, with a runner, or after the channel had no room for its runner. The cleaner:
  waiting for the ticker, at the head of its loop, at the mutex, at the channel with the mutex held, blocked there, with
  the runner it drops.\<close>

datatype caller = Outside | Lacking | Short | Queued | Using nat | Dropping

datatype cleaner = Sleeping | Looping | Locking | Receiving | Parked | Taken | Ended

record pool_system =
  ps_pool :: RunnerPool
  ps_caller :: "nat \<Rightarrow> caller"
  ps_cleaner :: cleaner

definition at :: "nat \<Rightarrow> caller \<Rightarrow> RunnerPool \<Rightarrow> pool_system \<Rightarrow> pool_system" where
  "at t c p s = s\<lparr>ps_pool := p, ps_caller := (ps_caller s)(t := c)\<rparr>"

definition cleaner_at :: "cleaner \<Rightarrow> RunnerPool \<Rightarrow> pool_system \<Rightarrow> pool_system" where
  "cleaner_at c p s = s\<lparr>ps_pool := p, ps_cleaner := c\<rparr>"

subsection \<open>\<^verbatim>\<open>GetRunnerFromPool\<close>\<close>

definition get_select :: "nat \<Rightarrow> pool_system \<Rightarrow> pool_system" where
  "get_select t s =
     (case chan_recv (ps_pool s) of
        Some (r, p) \<Rightarrow> at t (Using r) p s
      | None \<Rightarrow> at t Lacking (ps_pool s) s)"

definition get_critical :: "nat \<Rightarrow> pool_system \<Rightarrow> pool_system" where
  "get_critical t s =
     (case grow (ps_pool s) of
        (Some r, p) \<Rightarrow> at t (Using r) p s
      | (None, p) \<Rightarrow> at t Short p s)"

definition get_receive :: "nat \<Rightarrow> pool_system \<Rightarrow> pool_system" where
  "get_receive t s =
     (case chan_recv (ps_pool s) of
        Some (r, p) \<Rightarrow> at t (Using r) p s
      | None \<Rightarrow> at t Queued ((ps_pool s)\<lparr>rp_waiting := rp_waiting (ps_pool s) @ [Caller t]\<rparr>) s)"

subsection \<open>\<^verbatim>\<open>ReturnRunnerToPool\<close>\<close>

definition put_select :: "nat \<Rightarrow> nat \<Rightarrow> pool_system \<Rightarrow> pool_system" where
  "put_select t r s =
     (case chan_send r (ps_pool s) of
        (Handed (Caller t'), p) \<Rightarrow> at t' (Using r) p (at t Outside p s)
      | (Handed Cleaner, p) \<Rightarrow> cleaner_at Taken p (at t Outside p s)
      | (Buffered, p) \<Rightarrow> at t Outside p s
      | (Full, p) \<Rightarrow> at t Dropping p s)"

subsection \<open>The cleaner\<close>

definition clean_tick :: "pool_system \<Rightarrow> pool_system" where
  "clean_tick s =
     (if int (length (rp_pool (ps_pool s))) > rp_minVmPoolSize (ps_pool s) then s\<lparr>ps_cleaner := Looping\<rparr> else s)"

definition clean_check :: "pool_system \<Rightarrow> pool_system" where
  "clean_check s =
     s\<lparr>ps_cleaner := (if rp_minVmPoolSize (ps_pool s) < int (length (rp_pool (ps_pool s))) then Locking else Sleeping)\<rparr>"

definition clean_receive :: "pool_system \<Rightarrow> pool_system" where
  "clean_receive s =
     (case chan_recv (ps_pool s) of
        Some (r, p) \<Rightarrow> cleaner_at Taken p s
      | None \<Rightarrow> cleaner_at Parked ((ps_pool s)\<lparr>rp_waiting := rp_waiting (ps_pool s) @ [Cleaner]\<rparr>) s)"

subsection \<open>The program\<close>

datatype move = Get nat | Enter nat | Receive nat | Return nat | Drop nat | Tick | Check | Lock | Take | Unlock | Stop | Quit

fun exec :: "move \<Rightarrow> pool_system \<Rightarrow> pool_system option" where
  "exec (Get t) s = (if ps_caller s t = Outside then Some (get_select t s) else None)"
| "exec (Enter t) s =
     (if ps_caller s t = Lacking \<and> \<not> rp_locked (ps_pool s) then Some (get_critical t s) else None)"
| "exec (Receive t) s = (if ps_caller s t = Short then Some (get_receive t s) else None)"
| "exec (Return t) s = (case ps_caller s t of Using r \<Rightarrow> Some (put_select t r s) | _ \<Rightarrow> None)"
| "exec (Drop t) s =
     (if ps_caller s t = Dropping \<and> \<not> rp_locked (ps_pool s) then Some (at t Outside (forget (ps_pool s)) s) else None)"
| "exec Tick s = (if ps_cleaner s = Sleeping then Some (clean_tick s) else None)"
| "exec Check s = (if ps_cleaner s = Looping then Some (clean_check s) else None)"
| "exec Lock s =
     (if ps_cleaner s = Locking \<and> \<not> rp_locked (ps_pool s)
      then Some (cleaner_at Receiving ((ps_pool s)\<lparr>rp_locked := True\<rparr>) s) else None)"
| "exec Take s = (if ps_cleaner s = Receiving then Some (clean_receive s) else None)"
| "exec Unlock s =
     (if ps_cleaner s = Taken then Some (cleaner_at Looping ((forget (ps_pool s))\<lparr>rp_locked := False\<rparr>) s) else None)"
| "exec Stop s = Some (s\<lparr>ps_pool := pool_Stop (ps_pool s)\<rparr>)"
| "exec Quit s =
     (if ps_cleaner s = Sleeping \<and> rp_cancelled (ps_pool s) then Some (s\<lparr>ps_cleaner := Ended\<rparr>) else None)"

fun execs :: "move list \<Rightarrow> pool_system \<Rightarrow> pool_system option" where
  "execs [] s = Some s"
| "execs (m # ms) s = (case exec m s of Some s' \<Rightarrow> execs ms s' | None \<Rightarrow> None)"

definition pool_start :: "RunnerPool \<Rightarrow> pool_system" where
  "pool_start p = \<lparr>ps_pool = p, ps_caller = (\<lambda>_. Outside), ps_cleaner = Sleeping\<rparr>"

inductive pool_reachable :: "int \<Rightarrow> int \<Rightarrow> pool_system \<Rightarrow> bool" for maxSize minSize where
  started: "NewRunnerPool maxSize minSize = Ok p \<Longrightarrow> pool_reachable maxSize minSize (pool_start p)"
| moved: "pool_reachable maxSize minSize s \<Longrightarrow> exec m s = Some s' \<Longrightarrow> pool_reachable maxSize minSize s'"

section \<open>The counter\<close>

definition users :: "(nat \<Rightarrow> caller) \<Rightarrow> nat set" where
  "users f = {t. \<exists>r. f t = Using r}"

lemma users_upd: "users (f(t := c)) = (if \<exists>r. c = Using r then insert t (users f) else users f - {t})"
  by (auto simp: users_def)

lemma users_other:
  assumes "\<forall>r. f t \<noteq> Using r"
  shows "\<forall>r. c \<noteq> Using r \<Longrightarrow> users (f(t := c)) = users f"
    and "finite (users f) \<Longrightarrow> int (card (users (f(t := Using r)))) = int (card (users f)) + 1"
    and "finite (users f) \<Longrightarrow> finite (users (f(t := Using r)))"
proof -
  have t: "t \<notin> users f" using assms by (auto simp: users_def)
  then show "\<forall>r. c \<noteq> Using r \<Longrightarrow> users (f(t := c)) = users f" by (auto simp: users_upd)
  show "finite (users f) \<Longrightarrow> int (card (users (f(t := Using r)))) = int (card (users f)) + 1"
    using t by (simp add: users_upd)
  show "finite (users f) \<Longrightarrow> finite (users (f(t := Using r)))" by (simp add: users_upd)
qed

lemma users_return:
  assumes "finite (users f)" and "f t = Using r" and "\<forall>r. c \<noteq> Using r"
  shows "int (card (users (f(t := c)))) = int (card (users f)) - 1"
    and "f t' = Queued \<Longrightarrow> int (card (users (f(t := c, t' := Using r)))) = int (card (users f))"
proof -
  have t: "t \<in> users f" using assms(2) by (auto simp: users_def)
  then have p: "0 < card (users f)" using assms(1) by (auto simp: card_gt_0_iff)
  show u: "int (card (users (f(t := c)))) = int (card (users f)) - 1"
    using t p assms by (auto simp: users_upd)
  assume "f t' = Queued"
  then have "t' \<notin> users f" by (auto simp: users_def)
  moreover have "finite (users (f(t := c)))" using assms(1) by (auto simp: users_upd)
  ultimately show "int (card (users (f(t := c, t' := Using r)))) = int (card (users f))"
    using u assms(3) by (subst users_upd) (auto simp: users_upd)
qed

text \<open>The queue of the channel: who is blocked on it, and nobody while it has a runner.\<close>

definition queue_inv :: "pool_system \<Rightarrow> bool" where
  "queue_inv s \<longleftrightarrow>
     (rp_waiting (ps_pool s) \<noteq> [] \<longrightarrow> rp_pool (ps_pool s) = []) \<and> distinct (rp_waiting (ps_pool s)) \<and>
     (\<forall>t. Caller t \<in> set (rp_waiting (ps_pool s)) \<longleftrightarrow> ps_caller s t = Queued) \<and>
     (Cleaner \<in> set (rp_waiting (ps_pool s)) \<longleftrightarrow> ps_cleaner s = Parked)"

text \<open>The counter, with \<open>u\<close> runners in use: the cleaner takes runners only while there are more than the minimum.\<close>

definition counted :: "RunnerPool \<Rightarrow> int \<Rightarrow> cleaner \<Rightarrow> bool" where
  "counted p u c \<longleftrightarrow>
     rp_activeRunnersCount p = int (length (rp_pool p)) + u + (if c = Taken then 1 else 0) \<and>
     rp_activeRunnersCount p \<le> rp_maxVmPoolSize p \<and> rp_minVmPoolSize p \<le> rp_activeRunnersCount p \<and>
     (c \<in> {Locking, Receiving, Parked, Taken} \<longrightarrow> rp_minVmPoolSize p < rp_activeRunnersCount p) \<and>
     (rp_locked p \<longleftrightarrow> c \<in> {Receiving, Parked, Taken})"

definition count_inv :: "pool_system \<Rightarrow> bool" where
  "count_inv s \<longleftrightarrow>
     finite (users (ps_caller s)) \<and> counted (ps_pool s) (int (card (users (ps_caller s)))) (ps_cleaner s) \<and>
     (\<forall>t. ps_caller s t \<noteq> Dropping)"

text \<open>Whose the runners are: those in the channel, those in use, all different and all made by the factory.\<close>

definition owned :: "nat list \<Rightarrow> nat \<Rightarrow> (nat \<Rightarrow> caller) \<Rightarrow> bool" where
  "owned rs n f \<longleftrightarrow>
     distinct rs \<and> (\<forall>r \<in> set rs. r < n) \<and>
     (\<forall>t r. f t = Using r \<longrightarrow> r \<notin> set rs \<and> r < n) \<and>
     (\<forall>t t' r. f t = Using r \<longrightarrow> f t' = Using r \<longrightarrow> t = t')"

definition owner_inv :: "pool_system \<Rightarrow> bool" where
  "owner_inv s \<longleftrightarrow> owned (rp_pool (ps_pool s)) (rp_created (ps_pool s)) (ps_caller s)"

lemma owned_steps:
  shows owned_leave: "owned rs n f \<Longrightarrow> \<forall>r. c \<noteq> Using r \<Longrightarrow> owned rs n (f(t := c))"
    and owned_take: "owned (r # rs) n f \<Longrightarrow> owned rs n (f(t := Using r))"
    and owned_drop: "owned (r # rs) n f \<Longrightarrow> owned rs n f"
    and owned_new: "owned rs n f \<Longrightarrow> owned rs (Suc n) (f(t := Using n))"
    and owned_put: "owned rs n f \<Longrightarrow> f t = Using r \<Longrightarrow> \<forall>r. c \<noteq> Using r \<Longrightarrow> owned (rs @ [r]) n (f(t := c))"
    and owned_hand: "owned rs n f \<Longrightarrow> f t = Using r \<Longrightarrow> \<forall>r. c \<noteq> Using r \<Longrightarrow> owned rs n (f(t := c, t' := Using r))"
proof -
  show "owned rs n f \<Longrightarrow> \<forall>r. c \<noteq> Using r \<Longrightarrow> owned rs n (f(t := c))" by (auto simp: owned_def)
  show "owned (r # rs) n f \<Longrightarrow> owned rs n (f(t := Using r))" by (auto simp: owned_def)
  show "owned (r # rs) n f \<Longrightarrow> owned rs n f" by (auto simp: owned_def)
  show "owned rs n f \<Longrightarrow> owned rs (Suc n) (f(t := Using n))" by (auto simp: owned_def less_Suc_eq)
  show "owned rs n f \<Longrightarrow> f t = Using r \<Longrightarrow> \<forall>r. c \<noteq> Using r \<Longrightarrow> owned (rs @ [r]) n (f(t := c))"
    by (auto simp: owned_def)
  show "owned rs n f \<Longrightarrow> f t = Using r \<Longrightarrow> \<forall>r. c \<noteq> Using r \<Longrightarrow> owned rs n (f(t := c, t' := Using r))"
    by (auto simp: owned_def)
qed

lemmas move_defs = at_def cleaner_at_def get_select_def get_critical_def get_receive_def put_select_def
  clean_tick_def clean_check_def clean_receive_def chan_recv_def chan_send_def new_runner_def grow_def forget_def pool_Stop_def

lemmas move_splits = list.splits if_splits option.splits prod.splits caller.splits receiver.splits

lemma owner_inv_exec: "exec m s = Some s' \<Longrightarrow> owner_inv s \<Longrightarrow> owner_inv s'"
  by (cases m) (auto simp: owner_inv_def move_defs intro: owned_steps split: move_splits)

lemma queue_inv_exec:
  assumes "exec m s = Some s'" and "queue_inv s"
  shows "queue_inv s'"
proof (cases "\<exists>t. m = Return t")
  case True
  with assms(1) obtain t r where r: "ps_caller s t = Using r" and s': "s' = put_select t r s"
    by (auto split: caller.splits)
  note Q = assms(2) [unfolded queue_inv_def]
  have iff: "Caller u \<in> set (rp_waiting (ps_pool s)) \<longleftrightarrow> ps_caller s u = Queued" for u using Q by blast
  show ?thesis
  proof (cases "rp_waiting (ps_pool s)")
    case Nil
    with Q r show ?thesis unfolding s' by (simp add: queue_inv_def put_select_def chan_send_def at_def)
  next
    case (Cons w ws)
    show ?thesis
    proof (cases w)
      case (Caller t')
      have "Caller u \<in> set ws \<longleftrightarrow> ((ps_caller s)(t := Outside, t' := Using r)) u = Queued" for u
        using iff [of u] iff [of t] r Q Cons Caller by (cases "u = t'"; cases "u = t") auto
      with Q Cons Caller show ?thesis unfolding s' by (simp add: queue_inv_def put_select_def chan_send_def at_def)
    next
      case Cleaner
      have "Caller u \<in> set ws \<longleftrightarrow> ((ps_caller s)(t := Outside)) u = Queued" for u
        using iff [of u] iff [of t] r Cons Cleaner by (cases "u = t") auto
      with Q Cons Cleaner show ?thesis
        unfolding s' by (simp add: queue_inv_def put_select_def chan_send_def at_def cleaner_at_def)
    qed
  qed
next
  case False
  with assms show ?thesis
    by (cases m) (auto simp: queue_inv_def move_defs split: move_splits)
qed

lemma counted_frame [simp]:
  "counted (p\<lparr>rp_waiting := ws\<rparr>) u c = counted p u c" "counted (p\<lparr>rp_cancelled := b\<rparr>) u c = counted p u c"
  by (simp_all add: counted_def)

lemma counted_take: "counted p u c \<Longrightarrow> rp_pool p = r # rs \<Longrightarrow> counted (p\<lparr>rp_pool := rs\<rparr>) (u + 1) c"
  by (auto simp: counted_def)

lemma counted_put: "counted p u c \<Longrightarrow> counted (p\<lparr>rp_pool := rp_pool p @ [r]\<rparr>) (u - 1) c"
  by (auto simp: counted_def)

lemma counted_room: "counted p u c \<Longrightarrow> 0 < u \<Longrightarrow> int (length (rp_pool p)) < rp_maxVmPoolSize p"
  by (auto simp: counted_def split: if_splits)

lemma counted_grow: "counted p u c \<Longrightarrow> grow p = (Some r, p') \<Longrightarrow> counted p' (u + 1) c"
  by (auto simp: counted_def grow_def new_runner_def split: if_splits)

lemma counted_cleaner:
  assumes "counted p u c"
  shows "c = Sleeping \<Longrightarrow> counted p u Ended" and "c = Sleeping \<Longrightarrow> counted p u Looping"
    and "c = Looping \<Longrightarrow> counted p u Sleeping"
    and "c = Looping \<Longrightarrow> 0 \<le> u \<Longrightarrow> rp_minVmPoolSize p < int (length (rp_pool p)) \<Longrightarrow> counted p u Locking"
    and "c = Locking \<Longrightarrow> counted (p\<lparr>rp_locked := True\<rparr>) u Receiving"
    and "c = Receiving \<Longrightarrow> rp_pool p = r # rs \<Longrightarrow> counted (p\<lparr>rp_pool := rs\<rparr>) u Taken"
    and "c = Receiving \<Longrightarrow> counted p u Parked"
    and "c = Parked \<Longrightarrow> counted p (u - 1) Taken"
    and "c = Taken \<Longrightarrow> counted ((forget p)\<lparr>rp_locked := False\<rparr>) u Looping"
  using assms by (auto simp: counted_def forget_def)

text \<open>The caller that asks has no runner, the caller that returns has one.\<close>

lemma count_inv_ask:
  assumes "count_inv s" and "\<forall>r. ps_caller s t \<noteq> Using r"
  shows "counted p (int (card (users (ps_caller s))) + 1) (ps_cleaner s) \<Longrightarrow> count_inv (at t (Using r) p s)"
    and "counted p (int (card (users (ps_caller s)))) (ps_cleaner s) \<Longrightarrow> c \<in> {Outside, Lacking, Short, Queued} \<Longrightarrow>
      count_inv (at t c p s)"
  using assms users_other(1) [where f = "ps_caller s" and t = t and c = c]
    users_other(2,3) [where f = "ps_caller s" and t = t and r = r]
  by (auto simp: count_inv_def at_def)

lemma count_inv_get:
  assumes "count_inv s"
  shows "ps_caller s t = Outside \<Longrightarrow> count_inv (get_select t s)"
    and "ps_caller s t = Lacking \<Longrightarrow> count_inv (get_critical t s)"
    and "ps_caller s t = Short \<Longrightarrow> count_inv (get_receive t s)"
proof -
  have c: "counted (ps_pool s) (int (card (users (ps_caller s)))) (ps_cleaner s)" using assms by (simp add: count_inv_def)
  show "ps_caller s t = Outside \<Longrightarrow> count_inv (get_select t s)"
    using counted_take [OF c] c by (auto simp: get_select_def chan_recv_def intro!: count_inv_ask [OF assms] split: list.split)
  show "ps_caller s t = Short \<Longrightarrow> count_inv (get_receive t s)"
    using counted_take [OF c] c by (auto simp: get_receive_def chan_recv_def intro!: count_inv_ask [OF assms] split: list.split)
  have "grow (ps_pool s) = (None, p) \<Longrightarrow> p = ps_pool s" for p by (auto simp: grow_def new_runner_def split: if_splits)
  then show "ps_caller s t = Lacking \<Longrightarrow> count_inv (get_critical t s)"
    using counted_grow [OF c] c by (auto simp: get_critical_def intro!: count_inv_ask [OF assms] split: option.split prod.split)
qed

lemma count_inv_put:
  assumes "count_inv s" and "queue_inv s" and r: "ps_caller s t = Using r"
  shows "count_inv (put_select t r s)"
proof -
  let ?u = "int (card (users (ps_caller s)))"
  have fin: "finite (users (ps_caller s))" and c: "counted (ps_pool s) ?u (ps_cleaner s)"
    and nd: "\<forall>u. ps_caller s u \<noteq> Dropping" using assms(1) by (auto simp: count_inv_def)
  note u = users_return [OF fin r, of Outside]
  have f: "finite (users ((ps_caller s)(t := Outside)))" "finite (users ((ps_caller s)(t := Outside, t' := Using r)))" for t'
    using fin by (auto simp: users_upd)
  have pos: "0 < ?u" using fin r by (auto simp: users_def card_gt_0_iff)
  show ?thesis
  proof (cases "rp_waiting (ps_pool s)")
    case Nil
    with counted_room [OF c pos] have "put_select t r s = at t Outside ((ps_pool s)\<lparr>rp_pool := rp_pool (ps_pool s) @ [r]\<rparr>) s"
      by (simp add: put_select_def chan_send_def)
    with counted_put [OF c] u(1) f nd show ?thesis by (simp add: count_inv_def at_def)
  next
    case (Cons w ws)
    show ?thesis
    proof (cases w)
      case (Caller t')
      with Cons assms(2) have "ps_caller s t' = Queued" by (auto simp: queue_inv_def)
      with c u(2) f nd Cons Caller show ?thesis by (simp add: count_inv_def put_select_def chan_send_def at_def)
    next
      case Cleaner
      with Cons assms(2) have "ps_cleaner s = Parked" by (auto simp: queue_inv_def)
      with counted_cleaner(8) [OF c] u(1) f nd Cons Cleaner show ?thesis
        by (simp add: count_inv_def put_select_def chan_send_def at_def cleaner_at_def)
    qed
  qed
qed

lemma count_inv_clean:
  assumes "count_inv s"
  shows "ps_cleaner s = Sleeping \<Longrightarrow> count_inv (clean_tick s)"
    and "ps_cleaner s = Looping \<Longrightarrow> count_inv (clean_check s)"
    and "ps_cleaner s = Receiving \<Longrightarrow> count_inv (clean_receive s)"
proof -
  note c = assms [unfolded count_inv_def]
  show "ps_cleaner s = Sleeping \<Longrightarrow> count_inv (clean_tick s)"
    using c counted_cleaner(2) by (auto simp: count_inv_def clean_tick_def)
  show "ps_cleaner s = Looping \<Longrightarrow> count_inv (clean_check s)"
    using c counted_cleaner(3,4) by (auto simp: count_inv_def clean_check_def)
  show "ps_cleaner s = Receiving \<Longrightarrow> count_inv (clean_receive s)"
    using c counted_cleaner(6,7) by (auto simp: count_inv_def clean_receive_def chan_recv_def cleaner_at_def split: list.split)
qed

lemma count_inv_exec:
  assumes "exec m s = Some s'" and "count_inv s" and "queue_inv s"
  shows "count_inv s'"
proof (cases m)
  case (Drop t)
  with assms(1,2) show ?thesis by (auto simp: count_inv_def split: if_splits)
next
  case Lock
  with assms(1,2) counted_cleaner(5) show ?thesis by (auto simp: count_inv_def cleaner_at_def split: if_splits)
next
  case Unlock
  with assms(1,2) counted_cleaner(9) show ?thesis by (auto simp: count_inv_def cleaner_at_def split: if_splits)
next
  case Stop
  then have "s' = s\<lparr>ps_pool := pool_Stop (ps_pool s)\<rparr>" using assms(1) by simp
  with assms(2) show ?thesis by (simp add: count_inv_def pool_Stop_def)
next
  case Quit
  with assms(1,2) counted_cleaner(1) show ?thesis by (auto simp: count_inv_def split: if_splits)
qed (use assms count_inv_get count_inv_put count_inv_clean in \<open>auto split: if_splits caller.splits\<close>)

section \<open>Reachable states\<close>

lemma start_runners_from:
  "start_runners n p = Ok p' \<Longrightarrow> rp_pool p = [0..<rp_created p] \<Longrightarrow> rp_activeRunnersCount p = int (rp_created p) \<Longrightarrow>
     p' = p\<lparr>rp_pool := [0..<rp_created p + n], rp_created := rp_created p + n, rp_activeRunnersCount := int (rp_created p + n)\<rparr> \<and>
     (n = 0 \<or> int (rp_created p + n) \<le> rp_maxVmPoolSize p)"
proof (induction n p rule: start_runners.induct)
  case (1 p)
  then show ?case by (cases p) auto
next
  case (2 n p)
  then show ?case by (auto simp: new_runner_def split: if_splits)
qed

lemma NewRunnerPool_Ok:
  assumes "NewRunnerPool M m = Ok p"
  shows "p = \<lparr>rp_pool = [0..<nat m], rp_waiting = [], rp_activeRunnersCount = int (nat m), rp_locked = False,
      rp_maxVmPoolSize = M, rp_minVmPoolSize = m, rp_created = nat m, rp_cancelled = False\<rparr> \<and> m \<le> M \<and> 0 \<le> M"
  using assms by (auto simp: NewRunnerPool_def dest!: start_runners_from split: if_splits)

lemma pool_sizes: "pool_reachable M m s \<Longrightarrow> rp_maxVmPoolSize (ps_pool s) = M \<and> rp_minVmPoolSize (ps_pool s) = m"
proof (induction rule: pool_reachable.induct)
  case (started p)
  then show ?case by (auto simp: pool_start_def dest: NewRunnerPool_Ok)
next
  case (moved s mv s')
  then show ?case by (cases mv) (auto simp: move_defs split: move_splits)
qed

lemma pool_inv: "pool_reachable M m s \<Longrightarrow> queue_inv s \<and> count_inv s \<and> owner_inv s"
proof (induction rule: pool_reachable.induct)
  case (started p)
  from NewRunnerPool_Ok [OF this] show ?case
    by (auto simp: pool_start_def queue_inv_def count_inv_def counted_def owner_inv_def owned_def users_def)
qed (blast intro: queue_inv_exec count_inv_exec owner_inv_exec)

lemma pool_reachable_execs: "execs ms s = Some s' \<Longrightarrow> pool_reachable M m s \<Longrightarrow> pool_reachable M m s'"
  by (induction ms arbitrary: s) (auto intro: moved split: option.splits)

lemma execs_append: "execs (ms @ ns) s = (case execs ms s of Some s' \<Rightarrow> execs ns s' | None \<Rightarrow> None)"
  by (induction ms arbitrary: s) (auto split: option.splits)

text \<open>
  C11. The pool keeps its books: whatever the goroutines that evaluate expressions and the cleaner do, in any order, the
  counter is the number of runners in the channel, in use and in the cleaner's hand, and lies between the two configured
  sizes; no runner is used by two goroutines or used while it is in the channel; and the channel always has room for a
  runner that is returned, so the branch that throws a runner away is never taken.
\<close>

theorem pool_keeps_its_books:
  assumes "pool_reachable M m s"
  shows "m \<le> rp_activeRunnersCount (ps_pool s) \<and> rp_activeRunnersCount (ps_pool s) \<le> M \<and>
    rp_activeRunnersCount (ps_pool s) =
      int (length (rp_pool (ps_pool s))) + int (card {t. \<exists>r. ps_caller s t = Using r}) + (if ps_cleaner s = Taken then 1 else 0) \<and>
    (\<forall>t t' r. ps_caller s t = Using r \<and> ps_caller s t' = Using r \<longrightarrow> t = t') \<and>
    (\<forall>t r. ps_caller s t = Using r \<longrightarrow> r \<notin> set (rp_pool (ps_pool s))) \<and>
    (\<forall>t. ps_caller s t \<noteq> Dropping)"
  using pool_inv [OF assms] pool_sizes [OF assms]
  unfolding count_inv_def counted_def owner_inv_def owned_def users_def by blast

text \<open>Two goroutines with a runner each, and one that waits for the runner of another.\<close>

definition busy_pool :: "pool_system option" where
  "busy_pool = (case NewRunnerPool 2 1 of Ok p \<Rightarrow> execs [Get 1, Get 2, Enter 2] (pool_start p) | _ \<Rightarrow> None)"

definition waited_pool :: "pool_system option" where
  "waited_pool = (case NewRunnerPool 1 1 of Ok p \<Rightarrow> execs [Get 1, Get 2, Enter 2, Receive 2] (pool_start p) | _ \<Rightarrow> None)"

lemma demo_reachable: "NewRunnerPool M m = Ok p \<Longrightarrow> execs ms (pool_start p) = Some s \<Longrightarrow> pool_reachable M m s"
  by (blast intro: pool_reachable_execs started)

lemma busy_pool_state: "\<exists>s. busy_pool = Some s \<and> pool_reachable 2 1 s \<and> ps_caller s 1 = Using 0 \<and> ps_caller s 2 = Using 1"
proof -
  obtain p s where p: "NewRunnerPool 2 1 = Ok p" and s: "execs [Get 1, Get 2, Enter 2] (pool_start p) = Some s"
    and u: "ps_caller s 1 = Using 0 \<and> ps_caller s 2 = Using 1"
    by (simp add: NewRunnerPool_def pool_start_def move_defs)
  with demo_reachable [OF p s] show ?thesis by (simp add: busy_pool_def)
qed

lemma waited_pool_state: "\<exists>s. waited_pool = Some s \<and> pool_reachable 1 1 s \<and> ps_caller s 2 = Queued"
proof -
  obtain p s where p: "NewRunnerPool 1 1 = Ok p" and s: "execs [Get 1, Get 2, Enter 2, Receive 2] (pool_start p) = Some s"
    and u: "ps_caller s 2 = Queued"
    by (simp add: NewRunnerPool_def pool_start_def move_defs)
  with demo_reachable [OF p s] show ?thesis by (simp add: waited_pool_def)
qed

theorem pool_keeps_its_books_witness:
  "\<exists>s. busy_pool = Some s \<and> pool_reachable 2 1 s \<and> ps_caller s 1 = Using 0 \<and> ps_caller s 2 = Using 1 \<and>
     rp_activeRunnersCount (ps_pool s) \<le> 2 \<and> 0 \<notin> set (rp_pool (ps_pool s)) \<and> ps_caller s 1 \<noteq> Dropping"
proof -
  from busy_pool_state obtain s where s: "busy_pool = Some s" "pool_reachable 2 1 s" "ps_caller s 1 = Using 0" "ps_caller s 2 = Using 1"
    by blast
  with pool_keeps_its_books [OF s(2)] show ?thesis by (intro exI [of _ s]) auto
qed

section \<open>Everybody is served\<close>

text \<open>With a minimum of one runner, somebody uses a runner while anybody waits for one.\<close>

lemma waiting_user:
  assumes "pool_reachable M m s" and "1 \<le> m" and "rp_waiting (ps_pool s) \<noteq> []"
  shows "\<exists>t r. ps_caller s t = Using r"
proof -
  have "rp_pool (ps_pool s) = []" using pool_inv [OF assms(1)] assms(3) by (simp add: queue_inv_def)
  then have "0 < card (users (ps_caller s))"
    using pool_inv [OF assms(1)] pool_sizes [OF assms(1)] assms(2) by (auto simp: count_inv_def counted_def split: if_splits)
  then have "users (ps_caller s) \<noteq> {}" by auto
  then show ?thesis by (auto simp: users_def)
qed

fun served :: "receiver \<Rightarrow> pool_system \<Rightarrow> bool" where
  "served (Caller t) s \<longleftrightarrow> (\<exists>r. ps_caller s t = Using r)"
| "served Cleaner s \<longleftrightarrow> ps_cleaner s = Taken"

definition bystanders_kept :: "pool_system \<Rightarrow> pool_system \<Rightarrow> bool" where
  "bystanders_kept s s' \<longleftrightarrow>
     (\<forall>t. ps_caller s t \<noteq> Queued \<and> (\<forall>r. ps_caller s t \<noteq> Using r) \<longrightarrow> ps_caller s' t = ps_caller s t)"

text \<open>A runner that is returned goes to the head of the queue.\<close>

lemma return_serves_head:
  assumes "pool_reachable M m s" and "rp_waiting (ps_pool s) = w # ws" and "ps_caller s t = Using r"
  shows "\<exists>s'. exec (Return t) s = Some s' \<and> rp_waiting (ps_pool s') = ws \<and> served w s' \<and> bystanders_kept s s'"
proof -
  have q: "Caller u \<in> set (w # ws) \<Longrightarrow> ps_caller s u = Queued" for u
    using pool_inv [OF assms(1)] assms(2) by (simp add: queue_inv_def)
  show ?thesis
    using assms(2,3) q by (cases w) (auto simp: put_select_def chan_send_def at_def cleaner_at_def bystanders_kept_def)
qed

lemma bystanders_trans: "bystanders_kept s s' \<Longrightarrow> bystanders_kept s' s'' \<Longrightarrow> bystanders_kept s s''"
  by (auto simp: bystanders_kept_def)

lemma queue_is_served:
  assumes "pool_reachable M m s" and "1 \<le> m" and "rp_waiting (ps_pool s) = ws @ w # vs"
  shows "\<exists>ts s'. execs (map Return ts) s = Some s' \<and> served w s' \<and> bystanders_kept s s'"
  using assms(1,3)
proof (induction ws arbitrary: s)
  case Nil
  from Nil(2) waiting_user [OF Nil(1) assms(2)] obtain t r where "ps_caller s t = Using r" by auto
  with return_serves_head [OF Nil(1), of w vs] Nil(2) obtain s' where "exec (Return t) s = Some s'" "served w s'" "bystanders_kept s s'"
    by auto
  then show ?case by (intro exI [of _ "[t]"] exI [of _ s']) simp
next
  case (Cons v ws)
  from Cons.prems(2) waiting_user [OF Cons.prems(1) assms(2)] obtain t r where "ps_caller s t = Using r" by auto
  with return_serves_head [OF Cons.prems(1), of v "ws @ w # vs"] Cons.prems(2) obtain s1
    where s1: "exec (Return t) s = Some s1" "rp_waiting (ps_pool s1) = ws @ w # vs" "bystanders_kept s s1" by auto
  from Cons.IH [OF moved [OF Cons.prems(1) s1(1)] s1(2)] obtain ts s'
    where "execs (map Return ts) s1 = Some s'" "served w s'" "bystanders_kept s1 s'" by blast
  with s1 show ?case by (intro exI [of _ "t # ts"] exI [of _ s']) (auto intro: bystanders_trans)
qed

definition can_reach :: "pool_system \<Rightarrow> (pool_system \<Rightarrow> bool) \<Rightarrow> bool" where
  "can_reach s P \<longleftrightarrow> (\<exists>ms s'. execs ms s = Some s' \<and> P s')"

lemma can_reach_now: "P s \<Longrightarrow> can_reach s P"
  unfolding can_reach_def by (intro exI [of _ "[]"]) simp

lemma can_reach_execs: "execs ms s = Some s' \<Longrightarrow> can_reach s' P \<Longrightarrow> can_reach s P"
  unfolding can_reach_def by (metis execs_append option.simps(5))

lemma can_reach_exec: "exec m s = Some s' \<Longrightarrow> can_reach s' P \<Longrightarrow> can_reach s P"
  by (rule can_reach_execs [of "[m]"]) simp

lemma queued_can_get:
  assumes "pool_reachable M m s" and "1 \<le> m" and "ps_caller s t = Queued"
  shows "can_reach s (\<lambda>s'. \<exists>r. ps_caller s' t = Using r)"
proof -
  from assms(3) pool_inv [OF assms(1)] have "Caller t \<in> set (rp_waiting (ps_pool s))" by (simp add: queue_inv_def)
  then obtain ws vs where "rp_waiting (ps_pool s) = ws @ Caller t # vs" by (auto dest: split_list)
  from queue_is_served [OF assms(1,2) this] show ?thesis by (auto simp: can_reach_def)
qed

lemma short_can_get:
  assumes "pool_reachable M m s" and "1 \<le> m" and "ps_caller s t = Short"
  shows "can_reach s (\<lambda>s'. \<exists>r. ps_caller s' t = Using r)"
proof -
  have e: "exec (Receive t) s = Some (get_receive t s)" using assms(3) by simp
  have "ps_caller (get_receive t s) t = Queued \<or> (\<exists>r. ps_caller (get_receive t s) t = Using r)"
    by (auto simp: get_receive_def at_def split: option.split)
  then show ?thesis
    using queued_can_get [OF moved [OF assms(1) e] assms(2)]
    by (intro can_reach_exec [OF e]) (auto intro: can_reach_now)
qed

lemma unlocked_can_get:
  assumes "pool_reachable M m s" and "1 \<le> m" and "ps_caller s t = Lacking" and "\<not> rp_locked (ps_pool s)"
  shows "can_reach s (\<lambda>s'. \<exists>r. ps_caller s' t = Using r)"
proof -
  have e: "exec (Enter t) s = Some (get_critical t s)" using assms(3,4) by simp
  have "ps_caller (get_critical t s) t = Short \<or> (\<exists>r. ps_caller (get_critical t s) t = Using r)"
    by (auto simp: get_critical_def at_def split: option.split prod.split)
  then show ?thesis
    using short_can_get [OF moved [OF assms(1) e] assms(2)]
    by (intro can_reach_exec [OF e]) (auto intro: can_reach_now)
qed

lemma taken_can_get:
  assumes "pool_reachable M m s" and "1 \<le> m" and "ps_caller s t = Lacking" and "ps_cleaner s = Taken"
  shows "can_reach s (\<lambda>s'. \<exists>r. ps_caller s' t = Using r)"
proof -
  let ?s = "cleaner_at Looping ((forget (ps_pool s))\<lparr>rp_locked := False\<rparr>) s"
  have e: "exec Unlock s = Some ?s" using assms(4) by simp
  show ?thesis
    by (rule can_reach_exec [OF e], rule unlocked_can_get [OF moved [OF assms(1) e] assms(2)])
      (simp_all add: cleaner_at_def assms(3))
qed

lemma parked_can_get:
  assumes "pool_reachable M m s" and "1 \<le> m" and "ps_caller s t = Lacking" and "ps_cleaner s = Parked"
  shows "can_reach s (\<lambda>s'. \<exists>r. ps_caller s' t = Using r)"
proof -
  from assms(4) pool_inv [OF assms(1)] have "Cleaner \<in> set (rp_waiting (ps_pool s))" by (simp add: queue_inv_def)
  then obtain ws vs where "rp_waiting (ps_pool s) = ws @ Cleaner # vs" by (auto dest: split_list)
  from queue_is_served [OF assms(1,2) this] obtain ts s'
    where s': "execs (map Return ts) s = Some s'" "ps_cleaner s' = Taken" "bystanders_kept s s'" by auto
  from s'(3) assms(3) have "ps_caller s' t = Lacking" by (simp add: bystanders_kept_def)
  from taken_can_get [OF pool_reachable_execs [OF s'(1) assms(1)] assms(2) this s'(2)] show ?thesis
    by (rule can_reach_execs [OF s'(1)])
qed

lemma lacking_can_get:
  assumes "pool_reachable M m s" and "1 \<le> m" and "ps_caller s t = Lacking"
  shows "can_reach s (\<lambda>s'. \<exists>r. ps_caller s' t = Using r)"
proof (cases "rp_locked (ps_pool s)")
  case False
  with assms show ?thesis by (rule unlocked_can_get)
next
  case True
  then consider "ps_cleaner s = Receiving" | "ps_cleaner s = Parked" | "ps_cleaner s = Taken"
    using pool_inv [OF assms(1)] by (auto simp: count_inv_def counted_def)
  then show ?thesis
  proof cases
    case 1
    then have e: "exec Take s = Some (clean_receive s)" by simp
    have "ps_cleaner (clean_receive s) \<in> {Parked, Taken}" and "ps_caller (clean_receive s) t = Lacking"
      using assms(3) by (auto simp: clean_receive_def cleaner_at_def split: option.split)
    then show ?thesis
      using parked_can_get [OF moved [OF assms(1) e] assms(2)] taken_can_get [OF moved [OF assms(1) e] assms(2)]
      by (intro can_reach_exec [OF e]) auto
  next
    case 2
    with assms show ?thesis by (rule parked_can_get)
  next
    case 3
    with assms show ?thesis by (rule taken_can_get)
  qed
qed

text \<open>
  C12. The pool does not deadlock: with a minimum of at least one runner, a goroutine that asks for a runner can always get
  one, wherever it stands in \<^verbatim>\<open>GetRunnerFromPool\<close> and whatever the other goroutines and the cleaner have done, the
  mutex held by a cleaner that is blocked on the channel included.
\<close>

theorem asking_goroutine_can_get_a_runner:
  assumes "pool_reachable M m s" and "1 \<le> m" and "ps_caller s t \<in> {Outside, Lacking, Short, Queued}"
  shows "\<exists>ms s'. execs ms s = Some s' \<and> (\<exists>r. ps_caller s' t = Using r)"
proof -
  have "can_reach s (\<lambda>s'. \<exists>r. ps_caller s' t = Using r)"
  proof (cases "ps_caller s t = Outside")
    case True
    then have e: "exec (Get t) s = Some (get_select t s)" by simp
    have "ps_caller (get_select t s) t = Lacking \<or> (\<exists>r. ps_caller (get_select t s) t = Using r)"
      by (auto simp: get_select_def at_def split: option.split)
    then show ?thesis
      using lacking_can_get [OF moved [OF assms(1) e] assms(2)]
      by (intro can_reach_exec [OF e]) (auto intro: can_reach_now)
  next
    case False
    with assms(3) show ?thesis
      using lacking_can_get [OF assms(1,2)] short_can_get [OF assms(1,2)] queued_can_get [OF assms(1,2)] by auto
  qed
  then show ?thesis by (simp add: can_reach_def)
qed

theorem asking_goroutine_can_get_a_runner_witness:
  "\<exists>s ms s'. waited_pool = Some s \<and> pool_reachable 1 1 s \<and> ps_caller s 2 = Queued \<and> execs ms s = Some s' \<and>
     (\<exists>r. ps_caller s' 2 = Using r)"
proof -
  from waited_pool_state obtain s where s: "waited_pool = Some s" "pool_reachable 1 1 s" "ps_caller s 2 = Queued" by blast
  from asking_goroutine_can_get_a_runner [OF s(2), of 2] s show ?thesis by auto
qed

section \<open>Without a minimum\<close>

definition stranding_moves :: "move list" where
  "stranding_moves =
     [Get 1, Enter 1, Return 1, Tick, Check, Get 1, Get 2, Enter 2, Lock, Take, Return 1, Unlock, Receive 2, Check]"

definition stranded :: "nat \<Rightarrow> pool_system \<Rightarrow> bool" where
  "stranded t s \<longleftrightarrow>
     ps_caller s t = Queued \<and> (\<forall>u. u \<noteq> t \<longrightarrow> ps_caller s u = Outside) \<and> rp_pool (ps_pool s) = [] \<and>
     0 \<le> rp_minVmPoolSize (ps_pool s) \<and> ps_cleaner s \<in> {Sleeping, Looping, Ended}"

lemma stranded_exec:
  assumes "exec mv s = Some s'" and "stranded t s" and "\<forall>u. mv \<noteq> Get u"
  shows "stranded t s'"
proof (cases mv)
  case (Return u)
  with assms show ?thesis by (cases "u = t") (auto simp: stranded_def)
next
  case (Receive u)
  with assms show ?thesis by (cases "u = t") (auto simp: stranded_def split: if_splits)
next
  case (Enter u)
  with assms show ?thesis by (cases "u = t") (auto simp: stranded_def split: if_splits)
next
  case (Drop u)
  with assms show ?thesis by (cases "u = t") (auto simp: stranded_def split: if_splits)
qed (use assms in \<open>auto simp: stranded_def clean_tick_def clean_check_def pool_Stop_def split: if_splits\<close>)

lemma stranded_execs: "execs ms s = Some s' \<Longrightarrow> stranded t s \<Longrightarrow> \<forall>u. Get u \<notin> set ms \<Longrightarrow> stranded t s'"
  by (induction ms arbitrary: s) (auto split: option.splits dest: stranded_exec)

lemma stranding: "\<exists>p s. NewRunnerPool 1 0 = Ok p \<and> execs stranding_moves (pool_start p) = Some s \<and> stranded 2 s"
  by (simp add: NewRunnerPool_def stranding_moves_def pool_start_def move_defs stranded_def)

text \<open>
  A pool without a minimum can strand a goroutine. In a pool of at most one runner and a minimum of zero, the cleaner can
  take the last runner between the moment a goroutine sees that no more can be made and the moment it waits on the
  channel: then it waits although no runner exists and one more could be made, and it waits until some other goroutine
  asks the pool for a runner, however long that is.
\<close>

theorem pool_without_minimum_strands_a_caller:
  "\<exists>s. pool_reachable 1 0 s \<and> ps_caller s 2 = Queued \<and> rp_activeRunnersCount (ps_pool s) = 0 \<and>
     (\<forall>ms s'. execs ms s = Some s' \<and> (\<forall>u. Get u \<notin> set ms) \<longrightarrow> ps_caller s' 2 = Queued)"
proof -
  from stranding obtain p s where p: "NewRunnerPool 1 0 = Ok p"
    and s: "execs stranding_moves (pool_start p) = Some s" "stranded 2 s" by blast
  have r: "pool_reachable 1 0 s" by (rule pool_reachable_execs [OF s(1) started [OF p]])
  have "users (ps_caller s) = {}"
  proof -
    have "ps_caller s u \<noteq> Using x" for u x using s(2) by (cases "u = 2") (auto simp: stranded_def)
    then show ?thesis by (auto simp: users_def)
  qed
  then have "rp_activeRunnersCount (ps_pool s) = 0"
    using pool_inv [OF r] s(2) by (auto simp: count_inv_def counted_def stranded_def split: if_splits)
  with r s(2) stranded_execs [OF _ s(2)] show ?thesis
    by (intro exI [of _ s]) (auto simp: stranded_def)
qed

section \<open>The runtimes\<close>

text \<open>The two operations as one goroutine sees them when nobody interferes; \<open>None\<close> waits for a runner.\<close>

definition GetRunnerFromPool :: "RunnerPool \<Rightarrow> nat option \<times> RunnerPool" where
  "GetRunnerFromPool p = (case chan_recv p of Some (r, p') \<Rightarrow> (Some r, p') | None \<Rightarrow> grow p)"

definition ReturnRunnerToPool :: "nat \<Rightarrow> RunnerPool \<Rightarrow> RunnerPool" where
  "ReturnRunnerToPool r p = (case chan_send r p of (Full, p') \<Rightarrow> forget p' | (_, p') \<Rightarrow> p')"

text \<open>\<^verbatim>\<open>defer r.pool.ReturnRunnerToPool(runner)\<close>: the runner goes back whether the call returns, fails or panics.\<close>

definition use_runner ::
  "('p \<Rightarrow> nat option \<times> 'p) \<Rightarrow> (nat \<Rightarrow> 'p \<Rightarrow> 'p) \<Rightarrow> (nat \<Rightarrow> 'a res) \<Rightarrow> ('p, 'a) eng" where
  "use_runner get put f p =
     (case get p of
        (None, p') \<Rightarrow> (Blocked, p')
      | (Some r, p') \<Rightarrow> (f r, put r p'))"

definition UnaryTest ::
  "(nat \<Rightarrow> string \<Rightarrow> 'c \<Rightarrow> bool res) \<Rightarrow> string \<Rightarrow> 'c \<Rightarrow> (RunnerPool, bool) eng" where
  "UnaryTest unaryTest expression variableContext =
     use_runner GetRunnerFromPool ReturnRunnerToPool (\<lambda>runner. unaryTest runner expression variableContext)"

definition Evaluate ::
  "(nat \<Rightarrow> string \<Rightarrow> 'c \<Rightarrow> 'v res) \<Rightarrow> string \<Rightarrow> 'c \<Rightarrow> (RunnerPool, 'v) eng" where
  "Evaluate evalFunc expression variableContext =
     use_runner GetRunnerFromPool ReturnRunnerToPool (\<lambda>runner. evalFunc runner expression variableContext)"

definition runScript :: "(nat \<Rightarrow> string \<Rightarrow> 'v res) \<Rightarrow> nat \<Rightarrow> string \<Rightarrow> 'v res" where
  "runScript RunString runner script =
     (case RunString runner script of
        Err e \<Rightarrow> Err (ErrorfArgs ''error running script %s : %v'' [script])
      | resp \<Rightarrow> resp)"

definition RunScript :: "(nat \<Rightarrow> string \<Rightarrow> 'v res) \<Rightarrow> string \<Rightarrow> (RunnerPool, 'v) eng" where
  "RunScript RunString script = use_runner GetRunnerFromPool ReturnRunnerToPool (\<lambda>runner. runScript RunString runner script)"

text \<open>
  What a runtime relies on: a pool that is ready has a runner to give, and is ready again once the runner is back. A call
  then does not wait, its outcome is that of some interpreter, and the pool stays ready.
\<close>

locale runner_source =
  fixes ready :: "'p \<Rightarrow> bool"
    and get :: "'p \<Rightarrow> nat option \<times> 'p"
    and put :: "nat \<Rightarrow> 'p \<Rightarrow> 'p"
  assumes ready_gives: "ready p \<Longrightarrow> \<exists>r p'. get p = (Some r, p')"
    and put_ready: "ready p \<Longrightarrow> get p = (Some r, p') \<Longrightarrow> ready (put r p')"
begin

lemma use_runner_total: "ready p \<Longrightarrow> \<exists>r p'. use_runner get put f p = (f r, p') \<and> ready p'"
  using ready_gives [of p] put_ready [of p] by (auto simp: use_runner_def)

end

text \<open>A pool nobody uses at the moment.\<close>

definition idle_pool :: "RunnerPool \<Rightarrow> bool" where
  "idle_pool p \<longleftrightarrow>
     rp_waiting p = [] \<and> 0 < rp_maxVmPoolSize p \<and> rp_activeRunnersCount p = int (length (rp_pool p)) \<and>
     rp_activeRunnersCount p \<le> rp_maxVmPoolSize p \<and> rp_minVmPoolSize p \<le> rp_activeRunnersCount p"

interpretation script_pool: runner_source idle_pool GetRunnerFromPool ReturnRunnerToPool
proof
  fix p r p'
  assume idle: "idle_pool p"
  then show "\<exists>r p'. GetRunnerFromPool p = (Some r, p')"
    by (cases "rp_pool p") (auto simp: idle_pool_def GetRunnerFromPool_def chan_recv_def grow_def new_runner_def)
  assume "GetRunnerFromPool p = (Some r, p')"
  with idle show "idle_pool (ReturnRunnerToPool r p')"
    by (cases "rp_pool p")
      (auto simp: idle_pool_def GetRunnerFromPool_def ReturnRunnerToPool_def chan_recv_def chan_send_def grow_def new_runner_def split: if_splits)
qed

lemma NewRunnerPool_idle: "NewRunnerPool M m = Ok p \<Longrightarrow> 0 < M \<Longrightarrow> idle_pool p"
  using NewRunnerPool_Ok [of M m p] by (auto simp: idle_pool_def)

text \<open>The moves of a goroutine that is alone are the two operations.\<close>

lemma alone_get:
  assumes "ps_caller s t = Outside" and "\<not> rp_locked (ps_pool s)" and "GetRunnerFromPool (ps_pool s) = (Some r, p)"
  shows "\<exists>ms. ms \<in> {[Get t], [Get t, Enter t]} \<and> execs ms s = Some (at t (Using r) p s)"
proof (cases "chan_recv (ps_pool s)")
  case None
  with assms have "execs [Get t, Enter t] s = Some (at t (Using r) p s)"
    by (simp add: GetRunnerFromPool_def get_select_def get_critical_def at_def)
  then show ?thesis by blast
next
  case (Some q)
  with assms have "execs [Get t] s = Some (at t (Using r) p s)"
    by (cases q) (simp add: GetRunnerFromPool_def get_select_def)
  then show ?thesis by blast
qed

text \<open>
  Any sequence of evaluations made one after the other is answered: a new runtime with room for a runner evaluates every
  expression on one of its interpreters, also after evaluations that failed or panicked, and the pool it leaves is idle
  again, with no more runners than allowed and no fewer than the minimum.
\<close>

fun evaluations :: "(nat \<Rightarrow> string \<Rightarrow> 'c \<Rightarrow> 'v res) \<Rightarrow> (string \<times> 'c) list \<Rightarrow> RunnerPool \<Rightarrow> 'v res list \<times> RunnerPool" where
  "evaluations evalFunc [] p = ([], p)"
| "evaluations evalFunc ((e, c) # es) p =
     (case Evaluate evalFunc e c p of
        (v, p') \<Rightarrow> (case evaluations evalFunc es p' of (vs, p'') \<Rightarrow> (v # vs, p'')))"

lemma evaluations_idle:
  "idle_pool p \<Longrightarrow> evaluations evalFunc es p = (vs, p') \<Longrightarrow>
     idle_pool p' \<and> list_all2 (\<lambda>(e, c) v. \<exists>r. v = evalFunc r e c) es vs"
proof (induction es arbitrary: p vs)
  case (Cons ec es)
  obtain e c where ec: "ec = (e, c)" by (cases ec)
  from script_pool.use_runner_total [OF Cons.prems(1)] obtain r p1
    where "Evaluate evalFunc e c p = (evalFunc r e c, p1)" "idle_pool p1" unfolding Evaluate_def by blast
  with Cons ec show ?case by (auto split: prod.splits)
qed simp

theorem runtime_answers_every_evaluation:
  assumes "NewRunnerPool M m = Ok p" and "0 < M" and "evaluations evalFunc es p = (vs, p')"
  shows "list_all2 (\<lambda>(e, c) v. \<exists>r. v = evalFunc r e c) es vs \<and> idle_pool p'"
  using evaluations_idle [OF NewRunnerPool_idle [OF assms(1,2)] assms(3)] by simp

end
