(* ===== verification/Node_Config.thy ===== *)
theory Node_Config
  imports Zen_Prelude "HOL-Library.Word"
begin

text \<open>
  The settings of a node: the checks of \<^verbatim>\<open>internal/config\<close> on the cluster and on the rqlite part, the settings a
  partition is started with when none are given (\<^verbatim>\<open>partition/config.go\<close>), and the header bytes by which the
  connections of the partitions are told apart on the one port of a node (\<^verbatim>\<open>internal/cluster/network\<close>).

  The file system, the absolute path of a file, the parsing of IP addresses and the probe for an HTTP server are
  fields of \<open>config_env\<close>; \<^verbatim>\<open>net.SplitHostPort\<close> and \<^verbatim>\<open>strconv.Atoi\<close> are written out. A check changes the settings
  through its pointer before it fails, which is what the state of \<open>eng\<close> keeps.
\<close>

section \<open>Addresses\<close>

definition colon_free :: "string \<Rightarrow> bool" where
  "colon_free s \<longleftrightarrow> CHR '':'' \<notin> set s"

text \<open>The text before and after the last colon.\<close>

definition last_colon :: "string \<Rightarrow> (string \<times> string) option" where
  "last_colon s =
     (if colon_free s then None
      else Some (rev (tl (dropWhile (\<lambda>c. c \<noteq> CHR '':'') (rev s))), rev (takeWhile (\<lambda>c. c \<noteq> CHR '':'') (rev s))))"

text \<open>\<^verbatim>\<open>net.SplitHostPort\<close>, without the text of its errors: the port follows the last colon; a host in brackets ends
  there, a host without brackets has no colon, and brackets stand nowhere else.\<close>

definition SplitHostPort :: "string \<Rightarrow> (string \<times> string) option" where
  "SplitHostPort hostport =
     (case last_colon hostport of
        None \<Rightarrow> None
      | Some (before, port) \<Rightarrow>
          if CHR ''['' \<in> set port \<or> CHR '']'' \<in> set port then None
          else if before \<noteq> [] \<and> hd before = CHR ''['' then
            (if last before = CHR '']'' \<and> 2 \<le> length before \<and>
                CHR '']'' \<notin> set (butlast before) \<and> CHR ''['' \<notin> set (tl before)
             then Some (butlast (tl before), port) else None)
          else if colon_free before \<and> CHR ''['' \<notin> set before \<and> CHR '']'' \<notin> set before then Some (before, port)
          else None)"

fun decimal_value :: "string \<Rightarrow> int \<Rightarrow> int option" where
  "decimal_value [] n = Some n"
| "decimal_value (c # cs) n =
     (if 48 \<le> (of_char c :: int) \<and> (of_char c :: int) \<le> 57 then decimal_value cs (10 * n + (of_char c - 48)) else None)"

text \<open>\<^verbatim>\<open>strconv.Atoi\<close> for 64-bit integers.\<close>

definition Atoi :: "string \<Rightarrow> int option" where
  "Atoi s =
     (let (neg, ds) = (case s of c # cs \<Rightarrow> if c = CHR ''-'' then (True, cs) else if c = CHR ''+'' then (False, cs) else (False, s)
                       | [] \<Rightarrow> (False, []))
      in if ds = [] then None
         else case decimal_value ds 0 of
                None \<Rightarrow> None
              | Some n \<Rightarrow> let v = (if neg then - n else n) in if - (2 ^ 63) \<le> v \<and> v < 2 ^ 63 then Some v else None)"

section \<open>The rqlite settings\<close>

text \<open>Durations are numbers of nanoseconds.\<close>

record RqLite =
  rq_DataPath :: string
  rq_HTTPAllowOrigin :: string
  rq_AuthFile :: string
  rq_AutoBackupFile :: string
  rq_AutoRestoreFile :: string
  rq_HTTPx509CACert :: string
  rq_HTTPx509Cert :: string
  rq_HTTPx509Key :: string
  rq_HTTPVerifyClient :: bool
  rq_NodeX509CACert :: string
  rq_NodeX509Cert :: string
  rq_NodeX509Key :: string
  rq_NoNodeVerify :: bool
  rq_NodeVerifyClient :: bool
  rq_NodeVerifyServerName :: string
  rq_NodeID :: string
  rq_RaftAddr :: string
  rq_RaftAdv :: string
  rq_JoinAddrs :: string
  rq_JoinAttempts :: int
  rq_JoinInterval :: int
  rq_JoinAs :: string
  rq_BootstrapExpect :: int
  rq_BootstrapExpectTimeout :: int
  rq_OnDiskPath :: string
  rq_FKConstraints :: bool
  rq_AutoVacInterval :: int
  rq_RaftLogLevel :: string
  rq_RaftNonVoter :: bool
  rq_RaftSnapThreshold :: "64 word"
  rq_RaftSnapThresholdWALSize :: "64 word"
  rq_RaftSnapInterval :: int
  rq_RaftLeaderLeaseTimeout :: int
  rq_RaftHeartbeatTimeout :: int
  rq_RaftElectionTimeout :: int
  rq_RaftApplyTimeout :: int
  rq_RaftShutdownOnRemove :: bool
  rq_RaftClusterRemoveOnShutdown :: bool
  rq_RaftStepdownOnShutdown :: bool
  rq_RaftHeartbeatShutdownTimeout :: int
  rq_RaftReapNodeTimeout :: int
  rq_RaftReapReadOnlyNodeTimeout :: int
  rq_ClusterConnectTimeout :: int
  rq_WriteQueueCap :: int
  rq_WriteQueueBatchSz :: int
  rq_WriteQueueTimeout :: int
  rq_WriteQueueTx :: bool
  rq_CPUProfile :: string
  rq_MemProfile :: string

definition millisecond :: int where "millisecond = 10 ^ 6"
definition second :: int where "second = 10 ^ 9"
definition hour :: int where "hour = 3600 * 10 ^ 9"

definition GetRqLiteDefaultConfig :: "string \<Rightarrow> string \<Rightarrow> string \<Rightarrow> string list \<Rightarrow> RqLite" where
  "GetRqLiteDefaultConfig nodeId raftAddr dataPath joinAddresses =
     \<lparr>rq_DataPath = dataPath, rq_HTTPAllowOrigin = '''', rq_AuthFile = '''', rq_AutoBackupFile = '''',
      rq_AutoRestoreFile = '''', rq_HTTPx509CACert = '''', rq_HTTPx509Cert = '''', rq_HTTPx509Key = '''',
      rq_HTTPVerifyClient = False, rq_NodeX509CACert = '''', rq_NodeX509Cert = '''', rq_NodeX509Key = '''',
      rq_NoNodeVerify = True, rq_NodeVerifyClient = False, rq_NodeVerifyServerName = '''', rq_NodeID = nodeId,
      rq_RaftAddr = raftAddr, rq_RaftAdv = raftAddr, rq_JoinAddrs = join_with '','' joinAddresses, rq_JoinAttempts = 5,
      rq_JoinInterval = 3 * second, rq_JoinAs = '''', rq_BootstrapExpect = 1, rq_BootstrapExpectTimeout = 120 * second,
      rq_OnDiskPath = '''', rq_FKConstraints = True, rq_AutoVacInterval = 12 * hour, rq_RaftLogLevel = ''WARN'',
      rq_RaftNonVoter = False, rq_RaftSnapThreshold = 8192, rq_RaftSnapThresholdWALSize = 4 * 1024 * 1024,
      rq_RaftSnapInterval = 10 * second, rq_RaftLeaderLeaseTimeout = 0, rq_RaftHeartbeatTimeout = 1 * second,
      rq_RaftElectionTimeout = 1 * second, rq_RaftApplyTimeout = 5 * second, rq_RaftShutdownOnRemove = False,
      rq_RaftClusterRemoveOnShutdown = True, rq_RaftStepdownOnShutdown = True, rq_RaftHeartbeatShutdownTimeout = 0,
      rq_RaftReapNodeTimeout = 0, rq_RaftReapReadOnlyNodeTimeout = 0, rq_ClusterConnectTimeout = 30 * second,
      rq_WriteQueueCap = 1024, rq_WriteQueueBatchSz = 128, rq_WriteQueueTimeout = 200 * millisecond,
      rq_WriteQueueTx = False, rq_CPUProfile = '''', rq_MemProfile = ''''\<rparr>"

record config_env =
  ce_Abs :: "string \<Rightarrow> error + string"
  ce_IsNotExist :: "string \<Rightarrow> bool"
  ce_IsUnspecified :: "string \<Rightarrow> bool"
  ce_AnyServingHTTP :: "string list \<Rightarrow> string option"

text \<open>The fields with the tag \<^verbatim>\<open>filepath:"true"\<close>, in the order of the declaration.\<close>

definition file_paths :: "RqLite \<Rightarrow> string list" where
  "file_paths c = [rq_AutoBackupFile c, rq_AutoRestoreFile c, rq_HTTPx509CACert c, rq_HTTPx509Cert c, rq_HTTPx509Key c, rq_NodeX509CACert c, rq_NodeX509Cert c, rq_NodeX509Key c]"

fun CheckFilePaths :: "config_env \<Rightarrow> string list \<Rightarrow> error option" where
  "CheckFilePaths V [] = None"
| "CheckFilePaths V (filePath # fs) =
     (if filePath = [] then CheckFilePaths V fs
      else if ce_IsNotExist V filePath then Some (ErrorfArgs ''%s does not exist'' [filePath])
      else CheckFilePaths V fs)"

definition bothUnsetSet :: "string \<Rightarrow> string \<Rightarrow> bool" where
  "bothUnsetSet a b \<longleftrightarrow> a = [] \<and> b = [] \<or> a \<noteq> [] \<and> b \<noteq> []"

definition JoinAddresses :: "RqLite \<Rightarrow> string list option" where
  "JoinAddresses c = (if rq_JoinAddrs c = [] then None else Some (Split_on CHR '','' (rq_JoinAddrs c) []))"

text \<open>The checks on an address: \<^verbatim>\<open>SplitHostPort\<close>, then the number of the port.\<close>

definition check_bind :: "string \<Rightarrow> error option" where
  "check_bind addr =
     (case SplitHostPort addr of
        None \<Rightarrow> Some (Errorf ''raft bind address not valid'')
      | Some (_, rp) \<Rightarrow> if Atoi rp = None then Some (Errorf ''raft bind port not valid'') else None)"

definition check_advertised :: "config_env \<Rightarrow> string \<Rightarrow> error option" where
  "check_advertised V adv =
     (case SplitHostPort adv of
        None \<Rightarrow> Some (Errorf ''raft advertised address not valid'')
      | Some (radv, rp) \<Rightarrow>
          if ce_IsUnspecified V radv
          then Some (ErrorfArgs ''advertised Raft address is not routable (%s), specify it via cluster.raft.addr or cluster.raft.adv'' [radv])
          else if Atoi rp = None then Some (Errorf ''raft advertised port is not valid'')
          else None)"

fun check_joins :: "RqLite \<Rightarrow> string list \<Rightarrow> error option" where
  "check_joins c [] = None"
| "check_joins c (addr # addrs) =
     (if SplitHostPort addr = None then Some (ErrorfArgs ''%s is an invalid join address'' [addr])
      else if rq_BootstrapExpect c = 0 \<and> (addr = rq_RaftAdv c \<or> addr = rq_RaftAddr c)
           then Some (Errorf ''node cannot join with itself unless bootstrapping'')
      else if rq_BootstrapExpect c = 0 \<and> rq_AutoRestoreFile c \<noteq> []
           then Some (Errorf ''auto-restoring cannot be used when joining a cluster'')
      else check_joins c addrs)"

definition fail_if :: "error option \<Rightarrow> ('s, unit) eng" where
  "fail_if r = (case r of Some e \<Rightarrow> throw e | None \<Rightarrow> ret ())"

definition unless_set :: "string \<Rightarrow> string \<Rightarrow> string" where
  "unless_set v d = (if v = [] then d else v)"

definition Validate :: "config_env \<Rightarrow> (RqLite, unit) eng" where
  "Validate V =
     bind (gets (\<lambda>c. ce_Abs V (rq_DataPath c))) (\<lambda>r.
       case r of
         Inl e \<Rightarrow> throw (ErrorfArgs ''failed to determine absolute data path: %s'' [])
       | Inr dataPath \<Rightarrow>
           bind (modify (\<lambda>c. c\<lparr>rq_DataPath := dataPath\<rparr>)) (\<lambda>_.
           bind get_state (\<lambda>c.
           bind (fail_if (CheckFilePaths V (file_paths c))) (\<lambda>_.
           bind (do_when (\<not> bothUnsetSet (rq_HTTPx509Cert c) (rq_HTTPx509Key c))
                  (throw (Errorf ''either both HTTPx509Cert and HTTPx509Key must be set, or neither''))) (\<lambda>_.
           bind (do_when (\<not> bothUnsetSet (rq_NodeX509Cert c) (rq_NodeX509Key c))
                  (throw (Errorf ''either both HTTPx509Cert and HTTPx509Key must be set, or neither''))) (\<lambda>_.
           bind (modify (\<lambda>c. c\<lparr>rq_RaftAdv := unless_set (rq_RaftAdv c) (rq_RaftAddr c)\<rparr>)) (\<lambda>_.
           bind (modify (\<lambda>c. c\<lparr>rq_NodeID := unless_set (rq_NodeID c) (rq_RaftAdv c)\<rparr>)) (\<lambda>_.
           bind get_state (\<lambda>c.
           bind (fail_if (check_bind (rq_RaftAddr c))) (\<lambda>_.
           bind (fail_if (check_advertised V (rq_RaftAdv c))) (\<lambda>_.
           bind (do_when (rq_BootstrapExpect c > 0 \<and> rq_RaftNonVoter c)
                  (throw (Errorf ''bootstrapping only applicable to voting nodes''))) (\<lambda>_.
           fail_if (case JoinAddresses c of None \<Rightarrow> None | Some addrs \<Rightarrow> check_joins c addrs)))))))))))))"

definition HTTPURL :: "RqLite \<Rightarrow> string" where
  "HTTPURL c = (if rq_HTTPx509Cert c \<noteq> [] then ''https'' else ''http'') @ ''://''"

definition RaftPort :: "RqLite \<Rightarrow> int res" where
  "RaftPort c =
     (case SplitHostPort (rq_RaftAddr c) of
        None \<Rightarrow> Panic ''RaftAddr not valid''
      | Some (_, port) \<Rightarrow> (case Atoi port of None \<Rightarrow> Panic ''RaftAddr port not valid'' | Some p \<Rightarrow> Ok p))"

section \<open>The settings of the cluster\<close>

record ClusterRaft =
  cr_Dir :: string
  cr_NonVoter :: bool
  cr_JoinAttempts :: int
  cr_JoinInterval :: int
  cr_JoinAddresses :: "string list"
  cr_BootstrapExpect :: int
  cr_BootstrapExpectTimeout :: int

record ClusterConf =
  cc_NodeId :: string
  cc_Addr :: string
  cc_Adv :: string
  cc_Raft :: ClusterRaft

definition CheckJoinAddrs :: "config_env \<Rightarrow> string list \<Rightarrow> error option" where
  "CheckJoinAddrs V joinAddrs =
     (if joinAddrs \<noteq> []
      then case ce_AnyServingHTTP V joinAddrs of
             Some addr \<Rightarrow> Some (ErrorfArgs ''join address %s appears to be serving HTTP when it should be Raft'' [addr])
           | None \<Rightarrow> None
      else None)"

fun check_cluster_joins :: "ClusterConf \<Rightarrow> string list \<Rightarrow> error option" where
  "check_cluster_joins c [] = None"
| "check_cluster_joins c (addr # addrs) =
     (if SplitHostPort addr = None then Some (ErrorfArgs ''%s is an invalid join address'' [addr])
      else if cr_BootstrapExpect (cc_Raft c) = 0 \<and> (addr = cc_Adv c \<or> addr = cc_Addr c)
           then Some (Errorf ''node cannot join with itself unless bootstrapping'')
      else check_cluster_joins c addrs)"

text \<open>\<^verbatim>\<open>ClusterRaft\<close> has no field that is tagged as a file path.\<close>

definition config_validate :: "config_env \<Rightarrow> (ClusterConf, unit) eng" where
  "config_validate V =
     bind (modify (\<lambda>c. c\<lparr>cc_NodeId := unless_set (cc_NodeId c) (cc_Adv c)\<rparr>)) (\<lambda>_.
     bind (modify (\<lambda>c. c\<lparr>cc_Raft := (cc_Raft c)\<lparr>cr_Dir := unless_set (cr_Dir (cc_Raft c)) (cc_NodeId c)\<rparr>\<rparr>)) (\<lambda>_.
     bind (gets (\<lambda>c. ce_Abs V (cr_Dir (cc_Raft c)))) (\<lambda>r.
       case r of
         Inl e \<Rightarrow> throw (ErrorfArgs ''failed to determine absolute data path: %s'' [])
       | Inr dataPath \<Rightarrow>
           bind (modify (\<lambda>c. c\<lparr>cc_Raft := (cc_Raft c)\<lparr>cr_Dir := dataPath\<rparr>\<rparr>)) (\<lambda>_.
           bind (fail_if (CheckFilePaths V [])) (\<lambda>_.
           bind (modify (\<lambda>c. c\<lparr>cc_Adv := unless_set (cc_Adv c) (cc_Addr c)\<rparr>)) (\<lambda>_.
           bind get_state (\<lambda>c.
           bind (fail_if (check_bind (cc_Addr c))) (\<lambda>_.
           bind (fail_if (check_advertised V (cc_Adv c))) (\<lambda>_.
           bind (do_when (cr_BootstrapExpect (cc_Raft c) > 0 \<and> cr_NonVoter (cc_Raft c))
                  (throw (Errorf ''bootstrapping only applicable to voting nodes''))) (\<lambda>_.
           bind (fail_if (check_cluster_joins c (cr_JoinAddresses (cc_Raft c)))) (\<lambda>_.
           fail_if (map_option (Wrapf ''invalid join addresses: %w'') (CheckJoinAddrs V (cr_JoinAddresses (cc_Raft c)))))))))))))))"

section \<open>Header bytes\<close>

definition reservedBytes :: "32 word" where "reservedBytes = 10"
definition muxHeaderZenBpmRaft :: "8 word" where "muxHeaderZenBpmRaft = 1"
definition muxHeaderZenBpmCluster :: "8 word" where "muxHeaderZenBpmCluster = 2"

definition GetPartitionRaftHeaderByte :: "32 word \<Rightarrow> 8 word res" where
  "GetPartitionRaftHeaderByte p =
     (if p > 122 then Panic ''maximum number of partition is 122''
      else Ok (ucast (reservedBytes + p * 2 - 1)))"

definition GetPartitionClusterHeaderByte :: "32 word \<Rightarrow> 8 word res" where
  "GetPartitionClusterHeaderByte p =
     (if p > 122 then Panic ''maximum number of partition is 122''
      else Ok (ucast (reservedBytes + p * 2)))"

section \<open>What the checks establish\<close>

text \<open>
  \<^verbatim>\<open>Validate\<close> may be called more than once: settings it accepts it has brought into a form that it accepts again and
  leaves as it is, provided the absolute path of an absolute path is that path. Accepted settings have a node id and an
  advertised address of which host and port can be told, a port that \<^verbatim>\<open>RaftPort\<close> returns without a panic, and a node
  that does not vote does not wait for a bootstrap.
\<close>

lemma eng_steps:
  "bind (modify h) k s = k () (h s)" "bind (gets g) k1 s = k1 (g s) s" "bind get_state k2 s = k2 s s"
  "bind (fail_if r) k s = (case r of Some e \<Rightarrow> (Err e, s) | None \<Rightarrow> k () s)"
  "bind (do_when b (throw e)) k s = (if b then (Err e, s) else k () s)"
  by (simp_all add: bind_def modify_def gets_def get_state_def fail_if_def do_when_def throw_def ret_def split: option.split)

lemma fail_if_eval: "fail_if r s = (case r of Some e \<Rightarrow> (Err e, s) | None \<Rightarrow> (Ok (), s))"
  by (simp add: fail_if_def throw_def ret_def split: option.split)

lemma ok_steps:
  "bind (fail_if r) k s = (Ok x, s') \<longleftrightarrow> r = None \<and> k () s = (Ok x, s')"
  "bind (do_when b (throw e)) k s = (Ok x, s') \<longleftrightarrow> \<not> b \<and> k () s = (Ok x, s')"
  "fail_if r s = (Ok u, s') \<longleftrightarrow> r = None \<and> s' = s"
  by (auto simp: eng_steps fail_if_eval split: option.splits)

definition settled :: "config_env \<Rightarrow> RqLite \<Rightarrow> bool" where
  "settled V c \<longleftrightarrow>
     CheckFilePaths V (file_paths c) = None \<and> bothUnsetSet (rq_HTTPx509Cert c) (rq_HTTPx509Key c) \<and>
     bothUnsetSet (rq_NodeX509Cert c) (rq_NodeX509Key c) \<and> rq_RaftAdv c \<noteq> [] \<and> rq_NodeID c \<noteq> [] \<and>
     check_bind (rq_RaftAddr c) = None \<and> check_advertised V (rq_RaftAdv c) = None \<and>
     \<not> (rq_BootstrapExpect c > 0 \<and> rq_RaftNonVoter c) \<and>
     (case JoinAddresses c of None \<Rightarrow> True | Some addrs \<Rightarrow> check_joins c addrs = None)"

lemma check_bind_nonempty: "check_bind addr = None \<Longrightarrow> addr \<noteq> []"
  by (auto simp: check_bind_def SplitHostPort_def last_colon_def colon_free_def)

lemma file_paths_upd [simp]:
  "file_paths (c\<lparr>rq_DataPath := d\<rparr>) = file_paths c" "file_paths (c\<lparr>rq_RaftAdv := d\<rparr>) = file_paths c"
  "file_paths (c\<lparr>rq_NodeID := d\<rparr>) = file_paths c"
  by (simp_all add: file_paths_def)

lemma Validate_settles:
  assumes "Validate V c = (Ok (), c')"
  shows "ce_Abs V (rq_DataPath c) = Inr (rq_DataPath c') \<and> settled V c'"
proof (cases "ce_Abs V (rq_DataPath c)")
  case (Inl e)
  with assms show ?thesis by (simp add: Validate_def eng_steps throw_def)
next
  case (Inr d)
  let ?a = "unless_set (rq_RaftAdv c) (rq_RaftAddr c)"
  let ?c = "c\<lparr>rq_DataPath := d, rq_RaftAdv := ?a, rq_NodeID := unless_set (rq_NodeID c) ?a\<rparr>"
  from assms Inr have "c' = ?c \<and> CheckFilePaths V (file_paths ?c) = None \<and> bothUnsetSet (rq_HTTPx509Cert ?c) (rq_HTTPx509Key ?c) \<and>
    bothUnsetSet (rq_NodeX509Cert ?c) (rq_NodeX509Key ?c) \<and> check_bind (rq_RaftAddr ?c) = None \<and> check_advertised V (rq_RaftAdv ?c) = None \<and>
    \<not> (rq_BootstrapExpect ?c > 0 \<and> rq_RaftNonVoter ?c) \<and>
    (case JoinAddresses ?c of None \<Rightarrow> None | Some addrs \<Rightarrow> check_joins ?c addrs) = None"
    by (simp add: Validate_def eng_steps(1,2,3) ok_steps)
  then have c': "c' = ?c" and ok: "CheckFilePaths V (file_paths ?c) = None" "bothUnsetSet (rq_HTTPx509Cert ?c) (rq_HTTPx509Key ?c)"
    "bothUnsetSet (rq_NodeX509Cert ?c) (rq_NodeX509Key ?c)" "check_bind (rq_RaftAddr ?c) = None" "check_advertised V (rq_RaftAdv ?c) = None"
    "\<not> (rq_BootstrapExpect ?c > 0 \<and> rq_RaftNonVoter ?c)"
    "case JoinAddresses ?c of None \<Rightarrow> True | Some addrs \<Rightarrow> check_joins ?c addrs = None"
    by (auto split: option.splits)
  have "rq_RaftAdv ?c \<noteq> []" "rq_NodeID ?c \<noteq> []" using check_bind_nonempty [OF ok(4)] by (auto simp: unless_set_def)
  with ok Inr show ?thesis unfolding c' settled_def by simp
qed

lemma Validate_settled:
  assumes "ce_Abs V (rq_DataPath c) = Inr (rq_DataPath c)" and "settled V c"
  shows "Validate V c = (Ok (), c)"
proof -
  have u: "unless_set (rq_RaftAdv c) x = rq_RaftAdv c" "unless_set (rq_NodeID c) x = rq_NodeID c" for x
    using assms(2) by (simp_all add: settled_def unless_set_def)
  have "(case JoinAddresses c of None \<Rightarrow> None | Some addrs \<Rightarrow> check_joins c addrs) = None"
    using assms(2) by (simp add: settled_def split: option.splits)
  with assms(1) assms(2) [unfolded settled_def] show ?thesis by (simp add: Validate_def eng_steps fail_if_eval u)
qed

theorem validate_settles_the_settings:
  assumes "Validate V c = (Ok (), c')" and abs: "\<And>p q. ce_Abs V p = Inr q \<Longrightarrow> ce_Abs V q = Inr q"
  shows "Validate V c' = (Ok (), c') \<and> rq_NodeID c' \<noteq> [] \<and> SplitHostPort (rq_RaftAdv c') \<noteq> None \<and>
    (\<exists>port. RaftPort c' = Ok port) \<and> (rq_RaftNonVoter c' \<longrightarrow> rq_BootstrapExpect c' \<le> 0)"
proof -
  from Validate_settles [OF assms(1)] have d: "ce_Abs V (rq_DataPath c) = Inr (rq_DataPath c')" and s: "settled V c'" by simp_all
  from s have "\<exists>port. RaftPort c' = Ok port"
    by (auto simp: settled_def check_bind_def RaftPort_def split: option.splits if_splits)
  moreover from s have "SplitHostPort (rq_RaftAdv c') \<noteq> None"
    by (auto simp: settled_def check_advertised_def split: option.splits)
  ultimately show ?thesis using Validate_settled [OF abs [OF d] s] s by (auto simp: settled_def)
qed

text \<open>Accepted settings join at a proper address: not at the node itself, and not with a restore, unless bootstrapping.\<close>

lemma check_joins_None:
  "check_joins c addrs = None \<Longrightarrow> addr \<in> set addrs \<Longrightarrow>
     SplitHostPort addr \<noteq> None \<and> (rq_BootstrapExpect c = 0 \<longrightarrow> addr \<noteq> rq_RaftAdv c \<and> addr \<noteq> rq_RaftAddr c \<and> rq_AutoRestoreFile c = [])"
  by (induction addrs) (auto split: if_splits)

lemma accepted_join_addresses:
  assumes "Validate V c = (Ok (), c')" and "JoinAddresses c' = Some addrs" and "addr \<in> set addrs"
  shows "SplitHostPort addr \<noteq> None \<and>
    (rq_BootstrapExpect c' = 0 \<longrightarrow> addr \<noteq> rq_RaftAdv c' \<and> addr \<noteq> rq_RaftAddr c' \<and> rq_AutoRestoreFile c' = [])"
  using Validate_settles [OF assms(1)] assms(2,3) by (auto simp: settled_def dest: check_joins_None)

text \<open>
  The settings of the cluster are checked in another order: the node id is taken from the advertised address before
  that is taken from the bind address, so that with neither set a node without an id is accepted.
\<close>

definition any_env :: config_env where
  "any_env = \<lparr>ce_Abs = (\<lambda>p. Inr (CHR ''/'' # p)), ce_IsNotExist = (\<lambda>_. False), ce_IsUnspecified = (\<lambda>_. False),
     ce_AnyServingHTTP = (\<lambda>_. None)\<rparr>"

definition bare_cluster :: ClusterConf where
  "bare_cluster = \<lparr>cc_NodeId = [], cc_Addr = ''localhost:8090'', cc_Adv = [],
     cc_Raft = \<lparr>cr_Dir = ''data'', cr_NonVoter = False, cr_JoinAttempts = 5, cr_JoinInterval = 2 * second,
       cr_JoinAddresses = [''localhost:8090''], cr_BootstrapExpect = 1, cr_BootstrapExpectTimeout = 10 * second\<rparr>\<rparr>"

theorem cluster_node_without_id_is_accepted:
  "\<exists>c. config_validate any_env bare_cluster = (Ok (), c) \<and> cc_NodeId c = [] \<and> cc_Adv c = ''localhost:8090''"
  by (simp add: config_validate_def eng_steps fail_if_eval any_env_def bare_cluster_def unless_set_def check_bind_def
      check_advertised_def SplitHostPort_def last_colon_def colon_free_def Atoi_def CheckJoinAddrs_def of_char_def)

section \<open>Header bytes tell the partitions apart\<close>

lemma header_values:
  assumes "p \<le> (122 :: 32 word)"
  shows "unat (ucast (reservedBytes + p * 2 - 1) :: 8 word) = 9 + 2 * unat p"
    and "unat (ucast (reservedBytes + p * 2) :: 8 word) = 10 + 2 * unat p"
proof -
  from assms have p: "unat p \<le> 122" by (simp add: word_le_nat_alt)
  have m: "unat (p * 2) = 2 * unat p" using p by (simp add: unat_word_ariths)
  have c: "unat (reservedBytes + p * 2) = 10 + 2 * unat p" using p m by (simp add: unat_word_ariths reservedBytes_def)
  then have r: "unat (reservedBytes + p * 2 - 1) = 9 + 2 * unat p" by (subst unat_minus_one) auto
  show "unat (ucast (reservedBytes + p * 2 - 1) :: 8 word) = 9 + 2 * unat p" using r p by (simp add: unsigned_ucast_eq take_bit_eq_mod)
  show "unat (ucast (reservedBytes + p * 2) :: 8 word) = 10 + 2 * unat p" using c p by (simp add: unsigned_ucast_eq take_bit_eq_mod)
qed

lemma header_facts:
  fixes p q :: "32 word" and a b a' b' :: "8 word"
  defines "a \<equiv> ucast (reservedBytes + p * 2 - 1)" and "b \<equiv> ucast (reservedBytes + p * 2)"
    and "a' \<equiv> ucast (reservedBytes + q * 2 - 1)" and "b' \<equiv> ucast (reservedBytes + q * 2)"
  assumes "1 \<le> p" and "p \<le> 122" and "q \<le> 122"
  shows "unat a > 10 \<and> unat b > 10 \<and> a \<noteq> muxHeaderZenBpmRaft \<and> a \<noteq> muxHeaderZenBpmCluster \<and>
    b \<noteq> muxHeaderZenBpmRaft \<and> b \<noteq> muxHeaderZenBpmCluster \<and> a \<noteq> b' \<and> (a = a' \<longleftrightarrow> p = q) \<and> (b = b' \<longleftrightarrow> p = q)"
proof -
  have v: "unat a = 9 + 2 * unat p" "unat b = 10 + 2 * unat p" "unat a' = 9 + 2 * unat q" "unat b' = 10 + 2 * unat q"
    unfolding a_def b_def a'_def b'_def using header_values assms(5-7) by simp_all
  have p1: "1 \<le> unat p" using assms(5) by (simp add: word_le_nat_alt)
  have "unat a \<noteq> unat b'" using v by presburger
  then have "a \<noteq> b'" by auto
  moreover have "a = a' \<longleftrightarrow> p = q" "b = b' \<longleftrightarrow> p = q" using v by (auto simp: word_unat_eq_iff)
  moreover have big: "unat a > 10" "unat b > 10" using v p1 by simp_all
  moreover have "unat muxHeaderZenBpmRaft = 1" "unat muxHeaderZenBpmCluster = 2"
    by (simp_all add: muxHeaderZenBpmRaft_def muxHeaderZenBpmCluster_def)
  ultimately show ?thesis by auto
qed

text \<open>
  C35. One port serves all: for the partitions 1 to 122 the header bytes are different for any two partitions, for raft and
  for cluster connections, lie above the reserved bytes and are none of the two of the cluster itself, so that a
  connection reaches the listener it was dialled for; for a higher partition both functions panic.
\<close>

theorem header_bytes_are_distinct:
  "(p > 122 \<longrightarrow> GetPartitionRaftHeaderByte p = Panic ''maximum number of partition is 122'' \<and>
      GetPartitionClusterHeaderByte p = Panic ''maximum number of partition is 122'') \<and>
   (1 \<le> p \<and> p \<le> 122 \<and> 1 \<le> q \<and> q \<le> 122 \<longrightarrow>
     (\<exists>a b a' b'. GetPartitionRaftHeaderByte p = Ok a \<and> GetPartitionClusterHeaderByte p = Ok b \<and>
       GetPartitionRaftHeaderByte q = Ok a' \<and> GetPartitionClusterHeaderByte q = Ok b' \<and>
       unat a > 10 \<and> unat b > 10 \<and> a \<noteq> muxHeaderZenBpmRaft \<and> a \<noteq> muxHeaderZenBpmCluster \<and>
       b \<noteq> muxHeaderZenBpmRaft \<and> b \<noteq> muxHeaderZenBpmCluster \<and> a \<noteq> b' \<and> (a = a' \<longleftrightarrow> p = q) \<and> (b = b' \<longleftrightarrow> p = q)))"
proof (intro conjI impI)
  assume "p > 122"
  then show "GetPartitionRaftHeaderByte p = Panic ''maximum number of partition is 122''"
    and "GetPartitionClusterHeaderByte p = Panic ''maximum number of partition is 122''"
    by (simp_all add: GetPartitionRaftHeaderByte_def GetPartitionClusterHeaderByte_def)
next
  assume pq: "1 \<le> p \<and> p \<le> 122 \<and> 1 \<le> q \<and> q \<le> 122"
  then have "GetPartitionRaftHeaderByte r = Ok (ucast (reservedBytes + r * 2 - 1))"
    "GetPartitionClusterHeaderByte r = Ok (ucast (reservedBytes + r * 2))" if "r \<in> {p, q}" for r
    using that by (auto simp: GetPartitionRaftHeaderByte_def GetPartitionClusterHeaderByte_def linorder_not_less [symmetric])
  with header_facts [of p q] pq show "\<exists>a b a' b'. GetPartitionRaftHeaderByte p = Ok a \<and> GetPartitionClusterHeaderByte p = Ok b \<and>
       GetPartitionRaftHeaderByte q = Ok a' \<and> GetPartitionClusterHeaderByte q = Ok b' \<and>
       unat a > 10 \<and> unat b > 10 \<and> a \<noteq> muxHeaderZenBpmRaft \<and> a \<noteq> muxHeaderZenBpmCluster \<and>
       b \<noteq> muxHeaderZenBpmRaft \<and> b \<noteq> muxHeaderZenBpmCluster \<and> a \<noteq> b' \<and> (a = a' \<longleftrightarrow> p = q) \<and> (b = b' \<longleftrightarrow> p = q)"
    by blast
qed

theorem header_bytes_are_distinct_witness:
  "\<exists>a b'. GetPartitionRaftHeaderByte 1 = Ok a \<and> GetPartitionClusterHeaderByte 122 = Ok b' \<and> unat a > 10 \<and> a \<noteq> b'"
  using header_bytes_are_distinct [of 1 122] by auto

end
