(* ===== verification/Partition_Node.thy ===== *)
theory Partition_Node
  imports Node_Config
begin

text \<open>
  A node of a partition (\<^verbatim>\<open>internal/cluster/partition/partition.go\<close>): starting it (listeners, store, restore, credentials,
  cluster service and client, observer, the decision how it becomes part of a raft group, backups), the loop that
  observes the raft group, stopping it, and how the controller prepares the settings of each partition.

  rqlite is the record \<open>rq_lib\<close> of what its calls answer. Starting is a function of what has been opened so far, kept
  when it fails, as nothing of it is closed then. The settings are one object that all partitions of a node point to.
\<close>

section \<open>rqlite\<close>

record rq_lib =
  rl_env :: config_env
  rl_CreateClientConfig :: "string \<Rightarrow> string \<Rightarrow> error option"
  rl_NewDB :: "error option"
  rl_HasData :: "string \<Rightarrow> error + bool"
  rl_DownloadFile :: "string \<Rightarrow> (error \<times> bool) + string"
  rl_SetRestorePath :: "string \<Rightarrow> error option"
  rl_Credentials :: "string \<Rightarrow> error option"
  rl_OpenService :: "error option"
  rl_SetLocal :: "string \<Rightarrow> error option"
  rl_OpenStore :: "error option"
  rl_Nodes :: "error + string list"
  rl_IsReadOnly :: "string list \<Rightarrow> string \<Rightarrow> bool option"
  rl_Bootstrap :: "string \<Rightarrow> string \<Rightarrow> error option"
  rl_Join :: "string list \<Rightarrow> string \<Rightarrow> string \<Rightarrow> bool \<Rightarrow> error option"
  rl_Boot :: "string list \<Rightarrow> string \<Rightarrow> string \<Rightarrow> bool \<Rightarrow> error option"
  rl_BackupConfig :: "string \<Rightarrow> error option"
  rl_Remove :: "string \<Rightarrow> error option"

text \<open>What a starting or running node has opened, and the calls by which it takes part in a raft group.\<close>

datatype group_call = CallBootstrap string string | CallJoin "string list" string bool | CallBoot "string list" string bool
  | CallRemove string | CallStepdown

datatype resource = RaftListener | ClusterListener | ClusterService | OpenStore | Observer | ObserveLoop | Uploader

record partition_node =
  pn_PartitionId :: "32 word"
  pn_open :: "resource list"
  pn_statuses :: "string list"
  pn_calls :: "group_call list"
  pn_restorePath :: "string option"
  pn_Engine :: bool
  pn_FeelRuntime :: bool
  pn_JsRuntime :: bool
  pn_observerChan :: bool

definition new_node :: "32 word \<Rightarrow> partition_node" where
  "new_node p = \<lparr>pn_PartitionId = p, pn_open = [], pn_statuses = [], pn_calls = [], pn_restorePath = None,
     pn_Engine = False, pn_FeelRuntime = False, pn_JsRuntime = False, pn_observerChan = False\<rparr>"

definition opened :: "resource \<Rightarrow> (partition_node, unit) eng" where
  "opened r = modify (\<lambda>n. n\<lparr>pn_open := pn_open n @ [r]\<rparr>)"

definition called :: "group_call \<Rightarrow> (partition_node, unit) eng" where
  "called c = modify (\<lambda>n. n\<lparr>pn_calls := pn_calls n @ [c]\<rparr>)"

section \<open>Starting\<close>

definition registerStatus :: "string \<Rightarrow> (partition_node, unit) eng" where
  "registerStatus key =
     bind get_state (\<lambda>n.
       if key \<in> set (pn_statuses n) then throw (ErrorfArgs ''status already registered with key %s'' [key])
       else modify (\<lambda>n. n\<lparr>pn_statuses := pn_statuses n @ [key]\<rparr>))"

definition new_dialer :: "rq_lib \<Rightarrow> string \<Rightarrow> RqLite \<Rightarrow> error option" where
  "new_dialer L msg cfg =
     (if rq_NodeX509Cert cfg \<noteq> [] \<or> rq_NodeX509Key cfg \<noteq> []
      then map_option (Wrapf msg) (rl_CreateClientConfig L (rq_NodeX509Cert cfg) (rq_NodeX509Key cfg))
      else None)"

definition listen :: "8 word res \<Rightarrow> resource \<Rightarrow> (partition_node, unit) eng" where
  "listen header r = (case header of Ok _ \<Rightarrow> opened r | Panic msg \<Rightarrow> panic msg | _ \<Rightarrow> block)"

text \<open>A file that cannot be downloaded stops the start unless the download says that this is fine.\<close>

definition auto_restore :: "rq_lib \<Rightarrow> RqLite \<Rightarrow> (partition_node, unit) eng" where
  "auto_restore L cfg =
     (if rq_AutoRestoreFile cfg = [] then ret ()
      else case rl_HasData L (rq_DataPath cfg) of
             Inl e \<Rightarrow> throw (Wrapf ''failed to check for existing data: %w'' e)
           | Inr True \<Rightarrow> ret ()
           | Inr False \<Rightarrow>
               (case rl_DownloadFile L (rq_AutoRestoreFile cfg) of
                  Inl (e, errOK) \<Rightarrow> if errOK then ret () else throw (Errorf ''failed to download auto-restore file: %s'')
                | Inr path \<Rightarrow>
                    (case rl_SetRestorePath L path of
                       Some e \<Rightarrow> throw (Wrapf ''failed to preload auto-restore data: %w'' e)
                     | None \<Rightarrow> modify (\<lambda>n. n\<lparr>pn_restorePath := Some path\<rparr>))))"

definition createCredentialStore :: "rq_lib \<Rightarrow> RqLite \<Rightarrow> error option" where
  "createCredentialStore L cfg = (if rq_AuthFile cfg = [] then None else rl_Credentials L (rq_AuthFile cfg))"

definition createClusterService :: "rq_lib \<Rightarrow> (partition_node, unit) eng" where
  "createClusterService L = bind (fail_if (rl_OpenService L)) (\<lambda>_. opened ClusterService)"

definition createClusterClient :: "rq_lib \<Rightarrow> RqLite \<Rightarrow> error option" where
  "createClusterClient L cfg =
     (case new_dialer L ''failed to create TLS config for Cluster dialer: %s'' cfg of
        Some e \<Rightarrow> Some (Wrapf ''failed to create RqLite cluster dialer: %s'' e)
      | None \<Rightarrow> map_option (Wrapf ''failed to set cluster client local parameters: %s'') (rl_SetLocal L (rq_RaftAdv cfg)))"

definition networkCheckJoinAddrs :: "rq_lib \<Rightarrow> string list \<Rightarrow> error option" where
  "networkCheckJoinAddrs L joinAddrs =
     (if joinAddrs \<noteq> []
      then map_option (\<lambda>addr. ErrorfArgs ''join address %s appears to be serving HTTP when it should be Raft'' [addr])
             (ce_AnyServingHTTP (rl_env L) joinAddrs)
      else None)"

definition createPartitionCluster :: "rq_lib \<Rightarrow> RqLite \<Rightarrow> bool \<Rightarrow> (partition_node, unit) eng" where
  "createPartitionCluster L cfg hasPeers =
     bind (fail_if (networkCheckJoinAddrs L (case JoinAddresses cfg of None \<Rightarrow> [] | Some js \<Rightarrow> js))) (\<lambda>_.
       case JoinAddresses cfg of
         None \<Rightarrow>
           if \<not> hasPeers then
             if rq_RaftNonVoter cfg then throw (Errorf ''cannot create a new non-voting node without joining it to an existing cluster'')
             else bind (called (CallBootstrap (rq_NodeID cfg) (rq_RaftAdv cfg))) (\<lambda>_.
                  fail_if (map_option (Wrapf ''failed to bootstrap single new node: %s'') (rl_Bootstrap L (rq_NodeID cfg) (rq_RaftAdv cfg))))
           else ret ()
       | Some joins \<Rightarrow>
           let voter = \<not> rq_RaftNonVoter cfg in
           if rq_BootstrapExpect cfg = 0 then
             bind (called (CallJoin joins (rq_NodeID cfg) voter)) (\<lambda>_.
             fail_if (map_option (Wrapf ''failed to join cluster: %s'') (rl_Join L joins (rq_NodeID cfg) (rq_RaftAdv cfg) voter)))
           else if rq_BootstrapExpect cfg > 0 then
             bind (called (CallBoot joins (rq_NodeID cfg) voter)) (\<lambda>_.
             fail_if (rl_Boot L joins (rq_NodeID cfg) (rq_RaftAdv cfg) voter))
           else ret ())"

definition startAutoBackups :: "rq_lib \<Rightarrow> RqLite \<Rightarrow> (partition_node, bool) eng" where
  "startAutoBackups L cfg =
     (if rq_AutoBackupFile cfg = [] then ret False
      else case rl_BackupConfig L (rq_AutoBackupFile cfg) of
             Some e \<Rightarrow> throw e
           | None \<Rightarrow> bind (opened Uploader) (\<lambda>_. ret True))"

text \<open>\<open>r\<close> wrapped in the message of the step that failed.\<close>

definition failing :: "string \<Rightarrow> error option \<Rightarrow> (partition_node, unit) eng" where
  "failing msg r = fail_if (map_option (Wrapf msg) r)"

text \<open>
  \<^verbatim>\<open>StartZenPartitionNode\<close>. The channel of the observer is a local variable; the field \<^verbatim>\<open>observerChan\<close> that the loop reads
  from keeps its zero value.
\<close>

definition StartZenPartitionNode :: "rq_lib \<Rightarrow> RqLite \<Rightarrow> (partition_node, unit) eng" where
  "StartZenPartitionNode L cfg =
     bind (gets pn_PartitionId) (\<lambda>p.
     bind (listen (GetPartitionRaftHeaderByte p) RaftListener) (\<lambda>_.
     bind (failing ''failed to create RqLite Raft dialer: %w'' (new_dialer L ''failed to create TLS config for Raft dialer: %s'' cfg)) (\<lambda>_.
     bind (failing ''failed to create rqLiteDB for partition %d: %w'' (rl_NewDB L)) (\<lambda>_.
     bind (auto_restore L cfg) (\<lambda>_.
     bind (failing ''failed to get credential store: %w'' (createCredentialStore L cfg)) (\<lambda>_.
     bind (listen (GetPartitionClusterHeaderByte p) ClusterListener) (\<lambda>_.
     bind (wrap (Wrapf ''failed to create cluster service: %w'') (createClusterService L)) (\<lambda>_.
     bind (failing ''failed to create cluster client: %w'' (createClusterClient L cfg)) (\<lambda>_.
     bind (failing ''failed to open store: %w'' (rl_OpenStore L)) (\<lambda>_.
     bind (opened OpenStore) (\<lambda>_.
     bind (opened Observer) (\<lambda>_.
     bind (opened ObserveLoop) (\<lambda>_.
     bind (attempt (registerStatus ''cluster'')) (\<lambda>_.
     bind (attempt (registerStatus ''network'')) (\<lambda>_.
     case rl_Nodes L of
       Inl e \<Rightarrow> throw (Wrapf ''failed to get nodes %w'' e)
     | Inr nodes \<Rightarrow>
         bind (wrap (Wrapf ''clustering failure: %w'') (createPartitionCluster L cfg (nodes \<noteq> []))) (\<lambda>_.
         bind (wrap (Wrapf ''failed to start auto-ackups: %w'') (startAutoBackups L cfg)) (\<lambda>started.
         if started then bind (attempt (registerStatus ''auto_backups'')) (\<lambda>_. ret ()) else ret ())))))))))))))))))"

section \<open>Stopping\<close>

definition closes :: "resource \<Rightarrow> (partition_node, unit) eng" where
  "closes r = modify (\<lambda>n. n\<lparr>pn_open := filter (\<lambda>x. x \<noteq> r) (pn_open n)\<rparr>)"

text \<open>\<^verbatim>\<open>Stop\<close>, with the settings as they are at that moment.\<close>

definition node_Stop :: "rq_lib \<Rightarrow> RqLite \<Rightarrow> (partition_node, unit) eng" where
  "node_Stop L cfg =
     bind (modify (\<lambda>n. n\<lparr>pn_Engine := False, pn_FeelRuntime := False, pn_JsRuntime := False\<rparr>)) (\<lambda>_.
     bind (closes ClusterService) (\<lambda>_.
     bind (if rq_RaftClusterRemoveOnShutdown cfg
           then bind (called (CallRemove (rq_NodeID cfg))) (\<lambda>_.
                failing ''failed to remove this node from cluster before shutdown: %w'' (rl_Remove L (rq_NodeID cfg)))
           else ret ()) (\<lambda>_.
     bind (do_when (rq_RaftStepdownOnShutdown cfg) (called CallStepdown)) (\<lambda>_.
     closes OpenStore))))"

text \<open>\<^verbatim>\<open>handlePartitionStateJoining\<close> of the controller: \<^verbatim>\<open>partitionConf\<close> is a copy of the settings, but its field \<^verbatim>\<open>RqLite\<close>
  is the same pointer.\<close>

definition partition_node_id :: "string \<Rightarrow> 32 word \<Rightarrow> string" where
  "partition_node_id i p = ''zen-'' @ i @ ''-partition-'' @ nat_digits (unat p)"

definition join_settings :: "string \<Rightarrow> string \<Rightarrow> 32 word \<Rightarrow> RqLite \<Rightarrow> RqLite" where
  "join_settings dir i p cfg =
     cfg\<lparr>rq_NodeID := partition_node_id i p, rq_DataPath := dir @ ''/partition-'' @ nat_digits (unat p)\<rparr>"

section \<open>Observing\<close>

datatype raft_event =
    ResumedHeartbeat string
  | FailedHeartbeat string int
  | LeaderElected string
  | PeerChanged bool string
  | OtherEvent

fun partition_filter :: "raft_event \<Rightarrow> bool" where
  "partition_filter OtherEvent = False"
| "partition_filter _ = True"

record change_callbacks =
  cb_AddNewNode :: bool
  cb_ShutdownNode :: bool
  cb_LeaderChange :: bool
  cb_RemoveNode :: bool
  cb_ResumeNode :: bool

datatype callback = AddNewNode string | ShutdownNode string | LeaderChange string | RemoveNode string | ResumeNode string

definition calling :: "bool \<Rightarrow> callback \<Rightarrow> callback list" where
  "calling b c = (if b then [c] else [])"

text \<open>The callbacks an event leads to; a heartbeat that fails also asks whether the node is long enough away.\<close>

fun handle_event :: "rq_lib \<Rightarrow> RqLite \<Rightarrow> change_callbacks \<Rightarrow> raft_event \<Rightarrow> callback list" where
  "handle_event L cfg cb (ResumedHeartbeat i) = calling (cb_ResumeNode cb) (ResumeNode i)"
| "handle_event L cfg cb (FailedHeartbeat i dur) =
     (case rl_IsReadOnly L (case rl_Nodes L of Inr nodes \<Rightarrow> nodes | Inl _ \<Rightarrow> []) i of
        None \<Rightarrow> []
      | Some isReadOnly \<Rightarrow>
          calling (cb_ShutdownNode cb \<and> rq_RaftHeartbeatShutdownTimeout cfg > 0 \<and> dur > rq_RaftHeartbeatShutdownTimeout cfg)
            (ShutdownNode i) @
          calling (cb_RemoveNode cb \<and>
             (isReadOnly \<and> rq_RaftReapReadOnlyNodeTimeout cfg > 0 \<and> dur > rq_RaftReapReadOnlyNodeTimeout cfg \<or>
              \<not> isReadOnly \<and> rq_RaftReapNodeTimeout cfg > 0 \<and> dur > rq_RaftReapNodeTimeout cfg))
            (RemoveNode i))"
| "handle_event L cfg cb (LeaderElected i) = calling (cb_LeaderChange cb) (LeaderChange i)"
| "handle_event L cfg cb (PeerChanged removed i) =
     (if removed \<and> cb_ShutdownNode cb then [ShutdownNode i]
      else if \<not> removed \<and> cb_AddNewNode cb then [AddNewNode i] else [])"
| "handle_event L cfg cb OtherEvent = []"

definition observerChanLen :: nat where "observerChanLen = 100"

text \<open>The gauges of a partition; a count that fails is recorded as zero.\<close>

definition updatePartitionMetrics :: "error + int \<Rightarrow> error + int \<Rightarrow> int \<times> int" where
  "updatePartitionMetrics waitingJobs activeInstances =
     (case waitingJobs of Inr n \<Rightarrow> n | Inl _ \<Rightarrow> 0, case activeInstances of Inr n \<Rightarrow> n | Inl _ \<Rightarrow> 0)"

text \<open>
  raft, the channel it was given and the loop. The observer is a blocking one: raft waits when the channel is full. The
  loop receives from its own field, which is the channel of the observer only if \<open>pn_observerChan\<close>; receiving from the
  nil channel never happens. A ticker and the closing of the loop are the other cases of its \<^verbatim>\<open>select\<close>.
\<close>

record observing =
  og_channel :: "raft_event list"
  og_callbacks :: "callback list"
  og_metrics :: nat
  og_closed :: bool

datatype loop_move = Notify raft_event | Received | Ticked | Closing

fun loop_step :: "bool \<Rightarrow> rq_lib \<Rightarrow> RqLite \<Rightarrow> change_callbacks \<Rightarrow> loop_move \<Rightarrow> observing \<Rightarrow> observing option" where
  "loop_step assigned L cfg cb (Notify ev) s =
     (if \<not> partition_filter ev then Some s
      else if length (og_channel s) < observerChanLen then Some (s\<lparr>og_channel := og_channel s @ [ev]\<rparr>)
      else None)"
| "loop_step assigned L cfg cb Received s =
     (if og_closed s \<or> \<not> assigned then None
      else case og_channel s of
             [] \<Rightarrow> None
           | ev # evs \<Rightarrow> Some (s\<lparr>og_channel := evs, og_callbacks := og_callbacks s @ handle_event L cfg cb ev\<rparr>))"
| "loop_step assigned L cfg cb Ticked s = (if og_closed s then None else Some (s\<lparr>og_metrics := og_metrics s + 1\<rparr>))"
| "loop_step assigned L cfg cb Closing s = (if og_closed s then None else Some (s\<lparr>og_closed := True\<rparr>))"

inductive observed :: "bool \<Rightarrow> rq_lib \<Rightarrow> RqLite \<Rightarrow> change_callbacks \<Rightarrow> loop_move list \<Rightarrow> observing \<Rightarrow> bool"
  for assigned L cfg cb where
  nothing: "observed assigned L cfg cb [] \<lparr>og_channel = [], og_callbacks = [], og_metrics = 0, og_closed = False\<rparr>"
| observe: "observed assigned L cfg cb ms s \<Longrightarrow> loop_step assigned L cfg cb m s = Some s' \<Longrightarrow>
    observed assigned L cfg cb (ms @ [m]) s'"

section \<open>The loop of a started node hears nothing\<close>

lemma keeps_chan [keeps_rules]:
  "keeps pn_observerChan (opened r)" "keeps pn_observerChan (called c)" "keeps pn_observerChan (fail_if e)"
  "keeps pn_observerChan (failing msg e)"
  by (auto simp: keeps_def opened_def called_def failing_def fail_if_def modify_def throw_def ret_def split: option.split)

lemma keeps_chan_modify [keeps_rules]: "(\<And>n. pn_observerChan (f n) = pn_observerChan n) \<Longrightarrow> keeps pn_observerChan (modify f)"
  by (simp add: keeps_def modify_def)

lemma keeps_chan_parts [keeps_rules]:
  "keeps pn_observerChan (registerStatus key)" "keeps pn_observerChan (listen h r)"
  "keeps pn_observerChan (auto_restore L cfg)" "keeps pn_observerChan (createClusterService L)"
  "keeps pn_observerChan (createPartitionCluster L cfg b)" "keeps pn_observerChan (startAutoBackups L cfg)"
  unfolding registerStatus_def listen_def auto_restore_def createClusterService_def createPartitionCluster_def startAutoBackups_def Let_def
  by (auto intro!: keeps_rules split: res.split option.split sum.split bool.split prod.split)

lemma start_keeps_chan: "keeps pn_observerChan (StartZenPartitionNode L cfg)"
  unfolding StartZenPartitionNode_def by (auto intro!: keeps_rules split: sum.split)

fun heard :: "loop_move \<Rightarrow> bool" where
  "heard (Notify ev) = partition_filter ev"
| "heard _ = False"

lemma unassigned_loop:
  "observed False L cfg cb ms s \<Longrightarrow> og_callbacks s = [] \<and> length (og_channel s) = length (filter heard ms) \<and> length (og_channel s) \<le> 100"
proof (induction rule: observed.induct)
  case (observe ms s m s')
  then show ?case by (cases m) (auto simp: observerChanLen_def split: if_splits)
qed simp

text \<open>
  A partition that has been started does not hear of its raft group. Whatever elections, changes of peers and lost or
  resumed heartbeats raft reports, and however the loop runs, none of the five callbacks is called; the channel only
  fills up, and once a hundred reports are in it, raft, whose observer is a blocking one, waits for ever with the next.
\<close>

theorem started_partition_hears_nothing:
  assumes "StartZenPartitionNode L cfg (new_node p) = (Ok (), n)" and "observed (pn_observerChan n) L cfg cb ms s"
  shows "og_callbacks s = [] \<and> length (filter heard ms) \<le> 100 \<and>
    (length (filter heard ms) = 100 \<longrightarrow> (\<forall>ev. partition_filter ev \<longrightarrow> loop_step (pn_observerChan n) L cfg cb (Notify ev) s = None))"
proof -
  from start_keeps_chan have "pn_observerChan n = pn_observerChan (new_node p)"
    using assms(1) unfolding keeps_def by (metis snd_conv)
  then have "pn_observerChan n = False" by (simp add: new_node_def)
  with unassigned_loop [of L cfg cb ms s] assms(2) show ?thesis by (auto simp: observerChanLen_def)
qed

text \<open>Had the channel been assigned, the loop would handle the reports in their order.\<close>

lemma assigned_loop_handles:
  "\<not> og_closed s \<Longrightarrow> og_channel s = ev # evs \<Longrightarrow>
     \<exists>s'. loop_step True L cfg cb Received s = Some s' \<and> og_callbacks s' = og_callbacks s @ handle_event L cfg cb ev"
  by simp

section \<open>Stopping\<close>

lemma nat_digits_ne: "nat_digits n \<noteq> []"
  by (subst nat_digits.simps) simp

lemma digit_inj: "a < 10 \<Longrightarrow> b < 10 \<Longrightarrow> char_of (48 + a :: nat) = char_of (48 + b) \<Longrightarrow> a = b"
proof -
  assume *: "a < 10" "b < 10" "char_of (48 + a :: nat) = char_of (48 + b)"
  then have "of_char (char_of (48 + a :: nat)) = (of_char (char_of (48 + b :: nat)) :: nat)" by simp
  with * show "a = b" by simp
qed

lemma nat_digits_inj: "nat_digits m = nat_digits n \<Longrightarrow> m = n"
proof (induction m arbitrary: n rule: nat_digits.induct)
  case (1 m)
  show ?case
  proof (cases "m < 10 \<or> n < 10")
    case True
    with "1.prems" have "m < 10 \<and> n < 10"
      by (subst (asm) (1 2) nat_digits.simps) (auto simp: nat_digits_ne append_eq_Cons_conv Cons_eq_append_conv split: if_splits)
    with "1.prems" show ?thesis by (subst (asm) (1 2) nat_digits.simps) (auto dest: digit_inj)
  next
    case False
    with "1.prems" have "nat_digits (m div 10) = nat_digits (n div 10)" "char_of (48 + m mod 10) = (char_of (48 + n mod 10) :: char)"
      by (subst (asm) (1 2) nat_digits.simps, simp)+
    with False "1.IH" have "m div 10 = n div 10" "m mod 10 = n mod 10" by (auto dest: digit_inj)
    then show ?thesis by (metis div_mult_mod_eq)
  qed
qed

lemma partition_node_id_inj: "partition_node_id i p = partition_node_id i q \<longleftrightarrow> p = q"
  by (auto simp: partition_node_id_def word_unat_eq_iff dest!: nat_digits_inj)

lemma node_Stop_calls:
  "pn_calls (snd (node_Stop L cfg n)) =
     pn_calls n @ (if rq_RaftClusterRemoveOnShutdown cfg then [CallRemove (rq_NodeID cfg)] else []) @
     (if rq_RaftStepdownOnShutdown cfg \<and> \<not> (rq_RaftClusterRemoveOnShutdown cfg \<and> rl_Remove L (rq_NodeID cfg) \<noteq> None)
      then [CallStepdown] else [])"
  by (auto simp: node_Stop_def bind_def modify_def called_def closes_def failing_def fail_if_def throw_def ret_def do_when_def
      split: option.split)

text \<open>
  The settings of the partitions of a node are one object. A node that has joined the partition \<open>p\<close> and then \<open>q\<close> and
  stops its node of \<open>p\<close> asks the raft group of \<open>p\<close> to remove the id of the node of \<open>q\<close>, and never its own: it stays a
  member of the group it leaves.
\<close>

theorem stopping_removes_the_wrong_node:
  assumes "p \<noteq> q" and "cfg = join_settings dir i q (join_settings dir i p conf)" and "rq_RaftClusterRemoveOnShutdown conf"
    and "pn_calls n = []"
  shows "CallRemove (partition_node_id i q) \<in> set (pn_calls (snd (node_Stop L cfg n))) \<and>
    CallRemove (partition_node_id i p) \<notin> set (pn_calls (snd (node_Stop L cfg n)))"
  using assms by (auto simp: node_Stop_calls join_settings_def partition_node_id_inj)

text \<open>A node that cannot be removed from its group is not closed either: its store stays open.\<close>

theorem failed_removal_leaves_the_store_open:
  "OpenStore \<in> set (pn_open (snd (node_Stop L cfg n))) \<longleftrightarrow>
     OpenStore \<in> set (pn_open n) \<and> rq_RaftClusterRemoveOnShutdown cfg \<and> rl_Remove L (rq_NodeID cfg) \<noteq> None"
  by (auto simp: node_Stop_def bind_def modify_def called_def closes_def failing_def fail_if_def throw_def ret_def do_when_def
      split: option.split)

section \<open>Joining a group\<close>

text \<open>
  With settings that \<^verbatim>\<open>Validate\<close> has accepted, a node that does not vote never founds a raft group: it makes no
  bootstrap, alone or with others, and joins, as a node without a vote, the group behind its join addresses or none.
\<close>

theorem non_voter_founds_no_group:
  assumes "Validate V c = (Ok (), cfg)" and "rq_RaftNonVoter cfg" and "createPartitionCluster L cfg hasPeers n = (r, n')"
  shows "pn_calls n' = pn_calls n \<or>
    (\<exists>joins. JoinAddresses cfg = Some joins \<and> pn_calls n' = pn_calls n @ [CallJoin joins (rq_NodeID cfg) False])"
proof -
  have "rq_BootstrapExpect cfg \<le> 0" using Validate_settles [OF assms(1)] assms(2) by (auto simp: settled_def)
  with assms(2,3) show ?thesis
    by (auto simp: createPartitionCluster_def eng_steps bind_def called_def modify_def fail_if_def throw_def ret_def Let_def
        split: option.splits if_splits)
qed

end
