(* ===== verification/Migrations.thy ===== *)
theory Migrations
  imports Zen_Prelude "HOL-Library.Char_ord" "HOL-Library.List_Lexorder"
begin

text \<open>
  Migrations of the schema of a partition: where the scripts are (\<^verbatim>\<open>internal/sql/migrations.go\<close>), which of them are
  pending, and how they are run and rolled back (\<^verbatim>\<open>partition/migrations.go\<close>).

  The scripts that are compiled in and the file system are fields of \<open>script_source\<close>, with Go's functions on paths. Running
  the text of a script is a parameter, a function on the database, of which the model knows the table of the
  migrations; the theorems state what they need of it: the script that creates the table creates it, and the
  others leave it alone.
\<close>

section \<open>Scripts\<close>

record MigrationData =
  md_Filename :: string
  md_SQL :: string

text \<open>An entry of a directory: its name and whether it is a directory. Reading answers \<open>Inr None\<close> if nothing is there.\<close>

record script_source =
  ss_Embedded :: "(string \<times> bool) list"
  ss_EmbeddedFile :: "string \<Rightarrow> error + string option"
  ss_ReadDir :: "string \<Rightarrow> error + (string \<times> bool) list option"
  ss_ReadFile :: "string \<Rightarrow> error + string option"
  ss_Clean :: "string \<Rightarrow> string"
  ss_IsAbs :: "string \<Rightarrow> bool"
  ss_Join :: "string \<Rightarrow> string \<Rightarrow> string"
  ss_Rel :: "string \<Rightarrow> string \<Rightarrow> error + string"
  ss_Caller :: "string list option"
  ss_HasGoMod :: "string list \<Rightarrow> bool"
  ss_Path :: "string list \<Rightarrow> string"

definition DefaultMigrationsDir :: string where "DefaultMigrationsDir = ''internal/sql/migrations''"
definition migrationsInitFilename :: string where "migrationsInitFilename = ''0000_init.up.sql''"

text \<open>A directory as the list of its names, the innermost first: \<^verbatim>\<open>filepath.Dir\<close> drops one, and the root is its own parent.\<close>

fun find_go_mod :: "(string list \<Rightarrow> bool) \<Rightarrow> string list \<Rightarrow> string list option" where
  "find_go_mod has [] = (if has [] then Some [] else None)"
| "find_go_mod has (d # ds) = (if has (d # ds) then Some (d # ds) else find_go_mod has ds)"

definition findProjectRoot :: "script_source \<Rightarrow> error + string list" where
  "findProjectRoot S =
     (case ss_Caller S of
        None \<Rightarrow> Inl (Errorf ''failed to get caller file'')
      | Some dir \<Rightarrow> (case find_go_mod (ss_HasGoMod S) dir of None \<Rightarrow> Inl (Errorf ''go.mod not found'') | Some d \<Rightarrow> Inr d))"

definition shouldUseEmbeddedMigrations :: "script_source \<Rightarrow> string \<Rightarrow> bool" where
  "shouldUseEmbeddedMigrations S migrationDir \<longleftrightarrow>
     migrationDir \<noteq> [] \<and> ss_Clean S migrationDir = ss_Clean S DefaultMigrationsDir"

definition filesystemMigrationDir :: "script_source \<Rightarrow> string \<Rightarrow> error + string" where
  "filesystemMigrationDir S migrationDir =
     (if migrationDir = [] then Inr []
      else let normalizedDir = ss_Clean S migrationDir in
           if ss_IsAbs S normalizedDir then Inr normalizedDir
           else case findProjectRoot S of
                  Inl e \<Rightarrow> Inl (Wrapf ''failed to find project root: %w'' e)
                | Inr root \<Rightarrow>
                    (let projectRoot = ss_Path S root; resolvedDir = ss_Join S projectRoot normalizedDir in
                     case ss_Rel S projectRoot resolvedDir of
                       Inl e \<Rightarrow> Inl (Wrapf ''failed to resolve migration directory %s from project root %s: %w'' e)
                     | Inr relToRoot \<Rightarrow>
                         if relToRoot = ''..'' \<or> HasPrefix relToRoot ''../''
                         then Inl (ErrorfArgs ''migration directory %s escapes project root %s'' [migrationDir, projectRoot])
                         else Inr resolvedDir))"

definition readMigrationDir :: "script_source \<Rightarrow> string \<Rightarrow> error + (string \<times> bool) list" where
  "readMigrationDir S migrationDir =
     (if shouldUseEmbeddedMigrations S migrationDir then Inr (ss_Embedded S)
      else case filesystemMigrationDir S migrationDir of
             Inl e \<Rightarrow> Inl e
           | Inr filesystemDir \<Rightarrow>
               if filesystemDir = [] then Inr []
               else case ss_ReadDir S filesystemDir of
                      Inr (Some entries) \<Rightarrow> Inr entries
                    | Inr None \<Rightarrow> Inr []
                    | Inl e \<Rightarrow> Inl (Wrapf ''failed to read filesystem migration directory %s: %w'' e))"

text \<open>A file that does not exist has no bytes, which its readers turn into the empty text.\<close>

definition readMigrationFile :: "script_source \<Rightarrow> string \<Rightarrow> string \<Rightarrow> error + string" where
  "readMigrationFile S migrationDir filename =
     (if shouldUseEmbeddedMigrations S migrationDir then
        (case ss_EmbeddedFile S filename of
           Inr content \<Rightarrow> Inr (case content of Some c \<Rightarrow> c | None \<Rightarrow> [])
         | Inl e \<Rightarrow> Inl (Wrapf ''failed to read embedded migration file %s: %w'' e))
      else case filesystemMigrationDir S migrationDir of
             Inl e \<Rightarrow> Inl e
           | Inr filesystemDir \<Rightarrow>
               if filesystemDir = [] then Inr []
               else case ss_ReadFile S (ss_Join S filesystemDir filename) of
                      Inr content \<Rightarrow> Inr (case content of Some c \<Rightarrow> c | None \<Rightarrow> [])
                    | Inl e \<Rightarrow> Inl (Wrapf ''failed to read filesystem migration file %s: %w'' e))"

definition HasSuffix :: "string \<Rightarrow> string \<Rightarrow> bool" where
  "HasSuffix s suffix \<longleftrightarrow> HasPrefix (rev s) (rev suffix)"

fun up_scripts :: "(string \<Rightarrow> error + string) \<Rightarrow> (string \<times> bool) list \<Rightarrow> error + MigrationData list" where
  "up_scripts read [] = Inr []"
| "up_scripts read ((name, isDir) # fs) =
     (if isDir \<or> \<not> HasSuffix name ''.up.sql'' then up_scripts read fs
      else case read name of
             Inl e \<Rightarrow> Inl (Wrapf ''failed to read %s: %w'' e)
           | Inr content \<Rightarrow>
               (case up_scripts read fs of
                  Inl e \<Rightarrow> Inl e
                | Inr res \<Rightarrow> Inr (\<lparr>md_Filename = name, md_SQL = content\<rparr> # res)))"

definition GetUpMigrations :: "script_source \<Rightarrow> string \<Rightarrow> error + MigrationData list" where
  "GetUpMigrations S migrationDir =
     (case readMigrationDir S migrationDir of
        Inl e \<Rightarrow> Inl (Wrapf ''failed to read migration directory: %w'' e)
      | Inr entries \<Rightarrow> up_scripts (readMigrationFile S migrationDir) entries)"

text \<open>\<^verbatim>\<open>strings.Replace(s, old, new, 1)\<close>\<close>

fun replace_first :: "string \<Rightarrow> string \<Rightarrow> string \<Rightarrow> string" where
  "replace_first [] old new = (if old = [] then new else [])"
| "replace_first (c # cs) old new =
     (if HasPrefix (c # cs) old then new @ drop (length old) (c # cs) else c # replace_first cs old new)"

definition GetRollbackMigration :: "script_source \<Rightarrow> string \<Rightarrow> string \<Rightarrow> error + MigrationData" where
  "GetRollbackMigration S migrationDir migrationFilename =
     (let rollbackFilename = replace_first migrationFilename ''.up.sql'' ''.down.sql'' in
      case readMigrationFile S migrationDir rollbackFilename of
        Inl e \<Rightarrow> Inl (Wrapf ''failed to read rollback file %s: %w'' e)
      | Inr content \<Rightarrow> Inr \<lparr>md_Filename = rollbackFilename, md_SQL = content\<rparr>)"

definition GetMigrationInitSql :: "script_source \<Rightarrow> string \<Rightarrow> error + string" where
  "GetMigrationInitSql S migrationDir =
     (case readMigrationFile S migrationDir migrationsInitFilename of
        Inl e \<Rightarrow> Inl (Wrapf ''failed to read migration init file %s: %w'' e)
      | Inr content \<Rightarrow> Inr content)"

section \<open>The database\<close>

type_synonym Migration = "string \<times> int"

record 'd migration_db =
  mg_data :: 'd
  mg_migration :: "Migration list option"

definition GetMigrations :: "('d migration_db, Migration list) eng" where
  "GetMigrations = bind (gets mg_migration) (\<lambda>t.
     case t of None \<Rightarrow> throw (ExternalError ''no such table: migration'') | Some rows \<Rightarrow> ret rows)"

text \<open>The name is the primary key.\<close>

definition SaveMigration :: "string \<Rightarrow> int \<Rightarrow> ('d migration_db, unit) eng" where
  "SaveMigration name ran_at = bind (gets mg_migration) (\<lambda>t.
     case t of
       None \<Rightarrow> throw (ExternalError ''no such table: migration'')
     | Some rows \<Rightarrow>
         if name \<in> fst ` set rows then throw (ExternalError ''UNIQUE constraint failed: migration.name'')
         else modify (\<lambda>d. d\<lparr>mg_migration := Some (rows @ [(name, ran_at)])\<rparr>))"

text \<open>Executing one statement: the call fails, or answers a list of results, each nil or with the text of an error.\<close>

type_synonym 'd sql_engine = "string \<Rightarrow> 'd migration_db \<Rightarrow> (error + string option list) \<times> 'd migration_db"

definition executeSQLStatement :: "'d sql_engine \<Rightarrow> string \<Rightarrow> ('d migration_db, unit) eng" where
  "executeSQLStatement Execute statementSQL d =
     (case Execute statementSQL d of
        (Inl e, d') \<Rightarrow> (Err e, d')
      | (Inr (Some (c # cs) # _), d') \<Rightarrow> (Err (Errorf (c # cs)), d')
      | (Inr _, d') \<Rightarrow> (Ok (), d'))"

section \<open>Running\<close>

definition ensureMigrationTable :: "'d sql_engine \<Rightarrow> script_source \<Rightarrow> string \<Rightarrow> ('d migration_db, unit) eng" where
  "ensureMigrationTable Execute S dir =
     (case GetMigrationInitSql S dir of
        Inl e \<Rightarrow> throw e
      | Inr createTableSQL \<Rightarrow>
          wrap (Wrapf ''failed to create migration table: %w'') (executeSQLStatement Execute createTableSQL))"

definition filterPendingMigrations :: "MigrationData list \<Rightarrow> Migration list \<Rightarrow> MigrationData list" where
  "filterPendingMigrations fileMigrations appliedMigrations =
     sort_key md_Filename (filter (\<lambda>f. md_Filename f \<notin> fst ` set appliedMigrations) fileMigrations)"

definition loadPendingMigrations :: "script_source \<Rightarrow> string \<Rightarrow> ('d migration_db, MigrationData list) eng" where
  "loadPendingMigrations S dir =
     (case GetUpMigrations S dir of
        Inl e \<Rightarrow> throw (Wrapf ''failed to read migrations: %w'' e)
      | Inr fileMigrations \<Rightarrow>
          bind (wrap (Wrapf ''failed to read applied migrations: %w'') GetMigrations) (\<lambda>appliedMigrations.
          ret (filterPendingMigrations fileMigrations appliedMigrations)))"

definition executeUpMigration :: "'d sql_engine \<Rightarrow> MigrationData \<Rightarrow> ('d migration_db, unit) eng" where
  "executeUpMigration Execute m = wrap (Wrapf ''failed to execute migration %s: %w'') (executeSQLStatement Execute (md_SQL m))"

definition executeRollbackMigration ::
  "'d sql_engine \<Rightarrow> script_source \<Rightarrow> string \<Rightarrow> MigrationData \<Rightarrow> ('d migration_db, unit) eng" where
  "executeRollbackMigration Execute S dir m =
     (case GetRollbackMigration S dir (md_Filename m) of
        Inl e \<Rightarrow> throw (Wrapf ''failed to read rollback migration: %w'' e)
      | Inr rollback \<Rightarrow>
          wrap (Wrapf ''failed to execute rollback migration %s: %w'') (executeSQLStatement Execute (md_SQL rollback)))"

definition executeSingleMigration ::
  "'d sql_engine \<Rightarrow> script_source \<Rightarrow> string \<Rightarrow> int \<Rightarrow> MigrationData \<Rightarrow> ('d migration_db, unit) eng" where
  "executeSingleMigration Execute S dir now m =
     bind (attempt (executeUpMigration Execute m)) (\<lambda>r.
       case r of
         Inl migrationErr \<Rightarrow> bind (executeRollbackMigration Execute S dir m) (\<lambda>_. throw migrationErr)
       | Inr _ \<Rightarrow> wrap (Wrapf ''failed to save migration info: %w'') (SaveMigration (md_Filename m) now))"

definition RunMigrations :: "'d sql_engine \<Rightarrow> script_source \<Rightarrow> string \<Rightarrow> int \<Rightarrow> ('d migration_db, unit) eng" where
  "RunMigrations Execute S dir now =
     bind (ensureMigrationTable Execute S dir) (\<lambda>_.
     bind (loadPendingMigrations S dir) (\<lambda>pendingMigrations.
     for_each pendingMigrations (executeSingleMigration Execute S dir now)))"

section \<open>Every script once, in order\<close>

text \<open>
  What the scripts do to the table of migrations: the first one creates it when it is missing and changes nothing else,
  as \<^verbatim>\<open>CREATE TABLE IF NOT EXISTS\<close> does, and no other script touches it.
\<close>

definition init_creates_table :: "'d sql_engine \<Rightarrow> string \<Rightarrow> bool" where
  "init_creates_table Execute sql \<longleftrightarrow>
     (\<forall>d. Execute sql d = (Inr [Some []], d\<lparr>mg_migration := Some (case mg_migration d of None \<Rightarrow> [] | Some rows \<Rightarrow> rows)\<rparr>))"

definition leaves_table :: "'d sql_engine \<Rightarrow> string \<Rightarrow> bool" where
  "leaves_table Execute sql \<longleftrightarrow> (\<forall>d. mg_migration d \<noteq> None \<longrightarrow> mg_migration (snd (Execute sql d)) = mg_migration d)"

lemma execute_outcome: "fst (executeSQLStatement Execute sql d) = Ok () \<or> (\<exists>e. fst (executeSQLStatement Execute sql d) = Err e)"
  by (auto simp: executeSQLStatement_def split: prod.split sum.split list.split option.split)

lemma execute_table:
  assumes "leaves_table Execute sql" and "mg_migration d = Some rows"
  shows "mg_migration (snd (executeSQLStatement Execute sql d)) = Some rows"
proof -
  have "mg_migration (snd (Execute sql d)) = Some rows" using assms by (simp add: leaves_table_def)
  then show ?thesis by (auto simp: executeSQLStatement_def split: prod.split sum.split list.split option.split)
qed

text \<open>What running scripts one after the other means: each is executed on what the ones before left and its name is
  recorded; there is no result if one of them fails.\<close>

definition record_run :: "int \<Rightarrow> MigrationData \<Rightarrow> 'd migration_db \<Rightarrow> 'd migration_db" where
  "record_run now m d = d\<lparr>mg_migration := map_option (\<lambda>rows. rows @ [(md_Filename m, now)]) (mg_migration d)\<rparr>"

fun run_scripts :: "'d sql_engine \<Rightarrow> int \<Rightarrow> MigrationData list \<Rightarrow> 'd migration_db \<Rightarrow> 'd migration_db option" where
  "run_scripts Execute now [] d = Some d"
| "run_scripts Execute now (m # ms) d =
     (case executeSQLStatement Execute (md_SQL m) d of
        (Ok _, d1) \<Rightarrow> run_scripts Execute now ms (record_run now m d1)
      | _ \<Rightarrow> None)"

text \<open>The database after the rollback script of \<open>m\<close>, whether or not it succeeds; no script, no change.\<close>

definition rolled_back :: "'d sql_engine \<Rightarrow> script_source \<Rightarrow> string \<Rightarrow> MigrationData \<Rightarrow> 'd migration_db \<Rightarrow> 'd migration_db" where
  "rolled_back Execute S dir m d =
     (case GetRollbackMigration S dir (md_Filename m) of
        Inl _ \<Rightarrow> d | Inr rb \<Rightarrow> snd (executeSQLStatement Execute (md_SQL rb) d))"

lemma rolled_back_table:
  assumes "mg_migration d = Some rows"
    and "\<And>rb. GetRollbackMigration S dir (md_Filename m) = Inr rb \<Longrightarrow> leaves_table Execute (md_SQL rb)"
  shows "mg_migration (rolled_back Execute S dir m d) = Some rows"
  using assms(1) execute_table [OF assms(2) assms(1)] by (auto simp: rolled_back_def split: sum.split)

lemma single_migration_ok:
  assumes "executeSQLStatement Execute (md_SQL m) d = (Ok u, d1)" and "mg_migration d1 = Some rows"
    and "md_Filename m \<notin> fst ` set rows"
  shows "executeSingleMigration Execute S dir now m d = (Ok (), record_run now m d1)"
  using assms
  by (simp add: executeSingleMigration_def executeUpMigration_def SaveMigration_def bind_def attempt_def wrap_def gets_def
      throw_def modify_def record_run_def)

lemma single_migration_fails:
  assumes "executeSQLStatement Execute (md_SQL m) d = (Err e, d1)"
  shows "\<exists>e'. executeSingleMigration Execute S dir now m d = (Err e', rolled_back Execute S dir m d1)"
proof (cases "GetRollbackMigration S dir (md_Filename m)")
  case (Inl e')
  with assms show ?thesis
    by (simp add: executeSingleMigration_def executeUpMigration_def executeRollbackMigration_def rolled_back_def
        bind_def attempt_def wrap_def throw_def)
next
  case (Inr rb)
  obtain r2 d2 where down: "executeSQLStatement Execute (md_SQL rb) d1 = (r2, d2)" by fastforce
  with assms Inr execute_outcome [of Execute "md_SQL rb" d1] show ?thesis
    by (auto simp: executeSingleMigration_def executeUpMigration_def executeRollbackMigration_def rolled_back_def
        bind_def attempt_def wrap_def throw_def)
qed

definition recorded :: "int \<Rightarrow> MigrationData list \<Rightarrow> Migration list" where
  "recorded now ms = map (\<lambda>m. (md_Filename m, now)) ms"

text \<open>How a run over \<open>ms\<close> ends: either all scripts were run and recorded, or the first \<open>k\<close> of them were, the next one
  failed on what they left, and its rollback was run.\<close>

definition run_outcome ::
  "'d sql_engine \<Rightarrow> script_source \<Rightarrow> string \<Rightarrow> int \<Rightarrow> MigrationData list \<Rightarrow> 'd migration_db \<Rightarrow> nat \<Rightarrow> unit res
     \<Rightarrow> 'd migration_db \<Rightarrow> bool" where
  "run_outcome Execute S dir now ms d k r d' \<longleftrightarrow>
     (\<exists>d1. run_scripts Execute now (take k ms) d = Some d1 \<and>
        (r = Ok () \<and> k = length ms \<and> d' = d1 \<or>
         is_Err r \<and> k < length ms \<and>
           (\<exists>e d2. executeSQLStatement Execute (md_SQL (ms ! k)) d1 = (Err e, d2) \<and>
              d' = rolled_back Execute S dir (ms ! k) d2)))"

lemma all_migrations:
  assumes "for_each ms (executeSingleMigration Execute S dir now) d = (r, d')" and "mg_migration d = Some rows"
    and "\<forall>m \<in> set ms. leaves_table Execute (md_SQL m) \<and>
      (\<forall>rb. GetRollbackMigration S dir (md_Filename m) = Inr rb \<longrightarrow> leaves_table Execute (md_SQL rb))"
    and "distinct (map md_Filename ms)" and "\<forall>m \<in> set ms. md_Filename m \<notin> fst ` set rows"
  shows "\<exists>k \<le> length ms. run_outcome Execute S dir now ms d k r d' \<and>
    mg_migration d' = Some (rows @ recorded now (take k ms))"
  using assms
proof (induction ms arbitrary: d rows)
  case Nil
  then show ?case by (simp add: ret_def recorded_def run_outcome_def)
next
  case (Cons m ms)
  obtain x d1 where up: "executeSQLStatement Execute (md_SQL m) d = (x, d1)" by fastforce
  have t1: "mg_migration d1 = Some rows" using execute_table [of Execute "md_SQL m" d rows] up Cons.prems(2,3) by simp
  have fresh: "md_Filename m \<notin> fst ` set rows" using Cons.prems(5) by simp
  consider "x = Ok ()" | e where "x = Err e" using execute_outcome [of Execute "md_SQL m" d] up by auto
  then show ?case
  proof cases
    case 1
    let ?d = "record_run now m d1"
    have t2: "mg_migration ?d = Some (rows @ [(md_Filename m, now)])" using t1 by (simp add: record_run_def)
    have "for_each ms (executeSingleMigration Execute S dir now) ?d = (r, d')"
      using Cons.prems(1) single_migration_ok [OF up [unfolded 1] t1 fresh] by (simp add: bind_def)
    moreover have "\<forall>m' \<in> set ms. md_Filename m' \<notin> fst ` set (rows @ [(md_Filename m, now)])"
      using Cons.prems(4,5) by (auto simp: image_iff)
    ultimately obtain k where k: "k \<le> length ms" "run_outcome Execute S dir now ms ?d k r d'"
      "mg_migration d' = Some ((rows @ [(md_Filename m, now)]) @ recorded now (take k ms))"
      using Cons.IH [OF _ t2] Cons.prems(3,4) by auto
    have "run_outcome Execute S dir now (m # ms) d (Suc k) r d'"
      using k(2) up 1 by (auto simp: run_outcome_def)
    with k show ?thesis by (intro exI [of _ "Suc k"]) (simp add: recorded_def)
  next
    case (2 e)
    obtain e' where "executeSingleMigration Execute S dir now m d = (Err e', rolled_back Execute S dir m d1)"
      using single_migration_fails [OF up [unfolded 2]] by blast
    with Cons.prems(1) have r: "is_Err r" and d': "d' = rolled_back Execute S dir m d1" by (auto simp: bind_def)
    have "mg_migration d' = Some rows" unfolding d' using rolled_back_table [OF t1] Cons.prems(3) by simp
    with r d' up 2 show ?thesis by (intro exI [of _ 0]) (simp add: run_outcome_def recorded_def)
  qed
qed

lemma pending_after:
  assumes "distinct (map md_Filename files)" and "ps = filterPendingMigrations files rows"
  shows "filterPendingMigrations files (rows @ recorded now (take k ps)) = drop k ps"
proof -
  let ?new = "\<lambda>f. md_Filename f \<notin> md_Filename ` set (take k ps)"
  have d: "distinct (map md_Filename ps)"
    unfolding assms(2) filterPendingMigrations_def
    using assms(1) by (simp add: distinct_map inj_on_def)
  have "fst ` set (recorded now (take k ps)) = md_Filename ` set (take k ps)" by (simp add: recorded_def image_image)
  then have "filterPendingMigrations files (rows @ recorded now (take k ps)) =
      sort_key md_Filename (filter ?new (filter (\<lambda>f. md_Filename f \<notin> fst ` set rows) files))"
    by (simp add: filterPendingMigrations_def image_Un conj_commute)
  also have "\<dots> = filter ?new ps" by (simp only: filter_sort assms(2) [unfolded filterPendingMigrations_def])
  also have "filter ?new ps = filter ?new (take k ps) @ filter ?new (drop k ps)"
    by (metis append_take_drop_id filter_append)
  also have "filter ?new (take k ps) = []" by (auto simp: filter_empty_conv)
  also have "filter ?new (drop k ps) = drop k ps"
  proof (rule filter_True, intro ballI)
    fix f
    assume "f \<in> set (drop k ps)"
    moreover have "set (map md_Filename (take k ps)) \<inter> set (map md_Filename (drop k ps)) = {}"
      using d by (metis append_take_drop_id distinct_append map_append)
    ultimately show "?new f" by auto
  qed
  finally show ?thesis by simp
qed

text \<open>
  C27. Every script once and in order. Let the files of the directory have different names, the first script create the table
  of migrations and no script or rollback touch it. Then a run executes the pending scripts in the order of their
  names, each on what the ones before left, and records each right after it succeeded, up to the first one that
  fails: that one is not recorded, its rollback is run, nothing after it is executed, and the run answers an error. If
  none fails, all are executed and recorded and the run succeeds. What is pending afterwards is the rest, so a run that
  failed is taken up where it failed, and after a run that succeeded another one changes nothing.
\<close>

theorem migrations_run_once_in_order:
  assumes run: "RunMigrations Execute S dir now d = (r, d')"
    and init: "GetMigrationInitSql S dir = Inr sql" "init_creates_table Execute sql"
    and files: "GetUpMigrations S dir = Inr files" "distinct (map md_Filename files)"
    and quiet: "\<forall>m \<in> set files. leaves_table Execute (md_SQL m) \<and>
      (\<forall>rb. GetRollbackMigration S dir (md_Filename m) = Inr rb \<longrightarrow> leaves_table Execute (md_SQL rb))"
    and rows: "rows = (case mg_migration d of None \<Rightarrow> [] | Some rows \<Rightarrow> rows)"
    and pending: "pending = filterPendingMigrations files rows"
  shows "\<exists>k d1. run_scripts Execute now (take k pending) (d\<lparr>mg_migration := Some rows\<rparr>) = Some d1 \<and>
    (r = Ok () \<and> k = length pending \<and> d' = d1 \<or>
     is_Err r \<and> k < length pending \<and>
       (\<exists>e d2. executeSQLStatement Execute (md_SQL (pending ! k)) d1 = (Err e, d2) \<and>
          d' = rolled_back Execute S dir (pending ! k) d2)) \<and>
    mg_migration d' = Some (rows @ map (\<lambda>m. (md_Filename m, now)) (take k pending)) \<and> sorted (map md_Filename pending) \<and>
    filterPendingMigrations files (rows @ map (\<lambda>m. (md_Filename m, now)) (take k pending)) = drop k pending \<and>
    (r = Ok () \<longrightarrow> (\<forall>now'. RunMigrations Execute S dir now' d' = (Ok (), d')))"
proof -
  have ensure: "ensureMigrationTable Execute S dir x =
      (Ok (), x\<lparr>mg_migration := Some (case mg_migration x of None \<Rightarrow> [] | Some rows \<Rightarrow> rows)\<rparr>)" for x
    using init by (simp add: ensureMigrationTable_def executeSQLStatement_def init_creates_table_def wrap_def)
  have runs: "RunMigrations Execute S dir t x =
      (let rs = (case mg_migration x of None \<Rightarrow> [] | Some rows \<Rightarrow> rows) in
       for_each (filterPendingMigrations files rs) (executeSingleMigration Execute S dir t) (x\<lparr>mg_migration := Some rs\<rparr>))" for t x
    by (simp add: RunMigrations_def loadPendingMigrations_def GetMigrations_def files(1) ensure bind_def wrap_def gets_def ret_def Let_def)
  let ?d = "d\<lparr>mg_migration := Some rows\<rparr>"
  have sub: "set pending \<subseteq> set files" "\<forall>m \<in> set pending. md_Filename m \<notin> fst ` set rows"
    by (auto simp: pending filterPendingMigrations_def)
  with quiet have q: "\<forall>m \<in> set pending. leaves_table Execute (md_SQL m) \<and>
      (\<forall>rb. GetRollbackMigration S dir (md_Filename m) = Inr rb \<longrightarrow> leaves_table Execute (md_SQL rb))" by blast
  have dist: "distinct (map md_Filename pending)"
    using files(2) by (simp add: pending filterPendingMigrations_def distinct_map inj_on_def)
  have "for_each pending (executeSingleMigration Execute S dir now) ?d = (r, d')"
    using run unfolding runs rows [symmetric] pending [symmetric] by (simp add: Let_def rows [symmetric] pending [symmetric])
  from all_migrations [OF this _ q dist sub(2)] obtain k where k: "k \<le> length pending"
    "run_outcome Execute S dir now pending ?d k r d'" "mg_migration d' = Some (rows @ recorded now (take k pending))" by auto
  note rest = pending_after [OF files(2) pending, of now k]
  have again: "RunMigrations Execute S dir now' d' = (Ok (), d')" if "r = Ok ()" for now'
  proof -
    from that k(2) have "k = length pending" by (auto simp: run_outcome_def)
    with rest have "filterPendingMigrations files (rows @ recorded now (take k pending)) = []" by simp
    then show ?thesis using k(3) by (simp add: runs Let_def ret_def)
  qed
  have "sorted (map md_Filename pending)" by (simp add: pending filterPendingMigrations_def)
  with k(2,3) rest again show ?thesis
    unfolding run_outcome_def recorded_def by blast
qed

text \<open>Three scripts, the last of which fails.\<close>

definition demo_scripts :: script_source where
  "demo_scripts = \<lparr>
     ss_Embedded = [(''0001_schema.up.sql'', False), (''0000_init.up.sql'', False), (''0002_fk.up.sql'', False), (''0002_fk.down.sql'', False)],
     ss_EmbeddedFile = (\<lambda>f. Inr (map_of [(''0000_init.up.sql'', ''C''), (''0001_schema.up.sql'', ''S''), (''0002_fk.up.sql'', ''X''), (''0002_fk.down.sql'', ''D'')] f)),
     ss_ReadDir = (\<lambda>_. Inr None), ss_ReadFile = (\<lambda>_. Inr None), ss_Clean = id, ss_IsAbs = (\<lambda>_. False),
     ss_Join = (\<lambda>a b. a @ ''/'' @ b), ss_Rel = (\<lambda>_ b. Inr b), ss_Caller = None, ss_HasGoMod = (\<lambda>_. False), ss_Path = concat\<rparr>"

definition demo_engine :: "string list sql_engine" where
  "demo_engine sql d =
     (if sql = ''C'' then (Inr [Some []], d\<lparr>mg_migration := Some (case mg_migration d of None \<Rightarrow> [] | Some rows \<Rightarrow> rows)\<rparr>)
      else if sql = ''X'' then (Inr [Some ''syntax error''], d)
      else (Inr [Some []], d\<lparr>mg_data := mg_data d @ [sql]\<rparr>))"

definition demo_files :: "MigrationData list" where
  "demo_files = [\<lparr>md_Filename = ''0001_schema.up.sql'', md_SQL = ''S''\<rparr>, \<lparr>md_Filename = ''0000_init.up.sql'', md_SQL = ''C''\<rparr>,
     \<lparr>md_Filename = ''0002_fk.up.sql'', md_SQL = ''X''\<rparr>]"

lemma demo_leaves_table: "leaves_table demo_engine sql"
  by (auto simp: leaves_table_def demo_engine_def)

lemma demo_sources:
  "GetMigrationInitSql demo_scripts DefaultMigrationsDir = Inr ''C''" "GetUpMigrations demo_scripts DefaultMigrationsDir = Inr demo_files"
  by (simp_all add: GetMigrationInitSql_def GetUpMigrations_def readMigrationFile_def readMigrationDir_def shouldUseEmbeddedMigrations_def
      demo_scripts_def DefaultMigrationsDir_def migrationsInitFilename_def demo_files_def HasSuffix_def)

definition demo_pending :: "MigrationData list" where
  "demo_pending = [\<lparr>md_Filename = ''0000_init.up.sql'', md_SQL = ''C''\<rparr>, \<lparr>md_Filename = ''0001_schema.up.sql'', md_SQL = ''S''\<rparr>,
     \<lparr>md_Filename = ''0002_fk.up.sql'', md_SQL = ''X''\<rparr>]"

lemma demo_pending: "filterPendingMigrations demo_files [] = demo_pending"
  by (simp add: filterPendingMigrations_def demo_files_def demo_pending_def)

lemma demo_rollback: "rolled_back demo_engine demo_scripts DefaultMigrationsDir \<lparr>md_Filename = ''0002_fk.up.sql'', md_SQL = ''X''\<rparr> d =
    d\<lparr>mg_data := mg_data d @ [''D'']\<rparr>"
  by (simp add: rolled_back_def GetRollbackMigration_def readMigrationFile_def shouldUseEmbeddedMigrations_def
      demo_scripts_def DefaultMigrationsDir_def demo_engine_def executeSQLStatement_def)

theorem migrations_run_once_in_order_witness:
  "\<exists>r d'. RunMigrations demo_engine demo_scripts DefaultMigrationsDir 7 \<lparr>mg_data = [], mg_migration = None\<rparr> = (r, d') \<and>
     is_Err r \<and> mg_migration d' = Some [(''0000_init.up.sql'', 7), (''0001_schema.up.sql'', 7)] \<and>
     mg_data d' = [''S'', ''D'']"
proof -
  obtain r d' where run: "RunMigrations demo_engine demo_scripts DefaultMigrationsDir 7 \<lparr>mg_data = [], mg_migration = None\<rparr> = (r, d')"
    by fastforce
  have init: "init_creates_table demo_engine ''C''" by (simp add: init_creates_table_def demo_engine_def)
  have "distinct (map md_Filename demo_files)" by (simp add: demo_files_def)
  from migrations_run_once_in_order [OF run demo_sources(1) init demo_sources(2) this _ refl refl] demo_leaves_table
  obtain k d1 where k: "run_scripts demo_engine 7 (take k demo_pending) \<lparr>mg_data = [], mg_migration = Some []\<rparr> = Some d1"
    "r = Ok () \<and> k = length demo_pending \<and> d' = d1 \<or> is_Err r \<and> k < length demo_pending \<and>
       (\<exists>e d2. executeSQLStatement demo_engine (md_SQL (demo_pending ! k)) d1 = (Err e, d2) \<and>
          d' = rolled_back demo_engine demo_scripts DefaultMigrationsDir (demo_pending ! k) d2)"
    by (auto simp: demo_pending)
  have "k = 0 \<or> k = 1 \<or> k = 2 \<or> k \<ge> 3" by arith
  with k have two: "k = 2"
    by (auto simp: demo_pending_def demo_engine_def executeSQLStatement_def numeral_eq_Suc)
  with k run show ?thesis
    by (auto simp: demo_pending_def demo_engine_def executeSQLStatement_def numeral_eq_Suc record_run_def demo_rollback)
qed

end
