(* ===== verification/Zen_Worker.thy ===== *)
theory Zen_Worker
  imports Zen_Prelude "HOL-Library.Multiset"
begin

text \<open>
  The worker of the client library (\<^verbatim>\<open>pkg/zenclient/grpc.go\<close>): it opens a job stream, subscribes to job types and answers
  every job that arrives with the outcome of the user's function, which is a parameter, as are the encoding of
  variables and whether the stream accepts a message. The goroutine started for a job is one call of \<open>answer_job\<close>.
\<close>

record 'v WorkerError =
  we_Err :: "string option"
  we_ErrorCode :: string
  we_Variables :: 'v

record WaitingJob =
  wj_Key :: int
  wj_Type :: string

datatype subscription = SUBSCRIBE | UNSUBSCRIBE

datatype stream_request =
    Request_Complete int "string option"
  | Request_Fail int string string "string option"
  | Request_Subscription string subscription

record 'v worker_env =
  wk_f :: "WaitingJob \<Rightarrow> 'v \<times> 'v WorkerError option"
  wk_Marshal :: "'v \<Rightarrow> error + string"
  wk_Send :: "stream_request list \<Rightarrow> stream_request \<Rightarrow> error option"
  wk_JobStream :: "error option"

text \<open>The text of an error; it is complete also without a cause.\<close>

definition worker_error_text :: "('v \<Rightarrow> string) \<Rightarrow> 'v WorkerError \<Rightarrow> string" where
  "worker_error_text show_v e =
     (case we_Err e of
        None \<Rightarrow> ''error with code:'' @ we_ErrorCode e @ '', variables:'' @ show_v (we_Variables e)
      | Some err \<Rightarrow> ''error :'' @ err @ '', with code:'' @ we_ErrorCode e @ '', variables:'' @ show_v (we_Variables e))"

section \<open>Subscriptions\<close>

definition stream_send :: "'v worker_env \<Rightarrow> stream_request \<Rightarrow> (stream_request list, unit) eng" where
  "stream_send W req sent =
     (case wk_Send W sent req of Some e \<Rightarrow> (Err e, sent) | None \<Rightarrow> (Ok (), sent @ [req]))"

definition AddJobSubscription :: "'v worker_env \<Rightarrow> string \<Rightarrow> (stream_request list, unit) eng" where
  "AddJobSubscription W jobType =
     wrap (Wrapf ''failed to add worker subscription: %w'') (stream_send W (Request_Subscription jobType SUBSCRIBE))"

definition RemoveJobSubscription :: "'v worker_env \<Rightarrow> string \<Rightarrow> (stream_request list, unit) eng" where
  "RemoveJobSubscription W jobType =
     wrap (Wrapf ''failed to add worker subscription: %w'') (stream_send W (Request_Subscription jobType UNSUBSCRIBE))"

definition RegisterWorker :: "'v worker_env \<Rightarrow> string list \<Rightarrow> (stream_request list, unit) eng" where
  "RegisterWorker W jobTypes =
     (case wk_JobStream W of
        Some e \<Rightarrow> throw (Wrapf ''failed to open stream: %w'' e)
      | None \<Rightarrow> for_each jobTypes (\<lambda>jobType.
          wrap (Wrapf ''failed to subscribe worker to job type %s: %w'') (AddJobSubscription W jobType)))"

section \<open>Jobs\<close>

text \<open>The answer to a job. \<^verbatim>\<open>json.Marshal\<close> returns no bytes when it fails, which is logged only.\<close>

definition marshalled :: "'v worker_env \<Rightarrow> 'v \<Rightarrow> string option" where
  "marshalled W v = (case wk_Marshal W v of Inl _ \<Rightarrow> None | Inr b \<Rightarrow> Some b)"

definition job_answer :: "'v worker_env \<Rightarrow> WaitingJob \<Rightarrow> stream_request res" where
  "job_answer W job =
     (case wk_f W job of
        (vars, Some workerErr) \<Rightarrow>
          (case we_Err workerErr of
             None \<Rightarrow> Panic ''nil pointer dereference''
           | Some err \<Rightarrow> Ok (Request_Fail (wj_Key job) (''failed to complete job: '' @ err) (we_ErrorCode workerErr)
                             (marshalled W (we_Variables workerErr))))
      | (vars, None) \<Rightarrow> Ok (Request_Complete (wj_Key job) (marshalled W vars)))"

text \<open>A send that fails is logged only.\<close>

definition answer_job :: "'v worker_env \<Rightarrow> WaitingJob \<Rightarrow> (stream_request list, unit) eng" where
  "answer_job W job =
     (case job_answer W job of
        Ok req \<Rightarrow> bind (attempt (stream_send W req)) (\<lambda>_. ret ())
      | Panic msg \<Rightarrow> panic msg
      | _ \<Rightarrow> block)"

datatype stream_message = EOF | StreamError string | JobError string | Job WaitingJob

text \<open>The loop of \<^verbatim>\<open>performWork\<close> over what the stream delivers: the jobs for which a goroutine is started.\<close>

fun performWork :: "stream_message list \<Rightarrow> WaitingJob list" where
  "performWork [] = []"
| "performWork (EOF # ms) = []"
| "performWork (StreamError _ # ms) = []"
| "performWork (JobError _ # ms) = performWork ms"
| "performWork (Job job # ms) = job # performWork ms"

text \<open>The goroutines run in any order; each answers its job.\<close>

definition worker_run :: "'v worker_env \<Rightarrow> WaitingJob list \<Rightarrow> (stream_request list, unit) eng" where
  "worker_run W order = for_each order (answer_job W)"

section \<open>Every job is answered once\<close>

fun answered_key :: "stream_request \<Rightarrow> int option" where
  "answered_key (Request_Complete k _) = Some k"
| "answered_key (Request_Fail k _ _ _) = Some k"
| "answered_key (Request_Subscription _ _) = None"

lemma answer_job_sends:
  assumes "\<forall>sent req. wk_Send W sent req = None" and "\<forall>v e. wk_f W job = (v, Some e) \<longrightarrow> we_Err e \<noteq> None"
  shows "\<exists>req. job_answer W job = Ok req \<and> answered_key req = Some (wj_Key job) \<and>
    ((\<exists>k b. req = Request_Complete k b) \<longleftrightarrow> snd (wk_f W job) = None) \<and> answer_job W job sent = (Ok (), sent @ [req])"
  using assms by (cases "wk_f W job") (auto simp: job_answer_def answer_job_def stream_send_def bind_def attempt_def ret_def split: option.split)

lemma worker_run_sends:
  assumes "\<forall>sent req. wk_Send W sent req = None" and "\<forall>job \<in> set order. \<forall>v e. wk_f W job = (v, Some e) \<longrightarrow> we_Err e \<noteq> None"
  shows "\<exists>answers. worker_run W order sent = (Ok (), sent @ answers) \<and> list_all2 (\<lambda>job req. job_answer W job = Ok req \<and>
    answered_key req = Some (wj_Key job) \<and> ((\<exists>k b. req = Request_Complete k b) \<longleftrightarrow> snd (wk_f W job) = None)) order answers"
  using assms(2)
proof (induction order arbitrary: sent)
  case Nil
  then show ?case by (simp add: worker_run_def ret_def)
next
  case (Cons job order)
  from answer_job_sends [OF assms(1), of job sent] Cons.prems obtain req where req: "job_answer W job = Ok req"
    "answered_key req = Some (wj_Key job)" "(\<exists>k b. req = Request_Complete k b) \<longleftrightarrow> snd (wk_f W job) = None"
    "answer_job W job sent = (Ok (), sent @ [req])" by auto
  from Cons.IH [of "sent @ [req]"] Cons.prems obtain answers where
    "worker_run W order (sent @ [req]) = (Ok (), (sent @ [req]) @ answers)" "list_all2 (\<lambda>job req. job_answer W job = Ok req \<and>
      answered_key req = Some (wj_Key job) \<and> ((\<exists>k b. req = Request_Complete k b) \<longleftrightarrow> snd (wk_f W job) = None)) order answers"
    by auto
  with req show ?case by (intro exI [of _ "req # answers"]) (simp add: worker_run_def bind_def)
qed

text \<open>
  C99. A worker whose function gives every error a cause, on a stream that accepts its messages one at a time (its
  goroutines do not send at the same moment, which the code leaves to chance), answers every job it receives
  up to the end of the stream or its first error exactly once and under the key of the job, whatever the order of its
  goroutines, and sends nothing else: it completes the job if the function succeeded and fails it otherwise. A
  message of the stream that carries an error is skipped.
\<close>

theorem worker_answers_every_job:
  assumes "\<forall>sent req. wk_Send W sent req = None" and "\<forall>job v e. wk_f W job = (v, Some e) \<longrightarrow> we_Err e \<noteq> None"
    and "mset order = mset (performWork ms)"
  shows "\<exists>answers. worker_run W order sent = (Ok (), sent @ answers) \<and>
    mset (map answered_key answers) = mset (map (Some \<circ> wj_Key) (performWork ms)) \<and>
    (\<forall>i < length order. (\<exists>k b. answers ! i = Request_Complete k b) \<longleftrightarrow> snd (wk_f W (order ! i)) = None)"
proof -
  from worker_run_sends [OF assms(1), of order sent] assms(2) obtain answers where a: "worker_run W order sent = (Ok (), sent @ answers)"
    and l: "list_all2 (\<lambda>job req. job_answer W job = Ok req \<and> answered_key req = Some (wj_Key job) \<and>
      ((\<exists>k b. req = Request_Complete k b) \<longleftrightarrow> snd (wk_f W job) = None)) order answers" by blast
  have "map answered_key answers = map (Some \<circ> wj_Key) order"
    using l by (auto simp: list_all2_conv_all_nth intro!: nth_equalityI)
  then have "mset (map answered_key answers) = mset (map (Some \<circ> wj_Key) (performWork ms))"
    using assms(3) by (metis mset_map)
  with a l show ?thesis by (auto simp: list_all2_conv_all_nth)
qed

definition demo_worker :: "nat worker_env" where
  "demo_worker = \<lparr>wk_f = (\<lambda>job. if wj_Key job = 2 then (0, Some \<lparr>we_Err = Some ''boom'', we_ErrorCode = ''E'', we_Variables = 0\<rparr>) else (1, None)),
     wk_Marshal = (\<lambda>v. Inr (if v = 0 then ''0'' else ''1'')), wk_Send = (\<lambda>_ _. None), wk_JobStream = None\<rparr>"

definition demo_stream :: "stream_message list" where
  "demo_stream = [Job \<lparr>wj_Key = 1, wj_Type = ''a''\<rparr>, JobError ''lost'', Job \<lparr>wj_Key = 2, wj_Type = ''a''\<rparr>, EOF,
     Job \<lparr>wj_Key = 3, wj_Type = ''a''\<rparr>]"

theorem worker_answers_every_job_witness:
  "\<exists>answers. worker_run demo_worker (rev (performWork demo_stream)) [] = (Ok (), answers) \<and>
     mset (map answered_key answers) = {#Some 1, Some 2#} \<and> (\<exists>k b. answers ! 1 = Request_Complete k b)"
proof -
  have s: "\<forall>sent req. wk_Send demo_worker sent req = None" by (simp add: demo_worker_def)
  have e: "\<forall>job v e. wk_f demo_worker job = (v, Some e) \<longrightarrow> we_Err e \<noteq> None" by (auto simp: demo_worker_def)
  have o: "mset (rev (performWork demo_stream)) = mset (performWork demo_stream)" by simp
  from worker_answers_every_job [OF s e o, of "[]"] show ?thesis
    by (auto simp: demo_stream_def demo_worker_def)
qed

text \<open>
  An error without a cause, of which \<^verbatim>\<open>WorkerError.Error\<close> makes a text, makes the worker panic: the answer takes the text of the
  cause itself.
\<close>

theorem worker_error_without_cause_panics:
  assumes "wk_f W job = (v, Some e)" and "we_Err e = None"
  shows "answer_job W job sent = (Panic ''nil pointer dereference'', sent)"
  using assms by (simp add: answer_job_def job_answer_def panic_def)

end
