(* ===== verification/Spec2Isabelle.thy ===== *)
theory Spec2Isabelle
  imports Engine_Calls Engine_Progress Engine_Deploy Dmn_Engine Zenflake Cluster_Fsm Job_Client Ttl
    Sql_Refinement Sql_Cache Sql_History Sql_Types Zen_Members Zen_Messages Rest_Api Grpc_Api Cluster_Boot
    Script_Pool Partition_Node Migrations Zen_Worker
begin

text \<open>
  ZenBPM executes BPMN 2.0 processes on a cluster. This development models the process engine of
  \<^verbatim>\<open>src/pkg/bpmn\<close> over the in-memory implementation of its storage interface
  (\<^verbatim>\<open>src/pkg/storage/inmemory\<close>, the default of \<^verbatim>\<open>NewEngine\<close>), the decision engine of \<^verbatim>\<open>src/pkg/dmn\<close>, the SQL
  persistence of a partition (\<^verbatim>\<open>src/internal/sql\<close>, \<^verbatim>\<open>partition_persistence.go\<close>), and the cluster around them
  (\<^verbatim>\<open>src/internal/cluster\<close>): the replicated state, the work of leader and members, the distribution of jobs, the
  routing of requests between nodes and their handlers; and the REST and gRPC interfaces on top
  (\<^verbatim>\<open>src/internal/rest\<close>, \<^verbatim>\<open>src/internal/grpc\<close>); the settings, migrations, partition nodes, script runtimes and the client's
  worker. It proves what makes them correct.

  \<^bold>\<open>The program.\<close> A process definition is a graph of flow nodes and sequence flows. A process instance
  holds variables and a state; its execution is carried by tokens, each of which is at one element. The
  main loop \<^verbatim>\<open>RunProcessInstance\<close> takes one running token at a time, dispatches on the kind of its element,
  and collects all writes of the step in a batch, which is flushed before the next token is taken. What
  has to wait leaves the loop as a job, a timer or a message subscription; the public operations
  (complete or fail a job, publish a message, trigger a timer, resolve an incident, cancel or modify an
  instance) lock the instance, write, and run it on. Business rule tasks call the decision engine. Every
  partition of the cluster has a store and, on its leader, an engine; a key names its partition, a
  correlation key is hashed to one. Workers subscribe to job types at the job server of the leader. A request
  enters at any node, which finds the node that has to serve it: the leader of the partition of a key for
  what changes an instance, a follower for what reads one, every partition for lists and deployments.

  \<^bold>\<open>Theories and code.\<close>
  \<^item> \<^verbatim>\<open>Zen_Prelude\<close>: results (a value, an error, a panic, a blocked goroutine, or fuel used up), the state
    monad the operations are written in, calculi for frames (\<open>keeps\<close>) and invariants (\<open>pres\<close>), tables with
    the interface \<open>row_store\<close>, the string functions of Go that the code uses.
  \<^item> \<^verbatim>\<open>Bpmn_Model\<close>: \<^verbatim>\<open>model/bpmn20\<close>. Elements as records and datatypes, searches by id, decoding of events,
    resolution of references. A resolved reference is the id of the element; \<^verbatim>\<open>GetTargetRef\<close> looks it up.
  \<^item> \<^verbatim>\<open>Runtime_Types\<close>: \<^verbatim>\<open>runtime/types.go\<close>, \<^verbatim>\<open>runtime/varholder.go\<close>. Tokens, instances, jobs, timers,
    subscriptions, incidents, history rows; variable scopes and mappings.
  \<^item> \<^verbatim>\<open>In_Memory\<close>: \<^verbatim>\<open>in_memory_repository.go\<close>. A Go map is an association list in the order of iteration, so
    that claims that hold for every order hold for every list. Process instances are pointers: the table
    holds indices into a heap.
  \<^item> \<^verbatim>\<open>Running_Instances\<close>: \<^verbatim>\<open>running_instances_cache.go\<close>, twice: as the engine uses it (interface
    \<open>instance_locks\<close>) and as a step relation of any number of goroutines.
  \<^item> \<^verbatim>\<open>Timer_Manager\<close>: \<^verbatim>\<open>timer_manager.go\<close>.
  \<^item> \<^verbatim>\<open>Engine_State\<close>: \<^verbatim>\<open>engine_batch.go\<close>, \<^verbatim>\<open>task_handler.go\<close>, \<^verbatim>\<open>expressions.go\<close>, \<^verbatim>\<open>key_gen.go\<close>; the state of the
    engine as a record and the parameters (key generator, clock, FEEL interpreter, duration parser,
    decision engine) as the record \<open>env\<close>.
  \<^item> \<^verbatim>\<open>Engine_Flow\<close>: \<^verbatim>\<open>conditions.go\<close>, \<^verbatim>\<open>links.go\<close>, gateways, transitions, catch and end events of \<^verbatim>\<open>engine.go\<close>,
    \<^verbatim>\<open>events.go\<close> and \<^verbatim>\<open>timer.go\<close>.
  \<^item> \<^verbatim>\<open>Engine_Cancel\<close>: cancellation and token surgery of \<^verbatim>\<open>engine.go\<close>, \<^verbatim>\<open>sub_process.go\<close>, \<^verbatim>\<open>engine_api.go\<close>.
  \<^item> \<^verbatim>\<open>Engine_Jobs\<close>: \<^verbatim>\<open>jobs.go\<close>, \<^verbatim>\<open>usertasks.go\<close>, \<^verbatim>\<open>jobs_api.go\<close>.
  \<^item> \<^verbatim>\<open>Engine_SubProcess\<close>: \<^verbatim>\<open>sub_process.go\<close>, creation of instances, business rule tasks.
  \<^item> \<^verbatim>\<open>Engine_Events\<close>: \<^verbatim>\<open>events.go\<close>, \<^verbatim>\<open>timer.go\<close>.
  \<^item> \<^verbatim>\<open>Engine_Run\<close>: \<^verbatim>\<open>processFlowNode\<close>, end events, \<^verbatim>\<open>RunProcessInstance\<close>.
  \<^item> \<^verbatim>\<open>Engine_Api\<close>: \<^verbatim>\<open>engine_api.go\<close>, \<^verbatim>\<open>events_api.go\<close>, \<^verbatim>\<open>timer_api.go\<close>, \<^verbatim>\<open>incident_api.go\<close>, completion of jobs,
    \<^verbatim>\<open>xml_loader.go\<close>.
  \<^item> \<^verbatim>\<open>Engine_Invariants\<close>, \<^verbatim>\<open>Engine_Calls\<close>: the invariant of the engine state, kept by every public
    operation; sequences of calls from a new engine.
  \<^item> \<^verbatim>\<open>Engine_Triples\<close>, \<^verbatim>\<open>Engine_Progress\<close>: a program logic for the handlers (the interfaces \<open>heap_invariant\<close>
    and \<open>running_instance\<close>), the token game that a process definition allows as an abstract specification,
    the refinement of every pass of the main loop to a move of the game, and the end of the loop on
    processes without a cycle.
  \<^item> \<^verbatim>\<open>Engine_Deploy\<close>: version numbers that deployment assigns.
  \<^item> \<^verbatim>\<open>Dmn_Model\<close>, \<^verbatim>\<open>Dmn_Engine\<close>: \<^verbatim>\<open>pkg/dmn\<close>. Decision models, evaluation with hit policies, requirements
    between decisions (with fuel), deployment; a specification of decision tables over matching rules.
  \<^item> \<^verbatim>\<open>Zenflake\<close>: \<^verbatim>\<open>pkg/zenflake\<close> on 64-bit words.
  \<^item> \<^verbatim>\<open>Cluster_State\<close>, \<^verbatim>\<open>Cluster_Fsm\<close>: \<^verbatim>\<open>internal/cluster/state\<close>, \<^verbatim>\<open>store/fsm.go\<close>, the commands written by \<^verbatim>\<open>store.go\<close>,
    the leader operations of \<^verbatim>\<open>controller.go\<close>.
  \<^item> \<^verbatim>\<open>Cluster_Boot\<close>: how nodes come together, \<^verbatim>\<open>bootstrap.go\<close>, \<^verbatim>\<open>join.go\<close> and the membership operations of
    \<^verbatim>\<open>store.go\<close> and \<^verbatim>\<open>store_helper.go\<close>; raft is the record \<open>raft_lib\<close>.
  \<^item> \<^verbatim>\<open>Job_Server\<close>: \<^verbatim>\<open>internal/cluster/jobmanager/server.go\<close>. \<^verbatim>\<open>Job_Client\<close>: \<^verbatim>\<open>client.go\<close> and \<^verbatim>\<open>manager.go\<close> of the same
    package and \<^verbatim>\<open>client/client_manager.go\<close>; streams, channels and contexts are numbers, the network is the
    record \<open>net\<close>.
  \<^item> \<^verbatim>\<open>Ttl\<close>: \<^verbatim>\<open>internal/cluster/types/ttl.go\<close> on 64-bit words, with the rounding of \<^verbatim>\<open>float64\<close>.
  \<^item> \<^verbatim>\<open>Sql_Queries\<close>, \<^verbatim>\<open>Sql_Pages\<close>: \<^verbatim>\<open>internal/sql/*.sql.go\<close>. A row type is a record, a table a list of rows keyed by the
    primary key, a query the function its SQL text means; \<open>sql_stmt\<close> are the statements that write, \<open>Sql_Pages\<close>
    has the filtered, sorted and counted pages and the statistics, with the order of SQL values and \<^verbatim>\<open>LIKE\<close>.
  \<^item> \<^verbatim>\<open>Sql_Persistence\<close>, \<^verbatim>\<open>Sql_Batches\<close>: \<^verbatim>\<open>internal/cluster/partition/partition_persistence.go\<close>. \<open>DB\<close> with its caches,
    conversions between rows and runtime data, readers, writers over either a database or a batch (interface
    \<open>querier\<close>), transactions, flush, the clean-up of ended instances.
  \<^item> \<^verbatim>\<open>Sql_Integrity\<close>, \<^verbatim>\<open>Sql_Types\<close>, \<^verbatim>\<open>Sql_Cache\<close>, \<^verbatim>\<open>Sql_History\<close>, \<^verbatim>\<open>Sql_Refinement\<close>: keys of
    the tables and rows that refer to others (interface \<open>child_table\<close>); the columns that hold coded states
    stay in range for every writer (interface \<open>typed_querier\<close>); caches do not change what is read; marks of the history and what the
    clean-up deletes; the flush of the SQL persistence refines the flush of \<^verbatim>\<open>In_Memory\<close>.
  \<^item> \<^verbatim>\<open>Zen_Server\<close>: \<^verbatim>\<open>internal/cluster/server/server.go\<close>, \<^verbatim>\<open>zenerr/errors.go\<close> and the look-ups of \<^verbatim>\<open>controller.go\<close>. Errors
    with codes, the partitions a node runs, one handler per request as an operation on the node.
  \<^item> \<^verbatim>\<open>Zen_Node\<close>: \<^verbatim>\<open>internal/cluster/node.go\<close>. The cluster is a map from addresses to nodes; an operation picks a
    node, calls its handler as one step and translates the outcome.
  \<^item> \<^verbatim>\<open>Zen_Routing\<close>, \<^verbatim>\<open>Zen_Fanout\<close>: where the operations on a key go and what they leave alone, and
    what the operations that ask all partitions collect, whatever the order of their calls (interface
    \<open>partition_reader\<close>).
  \<^item> \<^verbatim>\<open>Zen_Members\<close>: the member operations of \<^verbatim>\<open>controller.go\<close>. \<^verbatim>\<open>Zen_Messages\<close>: the pointers from message name and
    correlation key to a subscription in another partition, saved and followed.
  \<^item> \<^verbatim>\<open>Rest_Api\<close>: the handlers of \<^verbatim>\<open>internal/rest/server.go\<close>. \<^verbatim>\<open>Grpc_Api\<close>: the job stream of \<^verbatim>\<open>internal/grpc/server.go\<close>.
  \<^item> \<^verbatim>\<open>Node_Config\<close>: \<^verbatim>\<open>internal/config\<close>, \<^verbatim>\<open>partition/config.go\<close>, \<^verbatim>\<open>network/network.go\<close>. The checks of the settings, the default
    settings of a partition, and the header bytes of the partitions on one port. \<^verbatim>\<open>Partition_Node\<close>: \<^verbatim>\<open>partition/partition.go\<close>,
    starting, observing and stopping a node of a partition; rqlite is the record \<open>rq_lib\<close>.
  \<^item> \<^verbatim>\<open>Migrations\<close>: \<^verbatim>\<open>partition/migrations.go\<close>, \<^verbatim>\<open>internal/sql/migrations.go\<close>, over a file system and an executor of scripts.
  \<^item> \<^verbatim>\<open>Script_Pool\<close>: \<^verbatim>\<open>pkg/script\<close>. The pool of interpreters as a program of any number of goroutines and its cleaner, with
    Go's channel; the calls of the runtimes over the interface \<open>runner_source\<close>.
  \<^item> \<^verbatim>\<open>Zen_Worker\<close>: \<^verbatim>\<open>pkg/zenclient/grpc.go\<close>, the worker of the client library.
  \<^item> \<^verbatim>\<open>Demo_Process\<close>: a small process and engine states on which the properties are instantiated.

  \<^bold>\<open>Bounds.\<close> The main loop of a process with a cycle need not end: \<open>run_loop\<close> has fuel \<open>N\<close> for its passes
  and answers \<open>NoFuel\<close> when it is used up; without a cycle the weight of the tokens, computed from the process,
  is enough fuel. The recursion over called instances has fuel \<open>F\<close>;
  \<open>cancelSubProcessInstance_fuel\<close> shows that more fuel than there are stored instances is enough. The
  recursion over required decisions has fuel; more than the rank of a decision is enough when there is a
  rank, and no fuel is enough on a cycle. The search for a free client of the job server has as much fuel as
  there are clients, and always returns. All other functions are total. Keys and times are integers, except
  in \<^verbatim>\<open>Zenflake\<close>, \<^verbatim>\<open>Cluster_State\<close> and \<^verbatim>\<open>Ttl\<close>, where the width matters; the 32-bit pages and counts of
  the interfaces wrap around by \<open>int32\<close>.

  \<^bold>\<open>Not modelled.\<close> Tracing, metrics, logging, profiling; raft and rqlite, and with them the replication of
  a write to the copies of a partition and the election of its leader (a leader is a field of the state of
  each node); the network transport, the HTTP router with its decoding and validation of requests, generated
  code, the XML, JSON and FEEL libraries and the JavaScript interpreter (parameters, where their result
  matters); opening and closing nodes and stores, reading the configuration, the REST client. Starting and stopping
  a node of a partition and migrations are modelled on their own and are parameters of \<^verbatim>\<open>Zen_Members\<close>. The engine
  runs over \<^verbatim>\<open>In_Memory\<close>: that its flush and the flush of the SQL persistence agree is \<^verbatim>\<open>Sql_Refinement\<close>, and the
  cluster theories keep both the engine and the copy that readers see. Of \<^verbatim>\<open>context\<close> cancellation there is
  what changes a result (\<^verbatim>\<open>tryLockInstance\<close>, the members' operations, groups of calls). A goroutine started
  after a flush is recorded in the state, not run inside the step that starts it.
\<close>

end
